(* ===== verification/Prelude.thy ===== *)
theory Prelude imports Main "HOL-Library.Word" "HOL-Library.Monad_Syntax" begin

text \<open>
  What every component shares: the machine integers of the C sources, C memory as a byte list
  whose out-of-range accesses are the value \<^term>\<open>None\<close> (undefined behaviour in C), the
  little-endian layout of multi-byte fields, and the lemmas about them that the proofs of the
  components use.
\<close>

unbundle bit_operations_syntax

section \<open>Machine integers\<close>

type_synonym u8 = "8 word"
type_synonym u16 = "16 word"
type_synonym u32 = "32 word"
type_synonym u64 = "64 word"
type_synonym bytes = "8 word list"

named_theorems mem_defs \<open>definitions of the memory accesses\<close>
named_theorems mem_safe \<open>when a memory access is defined, and what it then returns\<close>

text \<open>
  Sizes, counters and buffer indices are \<^typ>\<open>nat\<close>; where the C type is narrower than the
  arithmetic the conversion is written out with these functions.
\<close>

definition u8n :: "nat \<Rightarrow> nat" where
  "u8n n = n mod 256"

definition u16n :: "nat \<Rightarrow> nat" where
  "u16n n = n mod 65536"

definition u32n :: "nat \<Rightarrow> nat" where
  "u32n n = n mod 4294967296"

lemma u8n_id [simp]: "n < 256 \<Longrightarrow> u8n n = n"
  by (simp add: u8n_def)

lemma u16n_id [simp]: "n < 65536 \<Longrightarrow> u16n n = n"
  by (simp add: u16n_def)

lemma u32n_id [simp]: "n < 4294967296 \<Longrightarrow> u32n n = n"
  by (simp add: u32n_def)

lemma u8n_less [simp]: "u8n n < 256"
  by (simp add: u8n_def)

lemma u16n_less [simp]: "u16n n < 65536"
  by (simp add: u16n_def)

lemma u32n_less [simp]: "u32n n < 4294967296"
  by (simp add: u32n_def)

lemma unat_u8_less [simp]: "unat (x :: u8) < 256"
  using unsigned_less [of x, where 'a = nat] by simp

lemma unat_u16_less [simp]: "unat (x :: u16) < 65536"
  using unsigned_less [of x, where 'a = nat] by simp

text \<open>A property of all bytes follows from the 256 closed instances.\<close>

lemma u8_exhaust:
  assumes "\<forall>n \<in> set [0..<256]. P (word_of_nat n :: u8)"
  shows "P c"
proof -
  have "unat c \<in> set [0..<256]" by simp
  with assms have "P (word_of_nat (unat c))" by blast
  then show ?thesis by simp
qed

section \<open>Memory\<close>

text \<open>
  A C array is a byte list. \<open>rd8\<close> and \<open>wr8\<close> are \<open>p[i]\<close> and \<open>p[i] = v\<close>;
  \<open>rd_range\<close> and \<open>wr_range\<close> are the two sides of \<open>memcpy\<close>. An access outside the
  array is undefined behaviour, the value \<^term>\<open>None\<close>.
\<close>

definition rd8 :: "bytes \<Rightarrow> nat \<Rightarrow> u8 option" where
  [mem_defs]: "rd8 p i = (if i < length p then Some (p ! i) else None)"

definition wr8 :: "bytes \<Rightarrow> nat \<Rightarrow> u8 \<Rightarrow> bytes option" where
  [mem_defs]: "wr8 p i v = (if i < length p then Some (p[i := v]) else None)"

definition rd_range :: "bytes \<Rightarrow> nat \<Rightarrow> nat \<Rightarrow> bytes option" where
  [mem_defs]: "rd_range p i n = (if i + n \<le> length p then Some (take n (drop i p)) else None)"

definition wr_range :: "bytes \<Rightarrow> nat \<Rightarrow> bytes \<Rightarrow> bytes option" where
  [mem_defs]: "wr_range p i vs =
    (if i + length vs \<le> length p
     then Some (take i p @ vs @ drop (i + length vs) p) else None)"

lemma rd8_Some [mem_safe]: "i < length p \<Longrightarrow> rd8 p i = Some (p ! i)"
  by (simp add: rd8_def)

lemma wr8_Some [mem_safe]: "i < length p \<Longrightarrow> wr8 p i v = Some (p[i := v])"
  by (simp add: wr8_def)

lemma rd_range_Some [mem_safe]:
  "i + n \<le> length p \<Longrightarrow> rd_range p i n = Some (take n (drop i p))"
  by (simp add: rd_range_def)

lemma wr_range_Some [mem_safe]:
  "i + length vs \<le> length p \<Longrightarrow>
   wr_range p i vs = Some (take i p @ vs @ drop (i + length vs) p)"
  by (simp add: wr_range_def)

lemma wr8_length: "wr8 p i v = Some q \<Longrightarrow> length q = length p"
  by (auto simp: wr8_def split: if_splits)

lemma wr_range_length: "wr_range p i vs = Some q \<Longrightarrow> length q = length p"
  by (auto simp: wr_range_def split: if_splits)

lemma rd_range_length: "rd_range p i n = Some q \<Longrightarrow> length q = n"
  by (auto simp: rd_range_def split: if_splits)

lemma wr_range_nth:
  assumes "wr_range p i vs = Some q" and "k < length p"
  shows "q ! k = (if i \<le> k \<and> k < i + length vs then vs ! (k - i) else p ! k)"
  using assms by (auto simp: wr_range_def nth_append min_def split: if_splits)

lemma rd_range_wr_range:
  "wr_range p i vs = Some q \<Longrightarrow> rd_range q i (length vs) = Some vs"
  by (auto simp: wr_range_def rd_range_def split: if_splits)

section \<open>Little-endian fields\<close>

definition le16 :: "u8 \<Rightarrow> u8 \<Rightarrow> u16" where
  "le16 lo hi = ucast lo OR push_bit 8 (ucast hi)"

definition lo8 :: "u16 \<Rightarrow> u8" where
  "lo8 w = ucast w"

definition hi8 :: "u16 \<Rightarrow> u8" where
  "hi8 w = ucast (drop_bit 8 w)"

lemma le16_lo_hi [simp]: "le16 (lo8 w) (hi8 w) = w"
  by (rule bit_word_eqI) (auto simp: le16_def lo8_def hi8_def bit_simps)

lemma lo8_le16 [simp]: "lo8 (le16 a b) = a"
  by (rule bit_word_eqI) (auto simp: le16_def lo8_def hi8_def bit_simps)

lemma hi8_le16 [simp]: "hi8 (le16 a b) = b"
  by (rule bit_word_eqI) (auto simp: le16_def lo8_def hi8_def bit_simps dest: bit_imp_le_length)

lemma le16_inject: "le16 a b = le16 c d \<longleftrightarrow> a = c \<and> b = d"
  by (metis lo8_le16 hi8_le16)

definition bytes16 :: "u16 \<Rightarrow> bytes" where
  "bytes16 w = [lo8 w, hi8 w]"

lemma bytes16_length [simp]: "length (bytes16 w) = 2"
  by (simp add: bytes16_def)

lemma bytes16_inject [simp]: "bytes16 v = bytes16 w \<longleftrightarrow> v = w"
  by (metis bytes16_def le16_lo_hi list.inject)

definition rd16 :: "bytes \<Rightarrow> nat \<Rightarrow> u16 option" where
  [mem_defs]: "rd16 p i = do { lo \<leftarrow> rd8 p i; hi \<leftarrow> rd8 p (i + 1); Some (le16 lo hi) }"

definition wr16 :: "bytes \<Rightarrow> nat \<Rightarrow> u16 \<Rightarrow> bytes option" where
  [mem_defs]: "wr16 p i w = wr_range p i (bytes16 w)"

lemma rd16_Some [mem_safe]:
  "i + 1 < length p \<Longrightarrow> rd16 p i = Some (le16 (p ! i) (p ! (i + 1)))"
  by (simp add: rd16_def rd8_def)

text \<open>A 32-bit field as the four bytes of its little-endian layout.\<close>

definition byte_of :: "nat \<Rightarrow> 'a::len word \<Rightarrow> u8" where
  "byte_of k w = ucast (drop_bit (8 * k) w)"

definition le32 :: "u8 \<Rightarrow> u8 \<Rightarrow> u8 \<Rightarrow> u8 \<Rightarrow> u32" where
  "le32 a b c d = ucast a OR push_bit 8 (ucast b) OR push_bit 16 (ucast c) OR push_bit 24 (ucast d)"

definition bytes32 :: "u32 \<Rightarrow> bytes" where
  "bytes32 w = map (\<lambda>k. byte_of k w) [0..<4]"

lemma le32_bytes [simp]: "le32 (byte_of 0 w) (byte_of 1 w) (byte_of 2 w) (byte_of 3 w) = w"
proof (rule bit_word_eqI)
  fix n :: nat assume "n < LENGTH(32)"
  then consider "n < 8" | "8 \<le> n" "n < 16" | "16 \<le> n" "n < 24" | "24 \<le> n" "n < 32"
    by force
  then show "bit (le32 (byte_of 0 w) (byte_of 1 w) (byte_of 2 w) (byte_of 3 w)) n = bit w n"
    by cases (auto simp: le32_def byte_of_def bit_simps)
qed

lemma bytes32_length [simp]: "length (bytes32 w) = 4"
  by (simp add: bytes32_def)

definition rd32 :: "bytes \<Rightarrow> nat \<Rightarrow> u32 option" where
  "rd32 p i = do { a \<leftarrow> rd8 p i; b \<leftarrow> rd8 p (i + 1); c \<leftarrow> rd8 p (i + 2); d \<leftarrow> rd8 p (i + 3); Some (le32 a b c d) }"

lemma rd32_Some: "i + 4 \<le> length p \<Longrightarrow> rd32 p i = Some (le32 (p ! i) (p ! (i + 1)) (p ! (i + 2)) (p ! (i + 3)))"
  by (simp add: rd32_def mem_safe)

lemma rd32_wr_same: "i + 4 \<le> length p \<Longrightarrow> wr_range p i (bytes32 w) = Some q \<Longrightarrow> rd32 q i = Some w"
  using le32_bytes [of w]
  by (auto simp: wr_range_def rd32_def rd8_def nth_append bytes32_def upt_rec numeral_2_eq_2 numeral_3_eq_3)

lemma rd32_wr_far:
  "wr_range p i (bytes32 w) = Some q \<Longrightarrow> a + 4 \<le> i \<or> i + 4 \<le> a \<Longrightarrow> rd32 q a = rd32 p a"
proof -
  assume q: "wr_range p i (bytes32 w) = Some q" and far: "a + 4 \<le> i \<or> i + 4 \<le> a"
  have "rd8 q k = rd8 p k" if "a \<le> k" "k < a + 4" for k
    using q far that wr_range_length [OF q] wr_range_nth [OF q, of k] by (auto simp: rd8_def)
  then show ?thesis by (simp add: rd32_def)
qed

text \<open>A 64-bit field likewise.\<close>

definition bytes64 :: "u64 \<Rightarrow> bytes" where
  "bytes64 w = map (\<lambda>k. byte_of k w) [0..<8]"

lemma bytes64_length [simp]: "length (bytes64 w) = 8"
  by (simp add: bytes64_def)

definition rd64 :: "bytes \<Rightarrow> nat \<Rightarrow> u64 option" where
  "rd64 p i = map_option (\<lambda>d. foldr (\<lambda>b w. push_bit 8 w OR ucast b) d 0) (rd_range p i 8)"

section \<open>Loops over an index range\<close>

text \<open>\<open>for(i = ...)\<close> over a body that may hit undefined behaviour.\<close>

primrec foldM :: "('a \<Rightarrow> 's \<Rightarrow> 's option) \<Rightarrow> 'a list \<Rightarrow> 's \<Rightarrow> 's option" where
  "foldM f [] s = Some s"
| "foldM f (x # xs) s = (case f x s of None \<Rightarrow> None | Some s' \<Rightarrow> foldM f xs s')"

lemma foldM_append:
  "foldM f (xs @ ys) s = (case foldM f xs s of None \<Rightarrow> None | Some s' \<Rightarrow> foldM f ys s')"
  by (induction xs arbitrary: s) (auto split: option.splits)

text \<open>An invariant under which every iteration is defined makes the loop defined.\<close>

lemma foldM_inv:
  assumes "I s" and "\<And>x s. x \<in> set xs \<Longrightarrow> I s \<Longrightarrow> \<exists>s'. f x s = Some s' \<and> I s'"
  shows "\<exists>s'. foldM f xs s = Some s' \<and> I s'"
  using assms
proof (induction xs arbitrary: s)
  case Nil
  then show ?case by simp
next
  case (Cons x xs)
  then obtain s1 where "f x s = Some s1" "I s1" by (metis list.set_intros(1))
  moreover have "\<exists>s'. foldM f xs s1 = Some s' \<and> I s'"
    by (rule Cons.IH) (use \<open>I s1\<close> Cons.prems in auto)
  ultimately show ?case by simp
qed

lemma foldM_preserves:
  assumes "foldM f xs s = Some t" and "I s"
    and "\<And>x s s'. x \<in> set xs \<Longrightarrow> f x s = Some s' \<Longrightarrow> I s \<Longrightarrow> I s'"
  shows "I t"
  using assms
proof (induction xs arbitrary: s)
  case Nil
  then show ?case by simp
next
  case (Cons x xs)
  then obtain s1 where "f x s = Some s1" "foldM f xs s1 = Some t"
    by (auto split: option.splits)
  moreover from this Cons.prems have "I s1" by (metis list.set_intros(1))
  ultimately show ?case using Cons.IH [of s1] Cons.prems(3) by (metis list.set_intros(2))
qed

section \<open>Searching loops\<close>

text \<open>
  \<open>for(i = 0; i < n; i++) if(P(xs[i])) return i;\<close> -- the index of the first match.
\<close>

primrec find_index :: "('a \<Rightarrow> bool) \<Rightarrow> 'a list \<Rightarrow> nat option" where
  "find_index P [] = None"
| "find_index P (x # xs) = (if P x then Some 0 else map_option Suc (find_index P xs))"

lemma all_less_Suc0: "(\<forall>i < Suc n. Q i) \<longleftrightarrow> Q 0 \<and> (\<forall>i < n. Q (Suc i))"
  by (metis less_Suc_eq_0_disj not_less_eq)

lemma find_index_None: "find_index P xs = None \<longleftrightarrow> (\<forall>i < length xs. \<not> P (xs ! i))"
  by (induction xs) (simp_all add: all_less_Suc0)

lemma find_index_Some:
  "find_index P xs = Some i \<longleftrightarrow> i < length xs \<and> P (xs ! i) \<and> (\<forall>j < i. \<not> P (xs ! j))"
proof (induction xs arbitrary: i)
  case Nil
  then show ?case by simp
next
  case (Cons x xs)
  then show ?case by (cases i) (auto simp: all_less_Suc0)
qed

lemma find_index_exists: "i < length xs \<Longrightarrow> P (xs ! i) \<Longrightarrow> \<exists>j. find_index P xs = Some j"
  using find_index_None [of P xs] by (cases "find_index P xs") auto

section \<open>32-bit subtraction\<close>

definition sub32 :: "nat \<Rightarrow> nat \<Rightarrow> nat" where
  "sub32 a b = u32n (a + (4294967296 - u32n b))"

lemma sub32_le [simp]: "b \<le> a \<Longrightarrow> a < 4294967296 \<Longrightarrow> sub32 a b = a - b"
  by (simp add: sub32_def u32n_def mod_if)

end
