(* ===== verification/ProtoTypes.thy ===== *)
theory ProtoTypes imports Prelude begin

text \<open>
  The types of \<open>ProtocolFrame.h\<close> (\<open>Plugins/MagicDevicePlugin/DobotV3.0\<close>): the packet
  parameters handed to callbacks, decoding steps and formats, function structures and lists,
  links, and the frame. Pointers to formats, function lists and links are indices into tables
  (\<^term>\<open>None\<close> is NULL), function pointers are HOL functions, and the environment behind the
  \<open>readData\<close> and \<open>SendData\<close> pointers is the type variable \<open>'w\<close>.
\<close>

section \<open>Parse status\<close>

datatype step_status = ProtocolFrame_DEFALSE | ProtocolFrame_DETRUE | ProtocolFrame_DENEXT

section \<open>Packets, formats, functions\<close>

text \<open>
  \<open>struct ProtocolFrame_PacketParm\<close>. \<open>pPacket\<close> always points to the frame's packet
  buffer, so the field holds that buffer's contents; \<open>pFrame\<close> points to the only frame.
\<close>

record packet_parm =
  pLink :: "nat option"
  pPacket :: bytes
  packetLength :: nat
  errCode :: u16
  sendMark :: bool
  exitCallPack :: bool
  exitLoop :: bool

record step_parm =
  StepCheck :: "bytes \<Rightarrow> nat \<Rightarrow> step_status option"
  GetLength :: "bytes \<Rightarrow> nat \<Rightarrow> nat option"

record format =
  ErrCodeRead :: "(packet_parm \<Rightarrow> packet_parm option) option"
  ErrCodeSend :: "(packet_parm \<Rightarrow> packet_parm option) option"
  sof :: u8
  pStepList :: "step_parm list"

record 's func_struct =
  PacketCallBack :: "('s \<Rightarrow> 's option) option"
  Loop :: "('s \<Rightarrow> 's option) option"

text \<open>
  What the pointers \<open>pFormat\<close> and \<open>pFuncList\<close> refer to: the formats and the function
  lists of the program. Entries of \<open>pFuncStructList\<close> can be NULL.
\<close>

record 's frame_env =
  formats :: "nat \<Rightarrow> format"
  funcLists :: "nat \<Rightarrow> 's func_struct option list"

section \<open>Links and the frame\<close>

text \<open>
  \<open>struct ProtocolFrame_LinkParm\<close>. \<open>readData n w\<close> is the bytes the call stores at
  \<open>pData\<close>, whose number is its return value, with the next state of the environment.
\<close>

record 'w link =
  deTimeOut :: u16
  pDeMsgBuff :: bytes
  maxMsgNum :: nat
  readData :: "(nat \<Rightarrow> 'w \<Rightarrow> bytes \<times> 'w) option"
  SendData :: "(bytes \<Rightarrow> 'w \<Rightarrow> 'w) option"
  enable :: bool
  sofMark :: bool
  pFormat :: "nat option"
  pFuncList :: "nat option"
  msgReadIndex :: nat
  msgWriteIndex :: nat
  deStep :: nat
  deLenght :: nat
  deStepLength :: nat
  deStartTime :: u32

text \<open>
  \<open>struct ProtocolFrameParm\<close> with the globals the frame works on: the time base
  \<open>gProtocolFrame_TimeCNT\<close>, the static link structures (a link pointer is an index into
  \<open>links\<close>), the packet parameters with the frame's packet buffer, the \<open>loopMark\<close> of
  every entry of every function list, and the environment. \<open>linkMaxNum\<close> is the length of
  \<open>pLinkList\<close>.
\<close>

record 'w frame_state =
  timeCNT :: u32
  links :: "'w link list"
  pLinkList :: "nat option list"
  linkNum :: nat
  pPacketParm :: packet_parm
  loopMark :: "nat \<Rightarrow> nat \<Rightarrow> bool"
  world :: 'w

abbreviation linkMaxNum :: "('w, 'z) frame_state_scheme \<Rightarrow> nat" where
  "linkMaxNum s \<equiv> length (pLinkList s)"

text \<open>\<open>ProtocolFrame_LINK_EXPORT\<close>: a link structure as it is declared.\<close>

definition ProtocolFrame_LINK_EXPORT :: "u16 \<Rightarrow> nat \<Rightarrow> 'w link" where
  "ProtocolFrame_LINK_EXPORT timeOut packetMaxSize =
    \<lparr>deTimeOut = timeOut, pDeMsgBuff = replicate packetMaxSize 0, maxMsgNum = packetMaxSize,
     readData = None, SendData = None, enable = True, sofMark = False,
     pFormat = None, pFuncList = None, msgReadIndex = 0, msgWriteIndex = 0,
     deStep = 0, deLenght = 0, deStepLength = 0, deStartTime = 0\<rparr>"

text \<open>\<open>ProtocolFrame_FRAME_EXPORT\<close>: a frame as it is declared, over given link structures.\<close>

definition ProtocolFrame_FRAME_EXPORT :: "nat \<Rightarrow> nat \<Rightarrow> 'w link list \<Rightarrow> 'w \<Rightarrow> 'w frame_state" where
  "ProtocolFrame_FRAME_EXPORT packetMaxSize maxNum ls w =
    \<lparr>timeCNT = 0, links = ls, pLinkList = replicate maxNum None, linkNum = 0,
     pPacketParm = \<lparr>pLink = None, pPacket = replicate packetMaxSize 0, packetLength = 0,
                    errCode = 0, sendMark = False, exitCallPack = False, exitLoop = False\<rparr>,
     loopMark = (\<lambda>_ _. False), world = w\<rparr>"

section \<open>The interface of a format\<close>

text \<open>
  What the decoder relies on: a packet has a header checked in steps of fixed lengths
  \<open>lower 1 < lower 2 < \<dots>\<close>, and a last step whose length, the length of the packet, is
  read from the checked header. \<open>chk i buf\<close> is what passing step \<open>i\<close> says of the buffer;
  it depends on the bytes received by then only. A check never reads outside a buffer of
  \<open>bufsz\<close> bytes once the steps before it have passed and the packet fits.
\<close>

locale frame_format =
  fixes fmt :: format and bufsz :: nat and lower :: "nat \<Rightarrow> nat"
    and chk :: "nat \<Rightarrow> bytes \<Rightarrow> bool" and packet_len :: "bytes \<Rightarrow> nat"
  assumes steps_nonempty: "pStepList fmt \<noteq> []"
    and steps_few: "length (pStepList fmt) < 256"
    and lower_0: "lower 0 = 0"
    and lower_less: "Suc i < length (pStepList fmt) \<Longrightarrow> lower i < lower (Suc i)"
    and bufsz_u16: "bufsz < 65536"
    and header_fits: "lower (length (pStepList fmt) - 1) \<le> bufsz"
    and GetLength_header:
      "Suc i < length (pStepList fmt) \<Longrightarrow> length buf = bufsz \<Longrightarrow>
       GetLength (pStepList fmt ! i) buf m = Some (lower (Suc i))"
    and GetLength_packet:
      "Suc i = length (pStepList fmt) \<Longrightarrow> length buf = bufsz \<Longrightarrow> (\<forall>j<i. chk j buf) \<Longrightarrow>
       GetLength (pStepList fmt ! i) buf m = Some (packet_len buf)"
    and packet_len_bounds:
      "Suc i = length (pStepList fmt) \<Longrightarrow> (\<forall>j<i. chk j buf) \<Longrightarrow>
       lower i < packet_len buf \<and> packet_len buf < 65536"
    and packet_len_local:
      "Suc i = length (pStepList fmt) \<Longrightarrow>
       take (lower i) buf' = take (lower i) buf \<Longrightarrow> packet_len buf' = packet_len buf"
    and StepCheck_header:
      "Suc i < length (pStepList fmt) \<Longrightarrow> length buf = bufsz \<Longrightarrow>
       \<exists>r. StepCheck (pStepList fmt ! i) buf m = Some r \<and>
           (r \<noteq> ProtocolFrame_DEFALSE \<longleftrightarrow> chk i buf)"
    and StepCheck_packet:
      "Suc i = length (pStepList fmt) \<Longrightarrow> length buf = bufsz \<Longrightarrow> (\<forall>j<i. chk j buf) \<Longrightarrow>
       packet_len buf \<le> bufsz \<Longrightarrow>
       \<exists>r. StepCheck (pStepList fmt ! i) buf m = Some r \<and>
           (r \<noteq> ProtocolFrame_DEFALSE \<longleftrightarrow> chk i buf)"
    and chk_local:
      "Suc i < length (pStepList fmt) \<Longrightarrow>
       take (lower (Suc i)) buf' = take (lower (Suc i)) buf \<Longrightarrow> chk i buf' = chk i buf"
    and chk_packet_local:
      "Suc i = length (pStepList fmt) \<Longrightarrow>
       take (packet_len buf) buf' = take (packet_len buf) buf \<Longrightarrow> chk i buf' = chk i buf"
begin

lemma lower_mono: "i \<le> j \<Longrightarrow> j < length (pStepList fmt) \<Longrightarrow> lower i \<le> lower j"
proof (induction j)
  case 0
  then show ?case by simp
next
  case (Suc j)
  then show ?case using lower_less [of j] by (cases "i = Suc j") auto
qed

text \<open>Bytes appended after the checked prefix do not undo a check.\<close>

lemma chk_prefix:
  assumes "i < j" and "j < length (pStepList fmt)"
    and "take (lower j) buf' = take (lower j) buf"
  shows "chk i buf' = chk i buf"
proof (rule chk_local)
  have le: "lower (Suc i) \<le> lower j" using assms(1,2) by (intro lower_mono) auto
  have "take (lower (Suc i)) (take (lower j) buf') = take (lower (Suc i)) (take (lower j) buf)"
    using assms(3) by simp
  then show "take (lower (Suc i)) buf' = take (lower (Suc i)) buf"
    using le by (simp add: min_absorb1)
qed (use assms in auto)

end

end
