(* ===== verification/DecodeSpec.thy ===== *)
theory DecodeSpec imports ProtoTypes begin

text \<open>
  What a decoder of a byte stream has to do, independently of how \<open>DecodeLinkPacket\<close> does it:
  a verdict says of the bytes from a preamble on whether they begin with a packet, cannot, or are
  too few to tell; \<open>scan\<close> splits a stream into the packets it contains and the bytes that wait
  for more input. A format gives a verdict through its checking steps.
\<close>

section \<open>Scanning a stream\<close>

datatype verdict = Incomplete | Bad | Packet nat

function scan :: "(bytes \<Rightarrow> verdict) \<Rightarrow> u8 \<Rightarrow> bytes \<Rightarrow> bytes list \<times> bytes" where
  "scan v sf [] = ([], [])"
| "scan v sf (b # bs) =
     (if b \<noteq> sf then scan v sf bs
      else case v (b # bs) of
          Incomplete \<Rightarrow> ([], b # bs)
        | Bad \<Rightarrow> scan v sf bs
        | Packet n \<Rightarrow> (case scan v sf (drop (n - 1) bs) of (ps, r) \<Rightarrow> (take n (b # bs) # ps, r)))"
  by pat_completeness auto
termination by (relation "measure (\<lambda>(v, sf, bs). length bs)") auto

text \<open>
  A verdict that is not \<open>Incomplete\<close> stands whatever follows, and a packet is recognised by its
  own bytes.
\<close>

locale packet_scanner =
  fixes v :: "bytes \<Rightarrow> verdict" and sf :: u8
  assumes v_stable: "v xs \<noteq> Incomplete \<Longrightarrow> v (xs @ ys) = v xs"
    and v_packet: "v xs = Packet n \<Longrightarrow> 0 < n \<and> n \<le> length xs \<and> v (take n xs) = Packet n"
begin

abbreviation "scn \<equiv> scan v sf"

lemma scan_sf_incomplete: "v (sf # bs) = Incomplete \<Longrightarrow> scn (sf # bs) = ([], sf # bs)"
  by simp

lemma scan_sf_bad: "v (sf # bs) = Bad \<Longrightarrow> scn (sf # bs) = scn bs"
  by simp

lemma scan_sf_packet:
  assumes "v (sf # bs) = Packet n"
  shows "scn (sf # bs) = (take n (sf # bs) # fst (scn (drop n (sf # bs))), snd (scn (drop n (sf # bs))))"
proof -
  have "0 < n" using v_packet [OF assms] by blast
  then have "drop (n - 1) bs = drop n (sf # bs)" by (cases n) simp_all
  then show ?thesis using assms by (simp add: split_def)
qed

text \<open>Input in pieces gives the same packets as the input at once.\<close>

lemma scan_append:
  "scn (xs @ ys) =
     (fst (scn xs) @ fst (scn (snd (scn xs) @ ys)), snd (scn (snd (scn xs) @ ys)))"
proof (induction "length xs" arbitrary: xs rule: less_induct)
  case less
  show ?case
  proof (cases xs)
    case Nil
    then show ?thesis by simp
  next
    case (Cons b bs)
    note IH = less [of bs, unfolded Cons]
    show ?thesis
    proof (cases "b = sf")
      case False
      then show ?thesis using IH Cons by simp
    next
      case True
      show ?thesis
      proof (cases "v xs")
        case Incomplete
        then show ?thesis using Cons True by simp
      next
        case Bad
        then have "v (xs @ ys) = Bad" using v_stable [of xs ys] by simp
        then show ?thesis using IH Bad Cons True by simp
      next
        case (Packet n)
        then have p: "v (xs @ ys) = Packet n" "0 < n" "n \<le> length xs"
          using v_stable [of xs ys] v_packet [OF Packet] by simp_all
        have "drop n (xs @ ys) = drop n xs @ ys" "take n (xs @ ys) = take n xs"
          using p(3) by simp_all
        moreover have "length (drop n xs) < length xs" using p(2,3) by simp
        ultimately show ?thesis
          using less [of "drop n xs"] Packet p(1) scan_sf_packet [of bs n]
            scan_sf_packet [of "bs @ ys" n] Cons True by simp
      qed
    qed
  qed
qed

text \<open>Every packet found is a packet, and what is left over is the beginning of one.\<close>

lemma scan_sound:
  "(\<forall>pkt \<in> set (fst (scn xs)). v pkt = Packet (length pkt) \<and> pkt \<noteq> [] \<and> hd pkt = sf) \<and>
   (snd (scn xs) = [] \<or> hd (snd (scn xs)) = sf \<and> v (snd (scn xs)) = Incomplete)"
proof (induction "length xs" arbitrary: xs rule: less_induct)
  case less
  show ?case
  proof (cases xs)
    case Nil
    then show ?thesis by simp
  next
    case (Cons b bs)
    note IH = less [of bs, unfolded Cons]
    show ?thesis
    proof (cases "b = sf")
      case False
      then show ?thesis using IH Cons by simp
    next
      case True
      show ?thesis
      proof (cases "v xs")
        case Incomplete
        then show ?thesis using Cons True by simp
      next
        case Bad
        then show ?thesis using IH Cons True by simp
      next
        case (Packet n)
        note p = v_packet [OF Packet]
        have "length (drop n xs) < length xs" using p Cons by simp
        moreover have "v (take n xs) = Packet (length (take n xs))" "take n xs \<noteq> []" "hd (take n xs) = sf"
          using p Cons True by (auto simp: take_Cons')
        ultimately show ?thesis
          using less [of "drop n xs"] Packet scan_sf_packet [of bs n] Cons True by auto
      qed
    qed
  qed
qed

lemma scan_pending: "scn (snd (scn xs)) = ([], snd (scn xs))"
  using scan_sound [of xs] by (cases "snd (scn xs)") auto

lemma scan_garbage: "sf \<notin> set g \<Longrightarrow> scn (g @ xs) = scn xs"
  by (induction g) auto

lemma scan_packet:
  assumes "v pkt = Packet (length pkt)" and "hd pkt = sf"
  shows "scn (pkt @ xs) = (pkt # fst (scn xs), snd (scn xs))"
proof -
  have "pkt \<noteq> []" using v_packet [OF assms(1)] by auto
  then obtain bs where pkt: "pkt = sf # bs" using assms(2) by (cases pkt) auto
  have "v (pkt @ xs) = Packet (length pkt)" using v_stable [of pkt xs] assms(1) by simp
  then show ?thesis using scan_sf_packet [of "bs @ xs" "length pkt"] pkt by simp
qed

end

section \<open>The verdict of a format\<close>

text \<open>
  The length up to which step \<open>i\<close> of \<open>n\<close> looks, and the steps in order: a step whose length
  does not fit the buffer, or whose check fails, makes the bytes bad.
\<close>

definition step_len :: "nat \<Rightarrow> (nat \<Rightarrow> nat) \<Rightarrow> (bytes \<Rightarrow> nat) \<Rightarrow> nat \<Rightarrow> bytes \<Rightarrow> nat" where
  "step_len n lower packet_len i bs = (if Suc i < n then lower (Suc i) else packet_len bs)"

primrec check_steps :: "nat \<Rightarrow> (nat \<Rightarrow> bytes \<Rightarrow> nat) \<Rightarrow> (nat \<Rightarrow> bytes \<Rightarrow> bool) \<Rightarrow> (bytes \<Rightarrow> nat) \<Rightarrow>
    nat list \<Rightarrow> bytes \<Rightarrow> verdict" where
  "check_steps bufsz len chk plen [] bs = Packet (plen bs)"
| "check_steps bufsz len chk plen (i # is) bs =
     (if bufsz < len i bs then Bad
      else if length bs < len i bs then Incomplete
      else if chk i bs then check_steps bufsz len chk plen is bs else Bad)"

definition frame_verdict :: "nat \<Rightarrow> nat \<Rightarrow> (nat \<Rightarrow> nat) \<Rightarrow> (nat \<Rightarrow> bytes \<Rightarrow> bool) \<Rightarrow> (bytes \<Rightarrow> nat) \<Rightarrow>
    bytes \<Rightarrow> verdict" where
  "frame_verdict n bufsz lower chk packet_len bs =
     check_steps bufsz (step_len n lower packet_len) chk packet_len [0..<n] bs"

context frame_format begin

abbreviation "nsteps \<equiv> length (pStepList fmt)"
abbreviation "slen \<equiv> step_len nsteps lower packet_len"
abbreviation "steps_from i \<equiv> check_steps bufsz slen chk packet_len [i..<nsteps]"
abbreviation "fverdict \<equiv> frame_verdict nsteps bufsz lower chk packet_len"

lemma nsteps_pos: "0 < nsteps"
  using steps_nonempty by simp

lemma steps_from_step:
  "i < nsteps \<Longrightarrow> steps_from i bs =
     (if bufsz < slen i bs then Bad else if length bs < slen i bs then Incomplete
      else if chk i bs then steps_from (Suc i) bs else Bad)"
  by (simp add: upt_conv_Cons)

lemma steps_from_end: "steps_from nsteps bs = Packet (packet_len bs)"
  by simp

text \<open>Within the lengths checked so far, only the checked prefix matters.\<close>

lemma slen_local:
  assumes "i < nsteps" and "take (lower i) buf' = take (lower i) buf"
  shows "slen i buf' = slen i buf"
proof (cases "Suc i < nsteps")
  case True
  then show ?thesis by (simp add: step_len_def)
next
  case False
  then have "Suc i = nsteps" using assms(1) by simp
  from packet_len_local [OF this assms(2)] False show ?thesis by (simp add: step_len_def)
qed

lemma chk_slen_local:
  assumes "i < nsteps" and "take (slen i buf) buf' = take (slen i buf) buf"
  shows "chk i buf' = chk i buf"
proof (cases "Suc i < nsteps")
  case True
  then have "take (lower (Suc i)) buf' = take (lower (Suc i)) buf"
    using assms(2) by (simp add: step_len_def)
  then show ?thesis by (rule chk_local [OF True])
next
  case False
  then have last: "Suc i = nsteps" using assms(1) by simp
  have "take (packet_len buf) buf' = take (packet_len buf) buf"
    using assms(2) False by (simp add: step_len_def)
  then show ?thesis by (rule chk_packet_local [OF last])
qed

lemma lower_slen:
  assumes "i < nsteps" and "\<forall>j<i. chk j buf"
  shows "lower i < slen i buf" "slen i buf < 65536"
    "Suc i < nsteps \<Longrightarrow> lower (Suc i) = slen i buf" "Suc i < nsteps \<Longrightarrow> slen i buf \<le> bufsz"
proof -
  have "lower i < slen i buf \<and> slen i buf < 65536"
  proof (cases "Suc i < nsteps")
    case True
    have "lower (Suc i) \<le> lower (nsteps - 1)" using True by (intro lower_mono) auto
    then show ?thesis
      using lower_less [OF True] True header_fits bufsz_u16 by (simp add: step_len_def)
  next
    case False
    then have "Suc i = nsteps" using assms(1) by simp
    from packet_len_bounds [OF this assms(2)] False show ?thesis by (simp add: step_len_def)
  qed
  then show "lower i < slen i buf" "slen i buf < 65536" by blast+
  show "Suc i < nsteps \<Longrightarrow> lower (Suc i) = slen i buf" by (simp add: step_len_def)
  show "slen i buf \<le> bufsz" if "Suc i < nsteps"
  proof -
    have "lower (Suc i) \<le> lower (nsteps - 1)" using that by (intro lower_mono) auto
    then show ?thesis using that header_fits by (simp add: step_len_def)
  qed
qed

end

context frame_format begin

lemma slen_le_packet_len:
  assumes "i < nsteps" and "\<forall>j < nsteps - 1. chk j buf"
  shows "slen i buf \<le> packet_len buf"
proof (cases "Suc i < nsteps")
  case True
  have "Suc (nsteps - 1) = nsteps" using nsteps_pos by simp
  from packet_len_bounds [OF this assms(2)] have "lower (nsteps - 1) < packet_len buf" by blast
  moreover have "lower (Suc i) \<le> lower (nsteps - 1)" using True by (intro lower_mono) auto
  ultimately show ?thesis using True by (simp add: step_len_def)
next
  case False
  then show ?thesis by (simp add: step_len_def)
qed

lemma slen_last: "Suc i = nsteps \<Longrightarrow> slen i buf = packet_len buf"
  by (simp add: step_len_def)

text \<open>The verdict \<open>Packet\<close> means: complete, short enough for the buffer, and every check passes.\<close>

lemma steps_from_Packet:
  assumes "i \<le> nsteps"
  shows "i < nsteps \<Longrightarrow> steps_from i xs = Packet m \<longleftrightarrow>
           m = packet_len xs \<and> (\<forall>j. i \<le> j \<and> j < nsteps \<longrightarrow> chk j xs \<and> slen j xs \<le> bufsz \<and> slen j xs \<le> length xs)"
  using assms
proof (induction "nsteps - i" arbitrary: i)
  case 0
  then show ?case by simp
next
  case (Suc k)
  have split_all: "(\<forall>j. i \<le> j \<and> j < nsteps \<longrightarrow> P j) \<longleftrightarrow>
      P i \<and> (\<forall>j. Suc i \<le> j \<and> j < nsteps \<longrightarrow> P j)" for P
    using Suc.prems(1) by (metis Suc_leD Suc_leI le_neq_implies_less order_refl)
  show ?case
  proof (cases "Suc i < nsteps")
    case True
    have "k = nsteps - Suc i" using Suc.hyps(2) by simp
    from Suc.hyps(1) [OF this True] True show ?thesis
      unfolding steps_from_step [OF Suc.prems(1)] split_all [of "\<lambda>j. chk j xs \<and> slen j xs \<le> bufsz \<and> slen j xs \<le> length xs"]
      by (auto simp: not_less)
  next
    case False
    then have last: "Suc i = nsteps" using Suc.prems(1) by simp
    then have "\<not> (Suc i \<le> j \<and> j < nsteps)" for j by simp
    then show ?thesis
      unfolding steps_from_step [OF Suc.prems(1)] split_all [of "\<lambda>j. chk j xs \<and> slen j xs \<le> bufsz \<and> slen j xs \<le> length xs"]
      unfolding last by (auto simp: not_less)
  qed
qed

lemma fverdict_Packet:
  "fverdict xs = Packet m \<longleftrightarrow>
     m = packet_len xs \<and> m \<le> bufsz \<and> m \<le> length xs \<and> (\<forall>j < nsteps. chk j xs)"
proof -
  have last: "nsteps - 1 < nsteps" "Suc (nsteps - 1) = nsteps" using nsteps_pos by simp_all
  have "fverdict xs = Packet m \<longleftrightarrow>
      m = packet_len xs \<and> (\<forall>j. j < nsteps \<longrightarrow> chk j xs \<and> slen j xs \<le> bufsz \<and> slen j xs \<le> length xs)"
    using steps_from_Packet [of 0 xs m] nsteps_pos by (simp add: frame_verdict_def)
  also have "\<dots> \<longleftrightarrow> m = packet_len xs \<and> m \<le> bufsz \<and> m \<le> length xs \<and> (\<forall>j < nsteps. chk j xs)"
  proof (intro iffI conjI allI impI; elim conjE)
    assume m: "m = packet_len xs" and
      all: "\<forall>j. j < nsteps \<longrightarrow> chk j xs \<and> slen j xs \<le> bufsz \<and> slen j xs \<le> length xs"
    have "slen (nsteps - 1) xs = packet_len xs" by (rule slen_last [OF last(2)])
    then show "m \<le> bufsz" "m \<le> length xs"
      using mp [OF spec [OF all, of "nsteps - 1"] last(1)] m by simp_all
  next
    fix j assume m: "m = packet_len xs" "m \<le> bufsz" "m \<le> length xs" and
      all: "\<forall>j < nsteps. chk j xs" and j: "j < nsteps"
    have "slen j xs \<le> m" using slen_le_packet_len [OF j] all m(1) by simp
    then show "slen j xs \<le> bufsz" "slen j xs \<le> length xs" using m by simp_all
  qed auto
  finally show ?thesis .
qed

lemma steps_from_stable:
  assumes "steps_from i xs \<noteq> Incomplete" and "i \<le> nsteps" and "\<forall>j<i. chk j xs"
    and "lower (min i (nsteps - 1)) \<le> length xs"
  shows "steps_from i (xs @ ys) = steps_from i xs"
  using assms
proof (induction "nsteps - i" arbitrary: i)
  case 0
  then have i: "i = nsteps" by simp
  have "min nsteps (nsteps - 1) = nsteps - 1" by simp
  then have "lower (nsteps - 1) \<le> length xs" using 0(5) i by (simp only:)
  then have "packet_len (xs @ ys) = packet_len xs"
    using packet_len_local [of "nsteps - 1" "xs @ ys" xs] nsteps_pos by simp
  then show ?case using i by simp
next
  case (Suc k)
  then have i: "i < nsteps" by simp
  then have "min i (nsteps - 1) = i" by simp
  then have "take (lower i) (xs @ ys) = take (lower i) xs" using Suc.prems(4) by simp
  then have sl: "slen i (xs @ ys) = slen i xs" by (rule slen_local [OF i])
  show ?case
  proof (cases "bufsz < slen i xs")
    case True
    then show ?thesis by (simp add: steps_from_step [OF i] sl)
  next
    case fits: False
    then have len: "slen i xs \<le> length xs"
      using Suc.prems(1) i by (simp add: steps_from_step split: if_splits)
    then have c: "chk i (xs @ ys) = chk i xs" by (intro chk_slen_local [OF i]) simp
    show ?thesis
    proof (cases "chk i xs")
      case True
      have "steps_from (Suc i) (xs @ ys) = steps_from (Suc i) xs"
      proof (rule Suc.hyps(1))
        show "k = nsteps - Suc i" using Suc.hyps(2) by simp
        show "steps_from (Suc i) xs \<noteq> Incomplete"
          using Suc.prems(1) i True fits len by (simp add: steps_from_step)
        show "Suc i \<le> nsteps" using i by simp
        show "\<forall>j<Suc i. chk j xs" using Suc.prems(3) True less_Suc_eq by auto
        show "lower (min (Suc i) (nsteps - 1)) \<le> length xs"
        proof (cases "Suc i < nsteps")
          case True
          then have "min (Suc i) (nsteps - 1) = Suc i" by simp
          then show ?thesis using lower_slen(3) [OF i Suc.prems(3) True] len by (simp only:)
        next
          case False
          then have "min (Suc i) (nsteps - 1) = i" using i by simp
          then show ?thesis using lower_slen(1) [OF i Suc.prems(3)] len by (simp only:)
        qed
      qed
      then show ?thesis using True fits len c by (simp add: steps_from_step [OF i] sl)
    next
      case False
      then show ?thesis using fits len c by (simp add: steps_from_step [OF i] sl)
    qed
  qed
qed

end

sublocale frame_format \<subseteq> packet_scanner "frame_verdict (length (pStepList fmt)) bufsz lower chk packet_len" "sof fmt"
proof
  fix xs ys :: bytes
  assume "fverdict xs \<noteq> Incomplete"
  then show "fverdict (xs @ ys) = fverdict xs"
    using steps_from_stable [of 0 xs ys] by (simp add: frame_verdict_def lower_0)
next
  fix xs :: bytes and n
  assume v: "fverdict xs = Packet n"
  then have n: "n = packet_len xs" "n \<le> bufsz" "n \<le> length xs" "\<forall>j < nsteps. chk j xs"
    by (simp_all add: fverdict_Packet)
  have last: "nsteps - 1 < nsteps" "Suc (nsteps - 1) = nsteps" using nsteps_pos by simp_all
  have all: "\<forall>j < nsteps - 1. chk j xs" using n(4) by simp
  have pos: "lower (nsteps - 1) < packet_len xs" using packet_len_bounds [OF last(2) all] by blast
  have pl: "packet_len (take n xs) = packet_len xs"
    using pos n(1) by (intro packet_len_local [OF last(2)]) (simp add: min_absorb1)
  have "chk j (take n xs) = chk j xs" if j: "j < nsteps" for j
    using slen_le_packet_len [OF j all] n(1) by (intro chk_slen_local [OF j]) (simp add: min_absorb1)
  then show "0 < n \<and> n \<le> length xs \<and> fverdict (take n xs) = Packet n"
    using n pos pl by (simp add: fverdict_Packet)
qed

end
