(* ===== verification/Crc.thy ===== *)
theory Crc imports Prelude begin

text \<open>
  The two checksums of \<open>DobotV3Format.c\<close>: the table-driven CRC-8 with its lazily filled
  table (\<open>DobotV3Format_InitCRC8Table\<close>, \<open>DobotV3Format_CRC8\<close>), the CRC-16 over the
  constant table \<open>gDobotV3Format_crc_ibm_table\<close>, and the bit-serial CRC-8 of the older copy
  in \<open>ProtocolFramePlugin\<close>. The lemmas relate them to bit-serial definitions and give the
  injectivity that the error-detection properties rest on.
\<close>

section \<open>Functions linear over exclusive-or\<close>

lemma xor_linear_eqI:
  fixes f g :: "'a::len word \<Rightarrow> 'b::len word"
  assumes f: "\<And>a b. f (a XOR b) = f a XOR f b" and g: "\<And>a b. g (a XOR b) = g a XOR g b"
    and basis: "\<forall>k \<in> set [0..<LENGTH('a)]. f (2 ^ k) = g (2 ^ k)"
  shows "f c = g c"
proof -
  have "(\<forall>i. k \<le> i \<longrightarrow> \<not> bit c i) \<longrightarrow> f c = g c" if "k \<le> LENGTH('a)" for k c
    using that
  proof (induction k arbitrary: c)
    case 0
    have zero: "f 0 = 0" "g 0 = 0"
      using f [of 0 0] g [of 0 0] by simp_all
    show ?case
    proof
      assume "\<forall>i. 0 \<le> i \<longrightarrow> \<not> bit c i"
      then have "c = 0" by (auto intro: bit_word_eqI)
      with zero show "f c = g c" by simp
    qed
  next
    case (Suc k)
    show ?case
    proof
      assume high: "\<forall>i. Suc k \<le> i \<longrightarrow> \<not> bit c i"
      show "f c = g c"
      proof (cases "bit c k")
        case True
        have "\<not> bit (c XOR 2 ^ k) i" if "k \<le> i" for i
          using high True that
          by (cases "i = k") (auto simp: bit_simps Suc_le_eq dest: bit_imp_le_length)
        then have "f (c XOR 2 ^ k) = g (c XOR 2 ^ k)"
          using Suc.IH [of "c XOR 2 ^ k"] Suc.prems by simp
        moreover have "f (2 ^ k) = g (2 ^ k)" using basis Suc.prems by simp
        ultimately have "f ((c XOR 2 ^ k) XOR 2 ^ k) = g ((c XOR 2 ^ k) XOR 2 ^ k)"
          by (simp only: f g)
        then show ?thesis by (simp add: xor.assoc)
      next
        case False
        with high have "\<forall>i. k \<le> i \<longrightarrow> \<not> bit c i" by (metis le_antisym not_less_eq_eq)
        then show ?thesis using Suc.IH [of c] Suc.prems by simp
      qed
    qed
  qed
  from this [of "LENGTH('a)" c] show ?thesis
    by (auto dest: bit_imp_le_length)
qed

definition xor_double :: "'a::len word \<Rightarrow> 'a word list \<Rightarrow> 'a word list" where
  "xor_double b r = r @ map (\<lambda>x. x XOR b) r"

fun xor_span :: "'a::len word list \<Rightarrow> 'a word list" where
  "xor_span [] = [0]"
| "xor_span (b # bs) = xor_double b (xor_span bs)"

lemma word_of_nat_add_pow2:
  assumes "n < 2 ^ k"
  shows "word_of_nat (n + 2 ^ k) = (word_of_nat n XOR 2 ^ k :: 'a::len word)"
proof -
  have "\<not> bit n k"
    using assms by (simp add: bit_nat_iff bit_iff_odd)
  then have "n AND 2 ^ k = 0"
    by (auto intro!: bit_eqI simp: bit_simps)
  then have "n + 2 ^ k = n XOR 2 ^ k"
    by (rule disjunctive_add_eq_xor)
  then show ?thesis
    by (simp add: of_nat_xor_eq)
qed

lemma upt_pow2_Suc: "[0..<2 ^ Suc m] = [0..<2 ^ m] @ map (\<lambda>n. n + 2 ^ m) [0..<2 ^ m]"
proof -
  have "[0..<2 ^ Suc m] = [0..<2 ^ m] @ [2 ^ m..<2 ^ m + 2 ^ m]"
    using upt_add_eq_append [of 0 "2 ^ m" "2 ^ m"] by (simp add: mult_2)
  also have "[2 ^ m..<2 ^ m + 2 ^ m] = map (\<lambda>n. n + 2 ^ m) [0..<2 ^ m]"
    using map_add_upt [of "2 ^ m" "2 ^ m"] by simp
  finally show ?thesis .
qed

lemma xor_span_linear:
  fixes f :: "'a::len word \<Rightarrow> 'b::len word"
  assumes f: "\<And>a b. f (a XOR b) = f a XOR f b"
  shows "xor_span (map (\<lambda>k. f (2 ^ k)) (rev [0..<m])) = map (\<lambda>n. f (word_of_nat n)) [0..<2 ^ m]"
proof (induction m)
  case 0
  have "f 0 = 0" using f [of 0 0] by simp
  then show ?case by simp
next
  case (Suc m)
  have "map (\<lambda>n. f (word_of_nat (n + 2 ^ m))) [0..<2 ^ m] =
        map (\<lambda>n. f (word_of_nat n) XOR f (2 ^ m)) [0..<2 ^ m]"
    by (rule map_cong [OF refl]) (simp add: word_of_nat_add_pow2 f del: of_nat_add)
  with Suc show ?case
    by (simp add: xor_double_def upt_pow2_Suc o_def del: power_Suc of_nat_add)
qed

section \<open>CRC-8\<close>

text \<open>One round of the inner loop of \<open>DobotV3Format_InitCRC8Table\<close>.\<close>

definition crc8_round :: "u8 \<Rightarrow> u8" where
  "crc8_round crc = push_bit 1 crc XOR (if crc AND 0x80 \<noteq> 0 then 0x07 else 0)"

definition DobotV3Format_InitCRC8Table :: "bytes \<Rightarrow> bytes" where
  "DobotV3Format_InitCRC8Table pTable =
    fold (\<lambda>i t. t[i := (crc8_round ^^ 8) (word_of_nat i)]) [0..<256] pTable"

text \<open>
  The globals of the routine: the table \<open>gDobotV3Format_crc8Table\<close> (zero before first use) and
  the function's static \<open>firstMark\<close>.
\<close>

record crc8_state =
  gDobotV3Format_crc8Table :: bytes
  firstMark :: bool

definition crc8_initial :: crc8_state where
  "crc8_initial = \<lparr>gDobotV3Format_crc8Table = replicate 256 0, firstMark = False\<rparr>"

definition DobotV3Format_CRC8 :: "crc8_state \<Rightarrow> bytes \<Rightarrow> u8 \<Rightarrow> (crc8_state \<times> u8) option" where
  "DobotV3Format_CRC8 st buff len = do {
     let st = (if firstMark st then st
               else st\<lparr>gDobotV3Format_crc8Table :=
                        DobotV3Format_InitCRC8Table (gDobotV3Format_crc8Table st),
                      firstMark := True\<rparr>);
     d \<leftarrow> rd_range buff 0 (unat len);
     Some (st, fold (\<lambda>c crc. gDobotV3Format_crc8Table st ! unat (crc XOR c)) d 0) }"

text \<open>The value the routine computes, without the cached table.\<close>

definition crc8 :: "bytes \<Rightarrow> u8" where
  "crc8 d = fold (\<lambda>c crc. (crc8_round ^^ 8) (crc XOR c)) d 0"

lemma fold_update_nth:
  "k < length t \<Longrightarrow>
   fold (\<lambda>i t. t[i := f i]) [a..<b] t ! k = (if a \<le> k \<and> k < b then f k else t ! k)"
proof (induction b arbitrary: t)
  case 0
  then show ?case by simp
next
  case (Suc b)
  have len: "length (fold (\<lambda>i t. t[i := f i]) xs t) = length t" for xs and t :: "'a list"
    by (induction xs arbitrary: t) auto
  from Suc show ?case
    by (cases "a \<le> b") (auto simp: len nth_list_update less_Suc_eq)
qed

lemma InitCRC8Table_length [simp]:
  "length (DobotV3Format_InitCRC8Table t) = length t"
proof -
  have "length (fold (\<lambda>i t. t[i := f i]) xs t) = length t"
    for f :: "nat \<Rightarrow> u8" and xs t
    by (induction xs arbitrary: t) auto
  then show ?thesis by (simp add: DobotV3Format_InitCRC8Table_def)
qed

lemma InitCRC8Table_nth:
  "length t = 256 \<Longrightarrow> DobotV3Format_InitCRC8Table t ! unat (x :: u8) = (crc8_round ^^ 8) x"
  by (simp add: DobotV3Format_InitCRC8Table_def fold_update_nth)

text \<open>The cache is either untouched or holds the computed table.\<close>

definition crc8_cache_ok :: "crc8_state \<Rightarrow> bool" where
  "crc8_cache_ok st \<longleftrightarrow> length (gDobotV3Format_crc8Table st) = 256 \<and>
     (firstMark st \<longrightarrow>
       (\<forall>x :: u8. gDobotV3Format_crc8Table st ! unat x = (crc8_round ^^ 8) x))"

lemma crc8_cache_ok_initial: "crc8_cache_ok crc8_initial"
  by (simp add: crc8_cache_ok_def crc8_initial_def)

lemma CRC8_refines_crc8:
  assumes "crc8_cache_ok st" and "unat len \<le> length buff"
  shows "\<exists>st'. DobotV3Format_CRC8 st buff len = Some (st', crc8 (take (unat len) buff))
           \<and> crc8_cache_ok st'"
proof -
  define st' where "st' = (if firstMark st then st
               else st\<lparr>gDobotV3Format_crc8Table :=
                        DobotV3Format_InitCRC8Table (gDobotV3Format_crc8Table st),
                      firstMark := True\<rparr>)"
  have tab: "gDobotV3Format_crc8Table st' ! unat x = (crc8_round ^^ 8) x" for x :: u8
    using assms(1) by (auto simp: st'_def crc8_cache_ok_def InitCRC8Table_nth)
  have ok: "crc8_cache_ok st'"
    using assms(1) tab by (auto simp: st'_def crc8_cache_ok_def)
  have "DobotV3Format_CRC8 st buff len = Some (st', crc8 (take (unat len) buff))"
    using assms(2)
    by (simp add: DobotV3Format_CRC8_def flip: st'_def) (simp add: rd_range_Some crc8_def tab)
  with ok show ?thesis by blast
qed

section \<open>The bit-serial CRC-8 of the older copy\<close>

text \<open>
  \<open>DobotV3Format_CRC8\<close> of \<open>Plugins/ProtocolFramePlugin\<close>: \<open>crc\<close> is a 32-bit
  \<open>unsigned\<close>, the byte enters at bits 8 to 15, and the result is bits 8 to 15.
\<close>

definition crc8_serial_round :: "u32 \<Rightarrow> u32" where
  "crc8_serial_round crc =
     push_bit 1 (if crc AND 0x8000 \<noteq> 0 then crc XOR push_bit 3 0x1070 else crc)"

definition crc8_serial_byte :: "u8 \<Rightarrow> u32 \<Rightarrow> u32" where
  "crc8_serial_byte c crc = (crc8_serial_round ^^ 8) (crc XOR push_bit 8 (ucast c))"

definition Mooz_CRC8 :: "bytes \<Rightarrow> u8 \<Rightarrow> u8 option" where
  "Mooz_CRC8 buff len = do {
     d \<leftarrow> rd_range buff 0 (unat len);
     Some (ucast (drop_bit 8 (fold crc8_serial_byte d 0))) }"

definition in_high :: "u8 \<Rightarrow> u32" where
  "in_high c = push_bit 8 (ucast c)"

lemma in_high_xor: "in_high a XOR in_high b = in_high (a XOR b)"
  by (rule bit_word_eqI) (auto simp: in_high_def bit_simps)

lemma out_of_high: "ucast (drop_bit 8 (in_high c)) = c"
  by (rule bit_word_eqI) (auto simp: in_high_def bit_simps)

lemma and_0x80: "(c :: u8) AND 0x80 \<noteq> 0 \<longleftrightarrow> bit c 7"
proof -
  have "c AND 0x80 \<noteq> 0 \<longleftrightarrow> c AND push_bit 7 1 \<noteq> 0" by simp
  also have "\<dots> \<longleftrightarrow> bit c 7" by (simp add: bit_iff_and_push_bit_not_eq_0)
  finally show ?thesis .
qed

lemma and_0x8000: "(c :: u32) AND 0x8000 \<noteq> 0 \<longleftrightarrow> bit c 15"
proof -
  have "c AND 0x8000 \<noteq> 0 \<longleftrightarrow> c AND push_bit 15 1 \<noteq> 0" by simp
  also have "\<dots> \<longleftrightarrow> bit c 15" by (simp add: bit_iff_and_push_bit_not_eq_0)
  finally show ?thesis .
qed

lemma crc8_round_bit: "crc8_round c = push_bit 1 c XOR (if bit c 7 then 0x07 else 0)"
  by (simp add: crc8_round_def and_0x80)

lemma crc8_round_xor: "crc8_round (a XOR b) = crc8_round a XOR crc8_round b"
  by (rule bit_word_eqI) (auto simp: crc8_round_bit bit_simps)

lemma crc8_serial_round_bit:
  "crc8_serial_round c = push_bit 1 c XOR (if bit c 15 then 0x10700 else 0)"
proof (cases "bit c 15")
  case True
  then show ?thesis
    unfolding crc8_serial_round_def and_0x8000 if_P [OF True] push_bit_xor by simp
next
  case False
  then show ?thesis by (simp add: crc8_serial_round_def and_0x8000)
qed

lemma crc8_serial_round_xor:
  "crc8_serial_round (a XOR b) = crc8_serial_round a XOR crc8_serial_round b"
  by (rule bit_word_eqI) (auto simp: crc8_serial_round_bit bit_simps)

lemma crc8_serial_round_high: "crc8_serial_round (in_high c) = in_high (crc8_round c)"
proof (rule xor_linear_eqI [where f = "\<lambda>c. crc8_serial_round (in_high c)"
         and g = "\<lambda>c. in_high (crc8_round c)"])
  show "\<forall>k \<in> set [0..<LENGTH(8)]. crc8_serial_round (in_high (2 ^ k)) = in_high (crc8_round (2 ^ k))"
    by code_simp
qed (simp_all add: crc8_serial_round_xor crc8_round_xor flip: in_high_xor)

lemma crc8_serial_rounds_high:
  "(crc8_serial_round ^^ k) (in_high c) = in_high ((crc8_round ^^ k) c)"
  by (induction k) (simp_all add: crc8_serial_round_high)

lemma crc8_serial_fold:
  "fold crc8_serial_byte d (in_high c) = in_high (fold (\<lambda>c crc. (crc8_round ^^ 8) (crc XOR c)) d c)"
proof (induction d arbitrary: c)
  case Nil
  then show ?case by simp
next
  case (Cons a d)
  have "crc8_serial_byte a (in_high c) = in_high ((crc8_round ^^ 8) (c XOR a))"
    unfolding crc8_serial_byte_def in_high_def [symmetric, of a] in_high_xor
    by (rule crc8_serial_rounds_high)
  with Cons show ?case by simp
qed

lemma Mooz_CRC8_eq_crc8:
  assumes "unat len \<le> length buff"
  shows "Mooz_CRC8 buff len = Some (crc8 (take (unat len) buff))"
proof -
  have "fold crc8_serial_byte d 0 = in_high (crc8 d)" for d
    using crc8_serial_fold [of d 0] by (simp add: crc8_def in_high_def)
  with assms show ?thesis
    by (simp add: Mooz_CRC8_def rd_range_Some out_of_high)
qed

section \<open>CRC-16\<close>

definition gDobotV3Format_crc_ibm_table :: "u16 list" where
  "gDobotV3Format_crc_ibm_table = [
    0x0000, 0xc0c1, 0xc181, 0x0140, 0xc301, 0x03c0, 0x0280, 0xc241,
    0xc601, 0x06c0, 0x0780, 0xc741, 0x0500, 0xc5c1, 0xc481, 0x0440,
    0xcc01, 0x0cc0, 0x0d80, 0xcd41, 0x0f00, 0xcfc1, 0xce81, 0x0e40,
    0x0a00, 0xcac1, 0xcb81, 0x0b40, 0xc901, 0x09c0, 0x0880, 0xc841,
    0xd801, 0x18c0, 0x1980, 0xd941, 0x1b00, 0xdbc1, 0xda81, 0x1a40,
    0x1e00, 0xdec1, 0xdf81, 0x1f40, 0xdd01, 0x1dc0, 0x1c80, 0xdc41,
    0x1400, 0xd4c1, 0xd581, 0x1540, 0xd701, 0x17c0, 0x1680, 0xd641,
    0xd201, 0x12c0, 0x1380, 0xd341, 0x1100, 0xd1c1, 0xd081, 0x1040,
    0xf001, 0x30c0, 0x3180, 0xf141, 0x3300, 0xf3c1, 0xf281, 0x3240,
    0x3600, 0xf6c1, 0xf781, 0x3740, 0xf501, 0x35c0, 0x3480, 0xf441,
    0x3c00, 0xfcc1, 0xfd81, 0x3d40, 0xff01, 0x3fc0, 0x3e80, 0xfe41,
    0xfa01, 0x3ac0, 0x3b80, 0xfb41, 0x3900, 0xf9c1, 0xf881, 0x3840,
    0x2800, 0xe8c1, 0xe981, 0x2940, 0xeb01, 0x2bc0, 0x2a80, 0xea41,
    0xee01, 0x2ec0, 0x2f80, 0xef41, 0x2d00, 0xedc1, 0xec81, 0x2c40,
    0xe401, 0x24c0, 0x2580, 0xe541, 0x2700, 0xe7c1, 0xe681, 0x2640,
    0x2200, 0xe2c1, 0xe381, 0x2340, 0xe101, 0x21c0, 0x2080, 0xe041,
    0xa001, 0x60c0, 0x6180, 0xa141, 0x6300, 0xa3c1, 0xa281, 0x6240,
    0x6600, 0xa6c1, 0xa781, 0x6740, 0xa501, 0x65c0, 0x6480, 0xa441,
    0x6c00, 0xacc1, 0xad81, 0x6d40, 0xaf01, 0x6fc0, 0x6e80, 0xae41,
    0xaa01, 0x6ac0, 0x6b80, 0xab41, 0x6900, 0xa9c1, 0xa881, 0x6840,
    0x7800, 0xb8c1, 0xb981, 0x7940, 0xbb01, 0x7bc0, 0x7a80, 0xba41,
    0xbe01, 0x7ec0, 0x7f80, 0xbf41, 0x7d00, 0xbdc1, 0xbc81, 0x7c40,
    0xb401, 0x74c0, 0x7580, 0xb541, 0x7700, 0xb7c1, 0xb681, 0x7640,
    0x7200, 0xb2c1, 0xb381, 0x7340, 0xb101, 0x71c0, 0x7080, 0xb041,
    0x5000, 0x90c1, 0x9181, 0x5140, 0x9301, 0x53c0, 0x5280, 0x9241,
    0x9601, 0x56c0, 0x5780, 0x9741, 0x5500, 0x95c1, 0x9481, 0x5440,
    0x9c01, 0x5cc0, 0x5d80, 0x9d41, 0x5f00, 0x9fc1, 0x9e81, 0x5e40,
    0x5a00, 0x9ac1, 0x9b81, 0x5b40, 0x9901, 0x59c0, 0x5880, 0x9841,
    0x8801, 0x48c0, 0x4980, 0x8941, 0x4b00, 0x8bc1, 0x8a81, 0x4a40,
    0x4e00, 0x8ec1, 0x8f81, 0x4f40, 0x8d01, 0x4dc0, 0x4c80, 0x8c41,
    0x4400, 0x84c1, 0x8581, 0x4540, 0x8701, 0x47c0, 0x4680, 0x8641,
    0x8201, 0x42c0, 0x4380, 0x8341, 0x4100, 0x81c1, 0x8081, 0x4040]"

definition crc16_step :: "u8 \<Rightarrow> u16 \<Rightarrow> u16" where
  "crc16_step b crc =
     (let lut = ucast (crc XOR ucast b) :: u8
      in drop_bit 8 crc XOR gDobotV3Format_crc_ibm_table ! unat lut)"

definition crc16 :: "bytes \<Rightarrow> u16" where
  "crc16 d = fold crc16_step d 0"

definition DobotV3Format_CRC16 :: "bytes \<Rightarrow> nat \<Rightarrow> u16 option" where
  "DobotV3Format_CRC16 buffer len = do { d \<leftarrow> rd_range buffer 0 len; Some (crc16 d) }"

lemma CRC16_Some [mem_safe]:
  "len \<le> length buffer \<Longrightarrow> DobotV3Format_CRC16 buffer len = Some (crc16 (take len buffer))"
  by (simp add: DobotV3Format_CRC16_def rd_range_Some)

text \<open>
  The reference: the reflected CRC-16 with polynomial \<open>0xA001\<close> (CRC-16/ARC), one bit at a
  time, which the table tabulates.
\<close>

definition crc16_bit :: "u16 \<Rightarrow> u16" where
  "crc16_bit crc = drop_bit 1 crc XOR (if bit crc 0 then 0xA001 else 0)"

definition crc16_serial :: "bytes \<Rightarrow> u16" where
  "crc16_serial d = fold (\<lambda>b crc. (crc16_bit ^^ 8) (crc XOR ucast b)) d 0"

lemma crc16_table_length [simp]: "length gDobotV3Format_crc_ibm_table = 256"
  by (simp add: gDobotV3Format_crc_ibm_table_def)

lemma crc16_bit_xor: "crc16_bit (a XOR b) = crc16_bit a XOR crc16_bit b"
  by (rule bit_word_eqI) (auto simp: crc16_bit_def bit_simps)

lemma crc16_bits_xor: "(crc16_bit ^^ k) (a XOR b) = (crc16_bit ^^ k) a XOR (crc16_bit ^^ k) b"
  by (induction k) (simp_all add: crc16_bit_xor)

text \<open>
  The table is the span of its entries at the powers of two, so eight evaluations of the serial
  step and 255 exclusive-ors check all of it.
\<close>

definition crc16_basis :: "u16 list" where
  "crc16_basis = [0xa001, 0xf001, 0xd801, 0xcc01, 0xc601, 0xc301, 0xc181, 0xc0c1]"

lemma crc16_basis_eq: "map (\<lambda>k. (crc16_bit ^^ 8) (2 ^ k)) (rev [0..<8]) = crc16_basis"
  by code_simp

lemma crc16_table_span: "xor_span crc16_basis = gDobotV3Format_crc_ibm_table"
  by (simp add: crc16_basis_def gDobotV3Format_crc_ibm_table_def xor_double_def)

lemma crc16_table_eq:
  "gDobotV3Format_crc_ibm_table = map (\<lambda>n. (crc16_bit ^^ 8) (word_of_nat n)) [0..<256]"
proof -
  have "xor_span (map (\<lambda>k. (crc16_bit ^^ 8) (2 ^ k)) (rev [0..<8])) =
        map (\<lambda>n. (crc16_bit ^^ 8) (word_of_nat n)) [0..<2 ^ 8]"
    by (rule xor_span_linear) (simp_all add: crc16_bits_xor)
  then show ?thesis by (simp add: crc16_basis_eq crc16_table_span)
qed

lemma crc16_table_nth:
  "gDobotV3Format_crc_ibm_table ! unat (x :: u8) = (crc16_bit ^^ 8) (ucast x)"
proof -
  have "gDobotV3Format_crc_ibm_table ! unat x = (crc16_bit ^^ 8) (word_of_nat (unat x))"
    by (simp add: crc16_table_eq)
  also have "word_of_nat (unat x) = (ucast x :: u16)" by simp
  finally show ?thesis .
qed

lemma crc16_bit_even: "\<not> bit x 0 \<Longrightarrow> crc16_bit x = drop_bit 1 x"
  by (simp add: crc16_bit_def)

lemma crc16_bits_high:
  "(\<forall>i<k. \<not> bit x i) \<Longrightarrow> (crc16_bit ^^ k) x = drop_bit k x"
proof (induction k)
  case 0
  then show ?case by simp
next
  case (Suc k)
  then have "(crc16_bit ^^ k) x = drop_bit k x" by simp
  moreover have "\<not> bit (drop_bit k x) 0" using Suc.prems by (simp add: bit_simps)
  ultimately show ?case by (simp add: crc16_bit_even)
qed

lemma crc16_step_serial: "crc16_step b crc = (crc16_bit ^^ 8) (crc XOR ucast b)"
proof -
  define x where "x = crc XOR ucast b"
  define hi where "hi = x AND 0xFF00"
  have split: "x = ucast (ucast x :: u8) XOR hi"
    by (rule bit_word_eqI) (auto simp: hi_def bit_simps less_Suc_eq numeral_eq_Suc)
  have "(crc16_bit ^^ 8) hi = drop_bit 8 hi"
    by (rule crc16_bits_high) (auto simp: hi_def bit_simps less_Suc_eq numeral_eq_Suc)
  also have "\<dots> = drop_bit 8 crc"
    by (rule bit_word_eqI)
      (auto simp: hi_def x_def bit_simps less_Suc_eq numeral_eq_Suc dest: bit_imp_le_length)
  finally have hi8: "(crc16_bit ^^ 8) hi = drop_bit 8 crc" .
  have "(crc16_bit ^^ 8) x = (crc16_bit ^^ 8) (ucast (ucast x :: u8)) XOR drop_bit 8 crc"
    by (subst split) (simp only: crc16_bits_xor hi8)
  then show ?thesis
    by (simp add: crc16_step_def Let_def crc16_table_nth xor.commute flip: x_def)
qed

lemma crc16_eq_serial: "crc16 d = crc16_serial d"
  by (simp add: crc16_def crc16_serial_def crc16_step_serial [abs_def])

section \<open>Detection of a changed byte\<close>

text \<open>
  A checksum that folds a step over the bytes, injective in the register and in the byte, takes a
  different value when one byte is changed.
\<close>

lemma fold_inj: "(\<And>c. inj (f c)) \<Longrightarrow> fold f xs s = fold f xs t \<Longrightarrow> s = t"
  by (induction xs arbitrary: s t) (auto dest: injD)

lemma fold_change_byte:
  assumes reg: "\<And>c. inj (f c)" and byte: "\<And>c d s. f c s = f d s \<Longrightarrow> c = d"
    and k: "k < length xs" and v: "v \<noteq> xs ! k"
  shows "fold f (xs[k := v]) s \<noteq> fold f xs s"
proof
  assume eq: "fold f (xs[k := v]) s = fold f xs s"
  define t where "t = fold f (take k xs) s"
  have "fold f (drop (Suc k) xs) (f v t) = fold f (drop (Suc k) xs) (f (xs ! k) t)"
    using eq k id_take_nth_drop [OF k] by (metis fold_append fold_simps(2) t_def
        upd_conv_take_nth_drop comp_apply)
  then have "f v t = f (xs ! k) t" by (rule fold_inj [OF reg])
  with byte v show False by blast
qed

lemma bit_crc8_round:
  "bit (crc8_round c) 0 = bit c 7"
  "n < 7 \<Longrightarrow> bit (crc8_round c) (Suc n) \<longleftrightarrow> bit c n \<noteq> (bit c 7 \<and> bit (7 :: u8) (Suc n))"
  unfolding crc8_round_bit bit_xor_iff bit_push_bit_iff by (auto simp: bit_0)

lemma crc8_round_inj: "inj crc8_round"
proof (rule injI, rule bit_word_eqI)
  fix a b :: u8 and n :: nat
  assume eq: "crc8_round a = crc8_round b" and "n < LENGTH(8)"
  have seven: "bit a 7 = bit b 7"
    using arg_cong [OF eq, of "\<lambda>x. bit x 0"] by (simp only: bit_crc8_round)
  have "n < 7 \<or> n = 7" using \<open>n < LENGTH(8)\<close> by auto
  then show "bit a n = bit b n"
  proof
    assume n: "n < 7"
    have "bit (crc8_round a) (Suc n) = bit (crc8_round b) (Suc n)" using eq by simp
    with n seven show ?thesis unfolding bit_crc8_round(2) [OF n] by blast
  next
    assume "n = 7" with seven show ?thesis by simp
  qed
qed

lemma crc16_bit_inj: "inj crc16_bit"
proof (rule injI, rule bit_word_eqI)
  fix a b :: u16 and n :: nat
  assume eq: "crc16_bit a = crc16_bit b" and "n < LENGTH(16)"
  have zero: "bit a 0 = bit b 0"
    using arg_cong [OF eq, of "\<lambda>x. bit x 15"]
    by (auto simp: crc16_bit_def bit_simps dest: bit_imp_le_length split: if_splits)
  show "bit a n = bit b n"
  proof (cases n)
    case 0
    with zero show ?thesis by simp
  next
    case (Suc m)
    have "bit (crc16_bit a) m = bit (crc16_bit b) m" using eq by simp
    with Suc zero \<open>n < LENGTH(16)\<close> show ?thesis
      by (auto simp: crc16_bit_def bit_simps split: if_splits)
  qed
qed

lemma inj_funpow: "inj f \<Longrightarrow> inj (f ^^ k)" for f :: "'a \<Rightarrow> 'a"
  by (induction k) (auto intro: inj_compose simp: id_def [symmetric])

lemma xor_left_cancel: "(a :: 'a::len word) XOR b = a XOR c \<longleftrightarrow> b = c"
  by (metis xor.assoc xor.left_neutral xor_self_eq)

lemma inj_xor_right: "inj (\<lambda>s :: 'a::len word. s XOR c)"
  by (rule injI) (metis xor_left_cancel xor.commute)

lemma crc8_change_byte:
  assumes "k < length d" and "v \<noteq> d ! k"
  shows "crc8 (d[k := v]) \<noteq> crc8 d"
  unfolding crc8_def
proof (rule fold_change_byte)
  show "inj (\<lambda>crc. (crc8_round ^^ 8) (crc XOR c))" for c
    using inj_compose [OF inj_funpow [OF crc8_round_inj] inj_xor_right] by (simp add: o_def)
next
  fix c e s
  assume "(crc8_round ^^ 8) (s XOR c) = (crc8_round ^^ 8) (s XOR e)"
  then have "s XOR c = s XOR e" by (rule injD [OF inj_funpow [OF crc8_round_inj]])
  then show "c = e" by (simp add: xor_left_cancel)
qed (use assms in auto)

lemma ucast_inject_up: "(ucast (a :: u8) :: u16) = ucast b \<longleftrightarrow> a = b"
proof
  assume eq: "(ucast a :: u16) = ucast b"
  show "a = b"
  proof (rule bit_word_eqI)
    fix n assume "n < LENGTH(8)"
    moreover have "bit (ucast a :: u16) n = bit (ucast b :: u16) n" using eq by simp
    ultimately show "bit a n = bit b n" by (simp add: bit_simps)
  qed
qed simp

lemma crc16_change_byte:
  assumes "k < length d" and "v \<noteq> d ! k"
  shows "crc16 (d[k := v]) \<noteq> crc16 d"
  unfolding crc16_def
proof (rule fold_change_byte)
  show "inj (crc16_step c)" for c
    unfolding crc16_step_serial [abs_def]
    using inj_compose [OF inj_funpow [OF crc16_bit_inj] inj_xor_right] by (simp add: o_def)
next
  fix c e s
  assume "crc16_step c s = crc16_step e s"
  then have "s XOR ucast c = s XOR ucast e"
    unfolding crc16_step_serial by (rule injD [OF inj_funpow [OF crc16_bit_inj]])
  then show "c = e" by (simp add: xor_left_cancel ucast_inject_up)
qed (use assms in auto)

end
