(* ===== verification/DobotFormat.thy ===== *)
theory DobotFormat imports DecodeSpec Crc begin

text \<open>
  \<open>DobotV3Format.h\<close> and \<open>DobotV3Format.c\<close> of \<open>Plugins/MagicDevicePlugin\<close>: the packed
  packet structure as a view of a byte list, the encoder, the four decoding steps and the error
  code of a packet, with the format they make.
\<close>

section \<open>Constants and the packet structure\<close>

abbreviation DobotV3Format_VER_10 :: u8 where "DobotV3Format_VER_10 \<equiv> 0x10"
abbreviation DobotV3Format_VER_11 :: u8 where "DobotV3Format_VER_11 \<equiv> 0x11"
abbreviation DobotV3Format_PAYLOAD_LENGTH :: nat where "DobotV3Format_PAYLOAD_LENGTH \<equiv> 512"
abbreviation DobotV3Format_HEADLEN :: nat where "DobotV3Format_HEADLEN \<equiv> 15"
abbreviation DobotV3Format_PACKET_LENGTH :: nat where
  "DobotV3Format_PACKET_LENGTH \<equiv> 527"
abbreviation DobotV3Format_SOF1 :: u8 where "DobotV3Format_SOF1 \<equiv> 0xAA"
abbreviation DobotV3Format_SOF2 :: u8 where "DobotV3Format_SOF2 \<equiv> 0xBB"
abbreviation DobotV3Format_COMMON :: u8 where "DobotV3Format_COMMON \<equiv> 0x00"
abbreviation DobotV3Format_MAGICBOX :: u8 where "DobotV3Format_MAGICBOX \<equiv> 0x03"
abbreviation DobotV3Format_MAGICIANGO :: u8 where "DobotV3Format_MAGICIANGO \<equiv> 0x05"
abbreviation DobotV3Format_K210 :: u8 where "DobotV3Format_K210 \<equiv> 0x20"

text \<open>The device addresses \<open>DobotV3DevVer11List\<close>, with the values the enum gives them.\<close>

datatype DobotV3DevVer11List =
  DobotV3Dev_PC | DobotV3Dev_Magician | DobotV3Dev_MagicianLite | DobotV3Dev_MagicianBox
| DobotV3Dev_MagicianGo | DobotV3Dev_K210Car | DobotV3Dev_K210Arm | DobotV3Dev_BroadCast

fun dev_addr :: "DobotV3DevVer11List \<Rightarrow> u8" where
  "dev_addr DobotV3Dev_PC = 0"
| "dev_addr DobotV3Dev_Magician = 1"
| "dev_addr DobotV3Dev_MagicianLite = 2"
| "dev_addr DobotV3Dev_MagicianBox = 3"
| "dev_addr DobotV3Dev_MagicianGo = 4"
| "dev_addr DobotV3Dev_K210Car = 0x20"
| "dev_addr DobotV3Dev_K210Arm = 0x21"
| "dev_addr DobotV3Dev_BroadCast = 0xFF"

text \<open>
  \<open>struct SDobotV3Format_Packet\<close> without its payload: the fields a sender fills in and those
  the encoder writes. \<open>packet_image\<close> is the packed layout (\<open>#pragma pack(1)\<close>, bit fields
  from the least significant bit) of the 15-byte header followed by \<open>payloadAndCRC\<close>.
\<close>

record SDobotV3Format_Packet =
  sof1 :: u8
  sof2 :: u8
  length_f :: u16
  version :: u8
  needAck :: bool
  isAck :: bool
  rwType :: bool
  queueType :: bool
  encType :: "2 word"
  errflg :: bool
  seqType :: bool
  seqNum :: u32
  src :: u8
  des :: u8
  cmdSet :: u8
  cmdId :: u8
  headCheck :: u8
  payloadAndCRC :: bytes

definition flag_bit :: "nat \<Rightarrow> bool \<Rightarrow> u8" where
  "flag_bit k b = (if b then push_bit k 1 else 0)"

definition packet_flags :: "SDobotV3Format_Packet \<Rightarrow> u8" where
  "packet_flags p = flag_bit 0 (needAck p) OR flag_bit 1 (isAck p) OR flag_bit 2 (rwType p) OR
     flag_bit 3 (queueType p) OR push_bit 4 (ucast (encType p)) OR flag_bit 6 (errflg p) OR
     flag_bit 7 (seqType p)"

definition packet_image :: "SDobotV3Format_Packet \<Rightarrow> bytes" where
  "packet_image p = [sof1 p, sof2 p] @ bytes16 (length_f p) @ [version p, packet_flags p] @
     bytes32 (seqNum p) @ [src p, des p, cmdSet p, cmdId p, headCheck p] @ payloadAndCRC p"

text \<open>The field accesses through a \<open>PDobotV3Format_Packet\<close> cast of a byte buffer.\<close>

definition pk_sof2 :: "bytes \<Rightarrow> u8 option" where "pk_sof2 p = rd8 p 1"
definition pk_length :: "bytes \<Rightarrow> u16 option" where "pk_length p = rd16 p 2"
definition pk_version :: "bytes \<Rightarrow> u8 option" where "pk_version p = rd8 p 4"
definition pk_flag :: "nat \<Rightarrow> bytes \<Rightarrow> bool option" where
  "pk_flag k p = map_option (\<lambda>b. bit b k) (rd8 p 5)"
definition pk_rwType :: "bytes \<Rightarrow> bool option" where "pk_rwType = pk_flag 2"
definition pk_queueType :: "bytes \<Rightarrow> bool option" where "pk_queueType = pk_flag 3"
definition pk_errflg :: "bytes \<Rightarrow> bool option" where "pk_errflg = pk_flag 6"
definition pk_seqNum :: "bytes \<Rightarrow> bytes option" where "pk_seqNum p = rd_range p 6 4"
definition pk_src :: "bytes \<Rightarrow> u8 option" where "pk_src p = rd8 p 10"
definition pk_des :: "bytes \<Rightarrow> u8 option" where "pk_des p = rd8 p 11"
definition pk_cmdSet :: "bytes \<Rightarrow> u8 option" where "pk_cmdSet p = rd8 p 12"
definition pk_cmdId :: "bytes \<Rightarrow> u8 option" where "pk_cmdId p = rd8 p 13"
definition pk_headCheck :: "bytes \<Rightarrow> u8 option" where "pk_headCheck p = rd8 p 14"

lemmas pk_defs = pk_sof2_def pk_length_def pk_version_def pk_flag_def pk_rwType_def
  pk_queueType_def pk_errflg_def pk_seqNum_def pk_src_def pk_des_def pk_cmdSet_def
  pk_cmdId_def pk_headCheck_def

section \<open>The checksum calls\<close>

text \<open>
  \<open>DobotV3Format_CRC8\<close> with its cached table is \<open>Crc.DobotV3Format_CRC8\<close>; by
  \<open>CRC8_refines_crc8\<close> its value is that of \<open>crc8\<close> whatever the cache holds, so the
  routines below use the value.
\<close>

definition CRC8_value :: "bytes \<Rightarrow> nat \<Rightarrow> u8 option" where
  "CRC8_value buff len = do { d \<leftarrow> rd_range buff 0 len; Some (crc8 d) }"

lemma CRC8_value_Some [mem_safe]:
  "len \<le> length buff \<Longrightarrow> CRC8_value buff len = Some (crc8 (take len buff))"
  by (simp add: CRC8_value_def rd_range_Some)

section \<open>Encoding\<close>

definition DobotV3Format_PacketEncoder :: "bytes \<Rightarrow> u8 \<Rightarrow> (bytes \<times> nat) option" where
  "DobotV3Format_PacketEncoder p pDataLen = do {
     let n = unat pDataLen;
     p \<leftarrow> wr8 p 0 DobotV3Format_SOF1;
     p \<leftarrow> wr8 p 1 DobotV3Format_SOF2;
     p \<leftarrow> wr16 p 2 (ucast pDataLen);
     hc \<leftarrow> CRC8_value p (DobotV3Format_HEADLEN - 1);
     p \<leftarrow> wr8 p 14 hc;
     crc \<leftarrow> DobotV3Format_CRC16 p (n + DobotV3Format_HEADLEN);
     p \<leftarrow> wr16 p (DobotV3Format_HEADLEN + n) crc;
     Some (p, n + DobotV3Format_HEADLEN + 2) }"

section \<open>Error codes\<close>

definition DobotV3Format_ErrCodeRead :: "packet_parm \<Rightarrow> packet_parm option" where
  "DobotV3Format_ErrCodeRead pp = do {
     v \<leftarrow> pk_version (pPacket pp);
     if v = DobotV3Format_VER_10 then Some (pp\<lparr>errCode := 0\<rparr>)
     else do {
       e \<leftarrow> pk_errflg (pPacket pp);
       if e then do {
         c \<leftarrow> rd16 (pPacket pp) (DobotV3Format_HEADLEN + 1);
         Some (pp\<lparr>errCode := c\<rparr>) }
       else Some pp } }"

definition DobotV3Format_ErrCodeSend :: "packet_parm \<Rightarrow> packet_parm option" where
  "DobotV3Format_ErrCodeSend pp =
     (if errCode pp = 0 then Some pp
      else do {
        p \<leftarrow> wr16 (pPacket pp) (DobotV3Format_HEADLEN + 1) (errCode pp);
        cs \<leftarrow> pk_cmdSet p;
        p \<leftarrow> wr8 p DobotV3Format_HEADLEN cs;
        fl \<leftarrow> rd8 p 5;
        p \<leftarrow> wr8 p 5 (set_bit 6 fl);
        (p, n) \<leftarrow> DobotV3Format_PacketEncoder p 3;
        Some (pp\<lparr>pPacket := p, packetLength := n, sendMark := True\<rparr>) })"

section \<open>Decoding steps\<close>

definition DobotV3Format_Sof2 :: "bytes \<Rightarrow> nat \<Rightarrow> step_status option" where
  "DobotV3Format_Sof2 pData len = do {
     s \<leftarrow> pk_sof2 pData;
     Some (if s = DobotV3Format_SOF2 then ProtocolFrame_DETRUE else ProtocolFrame_DEFALSE) }"

definition DobotV3Format_Sof2Len :: "bytes \<Rightarrow> nat \<Rightarrow> nat option" where
  "DobotV3Format_Sof2Len pData len = Some 2"

definition DobotV3Format_Length :: "bytes \<Rightarrow> nat \<Rightarrow> step_status option" where
  "DobotV3Format_Length pData len = do {
     n \<leftarrow> pk_length pData;
     Some (if unat n \<le> DobotV3Format_PAYLOAD_LENGTH
           then ProtocolFrame_DETRUE else ProtocolFrame_DEFALSE) }"

definition DobotV3Format_LengthLen :: "bytes \<Rightarrow> nat \<Rightarrow> nat option" where
  "DobotV3Format_LengthLen pData len = Some 4"

definition DobotV3Format_Head :: "bytes \<Rightarrow> nat \<Rightarrow> step_status option" where
  "DobotV3Format_Head pData len = do {
     crc \<leftarrow> CRC8_value pData (DobotV3Format_HEADLEN - 1);
     hc \<leftarrow> pk_headCheck pData;
     Some (if crc = hc then ProtocolFrame_DETRUE else ProtocolFrame_DEFALSE) }"

definition DobotV3Format_HeadLen :: "bytes \<Rightarrow> nat \<Rightarrow> nat option" where
  "DobotV3Format_HeadLen pData len = Some DobotV3Format_HEADLEN"

definition DobotV3Format_PacketCRC :: "bytes \<Rightarrow> nat \<Rightarrow> step_status option" where
  "DobotV3Format_PacketCRC pData len = do {
     n \<leftarrow> pk_length pData;
     crc \<leftarrow> DobotV3Format_CRC16 pData (u16n (DobotV3Format_HEADLEN + unat n));
     d \<leftarrow> rd_range pData (DobotV3Format_HEADLEN + unat n) 2;
     Some (if bytes16 crc = d then ProtocolFrame_DETRUE else ProtocolFrame_DEFALSE) }"

definition DobotV3Format_PacketCRCLen :: "bytes \<Rightarrow> nat \<Rightarrow> nat option" where
  "DobotV3Format_PacketCRCLen pData len = do {
     n \<leftarrow> pk_length pData;
     Some (u16n (unat n + DobotV3Format_HEADLEN + 2)) }"

definition DobotV3Format :: format where
  "DobotV3Format = \<lparr>ErrCodeRead = Some DobotV3Format_ErrCodeRead,
     ErrCodeSend = Some DobotV3Format_ErrCodeSend, sof = DobotV3Format_SOF1,
     pStepList =
       [\<lparr>StepCheck = DobotV3Format_Sof2, GetLength = DobotV3Format_Sof2Len\<rparr>,
        \<lparr>StepCheck = DobotV3Format_Length, GetLength = DobotV3Format_LengthLen\<rparr>,
        \<lparr>StepCheck = DobotV3Format_Head, GetLength = DobotV3Format_HeadLen\<rparr>,
        \<lparr>StepCheck = DobotV3Format_PacketCRC, GetLength = DobotV3Format_PacketCRCLen\<rparr>]\<rparr>"

section \<open>The format satisfies the decoder's interface\<close>

definition dv3_len :: "bytes \<Rightarrow> nat" where
  "dv3_len buf = unat (le16 (buf ! 2) (buf ! 3))"

definition dv3_packet_len :: "bytes \<Rightarrow> nat" where
  "dv3_packet_len buf = dv3_len buf + DobotV3Format_HEADLEN + 2"

definition dv3_lower :: "nat \<Rightarrow> nat" where
  "dv3_lower i = (if i = 0 then 0 else if i = 1 then 2 else if i = 2 then 4
                  else DobotV3Format_HEADLEN)"

definition dv3_crc_ok :: "bytes \<Rightarrow> bool" where
  "dv3_crc_ok buf \<longleftrightarrow>
     crc16 (take (DobotV3Format_HEADLEN + dv3_len buf) buf) =
     le16 (buf ! (DobotV3Format_HEADLEN + dv3_len buf)) (buf ! (DobotV3Format_HEADLEN + dv3_len buf + 1))"

definition dv3_chk :: "nat \<Rightarrow> bytes \<Rightarrow> bool" where
  "dv3_chk i buf =
     (if i = 0 then buf ! 1 = DobotV3Format_SOF2
      else if i = 1 then dv3_len buf \<le> DobotV3Format_PAYLOAD_LENGTH
      else if i = 2 then crc8 (take 14 buf) = buf ! 14
      else dv3_crc_ok buf)"

text \<open>A whole valid packet: its preamble and the four checks.\<close>

definition dv3_valid :: "bytes \<Rightarrow> bool" where
  "dv3_valid buf \<longleftrightarrow> buf ! 0 = DobotV3Format_SOF1 \<and> (\<forall>i<4. dv3_chk i buf)"

lemma dv3_steps_length [simp]: "length (pStepList DobotV3Format) = 4"
  by (simp add: DobotV3Format_def)

lemma dv3_sof [simp]: "sof DobotV3Format = DobotV3Format_SOF1"
  by (simp add: DobotV3Format_def)

lemma less4: "(i::nat) < 4 \<Longrightarrow> i = 0 \<or> i = 1 \<or> i = 2 \<or> i = 3"
  by auto

lemma all_less4: "(\<forall>i<(4::nat). P i) \<longleftrightarrow> P 0 \<and> P 1 \<and> P 2 \<and> P 3"
  using less4 by fastforce

lemma nth_take_eq: "take n xs = take n ys \<Longrightarrow> k < n \<Longrightarrow> xs ! k = ys ! k"
  by (metis nth_take)

lemma take_take_eq: "take n xs = take n ys \<Longrightarrow> k \<le> n \<Longrightarrow> take k xs = take k ys"
  by (metis min_absorb1 take_take)

lemma dv3_len_less: "dv3_len buf < 65536"
  by (simp add: dv3_len_def)

lemma dv3_len_local: "take n buf' = take n buf \<Longrightarrow> 4 \<le> n \<Longrightarrow> dv3_len buf' = dv3_len buf"
  by (simp add: dv3_len_def nth_take_eq [of n buf' buf])

lemma pk_length_Some [mem_safe]: "4 \<le> length p \<Longrightarrow> pk_length p = Some (le16 (p ! 2) (p ! 3))"
  by (simp add: pk_length_def rd16_Some)

lemma Sof2_Some [mem_safe]:
  "1 < length p \<Longrightarrow> DobotV3Format_Sof2 p m =
     Some (if dv3_chk 0 p then ProtocolFrame_DETRUE else ProtocolFrame_DEFALSE)"
  by (simp add: DobotV3Format_Sof2_def pk_sof2_def rd8_Some dv3_chk_def)

lemma Length_Some [mem_safe]:
  "4 \<le> length p \<Longrightarrow> DobotV3Format_Length p m =
     Some (if dv3_chk (Suc 0) p then ProtocolFrame_DETRUE else ProtocolFrame_DEFALSE)"
  by (simp add: DobotV3Format_Length_def mem_safe dv3_chk_def dv3_len_def)

lemma Head_Some [mem_safe]:
  "15 \<le> length p \<Longrightarrow> DobotV3Format_Head p m =
     Some (if dv3_chk 2 p then ProtocolFrame_DETRUE else ProtocolFrame_DEFALSE)"
  by (simp add: DobotV3Format_Head_def mem_safe pk_headCheck_def dv3_chk_def)

lemma take2_drop: "i + 1 < length p \<Longrightarrow> take 2 (drop i p) = [p ! i, p ! (i + 1)]"
  by (simp add: numeral_2_eq_2 Cons_nth_drop_Suc [symmetric])

lemma PacketCRC_Some [mem_safe]:
  assumes "dv3_len p \<le> DobotV3Format_PAYLOAD_LENGTH" and "dv3_packet_len p \<le> length p"
  shows "DobotV3Format_PacketCRC p m =
     Some (if dv3_chk 3 p then ProtocolFrame_DETRUE else ProtocolFrame_DEFALSE)"
proof -
  define e where "e = DobotV3Format_HEADLEN + dv3_len p"
  have e: "e + 2 \<le> length p" "e < 65536" "15 \<le> e"
    using assms by (simp_all add: e_def dv3_packet_len_def)
  have len: "pk_length p = Some (le16 (p ! 2) (p ! 3))" using e by (simp add: mem_safe)
  have "bytes16 (crc16 (take e p)) = [p ! e, p ! (e + 1)] \<longleftrightarrow>
        crc16 (take e p) = le16 (p ! e) (p ! (e + 1))"
    by (metis bytes16_def le16_lo_hi hi8_le16 lo8_le16 list.inject)
  then have "bytes16 (crc16 (take e p)) = take 2 (drop e p) \<longleftrightarrow> dv3_chk 3 p"
    using e by (simp add: take2_drop dv3_chk_def dv3_crc_ok_def e_def)
  then show ?thesis
    using e by (simp add: DobotV3Format_PacketCRC_def len mem_safe flip: dv3_len_def e_def)
qed

lemma PacketCRCLen_Some [mem_safe]:
  "dv3_len p \<le> DobotV3Format_PAYLOAD_LENGTH \<Longrightarrow> 4 \<le> length p \<Longrightarrow>
   DobotV3Format_PacketCRCLen p m = Some (dv3_packet_len p)"
  by (simp add: DobotV3Format_PacketCRCLen_def mem_safe dv3_packet_len_def flip: dv3_len_def)

lemma dv3_chk3_local:
  assumes "take (dv3_packet_len buf) buf' = take (dv3_packet_len buf) buf"
  shows "dv3_chk 3 buf' = dv3_chk 3 buf"
proof -
  define e where "e = DobotV3Format_HEADLEN + dv3_len buf"
  have pl: "dv3_packet_len buf = e + 2" by (simp add: e_def dv3_packet_len_def)
  have len: "dv3_len buf' = dv3_len buf"
    using assms by (rule dv3_len_local) (simp add: dv3_packet_len_def)
  have "buf' ! e = buf ! e" "buf' ! (e + 1) = buf ! (e + 1)"
    using nth_take_eq [OF assms] pl by auto
  moreover have "take e buf' = take e buf" using take_take_eq [OF assms] pl by simp
  ultimately show ?thesis by (simp add: dv3_chk_def dv3_crc_ok_def len flip: e_def)
qed

lemma dv3_step_nth:
  "pStepList DobotV3Format ! 0 = \<lparr>StepCheck = DobotV3Format_Sof2, GetLength = DobotV3Format_Sof2Len\<rparr>"
  "pStepList DobotV3Format ! Suc 0 = \<lparr>StepCheck = DobotV3Format_Length, GetLength = DobotV3Format_LengthLen\<rparr>"
  "pStepList DobotV3Format ! 2 = \<lparr>StepCheck = DobotV3Format_Head, GetLength = DobotV3Format_HeadLen\<rparr>"
  "pStepList DobotV3Format ! 3 = \<lparr>StepCheck = DobotV3Format_PacketCRC, GetLength = DobotV3Format_PacketCRCLen\<rparr>"
  by (simp_all add: DobotV3Format_def)

lemma less3: "Suc i < 4 \<Longrightarrow> i = 0 \<or> i = Suc 0 \<or> i = 2"
  by auto

lemma dv3_chk_local:
  assumes "Suc i < 4" and "take (dv3_lower (Suc i)) buf' = take (dv3_lower (Suc i)) buf"
  shows "dv3_chk i buf' = dv3_chk i buf"
  using less3 [OF assms(1)]
proof (elim disjE)
  assume "i = 0"
  then show ?thesis
    using nth_take_eq [OF assms(2), of 1] by (simp add: dv3_chk_def dv3_lower_def)
next
  assume "i = Suc 0"
  then show ?thesis
    using dv3_len_local [OF assms(2)] by (simp add: dv3_chk_def dv3_lower_def)
next
  assume i: "i = 2"
  have "buf' ! 14 = buf ! 14" "take 14 buf' = take 14 buf"
    using nth_take_eq [OF assms(2), of 14] take_take_eq [OF assms(2), of 14] i
    by (simp_all add: dv3_lower_def)
  then show ?thesis by (simp add: dv3_chk_def i)
qed

lemma dv3_GetLength_header:
  "Suc i < 4 \<Longrightarrow> GetLength (pStepList DobotV3Format ! i) buf m = Some (dv3_lower (Suc i))"
  by (drule less3, elim disjE)
    (simp_all add: dv3_step_nth dv3_lower_def DobotV3Format_Sof2Len_def
      DobotV3Format_LengthLen_def DobotV3Format_HeadLen_def)

lemma dv3_StepCheck_header:
  assumes "Suc i < 4" and "15 \<le> length buf"
  shows "StepCheck (pStepList DobotV3Format ! i) buf m =
           Some (if dv3_chk i buf then ProtocolFrame_DETRUE else ProtocolFrame_DEFALSE)"
  using less3 [OF assms(1)] assms(2)
  by (elim disjE) (simp_all add: dv3_step_nth Sof2_Some Length_Some Head_Some)

lemma dv3_chk1: "(\<forall>j<3. dv3_chk j buf) \<Longrightarrow> dv3_len buf \<le> DobotV3Format_PAYLOAD_LENGTH"
  by (drule spec [of _ 1]) (simp add: dv3_chk_def)

lemma dv3_GetLength_packet:
  assumes "\<forall>j<3. dv3_chk j buf" and "15 \<le> length buf"
  shows "GetLength (pStepList DobotV3Format ! 3) buf m = Some (dv3_packet_len buf)"
  using assms(2) dv3_chk1 [OF assms(1)] by (simp add: dv3_step_nth PacketCRCLen_Some)

lemma dv3_StepCheck_packet:
  assumes "\<forall>j<3. dv3_chk j buf" and "dv3_packet_len buf \<le> length buf"
  shows "StepCheck (pStepList DobotV3Format ! 3) buf m =
           Some (if dv3_chk 3 buf then ProtocolFrame_DETRUE else ProtocolFrame_DEFALSE)"
  using assms(2) dv3_chk1 [OF assms(1)] by (simp add: dv3_step_nth PacketCRC_Some)

lemma dv3_packet_len_local:
  "take (dv3_lower 3) buf' = take (dv3_lower 3) buf \<Longrightarrow> dv3_packet_len buf' = dv3_packet_len buf"
  using dv3_len_local [of "dv3_lower 3" buf' buf] by (simp add: dv3_packet_len_def dv3_lower_def)

lemma dv3_packet_len_bounds:
  "\<forall>j<3. dv3_chk j buf \<Longrightarrow> dv3_lower 3 < dv3_packet_len buf \<and> dv3_packet_len buf < 65536"
  by (drule dv3_chk1) (simp add: dv3_packet_len_def dv3_lower_def)

lemma Suc_eq_4: "Suc i = 4 \<longleftrightarrow> i = 3"
  by simp

interpretation dv3: frame_format DobotV3Format DobotV3Format_PACKET_LENGTH dv3_lower dv3_chk dv3_packet_len
proof (unfold_locales, unfold dv3_steps_length Suc_eq_4)
  show "pStepList DobotV3Format \<noteq> []" by (simp add: DobotV3Format_def)
next
  fix i m :: nat and buf :: bytes
  assume "Suc i < 4" "length buf = DobotV3Format_PACKET_LENGTH"
  then show "\<exists>r. StepCheck (pStepList DobotV3Format ! i) buf m = Some r \<and>
                 (r \<noteq> ProtocolFrame_DEFALSE) = dv3_chk i buf"
    by (simp add: dv3_StepCheck_header)
next
  fix i m :: nat and buf :: bytes
  assume "i = 3" "length buf = DobotV3Format_PACKET_LENGTH"
    "\<forall>j<i. dv3_chk j buf" "dv3_packet_len buf \<le> DobotV3Format_PACKET_LENGTH"
  then show "\<exists>r. StepCheck (pStepList DobotV3Format ! i) buf m = Some r \<and>
                 (r \<noteq> ProtocolFrame_DEFALSE) = dv3_chk i buf"
    by (simp only: dv3_StepCheck_packet) simp
next
  fix i :: nat and buf buf' :: bytes
  assume "Suc i < 4" "take (dv3_lower (Suc i)) buf' = take (dv3_lower (Suc i)) buf"
  then show "dv3_chk i buf' = dv3_chk i buf" by (rule dv3_chk_local)
next
  fix i m :: nat and buf :: bytes
  assume "i = 3" "length buf = DobotV3Format_PACKET_LENGTH" "\<forall>j<i. dv3_chk j buf"
  then show "GetLength (pStepList DobotV3Format ! i) buf m = Some (dv3_packet_len buf)"
    by (simp only: dv3_GetLength_packet)
next
  fix i :: nat and buf :: bytes
  assume "i = 3" "\<forall>j<i. dv3_chk j buf"
  then show "dv3_lower i < dv3_packet_len buf \<and> dv3_packet_len buf < 65536"
    by (simp only: dv3_packet_len_bounds)
next
  fix i :: nat and buf buf' :: bytes
  assume i: "i = 3" and t: "take (dv3_lower i) buf' = take (dv3_lower i) buf"
  from t show "dv3_packet_len buf' = dv3_packet_len buf"
    unfolding i by (rule dv3_packet_len_local)
next
  fix i :: nat and buf buf' :: bytes
  assume i: "i = 3" and t: "take (dv3_packet_len buf) buf' = take (dv3_packet_len buf) buf"
  from t show "dv3_chk i buf' = dv3_chk i buf" unfolding i by (rule dv3_chk3_local)
next
  show "(4::nat) < 256" "dv3_lower 0 = 0" "DobotV3Format_PACKET_LENGTH < 65536"
    and "dv3_lower (4 - 1) \<le> DobotV3Format_PACKET_LENGTH"
    by (simp_all add: dv3_lower_def)
next
  fix i m :: nat and buf :: bytes
  assume "Suc i < 4"
  then show "GetLength (pStepList DobotV3Format ! i) buf m = Some (dv3_lower (Suc i))"
    by (rule dv3_GetLength_header)
next
  fix i assume "Suc i < 4"
  then show "dv3_lower i < dv3_lower (Suc i)"
    using less3 [of i] by (auto simp: dv3_lower_def)
qed


section \<open>What the encoder writes\<close>

text \<open>The bytes the encoder leaves in the buffer.\<close>

definition dv3_header :: "bytes \<Rightarrow> u8 \<Rightarrow> bytes" where
  "dv3_header p n = [DobotV3Format_SOF1, DobotV3Format_SOF2] @ bytes16 (ucast n) @ take 10 (drop 4 p)"

definition dv3_body :: "bytes \<Rightarrow> u8 \<Rightarrow> bytes" where
  "dv3_body p n = dv3_header p n @ [crc8 (dv3_header p n)] @ take (unat n) (drop 15 p)"

definition dv3_encoded :: "bytes \<Rightarrow> u8 \<Rightarrow> bytes" where
  "dv3_encoded p n = dv3_body p n @ bytes16 (crc16 (dv3_body p n))"

lemma dv3_header_length: "15 \<le> length p \<Longrightarrow> length (dv3_header p n) = 14"
  by (simp add: dv3_header_def)

lemma dv3_body_length: "15 + unat n \<le> length p \<Longrightarrow> length (dv3_body p n) = 15 + unat n"
  by (simp add: dv3_body_def dv3_header_length)

lemma dv3_encoded_length: "15 + unat n \<le> length p \<Longrightarrow> length (dv3_encoded p n) = unat n + 17"
  by (simp add: dv3_encoded_def dv3_body_length)

lemma take_Suc4: "take (Suc (Suc (Suc (Suc n)))) (a # b # c # d # xs) = a # b # c # d # take n xs"
  by simp

lemma PacketEncoder_Some:
  assumes len: "unat n + 17 \<le> length p"
  shows "DobotV3Format_PacketEncoder p n =
           Some (dv3_encoded p n @ drop (unat n + 17) p, unat n + 17)"
proof -
  define p2 where "p2 = [0xAA, 0xBB] @ bytes16 (ucast n) @ drop 4 p"
  have w1: "wr16 (p[0 := 0xAA, 1 := 0xBB]) 2 (ucast n) = Some p2"
    using len
    by (cases p; cases "tl p") (auto simp: wr16_def wr_range_def p2_def numeral_eq_Suc)
  have l2: "length p2 = length p" using len by (simp add: p2_def)
  have t14: "take 14 p2 = dv3_header p n"
    using len by (simp add: p2_def dv3_header_def)
  define p3 where "p3 = p2[14 := crc8 (dv3_header p n)]"
  have p3: "p3 = dv3_header p n @ [crc8 (dv3_header p n)] @ drop 15 p"
  proof -
    have "p3 = take 14 p2 @ [crc8 (dv3_header p n)] @ drop 15 p2"
      using len l2 by (simp add: p3_def upd_conv_take_nth_drop)
    moreover have "drop 15 p2 = drop 15 p" by (simp add: p2_def)
    ultimately show ?thesis by (simp only: t14)
  qed
  have body: "take (unat n + 15) p3 = dv3_body p n"
    using len by (simp add: p3 dv3_body_def dv3_header_length)
  have rest: "drop (unat n + 17) p3 = drop (unat n + 17) p"
    using len by (simp add: p3 dv3_header_length numeral_eq_Suc)
  have l3: "length p3 = length p" by (simp add: p3_def l2)
  have w2: "wr16 p3 (15 + unat n) (crc16 (dv3_body p n)) =
      Some (dv3_encoded p n @ drop (unat n + 17) p)"
    using len l3 body rest
    by (simp add: wr16_def wr_range_Some dv3_encoded_def add.commute)
  have "p \<noteq> []" using len by auto
  then show ?thesis
    using len l2 l3 w1 w2
    by (simp add: DobotV3Format_PacketEncoder_def Let_def mem_safe t14 body add.commute
        flip: p3_def)
qed

end
