(* ===== verification/ProtoFrame.thy ===== *)
theory ProtoFrame imports ProtoTypes begin

text \<open>
  \<open>ProtocolFrame.c\<close> of \<open>Plugins/MagicDevicePlugin/DobotV3.0\<close>, without its decoding loop: the
  time base, the link macros, the packet parameters, and the registry of links with the functions
  that enable, connect and disconnect them. The registry invariant \<open>registry_ok\<close> says that the
  link counter counts the registered links, that no link is registered twice, and that every
  registered link has a format and a function list.
\<close>

section \<open>Time\<close>

definition GetStartTime :: "('w, 'z) frame_state_scheme \<Rightarrow> u32" where
  "GetStartTime s = timeCNT s"

definition IsTimeOut :: "('w, 'z) frame_state_scheme \<Rightarrow> u32 \<Rightarrow> u32 \<Rightarrow> bool" where
  "IsTimeOut s timeOut timeStart \<longleftrightarrow> timeCNT s - timeStart > timeOut"

definition GetTimeElapse :: "('w, 'z) frame_state_scheme \<Rightarrow> u32 \<Rightarrow> u32" where
  "GetTimeElapse s timeStart = timeCNT s - timeStart"

definition ProtocolFrame_TIMECNT :: "u32 \<Rightarrow> ('w, 'z) frame_state_scheme \<Rightarrow> ('w, 'z) frame_state_scheme" where
  "ProtocolFrame_TIMECNT ms s = s\<lparr>timeCNT := timeCNT s + ms\<rparr>"

section \<open>The link macros\<close>

definition MSGCLEAR :: "'w link \<Rightarrow> 'w link" where
  "MSGCLEAR l = l\<lparr>msgReadIndex := 0, msgWriteIndex := 0\<rparr>"

definition MSGREAD :: "'w link \<Rightarrow> (u8 \<times> 'w link) option" where
  "MSGREAD l = do {
     d \<leftarrow> rd8 (pDeMsgBuff l) (msgReadIndex l);
     Some (d, l\<lparr>msgReadIndex := u32n (msgReadIndex l + 1)\<rparr>) }"

definition MSGSETREADINDEX :: "nat \<Rightarrow> 'w link \<Rightarrow> 'w link" where
  "MSGSETREADINDEX i l = l\<lparr>msgReadIndex := i\<rparr>"

definition STEPCLEAR :: "'w link \<Rightarrow> 'w link" where
  "STEPCLEAR l = l\<lparr>deStep := 0, deLenght := 0, sofMark := False\<rparr>"

definition JUDGE_DELENGHT_IS_LIMIT :: "'w link \<Rightarrow> 'w link" where
  "JUDGE_DELENGHT_IS_LIMIT l =
     (if deStepLength l > maxMsgNum l then MSGSETREADINDEX 1 (STEPCLEAR l) else l)"

definition LinkMsgToZero :: "nat \<Rightarrow> 'w link \<Rightarrow> 'w link option" where
  "LinkMsgToZero moveIndex l = do {
     let lenght = sub32 (msgWriteIndex l) moveIndex;
     buf \<leftarrow> foldM (\<lambda>cir b. do { v \<leftarrow> rd8 b (moveIndex + cir); wr8 b cir v })
              [0..<lenght] (pDeMsgBuff l);
     Some (l\<lparr>pDeMsgBuff := buf, msgWriteIndex := lenght, msgReadIndex := 0\<rparr>) }"

lemmas link_macros = MSGCLEAR_def MSGSETREADINDEX_def STEPCLEAR_def

text \<open>The copy loop of \<open>LinkMsgToZero\<close> moves the bytes although source and target overlap.\<close>

lemma move_loop:
  assumes "m + n \<le> length b"
  shows "foldM (\<lambda>cir b. do { v \<leftarrow> rd8 b (m + cir); wr8 b cir v }) [0..<n] b =
           Some (take n (drop m b) @ drop n b)"
  using assms
proof (induction n)
  case 0
  then show ?case by simp
next
  case (Suc n)
  let ?b = "take n (drop m b) @ drop n b"
  have l: "length ?b = length b" using Suc.prems by simp
  have "?b ! (m + n) = b ! (m + n)"
    using Suc.prems by (cases "m = 0") (simp_all add: nth_append add.commute)
  moreover have "?b[n := b ! (m + n)] = take (Suc n) (drop m b) @ drop (Suc n) b"
  proof -
    have t: "take (Suc n) (drop m b) = take n (drop m b) @ [b ! (m + n)]"
      using take_Suc_conv_app_nth [of n "drop m b"] Suc.prems by simp
    have d: "drop n b = b ! n # drop (Suc n) b" using Suc.prems by (simp add: Cons_nth_drop_Suc)
    have "length (take n (drop m b)) = n" using Suc.prems by simp
    then show ?thesis by (simp add: t d list_update_append)
  qed
  moreover have "m + n < length ?b" "n < length ?b" unfolding l using Suc.prems by simp_all
  ultimately show ?case
    using Suc by (simp only: upt_Suc_append le0 foldM_append Suc_leD option.case
      add_Suc_right foldM.simps rd8_Some wr8_Some bind.bind_lunit)
qed

lemma LinkMsgToZero_Some [mem_safe]:
  assumes "m \<le> msgWriteIndex l" and "msgWriteIndex l \<le> length (pDeMsgBuff l)"
    and "msgWriteIndex l < 4294967296"
  shows "LinkMsgToZero m l = Some (l\<lparr>
           pDeMsgBuff := take (msgWriteIndex l - m) (drop m (pDeMsgBuff l)) @
                         drop (msgWriteIndex l - m) (pDeMsgBuff l),
           msgWriteIndex := msgWriteIndex l - m, msgReadIndex := 0\<rparr>)"
  using assms by (simp add: LinkMsgToZero_def move_loop Let_def)

section \<open>Links and packet parameters of a frame\<close>

definition get_link :: "nat \<Rightarrow> ('w, 'z) frame_state_scheme \<Rightarrow> 'w link option" where
  "get_link i s = (if i < length (links s) then Some (links s ! i) else None)"

definition set_link :: "nat \<Rightarrow> 'w link \<Rightarrow> ('w, 'z) frame_state_scheme \<Rightarrow> ('w, 'z) frame_state_scheme" where
  "set_link i l s = s\<lparr>links := (links s)[i := l]\<rparr>"

text \<open>An update through a link pointer.\<close>

definition upd_link :: "('w link \<Rightarrow> 'w link) \<Rightarrow> nat \<Rightarrow> ('w, 'z) frame_state_scheme \<Rightarrow>
    ('w, 'z) frame_state_scheme option" where
  "upd_link f i s = do { l \<leftarrow> get_link i s; Some (set_link i (f l) s) }"

lemma get_link_Some [mem_safe]: "i < length (links s) \<Longrightarrow> get_link i s = Some (links s ! i)"
  by (simp add: get_link_def)

lemma upd_link_Some [mem_safe]:
  "i < length (links s) \<Longrightarrow>
   upd_link f i s = Some (s\<lparr>links := (links s)[i := f (links s ! i)]\<rparr>)"
  by (simp add: upd_link_def get_link_def set_link_def)

definition PacketParmFill :: "nat option \<Rightarrow> bytes option \<Rightarrow> nat \<Rightarrow> ('w, 'z) frame_state_scheme \<Rightarrow>
    ('w, 'z) frame_state_scheme option" where
  "PacketParmFill p pPacket' n s = do {
     let pp = pPacketParm s;
     buf \<leftarrow> (case pPacket' of None \<Rightarrow> Some (pPacket pp)
              | Some src \<Rightarrow> do { d \<leftarrow> rd_range src 0 n; wr_range (pPacket pp) 0 d });
     Some (s\<lparr>pPacketParm := \<lparr>pLink = p, pPacket = buf, packetLength = n, errCode = 0,
               sendMark = False, exitCallPack = False, exitLoop = True\<rparr>\<rparr>) }"

section \<open>The registry\<close>

definition GetLinkInFrame :: "('w, 'z) frame_state_scheme \<Rightarrow> nat \<Rightarrow> nat option" where
  "GetLinkInFrame s p = find_index (\<lambda>q. q = Some p) (pLinkList s)"

definition GetNullLinkInFrame :: "('w, 'z) frame_state_scheme \<Rightarrow> nat option" where
  "GetNullLinkInFrame s = find_index (\<lambda>q. q = None) (pLinkList s)"

definition GetLinkIsEnable :: "nat \<Rightarrow> ('w, 'z) frame_state_scheme \<Rightarrow> bool option" where
  "GetLinkIsEnable p s = map_option enable (get_link p s)"

definition SetLinkIsEnable :: "nat \<Rightarrow> bool \<Rightarrow> ('w, 'z) frame_state_scheme \<Rightarrow>
    ('w, 'z) frame_state_scheme option" where
  "SetLinkIsEnable p status s = do {
     l \<leftarrow> get_link p s;
     if status = enable l then Some s
     else upd_link (\<lambda>l. (if status then MSGCLEAR (STEPCLEAR l) else l)\<lparr>enable := status\<rparr>) p s }"

definition SetLinkEnableOnly :: "nat \<Rightarrow> ('w, 'z) frame_state_scheme \<Rightarrow>
    ('w, 'z) frame_state_scheme option" where
  "SetLinkEnableOnly p s = foldM (\<lambda>cir s.
     if linkMaxNum s \<le> cir then None else
     case pLinkList s ! cir of
       None \<Rightarrow> None
     | Some q \<Rightarrow>
         if q \<noteq> p then upd_link (\<lambda>l. l\<lparr>enable := False\<rparr>) q s
         else do {
           l \<leftarrow> get_link q s;
           s \<leftarrow> (if \<not> enable l then upd_link (\<lambda>l. MSGCLEAR (STEPCLEAR l)) p s else Some s);
           upd_link (\<lambda>l. l\<lparr>enable := True\<rparr>) q s })
     [0..<linkNum s] s"

definition SetLinkDisableOnly :: "nat \<Rightarrow> ('w, 'z) frame_state_scheme \<Rightarrow>
    ('w, 'z) frame_state_scheme option" where
  "SetLinkDisableOnly p s = foldM (\<lambda>cir s.
     if linkMaxNum s \<le> cir then None else
     case pLinkList s ! cir of
       None \<Rightarrow> None
     | Some q \<Rightarrow>
         if q \<noteq> p then do {
           l \<leftarrow> get_link q s;
           s \<leftarrow> (if \<not> enable l then upd_link (\<lambda>l. MSGCLEAR (STEPCLEAR l)) p s else Some s);
           upd_link (\<lambda>l. l\<lparr>enable := True\<rparr>) q s }
         else upd_link (\<lambda>l. l\<lparr>enable := False\<rparr>) q s)
     [0..<linkNum s] s"

definition RegisterLink :: "nat \<Rightarrow> ('w, 'z) frame_state_scheme \<Rightarrow>
    (('w, 'z) frame_state_scheme \<times> bool) option" where
  "RegisterLink p s =
     (case (case GetLinkInFrame s p of
              Some index \<Rightarrow> Some (index, s)
            | None \<Rightarrow> (case GetNullLinkInFrame s of
                Some index \<Rightarrow> Some (index, s\<lparr>linkNum := u8n (linkNum s + 1)\<rparr>)
              | None \<Rightarrow> None)) of
        None \<Rightarrow> Some (s, False)
      | Some (index, s) \<Rightarrow> do {
          s \<leftarrow> upd_link (\<lambda>l. MSGCLEAR (STEPCLEAR l)) p s;
          Some (s\<lparr>pLinkList := (pLinkList s)[index := Some p]\<rparr>, True) })"

definition ConnectFLFF :: "nat \<Rightarrow> nat \<Rightarrow> nat \<Rightarrow> ('w, 'z) frame_state_scheme \<Rightarrow>
    (('w, 'z) frame_state_scheme \<times> bool) option" where
  "ConnectFLFF p fmt fl s = do {
     (s, ok) \<leftarrow> RegisterLink p s;
     if ok then do {
       s \<leftarrow> upd_link (\<lambda>l. l\<lparr>pFormat := Some fmt, pFuncList := Some fl\<rparr>) p s;
       Some (s, True) }
     else Some (s, False) }"

definition DisConnectFLFF :: "nat \<Rightarrow> nat option \<Rightarrow> nat option \<Rightarrow> ('w, 'z) frame_state_scheme \<Rightarrow>
    (('w, 'z) frame_state_scheme \<times> bool) option" where
  "DisConnectFLFF p fmt fl s =
     (case GetLinkInFrame s p of
        None \<Rightarrow> Some (s, False)
      | Some index \<Rightarrow> do {
          l \<leftarrow> get_link p s;
          if fmt \<noteq> None \<and> pFormat l \<noteq> fmt then Some (s, False)
          else if fl \<noteq> None \<and> pFuncList l \<noteq> fl then Some (s, False)
          else do {
            let s = s\<lparr>pLinkList := (pLinkList s)[index := None], linkNum := u8n (linkNum s + 255)\<rparr>;
            s \<leftarrow> upd_link (\<lambda>l. l\<lparr>pFormat := None, pFuncList := None\<rparr>) p s;
            Some (s, True) } })"

section \<open>The registry invariant\<close>

definition registered :: "('w, 'z) frame_state_scheme \<Rightarrow> nat \<Rightarrow> bool" where
  "registered s p \<longleftrightarrow> Some p \<in> set (pLinkList s)"

definition registry_ok :: "('w, 'z) frame_state_scheme \<Rightarrow> bool" where
  "registry_ok s \<longleftrightarrow>
     linkMaxNum s < 256 \<and>
     linkNum s = length (filter (\<lambda>q. q \<noteq> None) (pLinkList s)) \<and>
     (\<forall>i < linkMaxNum s. \<forall>j < linkMaxNum s.
        pLinkList s ! i = pLinkList s ! j \<and> pLinkList s ! i \<noteq> None \<longrightarrow> i = j) \<and>
     (\<forall>q \<in> set (pLinkList s). case q of None \<Rightarrow> True | Some p \<Rightarrow>
        p < length (links s) \<and> pFormat (links s ! p) \<noteq> None \<and> pFuncList (links s ! p) \<noteq> None)"

lemma registry_okI:
  assumes "linkMaxNum s < 256" and "linkNum s = length (filter (\<lambda>q. q \<noteq> None) (pLinkList s))"
    and "\<And>i j p. i < linkMaxNum s \<Longrightarrow> j < linkMaxNum s \<Longrightarrow> pLinkList s ! i = Some p \<Longrightarrow>
           pLinkList s ! j = Some p \<Longrightarrow> i = j"
    and "\<And>p. registered s p \<Longrightarrow>
           p < length (links s) \<and> pFormat (links s ! p) \<noteq> None \<and> pFuncList (links s ! p) \<noteq> None"
  shows "registry_ok s"
  using assms unfolding registry_ok_def registered_def by (fastforce split: option.split)

lemma registry_okD:
  assumes "registry_ok s"
  shows "linkMaxNum s < 256" "linkNum s = length (filter (\<lambda>q. q \<noteq> None) (pLinkList s))"
    "\<lbrakk>i < linkMaxNum s; j < linkMaxNum s; pLinkList s ! i = Some p; pLinkList s ! j = Some p\<rbrakk> \<Longrightarrow> i = j"
    "registered s p \<Longrightarrow>
       p < length (links s) \<and> pFormat (links s ! p) \<noteq> None \<and> pFuncList (links s ! p) \<noteq> None"
  using assms by (auto simp: registry_ok_def registered_def split: option.splits)

text \<open>Writing one entry changes the number of non-NULL entries by the entry.\<close>

lemma filter_update:
  "i < length xs \<Longrightarrow>
   length (filter P (xs[i := x])) + (if P (xs ! i) then 1 else 0) =
   length (filter P xs) + (if P x then 1 else 0)"
proof (induction xs arbitrary: i)
  case (Cons y ys)
  then show ?case by (cases i) auto
qed simp

lemma linkNum_bound: "registry_ok s \<Longrightarrow> linkNum s \<le> linkMaxNum s"
  by (simp add: registry_okD(2) length_filter_le)

lemma GetLinkInFrame_None: "GetLinkInFrame s p = None \<longleftrightarrow> \<not> registered s p"
  by (auto simp: GetLinkInFrame_def find_index_None registered_def in_set_conv_nth)

lemma GetLinkInFrame_Some:
  "GetLinkInFrame s p = Some i \<Longrightarrow> i < linkMaxNum s \<and> pLinkList s ! i = Some p \<and> registered s p"
  by (auto simp: GetLinkInFrame_def find_index_Some registered_def in_set_conv_nth)

lemma GetNullLinkInFrame_None: "GetNullLinkInFrame s = None \<longleftrightarrow> None \<notin> set (pLinkList s)"
  by (auto simp: GetNullLinkInFrame_def find_index_None in_set_conv_nth)

lemma GetNullLinkInFrame_Some:
  "GetNullLinkInFrame s = Some i \<Longrightarrow> i < linkMaxNum s \<and> pLinkList s ! i = None"
  by (simp add: GetNullLinkInFrame_def find_index_Some)

lemma free_entry:
  assumes "registry_ok s"
  shows "None \<in> set (pLinkList s) \<longleftrightarrow> linkNum s < linkMaxNum s"
proof
  assume "None \<in> set (pLinkList s)"
  then show "linkNum s < linkMaxNum s"
    unfolding registry_okD(2) [OF assms] by (rule length_filter_less) simp
next
  assume less: "linkNum s < linkMaxNum s"
  show "None \<in> set (pLinkList s)"
  proof (rule ccontr)
    assume "None \<notin> set (pLinkList s)"
    then have "filter (\<lambda>q. q \<noteq> None) (pLinkList s) = pLinkList s"
      by (intro filter_True ballI notI) simp
    then show False using less unfolding registry_okD(2) [OF assms] by simp
  qed
qed

text \<open>The link structure after its registration.\<close>

definition fresh_link :: "nat \<Rightarrow> nat \<Rightarrow> 'w link \<Rightarrow> 'w link" where
  "fresh_link fmt fl l = (MSGCLEAR (STEPCLEAR l))\<lparr>pFormat := Some fmt, pFuncList := Some fl\<rparr>"

lemma RegisterLink_eq:
  assumes "p < length (links s)"
  shows "RegisterLink p s = Some
     (case GetLinkInFrame s p of
        Some i \<Rightarrow> (s\<lparr>links := (links s)[p := MSGCLEAR (STEPCLEAR (links s ! p))],
                    pLinkList := (pLinkList s)[i := Some p]\<rparr>, True)
      | None \<Rightarrow> (case GetNullLinkInFrame s of
          Some i \<Rightarrow> (s\<lparr>links := (links s)[p := MSGCLEAR (STEPCLEAR (links s ! p))],
                      pLinkList := (pLinkList s)[i := Some p],
                      linkNum := u8n (linkNum s + 1)\<rparr>, True)
        | None \<Rightarrow> (s, False)))"
  using assms
  by (cases "GetLinkInFrame s p"; cases "GetNullLinkInFrame s")
    (simp_all add: RegisterLink_def upd_link_Some)

lemma ConnectFLFF_eq:
  assumes "p < length (links s)"
  shows "ConnectFLFF p fmt fl s = Some
     (case GetLinkInFrame s p of
        Some i \<Rightarrow> (s\<lparr>links := (links s)[p := fresh_link fmt fl (links s ! p)],
                    pLinkList := (pLinkList s)[i := Some p]\<rparr>, True)
      | None \<Rightarrow> (case GetNullLinkInFrame s of
          Some i \<Rightarrow> (s\<lparr>links := (links s)[p := fresh_link fmt fl (links s ! p)],
                      pLinkList := (pLinkList s)[i := Some p],
                      linkNum := u8n (linkNum s + 1)\<rparr>, True)
        | None \<Rightarrow> (s, False)))"
  using assms
  by (cases "GetLinkInFrame s p"; cases "GetNullLinkInFrame s")
    (simp_all add: ConnectFLFF_def RegisterLink_eq upd_link_Some fresh_link_def)

end
