(* ===== verification/FrameDecode.thy ===== *)
theory FrameDecode imports ProtoFrame begin

text \<open>
  The execution part of \<open>ProtocolFrame.c\<close>: decoding the bytes of a link step by step
  (\<open>DecodeLinkPacket\<close>), handing packets to the functions of the link (\<open>FuncCallBack\<close>),
  running the loops of the functions (\<open>FuncLoop\<close>), and \<open>Exec\<close>. The two
  \<open>while\<close> loops of the decoder and the \<open>while(1)\<close> of \<open>FuncLoop\<close> are partial functions
  whose value \<^term>\<open>None\<close> is undefined behaviour or a loop that does not end; that the decoder
  does end is proved in \<open>DecodeCorrect\<close>.
\<close>

section \<open>Sending and dispatching\<close>

definition send_packet :: "('w, 'z) frame_state_scheme \<Rightarrow> ('w, 'z) frame_state_scheme option" where
  "send_packet s = do {
     p \<leftarrow> pLink (pPacketParm s);
     l \<leftarrow> get_link p s;
     f \<leftarrow> SendData l;
     d \<leftarrow> rd_range (pPacket (pPacketParm s)) 0 (packetLength (pPacketParm s));
     Some (s\<lparr>world := f d (world s)\<rparr>) }"

definition send_error_code :: "('w, 'z) frame_state_scheme frame_env \<Rightarrow> ('w, 'z) frame_state_scheme \<Rightarrow>
    ('w, 'z) frame_state_scheme option" where
  "send_error_code E s =
     (if errCode (pPacketParm s) = 0 then Some s
      else do {
        p \<leftarrow> pLink (pPacketParm s);
        l \<leftarrow> get_link p s;
        fmt \<leftarrow> pFormat l;
        (case ErrCodeSend (formats E fmt) of
           None \<Rightarrow> Some s
         | Some f \<Rightarrow> do { pp \<leftarrow> f (pPacketParm s); Some (s\<lparr>pPacketParm := pp\<rparr>) }) })"

text \<open>The loop of \<open>FuncCallBack\<close> over the entries of a function list.\<close>

fun call_functions :: "('w, 'z) frame_state_scheme frame_env \<Rightarrow>
    ('w, 'z) frame_state_scheme func_struct option list \<Rightarrow> ('w, 'z) frame_state_scheme \<Rightarrow>
    ('w, 'z) frame_state_scheme option" where
  "call_functions E [] s = Some s"
| "call_functions E (None # fs) s = None"
| "call_functions E (Some f # fs) s =
     (case PacketCallBack f of
        None \<Rightarrow> call_functions E fs s
      | Some cb \<Rightarrow> do {
          s \<leftarrow> cb s;
          s \<leftarrow> (if sendMark (pPacketParm s)
               then do { s \<leftarrow> send_error_code E s; send_packet s } else Some s);
          if exitCallPack (pPacketParm s) then Some s else call_functions E fs s })"

definition FuncCallBack :: "('w, 'z) frame_state_scheme frame_env \<Rightarrow> ('w, 'z) frame_state_scheme \<Rightarrow>
    ('w, 'z) frame_state_scheme option" where
  "FuncCallBack E s = do {
     p \<leftarrow> pLink (pPacketParm s);
     l \<leftarrow> get_link p s;
     fl \<leftarrow> pFuncList l;
     call_functions E (funcLists E fl) s }"

section \<open>Loops of the functions\<close>

definition FuncMarkClear :: "('w, 'z) frame_state_scheme \<Rightarrow> ('w, 'z) frame_state_scheme option" where
  "FuncMarkClear s = foldM (\<lambda>cir s.
     if linkMaxNum s \<le> cir then None else do {
       p \<leftarrow> pLinkList s ! cir;
       l \<leftarrow> get_link p s;
       fl \<leftarrow> pFuncList l;
       Some (s\<lparr>loopMark := (loopMark s)(fl := (\<lambda>_. False))\<rparr>) })
     [0..<linkNum s] s"

text \<open>The \<open>while(1)\<close> around one \<open>Loop\<close> function.\<close>

partial_function (option) run_loop :: "('w, 'z) frame_state_scheme frame_env \<Rightarrow> nat \<Rightarrow>
    (('w, 'z) frame_state_scheme \<Rightarrow> ('w, 'z) frame_state_scheme option) \<Rightarrow>
    ('w, 'z) frame_state_scheme \<Rightarrow> ('w, 'z) frame_state_scheme option" where
  "run_loop E p f s = do {
     s \<leftarrow> PacketParmFill (Some p) None 0 s;
     s \<leftarrow> f s;
     s \<leftarrow> (if pLink (pPacketParm s) \<noteq> None \<and> sendMark (pPacketParm s)
          then do { s \<leftarrow> send_error_code E s; send_packet s } else Some s);
     if exitCallPack (pPacketParm s) then Some s else run_loop E p f s }"

definition mark_loop :: "nat \<Rightarrow> nat \<Rightarrow> ('w, 'z) frame_state_scheme \<Rightarrow> ('w, 'z) frame_state_scheme" where
  "mark_loop fl i s = s\<lparr>loopMark := (loopMark s)(fl := (loopMark s fl)(i := True))\<rparr>"

definition FuncLoop :: "('w, 'z) frame_state_scheme frame_env \<Rightarrow> ('w, 'z) frame_state_scheme \<Rightarrow>
    ('w, 'z) frame_state_scheme option" where
  "FuncLoop E s = do {
     s \<leftarrow> FuncMarkClear s;
     foldM (\<lambda>cir1 s.
       case pLinkList s ! cir1 of
         None \<Rightarrow> Some s
       | Some p \<Rightarrow> do {
           l \<leftarrow> get_link p s;
           fl \<leftarrow> pFuncList l;
           foldM (\<lambda>cir2 s.
             case funcLists E fl ! cir2 of
               None \<Rightarrow> Some s
             | Some f \<Rightarrow>
                 if loopMark s fl cir2 then Some s
                 else (case Loop f of
                     None \<Rightarrow> Some (mark_loop fl cir2 s)
                   | Some g \<Rightarrow> do {
                       s \<leftarrow> run_loop E p g s;
                       Some (if exitLoop (pPacketParm s) then mark_loop fl cir2 s else s) }))
             [0..<length (funcLists E fl)] s })
     [0..<linkMaxNum s] s }"

section \<open>Decoding\<close>

definition step_of :: "format \<Rightarrow> nat \<Rightarrow> step_parm option" where
  "step_of fmt i = (if i < length (pStepList fmt) then Some (pStepList fmt ! i) else None)"

text \<open>
  One iteration of the inner loop of \<open>DecodeLinkPacket\<close>, on the link alone. The flag says that
  the iteration has completed a packet, which the first \<open>deLenght\<close> bytes of the buffer hold.
\<close>

definition decode_byte :: "format \<Rightarrow> 'w link \<Rightarrow> ('w link \<times> bool) option" where
  "decode_byte fmt l = do {
     (data, l) \<leftarrow> MSGREAD l;
     if \<not> sofMark l then
       if data = sof fmt then do {
         l \<leftarrow> LinkMsgToZero (sub32 (msgReadIndex l) 1) l;
         let l = l\<lparr>deLenght := 0, sofMark := True\<rparr>;
         st \<leftarrow> step_of fmt (deStep l);
         n \<leftarrow> GetLength st (pDeMsgBuff l) (deLenght l);
         Some (JUDGE_DELENGHT_IS_LIMIT (l\<lparr>deStepLength := n\<rparr>), False) }
       else Some (l, False)
     else do {
       let l = l\<lparr>deLenght := u16n (deLenght l + 1)\<rparr>;
       if deLenght l < deStepLength l then Some (l, False)
       else do {
         st \<leftarrow> step_of fmt (deStep l);
         r \<leftarrow> StepCheck st (pDeMsgBuff l) (deLenght l);
         if r = ProtocolFrame_DEFALSE then Some (MSGSETREADINDEX 1 (STEPCLEAR l), False)
         else do {
           let l = l\<lparr>deStep := u8n (deStep l + 1)\<rparr>;
           if deStep l < length (pStepList fmt) then do {
             st \<leftarrow> step_of fmt (deStep l);
             n \<leftarrow> GetLength st (pDeMsgBuff l) (deLenght l);
             Some (JUDGE_DELENGHT_IS_LIMIT (l\<lparr>deStepLength := n\<rparr>), False) }
           else Some (l, True) } } } }"

text \<open>Handing a complete packet to the functions of its link.\<close>

definition deliver :: "('w, 'z) frame_state_scheme frame_env \<Rightarrow> format \<Rightarrow> nat \<Rightarrow> bytes \<Rightarrow> nat \<Rightarrow>
    ('w, 'z) frame_state_scheme \<Rightarrow> ('w, 'z) frame_state_scheme option" where
  "deliver E fmt p buf n s = do {
     s \<leftarrow> PacketParmFill (Some p) (Some buf) n s;
     s \<leftarrow> (case ErrCodeRead fmt of
            None \<Rightarrow> Some s
          | Some f \<Rightarrow> do { pp \<leftarrow> f (pPacketParm s); Some (s\<lparr>pPacketParm := pp\<rparr>) });
     FuncCallBack E s }"

text \<open>The inner loop: it ends when every byte in the buffer has been read.\<close>

partial_function (option) decode_bytes :: "('w, 'z) frame_state_scheme frame_env \<Rightarrow> format \<Rightarrow> nat \<Rightarrow>
    ('w, 'z) frame_state_scheme \<Rightarrow> ('w, 'z) frame_state_scheme option" where
  "decode_bytes E fmt p s = do {
     l \<leftarrow> get_link p s;
     if \<not> msgReadIndex l < msgWriteIndex l then Some s
     else do {
       (l, complete) \<leftarrow> decode_byte fmt l;
       let s = set_link p l s;
       if \<not> complete then decode_bytes E fmt p s
       else do {
         s \<leftarrow> deliver E fmt p (pDeMsgBuff l) (deLenght l) s;
         s \<leftarrow> upd_link STEPCLEAR p s;
         l \<leftarrow> get_link p s;
         l \<leftarrow> LinkMsgToZero (msgReadIndex l) l;
         decode_bytes E fmt p (set_link p l s) } } }"

text \<open>
  The call of \<open>readData\<close> and what follows up to the inner loop: the bytes go to the buffer, their
  number to an 8-bit variable; when nothing came and the last byte is too long ago, the first byte
  of the buffer is dropped.
\<close>

definition read_link :: "('w, 'z) frame_state_scheme \<Rightarrow> 'w link \<Rightarrow> ('w link \<times> 'w) option" where
  "read_link s l = do {
     rd \<leftarrow> readData l;
     let (chunk, w) = rd (u16n (sub32 (maxMsgNum l) (msgWriteIndex l))) (world s);
     buf \<leftarrow> wr_range (pDeMsgBuff l) (msgWriteIndex l) chunk;
     let l = l\<lparr>pDeMsgBuff := buf\<rparr>;
     let rLen = u8n (length chunk);
     l \<leftarrow> (if rLen \<noteq> 0 then Some (l\<lparr>deStartTime := GetStartTime s\<rparr>)
          else if IsTimeOut s (ucast (deTimeOut l)) (deStartTime l) \<and> msgWriteIndex l \<noteq> 0
          then do { l \<leftarrow> LinkMsgToZero 1 l; Some (STEPCLEAR l) }
          else Some l);
     Some (l\<lparr>msgWriteIndex := u32n (msgWriteIndex l + rLen)\<rparr>, w) }"

text \<open>The outer loop: it ends when a read has left nothing to decode.\<close>

partial_function (option) decode_reads :: "('w, 'z) frame_state_scheme frame_env \<Rightarrow> format \<Rightarrow> nat \<Rightarrow>
    ('w, 'z) frame_state_scheme \<Rightarrow> ('w, 'z) frame_state_scheme option" where
  "decode_reads E fmt p s = do {
     l \<leftarrow> get_link p s;
     (l, w) \<leftarrow> read_link s l;
     let s = set_link p l (s\<lparr>world := w\<rparr>);
     if msgReadIndex l = msgWriteIndex l then Some s
     else do {
       s \<leftarrow> decode_bytes E fmt p s;
       decode_reads E fmt p s } }"

definition DecodeLinkPacket :: "('w, 'z) frame_state_scheme frame_env \<Rightarrow> nat \<Rightarrow>
    ('w, 'z) frame_state_scheme \<Rightarrow> ('w, 'z) frame_state_scheme option" where
  "DecodeLinkPacket E p s = do {
     l \<leftarrow> get_link p s;
     if \<not> enable l then upd_link (\<lambda>l. MSGCLEAR (STEPCLEAR l)) p s
     else do {
       fmt \<leftarrow> pFormat l;
       s \<leftarrow> decode_reads E (formats E fmt) p s;
       l \<leftarrow> get_link p s;
       if \<not> sofMark l then upd_link MSGCLEAR p s else Some s } }"

definition DeLinkDecode :: "('w, 'z) frame_state_scheme frame_env \<Rightarrow>
    ('w, 'z) frame_state_scheme \<Rightarrow> ('w, 'z) frame_state_scheme option" where
  "DeLinkDecode E s = foldM (\<lambda>cir s.
     case pLinkList s ! cir of
       None \<Rightarrow> Some s
     | Some p \<Rightarrow> DecodeLinkPacket E p s)
     [0..<linkMaxNum s] s"

definition Exec :: "('w, 'z) frame_state_scheme frame_env \<Rightarrow>
    ('w, 'z) frame_state_scheme \<Rightarrow> ('w, 'z) frame_state_scheme option" where
  "Exec E s = do { s \<leftarrow> DeLinkDecode E s; FuncLoop E s }"

end
