(* ===== verification/CmdInter.thy ===== *)
theory CmdInter imports DobotFormat FrameDecode begin

text \<open>
  \<open>DobotV3CmdInter.c\<close> of \<open>Plugins/MagicDevicePlugin\<close>: the table of commands waiting for their
  answers. A command has a slot and a handle; its packet is kept in the slot's part of one packet
  memory, sent by \<open>DobotV3CmdInter_Loop\<close> again and again until its retries are used up, and
  matched with the packets received by \<open>DobotV3CmdInter_PacketCallBack\<close>. The state extends the
  frame's, because the callbacks of the command table are the functions the frame calls.
\<close>

section \<open>Types\<close>

datatype cmd_status =
  DobotV3CmdInter_SUCCESS | DobotV3CmdInter_FAIL | DobotV3CmdInter_NOGETSPACE
| DobotV3CmdInter_NOWRITE | DobotV3CmdInter_MATCHLOST | DobotV3CmdInter_SENDREADY
| DobotV3CmdInter_SENDING | DobotV3CmdInter_TIMEOUT | DobotV3CmdInter_NOSPACE
| DobotV3CmdInter_HANDLEERR | DobotV3CmdInter_PKGLENERR | DobotV3CmdInter_NOACK

record send_parm =
  cbMark :: bool
  ackMark :: bool
  setParmMark :: bool
  repeatNum :: u8
  timeOut :: u32

text \<open>
  \<open>struct DobotV3CmdInter_PcaketParm\<close>. \<open>slotHandle\<close> is the address of the handle the slot was
  given to.
\<close>

record cmd_slot =
  userMark :: bool
  writeMark :: bool
  ruleMark :: bool
  slotSend :: bool
  autoFreeMark :: bool
  sendStatus :: cmd_status
  slotHandle :: "nat option"
  slotLink :: "nat option"
  slotLength :: nat
  ruleIndex :: nat
  timeStart :: u32
  slotParm :: send_parm

text \<open>
  A handle, with the address it lives at; \<open>pParm\<close> says which command table it belongs to, if
  \<open>GetCmdSpace\<close> has filled it in.
\<close>

record cmd_handle =
  hAddr :: nat
  pParm :: "nat option"
  hIndex :: nat
  hUserMark :: bool

record cb_parm =
  cbPacket :: bytes
  cbLength :: nat
  cbError :: cmd_status

type_synonym 'w cb_entry = "u16 \<times> (cb_parm \<Rightarrow> 'w \<Rightarrow> 'w) option"

text \<open>
  A matching rule with its callback list: \<open>pCmdCB\<close> is the index of the list, \<open>GetId\<close> the
  function the list was declared with.
\<close>

record match_rule =
  Sort :: "bytes \<Rightarrow> nat \<Rightarrow> bool option"
  Match :: "bytes \<Rightarrow> bytes \<Rightarrow> bool option"
  pCmdCB :: "nat option"
  GetId :: "bytes \<Rightarrow> nat \<Rightarrow> u16 option"

record 'w cmd_state = "'w frame_state" +
  pMatchList :: "match_rule list"
  pPacketList :: bytes
  pPacketParmList :: "cmd_slot list"
  packetSize :: nat
  sendParm :: send_parm
  pCBLists :: "'w cb_entry list list"
  loopIndex :: nat

abbreviation packetListSize :: "('w, 'z) cmd_state_scheme \<Rightarrow> nat" where
  "packetListSize s \<equiv> length (pPacketParmList s)"

text \<open>The number of the command table a function structure points to: there is one.\<close>

abbreviation the_table :: nat where "the_table \<equiv> 0"

section \<open>Slots\<close>

definition get_slot :: "nat \<Rightarrow> ('w, 'z) cmd_state_scheme \<Rightarrow> cmd_slot option" where
  "get_slot i s = (if i < packetListSize s then Some (pPacketParmList s ! i) else None)"

definition upd_slot :: "(cmd_slot \<Rightarrow> cmd_slot) \<Rightarrow> nat \<Rightarrow> ('w, 'z) cmd_state_scheme \<Rightarrow>
    ('w, 'z) cmd_state_scheme option" where
  "upd_slot f i s = do {
     sl \<leftarrow> get_slot i s;
     Some (s\<lparr>pPacketParmList := (pPacketParmList s)[i := f sl]\<rparr>) }"

lemma get_slot_Some [mem_safe]: "i < packetListSize s \<Longrightarrow> get_slot i s = Some (pPacketParmList s ! i)"
  by (simp add: get_slot_def)

lemma upd_slot_Some [mem_safe]:
  "i < packetListSize s \<Longrightarrow>
   upd_slot f i s = Some (s\<lparr>pPacketParmList := (pPacketParmList s)[i := f (pPacketParmList s ! i)]\<rparr>)"
  by (simp add: upd_slot_def get_slot_def)

definition GETPKGADDR :: "('w, 'z) cmd_state_scheme \<Rightarrow> nat \<Rightarrow> nat" where
  "GETPKGADDR s index = index * packetSize s"

text \<open>\<open>ISHANDLEERR\<close>: whether the handle is refused.\<close>

definition ISHANDLEERR :: "cmd_handle \<Rightarrow> ('w, 'z) cmd_state_scheme \<Rightarrow> bool option" where
  "ISHANDLEERR h s = do {
     _ \<leftarrow> pParm h;
     if packetListSize s \<le> hIndex h then Some True
     else do {
       sl \<leftarrow> get_slot (hIndex h) s;
       Some (\<not> userMark sl \<or> slotHandle sl \<noteq> Some (hAddr h)) } }"

definition FILL_SENDPARM :: "send_parm \<Rightarrow> send_parm \<Rightarrow> send_parm" where
  "FILL_SENDPARM fp p = fp\<lparr>cbMark := cbMark p, ackMark := ackMark p, setParmMark := setParmMark p,
     repeatNum := repeatNum p, timeOut := timeOut p\<rparr>"

definition GetCmdSpace :: "cmd_handle \<Rightarrow> bool \<Rightarrow> ('w, 'z) cmd_state_scheme \<Rightarrow>
    cmd_status \<times> cmd_handle \<times> ('w, 'z) cmd_state_scheme" where
  "GetCmdSpace h autoFree s =
     (let h = h\<lparr>pParm := Some the_table\<rparr> in
      case find_index (\<lambda>sl. \<not> userMark sl) (pPacketParmList s) of
        Some index \<Rightarrow>
          let sl = pPacketParmList s ! index in
          (DobotV3CmdInter_SUCCESS, h\<lparr>hIndex := index\<rparr>,
           s\<lparr>pPacketParmList := (pPacketParmList s)[index := sl
               \<lparr>userMark := True, autoFreeMark := autoFree,
                slotParm := FILL_SENDPARM (slotParm sl) (sendParm s), slotHandle := Some (hAddr h)\<rparr>]\<rparr>)
      | None \<Rightarrow> (DobotV3CmdInter_NOSPACE, h\<lparr>hUserMark := False\<rparr>, s))"

definition ClearPkgParm :: "cmd_slot \<Rightarrow> cmd_slot" where
  "ClearPkgParm sl = sl\<lparr>slotHandle := None, writeMark := False, ruleMark := False,
     slotSend := False, userMark := False\<rparr>"

definition FreeCmdSpace :: "cmd_handle \<Rightarrow> ('w, 'z) cmd_state_scheme \<Rightarrow>
    (cmd_status \<times> ('w, 'z) cmd_state_scheme) option" where
  "FreeCmdSpace h s = do {
     bad \<leftarrow> ISHANDLEERR h s;
     if bad then Some (DobotV3CmdInter_HANDLEERR, s)
     else do { s \<leftarrow> upd_slot ClearPkgParm (hIndex h) s; Some (DobotV3CmdInter_SUCCESS, s) } }"

definition IsHandleEffect :: "cmd_handle \<Rightarrow> ('w, 'z) cmd_state_scheme \<Rightarrow> cmd_status option" where
  "IsHandleEffect h s =
     (if pParm h \<noteq> Some the_table then Some DobotV3CmdInter_HANDLEERR
      else do {
        bad \<leftarrow> ISHANDLEERR h s;
        Some (if bad then DobotV3CmdInter_HANDLEERR else DobotV3CmdInter_SUCCESS) })"

definition StopSend :: "cmd_handle \<Rightarrow> ('w, 'z) cmd_state_scheme \<Rightarrow>
    (cmd_status \<times> ('w, 'z) cmd_state_scheme) option" where
  "StopSend h s = do {
     bad \<leftarrow> ISHANDLEERR h s;
     if bad then Some (DobotV3CmdInter_HANDLEERR, s)
     else do { s \<leftarrow> upd_slot ClearPkgParm (hIndex h) s; Some (DobotV3CmdInter_SUCCESS, s) } }"

section \<open>Send parameters\<close>

definition set_send_parm :: "send_parm \<Rightarrow> send_parm \<Rightarrow> send_parm" where
  "set_send_parm new old =
     (let old = (if setParmMark new
                 then old\<lparr>setParmMark := setParmMark new, repeatNum := repeatNum new, timeOut := timeOut new\<rparr>
                 else old)
      in old\<lparr>cbMark := cbMark new, ackMark := ackMark new\<rparr>)"

definition SetDefultSendParm :: "send_parm \<Rightarrow> ('w, 'z) cmd_state_scheme \<Rightarrow> ('w, 'z) cmd_state_scheme" where
  "SetDefultSendParm p s = s\<lparr>sendParm := set_send_parm p (sendParm s)\<rparr>"

definition SetSendParm :: "cmd_handle \<Rightarrow> send_parm \<Rightarrow> ('w, 'z) cmd_state_scheme \<Rightarrow>
    (cmd_status \<times> ('w, 'z) cmd_state_scheme) option" where
  "SetSendParm h p s = do {
     bad \<leftarrow> ISHANDLEERR h s;
     if bad then Some (DobotV3CmdInter_HANDLEERR, s)
     else do {
       s \<leftarrow> upd_slot (\<lambda>sl. sl\<lparr>slotParm := set_send_parm p (slotParm sl)\<rparr>) (hIndex h) s;
       Some (DobotV3CmdInter_SUCCESS, s) } }"

section \<open>Sending\<close>

text \<open>The first rule that claims the command; \<open>index\<close> is an 8-bit parameter.\<close>

fun find_rule :: "match_rule list \<Rightarrow> bytes \<Rightarrow> nat \<Rightarrow> nat \<Rightarrow> nat option option" where
  "find_rule [] p n i = Some None"
| "find_rule (r # rs) p n i = do {
     b \<leftarrow> Sort r p n;
     if b then Some (Some i) else find_rule rs p n (Suc i) }"

definition RuleSort :: "nat \<Rightarrow> bytes \<Rightarrow> nat \<Rightarrow> ('w, 'z) cmd_state_scheme \<Rightarrow>
    (cmd_status \<times> ('w, 'z) cmd_state_scheme) option" where
  "RuleSort index p n s = do {
     let index = u8n index;
     m \<leftarrow> find_rule (pMatchList s) p n 0;
     (case m of
        Some matchIndex \<Rightarrow> do {
          s \<leftarrow> upd_slot (\<lambda>sl. sl\<lparr>ruleIndex := matchIndex, ruleMark := True\<rparr>) index s;
          Some (DobotV3CmdInter_SUCCESS, s) }
      | None \<Rightarrow> do {
          s \<leftarrow> upd_slot (\<lambda>sl. sl\<lparr>ruleMark := False\<rparr>) index s;
          Some (DobotV3CmdInter_MATCHLOST, s) }) }"

definition WritePacket :: "cmd_handle \<Rightarrow> nat option \<Rightarrow> bytes \<Rightarrow> nat \<Rightarrow> ('w, 'z) cmd_state_scheme \<Rightarrow>
    (cmd_status \<times> ('w, 'z) cmd_state_scheme) option" where
  "WritePacket h link p n s =
     (if packetSize s < n then Some (DobotV3CmdInter_PKGLENERR, s)
      else do {
        d \<leftarrow> rd_range p 0 n;
        m \<leftarrow> wr_range (pPacketList s) (GETPKGADDR s (hIndex h)) d;
        s \<leftarrow> upd_slot (\<lambda>sl. sl\<lparr>slotLink := link, slotLength := n,
               timeStart := GetStartTime s - timeOut (slotParm sl),
               sendStatus := DobotV3CmdInter_SENDING, writeMark := True\<rparr>)
               (hIndex h) (s\<lparr>pPacketList := m\<rparr>);
        Some (DobotV3CmdInter_SUCCESS, s) })"

text \<open>\<open>SendData\<close> returns the status, the caller's packet as the encoder leaves it, and the state.\<close>

definition CmdSendData :: "cmd_handle \<Rightarrow> nat option \<Rightarrow> bytes \<Rightarrow> u16 \<Rightarrow> ('w, 'z) cmd_state_scheme \<Rightarrow>
    (cmd_status \<times> bytes \<times> ('w, 'z) cmd_state_scheme) option" where
  "CmdSendData h link p payloadLen s = do {
     bad \<leftarrow> ISHANDLEERR h s;
     if bad then Some (DobotV3CmdInter_HANDLEERR, p, s)
     else do {
       s \<leftarrow> upd_slot (\<lambda>sl. sl\<lparr>sendStatus := DobotV3CmdInter_SENDREADY\<rparr>) (hIndex h) s;
       (p, n) \<leftarrow> DobotV3Format_PacketEncoder p (ucast payloadLen);
       (result, s) \<leftarrow> WritePacket h link p n s;
       if result \<noteq> DobotV3CmdInter_SUCCESS then Some (result, p, s)
       else do {
         (result, s) \<leftarrow> RuleSort (hIndex h) p n s;
         s \<leftarrow> upd_slot (\<lambda>sl. sl\<lparr>slotSend := True\<rparr>) (hIndex h) s;
         Some (result, p, s) } } }"

text \<open>\<open>GetSendAck\<close>: the status, and the answer copied to the caller's buffer if there is one.\<close>

definition GetSendAck :: "cmd_handle \<Rightarrow> bytes option \<Rightarrow> ('w, 'z) cmd_state_scheme \<Rightarrow>
    (cmd_status \<times> bytes option) option" where
  "GetSendAck h pPacket' s = do {
     bad \<leftarrow> ISHANDLEERR h s;
     if bad then Some (DobotV3CmdInter_HANDLEERR, pPacket')
     else do {
       sl \<leftarrow> get_slot (hIndex h) s;
       if \<not> userMark sl then Some (DobotV3CmdInter_NOGETSPACE, pPacket')
       else if \<not> writeMark sl then Some (DobotV3CmdInter_NOWRITE, pPacket')
       else if \<not> ruleMark sl then
         Some (if sendStatus sl = DobotV3CmdInter_TIMEOUT then DobotV3CmdInter_TIMEOUT
               else DobotV3CmdInter_MATCHLOST, pPacket')
       else if sendStatus sl = DobotV3CmdInter_SUCCESS then
         (case pPacket' of
            None \<Rightarrow> Some (sendStatus sl, None)
          | Some buf \<Rightarrow> do {
              d \<leftarrow> rd_range (pPacketList s) (GETPKGADDR s (hIndex h)) (slotLength sl);
              buf \<leftarrow> wr_range buf 0 d;
              Some (sendStatus sl, Some buf) })
       else Some (sendStatus sl, pPacket') } }"

section \<open>Callbacks\<close>

text \<open>\<open>sizeof(DobotV3Format_Packet)\<close>, and the callback parameter made from a packet.\<close>

abbreviation packet_struct_size :: nat where "packet_struct_size \<equiv> 529"

definition make_cb_parm :: "bytes \<Rightarrow> nat \<Rightarrow> nat \<Rightarrow> cmd_status \<Rightarrow> cb_parm option" where
  "make_cb_parm mem off n err = do {
     d \<leftarrow> rd_range mem off n;
     p \<leftarrow> wr_range (replicate packet_struct_size 0) 0 d;
     Some \<lparr>cbPacket = p, cbLength = n, cbError = err\<rparr> }"

text \<open>The callback of the first entry with the id and a function.\<close>

definition find_callback :: "'w cb_entry list \<Rightarrow> u16 \<Rightarrow> (cb_parm \<Rightarrow> 'w \<Rightarrow> 'w) option" where
  "find_callback cbs ident =
     (case find_index (\<lambda>(i, cb). i = ident \<and> cb \<noteq> None) cbs of
        None \<Rightarrow> None | Some k \<Rightarrow> snd (cbs ! k))"

definition CmdCallBackHandle :: "cmd_slot \<Rightarrow> cb_parm \<Rightarrow> ('w, 'z) cmd_state_scheme \<Rightarrow>
    (bool \<times> ('w, 'z) cmd_state_scheme) option" where
  "CmdCallBackHandle sl cbp s =
     (if length (pMatchList s) \<le> ruleIndex sl then None
      else let r = pMatchList s ! ruleIndex sl in
      case pCmdCB r of
        None \<Rightarrow> Some (False, s)
      | Some l \<Rightarrow>
          if length (pCBLists s) \<le> l then None
          else do {
            ident \<leftarrow> GetId r (cbPacket cbp) (cbLength cbp);
            Some (case find_callback (pCBLists s ! l) ident of
                    None \<Rightarrow> (False, s)
                  | Some cb \<Rightarrow> (True, s\<lparr>world := cb cbp (world s)\<rparr>)) })"

definition RegisterCB :: "nat \<Rightarrow> u16 \<Rightarrow> (cb_parm \<Rightarrow> 'w \<Rightarrow> 'w) option \<Rightarrow> ('w, 'z) cmd_state_scheme \<Rightarrow>
    (bool \<times> ('w, 'z) cmd_state_scheme) option" where
  "RegisterCB l ident cb s =
     (if length (pCBLists s) \<le> l then None
      else let cbs = pCBLists s ! l in
      Some (case find_index (\<lambda>(i, _). i = ident) cbs of
          Some k \<Rightarrow> (True, s\<lparr>pCBLists := (pCBLists s)[l := cbs[k := (ident, cb)]]\<rparr>)
        | None \<Rightarrow> (case find_index (\<lambda>(_, c). c = None) cbs of
              Some k \<Rightarrow> (True, s\<lparr>pCBLists := (pCBLists s)[l := cbs[k := (ident, cb)]]\<rparr>)
            | None \<Rightarrow> (False, s))))"

section \<open>The functions the frame calls\<close>

text \<open>
  \<open>DobotV3CmdInter_PacketCallBack\<close>: \<open>answers i s\<close> are the four tests of the loop on slot
  \<open>i\<close>, \<open>finish_answer\<close> is what follows them.
\<close>

definition answers :: "nat \<Rightarrow> ('w, 'z) cmd_state_scheme \<Rightarrow> bool option" where
  "answers i s = do {
     sl \<leftarrow> get_slot i s;
     if \<not> slotSend sl then Some False
     else if \<not> ruleMark sl then Some False
     else if pLink (pPacketParm s) \<noteq> slotLink sl then Some False
     else if length (pMatchList s) \<le> ruleIndex sl then None
     else Match (pMatchList s ! ruleIndex sl) (drop (GETPKGADDR s i) (pPacketList s))
            (pPacket (pPacketParm s)) }"

definition finish_answer :: "nat \<Rightarrow> ('w, 'z) cmd_state_scheme \<Rightarrow> ('w, 'z) cmd_state_scheme option" where
  "finish_answer i s = do {
     sl \<leftarrow> get_slot i s;
     let n = packetLength (pPacketParm s);
     cbp \<leftarrow> make_cb_parm (pPacket (pPacketParm s)) 0 n DobotV3CmdInter_SUCCESS;
     (called, s) \<leftarrow> (if cbMark (slotParm sl) \<and> ackMark (slotParm sl)
                    then CmdCallBackHandle sl cbp s else Some (False, s));
     let pp = (pPacketParm s)\<lparr>exitCallPack := True\<rparr>;
     if called then do {
       s \<leftarrow> (if autoFreeMark sl then upd_slot ClearPkgParm i s else Some s);
       Some (s\<lparr>pPacketParm := pp\<rparr>) }
     else do {
       s \<leftarrow> upd_slot (\<lambda>sl. sl\<lparr>slotLength := n\<rparr>) i s;
       d \<leftarrow> rd_range (pPacket (pPacketParm s)) 0 n;
       m \<leftarrow> wr_range (pPacketList s) (GETPKGADDR s i) d;
       s \<leftarrow> upd_slot (\<lambda>sl. sl\<lparr>slotSend := False, sendStatus := DobotV3CmdInter_SUCCESS\<rparr>) i
              (s\<lparr>pPacketList := m\<rparr>);
       s \<leftarrow> (if autoFreeMark sl then upd_slot ClearPkgParm i s else Some s);
       Some (s\<lparr>pPacketParm := pp\<rparr>) } }"

fun scan_slots :: "nat list \<Rightarrow> ('w, 'z) cmd_state_scheme \<Rightarrow> ('w, 'z) cmd_state_scheme option" where
  "scan_slots [] s = Some s"
| "scan_slots (i # is) s = do {
     a \<leftarrow> answers i s;
     if a then finish_answer i s else scan_slots is s }"

definition DobotV3CmdInter_PacketCallBack :: "('w, 'z) cmd_state_scheme \<Rightarrow> ('w, 'z) cmd_state_scheme option" where
  "DobotV3CmdInter_PacketCallBack s = scan_slots [0..<u8n (packetListSize s)] s"

definition DobotV3CmdInter_Loop :: "('w, 'z) cmd_state_scheme \<Rightarrow> ('w, 'z) cmd_state_scheme option" where
  "DobotV3CmdInter_Loop s =
     (if loopIndex s = packetListSize s
      then Some (s\<lparr>loopIndex := 0, pPacketParm := (pPacketParm s)\<lparr>exitCallPack := True\<rparr>\<rparr>)
      else do {
        let i = loopIndex s;
        let s = s\<lparr>loopIndex := u8n (i + 1)\<rparr>;
        sl \<leftarrow> get_slot i s;
        if \<not> slotSend sl then Some s
        else if \<not> IsTimeOut s (timeOut (slotParm sl)) (timeStart sl) then Some s
        else if repeatNum (slotParm sl) = 0 then do {
          s \<leftarrow> (if cbMark (slotParm sl) then do {
                  cbp \<leftarrow> make_cb_parm (pPacketList s) (GETPKGADDR s i) (slotLength sl) DobotV3CmdInter_TIMEOUT;
                  (_, s) \<leftarrow> CmdCallBackHandle sl cbp s;
                  Some s }
                else Some s);
          upd_slot (\<lambda>sl. if autoFreeMark sl then ClearPkgParm sl
                    else sl\<lparr>slotSend := False, sendStatus := DobotV3CmdInter_TIMEOUT\<rparr>) i s }
        else do {
          s \<leftarrow> upd_slot (\<lambda>sl. sl\<lparr>slotParm := (slotParm sl)\<lparr>repeatNum := repeatNum (slotParm sl) - 1\<rparr>,
                 timeStart := GetStartTime s\<rparr>) i s;
          d \<leftarrow> rd_range (pPacketList s) (GETPKGADDR s i) (slotLength sl);
          p \<leftarrow> wr_range (pPacket (pPacketParm s)) 0 d;
          let s = s\<lparr>pPacketParm := (pPacketParm s)\<lparr>pLink := slotLink sl, pPacket := p,
                packetLength := slotLength sl, errCode := 0, sendMark := True\<rparr>\<rparr>;
          if \<not> ackMark (slotParm sl) then upd_slot ClearPkgParm i s else Some s } })"

end
