(* ===== verification/CmdSlots.thy ===== *)
theory CmdSlots imports CmdInter begin

text \<open>
  The slots of the command table and their handles: which slot a handle gets, what a handle can
  do to its own slot and that it cannot touch another, what \<open>SendData\<close> stores, and the callback
  lists.
\<close>

section \<open>Handles\<close>

text \<open>A handle that \<open>ISHANDLEERR\<close> accepts.\<close>

definition handle_valid :: "cmd_handle \<Rightarrow> ('w, 'z) cmd_state_scheme \<Rightarrow> bool" where
  "handle_valid h s \<longleftrightarrow> pParm h = Some the_table \<and> hIndex h < packetListSize s \<and>
     userMark (pPacketParmList s ! hIndex h) \<and>
     slotHandle (pPacketParmList s ! hIndex h) = Some (hAddr h)"

lemma ISHANDLEERR_Some:
  "pParm h \<noteq> None \<Longrightarrow> ISHANDLEERR h s = Some (\<not> (hIndex h < packetListSize s \<and>
     userMark (pPacketParmList s ! hIndex h) \<and>
     slotHandle (pPacketParmList s ! hIndex h) = Some (hAddr h)))"
  by (auto simp: ISHANDLEERR_def get_slot_def)

lemma ISHANDLEERR_valid: "handle_valid h s \<Longrightarrow> ISHANDLEERR h s = Some False"
  by (simp add: ISHANDLEERR_Some handle_valid_def)

lemma ISHANDLEERR_invalid:
  "pParm h = Some the_table \<Longrightarrow> \<not> handle_valid h s \<Longrightarrow> ISHANDLEERR h s = Some True"
  by (auto simp: ISHANDLEERR_Some handle_valid_def)

lemma IsHandleEffect_eq:
  "IsHandleEffect h s =
     Some (if handle_valid h s then DobotV3CmdInter_SUCCESS else DobotV3CmdInter_HANDLEERR)"
  by (auto simp: IsHandleEffect_def ISHANDLEERR_Some handle_valid_def)

text \<open>
  \<open>GetCmdSpace\<close> gives out the first unused slot, and reports \<open>NOSPACE\<close> exactly when
  every slot is in use, leaving the table alone then. The slot it gives out takes the default send
  parameters, no other slot changes, and the handle is one that \<open>IsHandleEffect\<close> accepts.
\<close>
theorem GetCmdSpace_correct:
  "case GetCmdSpace h autoFree s of (st, h', s') \<Rightarrow>
     if \<forall>i < packetListSize s. userMark (pPacketParmList s ! i)
     then st = DobotV3CmdInter_NOSPACE \<and> s' = s
     else st = DobotV3CmdInter_SUCCESS \<and> handle_valid h' s' \<and> hAddr h' = hAddr h \<and>
       IsHandleEffect h' s' = Some DobotV3CmdInter_SUCCESS \<and>
       \<not> userMark (pPacketParmList s ! hIndex h') \<and>
       (\<forall>i < hIndex h'. userMark (pPacketParmList s ! i)) \<and>
       slotParm (pPacketParmList s' ! hIndex h') = sendParm s \<and>
       autoFreeMark (pPacketParmList s' ! hIndex h') = autoFree \<and>
       (\<forall>i. i \<noteq> hIndex h' \<longrightarrow> pPacketParmList s' ! i = pPacketParmList s ! i) \<and>
       s' = s\<lparr>pPacketParmList := pPacketParmList s'\<rparr>"
proof (cases "find_index (\<lambda>sl. \<not> userMark sl) (pPacketParmList s)")
  case None
  then have all: "\<forall>i < packetListSize s. userMark (pPacketParmList s ! i)"
    by (simp add: find_index_None)
  show ?thesis using all by (simp add: GetCmdSpace_def None Let_def)
next
  case (Some i)
  then have i: "i < packetListSize s" "\<not> userMark (pPacketParmList s ! i)"
      "\<forall>j < i. userMark (pPacketParmList s ! j)"
    by (simp_all add: find_index_Some)
  then have ne: "\<not> (\<forall>i < packetListSize s. userMark (pPacketParmList s ! i))" by blast
  show ?thesis
    using i by (simp add: GetCmdSpace_def Some ne Let_def handle_valid_def IsHandleEffect_eq FILL_SENDPARM_def)
qed

text \<open>
  A command space is freed once: \<open>FreeCmdSpace\<close> with a valid handle releases the slot, and
  the handle is refused from then on, by a second \<open>FreeCmdSpace\<close> too, which changes nothing. A
  handle that is not valid is refused without a change.
\<close>
theorem FreeCmdSpace_once:
  assumes "pParm h = Some the_table"
  shows "if handle_valid h s
     then \<exists>s'. FreeCmdSpace h s = Some (DobotV3CmdInter_SUCCESS, s') \<and>
            \<not> userMark (pPacketParmList s' ! hIndex h) \<and> \<not> slotSend (pPacketParmList s' ! hIndex h) \<and>
            \<not> handle_valid h s' \<and> FreeCmdSpace h s' = Some (DobotV3CmdInter_HANDLEERR, s') \<and>
            (\<forall>i. i \<noteq> hIndex h \<longrightarrow> pPacketParmList s' ! i = pPacketParmList s ! i)
     else FreeCmdSpace h s = Some (DobotV3CmdInter_HANDLEERR, s)"
proof (cases "handle_valid h s")
  case True
  then have i: "hIndex h < packetListSize s" by (simp add: handle_valid_def)
  let ?s' = "s\<lparr>pPacketParmList := (pPacketParmList s)[hIndex h := ClearPkgParm (pPacketParmList s ! hIndex h)]\<rparr>"
  have "FreeCmdSpace h s = Some (DobotV3CmdInter_SUCCESS, ?s')"
    using ISHANDLEERR_valid [OF True] i by (simp add: FreeCmdSpace_def upd_slot_Some)
  moreover have nv: "\<not> handle_valid h ?s'" using i by (simp add: handle_valid_def ClearPkgParm_def)
  moreover have "FreeCmdSpace h ?s' = Some (DobotV3CmdInter_HANDLEERR, ?s')"
    using ISHANDLEERR_invalid [OF assms nv] by (simp add: FreeCmdSpace_def)
  ultimately show ?thesis using True i by (simp add: ClearPkgParm_def)
next
  case False
  then show ?thesis using ISHANDLEERR_invalid [OF assms False] by (simp add: FreeCmdSpace_def)
qed

section \<open>The initial state of a command table\<close>

text \<open>
  \<open>DobotV3CmdInter_EXPORT\<close>: \<open>packetNum\<close> slots of \<open>packetSize\<close> bytes, with the default send
  parameters of the declaration, and the rules with their callback lists
  (\<open>DobotV3CmdInter_CMDCB_LS_EXPORT\<close>). Static storage is zero.
\<close>

definition empty_slot :: cmd_slot where
  "empty_slot = \<lparr>userMark = False, writeMark = False, ruleMark = False, slotSend = False,
     autoFreeMark = False, sendStatus = DobotV3CmdInter_SUCCESS, slotHandle = None, slotLink = None,
     slotLength = 0, ruleIndex = 0, timeStart = 0,
     slotParm = \<lparr>cbMark = False, ackMark = False, setParmMark = False, repeatNum = 0, timeOut = 0\<rparr>\<rparr>"

definition DobotV3CmdInter_CMDCB_LS_EXPORT :: "nat \<Rightarrow> 'w cb_entry list" where
  "DobotV3CmdInter_CMDCB_LS_EXPORT sizeCBList = replicate sizeCBList (0, None)"

definition DobotV3CmdInter_EXPORT :: "'w frame_state \<Rightarrow> nat \<Rightarrow> nat \<Rightarrow> u32 \<Rightarrow> u8 \<Rightarrow> match_rule list \<Rightarrow>
    'w cb_entry list list \<Rightarrow> 'w cmd_state" where
  "DobotV3CmdInter_EXPORT fs packetNum packetSz timeout repeats rules cbs =
     frame_state.extend fs
       \<lparr>pMatchList = rules, pPacketList = replicate (packetNum * packetSz) 0,
        pPacketParmList = replicate packetNum empty_slot, packetSize = packetSz,
        sendParm = \<lparr>cbMark = True, ackMark = True, setParmMark = True, repeatNum = repeats, timeOut = timeout\<rparr>,
        pCBLists = cbs, loopIndex = 0\<rparr>"

lemma EXPORT_simps [simp]:
  "pPacketParmList (DobotV3CmdInter_EXPORT fs n sz t r rules cbs) = replicate n empty_slot"
  "pPacketList (DobotV3CmdInter_EXPORT fs n sz t r rules cbs) = replicate (n * sz) 0"
  "packetSize (DobotV3CmdInter_EXPORT fs n sz t r rules cbs) = sz"
  "pMatchList (DobotV3CmdInter_EXPORT fs n sz t r rules cbs) = rules"
  "pCBLists (DobotV3CmdInter_EXPORT fs n sz t r rules cbs) = cbs"
  "loopIndex (DobotV3CmdInter_EXPORT fs n sz t r rules cbs) = 0"
  by (simp_all add: DobotV3CmdInter_EXPORT_def frame_state.defs)

definition two_slots :: "unit cmd_state" where
  "two_slots = DobotV3CmdInter_EXPORT (ProtocolFrame_FRAME_EXPORT 4 1 [] ()) 2 256 1000 3 [] []"

lemma two_slots_list [simp]: "pPacketParmList two_slots = [empty_slot, empty_slot]"
  by (simp add: two_slots_def numeral_2_eq_2)

theorem GetCmdSpace_correct_witness:
  "case GetCmdSpace \<lparr>hAddr = 5, pParm = None, hIndex = 0, hUserMark = False\<rparr> True two_slots of
    (st, h', s') \<Rightarrow> st = DobotV3CmdInter_SUCCESS \<and> handle_valid h' s'"
  using GetCmdSpace_correct [where h = "\<lparr>hAddr = 5, pParm = None, hIndex = 0, hUserMark = False\<rparr>"
      and autoFree = True and s = two_slots]
  by (auto simp: empty_slot_def all_less_Suc0 split: if_splits)

theorem FreeCmdSpace_once_witness:
  "FreeCmdSpace \<lparr>hAddr = 5, pParm = Some the_table, hIndex = 1, hUserMark = False\<rparr> two_slots =
      Some (DobotV3CmdInter_HANDLEERR, two_slots)"
  using FreeCmdSpace_once [of "\<lparr>hAddr = 5, pParm = Some the_table, hIndex = 1, hUserMark = False\<rparr>" two_slots]
  by (simp add: handle_valid_def empty_slot_def)

section \<open>Rules\<close>

text \<open>What the table needs of its rules: on packets with a whole header they are defined.\<close>

definition rules_ok :: "match_rule list \<Rightarrow> bool" where
  "rules_ok rs \<longleftrightarrow> (\<forall>r \<in> set rs. \<forall>p q n. 15 \<le> length p \<longrightarrow> 15 \<le> length q \<longrightarrow>
     (\<exists>b. Sort r p n = Some b) \<and> (\<exists>b. Match r p q = Some b) \<and> (\<exists>i. GetId r p n = Some i))"

lemma rules_okD:
  assumes "rules_ok rs" and "r \<in> set rs" and "15 \<le> length p"
  shows "\<exists>b. Sort r p n = Some b" "\<exists>i. GetId r p n = Some i"
    "15 \<le> length q \<Longrightarrow> \<exists>b. Match r p q = Some b"
  using assms unfolding rules_ok_def by blast+

lemma find_rule_total:
  assumes "rules_ok rs" and "15 \<le> length p"
  shows "\<exists>m. find_rule rs p n i = Some m \<and>
     (case m of
        None \<Rightarrow> \<forall>r \<in> set rs. Sort r p n = Some False
      | Some k \<Rightarrow> i \<le> k \<and> k < i + length rs \<and> Sort (rs ! (k - i)) p n = Some True \<and>
          (\<forall>j < k - i. Sort (rs ! j) p n = Some False))"
  using assms(1)
proof (induction rs arbitrary: i)
  case Nil
  then show ?case by simp
next
  case (Cons r rs)
  have ok: "rules_ok rs" using Cons.prems by (simp add: rules_ok_def)
  obtain b where b: "Sort r p n = Some b" using rules_okD(1) [OF Cons.prems _ assms(2)] by fastforce
  show ?case
  proof (cases b)
    case True
    then show ?thesis using b by (intro exI [of _ "Some i"]) simp
  next
    case False
    obtain m where m: "find_rule rs p n (Suc i) = Some m"
       "case m of None \<Rightarrow> \<forall>r \<in> set rs. Sort r p n = Some False
        | Some k \<Rightarrow> Suc i \<le> k \<and> k < Suc i + length rs \<and> Sort (rs ! (k - Suc i)) p n = Some True \<and>
          (\<forall>j < k - Suc i. Sort (rs ! j) p n = Some False)"
      using Cons.IH [OF ok, of "Suc i"] by blast
    show ?thesis
    proof (cases m)
      case None
      then show ?thesis using b False m by simp
    next
      case (Some k)
      then have "Suc i \<le> k" using m(2) by simp
      then have k: "k - i = Suc (k - Suc i)" by simp
      show ?thesis
        using b False m Some by (intro exI [of _ "Some k"]) (simp add: k all_less_Suc0)
    qed
  qed
qed

section \<open>Sending\<close>

text \<open>The part of the packet memory that belongs to a slot.\<close>

definition slot_bytes :: "('w, 'z) cmd_state_scheme \<Rightarrow> nat \<Rightarrow> bytes" where
  "slot_bytes s i = take (packetSize s) (drop (GETPKGADDR s i) (pPacketList s))"

lemma slot_end: "i < n \<Longrightarrow> i * k + k \<le> n * (k :: nat)"
  using mult_le_mono1 [of "Suc i" n k] by simp

lemma take_drop_write_other:
  assumes "wr_range mem a d = Some mem'" and "a + length d \<le> b \<or> b + k \<le> a"
  shows "take k (drop b mem') = take k (drop b mem)"
proof -
  have len: "a + length d \<le> length mem" and m: "mem' = take a mem @ d @ drop (a + length d) mem"
    using assms(1) by (auto simp: wr_range_def split: if_splits)
  show ?thesis
    using assms(2)
  proof
    assume b: "a + length d \<le> b"
    then have "drop b mem' = drop (b - a - length d) (drop (a + length d) mem)" using len by (simp add: m)
    then show ?thesis using b by simp
  next
    assume b: "b + k \<le> a"
    have "take (b + k) mem' = take (b + k) mem" using b len by (simp add: m min_absorb1)
    then show ?thesis by (metis add.commute take_drop)
  qed
qed

text \<open>What a successful \<open>SendData\<close> leaves behind.\<close>

lemma CmdSendData_spec:
  assumes h: "handle_valid h s" and idx: "hIndex h < 256" and rules: "rules_ok (pMatchList s)"
    and mem: "length (pPacketList s) = packetListSize s * packetSize s"
    and p: "unat (ucast payloadLen :: u8) + 17 \<le> length p"
    and fits: "unat (ucast payloadLen :: u8) + 17 \<le> packetSize s"
  shows "\<exists>st q s'. CmdSendData h link p payloadLen s = Some (st, q, s') \<and>
     st \<in> {DobotV3CmdInter_SUCCESS, DobotV3CmdInter_MATCHLOST} \<and>
     (st = DobotV3CmdInter_SUCCESS \<longleftrightarrow> ruleMark (pPacketParmList s' ! hIndex h)) \<and>
     slotSend (pPacketParmList s' ! hIndex h) \<and> writeMark (pPacketParmList s' ! hIndex h) \<and>
     slotLink (pPacketParmList s' ! hIndex h) = link \<and>
     slotLength (pPacketParmList s' ! hIndex h) = unat (ucast payloadLen :: u8) + 17 \<and>
     take (unat (ucast payloadLen :: u8) + 17) (slot_bytes s' (hIndex h)) = dv3_encoded p (ucast payloadLen) \<and>
     (\<forall>j < packetListSize s. j \<noteq> hIndex h \<longrightarrow> pPacketParmList s' ! j = pPacketParmList s ! j \<and>
        slot_bytes s' j = slot_bytes s j) \<and>
     s' = s\<lparr>pPacketList := pPacketList s', pPacketParmList := (pPacketParmList s)[hIndex h := pPacketParmList s' ! hIndex h]\<rparr> \<and>
     length (pPacketList s') = length (pPacketList s) \<and>
     (ruleIndex (pPacketParmList s' ! hIndex h) < length (pMatchList s) \<or>
      ruleIndex (pPacketParmList s' ! hIndex h) = ruleIndex (pPacketParmList s ! hIndex h)) \<and>
     slotParm (pPacketParmList s' ! hIndex h) = slotParm (pPacketParmList s ! hIndex h) \<and>
     userMark (pPacketParmList s' ! hIndex h) \<and>
     autoFreeMark (pPacketParmList s' ! hIndex h) = autoFreeMark (pPacketParmList s ! hIndex h) \<and>
     timeStart (pPacketParmList s' ! hIndex h) = timeCNT s - timeOut (slotParm (pPacketParmList s ! hIndex h)) \<and>
     (\<forall>k. find_rule (pMatchList s) (dv3_encoded p (ucast payloadLen) @ drop (unat (ucast payloadLen :: u8) + 17) p)
        (unat (ucast payloadLen :: u8) + 17) 0 = Some (Some k) \<longrightarrow>
        ruleMark (pPacketParmList s' ! hIndex h) \<and> ruleIndex (pPacketParmList s' ! hIndex h) = k)"
proof -
  let ?n = "ucast payloadLen :: u8" and ?i = "hIndex h"
  let ?m = "unat ?n + 17"
  have i: "?i < packetListSize s" using h by (simp add: handle_valid_def)
  define q where "q = dv3_encoded p ?n @ drop ?m p"
  have enc: "DobotV3Format_PacketEncoder p ?n = Some (q, ?m)" using p by (simp add: PacketEncoder_Some q_def)
  have lq: "length (dv3_encoded p ?n) = ?m" "15 \<le> length q"
    using p dv3_encoded_length [of ?n p] by (simp_all add: q_def)
  have tq: "take ?m q = dv3_encoded p ?n" using lq by (simp add: q_def)
  obtain m where m: "find_rule (pMatchList s) q ?m 0 = Some m"
    using find_rule_total [OF rules lq(2)] by blast
  let ?a = "?i * packetSize s"
  have end_: "?a + packetSize s \<le> length (pPacketList s)" unfolding mem by (rule slot_end [OF i])
  define mem' where "mem' = take ?a (pPacketList s) @ dv3_encoded p ?n @ drop (?a + ?m) (pPacketList s)"
  have wr: "wr_range (pPacketList s) ?a (dv3_encoded p ?n) = Some mem'"
    using end_ fits lq by (simp add: wr_range_Some mem'_def)
  let ?sl = "(pPacketParmList s ! ?i)"
  define sl2 where "sl2 = ?sl\<lparr>slotLink := link, slotLength := ?m,
     timeStart := GetStartTime s - timeOut (slotParm ?sl), sendStatus := DobotV3CmdInter_SENDING,
     writeMark := True\<rparr>"
  define sl3 where "sl3 = (case m of None \<Rightarrow> sl2\<lparr>ruleMark := False\<rparr>
     | Some k \<Rightarrow> sl2\<lparr>ruleIndex := k, ruleMark := True\<rparr>)"
  define sl where "sl = sl3\<lparr>slotSend := True\<rparr>"
  define s' where "s' = s\<lparr>pPacketList := mem', pPacketParmList := (pPacketParmList s)[?i := sl]\<rparr>"
  have lq2: "?m \<le> length q" using lq by (simp add: q_def)
  let ?s1 = "s\<lparr>pPacketParmList := (pPacketParmList s)[?i := ?sl\<lparr>sendStatus := DobotV3CmdInter_SENDREADY\<rparr>]\<rparr>"
  let ?s2 = "s\<lparr>pPacketList := mem', pPacketParmList := (pPacketParmList s)[?i := sl2]\<rparr>"
  have s1: "upd_slot (\<lambda>sl. sl\<lparr>sendStatus := DobotV3CmdInter_SENDREADY\<rparr>) ?i s = Some ?s1"
    using i by (simp add: upd_slot_Some)
  have w: "WritePacket h link q ?m ?s1 = Some (DobotV3CmdInter_SUCCESS, ?s2)"
    using i fits lq2 tq wr by (simp add: WritePacket_def rd_range_Some GETPKGADDR_def upd_slot_Some
        GetStartTime_def sl2_def)
  have r: "RuleSort ?i q ?m ?s2 = Some (if m = None then DobotV3CmdInter_MATCHLOST else DobotV3CmdInter_SUCCESS,
      s\<lparr>pPacketList := mem', pPacketParmList := (pPacketParmList s)[?i := sl3]\<rparr>)"
    using i idx m by (cases m) (simp_all add: RuleSort_def upd_slot_Some sl3_def)
  have send: "CmdSendData h link p payloadLen s =
      Some (if m = None then DobotV3CmdInter_MATCHLOST else DobotV3CmdInter_SUCCESS, q, s')"
    using ISHANDLEERR_valid [OF h] i s1 enc w r
    by (simp add: CmdSendData_def) (simp add: upd_slot_Some s'_def sl_def)
  have own: "take ?m (slot_bytes s' ?i) = dv3_encoded p ?n"
    using end_ fits lq by (simp add: slot_bytes_def GETPKGADDR_def s'_def mem'_def min_absorb1)
  have other: "slot_bytes s' j = slot_bytes s j" if j: "j < packetListSize s" "j \<noteq> ?i" for j
  proof -
    have "j < ?i \<or> ?i < j" using j(2) by (meson nat_neq_iff)
    then have "?a + length (dv3_encoded p ?n) \<le> j * packetSize s \<or> j * packetSize s + packetSize s \<le> ?a"
      using slot_end [of j ?i "packetSize s"] slot_end [of ?i j "packetSize s"] fits lq by auto
    from take_drop_write_other [OF wr this] show ?thesis
      by (simp add: slot_bytes_def GETPKGADDR_def s'_def)
  qed
  have len': "length (pPacketList s') = length (pPacketList s)"
    using end_ fits lq by (simp add: s'_def mem'_def)
  have idx': "m = Some k \<Longrightarrow> k < length (pMatchList s)" for k
    using find_rule_total [OF rules lq(2), of ?m 0] m by auto
  have user: "userMark ?sl" using h by (simp add: handle_valid_def)
  show ?thesis
    unfolding send using i own other len' idx' user m [unfolded q_def]
    by (intro exI conjI) (rule refl, auto simp: s'_def sl_def sl3_def sl2_def GetStartTime_def split: option.splits)
qed

text \<open>
  \<open>SendData\<close> with a valid handle and an encoded packet that fits a slot: it stays inside the
  packet memory, stores exactly the encoded packet in the handle's slot and marks it for sending on
  the given link, reports \<open>SUCCESS\<close> when a rule claims the command and \<open>MATCHLOST\<close>
  otherwise, and touches neither the state nor the bytes of any other slot.
\<close>
theorem CmdSendData_stores:
  assumes h: "handle_valid h s" and idx: "hIndex h < 256" and rules: "rules_ok (pMatchList s)"
    and mem: "length (pPacketList s) = packetListSize s * packetSize s"
    and p: "unat (ucast payloadLen :: u8) + 17 \<le> length p"
    and fits: "unat (ucast payloadLen :: u8) + 17 \<le> packetSize s"
  shows "\<exists>st q s'. CmdSendData h link p payloadLen s = Some (st, q, s') \<and>
     st \<in> {DobotV3CmdInter_SUCCESS, DobotV3CmdInter_MATCHLOST} \<and>
     (st = DobotV3CmdInter_SUCCESS \<longleftrightarrow> ruleMark (pPacketParmList s' ! hIndex h)) \<and>
     slotSend (pPacketParmList s' ! hIndex h) \<and> writeMark (pPacketParmList s' ! hIndex h) \<and>
     slotLink (pPacketParmList s' ! hIndex h) = link \<and>
     slotLength (pPacketParmList s' ! hIndex h) = unat (ucast payloadLen :: u8) + 17 \<and>
     take (unat (ucast payloadLen :: u8) + 17) (slot_bytes s' (hIndex h)) = dv3_encoded p (ucast payloadLen) \<and>
     (\<forall>j < packetListSize s. j \<noteq> hIndex h \<longrightarrow> pPacketParmList s' ! j = pPacketParmList s ! j \<and>
        slot_bytes s' j = slot_bytes s j)"
  using CmdSendData_spec [OF assms, of link] by (elim exE conjE) (intro exI conjI; assumption)

text \<open>Slot 0 of the small table in use by the handle at address 5.\<close>

definition used_slots :: "unit cmd_state" where
  "used_slots = two_slots\<lparr>pPacketParmList := [empty_slot\<lparr>userMark := True, slotHandle := Some 5\<rparr>, empty_slot]\<rparr>"

definition handle5 :: cmd_handle where
  "handle5 = \<lparr>hAddr = 5, pParm = Some the_table, hIndex = 0, hUserMark = False\<rparr>"

lemma used_slots_simps [simp]:
  "pPacketParmList used_slots = [empty_slot\<lparr>userMark := True, slotHandle := Some 5\<rparr>, empty_slot]"
  "length (pPacketList used_slots) = 512" "packetSize used_slots = 256" "pMatchList used_slots = []"
  by (simp_all add: used_slots_def two_slots_def)

lemma handle5_valid: "handle_valid handle5 used_slots" and handle5_index [simp]: "hIndex handle5 = 0"
  by (simp_all add: handle_valid_def handle5_def)

theorem CmdSendData_stores_witness:
  "\<exists>st q s'. CmdSendData handle5 (Some 0) (replicate 30 7) 4 used_slots = Some (st, q, s') \<and>
     take 21 (slot_bytes s' 0) = dv3_encoded (replicate 30 7) 4"
  using CmdSendData_stores [of handle5 used_slots 4 "replicate 30 7" "Some 0"] handle5_valid
  by (auto simp: rules_ok_def)

text \<open>
  A command whose encoded packet is longer than a slot is refused by \<open>SendData\<close> with
  \<open>PKGLENERR\<close>; its slot stays in use with nothing to send, so that neither an answer nor a
  timeout will release it and only its handle can.
\<close>
theorem CmdSendData_too_long:
  assumes h: "handle_valid h s" and p: "unat (ucast payloadLen :: u8) + 17 \<le> length p"
    and long: "packetSize s < unat (ucast payloadLen :: u8) + 17"
  shows "\<exists>q s'. CmdSendData h link p payloadLen s = Some (DobotV3CmdInter_PKGLENERR, q, s') \<and>
     handle_valid h s' \<and> pPacketList s' = pPacketList s \<and>
     slotSend (pPacketParmList s' ! hIndex h) = slotSend (pPacketParmList s ! hIndex h) \<and>
     (\<forall>j. j \<noteq> hIndex h \<longrightarrow> pPacketParmList s' ! j = pPacketParmList s ! j)"
  using ISHANDLEERR_valid [OF h] h PacketEncoder_Some [OF p] long
  by (auto simp: CmdSendData_def WritePacket_def upd_slot_Some handle_valid_def)

theorem CmdSendData_too_long_witness:
  "\<exists>q s'. CmdSendData handle5 (Some 0) (replicate 300 7) 240 used_slots = Some (DobotV3CmdInter_PKGLENERR, q, s') \<and>
     handle_valid handle5 s'"
  using CmdSendData_too_long [of handle5 used_slots 240 "replicate 300 7" "Some 0"] handle5_valid
  by auto

section \<open>Callback lists\<close>

text \<open>
  The invariant of a callback list: an entry with a function is the first one with its id, so the
  function registered last for an id is the one that is called.
\<close>

definition cb_list_ok :: "'w cb_entry list \<Rightarrow> bool" where
  "cb_list_ok cbs \<longleftrightarrow> (\<forall>j < length cbs. snd (cbs ! j) \<noteq> None \<longrightarrow>
     (\<forall>i < j. fst (cbs ! i) \<noteq> fst (cbs ! j)))"

text \<open>The function an id has, by the first entry with that id.\<close>

definition cb_of :: "'w cb_entry list \<Rightarrow> u16 \<Rightarrow> (cb_parm \<Rightarrow> 'w \<Rightarrow> 'w) option" where
  "cb_of cbs ident = (case find_index (\<lambda>(i, _). i = ident) cbs of None \<Rightarrow> None | Some k \<Rightarrow> snd (cbs ! k))"

lemma find_callback_eq:
  assumes "cb_list_ok cbs"
  shows "find_callback cbs ident = cb_of cbs ident"
proof (cases "find_index (\<lambda>(i, cb). i = ident \<and> cb \<noteq> None) cbs")
  case None
  then have n: "\<And>i. i < length cbs \<Longrightarrow> fst (cbs ! i) = ident \<Longrightarrow> snd (cbs ! i) = None"
    by (auto simp: find_index_None split_beta)
  have "cb_of cbs ident = None"
    using n by (auto simp: cb_of_def find_index_Some split_beta split: option.split)
  then show ?thesis unfolding find_callback_def None by simp
next
  case (Some k)
  then have k: "k < length cbs" "fst (cbs ! k) = ident" "snd (cbs ! k) \<noteq> None"
    by (auto simp: find_index_Some split_beta)
  then have "find_index (\<lambda>(i, _). i = ident) cbs = Some k"
    using assms by (auto simp: find_index_Some split_beta cb_list_ok_def)
  then show ?thesis unfolding find_callback_def cb_of_def Some by simp
qed

lemma cb_of_None: "(\<And>i. i < length cbs \<Longrightarrow> fst (cbs ! i) = ident \<Longrightarrow> snd (cbs ! i) = None) \<Longrightarrow> cb_of cbs ident = None"
  by (auto simp: cb_of_def find_index_Some split_beta split: option.split)

lemma cb_of_entry:
  assumes "cb_list_ok cbs" and "k < length cbs" and "snd (cbs ! k) = Some f"
  shows "cb_of cbs (fst (cbs ! k)) = Some f"
proof -
  have "find_index (\<lambda>(i, _). i = fst (cbs ! k)) cbs = Some k"
    using assms by (auto simp: find_index_Some split_beta cb_list_ok_def)
  then show ?thesis using assms(3) by (simp add: cb_of_def)
qed

lemma cb_of_Some_entry:
  assumes "cb_of cbs ident = Some f"
  obtains k where "k < length cbs" "fst (cbs ! k) = ident" "snd (cbs ! k) = Some f"
  using assms by (auto simp: cb_of_def find_index_Some split_beta split: option.splits)

text \<open>Replacing an entry that has no function, or the first entry with the id.\<close>

lemma cb_list_replace:
  assumes ok: "cb_list_ok cbs" and k: "k < length cbs"
    and old: "fst (cbs ! k) = ident \<or> snd (cbs ! k) = None"
    and first: "\<And>i. i < length cbs \<Longrightarrow> fst (cbs ! i) = ident \<Longrightarrow> k \<le> i \<and> (i = k \<or> snd (cbs ! i) = None)"
  shows "cb_list_ok (cbs[k := (ident, cb)])" and "cb_of (cbs[k := (ident, cb)]) ident = cb"
    and "other \<noteq> ident \<Longrightarrow> cb_of (cbs[k := (ident, cb)]) other = cb_of cbs other"
proof -
  let ?c = "cbs[k := (ident, cb)]"
  show ok': "cb_list_ok ?c"
    unfolding cb_list_ok_def
  proof (intro allI impI)
    fix j i assume j: "j < length ?c" "snd (?c ! j) \<noteq> None" "i < j"
    show "fst (?c ! i) \<noteq> fst (?c ! j)"
      using j ok k first [of i] first [of j]
      by (cases "j = k"; cases "i = k") (auto simp: cb_list_ok_def)
  qed
  have fk: "find_index (\<lambda>(i, _). i = ident) ?c = Some k"
  proof -
    have "fst (?c ! j) \<noteq> ident" if "j < k" for j
    proof
      assume "fst (?c ! j) = ident"
      then have "fst (cbs ! j) = ident" using that by simp
      then show False using first [of j] that k by simp
    qed
    then show ?thesis using k by (simp add: find_index_Some split_beta)
  qed
  then show "cb_of ?c ident = cb" using k by (simp add: cb_of_def)
  show "cb_of ?c other = cb_of cbs other" if o: "other \<noteq> ident"
  proof (cases "cb_of cbs other")
    case (Some f)
    then obtain j where j: "j < length cbs" "fst (cbs ! j) = other" "snd (cbs ! j) = Some f"
      by (rule cb_of_Some_entry)
    then have "j \<noteq> k" using old o by auto
    then show ?thesis using cb_of_entry [OF ok', of j f] j Some by simp
  next
    case None
    have "cb_of ?c other = None"
    proof (rule cb_of_None)
      fix i assume i: "i < length ?c" "fst (?c ! i) = other"
      then have ik: "i \<noteq> k" using o by auto
      then have e: "i < length cbs" "fst (cbs ! i) = other" using i by simp_all
      then have "snd (cbs ! i) = None"
        using cb_of_entry [OF ok e(1)] None by (cases "snd (cbs ! i)") auto
      then show "snd (?c ! i) = None" using ik by simp
    qed
    then show ?thesis using None by simp
  qed
qed

text \<open>
  \<open>RegisterCB\<close> keeps a callback list well formed. It fails exactly when the id has no entry
  and no entry is without a function, and changes nothing then; otherwise the function that an
  answer with this id runs from now on is the one registered, and the function of every other id is
  the one it was.
\<close>
theorem RegisterCB_correct:
  assumes l: "l < length (pCBLists s)" and ok: "cb_list_ok (pCBLists s ! l)"
  shows "\<exists>r s'. RegisterCB l ident cb s = Some (r, s') \<and> cb_list_ok (pCBLists s' ! l) \<and>
     (r \<longleftrightarrow> (\<exists>e \<in> set (pCBLists s ! l). fst e = ident \<or> snd e = None)) \<and>
     (\<not> r \<longrightarrow> s' = s) \<and>
     (r \<longrightarrow> find_callback (pCBLists s' ! l) ident = cb \<and>
        (\<forall>other. other \<noteq> ident \<longrightarrow>
           find_callback (pCBLists s' ! l) other = find_callback (pCBLists s ! l) other))"
proof -
  let ?c = "pCBLists s ! l"
  have fin: "?thesis" if k: "k < length ?c" "fst (?c ! k) = ident \<or> snd (?c ! k) = None"
      "\<And>i. i < length ?c \<Longrightarrow> fst (?c ! i) = ident \<Longrightarrow> k \<le> i \<and> (i = k \<or> snd (?c ! i) = None)"
      "RegisterCB l ident cb s = Some (True, s\<lparr>pCBLists := (pCBLists s)[l := ?c[k := (ident, cb)]]\<rparr>)" for k
  proof -
    note r = cb_list_replace [OF ok k(1,2,3), where cb = cb]
    have "\<exists>e \<in> set ?c. fst e = ident \<or> snd e = None" using k(1,2) nth_mem by blast
    then show ?thesis
      using k(4) l r(1,2) r(3) ok by (auto simp: find_callback_eq)
  qed
  show ?thesis
  proof (cases "find_index (\<lambda>(i, _). i = ident) ?c")
    case (Some k)
    then have k: "k < length ?c" "fst (?c ! k) = ident" "\<forall>j < k. fst (?c ! j) \<noteq> ident"
      by (auto simp: find_index_Some split_beta)
    have first: "k \<le> i \<and> (i = k \<or> snd (?c ! i) = None)" if i: "i < length ?c" "fst (?c ! i) = ident" for i
    proof -
      have "k \<le> i"
      proof (rule ccontr)
        assume "\<not> k \<le> i"
        then have "i < k" by linarith
        then show False using k(3) i(2) by blast
      qed
      moreover have "snd (?c ! i) = None" if "k < i"
      proof (rule ccontr)
        assume "snd (?c ! i) \<noteq> None"
        then have "fst (?c ! k) \<noteq> fst (?c ! i)"
          using ok i(1) that unfolding cb_list_ok_def by blast
        then show False using k(2) i(2) by simp
      qed
      ultimately show ?thesis by (cases "i = k") (simp_all add: le_less)
    qed
    show ?thesis using k first l Some by (intro fin [of k]) (auto simp: RegisterCB_def)
  next
    case none: None
    then have new: "\<forall>i < length ?c. fst (?c ! i) \<noteq> ident" by (auto simp: find_index_None split_beta)
    show ?thesis
    proof (cases "find_index (\<lambda>(_, c). c = None) ?c")
      case (Some k)
      then have "k < length ?c" "snd (?c ! k) = None" by (auto simp: find_index_Some split_beta)
      then show ?thesis using new l none Some by (intro fin [of k]) (auto simp: RegisterCB_def)
    next
      case None
      then have "\<forall>i < length ?c. snd (?c ! i) \<noteq> None" by (auto simp: find_index_None split_beta)
      then have "\<not> (\<exists>e \<in> set ?c. fst e = ident \<or> snd e = None)"
        using new by (metis in_set_conv_nth)
      moreover have "RegisterCB l ident cb s = Some (False, s)"
        using l none None by (simp add: RegisterCB_def)
      ultimately show ?thesis using ok by (intro exI [of _ False] exI [of _ s]) simp
    qed
  qed
qed

theorem RegisterCB_correct_witness:
  "\<exists>r s'. RegisterCB 0 7 (Some (\<lambda>p w. w)) (two_slots\<lparr>pCBLists := [DobotV3CmdInter_CMDCB_LS_EXPORT 2]\<rparr>) =
      Some (r, s') \<and> cb_list_ok (pCBLists s' ! 0)"
  using RegisterCB_correct [of 0 "two_slots\<lparr>pCBLists := [DobotV3CmdInter_CMDCB_LS_EXPORT 2]\<rparr>" 7 "Some (\<lambda>p w. w)"]
  by (auto simp: cb_list_ok_def DobotV3CmdInter_CMDCB_LS_EXPORT_def nth_append)

end
