(* ===== verification/CmdRules.thy ===== *)
theory CmdRules imports DobotFormat begin

text \<open>
  The six rule files \<open>MoozCmdRules.c\<close>, \<open>GeneralCmdRules.c\<close>, \<open>MGoCmdRules.c\<close>,
  \<open>K210ArmCmdRules.c\<close>, \<open>K210CarCmdRules.c\<close>, \<open>MBoxCmdRules.c\<close>: which commands a rule is
  for (\<open>Sort\<close>), and which packet answers which command (\<open>Match\<close>). A packet is the byte list
  its pointer refers to; a field outside it is undefined behaviour.
\<close>

section \<open>Mooz\<close>

definition Mooz_RulesSort :: "bytes \<Rightarrow> nat \<Rightarrow> bool option" where
  "Mooz_RulesSort p n = do { v \<leftarrow> pk_version p; Some (v = DobotV3Format_VER_10) }"

definition Mooz_RulesMatch :: "bytes \<Rightarrow> bytes \<Rightarrow> bool option" where
  "Mooz_RulesMatch sent rcvd = do { a \<leftarrow> pk_cmdId sent; b \<leftarrow> pk_cmdId rcvd; Some (a = b) }"

definition Mooz_GetId :: "bytes \<Rightarrow> nat \<Rightarrow> u16 option" where
  "Mooz_GetId p n = map_option ucast (pk_cmdId p)"

section \<open>General\<close>

text \<open>The comparisons that the newer rules share, in the order of the conjunction.\<close>

definition same_type :: "bytes \<Rightarrow> bytes \<Rightarrow> bool option" where
  "same_type sent rcvd = do {
     q1 \<leftarrow> pk_queueType sent; q2 \<leftarrow> pk_queueType rcvd;
     r1 \<leftarrow> pk_rwType sent; r2 \<leftarrow> pk_rwType rcvd;
     c1 \<leftarrow> pk_cmdId sent; c2 \<leftarrow> pk_cmdId rcvd;
     Some (q1 = q2 \<and> r1 = r2 \<and> c1 = c2) }"

definition General_RulesSort :: "bytes \<Rightarrow> nat \<Rightarrow> bool option" where
  "General_RulesSort p n = do { c \<leftarrow> pk_cmdSet p; Some (c = DobotV3Format_COMMON) }"

definition General_RulesMatch :: "bytes \<Rightarrow> bytes \<Rightarrow> bool option" where
  "General_RulesMatch sent rcvd = do {
     v \<leftarrow> pk_version sent;
     if v = DobotV3Format_VER_11 then same_type sent rcvd else Some False }"

definition General_GetId :: "bytes \<Rightarrow> nat \<Rightarrow> u16 option" where
  "General_GetId p n = map_option ucast (pk_cmdId p)"

section \<open>MagicianGo\<close>

definition MGo_RulesSort :: "bytes \<Rightarrow> nat \<Rightarrow> bool option" where
  "MGo_RulesSort p n = do {
     v \<leftarrow> pk_version p;
     if v \<noteq> DobotV3Format_VER_11 then Some False
     else do { c \<leftarrow> pk_cmdSet p; Some (c = DobotV3Format_MAGICIANGO) } }"

definition MGo_RulesMatch :: "bytes \<Rightarrow> bytes \<Rightarrow> bool option" where
  "MGo_RulesMatch sent rcvd = do {
     t \<leftarrow> same_type sent rcvd;
     s1 \<leftarrow> pk_seqNum sent; s2 \<leftarrow> pk_seqNum rcvd;
     Some (t \<and> s1 = s2) }"

definition MGo_GetId :: "bytes \<Rightarrow> nat \<Rightarrow> u16 option" where
  "MGo_GetId p n = map_option ucast (pk_cmdId p)"

section \<open>K210 arm, K210 car, MagicBox\<close>

definition sort_device :: "u8 \<Rightarrow> DobotV3DevVer11List \<Rightarrow> bytes \<Rightarrow> bool option" where
  "sort_device cset dev p = do {
     v \<leftarrow> pk_version p;
     if v \<noteq> DobotV3Format_VER_11 then Some False
     else do { c \<leftarrow> pk_cmdSet p; d \<leftarrow> pk_des p; Some (c = cset \<and> d = dev_addr dev) } }"

definition match_device :: "bytes \<Rightarrow> bytes \<Rightarrow> bool option" where
  "match_device sent rcvd = do {
     t \<leftarrow> same_type sent rcvd;
     d \<leftarrow> pk_des sent; s \<leftarrow> pk_src rcvd;
     s1 \<leftarrow> pk_seqNum sent; s2 \<leftarrow> pk_seqNum rcvd;
     Some (t \<and> d = s \<and> s1 = s2) }"

definition K210Arm_RulesSort :: "bytes \<Rightarrow> nat \<Rightarrow> bool option" where
  "K210Arm_RulesSort p n = sort_device DobotV3Format_K210 DobotV3Dev_K210Arm p"

definition K210Arm_RulesMatch :: "bytes \<Rightarrow> bytes \<Rightarrow> bool option" where
  "K210Arm_RulesMatch sent rcvd = match_device sent rcvd"

definition K210Arm_GetId :: "bytes \<Rightarrow> nat \<Rightarrow> u16 option" where
  "K210Arm_GetId p n = map_option ucast (pk_cmdId p)"

definition K210Car_RulesSort :: "bytes \<Rightarrow> nat \<Rightarrow> bool option" where
  "K210Car_RulesSort p n = sort_device DobotV3Format_K210 DobotV3Dev_K210Car p"

definition K210Car_RulesMatch :: "bytes \<Rightarrow> bytes \<Rightarrow> bool option" where
  "K210Car_RulesMatch sent rcvd = match_device sent rcvd"

definition K210Car_GetId :: "bytes \<Rightarrow> nat \<Rightarrow> u16 option" where
  "K210Car_GetId p n = map_option ucast (pk_cmdId p)"

definition MBox_RulesSort :: "bytes \<Rightarrow> nat \<Rightarrow> bool option" where
  "MBox_RulesSort p n = sort_device DobotV3Format_MAGICBOX DobotV3Dev_MagicianBox p"

definition MBox_RulesMatch :: "bytes \<Rightarrow> bytes \<Rightarrow> bool option" where
  "MBox_RulesMatch sent rcvd = match_device sent rcvd"

definition MBox_GetId :: "bytes \<Rightarrow> nat \<Rightarrow> u16 option" where
  "MBox_GetId p n = map_option ucast (pk_cmdId p)"

lemmas rules_sort_defs = Mooz_RulesSort_def General_RulesSort_def MGo_RulesSort_def
  K210Arm_RulesSort_def K210Car_RulesSort_def MBox_RulesSort_def sort_device_def

lemmas rules_match_defs = Mooz_RulesMatch_def General_RulesMatch_def MGo_RulesMatch_def
  K210Arm_RulesMatch_def K210Car_RulesMatch_def MBox_RulesMatch_def match_device_def same_type_def

lemmas rules_id_defs = Mooz_GetId_def General_GetId_def MGo_GetId_def K210Arm_GetId_def
  K210Car_GetId_def MBox_GetId_def

text \<open>A rule reads the header only.\<close>

lemma pk_Some [mem_safe]:
  assumes "15 \<le> length p"
  shows "pk_version p = Some (p ! 4)" "pk_flag k p = Some (bit (p ! 5) k)"
    "pk_queueType p = Some (bit (p ! 5) 3)" "pk_rwType p = Some (bit (p ! 5) 2)"
    "pk_seqNum p = Some (take 4 (drop 6 p))" "pk_src p = Some (p ! 10)" "pk_des p = Some (p ! 11)"
    "pk_cmdSet p = Some (p ! 12)" "pk_cmdId p = Some (p ! 13)"
  using assms by (simp_all add: pk_defs rd8_Some rd_range_Some)

lemma rules_sort_total:
  assumes "15 \<le> length p"
  shows "\<exists>b. Mooz_RulesSort p n = Some b" "\<exists>b. General_RulesSort p n = Some b"
    "\<exists>b. MGo_RulesSort p n = Some b" "\<exists>b. K210Arm_RulesSort p n = Some b"
    "\<exists>b. K210Car_RulesSort p n = Some b" "\<exists>b. MBox_RulesSort p n = Some b"
  using assms by (auto simp: rules_sort_defs mem_safe)

lemma rules_match_total:
  assumes "15 \<le> length p" and "15 \<le> length q"
  shows "\<exists>b. Mooz_RulesMatch p q = Some b" "\<exists>b. General_RulesMatch p q = Some b"
    "\<exists>b. MGo_RulesMatch p q = Some b" "\<exists>b. K210Arm_RulesMatch p q = Some b"
    "\<exists>b. K210Car_RulesMatch p q = Some b" "\<exists>b. MBox_RulesMatch p q = Some b"
  using assms by (auto simp: rules_match_defs mem_safe)

end
