(* ===== verification/DecodeCorrect.thy ===== *)
theory DecodeCorrect imports FrameDecode DecodeSpec begin

text \<open>
  \<open>DecodeLinkPacket\<close> implements \<open>scan\<close>: under the parser invariant \<open>parse_ok\<close> no iteration
  reads or writes outside the link's buffer, the loops end, the packets handed to the functions
  are those \<open>scan\<close> finds in the bytes received, and the bytes that stay in the buffer are those
  \<open>scan\<close> leaves. The formats come in through the locale \<open>frame_format\<close>, the functions and
  the links through \<open>frame_decoder\<close>.
\<close>

section \<open>The parser invariant\<close>

definition link_conf :: "'w link \<Rightarrow> 'w link" where
  "link_conf l = l\<lparr>pDeMsgBuff := [], sofMark := False, msgReadIndex := 0, msgWriteIndex := 0,
     deStep := 0, deLenght := 0, deStepLength := 0, deStartTime := 0\<rparr>"

lemma link_conf_simps [simp]:
  "link_conf (l\<lparr>pDeMsgBuff := a\<rparr>) = link_conf l" "link_conf (l\<lparr>sofMark := b\<rparr>) = link_conf l"
  "link_conf (l\<lparr>msgReadIndex := n\<rparr>) = link_conf l" "link_conf (l\<lparr>msgWriteIndex := n\<rparr>) = link_conf l"
  "link_conf (l\<lparr>deStep := n\<rparr>) = link_conf l" "link_conf (l\<lparr>deLenght := n\<rparr>) = link_conf l"
  "link_conf (l\<lparr>deStepLength := n\<rparr>) = link_conf l" "link_conf (l\<lparr>deStartTime := t\<rparr>) = link_conf l"
  by (simp_all add: link_conf_def)

lemma link_confD:
  assumes "link_conf l = link_conf l'"
  shows "deTimeOut l = deTimeOut l'" "maxMsgNum l = maxMsgNum l'" "readData l = readData l'"
    "SendData l = SendData l'" "enable l = enable l'" "pFormat l = pFormat l'"
    "pFuncList l = pFuncList l'"
  using arg_cong [OF assms, of deTimeOut] arg_cong [OF assms, of maxMsgNum]
    arg_cong [OF assms, of readData] arg_cong [OF assms, of SendData]
    arg_cong [OF assms, of enable] arg_cong [OF assms, of pFormat] arg_cong [OF assms, of pFuncList]
  by (simp_all add: link_conf_def)

text \<open>The bytes received and not yet handed on, from the preamble on once it has been found.\<close>

definition pending :: "'w link \<Rightarrow> bytes" where
  "pending l = (if sofMark l then take (msgWriteIndex l) (pDeMsgBuff l)
                else drop (msgReadIndex l) (take (msgWriteIndex l) (pDeMsgBuff l)))"

text \<open>What bounds the inner loop: the bytes stored, the phase of the parse, the bytes unread.\<close>

definition parse_measure :: "'w link \<Rightarrow> nat \<times> nat \<times> nat" where
  "parse_measure l =
     (msgWriteIndex l,
      if sofMark l then 1 else if msgReadIndex l = 0 then 2 else 0,
      msgWriteIndex l - msgReadIndex l)"

definition parse_less :: "'w link \<Rightarrow> 'w link \<Rightarrow> bool" where
  "parse_less l l' \<longleftrightarrow> (parse_measure l, parse_measure l') \<in> less_than <*lex*> less_than <*lex*> less_than"

lemma parse_lessI:
  "msgWriteIndex l < msgWriteIndex l' \<Longrightarrow> parse_less l l'"
  "msgWriteIndex l = msgWriteIndex l' \<Longrightarrow>
     fst (snd (parse_measure l)) < fst (snd (parse_measure l')) \<Longrightarrow> parse_less l l'"
  "msgWriteIndex l = msgWriteIndex l' \<Longrightarrow>
     fst (snd (parse_measure l)) = fst (snd (parse_measure l')) \<Longrightarrow>
     msgWriteIndex l - msgReadIndex l < msgWriteIndex l' - msgReadIndex l' \<Longrightarrow> parse_less l l'"
  by (simp_all add: parse_less_def parse_measure_def)

definition parse_inv :: "format \<Rightarrow> nat \<Rightarrow> (nat \<Rightarrow> nat) \<Rightarrow> (nat \<Rightarrow> bytes \<Rightarrow> bool) \<Rightarrow> (bytes \<Rightarrow> nat) \<Rightarrow>
    'w link \<Rightarrow> bool" where
  "parse_inv fmt bufsz lower chk packet_len l \<longleftrightarrow>
     length (pDeMsgBuff l) = bufsz \<and> maxMsgNum l = bufsz \<and>
     msgReadIndex l \<le> msgWriteIndex l \<and> msgWriteIndex l \<le> bufsz \<and>
     (if sofMark l
      then msgReadIndex l = deLenght l \<and> 0 < msgWriteIndex l \<and> deStep l < length (pStepList fmt) \<and>
           lower (deStep l) \<le> deLenght l \<and> deLenght l < deStepLength l \<and> deStepLength l \<le> bufsz \<and>
           deStepLength l = step_len (length (pStepList fmt)) lower packet_len (deStep l) (pDeMsgBuff l) \<and>
           pDeMsgBuff l ! 0 = sof fmt \<and> (\<forall>j < deStep l. chk j (pDeMsgBuff l))
      else deStep l = 0 \<and> deLenght l = 0 \<and>
           (\<forall>k. 1 \<le> k \<and> k < msgReadIndex l \<longrightarrow> pDeMsgBuff l ! k \<noteq> sof fmt))"

context frame_format begin

abbreviation parse_ok :: "'w link \<Rightarrow> bool" where
  "parse_ok \<equiv> parse_inv fmt bufsz lower chk packet_len"

lemmas parse_ok_def = parse_inv_def [of fmt bufsz lower chk packet_len]

lemma parse_ok_len:
  assumes "parse_ok l"
  shows "length (pDeMsgBuff l) = bufsz" "maxMsgNum l = bufsz" "msgReadIndex l \<le> msgWriteIndex l"
    "msgWriteIndex l \<le> bufsz" "bufsz < 65536"
  using assms bufsz_u16 by (simp_all add: parse_ok_def)

text \<open>After a restart at index 1 the invariant holds whatever the buffer contains.\<close>

lemma parse_ok_restart:
  assumes "length (pDeMsgBuff l) = bufsz" "maxMsgNum l = bufsz" "0 < msgWriteIndex l"
    "msgWriteIndex l \<le> bufsz"
  shows "parse_ok (MSGSETREADINDEX 1 (STEPCLEAR l))"
    and "pending (MSGSETREADINDEX 1 (STEPCLEAR l)) = tl (take (msgWriteIndex l) (pDeMsgBuff l))"
  using assms by (simp_all add: parse_ok_def link_macros pending_def drop_Suc)

text \<open>The checks passed by the buffer are passed by the bytes received.\<close>

lemma received_prefix:
  "k \<le> msgWriteIndex l \<Longrightarrow> take k (take (msgWriteIndex l) b) = take k b"
  by (simp add: min_absorb1)

lemma fverdict_steps:
  assumes "i < nsteps" and "\<forall>j<i. chk j bs" and "lower i \<le> length bs"
  shows "fverdict bs = steps_from i bs"
  using assms
proof (induction i)
  case 0
  then show ?case by (simp add: frame_verdict_def)
next
  case (Suc i)
  then have i: "i < nsteps" "\<forall>j<i. chk j bs" "chk i bs" by simp_all
  note sl = lower_slen [OF i(1,2)]
  have len: "slen i bs \<le> length bs" "slen i bs \<le> bufsz"
    using sl(3,4) Suc.prems(1,3) by simp_all
  have "fverdict bs = steps_from i bs" using Suc.IH i sl(1) len by simp
  also have "\<dots> = steps_from (Suc i) bs" using steps_from_step [OF i(1)] i(3) len by simp
  finally show ?case .
qed

text \<open>What is pending after the preamble, in terms of the step the parser is in.\<close>

lemma fverdict_pending:
  assumes l: "length buf = bufsz" and w: "w \<le> bufsz" and i: "i < nsteps"
    and c: "\<forall>j<i. chk j buf" and lo: "lower i \<le> w"
  shows "fverdict (take w buf) = steps_from i (take w buf)"
    and "slen i (take w buf) = slen i buf"
    and "slen i buf \<le> w \<Longrightarrow> chk i (take w buf) = chk i buf"
proof -
  have t: "take k (take w buf) = take k buf" if "k \<le> w" for k
    using that by (simp add: min_absorb1)
  have cj: "chk j (take w buf) = chk j buf" if "j < i" for j
    using chk_prefix [OF that i t [OF lo]] .
  show s: "slen i (take w buf) = slen i buf" by (rule slen_local [OF i t [OF lo]])
  show "fverdict (take w buf) = steps_from i (take w buf)"
    using cj c lo l w by (intro fverdict_steps [OF i]) (simp_all add: min_def)
  show "chk i (take w buf) = chk i buf" if "slen i buf \<le> w"
    by (rule chk_slen_local [OF i t [OF that]])
qed

end

section \<open>One iteration of the inner loop\<close>

context frame_format begin

lemma step_of_Some: "i < nsteps \<Longrightarrow> step_of fmt i = Some (pStepList fmt ! i)"
  by (simp add: step_of_def)

lemma GetLength_step:
  assumes "i < nsteps" and "length buf = bufsz" and "\<forall>j<i. chk j buf"
  shows "GetLength (pStepList fmt ! i) buf m = Some (slen i buf)"
proof (cases "Suc i < nsteps")
  case True
  then show ?thesis using GetLength_header [OF True assms(2)] by (simp add: step_len_def)
next
  case False
  then have "Suc i = nsteps" using assms(1) by simp
  from GetLength_packet [OF this assms(2,3)] False show ?thesis by (simp add: step_len_def)
qed

lemma StepCheck_step:
  assumes "i < nsteps" and "length buf = bufsz" and "\<forall>j<i. chk j buf" and "slen i buf \<le> bufsz"
  obtains r where "StepCheck (pStepList fmt ! i) buf m = Some r"
    "r = ProtocolFrame_DEFALSE \<longleftrightarrow> \<not> chk i buf"
proof (cases "Suc i < nsteps")
  case True
  then show ?thesis using StepCheck_header [OF True assms(2), of m] that by blast
next
  case False
  then have last: "Suc i = nsteps" using assms(1) by simp
  have "packet_len buf \<le> bufsz" using assms(4) False by (simp add: step_len_def)
  from StepCheck_packet [OF last assms(2,3) this, of m] that show ?thesis by blast
qed

text \<open>What an iteration does: it goes on parsing without changing what is to be found, or it has completed a packet.\<close>

definition step_result :: "'w link \<Rightarrow> 'w link \<Rightarrow> bool \<Rightarrow> bool" where
  "step_result l l' c \<longleftrightarrow> link_conf l' = link_conf l \<and> deStartTime l' = deStartTime l \<and>
     (if c
      then length (pDeMsgBuff l') = bufsz \<and> maxMsgNum l' = bufsz \<and> msgWriteIndex l' = msgWriteIndex l \<and>
        msgReadIndex l' = deLenght l' \<and> deLenght l' \<le> msgWriteIndex l' \<and> msgWriteIndex l' \<le> bufsz \<and>
        pending l = take (msgWriteIndex l') (pDeMsgBuff l') \<and> hd (pending l) = sof fmt \<and>
        fverdict (pending l) = Packet (deLenght l')
      else parse_ok l' \<and> parse_less l' l \<and> scn (pending l') = scn (pending l))"

lemma MSGREAD_ok:
  "parse_ok l \<Longrightarrow> msgReadIndex l < msgWriteIndex l \<Longrightarrow>
   MSGREAD l = Some (pDeMsgBuff l ! msgReadIndex l, l\<lparr>msgReadIndex := Suc (msgReadIndex l)\<rparr>)"
  using parse_ok_len [of l] by (simp add: MSGREAD_def rd8_Some)

lemma pending_unread:
  assumes "parse_ok l" and "msgReadIndex l < msgWriteIndex l" and "\<not> sofMark l"
  shows "pending l = pDeMsgBuff l ! msgReadIndex l #
           drop (Suc (msgReadIndex l)) (take (msgWriteIndex l) (pDeMsgBuff l))"
  using assms parse_ok_len [OF assms(1)]
    Cons_nth_drop_Suc [of "msgReadIndex l" "take (msgWriteIndex l) (pDeMsgBuff l)"]
  by (simp add: pending_def)

lemma decode_byte_skip:
  assumes ok: "parse_ok l" and rw: "msgReadIndex l < msgWriteIndex l"
    and ns: "\<not> sofMark l" and ne: "pDeMsgBuff l ! msgReadIndex l \<noteq> sof fmt"
  shows "\<exists>l' c. decode_byte fmt l = Some (l', c) \<and> step_result l l' c"
proof -
  let ?l = "l\<lparr>msgReadIndex := Suc (msgReadIndex l)\<rparr>"
  have "decode_byte fmt l = Some (?l, False)"
    using ns ne by (simp add: decode_byte_def MSGREAD_ok [OF ok rw])
  moreover have "parse_ok ?l"
    using ok ns ne rw by (auto simp: parse_ok_def less_Suc_eq)
  moreover have "parse_less ?l l"
    using rw ns by (simp add: parse_less_def parse_measure_def diff_less_mono2)
  moreover have "scn (pending ?l) = scn (pending l)"
    using ns ne pending_unread [OF ok rw ns] by (simp add: pending_def)
  ultimately show ?thesis by (auto simp: step_result_def)
qed

lemma decode_byte_sof:
  assumes ok: "parse_ok l" and rw: "msgReadIndex l < msgWriteIndex l"
    and ns: "\<not> sofMark l" and e: "pDeMsgBuff l ! msgReadIndex l = sof fmt"
  shows "\<exists>l' c. decode_byte fmt l = Some (l', c) \<and> step_result l l' c"
proof -
  note len = parse_ok_len [OF ok]
  define m w b where "m = msgReadIndex l" and "w = msgWriteIndex l" and "b = pDeMsgBuff l"
  note d = m_def [symmetric] w_def [symmetric] b_def [symmetric]
  have mw: "m < w" "w \<le> bufsz" "length b = bufsz" using rw len by (simp_all add: d)
  define b' where "b' = take (w - m) (drop m b) @ drop (w - m) b"
  have lb': "length b' = bufsz" using mw by (simp add: b'_def)
  have pend: "take (w - m) b' = pending l"
    using mw ns by (simp add: b'_def pending_def d drop_take)
  have hd: "pending l \<noteq> []" "hd (pending l) = sof fmt"
    using pending_unread [OF ok rw ns] e by simp_all
  have b0: "b' ! 0 = sof fmt" using mw e by (simp add: b'_def nth_append d)
  have step0: "deStep l = 0" using ok ns by (simp add: parse_ok_def)
  define n where "n = slen 0 b'"
  define l1 where "l1 = l\<lparr>pDeMsgBuff := b', msgWriteIndex := w - m, msgReadIndex := 0,
      deLenght := 0, sofMark := True, deStepLength := n\<rparr>"
  have gl: "GetLength (pStepList fmt ! 0) b' 0 = Some n"
    unfolding n_def using lb' by (intro GetLength_step [OF nsteps_pos]) simp_all
  have mv: "LinkMsgToZero m (l\<lparr>msgReadIndex := Suc m\<rparr>) =
      Some (l\<lparr>pDeMsgBuff := b', msgWriteIndex := w - m, msgReadIndex := 0\<rparr>)"
    using mw len by (subst LinkMsgToZero_Some) (simp_all add: d b'_def)
  have sb: "sub32 (Suc m) 1 = m" using mw len(5) by simp
  have db: "decode_byte fmt l = Some (JUDGE_DELENGHT_IS_LIMIT l1, False)"
    using ns e step0 gl mv sb
    by (simp add: decode_byte_def MSGREAD_ok [OF ok rw] d step_of_Some [OF nsteps_pos] l1_def)
  have npos: "lower 0 < n" "n < 65536" using lower_slen [OF nsteps_pos, of b'] by (simp_all add: n_def)
  have vd: "fverdict (pending l) = steps_from 0 (pending l)" by (simp add: frame_verdict_def)
  have sl: "slen 0 (pending l) = n"
    unfolding pend [symmetric] n_def using slen_local [OF nsteps_pos] by (simp add: lower_0)
  have conf: "link_conf l1 = link_conf l" "deStartTime l1 = deStartTime l" by (simp_all add: l1_def)
  have max: "maxMsgNum l1 = bufsz" using len by (simp add: l1_def)
  show ?thesis
  proof (cases "bufsz < n")
    case True
    let ?l = "MSGSETREADINDEX 1 (STEPCLEAR l1)"
    have j: "JUDGE_DELENGHT_IS_LIMIT l1 = ?l"
      using True max by (simp add: JUDGE_DELENGHT_IS_LIMIT_def) (simp add: l1_def)
    have r: "parse_ok ?l" "pending ?l = tl (pending l)"
      using parse_ok_restart [of l1] lb' mw max pend by (simp_all add: l1_def)
    have "fverdict (pending l) = Bad"
      using True sl by (simp add: vd steps_from_step [OF nsteps_pos])
    then have "scn (pending ?l) = scn (pending l)"
      using hd r(2) by (cases "pending l") simp_all
    moreover have "parse_less ?l l"
      using mw ns by (cases "m = 0") (simp_all add: parse_less_def parse_measure_def link_macros l1_def d)
    ultimately show ?thesis
      using db j r(1) conf by (auto simp: step_result_def link_macros)
  next
    case False
    then have j: "JUDGE_DELENGHT_IS_LIMIT l1 = l1"
      using max by (simp add: JUDGE_DELENGHT_IS_LIMIT_def) (simp add: l1_def)
    have "parse_ok l1"
      using False lb' b0 mw len npos nsteps_pos
      by (simp add: parse_ok_def l1_def step0 lower_0 n_def)
    moreover have "pending l1 = pending l" using pend by (simp add: pending_def l1_def)
    moreover have "parse_less l1 l"
      using mw ns by (cases "m = 0") (simp_all add: parse_less_def parse_measure_def l1_def d)
    ultimately show ?thesis using db j conf by (auto simp: step_result_def)
  qed
qed

end

context frame_format begin

lemma decode_byte_more:
  assumes ok: "parse_ok l" and rw: "msgReadIndex l < msgWriteIndex l" and sf: "sofMark l"
    and more: "Suc (deLenght l) < deStepLength l"
  shows "\<exists>l' c. decode_byte fmt l = Some (l', c) \<and> step_result l l' c"
proof -
  let ?l = "l\<lparr>msgReadIndex := Suc (msgReadIndex l), deLenght := Suc (deLenght l)\<rparr>"
  have le: "deStepLength l \<le> bufsz" "bufsz < 65536" using ok sf bufsz_u16 by (simp_all add: parse_ok_def)
  then have "decode_byte fmt l = Some (?l, False)"
    using sf more by (simp add: decode_byte_def MSGREAD_ok [OF ok rw])
  moreover have "parse_ok ?l"
    using ok sf more rw by (simp add: parse_ok_def)
  moreover have "parse_less ?l l"
    using rw sf by (simp add: parse_less_def parse_measure_def diff_less_mono2)
  moreover have "pending ?l = pending l" using sf by (simp add: pending_def)
  ultimately show ?thesis by (auto simp: step_result_def)
qed

text \<open>What a full step of the parser knows.\<close>

lemma full_step:
  assumes ok: "parse_ok l" and rw: "msgReadIndex l < msgWriteIndex l" and sf: "sofMark l"
    and full: "Suc (deLenght l) = deStepLength l"
  shows "deStep l < nsteps" "\<forall>j < deStep l. chk j (pDeMsgBuff l)"
    "slen (deStep l) (pDeMsgBuff l) = deStepLength l" "deStepLength l \<le> msgWriteIndex l"
    "deStepLength l \<le> bufsz"
    "fverdict (pending l) = (if chk (deStep l) (pDeMsgBuff l)
       then steps_from (Suc (deStep l)) (pending l) else Bad)"
    "hd (pending l) = sof fmt" "pending l \<noteq> []"
proof -
  note len = parse_ok_len [OF ok]
  let ?w = "msgWriteIndex l" and ?b = "pDeMsgBuff l" and ?i = "deStep l"
  have p: "?i < nsteps" "\<forall>j < ?i. chk j ?b" "slen ?i ?b = deStepLength l"
      "lower ?i \<le> deLenght l" "deStepLength l \<le> bufsz" "deLenght l = msgReadIndex l" "0 < ?w"
      "?b ! 0 = sof fmt"
    using ok sf by (simp_all add: parse_ok_def)
  then show "?i < nsteps" "\<forall>j < ?i. chk j ?b" "slen ?i ?b = deStepLength l" "deStepLength l \<le> bufsz"
    by blast+
  show lw: "deStepLength l \<le> ?w" using full p(6) rw by simp
  have lo: "lower ?i \<le> ?w" using p(4,6) rw by simp
  have pend: "pending l = take ?w ?b" using sf by (simp add: pending_def)
  note v = fverdict_pending [OF len(1,4) p(1,2) lo]
  have "length (pending l) = ?w" using len by (simp add: pend)
  then show "fverdict (pending l) = (if chk ?i ?b then steps_from (Suc ?i) (pending l) else Bad)"
    using v(1,2,3) p(3,5) lw by (simp add: pend steps_from_step [OF p(1)])
  show "pending l \<noteq> []" using p(7) len by (simp add: pend) (metis len(1,4) le_zero_eq less_irrefl list.size(3))
  then show "hd (pending l) = sof fmt" using p(7,8) by (simp add: pend hd_conv_nth)
qed

text \<open>Dropping the preamble of bytes that are no packet does not change what is found.\<close>

lemma scan_restart:
  assumes "fverdict (pending l) = Bad" and "hd (pending l) = sof fmt" and "pending l \<noteq> []"
  shows "scn (tl (pending l)) = scn (pending l)"
  using assms by (cases "pending l") simp_all

lemma decode_byte_check:
  assumes ok: "parse_ok l" and rw: "msgReadIndex l < msgWriteIndex l" and sf: "sofMark l"
    and full: "Suc (deLenght l) = deStepLength l"
  shows "\<exists>l' c. decode_byte fmt l = Some (l', c) \<and> step_result l l' c"
proof -
  note len = parse_ok_len [OF ok] and f = full_step [OF assms]
  let ?w = "msgWriteIndex l" and ?b = "pDeMsgBuff l" and ?i = "deStep l"
  define l1 where "l1 = l\<lparr>msgReadIndex := Suc (msgReadIndex l), deLenght := deStepLength l\<rparr>"
  have c1: "link_conf l1 = link_conf l" "deStartTime l1 = deStartTime l" "pDeMsgBuff l1 = ?b"
      "msgWriteIndex l1 = ?w" "maxMsgNum l1 = bufsz" "sofMark l1" "deStep l1 = ?i"
    using sf len by (simp_all add: l1_def)
  have rd: "Suc (msgReadIndex l) = deStepLength l" using ok sf full by (simp add: parse_ok_def)
  have pend: "pending l = take ?w ?b" "0 < ?w" using sf rw by (simp_all add: pending_def)
  obtain r where r: "StepCheck (pStepList fmt ! ?i) ?b (deStepLength l) = Some r"
      "r = ProtocolFrame_DEFALSE \<longleftrightarrow> \<not> chk ?i ?b"
    using StepCheck_step [OF f(1) len(1) f(2), of "deStepLength l"] f(3,5) by auto
  have u: "u16n (deLenght l + 1) = deStepLength l" "u8n (?i + 1) = Suc ?i"
    using full f(1,5) len(5) steps_few by simp_all
  let ?r = "MSGSETREADINDEX 1 (STEPCLEAR l1)"
  have rp: "parse_ok ?r" "pending ?r = tl (pending l)"
    using parse_ok_restart [of l1] len pend c1 by simp_all
  have rl: "parse_less ?r l"
    using sf by (simp add: parse_less_def parse_measure_def link_macros l1_def)
  have rc: "link_conf ?r = link_conf l" "deStartTime ?r = deStartTime l"
    using c1 by (simp_all add: link_macros)
  show ?thesis
  proof (cases "chk ?i ?b")
    case False
    then have "decode_byte fmt l = Some (?r, False)"
      using sf full r u
      by (simp add: decode_byte_def MSGREAD_ok [OF ok rw] step_of_Some [OF f(1)] l1_def Let_def)
    moreover have "scn (pending ?r) = scn (pending l)"
      using f(6,7,8) False scan_restart [of l] rp(2) by simp
    ultimately show ?thesis using rp(1) rl rc by (auto simp: step_result_def)
  next
    case True
    then have rt: "r \<noteq> ProtocolFrame_DEFALSE" using r(2) by simp
    show ?thesis
    proof (cases "Suc ?i < nsteps")
      case False
      then have last: "Suc ?i = nsteps" using f(1) by simp
      have db: "decode_byte fmt l = Some (l1\<lparr>deStep := Suc ?i\<rparr>, True)"
        using sf full r rt u False
        by (simp add: decode_byte_def MSGREAD_ok [OF ok rw] step_of_Some [OF f(1)] l1_def Let_def)
      have t: "take (lower ?i) (take ?w ?b) = take (lower ?i) ?b"
        using ok sf rw by (simp add: parse_ok_def min_absorb1)
      have "packet_len (pending l) = deStepLength l"
        using packet_len_local [OF last t] f(3) slen_last [OF last] pend(1) by simp
      then have "fverdict (pending l) = Packet (deStepLength l)"
        using f(6) True last by simp
      then show ?thesis
        using db f(4,7) len pend rd c1 by (auto simp: step_result_def l1_def)
    next
      case more: True
      define n where "n = slen (Suc ?i) ?b"
      have chks: "\<forall>j < Suc ?i. chk j ?b" using f(2) True less_Suc_eq by auto
      have gl: "GetLength (pStepList fmt ! Suc ?i) ?b (deStepLength l) = Some n"
        unfolding n_def by (rule GetLength_step [OF more len(1) chks])
      let ?l2 = "l1\<lparr>deStep := Suc ?i, deStepLength := n\<rparr>"
      have db: "decode_byte fmt l = Some (JUDGE_DELENGHT_IS_LIMIT ?l2, False)"
        using sf full r rt u more gl
        by (simp add: decode_byte_def MSGREAD_ok [OF ok rw] step_of_Some [OF f(1)]
            step_of_Some [OF more] l1_def Let_def)
      have low: "lower (Suc ?i) = deStepLength l" using f(3) more by (simp add: step_len_def)
      have nl: "deStepLength l < n"
        using lower_slen(1) [OF more chks] low by (simp add: n_def)
      have sl: "slen (Suc ?i) (pending l) = n"
        unfolding n_def pend(1)
        using f(4) low by (intro slen_local [OF more]) (simp add: min_absorb1)
      show ?thesis
      proof (cases "bufsz < n")
        case True
        have "JUDGE_DELENGHT_IS_LIMIT ?l2 = ?r\<lparr>deStepLength := n\<rparr>"
          using True c1 by (simp add: JUDGE_DELENGHT_IS_LIMIT_def link_macros)
        moreover have "parse_ok (?r\<lparr>deStepLength := n\<rparr>)" "pending (?r\<lparr>deStepLength := n\<rparr>) = tl (pending l)"
          using rp by (simp_all add: parse_ok_def pending_def link_macros)
        moreover have "parse_less (?r\<lparr>deStepLength := n\<rparr>) l"
          using sf by (simp add: parse_less_def parse_measure_def link_macros l1_def)
        moreover have "fverdict (pending l) = Bad"
          using f(6) \<open>chk ?i ?b\<close> sl True by (simp add: steps_from_step [OF more])
        ultimately show ?thesis
          using db f(7,8) scan_restart [of l] rc by (auto simp: step_result_def)
      next
        case False
        then have "JUDGE_DELENGHT_IS_LIMIT ?l2 = ?l2"
          using c1 by (simp add: JUDGE_DELENGHT_IS_LIMIT_def)
        moreover have "parse_ok ?l2"
          using ok sf rw False chks more low nl rd by (simp add: parse_ok_def l1_def n_def)
        moreover have "parse_less ?l2 l"
          using rw sf by (simp add: parse_less_def parse_measure_def l1_def diff_less_mono2)
        moreover have "pending ?l2 = pending l" using sf by (simp add: pending_def l1_def)
        ultimately show ?thesis using db c1 by (auto simp: step_result_def)
      qed
    qed
  qed
qed

lemma decode_byte_ok:
  assumes ok: "parse_ok l" and rw: "msgReadIndex l < msgWriteIndex l"
  obtains l' c where "decode_byte fmt l = Some (l', c)" "step_result l l' c"
proof -
  have "\<exists>l' c. decode_byte fmt l = Some (l', c) \<and> step_result l l' c"
  proof (cases "sofMark l")
    case False
    then show ?thesis using decode_byte_skip decode_byte_sof assms by blast
  next
    case True
    then have "Suc (deLenght l) < deStepLength l \<or> Suc (deLenght l) = deStepLength l"
      using ok by (auto simp: parse_ok_def)
    then show ?thesis using decode_byte_more decode_byte_check assms True by blast
  qed
  then show ?thesis using that by blast
qed

text \<open>After a packet has been handed on, the parser starts afresh behind it.\<close>

lemma after_packet:
  assumes "step_result l l' True"
  shows "\<exists>l2. LinkMsgToZero (msgReadIndex (STEPCLEAR l')) (STEPCLEAR l') = Some l2 \<and>
           parse_ok l2 \<and> parse_less l2 l \<and> link_conf l2 = link_conf l \<and> deStartTime l2 = deStartTime l \<and>
           msgWriteIndex l2 + length (take (deLenght l') (pDeMsgBuff l')) = msgWriteIndex l \<and>
           scn (pending l) = (take (deLenght l') (pDeMsgBuff l') # fst (scn (pending l2)), snd (scn (pending l2)))"
proof -
  let ?n = "deLenght l'" and ?w = "msgWriteIndex l'" and ?b = "pDeMsgBuff l'"
  have r: "link_conf l' = link_conf l" "deStartTime l' = deStartTime l" "length ?b = bufsz"
      "maxMsgNum l' = bufsz" "?w = msgWriteIndex l" "msgReadIndex l' = ?n" "?n \<le> ?w" "?w \<le> bufsz"
      "pending l = take ?w ?b" "hd (pending l) = sof fmt" "fverdict (pending l) = Packet ?n"
    using assms unfolding step_result_def if_True by blast+
  define l2 where "l2 = (STEPCLEAR l')\<lparr>pDeMsgBuff := take (?w - ?n) (drop ?n ?b) @ drop (?w - ?n) ?b,
      msgWriteIndex := ?w - ?n, msgReadIndex := 0\<rparr>"
  have "LinkMsgToZero (msgReadIndex (STEPCLEAR l')) (STEPCLEAR l') = Some l2"
    using r bufsz_u16 by (subst LinkMsgToZero_Some) (simp_all add: l2_def link_macros)
  moreover have "parse_ok l2" using r by (simp add: parse_ok_def l2_def link_macros)
  moreover have npos: "0 < ?n" using v_packet [OF r(11)] by blast
  moreover have "parse_less l2 l"
    using r npos by (intro parse_lessI(1)) (simp add: l2_def link_macros)
  moreover have "link_conf l2 = link_conf l" "deStartTime l2 = deStartTime l"
    using r by (simp_all add: l2_def link_macros)
  moreover have "pending l2 = drop ?n (pending l)"
    using r by (simp add: pending_def l2_def link_macros drop_take)
  moreover have "pending l \<noteq> []" using v_packet [OF r(11)] by auto
  then have "pending l = sof fmt # tl (pending l)" using r(10) by (cases "pending l") simp_all
  then have "scn (pending l) = (take ?n (pending l) # fst (scn (drop ?n (pending l))),
      snd (scn (drop ?n (pending l))))"
    using scan_sf_packet [of "tl (pending l)" ?n] r(11) by metis
  moreover have "take ?n (pending l) = take ?n ?b" using r by (simp add: min_absorb1)
  moreover have "msgWriteIndex l2 + length (take ?n ?b) = msgWriteIndex l" using r by (simp add: l2_def)
  ultimately show ?thesis by auto
qed

end

end
