(* ===== verification/DecodeLoops.thy ===== *)
theory DecodeLoops imports DecodeCorrect begin

text \<open>
  The loops of \<open>DecodeLinkPacket\<close> under the contract of its environment: what the functions of a
  link may do with a packet, and what the \<open>readData\<close> of a link returns. The state the functions
  keep is abstracted by a relation \<open>R\<close>, on which handing a packet over acts as \<open>act\<close>.
\<close>

section \<open>The contracts\<close>

text \<open>
  \<open>input p w\<close> is what link \<open>p\<close> has received from outside and the program has not read yet. A
  read hands over a prefix of it, at most as long as asked and shorter than 256 bytes, and an empty
  one only when nothing was asked for or nothing is there.
\<close>

definition reads_input :: "(nat \<Rightarrow> 'w \<Rightarrow> bytes) \<Rightarrow> nat \<Rightarrow> (nat \<Rightarrow> 'w \<Rightarrow> bytes \<times> 'w) \<Rightarrow> bool" where
  "reads_input input p rd \<longleftrightarrow> (\<forall>n w. case rd n w of (ch, w') \<Rightarrow>
     input p w = ch @ input p w' \<and> length ch \<le> n \<and> length ch < 256 \<and>
     (ch = [] \<longrightarrow> n = 0 \<or> input p w = []) \<and> (\<forall>q. q \<noteq> p \<longrightarrow> input q w' = input q w))"

text \<open>What a callback and the decoder leave alone.\<close>

definition frame_same :: "nat \<Rightarrow> ('w, 'z) frame_state_scheme \<Rightarrow> ('w, 'z) frame_state_scheme \<Rightarrow> bool" where
  "frame_same bufsz s s' \<longleftrightarrow> timeCNT s' = timeCNT s \<and> pLinkList s' = pLinkList s \<and>
     linkNum s' = linkNum s \<and> length (pPacket (pPacketParm s')) = bufsz"

definition frame_kept :: "nat \<Rightarrow> (nat \<Rightarrow> 'w \<Rightarrow> bytes) \<Rightarrow> ('w, 'z) frame_state_scheme \<Rightarrow>
    ('w, 'z) frame_state_scheme \<Rightarrow> bool" where
  "frame_kept bufsz input s s' \<longleftrightarrow> frame_same bufsz s s' \<and> links s' = links s \<and>
     (\<forall>q. input q (world s') = input q (world s))"

text \<open>Links differ in what they have received and parsed only.\<close>

abbreviation same_conf :: "('w, 'z) frame_state_scheme \<Rightarrow> ('w, 'z) frame_state_scheme \<Rightarrow> bool" where
  "same_conf s s' \<equiv> map link_conf (links s') = map link_conf (links s)"

lemma frame_same_trans: "frame_same n s t \<Longrightarrow> frame_same n t u \<Longrightarrow> frame_same n s u"
  by (simp add: frame_same_def)

lemma frame_kept_trans: "frame_kept n i s t \<Longrightarrow> frame_kept n i t u \<Longrightarrow> frame_kept n i s u"
  by (auto simp: frame_kept_def intro: frame_same_trans)

text \<open>The state in which the functions of link \<open>p\<close> are called for a packet.\<close>

definition offered :: "nat \<Rightarrow> nat \<Rightarrow> bytes \<Rightarrow> ('w, 'z) frame_state_scheme \<Rightarrow> bool" where
  "offered bufsz p pkt s \<longleftrightarrow>
     p < length (links s) \<and> pFuncList (links s ! p) \<noteq> None \<and> pLink (pPacketParm s) = Some p \<and>
     length (pPacket (pPacketParm s)) = bufsz \<and> packetLength (pPacketParm s) = length pkt \<and>
     length pkt \<le> bufsz \<and> take (length pkt) (pPacket (pPacketParm s)) = pkt \<and>
     \<not> sendMark (pPacketParm s) \<and> \<not> exitCallPack (pPacketParm s)"

locale frame_decoder = frame_format fmt bufsz lower chk packet_len
  for fmt bufsz lower chk packet_len +
  fixes E :: "('w, 'z) frame_state_scheme frame_env"
    and R :: "'o \<Rightarrow> ('w, 'z) frame_state_scheme \<Rightarrow> bool"
    and act :: "nat \<Rightarrow> bytes \<Rightarrow> 'o \<Rightarrow> 'o"
    and input :: "nat \<Rightarrow> 'w \<Rightarrow> bytes"
  assumes R_frame: "R x s \<Longrightarrow> R x (s\<lparr>links := ls, pPacketParm := pp, world := w\<rparr>)"
    and ErrCodeRead_total:
      "ErrCodeRead fmt = Some f \<Longrightarrow> length (pPacket pp) = bufsz \<Longrightarrow> \<exists>e. f pp = Some (pp\<lparr>errCode := e\<rparr>)"
    and calls:
      "R x s \<Longrightarrow> offered bufsz p pkt s \<Longrightarrow>
       frame_verdict (length (pStepList fmt)) bufsz lower chk packet_len pkt = Packet (length pkt) \<Longrightarrow>
       \<exists>s'. FuncCallBack E s = Some s' \<and> R (act p pkt x) s' \<and> frame_kept bufsz input s s'"
begin

lemma R_links: "R x s \<Longrightarrow> R x (s\<lparr>links := ls\<rparr>)"
  using R_frame [of x s, where ls = ls and pp = "pPacketParm s" and w = "world s"] by simp

lemma R_parm: "R x s \<Longrightarrow> R x (s\<lparr>pPacketParm := pp\<rparr>)"
  using R_frame [of x s, where ls = "links s" and pp = pp and w = "world s"] by simp

lemma R_read: "R x s \<Longrightarrow> R x (s\<lparr>world := w, links := ls\<rparr>)"
proof -
  assume R: "R x s"
  have e: "s\<lparr>world := w, links := ls\<rparr> = s\<lparr>links := ls, pPacketParm := pPacketParm s, world := w\<rparr>"
    by simp
  show "R x (s\<lparr>world := w, links := ls\<rparr>)" unfolding e using R by (rule R_frame)
qed

lemma deliver_ok:
  assumes "R x s" and "p < length (links s)" and "pFuncList (links s ! p) \<noteq> None"
    and "length (pPacket (pPacketParm s)) = bufsz"
    and n: "n \<le> length buf" and v: "fverdict (take n buf) = Packet n"
  shows "\<exists>s'. deliver E fmt p buf n s = Some s' \<and> R (act p (take n buf) x) s' \<and>
           frame_kept bufsz input s s'"
proof -
  have nb: "n \<le> bufsz" using v by (simp add: fverdict_Packet)
  define pp where "pp = \<lparr>pLink = Some p, pPacket = take n buf @ drop n (pPacket (pPacketParm s)),
     packetLength = n, errCode = 0, sendMark = False, exitCallPack = False, exitLoop = True\<rparr>"
  define s1 where "s1 = s\<lparr>pPacketParm := pp\<rparr>"
  have fill: "PacketParmFill (Some p) (Some buf) n s = Some s1"
    using n nb assms(4) by (simp add: PacketParmFill_def mem_safe s1_def pp_def Let_def)
  have pl: "length (pPacket pp) = bufsz" using n nb assms(4) by (simp add: pp_def)
  obtain e where rd: "(case ErrCodeRead fmt of None \<Rightarrow> Some s1
          | Some f \<Rightarrow> do { pp \<leftarrow> f (pPacketParm s1); Some (s1\<lparr>pPacketParm := pp\<rparr>) }) =
        Some (s1\<lparr>pPacketParm := pp\<lparr>errCode := e\<rparr>\<rparr>)"
  proof (cases "ErrCodeRead fmt")
    case None
    then show ?thesis using that [of 0] by (simp add: s1_def pp_def)
  next
    case (Some f)
    from ErrCodeRead_total [OF Some pl] obtain e where "f pp = Some (pp\<lparr>errCode := e\<rparr>)" by blast
    then show ?thesis using that [of e] Some by (simp add: s1_def)
  qed
  let ?s2 = "s1\<lparr>pPacketParm := pp\<lparr>errCode := e\<rparr>\<rparr>"
  have "offered bufsz p (take n buf) ?s2"
    using assms(2,3) n nb pl by (simp add: offered_def s1_def pp_def)
  moreover have "R x ?s2" using assms(1) by (simp add: s1_def R_parm)
  moreover have "fverdict (take n buf) = Packet (length (take n buf))" using v n by simp
  ultimately obtain s' where s': "FuncCallBack E ?s2 = Some s'" "R (act p (take n buf) x) s'"
      "frame_kept bufsz input ?s2 s'"
    using calls by blast
  have "frame_kept bufsz input s s'"
    using s'(3) by (simp add: frame_kept_def frame_same_def s1_def)
  then show ?thesis using s'(1,2) fill rd by (simp add: deliver_def)
qed

end

section \<open>The inner loop\<close>

lemma parse_less_induct [case_names less]:
  assumes "\<And>l. (\<And>l'. parse_less l' l \<Longrightarrow> P l') \<Longrightarrow> P l"
  shows "P l"
proof -
  have "wf (inv_image (less_than <*lex*> less_than <*lex*> less_than) parse_measure)"
    by (intro wf_inv_image wf_lex_prod wf_less_than)
  then show ?thesis
    by (induction l rule: wf_induct_rule) (rule assms, simp add: parse_less_def in_inv_image)
qed

lemma parse_less_le: "parse_less l l' \<Longrightarrow> msgWriteIndex l \<le> msgWriteIndex l'"
  by (auto simp: parse_less_def parse_measure_def)

context frame_decoder begin

text \<open>The outcome of a run of the inner loop on link \<open>p\<close>.\<close>

definition bytes_done :: "nat \<Rightarrow> 'o \<Rightarrow> ('w, 'z) frame_state_scheme \<Rightarrow> ('w, 'z) frame_state_scheme \<Rightarrow> bool" where
  "bytes_done p x s s' \<longleftrightarrow> (\<exists>l'. links s' = (links s)[p := l'] \<and> parse_ok l' \<and>
     msgReadIndex l' = msgWriteIndex l' \<and> link_conf l' = link_conf (links s ! p) \<and>
     deStartTime l' = deStartTime (links s ! p) \<and>
     msgWriteIndex l' + sum_list (map length (fst (scn (pending (links s ! p))))) \<le> msgWriteIndex (links s ! p) \<and>
     pending l' = snd (scn (pending (links s ! p))) \<and>
     R (fold (act p) (fst (scn (pending (links s ! p)))) x) s' \<and>
     frame_same bufsz s s' \<and> (\<forall>q. input q (world s') = input q (world s)))"

lemma idle_pending:
  assumes ok: "parse_ok l" and idle: "msgReadIndex l = msgWriteIndex l"
  shows "scn (pending l) = ([], pending l)"
proof (cases "sofMark l")
  case False
  then show ?thesis using idle by (simp add: pending_def)
next
  case True
  note len = parse_ok_len [OF ok]
  have p: "deStep l < nsteps" "lower (deStep l) \<le> deLenght l" "\<forall>j < deStep l. chk j (pDeMsgBuff l)"
      "deStepLength l = slen (deStep l) (pDeMsgBuff l)" "deLenght l < deStepLength l"
      "deStepLength l \<le> bufsz" "deLenght l = msgWriteIndex l" "pDeMsgBuff l ! 0 = sof fmt" "0 < msgWriteIndex l"
    using ok True idle by (simp_all add: parse_ok_def)
  have pend: "pending l = take (msgWriteIndex l) (pDeMsgBuff l)" using True by (simp add: pending_def)
  have "lower (deStep l) \<le> msgWriteIndex l" using p by simp
  note v = fverdict_pending [OF len(1,4) p(1,3) this]
  have "fverdict (pending l) = Incomplete"
    using v(1,2) p len by (simp add: pend steps_from_step [OF p(1)])
  moreover have "pending l = sof fmt # tl (pending l)"
    using p(8,9) len by (cases "pDeMsgBuff l") (auto simp: pend take_Cons')
  ultimately show ?thesis by (metis scan_sf_incomplete)
qed

lemma decode_bytes_ok:
  assumes "p < length (links s)" and "parse_ok (links s ! p)" and "pFuncList (links s ! p) \<noteq> None"
    and "length (pPacket (pPacketParm s)) = bufsz" and "R x s"
  shows "\<exists>s'. decode_bytes E fmt p s = Some s' \<and> bytes_done p x s s'"
  using assms
proof (induction "links s ! p" arbitrary: s x rule: parse_less_induct)
  case less
  let ?l = "links s ! p"
  have gl: "get_link p s = Some ?l" using less.prems(1) by (rule get_link_Some)
  show ?case
  proof (cases "msgReadIndex ?l < msgWriteIndex ?l")
    case False
    then have idle: "msgReadIndex ?l = msgWriteIndex ?l" using parse_ok_len [OF less.prems(2)] by simp
    have "decode_bytes E fmt p s = Some s" by (simp add: decode_bytes.simps [of E fmt p s] gl False)
    moreover have "bytes_done p x s s"
      using less.prems idle idle_pending [OF less.prems(2) idle]
      by (auto simp: bytes_done_def frame_same_def intro!: exI [of _ ?l])
    ultimately show ?thesis by blast
  next
    case True
    obtain l' c where db: "decode_byte fmt ?l = Some (l', c)" "step_result ?l l' c"
      using decode_byte_ok [OF less.prems(2) True] .
    let ?s1 = "s\<lparr>links := (links s)[p := l']\<rparr>"
    have s1: "links ?s1 ! p = l'" "p < length (links ?s1)" using less.prems(1) by simp_all
    show ?thesis
    proof (cases c)
      case False
      then have r: "parse_ok l'" "parse_less l' ?l" "scn (pending l') = scn (pending ?l)"
          "link_conf l' = link_conf ?l" "deStartTime l' = deStartTime ?l"
        using db(2) by (simp_all add: step_result_def)
      have fl: "pFuncList l' \<noteq> None" using link_confD(7) [OF r(4)] less.prems(3) by simp
      obtain s' where s': "decode_bytes E fmt p ?s1 = Some s'" "bytes_done p x ?s1 s'"
        using less.hyps [of ?s1 x] r fl less.prems s1 by (auto simp: R_links)
      have "decode_bytes E fmt p s = Some s'"
        using s'(1) False db(1) True gl
        by (simp add: decode_bytes.simps [of E fmt p s] set_link_def)
      moreover have "bytes_done p x s s'"
        using s'(2) r parse_less_le [OF r(2)] s1
        by (force simp: bytes_done_def frame_same_def)
      ultimately show ?thesis by blast
    next
      case c: True
      then have r: "step_result ?l l' True" using db(2) by simp
      let ?n = "deLenght l'" and ?b = "pDeMsgBuff l'"
      have rl: "link_conf l' = link_conf ?l" "?n \<le> msgWriteIndex l'" "msgWriteIndex l' \<le> length ?b"
          "pending ?l = take (msgWriteIndex l') ?b" "fverdict (pending ?l) = Packet ?n"
        using r unfolding step_result_def if_True by (blast, blast, (metis), blast, blast)
      have fl: "pFuncList l' \<noteq> None" using link_confD(7) [OF rl(1)] less.prems(3) by simp
      have "take ?n (pending ?l) = take ?n ?b" using rl(2) by (simp add: rl(4) min_absorb1)
      then have v: "fverdict (take ?n ?b) = Packet ?n" using v_packet [OF rl(5)] by simp
      obtain s2 where s2: "deliver E fmt p ?b ?n ?s1 = Some s2" "R (act p (take ?n ?b) x) s2"
          "frame_kept bufsz input ?s1 s2"
        using deliver_ok [of x ?s1 p ?n ?b] less.prems fl s1 rl(2,3) v by (auto simp: R_links)
      obtain l2 where l2: "LinkMsgToZero (msgReadIndex (STEPCLEAR l')) (STEPCLEAR l') = Some l2"
          "parse_ok l2" "parse_less l2 ?l" "link_conf l2 = link_conf ?l" "deStartTime l2 = deStartTime ?l"
          "scn (pending ?l) = (take ?n ?b # fst (scn (pending l2)), snd (scn (pending l2)))"
          "msgWriteIndex l2 + length (take ?n ?b) = msgWriteIndex ?l"
        using after_packet [OF r] by blast
      have ls2: "links s2 = (links s)[p := l']" using s2(3) by (simp add: frame_kept_def)
      let ?s3 = "s2\<lparr>links := (links s)[p := l2]\<rparr>"
      have fl2: "pFuncList l2 \<noteq> None" using link_confD(7) [OF l2(4)] less.prems(3) by simp
      have step: "decode_bytes E fmt p s = decode_bytes E fmt p ?s3"
        using c db(1) True gl s2(1) l2(1) less.prems(1) ls2
        by (simp add: decode_bytes.simps [of E fmt p s] set_link_def upd_link_Some get_link_Some)
      have pk: "length (pPacket (pPacketParm ?s3)) = bufsz"
        using s2(3) by (simp add: frame_kept_def frame_same_def)
      obtain s' where s': "decode_bytes E fmt p ?s3 = Some s'" "bytes_done p (act p (take ?n ?b) x) ?s3 s'"
        using less.hyps [of ?s3 "act p (take ?n ?b) x"] l2 fl2 pk less.prems(1) s2(2)
        by (auto simp: R_links)
      have "bytes_done p x s s'"
        using s'(2) s2(3) l2(4,5,6,7) parse_less_le [OF l2(3)] less.prems(1)
        by (force simp: bytes_done_def frame_kept_def frame_same_def)
      then show ?thesis using step s'(1) by auto
    qed
  qed
qed

end

section \<open>Reading\<close>

text \<open>
  A read either brings bytes, or nothing changes, or (when the link has been silent too long) the
  first byte in the buffer is given up.
\<close>

definition quiet_timeout :: "('w, 'z) frame_state_scheme \<Rightarrow> 'w link \<Rightarrow> bool" where
  "quiet_timeout s l \<longleftrightarrow> IsTimeOut s (ucast (deTimeOut l)) (deStartTime l) \<and> msgWriteIndex l \<noteq> 0"

context frame_format begin

lemma parse_ok_append:
  assumes ok: "parse_ok l" and idle: "msgReadIndex l = msgWriteIndex l"
    and len: "msgWriteIndex l + length ch \<le> bufsz"
  shows "parse_ok (l\<lparr>pDeMsgBuff := take (msgWriteIndex l) (pDeMsgBuff l) @ ch @
             drop (msgWriteIndex l + length ch) (pDeMsgBuff l), deStartTime := t,
             msgWriteIndex := msgWriteIndex l + length ch\<rparr>) \<and>
         pending (l\<lparr>pDeMsgBuff := take (msgWriteIndex l) (pDeMsgBuff l) @ ch @
             drop (msgWriteIndex l + length ch) (pDeMsgBuff l), deStartTime := t,
             msgWriteIndex := msgWriteIndex l + length ch\<rparr>) = pending l @ ch"
    (is "parse_ok ?l \<and> _")
proof
  let ?w = "msgWriteIndex l" and ?b = "pDeMsgBuff l"
  let ?b' = "take ?w ?b @ ch @ drop (?w + length ch) ?b"
  note pl = parse_ok_len [OF ok]
  have w: "?w \<le> length ?b" using pl by simp
  have tk: "take k ?b' = take k ?b" if "k \<le> ?w" for k
    using that w by (simp add: min_absorb1)
  have nth: "?b' ! k = ?b ! k" if "k < ?w" for k using that w by (simp add: nth_append)
  show "parse_ok ?l"
  proof (cases "sofMark l")
    case False
    then show ?thesis using ok idle len pl nth by (auto simp: parse_ok_def)
  next
    case True
    have p: "deStep l < nsteps" "lower (deStep l) \<le> ?w" "\<forall>j < deStep l. chk j ?b" "0 < ?w"
      using ok True idle by (simp_all add: parse_ok_def)
    have "chk j ?b' = chk j ?b" if "j < deStep l" for j
      by (rule chk_prefix [OF that p(1) tk [OF p(2)]])
    moreover have "slen (deStep l) ?b' = slen (deStep l) ?b" by (rule slen_local [OF p(1) tk [OF p(2)]])
    ultimately show ?thesis using ok True idle len pl nth [OF p(4)] p(3) by (simp add: parse_ok_def)
  qed
  show "pending ?l = pending l @ ch"
    using w idle by (simp add: pending_def)
qed

lemma parse_ok_give_up:
  assumes ok: "parse_ok l" and w: "msgWriteIndex l \<noteq> 0"
  shows "\<exists>l'. LinkMsgToZero 1 l = Some l' \<and> parse_ok (STEPCLEAR l') \<and>
           msgWriteIndex (STEPCLEAR l') = msgWriteIndex l - 1 \<and> link_conf (STEPCLEAR l') = link_conf l"
  using parse_ok_len [OF ok] w
  by (subst LinkMsgToZero_Some) (simp_all add: parse_ok_def link_macros)

text \<open>The cases of \<open>read_link\<close> under the reader's contract.\<close>

lemma read_link_ok:
  assumes ok: "parse_ok l" and idle: "msgReadIndex l = msgWriteIndex l"
    and rd: "readData l = Some rd" and reads: "reads_input input p rd"
  shows "\<exists>l' w'. read_link s l = Some (l', w') \<and> parse_ok l' \<and> link_conf l' = link_conf l \<and>
     (\<forall>q. q \<noteq> p \<longrightarrow> input q w' = input q (world s)) \<and>
     ((\<exists>ch. ch \<noteq> [] \<and> input p (world s) = ch @ input p w' \<and> pending l' = pending l @ ch \<and>
            deStartTime l' = timeCNT s \<and> msgReadIndex l' < msgWriteIndex l' \<and>
            msgWriteIndex l' = msgWriteIndex l + length ch) \<or>
      (input p w' = input p (world s) \<and> (msgWriteIndex l = bufsz \<or> input p (world s) = []) \<and>
         (if quiet_timeout s l then msgWriteIndex l' < msgWriteIndex l \<and> msgReadIndex l' = 0 else l' = l)))"
proof -
  note pl = parse_ok_len [OF ok]
  let ?n = "bufsz - msgWriteIndex l"
  obtain ch w' where r: "rd ?n (world s) = (ch, w')" by (cases "rd ?n (world s)")
  have c: "input p (world s) = ch @ input p w'" "length ch \<le> ?n" "length ch < 256"
      "ch = [] \<Longrightarrow> ?n = 0 \<or> input p (world s) = []" "\<forall>q. q \<noteq> p \<longrightarrow> input q w' = input q (world s)"
    using spec [OF spec [OF reads [unfolded reads_input_def], of ?n], of "world s"] r by auto
  have n: "u16n (sub32 (maxMsgNum l) (msgWriteIndex l)) = ?n" using pl by simp
  have fit: "msgWriteIndex l + length ch \<le> bufsz" using c(2) pl by simp
  show ?thesis
  proof (cases "ch = []")
    case False
    let ?l = "l\<lparr>pDeMsgBuff := take (msgWriteIndex l) (pDeMsgBuff l) @ ch @
             drop (msgWriteIndex l + length ch) (pDeMsgBuff l), deStartTime := timeCNT s,
             msgWriteIndex := msgWriteIndex l + length ch\<rparr>"
    have "read_link s l = Some (?l, w')"
      using False c(3) fit pl rd r n
      by (simp add: read_link_def wr_range_Some GetStartTime_def Let_def)
    then show ?thesis
      using parse_ok_append [OF ok idle fit, of "timeCNT s"] False c(1,5) idle
      by (intro exI [of _ ?l] exI [of _ w']) auto
  next
    case True
    have buf: "wr_range (pDeMsgBuff l) (msgWriteIndex l) [] = Some (pDeMsgBuff l)"
      using pl by (simp add: wr_range_Some)
    show ?thesis
    proof (cases "quiet_timeout s l")
      case to: True
      then have w: "msgWriteIndex l \<noteq> 0" by (simp add: quiet_timeout_def)
      obtain l' where l': "LinkMsgToZero 1 l = Some l'" "parse_ok (STEPCLEAR l')"
          "msgWriteIndex (STEPCLEAR l') = msgWriteIndex l - 1" "link_conf (STEPCLEAR l') = link_conf l"
        using parse_ok_give_up [OF ok w] by blast
      have wl: "msgWriteIndex (STEPCLEAR l') < 4294967296" using l'(3) pl by simp
      have "read_link s l = Some (STEPCLEAR l', w')"
        using True to rd r n buf l'(1) wl pl
        by (simp add: read_link_def quiet_timeout_def Let_def)
      moreover have "msgReadIndex (STEPCLEAR l') = 0"
        using l'(1) w pl by (subst (asm) LinkMsgToZero_Some) (auto simp: link_macros)
      ultimately show ?thesis
        using l' w c True to pl by (intro exI [of _ "STEPCLEAR l'"] exI [of _ w']) auto
    next
      case False
      then have "read_link s l = Some (l, w')"
        using True rd r n buf pl
        by (auto simp: read_link_def quiet_timeout_def Let_def)
      then show ?thesis using ok c True False pl by (intro exI [of _ l] exI [of _ w']) auto
    qed
  qed
qed

end

section \<open>The outer loop\<close>

text \<open>
  A link between two calls of \<open>DecodeLinkPacket\<close>: everything read has been parsed, and the
  link has a function list and a reader that satisfies its contract.
\<close>

definition link_ready :: "(nat \<Rightarrow> 'w \<Rightarrow> bytes) \<Rightarrow> nat \<Rightarrow> 'w link \<Rightarrow> bool" where
  "link_ready input p l \<longleftrightarrow> pFuncList l \<noteq> None \<and>
     (case readData l of None \<Rightarrow> False | Some rd \<Rightarrow> reads_input input p rd)"

lemma link_ready_conf: "link_conf l = link_conf l' \<Longrightarrow> link_ready input p l = link_ready input p l'"
  using link_confD(3,7) [of l l'] by (simp add: link_ready_def)

lemma lex_induct [case_names less]:
  fixes P :: "nat \<Rightarrow> nat \<Rightarrow> bool"
  assumes "\<And>a b. (\<And>a' b'. a' < a \<or> a' = a \<and> b' < b \<Longrightarrow> P a' b') \<Longrightarrow> P a b"
  shows "P a b"
proof (induction a arbitrary: b rule: less_induct)
  case (less a)
  note outer = less
  show ?case
    by (induction b rule: less_induct) (use outer in \<open>blast intro: assms\<close>)
qed

text \<open>Bytes dropped after a silence were the only way to lose what had been received.\<close>

definition in_time :: "(nat \<Rightarrow> 'w \<Rightarrow> bytes) \<Rightarrow> nat \<Rightarrow> ('w, 'z) frame_state_scheme \<Rightarrow> 'w link \<Rightarrow> bool" where
  "in_time input p s l \<longleftrightarrow> \<not> quiet_timeout s l \<or> (input p (world s) \<noteq> [] \<and> msgWriteIndex l < length (pDeMsgBuff l))"

context frame_decoder begin

definition reads_done :: "nat \<Rightarrow> 'o \<Rightarrow> ('w, 'z) frame_state_scheme \<Rightarrow> ('w, 'z) frame_state_scheme \<Rightarrow> bool" where
  "reads_done p x s s' \<longleftrightarrow> (\<exists>l' pkts got.
     links s' = (links s)[p := l'] \<and> parse_ok l' \<and> msgReadIndex l' = msgWriteIndex l' \<and>
     link_conf l' = link_conf (links s ! p) \<and> R (fold (act p) pkts x) s' \<and>
     frame_same bufsz s s' \<and> (\<forall>q. q \<noteq> p \<longrightarrow> input q (world s') = input q (world s)) \<and>
     (\<forall>pkt \<in> set pkts. fverdict pkt = Packet (length pkt) \<and> pkt \<noteq> [] \<and> hd pkt = sof fmt) \<and>
     input p (world s) = got @ input p (world s') \<and>
     msgWriteIndex l' \<le> msgWriteIndex (links s ! p) + length got \<and>
     (\<not> quiet_timeout s (links s ! p) \<longrightarrow> \<not> quiet_timeout s' l') \<and>
     (in_time input p s (links s ! p) \<longrightarrow>
        (pkts, pending l') = scn (pending (links s ! p) @ got) \<and>
        (input p (world s') = [] \<or> msgWriteIndex l' = bufsz)))"

lemma reads_doneI:
  assumes "links s' = (links s)[p := l']" "parse_ok l'" "msgReadIndex l' = msgWriteIndex l'"
    "link_conf l' = link_conf (links s ! p)" "R (fold (act p) pkts x) s'" "frame_same bufsz s s'"
    "\<And>q. q \<noteq> p \<Longrightarrow> input q (world s') = input q (world s)"
    "\<forall>pkt \<in> set pkts. fverdict pkt = Packet (length pkt) \<and> pkt \<noteq> [] \<and> hd pkt = sof fmt"
    "input p (world s) = got @ input p (world s')"
    "msgWriteIndex l' \<le> msgWriteIndex (links s ! p) + length got"
    "\<not> quiet_timeout s (links s ! p) \<Longrightarrow> \<not> quiet_timeout s' l'"
    "in_time input p s (links s ! p) \<Longrightarrow> (pkts, pending l') = scn (pending (links s ! p) @ got)"
    "in_time input p s (links s ! p) \<Longrightarrow> input p (world s') = [] \<or> msgWriteIndex l' = bufsz"
  shows "reads_done p x s s'"
  unfolding reads_done_def using assms by blast

text \<open>A nonempty or timed-out read, the inner loop, and the rest of the outer loop.\<close>

lemma reads_done_step:
  assumes p: "p < length (links s)" and l1: "link_conf l1 = link_conf (links s ! p)"
    and s1: "s1 = s\<lparr>world := w1, links := (links s)[p := l1]\<rparr>"
    and oth: "\<forall>q. q \<noteq> p \<longrightarrow> input q w1 = input q (world s)"
    and b: "bytes_done p x s1 s2"
    and r: "reads_done p (fold (act p) (fst (scn (pending l1))) x) s2 s'"
    and got: "input p (world s) = ch @ input p w1"
    and wr: "msgWriteIndex l1 \<le> msgWriteIndex (links s ! p) + length ch"
    and quiet: "\<not> quiet_timeout s (links s ! p) \<Longrightarrow> \<not> quiet_timeout s2 (links s2 ! p)"
    and intime: "in_time input p s (links s ! p) \<Longrightarrow>
           in_time input p s2 (links s2 ! p) \<and> pending l1 = pending (links s ! p) @ ch"
  shows "reads_done p x s s'"
proof -
  have s1p: "links s1 ! p = l1" using p s1 by simp
  obtain l2 where l2: "links s2 = (links s)[p := l2]" "link_conf l2 = link_conf l1"
      "pending l2 = snd (scn (pending l1))" "frame_same bufsz s1 s2"
      "\<forall>q. input q (world s2) = input q (world s1)" "msgWriteIndex l2 \<le> msgWriteIndex l1"
    using b s1 s1p by (auto simp: bytes_done_def)
  have s2p: "links s2 ! p = l2" using p l2(1) by simp
  obtain l' pkts got' where l': "links s' = (links s2)[p := l']" "parse_ok l'"
      "msgReadIndex l' = msgWriteIndex l'" "link_conf l' = link_conf l2"
      "R (fold (act p) pkts (fold (act p) (fst (scn (pending l1))) x)) s'" "frame_same bufsz s2 s'"
      "\<forall>q. q \<noteq> p \<longrightarrow> input q (world s') = input q (world s2)"
      "\<forall>pkt \<in> set pkts. fverdict pkt = Packet (length pkt) \<and> pkt \<noteq> [] \<and> hd pkt = sof fmt"
      "input p (world s2) = got' @ input p (world s')"
      "msgWriteIndex l' \<le> msgWriteIndex l2 + length got'"
      "\<not> quiet_timeout s2 l2 \<longrightarrow> \<not> quiet_timeout s' l'"
      "in_time input p s2 l2 \<longrightarrow> (pkts, pending l') = scn (pending l2 @ got') \<and>
         (input p (world s') = [] \<or> msgWriteIndex l' = bufsz)"
    using r unfolding reads_done_def s2p by blast
  let ?pkts = "fst (scn (pending l1)) @ pkts"
  show ?thesis
  proof (rule reads_doneI [of s' s p l' ?pkts x "ch @ got'"])
    show "links s' = (links s)[p := l']" using l'(1) l2(1) by simp
    show "parse_ok l'" "msgReadIndex l' = msgWriteIndex l'" by fact+
    show "link_conf l' = link_conf (links s ! p)" using l'(4) l2(2) l1 by simp
    show "R (fold (act p) ?pkts x) s'" using l'(5) by simp
    have "frame_same bufsz s s2" using l2(4) s1 by (simp add: frame_same_def)
    then show "frame_same bufsz s s'" using l'(6) by (rule frame_same_trans)
    show "input q (world s') = input q (world s)" if "q \<noteq> p" for q
      using that l'(7) l2(5) oth s1 by simp
    show "\<forall>pkt \<in> set ?pkts. fverdict pkt = Packet (length pkt) \<and> pkt \<noteq> [] \<and> hd pkt = sof fmt"
      using l'(8) scan_sound [of "pending l1"] by auto
    show "input p (world s) = (ch @ got') @ input p (world s')" using got l'(9) l2(5) s1 by simp
    show "msgWriteIndex l' \<le> msgWriteIndex (links s ! p) + length (ch @ got')"
      using l'(10) l2(6) wr by simp
    show "\<not> quiet_timeout s (links s ! p) \<Longrightarrow> \<not> quiet_timeout s' l'"
      using l'(11) quiet s2p by blast
    assume "in_time input p s (links s ! p)"
    then have "in_time input p s2 l2" and pl: "pending l1 = pending (links s ! p) @ ch"
      using intime s2p by auto
    then have "(pkts, pending l') = scn (pending l2 @ got')"
        and "input p (world s') = [] \<or> msgWriteIndex l' = bufsz" using l'(12) by blast+
    then show "input p (world s') = [] \<or> msgWriteIndex l' = bufsz"
      and "(?pkts, pending l') = scn (pending (links s ! p) @ ch @ got')"
      unfolding append_assoc [symmetric] pl [symmetric] scan_append [of "pending l1" got'] l2(3) [symmetric]
      by (simp_all, metis fst_conv snd_conv)
  qed
qed

lemma decode_reads_ok:
  assumes "p < length (links s)" and "parse_ok (links s ! p)"
    and "msgReadIndex (links s ! p) = msgWriteIndex (links s ! p)" and "link_ready input p (links s ! p)"
    and "length (pPacket (pPacketParm s)) = bufsz" and "R x s"
  shows "\<exists>s'. decode_reads E fmt p s = Some s' \<and> reads_done p x s s'"
  using assms
proof (induction "length (input p (world s))" "msgWriteIndex (links s ! p)" arbitrary: s x
    rule: lex_induct)
  case less
  note hyps = less.hyps and prems = less.prems
  let ?l = "links s ! p"
  obtain rd where rd: "readData ?l = Some rd" "reads_input input p rd" "pFuncList ?l \<noteq> None"
    using prems(4) by (auto simp: link_ready_def split: option.splits)
  obtain l1 w1 where r: "read_link s ?l = Some (l1, w1)" "parse_ok l1" "link_conf l1 = link_conf ?l"
      "\<forall>q. q \<noteq> p \<longrightarrow> input q w1 = input q (world s)"
      "(\<exists>ch. ch \<noteq> [] \<and> input p (world s) = ch @ input p w1 \<and> pending l1 = pending ?l @ ch \<and>
            deStartTime l1 = timeCNT s \<and> msgReadIndex l1 < msgWriteIndex l1 \<and>
            msgWriteIndex l1 = msgWriteIndex ?l + length ch) \<or>
      (input p w1 = input p (world s) \<and> (msgWriteIndex ?l = bufsz \<or> input p (world s) = []) \<and>
         (if quiet_timeout s ?l then msgWriteIndex l1 < msgWriteIndex ?l \<and> msgReadIndex l1 = 0 else l1 = ?l))"
    using read_link_ok [OF prems(2,3) rd(1,2), of s] by blast
  define s1 where "s1 = s\<lparr>world := w1, links := (links s)[p := l1]\<rparr>"
  have gl: "get_link p s = Some ?l" using prems(1) by (rule get_link_Some)
  have s1: "p < length (links s1)" "links s1 ! p = l1" "length (pPacket (pPacketParm s1)) = bufsz"
      "R x s1" "world s1 = w1"
    using prems(1,5,6) by (simp_all add: s1_def R_read)
  have step: "decode_reads E fmt p s = (if msgReadIndex l1 = msgWriteIndex l1 then Some s1
      else do { s \<leftarrow> decode_bytes E fmt p s1; decode_reads E fmt p s })"
    using gl r(1) by (simp add: decode_reads.simps [of E fmt p s] set_link_def s1_def)
  have buf: "length (pDeMsgBuff ?l) = bufsz" using parse_ok_len [OF prems(2)] by simp
  have fl1: "pFuncList l1 \<noteq> None" using link_confD(7) [OF r(3)] rd(3) by simp
  obtain s2 where s2: "decode_bytes E fmt p s1 = Some s2" "bytes_done p x s1 s2"
    using decode_bytes_ok [of p s1 x] s1 r(2) fl1 by auto
  obtain l2 where l2: "links s2 = (links s)[p := l2]" "parse_ok l2" "msgReadIndex l2 = msgWriteIndex l2"
      "link_conf l2 = link_conf l1" "deStartTime l2 = deStartTime l1" "msgWriteIndex l2 \<le> msgWriteIndex l1"
      "pending l2 = snd (scn (pending l1))" "R (fold (act p) (fst (scn (pending l1))) x) s2"
      "frame_same bufsz s1 s2" "\<forall>q. input q (world s2) = input q w1"
    using s2(2) prems(1) by (auto simp: bytes_done_def s1_def)
  have s2p: "links s2 ! p = l2" "p < length (links s2)" using prems(1) l2(1) by simp_all
  have conf2: "link_conf l2 = link_conf ?l" using l2(4) r(3) by simp
  have again: "\<exists>s'. decode_reads E fmt p s2 = Some s' \<and>
         reads_done p (fold (act p) (fst (scn (pending l1))) x) s2 s'"
    if "length (input p w1) < length (input p (world s)) \<or>
        length (input p w1) = length (input p (world s)) \<and> msgWriteIndex l2 < msgWriteIndex ?l"
    using hyps [of s2 "fold (act p) (fst (scn (pending l1))) x"] that l2 s2p
      link_ready_conf [OF conf2] prems(4)
    by (simp add: frame_same_def)
  from r(5) show ?case
  proof
    assume "\<exists>ch. ch \<noteq> [] \<and> input p (world s) = ch @ input p w1 \<and> pending l1 = pending ?l @ ch \<and>
            deStartTime l1 = timeCNT s \<and> msgReadIndex l1 < msgWriteIndex l1 \<and>
            msgWriteIndex l1 = msgWriteIndex ?l + length ch"
    then obtain ch where ch: "ch \<noteq> []" "input p (world s) = ch @ input p w1" "pending l1 = pending ?l @ ch"
      "deStartTime l1 = timeCNT s" "msgReadIndex l1 < msgWriteIndex l1"
      "msgWriteIndex l1 = msgWriteIndex ?l + length ch"
      by blast
    obtain s' where s': "decode_reads E fmt p s2 = Some s'"
        "reads_done p (fold (act p) (fst (scn (pending l1))) x) s2 s'"
      using again ch(1,2) by auto
    have "timeCNT s2 = timeCNT s" using l2(9) by (simp add: frame_same_def s1_def)
    then have "\<not> quiet_timeout s2 l2"
      using l2(5) ch(4) by (simp add: quiet_timeout_def IsTimeOut_def)
    then have "reads_done p x s s'"
      unfolding s2p(1) [symmetric]
      using reads_done_step [OF prems(1) r(3) s1_def r(4) s2(2) s'(2) ch(2)] ch(3,6) by (simp add: in_time_def)
    then show ?thesis using step s2(1) s'(1) ch(5) by simp
  next
    assume "input p w1 = input p (world s) \<and> (msgWriteIndex ?l = bufsz \<or> input p (world s) = []) \<and>
         (if quiet_timeout s ?l then msgWriteIndex l1 < msgWriteIndex ?l \<and> msgReadIndex l1 = 0 else l1 = ?l)"
    then have e: "input p w1 = input p (world s)" "msgWriteIndex ?l = bufsz \<or> input p (world s) = []"
      "if quiet_timeout s ?l then msgWriteIndex l1 < msgWriteIndex ?l \<and> msgReadIndex l1 = 0 else l1 = ?l"
      by blast+
    have stop: "reads_done p x s s1" if "msgReadIndex l1 = msgWriteIndex l1"
        "in_time input p s ?l \<Longrightarrow> l1 = ?l" "in_time input p s ?l \<Longrightarrow> msgWriteIndex l1 = bufsz \<or> input p (world s) = []"
        "msgWriteIndex l1 \<le> msgWriteIndex ?l" "quiet_timeout s ?l \<or> l1 = ?l"
      using that r(2,3,4) prems(5,6) e(1) s1(4) idle_pending [OF prems(2,3)]
      by (intro reads_doneI [of s1 s p l1 "[]" x "[]"]) (auto simp: s1_def frame_same_def quiet_timeout_def IsTimeOut_def)
    have late: "\<not> in_time input p s ?l" if "quiet_timeout s ?l"
      using that e(2) buf by (auto simp: in_time_def)
    show ?thesis
    proof (cases "quiet_timeout s ?l")
      case False
      then have "l1 = ?l" using e(3) by simp
      then have "reads_done p x s s1" using stop prems(3) e(2) by simp
      then show ?thesis using step \<open>l1 = ?l\<close> prems(3) by simp
    next
      case True
      then have w: "msgWriteIndex l1 < msgWriteIndex ?l" "msgReadIndex l1 = 0" using e(3) by simp_all
      show ?thesis
      proof (cases "msgWriteIndex l1 = 0")
        case False
        obtain s' where s': "decode_reads E fmt p s2 = Some s'"
            "reads_done p (fold (act p) (fst (scn (pending l1))) x) s2 s'"
          using again w(1) l2(6) e(1) by auto
        have "input p (world s) = [] @ input p w1" using e(1) by simp
        moreover have "msgWriteIndex l1 \<le> msgWriteIndex ?l + length ([] :: bytes)" using w by simp
        ultimately have "in_time input p s ?l \<longrightarrow> in_time input p s2 (links s2 ! p) \<and> pending l1 = pending ?l @ [] \<Longrightarrow>
            reads_done p x s s'"
          using True by (intro reads_done_step [OF prems(1) r(3) s1_def r(4) s2(2) s'(2)]) blast+
        then
        have "reads_done p x s s'" using late [OF True] by blast
        then show ?thesis using step s2(1) s'(1) w False by simp
      next
        case z: True
        then have "msgReadIndex l1 = msgWriteIndex l1" using w by simp
        then have "reads_done p x s s1" using stop late [OF True] less_imp_le [OF w(1)] True by blast
        then show ?thesis using step w z by simp
      qed
    qed
  qed
qed

end

section \<open>A call of \<open>DecodeLinkPacket\<close>, and one for every link\<close>

definition idle_inv :: "format \<Rightarrow> nat \<Rightarrow> (nat \<Rightarrow> nat) \<Rightarrow> (nat \<Rightarrow> bytes \<Rightarrow> bool) \<Rightarrow> (bytes \<Rightarrow> nat) \<Rightarrow>
    'w link \<Rightarrow> bool" where
  "idle_inv fmt bufsz lower chk packet_len l \<longleftrightarrow> parse_inv fmt bufsz lower chk packet_len l \<and>
     msgReadIndex l = msgWriteIndex l \<and> (\<not> sofMark l \<longrightarrow> msgWriteIndex l = 0)"

text \<open>Every registered link is between two calls and connected to the format.\<close>

definition decoder_ready :: "('w, 'z) frame_state_scheme frame_env \<Rightarrow> (nat \<Rightarrow> 'w \<Rightarrow> bytes) \<Rightarrow> format \<Rightarrow> nat \<Rightarrow>
    (nat \<Rightarrow> nat) \<Rightarrow> (nat \<Rightarrow> bytes \<Rightarrow> bool) \<Rightarrow> (bytes \<Rightarrow> nat) \<Rightarrow> ('w, 'z) frame_state_scheme \<Rightarrow> bool" where
  "decoder_ready E input fmt bufsz lower chk packet_len s \<longleftrightarrow>
     length (pPacket (pPacketParm s)) = bufsz \<and>
     (\<forall>p. registered s p \<longrightarrow> p < length (links s) \<and>
        idle_inv fmt bufsz lower chk packet_len (links s ! p) \<and> link_ready input p (links s ! p) \<and>
        (case pFormat (links s ! p) of None \<Rightarrow> False | Some fid \<Rightarrow> formats E fid = fmt))"

context frame_decoder begin

abbreviation "link_idle \<equiv> idle_inv fmt bufsz lower chk packet_len"

lemma idle_clear: "length (pDeMsgBuff l) = bufsz \<Longrightarrow> maxMsgNum l = bufsz \<Longrightarrow> link_idle (MSGCLEAR (STEPCLEAR l))"
  by (simp add: idle_inv_def parse_ok_def link_macros)

lemma link_conf_clear: "link_conf (MSGCLEAR (STEPCLEAR l)) = link_conf l"
  by (simp add: link_macros)

text \<open>What the call does to an enabled link and the state around it.\<close>

definition link_decoded :: "nat \<Rightarrow> 'o \<Rightarrow> ('w, 'z) frame_state_scheme \<Rightarrow> ('w, 'z) frame_state_scheme \<Rightarrow> bool" where
  "link_decoded p x s s' \<longleftrightarrow> (\<exists>l' pkts got.
     links s' = (links s)[p := l'] \<and> link_idle l' \<and> link_conf l' = link_conf (links s ! p) \<and>
     R (fold (act p) pkts x) s' \<and> frame_same bufsz s s' \<and>
     (\<forall>q. q \<noteq> p \<longrightarrow> input q (world s') = input q (world s)) \<and>
     (\<forall>pkt \<in> set pkts. fverdict pkt = Packet (length pkt) \<and> pkt \<noteq> [] \<and> hd pkt = sof fmt) \<and>
     input p (world s) = got @ input p (world s') \<and>
     (\<not> quiet_timeout s (links s ! p) \<longrightarrow> \<not> quiet_timeout s' l') \<and>
     (in_time input p s (links s ! p) \<longrightarrow>
        (pkts, pending l') = scn (pending (links s ! p) @ got) \<and>
        (msgWriteIndex (links s ! p) + length (input p (world s)) \<le> bufsz \<longrightarrow> input p (world s') = [])))"

lemma decode_link_ok:
  assumes p: "p < length (links s)" and idle: "link_idle (links s ! p)"
    and ready: "link_ready input p (links s ! p)"
    and fid: "pFormat (links s ! p) = Some fid" "formats E fid = fmt"
    and pk: "length (pPacket (pPacketParm s)) = bufsz" and R: "R x s" and en: "enable (links s ! p)"
  shows "\<exists>s'. DecodeLinkPacket E p s = Some s' \<and> link_decoded p x s s'"
proof -
  let ?l = "links s ! p"
  have ok: "parse_ok ?l" "msgReadIndex ?l = msgWriteIndex ?l" using idle by (simp_all add: idle_inv_def)
  obtain s1 where s1: "decode_reads E fmt p s = Some s1" "reads_done p x s s1"
    using decode_reads_ok [OF p ok ready pk R] by blast
  obtain l1 pkts got where l1: "links s1 = (links s)[p := l1]" "parse_ok l1"
      "msgReadIndex l1 = msgWriteIndex l1" "link_conf l1 = link_conf ?l" "R (fold (act p) pkts x) s1"
      "frame_same bufsz s s1" "\<forall>q. q \<noteq> p \<longrightarrow> input q (world s1) = input q (world s)"
      "\<forall>pkt \<in> set pkts. fverdict pkt = Packet (length pkt) \<and> pkt \<noteq> [] \<and> hd pkt = sof fmt"
      "input p (world s) = got @ input p (world s1)" "msgWriteIndex l1 \<le> msgWriteIndex ?l + length got"
      "\<not> quiet_timeout s ?l \<longrightarrow> \<not> quiet_timeout s1 l1"
      "in_time input p s ?l \<longrightarrow> (pkts, pending l1) = scn (pending ?l @ got) \<and>
        (input p (world s1) = [] \<or> msgWriteIndex l1 = bufsz)"
    using s1(2) unfolding reads_done_def by blast
  have used: "in_time input p s ?l \<longrightarrow> (pkts, pending l1) = scn (pending ?l @ got) \<and>
      (msgWriteIndex ?l + length (input p (world s)) \<le> bufsz \<longrightarrow> input p (world s1) = [])"
  proof (intro impI conjI)
    assume it: "in_time input p s ?l"
    then show "(pkts, pending l1) = scn (pending ?l @ got)" using l1(12) by blast
    assume "msgWriteIndex ?l + length (input p (world s)) \<le> bufsz"
    then have "length (input p (world s1)) \<le> bufsz - msgWriteIndex l1" using l1(9,10) by simp
    then show "input p (world s1) = []" using l1(12) it by auto
  qed
  have gl: "get_link p s = Some ?l" "get_link p s1 = Some l1"
    using p l1(1) by (simp_all add: get_link_Some)
  show ?thesis
  proof (cases "sofMark l1")
    case True
    then have "link_idle l1" using l1(2,3) by (simp add: idle_inv_def)
    then have "link_decoded p x s s1" unfolding link_decoded_def using l1 used by blast
    then show ?thesis using gl en fid s1(1) True by (simp add: DecodeLinkPacket_def)
  next
    case False
    let ?s2 = "s1\<lparr>links := (links s)[p := MSGCLEAR l1]\<rparr>"
    have "DecodeLinkPacket E p s = Some ?s2"
      using gl en fid s1(1) False p l1(1) by (simp add: DecodeLinkPacket_def upd_link_Some)
    moreover have "link_idle (MSGCLEAR l1)"
      using l1(2) False by (simp add: idle_inv_def parse_ok_def link_macros)
    moreover have "link_conf (MSGCLEAR l1) = link_conf ?l" using l1(4) by (simp add: link_macros)
    moreover have "pending (MSGCLEAR l1) = pending l1"
      using False l1(3) by (simp add: pending_def link_macros)
    moreover have "R (fold (act p) pkts x) ?s2" using l1(5) by (rule R_links)
    moreover have "frame_same bufsz s ?s2" using l1(6) by (simp add: frame_same_def)
    moreover have "\<not> quiet_timeout ?s2 (MSGCLEAR l1)"
      by (simp add: quiet_timeout_def link_macros)
    ultimately have "link_decoded p x s ?s2"
      unfolding link_decoded_def using l1(7,8,9) used
      by (intro exI [of _ "MSGCLEAR l1"] exI [of _ pkts] exI [of _ got]) simp
    then show ?thesis using \<open>DecodeLinkPacket E p s = Some ?s2\<close> by blast
  qed
qed

abbreviation "ready \<equiv> decoder_ready E input fmt bufsz lower chk packet_len"

lemma ready_linkD:
  assumes "ready s" and "registered s p"
  shows "p < length (links s)" "link_idle (links s ! p)" "link_ready input p (links s ! p)"
    "\<exists>fid. pFormat (links s ! p) = Some fid \<and> formats E fid = fmt"
    "length (pPacket (pPacketParm s)) = bufsz"
  using assms by (auto simp: decoder_ready_def split: option.splits)

text \<open>One link decoded leaves every link ready for the next call.\<close>

lemma ready_after:
  assumes r: "ready s" and l: "links s' = (links s)[p := l']" "link_idle l'" "link_conf l' = link_conf (links s ! p)"
    and same: "frame_same bufsz s s'"
  shows "ready s'"
  unfolding decoder_ready_def
proof (intro conjI allI impI)
  show "length (pPacket (pPacketParm s')) = bufsz" using same by (simp add: frame_same_def)
  fix q assume "registered s' q"
  then have q: "registered s q" using same by (simp add: frame_same_def registered_def)
  note d = ready_linkD [OF r q]
  show "q < length (links s')" using d l by simp
  have conf: "link_conf (links s' ! q) = link_conf (links s ! q)"
    using l d(1) by (cases "q = p") simp_all
  show "link_idle (links s' ! q)" using d l by (cases "q = p") simp_all
  show "link_ready input q (links s' ! q)" using d(3) link_ready_conf [OF conf] by blast
  show "case pFormat (links s' ! q) of None \<Rightarrow> False | Some fid \<Rightarrow> formats E fid = fmt"
    using d(4) link_confD(6) [OF conf] by auto
qed

lemma map_conf_update:
  "i < length ls \<Longrightarrow> link_conf l = link_conf (ls ! i) \<Longrightarrow> map link_conf (ls[i := l]) = map link_conf ls"
  by (metis list_update_id map_update nth_map length_map)

lemma decode_link_ready:
  assumes r: "ready s" and p: "registered s p" and R: "R x s"
  shows "\<exists>s' pkts. DecodeLinkPacket E p s = Some s' \<and> ready s' \<and> R (fold (act p) pkts x) s' \<and>
     frame_same bufsz s s' \<and> same_conf s s' \<and> (\<forall>q. q \<noteq> p \<longrightarrow> links s' ! q = links s ! q)"
proof -
  note d = ready_linkD [OF r p]
  obtain fid where fid: "pFormat (links s ! p) = Some fid" "formats E fid = fmt" using d(4) by blast
  show ?thesis
  proof (cases "enable (links s ! p)")
    case True
    obtain s' where s': "DecodeLinkPacket E p s = Some s'" "link_decoded p x s s'"
      using decode_link_ok [OF d(1,2,3) fid d(5) R True] by blast
    then obtain l' pkts where "links s' = (links s)[p := l']" "link_idle l'"
        "link_conf l' = link_conf (links s ! p)" "R (fold (act p) pkts x) s'" "frame_same bufsz s s'"
      unfolding link_decoded_def by blast
    then show ?thesis using s'(1) ready_after [OF r] map_conf_update [OF d(1)] by (metis nth_list_update_neq)
  next
    case False
    let ?s' = "s\<lparr>links := (links s)[p := MSGCLEAR (STEPCLEAR (links s ! p))]\<rparr>"
    have "DecodeLinkPacket E p s = Some ?s'"
      using False d(1) by (simp add: DecodeLinkPacket_def get_link_Some upd_link_Some)
    moreover have "frame_same bufsz s ?s'" using d(5) by (simp add: frame_same_def)
    moreover have "link_idle (MSGCLEAR (STEPCLEAR (links s ! p)))"
      using d(2) by (intro idle_clear) (simp_all add: idle_inv_def parse_ok_def)
    then have "ready ?s'"
      using d(5) by (intro ready_after [OF r, of ?s' p "MSGCLEAR (STEPCLEAR (links s ! p))"])
        (simp_all add: link_conf_clear frame_same_def)
    moreover have "same_conf s ?s'" using map_conf_update [OF d(1) link_conf_clear] by simp
    ultimately show ?thesis using R_links [OF R] by (intro exI [of _ ?s'] exI [of _ "[]"]) simp
  qed
qed

text \<open>\<open>evs\<close> are the packets handed over, each with its link.\<close>

lemma DeLinkDecode_ready:
  assumes "ready s" and "R x s"
  shows "\<exists>s' evs. DeLinkDecode E s = Some s' \<and> ready s' \<and> R (fold (case_prod act) evs x) s' \<and>
     frame_same bufsz s s' \<and> same_conf s s' \<and> (\<forall>q. \<not> registered s q \<longrightarrow> links s' ! q = links s ! q)"
proof -
  let ?I = "\<lambda>t. ready t \<and> (\<exists>evs. R (fold (case_prod act) evs x) t) \<and> frame_same bufsz s t \<and> same_conf s t \<and>
     (\<forall>q. \<not> registered s q \<longrightarrow> links t ! q = links s ! q)"
  have pk: "length (pPacket (pPacketParm s)) = bufsz" using assms(1) by (simp add: decoder_ready_def)
  have "\<exists>s'. DeLinkDecode E s = Some s' \<and> ?I s'"
    unfolding DeLinkDecode_def
  proof (rule foldM_inv)
    show "?I s" using assms pk by (auto simp: frame_same_def intro: exI [of _ "[]"])
    fix cir t assume cir: "cir \<in> set [0..<linkMaxNum s]" and I: "?I t"
    then obtain evs where t: "ready t" "R (fold (case_prod act) evs x) t" "frame_same bufsz s t" "same_conf s t"
        "\<forall>q. \<not> registered s q \<longrightarrow> links t ! q = links s ! q" by blast
    have eq: "pLinkList t = pLinkList s" using t(3) by (simp add: frame_same_def)
    show "\<exists>s'. (case pLinkList t ! cir of None \<Rightarrow> Some t | Some p \<Rightarrow> DecodeLinkPacket E p t) = Some s' \<and> ?I s'"
    proof (cases "pLinkList t ! cir")
      case None
      then show ?thesis using I by simp
    next
      case (Some p)
      then have "registered t p" using cir eq by (metis atLeastLessThan_iff nth_mem registered_def set_upt)
      from decode_link_ready [OF t(1) this t(2)] obtain t' pkts where t':
        "DecodeLinkPacket E p t = Some t'" "ready t'" "R (fold (act p) pkts (fold (case_prod act) evs x)) t'"
        "frame_same bufsz t t'" "same_conf t t'" "\<forall>q. q \<noteq> p \<longrightarrow> links t' ! q = links t ! q" by blast
      have "fold (act p) pkts y = fold (case_prod act) (map (Pair p) pkts) y" for y
        by (simp add: fold_map comp_def)
      then have "R (fold (case_prod act) (evs @ map (Pair p) pkts) x) t'" using t'(3) by simp
      then have "\<exists>evs. R (fold (case_prod act) evs x) t'" by blast
      moreover have "registered s p" using Some cir eq by (metis atLeastLessThan_iff nth_mem registered_def set_upt)
      then have "\<forall>q. \<not> registered s q \<longrightarrow> links t' ! q = links s ! q" using t(5) t'(6) by metis
      ultimately show ?thesis using Some t'(1,2,5) t(4) frame_same_trans [OF t(3) t'(4)] by simp
    qed
  qed
  then show ?thesis by blast
qed

end

end
