(* ===== verification/CmdTable.thy ===== *)
theory CmdTable imports CmdSlots CmdRules DecodeLoops begin

text \<open>
  The two functions of the command table that the frame calls: answers are matched by
  \<open>DobotV3CmdInter_PacketCallBack\<close>, commands are sent, repeated and given up by
  \<open>DobotV3CmdInter_Loop\<close>. The invariant \<open>cmd_ok\<close> is what makes them memory safe; the table
  discharges the contract of the decoder's functions, so that the decoder's results hold for it.
\<close>

section \<open>The invariant of the command table\<close>

definition slot_ok :: "nat \<Rightarrow> ('w, 'z) cmd_state_scheme \<Rightarrow> cmd_slot \<Rightarrow> bool" where
  "slot_ok i s sl \<longleftrightarrow> ruleIndex sl < length (pMatchList s) \<and>
     (slotSend sl \<longrightarrow> slotLength sl \<le> packetSize s \<and> slotLength sl \<le> DobotV3Format_PACKET_LENGTH) \<and>
     (slotSend sl \<and> ruleMark sl \<longrightarrow>
        GETPKGADDR s i + DobotV3Format_PACKET_LENGTH \<le> length (pPacketList s))"

definition callbacks_ok :: "(nat \<Rightarrow> 'w \<Rightarrow> bytes) \<Rightarrow> ('w, 'z) cmd_state_scheme \<Rightarrow> bool" where
  "callbacks_ok input s \<longleftrightarrow>
     (\<forall>r \<in> set (pMatchList s). \<forall>l. pCmdCB r = Some l \<longrightarrow> l < length (pCBLists s)) \<and>
     (\<forall>cbs \<in> set (pCBLists s). \<forall>i f. (i, Some f) \<in> set cbs \<longrightarrow>
        (\<forall>p w q. input q (f p w) = input q w))"

definition cmd_ok :: "(nat \<Rightarrow> 'w \<Rightarrow> bytes) \<Rightarrow> ('w, 'z) cmd_state_scheme \<Rightarrow> bool" where
  "cmd_ok input s \<longleftrightarrow> rules_ok (pMatchList s) \<and> callbacks_ok input s \<and>
     15 \<le> packetSize s \<and> packetSize s \<le> packet_struct_size \<and> packetListSize s < 256 \<and>
     length (pPacketList s) = packetListSize s * packetSize s \<and> loopIndex s \<le> packetListSize s \<and>
     (\<forall>i < packetListSize s. slot_ok i s (pPacketParmList s ! i))"

lemma cmd_okD:
  assumes "cmd_ok input s"
  shows "rules_ok (pMatchList s)" "callbacks_ok input s" "15 \<le> packetSize s"
    "packetSize s \<le> packet_struct_size" "packetListSize s < 256"
    "length (pPacketList s) = packetListSize s * packetSize s" "loopIndex s \<le> packetListSize s"
    "i < packetListSize s \<Longrightarrow> slot_ok i s (pPacketParmList s ! i)"
  using assms by (simp_all add: cmd_ok_def)

text \<open>The invariant speaks of the table only.\<close>

lemma cmd_ok_frame:
  "cmd_ok input (s\<lparr>links := ls, pPacketParm := pp, world := w\<rparr>) = cmd_ok input s"
  "cmd_ok input (s\<lparr>pPacketParm := pp\<rparr>) = cmd_ok input s"
  "cmd_ok input (s\<lparr>world := w\<rparr>) = cmd_ok input s"
  "cmd_ok input (s\<lparr>loopMark := m\<rparr>) = cmd_ok input s"
  "cmd_ok input (s\<lparr>links := ls\<rparr>) = cmd_ok input s"
  by (simp_all add: cmd_ok_def callbacks_ok_def slot_ok_def GETPKGADDR_def)

text \<open>It survives a change of one slot, of the packet memory and of the loop index.\<close>

lemma cmd_ok_update:
  assumes ok: "cmd_ok input s" and m: "length m = length (pPacketList s)" and k: "k \<le> packetListSize s"
    and sl: "i < packetListSize s \<Longrightarrow> slot_ok i s sl"
  shows "cmd_ok input (s\<lparr>pPacketList := m, pPacketParmList := (pPacketParmList s)[i := sl], loopIndex := k\<rparr>)"
proof -
  have "slot_ok j s ((pPacketParmList s)[i := sl] ! j)" if "j < packetListSize s" for j
    using cmd_okD(8) [OF ok that] sl that by (cases "j = i") simp_all
  then show ?thesis
    using ok m k by (simp add: cmd_ok_def callbacks_ok_def slot_ok_def GETPKGADDR_def)
qed

lemma cmd_ok_slot:
  assumes ok: "cmd_ok input s" and sl: "i < packetListSize s \<Longrightarrow> slot_ok i s sl"
  shows "cmd_ok input (s\<lparr>pPacketParmList := (pPacketParmList s)[i := sl]\<rparr>)"
  using cmd_ok_update [OF ok refl cmd_okD(7) [OF ok] sl] by simp

lemma slot_okI:
  "ruleIndex sl < length (pMatchList s) \<Longrightarrow> \<not> slotSend sl \<Longrightarrow> slot_ok i s sl"
  by (simp add: slot_ok_def)

lemma slot_addr:
  assumes "cmd_ok input s" and "i < packetListSize s"
  shows "GETPKGADDR s i + packetSize s \<le> length (pPacketList s)"
  unfolding cmd_okD(6) [OF assms(1)] GETPKGADDR_def by (rule slot_end [OF assms(2)])

section \<open>Callbacks\<close>

text \<open>The function \<open>CmdCallBackHandle\<close> runs for a slot, if there is one.\<close>

definition slot_callback :: "cmd_slot \<Rightarrow> cb_parm \<Rightarrow> ('w, 'z) cmd_state_scheme \<Rightarrow> (cb_parm \<Rightarrow> 'w \<Rightarrow> 'w) option" where
  "slot_callback sl cbp s =
     (let r = pMatchList s ! ruleIndex sl in
      case pCmdCB r of None \<Rightarrow> None
      | Some l \<Rightarrow> (case GetId r (cbPacket cbp) (cbLength cbp) of
            None \<Rightarrow> None | Some ident \<Rightarrow> find_callback (pCBLists s ! l) ident))"

definition run_callback :: "(cb_parm \<Rightarrow> 'w \<Rightarrow> 'w) option \<Rightarrow> cb_parm \<Rightarrow> 'w \<Rightarrow> 'w" where
  "run_callback cb cbp w = (case cb of None \<Rightarrow> w | Some f \<Rightarrow> f cbp w)"

lemma CmdCallBackHandle_eq:
  assumes ok: "cmd_ok input s" and sl: "ruleIndex sl < length (pMatchList s)" and p: "15 \<le> length (cbPacket cbp)"
  shows "CmdCallBackHandle sl cbp s = Some (slot_callback sl cbp s \<noteq> None,
           s\<lparr>world := run_callback (slot_callback sl cbp s) cbp (world s)\<rparr>)"
proof -
  let ?r = "pMatchList s ! ruleIndex sl"
  have r: "?r \<in> set (pMatchList s)" using sl by simp
  show ?thesis
  proof (cases "pCmdCB ?r")
    case None
    then show ?thesis using sl by (simp add: CmdCallBackHandle_def slot_callback_def run_callback_def)
  next
    case (Some l)
    then have l: "l < length (pCBLists s)" using cmd_okD(2) [OF ok] r by (simp add: callbacks_ok_def)
    obtain i where i: "GetId ?r (cbPacket cbp) (cbLength cbp) = Some i"
      using rules_okD(2) [OF cmd_okD(1) [OF ok] r p] by blast
    show ?thesis
      using Some sl l i
      by (cases "find_callback (pCBLists s ! l) i")
        (simp_all add: CmdCallBackHandle_def slot_callback_def run_callback_def)
  qed
qed

lemma run_callback_input:
  assumes ok: "cmd_ok input s" and sl: "ruleIndex sl < length (pMatchList s)"
  shows "input q (run_callback (slot_callback sl cbp s) cbp' w) = input q w"
proof (cases "slot_callback sl cbp s")
  case None
  then show ?thesis by (simp add: run_callback_def)
next
  case (Some f)
  let ?r = "pMatchList s ! ruleIndex sl"
  obtain l i where l: "pCmdCB ?r = Some l" "find_callback (pCBLists s ! l) i = Some f"
    using Some by (auto simp: slot_callback_def Let_def split: option.splits)
  have "?r \<in> set (pMatchList s)" using sl by simp
  then have "pCBLists s ! l \<in> set (pCBLists s)"
    using cmd_okD(2) [OF ok] l(1) by (simp add: callbacks_ok_def)
  moreover obtain k where "k < length (pCBLists s ! l)" "snd (pCBLists s ! l ! k) = Some f"
    using l(2) by (auto simp: find_callback_def find_index_Some split: option.splits)
  then have "(fst (pCBLists s ! l ! k), Some f) \<in> set (pCBLists s ! l)"
    by (metis nth_mem prod.collapse)
  ultimately show ?thesis
    using cmd_okD(2) [OF ok] Some by (auto simp: callbacks_ok_def run_callback_def)
qed

text \<open>The parameter a callback gets: the packet in a zeroed packet structure.\<close>

definition cb_parm_of :: "bytes \<Rightarrow> cmd_status \<Rightarrow> cb_parm" where
  "cb_parm_of d err = \<lparr>cbPacket = d @ replicate (packet_struct_size - length d) 0,
     cbLength = length d, cbError = err\<rparr>"

lemma make_cb_parm_Some:
  "off + n \<le> length mem \<Longrightarrow> n \<le> packet_struct_size \<Longrightarrow>
   make_cb_parm mem off n err = Some (cb_parm_of (take n (drop off mem)) err)"
  by (simp add: make_cb_parm_def rd_range_Some wr_range_Some cb_parm_of_def)

lemma cb_parm_of_len: "length d \<le> packet_struct_size \<Longrightarrow> length (cbPacket (cb_parm_of d e)) = packet_struct_size"
  by (simp add: cb_parm_of_def)

section \<open>Answers\<close>

text \<open>Slot \<open>i\<close> waits for the packet at hand: the tests of the loop of \<open>PacketCallBack\<close>.\<close>

definition waits_for :: "('w, 'z) cmd_state_scheme \<Rightarrow> nat \<Rightarrow> bool" where
  "waits_for s i = (let sl = pPacketParmList s ! i in
     slotSend sl \<and> ruleMark sl \<and> slotLink sl = pLink (pPacketParm s) \<and>
     Match (pMatchList s ! ruleIndex sl) (drop (GETPKGADDR s i) (pPacketList s)) (pPacket (pPacketParm s)) = Some True)"

lemma answers_eq:
  assumes ok: "cmd_ok input s" and i: "i < packetListSize s" and buf: "15 \<le> length (pPacket (pPacketParm s))"
  shows "answers i s = Some (waits_for s i)"
proof -
  let ?sl = "pPacketParmList s ! i"
  have sl: "slot_ok i s ?sl" by (rule cmd_okD(8) [OF ok i])
  then have r: "ruleIndex ?sl < length (pMatchList s)" by (simp add: slot_ok_def)
  then have rs: "pMatchList s ! ruleIndex ?sl \<in> set (pMatchList s)" by simp
  have "15 \<le> length (drop (GETPKGADDR s i) (pPacketList s))"
    using slot_addr [OF ok i] cmd_okD(3) [OF ok] by simp
  from rules_okD(3) [OF cmd_okD(1) [OF ok] rs this buf] obtain b where
    "Match (pMatchList s ! ruleIndex ?sl) (drop (GETPKGADDR s i) (pPacketList s)) (pPacket (pPacketParm s)) = Some b"
    by blast
  then show ?thesis using i r by (auto simp: answers_def waits_for_def get_slot_Some Let_def)
qed

text \<open>The callback the answer to slot \<open>i\<close> runs, and its parameter.\<close>

definition answer_parm :: "('w, 'z) cmd_state_scheme \<Rightarrow> cb_parm" where
  "answer_parm s = cb_parm_of (take (packetLength (pPacketParm s)) (pPacket (pPacketParm s))) DobotV3CmdInter_SUCCESS"

definition answer_callback :: "('w, 'z) cmd_state_scheme \<Rightarrow> nat \<Rightarrow> (cb_parm \<Rightarrow> 'w \<Rightarrow> 'w) option" where
  "answer_callback s i = (let sl = pPacketParmList s ! i in
     if cbMark (slotParm sl) \<and> ackMark (slotParm sl) then slot_callback sl (answer_parm s) s else None)"

text \<open>The state after the answer.\<close>

definition answered_slot :: "bool \<Rightarrow> nat \<Rightarrow> cmd_slot \<Rightarrow> cmd_slot" where
  "answered_slot called n sl =
     (let sl = (if called then sl else sl\<lparr>slotLength := n, slotSend := False, sendStatus := DobotV3CmdInter_SUCCESS\<rparr>)
      in if autoFreeMark sl then ClearPkgParm sl else sl)"

definition answered :: "nat \<Rightarrow> ('w, 'z) cmd_state_scheme \<Rightarrow> ('w, 'z) cmd_state_scheme" where
  "answered i s = (let pp = pPacketParm s; n = packetLength pp; a = GETPKGADDR s i; m = pPacketList s;
       cb = answer_callback s i; sl = answered_slot (cb \<noteq> None) n (pPacketParmList s ! i);
       s = (case cb of
              None \<Rightarrow> s\<lparr>pPacketList := take a m @ take n (pPacket pp) @ drop (a + n) m\<rparr>
            | Some f \<Rightarrow> s\<lparr>world := f (answer_parm s) (world s)\<rparr>)
     in s\<lparr>pPacketParmList := (pPacketParmList s)[i := sl], pPacketParm := pp\<lparr>exitCallPack := True\<rparr>\<rparr>)"

lemma finish_answer_eq:
  assumes ok: "cmd_ok input s" and i: "i < packetListSize s"
    and n: "15 \<le> packetLength (pPacketParm s)" "packetLength (pPacketParm s) \<le> DobotV3Format_PACKET_LENGTH"
      "packetLength (pPacketParm s) \<le> length (pPacket (pPacketParm s))"
    and room: "GETPKGADDR s i + packetLength (pPacketParm s) \<le> length (pPacketList s)"
  shows "finish_answer i s = Some (answered i s)"
proof -
  let ?sl = "pPacketParmList s ! i" and ?n = "packetLength (pPacketParm s)"
  have r: "ruleIndex ?sl < length (pMatchList s)"
    using cmd_okD(8) [OF ok i] by (simp add: slot_ok_def)
  have mk: "make_cb_parm (pPacket (pPacketParm s)) 0 ?n DobotV3CmdInter_SUCCESS = Some (answer_parm s)"
    using make_cb_parm_Some [of 0 ?n "pPacket (pPacketParm s)" DobotV3CmdInter_SUCCESS] n
    by (simp add: answer_parm_def)
  have len: "15 \<le> length (cbPacket (answer_parm s))"
    using n by (simp add: answer_parm_def cb_parm_of_def)
  have call: "(if cbMark (slotParm ?sl) \<and> ackMark (slotParm ?sl)
       then CmdCallBackHandle ?sl (answer_parm s) s else Some (False, s)) =
     Some (answer_callback s i \<noteq> None, s\<lparr>world := run_callback (answer_callback s i) (answer_parm s) (world s)\<rparr>)"
    using CmdCallBackHandle_eq [OF ok r len] by (simp add: answer_callback_def run_callback_def Let_def)
  show ?thesis
  proof (cases "answer_callback s i")
    case None
    then show ?thesis
      using i n room mk call
      by (simp add: finish_answer_def get_slot_Some upd_slot_Some rd_range_Some wr_range_Some
          GETPKGADDR_def answered_def answered_slot_def ClearPkgParm_def run_callback_def Let_def)
  next
    case (Some f)
    then show ?thesis
      using i mk call
      by (simp add: finish_answer_def get_slot_Some upd_slot_Some answered_def answered_slot_def
          ClearPkgParm_def run_callback_def Let_def)
  qed
qed

text \<open>The state in which the frame calls for a packet, as far as the table is concerned.\<close>

definition packet_offered :: "('w, 'z) cmd_state_scheme \<Rightarrow> bool" where
  "packet_offered s \<longleftrightarrow> 15 \<le> packetLength (pPacketParm s) \<and>
     packetLength (pPacketParm s) \<le> DobotV3Format_PACKET_LENGTH \<and>
     packetLength (pPacketParm s) \<le> length (pPacket (pPacketParm s))"

lemma scan_slots_eq:
  assumes ok: "cmd_ok input s" and pk: "packet_offered s"
  shows "\<forall>i \<in> set is. i < packetListSize s \<Longrightarrow>
    scan_slots is s = Some (case find (waits_for s) is of None \<Rightarrow> s | Some i \<Rightarrow> answered i s)"
proof (induction "is")
  case Nil
  then show ?case by simp
next
  case (Cons i "is")
  then have i: "i < packetListSize s" by simp
  have a: "answers i s = Some (waits_for s i)"
    using answers_eq [OF ok i] pk by (simp add: packet_offered_def)
  show ?case
  proof (cases "waits_for s i")
    case True
    then have "slotSend (pPacketParmList s ! i) \<and> ruleMark (pPacketParmList s ! i)"
      by (simp add: waits_for_def Let_def)
    then have "GETPKGADDR s i + packetLength (pPacketParm s) \<le> length (pPacketList s)"
      using cmd_okD(8) [OF ok i] pk by (simp add: slot_ok_def packet_offered_def)
    then show ?thesis
      using a True finish_answer_eq [OF ok i] pk by (simp add: packet_offered_def)
  next
    case False
    then show ?thesis using a Cons by simp
  qed
qed

lemma PacketCallBack_eq:
  assumes ok: "cmd_ok input s" and pk: "packet_offered s"
  shows "DobotV3CmdInter_PacketCallBack s =
    Some (case find (waits_for s) [0..<packetListSize s] of None \<Rightarrow> s | Some i \<Rightarrow> answered i s)"
  using scan_slots_eq [OF assms, of "[0..<packetListSize s]"] cmd_okD(5) [OF ok]
  by (simp add: DobotV3CmdInter_PacketCallBack_def)

text \<open>An answer keeps the invariant, the frame and the input.\<close>

lemma answered_frame:
  "timeCNT (answered i s) = timeCNT s" "pLinkList (answered i s) = pLinkList s"
  "linkNum (answered i s) = linkNum s" "links (answered i s) = links s"
  "pPacket (pPacketParm (answered i s)) = pPacket (pPacketParm s)"
  "sendMark (pPacketParm (answered i s)) = sendMark (pPacketParm s)"
  "packetListSize (answered i s) = packetListSize s"
  "pPacketParmList (answered i s) = (pPacketParmList s)[i :=
     answered_slot (answer_callback s i \<noteq> None) (packetLength (pPacketParm s)) (pPacketParmList s ! i)]"
  "world (answered i s) = run_callback (answer_callback s i) (answer_parm s) (world s)"
  "exitCallPack (pPacketParm (answered i s))"
  by (simp_all add: answered_def run_callback_def Let_def split: option.split)

lemma answered_slot_ok:
  assumes "slot_ok i s sl"
  shows "slot_ok i s (answered_slot c n sl)"
  using assms by (simp add: answered_slot_def slot_ok_def ClearPkgParm_def Let_def)

lemma answer_callback_slot:
  "answer_callback s i = None \<or>
   answer_callback s i = slot_callback (pPacketParmList s ! i) (answer_parm s) s"
  by (simp add: answer_callback_def Let_def)

lemma cmd_ok_cong:
  assumes "pMatchList t = pMatchList s" "pCBLists t = pCBLists s" "packetSize t = packetSize s"
    "length (pPacketList t) = length (pPacketList s)" "pPacketParmList t = pPacketParmList s" "loopIndex t = loopIndex s"
  shows "cmd_ok input t = cmd_ok input s"
  using assms by (simp add: cmd_ok_def callbacks_ok_def slot_ok_def GETPKGADDR_def)

lemma answered_ok:
  assumes ok: "cmd_ok input s" and pk: "packet_offered s" and i: "i < packetListSize s" and w: "waits_for s i"
  shows "cmd_ok input (answered i s)" and "input q (world (answered i s)) = input q (world s)"
proof -
  let ?m = "pPacketList (answered i s)"
  have sl: "slot_ok i s (pPacketParmList s ! i)" by (rule cmd_okD(8) [OF ok i])
  then have "GETPKGADDR s i + packetLength (pPacketParm s) \<le> length (pPacketList s)"
    using w pk by (simp add: slot_ok_def waits_for_def packet_offered_def Let_def)
  then have m: "length ?m = length (pPacketList s)"
    using pk by (simp add: answered_def packet_offered_def Let_def split: option.split)
  have s: "slot_ok i s (answered_slot c n (pPacketParmList s ! i))" for c n
    using sl by (rule answered_slot_ok)
  have "cmd_ok input (answered i s) = cmd_ok input (s\<lparr>pPacketParmList := pPacketParmList (answered i s)\<rparr>)"
    by (rule cmd_ok_cong, simp_all only: m) (simp_all add: answered_def Let_def split: option.split)
  then show "cmd_ok input (answered i s)"
    using cmd_ok_slot [OF ok s] by (simp only: answered_frame)
  have r: "ruleIndex (pPacketParmList s ! i) < length (pMatchList s)" using sl by (simp add: slot_ok_def)
  show "input q (world (answered i s)) = input q (world s)"
    using answer_callback_slot [of s i]
  proof
    assume "answer_callback s i = None"
    then show ?thesis by (simp add: answered_frame run_callback_def)
  next
    assume "answer_callback s i = slot_callback (pPacketParmList s ! i) (answer_parm s) s"
    then show ?thesis using run_callback_input [OF ok r] by (simp add: answered_frame)
  qed
qed

lemma find_upt_Some:
  "find P [0..<n] = Some i \<longleftrightarrow> i < n \<and> P i \<and> (\<forall>j < i. \<not> P j)"
  by (auto simp: find_Some_iff)

lemma find_upt_None: "find P [0..<n] = None \<longleftrightarrow> (\<forall>i < n. \<not> P i)"
  by (auto simp: find_None_iff)

text \<open>
  C30. \<open>PacketCallBack\<close> on a table that satisfies its invariant and a packet of the decoder's
  size is defined and keeps the invariant. If no slot waits for the packet nothing happens.
  Otherwise the first waiting slot takes it, the frame stops offering it, and no other slot
  changes. If the slot has a callback for it, the callback runs, once, with the packet; a slot that
  is not freed automatically then stays as it is, still to be sent. Without a callback the
  packet replaces the command in the memory of the slot, and a slot that is not freed automatically
  stops sending and reports \<open>SUCCESS\<close>. A slot that is freed automatically is free afterwards.
\<close>
theorem PacketCallBack_correct:
  assumes ok: "cmd_ok input s" and pk: "packet_offered s"
  shows "\<exists>s'. DobotV3CmdInter_PacketCallBack s = Some s' \<and> cmd_ok input s' \<and>
     ((\<forall>i < packetListSize s. \<not> waits_for s i) \<longrightarrow> s' = s) \<and>
     (\<forall>i < packetListSize s. waits_for s i \<and> (\<forall>j < i. \<not> waits_for s j) \<longrightarrow>
        exitCallPack (pPacketParm s') \<and>
        (\<forall>j. j \<noteq> i \<longrightarrow> pPacketParmList s' ! j = pPacketParmList s ! j) \<and>
        (autoFreeMark (pPacketParmList s ! i) \<longrightarrow> \<not> userMark (pPacketParmList s' ! i)) \<and>
        (case answer_callback s i of
           Some f \<Rightarrow> world s' = f (answer_parm s) (world s) \<and> pPacketList s' = pPacketList s \<and>
             (\<not> autoFreeMark (pPacketParmList s ! i) \<longrightarrow> pPacketParmList s' ! i = pPacketParmList s ! i)
         | None \<Rightarrow> world s' = world s \<and>
             take (packetLength (pPacketParm s)) (drop (GETPKGADDR s i) (pPacketList s')) =
               take (packetLength (pPacketParm s)) (pPacket (pPacketParm s)) \<and>
             (\<not> autoFreeMark (pPacketParmList s ! i) \<longrightarrow>
                \<not> slotSend (pPacketParmList s' ! i) \<and>
                sendStatus (pPacketParmList s' ! i) = DobotV3CmdInter_SUCCESS \<and>
                slotLength (pPacketParmList s' ! i) = packetLength (pPacketParm s))))"
proof (cases "find (waits_for s) [0..<packetListSize s]")
  case None
  then have "\<forall>i < packetListSize s. \<not> waits_for s i" by (simp only: find_upt_None)
  then show ?thesis using PacketCallBack_eq [OF ok pk] None ok by auto
next
  case (Some i)
  then have i: "i < packetListSize s" "waits_for s i" "\<forall>j < i. \<not> waits_for s j"
    by (simp_all add: find_upt_Some)
  have one: "k = i" if "waits_for s k" "\<forall>j < k. \<not> waits_for s j" for k
    using that i by (meson nat_neq_iff)
  have room: "GETPKGADDR s i + packetLength (pPacketParm s) \<le> length (pPacketList s)"
    using cmd_okD(8) [OF ok i(1)] i(2) pk by (simp add: slot_ok_def waits_for_def packet_offered_def Let_def)
  have eff: "case answer_callback s i of
           Some f \<Rightarrow> world (answered i s) = f (answer_parm s) (world s) \<and> pPacketList (answered i s) = pPacketList s
         | None \<Rightarrow> world (answered i s) = world s \<and>
             take (packetLength (pPacketParm s)) (drop (GETPKGADDR s i) (pPacketList (answered i s))) =
               take (packetLength (pPacketParm s)) (pPacket (pPacketParm s))"
    using room pk by (auto simp: answered_def packet_offered_def Let_def min_absorb1 split: option.split)
  show ?thesis
    unfolding PacketCallBack_eq [OF ok pk] Some option.case
  proof (intro exI [of _ "answered i s"] conjI allI impI refl)
    show "cmd_ok input (answered i s)" using answered_ok [OF ok pk i(1,2)] by blast
    show "answered i s = s" if "\<forall>i < packetListSize s. \<not> waits_for s i" using that i by blast
    fix k assume k: "k < packetListSize s" "waits_for s k \<and> (\<forall>j < k. \<not> waits_for s j)"
    then have [simp]: "k = i" using one by blast
    show "exitCallPack (pPacketParm (answered i s))" by (simp add: answered_frame)
    show "pPacketParmList (answered i s) ! j = pPacketParmList s ! j" if "j \<noteq> k" for j
      using that by (simp add: answered_frame)
    show "\<not> userMark (pPacketParmList (answered i s) ! k)" if "autoFreeMark (pPacketParmList s ! k)"
      using that i(1) by (simp add: answered_frame answered_slot_def ClearPkgParm_def Let_def)
    show "case answer_callback s k of
           Some f \<Rightarrow> world (answered i s) = f (answer_parm s) (world s) \<and> pPacketList (answered i s) = pPacketList s \<and>
             (\<not> autoFreeMark (pPacketParmList s ! k) \<longrightarrow> pPacketParmList (answered i s) ! k = pPacketParmList s ! k)
         | None \<Rightarrow> world (answered i s) = world s \<and>
             take (packetLength (pPacketParm s)) (drop (GETPKGADDR s k) (pPacketList (answered i s))) =
               take (packetLength (pPacketParm s)) (pPacket (pPacketParm s)) \<and>
             (\<not> autoFreeMark (pPacketParmList s ! k) \<longrightarrow>
                \<not> slotSend (pPacketParmList (answered i s) ! k) \<and>
                sendStatus (pPacketParmList (answered i s) ! k) = DobotV3CmdInter_SUCCESS \<and>
                slotLength (pPacketParmList (answered i s) ! k) = packetLength (pPacketParm s))"
      using eff i(1) by (auto simp: answered_frame(8) answered_slot_def Let_def split: option.splits)
  qed
qed

text \<open>
  A table of three slots with the general rule, whose first slot has sent a packet of zeros on
  link 0, at the arrival of another one; its callback counts the answers.
\<close>

definition general_rule :: match_rule where
  "general_rule = \<lparr>Sort = General_RulesSort, Match = General_RulesMatch, pCmdCB = Some 0, GetId = General_GetId\<rparr>"

definition sent_slot :: "bool \<Rightarrow> cmd_slot" where
  "sent_slot cb = empty_slot\<lparr>userMark := True, writeMark := True, ruleMark := True, slotSend := True,
     autoFreeMark := cb, slotLink := Some 0, slotLength := 17,
     slotParm := \<lparr>cbMark = cb, ackMark = True, setParmMark = True, repeatNum = 3, timeOut = 1000\<rparr>\<rparr>"

definition answer_table :: "bool \<Rightarrow> nat cmd_state" where
  "answer_table cb = (DobotV3CmdInter_EXPORT (ProtocolFrame_FRAME_EXPORT 527 1 [] 0) 3 256 1000 3
       [general_rule] [[(0, Some (\<lambda>p w. Suc w))]])
     \<lparr>pPacketParm := \<lparr>pLink = Some 0, pPacket = (replicate 527 0)[299 := 9], packetLength = 300, errCode = 0,
        sendMark = False, exitCallPack = False, exitLoop = True\<rparr>,
      pPacketList := (replicate 768 0)[4 := DobotV3Format_VER_11],
      pPacketParmList := [sent_slot cb, empty_slot, empty_slot]\<rparr>"

lemma answer_table_simps [simp]:
  "pPacketParmList (answer_table cb) = [sent_slot cb, empty_slot, empty_slot]"
  "pMatchList (answer_table cb) = [general_rule]" "packetSize (answer_table cb) = 256"
  "pPacketList (answer_table cb) = (replicate 768 0)[4 := DobotV3Format_VER_11]" "loopIndex (answer_table cb) = 0"
  "pCBLists (answer_table cb) = [[(0, Some (\<lambda>p w. Suc w))]]" "world (answer_table cb) = 0"
  "pPacketParm (answer_table cb) = \<lparr>pLink = Some 0, pPacket = (replicate 527 0)[299 := 9], packetLength = 300, errCode = 0,
        sendMark = False, exitCallPack = False, exitLoop = True\<rparr>"
  by (simp_all add: answer_table_def DobotV3CmdInter_EXPORT_def frame_state.defs ProtocolFrame_FRAME_EXPORT_def)

lemma general_rule_ok: "rules_ok [general_rule]"
  using rules_sort_total rules_match_total by (simp add: rules_ok_def general_rule_def rules_id_defs mem_safe)

lemma answer_table_ok: "cmd_ok (\<lambda>_ _. []) (answer_table cb)"
  using general_rule_ok
  by (simp add: cmd_ok_def callbacks_ok_def slot_ok_def GETPKGADDR_def sent_slot_def empty_slot_def
      general_rule_def less_Suc_eq numeral_3_eq_3)

lemma answer_table_waits: "waits_for (answer_table cb) 0"
  by (simp add: waits_for_def sent_slot_def empty_slot_def general_rule_def General_RulesMatch_def same_type_def mem_safe GETPKGADDR_def)

lemma answer_table_callback:
  "answer_callback (answer_table cb) 0 = (if cb then Some (\<lambda>p w. Suc w) else None)"
  by (simp add: answer_callback_def slot_callback_def sent_slot_def empty_slot_def general_rule_def
      General_GetId_def answer_parm_def cb_parm_of_def mem_safe find_callback_def nth_append Let_def)

lemma answer_table_offered: "packet_offered (answer_table cb)"
  by (simp add: packet_offered_def)

theorem PacketCallBack_correct_witness:
  "\<exists>s'. DobotV3CmdInter_PacketCallBack (answer_table True) = Some s' \<and> world s' = 1 \<and>
     \<not> userMark (pPacketParmList s' ! 0)"
  using PacketCallBack_correct [OF answer_table_ok answer_table_offered, of True]
proof (elim exE conjE, goal_cases)
  case (1 s')
  then show ?case
    using 1(4) [rule_format, of 0] answer_table_waits [of True] answer_table_callback [of True]
    by (auto simp: sent_slot_def)
qed

lemma take_length_take_append: "n = length a \<Longrightarrow> take n (take k (a @ b)) = take k a"
  by (cases "k \<le> length a") simp_all

text \<open>
  An answer without a callback that is longer than a slot is copied to the packet memory in
  full: the part that does not fit overwrites the packet stored in the next slot, which may be a
  command that has not been answered.
\<close>
theorem long_answer_overwrites_next_slot:
  assumes ok: "cmd_ok input s" and pk: "packet_offered s"
    and i: "Suc i < packetListSize s" "waits_for s i" "\<forall>j < i. \<not> waits_for s j"
    and cb: "answer_callback s i = None" and long: "packetSize s < packetLength (pPacketParm s)"
  shows "\<exists>s'. DobotV3CmdInter_PacketCallBack s = Some s' \<and>
     pPacketParmList s' ! Suc i = pPacketParmList s ! Suc i \<and>
     take (packetLength (pPacketParm s) - packetSize s) (slot_bytes s' (Suc i)) =
       take (packetSize s) (drop (packetSize s) (take (packetLength (pPacketParm s)) (pPacket (pPacketParm s))))"
proof -
  let ?n = "packetLength (pPacketParm s)" and ?a = "GETPKGADDR s i"
  have f: "find (waits_for s) [0..<packetListSize s] = Some i" using i by (simp add: find_upt_Some)
  have n: "?n \<le> length (pPacket (pPacketParm s))" using pk by (simp add: packet_offered_def)
  have a: "?a \<le> length (pPacketList s)"
    using slot_addr [OF ok Suc_lessD [OF i(1)]] by simp
  have "pPacketList (answered i s) =
      take ?a (pPacketList s) @ take ?n (pPacket (pPacketParm s)) @ drop (?a + ?n) (pPacketList s)"
    using cb by (simp add: answered_def Let_def)
  moreover have "packetSize (answered i s) = packetSize s"
    by (simp add: answered_def Let_def split: option.split)
  ultimately have "slot_bytes (answered i s) (Suc i) = take (packetSize s)
      (drop (packetSize s) (take ?n (pPacket (pPacketParm s))) @ drop (?a + ?n) (pPacketList s))"
    using a n long by (simp add: slot_bytes_def GETPKGADDR_def add.commute)
  moreover have "?n - packetSize s = length (drop (packetSize s) (take ?n (pPacket (pPacketParm s))))"
    using n by simp
  ultimately have "take (?n - packetSize s) (slot_bytes (answered i s) (Suc i)) =
      take (packetSize s) (drop (packetSize s) (take ?n (pPacket (pPacketParm s))))"
    by (simp only: take_length_take_append)
  then show ?thesis
    using PacketCallBack_eq [OF ok pk] f by (simp add: answered_frame(8))
qed

theorem long_answer_overwrites_next_slot_witness:
  "\<exists>s'. DobotV3CmdInter_PacketCallBack (answer_table False) = Some s' \<and>
     take 44 (slot_bytes s' 1) = (replicate 44 0)[43 := 9]"
  using long_answer_overwrites_next_slot [OF answer_table_ok answer_table_offered _ answer_table_waits,
      of False] answer_table_callback [of False]
  by (auto simp: take_update_swap drop_update_swap)

end
