(* ===== verification/CmdLoop.thy ===== *)
theory CmdLoop imports CmdTable begin

text \<open>
  \<open>DobotV3CmdInter_Loop\<close>, the function the frame calls until it has visited every slot: what a
  visit does to its slot, that the loop of the frame around it ends, and that it keeps the
  invariant of the command table.
\<close>

section \<open>A visit\<close>

text \<open>The slot is due: it is to be sent, and its time is over.\<close>

definition slot_due :: "('w, 'z) cmd_state_scheme \<Rightarrow> cmd_slot \<Rightarrow> bool" where
  "slot_due s sl \<longleftrightarrow> slotSend sl \<and> IsTimeOut s (timeOut (slotParm sl)) (timeStart sl)"

text \<open>The callback of a command that is given up, and its parameter.\<close>

definition timeout_parm :: "('w, 'z) cmd_state_scheme \<Rightarrow> nat \<Rightarrow> cb_parm" where
  "timeout_parm s i = cb_parm_of (take (slotLength (pPacketParmList s ! i)) (slot_bytes s i)) DobotV3CmdInter_TIMEOUT"

definition timeout_callback :: "('w, 'z) cmd_state_scheme \<Rightarrow> nat \<Rightarrow> (cb_parm \<Rightarrow> 'w \<Rightarrow> 'w) option" where
  "timeout_callback s i = (let sl = pPacketParmList s ! i in
     if cbMark (slotParm sl) then slot_callback sl (timeout_parm s i) s else None)"

text \<open>The slot after a visit, and what is handed to the frame for sending.\<close>

definition visited_slot :: "('w, 'z) cmd_state_scheme \<Rightarrow> cmd_slot \<Rightarrow> cmd_slot" where
  "visited_slot s sl =
     (if \<not> slot_due s sl then sl
      else if repeatNum (slotParm sl) = 0 then
        (if autoFreeMark sl then ClearPkgParm sl
         else sl\<lparr>slotSend := False, sendStatus := DobotV3CmdInter_TIMEOUT\<rparr>)
      else
        (let sl' = sl\<lparr>slotParm := (slotParm sl)\<lparr>repeatNum := repeatNum (slotParm sl) - 1\<rparr>,
                     timeStart := GetStartTime s\<rparr>
         in if ackMark (slotParm sl) then sl' else ClearPkgParm sl'))"

definition sends_slot :: "('w, 'z) cmd_state_scheme \<Rightarrow> nat \<Rightarrow> bool" where
  "sends_slot s i \<longleftrightarrow> (let sl = pPacketParmList s ! i in slot_due s sl \<and> repeatNum (slotParm sl) \<noteq> 0)"

definition visited_parm :: "('w, 'z) cmd_state_scheme \<Rightarrow> nat \<Rightarrow> packet_parm" where
  "visited_parm s i = (let sl = pPacketParmList s ! i; pp = pPacketParm s in
     if sends_slot s i
     then pp\<lparr>pLink := slotLink sl, pPacket := take (slotLength sl) (slot_bytes s i) @ drop (slotLength sl) (pPacket pp),
             packetLength := slotLength sl, errCode := 0, sendMark := True\<rparr>
     else pp)"

definition visited_world :: "('w, 'z) cmd_state_scheme \<Rightarrow> nat \<Rightarrow> 'w" where
  "visited_world s i = (let sl = pPacketParmList s ! i in
     if slot_due s sl \<and> repeatNum (slotParm sl) = 0
     then run_callback (timeout_callback s i) (timeout_parm s i) (world s) else world s)"

definition visited :: "('w, 'z) cmd_state_scheme \<Rightarrow> ('w, 'z) cmd_state_scheme" where
  "visited s = (let i = loopIndex s in
     s\<lparr>pPacketParm := visited_parm s i, world := visited_world s i,
       pPacketParmList := (pPacketParmList s)[i := visited_slot s (pPacketParmList s ! i)],
       loopIndex := Suc i\<rparr>)"

lemma Loop_exit:
  "loopIndex s = packetListSize s \<Longrightarrow>
   DobotV3CmdInter_Loop s = Some (s\<lparr>loopIndex := 0, pPacketParm := (pPacketParm s)\<lparr>exitCallPack := True\<rparr>\<rparr>)"
  by (simp add: DobotV3CmdInter_Loop_def)

lemma Loop_eq:
  assumes ok: "cmd_ok input s" and i: "loopIndex s < packetListSize s"
    and buf: "length (pPacket (pPacketParm s)) = DobotV3Format_PACKET_LENGTH"
  shows "DobotV3CmdInter_Loop s = Some (visited s)"
proof -
  let ?i = "loopIndex s"
  let ?sl = "pPacketParmList s ! ?i"
  have u: "u8n (?i + 1) = Suc ?i" using i cmd_okD(5) [OF ok] by simp
  have sl: "slot_ok ?i s ?sl" by (rule cmd_okD(8) [OF ok i])
  have r: "ruleIndex ?sl < length (pMatchList s)" using sl by (simp add: slot_ok_def)
  show ?thesis
  proof (cases "slot_due s ?sl")
    case False
    then show ?thesis
      using i u
      by (auto simp: DobotV3CmdInter_Loop_def get_slot_Some slot_due_def IsTimeOut_def visited_def visited_parm_def
          visited_world_def visited_slot_def sends_slot_def Let_def)
  next
    case True
    then have n: "slotLength ?sl \<le> packetSize s" "slotLength ?sl \<le> DobotV3Format_PACKET_LENGTH"
      using sl by (simp_all add: slot_ok_def slot_due_def)
    have addr: "GETPKGADDR s ?i + slotLength ?sl \<le> length (pPacketList s)"
      using slot_addr [OF ok i] n(1) by simp
    have d: "take (slotLength ?sl) (drop (GETPKGADDR s ?i) (pPacketList s)) = take (slotLength ?sl) (slot_bytes s ?i)"
      using n(1) by (simp add: slot_bytes_def min_absorb1)
    show ?thesis
    proof (cases "repeatNum (slotParm ?sl) = 0")
      case zero: True
      have mk: "make_cb_parm (pPacketList s) (GETPKGADDR s ?i) (slotLength ?sl) DobotV3CmdInter_TIMEOUT =
          Some (timeout_parm s ?i)"
        using make_cb_parm_Some [OF addr, of DobotV3CmdInter_TIMEOUT] n(2) by (simp add: timeout_parm_def d)
      have len: "15 \<le> length (cbPacket (timeout_parm s ?i))"
        using n(2) by (simp add: timeout_parm_def cb_parm_of_len)
      have s1: "cmd_ok input (s\<lparr>loopIndex := Suc ?i\<rparr>)"
        using cmd_ok_update [OF ok refl, of "Suc ?i" ?i ?sl] sl i by simp
      have cb: "slot_callback ?sl (timeout_parm s ?i) (s\<lparr>loopIndex := Suc ?i\<rparr>) = slot_callback ?sl (timeout_parm s ?i) s"
        by (simp add: slot_callback_def Let_def cong: option.case_cong)
      show ?thesis
        using True zero i u mk CmdCallBackHandle_eq [OF s1, of ?sl "timeout_parm s ?i"] r len
        by (simp add: DobotV3CmdInter_Loop_def get_slot_Some upd_slot_Some slot_due_def IsTimeOut_def GETPKGADDR_def
            visited_def visited_parm_def visited_world_def visited_slot_def sends_slot_def
            timeout_callback_def run_callback_def cb Let_def)
    next
      case False
      have l: "min (length (slot_bytes s ?i)) (slotLength ?sl) = slotLength ?sl"
        using n(1) addr by (simp add: slot_bytes_def)
      show ?thesis
        using True False i u addr n buf d l
        by (simp add: DobotV3CmdInter_Loop_def get_slot_Some upd_slot_Some slot_due_def IsTimeOut_def
            rd_range_Some wr_range_Some GETPKGADDR_def GetStartTime_def
            visited_def visited_parm_def visited_world_def visited_slot_def sends_slot_def Let_def)
    qed
  qed
qed

lemma visited_frame:
  "timeCNT (visited s) = timeCNT s" "pLinkList (visited s) = pLinkList s"
  "linkNum (visited s) = linkNum s" "links (visited s) = links s" "loopMark (visited s) = loopMark s"
  "loopIndex (visited s) = Suc (loopIndex s)" "pPacketList (visited s) = pPacketList s"
  "packetListSize (visited s) = packetListSize s" "packetSize (visited s) = packetSize s" "exitCallPack (pPacketParm (visited s)) = exitCallPack (pPacketParm s)"
  "pPacketParmList (visited s) = (pPacketParmList s)[loopIndex s := visited_slot s (pPacketParmList s ! loopIndex s)]"
  by (simp_all add: visited_def visited_parm_def Let_def)

lemma visited_slot_ok:
  assumes "slot_ok i s sl"
  shows "slot_ok i s (visited_slot s sl)"
  using assms by (auto simp: slot_ok_def visited_slot_def ClearPkgParm_def slot_due_def Let_def)

lemma visited_ok:
  assumes ok: "cmd_ok input s" and i: "loopIndex s < packetListSize s"
  shows "cmd_ok input (visited s)"
proof -
  let ?i = "loopIndex s"
  have "slot_ok ?i s (visited_slot s (pPacketParmList s ! ?i))"
    by (rule visited_slot_ok [OF cmd_okD(8) [OF ok i]])
  then have "cmd_ok input (s\<lparr>pPacketList := pPacketList s,
      pPacketParmList := (pPacketParmList s)[?i := visited_slot s (pPacketParmList s ! ?i)], loopIndex := Suc ?i\<rparr>)"
    using i by (intro cmd_ok_update [OF ok refl]) simp_all
  moreover have "cmd_ok input (visited s) = cmd_ok input (s\<lparr>pPacketList := pPacketList s,
      pPacketParmList := (pPacketParmList s)[?i := visited_slot s (pPacketParmList s ! ?i)], loopIndex := Suc ?i\<rparr>)"
    by (rule cmd_ok_cong) (simp_all add: visited_def Let_def)
  ultimately show ?thesis by blast
qed

text \<open>
  C31. \<open>DobotV3CmdInter_Loop\<close> on a table that satisfies its invariant is defined and keeps the
  invariant. Past the last slot it starts over and tells the frame to stop; otherwise it visits one
  slot and goes on to the next, changing no other slot and no stored packet. A slot that is not to
  be sent, or whose time is not over, stays as it is. A slot that is due and has repeats left loses
  one repeat and has its stored packet handed to the frame to be sent on its link, and is released
  at once if no answer is wanted. A slot that is due and has none left runs its callback with
  \<open>TIMEOUT\<close>, once, and is released, or stops sending and reports \<open>TIMEOUT\<close>.
\<close>
theorem Loop_correct:
  assumes ok: "cmd_ok input s" and buf: "length (pPacket (pPacketParm s)) = DobotV3Format_PACKET_LENGTH"
  shows "\<exists>s'. DobotV3CmdInter_Loop s = Some s' \<and> cmd_ok input s' \<and> pPacketList s' = pPacketList s \<and>
     (loopIndex s = packetListSize s \<longrightarrow>
        loopIndex s' = 0 \<and> exitCallPack (pPacketParm s') \<and> pPacketParmList s' = pPacketParmList s \<and> world s' = world s) \<and>
     (\<forall>i < packetListSize s. loopIndex s = i \<longrightarrow> (let sl = pPacketParmList s ! i; sl' = pPacketParmList s' ! i in
        loopIndex s' = Suc i \<and> (\<forall>j. j \<noteq> i \<longrightarrow> pPacketParmList s' ! j = pPacketParmList s ! j) \<and>
        (\<not> (slotSend sl \<and> IsTimeOut s (timeOut (slotParm sl)) (timeStart sl)) \<longrightarrow>
           sl' = sl \<and> pPacketParm s' = pPacketParm s \<and> world s' = world s) \<and>
        (slotSend sl \<and> IsTimeOut s (timeOut (slotParm sl)) (timeStart sl) \<and> repeatNum (slotParm sl) \<noteq> 0 \<longrightarrow>
           world s' = world s \<and> sendMark (pPacketParm s') \<and> pLink (pPacketParm s') = slotLink sl \<and>
           packetLength (pPacketParm s') = slotLength sl \<and>
           take (slotLength sl) (pPacket (pPacketParm s')) = take (slotLength sl) (slot_bytes s i) \<and>
           (if ackMark (slotParm sl)
            then slotSend sl' \<and> unat (repeatNum (slotParm sl)) = Suc (unat (repeatNum (slotParm sl'))) \<and>
                 timeStart sl' = timeCNT s
            else \<not> userMark sl' \<and> \<not> slotSend sl')) \<and>
        (slotSend sl \<and> IsTimeOut s (timeOut (slotParm sl)) (timeStart sl) \<and> repeatNum (slotParm sl) = 0 \<longrightarrow>
           world s' = run_callback (timeout_callback s i) (timeout_parm s i) (world s) \<and>
           pPacketParm s' = pPacketParm s \<and> \<not> slotSend sl' \<and>
           (if autoFreeMark sl then \<not> userMark sl' else sendStatus sl' = DobotV3CmdInter_TIMEOUT))))"
proof (cases "loopIndex s = packetListSize s")
  case True
  have "cmd_ok input (s\<lparr>loopIndex := 0, pPacketParm := (pPacketParm s)\<lparr>exitCallPack := True\<rparr>\<rparr>) \<longleftrightarrow>
      cmd_ok input (s\<lparr>pPacketList := pPacketList s, pPacketParmList := (pPacketParmList s)[0 := pPacketParmList s ! 0], loopIndex := 0\<rparr>)"
    by (rule cmd_ok_cong) simp_all
  moreover have "cmd_ok input (s\<lparr>pPacketList := pPacketList s, pPacketParmList := (pPacketParmList s)[0 := pPacketParmList s ! 0], loopIndex := 0\<rparr>)"
    using cmd_okD(8) [OF ok] by (intro cmd_ok_update [OF ok refl]) simp_all
  ultimately show ?thesis unfolding Loop_exit [OF True] using True by simp
next
  case False
  then have i: "loopIndex s < packetListSize s" using cmd_okD(7) [OF ok] by simp
  let ?sl = "pPacketParmList s ! loopIndex s"
  have n: "slot_due s ?sl \<Longrightarrow> slotLength ?sl \<le> packetSize s \<and> slotLength ?sl \<le> length (slot_bytes s (loopIndex s))"
    using cmd_okD(8) [OF ok i] slot_addr [OF ok i] by (auto simp: slot_ok_def slot_due_def slot_bytes_def)
  have dec: "r \<noteq> 0 \<Longrightarrow> unat r = Suc (unat (r - 1))" for r :: u8
    by (simp add: unat_minus_one unat_gt_0)
  have others: "j \<noteq> loopIndex s \<Longrightarrow> pPacketParmList (visited s) ! j = pPacketParmList s ! j" for j
    by (simp add: visited_frame)
  have slot: "pPacketParmList (visited s) ! loopIndex s = visited_slot s ?sl"
    using i by (simp add: visited_frame)
  have parm: "pPacketParm (visited s) = visited_parm s (loopIndex s)"
    "world (visited s) = visited_world s (loopIndex s)" by (simp_all add: visited_def Let_def)
  show ?thesis
    unfolding Loop_eq [OF ok i buf]
    apply (intro exI [of _ "visited s"] conjI allI impI refl)
    subgoal by (rule visited_ok [OF ok i])
    subgoal by (rule visited_frame)
    subgoal using False by simp
    subgoal using False by simp
    subgoal using False by simp
    subgoal using False by simp
    subgoal for k
      using n dec others
      by (auto simp: slot parm visited_frame(6) visited_slot_def visited_parm_def visited_world_def sends_slot_def
          slot_due_def GetStartTime_def ClearPkgParm_def min_absorb1 min_absorb2 Let_def)
    done
qed

lemma late_table_ok: "cmd_ok (\<lambda>_ _. []) (answer_table cb\<lparr>timeCNT := 2000\<rparr>)"
  using answer_table_ok [of cb] by (subst cmd_ok_cong [where s = "answer_table cb"]) simp_all

theorem Loop_correct_witness:
  "\<exists>s'. DobotV3CmdInter_Loop (answer_table True\<lparr>timeCNT := 2000\<rparr>) = Some s' \<and>
     sendMark (pPacketParm s') \<and> packetLength (pPacketParm s') = 17 \<and> loopIndex s' = 1"
  using Loop_correct [OF late_table_ok, of True]
  by (auto simp: IsTimeOut_def sent_slot_def empty_slot_def Let_def)

section \<open>The frame around it\<close>

text \<open>What the frame needs to send what the table hands to it.\<close>

definition sendable :: "'w link list \<Rightarrow> nat option \<Rightarrow> bool" where
  "sendable ls lk \<longleftrightarrow> (\<forall>q. lk = Some q \<longrightarrow> q < length ls \<and> SendData (ls ! q) \<noteq> None)"

definition slot_links_ok :: "('w, 'z) cmd_state_scheme \<Rightarrow> bool" where
  "slot_links_ok s \<longleftrightarrow> (\<forall>sl \<in> set (pPacketParmList s). slotSend sl \<longrightarrow> sendable (links s) (slotLink sl))"

text \<open>What a run of the loop leaves alone.\<close>

definition loop_kept :: "('w, 'z) cmd_state_scheme \<Rightarrow> ('w, 'z) cmd_state_scheme \<Rightarrow> bool" where
  "loop_kept s s' \<longleftrightarrow> timeCNT s' = timeCNT s \<and> pLinkList s' = pLinkList s \<and> linkNum s' = linkNum s \<and>
     links s' = links s \<and> loopMark s' = loopMark s \<and> packetListSize s' = packetListSize s \<and> packetSize s' = packetSize s \<and>
     length (pPacket (pPacketParm s')) = DobotV3Format_PACKET_LENGTH"

lemma loop_kept_trans: "loop_kept s t \<Longrightarrow> loop_kept t u \<Longrightarrow> loop_kept s u"
  by (simp add: loop_kept_def)

lemma visited_links_ok:
  assumes "slot_links_ok s" and "loopIndex s < packetListSize s"
  shows "slot_links_ok (visited s)"
proof -
  let ?i = "loopIndex s"
  have "slotSend (visited_slot s sl) \<longrightarrow> slotSend sl \<and> slotLink (visited_slot s sl) = slotLink sl" for sl
    by (simp add: visited_slot_def ClearPkgParm_def slot_due_def Let_def)
  moreover have "slotSend (pPacketParmList s ! ?i) \<longrightarrow> sendable (links s) (slotLink (pPacketParmList s ! ?i))"
    using assms by (simp add: slot_links_ok_def)
  ultimately show ?thesis
    using assms(1) by (auto simp: slot_links_ok_def visited_frame dest!: set_update_subset_insert [THEN subsetD])
qed

text \<open>A visit, and the sending after it, in one round of the loop of the frame.\<close>

lemma send_round:
  assumes ok: "cmd_ok input s" and i: "loopIndex s < packetListSize s" and links: "slot_links_ok s"
    and buf: "length (pPacket (pPacketParm s)) = DobotV3Format_PACKET_LENGTH"
    and parm: "\<not> sendMark (pPacketParm s)"
  shows "\<exists>w. (if pLink (pPacketParm (visited s)) \<noteq> None \<and> sendMark (pPacketParm (visited s))
          then do { s \<leftarrow> send_error_code E (visited s); send_packet s } else Some (visited s)) =
     Some (visited s\<lparr>world := w\<rparr>) \<and> length (pPacket (pPacketParm (visited s))) = DobotV3Format_PACKET_LENGTH"
proof -
  let ?i = "loopIndex s"
  let ?sl = "pPacketParmList s ! ?i"
  have len: "length (pPacket (visited_parm s ?i)) = DobotV3Format_PACKET_LENGTH"
    and fit: "sends_slot s ?i \<Longrightarrow> slotLength ?sl \<le> DobotV3Format_PACKET_LENGTH"
    using buf cmd_okD(8) [OF ok i] slot_addr [OF ok i]
    by (auto simp: visited_parm_def sends_slot_def slot_due_def slot_ok_def slot_bytes_def Let_def)
  have vp: "pPacketParm (visited s) = visited_parm s ?i" by (simp add: visited_def Let_def)
  show ?thesis
  proof (cases "sends_slot s ?i \<and> slotLink ?sl \<noteq> None")
    case True
    then obtain q where q: "slotLink ?sl = Some q" by blast
    have "slotSend ?sl" using True by (simp add: sends_slot_def slot_due_def Let_def)
    then have "q < length (links s)" "SendData (links s ! q) \<noteq> None"
      using links i q by (auto simp: slot_links_ok_def sendable_def)
    then obtain f where f: "get_link q (visited s) = Some (links s ! q)" "SendData (links s ! q) = Some f"
      by (auto simp: get_link_Some visited_frame)
    have v: "pLink (visited_parm s ?i) = Some q" "sendMark (visited_parm s ?i)" "errCode (visited_parm s ?i) = 0"
      "packetLength (visited_parm s ?i) = slotLength ?sl"
      using True q by (simp_all add: visited_parm_def Let_def)
    then show ?thesis
      using f fit True len by (auto simp: vp send_error_code_def send_packet_def rd_range_Some)
  next
    case False
    then have "\<not> (pLink (visited_parm s ?i) \<noteq> None \<and> sendMark (visited_parm s ?i))"
      using parm by (auto simp: visited_parm_def Let_def)
    then show ?thesis using len by (intro exI [of _ "world (visited s)"]) (auto simp: vp)
  qed
qed

text \<open>What a visit does to a slot depends on the time only.\<close>

lemma visited_slot_time: "timeCNT t = timeCNT s \<Longrightarrow> visited_slot t = visited_slot s"
  by (intro ext) (simp add: visited_slot_def slot_due_def IsTimeOut_def GetStartTime_def Let_def)

text \<open>The loop of the frame ends: every round goes on to the next slot, and past the last one it stops.\<close>

lemma run_loop_cmd:
  assumes "cmd_ok input s" and "slot_links_ok s" and "p < length (links s)"
    and "length (pPacket (pPacketParm s)) = DobotV3Format_PACKET_LENGTH"
  shows "\<exists>s'. run_loop E p DobotV3CmdInter_Loop s = Some s' \<and> cmd_ok input s' \<and> slot_links_ok s' \<and>
     loopIndex s' = 0 \<and> loop_kept s s' \<and>
     (\<forall>i < packetListSize s. pPacketParmList s' ! i =
        (if loopIndex s \<le> i then visited_slot s (pPacketParmList s ! i) else pPacketParmList s ! i))"
  using assms
proof (induction "packetListSize s - loopIndex s" arbitrary: s)
  case 0
  then have e: "loopIndex s = packetListSize s" using cmd_okD(7) [OF 0(2)] by simp
  obtain pp where fill: "PacketParmFill (Some p) None 0 s = Some (s\<lparr>pPacketParm := pp\<rparr>)"
     "pPacket pp = pPacket (pPacketParm s)" "\<not> sendMark pp"
    by (simp add: PacketParmFill_def Let_def)
  let ?s' = "s\<lparr>pPacketParm := pp\<lparr>exitCallPack := True\<rparr>, loopIndex := 0\<rparr>"
  have "run_loop E p DobotV3CmdInter_Loop s = Some ?s'"
    using fill e by (subst run_loop.simps) (simp add: Loop_exit)
  moreover have "cmd_ok input ?s'"
  proof -
    have "cmd_ok input ?s' = cmd_ok input (s\<lparr>pPacketList := pPacketList s, pPacketParmList := (pPacketParmList s)[0 := pPacketParmList s ! 0], loopIndex := 0\<rparr>)"
      by (rule cmd_ok_cong) simp_all
    then show ?thesis using cmd_okD(8) [OF 0(2)] cmd_ok_update [OF 0(2) refl, of 0 0 "pPacketParmList s ! 0"] by simp
  qed
  ultimately show ?case
    using 0 fill e by (intro exI [of _ ?s']) (simp add: loop_kept_def slot_links_ok_def)
next
  case (Suc n)
  then have i: "loopIndex s < packetListSize s" by simp
  obtain pp where fill: "PacketParmFill (Some p) None 0 s = Some (s\<lparr>pPacketParm := pp\<rparr>)"
     "pPacket pp = pPacket (pPacketParm s)" "\<not> sendMark pp" "\<not> exitCallPack pp"
    by (simp add: PacketParmFill_def Let_def)
  let ?s1 = "s\<lparr>pPacketParm := pp\<rparr>"
  have s1: "cmd_ok input ?s1" "loopIndex ?s1 < packetListSize ?s1" "slot_links_ok ?s1"
    "length (pPacket (pPacketParm ?s1)) = DobotV3Format_PACKET_LENGTH" "\<not> sendMark (pPacketParm ?s1)"
    using Suc.prems i fill by (simp_all add: cmd_ok_frame slot_links_ok_def)
  obtain w where w: "(if pLink (pPacketParm (visited ?s1)) \<noteq> None \<and> sendMark (pPacketParm (visited ?s1))
          then do { s \<leftarrow> send_error_code E (visited ?s1); send_packet s } else Some (visited ?s1)) =
     Some (visited ?s1\<lparr>world := w\<rparr>)"
     "length (pPacket (pPacketParm (visited ?s1))) = DobotV3Format_PACKET_LENGTH"
    using send_round [OF s1(1,2,3,4,5), of E] by blast
  let ?s2 = "visited ?s1\<lparr>world := w\<rparr>"
  have lp: "DobotV3CmdInter_Loop ?s1 = Some (visited ?s1)" by (rule Loop_eq [OF s1(1,2,4)])
  have "exitCallPack (pPacketParm ?s2) = False" using fill(4) by (simp add: visited_frame)
  then have step: "run_loop E p DobotV3CmdInter_Loop s = run_loop E p DobotV3CmdInter_Loop ?s2"
    using fill(1) lp w(1) by (subst run_loop.simps) simp
  have p2: "cmd_ok input ?s2" using visited_ok [OF s1(1,2)] by (simp add: cmd_ok_frame)
  have l2: "slot_links_ok ?s2" using visited_links_ok [OF s1(3,2)] by (simp add: slot_links_ok_def)
  have n: "n = packetListSize ?s2 - loopIndex ?s2" using Suc.hyps(2) by (simp add: visited_frame)
  have b: "p < length (links ?s2)" "length (pPacket (pPacketParm ?s2)) = DobotV3Format_PACKET_LENGTH"
    using w(2) Suc.prems(3) by (simp_all add: visited_frame)
  from Suc.hyps(1) [OF n p2 l2 b] obtain s' where s': "run_loop E p DobotV3CmdInter_Loop ?s2 = Some s'"
     "cmd_ok input s'" "slot_links_ok s'" "loopIndex s' = 0" "loop_kept ?s2 s'"
     "\<forall>i < packetListSize ?s2. pPacketParmList s' ! i =
        (if loopIndex ?s2 \<le> i then visited_slot ?s2 (pPacketParmList ?s2 ! i) else pPacketParmList ?s2 ! i)"
    by (elim exE conjE) (rule that; assumption)
  have l: "packetListSize ?s2 = packetListSize s" "loopIndex ?s2 = Suc (loopIndex s)"
    "pPacketParmList ?s2 = (pPacketParmList s)[loopIndex s := visited_slot ?s1 (pPacketParmList s ! loopIndex s)]"
    by (simp_all add: visited_frame)
  have "loop_kept s ?s2" using w(2) by (simp add: loop_kept_def visited_frame)
  then have kept: "loop_kept s s'" using s'(5) by (rule loop_kept_trans)
  have v: "visited_slot ?s2 = visited_slot s" "visited_slot ?s1 = visited_slot s"
    by (rule visited_slot_time, simp add: visited_frame)+
  have "pPacketParmList s' ! i = (if loopIndex s \<le> i then visited_slot s (pPacketParmList s ! i) else pPacketParmList s ! i)"
    if "i < packetListSize s" for i
    using s'(6) that unfolding l v by (cases "i = loopIndex s") auto
  then show ?case using s'(1,2,3,4) step kept by simp
qed


section \<open>A command that is never answered\<close>

text \<open>
  Rounds of \<open>FuncLoop\<close>'s loop for the command table, \<open>d\<close> ticks of the time base before each,
  with no answer in between; \<open>rounds d n\<close> is the state after \<open>n\<close> of them.
\<close>

primrec rounds :: "('w, 'z) cmd_state_scheme frame_env \<Rightarrow> nat \<Rightarrow> u32 \<Rightarrow> nat \<Rightarrow>
    ('w, 'z) cmd_state_scheme \<Rightarrow> ('w, 'z) cmd_state_scheme option" where
  "rounds E p d 0 s = Some s"
| "rounds E p d (Suc n) s = do {
     s \<leftarrow> rounds E p d n s;
     run_loop E p DobotV3CmdInter_Loop (ProtocolFrame_TIMECNT d s) }"

lemma tick_kept:
  "cmd_ok input (ProtocolFrame_TIMECNT d s) = cmd_ok input s"
  "slot_links_ok (ProtocolFrame_TIMECNT d s) = slot_links_ok s"
  by (simp_all add: ProtocolFrame_TIMECNT_def cmd_ok_def callbacks_ok_def slot_ok_def GETPKGADDR_def slot_links_ok_def)

lemma rounds_ok:
  assumes "cmd_ok input s" and "slot_links_ok s" and "p < length (links s)" and "loopIndex s = 0"
    and "length (pPacket (pPacketParm s)) = DobotV3Format_PACKET_LENGTH"
  shows "\<exists>s'. rounds E p d n s = Some s' \<and> cmd_ok input s' \<and> slot_links_ok s' \<and> loopIndex s' = 0 \<and>
     links s' = links s \<and> packetListSize s' = packetListSize s \<and> timeCNT s' = timeCNT s + of_nat n * d \<and>
     length (pPacket (pPacketParm s')) = DobotV3Format_PACKET_LENGTH"
proof (induction n)
  case 0
  then show ?case using assms by simp
next
  case (Suc n)
  then obtain t where t: "rounds E p d n s = Some t" "cmd_ok input t" "slot_links_ok t" "loopIndex t = 0"
     "links t = links s" "packetListSize t = packetListSize s" "timeCNT t = timeCNT s + of_nat n * d"
     "length (pPacket (pPacketParm t)) = DobotV3Format_PACKET_LENGTH" by blast
  let ?t = "ProtocolFrame_TIMECNT d t"
  have "cmd_ok input ?t" "slot_links_ok ?t" "p < length (links ?t)"
    "length (pPacket (pPacketParm ?t)) = DobotV3Format_PACKET_LENGTH"
    using t assms(3) by (simp_all add: tick_kept) (simp_all add: ProtocolFrame_TIMECNT_def)
  from run_loop_cmd [OF this, of E] obtain s' where s': "run_loop E p DobotV3CmdInter_Loop ?t = Some s'"
     "cmd_ok input s'" "slot_links_ok s'" "loopIndex s' = 0" "loop_kept ?t s'"
    by (elim exE conjE) (rule that; assumption)
  have "timeCNT s' = timeCNT s + of_nat (Suc n) * d"
    using s'(5) t(7) by (simp add: loop_kept_def ProtocolFrame_TIMECNT_def algebra_simps)
  then show ?case
    using s' t by (simp add: loop_kept_def) (simp add: ProtocolFrame_TIMECNT_def)
qed

text \<open>What a round does to a slot whose timeout is shorter than the ticks before it.\<close>

lemma round_slot:
  assumes "cmd_ok input s" and "slot_links_ok s" and "p < length (links s)" and "loopIndex s = 0"
    and "length (pPacket (pPacketParm s)) = DobotV3Format_PACKET_LENGTH"
    and run: "run_loop E p DobotV3CmdInter_Loop s = Some s'" and i: "i < packetListSize s"
  shows "pPacketParmList s' ! i = visited_slot s (pPacketParmList s ! i)" and "timeCNT s' = timeCNT s"
  using run_loop_cmd [OF assms(1,2,3,5), of E] run i assms(4) by (auto simp: loop_kept_def)

lemma unanswered_repeats:
  assumes ok: "cmd_ok input s" "slot_links_ok s" "p < length (links s)" "loopIndex s = 0"
    "length (pPacket (pPacketParm s)) = DobotV3Format_PACKET_LENGTH"
    and i: "i < packetListSize s"
    and sl: "slotSend (pPacketParmList s ! i)" "ackMark (slotParm (pPacketParmList s ! i))"
      "timeStart (pPacketParmList s ! i) = timeCNT s" "timeOut (slotParm (pPacketParmList s ! i)) < d"
    and n: "n \<le> unat (repeatNum (slotParm (pPacketParmList s ! i)))"
  shows "\<exists>s'. rounds E p d n s = Some s' \<and> timeCNT s' = timeStart (pPacketParmList s' ! i) \<and>
     (let sl = pPacketParmList s ! i; sl' = pPacketParmList s' ! i in
        slotSend sl' \<and> userMark sl' = userMark sl \<and> autoFreeMark sl' = autoFreeMark sl \<and> ackMark (slotParm sl') \<and>
        timeOut (slotParm sl') = timeOut (slotParm sl) \<and>
        unat (repeatNum (slotParm sl')) = unat (repeatNum (slotParm sl)) - n)"
  using n
proof (induction n)
  case 0
  then show ?case using sl by simp
next
  case (Suc n)
  then obtain t where t: "rounds E p d n s = Some t" "timeCNT t = timeStart (pPacketParmList t ! i)"
     "slotSend (pPacketParmList t ! i)" "userMark (pPacketParmList t ! i) = userMark (pPacketParmList s ! i)"
     "autoFreeMark (pPacketParmList t ! i) = autoFreeMark (pPacketParmList s ! i)"
     "ackMark (slotParm (pPacketParmList t ! i))"
     "timeOut (slotParm (pPacketParmList t ! i)) = timeOut (slotParm (pPacketParmList s ! i))"
     "unat (repeatNum (slotParm (pPacketParmList t ! i))) = unat (repeatNum (slotParm (pPacketParmList s ! i))) - n"
    by (auto simp: Let_def)
  obtain t' where t': "rounds E p d n s = Some t'" "cmd_ok input t'" "slot_links_ok t'" "loopIndex t' = 0"
     "links t' = links s" "packetListSize t' = packetListSize s"
     "length (pPacket (pPacketParm t')) = DobotV3Format_PACKET_LENGTH"
    using rounds_ok [OF ok, of E d n] by blast
  have [simp]: "t' = t" using t(1) t'(1) by simp
  let ?u = "ProtocolFrame_TIMECNT d t"
  have u: "cmd_ok input ?u" "slot_links_ok ?u" "p < length (links ?u)" "loopIndex ?u = 0"
    "length (pPacket (pPacketParm ?u)) = DobotV3Format_PACKET_LENGTH" "i < packetListSize ?u"
    "pPacketParmList ?u = pPacketParmList t" "timeCNT ?u = timeCNT t + d"
    using t' ok(3) i by (simp_all add: tick_kept) (simp_all add: ProtocolFrame_TIMECNT_def)
  obtain s' where s': "run_loop E p DobotV3CmdInter_Loop ?u = Some s'"
    using run_loop_cmd [OF u(1,2,3,5), of E] by blast
  note r = round_slot [OF u(1,2,3,4,5) s' u(6)]
  have due: "slot_due ?u (pPacketParmList t ! i)"
    using t sl(4) u(8) by (simp add: slot_due_def IsTimeOut_def)
  have more: "unat (repeatNum (slotParm (pPacketParmList t ! i))) \<noteq> 0" using t(8) Suc.prems by simp
  then have "repeatNum (slotParm (pPacketParmList t ! i)) \<noteq> 0" by auto
  then have v: "pPacketParmList s' ! i = (pPacketParmList t ! i)\<lparr>slotParm := (slotParm (pPacketParmList t ! i))
       \<lparr>repeatNum := repeatNum (slotParm (pPacketParmList t ! i)) - 1\<rparr>, timeStart := timeCNT t + d\<rparr>"
    using r(1) due t(6) u(7,8) by (simp add: visited_slot_def GetStartTime_def Let_def)
  have "unat (repeatNum (slotParm (pPacketParmList t ! i)) - 1) = unat (repeatNum (slotParm (pPacketParmList t ! i))) - 1"
    using more by (intro unat_minus_one) auto
  then show ?case
    using t s' v r(2) u(8) by (simp add: Let_def)
qed

text \<open>
  C32. A command that wants an answer and gets none is not sent for ever: with \<open>r\<close> repeats left,
  and more ticks than its timeout between two rounds, it is still being sent and has lost one
  repeat per round in each of the first \<open>r\<close> rounds, and the next round gives it up; its slot is
  then free again, or reports \<open>TIMEOUT\<close> if it is not freed automatically. All the rounds return.
\<close>
theorem unanswered_command_given_up:
  assumes sl_def: "sl = pPacketParmList s ! i" and r_def: "r = unat (repeatNum (slotParm sl))"
    and ok: "cmd_ok input s" "slot_links_ok s" "p < length (links s)" "loopIndex s = 0"
    "length (pPacket (pPacketParm s)) = DobotV3Format_PACKET_LENGTH"
    and i: "i < packetListSize s"
    and sl: "slotSend sl" "ackMark (slotParm sl)" "timeStart sl = timeCNT s" "timeOut (slotParm sl) < d"
  shows "(\<forall>n \<le> r. \<exists>s'. rounds E p d n s = Some s' \<and> slotSend (pPacketParmList s' ! i) \<and>
            unat (repeatNum (slotParm (pPacketParmList s' ! i))) = r - n) \<and>
     (\<exists>s'. rounds E p d (Suc r) s = Some s' \<and> \<not> slotSend (pPacketParmList s' ! i) \<and>
        (if autoFreeMark sl then \<not> userMark (pPacketParmList s' ! i)
         else sendStatus (pPacketParmList s' ! i) = DobotV3CmdInter_TIMEOUT))"
proof (intro conjI allI impI)
  note rep = unanswered_repeats [OF ok i sl(1,2,3,4) [unfolded sl_def], of _ E, folded sl_def, folded r_def]
  show "\<exists>s'. rounds E p d n s = Some s' \<and> slotSend (pPacketParmList s' ! i) \<and>
            unat (repeatNum (slotParm (pPacketParmList s' ! i))) = r - n" if "n \<le> r" for n
    using rep [OF that] by (auto simp: r_def Let_def)
  obtain t where t: "rounds E p d r s = Some t" "timeCNT t = timeStart (pPacketParmList t ! i)"
     "slotSend (pPacketParmList t ! i)" "autoFreeMark (pPacketParmList t ! i) = autoFreeMark sl"
     "timeOut (slotParm (pPacketParmList t ! i)) = timeOut (slotParm sl)"
     "repeatNum (slotParm (pPacketParmList t ! i)) = 0"
    using rep [OF order_refl] by (auto simp: r_def Let_def unat_eq_0)
  obtain t' where t': "rounds E p d r s = Some t'" "cmd_ok input t'" "slot_links_ok t'" "loopIndex t' = 0"
     "links t' = links s" "packetListSize t' = packetListSize s"
     "length (pPacket (pPacketParm t')) = DobotV3Format_PACKET_LENGTH"
    using rounds_ok [OF ok, of E d r] by blast
  have [simp]: "t' = t" using t(1) t'(1) by simp
  let ?u = "ProtocolFrame_TIMECNT d t"
  have u: "cmd_ok input ?u" "slot_links_ok ?u" "p < length (links ?u)" "loopIndex ?u = 0"
    "length (pPacket (pPacketParm ?u)) = DobotV3Format_PACKET_LENGTH" "i < packetListSize ?u"
    "pPacketParmList ?u = pPacketParmList t" "timeCNT ?u = timeCNT t + d"
    using t' ok(3) i by (simp_all add: tick_kept) (simp_all add: ProtocolFrame_TIMECNT_def)
  obtain s' where s': "run_loop E p DobotV3CmdInter_Loop ?u = Some s'"
    using run_loop_cmd [OF u(1,2,3,5), of E] by blast
  have "slot_due ?u (pPacketParmList t ! i)"
    using t sl(4) u(8) by (simp add: slot_due_def IsTimeOut_def)
  then show "\<exists>s'. rounds E p d (Suc r) s = Some s' \<and> \<not> slotSend (pPacketParmList s' ! i) \<and>
        (if autoFreeMark sl then \<not> userMark (pPacketParmList s' ! i)
         else sendStatus (pPacketParmList s' ! i) = DobotV3CmdInter_TIMEOUT)"
    using round_slot(1) [OF u(1,2,3,4,5) s' u(6)] t s' u(7)
    by (simp add: visited_slot_def ClearPkgParm_def)
qed

definition linked_table :: "nat cmd_state" where
  "linked_table = answer_table True
     \<lparr>links := [(ProtocolFrame_LINK_EXPORT 500 527)\<lparr>SendData := Some (\<lambda>d w. w)\<rparr>]\<rparr>"

lemma linked_table_simps [simp]:
  "pPacketParmList linked_table = [sent_slot True, empty_slot, empty_slot]" "loopIndex linked_table = 0"
  "length (pPacket (pPacketParm linked_table)) = DobotV3Format_PACKET_LENGTH" "length (links linked_table) = 1"
  "timeCNT linked_table = 0"
  by (simp_all add: linked_table_def)
    (simp add: answer_table_def DobotV3CmdInter_EXPORT_def frame_state.defs ProtocolFrame_FRAME_EXPORT_def)

lemma linked_table_ok: "cmd_ok (\<lambda>_ _. []) linked_table" "slot_links_ok linked_table"
  using answer_table_ok [of True]
  by (simp_all add: linked_table_def cmd_ok_frame slot_links_ok_def sendable_def sent_slot_def empty_slot_def)

theorem unanswered_command_given_up_witness:
  "\<exists>s'. rounds \<lparr>formats = (\<lambda>_. DobotV3Format), funcLists = (\<lambda>_. [])\<rparr> 0 1001 (Suc 3) linked_table = Some s' \<and> \<not> userMark (pPacketParmList s' ! 0)"
  using unanswered_command_given_up [of "sent_slot True" linked_table 0 3, OF _ _ linked_table_ok,
      where p = 0 and d = 1001 and E = "\<lparr>formats = (\<lambda>_. DobotV3Format), funcLists = (\<lambda>_. [])\<rparr>"]
  by (auto simp: sent_slot_def empty_slot_def simp del: rounds.simps)

end
