(* ===== verification/DobotCodec.thy ===== *)
theory DobotCodec imports DobotFormat begin

text \<open>
  What the packet codec of \<open>DobotV3Format.c\<close> guarantees: the checksums agree with their
  bit-serial references, what the encoder writes passes every decoding check and keeps the fields
  of its caller, a single altered byte of a packet is always noticed, and an error code survives
  the way through \<open>ErrCodeSend\<close> and \<open>ErrCodeRead\<close>.
\<close>

section \<open>Checksums\<close>

text \<open>
  The table-driven \<open>DobotV3Format_CRC8\<close>, whose table is built on the first call and kept
  in static variables, returns for every buffer what the bit-serial CRC-8 of the other copy of the
  protocol returns, whether the table has been built already or not, and leaves the table in a
  state in which the next call is right again.
\<close>
theorem CRC8_table_eq_bitwise:
  assumes "crc8_cache_ok st" and "unat len \<le> length buff"
  shows "\<exists>st' v. DobotV3Format_CRC8 st buff len = Some (st', v) \<and>
           Mooz_CRC8 buff len = Some v \<and> crc8_cache_ok st'"
  using CRC8_refines_crc8 [OF assms] Mooz_CRC8_eq_crc8 [OF assms(2)] by blast

theorem CRC8_table_eq_bitwise_witness:
  "\<exists>st' v. DobotV3Format_CRC8 crc8_initial [0xAA, 0xBB, 7] 3 = Some (st', v) \<and>
           Mooz_CRC8 [0xAA, 0xBB, 7] 3 = Some v \<and> crc8_cache_ok st'"
  by (rule CRC8_table_eq_bitwise [OF crc8_cache_ok_initial]) simp

text \<open>
  C40. The 256-entry table of \<open>DobotV3Format_CRC16\<close> is the CRC-16/ARC table: on every readable
  range the routine returns the bit-serial CRC with the reflected polynomial \<open>0xA001\<close>, and it
  reads nothing outside the range.
\<close>
theorem CRC16_table_eq_bitwise:
  "DobotV3Format_CRC16 buffer n =
     (if n \<le> length buffer then Some (crc16_serial (take n buffer)) else None)"
  by (simp add: DobotV3Format_CRC16_def rd_range_def crc16_eq_serial)

section \<open>The encoder\<close>

lemma dv3_header_nth:
  assumes "15 \<le> length p"
  shows "dv3_header p n ! 0 = DobotV3Format_SOF1" "dv3_header p n ! Suc 0 = DobotV3Format_SOF2"
    "dv3_header p n ! 2 = lo8 (ucast n)" "dv3_header p n ! 3 = hi8 (ucast n)"
    "4 \<le> k \<Longrightarrow> k < 14 \<Longrightarrow> dv3_header p n ! k = p ! k"
proof -
  assume "4 \<le> k" "k < 14"
  then have "k = 4 + (k - 4)" "k - 4 < 10" by auto
  then obtain j where "k = 4 + j" "j < 10" by blast
  then show "dv3_header p n ! k = p ! k"
    using assms by (simp add: dv3_header_def bytes16_def)
qed (simp_all add: dv3_header_def bytes16_def)

lemma dv3_encoded_parts:
  assumes "15 + unat n \<le> length p"
  shows "take 14 (dv3_encoded p n) = dv3_header p n"
    "dv3_encoded p n ! 14 = crc8 (dv3_header p n)"
    "take (15 + unat n) (dv3_encoded p n) = dv3_body p n"
    "take (unat n) (drop 15 (dv3_encoded p n)) = take (unat n) (drop 15 p)"
proof -
  have l: "length (dv3_header p n) = 14" "length (dv3_body p n) = 15 + unat n"
    using assms by (simp_all add: dv3_header_length dv3_body_length)
  then show "take 14 (dv3_encoded p n) = dv3_header p n"
    "dv3_encoded p n ! 14 = crc8 (dv3_header p n)"
    "take (15 + unat n) (dv3_encoded p n) = dv3_body p n"
    by (simp_all add: dv3_encoded_def dv3_body_def nth_append)
  show "take (unat n) (drop 15 (dv3_encoded p n)) = take (unat n) (drop 15 p)"
    using l assms by (simp add: dv3_encoded_def dv3_body_def)
qed

lemma dv3_encoded_nth:
  assumes "15 + unat n \<le> length p" and "k < 14"
  shows "dv3_encoded p n ! k = dv3_header p n ! k"
  using dv3_encoded_parts(1) [OF assms(1)] assms(2) by (metis nth_take)

lemma unat_ucast_u8: "unat (ucast (n :: u8) :: u16) = unat n"
  by (simp add: unsigned_ucast_eq take_bit_nat_eq_self less_trans [OF unat_u8_less])

text \<open>A buffer that begins with an encoded packet begins with a valid packet.\<close>

lemma dv3_encoded_valid:
  assumes len: "15 + unat n \<le> length p"
    and buf: "take (unat n + 17) buf = dv3_encoded p n"
  shows "dv3_valid buf" "dv3_packet_len buf = unat n + 17"
proof -
  let ?e = "dv3_encoded p n" and ?m = "unat n + 17"
  have le: "length ?e = ?m" using len by (simp add: dv3_encoded_length)
  have lb: "length (dv3_body p n) = 15 + unat n" using len by (simp add: dv3_body_length)
  have nth: "buf ! k = ?e ! k" if "k < ?m" for k using buf that by (metis nth_take)
  have tk: "take k buf = take k ?e" if "k \<le> ?m" for k
    using buf that by (metis min_absorb1 take_take)
  have hd: "buf ! k = dv3_header p n ! k" if "k < 14" for k
    using nth [of k] dv3_encoded_nth [OF len that] that by simp
  have h: "buf ! 0 = 0xAA" "buf ! 1 = 0xBB" "le16 (buf ! 2) (buf ! 3) = ucast n"
    using len by (simp_all add: hd dv3_header_nth)
  then have dl: "dv3_len buf = unat n" by (simp add: dv3_len_def unat_ucast_u8)
  then show "dv3_packet_len buf = ?m" by (simp add: dv3_packet_len_def)
  have "buf ! (15 + unat n) = lo8 (crc16 (dv3_body p n))"
    and "buf ! (15 + unat n + 1) = hi8 (crc16 (dv3_body p n))"
    using lb by (simp_all add: nth dv3_encoded_def nth_append bytes16_def)
  then have c3: "dv3_crc_ok buf"
    using dv3_encoded_parts(3) [OF len] by (simp add: dv3_crc_ok_def dl tk)
  have c2: "crc8 (take 14 buf) = buf ! 14"
    using dv3_encoded_parts(1,2) [OF len] tk [of 14] nth [of 14] by simp
  have "unat n \<le> 512" using unat_u8_less [of n] by linarith
  then show "dv3_valid buf"
    using h(1,2) c2 c3 by (simp add: dv3_valid_def all_less4 dv3_chk_def dl)
qed

lemma PacketEncoder_spec:
  assumes "unat n + 17 \<le> length p"
  shows "\<exists>q. DobotV3Format_PacketEncoder p n = Some (q, unat n + 17) \<and> length q = length p \<and>
           dv3_valid q \<and> dv3_packet_len q = unat n + 17 \<and>
           (\<forall>k. 4 \<le> k \<and> k < 14 \<longrightarrow> q ! k = p ! k) \<and>
           take (unat n) (drop 15 q) = take (unat n) (drop 15 p) \<and>
           drop (unat n + 17) q = drop (unat n + 17) p"
proof -
  define q where "q = dv3_encoded p n @ drop (unat n + 17) p"
  have len: "15 + unat n \<le> length p" using assms by simp
  have le: "length (dv3_encoded p n) = unat n + 17" using len by (rule dv3_encoded_length)
  have tk: "take (unat n + 17) q = dv3_encoded p n" by (simp add: q_def le)
  have "q ! k = p ! k" if "4 \<le> k \<and> k < 14" for k
    using that len le by (simp add: q_def nth_append dv3_encoded_nth dv3_header_nth)
  moreover have "take (unat n) (drop 15 q) = take (unat n) (drop 15 p)"
    using dv3_encoded_parts(4) [OF len] le by (simp add: q_def)
  moreover have "drop (unat n + 17) q = drop (unat n + 17) p" by (simp add: q_def le)
  ultimately show ?thesis
    using PacketEncoder_Some [OF assms] dv3_encoded_valid [OF len tk] assms le
    by (auto simp: q_def)
qed

text \<open>
  C38. \<open>DobotV3Format_PacketEncoder\<close> stays inside a buffer of \<open>pDataLen + 17\<close> bytes or
  more, returns that packet length, leaves what follows the packet alone, and produces a packet
  that every decoding step of \<open>DobotV3Format\<close> accepts, with the payload and the fields from
  \<open>version\<close> to \<open>cmdId\<close> that the caller had filled in.
\<close>
theorem PacketEncoder_correct:
  assumes "unat n + 17 \<le> length p"
  shows "\<exists>q. DobotV3Format_PacketEncoder p n = Some (q, unat n + 17) \<and> length q = length p \<and>
           dv3_valid q \<and> dv3_packet_len q = unat n + 17 \<and>
           (\<forall>k. 4 \<le> k \<and> k < 14 \<longrightarrow> q ! k = p ! k) \<and>
           take (unat n) (drop 15 q) = take (unat n) (drop 15 p) \<and>
           drop (unat n + 17) q = drop (unat n + 17) p"
  using assms by (rule PacketEncoder_spec)

theorem PacketEncoder_correct_witness:
  "\<exists>q. DobotV3Format_PacketEncoder (replicate 20 7) 3 = Some (q, 20) \<and> length q = 20 \<and> dv3_valid q"
  using PacketEncoder_correct [of 3 "replicate 20 7"] by auto


section \<open>Damaged packets\<close>

lemma dv3_valid_parts:
  "dv3_valid buf \<longleftrightarrow> buf ! 0 = DobotV3Format_SOF1 \<and> buf ! 1 = DobotV3Format_SOF2 \<and>
     dv3_len buf \<le> DobotV3Format_PAYLOAD_LENGTH \<and> crc8 (take 14 buf) = buf ! 14 \<and> dv3_crc_ok buf"
  by (simp add: dv3_valid_def all_less4 dv3_chk_def)

lemma take_update: "k < n \<Longrightarrow> take n (xs[k := v]) = (take n xs)[k := v]"
  by (simp add: take_update_swap)

text \<open>Damage of a byte of the header breaks its check, damage behind it the check of the packet.\<close>

lemma dv3_header_damaged:
  assumes "dv3_chk 2 buf" and "15 \<le> length buf" and "k < 15" and "v \<noteq> buf ! k"
  shows "\<not> dv3_chk 2 (buf[k := v])"
  using assms crc8_change_byte [of k "take 14 buf" v]
  by (cases "k = 14") (auto simp: dv3_chk_def take_update)

lemma dv3_body_damaged:
  assumes crc: "dv3_chk 3 buf" and len: "dv3_packet_len buf \<le> length buf"
    and k: "15 \<le> k" "k < dv3_packet_len buf" and v: "v \<noteq> buf ! k"
  shows "\<not> dv3_chk 3 (buf[k := v])" and "dv3_packet_len (buf[k := v]) = dv3_packet_len buf"
proof -
  let ?e = "15 + dv3_len buf"
  have l: "?e + 2 \<le> length buf" "k < ?e + 2" using len k by (simp_all add: dv3_packet_len_def)
  have same: "dv3_len (buf[k := v]) = dv3_len buf" using k(1) by (simp add: dv3_len_def)
  then show "dv3_packet_len (buf[k := v]) = dv3_packet_len buf" by (simp add: dv3_packet_len_def)
  show "\<not> dv3_chk 3 (buf[k := v])"
  proof
    assume "dv3_chk 3 (buf[k := v])"
    note parts = crc this
    consider "k < ?e" | "k = ?e" | "k = ?e + 1" using l(2) by linarith
    then show False
    proof cases
      case 1
      then have "crc16 ((take ?e buf)[k := v]) = crc16 (take ?e buf)"
        using parts l same by (simp add: take_update dv3_chk_def dv3_crc_ok_def)
      then show False using crc16_change_byte [of k "take ?e buf" v] 1 v l by simp
    next
      case 2
      then have "le16 v (buf ! (?e + 1)) = le16 (buf ! ?e) (buf ! (?e + 1))"
        using parts l same by (simp add: dv3_chk_def dv3_crc_ok_def)
      then show False using v 2 by (simp add: le16_inject)
    next
      case 3
      then have "le16 (buf ! ?e) v = le16 (buf ! ?e) (buf ! (?e + 1))"
        using parts l same by (simp add: dv3_chk_def dv3_crc_ok_def)
      then show False using v 3 by (simp add: le16_inject)
    qed
  qed
qed

text \<open>The steps of the format one after the other: each is defined once those before have passed.\<close>

lemma dv3_step_checks:
  assumes "15 \<le> length buf" and "dv3_chk 2 buf \<Longrightarrow> dv3_packet_len buf \<le> length buf"
    and "i < 4" and "\<forall>j<i. dv3_chk j buf"
  shows "StepCheck (pStepList DobotV3Format ! i) buf m =
    Some (if dv3_chk i buf then ProtocolFrame_DETRUE else ProtocolFrame_DEFALSE)"
  using less4 [OF assms(3)]
proof (elim disjE)
  assume i: "i = 3"
  then have "dv3_chk 1 buf" "dv3_chk 2 buf" using assms(4) by simp_all
  then show ?thesis using assms(2) by (simp add: i dv3_step_nth PacketCRC_Some dv3_chk_def)
qed (use assms(1) in \<open>simp_all add: dv3_step_nth Sof2_Some Length_Some Head_Some\<close>)

lemma dv3_accepted:
  assumes "\<forall>i<4. StepCheck (pStepList DobotV3Format ! i) buf m = Some ProtocolFrame_DETRUE"
    and "DobotV3Format_PacketCRCLen buf m = Some n" and "n \<le> length buf"
  shows "n = dv3_packet_len buf" and "15 \<le> length buf" and "dv3_chk 2 buf" and "dv3_chk 3 buf"
proof -
  have step: "StepCheck (pStepList DobotV3Format ! i) buf m = Some ProtocolFrame_DETRUE" if "i < 4" for i
    using assms(1) that by simp
  have l: "4 \<le> length buf"
    using assms(2) by (auto simp: DobotV3Format_PacketCRCLen_def pk_length_def rd16_def rd8_def split: if_splits)
  then have c1: "dv3_chk 1 buf" using step [of 1] by (simp add: dv3_step_nth Length_Some split: if_splits)
  then show n: "n = dv3_packet_len buf" using assms(2) l by (simp add: PacketCRCLen_Some dv3_chk_def)
  then show l: "15 \<le> length buf" using assms(3) by (simp add: dv3_packet_len_def)
  show "dv3_chk 2 buf" using step [of 2] l by (simp add: dv3_step_nth Head_Some split: if_splits)
  show "dv3_chk 3 buf"
    using step [of 3] c1 n assms(3) by (simp add: dv3_step_nth PacketCRC_Some dv3_chk_def split: if_splits)
qed

text \<open>
  C39. Damage of a single byte, anywhere in a packet that passes the four steps of
  \<open>DobotV3Format\<close>, whatever the new value, is noticed by these steps, taken in their order: those
  before the one that refuses the packet pass, and none of them reads outside the bytes of the
  packet (a damaged length field included, although it moves the place where the packet CRC would be
  looked for: the check of the header refuses it first). \<open>n\<close> is the length of the packet, as
  \<open>PacketCRCLen\<close> computes it, and other bytes may follow it.
\<close>
theorem single_byte_damage_detected:
  assumes passes: "\<forall>i<4. StepCheck (pStepList DobotV3Format ! i) buf m = Some ProtocolFrame_DETRUE"
    and len: "DobotV3Format_PacketCRCLen buf m = Some n" "n \<le> length buf"
    and k: "k < n" and v: "v \<noteq> buf ! k"
  shows "\<exists>i<4. StepCheck (pStepList DobotV3Format ! i) (buf[k := v]) m = Some ProtocolFrame_DEFALSE \<and>
    (\<forall>j<i. StepCheck (pStepList DobotV3Format ! j) (buf[k := v]) m = Some ProtocolFrame_DETRUE)"
proof -
  let ?b = "buf[k := v]" and ?bad = "\<lambda>i. i < 4 \<and> \<not> dv3_chk i (buf[k := v])"
  note ok = dv3_accepted [OF passes len]
  have bad: "\<exists>i. ?bad i" and fits: "dv3_chk 2 ?b \<Longrightarrow> dv3_packet_len ?b \<le> length ?b"
    using dv3_header_damaged [OF ok(3,2) _ v] dv3_body_damaged [OF ok(4) _ _ _ v] ok(1) len k
    by (cases "k < 15"; force intro: exI [of _ 2] exI [of _ 3])+
  define i where "i = (LEAST i. ?bad i)"
  have i: "?bad i" using bad unfolding i_def by (rule LeastI_ex)
  then have before: "dv3_chk j ?b" if "j < i" for j
    using not_less_Least [of j ?bad] that unfolding i_def [symmetric] by auto
  have "StepCheck (pStepList DobotV3Format ! j) ?b m =
      Some (if dv3_chk j ?b then ProtocolFrame_DETRUE else ProtocolFrame_DEFALSE)" if "j \<le> i" for j
    using dv3_step_checks [of ?b j m] ok(2) fits i before that by auto
  then show ?thesis using i before by (intro exI [of _ i]) auto
qed

theorem single_byte_damage_detected_witness:
  "\<exists>i<4. StepCheck (pStepList DobotV3Format ! i) ((dv3_encoded (replicate 19 7) 4)[8 := 1]) 21 = Some ProtocolFrame_DEFALSE"
proof -
  let ?e = "dv3_encoded (replicate 19 7) 4"
  have e: "take (unat (4 :: u8) + 17) ?e = ?e" and l: "length ?e = 21" by (simp_all add: dv3_encoded_length)
  have v: "dv3_valid ?e" "dv3_packet_len ?e = 21" using dv3_encoded_valid [OF _ e] by simp_all
  have "\<forall>i<4. StepCheck (pStepList DobotV3Format ! i) ?e 21 = Some ProtocolFrame_DETRUE"
    using v l dv3_step_checks [of ?e _ 21] by (auto simp: dv3_valid_def)
  moreover have "DobotV3Format_PacketCRCLen ?e 21 = Some 21"
    using v l by (simp add: PacketCRCLen_Some dv3_valid_parts)
  ultimately have "\<exists>i<4. StepCheck (pStepList DobotV3Format ! i) (?e[8 := 1]) 21 = Some ProtocolFrame_DEFALSE \<and>
      (\<forall>j<i. StepCheck (pStepList DobotV3Format ! j) (?e[8 := 1]) 21 = Some ProtocolFrame_DETRUE)"
    by (rule single_byte_damage_detected) (simp_all add: l dv3_encoded_nth dv3_header_nth)
  then show ?thesis by blast
qed

section \<open>The packet structure\<close>

lemma bit_flag_bit: "bit (flag_bit k b) n \<longleftrightarrow> b \<and> n = k \<and> n < 8"
  by (auto simp: flag_bit_def bit_simps)

lemma bit_packet_flags:
  "bit (packet_flags p) 2 = rwType p" "bit (packet_flags p) 3 = queueType p"
  "bit (packet_flags p) 6 = errflg p"
  by (auto simp: packet_flags_def bit_flag_bit bit_or_iff bit_push_bit_iff bit_ucast_iff
      dest: bit_imp_le_length)

text \<open>
  The packed layout of \<open>SDobotV3Format_Packet\<close>: reading any header field through the
  structure view of a packet's bytes gives the value of that field.
\<close>
theorem packet_fields_roundtrip:
  "pk_sof2 (packet_image p) = Some (sof2 p) \<and>
   pk_length (packet_image p) = Some (length_f p) \<and>
   pk_version (packet_image p) = Some (version p) \<and>
   pk_rwType (packet_image p) = Some (rwType p) \<and>
   pk_queueType (packet_image p) = Some (queueType p) \<and>
   pk_errflg (packet_image p) = Some (errflg p) \<and>
   pk_seqNum (packet_image p) = Some (bytes32 (seqNum p)) \<and>
   pk_src (packet_image p) = Some (src p) \<and> pk_des (packet_image p) = Some (des p) \<and>
   pk_cmdSet (packet_image p) = Some (cmdSet p) \<and> pk_cmdId (packet_image p) = Some (cmdId p) \<and>
   pk_headCheck (packet_image p) = Some (headCheck p)"
proof -
  let ?t = "[src p, des p, cmdSet p, cmdId p, headCheck p] @ payloadAndCRC p"
  obtain b0 b1 b2 b3 where s: "bytes32 (seqNum p) = [b0, b1, b2, b3]"
    by (simp add: bytes32_def upt_rec numeral_eq_Suc)
  have img: "packet_image p = [sof1 p, sof2 p, lo8 (length_f p), hi8 (length_f p), version p,
      packet_flags p, b0, b1, b2, b3] @ ?t"
    by (simp add: packet_image_def bytes16_def s)
  show ?thesis
    unfolding img s pk_defs rd16_def rd_range_def rd8_def by (simp add: bit_packet_flags)
qed

section \<open>Error codes\<close>

lemma list_update_pair:
  "Suc i < length xs \<Longrightarrow> take i xs @ [a, b] @ drop (i + 2) xs = xs[i := a, Suc i := b]"
proof (induction i arbitrary: xs)
  case 0
  then show ?case by (cases xs; cases "tl xs") auto
next
  case (Suc i)
  then show ?case by (cases xs) auto
qed

text \<open>
  An error code set by a callback reaches the other side: after \<open>ErrCodeSend\<close> the packet
  buffer holds a valid packet of 20 bytes marked for sending, and \<open>ErrCodeRead\<close> on that packet
  reads the same error code back (for protocol versions after 1.0, which carry error codes).
\<close>
theorem ErrCode_roundtrip:
  assumes "20 \<le> length (pPacket pp)" and "errCode pp \<noteq> 0"
    and "pPacket pp ! 4 \<noteq> DobotV3Format_VER_10"
  shows "\<exists>pp'. DobotV3Format_ErrCodeSend pp = Some pp' \<and> sendMark pp' \<and> packetLength pp' = 20 \<and>
           dv3_valid (pPacket pp') \<and>
           DobotV3Format_ErrCodeRead (pp'\<lparr>errCode := 0\<rparr>) = Some pp'"
proof -
  let ?b = "pPacket pp"
  define p where "p = (?b[15 := ?b ! 12, 16 := lo8 (errCode pp), 17 := hi8 (errCode pp)])
      [5 := set_bit 6 (?b ! 5)]"
  have l: "length p = length ?b" by (simp add: p_def)
  have p: "p ! 4 = ?b ! 4" "p ! 5 = set_bit 6 (?b ! 5)" "p ! 16 = lo8 (errCode pp)"
      "p ! 17 = hi8 (errCode pp)"
    using assms(1) by (simp_all add: p_def)
  have w: "wr16 ?b 16 (errCode pp) = Some (?b[16 := lo8 (errCode pp), 17 := hi8 (errCode pp)])"
    using assms(1) list_update_pair [of 16 ?b "lo8 (errCode pp)" "hi8 (errCode pp)"]
    by (simp add: wr16_def wr_range_Some bytes16_def)
  obtain q where q: "DobotV3Format_PacketEncoder p 3 = Some (q, 20)" "length q = length p"
      "dv3_valid q" "\<forall>k. 4 \<le> k \<and> k < 14 \<longrightarrow> q ! k = p ! k"
      "take 3 (drop 15 q) = take 3 (drop 15 p)"
    using PacketEncoder_spec [of 3 p] assms(1) l by auto
  have q45: "q ! 4 = ?b ! 4" "bit (q ! 5) 6"
    using q(4) p by (simp_all add: bit_set_bit_iff)
  have qe: "q ! (15 + k) = p ! (15 + k)" if "k < 3" for k
    using nth_take_eq [OF q(5) that] q(2) l assms(1) by simp
  have "DobotV3Format_ErrCodeSend pp = Some (pp\<lparr>pPacket := q, packetLength := 20, sendMark := True\<rparr>)"
    using assms q(1) w
    by (simp add: DobotV3Format_ErrCodeSend_def pk_cmdSet_def mem_safe p_def list_update_swap)
  moreover have "DobotV3Format_ErrCodeRead
      (pp\<lparr>pPacket := q, packetLength := 20, sendMark := True, errCode := 0\<rparr>) =
      Some (pp\<lparr>pPacket := q, packetLength := 20, sendMark := True\<rparr>)"
    using assms q(2) l q45 qe [of 1] qe [of 2] p
    by (simp add: DobotV3Format_ErrCodeRead_def pk_version_def pk_errflg_def pk_flag_def mem_safe)
  ultimately show ?thesis using q(3) by simp
qed

theorem ErrCode_roundtrip_witness:
  "\<exists>pp'. DobotV3Format_ErrCodeSend
        \<lparr>pLink = None, pPacket = replicate 527 0x11, packetLength = 0, errCode = 7,
         sendMark = False, exitCallPack = False, exitLoop = False\<rparr> = Some pp' \<and> sendMark pp'"
  using ErrCode_roundtrip [of "\<lparr>pLink = None, pPacket = replicate 527 0x11, packetLength = 0,
      errCode = 7, sendMark = False, exitCallPack = False, exitLoop = False\<rparr>"] by auto

end
