(* ===== verification/DobotDecode.thy ===== *)
theory DobotDecode imports DecodeLoops DobotCodec begin

text \<open>
  The decoder with the Dobot format: what it hands to a function list that records every packet,
  on links that read from a byte stream. The contracts of \<open>frame_decoder\<close> are discharged for
  \<open>DobotV3Format\<close>, the recorder and the stream, and the results are stated over
  \<open>DecodeLinkPacket\<close> itself.
\<close>

section \<open>The verdict of the Dobot format\<close>

definition dv3_verdict :: "bytes \<Rightarrow> verdict" where
  "dv3_verdict bs =
     (if length bs < 2 then Incomplete
      else if bs ! 1 \<noteq> DobotV3Format_SOF2 then Bad
      else if length bs < 4 then Incomplete
      else if DobotV3Format_PAYLOAD_LENGTH < dv3_len bs then Bad
      else if length bs < DobotV3Format_HEADLEN then Incomplete
      else if crc8 (take 14 bs) \<noteq> bs ! 14 then Bad
      else if DobotV3Format_PACKET_LENGTH < dv3_packet_len bs then Bad
      else if length bs < dv3_packet_len bs then Incomplete
      else if dv3_crc_ok bs then Packet (dv3_packet_len bs) else Bad)"

abbreviation dv3_scan :: "bytes \<Rightarrow> bytes list \<times> bytes" where
  "dv3_scan \<equiv> scan dv3_verdict DobotV3Format_SOF1"

lemma dv3_frame_verdict:
  "frame_verdict 4 DobotV3Format_PACKET_LENGTH dv3_lower dv3_chk dv3_packet_len = dv3_verdict"
proof
  fix bs :: bytes
  have u: "[0..<4] = [0, 1, 2, 3 :: nat]" by (simp add: upt_rec)
  show "frame_verdict 4 DobotV3Format_PACKET_LENGTH dv3_lower dv3_chk dv3_packet_len bs = dv3_verdict bs"
    unfolding frame_verdict_def u by (simp add: step_len_def dv3_lower_def dv3_chk_def dv3_verdict_def)
qed

text \<open>A packet the scanner finds is a valid packet that fits the buffer.\<close>

lemma dv3_found:
  assumes "dv3_verdict pkt = Packet (length pkt)" and "pkt \<noteq> []" and "hd pkt = DobotV3Format_SOF1"
  shows "dv3_valid pkt \<and> dv3_packet_len pkt = length pkt \<and> dv3_len pkt \<le> 510"
  using assms
  by (auto simp: dv3_verdict_def dv3_valid_parts dv3_packet_len_def hd_conv_nth split: if_splits)

lemma dv3_encoded_found:
  assumes "15 + unat n \<le> length p"
  shows "dv3_verdict (dv3_encoded p n) = Packet (length (dv3_encoded p n))"
    and "hd (dv3_encoded p n) = DobotV3Format_SOF1"
proof -
  let ?e = "dv3_encoded p n"
  have l: "length ?e = unat n + 17" using assms by (rule dv3_encoded_length)
  have v: "dv3_valid ?e" "dv3_packet_len ?e = unat n + 17"
    using dv3_encoded_valid [OF assms, of ?e] l by simp_all
  have "unat n \<le> 510" using unat_u8_less [of n] by linarith
  then show "dv3_verdict ?e = Packet (length ?e)"
    using v l by (simp add: dv3_verdict_def dv3_valid_parts)
  have "?e \<noteq> []" using l by auto
  then show "hd ?e = DobotV3Format_SOF1" using v(1) by (simp add: hd_conv_nth dv3_valid_parts)
qed

section \<open>Recording functions and stream links\<close>

record 'w log_state = "'w frame_state" +
  log :: "bytes list"

definition recorder :: "'w log_state func_struct" where
  "recorder = \<lparr>PacketCallBack = Some (\<lambda>s. Some (s\<lparr>log := log s @
       [take (packetLength (pPacketParm s)) (pPacket (pPacketParm s))]\<rparr>)), Loop = None\<rparr>"

definition recorder_env :: "'w log_state frame_env" where
  "recorder_env = \<lparr>formats = (\<lambda>_. DobotV3Format), funcLists = (\<lambda>_. [Some recorder])\<rparr>"

text \<open>A link that reads from a stream, in pieces that its length argument and 255 limit.\<close>

definition stream_read :: "nat \<Rightarrow> nat \<Rightarrow> (nat \<Rightarrow> bytes) \<Rightarrow> bytes \<times> (nat \<Rightarrow> bytes)" where
  "stream_read p n w = (take (min n 255) (w p), w(p := drop (min n 255) (w p)))"

lemma stream_reads_input: "reads_input (\<lambda>p w. w p) p (stream_read p)"
  by (auto simp: reads_input_def stream_read_def)

lemma ErrCodeRead_errCode:
  assumes "length (pPacket pp) = DobotV3Format_PACKET_LENGTH"
  shows "\<exists>e. DobotV3Format_ErrCodeRead pp = Some (pp\<lparr>errCode := e\<rparr>)"
proof -
  have "\<exists>e. (if bit (pPacket pp ! 5) 6 then Some (pp\<lparr>errCode := le16 (pPacket pp ! 16) (pPacket pp ! 17)\<rparr>)
        else Some pp) = Some (pp\<lparr>errCode := e\<rparr>)"
    by (cases "bit (pPacket pp ! 5) 6") (auto intro: exI [of _ "errCode pp"])
  then show ?thesis
    using assms
    by (auto simp: DobotV3Format_ErrCodeRead_def pk_version_def pk_errflg_def pk_flag_def mem_safe)
qed

interpretation rec: frame_decoder DobotV3Format DobotV3Format_PACKET_LENGTH dv3_lower dv3_chk dv3_packet_len
  recorder_env "\<lambda>x s. log s = x" "\<lambda>p pkt x. x @ [pkt]" "\<lambda>p w. w p"
proof
  show "log s = x \<Longrightarrow> log (s\<lparr>links := ls, pPacketParm := pp, world := w\<rparr>) = x"
    for x and s :: "(nat \<Rightarrow> bytes) log_state" and ls pp w by simp
next
  fix f and pp :: packet_parm
  assume "ErrCodeRead DobotV3Format = Some f" "length (pPacket pp) = DobotV3Format_PACKET_LENGTH"
  then show "\<exists>e. f pp = Some (pp\<lparr>errCode := e\<rparr>)"
    using ErrCodeRead_errCode [of pp] by (auto simp: DobotV3Format_def)
next
  fix x p pkt and s :: "(nat \<Rightarrow> bytes) log_state"
  assume "log s = x" and o: "offered DobotV3Format_PACKET_LENGTH p pkt s"
  then show "\<exists>s'. FuncCallBack recorder_env s = Some s' \<and> log s' = x @ [pkt] \<and>
      frame_kept DobotV3Format_PACKET_LENGTH (\<lambda>p w. w p) s s'"
    by (auto simp: FuncCallBack_def offered_def get_link_Some recorder_env_def recorder_def
        frame_kept_def frame_same_def)
qed

text \<open>The scanner's laws for the Dobot format.\<close>

interpretation dv3_scanner: packet_scanner dv3_verdict DobotV3Format_SOF1
  using dv3.packet_scanner_axioms by (simp add: dv3_frame_verdict)

section \<open>Properties\<close>

abbreviation dv3_idle :: "'w link \<Rightarrow> bool" where
  "dv3_idle \<equiv> idle_inv DobotV3Format DobotV3Format_PACKET_LENGTH dv3_lower dv3_chk dv3_packet_len"

text \<open>A link of a frame with the Dobot format, between two calls, that reads from a stream.\<close>

definition stream_link :: "nat \<Rightarrow> (nat \<Rightarrow> bytes) log_state \<Rightarrow> bool" where
  "stream_link p s \<longleftrightarrow> p < length (links s) \<and> dv3_idle (links s ! p) \<and> enable (links s ! p) \<and>
     readData (links s ! p) = Some (stream_read p) \<and> pFormat (links s ! p) \<noteq> None \<and>
     pFuncList (links s ! p) \<noteq> None \<and> length (pPacket (pPacketParm s)) = DobotV3Format_PACKET_LENGTH"

lemma dv3_decode_spec:
  assumes "stream_link p s"
  shows "\<exists>s' pkts got. DecodeLinkPacket recorder_env p s = Some s' \<and> stream_link p s' \<and>
     timeCNT s' = timeCNT s \<and>
     (\<not> quiet_timeout s (links s ! p) \<longrightarrow> \<not> quiet_timeout s' (links s' ! p)) \<and>
     log s' = log s @ pkts \<and> (\<forall>pkt \<in> set pkts. dv3_valid pkt \<and> dv3_packet_len pkt = length pkt \<and> dv3_len pkt \<le> 510) \<and>
     world s p = got @ world s' p \<and>
     (in_time (\<lambda>p w. w p) p s (links s ! p) \<longrightarrow>
        (pkts, pending (links s' ! p)) = dv3_scan (pending (links s ! p) @ got) \<and>
        (msgWriteIndex (links s ! p) + length (world s p) \<le> DobotV3Format_PACKET_LENGTH \<longrightarrow> world s' p = []))"
proof -
  let ?l = "links s ! p"
  obtain fid where fid: "pFormat ?l = Some fid" using assms by (auto simp: stream_link_def)
  have ready: "link_ready (\<lambda>p w. w p) p ?l"
    using assms stream_reads_input by (auto simp: stream_link_def link_ready_def)
  have fl: "fold (\<lambda>pkt x. x @ [pkt]) pkts x = x @ pkts" for pkts and x :: "bytes list"
    by (induction pkts arbitrary: x) simp_all
  obtain s' where s': "DecodeLinkPacket recorder_env p s = Some s'" "rec.link_decoded p (log s) s s'"
    using rec.decode_link_ok [of p s fid "log s"] assms ready fid
    by (auto simp: stream_link_def recorder_env_def)
  obtain l' pkts got where d: "links s' = (links s)[p := l']" "dv3_idle l'"
      "link_conf l' = link_conf ?l" "log s' = fold (\<lambda>pkt x. x @ [pkt]) pkts (log s)"
      "frame_same DobotV3Format_PACKET_LENGTH s s'"
      "\<forall>pkt \<in> set pkts. dv3_verdict pkt = Packet (length pkt) \<and> pkt \<noteq> [] \<and> hd pkt = DobotV3Format_SOF1"
      "world s p = got @ world s' p"
      "\<not> quiet_timeout s ?l \<longrightarrow> \<not> quiet_timeout s' l'"
      "in_time (\<lambda>p w. w p) p s ?l \<longrightarrow> (pkts, pending l') = dv3_scan (pending ?l @ got) \<and>
        (msgWriteIndex ?l + length (world s p) \<le> DobotV3Format_PACKET_LENGTH \<longrightarrow> world s' p = [])"
    using s'(2) unfolding rec.link_decoded_def dv3_steps_length dv3_frame_verdict dv3_sof by blast
  have "stream_link p s'"
    using assms d(1,2,5) link_confD [OF d(3)] by (simp add: stream_link_def frame_same_def)
  moreover have "links s' ! p = l'" using assms d(1) by (simp add: stream_link_def)
  moreover have "timeCNT s' = timeCNT s" using d(5) by (simp add: frame_same_def)
  ultimately show ?thesis
    using s'(1) d(4,6,7,8,9) dv3_found by (intro exI [of _ s'] exI [of _ pkts] exI [of _ got]) (simp add: fl)
qed

text \<open>Input that fits the buffer, with nothing timed out: all of it is decoded.\<close>

lemma dv3_decode_all:
  assumes link: "stream_link p s" and it: "in_time (\<lambda>p w. w p) p s (links s ! p)"
    and fits: "msgWriteIndex (links s ! p) + length (world s p) \<le> DobotV3Format_PACKET_LENGTH"
  obtains s' pkts where "DecodeLinkPacket recorder_env p s = Some s'" "stream_link p s'"
    "log s' = log s @ pkts" "(pkts, pending (links s' ! p)) = dv3_scan (pending (links s ! p) @ world s p)"
    "world s' p = []" "\<not> quiet_timeout s (links s ! p) \<longrightarrow> \<not> quiet_timeout s' (links s' ! p)"
proof -
  obtain s' pkts got where s': "DecodeLinkPacket recorder_env p s = Some s'" "stream_link p s'"
      "\<not> quiet_timeout s (links s ! p) \<longrightarrow> \<not> quiet_timeout s' (links s' ! p)"
      "log s' = log s @ pkts" "world s p = got @ world s' p"
      "in_time (\<lambda>p w. w p) p s (links s ! p) \<longrightarrow>
        (pkts, pending (links s' ! p)) = dv3_scan (pending (links s ! p) @ got) \<and>
        (msgWriteIndex (links s ! p) + length (world s p) \<le> DobotV3Format_PACKET_LENGTH \<longrightarrow> world s' p = [])"
    using dv3_decode_spec [OF link] by blast
  have w: "world s' p = []" using s'(6) it fits by blast
  then have "got = world s p" using s'(5) by simp
  then have "(pkts, pending (links s' ! p)) = dv3_scan (pending (links s ! p) @ world s p)"
    using s'(6) it by blast
  then show thesis using that s'(1,2,3,4) w by blast
qed

text \<open>
  C2. \<open>DecodeLinkPacket\<close> on a link of the Dobot format always returns (the loops end), never
  accesses memory outside the buffers, and leaves the link ready for the next call. Every packet
  it hands to the functions begins with the preamble, passes all four checks, has the length its
  header says and carries at most 510 bytes of payload. What it takes from the link's input is a
  prefix of it, and unless the link has been silent for too long the packets and the bytes kept are
  exactly what the scanner finds in the bytes kept before and the bytes taken; input that fits the
  buffer is taken completely.
\<close>
theorem DecodeLinkPacket_implements_scan:
  assumes "stream_link p s"
  shows "\<exists>s' pkts got. DecodeLinkPacket recorder_env p s = Some s' \<and> stream_link p s' \<and>
     log s' = log s @ pkts \<and>
     (\<forall>pkt \<in> set pkts. dv3_valid pkt \<and> dv3_packet_len pkt = length pkt \<and> dv3_len pkt \<le> 510) \<and>
     world s p = got @ world s' p \<and>
     (in_time (\<lambda>p w. w p) p s (links s ! p) \<longrightarrow>
        (pkts, pending (links s' ! p)) = dv3_scan (pending (links s ! p) @ got) \<and>
        (msgWriteIndex (links s ! p) + length (world s p) \<le> DobotV3Format_PACKET_LENGTH \<longrightarrow> world s' p = []))"
  using dv3_decode_spec [OF assms] by blast

text \<open>A frame with one stream link as it is after its registration, with input waiting.\<close>

definition stream_start :: "bytes \<Rightarrow> (nat \<Rightarrow> bytes) log_state" where
  "stream_start inp =
     \<lparr>timeCNT = 0, links = [(ProtocolFrame_LINK_EXPORT 500 DobotV3Format_PACKET_LENGTH)
        \<lparr>readData := Some (stream_read 0), pFormat := Some 0, pFuncList := Some 0\<rparr>],
      pLinkList = [Some 0], linkNum = 1,
      pPacketParm = \<lparr>pLink = None, pPacket = replicate DobotV3Format_PACKET_LENGTH 0, packetLength = 0,
        errCode = 0, sendMark = False, exitCallPack = False, exitLoop = False\<rparr>,
      loopMark = (\<lambda>_ _. False), world = (\<lambda>_. inp), log = []\<rparr>"

lemma stream_link_start: "stream_link 0 (stream_start inp)"
  by (simp add: stream_link_def stream_start_def ProtocolFrame_LINK_EXPORT_def idle_inv_def parse_inv_def)

lemma start_simps [simp]:
  "msgWriteIndex (links (stream_start inp) ! 0) = 0" "pending (links (stream_start inp) ! 0) = []"
  "world (stream_start inp) p = inp" "log (stream_start inp) = []" "quiet_timeout (stream_start inp) (links (stream_start inp) ! 0) = False"
  by (simp_all add: stream_start_def ProtocolFrame_LINK_EXPORT_def pending_def quiet_timeout_def)

theorem DecodeLinkPacket_implements_scan_witness:
  "\<exists>s'. DecodeLinkPacket recorder_env 0 (stream_start [1, 0xAA, 2]) = Some s' \<and> stream_link 0 s' \<and> world s' 0 = []"
  using DecodeLinkPacket_implements_scan [OF stream_link_start [of "[1, 0xAA, 2]"]]
  by (auto simp: in_time_def)

lemma dv3_scan_encoded:
  assumes "\<forall>(p, n) \<in> set msgs. 15 + unat n \<le> length p"
  shows "dv3_scan (concat (map (\<lambda>(p, n). dv3_encoded p n) msgs) @ xs) =
     (map (\<lambda>(p, n). dv3_encoded p n) msgs @ fst (dv3_scan xs), snd (dv3_scan xs))"
  using assms
proof (induction msgs)
  case Nil
  then show ?case by simp
next
  case (Cons m msgs)
  obtain p n where m: "m = (p, n)" by (cases m)
  then have "15 + unat n \<le> length p" using Cons.prems by simp
  from dv3_scanner.scan_packet [OF dv3_encoded_found [OF this]] show ?case
    using Cons m by simp
qed

text \<open>
  C27. Packets written by \<open>DobotV3Format_PacketEncoder\<close> arrive: bytes without a preamble followed
  by any number of encoded packets, as far as they fit the buffer, make an idle link deliver
  exactly these packets, in order, once each, and leave nothing behind.
\<close>
theorem encoded_packets_delivered:
  assumes link: "stream_link p s" and idle: "msgWriteIndex (links s ! p) = 0"
    and inp: "world s p = g @ concat (map (\<lambda>(q, n). dv3_encoded q n) msgs)"
    and g: "DobotV3Format_SOF1 \<notin> set g"
    and msgs: "\<forall>(q, n) \<in> set msgs. 15 + unat n \<le> length q"
    and fits: "length (world s p) \<le> DobotV3Format_PACKET_LENGTH"
  shows "\<exists>s'. DecodeLinkPacket recorder_env p s = Some s' \<and>
           log s' = log s @ map (\<lambda>(q, n). dv3_encoded q n) msgs \<and>
           world s' p = [] \<and> pending (links s' ! p) = []"
proof -
  have it: "in_time (\<lambda>p w. w p) p s (links s ! p)" using idle by (simp add: in_time_def quiet_timeout_def)
  have pe: "pending (links s ! p) = []" using idle by (simp add: pending_def)
  have "msgWriteIndex (links s ! p) + length (world s p) \<le> DobotV3Format_PACKET_LENGTH"
    using idle fits by simp
  from dv3_decode_all [OF link it this]
  obtain s' pkts where s': "DecodeLinkPacket recorder_env p s = Some s'" "log s' = log s @ pkts"
      "(pkts, pending (links s' ! p)) = dv3_scan (world s p)" "world s' p = []"
    unfolding pe append_Nil by metis
  have "dv3_scan (world s p) = dv3_scan (concat (map (\<lambda>(q, n). dv3_encoded q n) msgs) @ [])"
    unfolding inp by (simp only: dv3_scanner.scan_garbage [OF g] append_Nil2)
  also have "\<dots> = (map (\<lambda>(q, n). dv3_encoded q n) msgs, [])"
    by (subst dv3_scan_encoded [OF msgs]) simp
  finally show ?thesis using s' by auto
qed

theorem encoded_packets_delivered_witness:
  "\<exists>s'. DecodeLinkPacket recorder_env 0 (stream_start ([1, 2] @ dv3_encoded (replicate 20 7) 3 @ dv3_encoded (replicate 15 9) 0)) = Some s' \<and>
        log s' = [dv3_encoded (replicate 20 7) 3, dv3_encoded (replicate 15 9) 0]"
  using encoded_packets_delivered [OF stream_link_start, of "[1, 2] @ dv3_encoded (replicate 20 7) 3 @ dv3_encoded (replicate 15 9) 0"
      "[1, 2]" "[(replicate 20 7, 3), (replicate 15 9, 0)]"]
  by (auto simp: dv3_encoded_length)

text \<open>
  C28. How the bytes are cut into reads does not matter: as long as nothing times out and the
  bytes fit the buffer, decoding what has arrived and then what arrives later delivers the same
  packets and keeps the same bytes as decoding everything at once.
\<close>
theorem decoding_in_pieces:
  assumes link: "stream_link p s" and it: "\<not> quiet_timeout s (links s ! p)"
    and fits: "msgWriteIndex (links s ! p) + length (world s p @ later) \<le> DobotV3Format_PACKET_LENGTH"
  shows "\<exists>s1. DecodeLinkPacket recorder_env p s = Some s1 \<and>
     (msgWriteIndex (links s1 ! p) + length later \<le> DobotV3Format_PACKET_LENGTH \<longrightarrow>
       (\<exists>s2 t. DecodeLinkPacket recorder_env p (s1\<lparr>world := (world s1)(p := later)\<rparr>) = Some s2 \<and>
           DecodeLinkPacket recorder_env p (s\<lparr>world := (world s)(p := world s p @ later)\<rparr>) = Some t \<and>
           log t = log s2 \<and> pending (links t ! p) = pending (links s2 ! p)))"
proof -
  let ?in = "\<lambda>p w. w p :: bytes"
  obtain s1 pk1 where s1: "DecodeLinkPacket recorder_env p s = Some s1" "stream_link p s1" "log s1 = log s @ pk1"
      "(pk1, pending (links s1 ! p)) = dv3_scan (pending (links s ! p) @ world s p)"
      "\<not> quiet_timeout s1 (links s1 ! p)"
  proof (rule dv3_decode_all [OF link])
    show "in_time ?in p s (links s ! p)" using it by (simp add: in_time_def)
    show "msgWriteIndex (links s ! p) + length (world s p) \<le> DobotV3Format_PACKET_LENGTH"
      using fits by simp
  qed (use it that in blast)
  let ?u = "s1\<lparr>world := (world s1)(p := later)\<rparr>" and ?v = "s\<lparr>world := (world s)(p := world s p @ later)\<rparr>"
  have u: "stream_link p ?u" "in_time ?in p ?u (links ?u ! p)"
    using s1(2,5) by (simp_all add: stream_link_def in_time_def quiet_timeout_def IsTimeOut_def)
  have v: "stream_link p ?v" "in_time ?in p ?v (links ?v ! p)"
    using link it by (simp_all add: stream_link_def in_time_def quiet_timeout_def IsTimeOut_def)
  obtain t pk where t: "DecodeLinkPacket recorder_env p ?v = Some t" "log t = log s @ pk"
      "(pk, pending (links t ! p)) = dv3_scan (pending (links s ! p) @ world s p @ later)"
  proof (rule dv3_decode_all [OF v])
    show "msgWriteIndex (links ?v ! p) + length (world ?v p) \<le> DobotV3Format_PACKET_LENGTH"
      using fits by simp
  qed (use that in simp)
  have "\<exists>s2. DecodeLinkPacket recorder_env p ?u = Some s2 \<and> log t = log s2 \<and>
      pending (links t ! p) = pending (links s2 ! p)"
    if fits1: "msgWriteIndex (links s1 ! p) + length later \<le> DobotV3Format_PACKET_LENGTH"
  proof -
    obtain s2 pk2 where s2: "DecodeLinkPacket recorder_env p ?u = Some s2" "log s2 = log s1 @ pk2"
        "(pk2, pending (links s2 ! p)) = dv3_scan (pending (links s1 ! p) @ later)"
    proof (rule dv3_decode_all [OF u])
      show "msgWriteIndex (links ?u ! p) + length (world ?u p) \<le> DobotV3Format_PACKET_LENGTH"
        using fits1 by simp
    qed (use that in simp)
    have "pk = pk1 @ pk2 \<and> pending (links t ! p) = pending (links s2 ! p)"
      using t(3) s2(3) s1(4) dv3_scanner.scan_append [of "pending (links s ! p) @ world s p" later]
      by (metis append.assoc fst_conv snd_conv)
    then show ?thesis using s2(1,2) s1(3) t(2) by auto
  qed
  then show ?thesis using s1(1) t(1) by blast
qed

theorem decoding_in_pieces_witness:
  "\<exists>s1. DecodeLinkPacket recorder_env 0 (stream_start [1, 0xAA]) = Some s1 \<and>
     (msgWriteIndex (links s1 ! 0) + length [0xBB :: u8] \<le> DobotV3Format_PACKET_LENGTH \<longrightarrow>
       (\<exists>s2. DecodeLinkPacket recorder_env 0 (s1\<lparr>world := (world s1)(0 := [0xBB])\<rparr>) = Some s2))"
  using decoding_in_pieces [OF stream_link_start, of "[1, 0xAA]" "[0xBB]"] by auto

text \<open>
  One round of decoding over all registered links of a frame always returns without touching
  memory outside the buffers, and leaves every registered link ready for the next round, whether
  it is enabled or not and whatever its input holds.
\<close>
theorem DeLinkDecode_total:
  assumes "decoder_ready recorder_env (\<lambda>p w. w p) DobotV3Format DobotV3Format_PACKET_LENGTH
             dv3_lower dv3_chk dv3_packet_len s"
  shows "\<exists>s'. DeLinkDecode recorder_env s = Some s' \<and> timeCNT s' = timeCNT s \<and> pLinkList s' = pLinkList s \<and>
           decoder_ready recorder_env (\<lambda>p w. w p) DobotV3Format DobotV3Format_PACKET_LENGTH
             dv3_lower dv3_chk dv3_packet_len s'"
  using rec.DeLinkDecode_ready [OF assms refl] by (auto simp: frame_same_def)

theorem DeLinkDecode_total_witness:
  "\<exists>s'. DeLinkDecode recorder_env (stream_start [1, 2, 0xAA]) = Some s' \<and> timeCNT s' = 0"
proof -
  have "decoder_ready recorder_env (\<lambda>p w. w p) DobotV3Format DobotV3Format_PACKET_LENGTH
             dv3_lower dv3_chk dv3_packet_len (stream_start [1, 2, 0xAA])"
    using stream_reads_input [of 0]
    by (auto simp: decoder_ready_def stream_start_def registered_def idle_inv_def parse_inv_def
        link_ready_def recorder_env_def ProtocolFrame_LINK_EXPORT_def)
  from DeLinkDecode_total [OF this] show ?thesis by (auto simp: stream_start_def)
qed

end
