(* ===== verification/CmdFrame.thy ===== *)
theory CmdFrame imports CmdLoop DobotDecode begin

text \<open>
  The command table as the function of a frame: the function list of \<open>DobotV3Func.c\<close>, that the
  table keeps the contract of the decoder's functions, and that \<open>Exec\<close>, decoding and loops
  together, always returns.
\<close>

section \<open>The function list\<close>

text \<open>The function structure that \<open>DobotV3CmdInter_EXPORT\<close> declares, and \<open>DobotV3FuncList\<close>.\<close>

definition DobotV3CmdInter_func :: "'w cmd_state func_struct" where
  "DobotV3CmdInter_func = \<lparr>PacketCallBack = Some DobotV3CmdInter_PacketCallBack, Loop = Some DobotV3CmdInter_Loop\<rparr>"

definition DobotV3FuncList :: "'w cmd_state func_struct option list" where
  "DobotV3FuncList = [Some DobotV3CmdInter_func]"

definition cmd_env :: "'w cmd_state frame_env" where
  "cmd_env = \<lparr>formats = (\<lambda>_. DobotV3Format), funcLists = (\<lambda>_. DobotV3FuncList)\<rparr>"

lemma cmd_env_simps [simp]:
  "formats cmd_env f = DobotV3Format" "funcLists cmd_env f = DobotV3FuncList"
  by (simp_all add: cmd_env_def)

section \<open>The contract of the decoder\<close>

text \<open>
  The table satisfies its invariant and has \<open>n\<close> slots of \<open>k\<close> bytes, and what it has still to
  send goes to the links \<open>X\<close>.
\<close>

definition table_to :: "(nat \<Rightarrow> 'w \<Rightarrow> bytes) \<Rightarrow> nat option set \<times> nat \<times> nat \<Rightarrow> 'w cmd_state \<Rightarrow> bool" where
  "table_to input = (\<lambda>(X, n, k) s. cmd_ok input s \<and> packetListSize s = n \<and> packetSize s = k \<and>
     (\<forall>sl \<in> set (pPacketParmList s). slotSend sl \<longrightarrow> slotLink sl \<in> X))"

lemma dv3_Packet_length: "dv3_verdict pkt = Packet (length pkt) \<Longrightarrow> 17 \<le> length pkt"
  by (auto simp: dv3_verdict_def dv3_packet_len_def split: if_splits)

lemma answered_slot_link:
  "slotSend (answered_slot c n sl) \<Longrightarrow> slotSend sl \<and> slotLink (answered_slot c n sl) = slotLink sl"
  by (auto simp: answered_slot_def ClearPkgParm_def Let_def split: if_splits)

lemma answered_packetSize: "packetSize (answered i s) = packetSize s"
  by (simp add: answered_def Let_def split: option.split)

lemma answered_table_to:
  assumes t: "table_to input (X, n, k) s" and pk: "packet_offered s" and i: "i < packetListSize s" "waits_for s i"
  shows "table_to input (X, n, k) (answered i s)"
proof -
  have "slotSend (pPacketParmList s ! i) \<longrightarrow> slotLink (pPacketParmList s ! i) \<in> X"
    using t i by (simp add: table_to_def)
  then show ?thesis
    using t answered_ok(1) [OF _ pk i]
    by (auto simp: table_to_def answered_frame answered_packetSize dest: answered_slot_link
        dest!: set_update_subset_insert [THEN subsetD])
qed

lemma cmd_calls:
  fixes s :: "'w cmd_state"
  assumes t: "table_to input x s" and o: "offered DobotV3Format_PACKET_LENGTH p pkt s"
    and v: "frame_verdict (length (pStepList DobotV3Format)) DobotV3Format_PACKET_LENGTH dv3_lower dv3_chk
              dv3_packet_len pkt = Packet (length pkt)"
  shows "\<exists>s'. FuncCallBack cmd_env s = Some s' \<and> table_to input x s' \<and>
           frame_kept DobotV3Format_PACKET_LENGTH input s s'"
proof -
  obtain X n k where x: "x = (X, n, k)" by (cases x)
  have ok: "cmd_ok input s" using t by (simp add: table_to_def x)
  have "17 \<le> length pkt" using v dv3_Packet_length by (simp add: dv3_frame_verdict)
  then have pk: "packet_offered s" using o by (auto simp: packet_offered_def offered_def)
  have call: "FuncCallBack cmd_env s =
     (case DobotV3CmdInter_PacketCallBack s of None \<Rightarrow> None
      | Some s' \<Rightarrow> if sendMark (pPacketParm s') then do { s \<leftarrow> send_error_code cmd_env s'; s \<leftarrow> send_packet s; Some s }
                  else Some s')"
    using o by (auto simp: FuncCallBack_def offered_def get_link_Some DobotV3FuncList_def DobotV3CmdInter_func_def
        split: option.split bind_splits)
  show ?thesis
  proof (cases "find (waits_for s) [0..<packetListSize s]")
    case None
    then show ?thesis
      using call PacketCallBack_eq [OF ok pk] o t by (simp add: offered_def frame_kept_def frame_same_def)
  next
    case (Some i)
    then have i: "i < packetListSize s" "waits_for s i" by (simp_all add: find_upt_Some)
    have "FuncCallBack cmd_env s = Some (answered i s)"
      using call PacketCallBack_eq [OF ok pk] Some o by (simp add: offered_def answered_frame)
    moreover have "frame_kept DobotV3Format_PACKET_LENGTH input s (answered i s)"
      using o answered_ok(2) [OF ok pk i] by (simp add: frame_kept_def frame_same_def offered_def answered_frame)
    ultimately show ?thesis using answered_table_to [OF t [unfolded x] pk i] x by blast
  qed
qed

interpretation cmd: frame_decoder DobotV3Format DobotV3Format_PACKET_LENGTH dv3_lower dv3_chk dv3_packet_len
  cmd_env "\<lambda>x s. table_to input x s" "\<lambda>p pkt x. x" input
  for input :: "nat \<Rightarrow> 'w \<Rightarrow> bytes"
proof
  show "table_to input x s \<Longrightarrow> table_to input x (s\<lparr>links := ls, pPacketParm := pp, world := w\<rparr>)"
    for x and s :: "'w cmd_state" and ls pp w
    by (cases x) (simp add: table_to_def cmd_ok_frame)
next
  fix f and pp :: packet_parm
  assume "ErrCodeRead DobotV3Format = Some f" "length (pPacket pp) = DobotV3Format_PACKET_LENGTH"
  then show "\<exists>e. f pp = Some (pp\<lparr>errCode := e\<rparr>)"
    using ErrCodeRead_errCode [of pp] by (auto simp: DobotV3Format_def)
qed (rule cmd_calls)

section \<open>The loops of the functions\<close>

text \<open>What the loops need of a frame: a registry without a hole in front, and a packet buffer.\<close>

definition loops_ready :: "'w cmd_state \<Rightarrow> bool" where
  "loops_ready s \<longleftrightarrow> registry_ok s \<and> (\<forall>k < linkNum s. pLinkList s ! k \<noteq> None) \<and>
     length (pPacket (pPacketParm s)) = DobotV3Format_PACKET_LENGTH \<and> slot_links_ok s"

text \<open>What stays the same: everything but the table, the marks, the packet and the environment.\<close>

definition frame_loops :: "'w cmd_state \<Rightarrow> 'w cmd_state \<Rightarrow> bool" where
  "frame_loops s s' \<longleftrightarrow> timeCNT s' = timeCNT s \<and> pLinkList s' = pLinkList s \<and> linkNum s' = linkNum s \<and>
     links s' = links s \<and> packetListSize s' = packetListSize s \<and> packetSize s' = packetSize s \<and>
     length (pPacket (pPacketParm s')) = DobotV3Format_PACKET_LENGTH"

lemma frame_loops_trans: "frame_loops s t \<Longrightarrow> frame_loops t u \<Longrightarrow> frame_loops s u"
  by (simp add: frame_loops_def)

lemma registry_ok_same:
  "pLinkList t = pLinkList s \<Longrightarrow> linkNum t = linkNum s \<Longrightarrow> links t = links s \<Longrightarrow> registry_ok t = registry_ok s"
  by (simp only: registry_ok_def)

lemma loops_ready_mark:
  "loops_ready (s\<lparr>loopMark := m\<rparr>) = loops_ready s" "frame_loops s (t\<lparr>loopMark := m\<rparr>) = frame_loops s t"
  using registry_ok_same [of "s\<lparr>loopMark := m\<rparr>" s]
  by (simp_all add: loops_ready_def frame_loops_def slot_links_ok_def)

lemma FuncMarkClear_ok:
  assumes r: "loops_ready s"
  shows "\<exists>m. FuncMarkClear s = Some (s\<lparr>loopMark := m\<rparr>)"
proof -
  have ok: "registry_ok s" and front: "\<forall>k < linkNum s. pLinkList s ! k \<noteq> None"
    using r by (simp_all add: loops_ready_def)
  let ?I = "\<lambda>t. \<exists>m. t = s\<lparr>loopMark := m\<rparr>"
  have "\<exists>s'. FuncMarkClear s = Some s' \<and> ?I s'"
    unfolding FuncMarkClear_def
  proof (rule foldM_inv)
    have "s = s\<lparr>loopMark := loopMark s\<rparr>" by simp
    then show "?I s" by blast
  next
    fix k t assume k: "k \<in> set [0..<linkNum s]" and "?I t"
    then obtain m where t: "t = s\<lparr>loopMark := m\<rparr>" by blast
    obtain p where p: "pLinkList s ! k = Some p" using front k by auto
    have len: "k < linkMaxNum s" using k linkNum_bound [OF ok] by simp
    then have "registered s p" using p by (metis nth_mem registered_def)
    note d = registry_okD(4) [OF ok this]
    then obtain fl where "pFuncList (links s ! p) = Some fl" by blast
    then show "\<exists>s'. (if linkMaxNum t \<le> k then None else do {
       p \<leftarrow> pLinkList t ! k;
       l \<leftarrow> get_link p t;
       fl \<leftarrow> pFuncList l;
       Some (t\<lparr>loopMark := (loopMark t)(fl := (\<lambda>_. False))\<rparr>) }) = Some s' \<and> ?I s'"
      using t p d len by (auto simp: get_link_Some)
  qed
  then show ?thesis by blast
qed

text \<open>One run of \<open>FuncLoop\<close>.\<close>

lemma FuncLoop_ok:
  fixes s :: "'w cmd_state"
  assumes ok: "cmd_ok input s" and r: "loops_ready s"
  shows "\<exists>s'. FuncLoop cmd_env s = Some s' \<and> cmd_ok input s' \<and> loops_ready s' \<and> frame_loops s s'"
proof -
  let ?I = "\<lambda>t. cmd_ok input t \<and> loops_ready t \<and> frame_loops s t"
  obtain m where m: "FuncMarkClear s = Some (s\<lparr>loopMark := m\<rparr>)" using FuncMarkClear_ok [OF r] by blast
  let ?s1 = "s\<lparr>loopMark := m\<rparr>"
  have I1: "?I ?s1"
    using ok r by (simp add: cmd_ok_frame loops_ready_mark) (simp add: frame_loops_def loops_ready_def)
  have mark: "?I (mark_loop fl i t)" if "?I t" for fl i t
    using that by (simp add: cmd_ok_frame loops_ready_mark mark_loop_def)
  have run: "\<exists>t'. run_loop cmd_env p DobotV3CmdInter_Loop t = Some t' \<and> ?I t'" if t: "?I t" and p: "p < length (links t)" for p t
  proof -
    obtain t' where t': "run_loop cmd_env p DobotV3CmdInter_Loop t = Some t'" "cmd_ok input t'" "slot_links_ok t'" "loop_kept t t'"
      using run_loop_cmd [of input t p cmd_env] t p by (auto simp: loops_ready_def)
    then have "loops_ready t'"
      using t registry_ok_same [of t' t] by (simp add: loops_ready_def loop_kept_def)
    moreover have "frame_loops s t'"
      using t t'(4) by (simp add: frame_loops_def loop_kept_def)
    ultimately show ?thesis using t' by blast
  qed
  have "\<exists>s'. foldM (\<lambda>cir1 s.
       case pLinkList s ! cir1 of
         None \<Rightarrow> Some s
       | Some p \<Rightarrow> do {
           l \<leftarrow> get_link p s;
           fl \<leftarrow> pFuncList l;
           foldM (\<lambda>cir2 s.
             case funcLists cmd_env fl ! cir2 of
               None \<Rightarrow> Some s
             | Some f \<Rightarrow>
                 if loopMark s fl cir2 then Some s
                 else (case Loop f of
                     None \<Rightarrow> Some (mark_loop fl cir2 s)
                   | Some g \<Rightarrow> do {
                       s \<leftarrow> run_loop cmd_env p g s;
                       Some (if exitLoop (pPacketParm s) then mark_loop fl cir2 s else s) }))
             [0..<length (funcLists cmd_env fl)] s })
     [0..<linkMaxNum ?s1] ?s1 = Some s' \<and> ?I s'"
  proof (rule foldM_inv)
    show "?I ?s1" by (rule I1)
    fix k t assume k: "k \<in> set [0..<linkMaxNum ?s1]" and t: "?I t"
    show "\<exists>s'. (case pLinkList t ! k of
         None \<Rightarrow> Some t
       | Some p \<Rightarrow> do {
           l \<leftarrow> get_link p t;
           fl \<leftarrow> pFuncList l;
           foldM (\<lambda>cir2 s.
             case funcLists cmd_env fl ! cir2 of
               None \<Rightarrow> Some s
             | Some f \<Rightarrow>
                 if loopMark s fl cir2 then Some s
                 else (case Loop f of
                     None \<Rightarrow> Some (mark_loop fl cir2 s)
                   | Some g \<Rightarrow> do {
                       s \<leftarrow> run_loop cmd_env p g s;
                       Some (if exitLoop (pPacketParm s) then mark_loop fl cir2 s else s) }))
             [0..<length (funcLists cmd_env fl)] t }) = Some s' \<and> ?I s'"
    proof (cases "pLinkList t ! k")
      case None
      then show ?thesis using t by simp
    next
      case (Some p)
      have "k < linkMaxNum t" using k t by (simp add: frame_loops_def)
      then have "registered t p" using Some by (metis nth_mem registered_def)
      moreover have "registry_ok t" using t by (simp add: loops_ready_def)
      ultimately have d: "p < length (links t)" "pFuncList (links t ! p) \<noteq> None"
        using registry_okD(4) by blast+
      then obtain fl where fl: "pFuncList (links t ! p) = Some fl" by blast
      obtain t' where t': "run_loop cmd_env p DobotV3CmdInter_Loop t = Some t'" "?I t'"
        using run [OF t d(1)] by blast
      show ?thesis
        using Some d fl t t' mark [of t'] by (simp add: get_link_Some DobotV3FuncList_def DobotV3CmdInter_func_def)
    qed
  qed
  then show ?thesis using m by (simp add: FuncLoop_def)
qed

section \<open>A round of the frame\<close>

abbreviation cmd_ready :: "(nat \<Rightarrow> 'w \<Rightarrow> bytes) \<Rightarrow> 'w cmd_state \<Rightarrow> bool" where
  "cmd_ready input \<equiv> decoder_ready cmd_env input DobotV3Format DobotV3Format_PACKET_LENGTH dv3_lower dv3_chk dv3_packet_len"

text \<open>The invariant of the whole: the command table, the registry, the links.\<close>

definition system_ok :: "(nat \<Rightarrow> 'w \<Rightarrow> bytes) \<Rightarrow> 'w cmd_state \<Rightarrow> bool" where
  "system_ok input s \<longleftrightarrow> cmd_ok input s \<and> loops_ready s \<and> cmd_ready input s"

lemma fold_keep: "fold (\<lambda>(p, pkt) x. x) evs x = x"
  by (induction evs) auto

lemma same_conf_links:
  assumes "same_conf s t"
  shows "length (links t) = length (links s)"
    "q < length (links s) \<Longrightarrow> link_conf (links t ! q) = link_conf (links s ! q)"
    "sendable (links t) = sendable (links s)"
proof -
  show l: "length (links t) = length (links s)" using assms by (rule map_eq_imp_length_eq)
  show c: "link_conf (links t ! q) = link_conf (links s ! q)" if "q < length (links s)" for q
    using arg_cong [OF assms, of "\<lambda>xs. xs ! q"] that l by simp
  show "sendable (links t) = sendable (links s)"
    using l link_confD(4) [OF c] by (intro ext) (auto simp: sendable_def)
qed

lemma registry_ok_conf:
  assumes ok: "registry_ok s" and "same_conf s t" and "pLinkList t = pLinkList s" and "linkNum t = linkNum s"
  shows "registry_ok t"
proof (rule registry_okI)
  note c = same_conf_links [OF assms(2)]
  show "linkMaxNum t < 256" "linkNum t = length (filter (\<lambda>q. q \<noteq> None) (pLinkList t))"
    using registry_okD(1,2) [OF ok] assms(3,4) by simp_all
  show "i = j" if "i < linkMaxNum t" "j < linkMaxNum t" "pLinkList t ! i = Some p" "pLinkList t ! j = Some p" for i j p
    using registry_okD(3) [OF ok, of i j p] that assms(3) by simp
  show "p < length (links t) \<and> pFormat (links t ! p) \<noteq> None \<and> pFuncList (links t ! p) \<noteq> None" if "registered t p" for p
  proof -
    have "registered s p" using that assms(3) by (simp add: registered_def)
    note d = registry_okD(4) [OF ok this]
    then have "link_conf (links t ! p) = link_conf (links s ! p)" using c(2) by blast
    from link_confD(6,7) [OF this] show ?thesis using d c(1) by simp
  qed
qed

lemma Exec_ok:
  fixes s :: "'w cmd_state"
  assumes "system_ok input s"
  shows "\<exists>s'. Exec cmd_env s = Some s' \<and> system_ok input s' \<and> timeCNT s' = timeCNT s \<and>
     pLinkList s' = pLinkList s \<and> linkNum s' = linkNum s \<and> same_conf s s' \<and>
     packetListSize s' = packetListSize s \<and> packetSize s' = packetSize s \<and>
     (\<forall>q. \<not> registered s q \<longrightarrow> links s' ! q = links s ! q)"
proof -
  have ok: "cmd_ok input s" "loops_ready s" "cmd_ready input s" using assms by (simp_all add: system_ok_def)
  let ?X = "({lk. sendable (links s) lk}, packetListSize s, packetSize s)"
  have "table_to input ?X s" using ok by (simp add: table_to_def loops_ready_def slot_links_ok_def)
  from cmd.DeLinkDecode_ready [OF ok(3) this] obtain s1 where s1: "DeLinkDecode cmd_env s = Some s1"
      "cmd_ready input s1" "table_to input ?X s1" "frame_same DobotV3Format_PACKET_LENGTH s s1" "same_conf s s1"
      "\<forall>q. \<not> registered s q \<longrightarrow> links s1 ! q = links s ! q"
    by (auto simp: fold_keep)
  have "registry_ok s1"
    using registry_ok_conf [OF _ s1(5)] ok(2) s1(4) by (simp add: loops_ready_def frame_same_def)
  then have "cmd_ok input s1" "loops_ready s1"
    using ok(2) s1(3,4) same_conf_links(3) [OF s1(5)]
    by (simp_all add: loops_ready_def table_to_def slot_links_ok_def frame_same_def)
  from FuncLoop_ok [OF this] obtain s2 where s2: "FuncLoop cmd_env s1 = Some s2" "cmd_ok input s2"
      "loops_ready s2" "frame_loops s1 s2" by blast
  have "cmd_ready input s2"
    using s1(2) s2(4) by (simp only: decoder_ready_def frame_loops_def registered_def) blast
  then show ?thesis
    using s1 s2 by (auto simp: Exec_def system_ok_def frame_loops_def frame_same_def table_to_def)
qed

end
