(* ===== verification/ProtoRegistry.thy ===== *)
theory ProtoRegistry imports ProtoFrame begin

text \<open>
  The life of a link in the registry of a frame: connecting and disconnecting keep
  \<open>registry_ok\<close>, are defined on every state that satisfies it, and undo one another; enabling
  one link only is right exactly as long as the registry has no hole.
\<close>

lemma set_update_entry:
  assumes i: "i < length xs" and old: "xs ! i = None \<or> xs ! i = Some p"
  shows "Some q \<in> set (xs[i := Some p]) \<longleftrightarrow> q = p \<or> Some q \<in> set xs"
proof
  show "Some q \<in> set (xs[i := Some p]) \<Longrightarrow> q = p \<or> Some q \<in> set xs"
    using set_update_subset_insert [of xs i "Some p"] by auto
next
  assume "q = p \<or> Some q \<in> set xs"
  then show "Some q \<in> set (xs[i := Some p])"
  proof
    assume "q = p"
    then show ?thesis using i by (simp add: set_update_memI)
  next
    assume "Some q \<in> set xs"
    then obtain j where j: "j < length xs" "xs ! j = Some q" by (auto simp: in_set_conv_nth)
    then have "xs[i := Some p] ! j = Some q" using i old by (auto simp: nth_list_update)
    then show ?thesis using j by (metis length_list_update nth_mem)
  qed
qed

text \<open>An entry that gets a new link, or its own link again, keeps the registry well formed.\<close>

lemma registry_ok_enter:
  assumes ok: "registry_ok s" and p: "p < length (links s)" and i: "i < linkMaxNum s"
    and old: "pLinkList s ! i = None \<and> \<not> registered s p \<or> pLinkList s ! i = Some p"
    and num: "n = (if pLinkList s ! i = None then linkNum s + 1 else linkNum s)"
  shows "registry_ok (s\<lparr>links := (links s)[p := fresh_link fmt fl (links s ! p)],
                       pLinkList := (pLinkList s)[i := Some p], linkNum := n\<rparr>)"
proof (rule registry_okI, goal_cases)
  case 1
  show ?case using registry_okD(1) [OF ok] by simp
next
  case 2
  show ?case
    using filter_update [OF i, of "\<lambda>q. q \<noteq> None" "Some p"] num registry_okD(2) [OF ok]
    by (cases "pLinkList s ! i") auto
next
  case (3 j k q)
  have inj: "j = k" if "j < linkMaxNum s" "k < linkMaxNum s" "pLinkList s ! j = Some q"
    "pLinkList s ! k = Some q" for j k q using registry_okD(3) [OF ok that] .
  have uniq: "j = i" if "j < linkMaxNum s" "pLinkList s ! j = Some p" for j
    using old that inj [of j i p] i by (auto simp: registered_def in_set_conv_nth)
  have b: "j < linkMaxNum s" "k < linkMaxNum s" using 3 by simp_all
  have e: "(pLinkList s)[i := Some p] ! j = Some q" "(pLinkList s)[i := Some p] ! k = Some q"
    using 3 by simp_all
  show ?case
  proof (cases "q = p")
    case True
    have "m = i" if "m < linkMaxNum s" "(pLinkList s)[i := Some p] ! m = Some p" for m
      using that uniq by (metis nth_list_update_neq)
    then show ?thesis using b e True by blast
  next
    case False
    then have "j \<noteq> i" "k \<noteq> i" using e i by auto
    then show ?thesis using e inj [OF b] by simp
  qed
next
  case (4 q)
  then have "Some q \<in> set ((pLinkList s)[i := Some p])" by (simp add: registered_def)
  moreover have "pLinkList s ! i = None \<or> pLinkList s ! i = Some p" using old by blast
  ultimately have "q = p \<or> registered s q" using set_update_entry [OF i] by (simp add: registered_def)
  then show ?case
  proof
    assume "q = p"
    then show ?thesis using p by (simp add: fresh_link_def)
  next
    assume "registered s q"
    then show ?thesis
      using registry_okD(4) [OF ok, of q] p by (cases "q = p") (simp_all add: fresh_link_def)
  qed
qed

text \<open>What connecting a link does, in terms of the registry.\<close>

lemma ConnectFLFF_spec:
  assumes ok: "registry_ok s" and p: "p < length (links s)"
  shows "\<exists>s' r. ConnectFLFF p fmt fl s = Some (s', r) \<and> registry_ok s' \<and>
           (r \<longleftrightarrow> registered s p \<or> linkNum s < linkMaxNum s) \<and>
           (\<not> r \<longrightarrow> s' = s) \<and>
           (r \<longrightarrow> registered s' p \<and> links s' = (links s)[p := fresh_link fmt fl (links s ! p)] \<and>
                  (\<forall>q. q \<noteq> p \<longrightarrow> registered s' q = registered s q))"
proof (cases "GetLinkInFrame s p")
  case (Some i)
  note i = GetLinkInFrame_Some [OF Some]
  have "(pLinkList s)[i := Some p] = pLinkList s" using i by (metis list_update_id)
  then show ?thesis
    using i Some p registry_ok_enter [OF ok p, of i "linkNum s" fmt fl]
    by (auto simp: ConnectFLFF_eq registered_def)
next
  case None
  then have np: "\<not> registered s p" by (simp add: GetLinkInFrame_None)
  show ?thesis
  proof (cases "GetNullLinkInFrame s")
    case full: None
    then have "\<not> linkNum s < linkMaxNum s"
      using free_entry [OF ok] by (simp only: GetNullLinkInFrame_None) simp
    then show ?thesis
      using None full np p ok by (intro exI [of _ s] exI [of _ False]) (simp add: ConnectFLFF_eq)
  next
    case (Some i)
    note i = GetNullLinkInFrame_Some [OF Some]
    have room: "linkNum s < linkMaxNum s"
      using i free_entry [OF ok] by (metis nth_mem)
    have u: "u8n (linkNum s + 1) = linkNum s + 1"
      using room registry_okD(1) [OF ok] by simp
    have reg: "Some q \<in> set ((pLinkList s)[i := Some p]) \<longleftrightarrow> q = p \<or> registered s q" for q
      using i by (simp add: registered_def set_update_entry)
    show ?thesis
      using registry_ok_enter [OF ok p, of i "linkNum s + 1" fmt fl] i np None Some p room u reg
      by (auto simp: ConnectFLFF_eq registered_def)
  qed
qed

text \<open>
  \<open>ConnectFLFF\<close> on a well-formed registry: it never touches memory it does not own, keeps
  the registry well formed, and succeeds exactly when the link is registered already or there is
  room. On success the link is registered with an empty parser and message buffer and the given
  format and functions, and no other link or registration changes; on failure nothing changes.
\<close>
theorem ConnectFLFF_correct:
  assumes "registry_ok s" and "p < length (links s)"
  shows "\<exists>s' r. ConnectFLFF p fmt fl s = Some (s', r) \<and> registry_ok s' \<and>
           (r \<longleftrightarrow> registered s p \<or> linkNum s < linkMaxNum s) \<and>
           (\<not> r \<longrightarrow> s' = s) \<and>
           (r \<longrightarrow> registered s' p \<and> links s' = (links s)[p := fresh_link fmt fl (links s ! p)] \<and>
                  (\<forall>q. q \<noteq> p \<longrightarrow> registered s' q = registered s q))"
  using assms by (rule ConnectFLFF_spec)

text \<open>The state of a frame over declared link structures, as it is at the start.\<close>

lemma registry_ok_initial:
  "n < 256 \<Longrightarrow> registry_ok (ProtocolFrame_FRAME_EXPORT sz n ls w)"
  by (rule registry_okI) (auto simp: ProtocolFrame_FRAME_EXPORT_def registered_def)

theorem ConnectFLFF_correct_witness:
  "\<exists>s'. ConnectFLFF 0 1 2 (ProtocolFrame_FRAME_EXPORT 4 2 [ProtocolFrame_LINK_EXPORT 500 4] ()) =
          Some (s', True) \<and> registry_ok s' \<and> registered s' 0"
  using ConnectFLFF_correct [of "ProtocolFrame_FRAME_EXPORT 4 2 [ProtocolFrame_LINK_EXPORT 500 4] ()" 0 1 2]
    registry_ok_initial [of 2 4 "[ProtocolFrame_LINK_EXPORT 500 4]" "()"]
  by (auto simp: ProtocolFrame_FRAME_EXPORT_def)

section \<open>Disconnecting\<close>

definition disconnect_matches :: "nat option \<Rightarrow> nat option \<Rightarrow> 'w link \<Rightarrow> bool" where
  "disconnect_matches fmt fl l \<longleftrightarrow>
     (fmt = None \<or> pFormat l = fmt) \<and> (fl = None \<or> pFuncList l = fl)"

lemma set_update_None:
  assumes "i < length xs" and "xs ! i = Some p"
    and "\<And>j k q. j < length xs \<Longrightarrow> k < length xs \<Longrightarrow> xs ! j = Some q \<Longrightarrow> xs ! k = Some q \<Longrightarrow> j = k"
  shows "Some q \<in> set (xs[i := None]) \<longleftrightarrow> q \<noteq> p \<and> Some q \<in> set xs"
proof
  assume "Some q \<in> set (xs[i := None])"
  then obtain j where j: "j < length xs" "xs[i := None] ! j = Some q"
    by (auto simp: in_set_conv_nth)
  then have "j \<noteq> i" by auto
  then have ji: "j \<noteq> i" "xs ! j = Some q" using j by simp_all
  then have "q \<noteq> p" using assms(3) [of j i p] assms(1,2) j by blast
  then show "q \<noteq> p \<and> Some q \<in> set xs" using ji j by (metis nth_mem)
next
  assume q: "q \<noteq> p \<and> Some q \<in> set xs"
  then obtain j where j: "j < length xs" "xs ! j = Some q" by (auto simp: in_set_conv_nth)
  then have "j \<noteq> i" using q assms(2) by auto
  then have "xs[i := None] ! j = Some q" using j by simp
  then show "Some q \<in> set (xs[i := None])" using j by (metis length_list_update nth_mem)
qed

lemma registered_index:
  assumes "registry_ok s" and "registered s p"
  obtains i where "GetLinkInFrame s p = Some i" "i < linkMaxNum s" "pLinkList s ! i = Some p"
  using assms(2) GetLinkInFrame_None [of s p] GetLinkInFrame_Some [of s p]
  by (cases "GetLinkInFrame s p") auto

lemma DisConnectFLFF_eq:
  assumes "p < length (links s)"
  shows "DisConnectFLFF p fmt fl s = Some
     (case GetLinkInFrame s p of
        None \<Rightarrow> (s, False)
      | Some i \<Rightarrow>
          if disconnect_matches fmt fl (links s ! p)
          then (s\<lparr>links := (links s)[p := (links s ! p)\<lparr>pFormat := None, pFuncList := None\<rparr>],
                 pLinkList := (pLinkList s)[i := None], linkNum := u8n (linkNum s + 255)\<rparr>, True)
          else (s, False))"
  using assms
  by (cases "GetLinkInFrame s p")
    (auto simp: DisConnectFLFF_def upd_link_Some get_link_Some disconnect_matches_def Let_def)

lemma registry_ok_leave:
  assumes ok: "registry_ok s" and i: "i < linkMaxNum s" "pLinkList s ! i = Some p"
  shows "registry_ok (s\<lparr>links := (links s)[p := l], pLinkList := (pLinkList s)[i := None],
                       linkNum := u8n (linkNum s + 255)\<rparr>)"
    and "linkNum s = Suc (u8n (linkNum s + 255))"
proof -
  have cnt: "Suc (length (filter (\<lambda>q. q \<noteq> None) ((pLinkList s)[i := None]))) = linkNum s"
    using filter_update [OF i(1), of "\<lambda>q. q \<noteq> None" None] registry_okD(2) [OF ok] i(2) by simp
  have "linkNum s < 256" using linkNum_bound [OF ok] registry_okD(1) [OF ok] by simp
  then have u: "u8n (linkNum s + 255) = length (filter (\<lambda>q. q \<noteq> None) ((pLinkList s)[i := None]))"
    unfolding cnt [symmetric] u8n_def by simp
  then show "linkNum s = Suc (u8n (linkNum s + 255))" using cnt by simp
  have reg: "Some q \<in> set ((pLinkList s)[i := None]) \<longleftrightarrow> q \<noteq> p \<and> registered s q" for q
    unfolding registered_def using i(1,2) registry_okD(3) [OF ok] by (rule set_update_None)
  show "registry_ok (s\<lparr>links := (links s)[p := l], pLinkList := (pLinkList s)[i := None],
                       linkNum := u8n (linkNum s + 255)\<rparr>)"
  proof (rule registry_okI, goal_cases)
    case 1
    show ?case using registry_okD(1) [OF ok] by simp
  next
    case 2
    show ?case using u by simp
  next
    case (3 j k q)
    then have "j \<noteq> i" "k \<noteq> i" using i by auto
    then show ?case using 3 registry_okD(3) [OF ok, of j k q] by simp
  next
    case (4 q)
    then have "q \<noteq> p" "registered s q" using reg by (simp_all add: registered_def)
    then show ?case using registry_okD(4) [OF ok, of q] by simp
  qed
qed

text \<open>
  \<open>DisConnectFLFF\<close> on a well-formed registry: it succeeds exactly when the link is
  registered with the format and functions named (where they are named). On success the link is
  no longer registered, the counter has gone down by one and the other registrations are
  unchanged; otherwise nothing changes. The registry stays well formed either way.
\<close>
theorem DisConnectFLFF_correct:
  assumes ok: "registry_ok s" and p: "p < length (links s)"
  shows "\<exists>s' r. DisConnectFLFF p fmt fl s = Some (s', r) \<and> registry_ok s' \<and>
           (r \<longleftrightarrow> registered s p \<and> disconnect_matches fmt fl (links s ! p)) \<and>
           (\<not> r \<longrightarrow> s' = s) \<and>
           (r \<longrightarrow> linkNum s = Suc (linkNum s') \<and>
                  (\<forall>q. registered s' q \<longleftrightarrow> q \<noteq> p \<and> registered s q) \<and>
                  (\<forall>q. q \<noteq> p \<longrightarrow> links s' ! q = links s ! q))"
proof (cases "registered s p \<and> disconnect_matches fmt fl (links s ! p)")
  case True
  then obtain i where i: "GetLinkInFrame s p = Some i" "i < linkMaxNum s" "pLinkList s ! i = Some p"
    using registered_index [OF ok, of p] by blast
  have reg: "Some q \<in> set ((pLinkList s)[i := None]) \<longleftrightarrow> q \<noteq> p \<and> registered s q" for q
    unfolding registered_def using i(2,3) registry_okD(3) [OF ok] by (rule set_update_None)
  let ?s' = "s\<lparr>links := (links s)[p := (links s ! p)\<lparr>pFormat := None, pFuncList := None\<rparr>],
      pLinkList := (pLinkList s)[i := None], linkNum := u8n (linkNum s + 255)\<rparr>"
  have "DisConnectFLFF p fmt fl s = Some (?s', True)"
    using True i p by (simp add: DisConnectFLFF_eq)
  moreover have "\<forall>q. registered ?s' q \<longleftrightarrow> q \<noteq> p \<and> registered s q"
    using reg by (simp add: registered_def)
  moreover have "linkNum s = Suc (linkNum ?s')" using registry_ok_leave(2) [OF ok i(2,3)] by simp
  ultimately show ?thesis
    using True registry_ok_leave(1) [OF ok i(2,3)] by (intro exI [of _ ?s'] exI [of _ True]) simp
next
  case False
  then have "DisConnectFLFF p fmt fl s = Some (s, False)"
    using p GetLinkInFrame_Some [of s p]
    by (cases "GetLinkInFrame s p") (auto simp: DisConnectFLFF_eq)
  then show ?thesis using ok False by blast
qed

theorem DisConnectFLFF_correct_witness:
  "\<exists>s'. DisConnectFLFF 0 None None (ProtocolFrame_FRAME_EXPORT 4 2 [ProtocolFrame_LINK_EXPORT 500 4] ()) =
          Some (s', False)"
  using DisConnectFLFF_correct [of "ProtocolFrame_FRAME_EXPORT 4 2 [ProtocolFrame_LINK_EXPORT 500 4] ()" 0 None None]
    registry_ok_initial [of 2 4 "[ProtocolFrame_LINK_EXPORT 500 4]" "()"]
  by (auto simp: ProtocolFrame_FRAME_EXPORT_def registered_def)

text \<open>
  A connection can be taken back: connecting an unregistered link where there is room and
  disconnecting it again restores the registry as it was, the entry, the counter and every other
  link included.
\<close>
theorem connect_disconnect_roundtrip:
  assumes ok: "registry_ok s" and p: "p < length (links s)"
    and new: "\<not> registered s p" and room: "linkNum s < linkMaxNum s"
  shows "\<exists>s1 s2. ConnectFLFF p fmt fl s = Some (s1, True) \<and>
           DisConnectFLFF p (Some fmt) (Some fl) s1 = Some (s2, True) \<and>
           pLinkList s2 = pLinkList s \<and> linkNum s2 = linkNum s \<and>
           (\<forall>q. q \<noteq> p \<longrightarrow> links s2 ! q = links s ! q)"
proof -
  have "GetNullLinkInFrame s \<noteq> None"
    using free_entry [OF ok] room by (simp only: GetNullLinkInFrame_None) simp
  then obtain i where i: "GetNullLinkInFrame s = Some i" by blast
  note n = GetNullLinkInFrame_Some [OF i]
  have np: "GetLinkInFrame s p = None" using new by (simp add: GetLinkInFrame_None)
  have u: "u8n (linkNum s + 1) = linkNum s + 1" "u8n (linkNum s + 1 + 255) = linkNum s"
    using room registry_okD(1) [OF ok] by (simp_all add: u8n_def)
  define s1 where "s1 = s\<lparr>links := (links s)[p := fresh_link fmt fl (links s ! p)],
      pLinkList := (pLinkList s)[i := Some p], linkNum := linkNum s + 1\<rparr>"
  have c: "ConnectFLFF p fmt fl s = Some (s1, True)"
    using p np i u(1) by (simp add: ConnectFLFF_eq s1_def)
  have "find_index (\<lambda>q. q = Some p) ((pLinkList s)[i := Some p]) = Some i"
    using n np [unfolded GetLinkInFrame_def find_index_None] by (simp add: find_index_Some)
  then have g: "GetLinkInFrame s1 p = Some i" by (simp add: GetLinkInFrame_def s1_def)
  have m: "disconnect_matches (Some fmt) (Some fl) (links s1 ! p)"
    using p by (simp add: disconnect_matches_def s1_def fresh_link_def)
  have "(pLinkList s)[i := Some p, i := None] = pLinkList s" using n by (metis list_update_id list_update_overwrite)
  then show ?thesis
    using c g m p u(2) DisConnectFLFF_eq [of p s1 "Some fmt" "Some fl"] by (simp add: s1_def)
qed

theorem connect_disconnect_roundtrip_witness:
  "\<exists>s1 s2. ConnectFLFF 0 1 2 (ProtocolFrame_FRAME_EXPORT 4 2 [ProtocolFrame_LINK_EXPORT 500 4] ()) =
          Some (s1, True) \<and> DisConnectFLFF 0 (Some 1) (Some 2) s1 = Some (s2, True) \<and> linkNum s2 = 0"
  using connect_disconnect_roundtrip [of
      "ProtocolFrame_FRAME_EXPORT 4 2 [ProtocolFrame_LINK_EXPORT 500 4] ()" 0 1 2]
    registry_ok_initial [of 2 4 "[ProtocolFrame_LINK_EXPORT 500 4]" "()"]
  by (auto simp: ProtocolFrame_FRAME_EXPORT_def registered_def)

section \<open>Enabling and disabling\<close>

text \<open>
  A loop over the first entries of the registry whose body sets one enable flag, and that
  dereferences every entry.
\<close>

lemma enable_loop:
  fixes s :: "('w, 'z) frame_state_scheme"
  assumes body: "\<And>k t. k < linkMaxNum s \<Longrightarrow> pLinkList t = pLinkList s \<Longrightarrow> length (links t) = length (links s) \<Longrightarrow>
      (case pLinkList s ! k of None \<Rightarrow> f k t = None
       | Some q \<Rightarrow> \<exists>t'. f k t = Some t' \<and> pLinkList t' = pLinkList s \<and>
           length (links t') = length (links s) \<and>
           (\<forall>r < length (links s). enable (links t' ! r) = (if r = q then b q else enable (links t ! r))))"
    and n: "n \<le> linkMaxNum s"
  shows "if \<exists>k<n. pLinkList s ! k = None then foldM f [0..<n] s = None
     else \<exists>t. foldM f [0..<n] s = Some t \<and> pLinkList t = pLinkList s \<and>
       length (links t) = length (links s) \<and>
       (\<forall>r < length (links s). enable (links t ! r) =
          (if \<exists>k<n. pLinkList s ! k = Some r then b r else enable (links s ! r)))"
  using n
proof (induction n)
  case 0
  then show ?case by simp
next
  case (Suc n)
  have spl: "foldM f [0..<Suc n] s = (case foldM f [0..<n] s of None \<Rightarrow> None | Some t \<Rightarrow> f n t)"
    by (simp add: foldM_append split: option.split)
  show ?case
  proof (cases "\<exists>k<n. pLinkList s ! k = None")
    case True
    then have "foldM f [0..<n] s = None" using Suc by simp
    moreover have "\<exists>k<Suc n. pLinkList s ! k = None" using True less_SucI by blast
    ultimately show ?thesis by (simp only: spl if_True option.case)
  next
    case False
    then obtain t where t: "foldM f [0..<n] s = Some t" "pLinkList t = pLinkList s"
        "length (links t) = length (links s)"
        "\<forall>r < length (links s). enable (links t ! r) =
          (if \<exists>k<n. pLinkList s ! k = Some r then b r else enable (links s ! r))"
      using Suc.IH [OF Suc_leD [OF Suc.prems], unfolded if_not_P [OF False]] by blast
    have bd: "case pLinkList s ! n of None \<Rightarrow> f n t = None
       | Some q \<Rightarrow> \<exists>t'. f n t = Some t' \<and> pLinkList t' = pLinkList s \<and>
           length (links t') = length (links s) \<and>
           (\<forall>r < length (links s). enable (links t' ! r) = (if r = q then b q else enable (links t ! r)))"
      using Suc.prems by (intro body t(2,3)) simp
    show ?thesis
    proof (cases "pLinkList s ! n")
      case None
      then show ?thesis using bd t(1) by (auto simp: spl simp del: upt_Suc)
    next
      case (Some q)
      then have "\<not> (\<exists>k<Suc n. pLinkList s ! k = None)" using False less_Suc_eq by auto
      moreover from Some bd obtain t' where "f n t = Some t'" "pLinkList t' = pLinkList s"
           "length (links t') = length (links s)"
           "\<forall>r < length (links s). enable (links t' ! r) = (if r = q then b q else enable (links t ! r))"
        by auto
      ultimately show ?thesis
        using t(1,4) Some by (auto simp: spl less_Suc_eq simp del: upt_Suc)
    qed
  qed
qed

text \<open>Without a hole in front, the first \<open>linkNum\<close> entries hold every registered link.\<close>

lemma registered_in_front:
  assumes ok: "registry_ok s" and front: "\<not> (\<exists>k < linkNum s. pLinkList s ! k = None)"
  shows "registered s q \<longleftrightarrow> (\<exists>k < linkNum s. pLinkList s ! k = Some q)"
proof -
  let ?n = "linkNum s" and ?xs = "pLinkList s" and ?P = "\<lambda>q. q \<noteq> None"
  have n: "?n \<le> length ?xs" by (rule linkNum_bound [OF ok])
  have "\<forall>x \<in> set (take ?n ?xs). ?P x"
    using front n by (auto simp: in_set_conv_nth)
  then have "filter ?P (take ?n ?xs) = take ?n ?xs" by (rule filter_True)
  moreover have "?n = length (filter ?P (take ?n ?xs)) + length (filter ?P (drop ?n ?xs))"
    using registry_okD(2) [OF ok] by (metis append_take_drop_id filter_append length_append)
  ultimately have "filter ?P (drop ?n ?xs) = []" using n by simp
  then have "\<forall>x \<in> set (drop ?n ?xs). x = None" by (simp only: filter_empty_conv) simp
  moreover have "set ?xs = set (take ?n ?xs) \<union> set (drop ?n ?xs)"
    by (metis append_take_drop_id set_append)
  ultimately have "registered s q \<longleftrightarrow> Some q \<in> set (take ?n ?xs)"
    by (auto simp: registered_def)
  also have "\<dots> \<longleftrightarrow> (\<exists>k < ?n. ?xs ! k = Some q)" using n by (auto simp: in_set_conv_nth)
  finally show ?thesis .
qed

lemma enable_only_result:
  assumes ok: "registry_ok s"
    and loop: "if \<exists>k < linkNum s. pLinkList s ! k = None then r = None
     else \<exists>t. r = Some t \<and> pLinkList t = pLinkList s \<and> length (links t) = length (links s) \<and>
       (\<forall>q < length (links s). enable (links t ! q) =
          (if \<exists>k < linkNum s. pLinkList s ! k = Some q then b q else enable (links s ! q)))"
  shows "if \<exists>k < linkNum s. pLinkList s ! k = None then r = None
     else \<exists>t. r = Some t \<and> pLinkList t = pLinkList s \<and>
       (\<forall>q. registered s q \<longrightarrow> enable (links t ! q) = b q)"
proof (cases "\<exists>k < linkNum s. pLinkList s ! k = None")
  case True
  then show ?thesis using loop by simp
next
  case False
  then obtain t where t: "r = Some t" "pLinkList t = pLinkList s"
      "\<forall>q < length (links s). enable (links t ! q) =
          (if \<exists>k < linkNum s. pLinkList s ! k = Some q then b q else enable (links s ! q))"
    using loop [unfolded if_not_P [OF False]] by blast
  have "enable (links t ! q) = b q" if "registered s q" for q
    using t(3) registered_in_front [OF ok False, of q] registry_okD(4) [OF ok that] that by auto
  then show ?thesis using t(1,2) False by auto
qed

text \<open>
  \<open>SetLinkEnableOnly\<close> visits the first \<open>linkNum\<close> entries of the registry. If none of
  them is NULL it enables the given link and disables every other registered link; if one is
  NULL, which happens as soon as a link other than the last registered is disconnected, it
  dereferences NULL.
\<close>
theorem SetLinkEnableOnly_correct:
  assumes ok: "registry_ok s" and p: "p < length (links s)"
  shows "if \<exists>k < linkNum s. pLinkList s ! k = None then SetLinkEnableOnly p s = None
     else \<exists>s'. SetLinkEnableOnly p s = Some s' \<and> pLinkList s' = pLinkList s \<and>
       (\<forall>q. registered s q \<longrightarrow> enable (links s' ! q) = (q = p))"
  using ok
proof (rule enable_only_result)
  let ?b = "\<lambda>q. q = p"
  show "if \<exists>k < linkNum s. pLinkList s ! k = None then SetLinkEnableOnly p s = None
     else \<exists>t. SetLinkEnableOnly p s = Some t \<and> pLinkList t = pLinkList s \<and>
       length (links t) = length (links s) \<and>
       (\<forall>q < length (links s). enable (links t ! q) =
          (if \<exists>k < linkNum s. pLinkList s ! k = Some q then ?b q else enable (links s ! q)))"
    unfolding SetLinkEnableOnly_def
  proof (rule enable_loop, goal_cases)
    case (1 k t)
    show ?case
    proof (cases "pLinkList s ! k")
      case None
      then show ?thesis using 1 by simp
    next
      case (Some q)
      then have "q < length (links s)"
        using registry_okD(4) [OF ok, of q] 1(1) by (metis nth_mem registered_def)
      then show ?thesis
        using 1 Some p
        by (auto simp: upd_link_Some get_link_Some nth_list_update link_macros)
    qed
  next
    case 2
    show ?case by (rule linkNum_bound [OF ok])
  qed
qed


text \<open>Two declared links of which the one at position \<open>i\<close> is registered, alone.\<close>

definition one_registered :: "nat \<Rightarrow> unit frame_state" where
  "one_registered i = (ProtocolFrame_FRAME_EXPORT 4 2 (replicate 2 ((ProtocolFrame_LINK_EXPORT 500 4)
       \<lparr>pFormat := Some 0, pFuncList := Some 0\<rparr>)) ())
     \<lparr>pLinkList := [None, None][i := Some i], linkNum := 1\<rparr>"

lemma one_registered_ok: "i < 2 \<Longrightarrow> registry_ok (one_registered i)"
  by (rule registry_okI)
    (auto simp: one_registered_def ProtocolFrame_FRAME_EXPORT_def registered_def less_2_cases_iff
      nth_list_update nth_Cons split: nat.splits if_splits)

theorem SetLinkEnableOnly_correct_witness:
  "SetLinkEnableOnly 1 (one_registered 1) = None \<and>
   (\<exists>s'. SetLinkEnableOnly 0 (one_registered 0) = Some s' \<and> enable (links s' ! 0))"
  using SetLinkEnableOnly_correct [OF one_registered_ok, of 1 1]
    SetLinkEnableOnly_correct [OF one_registered_ok, of 0 0]
  by (auto simp: one_registered_def ProtocolFrame_FRAME_EXPORT_def registered_def)

end
