(* ===== verification/DobotApi.thy ===== *)
theory DobotApi imports CmdFrame ProtoRegistry begin

text \<open>
  \<open>DobotV3Func.c\<close>: the frame, the command table and the ten links that the plugin uses, and its
  six calls: registering and destroying links, sending commands, setting the default send
  parameters, counting time, and the background run. What the calls do; their composition over a
  whole run of the program is \<open>DobotSystem\<close>.
\<close>

section \<open>The declarations\<close>

text \<open>The six rules, with the callback lists of the rule files in the same order.\<close>

definition DobotV3_matchList :: "match_rule list" where
  "DobotV3_matchList =
     [\<lparr>Sort = Mooz_RulesSort,    Match = Mooz_RulesMatch,    pCmdCB = Some 0, GetId = Mooz_GetId\<rparr>,
      \<lparr>Sort = General_RulesSort, Match = General_RulesMatch, pCmdCB = Some 1, GetId = General_GetId\<rparr>,
      \<lparr>Sort = MGo_RulesSort,     Match = MGo_RulesMatch,     pCmdCB = Some 2, GetId = MGo_GetId\<rparr>,
      \<lparr>Sort = K210Arm_RulesSort, Match = K210Arm_RulesMatch, pCmdCB = Some 3, GetId = K210Arm_GetId\<rparr>,
      \<lparr>Sort = K210Car_RulesSort, Match = K210Car_RulesMatch, pCmdCB = Some 4, GetId = K210Car_GetId\<rparr>,
      \<lparr>Sort = MBox_RulesSort,    Match = MBox_RulesMatch,    pCmdCB = Some 5, GetId = MBox_GetId\<rparr>]"

definition DobotV3Func_LINK_MAXNUM :: nat where "DobotV3Func_LINK_MAXNUM = 10"

definition DobotV3_frame :: "'w \<Rightarrow> 'w frame_state" where
  "DobotV3_frame w = ProtocolFrame_FRAME_EXPORT DobotV3Format_PACKET_LENGTH DobotV3Func_LINK_MAXNUM
     (replicate 10 (ProtocolFrame_LINK_EXPORT 500 DobotV3Format_PACKET_LENGTH)) w"

definition DobotV3_start :: "'w \<Rightarrow> 'w cmd_state" where
  "DobotV3_start w = DobotV3CmdInter_EXPORT (DobotV3_frame w) 100 256 1000 3 DobotV3_matchList
     (replicate 6 (DobotV3CmdInter_CMDCB_LS_EXPORT 255))"

section \<open>Links\<close>

text \<open>The numbers of the format and of the function list in the environment.\<close>

abbreviation the_format :: nat where "the_format \<equiv> 0"
abbreviation the_funcs :: nat where "the_funcs \<equiv> 0"

definition GetUnUseLink :: "('w, 'z) frame_state_scheme \<Rightarrow> nat option" where
  "GetUnUseLink s = find (\<lambda>p. GetLinkInFrame s p = None) [0..<10]"

definition DobotV3_RegisterLink :: "(bytes \<Rightarrow> 'w \<Rightarrow> 'w) option \<Rightarrow> (nat \<Rightarrow> 'w \<Rightarrow> bytes \<times> 'w) option \<Rightarrow>
    ('w, 'z) frame_state_scheme \<Rightarrow> (('w, 'z) frame_state_scheme \<times> nat option) option" where
  "DobotV3_RegisterLink send rd s =
     (case GetUnUseLink s of
        None \<Rightarrow> Some (s, None)
      | Some p \<Rightarrow> do {
          s \<leftarrow> upd_link (\<lambda>l. l\<lparr>readData := rd, SendData := send\<rparr>) p s;
          (s, _) \<leftarrow> ConnectFLFF p the_format the_funcs s;
          Some (s, Some p) })"

definition DobotV3_DestoryLink :: "nat \<Rightarrow> ('w, 'z) frame_state_scheme \<Rightarrow> ('w, 'z) frame_state_scheme option" where
  "DobotV3_DestoryLink p s = do {
     (s, _) \<leftarrow> DisConnectFLFF p (Some the_format) (Some the_funcs) s;
     Some s }"

section \<open>Commands and time\<close>

text \<open>
  \<open>handle\<close> and \<open>parm\<close> are the uninitialised local variables of the C function, the former
  with its address; the packet is returned as the encoder leaves it.
\<close>

definition DobotV3_SendCmd :: "cmd_handle \<Rightarrow> send_parm \<Rightarrow> nat option \<Rightarrow> bytes \<Rightarrow> u16 \<Rightarrow> bool \<Rightarrow>
    ('w, 'z) cmd_state_scheme \<Rightarrow> (bool \<times> bytes \<times> ('w, 'z) cmd_state_scheme) option" where
  "DobotV3_SendCmd handle parm link p payloadLen ack s =
     (case GetCmdSpace handle True s of (st, handle, s) \<Rightarrow>
        if st = DobotV3CmdInter_NOSPACE then Some (False, p, s)
        else do {
          (_, s) \<leftarrow> SetSendParm handle (parm\<lparr>ackMark := ack, cbMark := True, setParmMark := False\<rparr>) s;
          (_, p, s) \<leftarrow> CmdSendData handle link p payloadLen s;
          Some (True, p, s) })"

definition DobotV3_SetSendParm :: "u8 \<Rightarrow> u32 \<Rightarrow> ('w, 'z) cmd_state_scheme \<Rightarrow> ('w, 'z) cmd_state_scheme" where
  "DobotV3_SetSendParm rn tmo s =
     SetDefultSendParm \<lparr>cbMark = True, ackMark = True, setParmMark = True, repeatNum = rn, timeOut = tmo\<rparr> s"

definition DobotV3_TimeCNT :: "u32 \<Rightarrow> ('w, 'z) frame_state_scheme \<Rightarrow> ('w, 'z) frame_state_scheme" where
  "DobotV3_TimeCNT ms s = ProtocolFrame_TIMECNT ms s"

definition DobotV3_Exec :: "'w cmd_state \<Rightarrow> 'w cmd_state option" where
  "DobotV3_Exec s = Exec cmd_env s"

text \<open>The \<open>RegisterCB\<close> of each rule file.\<close>

definition Mooz_RegisterCB :: "u16 \<Rightarrow> (cb_parm \<Rightarrow> 'w \<Rightarrow> 'w) option \<Rightarrow> ('w, 'z) cmd_state_scheme \<Rightarrow>
    (bool \<times> ('w, 'z) cmd_state_scheme) option" where
  "Mooz_RegisterCB = RegisterCB 0"

definition General_RegisterCB :: "u16 \<Rightarrow> (cb_parm \<Rightarrow> 'w \<Rightarrow> 'w) option \<Rightarrow> ('w, 'z) cmd_state_scheme \<Rightarrow>
    (bool \<times> ('w, 'z) cmd_state_scheme) option" where
  "General_RegisterCB = RegisterCB 1"

definition MGo_RegisterCB :: "u16 \<Rightarrow> (cb_parm \<Rightarrow> 'w \<Rightarrow> 'w) option \<Rightarrow> ('w, 'z) cmd_state_scheme \<Rightarrow>
    (bool \<times> ('w, 'z) cmd_state_scheme) option" where
  "MGo_RegisterCB = RegisterCB 2"

definition K210Arm_RegisterCB :: "u16 \<Rightarrow> (cb_parm \<Rightarrow> 'w \<Rightarrow> 'w) option \<Rightarrow> ('w, 'z) cmd_state_scheme \<Rightarrow>
    (bool \<times> ('w, 'z) cmd_state_scheme) option" where
  "K210Arm_RegisterCB = RegisterCB 3"

definition K210Car_RegisterCB :: "u16 \<Rightarrow> (cb_parm \<Rightarrow> 'w \<Rightarrow> 'w) option \<Rightarrow> ('w, 'z) cmd_state_scheme \<Rightarrow>
    (bool \<times> ('w, 'z) cmd_state_scheme) option" where
  "K210Car_RegisterCB = RegisterCB 4"

definition MBox_RegisterCB :: "u16 \<Rightarrow> (cb_parm \<Rightarrow> 'w \<Rightarrow> 'w) option \<Rightarrow> ('w, 'z) cmd_state_scheme \<Rightarrow>
    (bool \<times> ('w, 'z) cmd_state_scheme) option" where
  "MBox_RegisterCB = RegisterCB 5"

section \<open>The start\<close>

lemma DobotV3_start_simps [simp]:
  "pPacketParmList (DobotV3_start w) = replicate 100 empty_slot" "packetSize (DobotV3_start w) = 256"
  "length (pPacketList (DobotV3_start w)) = 25600" "pMatchList (DobotV3_start w) = DobotV3_matchList"
  "pCBLists (DobotV3_start w) = replicate 6 (DobotV3CmdInter_CMDCB_LS_EXPORT 255)" "loopIndex (DobotV3_start w) = 0"
  "links (DobotV3_start w) = replicate 10 (ProtocolFrame_LINK_EXPORT 500 DobotV3Format_PACKET_LENGTH)"
  "pLinkList (DobotV3_start w) = replicate 10 None" "linkNum (DobotV3_start w) = 0"
  "length (pPacket (pPacketParm (DobotV3_start w))) = DobotV3Format_PACKET_LENGTH" "timeCNT (DobotV3_start w) = 0"
  by (simp_all add: DobotV3_start_def)
    (simp_all add: DobotV3CmdInter_EXPORT_def frame_state.defs DobotV3_frame_def ProtocolFrame_FRAME_EXPORT_def
      DobotV3Func_LINK_MAXNUM_def)

lemma matchList_ok: "rules_ok DobotV3_matchList"
  using rules_sort_total rules_match_total
  by (simp add: rules_ok_def DobotV3_matchList_def rules_id_defs mem_safe)

lemma start_ok: "system_ok input (DobotV3_start w)"
proof -
  have "cmd_ok input (DobotV3_start w)"
    using matchList_ok
    by (auto simp: cmd_ok_def callbacks_ok_def slot_ok_def empty_slot_def DobotV3_matchList_def
        DobotV3CmdInter_CMDCB_LS_EXPORT_def)
  moreover have "registry_ok (DobotV3_start w)" by (rule registry_okI) (auto simp: registered_def)
  ultimately show ?thesis
    by (auto simp: system_ok_def loops_ready_def slot_links_ok_def empty_slot_def decoder_ready_def registered_def)
qed

section \<open>Registering links\<close>

lemma registry_ok_unregistered:
  assumes ok: "registry_ok s" and p: "\<not> registered s p"
  shows "registry_ok (s\<lparr>links := (links s)[p := l]\<rparr>)"
proof (rule registry_okI, goal_cases)
  case (4 q)
  then have "registered s q" by (simp add: registered_def)
  moreover from this have "q \<noteq> p" using p by blast
  ultimately show ?case using registry_okD(4) [OF ok] by simp
qed (use registry_okD(1,2,3) [OF ok] in auto)

text \<open>As long as a link is not registered there is room for it.\<close>

lemma unregistered_room:
  assumes ok: "registry_ok s" and "linkMaxNum s = length (links s)"
    and p: "p < length (links s)" "\<not> registered s p"
  shows "linkNum s < linkMaxNum s"
proof -
  let ?I = "{i. i < linkMaxNum s \<and> pLinkList s ! i \<noteq> None}"
  have reg: "registered s (the (pLinkList s ! i))" "pLinkList s ! i = Some (the (pLinkList s ! i))" if "i \<in> ?I" for i
  proof -
    show e: "pLinkList s ! i = Some (the (pLinkList s ! i))" using that by simp
    have "pLinkList s ! i \<in> set (pLinkList s)" using that by simp
    then show "registered s (the (pLinkList s ! i))" using e by (simp add: registered_def)
  qed
  have "inj_on (\<lambda>i. the (pLinkList s ! i)) ?I"
  proof (rule inj_onI)
    fix i j assume ij: "i \<in> ?I" "j \<in> ?I" "the (pLinkList s ! i) = the (pLinkList s ! j)"
    have "pLinkList s ! j = Some (the (pLinkList s ! i))"
      by (rule trans [OF reg(2) [OF ij(2)]]) (simp only: ij(3))
    with ij(1,2) show "i = j" using registry_okD(3) [OF ok _ _ reg(2) [OF ij(1)]] by blast
  qed
  moreover have "(\<lambda>i. the (pLinkList s ! i)) ` ?I \<subseteq> {0..<length (links s)} - {p}"
    using reg(1) registry_okD(4) [OF ok] p by fastforce
  ultimately have "card ?I \<le> card ({0..<length (links s)} - {p})" by (intro card_inj_on_le) auto
  also have "\<dots> = length (links s) - 1" using p(1) by simp
  finally have "card ?I < linkMaxNum s" using p(1) assms(2) by simp
  then show ?thesis unfolding registry_okD(2) [OF ok] length_filter_conv_card by simp
qed

text \<open>What the call does, for the links of the declaration.\<close>

lemma RegisterLink_spec:
  assumes ok: "registry_ok s" and n: "length (links s) = 10" "linkMaxNum s = 10"
  shows "\<exists>s' r. DobotV3_RegisterLink send rd s = Some (s', r) \<and> registry_ok s' \<and>
     (case r of
        None \<Rightarrow> s' = s \<and> (\<forall>p < 10. registered s p)
      | Some p \<Rightarrow> p < 10 \<and> \<not> registered s p \<and> (\<forall>q < p. registered s q) \<and> registered s' p \<and>
          (\<forall>q. q \<noteq> p \<longrightarrow> registered s' q = registered s q) \<and>
          links s' = (links s)[p := fresh_link the_format the_funcs ((links s ! p)\<lparr>readData := rd, SendData := send\<rparr>)])"
proof (cases "GetUnUseLink s")
  case None
  then have "\<forall>p < 10. registered s p"
    unfolding GetUnUseLink_def find_upt_None GetLinkInFrame_None by blast
  then show ?thesis using None ok by (intro exI [of _ s] exI [of _ None]) (simp add: DobotV3_RegisterLink_def)
next
  case (Some p)
  then have p: "p < 10" "\<not> registered s p" "\<forall>q < p. registered s q"
    unfolding GetUnUseLink_def find_upt_Some GetLinkInFrame_None by blast+
  let ?l = "(links s ! p)\<lparr>readData := rd, SendData := send\<rparr>"
  let ?s1 = "s\<lparr>links := (links s)[p := ?l]\<rparr>"
  have up: "upd_link (\<lambda>l. l\<lparr>readData := rd, SendData := send\<rparr>) p s = Some ?s1"
    using p n by (simp add: upd_link_Some)
  have ok1: "registry_ok ?s1" using registry_ok_unregistered [OF ok p(2)] .
  have "p < length (links ?s1)" using p n by simp
  from ConnectFLFF_spec [OF ok1 this, of the_format the_funcs] obtain s' r where s':
    "ConnectFLFF p the_format the_funcs ?s1 = Some (s', r)" "registry_ok s'"
    "r \<longleftrightarrow> registered ?s1 p \<or> linkNum ?s1 < linkMaxNum ?s1"
    "r \<longrightarrow> registered s' p \<and> links s' = (links ?s1)[p := fresh_link the_format the_funcs (links ?s1 ! p)] \<and>
        (\<forall>q. q \<noteq> p \<longrightarrow> registered s' q = registered ?s1 q)" by blast
  have "linkNum s < linkMaxNum s" using unregistered_room [OF ok] p n by simp
  then have r using s'(3) by simp
  then show ?thesis
    using s' Some up p n by (intro exI [of _ s'] exI [of _ "Some p"]) (simp add: DobotV3_RegisterLink_def registered_def)
qed

section \<open>Sending commands\<close>

text \<open>The state after the slot has been given out and its parameters have been set.\<close>

definition reserved :: "cmd_handle \<Rightarrow> bool \<Rightarrow> nat \<Rightarrow> ('w, 'z) cmd_state_scheme \<Rightarrow> ('w, 'z) cmd_state_scheme" where
  "reserved h ack i s = s\<lparr>pPacketParmList := (pPacketParmList s)[i := (pPacketParmList s ! i)
     \<lparr>userMark := True, autoFreeMark := True,
      slotHandle := Some (hAddr h), slotParm := (sendParm s)\<lparr>cbMark := True, ackMark := ack\<rparr>\<rparr>]\<rparr>"

abbreviation slot_handle :: "cmd_handle \<Rightarrow> nat \<Rightarrow> cmd_handle" where
  "slot_handle h i \<equiv> h\<lparr>pParm := Some the_table, hIndex := i\<rparr>"

lemma FILL_SENDPARM_eq: "FILL_SENDPARM fp p = p"
  by (simp add: FILL_SENDPARM_def)

lemma SendCmd_full:
  "find_index (\<lambda>sl. \<not> userMark sl) (pPacketParmList s) = None \<Longrightarrow>
   DobotV3_SendCmd h parm link p n ack s = Some (False, p, s)"
  by (simp add: DobotV3_SendCmd_def GetCmdSpace_def Let_def)

lemma SendCmd_reserve:
  assumes "find_index (\<lambda>sl. \<not> userMark sl) (pPacketParmList s) = Some i"
  shows "DobotV3_SendCmd h parm link p n ack s =
       (case CmdSendData (slot_handle h i) link p n (reserved h ack i s) of
          None \<Rightarrow> None | Some (st, q, s') \<Rightarrow> Some (True, q, s'))"
    and "handle_valid (slot_handle h i) (reserved h ack i s)" and "i < packetListSize s"
    and "\<not> userMark (pPacketParmList s ! i)"
proof -
  show i: "i < packetListSize s" "\<not> userMark (pPacketParmList s ! i)" using assms by (simp_all add: find_index_Some)
  show hv: "handle_valid (slot_handle h i) (reserved h ack i s)"
    using i by (simp add: handle_valid_def reserved_def)
  let ?s0 = "s\<lparr>pPacketParmList := (pPacketParmList s)[i := (pPacketParmList s ! i)
     \<lparr>userMark := True, autoFreeMark := True, slotParm := sendParm s, slotHandle := Some (hAddr h)\<rparr>]\<rparr>"
  have "handle_valid (slot_handle h i) ?s0" using i by (simp add: handle_valid_def)
  then have "SetSendParm (slot_handle h i) (parm\<lparr>ackMark := ack, cbMark := True, setParmMark := False\<rparr>) ?s0 =
      Some (DobotV3CmdInter_SUCCESS, reserved h ack i s)"
    using i by (simp add: SetSendParm_def ISHANDLEERR_valid upd_slot_Some set_send_parm_def reserved_def Let_def)
  then show "DobotV3_SendCmd h parm link p n ack s =
       (case CmdSendData (slot_handle h i) link p n (reserved h ack i s) of
          None \<Rightarrow> None | Some (st, q, s') \<Rightarrow> Some (True, q, s'))"
    by (simp add: DobotV3_SendCmd_def GetCmdSpace_def assms Let_def FILL_SENDPARM_eq split: option.split)
qed

lemma SendCmd_spec:
  assumes free: "find_index (\<lambda>sl. \<not> userMark sl) (pPacketParmList s) = Some i" and N: "packetListSize s \<le> 256"
    and rules: "rules_ok (pMatchList s)" and mem: "length (pPacketList s) = packetListSize s * packetSize s"
    and p: "unat (ucast n :: u8) + 17 \<le> length p" and fits: "unat (ucast n :: u8) + 17 \<le> packetSize s"
  shows "\<exists>q s' sl. DobotV3_SendCmd h parm link p n ack s = Some (True, q, s') \<and>
     s' = s\<lparr>pPacketList := pPacketList s', pPacketParmList := (pPacketParmList s)[i := sl]\<rparr> \<and>
     length (pPacketList s') = length (pPacketList s) \<and>
     userMark sl \<and> slotSend sl \<and> autoFreeMark sl \<and> slotLink sl = link \<and>
     slotParm sl = (sendParm s)\<lparr>cbMark := True, ackMark := ack\<rparr> \<and>
     timeStart sl = timeCNT s - timeOut (sendParm s) \<and> slotLength sl = unat (ucast n :: u8) + 17 \<and>
     (ruleIndex sl < length (pMatchList s) \<or> ruleIndex sl = ruleIndex (pPacketParmList s ! i)) \<and>
     take (slotLength sl) (slot_bytes s' i) = dv3_encoded p (ucast n) \<and>
     (\<forall>j < packetListSize s. j \<noteq> i \<longrightarrow> slot_bytes s' j = slot_bytes s j) \<and>
     (\<forall>k. find_rule (pMatchList s) (dv3_encoded p (ucast n) @ drop (unat (ucast n :: u8) + 17) p)
        (unat (ucast n :: u8) + 17) 0 = Some (Some k) \<longrightarrow> ruleMark sl \<and> ruleIndex sl = k)"
proof -
  note r = SendCmd_reserve [OF free]
  let ?s1 = "reserved h ack i s" and ?h = "slot_handle h i"
  have s1: "packetListSize ?s1 = packetListSize s" "pMatchList ?s1 = pMatchList s" "pPacketList ?s1 = pPacketList s"
    "packetSize ?s1 = packetSize s" "timeCNT ?s1 = timeCNT s" by (simp_all add: reserved_def)
  have sl1: "slotParm (pPacketParmList ?s1 ! i) = (sendParm s)\<lparr>cbMark := True, ackMark := ack\<rparr>"
    "autoFreeMark (pPacketParmList ?s1 ! i)" "ruleIndex (pPacketParmList ?s1 ! i) = ruleIndex (pPacketParmList s ! i)"
    using r(3) by (simp_all add: reserved_def)
  have sb: "slot_bytes ?s1 j = slot_bytes s j" for j by (simp add: slot_bytes_def reserved_def GETPKGADDR_def)
  have pre: "hIndex ?h < 256" "rules_ok (pMatchList ?s1)" "length (pPacketList ?s1) = packetListSize ?s1 * packetSize ?s1"
    "unat (ucast n :: u8) + 17 \<le> packetSize ?s1"
    using N r(3) rules mem fits by (simp_all add: s1)
  from CmdSendData_spec [OF r(2) pre(1,2,3) p pre(4), of link] show ?thesis
  proof (elim exE conjE, goal_cases)
    case (1 st q s')
    let ?sl = "pPacketParmList s' ! i"
    have e: "s' = s\<lparr>pPacketList := pPacketList s', pPacketParmList := (pPacketParmList s)[i := ?sl]\<rparr>"
      using 1(10) by (simp add: reserved_def)
    have "DobotV3_SendCmd h parm link p n ack s = Some (True, q, s')" unfolding r(1) using 1(1) by simp
    moreover have "timeOut (slotParm (pPacketParmList ?s1 ! i)) = timeOut (sendParm s)" by (simp add: sl1)
    ultimately show ?case
      using 1(4-9,11-) e by (intro exI [of _ q] exI [of _ s'] exI [of _ ?sl]) (simp add: s1 sl1 sb)
  qed
qed

section \<open>Properties\<close>

text \<open>
  \<open>DobotV3_RegisterLink\<close> on the ten declared links: it returns NULL, and changes nothing,
  exactly when all ten are registered. Otherwise it returns the first link that is not, registered
  now with the given functions and an empty parser, and changes no other link and no other
  registration; there is always an entry for it. The registry stays well formed.
\<close>
theorem RegisterLink_correct:
  assumes ok: "registry_ok s" and n: "length (links s) = 10" "linkMaxNum s = 10"
  shows "\<exists>s' r. DobotV3_RegisterLink send rd s = Some (s', r) \<and> registry_ok s' \<and>
     (r = None \<longleftrightarrow> (\<forall>p < 10. registered s p)) \<and> (r = None \<longrightarrow> s' = s) \<and>
     (\<forall>p. r = Some p \<longrightarrow> p < 10 \<and> \<not> registered s p \<and> (\<forall>q < p. registered s q) \<and> registered s' p \<and>
          readData (links s' ! p) = rd \<and> SendData (links s' ! p) = send \<and> msgWriteIndex (links s' ! p) = 0 \<and>
          (\<forall>q. q \<noteq> p \<longrightarrow> registered s' q = registered s q \<and> links s' ! q = links s ! q))"
  using RegisterLink_spec [OF assms, of send rd]
proof (elim exE conjE, goal_cases)
  case (1 s' r)
  show ?case
  proof (cases r)
    case None
    then show ?thesis using 1 by (intro exI [of _ s'] exI [of _ r]) simp
  next
    case (Some p)
    then show ?thesis using 1 n
      by (intro exI [of _ s'] exI [of _ r]) (auto simp: fresh_link_def link_macros)
  qed
qed

theorem RegisterLink_correct_witness:
  "\<exists>s' r. DobotV3_RegisterLink None None (DobotV3_start ()) = Some (s', r) \<and> r \<noteq> None \<and> registry_ok s'"
proof -
  have "registry_ok (DobotV3_start ())" using start_ok [of "\<lambda>_ _. []" "()"] by (simp add: system_ok_def loops_ready_def)
  from RegisterLink_correct [OF this, of None None] show ?thesis
    by (auto simp: registered_def dest: spec [of _ 0])
qed

text \<open>
  C33. \<open>DobotV3_SendCmd\<close> of a packet that fits a slot: it returns false, and changes nothing,
  exactly when every slot is in use. Otherwise it returns true, and the first free slot is in use,
  released automatically, with the default repeats and timeout, and is to be sent on the link, its
  memory holding the encoded packet; no other slot and no other slot's memory changes.
\<close>
theorem SendCmd_correct:
  assumes N: "packetListSize s \<le> 256"
    and rules: "rules_ok (pMatchList s)" and mem: "length (pPacketList s) = packetListSize s * packetSize s"
    and p: "unat (ucast n :: u8) + 17 \<le> length p" and fits: "unat (ucast n :: u8) + 17 \<le> packetSize s"
  shows "if \<forall>i < packetListSize s. userMark (pPacketParmList s ! i)
     then DobotV3_SendCmd h parm link p n ack s = Some (False, p, s)
     else \<exists>q s' i. DobotV3_SendCmd h parm link p n ack s = Some (True, q, s') \<and>
       i < packetListSize s \<and> \<not> userMark (pPacketParmList s ! i) \<and> (\<forall>j < i. userMark (pPacketParmList s ! j)) \<and>
       (let sl = pPacketParmList s' ! i in
          userMark sl \<and> slotSend sl \<and> autoFreeMark sl \<and> slotLink sl = link \<and>
          cbMark (slotParm sl) \<and> ackMark (slotParm sl) = ack \<and>
          repeatNum (slotParm sl) = repeatNum (sendParm s) \<and> timeOut (slotParm sl) = timeOut (sendParm s) \<and>
          slotLength sl = unat (ucast n :: u8) + 17 \<and> take (slotLength sl) (slot_bytes s' i) = dv3_encoded p (ucast n)) \<and>
       (\<forall>j < packetListSize s. j \<noteq> i \<longrightarrow>
          pPacketParmList s' ! j = pPacketParmList s ! j \<and> slot_bytes s' j = slot_bytes s j)"
proof (cases "find_index (\<lambda>sl. \<not> userMark sl) (pPacketParmList s)")
  case None
  then show ?thesis using SendCmd_full [OF None] by (simp add: find_index_None)
next
  case (Some i)
  then have i: "i < packetListSize s" "\<not> userMark (pPacketParmList s ! i)" "\<forall>j < i. userMark (pPacketParmList s ! j)"
    by (simp_all add: find_index_Some)
  then have ne: "\<not> (\<forall>i < packetListSize s. userMark (pPacketParmList s ! i))" by blast
  from SendCmd_spec [OF Some N rules mem p fits, of h parm link ack] show ?thesis
  proof (elim exE conjE, goal_cases)
    case (1 q s' sl)
    have l: "pPacketParmList s' = (pPacketParmList s)[i := sl]" by (subst 1(2)) simp
    show ?case
      unfolding if_not_P [OF ne] using 1(1,4-) i
      by (intro exI [of _ q] exI [of _ s'] exI [of _ i]) (simp add: l Let_def)
  qed
qed

theorem SendCmd_correct_witness:
  "\<exists>q s' i. DobotV3_SendCmd handle5 (sendParm used_slots) (Some 0) (replicate 30 7) 4 False (DobotV3_start ()) =
       Some (True, q, s') \<and> slotSend (pPacketParmList s' ! i)"
proof -
  let ?s = "DobotV3_start ()"
  have ne: "\<not> (\<forall>i < packetListSize ?s. userMark (pPacketParmList ?s ! i))"
    by (auto simp: empty_slot_def intro: exI [of _ 0])
  show ?thesis
    using SendCmd_correct [of ?s 4 "replicate 30 7" handle5 "sendParm used_slots" "Some 0" False,
        unfolded if_not_P [OF ne]] matchList_ok
    by (auto simp: Let_def)
qed

text \<open>
  \<open>DobotV3_SendCmd\<close> of a packet that does not fit a slot still returns true, but it sends
  nothing: one more slot is in use, and it is a slot that is not to be sent.
\<close>
theorem SendCmd_leaks_slot:
  assumes free: "\<not> userMark (pPacketParmList s ! k)" "k < packetListSize s"
    and unused: "\<forall>sl \<in> set (pPacketParmList s). slotSend sl \<longrightarrow> userMark sl"
    and p: "unat (ucast n :: u8) + 17 \<le> length p" and long: "packetSize s < unat (ucast n :: u8) + 17"
  shows "\<exists>q s' i. DobotV3_SendCmd h parm link p n ack s = Some (True, q, s') \<and> i < packetListSize s \<and>
     \<not> userMark (pPacketParmList s ! i) \<and> userMark (pPacketParmList s' ! i) \<and> \<not> slotSend (pPacketParmList s' ! i) \<and>
     pPacketList s' = pPacketList s \<and> (\<forall>j. j \<noteq> i \<longrightarrow> pPacketParmList s' ! j = pPacketParmList s ! j)"
proof -
  obtain i where i: "find_index (\<lambda>sl. \<not> userMark sl) (pPacketParmList s) = Some i"
    using free by (cases "find_index (\<lambda>sl. \<not> userMark sl) (pPacketParmList s)") (auto simp: find_index_None)
  note r = SendCmd_reserve [OF i]
  have "\<not> slotSend (pPacketParmList s ! i)" using unused r(3,4) by auto
  then show ?thesis
    using r(1) [of h parm link p n ack] r(3,4) ISHANDLEERR_valid [OF r(2)] PacketEncoder_Some [OF p] long
    by (intro exI [of _ _] exI [of _ _] exI [of _ i])
      (auto simp: CmdSendData_def WritePacket_def upd_slot_Some reserved_def)
qed

theorem SendCmd_leaks_slot_witness:
  "\<exists>q s' i. DobotV3_SendCmd handle5 (sendParm used_slots) (Some 0) (replicate 300 7) 240 False (DobotV3_start ()) =
       Some (True, q, s') \<and> userMark (pPacketParmList s' ! i) \<and> \<not> slotSend (pPacketParmList s' ! i)"
  using SendCmd_leaks_slot [of "DobotV3_start ()" 0 240 "replicate 300 7" handle5 "sendParm used_slots" "Some 0" False]
  by (auto simp: empty_slot_def)

text \<open>
  A slot in use that is not to be sent stays as it is: neither the loop of the command table
  nor an answer touches it, so that only its handle can release it; the handle of
  \<open>DobotV3_SendCmd\<close> is gone when the call returns.
\<close>
theorem unsent_slot_stays:
  assumes ok: "cmd_ok input s" and i: "i < packetListSize s" and sl: "\<not> slotSend (pPacketParmList s ! i)"
    and buf: "length (pPacket (pPacketParm s)) = DobotV3Format_PACKET_LENGTH"
  shows "(\<exists>s'. DobotV3CmdInter_Loop s = Some s' \<and> pPacketParmList s' ! i = pPacketParmList s ! i) \<and>
    (packet_offered s \<longrightarrow>
      (\<exists>s'. DobotV3CmdInter_PacketCallBack s = Some s' \<and> pPacketParmList s' ! i = pPacketParmList s ! i))"
proof (intro conjI impI)
  show "\<exists>s'. DobotV3CmdInter_Loop s = Some s' \<and> pPacketParmList s' ! i = pPacketParmList s ! i"
  proof (cases "loopIndex s = packetListSize s")
    case True
    then show ?thesis by (simp add: Loop_exit)
  next
    case False
    then have "loopIndex s < packetListSize s" using cmd_okD(7) [OF ok] by simp
    then show ?thesis
      using Loop_eq [OF ok _ buf] sl by (auto simp: visited_frame visited_slot_def slot_due_def nth_list_update)
  qed
  assume pk: "packet_offered s"
  show "\<exists>s'. DobotV3CmdInter_PacketCallBack s = Some s' \<and> pPacketParmList s' ! i = pPacketParmList s ! i"
  proof (cases "find (waits_for s) [0..<packetListSize s]")
    case None
    then show ?thesis using PacketCallBack_eq [OF ok pk] by simp
  next
    case (Some k)
    then have "k \<noteq> i" using sl by (auto simp: find_upt_Some waits_for_def Let_def)
    then show ?thesis using PacketCallBack_eq [OF ok pk] Some by (simp add: answered_frame(8))
  qed
qed

theorem unsent_slot_stays_witness:
  "\<exists>s'. DobotV3CmdInter_Loop (DobotV3_start ()) = Some s' \<and> \<not> slotSend (pPacketParmList s' ! 7)"
  using unsent_slot_stays [of "\<lambda>_ _. []" "DobotV3_start ()" 7] start_ok [of "\<lambda>_ _. []" "()"]
  by (auto simp: system_ok_def empty_slot_def)

text \<open>
  The first sending of a command: \<open>DobotV3_SendCmd\<close> sets the slot's start time to one timeout
  ago, but the slot is not due at that moment. It is due \<open>d\<close> ticks later exactly when \<open>d\<close> is
  not zero and timeout and \<open>d\<close> together stay below 2^32, the wrap-around of the counter
  notwithstanding.
\<close>
theorem SendCmd_first_due:
  assumes free: "find_index (\<lambda>sl. \<not> userMark sl) (pPacketParmList s) = Some i" and N: "packetListSize s \<le> 256"
    and rules: "rules_ok (pMatchList s)" and mem: "length (pPacketList s) = packetListSize s * packetSize s"
    and p: "unat (ucast n :: u8) + 17 \<le> length p" and fits: "unat (ucast n :: u8) + 17 \<le> packetSize s"
  shows "\<exists>q s'. DobotV3_SendCmd h parm link p n ack s = Some (True, q, s') \<and>
     (let sl = pPacketParmList s' ! i in
      \<forall>d. IsTimeOut (DobotV3_TimeCNT d s') (timeOut (slotParm sl)) (timeStart sl) \<longleftrightarrow>
          d \<noteq> 0 \<and> unat (timeOut (sendParm s)) + unat d < 2 ^ 32)"
proof -
  have i: "i < packetListSize s" using free by (simp add: find_index_Some)
  have wrap: "t < t + d \<longleftrightarrow> d \<noteq> 0 \<and> unat t + unat d < 2 ^ 32" for t d :: u32
  proof -
    have b: "unat t < 2 ^ 32" "unat d < 2 ^ 32" 
      using unsigned_less [of t, where 'a = nat] unsigned_less [of d, where 'a = nat] by simp_all
    have "unat (t + d) = (unat t + unat d) mod 2 ^ 32" by (simp add: unat_word_ariths)
    then show ?thesis
      using b by (auto simp: word_less_nat_alt unat_gt_0 mod_if)
  qed
  from SendCmd_spec [OF free N rules mem p fits, of h parm link ack] show ?thesis
  proof (elim exE conjE, goal_cases)
    case (1 q s' sl)
    have l: "pPacketParmList s' = (pPacketParmList s)[i := sl]" "timeCNT s' = timeCNT s"
      by (subst 1(2), simp)+
    have e: "timeCNT s + d - (timeCNT s - t) = t + d" for t d :: u32 by simp
    show ?case
      using 1(1,8,9) i l wrap
      by (intro exI [of _ q] exI [of _ s'])
        (simp add: IsTimeOut_def DobotV3_TimeCNT_def ProtocolFrame_TIMECNT_def e Let_def)
  qed
qed

theorem SendCmd_first_due_witness:
  "\<exists>q s'. DobotV3_SendCmd handle5 (sendParm used_slots) (Some 0) (replicate 30 7) 4 False (DobotV3_start ()) = Some (True, q, s') \<and>
     \<not> IsTimeOut (DobotV3_TimeCNT 0 s') (timeOut (slotParm (pPacketParmList s' ! 0))) (timeStart (pPacketParmList s' ! 0))"
proof -
  have f: "find_index (\<lambda>sl. \<not> userMark sl) (pPacketParmList (DobotV3_start ())) = Some 0"
    by (simp add: find_index_Some empty_slot_def)
  show ?thesis
    using SendCmd_first_due [OF f, of 4 "replicate 30 7" handle5 "sendParm used_slots" "Some 0" False] matchList_ok
    by (auto simp: Let_def)
qed

end
