(* ===== verification/DobotSystem.thy ===== *)
theory DobotSystem imports DobotApi begin

text \<open>
  The library as a program uses it: the calls of \<open>DobotV3Func.c\<close> in any order, as a step
  relation, its invariant, and that the background run is defined in every reachable state.
\<close>


section \<open>The system as a whole\<close>

text \<open>
  What a program does with the library: it calls the functions of \<open>DobotV3Func.c\<close> one after the
  other, in any order. The conditions are on the caller: links are read and written by
  functions that keep the contract of the decoder, the last link registered is the first one
  destroyed, commands go to links with a send function and come in a buffer that holds them, two
  of the hundred slots stay free, and callbacks leave the input of the links alone. \<open>Outside\<close> is
  everything else that happens in the environment: input that arrives, too.
\<close>

inductive dobot_step :: "(nat \<Rightarrow> 'w \<Rightarrow> bytes) \<Rightarrow> 'w cmd_state \<Rightarrow> 'w cmd_state \<Rightarrow> bool" for input where
  Tick: "dobot_step input s (DobotV3_TimeCNT d s)"
| Outside: "dobot_step input s (s\<lparr>world := w\<rparr>)"
| Run: "DobotV3_Exec s = Some s' \<Longrightarrow> dobot_step input s s'"
| Register: "DobotV3_RegisterLink (Some send) (Some rd) s = Some (s', r) \<Longrightarrow>
    (\<forall>p. r = Some p \<longrightarrow> reads_input input p rd) \<Longrightarrow> dobot_step input s s'"
| Destroy: "DobotV3_DestoryLink p s = Some s' \<Longrightarrow> p < length (links s) \<Longrightarrow>
    (registered s p \<longrightarrow> GetLinkInFrame s p = Some (linkNum s - 1)) \<Longrightarrow> dobot_step input s s'"
| Send: "DobotV3_SendCmd h parm (Some l) p n ack s = Some (ret, q, s') \<Longrightarrow>
    l < length (links s) \<Longrightarrow> SendData (links s ! l) \<noteq> None \<Longrightarrow> unat (ucast n :: u8) + 17 \<le> length p \<Longrightarrow>
    (\<exists>i < 98. \<not> userMark (pPacketParmList s ! i)) \<Longrightarrow> dobot_step input s s'"
| SetParm: "dobot_step input s (DobotV3_SetSendParm rn tmo s)"
| Callback: "RegisterCB k ident cb s = Some (ret, s') \<Longrightarrow>
    (\<forall>f p w q. cb = Some f \<longrightarrow> input q (f p w) = input q w) \<Longrightarrow> dobot_step input s s'"

inductive_cases dobot_stepE: "dobot_step input s s'"

inductive reachable :: "(nat \<Rightarrow> 'w \<Rightarrow> bytes) \<Rightarrow> 'w cmd_state \<Rightarrow> bool" for input where
  Start: "reachable input (DobotV3_start w)"
| Step: "reachable input s \<Longrightarrow> dobot_step input s s' \<Longrightarrow> reachable input s'"

text \<open>The invariant: the parts are well formed, with the sizes of the declarations.\<close>

definition dobot_ok :: "(nat \<Rightarrow> 'w \<Rightarrow> bytes) \<Rightarrow> 'w cmd_state \<Rightarrow> bool" where
  "dobot_ok input s \<longleftrightarrow> system_ok input s \<and> length (links s) = 10 \<and> linkMaxNum s = 10 \<and>
     packetListSize s = 100 \<and> packetSize s = 256 \<and>
     (\<forall>p < 10. length (pDeMsgBuff (links s ! p)) = DobotV3Format_PACKET_LENGTH \<and>
               maxMsgNum (links s ! p) = DobotV3Format_PACKET_LENGTH)"

lemma cmd_ready_cong:
  "links t = links s \<Longrightarrow> pLinkList t = pLinkList s \<Longrightarrow>
   length (pPacket (pPacketParm t)) = length (pPacket (pPacketParm s)) \<Longrightarrow> cmd_ready input t = cmd_ready input s"
  by (simp only: decoder_ready_def registered_def)

text \<open>Steps that change neither the registry nor the links.\<close>

lemma dobot_ok_table:
  assumes ok: "dobot_ok input s" and t: "cmd_ok input t" "slot_links_ok t"
    and same: "links t = links s" "pLinkList t = pLinkList s" "linkNum t = linkNum s" "pPacketParm t = pPacketParm s"
      "packetListSize t = packetListSize s" "packetSize t = packetSize s"
  shows "dobot_ok input t"
proof -
  have "registry_ok t = registry_ok s" by (rule registry_ok_same) (simp_all add: same)
  moreover have "cmd_ready input t = cmd_ready input s" by (rule cmd_ready_cong) (simp_all add: same)
  ultimately show ?thesis
    using ok t unfolding dobot_ok_def system_ok_def loops_ready_def by (simp add: same)
qed

lemma dobot_ok_tick: "dobot_ok input s \<Longrightarrow> dobot_ok input (DobotV3_TimeCNT d s)"
proof (rule dobot_ok_table)
  assume "dobot_ok input s"
  then show "cmd_ok input (DobotV3_TimeCNT d s)" "slot_links_ok (DobotV3_TimeCNT d s)"
    by (simp_all add: dobot_ok_def system_ok_def loops_ready_def DobotV3_TimeCNT_def tick_kept)
qed (simp_all add: DobotV3_TimeCNT_def ProtocolFrame_TIMECNT_def)

lemma dobot_ok_parm: "dobot_ok input s \<Longrightarrow> dobot_ok input (DobotV3_SetSendParm rn tmo s)"
proof (rule dobot_ok_table)
  assume ok: "dobot_ok input s"
  have "cmd_ok input (DobotV3_SetSendParm rn tmo s) = cmd_ok input s"
    by (rule cmd_ok_cong) (simp_all add: DobotV3_SetSendParm_def SetDefultSendParm_def)
  then show "cmd_ok input (DobotV3_SetSendParm rn tmo s)" using ok by (simp add: dobot_ok_def system_ok_def)
  show "slot_links_ok (DobotV3_SetSendParm rn tmo s)"
    using ok by (simp add: dobot_ok_def system_ok_def loops_ready_def slot_links_ok_def
        DobotV3_SetSendParm_def SetDefultSendParm_def)
qed (simp_all add: DobotV3_SetSendParm_def SetDefultSendParm_def)

lemma dobot_ok_outside: "dobot_ok input s \<Longrightarrow> dobot_ok input (s\<lparr>world := w\<rparr>)"
  by (rule dobot_ok_table [where s = s])
    (simp_all add: dobot_ok_def system_ok_def loops_ready_def slot_links_ok_def cmd_ok_frame)

lemma RegisterCB_result:
  assumes "RegisterCB l ident cb s = Some (r, s')"
  shows "s' = s \<or> (\<exists>k. l < length (pCBLists s) \<and> s' = s\<lparr>pCBLists := (pCBLists s)[l := (pCBLists s ! l)[k := (ident, cb)]]\<rparr>)"
  using assms by (auto simp: RegisterCB_def Let_def split: if_splits option.splits)

lemma dobot_ok_callback:
  assumes ok: "dobot_ok input s" and r: "RegisterCB l ident cb s = Some (ret, s')"
    and cb: "\<forall>f p w q. cb = Some f \<longrightarrow> input q (f p w) = input q w"
  shows "dobot_ok input s'"
proof -
  consider "s' = s" | k where "l < length (pCBLists s)"
      "s' = s\<lparr>pCBLists := (pCBLists s)[l := (pCBLists s ! l)[k := (ident, cb)]]\<rparr>"
    using RegisterCB_result [OF r] by blast
  then show ?thesis
  proof cases
    case 1
    then show ?thesis using ok by simp
  next
    case 2
    have c: "cmd_ok input s" using ok by (simp add: dobot_ok_def system_ok_def)
    have old: "\<forall>p w q. input q (f p w) = input q w" if "cbs \<in> set (pCBLists s)" "(i, Some f) \<in> set cbs" for cbs i f
      using cmd_okD(2) [OF c] that unfolding callbacks_ok_def by blast
    have "\<forall>p w q. input q (f p w) = input q w"
      if cbs: "cbs \<in> set (pCBLists s')" and f: "(i, Some f) \<in> set cbs" for cbs i f
    proof -
      have "cbs \<in> set (pCBLists s) \<or> cbs = (pCBLists s ! l)[k := (ident, cb)]"
        using cbs 2(2) by (auto dest: set_update_subset_insert [THEN subsetD])
      then show ?thesis
      proof
        assume "cbs \<in> set (pCBLists s)" then show ?thesis using old f by blast
      next
        assume "cbs = (pCBLists s ! l)[k := (ident, cb)]"
        then have "(i, Some f) = (ident, cb) \<or> (i, Some f) \<in> set (pCBLists s ! l)"
          using f by (auto dest: set_update_subset_insert [THEN subsetD])
        then show ?thesis using cb old [of "pCBLists s ! l" i f] 2(1) by auto
      qed
    qed
    then have "callbacks_ok input s'"
      using cmd_okD(2) [OF c] 2(2) unfolding callbacks_ok_def by simp
    moreover have "slot_ok i s' sl = slot_ok i s sl" for i sl by (simp add: 2(2) slot_ok_def GETPKGADDR_def)
    ultimately have "cmd_ok input s'"
      using c unfolding cmd_ok_def by (simp add: 2(2))
    moreover have "slot_links_ok s'"
      using ok 2(2) by (simp add: dobot_ok_def system_ok_def loops_ready_def slot_links_ok_def)
    ultimately show ?thesis using 2(2) by (intro dobot_ok_table [OF ok]) simp_all
  qed
qed

text \<open>Sending: the slot given out is below the last two, and everything else stays.\<close>

lemma SendCmd_state:
  assumes free: "find_index (\<lambda>sl. \<not> userMark sl) (pPacketParmList s) = Some i" and N: "packetListSize s \<le> 256"
    and rules: "rules_ok (pMatchList s)" and mem: "length (pPacketList s) = packetListSize s * packetSize s"
    and p: "unat (ucast n :: u8) + 17 \<le> length p"
    and send: "DobotV3_SendCmd h parm link p n ack s = Some (ret, q, s')"
  shows "\<exists>m sl. s' = s\<lparr>pPacketList := m, pPacketParmList := (pPacketParmList s)[i := sl]\<rparr> \<and>
     length m = length (pPacketList s) \<and>
     (ruleIndex sl < length (pMatchList s) \<or> ruleIndex sl = ruleIndex (pPacketParmList s ! i)) \<and>
     (slotSend sl \<and> slotLink sl = link \<and> slotLength sl \<le> packetSize s \<and> slotLength sl \<le> 272 \<or>
      slotSend sl = slotSend (pPacketParmList s ! i) \<and> slotLink sl = slotLink (pPacketParmList s ! i) \<and>
      slotLength sl = slotLength (pPacketParmList s ! i) \<and> ruleMark sl = ruleMark (pPacketParmList s ! i))"
proof (cases "unat (ucast n :: u8) + 17 \<le> packetSize s")
  case True
  have b: "unat (ucast n :: u8) + 17 \<le> 272" using unat_u8_less [of "ucast n"] by linarith
  from SendCmd_spec [OF free N rules mem p True, of h parm link ack] show ?thesis
  proof (elim exE conjE, goal_cases)
    case (1 q' t sl)
    then have "s' = t" using send by simp
    then show ?case
      using 1 True b by (intro exI [of _ "pPacketList t"] exI [of _ sl]) simp
  qed
next
  case False
  note r = SendCmd_reserve [OF free]
  have "s' = s\<lparr>pPacketParmList := pPacketParmList s'\<rparr> \<and>
      (\<exists>sl. pPacketParmList s' = (pPacketParmList s)[i := sl] \<and>
      slotSend sl = slotSend (pPacketParmList s ! i) \<and> slotLink sl = slotLink (pPacketParmList s ! i) \<and>
      slotLength sl = slotLength (pPacketParmList s ! i) \<and> ruleMark sl = ruleMark (pPacketParmList s ! i) \<and>
      ruleIndex sl = ruleIndex (pPacketParmList s ! i))"
    using send False r(3) ISHANDLEERR_valid [OF r(2)] PacketEncoder_Some [OF p] unfolding r(1)
    by (auto simp: CmdSendData_def WritePacket_def upd_slot_Some reserved_def intro!: exI)
  then obtain sl where sl: "s' = s\<lparr>pPacketParmList := (pPacketParmList s)[i := sl]\<rparr>"
      "slotSend sl = slotSend (pPacketParmList s ! i)" "slotLink sl = slotLink (pPacketParmList s ! i)"
      "slotLength sl = slotLength (pPacketParmList s ! i)" "ruleMark sl = ruleMark (pPacketParmList s ! i)"
      "ruleIndex sl = ruleIndex (pPacketParmList s ! i)" by metis
  then show ?thesis by (intro exI [of _ "pPacketList s"] exI [of _ sl]) simp
qed

lemma dobot_ok_send:
  assumes ok: "dobot_ok input s" and send: "DobotV3_SendCmd h parm (Some l) p n ack s = Some (ret, q, s')"
    and l: "l < length (links s)" "SendData (links s ! l) \<noteq> None"
    and p: "unat (ucast n :: u8) + 17 \<le> length p" and room: "\<exists>i < 98. \<not> userMark (pPacketParmList s ! i)"
  shows "dobot_ok input s'"
proof -
  have c: "cmd_ok input s" and N: "packetListSize s = 100" "packetSize s = 256" and lk: "slot_links_ok s"
    using ok by (simp_all add: dobot_ok_def system_ok_def loops_ready_def)
  obtain k where k: "k < 98" "\<not> userMark (pPacketParmList s ! k)" using room by blast
  then obtain i where i: "find_index (\<lambda>sl. \<not> userMark sl) (pPacketParmList s) = Some i"
    using N by (cases "find_index (\<lambda>sl. \<not> userMark sl) (pPacketParmList s)") (auto simp: find_index_None)
  then have "i \<le> k" using k by (auto simp: find_index_Some not_less [symmetric])
  then have i98: "i < 98" using k by simp
  have len: "length (pPacketList s) = packetListSize s * packetSize s" by (rule cmd_okD(6) [OF c])
  have N': "packetListSize s \<le> 256" using N by simp
  obtain m sl where sl: "s' = s\<lparr>pPacketList := m, pPacketParmList := (pPacketParmList s)[i := sl]\<rparr>"
     "length m = length (pPacketList s)"
     "ruleIndex sl < length (pMatchList s) \<or> ruleIndex sl = ruleIndex (pPacketParmList s ! i)"
     "slotSend sl \<and> slotLink sl = Some l \<and> slotLength sl \<le> packetSize s \<and> slotLength sl \<le> 272 \<or>
      slotSend sl = slotSend (pPacketParmList s ! i) \<and> slotLink sl = slotLink (pPacketParmList s ! i) \<and>
      slotLength sl = slotLength (pPacketParmList s ! i) \<and> ruleMark sl = ruleMark (pPacketParmList s ! i)"
    using SendCmd_state [OF i N' cmd_okD(1) [OF c] len p send] by blast
  have iN: "i < packetListSize s" using i98 N by simp
  have old: "slot_ok i s (pPacketParmList s ! i)" by (rule cmd_okD(8) [OF c iN])
  have "GETPKGADDR s i + DobotV3Format_PACKET_LENGTH \<le> length (pPacketList s)"
    using i98 N len by (simp add: GETPKGADDR_def)
  then have "slot_ok i s sl" using old sl(3,4) unfolding slot_ok_def by auto
  then have "cmd_ok input (s\<lparr>pPacketList := m, pPacketParmList := (pPacketParmList s)[i := sl], loopIndex := loopIndex s\<rparr>)"
    by (intro cmd_ok_update [OF c sl(2) cmd_okD(7) [OF c]])
  then have c': "cmd_ok input s'" unfolding sl(1) by simp
  have "slotSend sl \<longrightarrow> sendable (links s) (slotLink sl)"
    using sl(4) lk iN l by (auto simp: slot_links_ok_def sendable_def)
  then have "slot_links_ok s'"
    using lk unfolding slot_links_ok_def sl(1) by (auto dest!: set_update_subset_insert [THEN subsetD])
  then show ?thesis using c' sl(1) by (intro dobot_ok_table [OF ok]) simp_all
qed

text \<open>Registering and destroying links: the table stays, and a frame without a hole gets none.\<close>

definition hole_free :: "('w, 'z) frame_state_scheme \<Rightarrow> bool" where
  "hole_free s \<longleftrightarrow> (\<forall>k < linkNum s. pLinkList s ! k \<noteq> None)"

lemma hole_free_first_null:
  assumes ok: "registry_ok s" and h: "hole_free s" and i: "GetNullLinkInFrame s = Some i"
  shows "i = linkNum s"
proof (rule antisym)
  have null: "i < linkMaxNum s" "pLinkList s ! i = None" "\<forall>j < i. pLinkList s ! j \<noteq> None"
    using i by (simp_all add: GetNullLinkInFrame_def find_index_Some)
  show "linkNum s \<le> i" using h null(2) by (auto simp: hole_free_def not_less [symmetric])
  have "filter (\<lambda>q. q \<noteq> None) (take i (pLinkList s)) = take i (pLinkList s)"
    using null by (intro filter_True) (auto simp: in_set_conv_nth)
  then have "i = length (filter (\<lambda>q. q \<noteq> None) (take i (pLinkList s)))" using null(1) by simp
  also have "\<dots> \<le> length (filter (\<lambda>q. q \<noteq> None) (pLinkList s))"
    by (metis append_take_drop_id filter_append le_add1 length_append)
  finally show "i \<le> linkNum s" using registry_okD(2) [OF ok] by simp
qed

lemma RegisterLink_state:
  fixes s :: "('w, 'z) frame_state_scheme"
  assumes ok: "registry_ok s" and h: "hole_free s" and n: "length (links s) = 10" "linkMaxNum s = 10"
    and r: "DobotV3_RegisterLink send rd s = Some (s', r)"
  shows "s' = s\<lparr>links := links s', pLinkList := pLinkList s', linkNum := linkNum s'\<rparr> \<and> hole_free s' \<and>
     linkMaxNum s' = linkMaxNum s"
proof (cases "GetUnUseLink s")
  case None
  then show ?thesis using r h by (simp add: DobotV3_RegisterLink_def)
next
  case (Some p)
  then have p: "p < 10" "\<not> registered s p"
    unfolding GetUnUseLink_def find_upt_Some GetLinkInFrame_None by blast+
  let ?l = "(links s ! p)\<lparr>readData := rd, SendData := send\<rparr>"
  let ?s1 = "s\<lparr>links := (links s)[p := ?l]\<rparr>"
  have up: "upd_link (\<lambda>l. l\<lparr>readData := rd, SendData := send\<rparr>) p s = Some ?s1"
    using p n by (simp add: upd_link_Some)
  have room: "linkNum s < linkMaxNum s" using unregistered_room [OF ok] p n by simp
  then obtain i where i: "GetNullLinkInFrame s = Some i"
    using free_entry [OF ok] GetNullLinkInFrame_None [of s] by (cases "GetNullLinkInFrame s") auto
  have il: "i = linkNum s" by (rule hole_free_first_null [OF ok h i])
  have g: "GetLinkInFrame ?s1 p = None" "GetNullLinkInFrame ?s1 = Some i"
    using p(2) i by (simp_all add: GetLinkInFrame_None registered_def) (simp add: GetNullLinkInFrame_def)
  have u: "u8n (linkNum s + 1) = Suc (linkNum s)" using room registry_okD(1) [OF ok] by simp
  have c: "ConnectFLFF p the_format the_funcs ?s1 =
      Some (?s1\<lparr>links := (links ?s1)[p := fresh_link the_format the_funcs ?l],
        pLinkList := (pLinkList s)[i := Some p], linkNum := Suc (linkNum s)\<rparr>, True)"
    using p n g u by (simp add: ConnectFLFF_eq)
  have "s' = ?s1\<lparr>links := (links ?s1)[p := fresh_link the_format the_funcs ?l],
        pLinkList := (pLinkList s)[i := Some p], linkNum := Suc (linkNum s)\<rparr>"
    using r Some up c by (auto simp: DobotV3_RegisterLink_def)
  then show ?thesis using h room by (auto simp: hole_free_def il nth_list_update less_Suc_eq)
qed

text \<open>A freshly connected link is ready for the decoder.\<close>

lemma fresh_link_ready:
  assumes "length (pDeMsgBuff l) = DobotV3Format_PACKET_LENGTH" and "maxMsgNum l = DobotV3Format_PACKET_LENGTH"
    and "reads_input input p rd"
  shows "dv3_idle (fresh_link f g (l\<lparr>readData := Some rd, SendData := sd\<rparr>))"
    and "link_ready input p (fresh_link f g (l\<lparr>readData := Some rd, SendData := sd\<rparr>))"
  using assms by (simp_all add: fresh_link_def idle_inv_def parse_inv_def link_macros link_ready_def)

lemma dobot_ok_register:
  assumes ok: "dobot_ok input s" and r: "DobotV3_RegisterLink (Some send) (Some rd) s = Some (s', r)"
    and rd: "\<forall>p. r = Some p \<longrightarrow> reads_input input p rd"
  shows "dobot_ok input s'"
proof -
  have parts: "cmd_ok input s" "registry_ok s" "hole_free s" "slot_links_ok s" "cmd_ready input s"
    "length (links s) = 10" "linkMaxNum s = 10" "packetListSize s = 100" "packetSize s = 256"
    "length (pPacket (pPacketParm s)) = DobotV3Format_PACKET_LENGTH"
    and bufs: "\<And>p. p < 10 \<Longrightarrow> length (pDeMsgBuff (links s ! p)) = DobotV3Format_PACKET_LENGTH \<and>
               maxMsgNum (links s ! p) = DobotV3Format_PACKET_LENGTH"
    using ok by (simp_all add: dobot_ok_def system_ok_def loops_ready_def hole_free_def)
  have st: "s' = s\<lparr>links := links s', pLinkList := pLinkList s', linkNum := linkNum s'\<rparr>" "hole_free s'"
     "linkMaxNum s' = linkMaxNum s"
    using RegisterLink_state [OF parts(2,3,6,7) r] by blast+
  obtain t q where t: "DobotV3_RegisterLink (Some send) (Some rd) s = Some (t, q)" "registry_ok t"
     "case q of
        None \<Rightarrow> t = s \<and> (\<forall>p < 10. registered s p)
      | Some p \<Rightarrow> p < 10 \<and> \<not> registered s p \<and> (\<forall>q < p. registered s q) \<and> registered t p \<and>
          (\<forall>q. q \<noteq> p \<longrightarrow> registered t q = registered s q) \<and>
          links t = (links s)[p := fresh_link the_format the_funcs ((links s ! p)\<lparr>readData := Some rd, SendData := Some send\<rparr>)]"
    using RegisterLink_spec [OF parts(2,6,7), of "Some send" "Some rd"] by blast
  then have [simp]: "t = s'" "q = r" using r by simp_all
  show ?thesis
  proof (cases r)
    case None
    then show ?thesis using t(3) ok by simp
  next
    case (Some p)
    let ?l = "fresh_link the_format the_funcs ((links s ! p)\<lparr>readData := Some rd, SendData := Some send\<rparr>)"
    have p: "p < 10" "\<And>q. q \<noteq> p \<Longrightarrow> registered s' q = registered s q" "links s' = (links s)[p := ?l]"
      using t(3) Some by simp_all
    note fl = fresh_link_ready [of "links s ! p" input p rd the_format the_funcs "Some send"]
    have rdp: "reads_input input p rd" using rd Some by simp
    have keep: "pPacketParmList s' = pPacketParmList s" "packetSize s' = packetSize s" "pPacketParm s' = pPacketParm s"
      by (subst st(1), simp)+
    have "cmd_ok input s' = cmd_ok input s" by (rule cmd_ok_cong) (subst st(1), simp)+
    moreover have "slot_links_ok s'"
      using parts(4,6) p(1,3) unfolding slot_links_ok_def keep
      by (auto simp: sendable_def nth_list_update fresh_link_def link_macros)
    moreover have "cmd_ready input s'"
      unfolding decoder_ready_def
    proof (intro conjI allI impI)
      show "length (pPacket (pPacketParm s')) = DobotV3Format_PACKET_LENGTH" using keep parts(10) by simp
      fix q assume q: "registered s' q"
      have "q < length (links s') \<and> dv3_idle (links s' ! q) \<and> link_ready input q (links s' ! q) \<and>
        (case pFormat (links s' ! q) of None \<Rightarrow> False | Some fid \<Rightarrow> formats cmd_env fid = DobotV3Format)"
      proof (cases "q = p")
        case True
        then show ?thesis using fl bufs [OF p(1)] rdp p(1,3) parts(6) by (simp add: fresh_link_def)
      next
        case False
        then show ?thesis using cmd.ready_linkD [OF parts(5)] q p(2,3) by (auto split: option.split)
      qed
      then show "q < length (links s')" "dv3_idle (links s' ! q)" "link_ready input q (links s' ! q)"
        "case pFormat (links s' ! q) of None \<Rightarrow> False | Some fid \<Rightarrow> formats cmd_env fid = DobotV3Format" by blast+
    qed
    moreover have "length (pDeMsgBuff (links s' ! q)) = DobotV3Format_PACKET_LENGTH \<and>
        maxMsgNum (links s' ! q) = DobotV3Format_PACKET_LENGTH" if "q < 10" for q
      using bufs [OF that] bufs [OF p(1)] p(1,3) parts(6) by (cases "q = p") (simp_all add: fresh_link_def link_macros)
    ultimately show ?thesis
      using parts st(2,3) t(2) p(3) by (simp add: dobot_ok_def system_ok_def loops_ready_def hole_free_def keep)
  qed
qed

lemma dobot_ok_destroy:
  assumes ok: "dobot_ok input s" and d: "DobotV3_DestoryLink p s = Some s'" and p: "p < length (links s)"
    and last: "registered s p \<longrightarrow> GetLinkInFrame s p = Some (linkNum s - 1)"
  shows "dobot_ok input s'"
proof (cases "registered s p \<and> disconnect_matches (Some the_format) (Some the_funcs) (links s ! p)")
  case False
  then have "DisConnectFLFF p (Some the_format) (Some the_funcs) s = Some (s, False)"
    using p GetLinkInFrame_Some [of s p] by (cases "GetLinkInFrame s p") (auto simp: DisConnectFLFF_eq)
  then show ?thesis using d ok by (simp add: DobotV3_DestoryLink_def)
next
  case True
  have parts: "cmd_ok input s" "registry_ok s" "hole_free s" "slot_links_ok s" "cmd_ready input s"
    "length (links s) = 10" "linkMaxNum s = 10" "packetListSize s = 100" "packetSize s = 256"
    "length (pPacket (pPacketParm s)) = DobotV3Format_PACKET_LENGTH"
    and bufs: "\<And>p. p < 10 \<Longrightarrow> length (pDeMsgBuff (links s ! p)) = DobotV3Format_PACKET_LENGTH \<and>
               maxMsgNum (links s ! p) = DobotV3Format_PACKET_LENGTH"
    using ok by (simp_all add: dobot_ok_def system_ok_def loops_ready_def hole_free_def)
  let ?i = "linkNum s - 1" and ?l = "(links s ! p)\<lparr>pFormat := None, pFuncList := None\<rparr>"
  have g: "GetLinkInFrame s p = Some ?i" using True last by blast
  note i = GetLinkInFrame_Some [OF g]
  have s': "s' = s\<lparr>links := (links s)[p := ?l], pLinkList := (pLinkList s)[?i := None], linkNum := u8n (linkNum s + 255)\<rparr>"
    using d True p g by (simp add: DobotV3_DestoryLink_def DisConnectFLFF_eq)
  have num: "linkNum s = Suc (linkNum s')"
    using registry_ok_leave(2) [OF parts(2), of ?i p] i s' by simp
  have reg: "registered s' q \<longleftrightarrow> q \<noteq> p \<and> registered s q" for q
    using set_update_None [of ?i "pLinkList s" p] i registry_okD(3) [OF parts(2)] by (simp add: registered_def s')
  have "registry_ok s'" using registry_ok_leave(1) [OF parts(2), of ?i p ?l] i s' by simp
  moreover have "hole_free s'"
    unfolding hole_free_def
  proof (intro allI impI)
    fix k assume "k < linkNum s'"
    then have k: "k < linkNum s" "k \<noteq> ?i" unfolding num by simp_all
    have "pLinkList s' ! k = pLinkList s ! k" using k(2) unfolding s' by simp
    then show "pLinkList s' ! k \<noteq> None" using parts(3) k(1) by (simp add: hole_free_def)
  qed
  moreover have "cmd_ok input s' = cmd_ok input s" by (rule cmd_ok_cong) (simp_all add: s')
  moreover have "SendData (links s' ! q) = SendData (links s ! q)" for q
    using p unfolding s' by (cases "q = p") simp_all
  then have "slot_links_ok s'"
    using parts(4) by (simp add: slot_links_ok_def sendable_def) (simp add: s')
  moreover have "cmd_ready input s'"
    unfolding decoder_ready_def
  proof (intro conjI allI impI)
    show "length (pPacket (pPacketParm s')) = DobotV3Format_PACKET_LENGTH" using parts(10) by (simp add: s')
    fix q assume "registered s' q"
    then have q: "q \<noteq> p" "registered s q" by (simp_all add: reg)
    have l: "links s' ! q = links s ! q" "length (links s') = length (links s)" using q(1) by (simp_all add: s')
    note d = cmd.ready_linkD [OF parts(5) q(2)]
    show "q < length (links s')" "dv3_idle (links s' ! q)" "link_ready input q (links s' ! q)"
      unfolding l by (rule d)+
    show "case pFormat (links s' ! q) of None \<Rightarrow> False | Some fid \<Rightarrow> formats cmd_env fid = DobotV3Format"
      using d(4) unfolding l by auto
  qed
  moreover have "length (pDeMsgBuff (links s' ! q)) = DobotV3Format_PACKET_LENGTH \<and>
      maxMsgNum (links s' ! q) = DobotV3Format_PACKET_LENGTH" if "q < 10" for q
    using bufs [OF that] p by (cases "q = p") (simp_all add: s')
  ultimately show ?thesis
    using parts by (simp add: dobot_ok_def system_ok_def loops_ready_def hole_free_def) (simp add: s')
qed

lemma dobot_ok_run:
  assumes ok: "dobot_ok input s"
  shows "\<exists>s'. DobotV3_Exec s = Some s' \<and> dobot_ok input s' \<and> timeCNT s' = timeCNT s \<and> pLinkList s' = pLinkList s"
proof -
  have sys: "system_ok input s" using ok by (simp add: dobot_ok_def)
  from Exec_ok [OF sys] obtain s' where s': "Exec cmd_env s = Some s'" "system_ok input s'" "timeCNT s' = timeCNT s"
     "pLinkList s' = pLinkList s" "same_conf s s'" "packetListSize s' = packetListSize s" "packetSize s' = packetSize s"
     "\<forall>q. \<not> registered s q \<longrightarrow> links s' ! q = links s ! q"
    by (elim exE conjE) (rule that; assumption)
  note c = same_conf_links [OF s'(5)]
  have "length (pDeMsgBuff (links s' ! q)) = DobotV3Format_PACKET_LENGTH \<and>
      maxMsgNum (links s' ! q) = DobotV3Format_PACKET_LENGTH" if q: "q < 10" for q
  proof (cases "registered s q")
    case True
    then have "registered s' q" using s'(4) by (simp add: registered_def)
    moreover have "cmd_ready input s'" using s'(2) by (simp add: system_ok_def)
    ultimately have "dv3_idle (links s' ! q)" by (simp add: cmd.ready_linkD)
    then show ?thesis by (simp add: idle_inv_def parse_inv_def)
  next
    case False
    then show ?thesis using s'(8) ok q by (simp add: dobot_ok_def)
  qed
  then have "dobot_ok input s'" using ok s' c(1) by (simp add: dobot_ok_def)
  then show ?thesis using s'(1,3,4) by (simp add: DobotV3_Exec_def)
qed

lemma reachable_ok: "reachable input s \<Longrightarrow> dobot_ok input s"
proof (induction rule: reachable.induct)
  case (Start w)
  show ?case
    using start_ok [of input w] by (simp add: dobot_ok_def ProtocolFrame_LINK_EXPORT_def)
next
  case (Step s s')
  from Step.hyps(2) show ?case
  proof cases
    case (Tick d)
    then show ?thesis using dobot_ok_tick [OF Step.IH] by simp
  next
    case (Outside w)
    then show ?thesis using dobot_ok_outside [OF Step.IH] by simp
  next
    case Run
    then show ?thesis using dobot_ok_run [OF Step.IH] by auto
  next
    case (Register send rd r)
    show ?thesis by (rule dobot_ok_register [OF Step.IH Register])
  next
    case (Destroy p)
    show ?thesis by (rule dobot_ok_destroy [OF Step.IH Destroy])
  next
    case (Send h parm l p n ack ret q)
    show ?thesis by (rule dobot_ok_send [OF Step.IH Send])
  next
    case (SetParm rn tmo)
    then show ?thesis using dobot_ok_parm [OF Step.IH] by simp
  next
    case (Callback k ident cb ret)
    show ?thesis by (rule dobot_ok_callback [OF Step.IH Callback])
  qed
qed

text \<open>
  C6. The next background run is defined in every state that a program reaches with the calls of
  \<open>DobotV3Func.c\<close> in any order, whatever the links have received and the callbacks do, if it keeps the
  conditions of \<open>dobot_step\<close>: a reader returns no more bytes than it is asked for and fewer than 256,
  links are destroyed in the reverse order of their registration, commands go to links with a send
  function, come in a buffer that holds them and find one of the first 98 slots free, and callbacks leave the input of the
  links alone. The run returns, without touching memory outside its buffers or dereferencing NULL,
  and leads to such a state again. Two of the conditions are known to be needed:
  \<open>hole_stops_exec\<close> below for the order in which links are destroyed, and the property of \<open>P3Adapter\<close> on
  long packets for the readers, where the adapter of the plugin does not keep it.
\<close>
theorem Exec_always_defined:
  assumes "reachable input s"
  shows "\<exists>s'. DobotV3_Exec s = Some s' \<and> reachable input s' \<and> timeCNT s' = timeCNT s \<and> pLinkList s' = pLinkList s"
  using dobot_ok_run [OF reachable_ok [OF assms]] reachable.Step [OF assms] dobot_step.Run by blast

theorem Exec_always_defined_witness:
  "\<exists>s'. DobotV3_Exec (DobotV3_TimeCNT 1 (DobotV3_start ())) = Some s' \<and> reachable (\<lambda>_ _. []) s'"
proof -
  have "reachable (\<lambda>_ _. []) (DobotV3_TimeCNT 1 (DobotV3_start ()))"
    by (rule reachable.Step [OF reachable.Start dobot_step.Tick])
  from Exec_always_defined [OF this] show ?thesis by blast
qed

section \<open>A hole in the registry\<close>

lemma foldM_stops:
  assumes "k \<in> set xs" and "P s" and "\<And>t. P t \<Longrightarrow> f k t = None"
    and "\<And>x t t'. P t \<Longrightarrow> f x t = Some t' \<Longrightarrow> P t'"
  shows "foldM f xs s = None"
  using assms(1,2)
proof (induction xs arbitrary: s)
  case (Cons x xs)
  show ?case
  proof (cases "f x s")
    case (Some t)
    then have "k \<in> set xs" using Cons.prems assms(3) by fastforce
    then show ?thesis using Cons.IH assms(4) [OF Cons.prems(2) Some] Some by simp
  qed simp
qed simp

text \<open>
  The condition on destroying links is needed: as soon as one of the first \<open>linkNum\<close> entries
  of the registry is NULL, because a link other than the last one registered was destroyed while
  others stay, the background run dereferences NULL, whatever else holds.
\<close>
theorem hole_stops_exec:
  assumes table: "cmd_ok input s" and ready: "cmd_ready input s"
    and k: "k < linkNum s" "pLinkList s ! k = None"
  shows "DobotV3_Exec s = None"
proof -
  have "table_to input (UNIV, packetListSize s, packetSize s) s" using table by (simp add: table_to_def)
  from cmd.DeLinkDecode_ready [OF ready this] obtain s1 where s1: "DeLinkDecode cmd_env s = Some s1"
      "frame_same DobotV3Format_PACKET_LENGTH s s1" by blast
  then have l: "linkNum s1 = linkNum s" "pLinkList s1 = pLinkList s" by (simp_all add: frame_same_def)
  have "FuncMarkClear s1 = None"
    unfolding FuncMarkClear_def
  proof (rule foldM_stops [where P = "\<lambda>t. pLinkList t = pLinkList s" and k = k])
    show "k \<in> set [0..<linkNum s1]" "pLinkList s1 = pLinkList s" using k l by simp_all
  qed (use k in \<open>auto split: if_splits bind_splits\<close>)
  then show ?thesis using s1(1) by (simp add: DobotV3_Exec_def Exec_def FuncLoop_def)
qed

text \<open>Two links were registered, the first of them was destroyed.\<close>

definition first_destroyed :: "unit cmd_state" where
  "first_destroyed = (DobotV3_start ())
     \<lparr>links := (links (DobotV3_start ()))[1 := fresh_link the_format the_funcs
        ((ProtocolFrame_LINK_EXPORT 500 DobotV3Format_PACKET_LENGTH)\<lparr>readData := Some (\<lambda>n w. ([], w))\<rparr>)],
      pLinkList := (replicate 10 None)[1 := Some 1], linkNum := 1\<rparr>"

theorem hole_stops_exec_witness: "DobotV3_Exec first_destroyed = None"
proof -
  have c: "cmd_ok (\<lambda>_ _. []) first_destroyed"
    using start_ok [of "\<lambda>_ _. []" "()"]
    by (subst cmd_ok_cong [where s = "DobotV3_start ()"]) (simp_all add: first_destroyed_def system_ok_def)
  have reg: "registered first_destroyed p \<longleftrightarrow> p = 1" for p
    by (auto simp: first_destroyed_def registered_def in_set_conv_nth nth_list_update split: if_splits)
  have i: "reads_input (\<lambda>_ _. []) 1 (\<lambda>n w. ([], w))" by (simp add: reads_input_def)
  note fl = fresh_link_ready [OF _ _ i, of "ProtocolFrame_LINK_EXPORT 500 DobotV3Format_PACKET_LENGTH" the_format the_funcs None]
  have l: "links first_destroyed ! 1 = fresh_link the_format the_funcs
      ((ProtocolFrame_LINK_EXPORT 500 DobotV3Format_PACKET_LENGTH)\<lparr>readData := Some (\<lambda>n w. ([], w)), SendData := None\<rparr>)"
    by (simp add: first_destroyed_def ProtocolFrame_LINK_EXPORT_def)
  have "cmd_ready (\<lambda>_ _. []) first_destroyed"
    unfolding decoder_ready_def reg using fl l
    by (simp add: ProtocolFrame_LINK_EXPORT_def) (simp add: first_destroyed_def fresh_link_def)
  from hole_stops_exec [OF c this, of 0] show ?thesis by (simp add: first_destroyed_def)
qed

end
