(* ===== verification/MzFrame.thy ===== *)
theory MzFrame imports DecodeLoops begin

text \<open>
  \<open>ProtocolFrame.h\<close> and \<open>ProtocolFrame.c\<close> of \<open>Plugins/ProtocolFramePlugin/DobotV3.0\<close>, the older
  version (2.0.0) of the protocol frame that the Mooz plugin uses: its types, its time base, the
  link macros, the packet parameters and the registry of links. Its decoder is in \<open>MzDecode\<close>.
  Links, decoding steps and function structures have the same fields in both versions, and the same
  types here; the names of the definitions of this version begin with \<open>Mz_\<close>.
\<close>

section \<open>Types\<close>

type_synonym Mz_StepParm = step_parm

type_synonym 's Mz_FuncStruct = "'s func_struct"

type_synonym 'w Mz_LinkParm = "'w link"

text \<open>\<open>struct ProtocolFrame_PacketParm\<close>: the error code has 8 bits, and there is no \<open>exitLoop\<close>.\<close>

record Mz_PacketParm =
  pLink :: "nat option"
  pPacket :: bytes
  packetLength :: nat
  errCode :: u8
  sendMark :: bool
  exitCallPack :: bool

record Mz_FormatParm =
  ErrCodeRead :: "(Mz_PacketParm \<Rightarrow> Mz_PacketParm) option"
  ErrCodeSend :: "(Mz_PacketParm \<Rightarrow> Mz_PacketParm) option"
  sof :: u8
  pStepList :: "Mz_StepParm list"

text \<open>The formats and function lists behind the pointers, by their numbers.\<close>

record 's Mz_FuncList =
  formats :: "nat \<Rightarrow> Mz_FormatParm"
  funcLists :: "nat \<Rightarrow> 's Mz_FuncStruct list"

text \<open>\<open>struct ProtocolFrameParm\<close> with the globals, as for the newer version.\<close>

record 'w Mz_Frame =
  timeCNT :: u32
  links :: "'w Mz_LinkParm list"
  pLinkList :: "nat option list"
  linkNum :: nat
  pPacketParm :: Mz_PacketParm
  loopMark :: "nat \<Rightarrow> nat \<Rightarrow> bool"
  world :: 'w

abbreviation linkMaxNum :: "('w, 'z) Mz_Frame_scheme \<Rightarrow> nat" where
  "linkMaxNum s \<equiv> length (pLinkList s)"

definition Mz_LINK_EXPORT :: "u16 \<Rightarrow> nat \<Rightarrow> (nat \<Rightarrow> 'w \<Rightarrow> bytes \<times> 'w) option \<Rightarrow> (bytes \<Rightarrow> 'w \<Rightarrow> 'w) option \<Rightarrow>
    'w Mz_LinkParm" where
  "Mz_LINK_EXPORT timeOut packetMaxSize rd send =
    \<lparr>deTimeOut = timeOut, pDeMsgBuff = replicate packetMaxSize 0, maxMsgNum = packetMaxSize,
     readData = rd, SendData = send, enable = True, sofMark = False,
     pFormat = None, pFuncList = None, msgReadIndex = 0, msgWriteIndex = 0,
     deStep = 0, deLenght = 0, deStepLength = 0, deStartTime = 0\<rparr>"

definition Mz_FRAME_EXPORT :: "nat \<Rightarrow> nat \<Rightarrow> 'w Mz_LinkParm list \<Rightarrow> 'w \<Rightarrow> 'w Mz_Frame" where
  "Mz_FRAME_EXPORT packetMaxSize maxNum ls w =
    \<lparr>timeCNT = 0, links = ls, pLinkList = replicate maxNum None, linkNum = 0,
     pPacketParm = \<lparr>pLink = None, pPacket = replicate packetMaxSize 0, packetLength = 0,
                    errCode = 0, sendMark = False, exitCallPack = False\<rparr>,
     loopMark = (\<lambda>_ _. False), world = w\<rparr>"

section \<open>Time\<close>

definition Mz_TIMECNT :: "u32 \<Rightarrow> ('w, 'z) Mz_Frame_scheme \<Rightarrow> ('w, 'z) Mz_Frame_scheme" where
  "Mz_TIMECNT ms s = s\<lparr>timeCNT := timeCNT s + ms\<rparr>"

definition Mz_GetStartTime :: "('w, 'z) Mz_Frame_scheme \<Rightarrow> u32" where
  "Mz_GetStartTime s = timeCNT s"

definition Mz_IsTimeOut :: "('w, 'z) Mz_Frame_scheme \<Rightarrow> u32 \<Rightarrow> u32 \<Rightarrow> bool" where
  "Mz_IsTimeOut s timeOut timeStart \<longleftrightarrow> timeCNT s - timeStart > timeOut"

definition Mz_GetTimeElapse :: "('w, 'z) Mz_Frame_scheme \<Rightarrow> u32 \<Rightarrow> u32" where
  "Mz_GetTimeElapse s timeStart = timeCNT s - timeStart"

section \<open>The link macros\<close>

definition Mz_MSGCLEAR :: "'w Mz_LinkParm \<Rightarrow> 'w Mz_LinkParm" where
  "Mz_MSGCLEAR l = l\<lparr>msgReadIndex := 0, msgWriteIndex := 0\<rparr>"

definition Mz_MSGWRITE :: "u8 \<Rightarrow> 'w Mz_LinkParm \<Rightarrow> 'w Mz_LinkParm option" where
  "Mz_MSGWRITE msg l = do {
     buf \<leftarrow> wr8 (pDeMsgBuff l) (msgWriteIndex l) msg;
     Some (l\<lparr>pDeMsgBuff := buf, msgWriteIndex := u32n (msgWriteIndex l + 1)\<rparr>) }"

definition Mz_MSGREAD :: "'w Mz_LinkParm \<Rightarrow> (u8 \<times> 'w Mz_LinkParm) option" where
  "Mz_MSGREAD l = do {
     msg \<leftarrow> rd8 (pDeMsgBuff l) (msgReadIndex l);
     Some (msg, l\<lparr>msgReadIndex := u32n (msgReadIndex l + 1)\<rparr>) }"

definition Mz_MSGSETREADINDEX :: "nat \<Rightarrow> 'w Mz_LinkParm \<Rightarrow> 'w Mz_LinkParm" where
  "Mz_MSGSETREADINDEX execIndex l = l\<lparr>msgReadIndex := execIndex\<rparr>"

definition Mz_STEPCLEAR :: "'w Mz_LinkParm \<Rightarrow> 'w Mz_LinkParm" where
  "Mz_STEPCLEAR l = l\<lparr>deStep := 0, deLenght := 0, sofMark := False\<rparr>"

definition Mz_LinkMsgToZero :: "nat \<Rightarrow> nat \<Rightarrow> 'w Mz_LinkParm \<Rightarrow> 'w Mz_LinkParm option" where
  "Mz_LinkMsgToZero moveIndex lenght l = do {
     buf \<leftarrow> foldM (\<lambda>cir b. do { v \<leftarrow> rd8 b (moveIndex + cir); wr8 b cir v }) [0..<lenght] (pDeMsgBuff l);
     Some (l\<lparr>pDeMsgBuff := buf, msgWriteIndex := lenght\<rparr>) }"

lemmas Mz_link_macros = Mz_MSGCLEAR_def Mz_MSGSETREADINDEX_def Mz_STEPCLEAR_def

lemma Mz_LinkMsgToZero_Some [mem_safe]:
  assumes "m + n \<le> length (pDeMsgBuff l)"
  shows "Mz_LinkMsgToZero m n l =
     Some (l\<lparr>pDeMsgBuff := take n (drop m (pDeMsgBuff l)) @ drop n (pDeMsgBuff l), msgWriteIndex := n\<rparr>)"
  by (simp add: Mz_LinkMsgToZero_def move_loop [OF assms])

section \<open>Links and packet parameters of a frame\<close>

definition Mz_get_link :: "nat \<Rightarrow> ('w, 'z) Mz_Frame_scheme \<Rightarrow> 'w Mz_LinkParm option" where
  "Mz_get_link i s = (if i < length (links s) then Some (links s ! i) else None)"

definition Mz_set_link :: "nat \<Rightarrow> 'w Mz_LinkParm \<Rightarrow> ('w, 'z) Mz_Frame_scheme \<Rightarrow> ('w, 'z) Mz_Frame_scheme" where
  "Mz_set_link i l s = s\<lparr>links := (links s)[i := l]\<rparr>"

definition Mz_upd_link :: "('w Mz_LinkParm \<Rightarrow> 'w Mz_LinkParm) \<Rightarrow> nat \<Rightarrow> ('w, 'z) Mz_Frame_scheme \<Rightarrow>
    ('w, 'z) Mz_Frame_scheme option" where
  "Mz_upd_link f i s = do { l \<leftarrow> Mz_get_link i s; Some (Mz_set_link i (f l) s) }"

lemma Mz_get_link_Some [mem_safe]: "i < length (links s) \<Longrightarrow> Mz_get_link i s = Some (links s ! i)"
  by (simp add: Mz_get_link_def)

lemma Mz_upd_link_Some [mem_safe]:
  "i < length (links s) \<Longrightarrow> Mz_upd_link f i s = Some (s\<lparr>links := (links s)[i := f (links s ! i)]\<rparr>)"
  by (simp add: Mz_upd_link_def Mz_get_link_def Mz_set_link_def)

text \<open>The length is a \<open>uint8_t\<close>: of a longer packet, the remainder modulo 256 is handed over.\<close>

definition Mz_PacketParmFill :: "nat option \<Rightarrow> bytes option \<Rightarrow> nat \<Rightarrow> ('w, 'z) Mz_Frame_scheme \<Rightarrow>
    ('w, 'z) Mz_Frame_scheme option" where
  "Mz_PacketParmFill p src len s = do {
     let n = u8n len;
     buf \<leftarrow> (case src of
              None \<Rightarrow> Some (pPacket (pPacketParm s))
            | Some b \<Rightarrow> do { d \<leftarrow> rd_range b 0 n; wr_range (pPacket (pPacketParm s)) 0 d });
     Some (s\<lparr>pPacketParm := \<lparr>pLink = p, pPacket = buf, packetLength = n, errCode = 0,
               sendMark = False, exitCallPack = False\<rparr>\<rparr>) }"

section \<open>The registry\<close>

definition Mz_GetLinkInFrame :: "('w, 'z) Mz_Frame_scheme \<Rightarrow> nat \<Rightarrow> nat option" where
  "Mz_GetLinkInFrame s p = find_index (\<lambda>q. q = Some p) (pLinkList s)"

definition Mz_GetNullLinkInFrame :: "('w, 'z) Mz_Frame_scheme \<Rightarrow> nat option" where
  "Mz_GetNullLinkInFrame s = find_index (\<lambda>q. q = None) (pLinkList s)"

definition Mz_GetLinkIsEnable :: "nat \<Rightarrow> ('w, 'z) Mz_Frame_scheme \<Rightarrow> bool option" where
  "Mz_GetLinkIsEnable p s = map_option enable (Mz_get_link p s)"

definition Mz_SetLinkIsEnable :: "nat \<Rightarrow> bool \<Rightarrow> ('w, 'z) Mz_Frame_scheme \<Rightarrow> ('w, 'z) Mz_Frame_scheme option" where
  "Mz_SetLinkIsEnable p status s = do {
     l \<leftarrow> Mz_get_link p s;
     if status = enable l then Some s
     else Mz_upd_link (\<lambda>l. (if status then Mz_MSGCLEAR (Mz_STEPCLEAR l) else l)\<lparr>enable := status\<rparr>) p s }"

definition Mz_SetLinkEnableOnly :: "nat \<Rightarrow> ('w, 'z) Mz_Frame_scheme \<Rightarrow> ('w, 'z) Mz_Frame_scheme option" where
  "Mz_SetLinkEnableOnly p s = foldM (\<lambda>cir s.
     if linkMaxNum s \<le> cir then None else do {
       q \<leftarrow> pLinkList s ! cir;
       l \<leftarrow> Mz_get_link q s;
       if q \<noteq> p then Mz_upd_link (\<lambda>l. l\<lparr>enable := False\<rparr>) q s
       else do {
         s \<leftarrow> (if \<not> enable l then Mz_upd_link (\<lambda>l. Mz_MSGCLEAR (Mz_STEPCLEAR l)) p s else Some s);
         Mz_upd_link (\<lambda>l. l\<lparr>enable := True\<rparr>) q s } })
     [0..<linkNum s] s"

definition Mz_SetLinkDisableOnly :: "nat \<Rightarrow> ('w, 'z) Mz_Frame_scheme \<Rightarrow> ('w, 'z) Mz_Frame_scheme option" where
  "Mz_SetLinkDisableOnly p s = foldM (\<lambda>cir s.
     if linkMaxNum s \<le> cir then None else do {
       q \<leftarrow> pLinkList s ! cir;
       l \<leftarrow> Mz_get_link q s;
       if q \<noteq> p then do {
         s \<leftarrow> (if \<not> enable l then Mz_upd_link (\<lambda>l. Mz_MSGCLEAR (Mz_STEPCLEAR l)) p s else Some s);
         Mz_upd_link (\<lambda>l. l\<lparr>enable := True\<rparr>) q s }
       else Mz_upd_link (\<lambda>l. l\<lparr>enable := False\<rparr>) q s })
     [0..<linkNum s] s"

definition Mz_RegisterLink :: "nat \<Rightarrow> ('w, 'z) Mz_Frame_scheme \<Rightarrow> (('w, 'z) Mz_Frame_scheme \<times> bool) option" where
  "Mz_RegisterLink p s =
     (case (case Mz_GetLinkInFrame s p of
              Some index \<Rightarrow> Some (index, s)
            | None \<Rightarrow> (case Mz_GetNullLinkInFrame s of
                None \<Rightarrow> None
              | Some index \<Rightarrow> Some (index, s\<lparr>linkNum := u8n (linkNum s + 1)\<rparr>))) of
        None \<Rightarrow> Some (s, False)
      | Some (index, s) \<Rightarrow> do {
          s \<leftarrow> Mz_upd_link (\<lambda>l. Mz_MSGCLEAR (Mz_STEPCLEAR l)) p s;
          Some (s\<lparr>pLinkList := (pLinkList s)[index := Some p]\<rparr>, True) })"

definition Mz_ConnectFLFF :: "nat \<Rightarrow> nat \<Rightarrow> nat \<Rightarrow> ('w, 'z) Mz_Frame_scheme \<Rightarrow> ('w, 'z) Mz_Frame_scheme option" where
  "Mz_ConnectFLFF p fmt fl s = do {
     (s, ok) \<leftarrow> Mz_RegisterLink p s;
     if ok then Mz_upd_link (\<lambda>l. l\<lparr>pFormat := Some fmt, pFuncList := Some fl\<rparr>) p s
     else Some s }"

end
