(* ===== verification/MzDecode.thy ===== *)
theory MzDecode imports MzFrame begin

text \<open>
  The execution part of \<open>ProtocolFrame.c\<close>, version 2.0.0: handing packets to the functions of a
  link, the loops of the functions, and the decoder, which reads a link byte by byte
  (\<open>DecodeInLink\<close>) and goes back into the buffer when a check fails or the time is over
  (\<open>DecodeInMsgBuf\<close>). The \<open>while\<close> loops are partial functions; \<^term>\<open>None\<close> is undefined behaviour
  or a loop that does not end. The entries of a function list are the structures that its pointers
  refer to: this version does not look for NULL among them.
\<close>

section \<open>Sending and dispatching\<close>

text \<open>What both callers do with a packet that is to be sent.\<close>

definition Mz_send :: "('w, 'z) Mz_Frame_scheme Mz_FuncList \<Rightarrow> ('w, 'z) Mz_Frame_scheme \<Rightarrow>
    ('w, 'z) Mz_Frame_scheme option" where
  "Mz_send E s = do {
     p \<leftarrow> pLink (pPacketParm s);
     l \<leftarrow> Mz_get_link p s;
     s \<leftarrow> (if errCode (pPacketParm s) \<noteq> 0 then do {
            fmt \<leftarrow> pFormat l;
            (case ErrCodeSend (formats E fmt) of
               None \<Rightarrow> Some s
             | Some f \<Rightarrow> Some (s\<lparr>pPacketParm := f (pPacketParm s)\<rparr>)) }
          else Some s);
     p \<leftarrow> pLink (pPacketParm s);
     l \<leftarrow> Mz_get_link p s;
     f \<leftarrow> SendData l;
     d \<leftarrow> rd_range (pPacket (pPacketParm s)) 0 (packetLength (pPacketParm s));
     Some (s\<lparr>world := f d (world s)\<rparr>) }"

fun Mz_call_functions :: "('w, 'z) Mz_Frame_scheme Mz_FuncList \<Rightarrow> ('w, 'z) Mz_Frame_scheme Mz_FuncStruct list \<Rightarrow>
    ('w, 'z) Mz_Frame_scheme \<Rightarrow> ('w, 'z) Mz_Frame_scheme option" where
  "Mz_call_functions E [] s = Some s"
| "Mz_call_functions E (f # fs) s =
     (case PacketCallBack f of
        None \<Rightarrow> Mz_call_functions E fs s
      | Some cb \<Rightarrow> do {
          s \<leftarrow> cb s;
          s \<leftarrow> (if sendMark (pPacketParm s) then Mz_send E s else Some s);
          if exitCallPack (pPacketParm s) then Some s else Mz_call_functions E fs s })"

definition Mz_FuncCallBack :: "('w, 'z) Mz_Frame_scheme Mz_FuncList \<Rightarrow> ('w, 'z) Mz_Frame_scheme \<Rightarrow>
    ('w, 'z) Mz_Frame_scheme option" where
  "Mz_FuncCallBack E s = do {
     p \<leftarrow> pLink (pPacketParm s);
     l \<leftarrow> Mz_get_link p s;
     fl \<leftarrow> pFuncList l;
     Mz_call_functions E (funcLists E fl) s }"

section \<open>Loops of the functions\<close>

definition Mz_FuncMarkClear :: "('w, 'z) Mz_Frame_scheme \<Rightarrow> ('w, 'z) Mz_Frame_scheme option" where
  "Mz_FuncMarkClear s = foldM (\<lambda>cir s.
     if linkMaxNum s \<le> cir then None else do {
       p \<leftarrow> pLinkList s ! cir;
       l \<leftarrow> Mz_get_link p s;
       fl \<leftarrow> pFuncList l;
       Some (s\<lparr>loopMark := (loopMark s)(fl := (\<lambda>_. False))\<rparr>) })
     [0..<linkNum s] s"

text \<open>The \<open>while(1)\<close> around one \<open>Loop\<close> function.\<close>

partial_function (option) Mz_run_loop :: "('w, 'z) Mz_Frame_scheme Mz_FuncList \<Rightarrow>
    (('w, 'z) Mz_Frame_scheme \<Rightarrow> ('w, 'z) Mz_Frame_scheme option) \<Rightarrow> ('w, 'z) Mz_Frame_scheme \<Rightarrow>
    ('w, 'z) Mz_Frame_scheme option" where
  "Mz_run_loop E f s = do {
     s \<leftarrow> Mz_PacketParmFill None None 0 s;
     s \<leftarrow> f s;
     s \<leftarrow> (if pLink (pPacketParm s) \<noteq> None \<and> sendMark (pPacketParm s) then Mz_send E s else Some s);
     if exitCallPack (pPacketParm s) then Some s else Mz_run_loop E f s }"

definition Mz_mark_loop :: "nat \<Rightarrow> nat \<Rightarrow> ('w, 'z) Mz_Frame_scheme \<Rightarrow> ('w, 'z) Mz_Frame_scheme" where
  "Mz_mark_loop fl i s = s\<lparr>loopMark := (loopMark s)(fl := (loopMark s fl)(i := True))\<rparr>"

definition Mz_FuncLoop :: "('w, 'z) Mz_Frame_scheme Mz_FuncList \<Rightarrow> ('w, 'z) Mz_Frame_scheme \<Rightarrow>
    ('w, 'z) Mz_Frame_scheme option" where
  "Mz_FuncLoop E s = do {
     s \<leftarrow> Mz_FuncMarkClear s;
     foldM (\<lambda>cir1 s.
       if linkMaxNum s \<le> cir1 then None else do {
         p \<leftarrow> pLinkList s ! cir1;
         l \<leftarrow> Mz_get_link p s;
         fl \<leftarrow> pFuncList l;
         foldM (\<lambda>cir2 s.
           if loopMark s fl cir2 then Some s
           else (case Loop (funcLists E fl ! cir2) of
               None \<Rightarrow> Some (Mz_mark_loop fl cir2 s)
             | Some g \<Rightarrow> do { s \<leftarrow> Mz_run_loop E g s; Some (Mz_mark_loop fl cir2 s) }))
           [0..<length (funcLists E fl)] s })
     [0..<linkNum s] s }"

section \<open>Decoding\<close>

definition Mz_step_of :: "Mz_FormatParm \<Rightarrow> nat \<Rightarrow> Mz_StepParm option" where
  "Mz_step_of fmt i = (if i < length (pStepList fmt) then Some (pStepList fmt ! i) else None)"

text \<open>How an iteration of a loop goes on: with the next byte, back in the buffer, or with a packet.\<close>

datatype Mz_next = Mz_More | Mz_Again | Mz_Complete

text \<open>
  What both loops do with a byte, the buffer being what the bytes from the preamble on are stored
  in. The preamble starts the first step; each following byte counts, and the step is checked when
  its length is reached.
\<close>

definition Mz_start_step :: "Mz_FormatParm \<Rightarrow> u32 \<Rightarrow> bytes \<Rightarrow> 'w Mz_LinkParm \<Rightarrow> 'w Mz_LinkParm option" where
  "Mz_start_step fmt now buf l = do {
     let l = l\<lparr>deLenght := u16n (deLenght l + 1), sofMark := True\<rparr>;
     st \<leftarrow> Mz_step_of fmt (deStep l);
     n \<leftarrow> GetLength st buf (deLenght l);
     Some (l\<lparr>deStepLength := n, deStartTime := now\<rparr>) }"

definition Mz_next_step :: "Mz_FormatParm \<Rightarrow> bytes \<Rightarrow> 'w Mz_LinkParm \<Rightarrow> ('w Mz_LinkParm \<times> Mz_next) option" where
  "Mz_next_step fmt buf l =
     (if deLenght l < deStepLength l then Some (l, Mz_More)
      else do {
        st \<leftarrow> Mz_step_of fmt (deStep l);
        r \<leftarrow> StepCheck st buf (deLenght l);
        if r = ProtocolFrame_DEFALSE then Some (l, Mz_Again)
        else do {
          let l = l\<lparr>deStep := u8n (deStep l + 1)\<rparr>;
          if deStep l < length (pStepList fmt) then do {
            st \<leftarrow> Mz_step_of fmt (deStep l);
            n \<leftarrow> GetLength st buf (deLenght l);
            Some (l\<lparr>deStepLength := n\<rparr>, Mz_More) }
          else Some (l, Mz_Complete) } })"

text \<open>An iteration of \<open>DecodeInMsgBuf\<close> on the link and \<open>msgStartIndex\<close>, up to the callbacks.\<close>

definition Mz_msgbuf_byte :: "Mz_FormatParm \<Rightarrow> u32 \<Rightarrow> 'w Mz_LinkParm \<Rightarrow> nat \<Rightarrow>
    ('w Mz_LinkParm \<times> nat \<times> bool) option" where
  "Mz_msgbuf_byte fmt now l start = do {
     (data, l) \<leftarrow> Mz_MSGREAD l;
     if \<not> sofMark l then
       if data = sof fmt then do {
         let start = sub32 (msgReadIndex l) 1;
         l \<leftarrow> Mz_start_step fmt now (drop start (pDeMsgBuff l)) l;
         Some (l, start, False) }
       else Some (l, start, False)
     else do {
       (l, next) \<leftarrow> Mz_next_step fmt (drop start (pDeMsgBuff l)) (l\<lparr>deLenght := u16n (deLenght l + 1)\<rparr>);
       (case next of
          Mz_More \<Rightarrow> Some (l, start, False)
        | Mz_Again \<Rightarrow> Some (Mz_STEPCLEAR (Mz_MSGSETREADINDEX (u32n (start + 1)) l), start, False)
        | Mz_Complete \<Rightarrow> Some (l, start, True)) } }"

definition Mz_deliver :: "('w, 'z) Mz_Frame_scheme Mz_FuncList \<Rightarrow> Mz_FormatParm \<Rightarrow> nat \<Rightarrow> bytes \<Rightarrow> nat \<Rightarrow>
    ('w, 'z) Mz_Frame_scheme \<Rightarrow> ('w, 'z) Mz_Frame_scheme option" where
  "Mz_deliver E fmt p buf n s = do {
     s \<leftarrow> Mz_PacketParmFill (Some p) (Some buf) n s;
     let s = (case ErrCodeRead fmt of None \<Rightarrow> s | Some f \<Rightarrow> s\<lparr>pPacketParm := f (pPacketParm s)\<rparr>);
     Mz_FuncCallBack E s }"

partial_function (option) Mz_msgbuf_bytes :: "('w, 'z) Mz_Frame_scheme Mz_FuncList \<Rightarrow> Mz_FormatParm \<Rightarrow> nat \<Rightarrow>
    nat \<Rightarrow> ('w, 'z) Mz_Frame_scheme \<Rightarrow> (nat \<times> ('w, 'z) Mz_Frame_scheme) option" where
  "Mz_msgbuf_bytes E fmt p start s = do {
     l \<leftarrow> Mz_get_link p s;
     if \<not> msgReadIndex l < msgWriteIndex l then Some (start, s)
     else do {
       (l, start, complete) \<leftarrow> Mz_msgbuf_byte fmt (Mz_GetStartTime s) l start;
       let s = Mz_set_link p l s;
       if \<not> complete then Mz_msgbuf_bytes E fmt p start s
       else do {
         s \<leftarrow> Mz_deliver E fmt p (drop start (pDeMsgBuff l)) (deLenght l) s;
         s \<leftarrow> Mz_upd_link Mz_STEPCLEAR p s;
         Mz_msgbuf_bytes E fmt p start s } } }"

definition Mz_DecodeInMsgBuf :: "('w, 'z) Mz_Frame_scheme Mz_FuncList \<Rightarrow> Mz_FormatParm \<Rightarrow> nat \<Rightarrow>
    ('w, 'z) Mz_Frame_scheme \<Rightarrow> ('w, 'z) Mz_Frame_scheme option" where
  "Mz_DecodeInMsgBuf E fmt p s = do {
     s \<leftarrow> Mz_upd_link (\<lambda>l. Mz_MSGSETREADINDEX 1 (Mz_STEPCLEAR l)) p s;
     (start, s) \<leftarrow> Mz_msgbuf_bytes E fmt p 0 s;
     l \<leftarrow> Mz_get_link p s;
     l \<leftarrow> Mz_LinkMsgToZero start (deLenght l) l;
     Some (Mz_set_link p l s) }"

text \<open>An iteration of \<open>DecodeInLink\<close> on the link, for a byte just read.\<close>

definition Mz_link_byte :: "Mz_FormatParm \<Rightarrow> u32 \<Rightarrow> u8 \<Rightarrow> 'w Mz_LinkParm \<Rightarrow> ('w Mz_LinkParm \<times> Mz_next) option" where
  "Mz_link_byte fmt now data l =
     (if \<not> sofMark l then
        if data = sof fmt then do {
          l \<leftarrow> Mz_MSGWRITE data l;
          l \<leftarrow> Mz_start_step fmt now (pDeMsgBuff l) l;
          Some (l, Mz_More) }
        else Some (l, Mz_More)
      else do {
        l \<leftarrow> Mz_MSGWRITE data (l\<lparr>deLenght := u16n (deLenght l + 1)\<rparr>);
        Mz_next_step fmt (pDeMsgBuff l) l })"

text \<open>
  \<open>readData(&data, 1)\<close>: a reader that stores more than the one byte it is asked for writes
  behind the variable.
\<close>

definition Mz_read :: "'w Mz_LinkParm \<Rightarrow> 'w \<Rightarrow> (u8 option \<times> 'w) option" where
  "Mz_read l w = do {
     rd \<leftarrow> readData l;
     (case rd 1 w of
        ([], w) \<Rightarrow> Some (None, w)
      | ([data], w) \<Rightarrow> Some (Some data, w)
      | _ \<Rightarrow> None) }"

partial_function (option) Mz_link_bytes :: "('w, 'z) Mz_Frame_scheme Mz_FuncList \<Rightarrow> Mz_FormatParm \<Rightarrow> nat \<Rightarrow>
    ('w, 'z) Mz_Frame_scheme \<Rightarrow> ('w, 'z) Mz_Frame_scheme option" where
  "Mz_link_bytes E fmt p s = do {
     l \<leftarrow> Mz_get_link p s;
     (d, w) \<leftarrow> Mz_read l (world s);
     let s = s\<lparr>world := w\<rparr>;
     (case d of
        None \<Rightarrow> Some s
      | Some data \<Rightarrow> do {
          (l, next) \<leftarrow> Mz_link_byte fmt (Mz_GetStartTime s) data l;
          let s = Mz_set_link p l s;
          (case next of
             Mz_More \<Rightarrow> Mz_link_bytes E fmt p s
           | Mz_Again \<Rightarrow> do { s \<leftarrow> Mz_DecodeInMsgBuf E fmt p s; Mz_link_bytes E fmt p s }
           | Mz_Complete \<Rightarrow> do {
               s \<leftarrow> Mz_deliver E fmt p (pDeMsgBuff l) (deLenght l) s;
               s \<leftarrow> Mz_upd_link (\<lambda>l. Mz_MSGCLEAR (Mz_STEPCLEAR l)) p s;
               Mz_link_bytes E fmt p s }) }) }"

definition Mz_DecodeInLink :: "('w, 'z) Mz_Frame_scheme Mz_FuncList \<Rightarrow> nat \<Rightarrow> ('w, 'z) Mz_Frame_scheme \<Rightarrow>
    ('w, 'z) Mz_Frame_scheme option" where
  "Mz_DecodeInLink E p s = do {
     l \<leftarrow> Mz_get_link p s;
     if \<not> enable l then Mz_upd_link (\<lambda>l. Mz_MSGCLEAR (Mz_STEPCLEAR l)) p s
     else do {
       fid \<leftarrow> pFormat l;
       let fmt = formats E fid;
       s \<leftarrow> Mz_link_bytes E fmt p s;
       l \<leftarrow> Mz_get_link p s;
       if Mz_IsTimeOut s (ucast (deTimeOut l)) (deStartTime l) then Mz_DecodeInMsgBuf E fmt p s
       else Some s } }"

definition Mz_DeLinkDecode :: "('w, 'z) Mz_Frame_scheme Mz_FuncList \<Rightarrow> ('w, 'z) Mz_Frame_scheme \<Rightarrow>
    ('w, 'z) Mz_Frame_scheme option" where
  "Mz_DeLinkDecode E s = foldM (\<lambda>cir s.
     if linkMaxNum s \<le> cir then None else do {
       p \<leftarrow> pLinkList s ! cir;
       Mz_DecodeInLink E p s })
     [0..<linkNum s] s"

definition Mz_Exec :: "('w, 'z) Mz_Frame_scheme Mz_FuncList \<Rightarrow> ('w, 'z) Mz_Frame_scheme \<Rightarrow>
    ('w, 'z) Mz_Frame_scheme option" where
  "Mz_Exec E s = do { s \<leftarrow> Mz_DeLinkDecode E s; Mz_FuncLoop E s }"

end
