(* ===== verification/MzCorrect.thy ===== *)
theory MzCorrect imports MzDecode begin

text \<open>
  The decoder of version 2.0.0 against the scanner: \<open>DecodeInMsgBuf\<close> finds in the buffer what
  \<open>scan\<close> finds in it, \<open>DecodeInLink\<close> what \<open>scan\<close> finds in the bytes kept and read, as long as no
  header announces more bytes than the buffer of the link holds: unlike the newer version, this one
  never looks at \<open>maxMsgNum\<close>.
\<close>

section \<open>The interface of a format\<close>

text \<open>
  As \<open>frame_format\<close>, but a length function may read the bytes before its step only, and a check the
  bytes of its step only, since \<open>DecodeInMsgBuf\<close> calls them in the middle of the buffer.
\<close>

locale stream_format =
  fixes steps :: "step_parm list" and sf :: u8 and lower :: "nat \<Rightarrow> nat"
    and chk :: "nat \<Rightarrow> bytes \<Rightarrow> bool" and packet_len :: "bytes \<Rightarrow> nat"
  assumes two_steps: "1 < length steps" and steps_few': "length steps < 256"
    and lower_0': "lower 0 = 0" and lower_1: "1 < lower 1"
    and lower_less': "Suc i < length steps \<Longrightarrow> lower i < lower (Suc i)"
    and header_short: "lower (length steps - 1) < 65536"
    and length_header: "Suc i < length steps \<Longrightarrow> GetLength (steps ! i) buf m = Some (lower (Suc i))"
    and length_packet:
      "Suc i = length steps \<Longrightarrow> lower i \<le> length buf \<Longrightarrow> (\<forall>j<i. chk j buf) \<Longrightarrow>
       GetLength (steps ! i) buf m = Some (packet_len buf)"
    and packet_bounds:
      "Suc i = length steps \<Longrightarrow> (\<forall>j<i. chk j buf) \<Longrightarrow> lower i < packet_len buf \<and> packet_len buf < 65536"
    and packet_local:
      "Suc i = length steps \<Longrightarrow> take (lower i) buf' = take (lower i) buf \<Longrightarrow> packet_len buf' = packet_len buf"
    and check_total_header:
      "Suc i < length steps \<Longrightarrow> lower (Suc i) \<le> length buf \<Longrightarrow>
       \<exists>r. StepCheck (steps ! i) buf m = Some r \<and> (r \<noteq> ProtocolFrame_DEFALSE \<longleftrightarrow> chk i buf)"
    and check_total_packet:
      "Suc i = length steps \<Longrightarrow> (\<forall>j<i. chk j buf) \<Longrightarrow> packet_len buf \<le> length buf \<Longrightarrow>
       \<exists>r. StepCheck (steps ! i) buf m = Some r \<and> (r \<noteq> ProtocolFrame_DEFALSE \<longleftrightarrow> chk i buf)"
    and check_header:
      "Suc i < length steps \<Longrightarrow> take (lower (Suc i)) buf' = take (lower (Suc i)) buf \<Longrightarrow> chk i buf' = chk i buf"
    and check_packet:
      "Suc i = length steps \<Longrightarrow> take (packet_len buf) buf' = take (packet_len buf) buf \<Longrightarrow> chk i buf' = chk i buf"

lemma lift_mono_bounded:
  assumes less: "\<And>k. Suc k < n \<Longrightarrow> f k < (f (Suc k) :: nat)" and "i \<le> j" "j < n"
  shows "f i \<le> f j"
  using assms(2,3)
proof (induction j)
  case (Suc j)
  then show ?case using less [of j] by (cases "i = Suc j") auto
qed simp

text \<open>Such a format is one for the newer decoder with a buffer that no packet outgrows.\<close>

sublocale stream_format \<subseteq> frame_format
    "\<lparr>format.ErrCodeRead = None, ErrCodeSend = None, sof = sf, pStepList = steps\<rparr>" 65535 lower chk packet_len
proof (unfold_locales, unfold format.simps, goal_cases)
  case 1 then show ?case using two_steps by (cases steps) simp_all
next
  case 2 then show ?case by (rule steps_few')
next
  case 3 then show ?case by (rule lower_0')
next
  case 4 then show ?case by (rule lower_less')
next
  case 6 then show ?case using header_short by simp
next
  case 7 then show ?case by (intro length_header)
next
  case (8 i)
  have "length steps - 1 = i" using 8(1) [symmetric] by simp
  then have "lower i \<le> length buf" if "length buf = 65535" for buf :: bytes using header_short that by simp
  then show ?case using 8 by (intro length_packet) blast+
next
  case 9 then show ?case by (rule packet_bounds)
next
  case 10 then show ?case by (rule packet_local)
next
  case (11 i)
  have "lower (Suc i) < 65536"
  proof (rule le_less_trans [OF _ header_short])
    show "lower (Suc i) \<le> lower (length steps - 1)"
      by (rule lift_mono_bounded [where n = "length steps" and f = lower]) (use 11(1) in \<open>simp_all add: lower_less'\<close>)
  qed
  then show ?case using 11 by (intro check_total_header) simp_all
next
  case 12 then show ?case by (intro check_total_packet) simp_all
next
  case 13 then show ?case by (rule check_header)
next
  case 14 then show ?case by (rule check_packet)
qed simp

section \<open>A step of the parser\<close>

text \<open>What a link knows of the bytes \<open>buf\<close> from the preamble on, \<open>deLenght\<close> of which it has taken.\<close>

definition Mz_parse_inv :: "nat \<Rightarrow> (nat \<Rightarrow> nat) \<Rightarrow> (nat \<Rightarrow> bytes \<Rightarrow> bool) \<Rightarrow> (bytes \<Rightarrow> nat) \<Rightarrow> bytes \<Rightarrow>
    'w Mz_LinkParm \<Rightarrow> bool" where
  "Mz_parse_inv n lower chk packet_len buf l \<longleftrightarrow> deStep l < n \<and> lower (deStep l) \<le> deLenght l \<and>
     deLenght l < deStepLength l \<and> deStepLength l = step_len n lower packet_len (deStep l) buf \<and>
     (\<forall>j < deStep l. chk j buf) \<and> 0 < deLenght l \<and> deLenght l \<le> length buf"

context stream_format begin

abbreviation parsing :: "bytes \<Rightarrow> 'w Mz_LinkParm \<Rightarrow> bool" where
  "parsing \<equiv> Mz_parse_inv (length steps) lower chk packet_len"

lemmas parsing_def = Mz_parse_inv_def [of "length steps" lower chk packet_len]

lemma step_length:
  assumes "i < length steps" and "lower i \<le> length buf" and "\<forall>j<i. chk j buf"
  shows "GetLength (steps ! i) buf m = Some (slen i buf)"
proof (cases "Suc i < length steps")
  case True
  then show ?thesis by (simp add: step_len_def length_header)
next
  case False
  then have "Suc i = length steps" using assms(1) by simp
  from length_packet [OF this assms(2,3)] this show ?thesis by (simp add: step_len_def)
qed

lemma step_check:
  assumes "i < length steps" and "slen i buf \<le> length buf" and "\<forall>j<i. chk j buf"
  obtains r where "StepCheck (steps ! i) buf m = Some r" "r = ProtocolFrame_DEFALSE \<longleftrightarrow> \<not> chk i buf"
proof (cases "Suc i < length steps")
  case True
  then show ?thesis using check_total_header [OF True, of buf m] assms(2) that by (auto simp: step_len_def)
next
  case False
  then have "Suc i = length steps" using assms(1) by simp
  then show ?thesis using check_total_packet [of i buf m] assms(2,3) that by (auto simp: step_len_def)
qed

text \<open>While the step is not full, the bytes taken are too few to tell.\<close>

lemma taken_prefix:
  assumes "i < length steps" and "lower i \<le> d" and "d \<le> length buf" and c: "\<forall>j<i. chk j buf"
  shows "fverdict (take d buf) = steps_from i (take d buf)" "slen i (take d buf) = slen i buf"
    "slen i buf \<le> d \<Longrightarrow> chk i (take d buf) = chk i buf"
proof -
  have t: "take k (take d buf) = take k buf" if "k \<le> d" for k using that by (simp add: min_absorb1)
  have cj: "chk j (take d buf) = chk j buf" if "j < i" for j
    using chk_prefix [OF that _ t [OF assms(2)]] assms(1) by simp
  show "slen i (take d buf) = slen i buf" using slen_local [OF _ t [OF assms(2)]] assms(1) by simp
  show "fverdict (take d buf) = steps_from i (take d buf)"
    using fverdict_steps [of i "take d buf"] assms cj by simp
  show "chk i (take d buf) = chk i buf" if "slen i buf \<le> d"
    using chk_slen_local [OF _ t [OF that]] assms(1) by simp
qed

lemma parsing_incomplete:
  assumes "parsing buf l"
  shows "fverdict (take (deLenght l) buf) = Incomplete"
proof -
  have p: "deStep l < length steps" "lower (deStep l) \<le> deLenght l" "deLenght l \<le> length buf"
      "\<forall>j < deStep l. chk j buf" "deLenght l < slen (deStep l) buf"
    using assms by (simp_all add: parsing_def)
  note t = taken_prefix [OF p(1-4)]
  have "slen (deStep l) buf < 65536" using lower_slen(2) [of "deStep l" buf] p by simp
  then show ?thesis using t(1,2) p(1,3,5) steps_from_step [of "deStep l"] by simp
qed

lemma start_step:
  assumes fmt: "pStepList fmt = steps" and l: "deStep l = 0" "deLenght l = 0" and b: "buf \<noteq> []"
  shows "\<exists>n. Mz_start_step fmt now buf l = Some (l\<lparr>deLenght := 1, sofMark := True, deStepLength := n, deStartTime := now\<rparr>) \<and>
     parsing buf (l\<lparr>deLenght := 1, sofMark := True, deStepLength := n, deStartTime := now\<rparr>)"
proof -
  have z: "0 < length steps" by (rule less_trans [OF _ two_steps]) simp
  have "GetLength (steps ! 0) buf 1 = Some (slen 0 buf)" using z lower_0' by (intro step_length) simp_all
  moreover have "1 < slen 0 buf" using two_steps lower_1 by (simp add: step_len_def)
  moreover have "1 \<le> length buf" using b by (cases buf) simp_all
  ultimately show ?thesis using z lower_0' l fmt
    by (simp add: Mz_start_step_def Mz_step_of_def parsing_def)
qed

text \<open>One more byte: the position after \<open>deLenght\<close> has been increased.\<close>

definition next_result :: "bytes \<Rightarrow> 'w Mz_LinkParm \<Rightarrow> 'w Mz_LinkParm \<Rightarrow> Mz_next \<Rightarrow> bool" where
  "next_result buf l l' next \<longleftrightarrow> (\<exists>i n. l' = l\<lparr>deStep := i, deStepLength := n\<rparr>) \<and>
     (case next of
        Mz_More \<Rightarrow> parsing buf l'
      | Mz_Again \<Rightarrow> fverdict (take (deLenght l) buf) = Bad
      | Mz_Complete \<Rightarrow> fverdict (take (deLenght l) buf) = Packet (deLenght l))"

lemma next_step:
  assumes fmt: "pStepList fmt = steps" and p: "parsing buf (l\<lparr>deLenght := d\<rparr>)"
    and d: "deLenght l = Suc d" "Suc d \<le> length buf"
  shows "\<exists>l' next. Mz_next_step fmt buf l = Some (l', next) \<and> next_result buf l l' next"
proof -
  let ?i = "deStep l" and ?D = "Suc d"
  have q: "?i < length steps" "lower ?i \<le> d" "d < deStepLength l" "deStepLength l = slen ?i buf"
      "\<forall>j < ?i. chk j buf" using p by (simp_all add: parsing_def)
  have self: "\<exists>i n. l = l\<lparr>deStep := i, deStepLength := n\<rparr>" by (intro exI [of _ ?i] exI [of _ "deStepLength l"]) simp
  show ?thesis
  proof (cases "?D < deStepLength l")
    case True
    then have "parsing buf l" using q d by (simp add: parsing_def)
    then show ?thesis using True d self by (auto simp: Mz_next_step_def next_result_def)
  next
    case False
    then have D: "slen ?i buf = ?D" using q by simp
    have pre: "lower ?i \<le> ?D" using q by simp
    note t = taken_prefix [OF q(1) pre d(2) q(5)]
    have v: "fverdict (take ?D buf) = (if chk ?i buf then steps_from (Suc ?i) (take ?D buf) else Bad)"
      using t D d(2) lower_slen(2) [of ?i buf] q(1,5) steps_from_step [of ?i "take ?D buf"] by simp
    obtain r where r: "StepCheck (steps ! ?i) buf ?D = Some r" "r = ProtocolFrame_DEFALSE \<longleftrightarrow> \<not> chk ?i buf"
      using step_check [of ?i buf ?D] q d(2) D by auto
    show ?thesis
    proof (cases "chk ?i buf")
      case False
      then show ?thesis using r v d self D q(1,4) fmt
        by (intro exI [of _ l] exI [of _ Mz_Again]) (simp add: Mz_next_step_def Mz_step_of_def next_result_def)
    next
      case c: True
      have chks: "\<forall>j < Suc ?i. chk j buf" using q(5) c less_Suc_eq by auto
      have u: "u8n (?i + 1) = Suc ?i" using q(1) steps_few' by simp
      show ?thesis
      proof (cases "Suc ?i < length steps")
        case False
        then have last: "Suc ?i = length steps" using q(1) by simp
        have "take (lower ?i) (take ?D buf) = take (lower ?i) buf" using pre by (simp add: min_absorb1)
        then have "packet_len (take ?D buf) = packet_len buf" by (rule packet_local [OF last])
        moreover have "packet_len buf = ?D" using D last by (simp add: step_len_def)
        ultimately have "fverdict (take ?D buf) = Packet ?D" using v c last by simp
        moreover have "\<exists>i n. l\<lparr>deStep := Suc ?i\<rparr> = l\<lparr>deStep := i, deStepLength := n\<rparr>"
          by (intro exI [of _ "Suc ?i"] exI [of _ "deStepLength l"]) simp
        ultimately show ?thesis using r c d D q(1,4) fmt u \<open>\<not> Suc ?i < length steps\<close>
          by (intro exI [of _ "l\<lparr>deStep := Suc ?i\<rparr>"] exI [of _ Mz_Complete])
            (simp add: Mz_next_step_def Mz_step_of_def next_result_def Let_def)
      next
        case True
        have low: "lower (Suc ?i) = ?D" using D True by (simp add: step_len_def)
        have gl: "GetLength (steps ! Suc ?i) buf ?D = Some (slen (Suc ?i) buf)"
          using True low d(2) chks by (intro step_length) simp_all
        have "?D < slen (Suc ?i) buf" using lower_slen(1) [of "Suc ?i" buf] True chks low by simp
        then have "parsing buf (l\<lparr>deStep := Suc ?i, deStepLength := slen (Suc ?i) buf\<rparr>)"
          using True low chks d by (simp add: parsing_def)
        then show ?thesis using r c d D q(1,4) fmt u True gl
          by (intro exI [of _ "l\<lparr>deStep := Suc ?i, deStepLength := slen (Suc ?i) buf\<rparr>"] exI [of _ Mz_More])
            (auto simp: Mz_next_step_def Mz_step_of_def next_result_def Let_def)
      qed
    qed
  qed
qed

end

section \<open>One iteration of \<open>DecodeInMsgBuf\<close>\<close>

text \<open>The bytes of the buffer that are still to be looked at, and what bounds the loop.\<close>

definition Mz_rest :: "'w Mz_LinkParm \<Rightarrow> nat \<Rightarrow> bytes" where
  "Mz_rest l start = drop (if sofMark l then start else msgReadIndex l) (take (msgWriteIndex l) (pDeMsgBuff l))"

definition Mz_measure :: "'w Mz_LinkParm \<Rightarrow> nat \<Rightarrow> nat \<times> nat \<times> nat" where
  "Mz_measure l start =
     (length (Mz_rest l start), if sofMark l then 0 else 1, msgWriteIndex l - msgReadIndex l)"

definition Mz_less :: "'w Mz_LinkParm \<times> nat \<Rightarrow> 'w Mz_LinkParm \<times> nat \<Rightarrow> bool" where
  "Mz_less = (\<lambda>(l, i) (l', i'). (Mz_measure l i, Mz_measure l' i') \<in> less_than <*lex*> less_than <*lex*> less_than)"

lemma Mz_less_induct [case_names less]:
  assumes "\<And>l i. (\<And>l' i'. Mz_less (l', i') (l, i) \<Longrightarrow> P l' i') \<Longrightarrow> P l i"
  shows "P l i"
proof -
  have "wf (inv_image (less_than <*lex*> less_than <*lex*> less_than) (case_prod Mz_measure))"
    by (intro wf_inv_image wf_lex_prod wf_less_than)
  then have "case_prod P (l, i)"
    by (induction "(l, i)" arbitrary: l i rule: wf_induct_rule)
      (use assms in \<open>simp add: Mz_less_def in_inv_image split_def\<close>)
  then show ?thesis by simp
qed

text \<open>What the links keep: the received bytes are only looked at.\<close>

abbreviation same_bytes :: "'w Mz_LinkParm \<Rightarrow> 'w Mz_LinkParm \<Rightarrow> bool" where
  "same_bytes l l' \<equiv> link_conf l' = link_conf l \<and> pDeMsgBuff l' = pDeMsgBuff l \<and> msgWriteIndex l' = msgWriteIndex l"

context stream_format begin

definition mb_ok :: "'w Mz_LinkParm \<Rightarrow> nat \<Rightarrow> bool" where
  "mb_ok l start \<longleftrightarrow> msgReadIndex l \<le> msgWriteIndex l \<and> msgWriteIndex l \<le> length (pDeMsgBuff l) \<and>
     length (pDeMsgBuff l) < 4294967296 \<and>
     (if sofMark l then start < msgReadIndex l \<and> deLenght l = msgReadIndex l - start \<and>
        parsing (drop start (pDeMsgBuff l)) l \<and> pDeMsgBuff l ! start = sf
      else deStep l = 0 \<and> deLenght l = 0)"

definition mb_result :: "u32 \<Rightarrow> 'w Mz_LinkParm \<Rightarrow> nat \<Rightarrow> 'w Mz_LinkParm \<Rightarrow> nat \<Rightarrow> bool \<Rightarrow> bool" where
  "mb_result now l start l' start' c \<longleftrightarrow> same_bytes l l' \<and> deStartTime l' \<in> {deStartTime l, now} \<and>
     (if c then start' + deLenght l' = msgReadIndex l' \<and> msgReadIndex l' \<le> msgWriteIndex l' \<and> 0 < deLenght l' \<and>
        Mz_rest l start = drop start' (take (msgWriteIndex l') (pDeMsgBuff l')) \<and>
        hd (Mz_rest l start) = sf \<and> fverdict (take (deLenght l') (drop start' (pDeMsgBuff l'))) = Packet (deLenght l')
      else mb_ok l' start' \<and> scn (Mz_rest l' start') = scn (Mz_rest l start) \<and> Mz_less (l', start') (l, start))"

lemma Mz_MSGREAD_ok:
  "mb_ok l start \<Longrightarrow> msgReadIndex l < msgWriteIndex l \<Longrightarrow>
   Mz_MSGREAD l = Some (pDeMsgBuff l ! msgReadIndex l, l\<lparr>msgReadIndex := Suc (msgReadIndex l)\<rparr>)"
  by (simp add: Mz_MSGREAD_def rd8_Some mb_ok_def)

lemma rest_unread:
  assumes "mb_ok l start" and "msgReadIndex l < msgWriteIndex l" and "\<not> sofMark l"
  shows "Mz_rest l start = pDeMsgBuff l ! msgReadIndex l # drop (Suc (msgReadIndex l)) (take (msgWriteIndex l) (pDeMsgBuff l))"
  using assms Cons_nth_drop_Suc [of "msgReadIndex l" "take (msgWriteIndex l) (pDeMsgBuff l)"]
  by (simp add: Mz_rest_def mb_ok_def)

lemma parsing_read [simp]: "parsing buf (l\<lparr>msgReadIndex := n\<rparr>) = parsing buf l"
  by (simp add: parsing_def)

lemma msgbuf_byte_search:
  assumes fmt: "pStepList fmt = steps" "sof fmt = sf" and ok: "mb_ok l start"
    and rw: "msgReadIndex l < msgWriteIndex l" and ns: "\<not> sofMark l"
  shows "\<exists>l' start' c. Mz_msgbuf_byte fmt now l start = Some (l', start', c) \<and> mb_result now l start l' start' c"
proof -
  let ?m = "msgReadIndex l" and ?b = "pDeMsgBuff l"
  let ?l = "l\<lparr>msgReadIndex := Suc ?m\<rparr>"
  note rest = rest_unread [OF ok rw ns]
  have ok': "?m < length ?b" "length ?b < 4294967296" "deStep l = 0" "deLenght l = 0" "msgWriteIndex l \<le> length ?b"
    using ok rw ns by (simp_all add: mb_ok_def)
  show ?thesis
  proof (cases "?b ! ?m = sf")
    case False
    have "scn (Mz_rest ?l start) = scn (Mz_rest l start)" using False ns by (simp add: rest) (simp add: Mz_rest_def)
    moreover have "Mz_less (?l, start) (l, start)"
      using rw ns ok' by (simp add: Mz_less_def Mz_measure_def Mz_rest_def diff_less_mono2)
    moreover have "mb_ok ?l start" using ok rw ns by (simp add: mb_ok_def)
    ultimately show ?thesis using False ns fmt
      by (intro exI [of _ ?l] exI [of _ start] exI [of _ False])
        (simp add: Mz_msgbuf_byte_def Mz_MSGREAD_ok [OF ok rw] mb_result_def)
  next
    case True
    have ne: "drop ?m ?b \<noteq> []" using ok' by simp
    from start_step [of fmt ?l "drop ?m ?b" now] fmt ok' ne obtain n where
      n: "Mz_start_step fmt now (drop ?m ?b) ?l =
            Some (?l\<lparr>deLenght := 1, sofMark := True, deStepLength := n, deStartTime := now\<rparr>)"
         "parsing (drop ?m ?b) (?l\<lparr>deLenght := 1, sofMark := True, deStepLength := n, deStartTime := now\<rparr>)"
      by auto
    let ?l' = "?l\<lparr>deLenght := 1, sofMark := True, deStepLength := n, deStartTime := now\<rparr>"
    have sb: "sub32 (Suc ?m) 1 = ?m" using ok'(1,2) by simp
    have "Mz_msgbuf_byte fmt now l start = Some (?l', ?m, False)"
      using n(1) True ns fmt sb by (simp add: Mz_msgbuf_byte_def Mz_MSGREAD_ok [OF ok rw] Let_def)
    moreover have "mb_ok ?l' ?m" using n(2) True rw ok' by (simp add: mb_ok_def)
    moreover have "Mz_rest ?l' ?m = Mz_rest l start" using ns by (simp add: Mz_rest_def)
    moreover have "Mz_less (?l', ?m) (l, start)"
      using ns by (simp add: Mz_less_def Mz_measure_def Mz_rest_def)
    ultimately show ?thesis
      by (intro exI [of _ ?l'] exI [of _ ?m] exI [of _ False]) (simp add: mb_result_def)
  qed
qed

lemma msgbuf_byte_parse:
  assumes fmt: "pStepList fmt = steps" "sof fmt = sf" and ok: "mb_ok l start"
    and rw: "msgReadIndex l < msgWriteIndex l" and sm: "sofMark l"
  shows "\<exists>l' start' c. Mz_msgbuf_byte fmt now l start = Some (l', start', c) \<and> mb_result now l start l' start' c"
proof -
  let ?m = "msgReadIndex l" and ?b = "pDeMsgBuff l" and ?w = "msgWriteIndex l"
  let ?buf = "drop start ?b"
  have o: "start < ?m" "deLenght l = ?m - start" "parsing ?buf l" "?b ! start = sf" "?w \<le> length ?b"
      "length ?b < 4294967296" using ok sm by (simp_all add: mb_ok_def)
  have dl: "Suc (deLenght l) \<le> length ?buf" "start + Suc (deLenght l) = Suc ?m" using o rw by simp_all
  have "deLenght l < 65535"
    using o(3) lower_slen(2) [of "deStep l" ?buf] by (simp add: parsing_def)
  then have u: "u16n (deLenght l + 1) = Suc (deLenght l)" by simp
  let ?l = "l\<lparr>msgReadIndex := Suc ?m, deLenght := Suc (deLenght l)\<rparr>"
  have "parsing ?buf (?l\<lparr>deLenght := deLenght l\<rparr>)" using o(3) by (simp add: parsing_def)
  from next_step [OF fmt(1) this] dl(1) obtain l' nx where
    n: "Mz_next_step fmt ?buf ?l = Some (l', nx)" "next_result ?buf ?l l' nx" by auto
  obtain i k where l': "l' = ?l\<lparr>deStep := i, deStepLength := k\<rparr>" using n(2) by (auto simp: next_result_def)
  have rest: "Mz_rest l start = drop start (take ?w ?b)" using sm by (simp add: Mz_rest_def)
  have hd: "hd (Mz_rest l start) = sf" "Mz_rest l start \<noteq> []"
    using o(1,4,5) rw by (simp_all add: rest hd_drop_conv_nth)
  have pre: "take (Suc (deLenght l)) (Mz_rest l start) = take (Suc (deLenght l)) ?buf"
    using dl rw by (simp add: rest drop_take min_absorb1)
  have read: "Mz_msgbuf_byte fmt now l start =
      (case nx of Mz_More \<Rightarrow> Some (l', start, False)
        | Mz_Again \<Rightarrow> Some (Mz_STEPCLEAR (Mz_MSGSETREADINDEX (u32n (start + 1)) l'), start, False)
        | Mz_Complete \<Rightarrow> Some (l', start, True))"
    using n(1) sm u by (simp add: Mz_msgbuf_byte_def Mz_MSGREAD_ok [OF ok rw] split: Mz_next.split)
  show ?thesis
  proof (cases nx)
    case Mz_More
    then have "parsing ?buf l'" using n(2) by (simp add: next_result_def)
    then have "mb_ok l' start" using sm o rw dl by (simp add: mb_ok_def l')
    moreover have "Mz_less (l', start) (l, start)"
      using sm rw by (simp add: Mz_less_def Mz_measure_def Mz_rest_def l' diff_less_mono2)
    moreover have "Mz_rest l' start = Mz_rest l start" using sm by (simp add: Mz_rest_def l')
    ultimately show ?thesis using read Mz_More
      by (intro exI [of _ l'] exI [of _ start] exI [of _ False]) (simp add: mb_result_def l')
  next
    case Mz_Again
    let ?l2 = "Mz_STEPCLEAR (Mz_MSGSETREADINDEX (u32n (start + 1)) l')"
    have us: "u32n (start + 1) = Suc start" using o(1,5,6) rw by simp
    have "fverdict (take (Suc (deLenght l)) (Mz_rest l start)) = Bad"
      using n(2) Mz_Again pre by (simp add: next_result_def)
    then have "fverdict (Mz_rest l start) = Bad"
      using v_stable [of "take (Suc (deLenght l)) (Mz_rest l start)" "drop (Suc (deLenght l)) (Mz_rest l start)"] by simp
    then have "scn (tl (Mz_rest l start)) = scn (Mz_rest l start)"
      using hd by (cases "Mz_rest l start") simp_all
    moreover have r2: "Mz_rest ?l2 start = tl (Mz_rest l start)"
      using us by (simp add: rest) (simp add: Mz_rest_def Mz_link_macros l' drop_Suc tl_drop)
    moreover have "mb_ok ?l2 start" using o rw us by (simp add: mb_ok_def Mz_link_macros l')
    moreover have "length (Mz_rest ?l2 start) < length (Mz_rest l start)"
      unfolding r2 using hd(2) by (cases "Mz_rest l start") simp_all
    then have "Mz_less (?l2, start) (l, start)" by (simp add: Mz_less_def Mz_measure_def)
    ultimately show ?thesis using read Mz_Again
      by (intro exI [of _ ?l2] exI [of _ start] exI [of _ False]) (simp add: mb_result_def, simp add: Mz_link_macros l')
  next
    case Mz_Complete
    then have "fverdict (take (Suc (deLenght l)) ?buf) = Packet (Suc (deLenght l))"
      using n(2) by (simp add: next_result_def)
    then show ?thesis using read Mz_Complete hd(1) dl rw rest
      by (intro exI [of _ l'] exI [of _ start] exI [of _ True]) (simp add: mb_result_def l')
  qed
qed

end

section \<open>The contracts of the environment\<close>

text \<open>What the callbacks and the decoder leave alone; \<open>P\<close> is the size of the frame's packet buffer.\<close>

definition Mz_same :: "nat \<Rightarrow> ('w, 'z) Mz_Frame_scheme \<Rightarrow> ('w, 'z) Mz_Frame_scheme \<Rightarrow> bool" where
  "Mz_same P s s' \<longleftrightarrow> timeCNT s' = timeCNT s \<and> pLinkList s' = pLinkList s \<and> linkNum s' = linkNum s \<and>
     length (pPacket (pPacketParm s')) = P"

definition Mz_kept :: "nat \<Rightarrow> (nat \<Rightarrow> 'w \<Rightarrow> bytes) \<Rightarrow> ('w, 'z) Mz_Frame_scheme \<Rightarrow> ('w, 'z) Mz_Frame_scheme \<Rightarrow> bool" where
  "Mz_kept P input s s' \<longleftrightarrow> Mz_same P s s' \<and> links s' = links s \<and>
     (\<forall>q. input q (world s') = input q (world s))"

lemma Mz_same_trans: "Mz_same P s t \<Longrightarrow> Mz_same P t u \<Longrightarrow> Mz_same P s u"
  by (simp add: Mz_same_def)

lemma Mz_kept_trans: "Mz_kept P i s t \<Longrightarrow> Mz_kept P i t u \<Longrightarrow> Mz_kept P i s u"
  by (auto simp: Mz_kept_def intro: Mz_same_trans)

text \<open>The functions of a link get the first \<open>length pkt mod 256\<close> bytes of a packet.\<close>

definition Mz_given :: "bytes \<Rightarrow> bytes" where
  "Mz_given pkt = take (u8n (length pkt)) pkt"

lemma Mz_given_short: "length pkt < 256 \<Longrightarrow> Mz_given pkt = pkt"
  by (simp add: Mz_given_def)

lemma Mz_given_length: "length (Mz_given pkt) = u8n (length pkt)"
  by (simp add: Mz_given_def u8n_def)

definition Mz_offered :: "nat \<Rightarrow> nat \<Rightarrow> bytes \<Rightarrow> ('w, 'z) Mz_Frame_scheme \<Rightarrow> bool" where
  "Mz_offered P p pkt s \<longleftrightarrow>
     p < length (links s) \<and> pFuncList (links s ! p) \<noteq> None \<and> pLink (pPacketParm s) = Some p \<and>
     length (pPacket (pPacketParm s)) = P \<and> packetLength (pPacketParm s) = u8n (length pkt) \<and>
     take (u8n (length pkt)) (pPacket (pPacketParm s)) = Mz_given pkt \<and>
     \<not> sendMark (pPacketParm s) \<and> \<not> exitCallPack (pPacketParm s)"

locale mz_decoder = stream_format steps sf lower chk packet_len
  for steps sf lower chk packet_len +
  fixes fmt :: Mz_FormatParm and P :: nat
    and E :: "('w, 'z) Mz_Frame_scheme Mz_FuncList"
    and R :: "'o \<Rightarrow> ('w, 'z) Mz_Frame_scheme \<Rightarrow> bool"
    and act :: "nat \<Rightarrow> bytes \<Rightarrow> 'o \<Rightarrow> 'o"
    and input :: "nat \<Rightarrow> 'w \<Rightarrow> bytes"
  assumes fmt: "pStepList fmt = steps" "sof fmt = sf"
    and room: "255 \<le> P"
    and R_frame: "R x s \<Longrightarrow> R x (s\<lparr>links := ls, pPacketParm := pp, world := w\<rparr>)"
    and ErrCodeRead_total: "ErrCodeRead fmt = Some f \<Longrightarrow> \<exists>e. f pp = pp\<lparr>errCode := e\<rparr>"
    and calls:
      "R x s \<Longrightarrow> Mz_offered P p pkt s \<Longrightarrow>
       frame_verdict (length steps) 65535 lower chk packet_len pkt = Packet (length pkt) \<Longrightarrow>
       \<exists>s'. Mz_FuncCallBack E s = Some s' \<and> R (act p pkt x) s' \<and> Mz_kept P input s s'"
begin

lemma R_links: "R x s \<Longrightarrow> R x (s\<lparr>links := ls\<rparr>)"
  using R_frame [of x s, where ls = ls and pp = "pPacketParm s" and w = "world s"] by simp

lemma R_parm: "R x s \<Longrightarrow> R x (s\<lparr>pPacketParm := pp\<rparr>)"
  using R_frame [of x s, where ls = "links s" and pp = pp and w = "world s"] by simp

lemma R_world: "R x s \<Longrightarrow> R x (s\<lparr>world := w\<rparr>)"
  using R_frame [of x s, where ls = "links s" and pp = "pPacketParm s" and w = w] by simp

lemma deliver_ok:
  assumes R: "R x s" and p: "p < length (links s)" "pFuncList (links s ! p) \<noteq> None"
    and P: "length (pPacket (pPacketParm s)) = P"
    and n: "n \<le> length buf" and v: "fverdict (take n buf) = Packet n"
  shows "\<exists>s'. Mz_deliver E fmt p buf n s = Some s' \<and> R (act p (take n buf) x) s' \<and> Mz_kept P input s s'"
proof -
  let ?k = "u8n n"
  have k: "?k \<le> n" "?k \<le> P" using room u8n_less [of n] by (simp_all add: u8n_def)
  define pp where "pp = \<lparr>pLink = Some p, pPacket = take ?k buf @ drop ?k (pPacket (pPacketParm s)),
     packetLength = ?k, errCode = 0, sendMark = False, exitCallPack = False\<rparr>"
  define s1 where "s1 = s\<lparr>pPacketParm := pp\<rparr>"
  have fill: "Mz_PacketParmFill (Some p) (Some buf) n s = Some s1"
    using k n P by (simp add: Mz_PacketParmFill_def mem_safe s1_def pp_def Let_def)
  obtain e where rd: "(case ErrCodeRead fmt of None \<Rightarrow> s1 | Some f \<Rightarrow> s1\<lparr>pPacketParm := f (pPacketParm s1)\<rparr>) =
        s1\<lparr>pPacketParm := pp\<lparr>errCode := e\<rparr>\<rparr>"
  proof (cases "ErrCodeRead fmt")
    case None
    then show ?thesis using that [of 0] by (simp add: s1_def pp_def)
  next
    case (Some f)
    from ErrCodeRead_total [OF Some, of pp] show ?thesis using that Some by (auto simp: s1_def)
  qed
  let ?s2 = "s1\<lparr>pPacketParm := pp\<lparr>errCode := e\<rparr>\<rparr>"
  have "Mz_offered P p (take n buf) ?s2"
    using p n k P by (simp add: Mz_offered_def Mz_given_def s1_def pp_def min_def)
  moreover have "R x ?s2" using R by (simp add: s1_def R_parm)
  moreover have "frame_verdict (length steps) 65535 lower chk packet_len (take n buf) = Packet (length (take n buf))"
    using v n by simp
  ultimately obtain s' where s': "Mz_FuncCallBack E ?s2 = Some s'" "R (act p (take n buf) x) s'"
      "Mz_kept P input ?s2 s'"
    using calls by blast
  have "Mz_kept P input s s'" using s'(3) by (simp add: Mz_kept_def Mz_same_def s1_def)
  then show ?thesis using s'(1,2) fill rd by (simp add: Mz_deliver_def Let_def)
qed

text \<open>The outcome of the loop of \<open>DecodeInMsgBuf\<close>.\<close>

definition mb_done :: "nat \<Rightarrow> 'o \<Rightarrow> nat \<Rightarrow> ('w, 'z) Mz_Frame_scheme \<Rightarrow> nat \<Rightarrow> ('w, 'z) Mz_Frame_scheme \<Rightarrow> bool" where
  "mb_done p x start s start' s' \<longleftrightarrow> (\<exists>l'. links s' = (links s)[p := l'] \<and> mb_ok l' start' \<and>
     msgReadIndex l' = msgWriteIndex l' \<and> same_bytes (links s ! p) l' \<and>
     deStartTime l' \<in> {deStartTime (links s ! p), timeCNT s} \<and>
     (if sofMark l' then Mz_rest l' start' else []) = snd (scn (Mz_rest (links s ! p) start)) \<and>
     R (fold (act p) (fst (scn (Mz_rest (links s ! p) start))) x) s' \<and>
     Mz_same P s s' \<and> (\<forall>q. input q (world s') = input q (world s)))"

lemma mb_idle:
  assumes ok: "mb_ok l start" and idle: "msgReadIndex l = msgWriteIndex l"
  shows "scn (Mz_rest l start) = ([], if sofMark l then Mz_rest l start else [])"
proof (cases "sofMark l")
  case False
  then show ?thesis using idle by (simp add: Mz_rest_def)
next
  case True
  let ?b = "drop start (pDeMsgBuff l)"
  have o: "start < msgReadIndex l" "deLenght l = msgReadIndex l - start" "parsing ?b l"
      "pDeMsgBuff l ! start = sf" "msgWriteIndex l \<le> length (pDeMsgBuff l)"
    using ok True by (simp_all add: mb_ok_def)
  have r: "Mz_rest l start = take (deLenght l) ?b" using True o(2) idle by (simp add: Mz_rest_def drop_take)
  have "fverdict (Mz_rest l start) = Incomplete" unfolding r by (rule parsing_incomplete [OF o(3)])
  moreover have "hd (Mz_rest l start) = sf" "Mz_rest l start \<noteq> []"
  proof -
    have rr: "Mz_rest l start = drop start (take (msgWriteIndex l) (pDeMsgBuff l))" using True by (simp add: Mz_rest_def)
    have w: "start < msgWriteIndex l" using o(1) idle by simp
    then show "hd (Mz_rest l start) = sf" "Mz_rest l start \<noteq> []"
      using o(4,5) by (simp_all add: rr hd_drop_conv_nth)
  qed
  then obtain bs where "Mz_rest l start = sf # bs" by (cases "Mz_rest l start") simp_all
  ultimately show ?thesis using True by simp
qed

end

section \<open>The loop of \<open>DecodeInMsgBuf\<close>\<close>

lemma Mz_less_shorter: "length (Mz_rest l i) < length (Mz_rest l' i') \<Longrightarrow> Mz_less (l, i) (l', i')"
  by (simp add: Mz_less_def Mz_measure_def)

context mz_decoder begin

lemma msgbuf_byte_ok:
  assumes "mb_ok l start" and "msgReadIndex l < msgWriteIndex l"
  obtains l' start' c where "Mz_msgbuf_byte fmt now l start = Some (l', start', c)" "mb_result now l start l' start' c"
  using msgbuf_byte_search [OF fmt assms, of now] msgbuf_byte_parse [OF fmt assms, of now] that by blast

lemma mb_after_packet:
  assumes r: "mb_result now l start l1 start1 True" and ok: "mb_ok l start"
  shows "mb_ok (Mz_STEPCLEAR l1) start1 \<and> Mz_less (Mz_STEPCLEAR l1, start1) (l, start) \<and>
     scn (Mz_rest l start) = (take (deLenght l1) (drop start1 (pDeMsgBuff l1)) # fst (scn (Mz_rest (Mz_STEPCLEAR l1) start1)),
       snd (scn (Mz_rest (Mz_STEPCLEAR l1) start1)))"
proof -
  let ?n = "deLenght l1" and ?b = "pDeMsgBuff l1" and ?w = "msgWriteIndex l1"
  have d: "start1 + ?n = msgReadIndex l1" "msgReadIndex l1 \<le> ?w" "0 < ?n" "?w = msgWriteIndex l" "?b = pDeMsgBuff l"
      "Mz_rest l start = drop start1 (take ?w ?b)" "hd (Mz_rest l start) = sf"
      "fverdict (take ?n (drop start1 ?b)) = Packet ?n"
    using r unfolding mb_result_def if_True by blast+
  have nw: "?n \<le> ?w - start1" using d(1,2) by simp
  have t: "take ?n (Mz_rest l start) = take ?n (drop start1 ?b)"
    using nw by (simp add: d(6) drop_take min_absorb1)
  have v: "fverdict (Mz_rest l start) = Packet ?n"
    using v_stable [of "take ?n (drop start1 ?b)" "drop ?n (Mz_rest l start)"] d(8) t
    by (metis append_take_drop_id verdict.distinct(3))
  have next_rest: "Mz_rest (Mz_STEPCLEAR l1) start1 = drop ?n (Mz_rest l start)"
    using d(1) by (simp add: d(6)) (simp add: Mz_rest_def Mz_link_macros add.commute)
  have ne: "Mz_rest l start \<noteq> []" using v_packet [OF v] by auto
  then obtain bs where bs: "Mz_rest l start = sf # bs" using d(7) by (cases "Mz_rest l start") simp_all
  have "scn (Mz_rest l start) = (take ?n (Mz_rest l start) # fst (scn (drop ?n (Mz_rest l start))),
      snd (scn (drop ?n (Mz_rest l start))))"
    using scan_sf_packet [of bs ?n] v unfolding bs by simp
  moreover have "mb_ok (Mz_STEPCLEAR l1) start1"
    using d ok by (simp add: mb_ok_def Mz_link_macros)
  moreover have "length (Mz_rest (Mz_STEPCLEAR l1) start1) < length (Mz_rest l start)"
    unfolding next_rest using d(3) ne by (simp add: diff_less)
  then have "Mz_less (Mz_STEPCLEAR l1, start1) (l, start)" by (rule Mz_less_shorter)
  ultimately show ?thesis unfolding next_rest t by simp
qed

lemma mb_done_step:
  assumes p: "p < length (links s)" and l1: "same_bytes (links s ! p) l1" "deStartTime l1 \<in> {deStartTime (links s ! p), timeCNT s}"
    and s1: "links s1 = (links s)[p := l1]" "Mz_same P s s1" "\<forall>q. input q (world s1) = input q (world s)"
    and d: "mb_done p (fold (act p) ps x) start1 s1 start' s'"
    and sc: "scn (Mz_rest (links s ! p) start) = (ps @ fst (scn (Mz_rest l1 start1)), snd (scn (Mz_rest l1 start1)))"
  shows "mb_done p x start s start' s'"
proof -
  have e: "links s1 ! p = l1" "timeCNT s1 = timeCNT s" using p s1 by (simp_all add: Mz_same_def)
  obtain l' where l': "links s' = (links s1)[p := l']" "mb_ok l' start'" "msgReadIndex l' = msgWriteIndex l'"
      "same_bytes l1 l'" "deStartTime l' \<in> {deStartTime l1, timeCNT s}"
      "(if sofMark l' then Mz_rest l' start' else []) = snd (scn (Mz_rest l1 start1))"
      "R (fold (act p) (fst (scn (Mz_rest l1 start1))) (fold (act p) ps x)) s'" "Mz_same P s1 s'"
      "\<forall>q. input q (world s') = input q (world s1)"
    using d unfolding mb_done_def e by blast
  show ?thesis
    unfolding mb_done_def sc
  proof (intro exI [of _ l'] conjI)
    show "links s' = (links s)[p := l']" using l'(1) s1(1) by simp
    show "deStartTime l' \<in> {deStartTime (links s ! p), timeCNT s}" using l'(5) l1(2) by auto
    show "Mz_same P s s'" using s1(2) l'(8) by (rule Mz_same_trans)
  qed (use l' l1(1) s1(3) in simp_all)
qed

lemma msgbuf_bytes_ok:
  assumes "p < length (links s)" and "mb_ok (links s ! p) start" and "pFuncList (links s ! p) \<noteq> None"
    and "length (pPacket (pPacketParm s)) = P" and "R x s"
  shows "\<exists>start' s'. Mz_msgbuf_bytes E fmt p start s = Some (start', s') \<and> mb_done p x start s start' s'"
  using assms
proof (induction "links s ! p" start arbitrary: s x rule: Mz_less_induct)
  case (less start s x)
  let ?l = "links s ! p"
  have gl: "Mz_get_link p s = Some ?l" using less.prems(1) by (rule Mz_get_link_Some)
  show ?case
  proof (cases "msgReadIndex ?l < msgWriteIndex ?l")
    case False
    then have idle: "msgReadIndex ?l = msgWriteIndex ?l" using less.prems(2) by (simp add: mb_ok_def)
    have "Mz_msgbuf_bytes E fmt p start s = Some (start, s)"
      by (simp add: Mz_msgbuf_bytes.simps [of E fmt p start s] gl False)
    moreover have "mb_done p x start s start s"
      unfolding mb_done_def mb_idle [OF less.prems(2) idle]
      using less.prems idle by (intro exI [of _ ?l]) (simp add: Mz_same_def)
    ultimately show ?thesis by blast
  next
    case True
    obtain l1 start1 c where db: "Mz_msgbuf_byte fmt (timeCNT s) ?l start = Some (l1, start1, c)"
        "mb_result (timeCNT s) ?l start l1 start1 c"
      using msgbuf_byte_ok [OF less.prems(2) True] .
    have sb: "same_bytes ?l l1" "deStartTime l1 \<in> {deStartTime ?l, timeCNT s}"
      using db(2) by (simp_all add: mb_result_def)
    have fl: "pFuncList l1 \<noteq> None" using link_confD(7) [of l1 ?l] sb(1) less.prems(3) by simp
    let ?s1 = "s\<lparr>links := (links s)[p := l1]\<rparr>"
    have s1: "links ?s1 ! p = l1" "p < length (links ?s1)" using less.prems(1) by simp_all
    show ?thesis
    proof (cases c)
      case False
      then have r: "mb_ok l1 start1" "scn (Mz_rest l1 start1) = scn (Mz_rest ?l start)" "Mz_less (l1, start1) (?l, start)"
        using db(2) by (simp_all add: mb_result_def)
      obtain start' s' where s': "Mz_msgbuf_bytes E fmt p start1 ?s1 = Some (start', s')" "mb_done p x start1 ?s1 start' s'"
        using less.hyps [of ?s1 start1 x] r fl less.prems s1 by (auto simp: R_links)
      have "mb_done p x start s start' s'"
        by (rule mb_done_step [OF less.prems(1) sb, where ps = "[]" and ?start1.0 = start1 and ?s1.0 = ?s1])
          (use s'(2) r(2) less.prems(4) in \<open>simp_all add: Mz_same_def\<close>)
      then show ?thesis using s'(1) False db(1) True gl
        by (simp add: Mz_msgbuf_bytes.simps [of E fmt p start s] Mz_GetStartTime_def Mz_set_link_def)
    next
      case True': True
      then have r: "mb_result (timeCNT s) ?l start l1 start1 True" using db(2) by simp
      let ?n = "deLenght l1" and ?b = "drop start1 (pDeMsgBuff l1)"
      note a = mb_after_packet [OF r less.prems(2)]
      have rr: "start1 + ?n = msgReadIndex l1" "msgReadIndex l1 \<le> msgWriteIndex l1"
          "fverdict (take ?n ?b) = Packet ?n"
        using r unfolding mb_result_def if_True by blast+
      have "msgWriteIndex ?l \<le> length (pDeMsgBuff ?l)" using less.prems(2) by (simp add: mb_ok_def)
      then have n: "?n \<le> length ?b" "fverdict (take ?n ?b) = Packet ?n" using rr sb(1) by simp_all
      obtain s2 where s2: "Mz_deliver E fmt p ?b ?n ?s1 = Some s2" "R (act p (take ?n ?b) x) s2" "Mz_kept P input ?s1 s2"
        using deliver_ok [of x ?s1 p ?n ?b] less.prems fl s1 n by (auto simp: R_links)
      have ls2: "links s2 = (links s)[p := l1]" using s2(3) by (simp add: Mz_kept_def)
      let ?s3 = "s2\<lparr>links := (links s)[p := Mz_STEPCLEAR l1]\<rparr>"
      have step: "Mz_msgbuf_bytes E fmt p start s = Mz_msgbuf_bytes E fmt p start1 ?s3"
        using True' db(1) True gl s2(1) less.prems(1) ls2
        by (simp add: Mz_msgbuf_bytes.simps [of E fmt p start s] Mz_GetStartTime_def Mz_set_link_def Mz_upd_link_Some)
      have c3: "same_bytes ?l (Mz_STEPCLEAR l1)" "deStartTime (Mz_STEPCLEAR l1) \<in> {deStartTime ?l, timeCNT s}"
          "pFuncList (Mz_STEPCLEAR l1) \<noteq> None"
        using sb fl by (simp_all add: Mz_link_macros)
      have same: "Mz_same P s ?s3" using s2(3) by (simp add: Mz_kept_def Mz_same_def)
      obtain start' s' where s': "Mz_msgbuf_bytes E fmt p start1 ?s3 = Some (start', s')"
          "mb_done p (act p (take ?n ?b) x) start1 ?s3 start' s'"
        using less.hyps [of ?s3 start1 "act p (take ?n ?b) x"] a c3(3) same less.prems(1) s2(2)
        by (auto simp: R_links Mz_same_def)
      have "mb_done p x start s start' s'"
        by (rule mb_done_step [OF less.prems(1) c3(1,2), where ps = "[take ?n ?b]" and ?start1.0 = start1 and ?s1.0 = ?s3])
          (use s'(2) a same s2(3) in \<open>simp_all add: Mz_kept_def\<close>)
      then show ?thesis using step s'(1) by simp
    qed
  qed
qed

end

end
