(* ===== verification/MzLoops.thy ===== *)
theory MzLoops imports MzCorrect begin

text \<open>
  \<open>DecodeInMsgBuf\<close> and \<open>DecodeInLink\<close> of version 2.0.0 as a whole: what is left in the buffer, the
  loop over the bytes read, time-outs, and all links of a frame.
\<close>

section \<open>A link between two bytes\<close>

definition Mz_pending :: "'w Mz_LinkParm \<Rightarrow> bytes" where
  "Mz_pending l = take (msgWriteIndex l) (pDeMsgBuff l)"

definition Mz_idle_inv :: "nat \<Rightarrow> (nat \<Rightarrow> nat) \<Rightarrow> (nat \<Rightarrow> bytes \<Rightarrow> bool) \<Rightarrow> (bytes \<Rightarrow> nat) \<Rightarrow> u8 \<Rightarrow> nat \<Rightarrow>
    'w Mz_LinkParm \<Rightarrow> bool" where
  "Mz_idle_inv n lower chk packet_len sf B l \<longleftrightarrow> length (pDeMsgBuff l) = B \<and> B < 4294967296 \<and> msgWriteIndex l \<le> B \<and>
     (if sofMark l then deLenght l = msgWriteIndex l \<and> Mz_parse_inv n lower chk packet_len (pDeMsgBuff l) l \<and>
        pDeMsgBuff l ! 0 = sf
      else deStep l = 0 \<and> deLenght l = 0 \<and> msgWriteIndex l = 0)"

text \<open>No header in the stream announces a packet of more than \<open>B\<close> bytes.\<close>

definition Mz_fits :: "nat \<Rightarrow> (nat \<Rightarrow> nat) \<Rightarrow> (nat \<Rightarrow> bytes \<Rightarrow> bool) \<Rightarrow> (bytes \<Rightarrow> nat) \<Rightarrow> u8 \<Rightarrow> nat \<Rightarrow> bytes \<Rightarrow> bool" where
  "Mz_fits n lower chk packet_len sf B xs \<longleftrightarrow> (\<forall>i < length xs. xs ! i = sf \<longrightarrow> lower (n - 1) \<le> length (drop i xs) \<longrightarrow>
     (\<forall>j < n - 1. chk j (drop i xs)) \<longrightarrow> packet_len (drop i xs) \<le> B)"

lemma Mz_fits_suffix:
  assumes "Mz_fits n lower chk packet_len sf B (ys @ xs)"
  shows "Mz_fits n lower chk packet_len sf B xs"
  unfolding Mz_fits_def
proof (intro allI impI)
  fix i assume i: "i < length xs" "xs ! i = sf" "lower (n - 1) \<le> length (drop i xs)" "\<forall>j < n - 1. chk j (drop i xs)"
  have "drop (length ys + i) (ys @ xs) = drop i xs" "(ys @ xs) ! (length ys + i) = xs ! i" by simp_all
  then show "packet_len (drop i xs) \<le> B"
    using assms [unfolded Mz_fits_def, THEN spec, of "length ys + i"] i by simp
qed

text \<open>What \<open>scan\<close> leaves is the end of what it has scanned.\<close>

lemma scan_leaves_suffix: "\<exists>ys. xs = ys @ snd (scan v sf xs)"
proof (induction "length xs" arbitrary: xs rule: less_induct)
  case less
  show ?case
  proof (cases xs)
    case (Cons b bs)
    have skip: "\<exists>ys. xs = ys @ snd (scan v sf bs)"
      using less [of bs] Cons by (metis append_Cons length_Cons lessI)
    have jump: "\<exists>ys. xs = ys @ snd (scan v sf (drop k bs))" for k
    proof -
      have "length (drop k bs) < length xs" using Cons by simp
      then obtain ys where "drop k bs = ys @ snd (scan v sf (drop k bs))" using less by blast
      then have "xs = (b # take k bs @ ys) @ snd (scan v sf (drop k bs))"
        using Cons by (metis append_Cons append_assoc append_take_drop_id)
      then show ?thesis by blast
    qed
    show ?thesis
      using skip jump Cons by (cases "v xs") (auto simp: split_def)
  qed simp
qed

context stream_format begin

abbreviation link_ok :: "nat \<Rightarrow> 'w Mz_LinkParm \<Rightarrow> bool" where
  "link_ok \<equiv> Mz_idle_inv (length steps) lower chk packet_len sf"

lemmas link_ok_def = Mz_idle_inv_def [of "length steps" lower chk packet_len sf]

abbreviation fits :: "nat \<Rightarrow> bytes \<Rightarrow> bool" where
  "fits \<equiv> Mz_fits (length steps) lower chk packet_len sf"

text \<open>The position in the packet depends on the bytes taken only.\<close>

lemma parsing_local:
  assumes p: "parsing buf l" and t: "take (deLenght l) buf' = take (deLenght l) buf" and len: "deLenght l \<le> length buf'"
  shows "parsing buf' l"
proof -
  have q: "deStep l < length steps" "lower (deStep l) \<le> deLenght l" using p by (simp_all add: parsing_def)
  have tk: "take k buf' = take k buf" if "k \<le> deLenght l" for k
    using arg_cong [OF t, of "take k"] that by (simp add: min_absorb1)
  have "chk j buf' = chk j buf" if "j < deStep l" for j
    using chk_prefix [OF that _ tk [OF q(2)]] q(1) by simp
  moreover have "slen (deStep l) buf' = slen (deStep l) buf" using slen_local [OF _ tk [OF q(2)]] q(1) by simp
  ultimately show ?thesis using p len by (simp add: parsing_def)
qed

lemma link_ok_pending:
  assumes "link_ok B l"
  shows "length (Mz_pending l) = msgWriteIndex l" "Mz_pending l = [] \<longleftrightarrow> \<not> sofMark l"
    "scn (Mz_pending l) = ([], Mz_pending l)" "sofMark l \<Longrightarrow> hd (Mz_pending l) = sf"
proof -
  show len: "length (Mz_pending l) = msgWriteIndex l" using assms by (simp add: Mz_pending_def link_ok_def)
  show ne: "Mz_pending l = [] \<longleftrightarrow> \<not> sofMark l"
    using assms len by (auto simp: link_ok_def parsing_def split: if_splits)
  show hd: "hd (Mz_pending l) = sf" if "sofMark l"
  proof -
    have "0 < msgWriteIndex l" "pDeMsgBuff l ! 0 = sf" "msgWriteIndex l \<le> length (pDeMsgBuff l)"
      using assms that by (simp_all add: link_ok_def parsing_def)
    then show ?thesis by (cases "pDeMsgBuff l") (simp_all add: Mz_pending_def take_Cons')
  qed
  show "scn (Mz_pending l) = ([], Mz_pending l)"
  proof (cases "sofMark l")
    case False
    then show ?thesis using ne by simp
  next
    case True
    then have "parsing (pDeMsgBuff l) l" "deLenght l = msgWriteIndex l" using assms by (simp_all add: link_ok_def)
    then have "fverdict (Mz_pending l) = Incomplete" using parsing_incomplete by (metis Mz_pending_def)
    moreover obtain bs where "Mz_pending l = sf # bs" using hd [OF True] ne True by (cases "Mz_pending l") simp_all
    ultimately show ?thesis by simp
  qed
qed

text \<open>A packet under way does not fill the buffer.\<close>

lemma link_has_room:
  assumes ok: "link_ok B l" and sm: "sofMark l" and fit: "fits B (Mz_pending l @ ys)"
    and B: "lower (length steps - 1) \<le> B"
  shows "msgWriteIndex l < B"
proof -
  let ?b = "pDeMsgBuff l" and ?w = "msgWriteIndex l" and ?i = "deStep l"
  have p: "?i < length steps" "lower ?i \<le> ?w" "?w < slen ?i ?b" "\<forall>j < ?i. chk j ?b" "?w \<le> length ?b"
    using ok sm by (simp_all add: link_ok_def parsing_def)
  show ?thesis
  proof (cases "Suc ?i < length steps")
    case True
    then have "slen ?i ?b \<le> lower (length steps - 1)"
      using lower_mono [of "Suc ?i" "length steps - 1"] by (simp add: step_len_def)
    then show ?thesis using p(3) B by simp
  next
    case False
    then have last: "Suc ?i = length steps" "?i = length steps - 1" using p(1) by simp_all
    let ?z = "Mz_pending l @ ys"
    have t: "take (lower ?i) ?z = take (lower ?i) ?b"
      using p(2,5) by (simp add: Mz_pending_def min_absorb1)
    have "chk j ?z" if "j < ?i" for j using chk_prefix [OF that _ t] p(1,4) that by simp
    moreover have "packet_len ?z = packet_len ?b" by (rule packet_local [OF last(1) t])
    moreover have "?z \<noteq> []" "?z ! 0 = sf" "lower ?i \<le> length ?z"
      using link_ok_pending [OF ok] sm p(2) by (auto simp: nth_append hd_conv_nth)
    ultimately have "packet_len ?b \<le> B"
      using fit [unfolded Mz_fits_def, THEN spec, of 0] last(2) by simp
    then show ?thesis using p(3) last(1) by (simp add: step_len_def)
  qed
qed

end

section \<open>Going back in the buffer\<close>

context mz_decoder begin

text \<open>
  The outcome of a piece of decoding on link \<open>p\<close>, after which the bytes \<open>bs\<close> have been scanned.
\<close>

definition scanned :: "nat \<Rightarrow> nat \<Rightarrow> 'o \<Rightarrow> bytes \<Rightarrow> ('w, 'z) Mz_Frame_scheme \<Rightarrow> ('w, 'z) Mz_Frame_scheme \<Rightarrow> bool" where
  "scanned B p x bs s s' \<longleftrightarrow> (\<exists>l'. links s' = (links s)[p := l'] \<and> link_ok B l' \<and>
     link_conf l' = link_conf (links s ! p) \<and> deStartTime l' \<in> {deStartTime (links s ! p), timeCNT s} \<and>
     Mz_pending l' = snd (scn bs) \<and> R (fold (act p) (fst (scn bs)) x) s' \<and> Mz_same P s s' \<and>
     (\<forall>q. q \<noteq> p \<longrightarrow> input q (world s') = input q (world s)))"

lemma DecodeInMsgBuf_ok:
  assumes p: "p < length (links s)" and len: "length (pDeMsgBuff (links s ! p)) = B" "B < 4294967296"
    and w: "msgWriteIndex (links s ! p) \<le> B" and fl: "pFuncList (links s ! p) \<noteq> None"
    and P: "length (pPacket (pPacketParm s)) = P" and R: "R x s"
  shows "\<exists>s'. Mz_DecodeInMsgBuf E fmt p s = Some s' \<and> scanned B p x (tl (Mz_pending (links s ! p))) s s' \<and>
     input p (world s') = input p (world s)"
proof -
  let ?l = "links s ! p"
  let ?l1 = "Mz_MSGSETREADINDEX 1 (Mz_STEPCLEAR ?l)"
  let ?s1 = "s\<lparr>links := (links s)[p := ?l1]\<rparr>"
  have up: "Mz_upd_link (\<lambda>l. Mz_MSGSETREADINDEX 1 (Mz_STEPCLEAR l)) p s = Some ?s1"
    using p by (simp add: Mz_upd_link_Some)
  have s1: "links ?s1 ! p = ?l1" "p < length (links ?s1)" using p by simp_all
  have conf: "same_bytes ?l ?l1" "deStartTime ?l1 = deStartTime ?l" by (simp_all add: Mz_link_macros)
  show ?thesis
  proof (cases "msgWriteIndex ?l = 0")
    case True
    let ?l2 = "?l1\<lparr>msgWriteIndex := 0\<rparr>"
    have gl1: "Mz_get_link p ?s1 = Some ?l1" using p by (simp add: Mz_get_link_Some)
    have "\<not> msgReadIndex ?l1 < msgWriteIndex ?l1" using True by (simp add: Mz_link_macros)
    then have "Mz_msgbuf_bytes E fmt p 0 ?s1 = Some (0, ?s1)"
      using gl1 by (subst Mz_msgbuf_bytes.simps) simp
    moreover have "Mz_LinkMsgToZero 0 (deLenght ?l1) ?l1 = Some ?l2"
      by (simp add: Mz_LinkMsgToZero_Some Mz_link_macros)
    ultimately have "Mz_DecodeInMsgBuf E fmt p s = Some (s\<lparr>links := (links s)[p := ?l2]\<rparr>)"
      using up gl1 by (simp add: Mz_DecodeInMsgBuf_def Mz_set_link_def)
    moreover have "scanned B p x (tl (Mz_pending ?l)) s (s\<lparr>links := (links s)[p := ?l2]\<rparr>)"
      unfolding scanned_def using True len P R_links [OF R]
      by (intro exI [of _ ?l2]) (simp add: link_ok_def Mz_pending_def Mz_same_def Mz_link_macros)
    ultimately show ?thesis by auto
  next
    case False
    have ok1: "mb_ok ?l1 0" using False w len by (simp add: mb_ok_def Mz_link_macros)
    have "pFuncList ?l1 \<noteq> None" using fl by (simp add: Mz_link_macros)
    then obtain i s2 where s2: "Mz_msgbuf_bytes E fmt p 0 ?s1 = Some (i, s2)" "mb_done p x 0 ?s1 i s2"
      using msgbuf_bytes_ok [of p ?s1 0 x] s1 ok1 P R_links [OF R] by auto
    have rest: "Mz_rest ?l1 0 = tl (Mz_pending ?l)" by (simp add: Mz_rest_def Mz_pending_def Mz_link_macros drop_Suc)
    obtain l2 where l2: "links s2 = (links s)[p := l2]" "mb_ok l2 i" "msgReadIndex l2 = msgWriteIndex l2"
        "same_bytes ?l l2" "deStartTime l2 \<in> {deStartTime ?l, timeCNT s}"
        "(if sofMark l2 then Mz_rest l2 i else []) = snd (scn (tl (Mz_pending ?l)))"
        "R (fold (act p) (fst (scn (tl (Mz_pending ?l)))) x) s2" "Mz_same P s s2"
        "\<forall>q. input q (world s2) = input q (world s)"
      using s2(2) conf unfolding mb_done_def s1(1) rest by (auto simp: Mz_same_def)
    let ?n = "deLenght l2" and ?b = "pDeMsgBuff l2"
    let ?l3 = "l2\<lparr>pDeMsgBuff := take ?n (drop i ?b) @ drop ?n ?b, msgWriteIndex := ?n\<rparr>"
    let ?s3 = "s2\<lparr>links := (links s)[p := ?l3]\<rparr>"
    have b: "length ?b = B" "msgWriteIndex l2 \<le> B" using l2(4) len w by simp_all
    have n: "?n \<le> B" "sofMark l2 \<Longrightarrow> i + ?n = msgWriteIndex l2" "\<not> sofMark l2 \<Longrightarrow> ?n = 0 \<and> deStep l2 = 0"
      using l2(2,3) b by (auto simp: mb_ok_def split: if_splits)
    have mv: "Mz_LinkMsgToZero i ?n l2 = Some ?l3"
    proof (cases "sofMark l2")
      case True
      then show ?thesis using n b by (simp add: Mz_LinkMsgToZero_Some)
    next
      case False
      then show ?thesis using n(3) by (simp add: Mz_LinkMsgToZero_def)
    qed
    have "Mz_get_link p s2 = Some l2" using p l2(1) by (simp add: Mz_get_link_Some)
    then have dec: "Mz_DecodeInMsgBuf E fmt p s = Some ?s3"
      using up s2(1) mv l2(1) by (simp add: Mz_DecodeInMsgBuf_def Mz_set_link_def)
    have len3: "length (take ?n (drop i ?b) @ drop ?n ?b) = B"
    proof (cases "sofMark l2")
      case True
      then show ?thesis using n b by simp
    next
      case False
      then show ?thesis using n b by simp
    qed
    have lok: "link_ok B ?l3 \<and> Mz_pending ?l3 = snd (scn (tl (Mz_pending ?l)))"
    proof (cases "sofMark l2")
      case False
      then show ?thesis using n(3) l2(6) b len(2) by (simp add: link_ok_def Mz_pending_def)
    next
      case True
      have o: "parsing (drop i ?b) l2" "?b ! i = sf" "0 < ?n" "?n \<le> length (drop i ?b)"
        using l2(2) True by (simp_all add: mb_ok_def parsing_def)
      have t: "take ?n (take ?n (drop i ?b) @ drop ?n ?b) = take ?n (drop i ?b)" using o(4) by simp
      have "parsing (take ?n (drop i ?b) @ drop ?n ?b) l2"
        by (rule parsing_local [OF o(1)]) (use t len3 n(1) in simp_all)
      then have ps: "parsing (take ?n (drop i ?b) @ drop ?n ?b) ?l3" by (simp add: parsing_def)
      have "(take ?n (drop i ?b) @ drop ?n ?b) ! 0 = sf" using o by (simp add: nth_append)
      then have "link_ok B ?l3" using True ps len3 len(2) n(1) by (simp add: link_ok_def)
      moreover have "Mz_pending ?l3 = Mz_rest l2 i"
        using True n(2) t by (simp add: Mz_pending_def Mz_rest_def drop_take flip: n(2))
      ultimately show ?thesis using l2(6) True by simp
    qed
    have "scanned B p x (tl (Mz_pending ?l)) s ?s3"
      unfolding scanned_def using lok l2(4,5,7,8,9) R_links [OF l2(7)]
      by (intro exI [of _ ?l3]) (simp add: Mz_same_def)
    then show ?thesis using dec l2(9) by auto
  qed
qed

end

section \<open>The loop over the bytes read\<close>

context mz_decoder begin

text \<open>What an iteration does to the link, the byte \<open>b\<close> being the next of the stream.\<close>

definition byte_result :: "nat \<Rightarrow> u32 \<Rightarrow> u8 \<Rightarrow> 'w Mz_LinkParm \<Rightarrow> 'w Mz_LinkParm \<Rightarrow> Mz_next \<Rightarrow> bool" where
  "byte_result B now b l l' nx \<longleftrightarrow> link_conf l' = link_conf l \<and> deStartTime l' \<in> {deStartTime l, now} \<and>
     length (pDeMsgBuff l') = B \<and> msgWriteIndex l' \<le> B \<and>
     (case nx of
        Mz_More \<Rightarrow> link_ok B l' \<and> scn (Mz_pending l @ [b]) = ([], Mz_pending l')
      | Mz_Again \<Rightarrow> Mz_pending l' = Mz_pending l @ [b] \<and> scn (Mz_pending l @ [b]) = scn (tl (Mz_pending l @ [b]))
      | Mz_Complete \<Rightarrow> deLenght l' \<le> B \<and> take (deLenght l') (pDeMsgBuff l') = Mz_pending l @ [b] \<and>
          fverdict (Mz_pending l @ [b]) = Packet (deLenght l') \<and> scn (Mz_pending l @ [b]) = ([Mz_pending l @ [b]], []))"

lemma link_byte_idle:
  assumes ok: "link_ok B l" and ns: "\<not> sofMark l" and B: "0 < B"
  shows "\<exists>l' nx. Mz_link_byte fmt now b l = Some (l', nx) \<and> byte_result B now b l l' nx"
proof -
  have o: "length (pDeMsgBuff l) = B" "msgWriteIndex l = 0" "deStep l = 0" "deLenght l = 0"
    using ok ns by (simp_all add: link_ok_def)
  have pe: "Mz_pending l = []" using o by (simp add: Mz_pending_def)
  show ?thesis
  proof (cases "b = sf")
    case False
    then show ?thesis using ns fmt ok o pe
      by (intro exI [of _ l] exI [of _ Mz_More]) (simp add: Mz_link_byte_def byte_result_def)
  next
    case True
    let ?l1 = "l\<lparr>pDeMsgBuff := (pDeMsgBuff l)[0 := b], msgWriteIndex := 1\<rparr>"
    have wr: "Mz_MSGWRITE b l = Some ?l1" using o B by (simp add: Mz_MSGWRITE_def wr8_Some)
    have ne: "pDeMsgBuff ?l1 \<noteq> []" using o(1) B by auto
    from start_step [OF fmt(1) _ _ ne, of ?l1 now] o obtain n where
      n: "Mz_start_step fmt now (pDeMsgBuff ?l1) ?l1 =
            Some (?l1\<lparr>deLenght := 1, sofMark := True, deStepLength := n, deStartTime := now\<rparr>)"
         "parsing (pDeMsgBuff ?l1) (?l1\<lparr>deLenght := 1, sofMark := True, deStepLength := n, deStartTime := now\<rparr>)"
      by auto
    let ?l2 = "?l1\<lparr>deLenght := 1, sofMark := True, deStepLength := n, deStartTime := now\<rparr>"
    have ok2: "link_ok B ?l2" using n(2) o(1) B ok True by (simp add: link_ok_def)
    have p2: "Mz_pending ?l2 = [b]" using o(1) B by (cases "pDeMsgBuff l") (simp_all add: Mz_pending_def)
    have "scn [b] = ([], [b])" using link_ok_pending(3) [OF ok2] unfolding p2 .
    then show ?thesis using ns fmt True wr n(1) ok2 p2 pe o(1) B
      by (intro exI [of _ ?l2] exI [of _ Mz_More]) (simp add: Mz_link_byte_def byte_result_def)
  qed
qed

lemma link_byte_parse:
  assumes ok: "link_ok B l" and sm: "sofMark l" and room: "msgWriteIndex l < B"
  shows "\<exists>l' nx. Mz_link_byte fmt now b l = Some (l', nx) \<and> byte_result B now b l l' nx"
proof -
  let ?w = "msgWriteIndex l" and ?b = "(pDeMsgBuff l)[msgWriteIndex l := b]"
  have o: "length (pDeMsgBuff l) = B" "B < 4294967296" "deLenght l = ?w" "parsing (pDeMsgBuff l) l" "0 < ?w"
      "pDeMsgBuff l ! 0 = sf"
    using ok sm by (simp_all add: link_ok_def parsing_def)
  have "?w < 65535" using o(3,4) lower_slen(2) [of "deStep l" "pDeMsgBuff l"] by (simp add: parsing_def)
  then have u: "u16n (deLenght l + 1) = Suc ?w" using o(3) by simp
  let ?l1 = "l\<lparr>deLenght := Suc ?w, pDeMsgBuff := ?b, msgWriteIndex := Suc ?w\<rparr>"
  have wr: "Mz_MSGWRITE b (l\<lparr>deLenght := Suc ?w\<rparr>) = Some ?l1"
    using o(1,2) room by (simp add: Mz_MSGWRITE_def wr8_Some)
  have "parsing ?b l" by (rule parsing_local [OF o(4)]) (use o(1,3) room in simp_all)
  then have "parsing ?b (?l1\<lparr>deLenght := ?w\<rparr>)" using o(3) by (simp add: parsing_def)
  from next_step [OF fmt(1) this] o(1) room obtain l' nx where
    n: "Mz_next_step fmt ?b ?l1 = Some (l', nx)" "next_result ?b ?l1 l' nx" by auto
  obtain i k where l': "l' = ?l1\<lparr>deStep := i, deStepLength := k\<rparr>" using n(2) by (auto simp: next_result_def)
  have byte: "Mz_link_byte fmt now b l = Some (l', nx)" using sm u wr n(1) by (simp add: Mz_link_byte_def)
  have pend: "Mz_pending l @ [b] = take (Suc ?w) ?b"
    using o(1) room by (simp add: Mz_pending_def take_Suc_conv_app_nth)
  then have p': "Mz_pending l' = Mz_pending l @ [b]" by (simp add: Mz_pending_def l')
  obtain bs where bs: "Mz_pending l @ [b] = sf # bs"
    using link_ok_pending(2,4) [OF ok] sm by (cases "Mz_pending l") simp_all
  show ?thesis
  proof (cases nx)
    case Mz_More
    then have "link_ok B l'" using n(2) o sm room by (simp add: next_result_def link_ok_def l' nth_list_update)
    moreover from link_ok_pending(3) [OF this] have "scn (Mz_pending l @ [b]) = ([], Mz_pending l')" unfolding p' .
    ultimately show ?thesis using byte Mz_More o(1) room
      by (intro exI [of _ l'] exI [of _ nx]) (simp add: byte_result_def l')
  next
    case Mz_Again
    then have "fverdict (sf # bs) = Bad" using n(2) pend bs by (simp add: next_result_def)
    then have "scn (Mz_pending l @ [b]) = scn (tl (Mz_pending l @ [b]))" unfolding bs by simp
    then show ?thesis using byte Mz_Again o(1) room p'
      by (intro exI [of _ l'] exI [of _ nx]) (simp add: byte_result_def l')
  next
    case Mz_Complete
    then have v: "fverdict (Mz_pending l @ [b]) = Packet (Suc ?w)" using n(2) pend by (simp add: next_result_def)
    have len: "length (Mz_pending l @ [b]) = Suc ?w" using link_ok_pending(1) [OF ok] by simp
    have "scn (Mz_pending l @ [b]) = ([Mz_pending l @ [b]], [])"
      using scan_packet [of "Mz_pending l @ [b]" "[]"] v len bs by simp
    then show ?thesis using byte Mz_Complete o(1) room pend v
      by (intro exI [of _ l'] exI [of _ nx]) (simp add: byte_result_def l')
  qed
qed

text \<open>The iteration with what follows it: the byte has been scanned.\<close>

lemma link_byte_ok:
  assumes p: "p < length (links s)" and ok: "link_ok B (links s ! p)" and fl: "pFuncList (links s ! p) \<noteq> None"
    and P: "length (pPacket (pPacketParm s)) = P" and R: "R x s" and B: "0 < B"
    and room: "sofMark (links s ! p) \<Longrightarrow> msgWriteIndex (links s ! p) < B"
  shows "\<exists>l' nx s'. Mz_link_byte fmt (timeCNT s) b (links s ! p) = Some (l', nx) \<and>
     (case nx of
        Mz_More \<Rightarrow> Some (Mz_set_link p l' s)
      | Mz_Again \<Rightarrow> Mz_DecodeInMsgBuf E fmt p (Mz_set_link p l' s)
      | Mz_Complete \<Rightarrow> do {
          s \<leftarrow> Mz_deliver E fmt p (pDeMsgBuff l') (deLenght l') (Mz_set_link p l' s);
          Mz_upd_link (\<lambda>l. Mz_MSGCLEAR (Mz_STEPCLEAR l)) p s }) = Some s' \<and>
     scanned B p x (Mz_pending (links s ! p) @ [b]) s s' \<and> input p (world s') = input p (world s)"
proof -
  let ?l = "links s ! p"
  obtain l' nx where lb: "Mz_link_byte fmt (timeCNT s) b ?l = Some (l', nx)" "byte_result B (timeCNT s) b ?l l' nx"
    using link_byte_idle [OF ok] link_byte_parse [OF ok] room B by blast
  let ?s1 = "Mz_set_link p l' s"
  have s1: "links ?s1 = (links s)[p := l']" "links ?s1 ! p = l'" "p < length (links ?s1)" "R x ?s1"
      "length (pPacket (pPacketParm ?s1)) = P" "timeCNT ?s1 = timeCNT s" "world ?s1 = world s"
    using p P R_links [OF R] by (simp_all add: Mz_set_link_def)
  have r: "link_conf l' = link_conf ?l" "deStartTime l' \<in> {deStartTime ?l, timeCNT s}" "length (pDeMsgBuff l') = B"
      "msgWriteIndex l' \<le> B" "B < 4294967296"
    using lb(2) ok by (simp_all add: byte_result_def link_ok_def)
  have fl': "pFuncList l' \<noteq> None" using fl link_confD(7) [OF r(1)] by simp
  have same1: "Mz_same P s ?s1" using P by (simp add: Mz_same_def Mz_set_link_def)
  show ?thesis
  proof (cases nx)
    case Mz_More
    then have m: "link_ok B l'" "scn (Mz_pending ?l @ [b]) = ([], Mz_pending l')" using lb(2) by (simp_all add: byte_result_def)
    have "scanned B p x (Mz_pending ?l @ [b]) s ?s1"
      unfolding scanned_def m(2) using s1 m(1) r same1 by (intro exI [of _ l']) simp
    then show ?thesis using lb(1) Mz_More s1(7) by (intro exI [of _ l'] exI [of _ nx] exI [of _ ?s1]) simp
  next
    case Mz_Again
    then have m: "Mz_pending l' = Mz_pending ?l @ [b]" "scn (Mz_pending ?l @ [b]) = scn (tl (Mz_pending ?l @ [b]))"
      using lb(2) by (simp_all add: byte_result_def)
    obtain s' where s': "Mz_DecodeInMsgBuf E fmt p ?s1 = Some s'" "scanned B p x (tl (Mz_pending l')) ?s1 s'"
        "input p (world s') = input p (world ?s1)"
      using DecodeInMsgBuf_ok [of p ?s1 B x] s1 r fl' by auto
    obtain l2 where l2: "links s' = (links ?s1)[p := l2]" "link_ok B l2" "link_conf l2 = link_conf l'"
        "deStartTime l2 \<in> {deStartTime l', timeCNT s}" "Mz_pending l2 = snd (scn (Mz_pending ?l @ [b]))"
        "R (fold (act p) (fst (scn (Mz_pending ?l @ [b]))) x) s'" "Mz_same P ?s1 s'"
        "\<forall>q. q \<noteq> p \<longrightarrow> input q (world s') = input q (world s)"
      using s'(2) unfolding scanned_def m s1(2,6,7) by blast
    have "scanned B p x (Mz_pending ?l @ [b]) s s'"
      unfolding scanned_def using l2 s1(1) r(1,2) Mz_same_trans [OF same1 l2(7)] by (intro exI [of _ l2]) auto
    then show ?thesis using lb(1) Mz_Again s'(1,3) s1(7) by (intro exI [of _ l'] exI [of _ nx] exI [of _ s']) simp
  next
    case Mz_Complete
    then have m: "deLenght l' \<le> B" "take (deLenght l') (pDeMsgBuff l') = Mz_pending ?l @ [b]"
        "fverdict (Mz_pending ?l @ [b]) = Packet (deLenght l')" "scn (Mz_pending ?l @ [b]) = ([Mz_pending ?l @ [b]], [])"
      using lb(2) by (simp_all add: byte_result_def)
    obtain s2 where s2: "Mz_deliver E fmt p (pDeMsgBuff l') (deLenght l') ?s1 = Some s2"
        "R (act p (Mz_pending ?l @ [b]) x) s2" "Mz_kept P input ?s1 s2"
      using deliver_ok [of x ?s1 p "deLenght l'" "pDeMsgBuff l'"] s1 fl' m r(3) by auto
    let ?l2 = "Mz_MSGCLEAR (Mz_STEPCLEAR l')"
    let ?s' = "s2\<lparr>links := (links s)[p := ?l2]\<rparr>"
    have ls2: "links s2 = (links s)[p := l']" "\<forall>q. input q (world s2) = input q (world s)" "Mz_same P ?s1 s2"
      using s2(3) s1(1,7) by (simp_all add: Mz_kept_def)
    have up: "Mz_upd_link (\<lambda>l. Mz_MSGCLEAR (Mz_STEPCLEAR l)) p s2 = Some ?s'"
      using p ls2(1) by (simp add: Mz_upd_link_Some)
    have "link_ok B ?l2" "Mz_pending ?l2 = []" using r by (simp_all add: link_ok_def Mz_pending_def Mz_link_macros)
    moreover have "link_conf ?l2 = link_conf ?l" "deStartTime ?l2 \<in> {deStartTime ?l, timeCNT s}"
      using r(1,2) by (simp_all add: Mz_link_macros)
    ultimately have "scanned B p x (Mz_pending ?l @ [b]) s ?s'"
      unfolding scanned_def m(4) using R_links [OF s2(2)] Mz_same_trans [OF same1 ls2(3)] ls2(2)
      by (intro exI [of _ ?l2]) (simp add: Mz_same_def)
    then show ?thesis using lb(1) Mz_Complete s2(1) up ls2(2)
      by (intro exI [of _ l'] exI [of _ nx] exI [of _ ?s']) simp
  qed
qed

end

text \<open>Reading one byte under the reader's contract.\<close>

lemma Mz_read_ok:
  assumes rd: "readData l = Some rd" and r: "reads_input input p rd"
  shows "(\<exists>w'. Mz_read l w = Some (None, w') \<and> input p w = [] \<and> (\<forall>q. input q w' = input q w)) \<or>
     (\<exists>b w'. Mz_read l w = Some (Some b, w') \<and> input p w = b # input p w' \<and> (\<forall>q. q \<noteq> p \<longrightarrow> input q w' = input q w))"
proof -
  obtain ch w' where ch: "rd 1 w = (ch, w')" by (cases "rd 1 w")
  have "input p w = ch @ input p w' \<and> length ch \<le> 1 \<and> length ch < 256 \<and> (ch = [] \<longrightarrow> (1 :: nat) = 0 \<or> input p w = []) \<and>
      (\<forall>q. q \<noteq> p \<longrightarrow> input q w' = input q w)"
    using spec [OF spec [OF r [unfolded reads_input_def], of 1], of w] unfolding ch prod.case by blast
  then have c: "input p w = ch @ input p w'" "length ch \<le> 1" "ch = [] \<longrightarrow> input p w = []"
      "\<forall>q. q \<noteq> p \<longrightarrow> input q w' = input q w"
    by auto
  show ?thesis
  proof (cases ch)
    case Nil
    then have "\<forall>q. input q w' = input q w" using c by (metis append_Nil)
    moreover have "Mz_read l w = Some (None, w')" using rd ch Nil by (simp add: Mz_read_def)
    ultimately show ?thesis using c(3) Nil by blast
  next
    case (Cons b bs)
    then have "bs = []" using c(2) by simp
    then show ?thesis using rd ch Cons c(1,4) by (simp add: Mz_read_def)
  qed
qed

context mz_decoder begin

lemma scanned_trans:
  assumes p: "p < length (links s)" and a: "scanned B p x (pd @ [b]) s s1"
    and c: "scanned B p (fold (act p) (fst (scn (pd @ [b]))) x) (Mz_pending (links s1 ! p) @ ys) s1 s2"
  shows "scanned B p x (pd @ b # ys) s s2"
proof -
  obtain l1 where l1: "links s1 = (links s)[p := l1]" "link_conf l1 = link_conf (links s ! p)"
      "deStartTime l1 \<in> {deStartTime (links s ! p), timeCNT s}" "Mz_pending l1 = snd (scn (pd @ [b]))"
      "Mz_same P s s1" "\<forall>q. q \<noteq> p \<longrightarrow> input q (world s1) = input q (world s)"
    using a unfolding scanned_def by blast
  have e: "links s1 ! p = l1" "timeCNT s1 = timeCNT s" using p l1(1,5) by (simp_all add: Mz_same_def)
  obtain l2 where l2: "links s2 = (links s1)[p := l2]" "link_ok B l2" "link_conf l2 = link_conf l1"
      "deStartTime l2 \<in> {deStartTime l1, timeCNT s}" "Mz_pending l2 = snd (scn (snd (scn (pd @ [b])) @ ys))"
      "R (fold (act p) (fst (scn (snd (scn (pd @ [b])) @ ys))) (fold (act p) (fst (scn (pd @ [b]))) x)) s2"
      "Mz_same P s1 s2" "\<forall>q. q \<noteq> p \<longrightarrow> input q (world s2) = input q (world s1)"
    using c unfolding scanned_def e l1(4) by blast
  have sc: "scn (pd @ b # ys) = (fst (scn (pd @ [b])) @ fst (scn (snd (scn (pd @ [b])) @ ys)),
      snd (scn (snd (scn (pd @ [b])) @ ys)))"
    using scan_append [of "pd @ [b]" ys] by simp
  show ?thesis
    unfolding scanned_def sc using l2 l1 Mz_same_trans [OF l1(5) l2(7)] by (intro exI [of _ l2]) auto
qed

lemma link_bytes_ok:
  assumes "p < length (links s)" and "link_ok B (links s ! p)" and "link_ready input p (links s ! p)"
    and "length (pPacket (pPacketParm s)) = P" and "R x s" and "0 < B" and "lower (length steps - 1) \<le> B"
    and "fits B (Mz_pending (links s ! p) @ input p (world s))"
  shows "\<exists>s'. Mz_link_bytes E fmt p s = Some s' \<and> input p (world s') = [] \<and>
     scanned B p x (Mz_pending (links s ! p) @ input p (world s)) s s' \<and>
     (input p (world s) = [] \<longrightarrow> links s' = links s)"
  using assms
proof (induction "length (input p (world s))" arbitrary: s x rule: less_induct)
  case less
  note prems = less.prems
  let ?l = "links s ! p"
  obtain rd where rd: "readData ?l = Some rd" "reads_input input p rd" "pFuncList ?l \<noteq> None"
    using prems(3) by (auto simp: link_ready_def split: option.splits)
  have gl: "Mz_get_link p s = Some ?l" using prems(1) by (rule Mz_get_link_Some)
  from Mz_read_ok [OF rd(1,2), of "world s"] show ?case
  proof (elim disjE exE conjE)
    fix w' assume r: "Mz_read ?l (world s) = Some (None, w')" "input p (world s) = []" "\<forall>q. input q w' = input q (world s)"
    have "Mz_link_bytes E fmt p s = Some (s\<lparr>world := w'\<rparr>)"
      using gl r(1) by (simp add: Mz_link_bytes.simps [of E fmt p s])
    moreover have "scanned B p x (Mz_pending ?l) s (s\<lparr>world := w'\<rparr>)"
      unfolding scanned_def link_ok_pending(3) [OF prems(2)]
      using prems R_world [OF prems(5)] r(3) by (intro exI [of _ ?l]) (simp add: Mz_same_def)
    ultimately show ?thesis using r(2,3) by auto
  next
    fix b w' assume r: "Mz_read ?l (world s) = Some (Some b, w')" "input p (world s) = b # input p w'"
      "\<forall>q. q \<noteq> p \<longrightarrow> input q w' = input q (world s)"
    let ?s0 = "s\<lparr>world := w'\<rparr>"
    have s0: "links ?s0 = links s" "timeCNT ?s0 = timeCNT s" "R x ?s0" "p < length (links ?s0)"
        "length (pPacket (pPacketParm ?s0)) = P"
      using prems(1,4) R_world [OF prems(5)] by simp_all
    have room: "sofMark ?l \<Longrightarrow> msgWriteIndex ?l < B" using link_has_room [OF prems(2) _ prems(8,7)] by blast
    obtain l' nx s1 where b: "Mz_link_byte fmt (timeCNT s) b ?l = Some (l', nx)"
      "(case nx of
        Mz_More \<Rightarrow> Some (Mz_set_link p l' ?s0)
      | Mz_Again \<Rightarrow> Mz_DecodeInMsgBuf E fmt p (Mz_set_link p l' ?s0)
      | Mz_Complete \<Rightarrow> do {
          s \<leftarrow> Mz_deliver E fmt p (pDeMsgBuff l') (deLenght l') (Mz_set_link p l' ?s0);
          Mz_upd_link (\<lambda>l. Mz_MSGCLEAR (Mz_STEPCLEAR l)) p s }) = Some s1"
      "scanned B p x (Mz_pending ?l @ [b]) ?s0 s1" "input p (world s1) = input p w'"
      using link_byte_ok [OF s0(4), of B x b] prems(2,6) rd(3) s0 room by auto
    have step: "Mz_link_bytes E fmt p s = Mz_link_bytes E fmt p s1"
      using gl r(1) b(1,2)
      by (cases nx) (auto simp: Mz_link_bytes.simps [of E fmt p s] Mz_GetStartTime_def split: bind_splits)
    have sc: "scanned B p x (Mz_pending ?l @ [b]) s s1"
      using b(3) r(3) by (simp add: scanned_def Mz_same_def)
    obtain l1 where l1: "links s1 = (links s)[p := l1]" "link_ok B l1" "link_conf l1 = link_conf ?l"
        "Mz_pending l1 = snd (scn (Mz_pending ?l @ [b]))"
        "R (fold (act p) (fst (scn (Mz_pending ?l @ [b]))) x) s1" "Mz_same P s s1"
      using sc unfolding scanned_def by blast
    have l1p: "links s1 ! p = l1" "p < length (links s1)" using prems(1) l1(1) by simp_all
    obtain ys where "Mz_pending ?l @ [b] = ys @ Mz_pending l1"
      unfolding l1(4) using scan_leaves_suffix [of "Mz_pending ?l @ [b]"] by blast
    then have "Mz_pending ?l @ input p (world s) = ys @ Mz_pending l1 @ input p (world s1)"
      unfolding r(2) b(4) by (metis append_Cons append_Nil append_assoc)
    then have fit: "fits B (Mz_pending l1 @ input p (world s1))" using prems(8) Mz_fits_suffix by metis
    obtain s' where s': "Mz_link_bytes E fmt p s1 = Some s'" "input p (world s') = []"
        "scanned B p (fold (act p) (fst (scn (Mz_pending ?l @ [b]))) x) (Mz_pending l1 @ input p (world s1)) s1 s'"
      using less.hyps [of s1 "fold (act p) (fst (scn (Mz_pending ?l @ [b]))) x"] b(4) r(2) l1 l1p fit prems(6,7)
        link_ready_conf [OF l1(3)] prems(3)
      by (auto simp: Mz_same_def)
    have "scanned B p x (Mz_pending ?l @ input p (world s)) s s'"
      using scanned_trans [OF prems(1) sc] s'(3) l1p(1) r(2) b(4) by simp
    then show ?thesis using step s'(1,2) r(2) by auto
  qed
qed

end

section \<open>A call of \<open>DecodeInLink\<close>, and one for every link\<close>

text \<open>The time since the preamble of the packet under way is over.\<close>

definition Mz_late :: "('w, 'z) Mz_Frame_scheme \<Rightarrow> 'w Mz_LinkParm \<Rightarrow> bool" where
  "Mz_late s l \<longleftrightarrow> Mz_IsTimeOut s (ucast (deTimeOut l)) (deStartTime l)"

definition Mz_registered :: "('w, 'z) Mz_Frame_scheme \<Rightarrow> nat \<Rightarrow> bool" where
  "Mz_registered s p \<longleftrightarrow> Some p \<in> set (take (linkNum s) (pLinkList s))"

abbreviation same_links :: "('w, 'z) Mz_Frame_scheme \<Rightarrow> ('w, 'z) Mz_Frame_scheme \<Rightarrow> bool" where
  "same_links s s' \<equiv> map link_conf (links s') = map link_conf (links s)"

lemma Mz_conf_update:
  "i < length ls \<Longrightarrow> link_conf l = link_conf (ls ! i) \<Longrightarrow> map link_conf (ls[i := l]) = map link_conf ls"
  by (metis list_update_id map_update nth_map length_map)

context mz_decoder begin

definition link_decoded :: "nat \<Rightarrow> nat \<Rightarrow> 'o \<Rightarrow> ('w, 'z) Mz_Frame_scheme \<Rightarrow> ('w, 'z) Mz_Frame_scheme \<Rightarrow> bool" where
  "link_decoded B p x s s' \<longleftrightarrow> (\<exists>l' pkts. links s' = (links s)[p := l'] \<and> link_ok B l' \<and>
     link_conf l' = link_conf (links s ! p) \<and> R (fold (act p) pkts x) s' \<and> Mz_same P s s' \<and>
     (\<forall>pkt \<in> set pkts. fverdict pkt = Packet (length pkt) \<and> pkt \<noteq> [] \<and> hd pkt = sf) \<and>
     input p (world s') = [] \<and> (\<forall>q. q \<noteq> p \<longrightarrow> input q (world s') = input q (world s)) \<and>
     (\<exists>ys. Mz_pending (links s ! p) @ input p (world s) = ys @ Mz_pending l') \<and>
     (\<not> Mz_late s (links s ! p) \<longrightarrow> \<not> Mz_late s' l' \<and>
        (pkts, Mz_pending l') = scn (Mz_pending (links s ! p) @ input p (world s))) \<and>
     (Mz_late s (links s ! p) \<and> input p (world s) = [] \<longrightarrow>
        (pkts, Mz_pending l') = scn (tl (Mz_pending (links s ! p)))))"

lemma DecodeInLink_ok:
  assumes p: "p < length (links s)" and ok: "link_ok B (links s ! p)" and ready: "link_ready input p (links s ! p)"
    and fid: "pFormat (links s ! p) = Some fid" "formats E fid = fmt" and en: "enable (links s ! p)"
    and P: "length (pPacket (pPacketParm s)) = P" and R: "R x s" and B: "0 < B" "lower (length steps - 1) \<le> B"
    and fit: "fits B (Mz_pending (links s ! p) @ input p (world s))"
  shows "\<exists>s'. Mz_DecodeInLink E p s = Some s' \<and> link_decoded B p x s s'"
proof -
  let ?l = "links s ! p" and ?in = "Mz_pending (links s ! p) @ input p (world s)"
  have gl: "Mz_get_link p s = Some ?l" using p by (rule Mz_get_link_Some)
  obtain s1 where s1: "Mz_link_bytes E fmt p s = Some s1" "input p (world s1) = []" "scanned B p x ?in s s1"
      "input p (world s) = [] \<longrightarrow> links s1 = links s"
    using link_bytes_ok [OF p ok ready P R B fit] by blast
  obtain l1 where l1: "links s1 = (links s)[p := l1]" "link_ok B l1" "link_conf l1 = link_conf ?l"
      "deStartTime l1 \<in> {deStartTime ?l, timeCNT s}" "Mz_pending l1 = snd (scn ?in)"
      "R (fold (act p) (fst (scn ?in)) x) s1" "Mz_same P s s1" "\<forall>q. q \<noteq> p \<longrightarrow> input q (world s1) = input q (world s)"
    using s1(3) unfolding scanned_def by blast
  have g1: "Mz_get_link p s1 = Some l1" "links s1 ! p = l1" "p < length (links s1)"
    using p l1(1) by (simp_all add: Mz_get_link_Some)
  have t1: "timeCNT s1 = timeCNT s" "deTimeOut l1 = deTimeOut ?l" "pFuncList l1 \<noteq> None"
    using l1(3,7) link_confD [OF l1(3)] ready by (auto simp: Mz_same_def link_ready_def)
  have early: "\<not> Mz_late s1 l1" if "\<not> Mz_late s ?l"
    using that l1(4) t1 by (auto simp: Mz_late_def Mz_IsTimeOut_def)
  have dec: "Mz_DecodeInLink E p s = (if Mz_late s1 l1 then Mz_DecodeInMsgBuf E fmt p s1 else Some s1)"
    using gl en fid s1(1) g1(1) by (simp add: Mz_DecodeInLink_def Mz_late_def)
  show ?thesis
  proof (cases "Mz_late s1 l1")
    case False
    have late: "(fst (scn ?in), Mz_pending l1) = scn (tl (Mz_pending ?l))" if "Mz_late s ?l" "input p (world s) = []"
      using that s1(4) False g1(2) t1 by (simp add: Mz_late_def Mz_IsTimeOut_def)
    have "\<exists>ys. ?in = ys @ Mz_pending l1" unfolding l1(5) by (rule scan_leaves_suffix)
    then have "link_decoded B p x s s1"
      unfolding link_decoded_def using l1 s1(2) scan_sound [of ?in] early late False
      by (intro exI [of _ l1] exI [of _ "fst (scn ?in)"]) auto
    then show ?thesis using dec False by simp
  next
    case True
    then have late: "Mz_late s ?l" using early by blast
    have b: "length (pDeMsgBuff l1) = B" "B < 4294967296" "msgWriteIndex l1 \<le> B" using l1(2) by (simp_all add: link_ok_def)
    obtain s2 where s2: "Mz_DecodeInMsgBuf E fmt p s1 = Some s2"
        "scanned B p (fold (act p) (fst (scn ?in)) x) (tl (Mz_pending l1)) s1 s2" "input p (world s2) = input p (world s1)"
      using DecodeInMsgBuf_ok [of p s1 B "fold (act p) (fst (scn ?in)) x"] g1 b t1(3) l1(6,7) by (auto simp: Mz_same_def)
    obtain l2 where l2: "links s2 = (links s1)[p := l2]" "link_ok B l2" "link_conf l2 = link_conf l1"
      "Mz_pending l2 = snd (scn (tl (Mz_pending l1)))"
      "R (fold (act p) (fst (scn (tl (Mz_pending l1)))) (fold (act p) (fst (scn ?in)) x)) s2" "Mz_same P s1 s2"
      "\<forall>q. q \<noteq> p \<longrightarrow> input q (world s2) = input q (world s1)"
      using s2(2) unfolding scanned_def g1(2) by blast
    let ?pk = "fst (scn ?in) @ fst (scn (tl (Mz_pending l1)))"
    have "(?pk, Mz_pending l2) = scn (tl (Mz_pending ?l))" if "input p (world s) = []"
      using that l1(5) l2(4) link_ok_pending(3) [OF ok] by simp
    moreover have "\<exists>ys. ?in = ys @ Mz_pending l2"
    proof -
      obtain ys where ys: "?in = ys @ Mz_pending l1" unfolding l1(5) using scan_leaves_suffix by blast
      obtain zs where zs: "tl (Mz_pending l1) = zs @ Mz_pending l2" unfolding l2(4) using scan_leaves_suffix by blast
      have "Mz_pending l1 = take 1 (Mz_pending l1) @ tl (Mz_pending l1)" by (cases "Mz_pending l1") simp_all
      then have "?in = (ys @ take 1 (Mz_pending l1) @ zs) @ Mz_pending l2" using ys zs by (metis append_assoc)
      then show ?thesis by blast
    qed
    ultimately have "link_decoded B p x s s2"
      unfolding link_decoded_def
      using l1 l2 s1(2) s2(3) scan_sound [of ?in] scan_sound [of "tl (Mz_pending l1)"] late Mz_same_trans [OF l1(7) l2(6)]
      by (intro exI [of _ l2] exI [of _ ?pk]) auto
    then show ?thesis using dec True s2(1) by simp
  qed
qed

text \<open>Every registered link is between two bytes, connected, and what is coming fits its buffer.\<close>

definition mz_ready :: "nat \<Rightarrow> ('w, 'z) Mz_Frame_scheme \<Rightarrow> bool" where
  "mz_ready B s \<longleftrightarrow> length (pPacket (pPacketParm s)) = P \<and> linkNum s \<le> linkMaxNum s \<and>
     (\<forall>i < linkNum s. pLinkList s ! i \<noteq> None) \<and>
     (\<forall>p. Mz_registered s p \<longrightarrow> p < length (links s) \<and> link_ok B (links s ! p) \<and> link_ready input p (links s ! p) \<and>
        (case pFormat (links s ! p) of None \<Rightarrow> False | Some fid \<Rightarrow> formats E fid = fmt))"

abbreviation coming_fits :: "nat \<Rightarrow> ('w, 'z) Mz_Frame_scheme \<Rightarrow> nat \<Rightarrow> bool" where
  "coming_fits B s p \<equiv> fits B (Mz_pending (links s ! p) @ input p (world s))"

lemma mz_readyD:
  assumes "mz_ready B s" and "Mz_registered s p"
  shows "p < length (links s)" "link_ok B (links s ! p)" "link_ready input p (links s ! p)"
    "\<exists>fid. pFormat (links s ! p) = Some fid \<and> formats E fid = fmt" "length (pPacket (pPacketParm s)) = P"
  using assms by (auto simp: mz_ready_def split: option.splits)

lemma mz_ready_after:
  assumes r: "mz_ready B s" and l: "links s' = (links s)[p := l']" "link_ok B l'" "link_conf l' = link_conf (links s ! p)"
    and same: "Mz_same P s s'"
  shows "mz_ready B s'"
  unfolding mz_ready_def
proof (intro conjI allI impI)
  show "length (pPacket (pPacketParm s')) = P" "linkNum s' \<le> linkMaxNum s'"
    using r same by (simp_all add: Mz_same_def mz_ready_def)
  show "pLinkList s' ! i \<noteq> None" if "i < linkNum s'" for i using r same that by (simp add: Mz_same_def mz_ready_def)
  fix q assume "Mz_registered s' q"
  then have q: "Mz_registered s q" using same by (simp add: Mz_same_def Mz_registered_def)
  note d = mz_readyD [OF r q]
  show "q < length (links s')" using d l by simp
  have conf: "link_conf (links s' ! q) = link_conf (links s ! q)" using l d(1) by (cases "q = p") simp_all
  show "link_ok B (links s' ! q)" using d l by (cases "q = p") simp_all
  show "link_ready input q (links s' ! q)" using d(3) link_ready_conf [OF conf] by blast
  show "case pFormat (links s' ! q) of None \<Rightarrow> False | Some fid \<Rightarrow> formats E fid = fmt"
    using d(4) link_confD(6) [OF conf] by auto
qed

lemma decode_link_ready:
  assumes r: "mz_ready B s" and p: "Mz_registered s p" and R: "R x s" and B: "0 < B" "lower (length steps - 1) \<le> B"
    and fit: "coming_fits B s p"
  shows "\<exists>s' l' pkts. Mz_DecodeInLink E p s = Some s' \<and> mz_ready B s' \<and> R (fold (act p) pkts x) s' \<and> Mz_same P s s' \<and>
     links s' = (links s)[p := l'] \<and> link_conf l' = link_conf (links s ! p) \<and>
     (\<forall>q. coming_fits B s q \<longrightarrow> coming_fits B s' q)"
proof -
  note d = mz_readyD [OF r p]
  obtain fid where fid: "pFormat (links s ! p) = Some fid" "formats E fid = fmt" using d(4) by blast
  show ?thesis
  proof (cases "enable (links s ! p)")
    case True
    obtain s' where s': "Mz_DecodeInLink E p s = Some s'" "link_decoded B p x s s'"
      using DecodeInLink_ok [OF d(1,2,3) fid True d(5) R B fit] by blast
    then obtain l' pkts where l': "links s' = (links s)[p := l']" "link_ok B l'" "link_conf l' = link_conf (links s ! p)"
        "R (fold (act p) pkts x) s'" "Mz_same P s s'" "input p (world s') = []"
        "\<forall>q. q \<noteq> p \<longrightarrow> input q (world s') = input q (world s)"
        "\<exists>ys. Mz_pending (links s ! p) @ input p (world s) = ys @ Mz_pending l'"
      unfolding link_decoded_def by blast
    have "coming_fits B s' p"
      using fit l'(6,8) d(1) Mz_fits_suffix unfolding l'(1) by (metis append_Nil2 nth_list_update_eq)
    moreover have "coming_fits B s' q = coming_fits B s q" if "q \<noteq> p" for q
      using that l'(1,7) by simp
    ultimately have "\<forall>q. coming_fits B s q \<longrightarrow> coming_fits B s' q" by metis
    then show ?thesis using s'(1) mz_ready_after [OF r l'(1,2,3,5)] l'(1,3,4,5) by blast
  next
    case False
    let ?l = "Mz_MSGCLEAR (Mz_STEPCLEAR (links s ! p))"
    let ?s' = "s\<lparr>links := (links s)[p := ?l]\<rparr>"
    have "Mz_DecodeInLink E p s = Some ?s'"
      using False d(1) by (simp add: Mz_DecodeInLink_def Mz_get_link_Some Mz_upd_link_Some)
    moreover have l: "link_ok B ?l" "link_conf ?l = link_conf (links s ! p)" "Mz_pending ?l = []"
      using d(2) by (simp_all add: link_ok_def Mz_link_macros Mz_pending_def)
    moreover have same: "Mz_same P s ?s'" using d(5) by (simp add: Mz_same_def)
    moreover have "mz_ready B ?s'" by (rule mz_ready_after [OF r _ l(1,2) same]) simp
    moreover have "coming_fits B ?s' q" if "coming_fits B s q" for q
      using that l(3) d(1) Mz_fits_suffix [of _ _ _ _ _ B "Mz_pending (links s ! p)"] by (cases "q = p") auto
    ultimately show ?thesis using R_links [OF R]
      by (intro exI [of _ ?s'] exI [of _ ?l] exI [of _ "[]"]) simp
  qed
qed


text \<open>\<open>evs\<close> are the packets handed over, each with its link.\<close>

lemma DeLinkDecode_ready:
  assumes "mz_ready B s" and "R x s" and B: "0 < B" "lower (length steps - 1) \<le> B"
    and "\<forall>p. Mz_registered s p \<longrightarrow> coming_fits B s p"
  shows "\<exists>s' evs. Mz_DeLinkDecode E s = Some s' \<and> mz_ready B s' \<and> R (fold (case_prod act) evs x) s' \<and>
     Mz_same P s s' \<and> same_links s s'"
proof -
  let ?I = "\<lambda>t. mz_ready B t \<and> (\<exists>evs. R (fold (case_prod act) evs x) t) \<and> Mz_same P s t \<and> same_links s t \<and>
     (\<forall>p. Mz_registered s p \<longrightarrow> coming_fits B t p)"
  have pk: "length (pPacket (pPacketParm s)) = P" using assms(1) by (simp add: mz_ready_def)
  have "\<exists>s'. Mz_DeLinkDecode E s = Some s' \<and> ?I s'"
    unfolding Mz_DeLinkDecode_def
  proof (rule foldM_inv)
    show "?I s" using assms pk by (auto simp: Mz_same_def intro: exI [of _ "[]"])
    fix cir t assume cir: "cir \<in> set [0..<linkNum s]" and I: "?I t"
    then obtain evs where t: "mz_ready B t" "R (fold (case_prod act) evs x) t" "Mz_same P s t" "same_links s t"
        "\<forall>p. Mz_registered s p \<longrightarrow> coming_fits B t p" by blast
    have eq: "pLinkList t = pLinkList s" "linkNum t = linkNum s" using t(3) by (simp_all add: Mz_same_def)
    have c: "cir < linkNum t" "cir < linkMaxNum t" using cir t(1) eq by (auto simp: mz_ready_def)
    then obtain p where p: "pLinkList t ! cir = Some p" using t(1) by (auto simp: mz_ready_def)
    have reg: "Mz_registered t p"
      unfolding Mz_registered_def in_set_conv_nth using c p by (intro exI [of _ cir]) simp
    then have reg': "Mz_registered s p" using eq by (simp add: Mz_registered_def)
    from decode_link_ready [OF t(1) reg t(2) B] t(5) reg' obtain t' l' pkts where t':
      "Mz_DecodeInLink E p t = Some t'" "mz_ready B t'" "R (fold (act p) pkts (fold (case_prod act) evs x)) t'"
      "Mz_same P t t'" "links t' = (links t)[p := l']" "link_conf l' = link_conf (links t ! p)"
      "\<forall>q. coming_fits B t q \<longrightarrow> coming_fits B t' q" by blast
    have "fold (act p) pkts y = fold (case_prod act) (map (Pair p) pkts) y" for y
      by (simp add: fold_map comp_def)
    then have "R (fold (case_prod act) (evs @ map (Pair p) pkts) x) t'" using t'(3) by simp
    then have "\<exists>evs. R (fold (case_prod act) evs x) t'" by blast
    moreover have "same_links s t'"
      using t(4) t'(5,6) mz_readyD(1) [OF t(1) reg] by (simp add: Mz_conf_update)
    ultimately show "\<exists>s'. (if linkMaxNum t \<le> cir then None else do { p \<leftarrow> pLinkList t ! cir; Mz_DecodeInLink E p t }) = Some s' \<and> ?I s'"
      using c p t' t(5) Mz_same_trans [OF t(3) t'(4)] by auto
  qed
  then show ?thesis by blast
qed

end

section \<open>A packet that outgrows the buffer\<close>

context mz_decoder begin

lemma link_byte_incomplete:
  fixes l :: "'w Mz_LinkParm"
  assumes ok: "link_ok B l" and sm: "sofMark l" and room: "msgWriteIndex l < B"
    and inc: "fverdict (Mz_pending l @ [b]) = Incomplete"
  shows "\<exists>l'. Mz_link_byte fmt now b l = Some (l', Mz_More) \<and> link_ok B l' \<and> sofMark l' \<and>
     link_conf l' = link_conf l \<and> Mz_pending l' = Mz_pending l @ [b]"
proof -
  obtain l' nx where lb: "Mz_link_byte fmt now b l = Some (l', nx)" "byte_result B now b l l' nx"
    using link_byte_parse [OF ok sm room] by blast
  obtain bs where bs: "Mz_pending l @ [b] = sf # bs"
    using link_ok_pending(2,4) [OF ok] sm by (cases "Mz_pending l") simp_all
  have sc: "scn (Mz_pending l @ [b]) = ([], Mz_pending l @ [b])" using inc unfolding bs by simp
  have "nx = Mz_More"
  proof (cases nx)
    case Mz_Again
    then have "scn bs = ([], sf # bs)" using lb(2) sc unfolding bs by (simp add: byte_result_def bs)
    moreover obtain ys where "bs = ys @ snd (scn bs)" using scan_leaves_suffix by blast
    ultimately have "length bs \<ge> length (sf # bs)" by (metis length_append le_add2 snd_conv)
    then show ?thesis by simp
  next
    case Mz_Complete
    then show ?thesis using lb(2) inc by (simp add: byte_result_def)
  qed simp
  then have r: "link_ok B l'" "link_conf l' = link_conf l" "Mz_pending l' = Mz_pending l @ [b]"
    using lb(2) sc by (simp_all add: byte_result_def)
  moreover have "sofMark l'" using link_ok_pending(2) [OF r(1)] r(3) by simp
  ultimately show ?thesis using lb(1) \<open>nx = Mz_More\<close> by blast
qed

lemma link_bytes_overflow:
  assumes "p < length (links s)" and "link_ok B (links s ! p)" and "sofMark (links s ! p)"
    and "link_ready input p (links s ! p)"
    and "B < length (Mz_pending (links s ! p) @ input p (world s))"
    and "\<forall>k. k \<le> B \<longrightarrow> length (Mz_pending (links s ! p)) \<le> k \<longrightarrow>
           fverdict (take k (Mz_pending (links s ! p) @ input p (world s))) = Incomplete"
  shows "Mz_link_bytes E fmt p s = None"
  using assms
proof (induction "length (input p (world s))" arbitrary: s rule: less_induct)
  case less
  note prems = less.prems
  let ?l = "links s ! p" and ?pd = "Mz_pending (links s ! p)"
  obtain rd where rd: "readData ?l = Some rd" "reads_input input p rd"
    using prems(4) by (auto simp: link_ready_def split: option.splits)
  have gl: "Mz_get_link p s = Some ?l" using prems(1) by (rule Mz_get_link_Some)
  have w: "length ?pd = msgWriteIndex ?l" "msgWriteIndex ?l \<le> B"
    using link_ok_pending(1) [OF prems(2)] prems(2) by (simp_all add: link_ok_def)
  then have "input p (world s) \<noteq> []" using prems(5) by auto
  then obtain b w' where r: "Mz_read ?l (world s) = Some (Some b, w')" "input p (world s) = b # input p w'"
    using Mz_read_ok [OF rd, of "world s"] by blast
  show ?case
  proof (cases "msgWriteIndex ?l < B")
    case False
    then have "msgWriteIndex ?l = length (pDeMsgBuff ?l)" using w(2) prems(2) by (simp add: link_ok_def)
    then have "Mz_link_byte fmt (timeCNT s) b ?l = None"
      using prems(3) by (simp add: Mz_link_byte_def Mz_MSGWRITE_def wr8_def)
    then show ?thesis using gl r(1) by (simp add: Mz_link_bytes.simps [of E fmt p s] Mz_GetStartTime_def)
  next
    case True
    have "take (Suc (length ?pd)) (?pd @ input p (world s)) = ?pd @ [b]" by (simp add: r(2))
    then have "fverdict (?pd @ [b]) = Incomplete"
      using prems(6) [THEN spec, of "Suc (length ?pd)"] True w(1) by simp
    then obtain l' where l': "Mz_link_byte fmt (timeCNT s) b ?l = Some (l', Mz_More)" "link_ok B l'" "sofMark l'"
        "link_conf l' = link_conf ?l" "Mz_pending l' = ?pd @ [b]"
      using link_byte_incomplete [OF prems(2,3) True] by blast
    let ?s1 = "Mz_set_link p l' (s\<lparr>world := w'\<rparr>)"
    have s1: "links ?s1 ! p = l'" "p < length (links ?s1)" "world ?s1 = w'" using prems(1) by (simp_all add: Mz_set_link_def)
    have all: "Mz_pending l' @ input p w' = ?pd @ input p (world s)" using l'(5) r(2) by simp
    have "link_ready input p l'" using link_ready_conf [OF l'(4)] prems(4) by blast
    then have "Mz_link_bytes E fmt p ?s1 = None"
      using less.hyps [of ?s1] s1 l'(2,3,5) all prems(5,6) r(2) by simp
    then show ?thesis using gl r(1) l'(1) by (simp add: Mz_link_bytes.simps [of E fmt p s] Mz_GetStartTime_def)
  qed
qed

lemma DecodeInLink_overflow:
  assumes p: "p < length (links s)" and ok: "link_ok B (links s ! p)" and B: "0 < B" "B < length (input p (world s))"
    and idle: "\<not> sofMark (links s ! p)" and ready: "link_ready input p (links s ! p)"
    and fid: "pFormat (links s ! p) = Some fid" "formats E fid = fmt" and en: "enable (links s ! p)"
    and inp: "hd (input p (world s)) = sf"
    and inc: "\<forall>k. 0 < k \<longrightarrow> k \<le> B \<longrightarrow> fverdict (take k (input p (world s))) = Incomplete"
  shows "Mz_DecodeInLink E p s = None"
proof -
  let ?l = "links s ! p"
  obtain rd where rd: "readData ?l = Some rd" "reads_input input p rd"
    using ready by (auto simp: link_ready_def split: option.splits)
  have gl: "Mz_get_link p s = Some ?l" using p by (rule Mz_get_link_Some)
  have "input p (world s) \<noteq> []" using B by auto
  then obtain b w' where r: "Mz_read ?l (world s) = Some (Some b, w')" "input p (world s) = b # input p w'"
    using Mz_read_ok [OF rd, of "world s"] by blast
  then have b: "b = sf" using inp by simp
  have pd: "Mz_pending ?l = []" using link_ok_pending(2) [OF ok] idle by simp
  obtain l' nx where lb: "Mz_link_byte fmt (timeCNT s) b ?l = Some (l', nx)" "byte_result B (timeCNT s) b ?l l' nx"
    using link_byte_idle [OF ok idle B(1)] by blast
  have "fverdict [b] = Incomplete" using inc [THEN spec, of 1] B r(2) by simp
  then have sc: "scn [b] = ([], [b])" using b by simp
  have nx: "nx = Mz_More" using lb(1) idle fmt b by (auto simp: Mz_link_byte_def split: bind_splits)
  then have l': "link_ok B l'" "Mz_pending l' = [b]" "link_conf l' = link_conf ?l"
    using lb(2) sc pd by (simp_all add: byte_result_def)
  have sm: "sofMark l'" using link_ok_pending(2) [OF l'(1)] l'(2) by simp
  let ?s1 = "Mz_set_link p l' (s\<lparr>world := w'\<rparr>)"
  have s1: "links ?s1 ! p = l'" "p < length (links ?s1)" "world ?s1 = w'" using p by (simp_all add: Mz_set_link_def)
  have ready': "link_ready input p l'" using link_ready_conf [OF l'(3)] ready by blast
  have "Mz_link_bytes E fmt p ?s1 = None"
    using link_bytes_overflow [of p ?s1 B] s1 l'(1,2) sm ready' B(2) inc r(2) by simp
  then have "Mz_link_bytes E fmt p s = None"
    using gl r(1) lb(1) nx by (simp add: Mz_link_bytes.simps [of E fmt p s] Mz_GetStartTime_def)
  then show ?thesis using gl en fid by (simp add: Mz_DecodeInLink_def)
qed

end

end
