(* ===== verification/MzFormat.thy ===== *)
theory MzFormat imports MzLoops DobotDecode begin

text \<open>
  \<open>DobotV3Format.h\<close> and \<open>DobotV3Format.c\<close> of \<open>Plugins/ProtocolFramePlugin\<close>: the packet, the
  encoder, the error code hooks and the decoding steps of the version that the Mooz plugin uses,
  and the decoder of \<open>MzDecode\<close> with this format. The bytes on the wire are the same as for the
  other version, so its \<open>dv3_\<close> predicates describe them.
\<close>

section \<open>Constants and the packet structure\<close>

abbreviation Mz_Format_VERSION :: u8 where "Mz_Format_VERSION \<equiv> 0x10"
abbreviation Mz_Format_SRC :: u8 where "Mz_Format_SRC \<equiv> 0x00"
abbreviation Mz_PAYLOAD_LENGTH :: nat where "Mz_PAYLOAD_LENGTH \<equiv> 512"
abbreviation Mz_HEADLEN :: nat where "Mz_HEADLEN \<equiv> 15"
abbreviation Mz_PACKET_LENGTH :: nat where "Mz_PACKET_LENGTH \<equiv> 527"
abbreviation Mz_SOF1 :: u8 where "Mz_SOF1 \<equiv> 0xAA"
abbreviation Mz_SOF2 :: u8 where "Mz_SOF2 \<equiv> 0xBB"

text \<open>
  \<open>struct SDobotV3Format_Packet\<close>: instead of the queue and error flags there is a command type,
  and the encryption type has three bits. The offsets are those of the other version.
\<close>

record Mz_Packet =
  mz_sof1 :: u8
  mz_sof2 :: u8
  mz_length :: u16
  mz_version :: u8
  mz_needAck :: bool
  mz_isAck :: bool
  mz_rw :: bool
  mz_cmdType :: bool
  mz_encType :: "3 word"
  mz_seqType :: bool
  mz_seqNum :: u32
  mz_src :: u8
  mz_des :: u8
  mz_cmdSet :: u8
  mz_cmdId :: u8
  mz_headCheck :: u8
  mz_payloadAndCRC :: bytes

definition Mz_packet_image :: "Mz_Packet \<Rightarrow> bytes" where
  "Mz_packet_image p = [mz_sof1 p, mz_sof2 p] @ bytes16 (mz_length p) @
     [mz_version p,
      flag_bit 0 (mz_needAck p) OR flag_bit 1 (mz_isAck p) OR flag_bit 2 (mz_rw p) OR
      flag_bit 3 (mz_cmdType p) OR push_bit 4 (ucast (mz_encType p)) OR flag_bit 7 (mz_seqType p)] @
     bytes32 (mz_seqNum p) @ [mz_src p, mz_des p, mz_cmdSet p, mz_cmdId p, mz_headCheck p] @ mz_payloadAndCRC p"

lemma Mz_packet_image_fields:
  "pk_sof2 (Mz_packet_image p) = Some (mz_sof2 p)" "pk_length (Mz_packet_image p) = Some (mz_length p)"
  "pk_cmdId (Mz_packet_image p) = Some (mz_cmdId p)" "pk_headCheck (Mz_packet_image p) = Some (mz_headCheck p)"
  by (simp_all add: Mz_packet_image_def pk_defs rd16_Some rd8_Some bytes16_def bytes32_def upt_rec)

section \<open>Checksum, error codes, encoder\<close>

text \<open>The table has the same 256 entries; the CRC-8 is \<open>Mooz_CRC8\<close>.\<close>

definition Mz_CRC16 :: "bytes \<Rightarrow> nat \<Rightarrow> u16 option" where
  "Mz_CRC16 buffer len = do {
     d \<leftarrow> rd_range buffer 0 len;
     Some (fold (\<lambda>b crc. drop_bit 8 crc XOR
       gDobotV3Format_crc_ibm_table ! unat (ucast (crc XOR ucast b) :: u8)) d 0) }"

definition Mz_ErrCodeRead :: "Mz_PacketParm \<Rightarrow> Mz_PacketParm" where
  "Mz_ErrCodeRead pp = pp\<lparr>errCode := 0\<rparr>"

definition Mz_ErrCodeSend :: "Mz_PacketParm \<Rightarrow> Mz_PacketParm" where
  "Mz_ErrCodeSend pp = pp\<lparr>packetLength := 0\<rparr>"

definition Mz_PacketEncoder :: "bytes \<Rightarrow> u8 \<Rightarrow> (bytes \<times> nat) option" where
  "Mz_PacketEncoder p pDataLen = do {
     let n = unat pDataLen;
     p \<leftarrow> wr8 p 0 Mz_SOF1;
     p \<leftarrow> wr8 p 1 Mz_SOF2;
     p \<leftarrow> wr16 p 2 (ucast pDataLen);
     p \<leftarrow> wr8 p 4 Mz_Format_VERSION;
     p \<leftarrow> wr8 p 10 Mz_Format_SRC;
     hc \<leftarrow> Mooz_CRC8 p 14;
     p \<leftarrow> wr8 p 14 hc;
     crc \<leftarrow> Mz_CRC16 p (n + Mz_HEADLEN);
     p \<leftarrow> wr16 p (Mz_HEADLEN + n) crc;
     Some (p, n + Mz_HEADLEN + 2) }"

section \<open>Decoding steps\<close>

definition Mz_Sof2 :: "bytes \<Rightarrow> nat \<Rightarrow> step_status option" where
  "Mz_Sof2 pData len = do {
     s \<leftarrow> pk_sof2 pData;
     Some (if s = Mz_SOF2 then ProtocolFrame_DETRUE else ProtocolFrame_DEFALSE) }"

definition Mz_Sof2Len :: "bytes \<Rightarrow> nat \<Rightarrow> nat option" where
  "Mz_Sof2Len pData len = Some 2"

definition Mz_Length :: "bytes \<Rightarrow> nat \<Rightarrow> step_status option" where
  "Mz_Length pData len = do {
     n \<leftarrow> pk_length pData;
     Some (if unat n \<le> Mz_PAYLOAD_LENGTH then ProtocolFrame_DETRUE else ProtocolFrame_DEFALSE) }"

definition Mz_LengthLen :: "bytes \<Rightarrow> nat \<Rightarrow> nat option" where
  "Mz_LengthLen pData len = Some 4"

definition Mz_Head :: "bytes \<Rightarrow> nat \<Rightarrow> step_status option" where
  "Mz_Head pData len = do {
     crc \<leftarrow> Mooz_CRC8 pData 14;
     hc \<leftarrow> pk_headCheck pData;
     Some (if crc = hc then ProtocolFrame_DETRUE else ProtocolFrame_DEFALSE) }"

definition Mz_HeadLen :: "bytes \<Rightarrow> nat \<Rightarrow> nat option" where
  "Mz_HeadLen pData len = Some Mz_HEADLEN"

definition Mz_PacketCRC :: "bytes \<Rightarrow> nat \<Rightarrow> step_status option" where
  "Mz_PacketCRC pData len = do {
     n \<leftarrow> pk_length pData;
     crc \<leftarrow> Mz_CRC16 pData (u16n (Mz_HEADLEN + unat n));
     d \<leftarrow> rd_range pData (Mz_HEADLEN + unat n) 2;
     Some (if bytes16 crc = d then ProtocolFrame_DETRUE else ProtocolFrame_DEFALSE) }"

definition Mz_PacketCRCLen :: "bytes \<Rightarrow> nat \<Rightarrow> nat option" where
  "Mz_PacketCRCLen pData len = do {
     n \<leftarrow> pk_length pData;
     Some (u16n (unat n + Mz_HEADLEN + 2)) }"

definition Mz_Format :: Mz_FormatParm where
  "Mz_Format = \<lparr>ErrCodeRead = Some Mz_ErrCodeRead, ErrCodeSend = Some Mz_ErrCodeSend, sof = Mz_SOF1,
     pStepList =
       [\<lparr>StepCheck = Mz_Sof2, GetLength = Mz_Sof2Len\<rparr>,
        \<lparr>StepCheck = Mz_Length, GetLength = Mz_LengthLen\<rparr>,
        \<lparr>StepCheck = Mz_Head, GetLength = Mz_HeadLen\<rparr>,
        \<lparr>StepCheck = Mz_PacketCRC, GetLength = Mz_PacketCRCLen\<rparr>]\<rparr>"

section \<open>The two versions of the format\<close>

lemma Mz_CRC16_eq: "Mz_CRC16 = DobotV3Format_CRC16"
  by (intro ext) (simp add: Mz_CRC16_def DobotV3Format_CRC16_def crc16_def crc16_step_def [abs_def])

lemma Mooz_CRC8_Some: "14 \<le> length p \<Longrightarrow> Mooz_CRC8 p 14 = Some (crc8 (take 14 p))"
  using Mooz_CRC8_eq_crc8 [of 14 p] by simp

text \<open>A check reads no more than the bytes of its step.\<close>

lemma Mz_checks [mem_safe]:
  "1 < length p \<Longrightarrow> Mz_Sof2 p m = Some (if dv3_chk 0 p then ProtocolFrame_DETRUE else ProtocolFrame_DEFALSE)"
  "4 \<le> length p \<Longrightarrow> Mz_Length p m = Some (if dv3_chk (Suc 0) p then ProtocolFrame_DETRUE else ProtocolFrame_DEFALSE)"
  "15 \<le> length p \<Longrightarrow> Mz_Head p m = Some (if dv3_chk 2 p then ProtocolFrame_DETRUE else ProtocolFrame_DEFALSE)"
  "dv3_len p \<le> Mz_PAYLOAD_LENGTH \<Longrightarrow> dv3_packet_len p \<le> length p \<Longrightarrow>
     Mz_PacketCRC p m = Some (if dv3_chk 3 p then ProtocolFrame_DETRUE else ProtocolFrame_DEFALSE)"
  "dv3_len p \<le> Mz_PAYLOAD_LENGTH \<Longrightarrow> 4 \<le> length p \<Longrightarrow> Mz_PacketCRCLen p m = Some (dv3_packet_len p)"
proof -
  show "1 < length p \<Longrightarrow> Mz_Sof2 p m = Some (if dv3_chk 0 p then ProtocolFrame_DETRUE else ProtocolFrame_DEFALSE)"
    by (simp add: Mz_Sof2_def pk_sof2_def rd8_Some dv3_chk_def)
  show "4 \<le> length p \<Longrightarrow> Mz_Length p m = Some (if dv3_chk (Suc 0) p then ProtocolFrame_DETRUE else ProtocolFrame_DEFALSE)"
    by (simp add: Mz_Length_def mem_safe dv3_chk_def dv3_len_def)
  show "15 \<le> length p \<Longrightarrow> Mz_Head p m = Some (if dv3_chk 2 p then ProtocolFrame_DETRUE else ProtocolFrame_DEFALSE)"
    by (simp add: Mz_Head_def Mooz_CRC8_Some pk_headCheck_def rd8_Some dv3_chk_def)
  have "Mz_PacketCRC p m = DobotV3Format_PacketCRC p m" "Mz_PacketCRCLen p m = DobotV3Format_PacketCRCLen p m"
    by (simp_all add: Mz_PacketCRC_def DobotV3Format_PacketCRC_def Mz_CRC16_eq Mz_PacketCRCLen_def
        DobotV3Format_PacketCRCLen_def)
  then show "dv3_len p \<le> Mz_PAYLOAD_LENGTH \<Longrightarrow> dv3_packet_len p \<le> length p \<Longrightarrow>
     Mz_PacketCRC p m = Some (if dv3_chk 3 p then ProtocolFrame_DETRUE else ProtocolFrame_DEFALSE)"
    and "dv3_len p \<le> Mz_PAYLOAD_LENGTH \<Longrightarrow> 4 \<le> length p \<Longrightarrow> Mz_PacketCRCLen p m = Some (dv3_packet_len p)"
    by (simp_all add: PacketCRC_Some PacketCRCLen_Some)
qed

lemma Mz_Format_simps [simp]:
  "length (pStepList Mz_Format) = 4" "sof Mz_Format = Mz_SOF1" "ErrCodeRead Mz_Format = Some Mz_ErrCodeRead"
  "ErrCodeSend Mz_Format = Some Mz_ErrCodeSend"
  "pStepList Mz_Format ! 0 = \<lparr>StepCheck = Mz_Sof2, GetLength = Mz_Sof2Len\<rparr>"
  "pStepList Mz_Format ! Suc 0 = \<lparr>StepCheck = Mz_Length, GetLength = Mz_LengthLen\<rparr>"
  "pStepList Mz_Format ! 2 = \<lparr>StepCheck = Mz_Head, GetLength = Mz_HeadLen\<rparr>"
  "pStepList Mz_Format ! 3 = \<lparr>StepCheck = Mz_PacketCRC, GetLength = Mz_PacketCRCLen\<rparr>"
  by (simp_all add: Mz_Format_def)

lemmas Mz_Len_defs = Mz_Sof2Len_def Mz_LengthLen_def Mz_HeadLen_def

interpretation mz: stream_format "pStepList Mz_Format" Mz_SOF1 dv3_lower dv3_chk dv3_packet_len
proof (unfold_locales, unfold Mz_Format_simps(1), goal_cases)
  case (5 i)
  then show ?case using less3 [of i] by (auto simp: dv3_lower_def)
next
  case (7 i buf m)
  then show ?case using less3 [of i] by (auto simp: dv3_lower_def Mz_Len_defs)
next
  case (8 i buf m)
  then have i: "i = 3" by simp
  show ?case using 8 dv3_chk1 [of buf] by (simp add: i dv3_lower_def Mz_checks)
next
  case (9 i buf)
  then have i: "i = 3" by simp
  show ?case using 9(2) dv3_packet_len_bounds [of buf] by (simp add: i)
next
  case (10 i buf' buf)
  then have i: "i = 3" by simp
  show ?case using 10(2) dv3_packet_len_local [of buf' buf] by (simp add: i)
next
  case (11 i buf m)
  then show ?case using less3 [of i] by (auto simp: dv3_lower_def Mz_checks)
next
  case (12 i buf m)
  then have i: "i = 3" by simp
  show ?case using 12(2,3) dv3_chk1 [of buf] by (simp add: i Mz_checks)
next
  case 13
  then show ?case by (intro dv3_chk_local)
next
  case (14 i buf buf')
  then have i: "i = 3" by simp
  show ?case using dv3_chk3_local [OF 14(2)] by (simp add: i)
qed (simp_all add: dv3_lower_def)

section \<open>The encoder\<close>

lemma wr16_update: "i + 1 < length p \<Longrightarrow> wr16 p i w = Some (p[i := lo8 w, i + 1 := hi8 w])"
  by (simp add: wr16_def wr_range_Some bytes16_def upd_conv_take_nth_drop take_Suc_conv_app_nth
      flip: Cons_nth_drop_Suc)

text \<open>The encoder is the newer one, with version and source set first.\<close>

lemma Mz_encoder_spec:
  assumes len: "unat n + 17 \<le> length p"
  shows "Mz_PacketEncoder p n = DobotV3Format_PacketEncoder (p[4 := Mz_Format_VERSION, 10 := Mz_Format_SRC]) n \<and>
     (\<exists>q. Mz_PacketEncoder p n = Some (q, unat n + 17) \<and> length q = length p \<and> dv3_valid q \<and>
        q ! 4 = Mz_Format_VERSION \<and> q ! 10 = Mz_Format_SRC)"
proof -
  let ?p = "p[4 := Mz_Format_VERSION, 10 := Mz_Format_SRC]"
  let ?q = "p[0 := 0xAA, Suc 0 := 0xBB, 2 := lo8 (ucast n), 3 := hi8 (ucast n), 4 := 0x10, 10 := 0]"
  have q: "?p[0 := 0xAA, Suc 0 := 0xBB, 2 := lo8 (ucast n), 3 := hi8 (ucast n)] = ?q"
    by (simp add: list_update_swap)
  have l: "14 \<le> length ?q" using len by simp
  have ne: "p \<noteq> []" using len by auto
  have "Mz_PacketEncoder p n = DobotV3Format_PacketEncoder ?p n"
    using len ne Mooz_CRC8_Some [OF l] CRC8_value_Some [OF l]
    by (simp add: Mz_PacketEncoder_def DobotV3Format_PacketEncoder_def Let_def wr8_Some wr16_update q Mz_CRC16_eq)
  moreover obtain r where r: "DobotV3Format_PacketEncoder ?p n = Some (r, unat n + 17)" "length r = length ?p"
      "dv3_valid r" "\<forall>k. 4 \<le> k \<and> k < 14 \<longrightarrow> r ! k = ?p ! k"
    using PacketEncoder_spec [of n ?p] len by auto
  moreover have "r ! 4 = Mz_Format_VERSION" "r ! 10 = Mz_Format_SRC" using r(4) len by simp_all
  ultimately show ?thesis by simp
qed

text \<open>
  The encoder of version 2.0.0 is the other one on a packet whose version is 1.0 and whose
  source is the computer: it puts these two fields in itself, with the rest of the packet as
  \<open>PacketEncoder_correct\<close> says of the other one.
\<close>
theorem Mz_PacketEncoder_eq:
  assumes len: "unat n + 17 \<le> length p"
  shows "Mz_PacketEncoder p n = DobotV3Format_PacketEncoder (p[4 := Mz_Format_VERSION, 10 := Mz_Format_SRC]) n \<and>
     (\<exists>q. Mz_PacketEncoder p n = Some (q, unat n + 17) \<and> length q = length p \<and> dv3_valid q \<and>
        q ! 4 = Mz_Format_VERSION \<and> q ! 10 = Mz_Format_SRC)"
  using Mz_encoder_spec [OF len] .

theorem Mz_PacketEncoder_eq_witness:
  "\<exists>q. Mz_PacketEncoder (replicate 20 7) 3 = Some (q, 20) \<and> dv3_valid q \<and> q ! 4 = 0x10"
  using Mz_PacketEncoder_eq [of 3 "replicate 20 7", THEN conjunct2] by auto

end
