(* ===== verification/MzStream.thy ===== *)
theory MzStream imports MzFormat begin

text \<open>
  The decoder of version 2.0.0 with its format, on a link that reads from a stream and functions
  that record what they are given: what arrives, how it compares with the other version, what
  happens to a packet that stops, and what a header that announces too much does.
\<close>

section \<open>The verdict without a limit\<close>

definition mz_verdict :: "bytes \<Rightarrow> verdict" where
  "mz_verdict bs =
     (if length bs < 2 then Incomplete
      else if bs ! 1 \<noteq> Mz_SOF2 then Bad
      else if length bs < 4 then Incomplete
      else if Mz_PAYLOAD_LENGTH < dv3_len bs then Bad
      else if length bs < Mz_HEADLEN then Incomplete
      else if crc8 (take 14 bs) \<noteq> bs ! 14 then Bad
      else if length bs < dv3_packet_len bs then Incomplete
      else if dv3_crc_ok bs then Packet (dv3_packet_len bs) else Bad)"

abbreviation mz_scan :: "bytes \<Rightarrow> bytes list \<times> bytes" where
  "mz_scan \<equiv> scan mz_verdict Mz_SOF1"

lemma mz_frame_verdict: "frame_verdict 4 65535 dv3_lower dv3_chk dv3_packet_len = mz_verdict"
proof
  fix bs :: bytes
  have u: "[0..<4] = [0, 1, 2, 3 :: nat]" by (simp add: upt_rec)
  show "frame_verdict 4 65535 dv3_lower dv3_chk dv3_packet_len bs = mz_verdict bs"
    unfolding frame_verdict_def u
    by (simp add: step_len_def dv3_lower_def dv3_chk_def mz_verdict_def dv3_packet_len_def)
qed

text \<open>No header in the stream announces more than the buffer of a link holds, 510 bytes of payload.\<close>

abbreviation mz_fits :: "bytes \<Rightarrow> bool" where
  "mz_fits \<equiv> Mz_fits 4 dv3_lower dv3_chk dv3_packet_len Mz_SOF1 Mz_PACKET_LENGTH"

lemma all_less3: "(\<forall>j < (3 :: nat). P j) \<longleftrightarrow> P 0 \<and> P 1 \<and> P 2"
  by (simp add: numeral_3_eq_3 numeral_2_eq_2 all_less_Suc0)

lemma mz_verdict_fits:
  assumes "mz_fits (Mz_SOF1 # bs)"
  shows "mz_verdict (Mz_SOF1 # bs) = dv3_verdict (Mz_SOF1 # bs)"
proof -
  let ?xs = "Mz_SOF1 # bs"
  have fit: "dv3_packet_len ?xs \<le> Mz_PACKET_LENGTH" if "15 \<le> length ?xs" "\<forall>j < 3. dv3_chk j ?xs"
    using assms [unfolded Mz_fits_def, THEN spec, of 0] that by (simp add: dv3_lower_def)
  show ?thesis
  proof (cases "15 \<le> length ?xs \<and> (\<forall>j < 3. dv3_chk j ?xs)")
    case True
    then show ?thesis using fit by (simp only: mz_verdict_def dv3_verdict_def) simp
  next
    case False
    then show ?thesis unfolding mz_verdict_def dv3_verdict_def all_less3
      by (simp only: dv3_chk_def) (auto simp: not_le)
  qed
qed

text \<open>On such a stream both versions look for the same packets.\<close>

lemma mz_scan_eq:
  assumes "mz_fits xs"
  shows "mz_scan xs = dv3_scan xs"
  using assms
proof (induction "length xs" arbitrary: xs rule: less_induct)
  case less
  show ?case
  proof (cases xs)
    case (Cons b bs)
    have suf: "mz_fits (drop k bs)" for k
      using less.prems Cons Mz_fits_suffix [of _ _ _ _ _ _ "b # take k bs" "drop k bs"] by simp
    have IH: "mz_scan (drop k bs) = dv3_scan (drop k bs)" for k
      by (rule less.hyps [OF _ suf]) (simp add: Cons)
    show ?thesis
    proof (cases "b = Mz_SOF1")
      case False
      then show ?thesis using IH [of 0] Cons by simp
    next
      case True
      then have "mz_verdict xs = dv3_verdict xs" using mz_verdict_fits less.prems Cons by simp
      then show ?thesis using IH [of 0] IH Cons True by (auto split: verdict.split)
    qed
  qed simp
qed

section \<open>Recording functions\<close>

record 'w mz_log_state = "'w Mz_Frame" +
  mz_log :: "bytes list"

definition mz_recorder :: "'w mz_log_state Mz_FuncStruct" where
  "mz_recorder = \<lparr>PacketCallBack = Some (\<lambda>s. Some (s\<lparr>mz_log := mz_log s @
       [take (packetLength (pPacketParm s)) (pPacket (pPacketParm s))]\<rparr>)), Loop = None\<rparr>"

definition mz_recorder_env :: "'w mz_log_state Mz_FuncList" where
  "mz_recorder_env = \<lparr>formats = (\<lambda>_. Mz_Format), funcLists = (\<lambda>_. [mz_recorder])\<rparr>"

interpretation mzrec: mz_decoder "pStepList Mz_Format" Mz_SOF1 dv3_lower dv3_chk dv3_packet_len
  Mz_Format Mz_PACKET_LENGTH mz_recorder_env "\<lambda>x s. mz_log s = x" "\<lambda>p pkt x. x @ [Mz_given pkt]" "\<lambda>p w. w p"
proof
  show "pStepList Mz_Format = pStepList Mz_Format" "sof Mz_Format = Mz_SOF1" "255 \<le> Mz_PACKET_LENGTH" by simp_all
  show "mz_log s = x \<Longrightarrow> mz_log (s\<lparr>links := ls, pPacketParm := pp, world := w\<rparr>) = x"
    for x and s :: "(nat \<Rightarrow> bytes) mz_log_state" and ls pp w by simp
next
  fix f and pp :: Mz_PacketParm
  assume "ErrCodeRead Mz_Format = Some f"
  then show "\<exists>e. f pp = pp\<lparr>errCode := e\<rparr>" by (auto simp: Mz_ErrCodeRead_def)
next
  fix x p pkt and s :: "(nat \<Rightarrow> bytes) mz_log_state"
  assume "mz_log s = x" and o: "Mz_offered Mz_PACKET_LENGTH p pkt s"
  then show "\<exists>s'. Mz_FuncCallBack mz_recorder_env s = Some s' \<and> mz_log s' = x @ [Mz_given pkt] \<and>
      Mz_kept Mz_PACKET_LENGTH (\<lambda>p w. w p) s s'"
    by (auto simp: Mz_FuncCallBack_def Mz_offered_def Mz_get_link_Some mz_recorder_env_def mz_recorder_def
        Mz_kept_def Mz_same_def)
qed

abbreviation mz_idle :: "'w Mz_LinkParm \<Rightarrow> bool" where
  "mz_idle \<equiv> Mz_idle_inv 4 dv3_lower dv3_chk dv3_packet_len Mz_SOF1 Mz_PACKET_LENGTH"

text \<open>A link of a frame with the format, between two calls, that reads from a stream.\<close>

definition mz_stream_link :: "nat \<Rightarrow> (nat \<Rightarrow> bytes) mz_log_state \<Rightarrow> bool" where
  "mz_stream_link p s \<longleftrightarrow> p < length (links s) \<and> mz_idle (links s ! p) \<and> enable (links s ! p) \<and>
     readData (links s ! p) = Some (stream_read p) \<and> pFormat (links s ! p) \<noteq> None \<and>
     pFuncList (links s ! p) \<noteq> None \<and> length (pPacket (pPacketParm s)) = Mz_PACKET_LENGTH"

lemma mz_decode_spec:
  assumes link: "mz_stream_link p s" and fit: "mz_fits (Mz_pending (links s ! p) @ world s p)"
  shows "\<exists>s' pkts. Mz_DecodeInLink mz_recorder_env p s = Some s' \<and> mz_stream_link p s' \<and>
     mz_log s' = mz_log s @ map Mz_given pkts \<and> world s' p = [] \<and>
     (\<forall>pkt \<in> set pkts. mz_verdict pkt = Packet (length pkt) \<and> pkt \<noteq> [] \<and> hd pkt = Mz_SOF1) \<and>
     (\<not> Mz_late s (links s ! p) \<longrightarrow> \<not> Mz_late s' (links s' ! p) \<and>
        (pkts, Mz_pending (links s' ! p)) = mz_scan (Mz_pending (links s ! p) @ world s p)) \<and>
     (Mz_late s (links s ! p) \<and> world s p = [] \<longrightarrow>
        (pkts, Mz_pending (links s' ! p)) = mz_scan (tl (Mz_pending (links s ! p))))"
proof -
  let ?l = "links s ! p"
  obtain fid where fid: "pFormat ?l = Some fid" using link by (auto simp: mz_stream_link_def)
  have ready: "link_ready (\<lambda>p w. w p) p ?l"
    using link stream_reads_input by (auto simp: mz_stream_link_def link_ready_def)
  have l: "p < length (links s)" "Mz_idle_inv (length (pStepList Mz_Format)) dv3_lower dv3_chk dv3_packet_len Mz_SOF1 Mz_PACKET_LENGTH ?l"
      "enable ?l" "length (pPacket (pPacketParm s)) = Mz_PACKET_LENGTH"
    using link by (simp_all add: mz_stream_link_def)
  have env: "formats mz_recorder_env fid = Mz_Format" by (simp add: mz_recorder_env_def)
  have fl: "fold (\<lambda>pkt x. x @ [Mz_given pkt]) pkts x = x @ map Mz_given pkts" for pkts and x :: "bytes list"
    by (induction pkts arbitrary: x) simp_all
  have low: "dv3_lower (length (pStepList Mz_Format) - 1) \<le> Mz_PACKET_LENGTH" by (simp add: dv3_lower_def)
  obtain s' where s': "Mz_DecodeInLink mz_recorder_env p s = Some s'"
      "mzrec.link_decoded Mz_PACKET_LENGTH p (mz_log s) s s'"
    using mzrec.DecodeInLink_ok [OF l(1,2) ready fid env l(3,4) refl _ low] fit by auto
  obtain l' pkts where d: "links s' = (links s)[p := l']" "mz_idle l'" "link_conf l' = link_conf ?l"
      "mz_log s' = fold (\<lambda>pkt x. x @ [Mz_given pkt]) pkts (mz_log s)" "Mz_same Mz_PACKET_LENGTH s s'" "world s' p = []"
      "\<forall>pkt \<in> set pkts. mz_verdict pkt = Packet (length pkt) \<and> pkt \<noteq> [] \<and> hd pkt = Mz_SOF1"
      "\<not> Mz_late s ?l \<longrightarrow> \<not> Mz_late s' l' \<and> (pkts, Mz_pending l') = mz_scan (Mz_pending ?l @ world s p)"
      "Mz_late s ?l \<and> world s p = [] \<longrightarrow> (pkts, Mz_pending l') = mz_scan (tl (Mz_pending ?l))"
    using s'(2) unfolding mzrec.link_decoded_def format.simps Mz_Format_simps(1) mz_frame_verdict by blast
  have "mz_stream_link p s'"
    using link d(1,2,5) link_confD [OF d(3)] by (simp add: mz_stream_link_def Mz_same_def)
  moreover have "links s' ! p = l'" using link d(1) by (simp add: mz_stream_link_def)
  ultimately show ?thesis using s'(1) d(4,6,7,8,9) by (intro exI [of _ s'] exI [of _ pkts]) (simp add: fl)
qed

section \<open>Properties\<close>

text \<open>
  C29. \<open>DecodeInLink\<close> of version 2.0.0 on a link of its format, as long as no header in what it
  has kept and what is coming announces more than 510 bytes of payload: it returns, stays inside
  its buffers, reads all of the input, and leaves the link ready for the next call. Unless the
  packet under way has timed out, it finds what the scanner finds in the bytes kept and read;
  when it has, and nothing is coming, the first byte is given up and the rest scanned again. The
  functions of the link get the first \<open>n mod 256\<close> bytes of a packet of \<open>n\<close> bytes.
\<close>
theorem DecodeInLink_implements_scan:
  assumes "mz_stream_link p s" and "mz_fits (Mz_pending (links s ! p) @ world s p)"
  shows "\<exists>s' pkts. Mz_DecodeInLink mz_recorder_env p s = Some s' \<and> mz_stream_link p s' \<and>
     mz_log s' = mz_log s @ map (\<lambda>pkt. take (length pkt mod 256) pkt) pkts \<and> world s' p = [] \<and>
     (\<forall>pkt \<in> set pkts. mz_verdict pkt = Packet (length pkt) \<and> pkt \<noteq> [] \<and> hd pkt = Mz_SOF1) \<and>
     (\<not> Mz_late s (links s ! p) \<longrightarrow>
        (pkts, Mz_pending (links s' ! p)) = mz_scan (Mz_pending (links s ! p) @ world s p)) \<and>
     (Mz_late s (links s ! p) \<and> world s p = [] \<longrightarrow>
        (pkts, Mz_pending (links s' ! p)) = mz_scan (tl (Mz_pending (links s ! p))))"
proof -
  have given: "(\<lambda>pkt. take (length pkt mod 256) pkt) = Mz_given" by (simp add: fun_eq_iff Mz_given_def u8n_def)
  show ?thesis unfolding given using mz_decode_spec [OF assms] by blast
qed

text \<open>A frame with one stream link as it is after its registration, with input waiting.\<close>

definition mz_stream_start :: "bytes \<Rightarrow> (nat \<Rightarrow> bytes) mz_log_state" where
  "mz_stream_start inp =
     \<lparr>timeCNT = 0, links = [(Mz_LINK_EXPORT 500 Mz_PACKET_LENGTH (Some (stream_read 0)) None)
        \<lparr>pFormat := Some 0, pFuncList := Some 0\<rparr>],
      pLinkList = [Some 0], linkNum = 1,
      pPacketParm = \<lparr>pLink = None, pPacket = replicate Mz_PACKET_LENGTH 0, packetLength = 0,
        errCode = 0, sendMark = False, exitCallPack = False\<rparr>,
      loopMark = (\<lambda>_ _. False), world = (\<lambda>_. inp), mz_log = []\<rparr>"

lemma mz_stream_link_start: "mz_stream_link 0 (mz_stream_start inp)"
  by (simp add: mz_stream_link_def mz_stream_start_def Mz_LINK_EXPORT_def Mz_idle_inv_def)

lemma mz_start_simps [simp]:
  "Mz_pending (links (mz_stream_start inp) ! 0) = []" "sofMark (links (mz_stream_start inp) ! 0) = False"
  "world (mz_stream_start inp) p = inp" "mz_log (mz_stream_start inp) = []"
  "Mz_late (mz_stream_start inp) (links (mz_stream_start inp) ! 0) = False"
  by (simp_all add: mz_stream_start_def Mz_LINK_EXPORT_def Mz_pending_def Mz_late_def Mz_IsTimeOut_def)

lemma mz_fits_short: "length xs < 15 \<Longrightarrow> mz_fits xs"
  by (auto simp: Mz_fits_def dv3_lower_def)

theorem DecodeInLink_implements_scan_witness:
  "\<exists>s'. Mz_DecodeInLink mz_recorder_env 0 (mz_stream_start [1, 0xAA, 2]) = Some s' \<and> mz_stream_link 0 s' \<and> world s' 0 = []"
  using DecodeInLink_implements_scan [OF mz_stream_link_start [of "[1, 0xAA, 2]"]] mz_fits_short [of "[1, 0xAA, 2]"] by auto

text \<open>
  The two versions of the decoder agree: from idle links and the same input, which fits a
  buffer and has no header that announces more than one, both read everything, keep the same
  beginning of a packet, and find the same packets in the same order. Only what they hand on
  differs, for packets of 256 bytes or more.
\<close>
theorem decoders_agree:
  assumes new: "stream_link p s" "msgWriteIndex (frame_state.links s ! p) = 0"
    and old: "mz_stream_link p t" "\<not> sofMark (links t ! p)" "\<not> Mz_late t (links t ! p)"
    and inp: "frame_state.world s p = xs" "world t p = xs" "length xs \<le> Mz_PACKET_LENGTH" "mz_fits xs"
  shows "\<exists>s' t' pkts. DecodeLinkPacket recorder_env p s = Some s' \<and> Mz_DecodeInLink mz_recorder_env p t = Some t' \<and>
     log s' = log s @ pkts \<and> mz_log t' = mz_log t @ map (\<lambda>pkt. take (length pkt mod 256) pkt) pkts \<and>
     frame_state.world s' p = [] \<and> world t' p = [] \<and>
     pending (frame_state.links s' ! p) = Mz_pending (links t' ! p)"
proof -
  have it: "in_time (\<lambda>p w. w p) p s (frame_state.links s ! p)" using new(2) by (simp add: in_time_def quiet_timeout_def)
  have ps: "pending (frame_state.links s ! p) = []" using new(2) by (simp add: pending_def)
  have fit: "msgWriteIndex (frame_state.links s ! p) + length (frame_state.world s p) \<le> DobotV3Format_PACKET_LENGTH"
    using new(2) inp by simp
  obtain s' pk where s': "DecodeLinkPacket recorder_env p s = Some s'" "log s' = log s @ pk"
      "(pk, pending (frame_state.links s' ! p)) = dv3_scan xs" "frame_state.world s' p = []"
    using dv3_decode_all [OF new(1) it fit] unfolding ps inp(1) append_Nil by metis
  have ok: "mz_idle (links t ! p)" using old(1) by (simp add: mz_stream_link_def)
  have pt: "Mz_pending (links t ! p) = []" using ok old(2) by (simp add: Mz_idle_inv_def Mz_pending_def)
  have mf: "mz_fits (Mz_pending (links t ! p) @ world t p)" using inp pt by simp
  obtain t' qk where t': "Mz_DecodeInLink mz_recorder_env p t = Some t'" "mz_log t' = mz_log t @ map Mz_given qk"
      "world t' p = []" "(qk, Mz_pending (links t' ! p)) = mz_scan xs"
    using mz_decode_spec [OF old(1) mf] old(3) unfolding pt inp(2) append_Nil by metis
  have "Mz_given = (\<lambda>pkt. take (length pkt mod 256) pkt)" by (simp add: fun_eq_iff Mz_given_def u8n_def)
  moreover have "qk = pk" "pending (frame_state.links s' ! p) = Mz_pending (links t' ! p)"
    using s'(3) t'(4) unfolding mz_scan_eq [OF inp(4)] by (metis fst_conv, metis snd_conv)
  ultimately show ?thesis using s' t' by auto
qed

theorem decoders_agree_witness:
  "\<exists>s' t' pkts. DecodeLinkPacket recorder_env 0 (stream_start [7, 0xAA, 0xBB]) = Some s' \<and>
     Mz_DecodeInLink mz_recorder_env 0 (mz_stream_start [7, 0xAA, 0xBB]) = Some t' \<and> log s' = pkts \<and>
     pending (frame_state.links s' ! 0) = Mz_pending (links t' ! 0)"
  using decoders_agree [OF stream_link_start _ mz_stream_link_start, of "[7, 0xAA, 0xBB]" "[7, 0xAA, 0xBB]" "[7, 0xAA, 0xBB]"]
    mz_fits_short [of "[7, 0xAA, 0xBB]"]
  by auto

text \<open>
  A header that passes its checks and announces 511 or 512 bytes of payload, as the format
  allows, makes an idle link of version 2.0.0 write behind its buffer as soon as 528 bytes have
  come: there is no limit check before \<open>MSGWRITE\<close>.
\<close>
theorem long_header_overruns_buffer:
  assumes link: "mz_stream_link p s" "\<not> sofMark (links s ! p)"
    and inp: "world s p = xs" "Mz_PACKET_LENGTH < length xs" "xs ! 0 = Mz_SOF1"
    and hdr: "dv3_chk 0 xs" "dv3_chk 1 xs" "dv3_chk 2 xs" "511 \<le> dv3_len xs"
  shows "Mz_DecodeInLink mz_recorder_env p s = None"
proof -
  obtain fid where fid: "pFormat (links s ! p) = Some fid" using link by (auto simp: mz_stream_link_def)
  have ready: "link_ready (\<lambda>p w. w p) p (links s ! p)"
    using link stream_reads_input by (auto simp: mz_stream_link_def link_ready_def)
  have inc: "mz_verdict (take k xs) = Incomplete" if "0 < k" "k \<le> Mz_PACKET_LENGTH" for k
  proof -
    have len: "length (take k xs) = k" using that inp(2) by simp
    have "dv3_len (take k xs) = dv3_len xs" if "4 \<le> k"
      using that by (simp add: dv3_len_def)
    moreover have "crc8 (take 14 (take k xs)) = take k xs ! 14" if "15 \<le> k"
      using that hdr(3) by (simp add: dv3_chk_def min_absorb1)
    ultimately show ?thesis
      using hdr(1,2,4) that(2) unfolding mz_verdict_def len by (auto simp: dv3_chk_def dv3_packet_len_def)
  qed
  have ne: "xs \<noteq> []" using inp(2) by auto
  show ?thesis
    using mzrec.DecodeInLink_overflow [of p s Mz_PACKET_LENGTH fid] link ready fid inp inc ne
    by (auto simp: mz_stream_link_def mz_recorder_env_def mz_frame_verdict hd_conv_nth)
qed

text \<open>A header for 512 bytes.\<close>

definition long_header :: bytes where
  "long_header = [0xAA, 0xBB, 0, 2, 0x10, 0, 0, 0, 0, 0, 0, 0, 0, 0] @
     [crc8 [0xAA, 0xBB, 0, 2, 0x10, 0, 0, 0, 0, 0, 0, 0, 0, 0]]"

theorem long_header_overruns_buffer_witness:
  "Mz_DecodeInLink mz_recorder_env 0 (mz_stream_start (long_header @ replicate 513 0)) = None"
proof (rule long_header_overruns_buffer [OF mz_stream_link_start _ mz_start_simps(3)])
  let ?h = "[0xAA, 0xBB, 0, 2, 0x10, 0, 0, 0, 0, 0, 0, 0, 0, 0] :: bytes"
  have l: "dv3_len (long_header @ replicate 513 0) = 512" by (simp add: dv3_len_def long_header_def le16_def)
  then show "dv3_chk 1 (long_header @ replicate 513 0)" "511 \<le> dv3_len (long_header @ replicate 513 0)"
    by (simp_all add: dv3_chk_def)
  show "dv3_chk 2 (long_header @ replicate 513 0)" by (simp add: dv3_chk_def long_header_def)
qed (simp_all add: long_header_def dv3_chk_def)

end
