(* ===== verification/MzCmd.thy ===== *)
theory MzCmd imports MzStream CmdLoop begin

text \<open>
  \<open>DobotV3CmdInter.h\<close> and \<open>DobotV3CmdInter.c\<close> of \<open>Plugins/ProtocolFramePlugin/DobotV3.0\<close>: the
  older command table. It has no send parameters per call: every command wants an answer, calls
  its callback if there is one, and releases its slot by itself when it is answered or given up.
\<close>

section \<open>Types\<close>

text \<open>
  The status values, the handle, the callback parameter, the entries of a callback list and the
  matching rules have the fields of the newer version, and its types here; the newer
  \<^const>\<open>DobotV3CmdInter_NOACK\<close> is not among the values of this version, and never made by it.
\<close>

type_synonym Mz_StatusList = cmd_status
type_synonym Mz_Handle = cmd_handle
type_synonym Mz_CBParm = cb_parm
type_synonym 'w Mz_CmdCBList = "'w cb_entry"
type_synonym Mz_MatchStruct = match_rule

text \<open>\<open>struct DobotV3CmdInter_PcaketParm\<close>, its fields named as in the newer version.\<close>

record Mz_PcaketParm =
  userMark :: bool
  writeMark :: bool
  ruleMark :: bool
  slotSend :: bool
  sendStatus :: Mz_StatusList
  slotHandle :: "nat option"
  slotLink :: "nat option"
  slotLength :: nat
  repeatNum :: u8
  timeOut :: u32
  ruleIndex :: nat
  timeStart :: u32

text \<open>
  \<open>struct DobotV3CmdInterParm\<close> with the frame whose function it is, the callback lists behind
  the pointers of the rules, and the static variable of \<open>DobotV3CmdInter_Loop\<close>.
\<close>

record 'w Mz_CmdParm = "'w Mz_Frame" +
  pMatchList :: "Mz_MatchStruct list"
  pPacketList :: bytes
  pPacketParmList :: "Mz_PcaketParm list"
  packetSize :: nat
  defaultTimeOut :: u32
  defaultRepeatNum :: u8
  pCBLists :: "'w Mz_CmdCBList list list"
  loopIndex :: nat

abbreviation packetListSize :: "('w, 'z) Mz_CmdParm_scheme \<Rightarrow> nat" where
  "packetListSize s \<equiv> length (pPacketParmList s)"

section \<open>Slots and handles\<close>

definition Mz_get_slot :: "nat \<Rightarrow> ('w, 'z) Mz_CmdParm_scheme \<Rightarrow> Mz_PcaketParm option" where
  "Mz_get_slot i s = (if i < packetListSize s then Some (pPacketParmList s ! i) else None)"

definition Mz_upd_slot :: "(Mz_PcaketParm \<Rightarrow> Mz_PcaketParm) \<Rightarrow> nat \<Rightarrow> ('w, 'z) Mz_CmdParm_scheme \<Rightarrow>
    ('w, 'z) Mz_CmdParm_scheme option" where
  "Mz_upd_slot f i s = do {
     sl \<leftarrow> Mz_get_slot i s;
     Some (s\<lparr>pPacketParmList := (pPacketParmList s)[i := f sl]\<rparr>) }"

lemma Mz_get_slot_Some [mem_safe]: "i < packetListSize s \<Longrightarrow> Mz_get_slot i s = Some (pPacketParmList s ! i)"
  by (simp add: Mz_get_slot_def)

lemma Mz_upd_slot_Some [mem_safe]:
  "i < packetListSize s \<Longrightarrow>
   Mz_upd_slot f i s = Some (s\<lparr>pPacketParmList := (pPacketParmList s)[i := f (pPacketParmList s ! i)]\<rparr>)"
  by (simp add: Mz_upd_slot_def Mz_get_slot_def)

definition Mz_GETPKGADDR :: "('w, 'z) Mz_CmdParm_scheme \<Rightarrow> nat \<Rightarrow> nat" where
  "Mz_GETPKGADDR s index = index * packetSize s"

definition Mz_PACKKETPARM_FILL :: "nat option \<Rightarrow> bytes \<Rightarrow> nat \<Rightarrow> Mz_PacketParm \<Rightarrow> Mz_PacketParm option" where
  "Mz_PACKKETPARM_FILL link mem n pp = do {
     d \<leftarrow> rd_range mem 0 n;
     p \<leftarrow> wr_range (pPacket pp) 0 d;
     Some (pp\<lparr>pLink := link, pPacket := p, packetLength := n, errCode := 0, sendMark := True\<rparr>) }"

text \<open>\<open>ISHANDLEERR\<close>: whether the handle is refused.\<close>

definition Mz_ISHANDLEERR :: "Mz_Handle \<Rightarrow> ('w, 'z) Mz_CmdParm_scheme \<Rightarrow> bool option" where
  "Mz_ISHANDLEERR h s = do {
     _ \<leftarrow> pParm h;
     if packetListSize s \<le> hIndex h then Some True
     else do {
       sl \<leftarrow> Mz_get_slot (hIndex h) s;
       if \<not> userMark sl then Some True
       else Some (slotHandle sl \<noteq> Some (hAddr h)) } }"

definition Mz_GetCmdSpace :: "Mz_Handle \<Rightarrow> ('w, 'z) Mz_CmdParm_scheme \<Rightarrow>
    Mz_StatusList \<times> Mz_Handle \<times> ('w, 'z) Mz_CmdParm_scheme" where
  "Mz_GetCmdSpace h s =
     (let h = h\<lparr>pParm := Some the_table\<rparr> in
      case find_index (\<lambda>sl. \<not> userMark sl) (pPacketParmList s) of
        Some index \<Rightarrow>
          (DobotV3CmdInter_SUCCESS, h\<lparr>hIndex := index\<rparr>,
           s\<lparr>pPacketParmList := (pPacketParmList s)[index := (pPacketParmList s ! index)
               \<lparr>userMark := True, slotHandle := Some (hAddr h)\<rparr>]\<rparr>)
      | None \<Rightarrow> (DobotV3CmdInter_NOSPACE, h\<lparr>hUserMark := False\<rparr>, s))"

definition Mz_ClearPkgParm :: "Mz_PcaketParm \<Rightarrow> Mz_PcaketParm" where
  "Mz_ClearPkgParm sl = sl\<lparr>slotHandle := None, writeMark := False, ruleMark := False,
     slotSend := False, userMark := False\<rparr>"

definition Mz_FreeCmdSpace :: "Mz_Handle \<Rightarrow> ('w, 'z) Mz_CmdParm_scheme \<Rightarrow>
    (Mz_StatusList \<times> ('w, 'z) Mz_CmdParm_scheme) option" where
  "Mz_FreeCmdSpace h s = do {
     bad \<leftarrow> Mz_ISHANDLEERR h s;
     if bad then Some (DobotV3CmdInter_HANDLEERR, s)
     else do { s \<leftarrow> Mz_upd_slot Mz_ClearPkgParm (hIndex h) s; Some (DobotV3CmdInter_SUCCESS, s) } }"

definition Mz_SetSendParm :: "u8 \<Rightarrow> u32 \<Rightarrow> ('w, 'z) Mz_CmdParm_scheme \<Rightarrow> ('w, 'z) Mz_CmdParm_scheme" where
  "Mz_SetSendParm rn tmo s = s\<lparr>defaultRepeatNum := rn, defaultTimeOut := tmo\<rparr>"

section \<open>Sending\<close>

text \<open>A rule index that is not written keeps the value of the last command in the slot.\<close>

definition Mz_RuleSort :: "nat \<Rightarrow> bytes \<Rightarrow> nat \<Rightarrow> ('w, 'z) Mz_CmdParm_scheme \<Rightarrow>
    (Mz_StatusList \<times> ('w, 'z) Mz_CmdParm_scheme) option" where
  "Mz_RuleSort index p n s = do {
     let index = u8n index;
     m \<leftarrow> find_rule (pMatchList s) p n 0;
     (case m of
        Some matchIndex \<Rightarrow> do {
          s \<leftarrow> Mz_upd_slot (\<lambda>sl. sl\<lparr>ruleIndex := matchIndex, ruleMark := True\<rparr>) index s;
          Some (DobotV3CmdInter_SUCCESS, s) }
      | None \<Rightarrow> do {
          s \<leftarrow> Mz_upd_slot (\<lambda>sl. sl\<lparr>ruleMark := False\<rparr>) index s;
          Some (DobotV3CmdInter_MATCHLOST, s) }) }"

definition Mz_WritePacket :: "Mz_Handle \<Rightarrow> nat option \<Rightarrow> bytes \<Rightarrow> nat \<Rightarrow> ('w, 'z) Mz_CmdParm_scheme \<Rightarrow>
    (Mz_StatusList \<times> ('w, 'z) Mz_CmdParm_scheme) option" where
  "Mz_WritePacket h link p n s =
     (if packetSize s < n then Some (DobotV3CmdInter_PKGLENERR, s)
      else do {
        d \<leftarrow> rd_range p 0 n;
        m \<leftarrow> wr_range (pPacketList s) (Mz_GETPKGADDR s (hIndex h)) d;
        s \<leftarrow> Mz_upd_slot (\<lambda>sl. sl\<lparr>slotLink := link, slotLength := n,
               repeatNum := defaultRepeatNum s, timeOut := defaultTimeOut s,
               timeStart := Mz_GetStartTime s - defaultTimeOut s,
               sendStatus := DobotV3CmdInter_SENDING, writeMark := True\<rparr>)
               (hIndex h) (s\<lparr>pPacketList := m\<rparr>);
        Some (DobotV3CmdInter_SUCCESS, s) })"

text \<open>
  \<open>SendData\<close> of this file. It ignores the result of \<open>RuleSort\<close>. Returned are the status, the
  caller's packet as the encoder leaves it, and the state.
\<close>

definition Mz_SendData :: "Mz_Handle \<Rightarrow> nat option \<Rightarrow> bytes \<Rightarrow> u16 \<Rightarrow> ('w, 'z) Mz_CmdParm_scheme \<Rightarrow>
    (Mz_StatusList \<times> bytes \<times> ('w, 'z) Mz_CmdParm_scheme) option" where
  "Mz_SendData h link p payloadLen s = do {
     bad \<leftarrow> Mz_ISHANDLEERR h s;
     if bad then Some (DobotV3CmdInter_HANDLEERR, p, s)
     else do {
       s \<leftarrow> Mz_upd_slot (\<lambda>sl. sl\<lparr>sendStatus := DobotV3CmdInter_SENDREADY\<rparr>) (hIndex h) s;
       (p, n) \<leftarrow> Mz_PacketEncoder p (ucast payloadLen);
       (result, s) \<leftarrow> Mz_WritePacket h link p n s;
       if result \<noteq> DobotV3CmdInter_SUCCESS then Some (result, p, s)
       else do {
         (_, s) \<leftarrow> Mz_RuleSort (hIndex h) p n s;
         s \<leftarrow> Mz_upd_slot (\<lambda>sl. sl\<lparr>slotSend := True\<rparr>) (hIndex h) s;
         Some (DobotV3CmdInter_SUCCESS, p, s) } } }"

definition Mz_GetSendAck :: "Mz_Handle \<Rightarrow> bytes option \<Rightarrow> ('w, 'z) Mz_CmdParm_scheme \<Rightarrow>
    (Mz_StatusList \<times> bytes option) option" where
  "Mz_GetSendAck h pk s = do {
     bad \<leftarrow> Mz_ISHANDLEERR h s;
     if bad then Some (DobotV3CmdInter_HANDLEERR, pk)
     else do {
       sl \<leftarrow> Mz_get_slot (hIndex h) s;
       if \<not> userMark sl then Some (DobotV3CmdInter_NOGETSPACE, pk)
       else if \<not> writeMark sl then Some (DobotV3CmdInter_NOWRITE, pk)
       else if \<not> ruleMark sl then
         Some (if sendStatus sl = DobotV3CmdInter_TIMEOUT then DobotV3CmdInter_TIMEOUT
               else DobotV3CmdInter_MATCHLOST, pk)
       else if sendStatus sl = DobotV3CmdInter_SUCCESS then
         (case pk of
            None \<Rightarrow> Some (sendStatus sl, None)
          | Some buf \<Rightarrow> do {
              d \<leftarrow> rd_range (pPacketList s) (Mz_GETPKGADDR s (hIndex h)) (slotLength sl);
              buf \<leftarrow> wr_range buf 0 d;
              Some (sendStatus sl, Some buf) })
       else Some (sendStatus sl, pk) } }"

section \<open>Callbacks\<close>

definition Mz_CmdCallBackHandle :: "Mz_PcaketParm \<Rightarrow> Mz_CBParm \<Rightarrow> ('w, 'z) Mz_CmdParm_scheme \<Rightarrow>
    (bool \<times> ('w, 'z) Mz_CmdParm_scheme) option" where
  "Mz_CmdCallBackHandle sl cbp s =
     (if length (pMatchList s) \<le> ruleIndex sl then None
      else let r = pMatchList s ! ruleIndex sl in
      case pCmdCB r of
        None \<Rightarrow> Some (False, s)
      | Some l \<Rightarrow>
          if length (pCBLists s) \<le> l then None
          else do {
            ident \<leftarrow> GetId r (cbPacket cbp) (cbLength cbp);
            Some (case find_callback (pCBLists s ! l) ident of
                    None \<Rightarrow> (False, s)
                  | Some cb \<Rightarrow> (True, s\<lparr>world := cb cbp (world s)\<rparr>)) })"

definition Mz_RegisterCB :: "nat \<Rightarrow> u16 \<Rightarrow> (Mz_CBParm \<Rightarrow> 'w \<Rightarrow> 'w) option \<Rightarrow> ('w, 'z) Mz_CmdParm_scheme \<Rightarrow>
    (bool \<times> ('w, 'z) Mz_CmdParm_scheme) option" where
  "Mz_RegisterCB l ident cb s =
     (if length (pCBLists s) \<le> l then None
      else let cbs = pCBLists s ! l in
      Some (case find_index (\<lambda>(i, _). i = ident) cbs of
          Some k \<Rightarrow> (True, s\<lparr>pCBLists := (pCBLists s)[l := cbs[k := (ident, cb)]]\<rparr>)
        | None \<Rightarrow> (case find_index (\<lambda>(_, c). c = None) cbs of
              Some k \<Rightarrow> (True, s\<lparr>pCBLists := (pCBLists s)[l := cbs[k := (ident, cb)]]\<rparr>)
            | None \<Rightarrow> (False, s))))"

section \<open>The functions the frame calls\<close>

text \<open>
  \<open>DobotV3CmdInter_PacketCallBack\<close>: the four tests of its loop on slot \<open>i\<close>, and what follows
  them.
\<close>

definition Mz_answers :: "nat \<Rightarrow> ('w, 'z) Mz_CmdParm_scheme \<Rightarrow> bool option" where
  "Mz_answers i s = do {
     sl \<leftarrow> Mz_get_slot i s;
     if \<not> slotSend sl then Some False
     else if \<not> ruleMark sl then Some False
     else if pLink (pPacketParm s) \<noteq> slotLink sl then Some False
     else if length (pMatchList s) \<le> ruleIndex sl then None
     else Match (pMatchList s ! ruleIndex sl) (drop (Mz_GETPKGADDR s i) (pPacketList s))
            (pPacket (pPacketParm s)) }"

definition Mz_finish_answer :: "nat \<Rightarrow> ('w, 'z) Mz_CmdParm_scheme \<Rightarrow> ('w, 'z) Mz_CmdParm_scheme option" where
  "Mz_finish_answer i s = do {
     sl \<leftarrow> Mz_get_slot i s;
     let n = packetLength (pPacketParm s);
     cbp \<leftarrow> make_cb_parm (pPacket (pPacketParm s)) 0 n DobotV3CmdInter_SUCCESS;
     (called, s) \<leftarrow> Mz_CmdCallBackHandle sl cbp s;
     let pp = (pPacketParm s)\<lparr>exitCallPack := True\<rparr>;
     if called then do {
       s \<leftarrow> Mz_upd_slot Mz_ClearPkgParm i s;
       Some (s\<lparr>pPacketParm := pp\<rparr>) }
     else do {
       s \<leftarrow> Mz_upd_slot (\<lambda>sl. sl\<lparr>slotLength := n\<rparr>) i s;
       d \<leftarrow> rd_range (pPacket (pPacketParm s)) 0 n;
       m \<leftarrow> wr_range (pPacketList s) (Mz_GETPKGADDR s i) d;
       s \<leftarrow> Mz_upd_slot (\<lambda>sl. sl\<lparr>slotSend := False, sendStatus := DobotV3CmdInter_SUCCESS\<rparr>) i
              (s\<lparr>pPacketList := m\<rparr>);
       s \<leftarrow> Mz_upd_slot Mz_ClearPkgParm i s;
       Some (s\<lparr>pPacketParm := pp\<rparr>) } }"

fun Mz_scan_slots :: "nat list \<Rightarrow> ('w, 'z) Mz_CmdParm_scheme \<Rightarrow> ('w, 'z) Mz_CmdParm_scheme option" where
  "Mz_scan_slots [] s = Some s"
| "Mz_scan_slots (i # is) s = do {
     a \<leftarrow> Mz_answers i s;
     if a then Mz_finish_answer i s else Mz_scan_slots is s }"

definition Mz_CmdPacketCallBack :: "('w, 'z) Mz_CmdParm_scheme \<Rightarrow> ('w, 'z) Mz_CmdParm_scheme option" where
  "Mz_CmdPacketCallBack s = Mz_scan_slots [0..<u8n (packetListSize s)] s"

definition Mz_CmdLoop :: "('w, 'z) Mz_CmdParm_scheme \<Rightarrow> ('w, 'z) Mz_CmdParm_scheme option" where
  "Mz_CmdLoop s =
     (if loopIndex s = packetListSize s
      then Some (s\<lparr>loopIndex := 0, pPacketParm := (pPacketParm s)\<lparr>exitCallPack := True\<rparr>\<rparr>)
      else do {
        let i = loopIndex s;
        let s = s\<lparr>loopIndex := u8n (i + 1)\<rparr>;
        sl \<leftarrow> Mz_get_slot i s;
        if \<not> slotSend sl then Some s
        else if \<not> Mz_IsTimeOut s (timeOut sl) (timeStart sl) then Some s
        else if repeatNum sl = 0 then do {
          cbp \<leftarrow> make_cb_parm (pPacketList s) (Mz_GETPKGADDR s i) (slotLength sl) DobotV3CmdInter_TIMEOUT;
          (called, s) \<leftarrow> Mz_CmdCallBackHandle sl cbp s;
          if \<not> called then do {
            s \<leftarrow> Mz_upd_slot (\<lambda>sl. sl\<lparr>slotSend := False, sendStatus := DobotV3CmdInter_TIMEOUT\<rparr>) i s;
            Mz_upd_slot Mz_ClearPkgParm i s }
          else Mz_upd_slot Mz_ClearPkgParm i s }
        else do {
          s \<leftarrow> Mz_upd_slot (\<lambda>sl. sl\<lparr>repeatNum := repeatNum sl - 1, timeStart := Mz_GetStartTime s\<rparr>) i s;
          pp \<leftarrow> Mz_PACKKETPARM_FILL (slotLink sl) (drop (Mz_GETPKGADDR s i) (pPacketList s)) (slotLength sl)
                 (pPacketParm s);
          Some (s\<lparr>pPacketParm := pp\<rparr>) } })"

section \<open>Declarations\<close>

definition Mz_empty_slot :: Mz_PcaketParm where
  "Mz_empty_slot = \<lparr>userMark = False, writeMark = False, ruleMark = False, slotSend = False,
     sendStatus = DobotV3CmdInter_SUCCESS, slotHandle = None, slotLink = None, slotLength = 0,
     repeatNum = 0, timeOut = 0, ruleIndex = 0, timeStart = 0\<rparr>"

definition Mz_CMDCB_LS_EXPORT :: "nat \<Rightarrow> 'w Mz_CmdCBList list" where
  "Mz_CMDCB_LS_EXPORT sizeCBList = replicate sizeCBList (0, None)"

definition Mz_CmdInter_EXPORT :: "'w Mz_Frame \<Rightarrow> nat \<Rightarrow> nat \<Rightarrow> u32 \<Rightarrow> u8 \<Rightarrow> Mz_MatchStruct list \<Rightarrow>
    'w Mz_CmdCBList list list \<Rightarrow> 'w Mz_CmdParm" where
  "Mz_CmdInter_EXPORT fs packetNum packetSz timeout repeats rules cbs =
     Mz_Frame.extend fs
       \<lparr>pMatchList = rules, pPacketList = replicate (packetNum * packetSz) 0,
        pPacketParmList = replicate packetNum Mz_empty_slot, packetSize = packetSz,
        defaultTimeOut = timeout, defaultRepeatNum = repeats, pCBLists = cbs, loopIndex = 0\<rparr>"

lemma Mz_CmdInter_EXPORT_simps [simp]:
  "pPacketParmList (Mz_CmdInter_EXPORT fs n sz t r rules cbs) = replicate n Mz_empty_slot"
  "pPacketList (Mz_CmdInter_EXPORT fs n sz t r rules cbs) = replicate (n * sz) 0"
  "packetSize (Mz_CmdInter_EXPORT fs n sz t r rules cbs) = sz"
  "pMatchList (Mz_CmdInter_EXPORT fs n sz t r rules cbs) = rules"
  "pCBLists (Mz_CmdInter_EXPORT fs n sz t r rules cbs) = cbs"
  "loopIndex (Mz_CmdInter_EXPORT fs n sz t r rules cbs) = 0"
  "defaultTimeOut (Mz_CmdInter_EXPORT fs n sz t r rules cbs) = t"
  "defaultRepeatNum (Mz_CmdInter_EXPORT fs n sz t r rules cbs) = r"
  by (simp_all add: Mz_CmdInter_EXPORT_def Mz_Frame.defs)

lemma Mz_CmdInter_EXPORT_frame [simp]:
  "timeCNT (Mz_CmdInter_EXPORT fs n sz t r rules cbs) = timeCNT fs"
  "links (Mz_CmdInter_EXPORT fs n sz t r rules cbs) = links fs"
  "pLinkList (Mz_CmdInter_EXPORT fs n sz t r rules cbs) = pLinkList fs"
  "linkNum (Mz_CmdInter_EXPORT fs n sz t r rules cbs) = linkNum fs"
  "pPacketParm (Mz_CmdInter_EXPORT fs n sz t r rules cbs) = pPacketParm fs"
  "world (Mz_CmdInter_EXPORT fs n sz t r rules cbs) = world fs"
  by (simp_all add: Mz_CmdInter_EXPORT_def Mz_Frame.defs)

end
