(* ===== verification/MzTable.thy ===== *)
theory MzTable imports MzCmd begin

text \<open>
  The older command table: its invariant, what an answer and a visit of the loop do to it, and
  that no operation leaves the invariant. As the frame hands over at most 255 bytes of an answer,
  and a slot holds at least as many, an answer never leaves its slot here.
\<close>

section \<open>The invariant\<close>

text \<open>
  A slot that is to be sent is in use, has been written, and its packet fits; a slot that has been
  written has not been answered or given up yet.
\<close>

definition Mz_slot_ok :: "('w, 'z) Mz_CmdParm_scheme \<Rightarrow> Mz_PcaketParm \<Rightarrow> bool" where
  "Mz_slot_ok s sl \<longleftrightarrow> ruleIndex sl < length (pMatchList s) \<and>
     (slotSend sl \<longrightarrow> userMark sl \<and> writeMark sl \<and> slotLength sl \<le> packetSize s) \<and>
     (writeMark sl \<longrightarrow> userMark sl \<and> sendStatus sl \<in> {DobotV3CmdInter_SENDREADY, DobotV3CmdInter_SENDING})"

definition Mz_callbacks_ok :: "(nat \<Rightarrow> 'w \<Rightarrow> bytes) \<Rightarrow> ('w, 'z) Mz_CmdParm_scheme \<Rightarrow> bool" where
  "Mz_callbacks_ok input s \<longleftrightarrow>
     (\<forall>r \<in> set (pMatchList s). \<forall>l. pCmdCB r = Some l \<longrightarrow> l < length (pCBLists s)) \<and>
     (\<forall>cbs \<in> set (pCBLists s). \<forall>i f. (i, Some f) \<in> set cbs \<longrightarrow>
        (\<forall>p w q. input q (f p w) = input q w))"

definition Mz_cmd_ok :: "(nat \<Rightarrow> 'w \<Rightarrow> bytes) \<Rightarrow> ('w, 'z) Mz_CmdParm_scheme \<Rightarrow> bool" where
  "Mz_cmd_ok input s \<longleftrightarrow> rules_ok (pMatchList s) \<and> Mz_callbacks_ok input s \<and>
     255 \<le> packetSize s \<and> packetSize s \<le> Mz_PACKET_LENGTH \<and> packetListSize s < 256 \<and>
     length (pPacketList s) = packetListSize s * packetSize s \<and> loopIndex s \<le> packetListSize s \<and>
     (\<forall>sl \<in> set (pPacketParmList s). Mz_slot_ok s sl)"

lemma Mz_cmd_okD:
  assumes "Mz_cmd_ok input s"
  shows "rules_ok (pMatchList s)" "Mz_callbacks_ok input s" "255 \<le> packetSize s"
    "packetSize s \<le> Mz_PACKET_LENGTH" "packetListSize s < 256"
    "length (pPacketList s) = packetListSize s * packetSize s" "loopIndex s \<le> packetListSize s"
    "i < packetListSize s \<Longrightarrow> Mz_slot_ok s (pPacketParmList s ! i)"
  using assms by (simp_all add: Mz_cmd_ok_def)

lemma Mz_cmd_ok_cong:
  assumes "pMatchList t = pMatchList s" "pCBLists t = pCBLists s" "packetSize t = packetSize s"
    "length (pPacketList t) = length (pPacketList s)" "pPacketParmList t = pPacketParmList s" "loopIndex t = loopIndex s"
  shows "Mz_cmd_ok input t = Mz_cmd_ok input s"
  using assms by (simp add: Mz_cmd_ok_def Mz_callbacks_ok_def Mz_slot_ok_def)

lemma Mz_cmd_ok_frame:
  "Mz_cmd_ok input (s\<lparr>links := ls, pPacketParm := pp, world := w\<rparr>) = Mz_cmd_ok input s"
  "Mz_cmd_ok input (s\<lparr>pPacketParm := pp\<rparr>) = Mz_cmd_ok input s"
  "Mz_cmd_ok input (s\<lparr>world := w\<rparr>) = Mz_cmd_ok input s"
  "Mz_cmd_ok input (s\<lparr>loopMark := m\<rparr>) = Mz_cmd_ok input s"
  "Mz_cmd_ok input (s\<lparr>links := ls\<rparr>) = Mz_cmd_ok input s"
  by (rule Mz_cmd_ok_cong; simp)+

text \<open>It survives a change of one slot, of the packet memory and of the loop index.\<close>

lemma Mz_cmd_ok_update:
  assumes ok: "Mz_cmd_ok input s" and m: "length m = length (pPacketList s)" and k: "k \<le> packetListSize s"
    and sl: "i < packetListSize s \<Longrightarrow> Mz_slot_ok s sl"
  shows "Mz_cmd_ok input (s\<lparr>pPacketList := m, pPacketParmList := (pPacketParmList s)[i := sl], loopIndex := k\<rparr>)"
proof -
  have "Mz_slot_ok s x" if "x \<in> set ((pPacketParmList s)[i := sl])" for x
  proof (cases "i < packetListSize s")
    case True
    then show ?thesis using that sl ok by (auto simp: Mz_cmd_ok_def dest!: set_update_subset_insert [THEN subsetD])
  next
    case False
    then show ?thesis using that ok by (simp add: Mz_cmd_ok_def list_update_beyond)
  qed
  then show ?thesis
    using ok m k by (simp add: Mz_cmd_ok_def Mz_callbacks_ok_def Mz_slot_ok_def)
qed

lemma Mz_cmd_ok_slot:
  assumes ok: "Mz_cmd_ok input s" and sl: "i < packetListSize s \<Longrightarrow> Mz_slot_ok s sl"
  shows "Mz_cmd_ok input (s\<lparr>pPacketParmList := (pPacketParmList s)[i := sl]\<rparr>)"
  using Mz_cmd_ok_update [OF ok refl Mz_cmd_okD(7) [OF ok] sl] by simp

lemma Mz_slot_addr:
  assumes "Mz_cmd_ok input s" and "i < packetListSize s"
  shows "Mz_GETPKGADDR s i + packetSize s \<le> length (pPacketList s)"
  unfolding Mz_cmd_okD(6) [OF assms(1)] Mz_GETPKGADDR_def by (rule slot_end [OF assms(2)])

text \<open>The part of the packet memory that belongs to a slot.\<close>

definition Mz_slot_bytes :: "('w, 'z) Mz_CmdParm_scheme \<Rightarrow> nat \<Rightarrow> bytes" where
  "Mz_slot_bytes s i = take (packetSize s) (drop (Mz_GETPKGADDR s i) (pPacketList s))"

section \<open>Callbacks\<close>

text \<open>The function \<open>CmdCallBackHandle\<close> runs for a slot, if there is one.\<close>

definition Mz_slot_callback :: "Mz_PcaketParm \<Rightarrow> Mz_CBParm \<Rightarrow> ('w, 'z) Mz_CmdParm_scheme \<Rightarrow>
    (Mz_CBParm \<Rightarrow> 'w \<Rightarrow> 'w) option" where
  "Mz_slot_callback sl cbp s =
     (let r = pMatchList s ! ruleIndex sl in
      case pCmdCB r of None \<Rightarrow> None
      | Some l \<Rightarrow> (case GetId r (cbPacket cbp) (cbLength cbp) of
            None \<Rightarrow> None | Some ident \<Rightarrow> find_callback (pCBLists s ! l) ident))"

lemma Mz_CmdCallBackHandle_eq:
  assumes ok: "Mz_cmd_ok input s" and sl: "ruleIndex sl < length (pMatchList s)" and p: "15 \<le> length (cbPacket cbp)"
  shows "Mz_CmdCallBackHandle sl cbp s = Some (Mz_slot_callback sl cbp s \<noteq> None,
           s\<lparr>world := run_callback (Mz_slot_callback sl cbp s) cbp (world s)\<rparr>)"
proof -
  let ?r = "pMatchList s ! ruleIndex sl"
  have r: "?r \<in> set (pMatchList s)" using sl by simp
  show ?thesis
  proof (cases "pCmdCB ?r")
    case None
    then show ?thesis using sl by (simp add: Mz_CmdCallBackHandle_def Mz_slot_callback_def run_callback_def)
  next
    case (Some l)
    then have l: "l < length (pCBLists s)" using Mz_cmd_okD(2) [OF ok] r by (simp add: Mz_callbacks_ok_def)
    obtain i where i: "GetId ?r (cbPacket cbp) (cbLength cbp) = Some i"
      using rules_okD(2) [OF Mz_cmd_okD(1) [OF ok] r p] by blast
    show ?thesis
      using Some sl l i
      by (cases "find_callback (pCBLists s ! l) i")
        (simp_all add: Mz_CmdCallBackHandle_def Mz_slot_callback_def run_callback_def)
  qed
qed

lemma find_callback_mem: "find_callback cbs i = Some f \<Longrightarrow> (\<exists>k. (k, Some f) \<in> set cbs)"
  by (auto simp: find_callback_def find_index_Some split: option.splits) (metis nth_mem prod.collapse)

lemma Mz_run_callback_input:
  assumes ok: "Mz_cmd_ok input s" and sl: "ruleIndex sl < length (pMatchList s)"
  shows "input q (run_callback (Mz_slot_callback sl cbp s) cbp' w) = input q w"
proof (cases "Mz_slot_callback sl cbp s")
  case None
  then show ?thesis by (simp add: run_callback_def)
next
  case (Some f)
  let ?r = "pMatchList s ! ruleIndex sl"
  obtain l i where l: "pCmdCB ?r = Some l" "find_callback (pCBLists s ! l) i = Some f"
    using Some by (auto simp: Mz_slot_callback_def Let_def split: option.splits)
  have "?r \<in> set (pMatchList s)" using sl by simp
  then have "pCBLists s ! l \<in> set (pCBLists s)"
    using Mz_cmd_okD(2) [OF ok] l(1) by (simp add: Mz_callbacks_ok_def)
  then show ?thesis
    using find_callback_mem [OF l(2)] Mz_cmd_okD(2) [OF ok] Some
    by (auto simp: Mz_callbacks_ok_def run_callback_def)
qed

section \<open>Answers\<close>

text \<open>Slot \<open>i\<close> waits for the packet at hand: the tests of the loop of \<open>PacketCallBack\<close>.\<close>

definition Mz_waits :: "('w, 'z) Mz_CmdParm_scheme \<Rightarrow> nat \<Rightarrow> bool" where
  "Mz_waits s i = (let sl = pPacketParmList s ! i in
     slotSend sl \<and> ruleMark sl \<and> slotLink sl = pLink (pPacketParm s) \<and>
     Match (pMatchList s ! ruleIndex sl) (drop (Mz_GETPKGADDR s i) (pPacketList s)) (pPacket (pPacketParm s)) = Some True)"

text \<open>The state in which the frame calls for a packet, as far as the table is concerned.\<close>

definition Mz_packet_here :: "('w, 'z) Mz_CmdParm_scheme \<Rightarrow> bool" where
  "Mz_packet_here s \<longleftrightarrow> packetLength (pPacketParm s) \<le> 255 \<and> length (pPacket (pPacketParm s)) = Mz_PACKET_LENGTH"

lemma Mz_answers_eq:
  assumes ok: "Mz_cmd_ok input s" and i: "i < packetListSize s" and pk: "Mz_packet_here s"
  shows "Mz_answers i s = Some (Mz_waits s i)"
proof -
  let ?sl = "pPacketParmList s ! i"
  have r: "ruleIndex ?sl < length (pMatchList s)" using Mz_cmd_okD(8) [OF ok i] by (simp add: Mz_slot_ok_def)
  then have rs: "pMatchList s ! ruleIndex ?sl \<in> set (pMatchList s)" by simp
  have "15 \<le> length (drop (Mz_GETPKGADDR s i) (pPacketList s))" "15 \<le> length (pPacket (pPacketParm s))"
    using Mz_slot_addr [OF ok i] Mz_cmd_okD(3) [OF ok] pk by (simp_all add: Mz_packet_here_def)
  from rules_okD(3) [OF Mz_cmd_okD(1) [OF ok] rs this] obtain b where
    "Match (pMatchList s ! ruleIndex ?sl) (drop (Mz_GETPKGADDR s i) (pPacketList s)) (pPacket (pPacketParm s)) = Some b"
    by blast
  then show ?thesis using i r by (auto simp: Mz_answers_def Mz_waits_def Mz_get_slot_Some Let_def)
qed

text \<open>The callback that the answer to slot \<open>i\<close> runs, its parameter, and the state afterwards.\<close>

definition Mz_answer_parm :: "('w, 'z) Mz_CmdParm_scheme \<Rightarrow> Mz_CBParm" where
  "Mz_answer_parm s = cb_parm_of (take (packetLength (pPacketParm s)) (pPacket (pPacketParm s))) DobotV3CmdInter_SUCCESS"

abbreviation Mz_answer_callback :: "('w, 'z) Mz_CmdParm_scheme \<Rightarrow> nat \<Rightarrow> (Mz_CBParm \<Rightarrow> 'w \<Rightarrow> 'w) option" where
  "Mz_answer_callback s i \<equiv> Mz_slot_callback (pPacketParmList s ! i) (Mz_answer_parm s) s"

definition Mz_answered_slot :: "bool \<Rightarrow> nat \<Rightarrow> Mz_PcaketParm \<Rightarrow> Mz_PcaketParm" where
  "Mz_answered_slot called n sl = Mz_ClearPkgParm
     (if called then sl else sl\<lparr>slotLength := n, slotSend := False, sendStatus := DobotV3CmdInter_SUCCESS\<rparr>)"

definition Mz_answered :: "nat \<Rightarrow> ('w, 'z) Mz_CmdParm_scheme \<Rightarrow> ('w, 'z) Mz_CmdParm_scheme" where
  "Mz_answered i s = (let pp = pPacketParm s; n = packetLength pp; a = Mz_GETPKGADDR s i; m = pPacketList s;
       cb = Mz_answer_callback s i; sl = Mz_answered_slot (cb \<noteq> None) n (pPacketParmList s ! i);
       s = (case cb of
              None \<Rightarrow> s\<lparr>pPacketList := take a m @ take n (pPacket pp) @ drop (a + n) m\<rparr>
            | Some f \<Rightarrow> s\<lparr>world := f (Mz_answer_parm s) (world s)\<rparr>)
     in s\<lparr>pPacketParmList := (pPacketParmList s)[i := sl], pPacketParm := pp\<lparr>exitCallPack := True\<rparr>\<rparr>)"

lemma Mz_finish_answer_eq:
  assumes ok: "Mz_cmd_ok input s" and i: "i < packetListSize s" and pk: "Mz_packet_here s"
  shows "Mz_finish_answer i s = Some (Mz_answered i s)"
proof -
  let ?sl = "pPacketParmList s ! i" and ?n = "packetLength (pPacketParm s)"
  have r: "ruleIndex ?sl < length (pMatchList s)"
    using Mz_cmd_okD(8) [OF ok i] by (simp add: Mz_slot_ok_def)
  have n: "?n \<le> 255" "length (pPacket (pPacketParm s)) = Mz_PACKET_LENGTH" using pk by (simp_all add: Mz_packet_here_def)
  have room: "Mz_GETPKGADDR s i + ?n \<le> length (pPacketList s)"
    using Mz_slot_addr [OF ok i] Mz_cmd_okD(3) [OF ok] n by linarith
  have mk: "make_cb_parm (pPacket (pPacketParm s)) 0 ?n DobotV3CmdInter_SUCCESS = Some (Mz_answer_parm s)"
    using make_cb_parm_Some [of 0 ?n "pPacket (pPacketParm s)" DobotV3CmdInter_SUCCESS] n
    by (simp add: Mz_answer_parm_def)
  have len: "15 \<le> length (cbPacket (Mz_answer_parm s))"
    using n by (simp add: Mz_answer_parm_def cb_parm_of_len)
  note call = Mz_CmdCallBackHandle_eq [OF ok r len]
  show ?thesis
  proof (cases "Mz_answer_callback s i")
    case None
    then show ?thesis
      using i n room mk call
      by (simp add: Mz_finish_answer_def Mz_get_slot_Some Mz_upd_slot_Some rd_range_Some wr_range_Some
          Mz_GETPKGADDR_def Mz_answered_def Mz_answered_slot_def Mz_ClearPkgParm_def run_callback_def Let_def)
  next
    case (Some f)
    then show ?thesis
      using i mk call
      by (simp add: Mz_finish_answer_def Mz_get_slot_Some Mz_upd_slot_Some Mz_answered_def Mz_answered_slot_def
          Mz_ClearPkgParm_def run_callback_def Let_def)
  qed
qed

lemma Mz_scan_slots_eq:
  assumes ok: "Mz_cmd_ok input s" and pk: "Mz_packet_here s"
  shows "\<forall>i \<in> set is. i < packetListSize s \<Longrightarrow>
    Mz_scan_slots is s = Some (case find (Mz_waits s) is of None \<Rightarrow> s | Some i \<Rightarrow> Mz_answered i s)"
  using Mz_answers_eq [OF ok _ pk] Mz_finish_answer_eq [OF ok _ pk] by (induction "is") auto

lemma Mz_PacketCallBack_eq:
  assumes ok: "Mz_cmd_ok input s" and pk: "Mz_packet_here s"
  shows "Mz_CmdPacketCallBack s =
    Some (case find (Mz_waits s) [0..<packetListSize s] of None \<Rightarrow> s | Some i \<Rightarrow> Mz_answered i s)"
  using Mz_scan_slots_eq [OF assms, of "[0..<packetListSize s]"] Mz_cmd_okD(5) [OF ok]
  by (simp add: Mz_CmdPacketCallBack_def)

lemma Mz_answered_frame:
  "timeCNT (Mz_answered i s) = timeCNT s" "pLinkList (Mz_answered i s) = pLinkList s"
  "linkNum (Mz_answered i s) = linkNum s" "links (Mz_answered i s) = links s"
  "pPacketParm (Mz_answered i s) = (pPacketParm s)\<lparr>exitCallPack := True\<rparr>"
  "packetSize (Mz_answered i s) = packetSize s" "packetListSize (Mz_answered i s) = packetListSize s"
  "pPacketParmList (Mz_answered i s) = (pPacketParmList s)[i :=
     Mz_answered_slot (Mz_answer_callback s i \<noteq> None) (packetLength (pPacketParm s)) (pPacketParmList s ! i)]"
  "world (Mz_answered i s) = run_callback (Mz_answer_callback s i) (Mz_answer_parm s) (world s)"
  "pMatchList (Mz_answered i s) = pMatchList s" "pCBLists (Mz_answered i s) = pCBLists s"
  "loopIndex (Mz_answered i s) = loopIndex s"
  by (simp_all add: Mz_answered_def run_callback_def Let_def split: option.split)

lemma Mz_slot_ok_clear: "Mz_slot_ok s sl \<Longrightarrow> Mz_slot_ok s (Mz_ClearPkgParm (sl\<lparr>slotLength := n, slotSend := b, sendStatus := st\<rparr>))"
  "Mz_slot_ok s sl \<Longrightarrow> Mz_slot_ok s (Mz_ClearPkgParm sl)"
  by (simp_all add: Mz_slot_ok_def Mz_ClearPkgParm_def)

lemma Mz_answered_ok:
  assumes ok: "Mz_cmd_ok input s" and pk: "Mz_packet_here s" and i: "i < packetListSize s"
  shows "Mz_cmd_ok input (Mz_answered i s)" and "input q (world (Mz_answered i s)) = input q (world s)"
proof -
  have sl: "Mz_slot_ok s (pPacketParmList s ! i)" by (rule Mz_cmd_okD(8) [OF ok i])
  then show "input q (world (Mz_answered i s)) = input q (world s)"
    using Mz_run_callback_input [OF ok] by (simp add: Mz_answered_frame Mz_slot_ok_def)
  have "Mz_GETPKGADDR s i + packetLength (pPacketParm s) \<le> length (pPacketList s)"
    using Mz_slot_addr [OF ok i] Mz_cmd_okD(3) [OF ok] pk by (simp add: Mz_packet_here_def)
  then have m: "length (pPacketList (Mz_answered i s)) = length (pPacketList s)"
    using pk by (simp add: Mz_answered_def Mz_packet_here_def Let_def split: option.split)
  have "Mz_slot_ok s (Mz_answered_slot c n (pPacketParmList s ! i))" for c n
    using Mz_slot_ok_clear [OF sl] by (simp add: Mz_answered_slot_def)
  from Mz_cmd_ok_slot [OF ok this] show "Mz_cmd_ok input (Mz_answered i s)"
    by (subst Mz_cmd_ok_cong [where s = "s\<lparr>pPacketParmList := pPacketParmList (Mz_answered i s)\<rparr>"])
      (simp_all add: m Mz_answered_frame)
qed

section \<open>A visit of the loop\<close>

text \<open>The slot is due: it is to be sent, and its time is over.\<close>

definition Mz_due :: "('w, 'z) Mz_CmdParm_scheme \<Rightarrow> Mz_PcaketParm \<Rightarrow> bool" where
  "Mz_due s sl \<longleftrightarrow> slotSend sl \<and> Mz_IsTimeOut s (timeOut sl) (timeStart sl)"

text \<open>A command that is given up: the parameter of its callback, and the callback.\<close>

definition Mz_timeout_parm :: "('w, 'z) Mz_CmdParm_scheme \<Rightarrow> nat \<Rightarrow> Mz_CBParm" where
  "Mz_timeout_parm s i = cb_parm_of (take (slotLength (pPacketParmList s ! i)) (Mz_slot_bytes s i)) DobotV3CmdInter_TIMEOUT"

abbreviation Mz_timeout_callback :: "('w, 'z) Mz_CmdParm_scheme \<Rightarrow> nat \<Rightarrow> (Mz_CBParm \<Rightarrow> 'w \<Rightarrow> 'w) option" where
  "Mz_timeout_callback s i \<equiv> Mz_slot_callback (pPacketParmList s ! i) (Mz_timeout_parm s i) s"

text \<open>The slot after a visit, and what is handed to the frame for sending.\<close>

definition Mz_visited_slot :: "('w, 'z) Mz_CmdParm_scheme \<Rightarrow> bool \<Rightarrow> Mz_PcaketParm \<Rightarrow> Mz_PcaketParm" where
  "Mz_visited_slot s called sl =
     (if \<not> Mz_due s sl then sl
      else if repeatNum sl = 0 then
        Mz_ClearPkgParm (if called then sl else sl\<lparr>slotSend := False, sendStatus := DobotV3CmdInter_TIMEOUT\<rparr>)
      else sl\<lparr>repeatNum := repeatNum sl - 1, timeStart := timeCNT s\<rparr>)"

definition Mz_sends :: "('w, 'z) Mz_CmdParm_scheme \<Rightarrow> nat \<Rightarrow> bool" where
  "Mz_sends s i \<longleftrightarrow> Mz_due s (pPacketParmList s ! i) \<and> repeatNum (pPacketParmList s ! i) \<noteq> 0"

definition Mz_gives_up :: "('w, 'z) Mz_CmdParm_scheme \<Rightarrow> nat \<Rightarrow> bool" where
  "Mz_gives_up s i \<longleftrightarrow> Mz_due s (pPacketParmList s ! i) \<and> repeatNum (pPacketParmList s ! i) = 0"

definition Mz_visited_parm :: "('w, 'z) Mz_CmdParm_scheme \<Rightarrow> nat \<Rightarrow> Mz_PacketParm" where
  "Mz_visited_parm s i = (let sl = pPacketParmList s ! i; pp = pPacketParm s; n = slotLength sl in
     if Mz_sends s i
     then pp\<lparr>pLink := slotLink sl, pPacket := take n (Mz_slot_bytes s i) @ drop n (pPacket pp),
             packetLength := n, errCode := 0, sendMark := True\<rparr>
     else pp)"

definition Mz_visited :: "('w, 'z) Mz_CmdParm_scheme \<Rightarrow> ('w, 'z) Mz_CmdParm_scheme" where
  "Mz_visited s = (let i = loopIndex s; cb = Mz_timeout_callback s i in
     s\<lparr>pPacketParm := Mz_visited_parm s i,
       world := (if Mz_gives_up s i then run_callback cb (Mz_timeout_parm s i) (world s) else world s),
       pPacketParmList := (pPacketParmList s)[i := Mz_visited_slot s (cb \<noteq> None) (pPacketParmList s ! i)],
       loopIndex := Suc i\<rparr>)"

lemma Mz_Loop_exit:
  "loopIndex s = packetListSize s \<Longrightarrow>
   Mz_CmdLoop s = Some (s\<lparr>loopIndex := 0, pPacketParm := (pPacketParm s)\<lparr>exitCallPack := True\<rparr>\<rparr>)"
  by (simp add: Mz_CmdLoop_def)

lemma Mz_Loop_eq:
  assumes ok: "Mz_cmd_ok input s" and i: "loopIndex s < packetListSize s"
    and buf: "length (pPacket (pPacketParm s)) = Mz_PACKET_LENGTH"
  shows "Mz_CmdLoop s = Some (Mz_visited s)"
proof -
  let ?i = "loopIndex s"
  let ?sl = "pPacketParmList s ! ?i"
  have u: "u8n (?i + 1) = Suc ?i" using i Mz_cmd_okD(5) [OF ok] by simp
  have sl: "Mz_slot_ok s ?sl" by (rule Mz_cmd_okD(8) [OF ok i])
  have r: "ruleIndex ?sl < length (pMatchList s)" using sl by (simp add: Mz_slot_ok_def)
  note defs = Mz_CmdLoop_def Mz_get_slot_Some Mz_upd_slot_Some Mz_due_def Mz_IsTimeOut_def Mz_visited_def
    Mz_visited_parm_def Mz_visited_slot_def Mz_sends_def Mz_gives_up_def Let_def
  show ?thesis
  proof (cases "Mz_due s ?sl")
    case False
    then show ?thesis using i u by (auto simp: defs)
  next
    case True
    then have n: "slotLength ?sl \<le> packetSize s" using sl by (simp add: Mz_slot_ok_def Mz_due_def)
    then have addr: "Mz_GETPKGADDR s ?i + slotLength ?sl \<le> length (pPacketList s)" "slotLength ?sl \<le> Mz_PACKET_LENGTH"
      using Mz_slot_addr [OF ok i] Mz_cmd_okD(4) [OF ok] by simp_all
    have d: "take (slotLength ?sl) (drop (Mz_GETPKGADDR s ?i) (pPacketList s)) = take (slotLength ?sl) (Mz_slot_bytes s ?i)"
      using n by (simp add: Mz_slot_bytes_def min_absorb1)
    have a: "Mz_GETPKGADDR (s\<lparr>loopIndex := k, pPacketParmList := l\<rparr>) j = Mz_GETPKGADDR s j"
      "Mz_GETPKGADDR (s\<lparr>loopIndex := k\<rparr>) j = Mz_GETPKGADDR s j" for k j l by (simp_all add: Mz_GETPKGADDR_def)
    show ?thesis
    proof (cases "repeatNum ?sl = 0")
      case zero: True
      have mk: "make_cb_parm (pPacketList s) (Mz_GETPKGADDR s ?i) (slotLength ?sl) DobotV3CmdInter_TIMEOUT =
          Some (Mz_timeout_parm s ?i)"
        using make_cb_parm_Some [OF addr(1), of DobotV3CmdInter_TIMEOUT] addr(2) by (simp add: Mz_timeout_parm_def d)
      have len: "15 \<le> length (cbPacket (Mz_timeout_parm s ?i))"
        using addr(2) by (simp add: Mz_timeout_parm_def cb_parm_of_len)
      have s1: "Mz_cmd_ok input (s\<lparr>loopIndex := Suc ?i\<rparr>)"
        using Mz_cmd_ok_update [OF ok refl, of "Suc ?i" ?i ?sl] sl i by simp
      have cb: "Mz_slot_callback ?sl (Mz_timeout_parm s ?i) (s\<lparr>loopIndex := Suc ?i\<rparr>) = Mz_slot_callback ?sl (Mz_timeout_parm s ?i) s"
        by (simp add: Mz_slot_callback_def Let_def cong: option.case_cong)
      show ?thesis
        using True zero i u mk Mz_CmdCallBackHandle_eq [OF s1, of ?sl "Mz_timeout_parm s ?i"] r len
        by (simp add: defs a cb run_callback_def)
    next
      case False
      have l: "length (take (slotLength ?sl) (Mz_slot_bytes s ?i)) = slotLength ?sl"
        using addr by (simp add: d [symmetric])
      show ?thesis
        using True False i u addr buf d l
        by (simp add: defs a Mz_PACKKETPARM_FILL_def rd_range_Some wr_range_Some Mz_GetStartTime_def)
    qed
  qed
qed

lemma Mz_visited_frame:
  "timeCNT (Mz_visited s) = timeCNT s" "pLinkList (Mz_visited s) = pLinkList s"
  "linkNum (Mz_visited s) = linkNum s" "links (Mz_visited s) = links s" "loopMark (Mz_visited s) = loopMark s"
  "loopIndex (Mz_visited s) = Suc (loopIndex s)" "pPacketList (Mz_visited s) = pPacketList s"
  "packetListSize (Mz_visited s) = packetListSize s" "packetSize (Mz_visited s) = packetSize s"
  "pPacketParm (Mz_visited s) = Mz_visited_parm s (loopIndex s)"
  "pMatchList (Mz_visited s) = pMatchList s" "pCBLists (Mz_visited s) = pCBLists s"
  "pPacketParmList (Mz_visited s) = (pPacketParmList s)[loopIndex s :=
     Mz_visited_slot s (Mz_timeout_callback s (loopIndex s) \<noteq> None) (pPacketParmList s ! loopIndex s)]"
  by (simp_all add: Mz_visited_def Let_def)

lemma Mz_visited_slot_ok: "Mz_slot_ok s sl \<Longrightarrow> Mz_slot_ok s (Mz_visited_slot s c sl)"
  by (auto simp: Mz_visited_slot_def Mz_slot_ok_def Mz_ClearPkgParm_def)

lemma Mz_visited_ok:
  assumes ok: "Mz_cmd_ok input s" and i: "loopIndex s < packetListSize s"
  shows "Mz_cmd_ok input (Mz_visited s)" and "input q (world (Mz_visited s)) = input q (world s)"
proof -
  let ?sl = "pPacketParmList s ! loopIndex s"
  have sl: "Mz_slot_ok s ?sl" by (rule Mz_cmd_okD(8) [OF ok i])
  then show "input q (world (Mz_visited s)) = input q (world s)"
    using Mz_run_callback_input [OF ok] by (simp add: Mz_visited_def Mz_slot_ok_def Let_def)
  have "Mz_cmd_ok input (s\<lparr>pPacketList := pPacketList s, pPacketParmList := pPacketParmList (Mz_visited s),
      loopIndex := Suc (loopIndex s)\<rparr>)"
    unfolding Mz_visited_frame(13) using Mz_visited_slot_ok [OF sl] i by (intro Mz_cmd_ok_update [OF ok refl]) simp_all
  then show "Mz_cmd_ok input (Mz_visited s)"
    by (subst Mz_cmd_ok_cong [where s = "s\<lparr>pPacketList := pPacketList s,
        pPacketParmList := pPacketParmList (Mz_visited s), loopIndex := Suc (loopIndex s)\<rparr>"])
      (simp_all add: Mz_visited_frame)
qed

end
