(* ===== verification/MzApi.thy ===== *)
theory MzApi imports MzTable DobotApi begin

text \<open>
  \<open>DobotV3Func.c\<close> of \<open>Plugins/ProtocolFramePlugin/DobotV3.0\<close>: one frame with room for two links,
  one link, the general rule, a table of 100 commands of 512 bytes, and the calls of the Mooz
  plugin. The table keeps the contract of the decoder's functions, so that the background run
  returns whenever what is coming fits the buffer of the link.
\<close>

section \<open>The declarations\<close>

text \<open>\<open>GeneralRulesMatch\<close> also prints the two numbers when they differ.\<close>

definition Mz_GeneralRulesSort :: "bytes \<Rightarrow> nat \<Rightarrow> bool option" where
  "Mz_GeneralRulesSort p n = Some True"

definition Mz_GeneralRulesMatch :: "bytes \<Rightarrow> bytes \<Rightarrow> bool option" where
  "Mz_GeneralRulesMatch sent rcvd = do { a \<leftarrow> pk_cmdId sent; b \<leftarrow> pk_cmdId rcvd; Some (a = b) }"

definition Mz_GeneralRulesGetId :: "bytes \<Rightarrow> nat \<Rightarrow> u16 option" where
  "Mz_GeneralRulesGetId p n = map_option ucast (pk_cmdId p)"

definition Mz_general_rule :: Mz_MatchStruct where
  "Mz_general_rule = \<lparr>Sort = Mz_GeneralRulesSort, Match = Mz_GeneralRulesMatch, pCmdCB = Some 0, GetId = Mz_GeneralRulesGetId\<rparr>"

definition Mz_ProtocolFrame :: "'w \<Rightarrow> 'w Mz_Frame" where
  "Mz_ProtocolFrame w = Mz_FRAME_EXPORT Mz_PACKET_LENGTH 2 [Mz_LINK_EXPORT 500 Mz_PACKET_LENGTH None None] w"

definition Mz_DobotV3_start :: "'w \<Rightarrow> 'w Mz_CmdParm" where
  "Mz_DobotV3_start w = Mz_CmdInter_EXPORT (Mz_ProtocolFrame w) 100 512 1000 3 [Mz_general_rule] [Mz_CMDCB_LS_EXPORT 255]"

definition Mz_CmdInter_func :: "'w Mz_CmdParm Mz_FuncStruct" where
  "Mz_CmdInter_func = \<lparr>PacketCallBack = Some Mz_CmdPacketCallBack, Loop = Some Mz_CmdLoop\<rparr>"

definition Mz_DobotV3FuncList :: "'w Mz_CmdParm Mz_FuncStruct list" where
  "Mz_DobotV3FuncList = [Mz_CmdInter_func]"

definition Mz_env :: "'w Mz_CmdParm Mz_FuncList" where
  "Mz_env = \<lparr>formats = (\<lambda>_. Mz_Format), funcLists = (\<lambda>_. Mz_DobotV3FuncList)\<rparr>"

lemma Mz_env_simps [simp]:
  "formats Mz_env f = Mz_Format" "funcLists Mz_env f = [Mz_CmdInter_func]"
  by (simp_all add: Mz_env_def Mz_DobotV3FuncList_def)

section \<open>The calls\<close>

text \<open>The number of the only link.\<close>

abbreviation the_link :: nat where "the_link \<equiv> 0"

definition Mz_DobotV3_RegisterLink :: "(bytes \<Rightarrow> 'w \<Rightarrow> 'w) option \<Rightarrow> (nat \<Rightarrow> 'w \<Rightarrow> bytes \<times> 'w) option \<Rightarrow>
    ('w, 'z) Mz_Frame_scheme \<Rightarrow> ('w, 'z) Mz_Frame_scheme option" where
  "Mz_DobotV3_RegisterLink send rd s = Mz_upd_link (\<lambda>l. l\<lparr>readData := rd, SendData := send\<rparr>) the_link s"

definition Mz_DobotV3_RegisterGRCB :: "u16 \<Rightarrow> (Mz_CBParm \<Rightarrow> 'w \<Rightarrow> 'w) option \<Rightarrow> ('w, 'z) Mz_CmdParm_scheme \<Rightarrow>
    (bool \<times> ('w, 'z) Mz_CmdParm_scheme) option" where
  "Mz_DobotV3_RegisterGRCB ident cb s = Mz_RegisterCB 0 ident cb s"

text \<open>\<open>handle\<close> is the uninitialised local variable with its address.\<close>

definition Mz_DobotV3_SendCmd :: "Mz_Handle \<Rightarrow> bytes \<Rightarrow> u16 \<Rightarrow> ('w, 'z) Mz_CmdParm_scheme \<Rightarrow>
    (bool \<times> bytes \<times> ('w, 'z) Mz_CmdParm_scheme) option" where
  "Mz_DobotV3_SendCmd handle p payloadLen s =
     (case Mz_GetCmdSpace handle s of (st, handle, s) \<Rightarrow>
        if st = DobotV3CmdInter_NOSPACE then Some (False, p, s)
        else do {
          (_, p, s) \<leftarrow> Mz_SendData handle (Some the_link) p payloadLen s;
          Some (True, p, s) })"

definition Mz_DobotV3_SetSendParm :: "u8 \<Rightarrow> u32 \<Rightarrow> ('w, 'z) Mz_CmdParm_scheme \<Rightarrow> ('w, 'z) Mz_CmdParm_scheme" where
  "Mz_DobotV3_SetSendParm rn tmo s = Mz_SetSendParm rn tmo s"

definition Mz_DobotV3_Init :: "('w, 'z) Mz_Frame_scheme \<Rightarrow> ('w, 'z) Mz_Frame_scheme option" where
  "Mz_DobotV3_Init s = Mz_ConnectFLFF the_link the_format the_funcs s"

definition Mz_DobotV3_Exec :: "'w Mz_CmdParm \<Rightarrow> 'w Mz_CmdParm option" where
  "Mz_DobotV3_Exec s = Mz_Exec Mz_env s"

definition Mz_DobotV3_TimeCNT :: "u32 \<Rightarrow> ('w, 'z) Mz_Frame_scheme \<Rightarrow> ('w, 'z) Mz_Frame_scheme" where
  "Mz_DobotV3_TimeCNT ms s = Mz_TIMECNT ms s"

lemma Mz_rules_ok: "rules_ok [Mz_general_rule]"
  by (auto simp: rules_ok_def Mz_general_rule_def Mz_GeneralRulesSort_def Mz_GeneralRulesMatch_def
      Mz_GeneralRulesGetId_def mem_safe)

lemma Mz_start_simps [simp]:
  "pPacketParmList (Mz_DobotV3_start w) = replicate 100 Mz_empty_slot" "packetSize (Mz_DobotV3_start w) = 512"
  "length (pPacketList (Mz_DobotV3_start w)) = 51200" "pMatchList (Mz_DobotV3_start w) = [Mz_general_rule]"
  "pCBLists (Mz_DobotV3_start w) = [Mz_CMDCB_LS_EXPORT 255]" "loopIndex (Mz_DobotV3_start w) = 0"
  "links (Mz_DobotV3_start w) = [Mz_LINK_EXPORT 500 Mz_PACKET_LENGTH None None]"
  "pLinkList (Mz_DobotV3_start w) = [None, None]" "linkNum (Mz_DobotV3_start w) = 0"
  "length (pPacket (pPacketParm (Mz_DobotV3_start w))) = Mz_PACKET_LENGTH" "timeCNT (Mz_DobotV3_start w) = 0"
  "world (Mz_DobotV3_start w) = w"
  by (simp_all add: Mz_DobotV3_start_def Mz_ProtocolFrame_def Mz_FRAME_EXPORT_def numeral_2_eq_2)

lemma Mz_start_table: "Mz_cmd_ok input (Mz_DobotV3_start w)"
  using Mz_rules_ok
  by (simp add: Mz_cmd_ok_def Mz_callbacks_ok_def Mz_slot_ok_def Mz_empty_slot_def Mz_general_rule_def
      Mz_CMDCB_LS_EXPORT_def)

section \<open>The contract of the decoder\<close>

text \<open>
  The table satisfies its invariant and has \<open>n\<close> slots of \<open>k\<close> bytes; what it has still to send goes
  to links that can send.
\<close>

definition Mz_sendable :: "'w Mz_LinkParm list \<Rightarrow> nat option \<Rightarrow> bool" where
  "Mz_sendable ls lk \<longleftrightarrow> (\<forall>q. lk = Some q \<longrightarrow> q < length ls \<and> SendData (ls ! q) \<noteq> None)"

definition Mz_table_to :: "(nat \<Rightarrow> 'w \<Rightarrow> bytes) \<Rightarrow> (nat option \<Rightarrow> bool) \<times> nat \<times> nat \<Rightarrow> 'w Mz_CmdParm \<Rightarrow> bool" where
  "Mz_table_to input = (\<lambda>(X, n, k) s. Mz_cmd_ok input s \<and> packetListSize s = n \<and> packetSize s = k \<and>
     (\<forall>sl \<in> set (pPacketParmList s). slotSend sl \<longrightarrow> X (slotLink sl)))"

lemma Mz_slot_unsent [simp]: "\<not> slotSend (Mz_answered_slot c n sl)"
  by (simp add: Mz_answered_slot_def Mz_ClearPkgParm_def)

lemma Mz_cmd_calls:
  fixes s :: "'w Mz_CmdParm"
  assumes t: "Mz_table_to input x s" and o: "Mz_offered Mz_PACKET_LENGTH p pkt s"
  shows "\<exists>s'. Mz_FuncCallBack Mz_env s = Some s' \<and> Mz_table_to input x s' \<and> Mz_kept Mz_PACKET_LENGTH input s s'"
proof -
  obtain X n k where x: "x = (X, n, k)" by (cases x)
  have ok: "Mz_cmd_ok input s" using t by (simp add: Mz_table_to_def x)
  have "u8n (length pkt) \<le> 255" using u8n_less [of "length pkt"] by linarith
  then have pk: "Mz_packet_here s" using o by (simp add: Mz_packet_here_def Mz_offered_def)
  have call: "Mz_FuncCallBack Mz_env s =
     (case Mz_CmdPacketCallBack s of None \<Rightarrow> None
      | Some s' \<Rightarrow> if sendMark (pPacketParm s') then Mz_send Mz_env s' else Some s')"
    using o by (auto simp: Mz_FuncCallBack_def Mz_offered_def Mz_get_link_Some Mz_CmdInter_func_def
        split: option.split bind_splits)
  show ?thesis
  proof (cases "find (Mz_waits s) [0..<packetListSize s]")
    case None
    then show ?thesis
      using call Mz_PacketCallBack_eq [OF ok pk] o t by (simp add: Mz_offered_def Mz_kept_def Mz_same_def)
  next
    case (Some i)
    then have i: "i < packetListSize s" by (simp add: find_upt_Some)
    have "Mz_FuncCallBack Mz_env s = Some (Mz_answered i s)"
      using call Mz_PacketCallBack_eq [OF ok pk] Some o by (simp add: Mz_offered_def Mz_answered_frame)
    moreover have "Mz_kept Mz_PACKET_LENGTH input s (Mz_answered i s)"
      using o Mz_answered_ok(2) [OF ok pk i] by (simp add: Mz_kept_def Mz_same_def Mz_offered_def Mz_answered_frame)
    moreover have "Mz_table_to input x (Mz_answered i s)"
      using t Mz_answered_ok(1) [OF ok pk i]
      by (auto simp: x Mz_table_to_def Mz_answered_frame dest!: set_update_subset_insert [THEN subsetD])
    ultimately show ?thesis by blast
  qed
qed

interpretation mzcmd: mz_decoder "pStepList Mz_Format" Mz_SOF1 dv3_lower dv3_chk dv3_packet_len
  Mz_Format Mz_PACKET_LENGTH Mz_env "\<lambda>x s. Mz_table_to input x s" "\<lambda>p pkt x. x" input
  for input :: "nat \<Rightarrow> 'w \<Rightarrow> bytes"
proof
  show "pStepList Mz_Format = pStepList Mz_Format" "sof Mz_Format = Mz_SOF1" "255 \<le> Mz_PACKET_LENGTH" by simp_all
  show "Mz_table_to input x s \<Longrightarrow> Mz_table_to input x (s\<lparr>links := ls, pPacketParm := pp, world := w\<rparr>)"
    for x and s :: "'w Mz_CmdParm" and ls pp w
    by (cases x) (simp add: Mz_table_to_def Mz_cmd_ok_frame)
next
  fix f and pp :: Mz_PacketParm
  assume "ErrCodeRead Mz_Format = Some f"
  then show "\<exists>e. f pp = pp\<lparr>errCode := e\<rparr>" by (auto simp: Mz_ErrCodeRead_def)
qed (rule Mz_cmd_calls)

section \<open>Sending\<close>

text \<open>The slot that a command gets, and what it looks like when the call returns.\<close>

definition Mz_sent_slot :: "('w, 'z) Mz_CmdParm_scheme \<Rightarrow> Mz_Handle \<Rightarrow> nat \<Rightarrow> nat option \<Rightarrow> Mz_PcaketParm \<Rightarrow> Mz_PcaketParm" where
  "Mz_sent_slot s h n m sl =
     (let sl = sl\<lparr>userMark := True, slotHandle := Some (hAddr h), slotLink := Some the_link, slotLength := n,
                 repeatNum := defaultRepeatNum s, timeOut := defaultTimeOut s, timeStart := timeCNT s - defaultTimeOut s,
                 sendStatus := DobotV3CmdInter_SENDING, writeMark := True\<rparr>
      in (case m of None \<Rightarrow> sl\<lparr>ruleMark := False\<rparr> | Some k \<Rightarrow> sl\<lparr>ruleIndex := k, ruleMark := True\<rparr>)\<lparr>slotSend := True\<rparr>)"

text \<open>The bytes of a command: the encoder sets version and source in the caller's packet.\<close>

definition Mz_encoded :: "bytes \<Rightarrow> u8 \<Rightarrow> bytes" where
  "Mz_encoded p n = dv3_encoded (p[4 := Mz_Format_VERSION, 10 := Mz_Format_SRC]) n"

lemma Mz_encoder_Some:
  assumes "unat n + 17 \<le> length p"
  shows "\<exists>q. Mz_PacketEncoder p n = Some (q, unat n + 17) \<and> 15 \<le> length q \<and> take (unat n + 17) q = Mz_encoded p n"
  using Mz_encoder_spec [OF assms] PacketEncoder_Some [of n "p[4 := Mz_Format_VERSION, 10 := Mz_Format_SRC]"]
    dv3_encoded_length [of n "p[4 := Mz_Format_VERSION, 10 := Mz_Format_SRC]"] assms
  by (auto simp: Mz_encoded_def)

lemma Mz_encoded_length: "unat n + 17 \<le> length p \<Longrightarrow> length (Mz_encoded p n) = unat n + 17"
  using dv3_encoded_length [of n "p[4 := Mz_Format_VERSION, 10 := Mz_Format_SRC]"] by (simp add: Mz_encoded_def)

lemma Mz_SendCmd_full:
  "find_index (\<lambda>sl. \<not> userMark sl) (pPacketParmList s) = None \<Longrightarrow> Mz_DobotV3_SendCmd h p n s = Some (False, p, s)"
  by (simp add: Mz_DobotV3_SendCmd_def Mz_GetCmdSpace_def Let_def)

lemma Mz_SendCmd_spec:
  fixes n :: u16
  defines "k \<equiv> unat (ucast n :: u8) + 17"
  assumes free: "find_index (\<lambda>sl. \<not> userMark sl) (pPacketParmList s) = Some i" and ok: "Mz_cmd_ok input s"
    and p: "k \<le> length p" and fits: "k \<le> packetSize s"
  shows "\<exists>q m. find_rule (pMatchList s) q k 0 = Some m \<and> take k q = Mz_encoded p (ucast n) \<and> 15 \<le> length q \<and>
     Mz_DobotV3_SendCmd h p n s = Some (True, q, s
       \<lparr>pPacketList := take (Mz_GETPKGADDR s i) (pPacketList s) @ Mz_encoded p (ucast n) @ drop (Mz_GETPKGADDR s i + k) (pPacketList s),
        pPacketParmList := (pPacketParmList s)[i := Mz_sent_slot s h k m (pPacketParmList s ! i)]\<rparr>)"
proof -
  have i: "i < packetListSize s" using free by (simp add: find_index_Some)
  then have i8: "u8n i = i" using Mz_cmd_okD(5) [OF ok] by simp
  obtain q where q: "Mz_PacketEncoder p (ucast n) = Some (q, k)" "15 \<le> length q" "take k q = Mz_encoded p (ucast n)"
    using Mz_encoder_Some [of "ucast n" p] p unfolding k_def by blast
  obtain m where m: "find_rule (pMatchList s) q k 0 = Some m"
    using find_rule_total [OF Mz_cmd_okD(1) [OF ok] q(2)] by blast
  have len: "length (Mz_encoded p (ucast n)) = k" using Mz_encoded_length p unfolding k_def by blast
  have qk: "k \<le> length q" using len unfolding q(3) [symmetric] by simp
  have room: "i * packetSize s + k \<le> length (pPacketList s)"
    using Mz_slot_addr [OF ok i] fits by (simp add: Mz_GETPKGADDR_def)
  show ?thesis
  proof (intro exI conjI)
    show "Mz_DobotV3_SendCmd h p n s = Some (True, q, s
       \<lparr>pPacketList := take (Mz_GETPKGADDR s i) (pPacketList s) @ Mz_encoded p (ucast n) @ drop (Mz_GETPKGADDR s i + k) (pPacketList s),
        pPacketParmList := (pPacketParmList s)[i := Mz_sent_slot s h k m (pPacketParmList s ! i)]\<rparr>)"
      using free i i8 q(1,3) m len qk room fits
      by (cases m) (simp_all add: Mz_DobotV3_SendCmd_def Mz_GetCmdSpace_def Mz_SendData_def Mz_ISHANDLEERR_def
          Mz_WritePacket_def Mz_RuleSort_def Mz_get_slot_Some Mz_upd_slot_Some rd_range_Some wr_range_Some
          Mz_GETPKGADDR_def Mz_GetStartTime_def Mz_sent_slot_def Let_def)
  qed (use m q in blast)+
qed

end
