(* ===== verification/MzSystem.thy ===== *)
theory MzSystem imports MzApi begin

text \<open>
  The Mooz library as its plugin uses it: the loop of the frame around the command table, the
  background run, and the calls in any order as a step relation with its invariant.
\<close>

section \<open>The loop of the frame around the table\<close>

definition Mz_links_ok :: "('w, 'z) Mz_CmdParm_scheme \<Rightarrow> bool" where
  "Mz_links_ok s \<longleftrightarrow> (\<forall>sl \<in> set (pPacketParmList s). slotSend sl \<longrightarrow> Mz_sendable (links s) (slotLink sl))"

text \<open>What a run of the loop leaves alone.\<close>

definition Mz_loop_kept :: "('w, 'z) Mz_CmdParm_scheme \<Rightarrow> ('w, 'z) Mz_CmdParm_scheme \<Rightarrow> bool" where
  "Mz_loop_kept s s' \<longleftrightarrow> Mz_same Mz_PACKET_LENGTH s s' \<and> links s' = links s \<and> loopMark s' = loopMark s \<and>
     packetListSize s' = packetListSize s \<and> packetSize s' = packetSize s"

lemma Mz_loop_kept_trans: "Mz_loop_kept s t \<Longrightarrow> Mz_loop_kept t u \<Longrightarrow> Mz_loop_kept s u"
  by (auto simp: Mz_loop_kept_def intro: Mz_same_trans)

lemma Mz_visited_slot_sends:
  "slotSend (Mz_visited_slot s c sl) \<Longrightarrow> slotSend sl \<and> slotLink (Mz_visited_slot s c sl) = slotLink sl"
  by (auto simp: Mz_visited_slot_def Mz_ClearPkgParm_def split: if_splits)

lemma Mz_visited_links_ok:
  assumes "Mz_links_ok s" and "loopIndex s < packetListSize s"
  shows "Mz_links_ok (Mz_visited s)"
proof -
  have "slotSend (pPacketParmList s ! loopIndex s) \<longrightarrow> Mz_sendable (links s) (slotLink (pPacketParmList s ! loopIndex s))"
    using assms by (simp add: Mz_links_ok_def)
  then show ?thesis
    using assms(1) by (auto simp: Mz_links_ok_def Mz_visited_frame dest: Mz_visited_slot_sends
        dest!: set_update_subset_insert [THEN subsetD])
qed

text \<open>A visit, and the sending after it, in one round of the loop of the frame.\<close>

lemma Mz_send_Some:
  assumes "pLink (pPacketParm s) = Some q" "q < length (links s)" "SendData (links s ! q) = Some f"
    "errCode (pPacketParm s) = 0" "packetLength (pPacketParm s) \<le> length (pPacket (pPacketParm s))"
  shows "Mz_send E s = Some (s\<lparr>world := f (take (packetLength (pPacketParm s)) (pPacket (pPacketParm s))) (world s)\<rparr>)"
  using assms by (simp add: Mz_send_def Mz_get_link_Some rd_range_Some)

lemma Mz_visited_buffer:
  assumes ok: "Mz_cmd_ok input s" and i: "loopIndex s < packetListSize s"
    and buf: "length (pPacket (pPacketParm s)) = Mz_PACKET_LENGTH"
  shows "length (pPacket (Mz_visited_parm s (loopIndex s))) = Mz_PACKET_LENGTH"
    "Mz_sends s (loopIndex s) \<Longrightarrow> slotLength (pPacketParmList s ! loopIndex s) \<le> Mz_PACKET_LENGTH"
proof -
  let ?sl = "pPacketParmList s ! loopIndex s"
  have fit: "slotLength ?sl \<le> packetSize s" if "Mz_sends s (loopIndex s)"
    using that Mz_cmd_okD(8) [OF ok i] by (simp add: Mz_sends_def Mz_due_def Mz_slot_ok_def)
  then show "Mz_sends s (loopIndex s) \<Longrightarrow> slotLength ?sl \<le> Mz_PACKET_LENGTH" using Mz_cmd_okD(4) [OF ok] by simp
  show "length (pPacket (Mz_visited_parm s (loopIndex s))) = Mz_PACKET_LENGTH"
    using fit buf Mz_slot_addr [OF ok i] Mz_cmd_okD(4) [OF ok]
    by (cases "Mz_sends s (loopIndex s)") (auto simp: Mz_visited_parm_def Mz_slot_bytes_def Let_def)
qed

lemma Mz_send_round:
  assumes ok: "Mz_cmd_ok input s" and i: "loopIndex s < packetListSize s" and links: "Mz_links_ok s"
    and buf: "length (pPacket (pPacketParm s)) = Mz_PACKET_LENGTH" and parm: "\<not> sendMark (pPacketParm s)"
  shows "\<exists>w. (if pLink (pPacketParm (Mz_visited s)) \<noteq> None \<and> sendMark (pPacketParm (Mz_visited s))
          then Mz_send E (Mz_visited s) else Some (Mz_visited s)) = Some (Mz_visited s\<lparr>world := w\<rparr>)"
proof -
  let ?i = "loopIndex s"
  let ?sl = "pPacketParmList s ! ?i"
  note b = Mz_visited_buffer [OF ok i buf]
  show ?thesis
  proof (cases "Mz_sends s ?i \<and> slotLink ?sl \<noteq> None")
    case True
    then obtain q where q: "slotLink ?sl = Some q" by blast
    have "slotSend ?sl" "?sl \<in> set (pPacketParmList s)" using True i by (simp_all add: Mz_sends_def Mz_due_def)
    then have "Mz_sendable (links s) (Some q)" using links q unfolding Mz_links_ok_def by force
    then obtain f where f: "q < length (links s)" "SendData (links s ! q) = Some f" by (auto simp: Mz_sendable_def)
    have "Mz_send E (Mz_visited s) = Some (Mz_visited s\<lparr>world := f (take (packetLength (pPacketParm (Mz_visited s)))
        (pPacket (pPacketParm (Mz_visited s)))) (world (Mz_visited s))\<rparr>)"
      using True q f b by (intro Mz_send_Some) (simp_all add: Mz_visited_frame Mz_visited_parm_def Let_def)
    then show ?thesis using True q by (auto simp: Mz_visited_frame Mz_visited_parm_def Let_def)
  next
    case False
    then have "pLink (pPacketParm (Mz_visited s)) = None \<or> \<not> sendMark (pPacketParm (Mz_visited s))"
      using parm by (auto simp: Mz_visited_frame Mz_visited_parm_def Let_def)
    then show ?thesis by (intro exI [of _ "world (Mz_visited s)"]) auto
  qed
qed

lemma Mz_visited_slot_time: "timeCNT t = timeCNT s \<Longrightarrow> Mz_visited_slot t = Mz_visited_slot s"
  by (simp add: fun_eq_iff Mz_visited_slot_def Mz_due_def Mz_IsTimeOut_def)

text \<open>The loop ends, having visited every slot from the index on.\<close>

lemma Mz_run_loop_cmd:
  assumes "Mz_cmd_ok input s" and "Mz_links_ok s" and "length (pPacket (pPacketParm s)) = Mz_PACKET_LENGTH"
  shows "\<exists>s'. Mz_run_loop E Mz_CmdLoop s = Some s' \<and> Mz_cmd_ok input s' \<and> Mz_links_ok s' \<and> loopIndex s' = 0 \<and>
     Mz_loop_kept s s' \<and>
     (\<forall>i < packetListSize s. \<exists>c. pPacketParmList s' ! i =
        (if loopIndex s \<le> i then Mz_visited_slot s c (pPacketParmList s ! i) else pPacketParmList s ! i))"
  using assms
proof (induction "packetListSize s - loopIndex s" arbitrary: s)
  case 0
  then have e: "loopIndex s = packetListSize s" using Mz_cmd_okD(7) [OF 0(2)] by simp
  obtain pp where fill: "Mz_PacketParmFill None None 0 s = Some (s\<lparr>pPacketParm := pp\<rparr>)"
     "pPacket pp = pPacket (pPacketParm s)" "pLink pp = None"
    by (simp add: Mz_PacketParmFill_def Let_def)
  let ?s' = "s\<lparr>loopIndex := 0, pPacketParm := pp\<lparr>exitCallPack := True\<rparr>\<rparr>"
  have "Mz_run_loop E Mz_CmdLoop s = Some ?s'"
    using fill e by (subst Mz_run_loop.simps) (simp add: Mz_Loop_exit)
  moreover have "Mz_cmd_ok input ?s'"
  proof -
    have "Mz_cmd_ok input ?s' = Mz_cmd_ok input (s\<lparr>pPacketList := pPacketList s,
        pPacketParmList := (pPacketParmList s)[0 := pPacketParmList s ! 0], loopIndex := 0\<rparr>)"
      by (rule Mz_cmd_ok_cong) simp_all
    then show ?thesis
      using Mz_cmd_okD(8) [OF 0(2)] Mz_cmd_ok_update [OF 0(2) refl, of 0 0 "pPacketParmList s ! 0"] by simp
  qed
  ultimately show ?case
    using 0 fill e by (intro exI [of _ ?s']) (simp add: Mz_loop_kept_def Mz_same_def Mz_links_ok_def)
next
  case (Suc n)
  then have i: "loopIndex s < packetListSize s" by simp
  obtain pp where fill: "Mz_PacketParmFill None None 0 s = Some (s\<lparr>pPacketParm := pp\<rparr>)"
     "pPacket pp = pPacket (pPacketParm s)" "\<not> sendMark pp" "\<not> exitCallPack pp"
    by (simp add: Mz_PacketParmFill_def Let_def)
  let ?s1 = "s\<lparr>pPacketParm := pp\<rparr>"
  have s1: "Mz_cmd_ok input ?s1" "loopIndex ?s1 < packetListSize ?s1" "Mz_links_ok ?s1"
    "length (pPacket (pPacketParm ?s1)) = Mz_PACKET_LENGTH" "\<not> sendMark (pPacketParm ?s1)"
    using Suc.prems i fill by (simp_all add: Mz_cmd_ok_frame Mz_links_ok_def)
  obtain w where w: "(if pLink (pPacketParm (Mz_visited ?s1)) \<noteq> None \<and> sendMark (pPacketParm (Mz_visited ?s1))
          then Mz_send E (Mz_visited ?s1) else Some (Mz_visited ?s1)) = Some (Mz_visited ?s1\<lparr>world := w\<rparr>)"
    using Mz_send_round [OF s1, of E] by blast
  let ?s2 = "Mz_visited ?s1\<lparr>world := w\<rparr>"
  note lp = Mz_Loop_eq [OF s1(1,2,4)] and b = Mz_visited_buffer(1) [OF s1(1,2,4)]
  have "exitCallPack (pPacketParm ?s2) = False" using fill(4) by (simp add: Mz_visited_frame Mz_visited_parm_def Let_def)
  then have step: "Mz_run_loop E Mz_CmdLoop s = Mz_run_loop E Mz_CmdLoop ?s2"
    using fill(1) lp w by (subst Mz_run_loop.simps) simp
  have p2: "Mz_cmd_ok input ?s2" using Mz_visited_ok [OF s1(1,2)] by (simp add: Mz_cmd_ok_frame)
  have l2: "Mz_links_ok ?s2" using Mz_visited_links_ok [OF s1(3,2)] by (simp add: Mz_links_ok_def)
  have n: "n = packetListSize ?s2 - loopIndex ?s2" using Suc.hyps(2) by (simp add: Mz_visited_frame)
  have b2: "length (pPacket (pPacketParm ?s2)) = Mz_PACKET_LENGTH" using b by (simp add: Mz_visited_frame)
  from Suc.hyps(1) [OF n p2 l2 b2] obtain s' where s': "Mz_run_loop E Mz_CmdLoop ?s2 = Some s'"
     "Mz_cmd_ok input s'" "Mz_links_ok s'" "loopIndex s' = 0" "Mz_loop_kept ?s2 s'"
     "\<forall>i < packetListSize ?s2. \<exists>c. pPacketParmList s' ! i =
        (if loopIndex ?s2 \<le> i then Mz_visited_slot ?s2 c (pPacketParmList ?s2 ! i) else pPacketParmList ?s2 ! i)"
    by (elim exE conjE) (rule that; assumption)
  have l: "packetListSize ?s2 = packetListSize s" "loopIndex ?s2 = Suc (loopIndex s)"
    "Mz_visited_slot ?s2 = Mz_visited_slot s"
    by (auto simp: Mz_visited_frame intro!: Mz_visited_slot_time)
  obtain d where d: "pPacketParmList ?s2 = (pPacketParmList s)[loopIndex s := Mz_visited_slot s d (pPacketParmList s ! loopIndex s)]"
    using Mz_visited_slot_time [of ?s1 s] by (auto simp: Mz_visited_frame)
  have "Mz_loop_kept s ?s2" using b by (simp add: Mz_loop_kept_def Mz_same_def Mz_visited_frame)
  then have kept: "Mz_loop_kept s s'" using s'(5) by (rule Mz_loop_kept_trans)
  have "\<exists>c. pPacketParmList s' ! i =
      (if loopIndex s \<le> i then Mz_visited_slot s c (pPacketParmList s ! i) else pPacketParmList s ! i)"
    if "i < packetListSize s" for i
    using s'(6) [rule_format, unfolded l d length_list_update, OF that] i by (cases "i = loopIndex s") auto
  then show ?case using s'(1,2,3,4) step kept by simp
qed

section \<open>The background run\<close>

text \<open>The registry as far as the loops need it.\<close>

definition Mz_registry_ok :: "('w, 'z) Mz_Frame_scheme \<Rightarrow> bool" where
  "Mz_registry_ok s \<longleftrightarrow> linkNum s \<le> linkMaxNum s \<and> (\<forall>k < linkNum s. \<exists>p. pLinkList s ! k = Some p \<and>
     p < length (links s) \<and> pFuncList (links s ! p) \<noteq> None)"

lemma Mz_registry_ok_cong:
  "pLinkList t = pLinkList s \<Longrightarrow> linkNum t = linkNum s \<Longrightarrow> links t = links s \<Longrightarrow> Mz_registry_ok t = Mz_registry_ok s"
  by (simp only: Mz_registry_ok_def)

lemma Mz_registry_okE:
  assumes "Mz_registry_ok s" and "k < linkNum s"
  obtains p fl where "pLinkList s ! k = Some p" "p < length (links s)" "pFuncList (links s ! p) = Some fl" "k < linkMaxNum s"
  using assms by (fastforce simp: Mz_registry_ok_def)

lemma Mz_FuncMarkClear_ok:
  assumes r: "Mz_registry_ok s"
  shows "\<exists>m. Mz_FuncMarkClear s = Some (s\<lparr>loopMark := m\<rparr>)"
proof -
  let ?I = "\<lambda>t. \<exists>m. t = s\<lparr>loopMark := m\<rparr>"
  have "\<exists>s'. Mz_FuncMarkClear s = Some s' \<and> ?I s'"
    unfolding Mz_FuncMarkClear_def
  proof (rule foldM_inv)
    have "s = s\<lparr>loopMark := loopMark s\<rparr>" by simp
    then show "?I s" by blast
    fix k t assume "k \<in> set [0..<linkNum s]" and "?I t"
    then obtain m where k: "k < linkNum s" and t: "t = s\<lparr>loopMark := m\<rparr>" by auto
    obtain p fl where p: "pLinkList s ! k = Some p" "p < length (links s)" "pFuncList (links s ! p) = Some fl" "k < linkMaxNum s"
      by (rule Mz_registry_okE [OF r k])
    then show "\<exists>s'. (if linkMaxNum t \<le> k then None else do {
       p \<leftarrow> pLinkList t ! k;
       l \<leftarrow> Mz_get_link p t;
       fl \<leftarrow> pFuncList l;
       Some (t\<lparr>loopMark := (loopMark t)(fl := (\<lambda>_. False))\<rparr>) }) = Some s' \<and> ?I s'"
      using t by (auto simp: Mz_get_link_Some)
  qed
  then show ?thesis by blast
qed

text \<open>What the loops of the functions keep.\<close>

definition Mz_ran :: "(nat \<Rightarrow> 'w \<Rightarrow> bytes) \<Rightarrow> 'w Mz_CmdParm \<Rightarrow> 'w Mz_CmdParm \<Rightarrow> bool" where
  "Mz_ran input s s' \<longleftrightarrow> Mz_cmd_ok input s' \<and> Mz_links_ok s' \<and> Mz_same Mz_PACKET_LENGTH s s' \<and> links s' = links s \<and>
     packetListSize s' = packetListSize s \<and> packetSize s' = packetSize s"

lemma Mz_ran_mark: "Mz_ran input s (t\<lparr>loopMark := m\<rparr>) = Mz_ran input s t"
  by (simp add: Mz_ran_def Mz_cmd_ok_frame Mz_links_ok_def Mz_same_def)

lemma Mz_FuncLoop_ok:
  fixes s :: "'w Mz_CmdParm"
  assumes ok: "Mz_cmd_ok input s" "Mz_links_ok s" and r: "Mz_registry_ok s"
    and buf: "length (pPacket (pPacketParm s)) = Mz_PACKET_LENGTH"
  shows "\<exists>s'. Mz_FuncLoop Mz_env s = Some s' \<and> Mz_ran input s s'"
proof -
  obtain m where m: "Mz_FuncMarkClear s = Some (s\<lparr>loopMark := m\<rparr>)" using Mz_FuncMarkClear_ok [OF r] by blast
  let ?s1 = "s\<lparr>loopMark := m\<rparr>" and ?I = "Mz_ran input s"
  have I1: "?I ?s1" unfolding Mz_ran_mark using ok buf by (simp add: Mz_ran_def Mz_same_def)
  have run: "\<exists>t'. Mz_run_loop Mz_env Mz_CmdLoop t = Some t' \<and> ?I t'" if t: "?I t" for t
  proof -
    have b: "length (pPacket (pPacketParm t)) = Mz_PACKET_LENGTH" using t by (simp add: Mz_ran_def Mz_same_def)
    have ok: "Mz_cmd_ok input t" "Mz_links_ok t" using t by (simp_all add: Mz_ran_def)
    obtain t' where t': "Mz_run_loop Mz_env Mz_CmdLoop t = Some t'" "Mz_cmd_ok input t'" "Mz_links_ok t'" "Mz_loop_kept t t'"
      using Mz_run_loop_cmd [OF ok b, of Mz_env] by blast
    then have "?I t'"
      using t Mz_same_trans [of Mz_PACKET_LENGTH s t t'] by (simp add: Mz_ran_def Mz_loop_kept_def)
    then show ?thesis using t' by blast
  qed
  have "\<exists>s'. foldM (\<lambda>cir1 s.
       if linkMaxNum s \<le> cir1 then None else do {
         p \<leftarrow> pLinkList s ! cir1;
         l \<leftarrow> Mz_get_link p s;
         fl \<leftarrow> pFuncList l;
         foldM (\<lambda>cir2 s.
           if loopMark s fl cir2 then Some s
           else (case Loop (funcLists Mz_env fl ! cir2) of
               None \<Rightarrow> Some (Mz_mark_loop fl cir2 s)
             | Some g \<Rightarrow> do { s \<leftarrow> Mz_run_loop Mz_env g s; Some (Mz_mark_loop fl cir2 s) }))
           [0..<length (funcLists Mz_env fl)] s })
     [0..<linkNum ?s1] ?s1 = Some s' \<and> ?I s'"
  proof (rule foldM_inv)
    show "?I ?s1" by (rule I1)
    fix k t assume "k \<in> set [0..<linkNum ?s1]" and t: "?I t"
    then have "k < linkNum t" and "Mz_registry_ok t"
      using r Mz_registry_ok_cong [of t s] by (simp_all add: Mz_ran_def Mz_same_def)
    then obtain p fl where p: "pLinkList t ! k = Some p" "p < length (links t)" "pFuncList (links t ! p) = Some fl"
        "k < linkMaxNum t" by (blast elim: Mz_registry_okE)
    obtain t' where t': "Mz_run_loop Mz_env Mz_CmdLoop t = Some t'" "?I t'" using run [OF t] by blast
    then have "?I (Mz_mark_loop fl 0 t')" by (simp add: Mz_mark_loop_def Mz_ran_mark)
    then show "\<exists>s'. (if linkMaxNum t \<le> k then None else do {
         p \<leftarrow> pLinkList t ! k;
         l \<leftarrow> Mz_get_link p t;
         fl \<leftarrow> pFuncList l;
         foldM (\<lambda>cir2 s.
           if loopMark s fl cir2 then Some s
           else (case Loop (funcLists Mz_env fl ! cir2) of
               None \<Rightarrow> Some (Mz_mark_loop fl cir2 s)
             | Some g \<Rightarrow> do { s \<leftarrow> Mz_run_loop Mz_env g s; Some (Mz_mark_loop fl cir2 s) }))
           [0..<length (funcLists Mz_env fl)] t }) = Some s' \<and> ?I s'"
      using p t t' by (simp add: Mz_get_link_Some Mz_CmdInter_func_def)
  qed
  then show ?thesis using m by (simp add: Mz_FuncLoop_def)
qed

abbreviation Mz_ready :: "(nat \<Rightarrow> 'w \<Rightarrow> bytes) \<Rightarrow> 'w Mz_CmdParm \<Rightarrow> bool" where
  "Mz_ready input \<equiv> mzcmd.mz_ready input Mz_PACKET_LENGTH"

text \<open>The invariant of the whole: table, links to send on, registry, and the links the decoder reads.\<close>

definition Mz_system_ok :: "(nat \<Rightarrow> 'w \<Rightarrow> bytes) \<Rightarrow> 'w Mz_CmdParm \<Rightarrow> bool" where
  "Mz_system_ok input s \<longleftrightarrow> Mz_cmd_ok input s \<and> Mz_links_ok s \<and> Mz_ready input s"

lemma Mz_ready_registry:
  assumes "Mz_ready input s"
  shows "Mz_registry_ok s"
  unfolding Mz_registry_ok_def
proof (intro conjI allI impI)
  show "linkNum s \<le> linkMaxNum s" using assms by (simp add: mzcmd.mz_ready_def)
  fix k assume k: "k < linkNum s"
  then obtain p where p: "pLinkList s ! k = Some p" "k < linkMaxNum s" using assms by (auto simp: mzcmd.mz_ready_def)
  then have "Mz_registered s p" using k by (force simp: Mz_registered_def in_set_conv_nth)
  note d = mzcmd.mz_readyD [OF assms this]
  then show "\<exists>p. pLinkList s ! k = Some p \<and> p < length (links s) \<and> pFuncList (links s ! p) \<noteq> None"
    using p by (simp add: link_ready_def)
qed

lemma Mz_sendable_conf:
  assumes "map link_conf ls' = map link_conf ls"
  shows "Mz_sendable ls' = Mz_sendable ls" and "length ls' = length ls"
proof -
  show l: "length ls' = length ls" using assms by (rule map_eq_imp_length_eq)
  have c: "SendData (ls' ! q) = SendData (ls ! q)" if "q < length ls" for q
  proof (rule link_confD(4))
    show "link_conf (ls' ! q) = link_conf (ls ! q)"
      using arg_cong [OF assms, of "\<lambda>xs. xs ! q"] that l by simp
  qed
  show "Mz_sendable ls' = Mz_sendable ls"
  proof
    show "Mz_sendable ls' lk = Mz_sendable ls lk" for lk unfolding Mz_sendable_def l using c by metis
  qed
qed

lemma Mz_Exec_ok:
  fixes s :: "'w Mz_CmdParm"
  assumes ok: "Mz_system_ok input s"
    and fit: "\<And>p. Mz_registered s p \<Longrightarrow> mz_fits (Mz_pending (links s ! p) @ input p (world s))"
  shows "\<exists>s'. Mz_Exec Mz_env s = Some s' \<and> Mz_system_ok input s' \<and> Mz_same Mz_PACKET_LENGTH s s' \<and>
     map link_conf (links s') = map link_conf (links s) \<and> packetListSize s' = packetListSize s \<and> packetSize s' = packetSize s"
proof -
  have i: "Mz_cmd_ok input s" "Mz_links_ok s" "Mz_ready input s" using ok by (simp_all add: Mz_system_ok_def)
  let ?X = "(Mz_sendable (links s), packetListSize s, packetSize s)"
  have t: "Mz_table_to input ?X s" using i by (simp add: Mz_table_to_def Mz_links_ok_def)
  have low: "(0 :: nat) < Mz_PACKET_LENGTH" "dv3_lower (length (pStepList Mz_Format) - 1) \<le> Mz_PACKET_LENGTH"
    by (simp_all add: dv3_lower_def)
  have fits: "\<forall>p. Mz_registered s p \<longrightarrow> Mz_fits (length (pStepList Mz_Format)) dv3_lower dv3_chk dv3_packet_len Mz_SOF1
      Mz_PACKET_LENGTH (Mz_pending (links s ! p) @ input p (world s))" using fit by simp
  obtain s1 evs where s1: "Mz_DeLinkDecode Mz_env s = Some s1" "Mz_ready input s1"
      "Mz_table_to input (fold (\<lambda>(p :: nat, pkt :: bytes) x. x) evs ?X) s1"
      "Mz_same Mz_PACKET_LENGTH s s1" "map link_conf (links s1) = map link_conf (links s)"
    using mzcmd.DeLinkDecode_ready [OF i(3) t low fits] by (elim exE conjE) (rule that; assumption)
  have "Mz_table_to input ?X s1" using s1(3) by (simp add: fold_keep)
  then have t1: "Mz_cmd_ok input s1" "Mz_links_ok s1" "packetListSize s1 = packetListSize s" "packetSize s1 = packetSize s"
    using Mz_sendable_conf(1) [OF s1(5)] by (simp_all add: Mz_table_to_def Mz_links_ok_def)
  have buf: "length (pPacket (pPacketParm s1)) = Mz_PACKET_LENGTH" using s1(4) by (simp add: Mz_same_def)
  obtain s2 where s2: "Mz_FuncLoop Mz_env s1 = Some s2" "Mz_ran input s1 s2"
    using Mz_FuncLoop_ok [OF t1(1,2) Mz_ready_registry [OF s1(2)] buf] by blast
  have same: "Mz_same Mz_PACKET_LENGTH s1 s2" "links s2 = links s1" using s2(2) by (simp_all add: Mz_ran_def)
  then have "Mz_ready input s2"
    using s1(2) unfolding mzcmd.mz_ready_def Mz_same_def Mz_registered_def by simp
  then show ?thesis
    using s1 s2 t1 Mz_same_trans [OF s1(4) same(1)]
    by (intro exI [of _ s2]) (simp add: Mz_Exec_def Mz_system_ok_def Mz_ran_def)
qed

section \<open>The calls in any order\<close>

text \<open>
  What a program does with the library, as for the newer version. The conditions are on the caller
  and on the device: the link is read by a function that keeps the contract of the decoder, no
  background run before there is one, no command before there is a send function, a packet in a
  buffer that holds it, and no header on the line that announces more than 510 bytes of payload.
  \<open>Outside\<close> is everything else that happens in the environment: input that arrives, too.
\<close>

inductive mooz_step :: "(nat \<Rightarrow> 'w \<Rightarrow> bytes) \<Rightarrow> 'w Mz_CmdParm \<Rightarrow> 'w Mz_CmdParm \<Rightarrow> bool" for input where
  Tick: "mooz_step input s (Mz_DobotV3_TimeCNT d s)"
| Outside: "mooz_step input s (s\<lparr>world := w\<rparr>)"
| Run: "Mz_DobotV3_Exec s = Some s' \<Longrightarrow> linkNum s = 0 \<or> readData (links s ! the_link) \<noteq> None \<Longrightarrow>
    mz_fits (Mz_pending (links s ! the_link) @ input the_link (world s)) \<Longrightarrow> mooz_step input s s'"
| Register: "Mz_DobotV3_RegisterLink (Some send) (Some rd) s = Some s' \<Longrightarrow> reads_input input the_link rd \<Longrightarrow>
    mooz_step input s s'"
| Init: "Mz_DobotV3_Init s = Some s' \<Longrightarrow> mooz_step input s s'"
| Send: "Mz_DobotV3_SendCmd h p n s = Some (ret, q, s') \<Longrightarrow> SendData (links s ! the_link) \<noteq> None \<Longrightarrow>
    unat (ucast n :: u8) + 17 \<le> length p \<Longrightarrow> mooz_step input s s'"
| SetParm: "mooz_step input s (Mz_DobotV3_SetSendParm rn tmo s)"
| Callback: "Mz_DobotV3_RegisterGRCB ident cb s = Some (ret, s') \<Longrightarrow>
    (\<forall>f p w q. cb = Some f \<longrightarrow> input q (f p w) = input q w) \<Longrightarrow> mooz_step input s s'"

inductive mooz_reachable :: "(nat \<Rightarrow> 'w \<Rightarrow> bytes) \<Rightarrow> 'w Mz_CmdParm \<Rightarrow> bool" for input where
  Start: "mooz_reachable input (Mz_DobotV3_start w)"
| Step: "mooz_reachable input s \<Longrightarrow> mooz_step input s s' \<Longrightarrow> mooz_reachable input s'"

text \<open>The invariant: the table, the one link, and the registry before or after \<open>DobotV3_Init\<close>.\<close>

definition mooz_link_ok :: "(nat \<Rightarrow> 'w \<Rightarrow> bytes) \<Rightarrow> 'w Mz_LinkParm \<Rightarrow> bool" where
  "mooz_link_ok input l \<longleftrightarrow> mz_idle l \<and> (\<forall>rd. readData l = Some rd \<longrightarrow> reads_input input the_link rd)"

definition mooz_registry :: "'w Mz_CmdParm \<Rightarrow> bool" where
  "mooz_registry s \<longleftrightarrow> (pLinkList s = [None, None] \<and> linkNum s = 0) \<or>
     (pLinkList s = [Some the_link, None] \<and> linkNum s = 1 \<and>
      pFormat (links s ! the_link) = Some the_format \<and> pFuncList (links s ! the_link) = Some the_funcs)"

definition mooz_ok :: "(nat \<Rightarrow> 'w \<Rightarrow> bytes) \<Rightarrow> 'w Mz_CmdParm \<Rightarrow> bool" where
  "mooz_ok input s \<longleftrightarrow> Mz_cmd_ok input s \<and> Mz_links_ok s \<and> packetListSize s = 100 \<and> packetSize s = 512 \<and>
     length (pPacket (pPacketParm s)) = Mz_PACKET_LENGTH \<and> length (links s) = 1 \<and>
     mooz_link_ok input (links s ! the_link) \<and> mooz_registry s"

text \<open>Steps that change neither the registry nor the links.\<close>

lemma mooz_ok_table:
  assumes ok: "mooz_ok input s" and t: "Mz_cmd_ok input t" "Mz_links_ok t"
    and same: "links t = links s" "pLinkList t = pLinkList s" "linkNum t = linkNum s" "pPacketParm t = pPacketParm s"
      "packetListSize t = packetListSize s" "packetSize t = packetSize s"
  shows "mooz_ok input t"
  using ok t unfolding mooz_ok_def mooz_registry_def same by blast

lemma mz_idle_fresh:
  assumes "mz_idle l"
  shows "mz_idle (Mz_MSGCLEAR (Mz_STEPCLEAR l))"
  using assms by (simp add: Mz_idle_inv_def Mz_link_macros)

lemma mooz_start: "mooz_ok input (Mz_DobotV3_start w)"
proof -
  have "mz_idle (Mz_LINK_EXPORT 500 Mz_PACKET_LENGTH None None)"
    by (simp add: Mz_idle_inv_def Mz_LINK_EXPORT_def)
  then show ?thesis
    using Mz_start_table [of input w]
    by (simp add: mooz_ok_def mooz_link_ok_def mooz_registry_def Mz_links_ok_def Mz_empty_slot_def)
      (simp add: Mz_LINK_EXPORT_def)
qed

lemma mooz_system_ok:
  assumes ok: "mooz_ok input s" and rd: "linkNum s = 0 \<or> readData (links s ! the_link) \<noteq> None"
  shows "Mz_system_ok input s" and "Mz_registered s p \<Longrightarrow> p = the_link \<and> linkNum s = 1"
proof -
  note d = ok [unfolded mooz_ok_def mooz_registry_def mooz_link_ok_def]
  show reg: "p = the_link \<and> linkNum s = 1" if "Mz_registered s p" for p using that d by (auto simp: Mz_registered_def)
  have "Mz_ready input s"
    unfolding mzcmd.mz_ready_def
  proof (intro conjI allI impI)
    show "length (pPacket (pPacketParm s)) = Mz_PACKET_LENGTH" "linkNum s \<le> linkMaxNum s" using d by auto
    show "pLinkList s ! i \<noteq> None" if "i < linkNum s" for i using d that by auto
    fix p assume "Mz_registered s p"
    from reg [OF this] have p: "p = the_link" "linkNum s = 1" by simp_all
    show "p < length (links s)" using p d by simp
    show "Mz_idle_inv (length (pStepList Mz_Format)) dv3_lower dv3_chk dv3_packet_len Mz_SOF1 Mz_PACKET_LENGTH (links s ! p)"
      using p d by simp
    show "link_ready input p (links s ! p)" using p d rd by (auto simp: link_ready_def)
    show "case pFormat (links s ! p) of None \<Rightarrow> False | Some fid \<Rightarrow> formats Mz_env fid = Mz_Format" using p d by auto
  qed
  then show "Mz_system_ok input s" using d by (simp add: Mz_system_ok_def)
qed

lemma Mz_Exec_empty: "linkNum s = 0 \<Longrightarrow> Mz_Exec E s = Some s"
  by (simp add: Mz_Exec_def Mz_DeLinkDecode_def Mz_FuncLoop_def Mz_FuncMarkClear_def)

lemma mooz_run:
  assumes ok: "mooz_ok input s" and rd: "linkNum s = 0 \<or> readData (links s ! the_link) \<noteq> None"
    and fit: "mz_fits (Mz_pending (links s ! the_link) @ input the_link (world s))"
  shows "\<exists>s'. Mz_DobotV3_Exec s = Some s' \<and> mooz_ok input s'"
proof (cases "linkNum s = 0")
  case True
  then show ?thesis using ok Mz_Exec_empty [OF True] by (simp add: Mz_DobotV3_Exec_def)
next
  case False
  note d = ok [unfolded mooz_ok_def mooz_registry_def mooz_link_ok_def]
  have "mz_fits (Mz_pending (links s ! p) @ input p (world s))" if "Mz_registered s p" for p
    using fit mooz_system_ok(2) [OF ok rd that] by simp
  then obtain s' where s': "Mz_Exec Mz_env s = Some s'" "Mz_system_ok input s'" "Mz_same Mz_PACKET_LENGTH s s'"
      "map link_conf (links s') = map link_conf (links s)" "packetListSize s' = packetListSize s" "packetSize s' = packetSize s"
    using Mz_Exec_ok [OF mooz_system_ok(1) [OF ok rd]] by blast
  have len: "length (links s') = 1" using Mz_sendable_conf(2) [OF s'(4)] d by simp
  then have conf: "link_conf (links s' ! the_link) = link_conf (links s ! the_link)"
    using arg_cong [OF s'(4), of "\<lambda>xs. xs ! the_link"] d by simp
  have ln: "linkNum s' = 1" "pLinkList s' = [Some the_link, None]" using s'(3) d False by (auto simp: Mz_same_def)
  then have "Mz_registered s' the_link" by (simp add: Mz_registered_def)
  moreover have "Mz_ready input s'" using s'(2) by (simp add: Mz_system_ok_def)
  ultimately have "mz_idle (links s' ! the_link)" using mzcmd.mz_readyD(2) [of input Mz_PACKET_LENGTH s' the_link] by simp
  then have "mooz_ok input s'"
    using s'(2,3,5,6) d len ln False link_confD(3,6,7) [OF conf]
    by (auto simp: mooz_ok_def mooz_registry_def mooz_link_ok_def Mz_system_ok_def Mz_same_def)
  then show ?thesis using s'(1) by (simp add: Mz_DobotV3_Exec_def)
qed

lemma mooz_tick: "mooz_ok input s \<Longrightarrow> mooz_ok input (Mz_DobotV3_TimeCNT d s)"
proof (rule mooz_ok_table)
  assume ok: "mooz_ok input s"
  then show "Mz_cmd_ok input (Mz_DobotV3_TimeCNT d s)"
    by (subst Mz_cmd_ok_cong [where s = s]) (simp_all add: Mz_DobotV3_TimeCNT_def Mz_TIMECNT_def mooz_ok_def)
  show "Mz_links_ok (Mz_DobotV3_TimeCNT d s)"
    using ok by (simp add: Mz_DobotV3_TimeCNT_def Mz_TIMECNT_def mooz_ok_def Mz_links_ok_def)
qed (simp_all add: Mz_DobotV3_TimeCNT_def Mz_TIMECNT_def)

lemma mooz_parm: "mooz_ok input s \<Longrightarrow> mooz_ok input (Mz_DobotV3_SetSendParm rn tmo s)"
proof (rule mooz_ok_table)
  assume ok: "mooz_ok input s"
  then show "Mz_cmd_ok input (Mz_DobotV3_SetSendParm rn tmo s)"
    by (subst Mz_cmd_ok_cong [where s = s]) (simp_all add: Mz_DobotV3_SetSendParm_def Mz_SetSendParm_def mooz_ok_def)
  show "Mz_links_ok (Mz_DobotV3_SetSendParm rn tmo s)"
    using ok by (simp add: Mz_DobotV3_SetSendParm_def Mz_SetSendParm_def mooz_ok_def Mz_links_ok_def)
qed (simp_all add: Mz_DobotV3_SetSendParm_def Mz_SetSendParm_def)

lemma mooz_outside: "mooz_ok input s \<Longrightarrow> mooz_ok input (s\<lparr>world := w\<rparr>)"
  by (rule mooz_ok_table [where s = s]) (simp_all add: mooz_ok_def Mz_cmd_ok_frame Mz_links_ok_def)

lemma Mz_RegisterCB_result:
  assumes "Mz_RegisterCB l ident cb s = Some (r, s')"
  shows "s' = s \<or> (\<exists>k. l < length (pCBLists s) \<and> s' = s\<lparr>pCBLists := (pCBLists s)[l := (pCBLists s ! l)[k := (ident, cb)]]\<rparr>)"
  using assms by (auto simp: Mz_RegisterCB_def Let_def split: if_splits option.splits)

lemma callback_entered:
  assumes "cbs \<in> set (cbss[l := (cbss ! l)[k := (ident, cb)]])" and "l < length cbss" and "(i, Some f) \<in> set cbs"
  shows "cb = Some f \<or> (\<exists>cbs' \<in> set cbss. (i, Some f) \<in> set cbs')"
proof -
  have "cbs \<in> set cbss \<or> cbs = (cbss ! l)[k := (ident, cb)]"
    using assms(1) by (auto dest: set_update_subset_insert [THEN subsetD])
  moreover have "cb = Some f \<or> (i, Some f) \<in> set (cbss ! l)" if "cbs = (cbss ! l)[k := (ident, cb)]"
    using assms(3) that by (auto dest: set_update_subset_insert [THEN subsetD])
  ultimately show ?thesis using assms(2,3) nth_mem [of l cbss] by metis
qed

lemma mooz_callback:
  assumes ok: "mooz_ok input s" and r: "Mz_DobotV3_RegisterGRCB ident cb s = Some (ret, s')"
    and cb: "\<forall>f p w q. cb = Some f \<longrightarrow> input q (f p w) = input q w"
  shows "mooz_ok input s'"
proof -
  consider "s' = s" | k where "0 < length (pCBLists s)"
      "s' = s\<lparr>pCBLists := (pCBLists s)[0 := (pCBLists s ! 0)[k := (ident, cb)]]\<rparr>"
    using Mz_RegisterCB_result [OF r [unfolded Mz_DobotV3_RegisterGRCB_def]] by blast
  then show ?thesis
  proof cases
    case 1
    then show ?thesis using ok by simp
  next
    case 2
    have c: "Mz_cmd_ok input s" using ok by (simp add: mooz_ok_def)
    have "\<forall>p w q. input q (f p w) = input q w" if "cbs \<in> set (pCBLists s')" "(i, Some f) \<in> set cbs" for cbs i f
    proof -
      have "cbs \<in> set ((pCBLists s)[0 := (pCBLists s ! 0)[k := (ident, cb)]])" using that(1) 2(2) by simp
      from callback_entered [OF this 2(1) that(2)] show ?thesis
        using cb Mz_cmd_okD(2) [OF c] unfolding Mz_callbacks_ok_def by blast
    qed
    then have "Mz_callbacks_ok input s'"
      using Mz_cmd_okD(2) [OF c] 2(2) unfolding Mz_callbacks_ok_def by simp
    then have "Mz_cmd_ok input s'" using c unfolding Mz_cmd_ok_def by (simp add: 2(2) Mz_slot_ok_def)
    moreover have "Mz_links_ok s'" using ok 2(2) by (simp add: mooz_ok_def Mz_links_ok_def)
    ultimately show ?thesis using 2(2) by (intro mooz_ok_table [OF ok]) simp_all
  qed
qed

lemma find_rule_bound:
  assumes "rules_ok rs" "15 \<le> length q" "find_rule rs q n 0 = Some (Some k)"
  shows "k < length rs"
  using find_rule_total [OF assms(1,2), of n 0] assms(3) by auto

lemma mooz_send:
  assumes ok: "mooz_ok input s" and send: "Mz_DobotV3_SendCmd h p n s = Some (ret, q, s')"
    and l: "SendData (links s ! the_link) \<noteq> None" and p: "unat (ucast n :: u8) + 17 \<le> length p"
  shows "mooz_ok input s'"
proof (cases "find_index (\<lambda>sl. \<not> userMark sl) (pPacketParmList s)")
  case None
  then show ?thesis using Mz_SendCmd_full [OF None, of h p n] send ok by simp
next
  case (Some i)
  let ?k = "unat (ucast n :: u8) + 17" and ?a = "Mz_GETPKGADDR s i"
  have c: "Mz_cmd_ok input s" "packetSize s = 512" using ok by (simp_all add: mooz_ok_def)
  have fits: "?k \<le> packetSize s" using unat_u8_less [of "ucast n"] c(2) by linarith
  have i: "i < packetListSize s" using Some by (simp add: find_index_Some)
  obtain q' m where m: "find_rule (pMatchList s) q' ?k 0 = Some m" "15 \<le> length q'"
     "Mz_DobotV3_SendCmd h p n s = Some (True, q', s
       \<lparr>pPacketList := take ?a (pPacketList s) @ Mz_encoded p (ucast n) @ drop (?a + ?k) (pPacketList s),
        pPacketParmList := (pPacketParmList s)[i := Mz_sent_slot s h ?k m (pPacketParmList s ! i)]\<rparr>)"
    using Mz_SendCmd_spec [OF Some c(1) p fits, of h] by blast
  let ?m = "take ?a (pPacketList s) @ Mz_encoded p (ucast n) @ drop (?a + ?k) (pPacketList s)"
  let ?sl = "Mz_sent_slot s h ?k m (pPacketParmList s ! i)"
  have s': "s' = s\<lparr>pPacketList := ?m, pPacketParmList := (pPacketParmList s)[i := ?sl]\<rparr>" using m(3) send by simp
  have "length ?m = length (pPacketList s)"
    using Mz_slot_addr [OF c(1) i] fits Mz_encoded_length [OF p] by simp
  moreover have "Mz_slot_ok s ?sl"
    using Mz_cmd_okD(8) [OF c(1) i] fits find_rule_bound [OF Mz_cmd_okD(1) [OF c(1)] m(2)] m(1)
    by (auto simp: Mz_slot_ok_def Mz_sent_slot_def Let_def split: option.split)
  ultimately have "Mz_cmd_ok input s'"
    using Mz_cmd_ok_update [OF c(1) _ Mz_cmd_okD(7) [OF c(1)], of ?m i ?sl] unfolding s' by simp
  moreover have "Mz_sendable (links s) (slotLink ?sl)"
    using l ok by (auto simp: Mz_sendable_def Mz_sent_slot_def mooz_ok_def Let_def split: option.split)
  then have "Mz_links_ok s'"
    using ok unfolding s' mooz_ok_def Mz_links_ok_def by (auto dest!: set_update_subset_insert [THEN subsetD])
  ultimately show ?thesis using s' by (intro mooz_ok_table [OF ok]) simp_all
qed

text \<open>Steps that change the link: the table stays as it is.\<close>

lemma mooz_ok_link:
  assumes ok: "mooz_ok input s" and t: "t = s\<lparr>links := [l], pLinkList := pl, linkNum := k\<rparr>"
    and l: "mooz_link_ok input l" "mooz_registry t" and send: "SendData l = None \<longrightarrow> SendData (links s ! the_link) = None"
  shows "mooz_ok input t"
proof -
  have "Mz_cmd_ok input t = Mz_cmd_ok input s" by (rule Mz_cmd_ok_cong) (simp_all add: t)
  moreover have "Mz_sendable (links s) lk \<Longrightarrow> Mz_sendable [l] lk" for lk
    using ok send by (auto simp: Mz_sendable_def mooz_ok_def)
  then have "Mz_links_ok t" using ok by (simp add: t mooz_ok_def Mz_links_ok_def)
  ultimately show ?thesis using ok l by (simp add: mooz_ok_def t)
qed

lemma mooz_links: "mooz_ok input s \<Longrightarrow> links s = [links s ! the_link]"
  by (auto simp: mooz_ok_def length_Suc_conv)

lemma mooz_register:
  assumes ok: "mooz_ok input s" and r: "Mz_DobotV3_RegisterLink (Some send) (Some rd) s = Some s'"
    and rd: "reads_input input the_link rd"
  shows "mooz_ok input s'"
proof -
  let ?l = "(links s ! the_link)\<lparr>readData := Some rd, SendData := Some send\<rparr>"
  have "(links s)[the_link := ?l] = [?l]" by (subst mooz_links [OF ok]) simp
  then have "s' = s\<lparr>links := [?l]\<rparr>"
    using r ok by (simp add: Mz_DobotV3_RegisterLink_def Mz_upd_link_Some mooz_ok_def)
  then have s': "s' = s\<lparr>links := [?l], pLinkList := pLinkList s, linkNum := linkNum s\<rparr>" by simp
  show ?thesis
    by (rule mooz_ok_link [OF ok s'])
      (use ok rd in \<open>auto simp: s' mooz_ok_def mooz_link_ok_def mooz_registry_def Mz_idle_inv_def Mz_parse_inv_def\<close>)
qed

lemma mooz_init:
  assumes ok: "mooz_ok input s" and r: "Mz_DobotV3_Init s = Some s'"
  shows "mooz_ok input s'"
proof -
  let ?l = "(Mz_MSGCLEAR (Mz_STEPCLEAR (links s ! the_link)))\<lparr>pFormat := Some the_format, pFuncList := Some the_funcs\<rparr>"
  have u: "(links s)[the_link := l] = [l]" for l by (subst mooz_links [OF ok]) simp
  have "pLinkList s = [None, None] \<and> linkNum s = 0 \<or> pLinkList s = [Some the_link, None] \<and> linkNum s = 1"
    using ok by (auto simp: mooz_ok_def mooz_registry_def)
  then have s': "s' = s\<lparr>links := [?l], pLinkList := [Some the_link, None], linkNum := 1\<rparr>"
    using r ok u
    by (elim disjE; intro Mz_CmdParm.equality) (auto simp: Mz_DobotV3_Init_def Mz_ConnectFLFF_def Mz_RegisterLink_def
        Mz_GetLinkInFrame_def Mz_GetNullLinkInFrame_def mooz_ok_def Mz_upd_link_Some)
  show ?thesis
    by (rule mooz_ok_link [OF ok s'])
      (use ok in \<open>auto simp: s' mooz_ok_def mooz_link_ok_def mooz_registry_def Mz_idle_inv_def Mz_link_macros\<close>)
qed

lemma mooz_reachable_ok: "mooz_reachable input s \<Longrightarrow> mooz_ok input s"
proof (induction rule: mooz_reachable.induct)
  case (Start w)
  show ?case by (rule mooz_start)
next
  case (Step s s')
  from Step(2) show ?case
  proof cases
    case Run
    then show ?thesis using mooz_run [OF Step(3)] by auto
  next
    case (Register send rd)
    then show ?thesis by (rule mooz_register [OF Step(3)])
  next
    case (Send h p n ret q)
    then show ?thesis by (rule mooz_send [OF Step(3)])
  next
    case (Callback ident cb ret)
    then show ?thesis by (rule mooz_callback [OF Step(3)])
  qed (simp_all only: mooz_tick [OF Step(3)] mooz_outside [OF Step(3)] mooz_parm [OF Step(3)] mooz_init [OF Step(3)])
qed

end
