(* ===== verification/MzProps.thy ===== *)
theory MzProps imports MzSystem begin

text \<open>What the older library promises, from the command table to the whole.\<close>

section \<open>Answers\<close>

text \<open>
  The older \<open>PacketCallBack\<close>: on a table that satisfies its invariant, and a packet parameter
  as the frame makes it, it is defined and keeps the invariant. If no slot waits for the packet
  nothing happens. Otherwise the first waiting slot is released, the frame stops offering the
  packet, and no other slot and no other slot's memory changes, however long the answer is. If the
  slot has a callback for the packet, it runs, once.
\<close>
theorem Mz_PacketCallBack_correct:
  assumes ok: "Mz_cmd_ok input s" and pk: "packetLength (pPacketParm s) \<le> 255" "length (pPacket (pPacketParm s)) = Mz_PACKET_LENGTH"
  shows "\<exists>s'. Mz_CmdPacketCallBack s = Some s' \<and> Mz_cmd_ok input s' \<and>
     ((\<forall>i < packetListSize s. \<not> Mz_waits s i) \<longrightarrow> s' = s) \<and>
     (\<forall>i < packetListSize s. Mz_waits s i \<and> (\<forall>j < i. \<not> Mz_waits s j) \<longrightarrow>
        exitCallPack (pPacketParm s') \<and> \<not> userMark (pPacketParmList s' ! i) \<and> \<not> slotSend (pPacketParmList s' ! i) \<and>
        (\<forall>j < packetListSize s. j \<noteq> i \<longrightarrow> pPacketParmList s' ! j = pPacketParmList s ! j \<and> Mz_slot_bytes s' j = Mz_slot_bytes s j) \<and>
        world s' = (case Mz_slot_callback (pPacketParmList s ! i) (Mz_answer_parm s) s of
                      None \<Rightarrow> world s | Some f \<Rightarrow> f (Mz_answer_parm s) (world s)))"
proof (cases "find (Mz_waits s) [0..<packetListSize s]")
  case None
  then have "\<forall>i < packetListSize s. \<not> Mz_waits s i" by (simp only: find_upt_None)
  then show ?thesis
    using Mz_PacketCallBack_eq [OF ok] None ok pk by (auto simp: Mz_packet_here_def)
next
  case (Some i)
  then have i: "i < packetListSize s" "Mz_waits s i" "\<forall>j < i. \<not> Mz_waits s j" by (simp_all add: find_upt_Some)
  have here: "Mz_packet_here s" using pk by (simp add: Mz_packet_here_def)
  have one: "k = i" if "Mz_waits s k" "\<forall>j < k. \<not> Mz_waits s j" for k using that i by (meson nat_neq_iff)
  have n: "packetLength (pPacketParm s) \<le> packetSize s" using Mz_cmd_okD(3) [OF ok] pk by simp
  have mem: "Mz_slot_bytes (Mz_answered i s) j = Mz_slot_bytes s j" if j: "j \<noteq> i" for j
  proof (cases "Mz_answer_callback s i")
    case None
    let ?d = "take (packetLength (pPacketParm s)) (pPacket (pPacketParm s))" and ?a = "i * packetSize s"
    have a: "?a + length ?d \<le> length (pPacketList s)"
      using Mz_slot_addr [OF ok i(1)] n by (simp add: Mz_GETPKGADDR_def)
    then have "wr_range (pPacketList s) ?a ?d = Some (pPacketList (Mz_answered i s))"
      using None pk by (simp add: wr_range_Some Mz_answered_def Mz_GETPKGADDR_def Let_def min_absorb2)
    moreover have "?a + length ?d \<le> j * packetSize s \<or> j * packetSize s + packetSize s \<le> ?a"
    proof (cases "i < j")
      case True
      then show ?thesis using slot_end [of i j "packetSize s"] n by auto
    next
      case False
      then show ?thesis using slot_end [of j i "packetSize s"] j by auto
    qed
    ultimately show ?thesis
      unfolding Mz_slot_bytes_def Mz_GETPKGADDR_def Mz_answered_frame by (rule take_drop_write_other)
  qed (simp add: Mz_slot_bytes_def Mz_GETPKGADDR_def Mz_answered_def Let_def)
  have slot: "\<not> userMark (Mz_answered_slot c k sl)" for c k sl by (simp add: Mz_answered_slot_def Mz_ClearPkgParm_def)
  show ?thesis
    unfolding Mz_PacketCallBack_eq [OF ok here] Some option.case
  proof (intro exI [of _ "Mz_answered i s"] conjI allI impI refl)
    show "Mz_cmd_ok input (Mz_answered i s)" by (rule Mz_answered_ok(1) [OF ok here i(1)])
    show "Mz_answered i s = s" if "\<forall>i < packetListSize s. \<not> Mz_waits s i" using that i by blast
    fix k assume k: "k < packetListSize s" "Mz_waits s k \<and> (\<forall>j < k. \<not> Mz_waits s j)"
    then have [simp]: "k = i" using one by blast
    show "exitCallPack (pPacketParm (Mz_answered i s))" by (simp add: Mz_answered_frame)
    show "\<not> userMark (pPacketParmList (Mz_answered i s) ! k)" "\<not> slotSend (pPacketParmList (Mz_answered i s) ! k)"
      using i(1) slot by (simp_all add: Mz_answered_frame)
    show "pPacketParmList (Mz_answered i s) ! j = pPacketParmList s ! j"
      "Mz_slot_bytes (Mz_answered i s) j = Mz_slot_bytes s j" if "j \<noteq> k" for j
      using that mem by (simp_all add: Mz_answered_frame)
    show "world (Mz_answered i s) = (case Mz_answer_callback s k of None \<Rightarrow> world s
        | Some f \<Rightarrow> f (Mz_answer_parm s) (world s))"
      by (simp add: Mz_answered_frame run_callback_def)
  qed
qed

text \<open>A table of two slots with the general rule, whose second slot waits for an answer.\<close>

definition Mz_waiting_slot :: Mz_PcaketParm where
  "Mz_waiting_slot = Mz_empty_slot\<lparr>userMark := True, writeMark := True, ruleMark := True, slotSend := True,
     sendStatus := DobotV3CmdInter_SENDING, slotLink := Some the_link, slotLength := 17, repeatNum := 3, timeOut := 1000\<rparr>"

definition Mz_waiting_table :: "nat Mz_CmdParm" where
  "Mz_waiting_table = (Mz_CmdInter_EXPORT (Mz_FRAME_EXPORT Mz_PACKET_LENGTH 2
       [Mz_LINK_EXPORT 500 Mz_PACKET_LENGTH None (Some (\<lambda>d w. w))] 0) 2 512 1000 3 [Mz_general_rule] [[(0, Some (\<lambda>p w. w + 1))]])
     \<lparr>pPacketParmList := [Mz_empty_slot, Mz_waiting_slot],
      pPacketParm := \<lparr>pLink = Some the_link, pPacket = replicate Mz_PACKET_LENGTH 0, packetLength = 17, errCode = 0,
        sendMark = False, exitCallPack = False\<rparr>\<rparr>"

lemma Mz_waiting_simps [simp]:
  "pPacketParmList Mz_waiting_table = [Mz_empty_slot, Mz_waiting_slot]" "packetSize Mz_waiting_table = 512"
  "pPacketList Mz_waiting_table = replicate 1024 0" "pMatchList Mz_waiting_table = [Mz_general_rule]"
  "pCBLists Mz_waiting_table = [[(0, Some (\<lambda>p w. w + 1))]]" "loopIndex Mz_waiting_table = 0"
  "world Mz_waiting_table = 0" "timeCNT Mz_waiting_table = 0"
  "pPacketParm Mz_waiting_table = \<lparr>pLink = Some the_link, pPacket = replicate Mz_PACKET_LENGTH 0, packetLength = 17,
     errCode = 0, sendMark = False, exitCallPack = False\<rparr>"
  "links Mz_waiting_table = [Mz_LINK_EXPORT 500 Mz_PACKET_LENGTH None (Some (\<lambda>d w. w))]"
  by (simp_all add: Mz_waiting_table_def) (simp_all add: Mz_FRAME_EXPORT_def)

lemma Mz_waiting_ok: "Mz_cmd_ok (\<lambda>_ _. []) Mz_waiting_table" "Mz_links_ok Mz_waiting_table"
  using Mz_rules_ok
  by (simp_all add: Mz_cmd_ok_def Mz_callbacks_ok_def Mz_slot_ok_def Mz_empty_slot_def Mz_waiting_slot_def
      Mz_general_rule_def Mz_links_ok_def Mz_sendable_def Mz_LINK_EXPORT_def)

theorem Mz_PacketCallBack_correct_witness:
  "\<exists>s'. Mz_CmdPacketCallBack Mz_waiting_table = Some s' \<and> \<not> userMark (pPacketParmList s' ! 1) \<and> world s' = 1"
proof -
  have w: "Mz_waits Mz_waiting_table 1" "\<not> Mz_waits Mz_waiting_table 0"
    by (simp_all add: Mz_waits_def Mz_waiting_slot_def Mz_empty_slot_def Mz_general_rule_def Mz_GeneralRulesMatch_def mem_safe
        Mz_GETPKGADDR_def)
  have c: "Mz_answer_callback Mz_waiting_table 1 = Some (\<lambda>p w. w + 1)"
    by (simp add: Mz_slot_callback_def Mz_waiting_slot_def Mz_empty_slot_def Mz_general_rule_def Mz_GeneralRulesGetId_def
        Mz_answer_parm_def cb_parm_of_def find_callback_def mem_safe nth_append Let_def)
  obtain s' where s': "Mz_CmdPacketCallBack Mz_waiting_table = Some s'"
    "\<forall>i < packetListSize Mz_waiting_table. Mz_waits Mz_waiting_table i \<and> (\<forall>j < i. \<not> Mz_waits Mz_waiting_table j) \<longrightarrow>
        \<not> userMark (pPacketParmList s' ! i) \<and>
        world s' = (case Mz_answer_callback Mz_waiting_table i of None \<Rightarrow> world Mz_waiting_table
          | Some f \<Rightarrow> f (Mz_answer_parm Mz_waiting_table) (world Mz_waiting_table))"
    using Mz_PacketCallBack_correct [OF Mz_waiting_ok(1)] by fastforce
  show ?thesis using s'(1) s'(2) [rule_format, of 1] w c by (simp add: all_less_Suc0)
qed

section \<open>The state of a command\<close>

text \<open>
  \<open>GetSendAck\<close> of the older library never reports that an answer has come, nor that a command
  has been given up, in any state the library reaches: the slot is released in the same step. A
  handle is refused, or the command is still under way or has no rule; the caller's buffer is never
  written.
\<close>
theorem GetSendAck_never_answers:
  assumes "mooz_reachable input s" and "Mz_GetSendAck h pk s = Some (st, pk')"
  shows "st \<in> {DobotV3CmdInter_HANDLEERR, DobotV3CmdInter_NOWRITE, DobotV3CmdInter_MATCHLOST,
      DobotV3CmdInter_SENDREADY, DobotV3CmdInter_SENDING} \<and> pk' = pk"
proof -
  have c: "Mz_cmd_ok input s" using mooz_reachable_ok [OF assms(1)] by (simp add: mooz_ok_def)
  show ?thesis
  proof (cases "Mz_ISHANDLEERR h s = Some False")
    case True
    then obtain sl where sl: "Mz_get_slot (hIndex h) s = Some sl" "hIndex h < packetListSize s" "userMark sl"
      by (auto simp: Mz_ISHANDLEERR_def split: if_splits bind_splits)
    then have "Mz_slot_ok s sl" using Mz_cmd_okD(8) [OF c sl(2)] by (simp add: Mz_get_slot_def)
    then have "writeMark sl \<longrightarrow> sendStatus sl = DobotV3CmdInter_SENDREADY \<or> sendStatus sl = DobotV3CmdInter_SENDING"
      by (simp add: Mz_slot_ok_def)
    then show ?thesis using assms(2) True sl(1,3) by (auto simp: Mz_GetSendAck_def split: if_splits)
  next
    case False
    then show ?thesis using assms(2) by (cases "Mz_ISHANDLEERR h s") (auto simp: Mz_GetSendAck_def)
  qed
qed

theorem GetSendAck_never_answers_witness:
  "(case Mz_GetSendAck \<lparr>hAddr = 5, pParm = Some the_table, hIndex = 7, hUserMark = False\<rparr> None (Mz_DobotV3_start ()) of
      Some (st, pk) \<Rightarrow> st \<noteq> DobotV3CmdInter_SUCCESS | None \<Rightarrow> False)"
proof -
  let ?h = "\<lparr>hAddr = 5, pParm = Some the_table, hIndex = 7, hUserMark = False\<rparr>"
  have e: "Mz_GetSendAck ?h None (Mz_DobotV3_start ()) = Some (DobotV3CmdInter_HANDLEERR, None)"
    by (simp add: Mz_GetSendAck_def Mz_ISHANDLEERR_def Mz_get_slot_Some Mz_empty_slot_def)
  show ?thesis using GetSendAck_never_answers [OF mooz_reachable.Start [of "\<lambda>_ _. []"] e] e by auto
qed

section \<open>A command without an answer\<close>

text \<open>
  Rounds of \<open>FuncLoop\<close>'s loop for the table, \<open>d\<close> ticks of the time base before each, with no
  answer in between.
\<close>

primrec Mz_rounds :: "u32 \<Rightarrow> nat \<Rightarrow> 'w Mz_CmdParm \<Rightarrow> 'w Mz_CmdParm option" where
  "Mz_rounds d 0 s = Some s"
| "Mz_rounds d (Suc n) s = do { s \<leftarrow> Mz_rounds d n s; Mz_run_loop Mz_env Mz_CmdLoop (Mz_TIMECNT d s) }"

text \<open>What the rounds start from and keep.\<close>

definition Mz_round_ok :: "(nat \<Rightarrow> 'w \<Rightarrow> bytes) \<Rightarrow> 'w Mz_CmdParm \<Rightarrow> bool" where
  "Mz_round_ok input s \<longleftrightarrow> Mz_cmd_ok input s \<and> Mz_links_ok s \<and> loopIndex s = 0 \<and>
     length (pPacket (pPacketParm s)) = Mz_PACKET_LENGTH"

lemma Mz_round:
  assumes ok: "Mz_round_ok input s"
  shows "\<exists>s'. Mz_run_loop Mz_env Mz_CmdLoop (Mz_TIMECNT d s) = Some s' \<and> Mz_round_ok input s' \<and>
     timeCNT s' = timeCNT s + d \<and> packetListSize s' = packetListSize s \<and>
     (\<forall>i < packetListSize s. \<exists>c. pPacketParmList s' ! i = Mz_visited_slot (Mz_TIMECNT d s) c (pPacketParmList s ! i))"
proof -
  let ?t = "Mz_TIMECNT d s"
  have t: "timeCNT ?t = timeCNT s + d" "packetListSize ?t = packetListSize s" "pPacketParmList ?t = pPacketParmList s"
    "loopIndex ?t = 0" "length (pPacket (pPacketParm ?t)) = Mz_PACKET_LENGTH" "Mz_links_ok ?t"
    using ok by (simp_all add: Mz_TIMECNT_def Mz_round_ok_def Mz_links_ok_def)
  have c: "Mz_cmd_ok input ?t"
    using ok by (subst Mz_cmd_ok_cong [where s = s]) (simp_all add: Mz_TIMECNT_def Mz_round_ok_def)
  obtain s' where s': "Mz_run_loop Mz_env Mz_CmdLoop ?t = Some s'" "Mz_cmd_ok input s'" "Mz_links_ok s'" "loopIndex s' = 0"
     "Mz_loop_kept ?t s'" "\<forall>i < packetListSize ?t. \<exists>c. pPacketParmList s' ! i =
        (if loopIndex ?t \<le> i then Mz_visited_slot ?t c (pPacketParmList ?t ! i) else pPacketParmList ?t ! i)"
    using Mz_run_loop_cmd [OF c t(6,5), of Mz_env] by (elim exE conjE) (rule that; assumption)
  then show ?thesis
    using s'(6) [unfolded t] t(1) by (intro exI [of _ s']) (simp add: Mz_round_ok_def Mz_loop_kept_def Mz_same_def t(2))
qed

text \<open>A slot that was sent just now is due after more ticks than its timeout.\<close>

lemma Mz_visited_due:
  assumes "slotSend sl" "timeStart sl = timeCNT s" "timeOut sl < d"
  shows "Mz_visited_slot (Mz_TIMECNT d s) c sl =
     (if repeatNum sl = 0 then Mz_ClearPkgParm (if c then sl else sl\<lparr>slotSend := False, sendStatus := DobotV3CmdInter_TIMEOUT\<rparr>)
      else sl\<lparr>repeatNum := repeatNum sl - 1, timeStart := timeCNT s + d\<rparr>)"
  using assms by (simp add: Mz_visited_slot_def Mz_due_def Mz_IsTimeOut_def Mz_TIMECNT_def)

lemma Mz_unanswered_repeats:
  assumes ok: "Mz_round_ok input s" and i: "i < packetListSize s"
    and sl: "slotSend (pPacketParmList s ! i)" "timeStart (pPacketParmList s ! i) = timeCNT s"
      "timeOut (pPacketParmList s ! i) < d"
  shows "n \<le> unat (repeatNum (pPacketParmList s ! i)) \<Longrightarrow>
     \<exists>s'. Mz_rounds d n s = Some s' \<and> Mz_round_ok input s' \<and> packetListSize s' = packetListSize s \<and>
       pPacketParmList s' ! i = (pPacketParmList s ! i)
         \<lparr>repeatNum := repeatNum (pPacketParmList s ! i) - of_nat n, timeStart := timeCNT s'\<rparr>"
proof (induction n)
  case 0
  have "pPacketParmList s ! i = (pPacketParmList s ! i)\<lparr>timeStart := timeCNT s\<rparr>"
    by (rule Mz_PcaketParm.equality) (simp_all add: sl)
  then show ?case using ok by simp
next
  case (Suc n)
  let ?r = "repeatNum (pPacketParmList s ! i)"
  obtain t where t: "Mz_rounds d n s = Some t" "Mz_round_ok input t" "packetListSize t = packetListSize s"
     "pPacketParmList t ! i = (pPacketParmList s ! i)\<lparr>repeatNum := ?r - of_nat n, timeStart := timeCNT t\<rparr>"
    using Suc by auto
  obtain s' where s': "Mz_run_loop Mz_env Mz_CmdLoop (Mz_TIMECNT d t) = Some s'" "Mz_round_ok input s'"
     "timeCNT s' = timeCNT t + d" "packetListSize s' = packetListSize t"
     "\<exists>c. pPacketParmList s' ! i = Mz_visited_slot (Mz_TIMECNT d t) c (pPacketParmList t ! i)"
    using Mz_round [OF t(2), of d] i t(3) by auto
  have "?r - of_nat n \<noteq> 0"
  proof
    assume "?r - of_nat n = 0"
    then have "unat ?r = n mod 256" by (simp add: unat_of_nat)
    then show False using Suc.prems by (metis Suc_n_not_le_n le_trans mod_less_eq_dividend)
  qed
  then have "pPacketParmList s' ! i = (pPacketParmList s ! i)\<lparr>repeatNum := ?r - of_nat (Suc n), timeStart := timeCNT s'\<rparr>"
    using s'(3,5) sl Mz_visited_due [of "pPacketParmList t ! i" t d] unfolding t(4) by (simp add: algebra_simps)
  then show ?case using t s' by simp
qed

text \<open>
  A command of the older library that gets no answer: with \<open>r\<close> repeats left, and more ticks
  than its timeout between two rounds, it is still being sent after each of the first \<open>r\<close> rounds,
  with one repeat less per round, and the next round gives it up and releases its slot. All the
  rounds return.
\<close>
theorem mooz_command_given_up:
  assumes r_def: "r = unat (repeatNum (pPacketParmList s ! i))" and ok: "Mz_round_ok input s" and i: "i < packetListSize s"
    and sl: "slotSend (pPacketParmList s ! i)" "timeStart (pPacketParmList s ! i) = timeCNT s"
      "timeOut (pPacketParmList s ! i) < d"
  shows "(\<forall>n \<le> r. \<exists>s'. Mz_rounds d n s = Some s' \<and> slotSend (pPacketParmList s' ! i) \<and>
            unat (repeatNum (pPacketParmList s' ! i)) = r - n) \<and>
     (\<exists>s'. Mz_rounds d (Suc r) s = Some s' \<and> \<not> slotSend (pPacketParmList s' ! i) \<and> \<not> userMark (pPacketParmList s' ! i))"
proof (intro conjI allI impI)
  note rep = Mz_unanswered_repeats [OF ok i sl, folded r_def]
  fix n assume n: "n \<le> r"
  obtain s' where "Mz_rounds d n s = Some s'" "pPacketParmList s' ! i = (pPacketParmList s ! i)
         \<lparr>repeatNum := repeatNum (pPacketParmList s ! i) - of_nat n, timeStart := timeCNT s'\<rparr>"
    using rep [OF n] by blast
  moreover have "unat (repeatNum (pPacketParmList s ! i) - of_nat n) = r - n"
  proof -
    have "r < 256" unfolding r_def using unsigned_less [of "repeatNum (pPacketParmList s ! i)"] by simp
    then have u: "unat (of_nat n :: u8) = n" using n by (simp add: unat_of_nat)
    then have "(of_nat n :: u8) \<le> repeatNum (pPacketParmList s ! i)"
      using n by (simp add: word_le_nat_alt r_def)
    then show ?thesis by (subst unat_sub) (simp_all add: u r_def)
  qed
  ultimately show "\<exists>s'. Mz_rounds d n s = Some s' \<and> slotSend (pPacketParmList s' ! i) \<and>
            unat (repeatNum (pPacketParmList s' ! i)) = r - n" using sl by simp
next
  note rep = Mz_unanswered_repeats [OF ok i sl, folded r_def]
  obtain t where t: "Mz_rounds d r s = Some t" "Mz_round_ok input t" "packetListSize t = packetListSize s"
     "pPacketParmList t ! i = (pPacketParmList s ! i)\<lparr>repeatNum := 0, timeStart := timeCNT t\<rparr>"
    using rep [OF order_refl] by (auto simp: r_def)
  obtain s' where s': "Mz_run_loop Mz_env Mz_CmdLoop (Mz_TIMECNT d t) = Some s'"
     "\<exists>c. pPacketParmList s' ! i = Mz_visited_slot (Mz_TIMECNT d t) c (pPacketParmList t ! i)"
    using Mz_round [OF t(2), of d] i t(3) by auto
  then show "\<exists>s'. Mz_rounds d (Suc r) s = Some s' \<and> \<not> slotSend (pPacketParmList s' ! i) \<and> \<not> userMark (pPacketParmList s' ! i)"
    using t(1) sl Mz_visited_due [of "pPacketParmList t ! i" t d] unfolding t(4) by (auto simp: Mz_ClearPkgParm_def)
qed

theorem mooz_command_given_up_witness:
  "\<exists>s'. Mz_rounds 1001 (Suc 3) Mz_waiting_table = Some s' \<and> \<not> userMark (pPacketParmList s' ! 1)"
proof -
  have "Mz_round_ok (\<lambda>_ _. []) Mz_waiting_table" using Mz_waiting_ok by (simp add: Mz_round_ok_def)
  from mooz_command_given_up [OF refl this, of 1 1001] show ?thesis
    by (auto simp: Mz_waiting_slot_def Mz_empty_slot_def simp del: Mz_rounds.simps)
qed

section \<open>The whole\<close>

text \<open>
  C9. However the Mooz plugin uses the library within the conditions of \<open>mooz_step\<close>, whatever
  arrives and the callbacks do: as long as the link can be read and no header on the line announces
  more than 510 bytes, the next background run is defined. It returns, without touching memory
  outside its buffers or dereferencing NULL, and leads to a reachable state again.
\<close>
theorem mooz_exec_always_defined:
  assumes "mooz_reachable input s" and "linkNum s = 0 \<or> readData (links s ! the_link) \<noteq> None"
    and "mz_fits (Mz_pending (links s ! the_link) @ input the_link (world s))"
  shows "\<exists>s'. Mz_DobotV3_Exec s = Some s' \<and> mooz_reachable input s'"
proof -
  obtain s' where s': "Mz_DobotV3_Exec s = Some s'"
    using mooz_run [OF mooz_reachable_ok [OF assms(1)] assms(2,3)] by blast
  have "mooz_step input s s'" by (rule mooz_step.Run) (fact s' assms(2,3))+
  then show ?thesis using s' mooz_reachable.Step [OF assms(1)] by blast
qed

text \<open>A link registered and the library initialised, with nothing to read.\<close>

lemma mooz_initialised:
  "\<exists>s. Mz_DobotV3_RegisterLink (Some (\<lambda>d w. w)) (Some (\<lambda>n w. ([], w))) (Mz_DobotV3_start ()) = Some s \<and>
     (\<exists>s'. Mz_DobotV3_Init s = Some s' \<and> mooz_reachable (\<lambda>_ _. []) s' \<and> linkNum s' = 1 \<and>
        readData (links s' ! the_link) \<noteq> None \<and> Mz_pending (links s' ! the_link) = [])"
proof -
  let ?i = "\<lambda>(_ :: nat) (_ :: unit). [] :: bytes"
  let ?s = "Mz_DobotV3_start ()"
  let ?t = "?s\<lparr>links := [Mz_LINK_EXPORT 500 Mz_PACKET_LENGTH (Some (\<lambda>n w. ([], w))) (Some (\<lambda>d w. w))]\<rparr>"
  have r: "Mz_DobotV3_RegisterLink (Some (\<lambda>d w. w)) (Some (\<lambda>n w. ([], w))) ?s = Some ?t"
    by (simp add: Mz_DobotV3_RegisterLink_def Mz_upd_link_Some Mz_LINK_EXPORT_def)
  have "mooz_reachable ?i ?t"
    by (rule mooz_reachable.Step [OF mooz_reachable.Start mooz_step.Register [OF r]]) (simp add: reads_input_def)
  moreover obtain u where u: "Mz_DobotV3_Init ?t = Some u" "linkNum u = 1" "readData (links u ! the_link) \<noteq> None"
      "Mz_pending (links u ! the_link) = []"
    by (simp add: Mz_DobotV3_Init_def Mz_ConnectFLFF_def Mz_RegisterLink_def Mz_GetLinkInFrame_def
        Mz_GetNullLinkInFrame_def Mz_upd_link_Some Mz_link_macros Mz_LINK_EXPORT_def Mz_pending_def)
  ultimately have "mooz_reachable ?i u" using mooz_reachable.Step mooz_step.Init by blast
  then show ?thesis using r u by blast
qed

theorem mooz_exec_always_defined_witness:
  "\<exists>(s :: unit Mz_CmdParm) s'. linkNum s = 1 \<and> Mz_DobotV3_Exec s = Some s' \<and> mooz_reachable (\<lambda>_ _. []) s'"
proof -
  obtain s :: "unit Mz_CmdParm" where s: "mooz_reachable (\<lambda>_ _. []) s" "linkNum s = 1"
      "readData (links s ! the_link) \<noteq> None" "Mz_pending (links s ! the_link) = []"
    using mooz_initialised by blast
  from mooz_exec_always_defined [OF s(1)] s(2-4) mz_fits_short [of "[]"] show ?thesis by auto
qed

text \<open>
  The numbers the model keeps without bound stay within their C types in every reachable
  state: the 8-bit loop index, number of links, size of the table and parse step, the 16-bit
  lengths of a link and of a command to be sent, and the 32-bit write index. The lengths of a
  packet while it is parsed are even within the two bytes more than the buffer that its header may
  announce.
\<close>
theorem mooz_values_fit:
  assumes "mooz_reachable input s"
  shows "loopIndex s < 2 ^ 8 \<and> linkNum s < 2 ^ 8 \<and> packetListSize s < 2 ^ 8 \<and> packetSize s < 2 ^ 16 \<and>
     (\<forall>sl \<in> set (pPacketParmList s). ruleIndex sl < length (pMatchList s) \<and> (slotSend sl \<longrightarrow> slotLength sl < 2 ^ 16)) \<and>
     (\<forall>l \<in> set (links s). deStep l < 2 ^ 8 \<and> msgWriteIndex l < 2 ^ 32 \<and> deLenght l \<le> Mz_PACKET_LENGTH \<and>
        (sofMark l \<longrightarrow> deLenght l < deStepLength l \<and> deStepLength l \<le> Mz_PACKET_LENGTH + 2))"
proof -
  have ok: "mooz_ok input s" by (rule mooz_reachable_ok [OF assms])
  then have c: "Mz_cmd_ok input s" "packetListSize s = 100" "packetSize s = 512" "linkNum s \<le> 1"
    by (auto simp: mooz_ok_def mooz_registry_def)
  have slots: "\<forall>sl \<in> set (pPacketParmList s). Mz_slot_ok s sl" using c(1) by (simp add: Mz_cmd_ok_def)
  have link: "mz_idle (links s ! the_link)" using ok by (simp add: mooz_ok_def mooz_link_ok_def)
  have parse: "deStep l < 4 \<and> deLenght l < deStepLength l \<and> deStepLength l \<le> Mz_PACKET_LENGTH + 2"
    if "Mz_parse_inv 4 dv3_lower dv3_chk dv3_packet_len buf l" for buf and l :: "'a Mz_LinkParm"
  proof -
    have i: "deStep l < 4" "deLenght l < deStepLength l" "deStepLength l = step_len 4 dv3_lower dv3_packet_len (deStep l) buf"
      "\<forall>j < deStep l. dv3_chk j buf" using that by (simp_all add: Mz_parse_inv_def)
    have "step_len 4 dv3_lower dv3_packet_len (deStep l) buf \<le> Mz_PACKET_LENGTH + 2"
    proof (cases "Suc (deStep l) < 4")
      case True
      then show ?thesis by (simp add: step_len_def dv3_lower_def)
    next
      case False
      then have "dv3_chk 1 buf" using i(1,4) by simp
      then show ?thesis using False by (simp add: step_len_def dv3_packet_len_def dv3_chk_def)
    qed
    then show ?thesis using i(1-3) by simp
  qed
  have "deStep (links s ! the_link) < 2 ^ 8 \<and> msgWriteIndex (links s ! the_link) < 2 ^ 32 \<and>
      deLenght (links s ! the_link) \<le> Mz_PACKET_LENGTH \<and>
      (sofMark (links s ! the_link) \<longrightarrow> deLenght (links s ! the_link) < deStepLength (links s ! the_link) \<and>
        deStepLength (links s ! the_link) \<le> Mz_PACKET_LENGTH + 2)"
    using link parse [of "pDeMsgBuff (links s ! the_link)" "links s ! the_link"]
    by (auto simp: Mz_idle_inv_def split: if_splits)
  moreover have "set (links s) = {links s ! the_link}" using mooz_links [OF ok] by (metis list.simps(15) set_empty)
  moreover have "loopIndex s \<le> 100" using Mz_cmd_okD(7) [OF c(1)] c(2) by simp
  ultimately show ?thesis using c(2-4) slots by (auto simp: Mz_slot_ok_def)
qed

theorem mooz_values_fit_witness:
  "loopIndex (Mz_DobotV3_start ()) < 2 ^ 8 \<and> packetSize (Mz_DobotV3_start ()) < 2 ^ 16"
  using mooz_values_fit [OF mooz_reachable.Start [of "\<lambda>_ _. []" "()"]] by blast

end
