(* ===== verification/VdPacket.thy ===== *)
theory VdPacket imports DecodeSpec begin

text \<open>
  \<open>dcps.cpp\<close>, \<open>dcps.h\<close> of \<open>Plugins/MagicDevicePlugin/magicianlite_virtual\<close>, the software robot that
  DobotLink connects to over a virtual serial port: its packets and the parser of the bytes it
  receives. The parser is a state machine; it finds the packets of the abstract \<open>scan\<close> and drops
  those whose checksum is wrong.
\<close>

section \<open>Packets\<close>

text \<open>
  \<open>class Packet\<close>: the 256 bytes behind \<open>hdr_\<close>. The constructors leave \<open>msg_id\<close> indeterminate,
  the value \<^term>\<open>None\<close>, which must not be read. The fields of \<open>PacketHeader\<close> are those of the
  buffer: two preamble bytes, length, identifier, flags, data. A failing \<open>Assert\<close> ends the
  program, the value \<^term>\<open>None\<close>.
\<close>

abbreviation vd_MAX_PACKET_SIZE :: nat where "vd_MAX_PACKET_SIZE \<equiv> 256"
abbreviation vd_HEADER :: nat where "vd_HEADER \<equiv> 5"

record vd_packet =
  vd_buf :: bytes
  msg_id :: "u64 option"

definition vd_Packet_empty :: vd_packet where
  "vd_Packet_empty = \<lparr>vd_buf = replicate vd_MAX_PACKET_SIZE 0, msg_id = None\<rparr>"

definition vd_Packet_copy :: "bytes \<Rightarrow> vd_packet option" where
  "vd_Packet_copy buf = do { b \<leftarrow> rd_range buf 0 vd_MAX_PACKET_SIZE; Some \<lparr>vd_buf = b, msg_id = None\<rparr> }"

definition vd_hdr_length :: "vd_packet \<Rightarrow> nat" where
  "vd_hdr_length p = unat (vd_buf p ! 2)"

definition vd_getID :: "vd_packet \<Rightarrow> u8" where
  "vd_getID p = vd_buf p ! 3"

definition vd_isWrite :: "vd_packet \<Rightarrow> bool" where
  "vd_isWrite p = bit (vd_buf p ! 4) 0"

definition vd_isQueue :: "vd_packet \<Rightarrow> bool" where
  "vd_isQueue p = bit (vd_buf p ! 4) 1"

definition vd_length :: "vd_packet \<Rightarrow> nat" where
  "vd_length p = vd_hdr_length p + 4"

text \<open>\<open>init\<close> copies the header of the request; the data after it stay.\<close>

definition vd_init :: "vd_packet \<Rightarrow> vd_packet \<Rightarrow> vd_packet option" where
  "vd_init pkt p = do {
     h \<leftarrow> rd_range (vd_buf pkt) 0 vd_HEADER;
     b \<leftarrow> wr_range (vd_buf p) 0 h;
     b \<leftarrow> wr8 b 2 2;
     Some (p\<lparr>vd_buf := b\<rparr>) }"

definition vd_checkSum :: "bytes \<Rightarrow> nat \<Rightarrow> nat \<Rightarrow> u8 option" where
  "vd_checkSum buf at len = do { d \<leftarrow> rd_range buf at len; Some (- fold (\<lambda>c ret. ret + c) d 0) }"

definition vd_serialize :: "vd_packet \<Rightarrow> vd_packet option" where
  "vd_serialize p = do {
     let len = vd_hdr_length p;
     if \<not> (2 \<le> len \<and> len < vd_MAX_PACKET_SIZE - vd_HEADER) then None
     else do {
       c \<leftarrow> vd_checkSum (vd_buf p) 3 len;
       b \<leftarrow> wr8 (vd_buf p) (vd_HEADER + (len - 2)) c;
       Some (p\<lparr>vd_buf := b\<rparr>) } }"

definition vd_setPayload :: "bytes \<Rightarrow> vd_packet \<Rightarrow> vd_packet option" where
  "vd_setPayload buf p =
     (if \<not> (length buf < vd_MAX_PACKET_SIZE - vd_HEADER) then None
      else do {
        b \<leftarrow> wr_range (vd_buf p) vd_HEADER buf;
        b \<leftarrow> wr8 b 2 (word_of_nat (length buf + 2));
        Some (p\<lparr>vd_buf := b\<rparr>) })"

text \<open>\<open>payload()\<close> is a pointer to the data, up to the end of the buffer.\<close>

definition vd_payload :: "vd_packet \<Rightarrow> bytes" where
  "vd_payload p = drop vd_HEADER (vd_buf p)"

section \<open>The parser\<close>

datatype vd_State = Vd_EOF1 | Vd_EOF2 | Vd_LENGTH | Vd_REMAIN

record vd_parser =
  recv_state :: vd_State
  check_sum :: u8
  recv_index :: nat
  recv_buf :: bytes
  recv_expect_length :: nat

definition vd_parser_start :: vd_parser where
  "vd_parser_start = \<lparr>recv_state = Vd_EOF1, check_sum = 0, recv_index = 0,
     recv_buf = replicate vd_MAX_PACKET_SIZE 0, recv_expect_length = 0\<rparr>"

text \<open>\<open>parse\<close>: the flag says whether it emits \<open>recvPacket\<close> with the receive buffer.\<close>

definition vd_parse :: "u8 \<Rightarrow> 'z vd_parser_scheme \<Rightarrow> (bool \<times> 'z vd_parser_scheme) option" where
  "vd_parse dat s =
     (case recv_state s of
        Vd_EOF1 \<Rightarrow>
          if dat = 0xAA then do {
            b \<leftarrow> wr8 (recv_buf s) 0 dat;
            Some (False, s\<lparr>recv_index := 1, recv_buf := b, recv_state := Vd_EOF2\<rparr>) }
          else Some (False, s)
      | Vd_EOF2 \<Rightarrow>
          if dat = 0xAA then do {
            b \<leftarrow> wr8 (recv_buf s) (recv_index s) dat;
            Some (False, s\<lparr>recv_index := u8n (recv_index s + 1), recv_buf := b, recv_state := Vd_LENGTH\<rparr>) }
          else Some (False, s\<lparr>recv_state := Vd_EOF1\<rparr>)
      | Vd_LENGTH \<Rightarrow>
          if dat < 2 \<or> dat > 250 then Some (False, s\<lparr>recv_state := Vd_EOF1\<rparr>)
          else do {
            b \<leftarrow> wr8 (recv_buf s) (recv_index s) dat;
            Some (False, s\<lparr>check_sum := 0, recv_expect_length := u8n (unat dat + 4),
              recv_index := u8n (recv_index s + 1), recv_buf := b, recv_state := Vd_REMAIN\<rparr>) }
      | Vd_REMAIN \<Rightarrow> do {
          b \<leftarrow> wr8 (recv_buf s) (recv_index s) dat;
          let s = s\<lparr>check_sum := check_sum s + dat, recv_buf := b, recv_index := u8n (recv_index s + 1)\<rparr>;
          if recv_index s = recv_expect_length s
          then Some (check_sum s = 0, s\<lparr>recv_state := Vd_EOF1\<rparr>)
          else Some (False, s) })"

section \<open>The packets in a byte stream\<close>

text \<open>The parser looks at two preamble bytes and a length; the checksum only decides what it hands over.\<close>

definition vd_frame :: "bytes \<Rightarrow> verdict" where
  "vd_frame bs =
     (if length bs < 2 then Incomplete
      else if bs ! 1 \<noteq> 0xAA then Bad
      else if length bs < 3 then Incomplete
      else if bs ! 2 < 2 \<or> bs ! 2 > 250 then Bad
      else if length bs < unat (bs ! 2) + 4 then Incomplete
      else Packet (unat (bs ! 2) + 4))"

definition vd_sum :: "bytes \<Rightarrow> u8" where
  "vd_sum bs = fold (\<lambda>c ret. ret + c) bs 0"

lemma vd_sum_append [simp]: "vd_sum (xs @ ys) = vd_sum xs + vd_sum ys"
proof -
  have "fold (\<lambda>c ret. ret + c) ys a = a + fold (\<lambda>c ret. ret + c) ys 0" for a :: u8
  proof (induction ys arbitrary: a)
    case (Cons y ys)
    have "fold (\<lambda>c ret. ret + c) (y # ys) a = a + (y + fold (\<lambda>c ret. ret + c) ys 0)"
      by (simp only: fold_simps Cons [of "a + y"] add.assoc)
    also have "y + fold (\<lambda>c ret. ret + c) ys 0 = fold (\<lambda>c ret. ret + c) (y # ys) 0"
      by (simp only: fold_simps add_0 Cons [of y])
    finally show ?case .
  qed simp
  from this [of "fold (\<lambda>c ret. ret + c) xs 0"] show ?thesis by (simp only: vd_sum_def fold_append o_apply)
qed

lemma vd_sum_simps [simp]: "vd_sum [] = 0" "vd_sum [b] = b"
  by (simp_all add: vd_sum_def)

definition vd_sum_ok :: "bytes \<Rightarrow> bool" where
  "vd_sum_ok pkt \<longleftrightarrow> vd_sum (drop 3 pkt) = 0"

interpretation vds: packet_scanner vd_frame "0xAA"
proof
  show "vd_frame xs \<noteq> Incomplete \<Longrightarrow> vd_frame (xs @ ys) = vd_frame xs" for xs ys
    unfolding vd_frame_def length_append
    by (cases "length xs < 3"; cases "length xs < 2") (simp_all add: nth_append split: if_split_asm)
  show "vd_frame xs = Packet n \<Longrightarrow> 0 < n \<and> n \<le> length xs \<and> vd_frame (take n xs) = Packet n" for xs n
    by (auto simp: vd_frame_def split: if_splits)
qed

abbreviation vd_scan :: "bytes \<Rightarrow> bytes list \<times> bytes" where
  "vd_scan \<equiv> scan vd_frame 0xAA"

text \<open>The parser has received \<open>r\<close> of a packet, and its buffer holds it.\<close>

definition vd_received :: "bytes \<Rightarrow> 'z vd_parser_scheme \<Rightarrow> bool" where
  "vd_received r s \<longleftrightarrow> length (recv_buf s) = vd_MAX_PACKET_SIZE \<and>
     (case recv_state s of
        Vd_EOF1 \<Rightarrow> r = []
      | Vd_EOF2 \<Rightarrow> recv_index s = 1 \<and> r = [0xAA] \<and> take 1 (recv_buf s) = r
      | Vd_LENGTH \<Rightarrow> recv_index s = 2 \<and> r = [0xAA, 0xAA] \<and> take 2 (recv_buf s) = r
      | Vd_REMAIN \<Rightarrow> 3 \<le> recv_index s \<and> recv_index s < recv_expect_length s \<and> recv_index s = length r \<and>
          take (recv_index s) (recv_buf s) = r \<and> r ! 0 = 0xAA \<and> r ! 1 = 0xAA \<and> 2 \<le> r ! 2 \<and> r ! 2 \<le> 250 \<and>
          recv_expect_length s = unat (r ! 2) + 4 \<and> check_sum s = vd_sum (drop 3 r))"

lemma vd_received_start: "vd_received [] vd_parser_start"
  by (simp add: vd_received_def vd_parser_start_def)

text \<open>One byte: the parser and the scanner take the same step.\<close>

lemma take_snoc_update:
  assumes "n < length xs" and "take n xs = r"
  shows "take (Suc n) (xs[n := b]) = r @ [b]"
  using assms by (simp add: take_Suc_conv_app_nth take_update_cancel)

lemma vd_parse_step:
  assumes inv: "vd_received r s"
  shows "\<exists>e s'. vd_parse b s = Some (e, s') \<and> vd_received (snd (vd_scan (r @ [b]))) s' \<and>
     vd_parser.more s' = vd_parser.more s \<and>
     filter vd_sum_ok (fst (vd_scan (r @ [b]))) = (if e then [take (recv_index s') (recv_buf s')] else [])"
proof (cases "recv_state s")
  case Vd_EOF1
  then have r: "r = []" "length (recv_buf s) = 256" using inv by (simp_all add: vd_received_def)
  have t: "take (Suc 0) ((recv_buf s)[0 := b]) = [] @ [b]" by (rule take_snoc_update) (simp_all add: r)
  show ?thesis
    using Vd_EOF1 r t by (cases "b = 0xAA")
      (simp_all add: vd_parse_def mem_safe vd_received_def vd_frame_def ex_bool_eq)
next
  case Vd_EOF2
  then have r: "recv_index s = 1" "r = [0xAA]" "length (recv_buf s) = 256" "take 1 (recv_buf s) = [0xAA]"
    using inv by (simp_all add: vd_received_def)
  have "take (Suc 1) ((recv_buf s)[1 := b]) = [0xAA] @ [b]" by (rule take_snoc_update) (use r in simp_all)
  then have t: "take 2 ((recv_buf s)[Suc 0 := b]) = [0xAA, b]" by (simp add: numeral_2_eq_2)
  show ?thesis
    using Vd_EOF2 r(1-3) t by (cases "b = 0xAA")
      (simp_all add: vd_parse_def mem_safe vd_received_def vd_frame_def ex_bool_eq numeral_2_eq_2 [symmetric])
next
  case Vd_LENGTH
  then have r: "recv_index s = 2" "r = [0xAA, 0xAA]" "length (recv_buf s) = 256" "take 2 (recv_buf s) = [0xAA, 0xAA]"
    using inv by (simp_all add: vd_received_def)
  have "take (Suc 2) ((recv_buf s)[2 := b]) = [0xAA, 0xAA] @ [b]" by (rule take_snoc_update) (use r in simp_all)
  then have t: "take 3 ((recv_buf s)[2 := b]) = [0xAA, 0xAA, b]" by (simp add: numeral_3_eq_3)
  show ?thesis
  proof (cases "b < 2 \<or> b > 250")
    case True
    then have "b \<noteq> 0xAA" by auto
    then show ?thesis using Vd_LENGTH r(1-3) True by (auto simp: vd_parse_def vd_received_def vd_frame_def)
  next
    case False
    then have "unat b \<le> 250" "2 \<le> unat b" by (auto simp: word_le_nat_alt word_less_nat_alt not_less)
    then show ?thesis using Vd_LENGTH r(1-3) t False
      by (simp add: vd_parse_def mem_safe vd_received_def vd_frame_def ex_bool_eq not_less numeral_3_eq_3 [symmetric])
        (simp add: not_less [symmetric])
  qed
next
  case Vd_REMAIN
  let ?n = "recv_index s"
  have r: "3 \<le> ?n" "?n < recv_expect_length s" "?n = length r" "take ?n (recv_buf s) = r" "r ! 0 = 0xAA" "r ! 1 = 0xAA"
      "2 \<le> r ! 2" "r ! 2 \<le> 250" "recv_expect_length s = unat (r ! 2) + 4" "check_sum s = vd_sum (drop 3 r)"
      "length (recv_buf s) = 256"
    using inv [unfolded vd_received_def Vd_REMAIN vd_State.case] by (blast | simp)+
  have range: "\<not> r ! 2 < 2" "\<not> 250 < r ! 2" using r(7,8) by (simp_all add: not_less)
  have n: "?n < 256" "unat (r ! 2) \<le> 250" using r by (simp_all add: word_le_nat_alt)
  have t: "take (Suc ?n) ((recv_buf s)[?n := b]) = r @ [b]" by (rule take_snoc_update) (use n r in simp_all)
  obtain r0 where r0: "r = 0xAA # r0" using r(1,3,5) by (cases r) auto
  have sum: "vd_sum (drop 3 (r @ [b])) = check_sum s + b" using r by simp
  let ?s = "s\<lparr>check_sum := check_sum s + b, recv_buf := (recv_buf s)[?n := b], recv_index := Suc ?n\<rparr>"
  show ?thesis
  proof (cases "Suc ?n = recv_expect_length s")
    case True
    then have len: "length (r @ [b]) = unat (r ! 2) + 4" using r by simp
    have "vd_frame (r @ [b]) = Packet (length (r @ [b]))"
      using len r(1,3,5,6) range by (simp add: vd_frame_def nth_append)
    then have sc: "vd_scan (r @ [b]) = ([r @ [b]], [])"
      using vds.scan_packet [of "r @ [b]" "[]"] r0 by simp
    have p: "vd_parse b s = Some (check_sum s + b = 0, ?s\<lparr>recv_state := Vd_EOF1\<rparr>)"
      using Vd_REMAIN True n r by (simp add: vd_parse_def mem_safe)
    show ?thesis
      unfolding p sc using t sum r(11) by (auto simp: vd_received_def vd_sum_ok_def)
  next
    case False
    then have len: "length (r @ [b]) < unat (r ! 2) + 4" using r by simp
    have "vd_frame (r @ [b]) = Incomplete"
      using len r(1,3,5,6) range by (simp add: vd_frame_def nth_append)
    then have sc: "vd_scan (r @ [b]) = ([], r @ [b])" using r0 by simp
    have lt: "Suc ?n < 256" using False r(2,9) n by simp
    have p: "vd_parse b s = Some (False, ?s)"
      using Vd_REMAIN False n(1) lt r(11) by (simp add: vd_parse_def mem_safe)
    have "vd_received (r @ [b]) ?s"
      using t sum r(1-3,5-9,11) False Vd_REMAIN by (auto simp: vd_received_def nth_append)
    then show ?thesis unfolding p sc by (simp add: ex_bool_eq)
  qed
qed

section \<open>A stream of bytes\<close>

text \<open>The parser over a stream, with the packets it emits.\<close>

primrec vd_feed :: "bytes \<Rightarrow> 'z vd_parser_scheme \<Rightarrow> (bytes list \<times> 'z vd_parser_scheme) option" where
  "vd_feed [] s = Some ([], s)"
| "vd_feed (b # bs) s = do {
     (e, s) \<leftarrow> vd_parse b s;
     let p = take (recv_index s) (recv_buf s);
     (ps, s) \<leftarrow> vd_feed bs s;
     Some (if e then p # ps else ps, s) }"

lemma vd_received_pending:
  assumes "vd_received r s"
  shows "vd_scan r = ([], r)"
proof (cases "recv_state s")
  case Vd_REMAIN
  then have r: "3 \<le> length r" "length r < unat (r ! 2) + 4" "r ! 0 = 0xAA" "r ! 1 = 0xAA" "\<not> r ! 2 < 2" "\<not> 250 < r ! 2"
    using assms by (auto simp: vd_received_def not_less)
  then have "vd_frame r = Incomplete" by (simp add: vd_frame_def)
  moreover obtain r0 where "r = 0xAA # r0" using r(1,3) by (cases r) auto
  ultimately show ?thesis by simp
qed (use assms in \<open>auto simp: vd_received_def vd_frame_def\<close>)

lemma vd_feed_scan:
  "vd_received r s \<Longrightarrow> \<exists>s'. vd_feed bs s = Some (filter vd_sum_ok (fst (vd_scan (r @ bs))), s') \<and>
     vd_received (snd (vd_scan (r @ bs))) s' \<and> vd_parser.more s' = vd_parser.more s"
proof (induction bs arbitrary: r s)
  case Nil
  then show ?case using vd_received_pending [OF Nil] by simp
next
  case (Cons b bs)
  obtain e t where t: "vd_parse b s = Some (e, t)" "vd_received (snd (vd_scan (r @ [b]))) t"
      "vd_parser.more t = vd_parser.more s"
      "filter vd_sum_ok (fst (vd_scan (r @ [b]))) = (if e then [take (recv_index t) (recv_buf t)] else [])"
    using vd_parse_step [OF Cons.prems] by blast
  obtain s' where s': "vd_feed bs t = Some (filter vd_sum_ok (fst (vd_scan (snd (vd_scan (r @ [b])) @ bs))), s')"
      "vd_received (snd (vd_scan (snd (vd_scan (r @ [b])) @ bs))) s'" "vd_parser.more s' = vd_parser.more t"
    using Cons.IH [OF t(2)] by blast
  have "vd_scan (r @ b # bs) = (fst (vd_scan (r @ [b])) @ fst (vd_scan (snd (vd_scan (r @ [b])) @ bs)),
      snd (vd_scan (snd (vd_scan (r @ [b])) @ bs)))"
    using vds.scan_append [of "r @ [b]" bs] by simp
  then show ?case using t s' by simp
qed

text \<open>
  C15. The parser of the software robot, from its start on any byte stream, never leaves its receive
  buffer, and emits exactly the packets that the scan of the stream finds and whose bytes after the
  length sum up to zero, in order. What it has received of a further packet is what the scan leaves.
\<close>
theorem vd_parse_implements_scan:
  "\<exists>s'. vd_feed bs vd_parser_start = Some (filter vd_sum_ok (fst (vd_scan bs)), s') \<and>
     vd_received (snd (vd_scan bs)) s'"
  using vd_feed_scan [OF vd_received_start, of bs] by auto

section \<open>Making packets\<close>

definition vd_packet_ok :: "vd_packet \<Rightarrow> bool" where
  "vd_packet_ok p \<longleftrightarrow> length (vd_buf p) = vd_MAX_PACKET_SIZE"

text \<open>The bytes of a packet on the wire.\<close>

definition vd_image :: "vd_packet \<Rightarrow> bytes" where
  "vd_image p = take (vd_length p) (vd_buf p)"

lemma vd_checkSum_Some:
  "at + n \<le> length buf \<Longrightarrow> vd_checkSum buf at n = Some (- vd_sum (take n (drop at buf)))"
  by (simp add: vd_checkSum_def mem_safe vd_sum_def)

lemma vd_serialize_Some:
  assumes "vd_packet_ok p" and "2 \<le> vd_hdr_length p" and "vd_hdr_length p \<le> 250"
  shows "vd_serialize p = Some (p\<lparr>vd_buf := (vd_buf p)[vd_hdr_length p + 3 := - vd_sum (take (vd_hdr_length p) (drop 3 (vd_buf p)))]\<rparr>)"
proof -
  have "vd_HEADER + (vd_hdr_length p - 2) = vd_hdr_length p + 3" using assms(2) by simp
  then show ?thesis using assms by (simp add: vd_serialize_def vd_packet_ok_def vd_checkSum_Some mem_safe Let_def add.commute)
qed

lemma vd_serialized:
  assumes p: "vd_packet_ok p" "2 \<le> vd_hdr_length p" "vd_hdr_length p \<le> 250" and sof: "vd_buf p ! 0 = 0xAA" "vd_buf p ! 1 = 0xAA"
    and q: "vd_serialize p = Some q"
  shows "vd_frame (vd_image q) = Packet (length (vd_image q))" "vd_sum_ok (vd_image q)" "hd (vd_image q) = 0xAA"
    "length (vd_image q) = vd_hdr_length p + 4" "take (vd_hdr_length p + 3) (vd_image q) = take (vd_hdr_length p + 3) (vd_buf p)"
    "vd_packet_ok q"
proof -
  let ?n = "vd_hdr_length p"
  let ?c = "- vd_sum (take ?n (drop 3 (vd_buf p)))"
  have buf: "vd_buf q = (vd_buf p)[?n + 3 := ?c]" using q vd_serialize_Some [OF p] by auto
  have len: "length (vd_buf p) = 256" using p(1) by (simp add: vd_packet_ok_def)
  have n: "vd_hdr_length q = ?n" using p(2) by (simp add: vd_hdr_length_def buf)
  have im: "vd_image q = take (?n + 3) (vd_buf p) @ [?c]"
  proof -
    have "take (Suc (?n + 3)) ((vd_buf p)[?n + 3 := ?c]) = take (?n + 3) (vd_buf p) @ [?c]"
      by (rule take_snoc_update) (use len p(3) in simp_all)
    moreover have "?n + 4 = Suc (?n + 3)" by simp
    ultimately show ?thesis by (simp only: vd_image_def vd_length_def n buf)
  qed
  show l: "length (vd_image q) = ?n + 4" "take (?n + 3) (vd_image q) = take (?n + 3) (vd_buf p)"
    using len p(3) by (simp_all add: im)
  have h: "vd_image q ! 2 = vd_buf p ! 2" "vd_image q ! 1 = 0xAA" "vd_image q ! 0 = 0xAA"
    using sof len by (simp_all add: im nth_append)
  then show "hd (vd_image q) = 0xAA" using l(1) by (subst hd_conv_nth) auto
  have r: "\<not> vd_buf p ! 2 < 2" "\<not> 250 < vd_buf p ! 2"
    using p(2,3) by (simp_all add: vd_hdr_length_def not_less word_le_nat_alt)
  then show "vd_frame (vd_image q) = Packet (length (vd_image q))"
    using l(1) h p(2) by (simp add: vd_frame_def) (simp add: vd_hdr_length_def)
  have "drop 3 (vd_image q) = take ?n (drop 3 (vd_buf p)) @ [?c]" using len by (simp add: im drop_take)
  then show "vd_sum_ok (vd_image q)" by (simp add: vd_sum_ok_def)
  show "vd_packet_ok q" using len by (simp add: vd_packet_ok_def buf)
qed

lemma vd_init_Some:
  assumes "vd_packet_ok pkt" and "vd_packet_ok p"
  shows "\<exists>q. vd_init pkt p = Some q \<and> vd_packet_ok q \<and> vd_hdr_length q = 2 \<and> vd_getID q = vd_getID pkt \<and>
     vd_isWrite q = vd_isWrite pkt \<and> vd_buf q ! 0 = vd_buf pkt ! 0 \<and> vd_buf q ! 1 = vd_buf pkt ! 1"
  using assms
  by (simp add: vd_init_def vd_packet_ok_def mem_safe vd_hdr_length_def vd_getID_def vd_isWrite_def nth_append)

lemma vd_setPayload_Some:
  assumes "vd_packet_ok p" and "length d \<le> 248"
  shows "\<exists>q. vd_setPayload d p = Some q \<and> vd_packet_ok q \<and> vd_hdr_length q = length d + 2 \<and> vd_getID q = vd_getID p \<and>
     vd_isWrite q = vd_isWrite p \<and> vd_buf q ! 0 = vd_buf p ! 0 \<and> vd_buf q ! 1 = vd_buf p ! 1 \<and>
     take (length d) (vd_payload q) = d"
proof -
  have u: "unat (word_of_nat (length d + 2) :: u8) = length d + 2"
    using assms(2) by (simp only: unat_of_nat) simp
  have "take (length d) (drop 5 ((take 5 (vd_buf p))[2 := x] @ d @ drop (5 + length d) (vd_buf p))) = d" for x
    using assms by (simp add: vd_packet_ok_def)
  then show ?thesis
    using assms u
    by (simp add: vd_setPayload_def vd_packet_ok_def mem_safe vd_hdr_length_def vd_getID_def vd_isWrite_def nth_append
        vd_payload_def list_update_append)
qed

end
