(* ===== verification/VdAlarms.thy ===== *)
theory VdAlarms imports VdPacket begin

text \<open>
  \<open>alarms.h\<close>, \<open>alarms.cpp\<close> and the macro \<open>SETBITS\<close> of \<open>BitMacro.h\<close>: the alarm bits of the software
  robot, the array \<open>gAlarmSysState\<close> of 16 bytes. An access outside the array, or outside one of the
  two tables of \<open>AlarmSysGetGroupRange\<close>, is the value \<^term>\<open>None\<close>.
\<close>

abbreviation ALARMS_BITS :: nat where "ALARMS_BITS \<equiv> 128"
abbreviation ERR_ERROR_MAX :: nat where "ERR_ERROR_MAX \<equiv> ALARMS_BITS - 1"

datatype vd_alarm_group =
  ERR_GROUP_COMMON | ERR_GROUP_PLAN | ERR_GROUP_MOVE | ERR_GROUP_OVERSPEED | ERR_GROUP_LIMIT | ERR_GROUP_LOSE_STEP | ERR_GROUP_OTHER

primrec vd_group_index :: "vd_alarm_group \<Rightarrow> nat" where
  "vd_group_index ERR_GROUP_COMMON = 0"
| "vd_group_index ERR_GROUP_PLAN = 1"
| "vd_group_index ERR_GROUP_MOVE = 2"
| "vd_group_index ERR_GROUP_OVERSPEED = 3"
| "vd_group_index ERR_GROUP_LIMIT = 4"
| "vd_group_index ERR_GROUP_LOSE_STEP = 5"
| "vd_group_index ERR_GROUP_OTHER = 6"

text \<open>\<open>ERR_x_MIN\<close> and \<open>ERR_x_MAX\<close>, the codes of the alarms of a group.\<close>

primrec vd_group_codes :: "vd_alarm_group \<Rightarrow> nat \<times> nat" where
  "vd_group_codes ERR_GROUP_COMMON = (0x00, 0x0F)"
| "vd_group_codes ERR_GROUP_PLAN = (0x10, 0x1F)"
| "vd_group_codes ERR_GROUP_MOVE = (0x20, 0x2F)"
| "vd_group_codes ERR_GROUP_OVERSPEED = (0x30, 0x3F)"
| "vd_group_codes ERR_GROUP_LIMIT = (0x40, 0x4F)"
| "vd_group_codes ERR_GROUP_LOSE_STEP = (0x50, 0x5F)"
| "vd_group_codes ERR_GROUP_OTHER = (0x60, 0x6F)"

definition AlarmSysCalcOfst :: "nat \<Rightarrow> nat \<times> nat" where
  "AlarmSysCalcOfst index = (index div 8, index mod 8)"

text \<open>\<open>SETBITS(dest, bit, bit, num)\<close> for a one-bit field; \<open>dest\<close> is a byte.\<close>

definition vd_SETBITS :: "u8 \<Rightarrow> nat \<Rightarrow> u8 \<Rightarrow> u8" where
  "vd_SETBITS dest n num = (dest AND NOT (push_bit n 1)) OR push_bit n num"

definition AlarmSysSetBit :: "nat \<Rightarrow> bool \<Rightarrow> bytes \<Rightarrow> bytes option" where
  "AlarmSysSetBit index isOn st =
     (if index > ERR_ERROR_MAX then Some st
      else do {
        let (offsetByte, offsetInByte) = AlarmSysCalcOfst index;
        b \<leftarrow> rd8 st offsetByte;
        wr8 st offsetByte (vd_SETBITS b offsetInByte (if isOn then 1 else 0)) })"

definition AlarmSysGetBit :: "nat \<Rightarrow> bytes \<Rightarrow> bool option" where
  "AlarmSysGetBit index st = do {
     let (offsetByte, offsetInByte) = AlarmSysCalcOfst index;
     b \<leftarrow> rd8 st offsetByte;
     Some (b AND push_bit offsetInByte 1 \<noteq> 0) }"

definition AlarmSysGetGroupRange :: "nat \<Rightarrow> (nat \<times> nat) option" where
  "AlarmSysGetGroupRange groupIndex = do {
     a \<leftarrow> rd8 [0x00, 0x10, 0x20, 0x30, 0x40, 0x60] groupIndex;
     b \<leftarrow> rd8 [0x0F, 0x1F, 0x2F, 0x3F, 0x4F, 0x6F] groupIndex;
     Some (unat a div 8, unat b div 8) }"

text \<open>The loop of \<open>AlarmSysCheckGroup\<close> and \<open>AlarmSysCheckAll\<close>, which stops at the first byte with a bit set.\<close>

primrec vd_any_alarm :: "nat list \<Rightarrow> bytes \<Rightarrow> bool option" where
  "vd_any_alarm [] st = Some False"
| "vd_any_alarm (i # is) st = do { b \<leftarrow> rd8 st i; if b \<noteq> 0 then Some True else vd_any_alarm is st }"

definition AlarmSysCheckGroup :: "nat \<Rightarrow> bytes \<Rightarrow> bool option" where
  "AlarmSysCheckGroup groupIndex st =
     (if groupIndex > vd_group_index ERR_GROUP_OTHER then Some False
      else do {
        (mn, mx) \<leftarrow> AlarmSysGetGroupRange groupIndex;
        vd_any_alarm [mn..<Suc mx] st })"

definition AlarmSysCheckAll :: "bytes \<Rightarrow> bool option" where
  "AlarmSysCheckAll st = vd_any_alarm [1..<ALARMS_BITS div 8] st"

definition AlarmSysClearGroup :: "nat \<Rightarrow> bytes \<Rightarrow> bytes option" where
  "AlarmSysClearGroup groupIndex st = do {
     (mn, mx) \<leftarrow> AlarmSysGetGroupRange groupIndex;
     foldM (\<lambda>i st. wr8 st i 0) [mn..<Suc mx] st }"

definition AlarmSysClearAll :: "bytes \<Rightarrow> bytes option" where
  "AlarmSysClearAll st = wr_range st 0 (replicate (ALARMS_BITS div 8) 0)"

definition AlarmSysGetAll :: "bytes \<Rightarrow> bytes \<times> nat" where
  "AlarmSysGetAll st = (st, ALARMS_BITS div 8)"

definition AlarmSysInit :: "bytes \<Rightarrow> bytes option" where
  "AlarmSysInit st = AlarmSysClearAll st"

section \<open>Correctness\<close>

text \<open>The abstract state: the set of alarms that are on.\<close>

definition vd_alarms :: "bytes \<Rightarrow> nat set" where
  "vd_alarms st = {k. k < 8 * length st \<and> bit (st ! (k div 8)) (k mod 8)}"

lemma vd_SETBITS_bit:
  assumes "n < 8" and "m < 8"
  shows "bit (vd_SETBITS b n (if on then 1 else 0)) m = (if m = n then on else bit b m)"
  using assms by (auto simp: vd_SETBITS_def bit_simps)

lemma AlarmSysSetBit_Some:
  assumes "length st = 16"
  shows "\<exists>st'. AlarmSysSetBit k on st = Some st' \<and> length st' = 16 \<and>
     vd_alarms st' = (if 127 < k then vd_alarms st else if on then insert k (vd_alarms st) else vd_alarms st - {k})"
proof (cases "127 < k")
  case False
  then have k: "k div 8 < 16" by simp
  define v where "v = vd_SETBITS (st ! (k div 8)) (k mod 8) (if on then 1 else 0)"
  have v: "bit v m = (if m = k mod 8 then on else bit (st ! (k div 8)) m)" if "m < 8" for m
    using that unfolding v_def by (simp only: vd_SETBITS_bit mod_less_divisor zero_less_numeral)
  let ?st = "st[k div 8 := v]"
  have "bit (?st ! (j div 8)) (j mod 8) = (if j = k then on else bit (st ! (j div 8)) (j mod 8))" if "j < 128" for j
  proof (cases "j div 8 = k div 8")
    case True
    then have "(j mod 8 = k mod 8) = (j = k)" by (metis div_mult_mod_eq)
    then show ?thesis using True k assms by (simp add: v)
  next
    case False
    then have "j \<noteq> k" by blast
    then show ?thesis using False by (simp add: nth_list_update)
  qed
  then have "vd_alarms ?st = (if on then insert k (vd_alarms st) else vd_alarms st - {k})"
  proof -
    assume b: "\<And>j. j < 128 \<Longrightarrow> bit (?st ! (j div 8)) (j mod 8) = (if j = k then on else bit (st ! (j div 8)) (j mod 8))"
    have "vd_alarms ?st = {j. j < 128 \<and> (if j = k then on else bit (st ! (j div 8)) (j mod 8))}"
      unfolding vd_alarms_def length_list_update assms by (rule Collect_cong, rule conj_cong, simp, rule b, simp)
    then show ?thesis using assms False by (auto simp: vd_alarms_def)
  qed
  then show ?thesis using False k assms by (simp add: AlarmSysSetBit_def AlarmSysCalcOfst_def mem_safe v_def [symmetric])
qed (use assms in \<open>simp add: AlarmSysSetBit_def\<close>)

lemma AlarmSysGetBit_Some:
  "length st = 16 \<Longrightarrow> k < 128 \<Longrightarrow> AlarmSysGetBit k st = Some (k \<in> vd_alarms st)"
  by (simp add: AlarmSysGetBit_def AlarmSysCalcOfst_def mem_safe bit_iff_and_push_bit_not_eq_0 vd_alarms_def)

text \<open>
  C36. The alarm bits implement a set: after \<open>AlarmSysSetBit\<close> of a list of alarms to on or off,
  \<open>AlarmSysGetBit\<close> of any alarm of the 128 is what the last call for it has set, and what it was
  before when there was none; a code above the last one changes nothing.
\<close>
theorem alarms_implement_set:
  assumes "length st = 16" and "k < 128"
  shows "\<exists>st'. foldM (\<lambda>(c, on). AlarmSysSetBit c on) cs st = Some st' \<and> length st' = 16 \<and>
     AlarmSysGetBit k st' = Some (fold (\<lambda>(c, on) v. if c = k then on else v) cs (k \<in> vd_alarms st))"
  using assms(1)
proof (induction cs arbitrary: st)
  case Nil
  then show ?case using assms(2) by (simp add: AlarmSysGetBit_Some)
next
  case (Cons x cs)
  obtain c on where x: "x = (c, on)" by (cases x)
  obtain st1 where st1: "AlarmSysSetBit c on st = Some st1" "length st1 = 16"
      "vd_alarms st1 = (if 127 < c then vd_alarms st else if on then insert c (vd_alarms st) else vd_alarms st - {c})"
    using AlarmSysSetBit_Some [OF Cons.prems] by blast
  have "(k \<in> vd_alarms st1) = (if c = k then on else k \<in> vd_alarms st)" using st1(3) assms(2) by auto
  then show ?case using Cons.IH [OF st1(2)] st1(1) by (simp add: x)
qed

theorem alarms_implement_set_witness:
  "\<exists>st'. foldM (\<lambda>(c, on). AlarmSysSetBit c on) [(0x60, True), (0x21, True), (0x60, False), (200, True)] (replicate 16 0) = Some st' \<and>
     length st' = 16 \<and> AlarmSysGetBit 0x21 st' = Some True"
  using alarms_implement_set [of "replicate 16 0" 33 "[(0x60, True), (0x21, True), (0x60, False), (200, True)]"] by simp

text \<open>
  The groups: what \<open>AlarmSysCheckGroup\<close> should answer is whether an alarm of the group's codes is on.
\<close>

definition vd_group_on :: "vd_alarm_group \<Rightarrow> bytes \<Rightarrow> bool" where
  "vd_group_on g st \<longleftrightarrow> (\<exists>k \<in> {fst (vd_group_codes g)..snd (vd_group_codes g)}. k \<in> vd_alarms st)"

lemma byte_nonzero: "(b \<noteq> (0 :: u8)) = (\<exists>i < 8. bit b i)"
  by (auto simp: bit_eq_iff)

lemma vd_any_alarm_Some:
  "(\<And>i. i \<in> set is \<Longrightarrow> i < length st) \<Longrightarrow> vd_any_alarm is st = Some (\<exists>i \<in> set is. st ! i \<noteq> 0)"
  by (induction "is") (simp_all add: mem_safe)

lemma alarm_in_byte:
  assumes "i < length st"
  shows "(st ! i \<noteq> 0) = (\<exists>k \<in> {8 * i..8 * i + 7}. k \<in> vd_alarms st)"
proof
  assume "st ! i \<noteq> 0"
  then obtain j where j: "j < 8" "bit (st ! i) j" by (auto simp: byte_nonzero)
  then have "8 * i + j \<in> vd_alarms st" using assms by (simp add: vd_alarms_def)
  then show "\<exists>k \<in> {8 * i..8 * i + 7}. k \<in> vd_alarms st" using j(1) by (intro bexI [of _ "8 * i + j"]) auto
next
  assume "\<exists>k \<in> {8 * i..8 * i + 7}. k \<in> vd_alarms st"
  then obtain k where k: "8 * i \<le> k" "k \<le> 8 * i + 7" "bit (st ! (k div 8)) (k mod 8)" by (auto simp: vd_alarms_def)
  then have "k div 8 = i" by simp
  then show "st ! i \<noteq> 0" using k(3) by (auto simp: byte_nonzero intro: exI [of _ "k mod 8"])
qed

lemma vd_two_bytes:
  assumes "length st = 16" and "i < 15"
  shows "vd_any_alarm [i..<Suc (i + 1)] st = Some (\<exists>k \<in> {8 * i..8 * i + 15}. k \<in> vd_alarms st)"
proof -
  have "{8 * i..8 * i + 15} = {8 * i..8 * i + 7} \<union> {8 * (i + 1)..8 * (i + 1) + 7}" by auto
  moreover have "set [i..<Suc (i + 1)] = {i, i + 1}" by auto
  ultimately have "(\<exists>j \<in> set [i..<Suc (i + 1)]. st ! j \<noteq> 0) = (\<exists>k \<in> {8 * i..8 * i + 15}. k \<in> vd_alarms st)"
    using assms alarm_in_byte [of i st] alarm_in_byte [of "i + 1" st] by (simp only: bex_Un bex_simps) simp
  then show ?thesis using assms by (subst vd_any_alarm_Some) auto
qed

lemma vd_check:
  assumes "length st = 16" and "AlarmSysGetGroupRange g = Some (mn, Suc mn)"
  shows "g \<le> 6 \<Longrightarrow> mn < 15 \<Longrightarrow> AlarmSysCheckGroup g st = Some (\<exists>k \<in> {8 * mn..8 * mn + 15}. k \<in> vd_alarms st)"
  using vd_two_bytes [OF assms(1), of mn] assms(2) by (simp add: AlarmSysCheckGroup_def del: upt_Suc)

text \<open>
  \<open>AlarmSysCheckGroup\<close> answers for the first five groups whether one of their alarms is on. Its
  tables lack the entry of the group of lost steps: for that group it answers for the group of the
  other alarms, and for the group of the other alarms it reads behind the tables.
\<close>
theorem AlarmSysCheckGroup_behaviour:
  assumes "length st = 16"
  shows "AlarmSysCheckGroup (vd_group_index g) st =
    (case g of ERR_GROUP_LOSE_STEP \<Rightarrow> Some (vd_group_on ERR_GROUP_OTHER st)
     | ERR_GROUP_OTHER \<Rightarrow> None
     | _ \<Rightarrow> Some (vd_group_on g st))"
proof -
  note range = AlarmSysGetGroupRange_def rd8_def
  have r: "AlarmSysGetGroupRange 0 = Some (0, Suc 0)" "AlarmSysGetGroupRange 1 = Some (2, Suc 2)"
      "AlarmSysGetGroupRange 2 = Some (4, Suc 4)" "AlarmSysGetGroupRange 3 = Some (6, Suc 6)"
      "AlarmSysGetGroupRange 4 = Some (8, Suc 8)" "AlarmSysGetGroupRange 5 = Some (12, Suc 12)"
      "AlarmSysGetGroupRange 6 = None"
    by (simp_all add: range)
  have out: "AlarmSysCheckGroup 6 st = None" using r(7) by (simp add: AlarmSysCheckGroup_def)
  note check = vd_check [OF assms r(1)] vd_check [OF assms r(2)] vd_check [OF assms r(3)] vd_check [OF assms r(4)]
    vd_check [OF assms r(5)] vd_check [OF assms r(6)]
  show ?thesis
    using check out by (cases g) (simp_all add: vd_group_on_def)
qed

theorem AlarmSysCheckGroup_behaviour_witness:
  "AlarmSysCheckGroup (vd_group_index ERR_GROUP_LOSE_STEP) ((replicate 16 0)[10 := 1]) = Some False"
  using AlarmSysCheckGroup_behaviour [of "(replicate 16 0)[10 := 1]" ERR_GROUP_LOSE_STEP]
  by (simp add: AlarmSysCheckGroup_def AlarmSysGetGroupRange_def rd8_def)

end
