(* ===== verification/VdSlave.thy ===== *)
theory VdSlave imports VdPacket begin

text \<open>
  \<open>dcps.cpp\<close>, \<open>dcps.h\<close>, \<open>msg_queue.h\<close>, \<open>semaphore.cpp\<close> and the flags of the queue in \<open>cmd.cpp\<close>: the
  software robot answers every request it knows; requests with the queue flag are only put into a
  queue, from which \<open>doQueueCmd\<close>, called by a timer, takes one after the other when the last one
  has finished. All runs in one thread. What a command does is the function \<open>exec\<close> it is
  registered with; the commands themselves are in \<open>VdCmds\<close>.
\<close>

section \<open>The queue\<close>

text \<open>
  \<open>Semaphore\<close> is its counter; a \<open>wait\<close> that would block the only thread does not return, the
  value \<^term>\<open>None\<close>. The two exceptions of \<open>MsgQueue\<close> are values.
\<close>

definition vd_sem_wait :: "int \<Rightarrow> int option" where
  "vd_sem_wait cnt = (if cnt - 1 < 0 then None else Some (cnt - 1))"

definition vd_sem_post :: "int \<Rightarrow> int" where
  "vd_sem_post cnt = cnt + 1"

definition vd_sem_clear :: "int \<Rightarrow> int" where
  "vd_sem_clear cnt = 0"

datatype vd_exn = MsgQueueFullException | MsgQueueDestroyException

record 'a vd_msgq =
  q_size :: nat
  is_finished :: bool
  q_length :: nat
  q_sem :: int
  q_items :: "'a list"

definition vd_MsgQueue :: "nat \<Rightarrow> 'a vd_msgq" where
  "vd_MsgQueue n = \<lparr>q_size = n, is_finished = False, q_length = 0, q_sem = 0, q_items = []\<rparr>"

definition vd_clean :: "'a vd_msgq \<Rightarrow> 'a vd_msgq" where
  "vd_clean q = q\<lparr>q_length := 0, q_sem := vd_sem_clear (q_sem q), q_items := []\<rparr>"

definition vd_push :: "'a \<Rightarrow> 'a vd_msgq \<Rightarrow> vd_exn + 'a vd_msgq" where
  "vd_push msg q =
     (if q_size q \<le> q_length q then Inl MsgQueueFullException
      else if is_finished q then Inr q
      else Inr (q\<lparr>q_items := q_items q @ [msg], q_length := u32n (q_length q + 1), q_sem := vd_sem_post (q_sem q)\<rparr>))"

definition vd_pop :: "'a vd_msgq \<Rightarrow> ((vd_exn + 'a) \<times> 'a vd_msgq) option" where
  "vd_pop q = do {
     cnt \<leftarrow> vd_sem_wait (q_sem q);
     let q = q\<lparr>q_sem := cnt\<rparr>;
     if is_finished q then Some (Inl MsgQueueDestroyException, q)
     else (case q_items q of
             [] \<Rightarrow> None
           | msg # items \<Rightarrow> Some (Inr msg, q\<lparr>q_items := items, q_length := sub32 (q_length q) 1\<rparr>)) }"

definition vd_destroy :: "'a vd_msgq \<Rightarrow> 'a vd_msgq" where
  "vd_destroy q = q\<lparr>is_finished := True\<rparr>"

section \<open>The state\<close>

datatype vd_cmd_type = QueuedCmdMotionType | QueuedCmdWaitType | QueuedCmdIOType | QueuedCmdTrigType

text \<open>
  \<open>DobotProtocolSlave\<close> with the static counter of \<open>genIndexID\<close> and the global flags that steer the
  queue. \<open>serial_out\<close> is what it has written to the serial port, one entry a call; \<open>currentMSecs\<close>
  is the clock; \<open>robot\<close> is everything else the commands and the motion control work on.
\<close>

record 'w vd_slave = vd_parser +
  msg_queue :: "vd_packet vd_msgq"
  current_proc_packet :: "vd_packet option"
  genIndex :: u64
  finishFlag :: bool
  runQueuedCmd :: bool
  queuedCmdType :: vd_cmd_type
  gQueuedCmdIsFinished :: "vd_cmd_type \<Rightarrow> bool"
  wait_initialTick :: u32
  wait_timeout :: u32
  currentMSecs :: u64
  serial_out :: "bytes list"
  robot :: 'w

type_synonym 'w vd_exec = "vd_packet \<Rightarrow> vd_packet \<Rightarrow> 'w vd_slave \<Rightarrow> (bool \<times> vd_packet \<times> 'w vd_slave) option"

text \<open>\<open>cmd_map_\<close> of \<open>DobotCmdManage\<close>, filled by the constructors of the commands.\<close>

type_synonym 'w vd_cmd_map = "u8 \<Rightarrow> 'w vd_exec option"

definition vd_registerCmd :: "u8 \<Rightarrow> 'w vd_exec \<Rightarrow> 'w vd_cmd_map \<Rightarrow> 'w vd_cmd_map" where
  "vd_registerCmd ident cmd m = m(ident := Some cmd)"

definition vd_findCmd :: "'w vd_cmd_map \<Rightarrow> u8 \<Rightarrow> 'w vd_exec option" where
  "vd_findCmd m ident = m ident"

definition vd_slave_start :: "bool \<Rightarrow> bool \<Rightarrow> u64 \<Rightarrow> 'w \<Rightarrow> 'w vd_slave" where
  "vd_slave_start fin running now w = vd_parser.extend vd_parser_start
     \<lparr>msg_queue = vd_MsgQueue 500, current_proc_packet = None, genIndex = 1, finishFlag = fin, runQueuedCmd = running,
      queuedCmdType = QueuedCmdMotionType, gQueuedCmdIsFinished = (\<lambda>_. True), wait_initialTick = 0, wait_timeout = 0,
      currentMSecs = now, serial_out = [], robot = w\<rparr>"

section \<open>Which kind of command is running\<close>

definition QueuedCmdTypeCalc :: "u8 \<Rightarrow> vd_cmd_type" where
  "QueuedCmdTypeCalc protocolID =
     (if protocolID \<in> {31, 73, 84, 91, 92, 95, 101} then QueuedCmdMotionType
      else if protocolID = 110 then QueuedCmdWaitType
      else if protocolID = 120 then QueuedCmdTrigType
      else QueuedCmdIOType)"

definition QueuedCmdIsFinished :: "'w vd_slave \<Rightarrow> bool" where
  "QueuedCmdIsFinished s = gQueuedCmdIsFinished s (queuedCmdType s)"

definition vd_set_finished :: "bool \<Rightarrow> 'w vd_slave \<Rightarrow> 'w vd_slave" where
  "vd_set_finished b s = s\<lparr>gQueuedCmdIsFinished := (gQueuedCmdIsFinished s)(queuedCmdType s := b)\<rparr>"

definition QueuedCmdFinishFlagClear :: "'w vd_slave \<Rightarrow> 'w vd_slave" where
  "QueuedCmdFinishFlagClear s = vd_set_finished False s"

text \<open>\<open>nowTime\<close>: the milliseconds, cut to 31 bits.\<close>

definition vd_nowTime :: "'w vd_slave \<Rightarrow> u32" where
  "vd_nowTime s = ucast (currentMSecs s) AND 0x7FFFFFFF"

definition QueuedCmdFinishFlagRefresh :: "'w vd_slave \<Rightarrow> 'w vd_slave" where
  "QueuedCmdFinishFlagRefresh s =
     (case queuedCmdType s of
        QueuedCmdMotionType \<Rightarrow> vd_set_finished (finishFlag s) s
      | QueuedCmdWaitType \<Rightarrow> if vd_nowTime s - wait_initialTick s > wait_timeout s then vd_set_finished True s else s
      | QueuedCmdIOType \<Rightarrow> vd_set_finished True s
      | QueuedCmdTrigType \<Rightarrow> s)"

section \<open>The slave\<close>

definition genIndexID :: "'w vd_slave \<Rightarrow> u64 \<times> 'w vd_slave" where
  "genIndexID s = (let idx = genIndex s + 1 in (idx, s\<lparr>genIndex := idx\<rparr>))"

definition getQueueIndex :: "'w vd_slave \<Rightarrow> u64 option" where
  "getQueueIndex s = do {
     currentIndex \<leftarrow> (case current_proc_packet s of
         Some p \<Rightarrow> if finishFlag s then msg_id p else Some (- 1)
       | None \<Rightarrow> Some (- 1));
     Some (if \<not> QueuedCmdIsFinished s then currentIndex - 1 else currentIndex) }"

definition clearQueue :: "'w vd_slave \<Rightarrow> 'w vd_slave" where
  "clearQueue s = s\<lparr>msg_queue := vd_clean (msg_queue s)\<rparr>"

definition getLeftSpace :: "'w vd_slave \<Rightarrow> u64" where
  "getLeftSpace s = word_of_nat (sub32 (q_size (msg_queue s)) (q_length (msg_queue s)))"

text \<open>An exception that leaves a slot ends the program.\<close>

definition packetProc :: "'w vd_cmd_map \<Rightarrow> bytes \<Rightarrow> 'w vd_slave \<Rightarrow> 'w vd_slave option" where
  "packetProc cmds packet s = do {
     request \<leftarrow> vd_Packet_copy packet;
     (case vd_findCmd cmds (vd_getID request) of
        None \<Rightarrow> Some s
      | Some exec \<Rightarrow> do {
          response \<leftarrow> vd_init request vd_Packet_empty;
          (response, s) \<leftarrow>
            (if vd_isQueue request then do {
               msg \<leftarrow> vd_Packet_copy packet;
               let (index, s) = genIndexID s;
               q \<leftarrow> (case vd_push (msg\<lparr>msg_id := Some index\<rparr>) (msg_queue s) of Inl exn \<Rightarrow> None | Inr q \<Rightarrow> Some q);
               response \<leftarrow> vd_setPayload (bytes64 index) response;
               Some (response, s\<lparr>msg_queue := q\<rparr>) }
             else do {
               (ok, response, s) \<leftarrow> exec request response s;
               Some (response, s) });
          response \<leftarrow> vd_serialize response;
          d \<leftarrow> rd_range (vd_buf response) 0 (vd_length response);
          Some (s\<lparr>serial_out := serial_out s @ [d]\<rparr>) }) }"

text \<open>\<open>recvPacket\<close> is emitted to \<open>packetProc\<close> directly.\<close>

definition vd_recv_byte :: "'w vd_cmd_map \<Rightarrow> u8 \<Rightarrow> 'w vd_slave \<Rightarrow> 'w vd_slave option" where
  "vd_recv_byte cmds b s = do {
     (e, s) \<leftarrow> vd_parse b s;
     if e then packetProc cmds (recv_buf s) s else Some s }"

definition readyRecv :: "'w vd_cmd_map \<Rightarrow> bytes \<Rightarrow> 'w vd_slave \<Rightarrow> 'w vd_slave option" where
  "readyRecv cmds dat s = foldM (vd_recv_byte cmds) dat s"

definition doQueueCmd :: "'w vd_cmd_map \<Rightarrow> 'w vd_slave \<Rightarrow> 'w vd_slave option" where
  "doQueueCmd cmds s =
     (if \<not> QueuedCmdIsFinished s then Some (QueuedCmdFinishFlagRefresh s)
      else if \<not> finishFlag s then Some s
      else if \<not> runQueuedCmd s then Some s
      else if q_length (msg_queue s) > 0 then do {
        (r, q) \<leftarrow> vd_pop (msg_queue s);
        let s = s\<lparr>msg_queue := q\<rparr>;
        (case r of
           Inl exn \<Rightarrow> Some s
         | Inr request \<Rightarrow> do {
             let s = s\<lparr>current_proc_packet := Some request\<rparr>;
             (case vd_findCmd cmds (vd_getID request) of
                None \<Rightarrow> Some s
              | Some exec \<Rightarrow> do {
                  let s = s\<lparr>queuedCmdType := QueuedCmdTypeCalc (vd_getID request)\<rparr>;
                  (ok, response, s) \<leftarrow> exec request vd_Packet_empty s;
                  Some (QueuedCmdFinishFlagClear s) }) }) }
      else Some s)"

end
