(* ===== verification/VdCmds.thy ===== *)
theory VdCmds imports VdSlave VdAlarms begin

text \<open>
  \<open>cmd.cpp\<close> of the software robot: what each command does with the variables of the robot, and which
  answer it writes. The commands that compute with floating-point numbers or with the kinematics
  (identifiers 15, 30, 66, 72, 83, 94, 103, 146, 147, 221) are the argument \<open>others\<close> of the table
  of commands; the floating-point numbers that the other commands only store, copy or compare are
  kept as their four bytes. A \<open>memcpy\<close> or an array access out of range is \<^term>\<open>None\<close>.
\<close>

section \<open>The variables of the robot\<close>

text \<open>
  The globals of \<open>variable.cpp\<close>, \<open>gSysParams\<close> and the static variables of the commands, as far as
  the commands use them. The packed structures are their bytes.
\<close>

abbreviation ROBOT_MODE_NONE :: int where "ROBOT_MODE_NONE \<equiv> 0"
abbreviation ROBOT_MODE_SINGLE :: int where "ROBOT_MODE_SINGLE \<equiv> 1"
abbreviation ROBOT_MODE_SINGLEXYZ :: int where "ROBOT_MODE_SINGLEXYZ \<equiv> 2"
abbreviation ROBOT_MODE_STOP :: int where "ROBOT_MODE_STOP \<equiv> 3"
abbreviation ROBOT_MODE_HOME :: int where "ROBOT_MODE_HOME \<equiv> 4"
abbreviation ROBOT_MODE_ARC :: int where "ROBOT_MODE_ARC \<equiv> 5"
abbreviation ROBOT_MODE_PLAYBACK :: int where "ROBOT_MODE_PLAYBACK \<equiv> 6"
abbreviation ROBOT_MODE_LEVELING :: int where "ROBOT_MODE_LEVELING \<equiv> 10"
abbreviation SEEK_HOME :: int where "SEEK_HOME \<equiv> 1"
abbreviation SUCTIONCUP :: u8 where "SUCTIONCUP \<equiv> 1"
abbreviation GRIPPER :: u8 where "GRIPPER \<equiv> 2"
abbreviation PEN :: u8 where "PEN \<equiv> 3"

record vd_robot =
  planFlag :: bool
  jumPlanFlag :: bool
  stopPlanFlag :: bool
  stopFinishFlag :: bool
  gRobotPrfMode :: int
  gSingleMode :: u8
  gHome0_homeState :: int
  gPose :: bytes
  kinematics :: bytes
  gAlarmSysState :: bytes
  armOrientation :: u8
  CalibrationMode :: u8
  gStepCtrlMode :: u8
  gStepCtrlModeTemp :: u8
  endEffectorParams :: bytes
  linkBlockH :: bytes
  linkBlockY :: bytes
  linkBlockV :: bytes
  gSuctioncup_LinkBlockH :: bytes
  gGripper_LinkBlockH :: bytes
  gPen_LinkBlockH :: bytes
  gEffectorType :: u8
  gEffectorEnale :: bytes
  gEffectorStatus :: bytes
  suction_enableCtrl :: u8
  suction_suck :: u8
  gripper_enableCtrl :: u8
  gripper_suck :: u8
  jogJointParams :: bytes
  jogCoordinateParams :: bytes
  jogCmd :: bytes
  ptpJointParams :: bytes
  ptpCoordinateParams :: bytes
  ptpJumpParams :: bytes
  ptpJump2Params :: bytes
  ptpCmd :: bytes
  cpParams :: bytes
  gLookAheadParams :: bytes
  CP_TrackFlag :: u8
  rHeadHoldEnable :: bool
  rHeadValue :: bytes
  arcParams :: bytes
  arcCmd :: bytes
  circleCmd :: bytes
  gCircleMove_midPos :: bytes
  gCircleMove_endPos :: bytes
  gWholeCircleFlag :: u8
  gCircleCount :: bytes
  trig_address :: u8
  trig_mode :: u8
  trig_condition :: u8
  trig_threshold :: bytes
  DOIndex :: u8
  DOlevel :: "bool list"
  gFrontEnd_PWM_Flag :: u8
  IOPWMIndex :: u8
  IOPWMfreq :: "bytes list"
  IOPWMduty :: "bytes list"
  DIIndex :: u8
  DIlevel :: bytes
  IOAdcIndex :: u8
  AdcValue :: "u16 list"
  LostStepValue :: bytes
  gCollisionDetectFlag :: u8
  CollisionCheckValue :: bytes
  gPosZero :: bytes
  runOfflineQueuedCmd :: bool
  isDownloading :: bool
  totalLoop :: bytes
  linePerLoop :: bytes
  offline_writeFlag :: bool
  offline_readFlag :: bool

text \<open>The sizes of the structures and arrays.\<close>

definition vd_robot_ok :: "vd_robot \<Rightarrow> bool" where
  "vd_robot_ok w \<longleftrightarrow>
     length (gPose w) = 32 \<and> length (kinematics w) = 8 \<and> length (gAlarmSysState w) = 16 \<and>
     length (endEffectorParams w) = 12 \<and>
     length (gEffectorEnale w) = 2 \<and> length (gEffectorStatus w) = 2 \<and>
     length (jogJointParams w) = 32 \<and> length (jogCoordinateParams w) = 32 \<and> length (jogCmd w) = 2 \<and>
     length (ptpJointParams w) = 32 \<and> length (ptpCoordinateParams w) = 16 \<and> length (ptpJumpParams w) = 8 \<and>
     length (ptpJump2Params w) = 12 \<and> length (ptpCmd w) = 17 \<and>
     length (cpParams w) = 13 \<and> length (gLookAheadParams w) = 13 \<and>
     length (arcParams w) = 16 \<and> length (arcCmd w) = 32 \<and> length (circleCmd w) = 36 \<and>
     length (DOlevel w) = 10 \<and> length (IOPWMfreq w) = 20 \<and> length (IOPWMduty w) = 20 \<and>
     (\<forall>x \<in> set (IOPWMfreq w). length x = 4) \<and> (\<forall>x \<in> set (IOPWMduty w). length x = 4) \<and>
     length (DIlevel w) = 20 \<and> length (AdcValue w) = 20 \<and>
     length (LostStepValue w) = 4 \<and> length (CollisionCheckValue w) = 4 \<and> length (gPosZero w) = 24"

section \<open>Comparing floating-point numbers\<close>

text \<open>
  The comparison of two IEEE single-precision numbers given as bit patterns: false when one is not a
  number, otherwise that of sign and magnitude. A double-precision literal such as 8.0 that is
  exact in single precision compares like it.
\<close>

definition f32_nan :: "u32 \<Rightarrow> bool" where
  "f32_nan x \<longleftrightarrow> x AND 0x7FFFFFFF > 0x7F800000"

definition f32_key :: "u32 \<Rightarrow> int" where
  "f32_key x = (if bit x 31 then - uint (x AND 0x7FFFFFFF) else uint (x AND 0x7FFFFFFF))"

definition f32_less :: "u32 \<Rightarrow> u32 \<Rightarrow> bool" where
  "f32_less x y \<longleftrightarrow> \<not> f32_nan x \<and> \<not> f32_nan y \<and> f32_key x < f32_key y"

text \<open>\<open>if(p[i] > limit) p[i] = limit;\<close> on the float at an offset.\<close>

definition vd_clamp :: "nat \<times> u32 \<Rightarrow> bytes \<Rightarrow> bytes option" where
  "vd_clamp = (\<lambda>(at, limit) p. do { x \<leftarrow> rd32 p at; if f32_less limit x then wr_range p at (bytes32 limit) else Some p })"

abbreviation f32_300 :: u32 where "f32_300 \<equiv> 0x43960000"
abbreviation f32_400 :: u32 where "f32_400 \<equiv> 0x43C80000"
abbreviation f32_200 :: u32 where "f32_200 \<equiv> 0x43480000"
abbreviation f32_8 :: u32 where "f32_8 \<equiv> 0x41000000"

section \<open>The shape of a command\<close>

abbreviation rq8 :: "vd_packet \<Rightarrow> nat \<Rightarrow> u8 option" where
  "rq8 request k \<equiv> rd8 (vd_payload request) k"

abbreviation rqn :: "vd_packet \<Rightarrow> nat \<Rightarrow> nat \<Rightarrow> bytes option" where
  "rqn request at n \<equiv> rd_range (vd_payload request) at n"

definition vd_done :: "vd_packet \<Rightarrow> 'w vd_slave \<Rightarrow> (bool \<times> vd_packet \<times> 'w vd_slave) option" where
  "vd_done response s = Some (True, response, s)"

definition vd_reply :: "bytes \<Rightarrow> vd_packet \<Rightarrow> 'w vd_slave \<Rightarrow> (bool \<times> vd_packet \<times> 'w vd_slave) option" where
  "vd_reply d response s = do { response \<leftarrow> vd_setPayload d response; Some (True, response, s) }"

definition vd_robot_upd :: "('w \<Rightarrow> 'w) \<Rightarrow> 'w vd_slave \<Rightarrow> 'w vd_slave" where
  "vd_robot_upd f s = s\<lparr>robot := f (robot s)\<rparr>"

text \<open>An array access \<open>a[i]\<close> of the statics, and \<open>a[i] = x\<close>.\<close>

definition vd_at :: "'a list \<Rightarrow> nat \<Rightarrow> 'a option" where
  "vd_at xs i = (if i < length xs then Some (xs ! i) else None)"

definition vd_put :: "'a list \<Rightarrow> nat \<Rightarrow> 'a \<Rightarrow> 'a list option" where
  "vd_put xs i x = (if i < length xs then Some (xs[i := x]) else None)"

section \<open>Device, pose, alarms, home\<close>

definition GetProductName :: "vd_robot vd_exec" where
  "GetProductName request response s = vd_reply (map (of_char :: char \<Rightarrow> u8) ''MagicianLite'' @ [0]) response s"

definition GetPoseCmd :: "vd_robot vd_exec" where
  "GetPoseCmd request response s = vd_reply (gPose (robot s)) response s"

definition ProtocolResetPoseCmd :: "vd_robot vd_exec" where
  "ProtocolResetPoseCmd request response s = do {
     manual \<leftarrow> rq8 request 0;
     rearArmAngle \<leftarrow> rqn request 1 4;
     frontArmAngle \<leftarrow> rqn request 5 4;
     if manual \<noteq> 0 then do {
       p \<leftarrow> wr_range (gPose (robot s)) 16 (bytes32 0);
       p \<leftarrow> wr_range p 20 rearArmAngle;
       p \<leftarrow> wr_range p 24 frontArmAngle;
       vd_done response (vd_robot_upd (gPose_update (\<lambda>_. p)) s) }
     else vd_done response s }"

definition ProtocolGetKinematicsCmd :: "vd_robot vd_exec" where
  "ProtocolGetKinematicsCmd request response s = vd_reply (kinematics (robot s)) response s"

definition GetAlarmStatusCmd :: "vd_robot vd_exec" where
  "GetAlarmStatusCmd request response s =
     (if vd_isWrite request then do {
        a \<leftarrow> AlarmSysClearAll (gAlarmSysState (robot s));
        vd_done response (vd_robot_upd (gAlarmSysState_update (\<lambda>_. a)) s) }
      else do {
        let (alarmsState, len) = AlarmSysGetAll (gAlarmSysState (robot s));
        d \<leftarrow> rd_range alarmsState 0 len;
        vd_reply d response s })"

definition HomeCmd :: "vd_robot vd_exec" where
  "HomeCmd request response s = do {
     let s = vd_robot_upd (\<lambda>w. w\<lparr>gRobotPrfMode := ROBOT_MODE_HOME, gHome0_homeState := SEEK_HOME\<rparr>) s;
     let s = s\<lparr>finishFlag := False\<rparr>;
     current_index \<leftarrow> msg_id request;
     vd_reply (bytes64 current_index) response s }"

definition ProtocolAutoLevelingCmd :: "vd_robot vd_exec" where
  "ProtocolAutoLevelingCmd request response s = do {
     s \<leftarrow> (if vd_isWrite request then do {
         c \<leftarrow> rq8 request 0;
         let s = vd_robot_upd (CalibrationMode_update (\<lambda>_. c)) s;
         Some (if c = 3 then vd_robot_upd (gRobotPrfMode_update (\<lambda>_. ROBOT_MODE_LEVELING)) s else s) }
       else Some s);
     vd_done response (s\<lparr>finishFlag := False\<rparr>) }"

definition ProtocolArmOrientationCmd :: "vd_robot vd_exec" where
  "ProtocolArmOrientationCmd request response s =
     (if vd_isWrite request then do { c \<leftarrow> rq8 request 0; vd_done response (vd_robot_upd (armOrientation_update (\<lambda>_. c)) s) }
      else vd_reply [armOrientation (robot s)] response s)"

definition ProtocolStepCtrlModeCmd :: "vd_robot vd_exec" where
  "ProtocolStepCtrlModeCmd request response s =
     (if vd_isWrite request then do { c \<leftarrow> rq8 request 0; vd_done response (vd_robot_upd (gStepCtrlMode_update (\<lambda>_. c)) s) }
      else vd_reply [gStepCtrlMode (robot s)] response s)"

section \<open>End effector\<close>

definition GetEndEffectorParams :: "vd_robot vd_exec" where
  "GetEndEffectorParams request response s =
     (if vd_isWrite request then do {
        p \<leftarrow> rqn request 0 12;
        vd_done response (vd_robot_upd (\<lambda>w. w\<lparr>endEffectorParams := p, gRobotPrfMode := ROBOT_MODE_NONE,
          linkBlockH := take 4 p, linkBlockY := take 4 (drop 4 p), linkBlockV := drop 8 p\<rparr>) s) }
      else vd_reply (endEffectorParams (robot s)) response s)"

definition GetEndEffectorType :: "vd_robot vd_exec" where
  "GetEndEffectorType request response s =
     (if vd_isWrite request then do {
        t \<leftarrow> rq8 request 0;
        vd_done response (vd_robot_upd (\<lambda>w.
          let w = w\<lparr>gEffectorType := t\<rparr> in
          if t = SUCTIONCUP then w\<lparr>linkBlockH := gSuctioncup_LinkBlockH w\<rparr>
          else if t = GRIPPER then w\<lparr>linkBlockH := gGripper_LinkBlockH w\<rparr>
          else if t = PEN then w\<lparr>linkBlockH := gPen_LinkBlockH w\<rparr>
          else w) s) }
      else vd_reply [gEffectorType (robot s)] response s)"

text \<open>Reading the result of \<open>gEffectorEnale[k]\<close> and \<open>gEffectorStatus[k]\<close>, and writing both.\<close>

definition vd_effector :: "nat \<Rightarrow> vd_robot \<Rightarrow> (u8 \<times> u8) option" where
  "vd_effector k w = do { a \<leftarrow> rd8 (gEffectorEnale w) k; b \<leftarrow> rd8 (gEffectorStatus w) k; Some (a, b) }"

definition vd_set_effector :: "nat \<Rightarrow> u8 \<Rightarrow> u8 \<Rightarrow> vd_robot vd_slave \<Rightarrow> vd_robot vd_slave option" where
  "vd_set_effector k a b s = do {
     ea \<leftarrow> wr8 (gEffectorEnale (robot s)) k a;
     sb \<leftarrow> wr8 (gEffectorStatus (robot s)) k b;
     Some (vd_robot_upd (\<lambda>w. w\<lparr>gEffectorEnale := ea, gEffectorStatus := sb\<rparr>) s) }"

definition GetCfgAndStatus :: "vd_robot vd_exec" where
  "GetCfgAndStatus request response s =
     (if vd_isWrite request then vd_done response s
      else if gEffectorType (robot s) = 1 then do {
        (a, b) \<leftarrow> vd_effector 0 (robot s); vd_reply [gEffectorType (robot s), a, b] response s }
      else if gEffectorType (robot s) = 2 then do {
        (a, b) \<leftarrow> vd_effector 1 (robot s); vd_reply [gEffectorType (robot s), a, b] response s }
      else vd_reply [gEffectorType (robot s)] response s)"

definition SetEndEffectorSuctionCupCmd :: "vd_robot vd_exec" where
  "SetEndEffectorSuctionCupCmd request response s =
     (if vd_isWrite request then do {
        s \<leftarrow> vd_set_effector 0 0 0 s;
        a \<leftarrow> rq8 request 0;
        if a \<noteq> 0 \<and> a \<noteq> 1 then vd_done response s
        else do {
          b \<leftarrow> rq8 request 1;
          s \<leftarrow> vd_set_effector 0 a b (vd_robot_upd (\<lambda>w. w\<lparr>suction_enableCtrl := a, suction_suck := b\<rparr>) s);
          vd_done response s } }
      else vd_reply [suction_enableCtrl (robot s), suction_suck (robot s)] response s)"

definition SetEndEffectorGripperCmd :: "vd_robot vd_exec" where
  "SetEndEffectorGripperCmd request response s =
     (if vd_isWrite request then do {
        a \<leftarrow> rq8 request 0;
        if a \<noteq> 0 \<and> a \<noteq> 1 then Some (False, response, s)
        else do {
          s \<leftarrow> vd_set_effector 1 0 0 s;
          b \<leftarrow> rq8 request 1;
          s \<leftarrow> vd_set_effector 1 a b (vd_robot_upd (\<lambda>w. w\<lparr>gripper_enableCtrl := a, gripper_suck := b\<rparr>) s);
          vd_done response s } }
      else vd_reply [gripper_enableCtrl (robot s), gripper_suck (robot s)] response s)"

section \<open>Parameters of the motions\<close>

definition GetJogJointParams :: "vd_robot vd_exec" where
  "GetJogJointParams request response s =
     (if vd_isWrite request then do {
        p \<leftarrow> rqn request 0 32;
        p \<leftarrow> foldM vd_clamp [(0, f32_300), (16, f32_400), (4, f32_300), (20, f32_400),
               (8, f32_300), (24, f32_400), (12, f32_300), (28, f32_400)] p;
        vd_done response (vd_robot_upd (jogJointParams_update (\<lambda>_. p)) s) }
      else vd_reply (jogJointParams (robot s)) response s)"

definition GetJogCoordinateParams :: "vd_robot vd_exec" where
  "GetJogCoordinateParams request response s =
     (if vd_isWrite request then do {
        p \<leftarrow> rqn request 0 32;
        p \<leftarrow> foldM vd_clamp [(0, f32_300), (16, f32_400), (4, f32_300), (20, f32_400),
               (8, f32_300), (24, f32_400), (12, f32_300), (28, f32_400)] p;
        vd_done response (vd_robot_upd (jogCoordinateParams_update (\<lambda>_. p)) s) }
      else vd_reply (jogCoordinateParams (robot s)) response s)"

definition SetPTPJointParam :: "vd_robot vd_exec" where
  "SetPTPJointParam request response s =
     (if vd_isWrite request then do {
        p \<leftarrow> rqn request 0 32;
        p \<leftarrow> foldM vd_clamp [(0, f32_300), (16, f32_400), (4, f32_300), (20, f32_400),
               (8, f32_300), (24, f32_400), (12, f32_300), (28, f32_400)] p;
        vd_done response (vd_robot_upd (ptpJointParams_update (\<lambda>_. p)) s) }
      else vd_reply (ptpJointParams (robot s)) response s)"

text \<open>\<open>PTPCoordinateParams\<close>: velocity, velocity of the head, acceleration, acceleration of the head.\<close>

definition SetPTPCoordinateParam :: "vd_robot vd_exec" where
  "SetPTPCoordinateParam request response s =
     (if vd_isWrite request then do {
        p \<leftarrow> rqn request 0 16;
        p \<leftarrow> foldM vd_clamp [(0, f32_300), (8, f32_400), (4, f32_200), (12, f32_300)] p;
        vd_done response (vd_robot_upd (ptpCoordinateParams_update (\<lambda>_. p)) s) }
      else vd_reply (ptpCoordinateParams (robot s)) response s)"

definition SetPTPJumpParams :: "vd_robot vd_exec" where
  "SetPTPJumpParams request response s =
     (if vd_isWrite request then do {
        p \<leftarrow> rqn request 0 8;
        j \<leftarrow> wr_range (ptpJump2Params (robot s)) 0 (take 4 p @ take 4 p @ drop 4 p);
        vd_done response (vd_robot_upd (\<lambda>w. w\<lparr>ptpJumpParams := p, ptpJump2Params := j\<rparr>) s) }
      else vd_reply (ptpJumpParams (robot s)) response s)"

definition StartPTPCmd :: "vd_robot vd_exec" where
  "StartPTPCmd request response s = do {
     p \<leftarrow> rqn request 0 17;
     vd_done response (vd_robot_upd (\<lambda>w. w\<lparr>ptpCmd := p, gRobotPrfMode := ROBOT_MODE_PLAYBACK\<rparr>) s\<lparr>finishFlag := False\<rparr>) }"

definition JOGCmdSet :: "vd_robot vd_exec" where
  "JOGCmdSet request response s = do {
     isJoint \<leftarrow> rq8 request 0;
     c \<leftarrow> rq8 request 1;
     vd_done response (vd_robot_upd (\<lambda>w. w\<lparr>jogCmd := [isJoint, c],
       gRobotPrfMode := (if isJoint \<noteq> 0 then ROBOT_MODE_SINGLE else ROBOT_MODE_SINGLEXYZ), gSingleMode := c\<rparr>) s) }"

definition ProtocolCPParamsCmd :: "vd_robot vd_exec" where
  "ProtocolCPParamsCmd request response s =
     (if vd_isWrite request then do {
        p \<leftarrow> rqn request 0 13;
        t \<leftarrow> rd8 p 12;
        vd_done response (vd_robot_upd (\<lambda>w. w\<lparr>cpParams := p, gLookAheadParams := p, CP_TrackFlag := t\<rparr>) s) }
      else do {
        p \<leftarrow> wr8 (cpParams (robot s)) 12 (CP_TrackFlag (robot s));
        vd_reply p response (vd_robot_upd (cpParams_update (\<lambda>_. p)) s) })"

definition ProtocolCPRHeadHoldEnableCmd :: "vd_robot vd_exec" where
  "ProtocolCPRHeadHoldEnableCmd request response s =
     (if vd_isWrite request then do {
        b \<leftarrow> rq8 request 0;
        r \<leftarrow> rd_range (gPose (robot s)) 12 4;
        vd_done response (vd_robot_upd (\<lambda>w. w\<lparr>rHeadHoldEnable := (b \<noteq> 0), rHeadValue := r\<rparr>) s) }
      else vd_reply [if rHeadHoldEnable (robot s) then 1 else 0] response s)"

definition ProtocolARCParamsCmd :: "vd_robot vd_exec" where
  "ProtocolARCParamsCmd request response s =
     (if vd_isWrite request then do {
        p \<leftarrow> rqn request 0 16;
        vd_done response (vd_robot_upd (arcParams_update (\<lambda>_. p)) s) }
      else vd_reply (arcParams (robot s)) response s)"

definition ProtocolARCCmdCmd :: "vd_robot vd_exec" where
  "ProtocolARCCmdCmd request response s = do {
     p \<leftarrow> rqn request 0 32;
     vd_done response (vd_robot_upd (\<lambda>w. w\<lparr>arcCmd := p, gRobotPrfMode := ROBOT_MODE_ARC,
       gCircleMove_midPos := take 16 p, gCircleMove_endPos := drop 16 p\<rparr>) s\<lparr>finishFlag := False\<rparr>) }"

definition ProtocolCircleCmdCmd :: "vd_robot vd_exec" where
  "ProtocolCircleCmdCmd request response s = do {
     p \<leftarrow> rqn request 0 36;
     vd_done response (vd_robot_upd (\<lambda>w. w\<lparr>gWholeCircleFlag := 1, circleCmd := p, gRobotPrfMode := ROBOT_MODE_ARC,
       gCircleMove_midPos := take 16 p, gCircleMove_endPos := take 16 (drop 16 p), gCircleCount := drop 32 p\<rparr>) s\<lparr>finishFlag := False\<rparr>) }"

section \<open>Waiting, triggers, inputs and outputs\<close>

definition SetWAITCmdCmd :: "vd_robot vd_exec" where
  "SetWAITCmdCmd request response s = do {
     let s = s\<lparr>wait_initialTick := vd_nowTime s\<rparr>;
     t \<leftarrow> rd32 (vd_payload request) 0;
     vd_done response (s\<lparr>wait_timeout := t\<rparr>) }"

definition ProtocolTRIGCmdCmd :: "vd_robot vd_exec" where
  "ProtocolTRIGCmdCmd request response s = do {
     a \<leftarrow> rq8 request 0;
     m \<leftarrow> rq8 request 1;
     c \<leftarrow> rq8 request 2;
     t \<leftarrow> rqn request 3 2;
     vd_done response (vd_robot_upd (\<lambda>w. w\<lparr>trig_address := a, trig_mode := m, trig_condition := c, trig_threshold := t\<rparr>) s) }"

definition ProtocolIODOCmd :: "vd_robot vd_exec" where
  "ProtocolIODOCmd request response s = do {
     i \<leftarrow> rq8 request 0;
     let s = vd_robot_upd (DOIndex_update (\<lambda>_. i)) s;
     if vd_isWrite request then do {
       b \<leftarrow> rq8 request 1;
       l \<leftarrow> vd_put (DOlevel (robot s)) (unat i) (b \<noteq> 0);
       vd_done response (vd_robot_upd (DOlevel_update (\<lambda>_. l)) s) }
     else do {
       b \<leftarrow> vd_at (DOlevel (robot s)) (unat i);
       vd_reply [i, if b then 1 else 0] response s } }"

definition ProtocolIOPWMCmd :: "vd_robot vd_exec" where
  "ProtocolIOPWMCmd request response s = do {
     i \<leftarrow> rq8 request 0;
     if vd_isWrite request then do {
       let s = vd_robot_upd (\<lambda>w. w\<lparr>gFrontEnd_PWM_Flag := 1, IOPWMIndex := i\<rparr>) s;
       f \<leftarrow> rqn request 1 4;
       fs \<leftarrow> vd_put (IOPWMfreq (robot s)) (unat i) f;
       d \<leftarrow> rqn request 5 4;
       ds \<leftarrow> vd_put (IOPWMduty (robot s)) (unat i) d;
       vd_done response (vd_robot_upd (\<lambda>w. w\<lparr>IOPWMfreq := fs, IOPWMduty := ds\<rparr>) s) }
     else do {
       let s = vd_robot_upd (IOPWMIndex_update (\<lambda>_. i)) s;
       f \<leftarrow> vd_at (IOPWMfreq (robot s)) (unat i);
       d \<leftarrow> vd_at (IOPWMduty (robot s)) (unat i);
       vd_reply (i # f @ d) response s } }"

definition ProtocolIODICmd :: "vd_robot vd_exec" where
  "ProtocolIODICmd request response s = do {
     i \<leftarrow> rq8 request 0;
     l \<leftarrow> vd_put (DIlevel (robot s)) (unat i) 0;
     let s = vd_robot_upd (\<lambda>w. w\<lparr>DIIndex := i, DIlevel := l\<rparr>) s;
     x \<leftarrow> vd_at l (unat i);
     vd_reply [i, x] response s }"

definition ProtocolIOADCCmd :: "vd_robot vd_exec" where
  "ProtocolIOADCCmd request response s =
     (if vd_isWrite request then vd_done response s
      else do {
        i \<leftarrow> rq8 request 0;
        l \<leftarrow> vd_put (AdcValue (robot s)) (unat i) 0;
        x \<leftarrow> vd_at l (unat i);
        vd_reply (i # bytes16 x) response (vd_robot_upd (\<lambda>w. w\<lparr>IOAdcIndex := i, AdcValue := l\<rparr>) s) })"

definition ProtocolIICSensorCmd :: "vd_robot vd_exec" where
  "ProtocolIICSensorCmd request response s = do {
     FuncID \<leftarrow> rq8 request 0;
     IIC_ID \<leftarrow> rq8 request 1;
     SensorType \<leftarrow> rq8 request 2;
     if vd_isWrite request
     then vd_done response (if FuncID = 0 then vd_robot_upd (gFrontEnd_PWM_Flag_update (\<lambda>_. 1)) s else s)
     else if FuncID = 1 then vd_reply [FuncID, IIC_ID, SensorType, 0, 0] response s
     else vd_done response s }"

section \<open>Lost steps, collisions, calibration, tests\<close>

definition SetLostStepValueCmd :: "vd_robot vd_exec" where
  "SetLostStepValueCmd request response s =
     (if vd_isWrite request then do {
        p \<leftarrow> rqn request 0 4;
        vd_done response (vd_robot_upd (LostStepValue_update (\<lambda>_. p)) s) }
      else vd_reply (LostStepValue (robot s)) response s)"

definition CollisionCheckCmd :: "vd_robot vd_exec" where
  "CollisionCheckCmd request response s =
     (if vd_isWrite request then do {
        b \<leftarrow> rq8 request 0;
        p \<leftarrow> rqn request 1 4;
        x \<leftarrow> rd32 p 0;
        vd_done response (vd_robot_upd (\<lambda>w. w\<lparr>gCollisionDetectFlag := b,
          CollisionCheckValue := (if f32_less x f32_8 then bytes32 f32_8 else p)\<rparr>) s) }
      else vd_reply (gCollisionDetectFlag (robot s) # CollisionCheckValue (robot s)) response s)"

text \<open>The answer holds the floating-point numbers 0, 90, 60 and 50.\<close>

definition ProtocolMcuTemperatureCmd :: "vd_robot vd_exec" where
  "ProtocolMcuTemperatureCmd request response s =
     (if vd_isWrite request then vd_done response s
      else vd_reply (bytes32 0 @ bytes32 0x42B40000 @ bytes32 0x42700000 @ bytes32 0x42480000) response s)"

definition ProtocolJointZeroCalCmd :: "vd_robot vd_exec" where
  "ProtocolJointZeroCalCmd request response s =
     (if vd_isWrite request then vd_done response s
      else do { d \<leftarrow> rd_range (gPosZero (robot s)) 0 16; vd_reply d response s })"

text \<open>The flags of the embedded program that the code sets here are local variables without a reader.\<close>

definition ProtocolMagneticCoderCalibStartCmd :: "vd_robot vd_exec" where
  "ProtocolMagneticCoderCalibStartCmd request response s = do {
     Axis_ID \<leftarrow> rq8 request 0;
     if vd_isWrite request then
       (if Axis_ID > 3 then vd_done response s
        else do {
          f \<leftarrow> rq8 request 1;
          let last = (if Axis_ID = 0 then 2 else if Axis_ID = 3 then 3 else 4);
          vd_done response (if 1 \<le> f \<and> f \<le> last then vd_robot_upd (gStepCtrlModeTemp_update (\<lambda>_. f)) s else s) })
     else vd_done response s }"

text \<open>Whatever the calibration mode is, the answer is the number of the axis.\<close>

definition ProtocolMagneticCoderCalibStateGetCmd :: "vd_robot vd_exec" where
  "ProtocolMagneticCoderCalibStateGetCmd request response s =
     (if vd_isWrite request then vd_done response s
      else do {
        Axis_ID \<leftarrow> rq8 request 0;
        if Axis_ID > 4 then vd_done response s
        else do {
          let gAutoLevelingCalFlag = replicate 4 Axis_ID;
          d \<leftarrow> (if Axis_ID \<noteq> 0 \<and> CalibrationMode (robot s) = Axis_ID then rd8 gAutoLevelingCalFlag (unat Axis_ID - 1)
               else Some Axis_ID);
          vd_reply [d] response s } })"

definition ProtocolMakeFSCmd :: "vd_robot vd_exec" where
  "ProtocolMakeFSCmd request response s =
     (if vd_isWrite request then do { c \<leftarrow> rq8 request 0; vd_reply [0] response s }
      else vd_done response s)"

text \<open>
  Functions 1 to 3 set or read an encoder (axes 0 to 2), 4 reads its value (axes 0 to 3). The code
  copies four bytes from the element of the axis of an array of three 16-bit numbers; what it has
  collected is not used, the answer is the first 16 bytes of the request.
\<close>

definition ProtocolMagneticCoderParamsConfigCmd :: "vd_robot vd_exec" where
  "ProtocolMagneticCoderParamsConfigCmd request response s = do {
     Axis_ID \<leftarrow> rq8 request 0;
     Func_ID \<leftarrow> rq8 request 1;
     if vd_isWrite request then vd_done response s
     else if Func_ID \<in> {1, 2, 3} \<and> Axis_ID > 2 then vd_done response s
     else if Func_ID = 4 \<and> Axis_ID > 3 then vd_done response s
     else do {
       v \<leftarrow> (if Func_ID = 4 \<and> Axis_ID < 3 then rd_range (replicate 6 0) (2 * unat Axis_ID) 4 else Some []);
       d \<leftarrow> rqn request 0 16;
       vd_reply d response s } }"

text \<open>Commands whose body does nothing: \<open>ProtocolUpdatePose\<close>, \<open>SetLostStepCmd\<close>, those of identifier 0 and others.\<close>

definition vd_no_op :: "vd_robot vd_exec" where
  "vd_no_op request response s = vd_done response s"

section \<open>Controlling the queue\<close>

definition StartQueueCmd :: "vd_robot vd_exec" where
  "StartQueueCmd request response s =
     vd_done response (vd_robot_upd (\<lambda>w. w\<lparr>planFlag := False, jumPlanFlag := False\<rparr>) s\<lparr>runQueuedCmd := True, finishFlag := True\<rparr>)"

definition StopQueueCmd :: "vd_robot vd_exec" where
  "StopQueueCmd request response s = do {
     let s = s\<lparr>runQueuedCmd := False\<rparr>;
     vd_done response (if queuedCmdType s = QueuedCmdMotionType then vd_robot_upd (stopFinishFlag_update (\<lambda>_. True)) s
       else vd_set_finished True s) }"

definition ForceStopQueueCmd :: "vd_robot vd_exec" where
  "ForceStopQueueCmd request response s =
     vd_done response (vd_robot_upd (\<lambda>w. w\<lparr>planFlag := False, jumPlanFlag := False, stopPlanFlag := False, gRobotPrfMode := ROBOT_MODE_STOP\<rparr>) s
       \<lparr>runQueuedCmd := False, finishFlag := True, gQueuedCmdIsFinished := (\<lambda>_. True)\<rparr>)"

definition StartDownloadQueueCmd :: "vd_robot vd_exec" where
  "StartDownloadQueueCmd request response s = do {
     a \<leftarrow> rqn request 0 4;
     b \<leftarrow> rqn request 4 4;
     vd_done response (vd_robot_upd (\<lambda>w. w\<lparr>isDownloading := (if \<not> runOfflineQueuedCmd w then True else isDownloading w),
       totalLoop := a, linePerLoop := b, offline_writeFlag := True, offline_readFlag := True\<rparr>) s) }"

definition StopDownloadQueueCmd :: "vd_robot vd_exec" where
  "StopDownloadQueueCmd request response s = vd_done response (vd_robot_upd (isDownloading_update (\<lambda>_. False)) s)"

definition ClearQueueCmd :: "vd_robot vd_exec" where
  "ClearQueueCmd request response s = vd_done response (clearQueue (s\<lparr>finishFlag := True\<rparr>))"

definition GetQueueIndexCmd :: "vd_robot vd_exec" where
  "GetQueueIndexCmd request response s = do { index \<leftarrow> getQueueIndex s; vd_reply (bytes64 index) response s }"

definition GetQueueLeftSpaceCmd :: "vd_robot vd_exec" where
  "GetQueueLeftSpaceCmd request response s = vd_reply (bytes64 (getLeftSpace s)) response s"

definition GetRobotRTStatus :: "vd_robot vd_exec" where
  "GetRobotRTStatus request response s =
     (if vd_isWrite request then vd_done response s
      else do {
        currentIndex \<leftarrow> getQueueIndex s;
        let (alarmsState, len) = AlarmSysGetAll (gAlarmSysState (robot s));
        a \<leftarrow> rd_range alarmsState 0 len;
        let currentIndex = (if \<not> QueuedCmdIsFinished s then currentIndex - 1 else currentIndex);
        vd_reply (gPose (robot s) @ a @ bytes64 currentIndex) response s })"

section \<open>The table\<close>

text \<open>The commands register themselves; a later one with the same identifier replaces the earlier one.\<close>

definition vd_registrations :: "(u8 \<times> vd_robot vd_exec) list" where
  "vd_registrations =
     [(7, GetProductName), (10, GetPoseCmd), (20, GetAlarmStatusCmd), (31, HomeCmd), (60, GetEndEffectorParams),
      (64, GetEndEffectorType), (68, GetCfgAndStatus), (69, GetRobotRTStatus), (70, GetJogJointParams),
      (71, GetJogCoordinateParams), (80, SetPTPJointParam), (81, SetPTPCoordinateParam), (82, SetPTPJumpParams),
      (84, StartPTPCmd), (73, JOGCmdSet), (172, CollisionCheckCmd), (240, StartQueueCmd), (241, StopQueueCmd),
      (242, ForceStopQueueCmd), (243, StartDownloadQueueCmd), (244, StopDownloadQueueCmd), (245, ClearQueueCmd),
      (246, GetQueueIndexCmd), (247, GetQueueLeftSpaceCmd), (62, SetEndEffectorSuctionCupCmd),
      (63, SetEndEffectorGripperCmd), (110, SetWAITCmdCmd), (170, SetLostStepValueCmd), (171, vd_no_op),
      (11, ProtocolResetPoseCmd), (12, ProtocolGetKinematicsCmd), (14, vd_no_op), (32, ProtocolAutoLevelingCmd),
      (50, ProtocolArmOrientationCmd), (51, ProtocolStepCtrlModeCmd), (90, ProtocolCPParamsCmd), (0, vd_no_op), (0, vd_no_op),
      (93, ProtocolCPRHeadHoldEnableCmd), (0, vd_no_op), (100, ProtocolARCParamsCmd), (101, ProtocolARCCmdCmd),
      (102, ProtocolCircleCmdCmd), (120, ProtocolTRIGCmdCmd), (0, vd_no_op), (131, ProtocolIODOCmd), (132, ProtocolIOPWMCmd),
      (133, ProtocolIODICmd), (134, ProtocolIOADCCmd), (139, ProtocolIICSensorCmd), (140, vd_no_op), (141, vd_no_op),
      (145, vd_no_op), (0, vd_no_op), (215, ProtocolMcuTemperatureCmd), (224, ProtocolJointZeroCalCmd),
      (225, ProtocolMagneticCoderCalibStartCmd), (226, ProtocolMagneticCoderCalibStateGetCmd), (0, vd_no_op),
      (228, ProtocolMakeFSCmd), (229, ProtocolMagneticCoderParamsConfigCmd), (0, vd_no_op), (0, vd_no_op), (0, vd_no_op),
      (0, vd_no_op), (0, vd_no_op), (0, vd_no_op)]"

definition vd_commands :: "vd_robot vd_cmd_map \<Rightarrow> vd_robot vd_cmd_map" where
  "vd_commands others = fold (\<lambda>(i, c). vd_registerCmd i c) vd_registrations others"

end
