(* ===== verification/VdConduct.thy ===== *)
theory VdConduct imports VdCmds begin

text \<open>
  What the queue and the dispatcher of the software robot rely on: the contract of a set of commands,
  stated as a locale, and the proof that the commands of \<open>cmd.cpp\<close> keep it.
\<close>

section \<open>The contract\<close>

text \<open>
  A command may change the variables of the robot and the flags of the queue, and it may empty the
  queue; it leaves the parser, the running number, the packet that is processed, its kind and the serial port
  alone.
\<close>

definition vd_kept :: "'w vd_slave \<Rightarrow> 'w vd_slave \<Rightarrow> bool" where
  "vd_kept s s' \<longleftrightarrow> vd_parser.truncate s' = vd_parser.truncate s \<and>
     current_proc_packet s' = current_proc_packet s \<and> genIndex s' = genIndex s \<and> currentMSecs s' = currentMSecs s \<and>
     queuedCmdType s' = queuedCmdType s \<and>
     serial_out s' = serial_out s \<and> (msg_queue s' = msg_queue s \<or> msg_queue s' = vd_clean (msg_queue s))"

text \<open>The answer is the given one or has got data of a size that fits; its identifier and preamble stay.\<close>

definition vd_answers :: "vd_packet \<Rightarrow> vd_packet \<Rightarrow> bool" where
  "vd_answers response r \<longleftrightarrow> vd_packet_ok r \<and> (r = response \<or> 2 \<le> vd_hdr_length r \<and> vd_hdr_length r \<le> 250) \<and>
     vd_getID r = vd_getID response \<and> vd_buf r ! 0 = vd_buf response ! 0 \<and> vd_buf r ! 1 = vd_buf response ! 1"

definition vd_fine :: "('w \<Rightarrow> bool) \<Rightarrow> vd_packet \<Rightarrow> 'w vd_slave \<Rightarrow> (bool \<times> vd_packet \<times> 'w vd_slave) option \<Rightarrow> bool" where
  "vd_fine rok response s res \<longleftrightarrow>
     (\<exists>ok r s'. res = Some (ok, r, s') \<and> vd_answers response r \<and> vd_kept s s' \<and> rok (robot s'))"

text \<open>When a command may be executed: \<open>wsafe\<close> looks at the bytes of the packet on the wire only.\<close>

definition vd_request_ok :: "(bytes \<Rightarrow> bool) \<Rightarrow> vd_packet \<Rightarrow> bool" where
  "vd_request_ok wsafe request \<longleftrightarrow> vd_packet_ok request \<and> 2 \<le> vd_hdr_length request \<and> vd_hdr_length request \<le> 250 \<and>
     wsafe (vd_image request) \<and> (vd_isQueue request \<longrightarrow> msg_id request \<noteq> None)"

definition vd_index_ok :: "'w vd_slave \<Rightarrow> bool" where
  "vd_index_ok s \<longleftrightarrow> (\<forall>p. current_proc_packet s = Some p \<longrightarrow> msg_id p \<noteq> None)"

locale vd_command_set =
  fixes cmds :: "'w vd_cmd_map" and rok :: "'w \<Rightarrow> bool" and wsafe :: "bytes \<Rightarrow> bool"
  assumes conduct: "\<lbrakk>vd_findCmd cmds (vd_getID request) = Some exec; vd_request_ok wsafe request; vd_packet_ok response;
     rok (robot s); vd_index_ok s\<rbrakk> \<Longrightarrow> vd_fine rok response s (exec request response s)"

section \<open>The requests the commands are made for\<close>

text \<open>
  \<open>HomeCmd\<close> reads the queue index of its request, which only a queued one has. The commands for inputs
  and outputs use the index in the request without a check; the arrays have 10 and 20 elements. The
  read of the encoder of axis 2 copies behind the end of an array.
\<close>

definition vd_wire_safe :: "bytes \<Rightarrow> bool" where
  "vd_wire_safe p \<longleftrightarrow>
     (p ! 3 = 31 \<longrightarrow> bit (p ! 4) 1) \<and>
     (p ! 3 = 131 \<longrightarrow> p ! 5 < 10) \<and>
     (p ! 3 \<in> {132, 133} \<longrightarrow> p ! 5 < 20) \<and>
     (p ! 3 = 134 \<longrightarrow> bit (p ! 4) 0 \<or> p ! 5 < 20) \<and>
     (p ! 3 = 229 \<longrightarrow> bit (p ! 4) 0 \<or> p ! 5 \<noteq> 2 \<or> 7 \<le> length p \<and> p ! 6 \<noteq> 4)"

section \<open>The commands keep the contract\<close>

named_theorems vd_fine_intros \<open>commands that keep the contract\<close>

lemma vd_payload_length: "vd_packet_ok p \<Longrightarrow> length (vd_payload p) = 251"
  by (simp add: vd_packet_ok_def vd_payload_def)

lemma vd_kept_refl [simp]: "vd_kept s s"
  by (simp add: vd_kept_def)

lemma vd_kept_upd [simp]:
  "vd_kept s (vd_robot_upd f s') = vd_kept s s'" "vd_kept s (s'\<lparr>finishFlag := b\<rparr>) = vd_kept s s'"
  "vd_kept s (s'\<lparr>runQueuedCmd := b\<rparr>) = vd_kept s s'" "vd_kept s (s'\<lparr>gQueuedCmdIsFinished := g\<rparr>) = vd_kept s s'"
  "vd_kept s (s'\<lparr>wait_initialTick := t\<rparr>) = vd_kept s s'" "vd_kept s (s'\<lparr>wait_timeout := t\<rparr>) = vd_kept s s'"
  by (simp_all add: vd_kept_def vd_robot_upd_def vd_parser.defs)

lemma vd_robot_simps [simp]:
  "robot (vd_robot_upd f s) = f (robot s)"
  "finishFlag (vd_robot_upd f s) = finishFlag s" "queuedCmdType (vd_robot_upd f s) = queuedCmdType s"
  by (simp_all add: vd_robot_upd_def)

lemma vd_done_fine:
  "vd_packet_ok response \<Longrightarrow> vd_kept s s' \<Longrightarrow> rok (robot s') \<Longrightarrow> vd_fine rok response s (vd_done response s')"
  by (auto simp: vd_fine_def vd_answers_def vd_done_def)

lemma vd_failed_fine:
  "vd_packet_ok response \<Longrightarrow> vd_kept s s' \<Longrightarrow> rok (robot s') \<Longrightarrow> vd_fine rok response s (Some (False, response, s'))"
  by (auto simp: vd_fine_def vd_answers_def)

lemma vd_reply_fine:
  assumes "vd_packet_ok response" and "length d \<le> 248" and "vd_kept s s'" and "rok (robot s')"
  shows "vd_fine rok response s (vd_reply d response s')"
proof -
  obtain q where q: "vd_setPayload d response = Some q" "vd_packet_ok q" "vd_hdr_length q = length d + 2"
      "vd_getID q = vd_getID response" "vd_buf q ! 0 = vd_buf response ! 0" "vd_buf q ! 1 = vd_buf response ! 1"
    using vd_setPayload_Some [OF assms(1,2)] by blast
  then show ?thesis using assms by (auto simp: vd_fine_def vd_answers_def vd_reply_def)
qed

lemma vd_kept_set_finished [simp]: "vd_kept s (vd_set_finished b s') = vd_kept s s'"
  by (simp add: vd_set_finished_def)

lemma vd_kept_clear: "vd_kept s (clearQueue s)"
  by (simp add: vd_kept_def clearQueue_def vd_parser.defs)

lemma robot_simps [simp]: "robot (clearQueue s) = robot s" "robot (vd_set_finished b s) = robot s"
  by (simp_all add: clearQueue_def vd_set_finished_def)

lemma vd_clamp_Some:
  assumes "length p = n" and "fst c + 4 \<le> n"
  shows "\<exists>q. vd_clamp c p = Some q \<and> length q = n"
  using assms by (cases c) (simp add: vd_clamp_def rd32_Some mem_safe)

lemma vd_clamps_Some:
  assumes "length p = n" and "\<And>c. c \<in> set cs \<Longrightarrow> fst c + 4 \<le> n"
  shows "\<exists>q. foldM vd_clamp cs p = Some q \<and> length q = n"
  by (rule foldM_inv [where I = "\<lambda>p. length p = n"]) (use assms vd_clamp_Some in auto)

lemmas vd_access = mem_safe vd_payload_length rd32_Some

text \<open>The commands that cannot go wrong.\<close>

lemma vd_answer_cmds [vd_fine_intros]:
  assumes "vd_packet_ok request" and "vd_packet_ok response" and "vd_robot_ok (robot s)"
  shows "vd_fine vd_robot_ok response s (GetProductName request response s)"
    "vd_fine vd_robot_ok response s (GetPoseCmd request response s)"
    "vd_fine vd_robot_ok response s (ProtocolResetPoseCmd request response s)"
    "vd_fine vd_robot_ok response s (ProtocolGetKinematicsCmd request response s)"
    "vd_fine vd_robot_ok response s (GetAlarmStatusCmd request response s)"
    "vd_fine vd_robot_ok response s (ProtocolAutoLevelingCmd request response s)"
    "vd_fine vd_robot_ok response s (ProtocolArmOrientationCmd request response s)"
    "vd_fine vd_robot_ok response s (ProtocolStepCtrlModeCmd request response s)"
    "vd_fine vd_robot_ok response s (GetEndEffectorParams request response s)"
    "vd_fine vd_robot_ok response s (GetEndEffectorType request response s)"
    "vd_fine vd_robot_ok response s (SetPTPJumpParams request response s)"
    "vd_fine vd_robot_ok response s (StartPTPCmd request response s)"
    "vd_fine vd_robot_ok response s (JOGCmdSet request response s)"
    "vd_fine vd_robot_ok response s (ProtocolCPParamsCmd request response s)"
    "vd_fine vd_robot_ok response s (ProtocolCPRHeadHoldEnableCmd request response s)"
    "vd_fine vd_robot_ok response s (ProtocolARCParamsCmd request response s)"
    "vd_fine vd_robot_ok response s (ProtocolARCCmdCmd request response s)"
    "vd_fine vd_robot_ok response s (ProtocolCircleCmdCmd request response s)"
  using assms unfolding vd_robot_ok_def
  by (simp_all add: GetProductName_def GetPoseCmd_def ProtocolResetPoseCmd_def ProtocolGetKinematicsCmd_def GetAlarmStatusCmd_def
      ProtocolAutoLevelingCmd_def ProtocolArmOrientationCmd_def ProtocolStepCtrlModeCmd_def GetEndEffectorParams_def
      GetEndEffectorType_def SetPTPJumpParams_def StartPTPCmd_def JOGCmdSet_def ProtocolCPParamsCmd_def
      ProtocolCPRHeadHoldEnableCmd_def ProtocolARCParamsCmd_def ProtocolARCCmdCmd_def ProtocolCircleCmdCmd_def
      vd_access AlarmSysClearAll_def AlarmSysGetAll_def Let_def vd_done_fine vd_reply_fine)


lemma vd_effector_cmds [vd_fine_intros]:
  assumes "vd_packet_ok request" and "vd_packet_ok response" and "vd_robot_ok (robot s)"
  shows "vd_fine vd_robot_ok response s (GetCfgAndStatus request response s)"
    "vd_fine vd_robot_ok response s (SetEndEffectorSuctionCupCmd request response s)"
    "vd_fine vd_robot_ok response s (SetEndEffectorGripperCmd request response s)"
proof -
  have l: "length (gEffectorEnale (robot s)) = 2" "length (gEffectorStatus (robot s)) = 2"
    using assms(3) by (simp_all add: vd_robot_ok_def)
  have e: "\<exists>a b. vd_effector k (robot s) = Some (a, b)" if "k < 2" for k
    using that l by (simp add: vd_effector_def mem_safe)
  show "vd_fine vd_robot_ok response s (GetCfgAndStatus request response s)"
    using e [of 0] e [of 1] assms by (auto simp: GetCfgAndStatus_def intro!: vd_done_fine vd_reply_fine)
  have set: "vd_set_effector k a b t = Some (vd_robot_upd (\<lambda>w. w\<lparr>gEffectorEnale := (gEffectorEnale (robot t))[k := a],
      gEffectorStatus := (gEffectorStatus (robot t))[k := b]\<rparr>) t)"
    if "k < 2" "length (gEffectorEnale (robot t)) = 2" "length (gEffectorStatus (robot t)) = 2" for k a b t
    using that by (simp add: vd_set_effector_def mem_safe)
  show "vd_fine vd_robot_ok response s (SetEndEffectorSuctionCupCmd request response s)"
    using assms unfolding vd_robot_ok_def
    by (simp add: SetEndEffectorSuctionCupCmd_def set vd_access vd_done_fine vd_reply_fine)
  show "vd_fine vd_robot_ok response s (SetEndEffectorGripperCmd request response s)"
    using assms unfolding vd_robot_ok_def
    by (simp add: SetEndEffectorGripperCmd_def set vd_access vd_done_fine vd_reply_fine vd_failed_fine)
qed

lemma vd_clamp_cmds [vd_fine_intros]:
  assumes "vd_packet_ok request" and "vd_packet_ok response" and "vd_robot_ok (robot s)"
  shows "vd_fine vd_robot_ok response s (GetJogJointParams request response s)"
    "vd_fine vd_robot_ok response s (GetJogCoordinateParams request response s)"
    "vd_fine vd_robot_ok response s (SetPTPJointParam request response s)"
    "vd_fine vd_robot_ok response s (SetPTPCoordinateParam request response s)"
    "vd_fine vd_robot_ok response s (CollisionCheckCmd request response s)"
proof -
  let ?joint = "[(0, f32_300), (16, f32_400), (4, f32_300), (20, f32_400), (8, f32_300), (24, f32_400), (12, f32_300), (28, f32_400)]"
  let ?coord = "[(0, f32_300), (8, f32_400), (4, f32_200), (12, f32_300)]"
  let ?d = "\<lambda>n. take n (vd_payload request)"
  have "\<exists>q. foldM vd_clamp ?joint (?d 32) = Some q \<and> length q = 32"
    by (rule vd_clamps_Some) (use assms(1) in \<open>auto simp: vd_payload_length\<close>)
  then obtain q where q: "foldM vd_clamp ?joint (?d 32) = Some q" "length q = 32" by (elim exE conjE)
  have "\<exists>r. foldM vd_clamp ?coord (?d 16) = Some r \<and> length r = 16"
    by (rule vd_clamps_Some) (use assms(1) in \<open>auto simp: vd_payload_length\<close>)
  then obtain r where r: "foldM vd_clamp ?coord (?d 16) = Some r" "length r = 16" by (elim exE conjE)
  note defs = GetJogJointParams_def GetJogCoordinateParams_def SetPTPJointParam_def SetPTPCoordinateParam_def CollisionCheckCmd_def
  show "vd_fine vd_robot_ok response s (GetJogJointParams request response s)"
    "vd_fine vd_robot_ok response s (GetJogCoordinateParams request response s)"
    "vd_fine vd_robot_ok response s (SetPTPJointParam request response s)"
    "vd_fine vd_robot_ok response s (SetPTPCoordinateParam request response s)"
    "vd_fine vd_robot_ok response s (CollisionCheckCmd request response s)"
    using assms q r unfolding vd_robot_ok_def
    by (simp_all add: defs vd_access vd_done_fine vd_reply_fine del: foldM.simps)
qed

lemma vd_misc_cmds [vd_fine_intros]:
  assumes "vd_packet_ok request" and "vd_packet_ok response" and "vd_robot_ok (robot s)"
  shows "vd_fine vd_robot_ok response s (SetWAITCmdCmd request response s)"
    "vd_fine vd_robot_ok response s (ProtocolTRIGCmdCmd request response s)"
    "vd_fine vd_robot_ok response s (ProtocolIICSensorCmd request response s)"
    "vd_fine vd_robot_ok response s (SetLostStepValueCmd request response s)"
    "vd_fine vd_robot_ok response s (ProtocolMcuTemperatureCmd request response s)"
    "vd_fine vd_robot_ok response s (ProtocolJointZeroCalCmd request response s)"
    "vd_fine vd_robot_ok response s (ProtocolMagneticCoderCalibStartCmd request response s)"
    "vd_fine vd_robot_ok response s (ProtocolMakeFSCmd request response s)"
    "vd_fine vd_robot_ok response s (vd_no_op request response s)"
    "vd_fine vd_robot_ok response s (StartQueueCmd request response s)"
    "vd_fine vd_robot_ok response s (StopQueueCmd request response s)"
    "vd_fine vd_robot_ok response s (ForceStopQueueCmd request response s)"
    "vd_fine vd_robot_ok response s (StartDownloadQueueCmd request response s)"
    "vd_fine vd_robot_ok response s (StopDownloadQueueCmd request response s)"
    "vd_fine vd_robot_ok response s (GetQueueLeftSpaceCmd request response s)"
  using assms unfolding vd_robot_ok_def
  by (simp_all add: SetWAITCmdCmd_def ProtocolTRIGCmdCmd_def ProtocolIICSensorCmd_def SetLostStepValueCmd_def
      ProtocolMcuTemperatureCmd_def ProtocolJointZeroCalCmd_def ProtocolMagneticCoderCalibStartCmd_def ProtocolMakeFSCmd_def
      vd_no_op_def StartQueueCmd_def StopQueueCmd_def ForceStopQueueCmd_def StartDownloadQueueCmd_def StopDownloadQueueCmd_def
      GetQueueLeftSpaceCmd_def vd_access Let_def vd_done_fine vd_reply_fine)

lemma vd_clear_cmd [vd_fine_intros]:
  assumes "vd_packet_ok response" and "vd_robot_ok (robot s)"
  shows "vd_fine vd_robot_ok response s (ClearQueueCmd request response s)"
proof -
  have "vd_kept s (clearQueue (s\<lparr>finishFlag := True\<rparr>))" by (simp add: vd_kept_def clearQueue_def vd_parser.defs)
  then show ?thesis using assms by (simp add: ClearQueueCmd_def vd_done_fine)
qed

lemma vd_calib_state_cmd [vd_fine_intros]:
  assumes "vd_packet_ok request" and "vd_packet_ok response" and "vd_robot_ok (robot s)"
  shows "vd_fine vd_robot_ok response s (ProtocolMagneticCoderCalibStateGetCmd request response s)"
proof -
  let ?a = "vd_payload request ! 0"
  have "\<exists>d. (if ?a \<noteq> 0 \<and> CalibrationMode (robot s) = ?a then rd8 (replicate 4 ?a) (unat ?a - 1) else Some ?a) = Some d" if "\<not> 4 < ?a"
  proof (cases "?a = 0")
    case False
    then have "unat ?a - 1 < 4" using that by (simp add: not_less word_le_nat_alt unat_gt_0)
    then show ?thesis by (simp add: mem_safe)
  qed simp
  then show ?thesis
    using assms by (auto simp: ProtocolMagneticCoderCalibStateGetCmd_def vd_access Let_def intro!: vd_done_fine vd_reply_fine)
qed

text \<open>The commands that report the index of the packet that is processed.\<close>

lemma getQueueIndex_Some: "vd_index_ok s \<Longrightarrow> \<exists>i. getQueueIndex s = Some i"
  by (auto simp: getQueueIndex_def vd_index_ok_def split: option.splits)

lemma vd_index_cmds [vd_fine_intros]:
  assumes "vd_packet_ok request" and "vd_packet_ok response" and "vd_robot_ok (robot s)" and "vd_index_ok s"
  shows "vd_fine vd_robot_ok response s (GetQueueIndexCmd request response s)"
    "vd_fine vd_robot_ok response s (GetRobotRTStatus request response s)"
  using getQueueIndex_Some [OF assms(4)] assms
  by (auto simp: GetQueueIndexCmd_def GetRobotRTStatus_def vd_robot_ok_def vd_access AlarmSysGetAll_def Let_def
      intro!: vd_done_fine vd_reply_fine)

text \<open>The commands that are made for some requests only.\<close>

lemma HomeCmd_fine:
  assumes "vd_packet_ok response" and "vd_robot_ok (robot s)" and "msg_id request \<noteq> None"
  shows "vd_fine vd_robot_ok response s (HomeCmd request response s)"
  using assms unfolding vd_robot_ok_def by (auto simp: HomeCmd_def Let_def intro!: vd_reply_fine)

lemma vd_all_update: "\<forall>x \<in> set xs. P x \<Longrightarrow> P y \<Longrightarrow> \<forall>x \<in> set (xs[i := y]). P x"
  by (metis insertE set_update_subset_insert subsetD)

lemma vd_io_cmds:
  assumes "vd_packet_ok request" and "vd_packet_ok response" and "vd_robot_ok (robot s)"
  shows "unat (vd_payload request ! 0) < 10 \<Longrightarrow> vd_fine vd_robot_ok response s (ProtocolIODOCmd request response s)"
    "unat (vd_payload request ! 0) < 20 \<Longrightarrow> vd_fine vd_robot_ok response s (ProtocolIODICmd request response s)"
    "(\<not> vd_isWrite request \<longrightarrow> unat (vd_payload request ! 0) < 20) \<Longrightarrow> vd_fine vd_robot_ok response s (ProtocolIOADCCmd request response s)"
  using assms unfolding vd_robot_ok_def
  by (simp_all add: ProtocolIODOCmd_def ProtocolIODICmd_def ProtocolIOADCCmd_def vd_access vd_at_def vd_put_def
      Let_def vd_done_fine vd_reply_fine)

lemma vd_pwm_cmd:
  assumes "vd_packet_ok request" and "vd_packet_ok response" and "vd_robot_ok (robot s)" and "unat (vd_payload request ! 0) < 20"
  shows "vd_fine vd_robot_ok response s (ProtocolIOPWMCmd request response s)"
proof -
  let ?i = "unat (vd_payload request ! 0)"
  have l: "length (IOPWMfreq (robot s)) = 20" "length (IOPWMduty (robot s)) = 20"
      "\<forall>x \<in> set (IOPWMfreq (robot s)). length x = 4" "\<forall>x \<in> set (IOPWMduty (robot s)). length x = 4"
    using assms(3) by (simp_all add: vd_robot_ok_def)
  have n: "length (IOPWMfreq (robot s) ! ?i) = 4" "length (IOPWMduty (robot s) ! ?i) = 4"
    using l assms(4) by simp_all
  have u: "\<forall>x \<in> set ((IOPWMfreq (robot s))[?i := y]). length x = 4" "\<forall>x \<in> set ((IOPWMduty (robot s))[?i := y]). length x = 4"
    if "length y = 4" for y
    using vd_all_update [OF l(3), of y] vd_all_update [OF l(4), of y] that by blast+
  show ?thesis
  proof (cases "vd_isWrite request")
    case True
    have "vd_robot_ok ((robot s)\<lparr>gFrontEnd_PWM_Flag := g, IOPWMIndex := i, IOPWMfreq := (IOPWMfreq (robot s))[?i := y],
        IOPWMduty := (IOPWMduty (robot s))[?i := z]\<rparr>)" if "length y = 4" "length z = 4" for g i y z
      using assms(3) u(1) [OF that(1)] u(2) [OF that(2)] by (simp add: vd_robot_ok_def)
    then show ?thesis
      using True l(1,2) assms by (simp add: ProtocolIOPWMCmd_def vd_access vd_put_def vd_done_fine)
  next
    case False
    have "vd_robot_ok ((robot s)\<lparr>IOPWMIndex := i\<rparr>)" for i using assms(3) by (simp add: vd_robot_ok_def)
    then show ?thesis
      using False l n assms by (simp add: ProtocolIOPWMCmd_def vd_access vd_at_def vd_reply_fine)
  qed
qed

lemma vd_coder_cmd:
  assumes "vd_packet_ok request" and "vd_packet_ok response" and "vd_robot_ok (robot s)"
    and "vd_isWrite request \<or> vd_payload request ! 0 \<noteq> 2 \<or> vd_payload request ! 1 \<noteq> 4"
  shows "vd_fine vd_robot_ok response s (ProtocolMagneticCoderParamsConfigCmd request response s)"
proof -
  let ?a = "vd_payload request ! 0" and ?f = "vd_payload request ! 1"
  have "\<exists>v. (if ?f = 4 \<and> ?a < 3 then rd_range (replicate 6 0 :: bytes) (2 * unat ?a) 4 else Some []) = Some v" if "\<not> vd_isWrite request"
  proof (cases "?f = 4 \<and> ?a < 3")
    case True
    then have "unat ?a < 3" "unat ?a \<noteq> 2" using assms(4) that by (auto simp: word_less_nat_alt word_unat_eq_iff)
    then have "2 * unat ?a + 4 \<le> 6" by linarith
    then show ?thesis using True by (simp add: mem_safe)
  qed auto
  then show ?thesis
    using assms(1-3) by (auto simp: ProtocolMagneticCoderParamsConfigCmd_def vd_access intro!: vd_done_fine vd_reply_fine)
qed


section \<open>The table\<close>

lemma vd_fold_register:
  "fold (\<lambda>(i, c). vd_registerCmd i c) rs m = m ++ map_of (rev rs)"
proof (induction rs arbitrary: m)
  case (Cons r rs)
  then show ?case by (cases r) (simp add: vd_registerCmd_def map_add_def fun_eq_iff split: option.splits)
qed simp

lemma vd_commands_cases:
  "vd_findCmd (vd_commands others) i = Some exec \<Longrightarrow> (i, exec) \<in> set vd_registrations \<or> others i = Some exec"
  by (auto simp: vd_findCmd_def vd_commands_def vd_fold_register map_add_Some_iff dest: map_of_SomeD)

text \<open>What the image of a packet and its buffer share.\<close>

lemma vd_image_nth:
  "vd_packet_ok p \<Longrightarrow> k < vd_length p \<Longrightarrow> vd_image p ! k = vd_buf p ! k"
  by (simp add: vd_image_def)

lemma vd_payload_nth: "vd_packet_ok p \<Longrightarrow> k < 251 \<Longrightarrow> vd_payload p ! k = vd_buf p ! (k + 5)"
  by (simp add: vd_payload_def vd_packet_ok_def add.commute)

text \<open>The commands that the model does not define are expected to keep the contract, too.\<close>

definition vd_others_fine :: "vd_robot vd_cmd_map \<Rightarrow> bool" where
  "vd_others_fine others \<longleftrightarrow> (\<forall>i exec request response s. others i = Some exec \<longrightarrow> vd_packet_ok request \<longrightarrow> vd_packet_ok response \<longrightarrow>
     vd_robot_ok (robot s) \<longrightarrow> vd_fine vd_robot_ok response s (exec request response s))"

lemma vd_others_fine_none: "vd_others_fine (\<lambda>_. None)"
  by (simp add: vd_others_fine_def)

lemma vd_commands_conduct:
  assumes others: "vd_others_fine others"
    and exec: "vd_findCmd (vd_commands others) (vd_getID request) = Some exec"
    and req: "vd_request_ok vd_wire_safe request" and resp: "vd_packet_ok response"
    and ok: "vd_robot_ok (robot s)" "vd_index_ok s"
  shows "vd_fine vd_robot_ok response s (exec request response s)"
proof -
  have r: "vd_packet_ok request" "2 \<le> vd_hdr_length request" "vd_wire_safe (vd_image request)"
      "vd_isQueue request \<longrightarrow> msg_id request \<noteq> None"
    using req by (simp_all add: vd_request_ok_def)
  have im: "vd_image request ! 3 = vd_getID request" "vd_image request ! 4 = vd_buf request ! 4"
      "vd_image request ! 5 = vd_payload request ! 0"
    using r(1,2) by (simp_all add: vd_image_nth vd_getID_def vd_length_def vd_payload_nth)
  have im6: "vd_image request ! 6 = vd_payload request ! 1" if "7 \<le> length (vd_image request)"
    using r(1) that by (simp add: vd_image_nth vd_payload_nth vd_image_def vd_packet_ok_def)
  have w: "vd_isWrite request = bit (vd_buf request ! 4) 0" "vd_isQueue request = bit (vd_buf request ! 4) 1"
    by (simp_all add: vd_isWrite_def vd_isQueue_def)
  have home: "vd_getID request = 31 \<Longrightarrow> msg_id request \<noteq> None"
    using r(3,4) im w by (simp add: vd_wire_safe_def)
  have io: "vd_getID request = 131 \<Longrightarrow> unat (vd_payload request ! 0) < 10"
      "vd_getID request = 132 \<Longrightarrow> unat (vd_payload request ! 0) < 20"
      "vd_getID request = 133 \<Longrightarrow> unat (vd_payload request ! 0) < 20"
      "vd_getID request = 134 \<Longrightarrow> \<not> vd_isWrite request \<longrightarrow> unat (vd_payload request ! 0) < 20"
    using r(3) im w by (auto simp: vd_wire_safe_def word_less_nat_alt)
  have coder: "vd_getID request = 229 \<Longrightarrow> vd_isWrite request \<or> vd_payload request ! 0 \<noteq> 2 \<or> vd_payload request ! 1 \<noteq> 4"
    using r(3) im im6 w by (auto simp: vd_wire_safe_def)
  from vd_commands_cases [OF exec] show ?thesis
  proof
    assume "(vd_getID request, exec) \<in> set vd_registrations"
    then show ?thesis
      unfolding vd_registrations_def
      by (auto intro!: vd_fine_intros HomeCmd_fine vd_io_cmds vd_pwm_cmd vd_coder_cmd simp: r(1) resp ok io dest: home coder)
  next
    assume "others (vd_getID request) = Some exec"
    then show ?thesis using others r(1) resp ok unfolding vd_others_fine_def by blast
  qed
qed

lemma vd_commands_set: "vd_others_fine others \<Longrightarrow> vd_command_set (vd_commands others) vd_robot_ok vd_wire_safe"
  by (rule vd_command_set.intro) (rule vd_commands_conduct)

interpretation vdc: vd_command_set "vd_commands (\<lambda>_. None)" vd_robot_ok vd_wire_safe
  by (rule vd_commands_set) (rule vd_others_fine_none)

end
