(* ===== verification/VdRun.thy ===== *)
theory VdRun imports VdConduct begin

text \<open>
  The software robot at work: with commands that keep the contract, it answers every request, its
  queue stays consistent, and the timer takes the queued requests one after the other. The lemmas are
  proved for any set of commands in the locale \<open>vd_command_set\<close>; the theorems are about those of
  \<open>cmd.cpp\<close>.
\<close>

section \<open>The invariant\<close>

text \<open>
  The queue: the counter, the semaphore and the list agree, and the requests in it carry consecutive
  numbers, the last of them the number that was given out last.
\<close>

definition vd_queue_ok :: "(bytes \<Rightarrow> bool) \<Rightarrow> 'w vd_slave \<Rightarrow> bool" where
  "vd_queue_ok wsafe s \<longleftrightarrow> (let q = msg_queue s; n = length (q_items q) in
     q_size q = 500 \<and> \<not> is_finished q \<and> q_length q = n \<and> q_sem q = int n \<and> n \<le> 500 \<and>
     (\<forall>p \<in> set (q_items q). vd_request_ok wsafe p \<and> vd_isQueue p) \<and>
     map msg_id (q_items q) = map (\<lambda>k. Some (genIndex s - word_of_nat k)) (rev [0..<n]))"

definition vd_slave_ok :: "('w \<Rightarrow> bool) \<Rightarrow> (bytes \<Rightarrow> bool) \<Rightarrow> bytes \<Rightarrow> 'w vd_slave \<Rightarrow> bool" where
  "vd_slave_ok rok wsafe r s \<longleftrightarrow> vd_received r s \<and> rok (robot s) \<and> vd_index_ok s \<and> vd_queue_ok wsafe s"

text \<open>The packets of a stream that the robot answers, and what an answer to a packet is.\<close>

definition vd_known :: "'w vd_cmd_map \<Rightarrow> bytes \<Rightarrow> bool" where
  "vd_known cmds p \<longleftrightarrow> vd_findCmd cmds (p ! 3) \<noteq> None"

definition vd_requests :: "'w vd_cmd_map \<Rightarrow> bytes \<Rightarrow> bytes list" where
  "vd_requests cmds bs = filter (vd_known cmds) (filter vd_sum_ok (fst (vd_scan bs)))"

definition vd_queued :: "bytes \<Rightarrow> bool" where
  "vd_queued p \<longleftrightarrow> bit (p ! 4) 1"

definition vd_reply_to :: "bytes \<Rightarrow> bytes \<Rightarrow> bool" where
  "vd_reply_to p out \<longleftrightarrow> vd_frame out = Packet (length out) \<and> vd_sum_ok out \<and> hd out = 0xAA \<and> out ! 3 = p ! 3"

section \<open>Small facts\<close>

lemma vd_received_kept: "vd_parser.truncate s' = vd_parser.truncate s \<Longrightarrow> vd_received r s' = vd_received r s"
  by (cases "recv_state s") (simp_all add: vd_received_def vd_parser.defs)

lemma vd_received_upd [simp]:
  "vd_received r (s\<lparr>serial_out := out\<rparr>) = vd_received r s" "vd_received r (s\<lparr>msg_queue := q\<rparr>) = vd_received r s"
  "vd_received r (s\<lparr>genIndex := g\<rparr>) = vd_received r s" "vd_received r (s\<lparr>current_proc_packet := p\<rparr>) = vd_received r s"
  "vd_received r (s\<lparr>queuedCmdType := t\<rparr>) = vd_received r s" "vd_received r (s\<lparr>gQueuedCmdIsFinished := f\<rparr>) = vd_received r s"
  by (rule vd_received_kept, simp add: vd_parser.defs)+

lemma vd_slave_ok_upd [simp]:
  "vd_slave_ok rok wsafe r (s\<lparr>serial_out := out\<rparr>) = vd_slave_ok rok wsafe r s"
  "vd_slave_ok rok wsafe r (s\<lparr>queuedCmdType := t\<rparr>) = vd_slave_ok rok wsafe r s"
  "vd_slave_ok rok wsafe r (s\<lparr>gQueuedCmdIsFinished := f\<rparr>) = vd_slave_ok rok wsafe r s"
  by (simp_all add: vd_slave_ok_def vd_index_ok_def vd_queue_ok_def)

lemma vd_queue_ok_clean:
  "vd_queue_ok wsafe s \<Longrightarrow> msg_queue s' = vd_clean (msg_queue s) \<Longrightarrow> vd_queue_ok wsafe s'"
  by (simp add: vd_queue_ok_def vd_clean_def vd_sem_clear_def Let_def)

lemma vd_slave_ok_kept:
  assumes "vd_slave_ok rok wsafe r s" and k: "vd_kept s s'" and "rok (robot s')"
  shows "vd_slave_ok rok wsafe r s'" and "length (q_items (msg_queue s')) \<le> length (q_items (msg_queue s))"
proof -
  have "vd_received r s'" using assms(1) k vd_received_kept [of s' s r] by (simp add: vd_slave_ok_def vd_kept_def)
  moreover have "vd_index_ok s'" using assms(1) k by (simp add: vd_slave_ok_def vd_kept_def vd_index_ok_def)
  moreover have "vd_queue_ok wsafe s'"
  proof (cases "msg_queue s' = msg_queue s")
    case True
    then show ?thesis using assms(1) k by (simp add: vd_slave_ok_def vd_kept_def vd_queue_ok_def)
  next
    case False
    then have "msg_queue s' = vd_clean (msg_queue s)" using k by (simp add: vd_kept_def)
    then show ?thesis using assms(1) vd_queue_ok_clean by (auto simp: vd_slave_ok_def)
  qed
  ultimately show "vd_slave_ok rok wsafe r s'" using assms(3) by (simp add: vd_slave_ok_def)
  show "length (q_items (msg_queue s')) \<le> length (q_items (msg_queue s))"
    using k by (auto simp: vd_kept_def vd_clean_def)
qed

lemma vd_frame_length: "vd_frame p = Packet (length p) \<Longrightarrow> 3 \<le> length p \<and> length p = unat (p ! 2) + 4 \<and> p ! 1 = 0xAA \<and>
   2 \<le> unat (p ! 2) \<and> unat (p ! 2) \<le> 250"
  by (auto simp: vd_frame_def not_less word_le_nat_alt split: if_splits)

text \<open>A packet in the receive buffer, as a \<open>Packet\<close>.\<close>

lemma vd_packet_of_buffer:
  assumes p: "vd_frame p = Packet (length p)" "hd p = 0xAA" and buf: "length buf = 256" "take (length p) buf = p"
    and q: "vd_buf q = buf"
  shows "vd_packet_ok q" "vd_hdr_length q = unat (p ! 2)" "vd_image q = p" "vd_getID q = p ! 3" "vd_isQueue q = vd_queued p"
    "vd_buf q ! 0 = 0xAA" "vd_buf q ! 1 = 0xAA" "vd_isWrite q = bit (p ! 4) 0"
proof -
  note f = vd_frame_length [OF p(1)]
  have n: "buf ! k = p ! k" if "k < length p" for k using that buf(2) by (metis nth_take)
  show "vd_packet_ok q" using buf by (simp add: q vd_packet_ok_def)
  show h: "vd_hdr_length q = unat (p ! 2)" using f n by (simp add: q vd_hdr_length_def)
  show "vd_image q = p" using f buf by (simp add: vd_image_def vd_length_def h) (simp add: q)
  show "vd_getID q = p ! 3" "vd_isQueue q = vd_queued p" "vd_buf q ! 1 = 0xAA" "vd_isWrite q = bit (p ! 4) 0"
    using f n by (simp_all add: q vd_getID_def vd_isQueue_def vd_queued_def vd_isWrite_def)
  have "p \<noteq> []" using f by auto
  then show "vd_buf q ! 0 = 0xAA" using f n [of 0] p(2) by (simp add: q hd_conv_nth)
qed

text \<open>What \<open>packetProc\<close> sends when the answer is ready.\<close>

lemma vd_send_Some:
  assumes "vd_packet_ok r" and "2 \<le> vd_hdr_length r" and "vd_hdr_length r \<le> 250" and "vd_buf r ! 0 = 0xAA" and "vd_buf r ! 1 = 0xAA"
  shows "\<exists>t out. vd_serialize r = Some t \<and> rd_range (vd_buf t) 0 (vd_length t) = Some out \<and> vd_frame out = Packet (length out) \<and>
    vd_sum_ok out \<and> hd out = 0xAA \<and> out ! 3 = vd_getID r \<and> length out = vd_hdr_length r + 4 \<and>
    take (vd_hdr_length r + 3) out = take (vd_hdr_length r + 3) (vd_buf r)"
proof -
  obtain t where t: "vd_serialize r = Some t" using vd_serialize_Some [OF assms(1-3)] by blast
  note ser = vd_serialized [OF assms(1-5) t]
  have "vd_image t ! 3 = take (vd_hdr_length r + 3) (vd_image t) ! 3" using assms(2) by simp
  also have "\<dots> = vd_getID r" unfolding ser(5) using assms(2) by (simp add: vd_getID_def)
  finally have "vd_image t ! 3 = vd_getID r" .
  moreover have "rd_range (vd_buf t) 0 (vd_length t) = Some (vd_image t)"
    using ser(4,6) assms(3) by (simp add: vd_image_def vd_packet_ok_def mem_safe)
  ultimately show ?thesis using t ser by auto
qed


section \<open>One packet\<close>

context vd_command_set
begin

lemma packetProc_direct:
  assumes ok: "vd_slave_ok rok wsafe [] s" and p: "vd_frame p = Packet (length p)" "hd p = 0xAA" "wsafe p" "\<not> vd_queued p"
    and buf: "length buf = 256" "take (length p) buf = p" and exec: "vd_findCmd cmds (p ! 3) = Some exec"
  shows "\<exists>s' out. packetProc cmds buf s = Some s' \<and> vd_slave_ok rok wsafe [] s' \<and> serial_out s' = serial_out s @ [out] \<and>
    vd_reply_to p out \<and> length (q_items (msg_queue s')) \<le> length (q_items (msg_queue s))"
proof -
  let ?q = "\<lparr>vd_buf = buf, msg_id = None\<rparr>"
  note q = vd_packet_of_buffer [OF p(1,2) buf, of ?q, OF vd_packet.select_convs(1)]
  have copy: "vd_Packet_copy buf = Some ?q" using buf(1) by (simp add: vd_Packet_copy_def mem_safe)
  have e: "vd_packet_ok vd_Packet_empty" by (simp add: vd_packet_ok_def vd_Packet_empty_def)
  obtain r where r: "vd_init ?q vd_Packet_empty = Some r" "vd_packet_ok r" "vd_hdr_length r = 2" "vd_getID r = vd_getID ?q"
      "vd_buf r ! 0 = vd_buf ?q ! 0" "vd_buf r ! 1 = vd_buf ?q ! 1"
    using vd_init_Some [OF q(1) e] by blast
  have req: "vd_request_ok wsafe ?q"
    using q p(3,4) vd_frame_length [OF p(1)] by (simp add: vd_request_ok_def)
  have find: "vd_findCmd cmds (vd_getID ?q) = Some exec" using exec q(4) by simp
  have "vd_fine rok r s (exec ?q r s)"
    by (rule conduct) (use find req r(2) ok in \<open>auto simp: vd_slave_ok_def\<close>)
  then obtain b r' s' where x: "exec ?q r s = Some (b, r', s')" "vd_answers r r'" "vd_kept s s'" "rok (robot s')"
    unfolding vd_fine_def by blast
  have r': "vd_packet_ok r'" "2 \<le> vd_hdr_length r'" "vd_hdr_length r' \<le> 250" "vd_buf r' ! 0 = 0xAA" "vd_buf r' ! 1 = 0xAA"
      "vd_getID r' = p ! 3"
    using x(2) r q by (auto simp: vd_answers_def)
  obtain t out where t: "vd_serialize r' = Some t" "rd_range (vd_buf t) 0 (vd_length t) = Some out"
      "vd_frame out = Packet (length out)" "vd_sum_ok out" "hd out = 0xAA" "out ! 3 = vd_getID r'"
    using vd_send_Some [OF r'(1-5)] by blast
  let ?s = "s'\<lparr>serial_out := serial_out s' @ [out]\<rparr>"
  have "packetProc cmds buf s = Some ?s"
    using copy find r(1) q(5) p(4) x(1) t(1,2) by (simp add: packetProc_def)
  moreover have "vd_slave_ok rok wsafe [] ?s"
    using vd_slave_ok_kept(1) [OF ok x(3,4)] by simp
  moreover have "serial_out ?s = serial_out s @ [out]" using x(3) by (simp add: vd_kept_def)
  moreover have "vd_reply_to p out" using t r'(6) by (simp add: vd_reply_to_def)
  ultimately show ?thesis using vd_slave_ok_kept(2) [OF ok x(3,4)] by (intro exI [of _ ?s] exI [of _ out]) simp
qed

end

text \<open>A request with the queue flag is put into the queue, whatever its command is.\<close>

lemma vd_push_Some:
  "vd_queue_ok wsafe s \<Longrightarrow> length (q_items (msg_queue s)) < 500 \<Longrightarrow>
   vd_push m (msg_queue s) = Inr (msg_queue s\<lparr>q_items := q_items (msg_queue s) @ [m],
     q_length := length (q_items (msg_queue s)) + 1, q_sem := int (length (q_items (msg_queue s)) + 1)\<rparr>)"
  by (simp add: vd_push_def vd_queue_ok_def vd_sem_post_def Let_def)

lemma vd_numbers_snoc:
  assumes "map msg_id qs = map (\<lambda>k. Some (g - word_of_nat k)) (rev [0..<length qs])" and "msg_id m = Some (g + 1)"
  shows "map msg_id (qs @ [m]) = map (\<lambda>k. Some (g + 1 - word_of_nat k)) (rev [0..<Suc (length qs)])"
proof -
  have r: "rev [0..<Suc n] = map Suc (rev [0..<n]) @ [0]" for n
    by (simp only: upt_conv_Cons [OF zero_less_Suc] rev.simps map_Suc_upt [symmetric] rev_map)
  have "map (\<lambda>k. Some (g + 1 - word_of_nat k)) (map Suc (rev [0..<length qs])) = map (\<lambda>k. Some (g - word_of_nat k)) (rev [0..<length qs])"
    unfolding map_map by (rule map_cong) simp_all
  then show ?thesis using assms unfolding r by simp
qed

lemma packetProc_queued:
  assumes ok: "vd_slave_ok rok wsafe [] s" and p: "vd_frame p = Packet (length p)" "hd p = 0xAA" "wsafe p" "vd_queued p"
    and buf: "length buf = 256" "take (length p) buf = p" and exec: "vd_findCmd cmds (p ! 3) = Some exec"
    and room: "length (q_items (msg_queue s)) < 500"
  shows "\<exists>s' out m. packetProc cmds buf s = Some s' \<and> vd_slave_ok rok wsafe [] s' \<and> serial_out s' = serial_out s @ [out] \<and>
    vd_reply_to p out \<and> length out = 14 \<and> take 8 (drop 5 out) = bytes64 (genIndex s + 1) \<and>
    q_items (msg_queue s') = q_items (msg_queue s) @ [m] \<and> vd_image m = p \<and> msg_id m = Some (genIndex s + 1) \<and>
    genIndex s' = genIndex s + 1 \<and> robot s' = robot s \<and> vd_packet_ok m \<and> finishFlag s' = finishFlag s \<and>
    runQueuedCmd s' = runQueuedCmd s \<and> queuedCmdType s' = queuedCmdType s \<and> gQueuedCmdIsFinished s' = gQueuedCmdIsFinished s"
proof -
  let ?q = "\<lparr>vd_buf = buf, msg_id = None\<rparr>" and ?i = "genIndex s + 1"
  let ?m = "\<lparr>vd_buf = buf, msg_id = Some ?i\<rparr>"
  note q = vd_packet_of_buffer [OF p(1,2) buf, of ?q, OF vd_packet.select_convs(1)]
  note m = vd_packet_of_buffer [OF p(1,2) buf, of ?m, OF vd_packet.select_convs(1)]
  have copy: "vd_Packet_copy buf = Some ?q" using buf(1) by (simp add: vd_Packet_copy_def mem_safe)
  have e: "vd_packet_ok vd_Packet_empty" by (simp add: vd_packet_ok_def vd_Packet_empty_def)
  obtain r where r: "vd_init ?q vd_Packet_empty = Some r" "vd_packet_ok r" "vd_hdr_length r = 2" "vd_getID r = vd_getID ?q"
      "vd_buf r ! 0 = vd_buf ?q ! 0" "vd_buf r ! 1 = vd_buf ?q ! 1"
    using vd_init_Some [OF q(1) e] by blast
  obtain r' where r': "vd_setPayload (bytes64 ?i) r = Some r'" "vd_packet_ok r'" "vd_hdr_length r' = 10" "vd_getID r' = p ! 3"
      "vd_buf r' ! 0 = 0xAA" "vd_buf r' ! 1 = 0xAA" "take 8 (vd_payload r') = bytes64 ?i"
    using vd_setPayload_Some [OF r(2), of "bytes64 ?i"] r q by auto
  obtain t out where t: "vd_serialize r' = Some t" "rd_range (vd_buf t) 0 (vd_length t) = Some out"
      "vd_frame out = Packet (length out)" "vd_sum_ok out" "hd out = 0xAA" "out ! 3 = vd_getID r'" "length out = 14"
      "take 13 out = take 13 (vd_buf r')"
    using vd_send_Some [OF r'(2) _ _ r'(5,6)] r'(3) by auto
  have qok: "vd_queue_ok wsafe s" using ok by (simp add: vd_slave_ok_def)
  let ?n = "length (q_items (msg_queue s))"
  let ?Q = "msg_queue s\<lparr>q_items := q_items (msg_queue s) @ [?m], q_length := ?n + 1, q_sem := int (?n + 1)\<rparr>"
  let ?s = "s\<lparr>genIndex := ?i, msg_queue := ?Q, serial_out := serial_out s @ [out]\<rparr>"
  have "packetProc cmds buf s = Some ?s"
    using copy exec q(4,5) p(4) r(1) r'(1) t(1,2) vd_push_Some [OF qok room, of ?m]
    by (simp add: packetProc_def genIndexID_def Let_def)
  moreover have "vd_queue_ok wsafe ?s"
  proof -
    have "vd_request_ok wsafe ?m" using m p(3) vd_frame_length [OF p(1)] by (simp add: vd_request_ok_def)
    moreover have "map msg_id (q_items (msg_queue s)) = map (\<lambda>k. Some (genIndex s - word_of_nat k)) (rev [0..<?n])"
      using qok by (simp add: vd_queue_ok_def Let_def)
    from vd_numbers_snoc [OF this, of ?m] have "map msg_id (q_items ?Q) = map (\<lambda>k. Some (?i - word_of_nat k)) (rev [0..<Suc ?n])"
      by (simp del: upt_Suc)
    ultimately show ?thesis using qok room m(5) p(4) by (simp add: vd_queue_ok_def Let_def del: upt_Suc)
  qed
  then have "vd_slave_ok rok wsafe [] ?s"
    using ok by (simp add: vd_slave_ok_def vd_index_ok_def)
  moreover have "take 8 (drop 5 out) = bytes64 ?i"
  proof -
    have "take 8 (drop 5 out) = drop 5 (take 13 out)" by (simp add: drop_take)
    also have "\<dots> = bytes64 ?i" unfolding t(8) using r'(7) by (simp add: drop_take vd_payload_def)
    finally show ?thesis .
  qed
  moreover have "vd_reply_to p out" using t(3-6) r'(4) by (simp add: vd_reply_to_def)
  ultimately show ?thesis using t(7) m(1,3) by (intro exI [of _ ?s] exI [of _ out] exI [of _ ?m]) simp
qed

lemma packetProc_unknown:
  "vd_frame p = Packet (length p) \<Longrightarrow> hd p = 0xAA \<Longrightarrow> length buf = 256 \<Longrightarrow> take (length p) buf = p \<Longrightarrow>
   vd_findCmd cmds (p ! 3) = None \<Longrightarrow> packetProc cmds buf s = Some s"
  using vd_packet_of_buffer(4) [of p buf "\<lparr>vd_buf = buf, msg_id = None\<rparr>"]
  by (simp add: packetProc_def vd_Packet_copy_def mem_safe)


section \<open>A chunk of bytes\<close>

lemma vd_parse_emits: "vd_parse b s = Some (True, s') \<Longrightarrow> recv_state s' = Vd_EOF1"
  by (auto simp: vd_parse_def Let_def split: vd_State.splits if_splits bind_splits)

lemma vd_more_slave:
  fixes s s' :: "'w vd_slave"
  assumes "vd_parser.more s' = vd_parser.more s"
  shows "msg_queue s' = msg_queue s" "robot s' = robot s" "current_proc_packet s' = current_proc_packet s"
    "genIndex s' = genIndex s" "serial_out s' = serial_out s"
  using assms by (cases s; cases s'; simp)+

lemma vd_slave_ok_more:
  assumes "vd_slave_ok rok wsafe r s" and "vd_parser.more s' = vd_parser.more s" and "vd_received r' s'"
  shows "vd_slave_ok rok wsafe r' s'"
  using assms(1,3) vd_more_slave [OF assms(2)]
  by (simp add: vd_slave_ok_def vd_index_ok_def vd_queue_ok_def)

text \<open>The slot that is called for one byte.\<close>

context vd_command_set
begin

lemma vd_recv_byte_ok:
  assumes ok: "vd_slave_ok rok wsafe r s"
    and safe: "\<And>p. p \<in> set (vd_requests cmds (r @ [b])) \<Longrightarrow> wsafe p"
    and room: "length (q_items (msg_queue s)) + length (filter vd_queued (vd_requests cmds (r @ [b]))) \<le> 500"
  shows "\<exists>s' outs. vd_recv_byte cmds b s = Some s' \<and> vd_slave_ok rok wsafe (snd (vd_scan (r @ [b]))) s' \<and>
    serial_out s' = serial_out s @ outs \<and> list_all2 vd_reply_to (vd_requests cmds (r @ [b])) outs \<and>
    length (q_items (msg_queue s')) \<le> length (q_items (msg_queue s)) + length (filter vd_queued (vd_requests cmds (r @ [b])))"
proof -
  obtain e t where t: "vd_parse b s = Some (e, t)" "vd_received (snd (vd_scan (r @ [b]))) t"
      "vd_parser.more t = vd_parser.more s"
      "filter vd_sum_ok (fst (vd_scan (r @ [b]))) = (if e then [take (recv_index t) (recv_buf t)] else [])"
    using vd_parse_step ok unfolding vd_slave_ok_def by blast
  have tok: "vd_slave_ok rok wsafe (snd (vd_scan (r @ [b]))) t" by (rule vd_slave_ok_more [OF ok t(3,2)])
  note same = vd_more_slave [OF t(3)]
  show ?thesis
  proof (cases e)
    case False
    then have "vd_requests cmds (r @ [b]) = []" using t(4) by (simp add: vd_requests_def)
    then show ?thesis using False t(1) tok same by (simp add: vd_recv_byte_def)
  next
    case True
    let ?p = "take (recv_index t) (recv_buf t)"
    have st: "recv_state t = Vd_EOF1" using vd_parse_emits t(1) True by simp
    then have none: "snd (vd_scan (r @ [b])) = []" and len: "length (recv_buf t) = 256"
      using t(2) by (simp_all add: vd_received_def)
    have "?p \<in> set (filter vd_sum_ok (fst (vd_scan (r @ [b]))))" using t(4) True by simp
    then have p: "vd_frame ?p = Packet (length ?p)" "hd ?p = 0xAA"
      using vds.scan_sound [of "r @ [b]"] by auto
    have buf: "take (length ?p) (recv_buf t) = ?p" by (simp add: min_def)
    have run: "vd_recv_byte cmds b s = packetProc cmds (recv_buf t) t" using t(1) True by (simp add: vd_recv_byte_def)
    show ?thesis
    proof (cases "vd_findCmd cmds (?p ! 3)")
      case None
      then have "vd_requests cmds (r @ [b]) = []" using t(4) True by (simp add: vd_requests_def vd_known_def)
      then show ?thesis using run packetProc_unknown [OF p len buf None] tok same by simp
    next
      case (Some exec)
      then have rq: "vd_requests cmds (r @ [b]) = [?p]" using t(4) True by (simp add: vd_requests_def vd_known_def)
      then have w: "wsafe ?p" using safe by simp
      have tok0: "vd_slave_ok rok wsafe [] t" using tok none by simp
      show ?thesis
      proof (cases "vd_queued ?p")
        case False
        then show ?thesis
          using packetProc_direct [OF tok0 p w False len buf Some] run rq none same by fastforce
      next
        case q: True
        then have "length (q_items (msg_queue t)) < 500" using room rq same by simp
        then show ?thesis
          using packetProc_queued [OF tok0 p w q len buf Some] run rq none same q by fastforce
      qed
    qed
  qed
qed

lemma vd_requests_append:
  "vd_requests cmds (r @ b # bs) = vd_requests cmds (r @ [b]) @ vd_requests cmds (snd (vd_scan (r @ [b])) @ bs)"
  using vds.scan_append [of "r @ [b]" bs] by (simp add: vd_requests_def)

lemma readyRecv_ok:
  "\<lbrakk>vd_slave_ok rok wsafe r s; \<And>p. p \<in> set (vd_requests cmds (r @ bs)) \<Longrightarrow> wsafe p;
    length (q_items (msg_queue s)) + length (filter vd_queued (vd_requests cmds (r @ bs))) \<le> 500\<rbrakk> \<Longrightarrow>
   \<exists>s' outs. readyRecv cmds bs s = Some s' \<and> vd_slave_ok rok wsafe (snd (vd_scan (r @ bs))) s' \<and>
     serial_out s' = serial_out s @ outs \<and> list_all2 vd_reply_to (vd_requests cmds (r @ bs)) outs"
proof (induction bs arbitrary: r s)
  case Nil
  have "vd_scan r = ([], r)" using Nil.prems(1) by (intro vd_received_pending) (auto simp: vd_slave_ok_def)
  then show ?case using Nil.prems(1) by (simp add: readyRecv_def vd_requests_def)
next
  case (Cons b bs)
  let ?r = "snd (vd_scan (r @ [b]))"
  note rq = vd_requests_append [of r b bs]
  obtain t o1 where t: "vd_recv_byte cmds b s = Some t" "vd_slave_ok rok wsafe ?r t" "serial_out t = serial_out s @ o1"
      "list_all2 vd_reply_to (vd_requests cmds (r @ [b])) o1"
      "length (q_items (msg_queue t)) \<le> length (q_items (msg_queue s)) + length (filter vd_queued (vd_requests cmds (r @ [b])))"
    using vd_recv_byte_ok [OF Cons.prems(1), of b] Cons.prems(2,3) rq by fastforce
  obtain s' o2 where s': "readyRecv cmds bs t = Some s'" "vd_slave_ok rok wsafe (snd (vd_scan (?r @ bs))) s'"
      "serial_out s' = serial_out t @ o2" "list_all2 vd_reply_to (vd_requests cmds (?r @ bs)) o2"
    using Cons.IH [OF t(2)] Cons.prems(2,3) rq t(5) by fastforce
  have "snd (vd_scan (r @ b # bs)) = snd (vd_scan (?r @ bs))" using vds.scan_append [of "r @ [b]" bs] by simp
  moreover have "readyRecv cmds (b # bs) s = Some s'" using t(1) s'(1) by (simp add: readyRecv_def)
  ultimately show ?case
    using s' t(3,4) rq by (intro exI [of _ s'] exI [of _ "o1 @ o2"]) (simp add: list_all2_appendI)
qed

end

section \<open>The timer\<close>

lemma vd_pop_Some:
  "vd_queue_ok wsafe s \<Longrightarrow> q_items (msg_queue s) = m # ms \<Longrightarrow>
   vd_pop (msg_queue s) = Some (Inr m, msg_queue s\<lparr>q_items := ms, q_length := length ms, q_sem := int (length ms)\<rparr>)"
  by (simp add: vd_pop_def vd_queue_ok_def vd_sem_wait_def Let_def)

lemma vd_queue_ok_pop:
  assumes "vd_queue_ok wsafe s" and "q_items (msg_queue s) = m # ms"
    and "msg_queue s' = msg_queue s\<lparr>q_items := ms, q_length := length ms, q_sem := int (length ms)\<rparr>" and "genIndex s' = genIndex s"
  shows "vd_queue_ok wsafe s'" and "msg_id m = Some (genIndex s - word_of_nat (length ms))"
    and "vd_request_ok wsafe m" and "vd_isQueue m"
  using assms by (auto simp: vd_queue_ok_def Let_def)

text \<open>One call of the timer on a queue that may move takes the oldest request and executes it.\<close>

context vd_command_set
begin

lemma doQueueCmd_ok:
  assumes ok: "vd_slave_ok rok wsafe r s"
  shows "\<exists>s'. doQueueCmd cmds s = Some s' \<and> vd_slave_ok rok wsafe r s' \<and> serial_out s' = serial_out s"
proof -
  have qok: "vd_queue_ok wsafe s" and rok: "rok (robot s)" using ok by (simp_all add: vd_slave_ok_def)
  have len: "q_length (msg_queue s) = length (q_items (msg_queue s))" using qok by (simp add: vd_queue_ok_def Let_def)
  consider "\<not> QueuedCmdIsFinished s" | "QueuedCmdIsFinished s" "\<not> finishFlag s \<or> \<not> runQueuedCmd s \<or> q_items (msg_queue s) = []"
    | m ms where "QueuedCmdIsFinished s" "finishFlag s" "runQueuedCmd s" "q_items (msg_queue s) = m # ms"
    by (cases "q_items (msg_queue s)") blast+
  then show ?thesis
  proof cases
    case 1
    then show ?thesis
      using ok by (simp add: doQueueCmd_def QueuedCmdFinishFlagRefresh_def vd_set_finished_def split: vd_cmd_type.split)
  next
    case 2
    then show ?thesis using ok len by (auto simp: doQueueCmd_def)
  next
    case (3 m ms)
    let ?q = "msg_queue s\<lparr>q_items := ms, q_length := length ms, q_sem := int (length ms)\<rparr>"
    let ?s = "s\<lparr>msg_queue := ?q, current_proc_packet := Some m\<rparr>"
    note pop = vd_pop_Some [OF qok 3(4)] vd_queue_ok_pop [OF qok 3(4), of ?s]
    have sok: "vd_slave_ok rok wsafe r ?s"
      using ok pop by (simp add: vd_slave_ok_def vd_index_ok_def)
    show ?thesis
    proof (cases "vd_findCmd cmds (vd_getID m)")
      case None
      then show ?thesis using 3 len pop(1) sok by (simp add: doQueueCmd_def)
    next
      case (Some exec)
      let ?t = "?s\<lparr>queuedCmdType := QueuedCmdTypeCalc (vd_getID m)\<rparr>"
      have tok: "vd_slave_ok rok wsafe r ?t" using sok by simp
      have e: "vd_packet_ok vd_Packet_empty" by (simp add: vd_packet_ok_def vd_Packet_empty_def)
      have "vd_fine rok vd_Packet_empty ?t (exec m vd_Packet_empty ?t)"
        by (rule conduct) (use Some pop e tok in \<open>auto simp: vd_slave_ok_def\<close>)
      then obtain b r' t' where x: "exec m vd_Packet_empty ?t = Some (b, r', t')" "vd_kept ?t t'" "rok (robot t')"
        unfolding vd_fine_def by blast
      have "doQueueCmd cmds s = Some (QueuedCmdFinishFlagClear t')"
        using 3 len pop(1) Some x(1) by (simp add: doQueueCmd_def)
      moreover have "vd_slave_ok rok wsafe r (QueuedCmdFinishFlagClear t')"
        using vd_slave_ok_kept(1) [OF tok x(2,3)] by (simp add: QueuedCmdFinishFlagClear_def vd_set_finished_def)
      moreover have "serial_out (QueuedCmdFinishFlagClear t') = serial_out s"
        using x(2) by (simp add: QueuedCmdFinishFlagClear_def vd_set_finished_def vd_kept_def)
      ultimately show ?thesis by blast
    qed
  qed
qed

end


section \<open>One packet alone\<close>

lemma vd_frame_prefix:
  assumes "vd_frame p = Packet (length p)" and "0 < k" and "k < length p"
  shows "vd_frame (take k p) = Incomplete"
proof -
  note f = vd_frame_length [OF assms(1)]
  have "\<not> p ! 2 < 2" "\<not> 250 < p ! 2" using f by (simp_all add: word_less_nat_alt)
  then show ?thesis using f assms(2,3) by (simp add: vd_frame_def)
qed

lemma vd_scan_prefix:
  assumes "vd_frame p = Packet (length p)" and "hd p = 0xAA" and "k < length p"
  shows "vd_scan (take k p) = ([], take k p)"
proof (cases k)
  case (Suc j)
  obtain bs where p: "p = 0xAA # bs" using assms(2,3) by (cases p) auto
  have "vd_frame (take k p) = Incomplete" using vd_frame_prefix [OF assms(1) _ assms(3)] Suc by simp
  then show ?thesis by (simp add: Suc p)
qed simp

lemma readyRecv_prefix:
  assumes "vd_received [] s" and p: "vd_frame p = Packet (length p)" "hd p = 0xAA"
  shows "k < length p \<Longrightarrow> \<exists>t. readyRecv cmds (take k p) s = Some t \<and> vd_received (take k p) t \<and> vd_parser.more t = vd_parser.more s"
proof (induction k)
  case 0
  then show ?case using assms(1) by (simp add: readyRecv_def)
next
  case (Suc k)
  then obtain t where t: "readyRecv cmds (take k p) s = Some t" "vd_received (take k p) t" "vd_parser.more t = vd_parser.more s"
    by auto
  have tk: "take (Suc k) p = take k p @ [p ! k]" using Suc.prems by (simp add: take_Suc_conv_app_nth)
  note sc = vd_scan_prefix [OF p Suc.prems, unfolded tk]
  obtain e u where u: "vd_parse (p ! k) t = Some (e, u)" "vd_received (take k p @ [p ! k]) u" "vd_parser.more u = vd_parser.more t"
      "\<not> e"
    using vd_parse_step [OF t(2), of "p ! k"] unfolding sc by (auto split: if_splits)
  have "readyRecv cmds (take (Suc k) p) s = Some u"
    using t(1) u(1,4) unfolding tk readyRecv_def by (simp add: foldM_append vd_recv_byte_def)
  then show ?case using u(2,3) t(3) unfolding tk by simp
qed

text \<open>A packet that arrives when the parser waits for one goes to \<open>packetProc\<close>.\<close>

lemma readyRecv_packet:
  assumes rec: "vd_received [] s" and p: "vd_frame p = Packet (length p)" "hd p = 0xAA" "vd_sum_ok p"
  shows "\<exists>t. vd_received [] t \<and> vd_parser.more t = vd_parser.more s \<and> length (recv_buf t) = 256 \<and>
    take (length p) (recv_buf t) = p \<and> readyRecv cmds p s = packetProc cmds (recv_buf t) t"
proof -
  note f = vd_frame_length [OF p(1)]
  let ?k = "length p - 1"
  have k: "?k < length p" using f by simp
  obtain t where t: "readyRecv cmds (take ?k p) s = Some t" "vd_received (take ?k p) t" "vd_parser.more t = vd_parser.more s"
    using readyRecv_prefix [OF rec p(1,2) k] by blast
  have pk: "p = take ?k p @ [p ! ?k]" using take_Suc_conv_app_nth [OF k] f by simp
  have sc: "vd_scan (take ?k p @ [p ! ?k]) = ([p], [])" using vds.scan_packet [OF p(1,2), of "[]"] pk by simp
  obtain e u where u: "vd_parse (p ! ?k) t = Some (e, u)" "vd_received [] u" "vd_parser.more u = vd_parser.more t"
      "e" "p = take (recv_index u) (recv_buf u)"
    using vd_parse_step [OF t(2), of "p ! ?k"] p(3) unfolding sc by (auto split: if_splits)
  have len: "length (recv_buf u) = 256" using u(2) by (simp add: vd_received_def)
  have "length p = min (recv_index u) 256" using arg_cong [OF u(5), of length] len by simp
  then have "recv_index u = length p" using f by (simp add: min_def split: if_splits)
  then have "take (length p) (recv_buf u) = p" using u(5) by simp
  moreover have "readyRecv cmds p s = packetProc cmds (recv_buf u) u"
    by (subst pk) (use t(1) u(1,4) in \<open>simp add: readyRecv_def foldM_append vd_recv_byte_def split: option.splits\<close>)
  ultimately show ?thesis using u(2,3) t(3) len by auto
qed

end
