(* ===== verification/P2Host.thy ===== *)
theory P2Host imports VdRun "HOL-Library.AList" "HOL-Library.Multiset" "HOL-Library.Sublist" begin

text \<open>
  The side of DobotLink that talks to a Magician: \<open>Protocol2/DP2Packet.cpp\<close>, \<open>DP2Packet.h\<close>,
  \<open>DProtocol2.cpp\<close> and \<open>DProtocol2.h\<close> of \<open>Plugins/MagicDevicePlugin\<close>. Requests come in as JSON, are
  queued, sent when no other request with the same command is under way, sent again when no answer
  comes, and are matched with the answers. How the parameters of the single commands are laid out
  (\<open>DMagicianProtocol.cpp\<close>, \<open>DM1Protocol.cpp\<close>) is an argument.
\<close>

section \<open>Packets\<close>

record PacketCtrl =
  c_rw :: u8
  c_isQueued :: bool
  c_targetType :: u8
  c_slaveid :: u8

definition PacketCtrl_clear :: PacketCtrl where
  "PacketCtrl_clear = \<lparr>c_rw = 0, c_isQueued = False, c_targetType = 0, c_slaveid = 0\<rparr>"

definition setPacketCtrl :: "u8 \<Rightarrow> PacketCtrl" where
  "setPacketCtrl ctrl = \<lparr>c_rw = ctrl AND 1, c_isQueued = (ctrl AND 2 > 0),
     c_targetType = drop_bit 4 (ctrl AND 0x30), c_slaveid = drop_bit 6 (ctrl AND 0xC0)\<rparr>"

definition getPacketCtrl :: "PacketCtrl \<Rightarrow> u8" where
  "getPacketCtrl c =
     (let res = 0;
          res = (if c_rw c > 0 then res OR 1 else res);
          res = (if c_isQueued c then res OR 2 else res);
          res = (if c_targetType c > 0 then res OR 0x10 else res)
      in if c_slaveid c < 4 then res OR push_bit 6 (c_slaveid c) else res)"

definition getTargetType :: "PacketCtrl \<Rightarrow> string" where
  "getTargetType c = (if c_targetType c = 0 then ''Magician/lite'' else ''MagicBox'')"

definition getRWType :: "PacketCtrl \<Rightarrow> string" where
  "getRWType c = (if c_rw c = 0 then ''Read'' else ''Write'')"

record PacketPayload =
  p_cmdID :: u8
  p_ctrl :: PacketCtrl
  p_params :: bytes

definition PacketPayload_clear :: PacketPayload where
  "PacketPayload_clear = \<lparr>p_cmdID = 0, p_ctrl = PacketCtrl_clear, p_params = []\<rparr>"

definition setPacketPayload :: "bytes \<Rightarrow> PacketPayload \<Rightarrow> PacketPayload" where
  "setPacketPayload payload p =
     (case payload of
        c # k # ps \<Rightarrow> p\<lparr>p_cmdID := c, p_ctrl := setPacketCtrl k, p_params := ps\<rparr>
      | _ \<Rightarrow> p)"

definition getPacketPayload :: "PacketPayload \<Rightarrow> bytes" where
  "getPacketPayload p = p_cmdID p # getPacketCtrl (p_ctrl p) # p_params p"

record P2Packet =
  p2_id :: u64
  p2_isEmpty :: bool
  p2_payload :: PacketPayload
  p2_isPrivate :: bool
  p2_deviceType :: string

definition P2Packet_new :: "u64 \<Rightarrow> P2Packet" where
  "P2Packet_new i = \<lparr>p2_id = i, p2_isEmpty = True, p2_payload = PacketPayload_clear, p2_isPrivate = False, p2_deviceType = ''''\<rparr>"

text \<open>\<open>setPacket(QByteArray)\<close>; \<open>data[2]\<close> of a shorter array reads as zero, \<open>mid\<close> takes what is there.\<close>

definition P2_setPacket :: "bytes \<Rightarrow> P2Packet \<Rightarrow> P2Packet" where
  "P2_setPacket dat p =
     (let len = (if 2 < length dat then unat (dat ! 2) else 0)
      in p\<lparr>p2_isEmpty := False, p2_payload := setPacketPayload (take len (drop 3 dat)) (p2_payload p)\<rparr>)"

text \<open>The JSON object of a request; \<open>cmd\<close> may be missing.\<close>

record 'j p2_json =
  j_cmd :: "string option"
  j_isPrivate :: bool
  j_isQueued :: bool
  j_targetType :: string
  j_slaveIndex :: int
  j_params :: 'j

text \<open>\<open>DMagicianProtocol::setPayload\<close> and \<open>DM1Protocol::setPayload\<close>; the flag asks for the second.\<close>

type_synonym 'j p2_set_payload = "bool \<Rightarrow> string \<Rightarrow> 'j \<Rightarrow> PacketPayload \<Rightarrow> bool \<times> PacketPayload"

definition P2_setPacket_json :: "'j p2_set_payload \<Rightarrow> 'j p2_json \<Rightarrow> P2Packet \<Rightarrow> bool \<times> P2Packet" where
  "P2_setPacket_json setPayload obj p =
     (case j_cmd obj of
        None \<Rightarrow> (False, p)
      | Some cmd \<Rightarrow>
          let p = p\<lparr>p2_isPrivate := j_isPrivate obj, p2_isEmpty := False, p2_deviceType := j_targetType obj\<rparr>;
              pl = p2_payload p;
              pl = pl\<lparr>p_ctrl := (p_ctrl pl)\<lparr>c_isQueued := j_isQueued obj\<rparr>\<rparr>
          in if j_targetType obj \<notin> {''Magician'', ''MagicianLite'', ''M1'', ''MagicBox''} then (False, p\<lparr>p2_payload := pl\<rparr>)
             else let pl = pl\<lparr>p_ctrl := (p_ctrl pl)\<lparr>c_targetType := (if j_targetType obj = ''MagicBox'' then 1 else 0),
                        c_slaveid := word_of_int (j_slaveIndex obj)\<rparr>\<rparr>;
                      (ok, pl) = setPayload (j_targetType obj = ''M1'') cmd (j_params obj) pl
                  in (ok, p\<lparr>p2_payload := pl\<rparr>))"

text \<open>\<open>_getCheckSum\<close> and \<open>DProtocol2::_CalcCheckSum\<close> have the same body.\<close>

definition P2_getCheckSum :: "bytes \<Rightarrow> u8" where
  "P2_getCheckSum payload = 0 - fold (\<lambda>t sum. sum + t) payload 0"

definition getPacketData :: "P2Packet \<Rightarrow> bytes" where
  "getPacketData p =
     (let payload = getPacketPayload (p2_payload p)
      in [0xAA, 0xAA, word_of_nat (length payload)] @ payload @ [P2_getCheckSum payload])"

definition getCommondID :: "P2Packet \<Rightarrow> int" where
  "getCommondID p = uint (p_cmdID (p2_payload p))"

text \<open>The first parameter as a signed character; an empty array reads as zero.\<close>

definition getSubID :: "P2Packet \<Rightarrow> int" where
  "getSubID p = (if getCommondID p = 216 then (case p_params (p2_payload p) of [] \<Rightarrow> 0 | b # _ \<Rightarrow> sint b) else 0)"

abbreviation p2_key :: "P2Packet \<Rightarrow> int \<times> int" where
  "p2_key p \<equiv> (getCommondID p, getSubID p)"

section \<open>Requests under way\<close>

text \<open>\<open>P2AsyncPacket\<close>; its timer is running as long as the object lives.\<close>

record p2_async =
  as_packet :: P2Packet
  as_resendTimesMax :: u8
  as_resendTimes :: u8
  as_interval :: u32

definition P2AsyncPacket_new :: "P2Packet \<Rightarrow> u8 \<Rightarrow> u32 \<Rightarrow> p2_async" where
  "P2AsyncPacket_new pak resendMax commTimeout =
     \<lparr>as_packet = pak, as_resendTimesMax = resendMax, as_resendTimes = 0, as_interval = commTimeout\<rparr>"

definition resetTimeout :: "u32 \<Rightarrow> p2_async \<Rightarrow> p2_async" where
  "resetTimeout commTimeout a = a\<lparr>as_interval := commTimeout\<rparr>"

text \<open>The time is over: whether \<open>timeout\<close> is emitted with true, and the counter after it.\<close>

definition P2Async_timeout :: "p2_async \<Rightarrow> bool \<times> p2_async" where
  "P2Async_timeout a = (as_resendTimes a \<le> as_resendTimesMax a, a\<lparr>as_resendTimes := as_resendTimes a + 1\<rparr>)"

abbreviation ERROR_DEVICE_DISCONNECT_FALID :: nat where "ERROR_DEVICE_DISCONNECT_FALID \<equiv> 141"
abbreviation ERROR_COMMUNICATION_TIMEOUT :: nat where "ERROR_COMMUNICATION_TIMEOUT \<equiv> 150"
abbreviation ERROR_COMMUNICATION_BUFFER_FULL :: nat where "ERROR_COMMUNICATION_BUFFER_FULL \<equiv> 151"
abbreviation ERROR_PACKET_JSON :: nat where "ERROR_PACKET_JSON \<equiv> 170"

text \<open>The signals; that of a received packet carries what \<open>getMessage\<close> makes of it.\<close>

datatype p2_signal = SendRaw bytes | RecviceData P2Packet | ErrorOccurred nat u64

text \<open>\<open>DProtocol2\<close>; the hash table is a list of pairs, whose order nothing depends on.\<close>

record p2_host =
  m_sendingList :: "P2Packet list"
  m_timerSendWorker :: bool
  m_resendTimesMax :: u8
  m_commTimeout :: u32
  m_sendingPackets :: "((int \<times> int) \<times> p2_async) list"
  p2_signals :: "p2_signal list"

definition p2_emit :: "p2_signal \<Rightarrow> p2_host \<Rightarrow> p2_host" where
  "p2_emit sig s = s\<lparr>p2_signals := p2_signals s @ [sig]\<rparr>"

definition DProtocol2_new :: p2_host where
  "DProtocol2_new = \<lparr>m_sendingList = [], m_timerSendWorker = True, m_resendTimesMax = 3, m_commTimeout = 400,
     m_sendingPackets = [], p2_signals = []\<rparr>"

definition p2_start :: "p2_host \<Rightarrow> p2_host" where
  "p2_start s = s\<lparr>m_timerSendWorker := True\<rparr>"

definition p2_stop :: "p2_host \<Rightarrow> p2_host" where
  "p2_stop s = s\<lparr>m_timerSendWorker := False, m_sendingPackets := []\<rparr>"

definition p2_setCommPars :: "u8 \<Rightarrow> u32 \<Rightarrow> p2_host \<Rightarrow> p2_host" where
  "p2_setCommPars resendMax commTimeout s =
     s\<lparr>m_resendTimesMax := resendMax, m_commTimeout := commTimeout,
       m_sendingPackets := map (\<lambda>(k, a). (k, resetTimeout commTimeout a)) (m_sendingPackets s)\<rparr>"

definition p2_sendData :: "'j p2_set_payload \<Rightarrow> u64 \<Rightarrow> 'j p2_json \<Rightarrow> bool \<Rightarrow> p2_host \<Rightarrow> bool \<times> p2_host" where
  "p2_sendData setPayload i obj needReply s =
     (if \<not> m_timerSendWorker s then (False, p2_emit (ErrorOccurred ERROR_DEVICE_DISCONNECT_FALID i) s)
      else case P2_setPacket_json setPayload obj (P2Packet_new i) of
        (False, _) \<Rightarrow> (False, p2_emit (ErrorOccurred ERROR_PACKET_JSON i) s)
      | (True, packet) \<Rightarrow>
          if needReply then
            (if length (m_sendingList s) \<ge> 1000 then (False, p2_emit (ErrorOccurred ERROR_COMMUNICATION_BUFFER_FULL i) s)
             else (True, s\<lparr>m_sendingList := m_sendingList s @ [packet]\<rparr>))
          else (True, p2_emit (RecviceData packet) (p2_emit (SendRaw (getPacketData packet)) s)))"

datatype HandleBytesState = HB_OK | TOO_SHORT | CHECKSUM_ERR

text \<open>\<open>handleRawData\<close>: the state, the rest of the bytes and the protocol afterwards.\<close>

definition p2_handleRawData :: "bytes \<Rightarrow> p2_host \<Rightarrow> HandleBytesState \<times> bytes \<times> p2_host" where
  "p2_handleRawData rawData s =
     (if length rawData < 5 then (TOO_SHORT, rawData, s)
      else let len = unat (rawData ! 2) in
        if length rawData < 4 + len then (TOO_SHORT, rawData, s)
        else if rawData ! (3 + len) \<noteq> P2_getCheckSum (take len (drop 3 rawData)) then (CHECKSUM_ERR, rawData, s)
        else let dat = take (4 + len) rawData;
                 rest = drop (4 + len) rawData;
                 r = P2_setPacket dat (P2Packet_new 0);
                 k = p2_key r
             in case map_of (m_sendingPackets s) k of
                  None \<Rightarrow> (HB_OK, rest, s)
                | Some a \<Rightarrow>
                    let r = r\<lparr>p2_id := p2_id (as_packet a), p2_isPrivate := p2_isPrivate (as_packet a),
                          p2_deviceType := p2_deviceType (as_packet a)\<rparr>
                    in (HB_OK, rest, p2_emit (RecviceData r) (s\<lparr>m_sendingPackets := AList.delete k (m_sendingPackets s)\<rparr>)))"

text \<open>The loop of \<open>_PeriodicTaskAsync_slot\<close> and the slot, which the single-shot timer calls.\<close>

primrec p2_send_loop :: "P2Packet list \<Rightarrow> p2_host \<Rightarrow> P2Packet list \<times> p2_host" where
  "p2_send_loop [] s = ([], s)"
| "p2_send_loop (p # ps) s =
     (if map_of (m_sendingPackets s) (p2_key p) \<noteq> None
      then (let (rest, s') = p2_send_loop ps s in (p # rest, s'))
      else let s = p2_emit (SendRaw (getPacketData p)) s
           in p2_send_loop ps (s\<lparr>m_sendingPackets :=
                AList.update (p2_key p) (P2AsyncPacket_new p (m_resendTimesMax s) (m_commTimeout s)) (m_sendingPackets s)\<rparr>))"

definition PeriodicTaskAsync_slot :: "p2_host \<Rightarrow> p2_host" where
  "PeriodicTaskAsync_slot s =
     (let (rest, s) = p2_send_loop (m_sendingList s) s
      in s\<lparr>m_sendingList := rest, m_timerSendWorker := True\<rparr>)"

text \<open>The timer of a request under way has fired: the lambda connected to \<open>timeout\<close>.\<close>

definition p2_timeout :: "int \<times> int \<Rightarrow> p2_host \<Rightarrow> p2_host" where
  "p2_timeout k s =
     (case map_of (m_sendingPackets s) k of
        None \<Rightarrow> s
      | Some a \<Rightarrow>
          (case P2Async_timeout a of
             (True, a') \<Rightarrow> p2_emit (SendRaw (getPacketData (as_packet a))) (s\<lparr>m_sendingPackets := AList.update k a' (m_sendingPackets s)\<rparr>)
           | (False, _) \<Rightarrow> (p2_emit (ErrorOccurred ERROR_COMMUNICATION_TIMEOUT (p2_id (as_packet a))) s)
                \<lparr>m_sendingPackets := AList.delete k (m_sendingPackets s)\<rparr>))"


section \<open>Packets there and back\<close>

definition p2_ctrl_ok :: "PacketCtrl \<Rightarrow> bool" where
  "p2_ctrl_ok c \<longleftrightarrow> c_rw c \<in> {0, 1} \<and> c_targetType c \<in> {0, 1} \<and> c_slaveid c < 4"

lemma getPacketCtrl_roundtrip:
  assumes "p2_ctrl_ok c"
  shows "setPacketCtrl (getPacketCtrl c) = c"
proof -
  have "c_slaveid c = 0 \<or> c_slaveid c = 1 \<or> c_slaveid c = 2 \<or> c_slaveid c = 3"
    using assms by (auto simp: p2_ctrl_ok_def word_less_nat_alt word_unat_eq_iff)
  moreover have "c_rw c = 0 \<or> c_rw c = 1" "c_targetType c = 0 \<or> c_targetType c = 1" using assms by (auto simp: p2_ctrl_ok_def)
  ultimately show ?thesis
    by (cases c; cases "c_isQueued c") (auto simp: setPacketCtrl_def getPacketCtrl_def)
qed

lemma getPacketCtrl_bits:
  "bit (getPacketCtrl c) 0 = (c_rw c > 0)" "bit (getPacketCtrl c) 1 = c_isQueued c"
proof -
  have "\<not> bit (push_bit 6 x :: u8) 0" "\<not> bit (push_bit 6 x :: u8) 1" for x by (simp_all add: bit_push_bit_iff)
  then show "bit (getPacketCtrl c) 0 = (c_rw c > 0)" "bit (getPacketCtrl c) 1 = c_isQueued c"
    by (simp_all add: getPacketCtrl_def Let_def bit_or_iff bit_1_iff)
qed

lemma P2_checkSum: "P2_getCheckSum d = - vd_sum d"
  by (simp add: P2_getCheckSum_def vd_sum_def add.commute)

lemma getPacketData_length [simp]: "length (getPacketData p) = length (p_params (p2_payload p)) + 6"
  by (simp add: getPacketData_def getPacketPayload_def Let_def)

lemma getPacketData_nth:
  "getPacketData p ! 0 = 0xAA" "getPacketData p ! 1 = 0xAA" "getPacketData p ! 2 = word_of_nat (length (p_params (p2_payload p)) + 2)"
  "getPacketData p ! 3 = p_cmdID (p2_payload p)" "getPacketData p ! 4 = getPacketCtrl (p_ctrl (p2_payload p))"
  "drop 3 (getPacketData p) = getPacketPayload (p2_payload p) @ [P2_getCheckSum (getPacketPayload (p2_payload p))]"
  by (simp_all add: getPacketData_def getPacketPayload_def Let_def)

lemma setPacketPayload_get: "p2_ctrl_ok (p_ctrl p) \<Longrightarrow> setPacketPayload (getPacketPayload p) q = p"
  using getPacketCtrl_roundtrip [of "p_ctrl p"] by (cases p; cases q) (simp add: setPacketPayload_def getPacketPayload_def)

lemma u8_of_small: "n < 256 \<Longrightarrow> unat (word_of_nat n :: u8) = n"
  by (simp only: unat_of_nat) simp

lemma getPacketData_frame:
  assumes "length (p_params (p2_payload p)) \<le> 248"
  shows "unat (getPacketData p ! 2) = length (p_params (p2_payload p)) + 2"
    and "vd_frame (getPacketData p) = Packet (length (getPacketData p))" and "vd_sum_ok (getPacketData p)" and "hd (getPacketData p) = 0xAA"
proof -
  let ?d = "getPacketData p"
  note nth = getPacketData_nth [of p]
  show u: "unat (?d ! 2) = length (p_params (p2_payload p)) + 2" unfolding nth(3) by (rule u8_of_small) (use assms in simp)
  then have "\<not> ?d ! 2 < 2" "\<not> 250 < ?d ! 2" using assms by (simp_all add: word_less_nat_alt)
  then show "vd_frame ?d = Packet (length ?d)" using u nth by (simp add: vd_frame_def)
  show "vd_sum_ok ?d" by (simp add: vd_sum_ok_def nth(6) P2_checkSum)
  show "hd ?d = 0xAA" by (simp add: getPacketData_def Let_def)
qed

text \<open>
  C22. A packet with up to 248 bytes of parameters, made by \<open>getPacketData\<close>, is a packet for the
  parser of the robot: its frame is complete and its checksum right. Read by \<open>setPacket\<close> it
  gives back the command, the control bits and the parameters.
\<close>
theorem P2Packet_roundtrip:
  assumes "length (p_params (p2_payload p)) \<le> 248" and "p2_ctrl_ok (p_ctrl (p2_payload p))"
  shows "vd_frame (getPacketData p) = Packet (length (getPacketData p)) \<and> vd_sum_ok (getPacketData p) \<and> hd (getPacketData p) = 0xAA \<and>
    p2_payload (P2_setPacket (getPacketData p) q) = p2_payload p"
proof -
  let ?n = "length (p_params (p2_payload p)) + 2" and ?d = "getPacketData p"
  have "take ?n (drop 3 ?d) = getPacketPayload (p2_payload p)" unfolding getPacketData_nth(6) by (simp add: getPacketPayload_def)
  then have "p2_payload (P2_setPacket ?d q) = p2_payload p"
    using getPacketData_frame(1) [OF assms(1)] setPacketPayload_get [OF assms(2)] by (simp add: P2_setPacket_def Let_def)
  then show ?thesis using getPacketData_frame(2-4) [OF assms(1)] by (intro conjI)
qed

theorem P2Packet_roundtrip_witness:
  "p2_payload (P2_setPacket (getPacketData (P2Packet_new 7\<lparr>p2_payload :=
       \<lparr>p_cmdID = 62, p_ctrl = \<lparr>c_rw = 1, c_isQueued = True, c_targetType = 1, c_slaveid = 3\<rparr>, p_params = [1, 1]\<rparr>\<rparr>)) (P2Packet_new 0))
     = \<lparr>p_cmdID = 62, p_ctrl = \<lparr>c_rw = 1, c_isQueued = True, c_targetType = 1, c_slaveid = 3\<rparr>, p_params = [1, 1]\<rparr>"
  using P2Packet_roundtrip [of "P2Packet_new 7\<lparr>p2_payload :=
     \<lparr>p_cmdID = 62, p_ctrl = \<lparr>c_rw = 1, c_isQueued = True, c_targetType = 1, c_slaveid = 3\<rparr>, p_params = [1, 1]\<rparr>\<rparr>" "P2Packet_new 0"]
  by (simp add: p2_ctrl_ok_def)

section \<open>Every request gets one result\<close>

definition p2_result :: "p2_signal \<Rightarrow> u64 multiset" where
  "p2_result sig = (case sig of RecviceData r \<Rightarrow> {#p2_id r#}
     | ErrorOccurred code i \<Rightarrow> (if code = ERROR_COMMUNICATION_TIMEOUT then {#i#} else {#})
     | SendRaw _ \<Rightarrow> {#})"

definition p2_results :: "p2_host \<Rightarrow> u64 multiset" where
  "p2_results s = (\<Sum>sig \<leftarrow> p2_signals s. p2_result sig)"

definition p2_open :: "p2_host \<Rightarrow> u64 multiset" where
  "p2_open s = mset (map p2_id (m_sendingList s)) + mset (map (p2_id \<circ> as_packet \<circ> snd) (m_sendingPackets s))"

definition p2_host_ok :: "p2_host \<Rightarrow> bool" where
  "p2_host_ok s \<longleftrightarrow> distinct (map fst (m_sendingPackets s)) \<and>
     (\<forall>(k, a) \<in> set (m_sendingPackets s). k = p2_key (as_packet a)) \<and> length (m_sendingList s) \<le> 1000"

lemma p2_emit_simps [simp]:
  "m_sendingList (p2_emit sig s) = m_sendingList s" "m_sendingPackets (p2_emit sig s) = m_sendingPackets s"
  "m_timerSendWorker (p2_emit sig s) = m_timerSendWorker s" "m_resendTimesMax (p2_emit sig s) = m_resendTimesMax s"
  "m_commTimeout (p2_emit sig s) = m_commTimeout s" "p2_signals (p2_emit sig s) = p2_signals s @ [sig]"
  by (simp_all add: p2_emit_def)

lemma p2_results_emit [simp]: "p2_results (p2_emit sig s) = p2_results s + p2_result sig"
  by (simp add: p2_results_def)

text \<open>Removing a key and changing the value of a key, on the multiset of what is stored.\<close>

lemma mset_delete:
  "distinct (map fst xs) \<Longrightarrow> map_of xs k = Some a \<Longrightarrow> mset (map f xs) = mset (map f (AList.delete k xs)) + {#f (k, a)#}"
proof (induction xs)
  case (Cons x xs)
  obtain j b where x: "x = (j, b)" by (cases x)
  show ?case
  proof (cases "j = k")
    case True
    then have "k \<notin> fst ` set xs" using Cons.prems(1) x by simp
    then have "AList.delete k xs = xs" by (simp add: AList.delete_idem)
    then show ?thesis using Cons.prems(2) x True by simp
  next
    case False
    then show ?thesis using Cons x by simp
  qed
qed simp

lemma mset_update:
  "map_of xs k = Some a \<Longrightarrow> f (k, b) = f (k, a) \<Longrightarrow> mset (map f (AList.update k b xs)) = mset (map f xs)"
  by (induction xs) (auto split: if_splits)

lemma update_new: "map_of xs k = None \<Longrightarrow> AList.update k b xs = xs @ [(k, b)]"
  by (induction xs) (auto split: if_splits)

lemma delete_subset: "set (AList.delete k xs) \<subseteq> set xs"
  by (auto simp: AList.delete_eq)

lemma update_subset: "map_of xs k = Some a \<Longrightarrow> set (AList.update k b xs) \<subseteq> insert (k, b) (set xs)"
  by (induction xs) (auto split: if_splits)

text \<open>
  The steps. The indices are the numbers of the requests that were accepted, and of those that were
  under way when the connection was stopped: \<open>stop\<close> forgets them without a result.
\<close>

definition p2_under_way :: "p2_host \<Rightarrow> u64 multiset" where
  "p2_under_way s = mset (map (p2_id \<circ> as_packet \<circ> snd) (m_sendingPackets s))"

inductive p2_run :: "'j p2_set_payload \<Rightarrow> u64 multiset \<Rightarrow> u64 multiset \<Rightarrow> p2_host \<Rightarrow> bool" for mk where
  New: "p2_run mk {#} {#} DProtocol2_new"
| Send: "p2_run mk A D s \<Longrightarrow> p2_sendData mk i obj needReply s = (ok, s') \<Longrightarrow> p2_run mk (if ok then add_mset i A else A) D s'"
| Handle: "p2_run mk A D s \<Longrightarrow> p2_handleRawData raw s = (st, rest, s') \<Longrightarrow> p2_run mk A D s'"
| Period: "p2_run mk A D s \<Longrightarrow> p2_run mk A D (PeriodicTaskAsync_slot s)"
| Timeout: "p2_run mk A D s \<Longrightarrow> p2_run mk A D (p2_timeout k s)"
| SetPars: "p2_run mk A D s \<Longrightarrow> p2_run mk A D (p2_setCommPars m t s)"
| Start: "p2_run mk A D s \<Longrightarrow> p2_run mk A D (p2_start s)"
| Stop: "p2_run mk A D s \<Longrightarrow> p2_run mk A (D + p2_under_way s) (p2_stop s)"

lemma P2_setPacket_json_id: "p2_id (snd (P2_setPacket_json mk obj p)) = p2_id p"
  by (auto simp: P2_setPacket_json_def Let_def split: option.splits prod.splits)

lemma p2_send_loop_spec:
  "p2_send_loop ps s = (rest, s') \<Longrightarrow> distinct (map fst (m_sendingPackets s)) \<Longrightarrow>
   (\<forall>(k, a) \<in> set (m_sendingPackets s). k = p2_key (as_packet a)) \<Longrightarrow>
   \<exists>sent. mset ps = mset sent + mset rest \<and> subseq sent ps \<and> subseq rest ps \<and>
     m_sendingPackets s' = m_sendingPackets s @ map (\<lambda>p. (p2_key p, P2AsyncPacket_new p (m_resendTimesMax s) (m_commTimeout s))) sent \<and>
     p2_signals s' = p2_signals s @ map (SendRaw \<circ> getPacketData) sent \<and>
     distinct (map fst (m_sendingPackets s')) \<and> (\<forall>p \<in> set rest. p2_key p \<in> fst ` set (m_sendingPackets s')) \<and>
     m_sendingList s' = m_sendingList s \<and> m_resendTimesMax s' = m_resendTimesMax s \<and> m_commTimeout s' = m_commTimeout s"
proof (induction ps arbitrary: s rest s')
  case (Cons p ps)
  show ?case
  proof (cases "map_of (m_sendingPackets s) (p2_key p)")
    case None
    let ?a = "P2AsyncPacket_new p (m_resendTimesMax s) (m_commTimeout s)"
    let ?t = "p2_emit (SendRaw (getPacketData p)) s\<lparr>m_sendingPackets := m_sendingPackets s @ [(p2_key p, ?a)]\<rparr>"
    have run: "p2_send_loop ps ?t = (rest, s')" using Cons.prems(1) None by (simp add: Let_def update_new)
    have nw: "p2_key p \<notin> fst ` set (m_sendingPackets s)" using None by (simp add: map_of_eq_None_iff)
    have d: "distinct (map fst (m_sendingPackets ?t))" using Cons.prems(2) nw by simp
    have k: "\<forall>(k, a) \<in> set (m_sendingPackets ?t). k = p2_key (as_packet a)"
      using Cons.prems(3) by (auto simp: P2AsyncPacket_new_def)
    from Cons.IH [OF run d k] obtain sent where sent: "mset ps = mset sent + mset rest" "subseq sent ps" "subseq rest ps"
        "m_sendingPackets s' = m_sendingPackets ?t @ map (\<lambda>p. (p2_key p, P2AsyncPacket_new p (m_resendTimesMax ?t) (m_commTimeout ?t))) sent"
        "p2_signals s' = p2_signals ?t @ map (SendRaw \<circ> getPacketData) sent"
        "distinct (map fst (m_sendingPackets s'))" "\<forall>p \<in> set rest. p2_key p \<in> fst ` set (m_sendingPackets s')"
        "m_sendingList s' = m_sendingList s" "m_resendTimesMax s' = m_resendTimesMax s" "m_commTimeout s' = m_commTimeout s"
      by auto
    then show ?thesis by (intro exI [of _ "p # sent"]) (simp add: list_emb.list_emb_Cons)
  next
    case (Some a)
    obtain rest' where r: "p2_send_loop ps s = (rest', s')" "rest = p # rest'"
      using Cons.prems(1) Some by (auto simp: Let_def split: prod.splits)
    from Cons.IH [OF r(1) Cons.prems(2,3)] obtain sent where sent: "mset ps = mset sent + mset rest'" "subseq sent ps" "subseq rest' ps"
        "m_sendingPackets s' = m_sendingPackets s @ map (\<lambda>p. (p2_key p, P2AsyncPacket_new p (m_resendTimesMax s) (m_commTimeout s))) sent"
        "p2_signals s' = p2_signals s @ map (SendRaw \<circ> getPacketData) sent"
        "distinct (map fst (m_sendingPackets s'))" "\<forall>p \<in> set rest'. p2_key p \<in> fst ` set (m_sendingPackets s')"
        "m_sendingList s' = m_sendingList s" "m_resendTimesMax s' = m_resendTimesMax s" "m_commTimeout s' = m_commTimeout s"
      by auto
    have "p2_key p \<in> fst ` set (m_sendingPackets s)" using Some by (force dest: map_of_SomeD)
    then have "p2_key p \<in> fst ` set (m_sendingPackets s')" unfolding sent(4) by (simp add: image_Un)
    then show ?thesis using sent r(2) by (intro exI [of _ sent]) (simp add: list_emb.list_emb_Cons)
  qed
qed (simp add: split_beta)


text \<open>
  C21. One firing of the timer, with the requests under way stored under their commands: it sends some
  of the queued requests in their order, each under a command that has no other request under way; the
  others stay queued in their order, and each of them waits for a request under way with its command.
\<close>
theorem periodic_task_sends:
  assumes "p2_host_ok s"
  shows "\<exists>sent. mset (m_sendingList s) = mset sent + mset (m_sendingList (PeriodicTaskAsync_slot s)) \<and>
    subseq sent (m_sendingList s) \<and> subseq (m_sendingList (PeriodicTaskAsync_slot s)) (m_sendingList s) \<and>
    p2_signals (PeriodicTaskAsync_slot s) = p2_signals s @ map (SendRaw \<circ> getPacketData) sent \<and>
    distinct (map fst (m_sendingPackets s) @ map p2_key sent) \<and>
    (\<forall>p \<in> set (m_sendingList (PeriodicTaskAsync_slot s)). p2_key p \<in> fst ` set (m_sendingPackets s) \<union> p2_key ` set sent)"
proof -
  obtain rest s' where r: "p2_send_loop (m_sendingList s) s = (rest, s')" by fastforce
  have "distinct (map fst (m_sendingPackets s))" "\<forall>(k, a) \<in> set (m_sendingPackets s). k = p2_key (as_packet a)"
    using assms by (simp_all add: p2_host_ok_def)
  from p2_send_loop_spec [OF r this] obtain sent where sent: "mset (m_sendingList s) = mset sent + mset rest"
      "subseq sent (m_sendingList s)" "subseq rest (m_sendingList s)"
      "m_sendingPackets s' = m_sendingPackets s @ map (\<lambda>p. (p2_key p, P2AsyncPacket_new p (m_resendTimesMax s) (m_commTimeout s))) sent"
      "p2_signals s' = p2_signals s @ map (SendRaw \<circ> getPacketData) sent" "distinct (map fst (m_sendingPackets s'))"
      "\<forall>p \<in> set rest. p2_key p \<in> fst ` set (m_sendingPackets s')"
    by auto
  have keys: "map fst (m_sendingPackets s') = map fst (m_sendingPackets s) @ map p2_key sent" unfolding sent(4) by simp
  have "fst ` set (m_sendingPackets s') = fst ` set (m_sendingPackets s) \<union> p2_key ` set sent"
    using arg_cong [OF keys, of set] by simp
  moreover have "distinct (map fst (m_sendingPackets s) @ map p2_key sent)" using sent(6) unfolding keys .
  moreover have "m_sendingList (PeriodicTaskAsync_slot s) = rest" "p2_signals (PeriodicTaskAsync_slot s) = p2_signals s'"
    using r by (simp_all add: PeriodicTaskAsync_slot_def)
  ultimately show ?thesis using sent(1-3,5,7) by (intro exI [of _ sent]) simp
qed

lemma p2_handle_cases:
  assumes "p2_handleRawData raw s = (st, rest, s')"
  shows "s' = s \<or> (\<exists>k a r. map_of (m_sendingPackets s) k = Some a \<and> p2_id r = p2_id (as_packet a) \<and>
    s' = p2_emit (RecviceData r) (s\<lparr>m_sendingPackets := AList.delete k (m_sendingPackets s)\<rparr>))"
proof (rule disjCI)
  let ?r = "P2_setPacket (take (4 + unat (raw ! 2)) raw) (P2Packet_new 0)"
  assume no: "\<not> (\<exists>k a r. map_of (m_sendingPackets s) k = Some a \<and> p2_id r = p2_id (as_packet a) \<and>
    s' = p2_emit (RecviceData r) (s\<lparr>m_sendingPackets := AList.delete k (m_sendingPackets s)\<rparr>))"
  show "s' = s"
  proof (cases "map_of (m_sendingPackets s) (p2_key ?r)")
    case None
    then show ?thesis using assms by (simp add: p2_handleRawData_def Let_def split: if_splits)
  next
    case (Some a)
    let ?r' = "?r\<lparr>p2_id := p2_id (as_packet a), p2_isPrivate := p2_isPrivate (as_packet a), p2_deviceType := p2_deviceType (as_packet a)\<rparr>"
    have "s' \<noteq> p2_emit (RecviceData ?r') (s\<lparr>m_sendingPackets := AList.delete (p2_key ?r) (m_sendingPackets s)\<rparr>)"
    proof
      assume "s' = p2_emit (RecviceData ?r') (s\<lparr>m_sendingPackets := AList.delete (p2_key ?r) (m_sendingPackets s)\<rparr>)"
      moreover have "p2_id ?r' = p2_id (as_packet a)" by simp
      ultimately show False using no Some by blast
    qed
    then show ?thesis using assms Some by (simp add: p2_handleRawData_def Let_def split: if_splits)
  qed
qed

lemma p2_run_ok: "p2_run mk A D s \<Longrightarrow> p2_host_ok s \<and> A = p2_open s + p2_results s + D"
proof (induction rule: p2_run.induct)
  case New
  then show ?case by (simp add: p2_host_ok_def p2_open_def p2_results_def DProtocol2_new_def)
next
  case (Send A D s i obj needReply ok s')
  obtain b packet where pk: "P2_setPacket_json mk obj (P2Packet_new i) = (b, packet)" by fastforce
  then have "p2_id packet = i" using P2_setPacket_json_id [of mk obj "P2Packet_new i"] by (simp add: P2Packet_new_def)
  then show ?case
    using Send pk
    by (cases b) (auto simp: p2_sendData_def p2_host_ok_def p2_open_def p2_result_def p2_results_def split: if_splits)
next
  case (Handle A D s raw st rest s')
  show ?case
  proof (cases "s' = s")
    case True
    then show ?thesis using Handle.IH by simp
  next
    case False
    then obtain k a r where a: "map_of (m_sendingPackets s) k = Some a" "p2_id r = p2_id (as_packet a)"
        "s' = p2_emit (RecviceData r) (s\<lparr>m_sendingPackets := AList.delete k (m_sendingPackets s)\<rparr>)"
      using p2_handle_cases [OF Handle.hyps(2)] by blast
    have sp: "m_sendingPackets s' = AList.delete k (m_sendingPackets s)" "m_sendingList s' = m_sendingList s"
        "p2_results s' = p2_results s + {#p2_id (as_packet a)#}"
      unfolding a(3) p2_results_def by (simp_all add: p2_result_def a(2))
    have ok: "p2_host_ok s" "A = p2_open s + p2_results s + D" using Handle.IH by simp_all
    have "mset (map (p2_id \<circ> as_packet \<circ> snd) (m_sendingPackets s)) =
        mset (map (p2_id \<circ> as_packet \<circ> snd) (m_sendingPackets s')) + {#p2_id (as_packet a)#}"
      using mset_delete [OF _ a(1), of "p2_id \<circ> as_packet \<circ> snd"] ok(1) sp(1) by (simp add: p2_host_ok_def)
    then have "A = p2_open s' + p2_results s' + D" using ok(2) sp(2,3) by (simp add: p2_open_def)
    moreover have "p2_host_ok s'"
      using ok(1) sp(1,2) delete_subset [of k "m_sendingPackets s"]
      by (auto simp: p2_host_ok_def AList.distinct_delete)
    ultimately show ?thesis by simp
  qed
next
  case (Period A D s)
  obtain rest s' where r: "p2_send_loop (m_sendingList s) s = (rest, s')" by fastforce
  have d: "distinct (map fst (m_sendingPackets s))" "\<forall>(k, a) \<in> set (m_sendingPackets s). k = p2_key (as_packet a)"
      "length (m_sendingList s) \<le> 1000"
    using Period.IH by (simp_all add: p2_host_ok_def)
  from p2_send_loop_spec [OF r d(1,2)] obtain sent where sent: "mset (m_sendingList s) = mset sent + mset rest" "subseq rest (m_sendingList s)"
      "m_sendingPackets s' = m_sendingPackets s @ map (\<lambda>p. (p2_key p, P2AsyncPacket_new p (m_resendTimesMax s) (m_commTimeout s))) sent"
      "p2_signals s' = p2_signals s @ map (SendRaw \<circ> getPacketData) sent" "distinct (map fst (m_sendingPackets s'))"
    by auto
  let ?t = "PeriodicTaskAsync_slot s"
  have t: "m_sendingList ?t = rest" "m_sendingPackets ?t = m_sendingPackets s'" "p2_signals ?t = p2_signals s'"
    using r by (simp_all add: PeriodicTaskAsync_slot_def)
  have "length rest \<le> 1000" using arg_cong [OF sent(1), of size] d(3) by simp
  then have "p2_host_ok ?t"
    using d(2) sent(5) unfolding p2_host_ok_def t by (auto simp: sent(3) P2AsyncPacket_new_def)
  moreover have "p2_results ?t = p2_results s"
    unfolding p2_results_def t sent(4) by (simp add: p2_result_def comp_def)
  moreover have "p2_open ?t = p2_open s"
  proof -
    have "map (p2_id \<circ> as_packet \<circ> snd) (m_sendingPackets s') = map (p2_id \<circ> as_packet \<circ> snd) (m_sendingPackets s) @ map p2_id sent"
      unfolding sent(3) by (simp add: P2AsyncPacket_new_def)
    moreover have "mset (map p2_id (m_sendingList s)) = mset (map p2_id sent) + mset (map p2_id rest)"
      using arg_cong [OF sent(1), of "image_mset p2_id"] by simp
    ultimately show ?thesis unfolding p2_open_def t by simp
  qed
  ultimately show ?case using Period.IH by simp
next
  case (Timeout A D s k)
  show ?case
  proof (cases "map_of (m_sendingPackets s) k")
    case None
    then show ?thesis using Timeout.IH by (simp add: p2_timeout_def)
  next
    case (Some a)
    have ok: "p2_host_ok s" "A = p2_open s + p2_results s + D" using Timeout.IH by simp_all
    have ka: "k = p2_key (as_packet a)" using map_of_SomeD [OF Some] ok(1) by (auto simp: p2_host_ok_def)
    show ?thesis
    proof (cases "as_resendTimes a \<le> as_resendTimesMax a")
      case True
      let ?b = "a\<lparr>as_resendTimes := as_resendTimes a + 1\<rparr>"
      have m: "mset (map (p2_id \<circ> as_packet \<circ> snd) (AList.update k ?b (m_sendingPackets s))) =
          mset (map (p2_id \<circ> as_packet \<circ> snd) (m_sendingPackets s))"
        by (rule mset_update [OF Some]) simp
      have "p2_host_ok (p2_timeout k s)"
        using ok(1) Some True ka update_subset [OF Some, of ?b]
        by (auto simp: p2_timeout_def P2Async_timeout_def p2_host_ok_def AList.distinct_update)
      then show ?thesis
        using ok(2) Some True m by (simp add: p2_timeout_def P2Async_timeout_def p2_open_def p2_results_def p2_result_def)
    next
      case False
      have m: "mset (map (p2_id \<circ> as_packet \<circ> snd) (m_sendingPackets s)) =
          mset (map (p2_id \<circ> as_packet \<circ> snd) (AList.delete k (m_sendingPackets s))) + {#p2_id (as_packet a)#}"
        using mset_delete [OF _ Some, of "p2_id \<circ> as_packet \<circ> snd"] ok(1) by (simp add: p2_host_ok_def)
      have "p2_host_ok (p2_timeout k s)"
        using ok(1) Some False delete_subset [of k "m_sendingPackets s"]
        by (auto simp: p2_timeout_def P2Async_timeout_def p2_host_ok_def AList.distinct_delete)
      then show ?thesis
        using ok(2) Some False m by (simp add: p2_timeout_def P2Async_timeout_def p2_open_def p2_results_def p2_result_def)
    qed
  qed
next
  case (SetPars A D s m t)
  let ?s = "p2_setCommPars m t s"
  have ids: "map (p2_id \<circ> as_packet \<circ> snd) (m_sendingPackets ?s) = map (p2_id \<circ> as_packet \<circ> snd) (m_sendingPackets s)"
    by (simp add: p2_setCommPars_def resetTimeout_def split_beta)
  have keys: "map fst (m_sendingPackets ?s) = map fst (m_sendingPackets s)"
    by (simp add: p2_setCommPars_def split_beta)
  have same: "m_sendingList ?s = m_sendingList s" "p2_results ?s = p2_results s"
    by (simp_all add: p2_setCommPars_def p2_results_def)
  have "\<forall>(k, a) \<in> set (m_sendingPackets ?s). k = p2_key (as_packet a)"
    using SetPars.IH by (auto simp: p2_host_ok_def p2_setCommPars_def resetTimeout_def)
  then show ?case using SetPars.IH unfolding p2_open_def p2_host_ok_def ids keys same by blast
next
  case (Start A D s)
  then show ?case by (simp add: p2_start_def p2_host_ok_def p2_open_def p2_results_def)
next
  case (Stop A D s)
  have "p2_open s + p2_results s = p2_open (p2_stop s) + p2_results (p2_stop s) + p2_under_way s"
    by (simp add: p2_open_def p2_results_def p2_under_way_def p2_stop_def)
  then show ?case using Stop.IH by (simp add: p2_host_ok_def p2_stop_def ac_simps)
qed

text \<open>
  C8. Every request that \<open>sendData\<close> has accepted is either waiting, or under way, or has got exactly one
  result, an answer or the timeout error, with its number, or was under way when the connection was
  stopped; whatever the order of requests, bytes, timers, stops and starts. At most one request with the same
  command is under way, and at most 1000 are waiting.
\<close>
theorem p2_requests_conserved:
  assumes "p2_run mk A D s"
  shows "A = p2_open s + p2_results s + D \<and> distinct (map fst (m_sendingPackets s)) \<and> length (m_sendingList s) \<le> 1000"
  using p2_run_ok [OF assms] by (simp add: p2_host_ok_def)


text \<open>Two requests with the same command: the second waits for the answer of the first.\<close>

definition p2_demo_packet :: "u64 \<Rightarrow> P2Packet" where
  "p2_demo_packet i = P2Packet_new i\<lparr>p2_isEmpty := False, p2_deviceType := ''Magician'',
     p2_payload := \<lparr>p_cmdID = 10, p_ctrl = PacketCtrl_clear, p_params = []\<rparr>\<rparr>"

definition p2_demo_set :: "unit p2_set_payload" where
  "p2_demo_set m1 cmd j pl = (True, pl\<lparr>p_cmdID := 10\<rparr>)"

definition p2_demo_json :: "unit p2_json" where
  "p2_demo_json = \<lparr>j_cmd = Some ''GetPose'', j_isPrivate = False, j_isQueued = False, j_targetType = ''Magician'', j_slaveIndex = 0, j_params = ()\<rparr>"

lemma p2_demo_made: "P2_setPacket_json p2_demo_set p2_demo_json (P2Packet_new i) = (True, p2_demo_packet i)"
  by (simp add: P2_setPacket_json_def p2_demo_json_def p2_demo_set_def p2_demo_packet_def P2Packet_new_def
      PacketPayload_clear_def PacketCtrl_clear_def)

lemma p2_demo_run:
  "p2_run p2_demo_set {#1, 2#} {#} (DProtocol2_new\<lparr>m_sendingList := [p2_demo_packet 1, p2_demo_packet 2]\<rparr>)"
proof -
  have "p2_sendData p2_demo_set 1 p2_demo_json True DProtocol2_new = (True, DProtocol2_new\<lparr>m_sendingList := [p2_demo_packet 1]\<rparr>)"
    by (simp add: p2_sendData_def p2_demo_made DProtocol2_new_def)
  from p2_run.Send [OF p2_run.New this]
  have "p2_run p2_demo_set {#1#} {#} (DProtocol2_new\<lparr>m_sendingList := [p2_demo_packet 1]\<rparr>)" by simp
  moreover have "p2_sendData p2_demo_set 2 p2_demo_json True (DProtocol2_new\<lparr>m_sendingList := [p2_demo_packet 1]\<rparr>) =
      (True, DProtocol2_new\<lparr>m_sendingList := [p2_demo_packet 1, p2_demo_packet 2]\<rparr>)"
    by (simp add: p2_sendData_def p2_demo_made DProtocol2_new_def)
  ultimately have "p2_run p2_demo_set (if True then add_mset 2 {#1#} else {#1#}) {#}
      (DProtocol2_new\<lparr>m_sendingList := [p2_demo_packet 1, p2_demo_packet 2]\<rparr>)" by (rule p2_run.Send)
  then show ?thesis by (simp add: add_mset_commute)
qed

theorem periodic_task_sends_witness:
  "let s = DProtocol2_new\<lparr>m_sendingList := [p2_demo_packet 1, p2_demo_packet 2]\<rparr> in
   \<exists>sent. p2_signals (PeriodicTaskAsync_slot s) = map (SendRaw \<circ> getPacketData) sent \<and> distinct (map p2_key sent) \<and>
     mset sent + mset (m_sendingList (PeriodicTaskAsync_slot s)) = {#p2_demo_packet 1, p2_demo_packet 2#}"
proof -
  let ?s = "DProtocol2_new\<lparr>m_sendingList := [p2_demo_packet 1, p2_demo_packet 2]\<rparr>"
  have "p2_host_ok ?s" by (simp add: p2_host_ok_def DProtocol2_new_def)
  from periodic_task_sends [OF this] show ?thesis by (auto simp: DProtocol2_new_def Let_def)
qed

theorem p2_requests_conserved_witness:
  "let s = p2_stop (PeriodicTaskAsync_slot (DProtocol2_new\<lparr>m_sendingList := [p2_demo_packet 1, p2_demo_packet 2]\<rparr>)) in
   {#1, 2#} = p2_open s + p2_results s + {#1#} \<and> length (m_sendingList s) \<le> 1000"
proof -
  let ?s = "PeriodicTaskAsync_slot (DProtocol2_new\<lparr>m_sendingList := [p2_demo_packet 1, p2_demo_packet 2]\<rparr>)"
  have "p2_under_way ?s = {#1#}"
    by (simp add: p2_under_way_def PeriodicTaskAsync_slot_def DProtocol2_new_def Let_def P2AsyncPacket_new_def p2_demo_packet_def
        P2Packet_new_def getCommondID_def getSubID_def)
  then show ?thesis using p2_requests_conserved [OF p2_run.Stop [OF p2_run.Period [OF p2_demo_run]]] by (simp add: Let_def)
qed

section \<open>Sending again and giving up\<close>

lemma p2_timeout_live:
  "map_of (m_sendingPackets s) k = Some a \<Longrightarrow> as_resendTimes a \<le> as_resendTimesMax a \<Longrightarrow>
   p2_signals (p2_timeout k s) = p2_signals s @ [SendRaw (getPacketData (as_packet a))] \<and>
   map_of (m_sendingPackets (p2_timeout k s)) k = Some (a\<lparr>as_resendTimes := as_resendTimes a + 1\<rparr>)"
  by (simp add: p2_timeout_def P2Async_timeout_def update_Some_unfold)

lemma p2_timeouts_live:
  assumes "map_of (m_sendingPackets s) k = Some a" and "as_resendTimes a = 0"
    and "as_resendTimesMax a = 255 \<or> n \<le> unat (as_resendTimesMax a) + 1"
  shows "p2_signals ((p2_timeout k ^^ n) s) = p2_signals s @ replicate n (SendRaw (getPacketData (as_packet a))) \<and>
    map_of (m_sendingPackets ((p2_timeout k ^^ n) s)) k = Some (a\<lparr>as_resendTimes := word_of_nat n\<rparr>)"
  using assms(3)
proof (induction n)
  case 0
  then show ?case using assms(1,2) by (cases a) simp
next
  case (Suc n)
  let ?b = "a\<lparr>as_resendTimes := word_of_nat n\<rparr>"
  have IH: "p2_signals ((p2_timeout k ^^ n) s) = p2_signals s @ replicate n (SendRaw (getPacketData (as_packet a)))"
      "map_of (m_sendingPackets ((p2_timeout k ^^ n) s)) k = Some ?b"
    using Suc by auto
  have "(word_of_nat n :: u8) \<le> as_resendTimesMax a"
  proof (cases "as_resendTimesMax a = 255")
    case True
    have "unat (word_of_nat n :: u8) \<le> 255" using unat_u8_less [of "word_of_nat n"] by linarith
    then show ?thesis using True by (simp add: word_le_nat_alt)
  next
    case False
    then have "n \<le> unat (as_resendTimesMax a)" using Suc.prems by simp
    moreover have "unat (word_of_nat n :: u8) \<le> n" by (simp only: unat_of_nat) simp
    ultimately show ?thesis by (simp add: word_le_nat_alt)
  qed
  then have "as_resendTimes ?b \<le> as_resendTimesMax ?b" by simp
  from p2_timeout_live [OF IH(2) this] show ?case
    using IH(1) by (simp add: replicate_append_same add.commute)
qed

text \<open>
  C34. A request without an answer is sent again at each of the first \<open>resendTimesMax + 1\<close> timeouts,
  one more than the number that was set; at the next one the error is reported and the request is
  given up. With the greatest number, 255, it is sent again at every timeout for ever.
\<close>
theorem p2_gives_up:
  assumes "map_of (m_sendingPackets s) k = Some a" and "as_resendTimes a = 0" and "n = unat (as_resendTimesMax a) + 1"
  shows "p2_signals ((p2_timeout k ^^ n) s) = p2_signals s @ replicate n (SendRaw (getPacketData (as_packet a))) \<and>
    (if as_resendTimesMax a = 255
     then p2_signals ((p2_timeout k ^^ m) s) = p2_signals s @ replicate m (SendRaw (getPacketData (as_packet a)))
     else p2_signals ((p2_timeout k ^^ Suc n) s) = p2_signals s @ replicate n (SendRaw (getPacketData (as_packet a))) @
            [ErrorOccurred ERROR_COMMUNICATION_TIMEOUT (p2_id (as_packet a))] \<and>
          map_of (m_sendingPackets ((p2_timeout k ^^ Suc n) s)) k = None)"
proof -
  note live = p2_timeouts_live [OF assms(1,2)]
  have n: "p2_signals ((p2_timeout k ^^ n) s) = p2_signals s @ replicate n (SendRaw (getPacketData (as_packet a)))"
      "map_of (m_sendingPackets ((p2_timeout k ^^ n) s)) k = Some (a\<lparr>as_resendTimes := word_of_nat n\<rparr>)"
    using live [of n] assms(3) by auto
  show ?thesis
  proof (cases "as_resendTimesMax a = 255")
    case True
    then show ?thesis using n(1) live [of m] by simp
  next
    case False
    then have "unat (as_resendTimesMax a) \<noteq> 255" by (auto simp: word_unat_eq_iff)
    then have "n < 256" using assms(3) unat_u8_less [of "as_resendTimesMax a"] by linarith
    then have "unat (word_of_nat n :: u8) = n" by (rule u8_of_small)
    then have "\<not> (word_of_nat n :: u8) \<le> as_resendTimesMax a" using assms(3) by (simp add: word_le_nat_alt)
    then show ?thesis
      using False n by (simp add: p2_timeout_def P2Async_timeout_def AList.delete_conv')
  qed
qed

theorem p2_gives_up_witness:
  "let s = DProtocol2_new\<lparr>m_sendingPackets := [((10, 0), P2AsyncPacket_new (p2_demo_packet 1) 3 400)]\<rparr> in
   p2_signals ((p2_timeout (10, 0) ^^ 5) s) = replicate 4 (SendRaw (getPacketData (p2_demo_packet 1))) @ [ErrorOccurred ERROR_COMMUNICATION_TIMEOUT 1]"
proof -
  let ?s = "DProtocol2_new\<lparr>m_sendingPackets := [((10, 0), P2AsyncPacket_new (p2_demo_packet 1) 3 400)]\<rparr>"
  have a: "map_of (m_sendingPackets ?s) (10, 0) = Some (P2AsyncPacket_new (p2_demo_packet 1) 3 400)"
      "as_resendTimes (P2AsyncPacket_new (p2_demo_packet 1) 3 400) = 0" by (simp_all add: P2AsyncPacket_new_def)
  have n: "4 = unat (as_resendTimesMax (P2AsyncPacket_new (p2_demo_packet 1) 3 400)) + 1" by (simp add: P2AsyncPacket_new_def)
  have "Suc 4 = (5 :: nat)" by simp
  moreover have "as_resendTimesMax (P2AsyncPacket_new (p2_demo_packet 1) 3 400) \<noteq> 255" by (simp add: P2AsyncPacket_new_def)
  moreover have "p2_id (as_packet (P2AsyncPacket_new (p2_demo_packet 1) 3 400)) = 1" "as_packet (P2AsyncPacket_new (p2_demo_packet 1) 3 400) = p2_demo_packet 1"
    by (simp_all add: P2AsyncPacket_new_def p2_demo_packet_def P2Packet_new_def)
  moreover have "p2_signals ?s = []" by (simp add: DProtocol2_new_def)
  ultimately show ?thesis
    using p2_gives_up [OF a n] unfolding Let_def by (simp only: if_False append_Nil)
qed

text \<open>
  \<open>stop\<close> leaves the waiting requests in place and forgets those under way without reporting
  anything: after a disconnection and a new connection the first firing of the timer sends the oldest
  request of the old connection.
\<close>
theorem stale_request_after_reconnect:
  assumes "m_sendingList s = p # ps"
  shows "p2_signals (p2_stop s) = p2_signals s \<and> m_sendingPackets (p2_stop s) = [] \<and>
    SendRaw (getPacketData p) \<in> set (drop (length (p2_signals s)) (p2_signals (PeriodicTaskAsync_slot (p2_start (p2_stop s)))))"
proof -
  let ?t = "p2_start (p2_stop s)"
  let ?u = "p2_emit (SendRaw (getPacketData p)) ?t\<lparr>m_sendingPackets := AList.update (p2_key p) (P2AsyncPacket_new p (m_resendTimesMax ?t) (m_commTimeout ?t)) []\<rparr>"
  obtain rest s' where r: "p2_send_loop ps ?u = (rest, s')" by fastforce
  have "distinct (map fst (m_sendingPackets ?u))" "\<forall>(k, a) \<in> set (m_sendingPackets ?u). k = p2_key (as_packet a)"
    by (simp_all add: P2AsyncPacket_new_def)
  from p2_send_loop_spec [OF r this] obtain sent where "p2_signals s' = p2_signals ?u @ map (SendRaw \<circ> getPacketData) sent" by auto
  then have "p2_signals s' = p2_signals s @ SendRaw (getPacketData p) # map (SendRaw \<circ> getPacketData) sent"
    by (simp add: p2_start_def p2_stop_def)
  moreover have "p2_signals (PeriodicTaskAsync_slot ?t) = p2_signals s'"
    using r assms by (simp add: PeriodicTaskAsync_slot_def p2_start_def p2_stop_def Let_def)
  ultimately show ?thesis by (simp add: p2_stop_def)
qed

theorem stale_request_after_reconnect_witness:
  "SendRaw (getPacketData (p2_demo_packet 1)) \<in>
     set (p2_signals (PeriodicTaskAsync_slot (p2_start (p2_stop (DProtocol2_new\<lparr>m_sendingList := [p2_demo_packet 1]\<rparr>)))))"
  using stale_request_after_reconnect [of "DProtocol2_new\<lparr>m_sendingList := [p2_demo_packet 1]\<rparr>" "p2_demo_packet 1" "[]"]
  by (auto simp: DProtocol2_new_def)

end
