(* ===== verification/JsonFields.thy ===== *)
theory JsonFields imports Prelude begin

text \<open>
  The JSON values the answers of the devices become, and the fields of an answer: a copy from a
  place of the payload into a local variable, which is then inserted into an object.
\<close>

section \<open>JSON\<close>

text \<open>
  The values the code inserts. A float is its bits; \<open>JU64\<close> is a number of 64 bits, which Qt keeps as a
  double, \<open>JChars\<close> the text of UTF-8 bytes, \<open>JNumber\<close> what \<open>toInt()\<close> reads in them, \<open>JTime\<close> is the
  text of the time of day that Qt makes of a number of milliseconds, and \<open>JDegrees\<close> the float \<open>(rot / 3.1415926) * 180.0\<close>
  of the bits of \<open>rot\<close>.
\<close>

datatype json_value =
  JInt int | JFloat u32 | JU64 u64 | JBool bool | JStr string | JChars bytes | JNumber bytes | JTime u32 | JDegrees u32
| JArray "json_value list" | JObject "(string \<times> json_value) list"

type_synonym json_object = "(string \<times> json_value) list"

section \<open>Fields\<close>

text \<open>A field of the payload, as the copy into a local variable and its insertion.\<close>

type_synonym json_field = "bytes \<Rightarrow> json_value option"

definition u8_at :: "nat \<Rightarrow> json_field" where
  "u8_at i p = map_option (\<lambda>x. JInt (uint x)) (rd8 p i)"

definition u16_at :: "nat \<Rightarrow> json_field" where
  "u16_at i p = map_option (\<lambda>x. JInt (uint x)) (rd16 p i)"

definition i32_at :: "nat \<Rightarrow> json_field" where
  "i32_at i p = map_option (\<lambda>x. JInt (sint x)) (rd32 p i)"

definition f32_at :: "nat \<Rightarrow> json_field" where
  "f32_at i p = map_option JFloat (rd32 p i)"

definition u64_at :: "nat \<Rightarrow> json_field" where
  "u64_at i p = map_option JU64 (rd64 p i)"

definition time_at :: "nat \<Rightarrow> json_field" where
  "time_at i p = map_option JTime (rd32 p i)"

definition degrees_at :: "nat \<Rightarrow> json_field" where
  "degrees_at i p = map_option JDegrees (rd32 p i)"

text \<open>A byte other than 0 and 1 is no \<open>bool\<close>.\<close>

definition bool_at :: "nat \<Rightarrow> json_field" where
  "bool_at i p = do { x \<leftarrow> rd8 p i; if x = 0 \<or> x = 1 then Some (JBool (x = 1)) else None }"

text \<open>A local array of characters is inserted up to its first 0; without one it is read past its end.\<close>

definition chars_at :: "nat \<Rightarrow> nat \<Rightarrow> json_field" where
  "chars_at i n p = do {
     d \<leftarrow> rd_range p i n;
     if 0 \<in> set d then Some (JChars (takeWhile (\<lambda>x. x \<noteq> 0) d)) else None }"

definition array_at :: "json_field list \<Rightarrow> json_field" where
  "array_at fs p = map_option JArray (those (map (\<lambda>f. f p) fs))"

definition read_fields :: "(string \<times> json_field) list \<Rightarrow> bytes \<Rightarrow> json_object option" where
  "read_fields fs p = those (map (\<lambda>(k, f). map_option (Pair k) (f p)) fs)"

text \<open>Fields that only the second protocol has. A \<open>char\<close> is signed, and a number other than 0 is true.\<close>

definition i8_at :: "nat \<Rightarrow> json_field" where
  "i8_at i p = map_option (\<lambda>x. JInt (sint x)) (rd8 p i)"

definition u32_at :: "nat \<Rightarrow> json_field" where
  "u32_at i p = map_option (\<lambda>x. JInt (uint x)) (rd32 p i)"

definition i64_at :: "nat \<Rightarrow> json_field" where
  "i64_at i p = map_option (\<lambda>x. JInt (sint x)) (rd64 p i)"

definition flag_at :: "nat \<Rightarrow> json_field" where
  "flag_at i p = map_option (\<lambda>x. JBool (0 < x)) (rd8 p i)"

text \<open>The text from a place of a byte array on, which has a 0 behind its end.\<close>

definition text_at :: "nat \<Rightarrow> json_field" where
  "text_at i p = Some (JChars (takeWhile (\<lambda>x. x \<noteq> 0) (drop i p)))"

text \<open>The two hexadecimal digits of a byte, if there is one, read as a decimal number; 0 when they are none.\<close>

definition hex_at :: "nat \<Rightarrow> json_field" where
  "hex_at i p = Some (JInt (if i < length p \<and> p ! i div 16 < 10 \<and> p ! i mod 16 < 10
     then 10 * uint (p ! i div 16) + uint (p ! i mod 16) else 0))"

text \<open>A part of a byte array, inserted up to its first 0 as a text or as a number.\<close>

definition part_at :: "nat \<Rightarrow> nat \<Rightarrow> json_field" where
  "part_at i n p = Some (JChars (takeWhile (\<lambda>x. x \<noteq> 0) (take n (drop i p))))"

definition number_at :: "nat \<Rightarrow> nat \<Rightarrow> json_field" where
  "number_at i n p = Some (JNumber (takeWhile (\<lambda>x. x \<noteq> 0) (take n (drop i p))))"

text \<open>Whether a float is positive: the bits of the positive numbers, infinity included.\<close>

definition positive_at :: "nat \<Rightarrow> json_field" where
  "positive_at i p = map_option (\<lambda>x. JBool (0 < x \<and> x \<le> 0x7F800000)) (rd32 p i)"

text \<open>What a data stream reads, with the high byte first; past the end it reads 0.\<close>

definition stream8_at :: "nat \<Rightarrow> json_field" where
  "stream8_at i p = Some (JInt (if i < length p then uint (p ! i) else 0))"

definition stream16_at :: "nat \<Rightarrow> json_field" where
  "stream16_at i p = Some (JInt (if i + 1 < length p then 256 * uint (p ! i) + uint (p ! (i + 1)) else 0))"

section \<open>When a field is there\<close>

lemma those_None: "those (map g xs) = None \<longleftrightarrow> (\<exists>x \<in> set xs. g x = None)"
  by (induction xs) (auto split: option.splits)

lemma rd_None:
  "rd8 p i = None \<longleftrightarrow> length p \<le> i" "rd_range p i n = None \<longleftrightarrow> length p < i + n"
  "rd16 p i = None \<longleftrightarrow> length p < i + 2" "rd32 p i = None \<longleftrightarrow> length p < i + 4"
  "rd64 p i = None \<longleftrightarrow> length p < i + 8"
proof -
  show r8: "rd8 p i = None \<longleftrightarrow> length p \<le> i" for p i by (simp add: rd8_def)
  show "rd_range p i n = None \<longleftrightarrow> length p < i + n" by (auto simp: rd_range_def)
  then show "rd64 p i = None \<longleftrightarrow> length p < i + 8" by (simp add: rd64_def rd_range_def not_le)
  show "rd16 p i = None \<longleftrightarrow> length p < i + 2" by (auto simp: rd16_def rd8_def)
  show "rd32 p i = None \<longleftrightarrow> length p < i + 4" by (auto simp: rd32_def rd8_def)
qed

lemma field_None:
  "u8_at i p = None \<longleftrightarrow> length p \<le> i" "u16_at i p = None \<longleftrightarrow> length p < i + 2"
  "i32_at i p = None \<longleftrightarrow> length p < i + 4" "f32_at i p = None \<longleftrightarrow> length p < i + 4"
  "u64_at i p = None \<longleftrightarrow> length p < i + 8" "time_at i p = None \<longleftrightarrow> length p < i + 4"
  "degrees_at i p = None \<longleftrightarrow> length p < i + 4"
  "array_at fs p = None \<longleftrightarrow> (\<exists>f \<in> set fs. f p = None)"
  "read_fields kfs p = None \<longleftrightarrow> (\<exists>(k, f) \<in> set kfs. f p = None)"
  by (simp_all add: u8_at_def u16_at_def i32_at_def f32_at_def u64_at_def time_at_def degrees_at_def array_at_def
      read_fields_def rd_None those_None case_prod_beta')

lemma chars_None:
  "chars_at i n p = None \<longleftrightarrow> length p < i + n \<or> 0 \<notin> set (take n (drop i p))"
  by (auto simp: chars_at_def rd_range_def)

lemma field_None_p2:
  "i8_at i p = None \<longleftrightarrow> length p \<le> i" "u32_at i p = None \<longleftrightarrow> length p < i + 4" "i64_at i p = None \<longleftrightarrow> length p < i + 8"
  "flag_at i p = None \<longleftrightarrow> length p \<le> i" "positive_at i p = None \<longleftrightarrow> length p < i + 4"
  "text_at i p \<noteq> None" "hex_at i p \<noteq> None" "part_at i n p \<noteq> None" "number_at i n p \<noteq> None"
  "stream8_at i p \<noteq> None" "stream16_at i p \<noteq> None"
  by (simp_all add: i8_at_def u32_at_def i64_at_def flag_at_def positive_at_def text_at_def hex_at_def part_at_def number_at_def
      stream8_at_def stream16_at_def rd_None)

end
