(* ===== verification/P2Values.thy ===== *)
theory P2Values imports P2Host JsonFields begin

text \<open>
  What the parameter layouts of the second protocol share: the JSON values of a request, the
  bytes they become, and the forms of an answer. \<open>MgEncode\<close> and \<open>MgDecode\<close> hold the layouts of
  \<open>DMagicianProtocol.cpp\<close>, \<open>M1Encode\<close> and \<open>M1Decode\<close> those of \<open>DM1Protocol.cpp\<close>.
\<close>

section \<open>Values of a request\<close>

text \<open>
  A text with what Qt makes of it: its UTF-16 units, \<open>toUtf8()\<close>, \<open>toLatin1()\<close> and the bytes
  \<open>fromHex\<close> reads in its UTF-8. A number with \<open>toInt()\<close> and the casts of \<open>toDouble()\<close> to a float, as
  its bits, and to \<open>quint32\<close> and \<open>quint64\<close>, which are undefined out of range.
\<close>

record p2_text =
  t_utf16 :: "u16 list"
  t_utf8 :: bytes
  t_latin1 :: bytes
  t_hex :: bytes

record p2_number =
  n_int :: u32
  n_f32 :: u32
  n_u32 :: "u32 option"
  n_u64 :: "u64 option"

datatype p2_var =
  PNull | PBool bool | PNum p2_number | PStr p2_text | PArr "p2_var list" | PObj "(string \<times> p2_var) list"

type_synonym p2_object = "(string \<times> p2_var) list"

text \<open>
  A parameter that is missing or has another type is reported and replaced: the \<open>check...Value\<close>
  functions only report, the conversions replace.
\<close>

definition pvalue :: "p2_object \<Rightarrow> string \<Rightarrow> p2_var" where
  "pvalue j k = (case map_of j k of Some v \<Rightarrow> v | None \<Rightarrow> PNull)"

definition toInt :: "p2_var \<Rightarrow> u32" where
  "toInt v = (case v of PNum n \<Rightarrow> n_int n | _ \<Rightarrow> 0)"

definition toF32 :: "p2_var \<Rightarrow> u32" where
  "toF32 v = (case v of PNum n \<Rightarrow> n_f32 n | _ \<Rightarrow> 0)"

definition toU32 :: "p2_var \<Rightarrow> u32 option" where
  "toU32 v = (case v of PNum n \<Rightarrow> n_u32 n | _ \<Rightarrow> Some 0)"

definition toU64 :: "p2_var \<Rightarrow> u64 option" where
  "toU64 v = (case v of PNum n \<Rightarrow> n_u64 n | _ \<Rightarrow> Some 0)"

definition toBool :: "p2_var \<Rightarrow> bool" where
  "toBool v = (case v of PBool b \<Rightarrow> b | _ \<Rightarrow> False)"

definition toText :: "p2_var \<Rightarrow> p2_text" where
  "toText v = (case v of PStr t \<Rightarrow> t | _ \<Rightarrow> \<lparr>t_utf16 = [], t_utf8 = [], t_latin1 = [], t_hex = []\<rparr>)"

definition toArray :: "p2_var \<Rightarrow> p2_var list" where
  "toArray v = (case v of PArr a \<Rightarrow> a | _ \<Rightarrow> [])"

definition toObject :: "p2_var \<Rightarrow> p2_object" where
  "toObject v = (case v of PObj ob \<Rightarrow> ob | _ \<Rightarrow> [])"

definition utf16_of :: "string \<Rightarrow> u16 list" where
  "utf16_of s = map of_char s"

section \<open>Bytes of a request\<close>

definition put_u8 :: "p2_object \<Rightarrow> string \<Rightarrow> bytes" where
  "put_u8 j k = [ucast (toInt (pvalue j k))]"

definition put_u16 :: "p2_object \<Rightarrow> string \<Rightarrow> bytes" where
  "put_u16 j k = bytes16 (ucast (toInt (pvalue j k)))"

definition put_i32 :: "p2_object \<Rightarrow> string \<Rightarrow> bytes" where
  "put_i32 j k = bytes32 (toInt (pvalue j k))"

definition put_f32 :: "p2_object \<Rightarrow> string \<Rightarrow> bytes" where
  "put_f32 j k = bytes32 (toF32 (pvalue j k))"

definition put_bool :: "p2_object \<Rightarrow> string \<Rightarrow> bytes" where
  "put_bool j k = [if toBool (pvalue j k) then 1 else 0]"

definition put_text :: "p2_object \<Rightarrow> string \<Rightarrow> bytes" where
  "put_text j k = t_utf8 (toText (pvalue j k)) @ [0]"

definition put_latin1 :: "p2_object \<Rightarrow> string \<Rightarrow> bytes" where
  "put_latin1 j k = t_latin1 (toText (pvalue j k)) @ [0]"

text \<open>
  The number and the direction of the command are assigned, the parameters appended. The state
  beside the packet is what the singleton of the protocol keeps.
\<close>

type_synonym 'd p2_encoder = "p2_object \<Rightarrow> 'd \<times> PacketPayload \<Rightarrow> ('d \<times> PacketPayload) option"

definition p2_put_opt :: "u8 \<Rightarrow> u8 \<Rightarrow> bytes option \<Rightarrow> 'd \<times> PacketPayload \<Rightarrow> ('d \<times> PacketPayload) option" where
  "p2_put_opt cid rw bs = (\<lambda>(d, p). map_option (\<lambda>b.
     (d, p\<lparr>p_cmdID := cid, p_ctrl := (p_ctrl p)\<lparr>c_rw := rw\<rparr>, p_params := p_params p @ b\<rparr>)) bs)"

definition p2_put :: "u8 \<Rightarrow> u8 \<Rightarrow> bytes \<Rightarrow> 'd \<times> PacketPayload \<Rightarrow> ('d \<times> PacketPayload) option" where
  "p2_put cid rw bs = p2_put_opt cid rw (Some bs)"

text \<open>Groups of fields: a position, two arrays of four numbers, of which both have to be long enough, and the outputs of a movement.\<close>

definition put_point :: "p2_object \<Rightarrow> bytes" where
  "put_point j = put_f32 j ''x'' @ put_f32 j ''y'' @ put_f32 j ''z'' @ put_f32 j ''r''"

definition put_arrays4 :: "p2_object \<Rightarrow> bytes" where
  "put_arrays4 j =
     (let velocityArr = toArray (pvalue j ''velocity''); accelerationArr = toArray (pvalue j ''acceleration'')
      in if 4 \<le> length velocityArr \<and> 4 \<le> length accelerationArr
         then concat (map (\<lambda>i. bytes32 (toF32 (velocityArr ! i))) [0..<4]) @
              concat (map (\<lambda>i. bytes32 (toF32 (accelerationArr ! i))) [0..<4])
         else [])"

definition put_po :: "p2_var \<Rightarrow> bytes" where
  "put_po v = (let poCmdObj = toObject v in put_u8 poCmdObj ''ratio'' @ put_u16 poCmdObj ''port'' @ put_u8 poCmdObj ''level'')"

definition put_pos :: "p2_var list \<Rightarrow> bytes" where
  "put_pos poCmdArray = [word_of_nat (length poCmdArray)] @ concat (map put_po poCmdArray)"

section \<open>Forms of an answer\<close>

type_synonym p2_decoder = "u8 \<Rightarrow> bytes \<Rightarrow> json_object option"

text \<open>The name of the command, which may depend on the direction and may be left out.\<close>

definition any_cmd :: "string \<Rightarrow> json_object" where
  "any_cmd a = [(''cmd'', JStr a)]"

definition rw_cmd :: "u8 \<Rightarrow> string \<Rightarrow> string \<Rightarrow> json_object" where
  "rw_cmd rw a b = (if rw = 0 then any_cmd a else any_cmd b)"

definition get_cmd :: "u8 \<Rightarrow> string \<Rightarrow> json_object" where
  "get_cmd rw a = (if rw = 0 then any_cmd a else [])"

definition set_cmd :: "u8 \<Rightarrow> string \<Rightarrow> json_object" where
  "set_cmd rw a = (if rw = 1 then any_cmd a else [])"

text \<open>
  The parameters, in all answers, in those that are not empty, and in those that have one of the
  sizes the code tests for, in the order of the tests.
\<close>

definition p2_params :: "json_object \<Rightarrow> (string \<times> json_field) list \<Rightarrow> bytes \<Rightarrow> json_object option" where
  "p2_params c fs ps = map_option (\<lambda>ob. c @ [(''params'', JObject ob)]) (read_fields fs ps)"

definition p2_reply_some :: "json_object \<Rightarrow> (string \<times> json_field) list \<Rightarrow> bytes \<Rightarrow> json_object option" where
  "p2_reply_some c fs ps = (if ps = [] then Some c else p2_params c fs ps)"

definition p2_reply :: "json_object \<Rightarrow> (nat \<times> (string \<times> json_field) list) list \<Rightarrow> bytes \<Rightarrow> json_object option" where
  "p2_reply c alts ps =
     (case map_of alts (length ps) of Some fs \<Rightarrow> p2_params c fs ps | None \<Rightarrow> Some c)"

text \<open>\<open>addQueueIndexInfo\<close>\<close>

definition queue_index :: "nat \<times> (string \<times> json_field) list" where
  "queue_index = (8, [(''queuedCmdIndex'', u64_at 0)])"

end
