(* ===== verification/MgEncode.thy ===== *)
theory MgEncode imports P2Values begin

text \<open>
  How the commands for a Magician and for a MagicBox are laid out: the \<open>encode\<close> functions
  of \<open>Protocol2/DMagicianProtocol.cpp\<close> and their table.
\<close>

section \<open>Groups of fields\<close>

text \<open>
  The local array of four bytes: a longer one is written past its end, and of a shorter one
  bytes that were never assigned are sent.
\<close>

definition put_address :: "p2_object \<Rightarrow> bytes option" where
  "put_address j =
     (let addressArray = toArray (pvalue j ''address'')
      in if length addressArray = 4 then Some (map (\<lambda>v. ucast (toInt v)) addressArray) else None)"

definition put_upgrade :: "p2_object \<Rightarrow> bytes" where
  "put_upgrade j =
     (let length_hex = t_hex (toText (pvalue j ''length'')); md5_hex = t_hex (toText (pvalue j ''md5''))
      in if length length_hex \<noteq> 4 then []
         else length_hex @ (if length md5_hex \<noteq> 16 then [] else md5_hex))"

section \<open>The encoders\<close>

text \<open>The singleton keeps \<open>m_Device\<close>, the name of the device whose version was asked for.\<close>

type_synonym mg_encoder = "u16 list p2_encoder"

definition encodeSetDeviceSN :: mg_encoder where
  "encodeSetDeviceSN j = p2_put 0 1 (put_latin1 j ''deviceSN'')"

definition encodeGetDeviceSN :: mg_encoder where
  "encodeGetDeviceSN j = p2_put 0 0 []"

definition encodeSetDeviceName :: mg_encoder where
  "encodeSetDeviceName j = p2_put 1 1 (put_text j ''deviceName'')"

definition encodeGetDeviceName :: mg_encoder where
  "encodeGetDeviceName j = p2_put 1 0 []"

text \<open>The name is kept for the answer.\<close>

definition encodeGetDeviceVersion :: mg_encoder where
  "encodeGetDeviceVersion j = (\<lambda>(m_Device, p). p2_put 2 0 [] (t_utf16 (toText (pvalue j ''deviceName'')), p))"

definition encodeSetDeviceWithL :: mg_encoder where
  "encodeSetDeviceWithL j = p2_put 3 1 (put_bool j ''enable'' @ put_u8 j ''version'')"

definition encodeGetDeviceWithL :: mg_encoder where
  "encodeGetDeviceWithL j = p2_put 3 0 []"

definition encodeGetDeviceTime :: mg_encoder where
  "encodeGetDeviceTime j = p2_put 4 0 []"

definition encodeGetDeviceID :: mg_encoder where
  "encodeGetDeviceID j = p2_put 5 0 []"

definition encodeGetProductName :: mg_encoder where
  "encodeGetProductName j = p2_put 7 0 []"

definition encodeSetOLEDDisplay :: mg_encoder where
  "encodeSetOLEDDisplay j = p2_put 8 1 (put_text j ''text'')"

definition encodeSetProgressBar :: mg_encoder where
  "encodeSetProgressBar j = p2_put 9 1 (put_u8 j ''value'')"

definition encodeGetPose :: mg_encoder where
  "encodeGetPose j = p2_put 10 0 []"

definition encodeResetPose :: mg_encoder where
  "encodeResetPose j = p2_put 11 1 (put_u8 j ''manual'' @ put_f32 j ''rearArmAngle'' @ put_f32 j ''frontArmAngle'')"

definition encodeGetPoseL :: mg_encoder where
  "encodeGetPoseL j = p2_put 13 0 []"

definition encodeCheckPoseLimit :: mg_encoder where
  "encodeCheckPoseLimit j = p2_put 15 1 (put_bool j ''isJoint'' @
       put_f32 j ''x'' @ put_f32 j ''y'' @ put_f32 j ''z'' @ put_f32 j ''r'')"

definition encodeGetAlarmsState :: mg_encoder where
  "encodeGetAlarmsState j = p2_put 20 0 []"

definition encodeClearAllAlarmsState :: mg_encoder where
  "encodeClearAllAlarmsState j = p2_put 20 1 []"

definition encodeSetHOMEParams :: mg_encoder where
  "encodeSetHOMEParams j = p2_put 30 1 (put_f32 j ''x'' @ put_f32 j ''y'' @ put_f32 j ''z'' @ put_f32 j ''r'')"

definition encodeGetHOMEParams :: mg_encoder where
  "encodeGetHOMEParams j = p2_put 30 0 []"

definition encodeSetHOMECmd :: mg_encoder where
  "encodeSetHOMECmd j = p2_put 31 1 []"

definition encodeSetAutoLeveling :: mg_encoder where
  "encodeSetAutoLeveling j = p2_put 32 1 (put_bool j ''enable'' @ put_f32 j ''precision'')"

definition encodeGetAutoLeveling :: mg_encoder where
  "encodeGetAutoLeveling j = p2_put 32 0 []"

definition encodeGetGoHomeStatus :: mg_encoder where
  "encodeGetGoHomeStatus j = p2_put 33 0 []"

definition encodeSetHHTTrigMode :: mg_encoder where
  "encodeSetHHTTrigMode j = p2_put 40 1 (put_u8 j ''mode'')"

definition encodeGetHHTTrigMode :: mg_encoder where
  "encodeGetHHTTrigMode j = p2_put 40 0 []"

definition encodeSetHHTTrigOutputEnabled :: mg_encoder where
  "encodeSetHHTTrigOutputEnabled j = p2_put 41 1 (put_bool j ''enable'')"

definition encodeGetHHTTrigOutputEnabled :: mg_encoder where
  "encodeGetHHTTrigOutputEnabled j = p2_put 41 0 []"

definition encodeGetHHTTrigOutput :: mg_encoder where
  "encodeGetHHTTrigOutput j = p2_put 42 0 []"

definition encodeSetEndEffectorParams :: mg_encoder where
  "encodeSetEndEffectorParams j = p2_put 60 1 (put_f32 j ''xOffset'' @ put_f32 j ''yOffset'' @ put_f32 j ''zOffset'')"

definition encodeGetEndEffectorParams :: mg_encoder where
  "encodeGetEndEffectorParams j = p2_put 60 0 []"

definition encodeSetEndEffectorLaser :: mg_encoder where
  "encodeSetEndEffectorLaser j = p2_put 61 1 (put_bool j ''enable'' @ put_bool j ''on'')"

definition encodeGetEndEffectorLaser :: mg_encoder where
  "encodeGetEndEffectorLaser j = p2_put 61 0 []"

definition encodeSetEndEffectorSuctionCup :: mg_encoder where
  "encodeSetEndEffectorSuctionCup j = p2_put 62 1 (put_bool j ''enable'' @ put_bool j ''on'')"

definition encodeGetEndEffectorSuctionCup :: mg_encoder where
  "encodeGetEndEffectorSuctionCup j = p2_put 62 0 []"

definition encodeSetEndEffectorGripper :: mg_encoder where
  "encodeSetEndEffectorGripper j = p2_put 63 1 (put_bool j ''enable'' @ put_bool j ''on'')"

definition encodeGetEndEffectorGripper :: mg_encoder where
  "encodeGetEndEffectorGripper j = p2_put 63 0 []"

definition encodeSetEndEffectorType :: mg_encoder where
  "encodeSetEndEffectorType j = p2_put 64 1 (put_u8 j ''type'')"

definition encodeGetEndEffectorType :: mg_encoder where
  "encodeGetEndEffectorType j = p2_put 64 0 []"

definition encodeSetServoAngle :: mg_encoder where
  "encodeSetServoAngle j = p2_put 65 1 (put_u8 j ''index'' @ put_f32 j ''value'')"

definition encodeGetServoAngle :: mg_encoder where
  "encodeGetServoAngle j = p2_put 65 0 (put_u8 j ''index'')"

definition encodeSetArmSpeedRatio :: mg_encoder where
  "encodeSetArmSpeedRatio j = p2_put 66 1 (put_u8 j ''type'' @ put_u8 j ''value'')"

definition encodeGetArmSpeedRatio :: mg_encoder where
  "encodeGetArmSpeedRatio j = p2_put 66 0 (put_u8 j ''type'')"

definition encodeSetLSpeedRatio :: mg_encoder where
  "encodeSetLSpeedRatio j = p2_put 67 1 (put_u8 j ''type'' @ put_u8 j ''value'')"

definition encodeGetLSpeedRatio :: mg_encoder where
  "encodeGetLSpeedRatio j = p2_put 67 0 (put_u8 j ''type'')"

definition encodeGetConfigAndStatus :: mg_encoder where
  "encodeGetConfigAndStatus j = p2_put 68 0 []"

definition encodeGetRTStatus :: mg_encoder where
  "encodeGetRTStatus j = p2_put 69 0 []"

definition encodeSetJOGJointParams :: mg_encoder where
  "encodeSetJOGJointParams j = p2_put 70 1 (put_arrays4 j)"

definition encodeGetJOGJointParams :: mg_encoder where
  "encodeGetJOGJointParams j = p2_put 70 0 []"

definition encodeSetJOGCoordinateParams :: mg_encoder where
  "encodeSetJOGCoordinateParams j = p2_put 71 1 (put_arrays4 j)"

definition encodeGetJOGCoordinateParams :: mg_encoder where
  "encodeGetJOGCoordinateParams j = p2_put 71 0 []"

definition encodeSetJOGCommonParams :: mg_encoder where
  "encodeSetJOGCommonParams j = p2_put 72 1 (put_f32 j ''velocityRatio'' @ put_f32 j ''accelerationRatio'')"

definition encodeGetJOGCommonParams :: mg_encoder where
  "encodeGetJOGCommonParams j = p2_put 72 0 []"

definition encodeSetJOGCmd :: mg_encoder where
  "encodeSetJOGCmd j = p2_put 73 1 (put_bool j ''isJoint'' @ put_u8 j ''cmd'')"

definition encodeSetJOGLParams :: mg_encoder where
  "encodeSetJOGLParams j = p2_put 74 1 (put_f32 j ''velocity'' @ put_f32 j ''acceleration'')"

definition encodeSetJOGCmdTime :: mg_encoder where
  "encodeSetJOGCmdTime j = p2_put 75 1 (put_bool j ''isJoint'' @ put_u8 j ''cmd'' @ put_f32 j ''time'')"

definition encodeGetJOGLParams :: mg_encoder where
  "encodeGetJOGLParams j = p2_put 74 0 []"

definition encodeSetPTPJointParams :: mg_encoder where
  "encodeSetPTPJointParams j = p2_put 80 1 (put_arrays4 j)"

definition encodeGetPTPJointParams :: mg_encoder where
  "encodeGetPTPJointParams j = p2_put 80 0 []"

definition encodeSetPTPCoordinateParams :: mg_encoder where
  "encodeSetPTPCoordinateParams j = p2_put 81 1 (put_f32 j ''xyzVelocity'' @
       put_f32 j ''rVelocity'' @ put_f32 j ''xyzAcceleration'' @ put_f32 j ''rAcceleration'')"

definition encodeGetPTPCoordinateParams :: mg_encoder where
  "encodeGetPTPCoordinateParams j = p2_put 81 0 []"

definition encodeSetPTPJumpParams :: mg_encoder where
  "encodeSetPTPJumpParams j = p2_put 82 1 (put_f32 j ''jumpHeight'' @ put_f32 j ''zLimit'')"

definition encodeGetPTPJumpParams :: mg_encoder where
  "encodeGetPTPJumpParams j = p2_put 82 0 []"

definition encodeSetPTPCommonParams :: mg_encoder where
  "encodeSetPTPCommonParams j = p2_put 83 1 (put_f32 j ''velocityRatio'' @ put_f32 j ''accelerationRatio'')"

definition encodeGetPTPCommonParams :: mg_encoder where
  "encodeGetPTPCommonParams j = p2_put 83 0 []"

definition encodeSetPTPCmd :: mg_encoder where
  "encodeSetPTPCmd j = p2_put 84 1 (put_u8 j ''ptpMode'' @
       put_f32 j ''x'' @ put_f32 j ''y'' @ put_f32 j ''z'' @ put_f32 j ''r'')"

definition encodeSetPTPLParams :: mg_encoder where
  "encodeSetPTPLParams j = p2_put 85 1 (put_f32 j ''velocity'' @ put_f32 j ''acceleration'')"

definition encodeGetPTPLParams :: mg_encoder where
  "encodeGetPTPLParams j = p2_put 85 0 []"

definition encodeSetPTPWithLCmd :: mg_encoder where
  "encodeSetPTPWithLCmd j = p2_put 86 1 (put_u8 j ''ptpMode'' @
       put_f32 j ''x'' @ put_f32 j ''y'' @ put_f32 j ''z'' @ put_f32 j ''r'' @ put_f32 j ''l'')"

definition encodeSetPTPJump2Params :: mg_encoder where
  "encodeSetPTPJump2Params j = p2_put 87 1 (put_f32 j ''startJumpHeight'' @
       put_f32 j ''endJumpHeight'' @ put_f32 j ''zLimit'')"

definition encodeGetPTPJump2Params :: mg_encoder where
  "encodeGetPTPJump2Params j = p2_put 87 0 []"

definition encodeSetPTPPOCmd :: mg_encoder where
  "encodeSetPTPPOCmd j =
     (let ptpCmdObj = toObject (pvalue j ''ptpCmd''); poCmdArray = toArray (pvalue j ''poCmd'')
      in p2_put 88 1 (put_u8 ptpCmdObj ''ptpMode'' @ put_point ptpCmdObj @ put_pos poCmdArray))"

text \<open>The size of the other structure is copied, so \<open>l\<close> is cut off.\<close>

definition encodeSetPTPPOWithLCmd :: mg_encoder where
  "encodeSetPTPPOWithLCmd j =
     (let ptpCmdObj = toObject (pvalue j ''ptpCmd''); poCmdArray = toArray (pvalue j ''poCmd'');
          ptpCmd = put_u8 ptpCmdObj ''ptpMode'' @ put_point ptpCmdObj @ put_f32 ptpCmdObj ''l'';
          count = word_of_nat (length poCmdArray)
      in p2_put 89 1 (take 17 ptpCmd @ [count] @ concat (map (\<lambda>i. put_po (poCmdArray ! i)) [0..<unat count])))"

definition encodeSetCPParams :: mg_encoder where
  "encodeSetCPParams j =
     p2_put 90 1 (put_f32 j ''targetAcc'' @ put_f32 j ''junctionVel'' @
       (if toBool (pvalue j ''isRealTimeTrack'') then put_f32 j ''period'' @ [1] else put_f32 j ''acc'' @ [0]))"

definition encodeGetCPParams :: mg_encoder where
  "encodeGetCPParams j = p2_put 90 0 []"

definition encodeSetCPCmd :: mg_encoder where
  "encodeSetCPCmd j =
     p2_put 91 1 (put_u8 j ''cpMode'' @ put_f32 j ''x'' @ put_f32 j ''y'' @ put_f32 j ''z'' @ put_f32 j ''power'')"

definition encodeSetCPLECmd :: mg_encoder where
  "encodeSetCPLECmd j =
     p2_put 92 1 (put_u8 j ''cpMode'' @ put_f32 j ''x'' @ put_f32 j ''y'' @ put_f32 j ''z'' @ put_f32 j ''power'')"

definition encodeSetCPRHeadHoldEnable :: mg_encoder where
  "encodeSetCPRHeadHoldEnable j = p2_put 93 1 []"

definition encodeGetCPRHeadHoldEnable :: mg_encoder where
  "encodeGetCPRHeadHoldEnable j = p2_put 93 0 []"

definition encodeSetCPCommonParams :: mg_encoder where
  "encodeSetCPCommonParams j = p2_put 94 1 []"

definition encodeGetCPCommonParams :: mg_encoder where
  "encodeGetCPCommonParams j = p2_put 94 0 []"

definition encodeSetCP2Cmd :: mg_encoder where
  "encodeSetCP2Cmd j = p2_put 95 1 (put_u8 j ''cpMode'' @ put_f32 j ''x'' @ put_f32 j ''y'' @ put_f32 j ''z'')"

definition encodeSetARCParams :: mg_encoder where
  "encodeSetARCParams j = p2_put 100 1 (put_f32 j ''xyzVelocity'' @
       put_f32 j ''rVelocity'' @ put_f32 j ''xyzAcceleration'' @ put_f32 j ''rAcceleration'')"

definition encodeGetARCParams :: mg_encoder where
  "encodeGetARCParams j = p2_put 100 0 []"

definition encodeSetARCCmd :: mg_encoder where
  "encodeSetARCCmd j =
     p2_put 101 1 (put_point (toObject (pvalue j ''cirPoint'')) @ put_point (toObject (pvalue j ''toPoint'')))"

definition encodeSetCircleCmd :: mg_encoder where
  "encodeSetCircleCmd j =
     p2_put_opt 102 1 (do {
       count \<leftarrow> toU32 (pvalue j ''count'');
       Some (put_point (toObject (pvalue j ''cirPoint'')) @ put_point (toObject (pvalue j ''toPoint'')) @ bytes32 count) })"

definition encodeSetARCCommonParams :: mg_encoder where
  "encodeSetARCCommonParams j = p2_put 103 1 []"

definition encodeGetARCCommonParams :: mg_encoder where
  "encodeGetARCCommonParams j = p2_put 103 0 []"

definition encodeSetWAITCmd :: mg_encoder where
  "encodeSetWAITCmd j = p2_put 110 1 (put_i32 j ''delay'')"

definition encodeSetTRIGCmd :: mg_encoder where
  "encodeSetTRIGCmd j = p2_put 120 1 (put_u8 j ''port'' @
       put_u8 j ''mode'' @ put_u8 j ''condition'' @ put_u16 j ''threshold'')"

definition encodeSetIOMultiplexing :: mg_encoder where
  "encodeSetIOMultiplexing j = p2_put 130 1 (put_u8 j ''port'' @ put_u8 j ''multiplex'')"

definition encodeGetIOMultiplexing :: mg_encoder where
  "encodeGetIOMultiplexing j = p2_put 130 0 (put_u8 j ''port'')"

definition encodeSetIODO :: mg_encoder where
  "encodeSetIODO j = p2_put 131 1 (put_u8 j ''port'' @ put_u8 j ''level'')"

definition encodeGetIODO :: mg_encoder where
  "encodeGetIODO j = p2_put 131 0 (put_u8 j ''port'')"

definition encodeSetIOPWM :: mg_encoder where
  "encodeSetIOPWM j = p2_put 132 1 (put_u8 j ''port'' @ put_f32 j ''frequency'' @ put_f32 j ''dutyCycle'')"

definition encodeGetIOPWM :: mg_encoder where
  "encodeGetIOPWM j = p2_put 132 0 (put_u8 j ''port'')"

definition encodeGetIODI :: mg_encoder where
  "encodeGetIODI j = p2_put 133 0 (put_u8 j ''port'')"

definition encodeGetIOADC :: mg_encoder where
  "encodeGetIOADC j = p2_put 134 0 (put_u8 j ''port'')"

definition encodeSetEMotor :: mg_encoder where
  "encodeSetEMotor j = p2_put 135 1 (put_u8 j ''index'' @ put_bool j ''enable'' @ put_i32 j ''speed'')"

definition encodeSetEMotorS :: mg_encoder where
  "encodeSetEMotorS j = p2_put 136 1 (put_u8 j ''index'' @
       put_bool j ''enable'' @ put_i32 j ''speed'' @ put_i32 j ''distance'')"

definition encodeSetColorSensor :: mg_encoder where
  "encodeSetColorSensor j = p2_put 137 1 (put_bool j ''enable'' @ put_u8 j ''port'' @ put_u8 j ''version'')"

definition encodeGetColorSensor :: mg_encoder where
  "encodeGetColorSensor j = p2_put 137 0 []"

definition encodeSetInfraredSensor :: mg_encoder where
  "encodeSetInfraredSensor j = p2_put 138 1 (put_bool j ''enable'' @ put_u8 j ''port'' @ put_u8 j ''version'')"

definition encodeGetInfraredSensor :: mg_encoder where
  "encodeGetInfraredSensor j = p2_put 138 0 (put_u8 j ''port'')"

definition encodeSetIICInfo :: mg_encoder where
  "encodeSetIICInfo j = p2_put 139 1 (put_u8 j ''mode'' @ put_u8 j ''mainIndex'')"

definition encodeGetIICInfo :: mg_encoder where
  "encodeGetIICInfo j = p2_put 139 0 (put_u8 j ''mode'' @ put_u8 j ''mainIndex'' @ put_u8 j ''subIndex'')"

definition encodeSetAngleSensorStaticError :: mg_encoder where
  "encodeSetAngleSensorStaticError j = p2_put 140 1 (put_f32 j ''rearArmAngleError'' @
       put_f32 j ''frontArmAngleError'')"

definition encodeGetAngleSensorStaticError :: mg_encoder where
  "encodeGetAngleSensorStaticError j = p2_put 140 0 []"

definition encodeSetAngleSensorCoef :: mg_encoder where
  "encodeSetAngleSensorCoef j = p2_put 141 1 (put_f32 j ''rearArmAngle'' @ put_f32 j ''frontArmAngle'')"

definition encodeGetAngleSensorCoef :: mg_encoder where
  "encodeGetAngleSensorCoef j = p2_put 141 0 []"

definition encodeSetBaseDecoderStaticError :: mg_encoder where
  "encodeSetBaseDecoderStaticError j = p2_put 142 1 (put_f32 j ''baseDecoderError'')"

definition encodeGetBaseDecoderStaticError :: mg_encoder where
  "encodeGetBaseDecoderStaticError j = p2_put 142 0 []"

definition encodeSetLRHandCalibrateValue :: mg_encoder where
  "encodeSetLRHandCalibrateValue j = p2_put 143 1 []"

definition encodeGetLRHandCalibrateValue :: mg_encoder where
  "encodeGetLRHandCalibrateValue j = p2_put 143 0 []"

definition encodeSetWIFIConfigMode :: mg_encoder where
  "encodeSetWIFIConfigMode j = p2_put 150 1 (put_bool j ''enable'')"

definition encodeGetWIFIConfigMode :: mg_encoder where
  "encodeGetWIFIConfigMode j = p2_put 150 0 []"

definition encodeSetWIFISSID :: mg_encoder where
  "encodeSetWIFISSID j = p2_put 151 1 (put_text j ''ssid'')"

definition encodeGetWIFISSID :: mg_encoder where
  "encodeGetWIFISSID j = p2_put 151 0 []"

definition encodeSetWIFIPassword :: mg_encoder where
  "encodeSetWIFIPassword j = p2_put 152 1 (put_text j ''password'')"

definition encodeGetWIFIPassword :: mg_encoder where
  "encodeGetWIFIPassword j = p2_put 152 0 []"

definition encodeSetWIFIIPAddress :: mg_encoder where
  "encodeSetWIFIIPAddress j = p2_put_opt 153 1 (map_option (\<lambda>a. put_u8 j ''dhcp'' @ a) (put_address j))"

definition encodeGetWIFIIPAddress :: mg_encoder where
  "encodeGetWIFIIPAddress j = p2_put 153 0 []"

definition encodeSetWIFINetmask :: mg_encoder where
  "encodeSetWIFINetmask j = p2_put_opt 154 1 (put_address j)"

definition encodeGetWIFINetmask :: mg_encoder where
  "encodeGetWIFINetmask j = p2_put 154 0 []"

definition encodeSetWIFIGateway :: mg_encoder where
  "encodeSetWIFIGateway j = p2_put_opt 155 1 (put_address j)"

definition encodeGetWIFIGateway :: mg_encoder where
  "encodeGetWIFIGateway j = p2_put 155 0 []"

definition encodeSetWIFIDNS :: mg_encoder where
  "encodeSetWIFIDNS j = p2_put_opt 156 1 (put_address j)"

definition encodeGetWIFIDNS :: mg_encoder where
  "encodeGetWIFIDNS j = p2_put 156 0 []"

definition encodeGetWIFIConnectStatus :: mg_encoder where
  "encodeGetWIFIConnectStatus j = p2_put 157 0 []"

definition encodeSetLostStepValue :: mg_encoder where
  "encodeSetLostStepValue j = p2_put 170 1 (put_f32 j ''value'')"

definition encodeSetLostStepCmd :: mg_encoder where
  "encodeSetLostStepCmd j = p2_put 171 1 []"

definition encodeSetCollisionCheck :: mg_encoder where
  "encodeSetCollisionCheck j = p2_put 172 1 (put_bool j ''enable'' @ put_f32 j ''threshold'')"

definition encodeGetCollisionCheck :: mg_encoder where
  "encodeGetCollisionCheck j = p2_put 172 0 []"

definition encodeGetDeviceStatus :: mg_encoder where
  "encodeGetDeviceStatus j = p2_put 192 0 []"

definition encodeSetDeviceRunAPP :: mg_encoder where
  "encodeSetDeviceRunAPP j = p2_put 193 0 []"

definition encodeSetUpgradeStatus :: mg_encoder where
  "encodeSetUpgradeStatus j = p2_put 194 1 (put_upgrade j)"

definition encodeGetUpgradeStatus :: mg_encoder where
  "encodeGetUpgradeStatus j = p2_put 194 0 (put_upgrade j)"

definition encodeSetRunUpgrade :: mg_encoder where
  "encodeSetRunUpgrade j = p2_put 195 0 []"

definition encodeSetStartTransmit :: mg_encoder where
  "encodeSetStartTransmit j = p2_put 196 0 []"

definition encodeSetUpgradeVeify :: mg_encoder where
  "encodeSetUpgradeVeify j = p2_put 197 0 []"

definition encodeSetDeviceRestart :: mg_encoder where
  "encodeSetDeviceRestart j = p2_put 198 1 []"

definition encodeGetColorObjExist :: mg_encoder where
  "encodeGetColorObjExist j = p2_put 200 1 (put_u8 j ''port'' @ put_u8 j ''color'')"

definition encodeGetColorObjCoordinate :: mg_encoder where
  "encodeGetColorObjCoordinate j = p2_put 200 0 (put_u8 j ''port'' @ put_u8 j ''color'' @ put_u8 j ''coordinate'')"

definition encodeGetSeeedDistanceSensor :: mg_encoder where
  "encodeGetSeeedDistanceSensor j = p2_put 210 0 (put_u8 j ''port'')"

definition encodeSetSeeedTempSensor :: mg_encoder where
  "encodeSetSeeedTempSensor j = p2_put 211 1 (put_u8 j ''port'')"

definition encodeGetSeeedTempSensor :: mg_encoder where
  "encodeGetSeeedTempSensor j = p2_put 211 0 []"

definition encodeSetSeeedLightSensor :: mg_encoder where
  "encodeSetSeeedLightSensor j = p2_put 212 1 (put_u8 j ''port'')"

definition encodeGetSeeedLightSensor :: mg_encoder where
  "encodeGetSeeedLightSensor j = p2_put 212 0 (put_u8 j ''mode'')"

definition encodeSetSeeedColorSensor :: mg_encoder where
  "encodeSetSeeedColorSensor j = p2_put 213 1 (put_u8 j ''port'')"

definition encodeGetSeeedColorSensor :: mg_encoder where
  "encodeGetSeeedColorSensor j = p2_put 213 0 []"

definition encodeSetSeeedRGBLed :: mg_encoder where
  "encodeSetSeeedRGBLed j = p2_put 214 1 (put_u8 j ''port'' @ put_f32 j ''rgbValue'')"

definition encodeGetMCUTemperature :: mg_encoder where
  "encodeGetMCUTemperature j = p2_put 215 0 []"

definition encodeSetQueuedCmdStart :: mg_encoder where
  "encodeSetQueuedCmdStart j = p2_put 240 1 []"

definition encodeSetQueuedCmdStop :: mg_encoder where
  "encodeSetQueuedCmdStop j = p2_put 241 1 []"

definition encodeSetQueuedCmdForceStop :: mg_encoder where
  "encodeSetQueuedCmdForceStop j = p2_put 242 1 []"

definition encodeSetQueuedCmdStartDownload :: mg_encoder where
  "encodeSetQueuedCmdStartDownload j = p2_put 243 1 (put_u8 j ''totalLoop'' @ put_u8 j ''linePerLoop'')"

definition encodeSetQueuedCmdStopDownload :: mg_encoder where
  "encodeSetQueuedCmdStopDownload j = p2_put 244 1 []"

definition encodeSetQueuedCmdClear :: mg_encoder where
  "encodeSetQueuedCmdClear j = p2_put 245 1 []"

definition encodeGetQueuedCmdCurrentIndex :: mg_encoder where
  "encodeGetQueuedCmdCurrentIndex j = p2_put 246 0 []"

definition encodeGetQueuedCmdLeftSpace :: mg_encoder where
  "encodeGetQueuedCmdLeftSpace j = p2_put 247 0 []"

definition encodeSensorRGBLEDInit :: mg_encoder where
  "encodeSensorRGBLEDInit j = p2_put 216 1 ([1] @ put_u8 j ''port'')"

definition encodeSensorSetRGBLEDVlaue :: mg_encoder where
  "encodeSensorSetRGBLEDVlaue j = p2_put 216 1 ([2] @
       put_u8 j ''port'' @ put_u8 j ''index'' @ put_u8 j ''red'' @ put_u8 j ''green'' @ put_u8 j ''blue'')"

definition encodeSensorRGBLEDTurnOFFAll :: mg_encoder where
  "encodeSensorRGBLEDTurnOFFAll j = p2_put 216 1 ([3] @ put_u8 j ''port'')"

definition encodeSensorSetRGBLEDState :: mg_encoder where
  "encodeSensorSetRGBLEDState j = p2_put 216 1 ([4] @ put_u8 j ''port'' @ put_u8 j ''index'' @ put_bool j ''on'')"

definition encodeSensorOledInit :: mg_encoder where
  "encodeSensorOledInit j = p2_put 216 1 ([10] @ put_u8 j ''port'')"

definition encodeSensorOledClear :: mg_encoder where
  "encodeSensorOledClear j = p2_put 216 1 ([11] @ put_u8 j ''port'')"

definition encodeSensorOledDisplay :: mg_encoder where
  "encodeSensorOledDisplay j = p2_put 216 1 ([12] @
       put_u8 j ''port'' @ put_u8 j ''x'' @ put_u8 j ''y'' @ put_text j ''text'')"

definition encodeSensorKnobInit :: mg_encoder where
  "encodeSensorKnobInit j = p2_put 216 1 ([20] @ put_u8 j ''port'')"

definition encodeSensorGetKnob :: mg_encoder where
  "encodeSensorGetKnob j = p2_put 216 0 ([21] @ put_u8 j ''port'')"

definition encodeSensorVoiceInit :: mg_encoder where
  "encodeSensorVoiceInit j = p2_put 216 1 ([22] @ put_u8 j ''port'')"

definition encodeSensorGetVoice :: mg_encoder where
  "encodeSensorGetVoice j = p2_put 216 0 ([23] @ put_u8 j ''port'')"

definition encodeSensorLightInit :: mg_encoder where
  "encodeSensorLightInit j = p2_put 216 1 ([24] @ put_u8 j ''port'')"

definition encodeSensorGetLight :: mg_encoder where
  "encodeSensorGetLight j = p2_put 216 0 ([25] @ put_u8 j ''port'')"

definition encodeSensorPEInit :: mg_encoder where
  "encodeSensorPEInit j = p2_put 216 1 ([26] @ put_u8 j ''port'' @ put_u8 j ''version'')"

definition encodeSensorGetPEState :: mg_encoder where
  "encodeSensorGetPEState j = p2_put 216 0 ([27] @ put_u8 j ''port'' @ put_u8 j ''version'')"

definition encodeSensorUltrasonicInit :: mg_encoder where
  "encodeSensorUltrasonicInit j = p2_put 216 1 ([28] @ put_u8 j ''port'')"

definition encodeSensorUltrasonicGet :: mg_encoder where
  "encodeSensorUltrasonicGet j = p2_put 216 1 ([29] @ put_u8 j ''port'')"

definition encodeSensorSHT31Init :: mg_encoder where
  "encodeSensorSHT31Init j = p2_put 216 0 ([30] @ put_u8 j ''port'')"

definition encodeSensorGetSHT31 :: mg_encoder where
  "encodeSensorGetSHT31 j = p2_put 216 0 ([31] @ put_u8 j ''port'')"

definition encodeSensorColorInit :: mg_encoder where
  "encodeSensorColorInit j = p2_put 216 1 ([32] @ put_u8 j ''port'')"

definition encodeSensorGetColor :: mg_encoder where
  "encodeSensorGetColor j = p2_put 216 1 ([33] @ put_u8 j ''port'' @ put_u8 j ''index'')"

definition encodeSensorGetColorRes :: mg_encoder where
  "encodeSensorGetColorRes j = p2_put 216 0 ([34] @ put_u8 j ''port'')"

definition encodeSensorXBeeInit :: mg_encoder where
  "encodeSensorXBeeInit j = p2_put 216 1 ([40] @ put_u8 j ''port'' @ put_i32 j ''baud'')"

definition encodeSensorXBeeSend :: mg_encoder where
  "encodeSensorXBeeSend j = p2_put 216 1 ([41] @ put_u8 j ''port'' @ put_text j ''text'')"

definition encodeSensorXBeeReceive :: mg_encoder where
  "encodeSensorXBeeReceive j = p2_put 216 0 ([42] @ put_u8 j ''port'')"

definition encodeSensorXBeeClear :: mg_encoder where
  "encodeSensorXBeeClear j = p2_put 216 1 ([43] @ put_u8 j ''port'')"

definition encodeSensorSYNInit :: mg_encoder where
  "encodeSensorSYNInit j = p2_put 216 1 ([50] @ put_u8 j ''port'' @ put_i32 j ''baud'')"

definition encodeSensorSetSYN :: mg_encoder where
  "encodeSensorSetSYN j = p2_put 216 1 ([51] @ put_u8 j ''port'' @ put_u8 j ''sound'' @ put_u8 j ''speed'')"

definition encodeSensorSetSYNMusic :: mg_encoder where
  "encodeSensorSetSYNMusic j = p2_put 216 1 ([52] @ put_u8 j ''port'' @ put_u8 j ''type'' @ put_u8 j ''index'')"

definition encodeSensorSendSYN :: mg_encoder where
  "encodeSensorSendSYN j =
     p2_put 216 1 ([53] @ put_u8 j ''port'' @
       concat (map (\<lambda>c. [ucast (drop_bit 8 c), ucast c]) (t_utf16 (toText (pvalue j ''text'')))))"

definition encodeSensorSetSYNCmd :: mg_encoder where
  "encodeSensorSetSYNCmd j = p2_put 216 1 ([54] @ put_u8 j ''port'' @ put_u8 j ''cmd'')"

definition encodeSetBleInf :: mg_encoder where
  "encodeSetBleInf j = p2_put 216 1 ([60] @ put_u8 j ''mode'' @ put_text j ''name'')"

definition encodeGetBleInf :: mg_encoder where
  "encodeGetBleInf j = p2_put 216 0 [60]"

definition encodeBleConnect :: mg_encoder where
  "encodeBleConnect j = p2_put 216 1 ([61] @ put_u8 j ''time'' @ put_text j ''name'')"

definition encodeBleReadOneData :: mg_encoder where
  "encodeBleReadOneData j = p2_put 216 1 [63]"

definition encodeBleWriteOneData :: mg_encoder where
  "encodeBleWriteOneData j = p2_put 216 1 ([64] @ put_text j ''data'')"

text \<open>The address of the text of a string that no longer exists is read.\<close>

definition encodeSetBleMesh :: mg_encoder where
  "encodeSetBleMesh j = p2_put_opt 216 1 None"

definition encodeBleReadMeshData :: mg_encoder where
  "encodeBleReadMeshData j = p2_put 216 1 [66]"

definition encodeBleWriteMeshData :: mg_encoder where
  "encodeBleWriteMeshData j =
     (let dat = t_utf8 (toText (pvalue j ''data''))
      in p2_put 216 1 ([67] @ put_u8 j ''devID'' @ [word_of_nat (length (takeWhile (\<lambda>x. x \<noteq> 0) dat))] @ dat @ [0]))"

definition encodeBleClearMeshData :: mg_encoder where
  "encodeBleClearMeshData j = p2_put 216 1 [68]"

definition encodeSetSensorHandModel :: mg_encoder where
  "encodeSetSensorHandModel j = p2_put 216 1 ([70] @ put_u8 j ''port'')"

definition encodeGetSensorHandModel :: mg_encoder where
  "encodeGetSensorHandModel j = p2_put 216 0 ([71] @ put_u8 j ''port'')"

definition encodeIsSensorHandModel :: mg_encoder where
  "encodeIsSensorHandModel j = p2_put 216 0 ([72] @ put_u8 j ''port'' @ put_u8 j ''data'')"

definition encodeIsJoystickButton :: mg_encoder where
  "encodeIsJoystickButton j = p2_put 216 0 ([73] @ put_u8 j ''port'' @ put_u8 j ''index'')"

definition encodeGetJoystickPos :: mg_encoder where
  "encodeGetJoystickPos j = p2_put 216 0 ([74] @ put_u8 j ''port'')"

definition encodeGetJoystickButton :: mg_encoder where
  "encodeGetJoystickButton j = p2_put 216 0 ([75] @ put_u8 j ''port'')"

definition encodeIsPirDetected :: mg_encoder where
  "encodeIsPirDetected j = p2_put 216 0 ([76] @ put_u8 j ''port'')"

definition encodeGetButtonStatus :: mg_encoder where
  "encodeGetButtonStatus j = p2_put 216 0 ([77] @ put_u8 j ''port'')"

definition encodeGetRedButtonStatus :: mg_encoder where
  "encodeGetRedButtonStatus j = p2_put 216 0 ([78] @ put_u8 j ''port'')"

definition encodeGetBlueButtonStatus :: mg_encoder where
  "encodeGetBlueButtonStatus j = p2_put 216 0 ([79] @ put_u8 j ''port'')"

definition encodeBleSetMaster :: mg_encoder where
  "encodeBleSetMaster j =
     (let dat = t_utf8 (toText (pvalue j ''mac''));
          dat = (if length dat > 12 then take 12 dat else if length dat < 12 then dat @ replicate (12 - length dat) 0 else dat)
      in p2_put 216 1 ([90] @ dat))"

definition encodeBleSetSlave :: mg_encoder where
  "encodeBleSetSlave j = p2_put 216 1 [91]"

definition encodeBleRecvData :: mg_encoder where
  "encodeBleRecvData j = p2_put 216 1 [92]"

definition encodeBleSendData :: mg_encoder where
  "encodeBleSendData j =
     (let dat = t_utf8 (toText (pvalue j ''data'')) @ [0];
          dataLen = length dat;
          dat = (if dataLen > 255 then dat else take 254 dat @ [0])
      in p2_put 216 1 ([93] @ [word_of_nat dataLen] @ dat))"

definition encodeBleClearCacheData :: mg_encoder where
  "encodeBleClearCacheData j = p2_put 216 1 [94]"

definition encodeBleGetMacAddress :: mg_encoder where
  "encodeBleGetMacAddress j = p2_put 216 1 [95]"

definition encodeSetStopPointServer :: mg_encoder where
  "encodeSetStopPointServer j = p2_put 217 1 ([10] @ put_u16 j ''PointX'' @ put_u16 j ''PointY'')"

definition encodeSetStopPointParam :: mg_encoder where
  "encodeSetStopPointParam j = p2_put 217 1 ([11] @ put_u8 j ''scopeErr'' @ put_u8 j ''stopErr'')"

definition encodeGetStopPointState :: mg_encoder where
  "encodeGetStopPointState j = p2_put 217 0 [12]"

definition encodeGetImgToArmXY :: mg_encoder where
  "encodeGetImgToArmXY j = p2_put 217 0 ([20] @
       put_f32 j ''imgX'' @ put_f32 j ''imgY'' @ put_u8 j ''needTranxy'' @ put_u8 j ''suckApriltag'' @
       put_u8 j ''apriltagHeight'')"

section \<open>The commands\<close>

text \<open>The table in parts, in the order of the code.\<close>

definition mg_cmds1 :: "(string \<times> mg_encoder) list" where
  "mg_cmds1 =
     [(''SetDeviceSN'', encodeSetDeviceSN), (''GetDeviceSN'', encodeGetDeviceSN),
      (''SetDeviceName'', encodeSetDeviceName), (''GetDeviceName'', encodeGetDeviceName),
      (''GetDeviceVersion'', encodeGetDeviceVersion), (''SetDeviceWithL'', encodeSetDeviceWithL),
      (''GetDeviceWithL'', encodeGetDeviceWithL), (''GetDeviceTime'', encodeGetDeviceTime),
      (''GetDeviceID'', encodeGetDeviceID), (''GetProductName'', encodeGetProductName),
      (''SetOLEDDisplay'', encodeSetOLEDDisplay), (''SetProgressBar'', encodeSetProgressBar),
      (''GetPose'', encodeGetPose), (''ResetPose'', encodeResetPose), (''GetPoseL'', encodeGetPoseL),
      (''CheckPoseLimit'', encodeCheckPoseLimit), (''GetAlarmsState'', encodeGetAlarmsState),
      (''ClearAllAlarmsState'', encodeClearAllAlarmsState), (''SetHOMEParams'', encodeSetHOMEParams),
      (''GetHOMEParams'', encodeGetHOMEParams), (''SetHOMECmd'', encodeSetHOMECmd),
      (''SetAutoLeveling'', encodeSetAutoLeveling), (''GetAutoLeveling'', encodeGetAutoLeveling),
      (''GetGoHomeStatus'', encodeGetGoHomeStatus), (''SetHHTTrigMode'', encodeSetHHTTrigMode),
      (''GetHHTTrigMode'', encodeGetHHTTrigMode), (''SetHHTTrigOutputEnabled'', encodeSetHHTTrigOutputEnabled),
      (''GetHHTTrigOutputEnabled'', encodeGetHHTTrigOutputEnabled)]"

definition mg_cmds2 :: "(string \<times> mg_encoder) list" where
  "mg_cmds2 =
     [(''GetHHTTrigOutput'', encodeGetHHTTrigOutput), (''SetEndEffectorParams'', encodeSetEndEffectorParams),
      (''GetEndEffectorParams'', encodeGetEndEffectorParams), (''SetEndEffectorLaser'', encodeSetEndEffectorLaser),
      (''GetEndEffectorLaser'', encodeGetEndEffectorLaser),
      (''SetEndEffectorSuctionCup'', encodeSetEndEffectorSuctionCup),
      (''GetEndEffectorSuctionCup'', encodeGetEndEffectorSuctionCup),
      (''SetEndEffectorGripper'', encodeSetEndEffectorGripper),
      (''GetEndEffectorGripper'', encodeGetEndEffectorGripper), (''SetEndEffectorType'', encodeSetEndEffectorType),
      (''GetEndEffectorType'', encodeGetEndEffectorType), (''SetServoAngle'', encodeSetServoAngle),
      (''GetServoAngle'', encodeGetServoAngle), (''SetArmSpeedRatio'', encodeSetArmSpeedRatio),
      (''GetArmSpeedRatio'', encodeGetArmSpeedRatio), (''SetLSpeedRatio'', encodeSetLSpeedRatio),
      (''GetLSpeedRatio'', encodeGetLSpeedRatio), (''GetConfigAndStatus'', encodeGetConfigAndStatus),
      (''GetRTStatus'', encodeGetRTStatus), (''SetJOGJointParams'', encodeSetJOGJointParams),
      (''GetJOGJointParams'', encodeGetJOGJointParams), (''SetJOGCoordinateParams'', encodeSetJOGCoordinateParams),
      (''GetJOGCoordinateParams'', encodeGetJOGCoordinateParams), (''SetJOGCommonParams'', encodeSetJOGCommonParams),
      (''GetJOGCommonParams'', encodeGetJOGCommonParams), (''SetJOGCmd'', encodeSetJOGCmd),
      (''SetJOGLParams'', encodeSetJOGLParams), (''GetJOGLParams'', encodeGetJOGLParams)]"

definition mg_cmds3 :: "(string \<times> mg_encoder) list" where
  "mg_cmds3 =
     [(''SetJOGCmdTime'', encodeSetJOGCmdTime), (''SetPTPJointParams'', encodeSetPTPJointParams),
      (''GetPTPJointParams'', encodeGetPTPJointParams), (''SetPTPCoordinateParams'', encodeSetPTPCoordinateParams),
      (''GetPTPCoordinateParams'', encodeGetPTPCoordinateParams), (''SetPTPJumpParams'', encodeSetPTPJumpParams),
      (''GetPTPJumpParams'', encodeGetPTPJumpParams), (''SetPTPCommonParams'', encodeSetPTPCommonParams),
      (''GetPTPCommonParams'', encodeGetPTPCommonParams), (''SetPTPCmd'', encodeSetPTPCmd),
      (''SetPTPLParams'', encodeSetPTPLParams), (''GetPTPLParams'', encodeGetPTPLParams),
      (''SetPTPWithLCmd'', encodeSetPTPWithLCmd), (''SetPTPJump2Params'', encodeSetPTPJump2Params),
      (''GetPTPJump2Params'', encodeGetPTPJump2Params), (''SetPTPPOCmd'', encodeSetPTPPOCmd),
      (''SetPTPPOWithLCmd'', encodeSetPTPPOWithLCmd), (''SetCPParams'', encodeSetCPParams),
      (''GetCPParams'', encodeGetCPParams), (''SetCPCmd'', encodeSetCPCmd), (''SetCPLECmd'', encodeSetCPLECmd),
      (''SetCPRHeadHoldEnable'', encodeSetCPRHeadHoldEnable), (''GetCPRHeadHoldEnable'', encodeGetCPRHeadHoldEnable),
      (''SetCPCommonParams'', encodeSetCPCommonParams), (''GetCPCommonParams'', encodeGetCPCommonParams),
      (''SetCP2Cmd'', encodeSetCP2Cmd), (''SetARCParams'', encodeSetARCParams),
      (''GetARCParams'', encodeGetARCParams)]"

definition mg_cmds4 :: "(string \<times> mg_encoder) list" where
  "mg_cmds4 =
     [(''SetARCCmd'', encodeSetARCCmd), (''SetCircleCmd'', encodeSetCircleCmd),
      (''SetARCCommonParams'', encodeSetARCCommonParams), (''GetARCCommonParams'', encodeGetARCCommonParams),
      (''SetWAITCmd'', encodeSetWAITCmd), (''SetTRIGCmd'', encodeSetTRIGCmd),
      (''SetIOMultiplexing'', encodeSetIOMultiplexing), (''GetIOMultiplexing'', encodeGetIOMultiplexing),
      (''SetIODO'', encodeSetIODO), (''GetIODO'', encodeGetIODO), (''SetIOPWM'', encodeSetIOPWM),
      (''GetIOPWM'', encodeGetIOPWM), (''GetIODI'', encodeGetIODI), (''GetIOADC'', encodeGetIOADC),
      (''SetEMotor'', encodeSetEMotor), (''SetEMotorS'', encodeSetEMotorS),
      (''SetColorSensor'', encodeSetColorSensor), (''GetColorSensor'', encodeGetColorSensor),
      (''SetInfraredSensor'', encodeSetInfraredSensor), (''GetInfraredSensor'', encodeGetInfraredSensor),
      (''SetIICInfo'', encodeSetIICInfo), (''GetIICInfo'', encodeGetIICInfo),
      (''SetAngleSensorStaticError'', encodeSetAngleSensorStaticError),
      (''GetAngleSensorStaticError'', encodeGetAngleSensorStaticError),
      (''SetAngleSensorCoef'', encodeSetAngleSensorCoef), (''GetAngleSensorCoef'', encodeGetAngleSensorCoef),
      (''SetBaseDecoderStaticError'', encodeSetBaseDecoderStaticError),
      (''GetBaseDecoderStaticError'', encodeGetBaseDecoderStaticError)]"

definition mg_cmds5 :: "(string \<times> mg_encoder) list" where
  "mg_cmds5 =
     [(''SetLRHandCalibrateValue'', encodeSetLRHandCalibrateValue),
      (''GetLRHandCalibrateValue'', encodeGetLRHandCalibrateValue), (''SetWIFIConfigMode'', encodeSetWIFIConfigMode),
      (''GetWIFIConfigMode'', encodeGetWIFIConfigMode), (''SetWIFISSID'', encodeSetWIFISSID),
      (''GetWIFISSID'', encodeGetWIFISSID), (''SetWIFIPassword'', encodeSetWIFIPassword),
      (''GetWIFIPassword'', encodeGetWIFIPassword), (''SetWIFIIPAddress'', encodeSetWIFIIPAddress),
      (''GetWIFIIPAddress'', encodeGetWIFIIPAddress), (''SetWIFINetmask'', encodeSetWIFINetmask),
      (''GetWIFINetmask'', encodeGetWIFINetmask), (''SetWIFIGateway'', encodeSetWIFIGateway),
      (''GetWIFIGateway'', encodeGetWIFIGateway), (''SetWIFIDNS'', encodeSetWIFIDNS),
      (''GetWIFIDNS'', encodeGetWIFIDNS), (''GetWIFIConnectStatus'', encodeGetWIFIConnectStatus),
      (''SetLostStepValue'', encodeSetLostStepValue), (''SetLostStepCmd'', encodeSetLostStepCmd),
      (''SetCollisionCheck'', encodeSetCollisionCheck), (''GetCollisionCheck'', encodeGetCollisionCheck),
      (''GetDeviceStatus'', encodeGetDeviceStatus), (''SetDeviceRunAPP'', encodeSetDeviceRunAPP),
      (''SetUpgradeStatus'', encodeSetUpgradeStatus), (''GetUpgradeStatus'', encodeGetUpgradeStatus),
      (''SetRunUpgrade'', encodeSetRunUpgrade), (''SetStartTransmit'', encodeSetStartTransmit),
      (''SetUpgradeVeify'', encodeSetUpgradeVeify)]"

definition mg_cmds6 :: "(string \<times> mg_encoder) list" where
  "mg_cmds6 =
     [(''SetDeviceRestart'', encodeSetDeviceRestart), (''GetColorObjExist'', encodeGetColorObjExist),
      (''GetColorObjCoordinate'', encodeGetColorObjCoordinate),
      (''GetSeeedDistanceSensor'', encodeGetSeeedDistanceSensor), (''SetSeeedTempSensor'', encodeSetSeeedTempSensor),
      (''GetSeeedTempSensor'', encodeGetSeeedTempSensor), (''SetSeeedLightSensor'', encodeSetSeeedLightSensor),
      (''GetSeeedLightSensor'', encodeGetSeeedLightSensor), (''SetSeeedColorSensor'', encodeSetSeeedColorSensor),
      (''GetSeeedColorSensor'', encodeGetSeeedColorSensor), (''SetSeeedRGBLed'', encodeSetSeeedRGBLed),
      (''GetMCUTemperature'', encodeGetMCUTemperature), (''QueuedCmdStart'', encodeSetQueuedCmdStart),
      (''QueuedCmdStop'', encodeSetQueuedCmdStop), (''QueuedCmdForceStop'', encodeSetQueuedCmdForceStop),
      (''QueuedCmdStartDownload'', encodeSetQueuedCmdStartDownload),
      (''QueuedCmdStopDownload'', encodeSetQueuedCmdStopDownload), (''QueuedCmdClear'', encodeSetQueuedCmdClear),
      (''GetQueuedCmdCurrentIndex'', encodeGetQueuedCmdCurrentIndex),
      (''GetQueuedCmdLeftSpace'', encodeGetQueuedCmdLeftSpace), (''SensorRGBLEDInit'', encodeSensorRGBLEDInit),
      (''SensorSetRGBLEDVlaue'', encodeSensorSetRGBLEDVlaue),
      (''SensorRGBLEDTurnOFFAll'', encodeSensorRGBLEDTurnOFFAll),
      (''SensorSetRGBLEDState'', encodeSensorSetRGBLEDState), (''SensorOledInit'', encodeSensorOledInit),
      (''SensorOledClear'', encodeSensorOledClear), (''SensorOledDisplay'', encodeSensorOledDisplay),
      (''SensorKnobInit'', encodeSensorKnobInit)]"

definition mg_cmds7 :: "(string \<times> mg_encoder) list" where
  "mg_cmds7 =
     [(''SensorGetKnob'', encodeSensorGetKnob), (''SensorVoiceInit'', encodeSensorVoiceInit),
      (''SensorGetVoice'', encodeSensorGetVoice), (''SensorLightInit'', encodeSensorLightInit),
      (''SensorGetLight'', encodeSensorGetLight), (''SensorPEInit'', encodeSensorPEInit),
      (''SensorGetPEState'', encodeSensorGetPEState), (''SensorUltrasonicInit'', encodeSensorUltrasonicInit),
      (''SensorUltrasonicGet'', encodeSensorUltrasonicGet), (''SensorSHT31Init'', encodeSensorSHT31Init),
      (''SensorGetSHT31'', encodeSensorGetSHT31), (''SensorColorInit'', encodeSensorColorInit),
      (''SensorGetColor'', encodeSensorGetColor), (''SensorGetColorRes'', encodeSensorGetColorRes),
      (''SensorXBeeInit'', encodeSensorXBeeInit), (''SensorXBeeSend'', encodeSensorXBeeSend),
      (''SensorXBeeReceive'', encodeSensorXBeeReceive), (''SensorXBeeClear'', encodeSensorXBeeClear),
      (''SensorSYNInit'', encodeSensorSYNInit), (''SensorSetSYN'', encodeSensorSetSYN),
      (''SensorSetSYNMusic'', encodeSensorSetSYNMusic), (''SensorSendSYN'', encodeSensorSendSYN),
      (''SensorSetSYNCmd'', encodeSensorSetSYNCmd), (''SetBleInf'', encodeSetBleInf),
      (''GetBleInf'', encodeGetBleInf), (''BleConnect'', encodeBleConnect),
      (''BleReadOneData'', encodeBleReadOneData), (''BleWriteOneData'', encodeBleWriteOneData)]"

definition mg_cmds8 :: "(string \<times> mg_encoder) list" where
  "mg_cmds8 =
     [(''SetBleMesh'', encodeSetBleMesh), (''BleReadMeshData'', encodeBleReadMeshData),
      (''BleWriteMeshData'', encodeBleWriteMeshData), (''BleClearMeshData'', encodeBleClearMeshData),
      (''SetSensorHandModel'', encodeSetSensorHandModel), (''GetSensorHandModel'', encodeGetSensorHandModel),
      (''IsSensorHandModel'', encodeIsSensorHandModel), (''IsJoystickButton'', encodeIsJoystickButton),
      (''GetJoystickButton'', encodeGetJoystickButton), (''GetJoystickPos'', encodeGetJoystickPos),
      (''IsPirDetected'', encodeIsPirDetected), (''GetButtonStatus'', encodeGetButtonStatus),
      (''GetRedButtonStatus'', encodeGetRedButtonStatus), (''GetBlueButtonStatus'', encodeGetBlueButtonStatus),
      (''BluetoothSetMaster'', encodeBleSetMaster), (''BluetoothSetSlave'', encodeBleSetSlave),
      (''BluetoothRecvData'', encodeBleRecvData), (''BluetoothSendData'', encodeBleSendData),
      (''BluetoothClearCacheData'', encodeBleClearCacheData), (''BluetoothGetMacAddress'', encodeBleGetMacAddress),
      (''SetStopPointParam'', encodeSetStopPointParam), (''SetStopPointServer'', encodeSetStopPointServer),
      (''GetStopPointState'', encodeGetStopPointState), (''GetImgToArmXY'', encodeGetImgToArmXY)]"

definition m_encodeFuncMap :: "(string \<times> mg_encoder) list" where
  "m_encodeFuncMap = mg_cmds1 @ mg_cmds2 @ mg_cmds3 @ mg_cmds4 @ mg_cmds5 @ mg_cmds6 @ mg_cmds7 @ mg_cmds8"

lemmas mg_enc_defs =
  put_upgrade_def encodeSetDeviceSN_def encodeGetDeviceSN_def encodeSetDeviceName_def encodeGetDeviceName_def
  encodeGetDeviceVersion_def encodeSetDeviceWithL_def encodeGetDeviceWithL_def encodeGetDeviceTime_def
  encodeGetDeviceID_def encodeGetProductName_def encodeSetOLEDDisplay_def encodeSetProgressBar_def
  encodeGetPose_def encodeResetPose_def encodeGetPoseL_def encodeCheckPoseLimit_def encodeGetAlarmsState_def
  encodeClearAllAlarmsState_def encodeSetHOMEParams_def encodeGetHOMEParams_def encodeSetHOMECmd_def
  encodeSetAutoLeveling_def encodeGetAutoLeveling_def encodeGetGoHomeStatus_def encodeSetHHTTrigMode_def
  encodeGetHHTTrigMode_def encodeSetHHTTrigOutputEnabled_def encodeGetHHTTrigOutputEnabled_def
  encodeGetHHTTrigOutput_def encodeSetEndEffectorParams_def encodeGetEndEffectorParams_def
  encodeSetEndEffectorLaser_def encodeGetEndEffectorLaser_def encodeSetEndEffectorSuctionCup_def
  encodeGetEndEffectorSuctionCup_def encodeSetEndEffectorGripper_def encodeGetEndEffectorGripper_def
  encodeSetEndEffectorType_def encodeGetEndEffectorType_def encodeSetServoAngle_def encodeGetServoAngle_def
  encodeSetArmSpeedRatio_def encodeGetArmSpeedRatio_def encodeSetLSpeedRatio_def encodeGetLSpeedRatio_def
  encodeGetConfigAndStatus_def encodeGetRTStatus_def encodeSetJOGJointParams_def encodeGetJOGJointParams_def
  encodeSetJOGCoordinateParams_def encodeGetJOGCoordinateParams_def encodeSetJOGCommonParams_def
  encodeGetJOGCommonParams_def encodeSetJOGCmd_def encodeSetJOGLParams_def encodeSetJOGCmdTime_def
  encodeGetJOGLParams_def encodeSetPTPJointParams_def encodeGetPTPJointParams_def
  encodeSetPTPCoordinateParams_def encodeGetPTPCoordinateParams_def encodeSetPTPJumpParams_def
  encodeGetPTPJumpParams_def encodeSetPTPCommonParams_def encodeGetPTPCommonParams_def encodeSetPTPCmd_def
  encodeSetPTPLParams_def encodeGetPTPLParams_def encodeSetPTPWithLCmd_def encodeSetPTPJump2Params_def
  encodeGetPTPJump2Params_def encodeSetPTPPOCmd_def encodeSetPTPPOWithLCmd_def encodeSetCPParams_def
  encodeGetCPParams_def encodeSetCPCmd_def encodeSetCPLECmd_def encodeSetCPRHeadHoldEnable_def
  encodeGetCPRHeadHoldEnable_def encodeSetCPCommonParams_def encodeGetCPCommonParams_def encodeSetCP2Cmd_def
  encodeSetARCParams_def encodeGetARCParams_def encodeSetARCCmd_def encodeSetCircleCmd_def
  encodeSetARCCommonParams_def encodeGetARCCommonParams_def encodeSetWAITCmd_def encodeSetTRIGCmd_def
  encodeSetIOMultiplexing_def encodeGetIOMultiplexing_def encodeSetIODO_def encodeGetIODO_def encodeSetIOPWM_def
  encodeGetIOPWM_def encodeGetIODI_def encodeGetIOADC_def encodeSetEMotor_def encodeSetEMotorS_def
  encodeSetColorSensor_def encodeGetColorSensor_def encodeSetInfraredSensor_def encodeGetInfraredSensor_def
  encodeSetIICInfo_def encodeGetIICInfo_def encodeSetAngleSensorStaticError_def
  encodeGetAngleSensorStaticError_def encodeSetAngleSensorCoef_def encodeGetAngleSensorCoef_def
  encodeSetBaseDecoderStaticError_def encodeGetBaseDecoderStaticError_def encodeSetLRHandCalibrateValue_def
  encodeGetLRHandCalibrateValue_def encodeSetWIFIConfigMode_def encodeGetWIFIConfigMode_def
  encodeSetWIFISSID_def encodeGetWIFISSID_def encodeSetWIFIPassword_def encodeGetWIFIPassword_def
  encodeSetWIFIIPAddress_def encodeGetWIFIIPAddress_def encodeSetWIFINetmask_def encodeGetWIFINetmask_def
  encodeSetWIFIGateway_def encodeGetWIFIGateway_def encodeSetWIFIDNS_def encodeGetWIFIDNS_def
  encodeGetWIFIConnectStatus_def encodeSetLostStepValue_def encodeSetLostStepCmd_def encodeSetCollisionCheck_def
  encodeGetCollisionCheck_def encodeGetDeviceStatus_def encodeSetDeviceRunAPP_def encodeSetUpgradeStatus_def
  encodeGetUpgradeStatus_def encodeSetRunUpgrade_def encodeSetStartTransmit_def encodeSetUpgradeVeify_def
  encodeSetDeviceRestart_def encodeGetColorObjExist_def encodeGetColorObjCoordinate_def
  encodeGetSeeedDistanceSensor_def encodeSetSeeedTempSensor_def encodeGetSeeedTempSensor_def
  encodeSetSeeedLightSensor_def encodeGetSeeedLightSensor_def encodeSetSeeedColorSensor_def
  encodeGetSeeedColorSensor_def encodeSetSeeedRGBLed_def encodeGetMCUTemperature_def encodeSetQueuedCmdStart_def
  encodeSetQueuedCmdStop_def encodeSetQueuedCmdForceStop_def encodeSetQueuedCmdStartDownload_def
  encodeSetQueuedCmdStopDownload_def encodeSetQueuedCmdClear_def encodeGetQueuedCmdCurrentIndex_def
  encodeGetQueuedCmdLeftSpace_def encodeSensorRGBLEDInit_def encodeSensorSetRGBLEDVlaue_def
  encodeSensorRGBLEDTurnOFFAll_def encodeSensorSetRGBLEDState_def encodeSensorOledInit_def
  encodeSensorOledClear_def encodeSensorOledDisplay_def encodeSensorKnobInit_def encodeSensorGetKnob_def
  encodeSensorVoiceInit_def encodeSensorGetVoice_def encodeSensorLightInit_def encodeSensorGetLight_def
  encodeSensorPEInit_def encodeSensorGetPEState_def encodeSensorUltrasonicInit_def encodeSensorUltrasonicGet_def
  encodeSensorSHT31Init_def encodeSensorGetSHT31_def encodeSensorColorInit_def encodeSensorGetColor_def
  encodeSensorGetColorRes_def encodeSensorXBeeInit_def encodeSensorXBeeSend_def encodeSensorXBeeReceive_def
  encodeSensorXBeeClear_def encodeSensorSYNInit_def encodeSensorSetSYN_def encodeSensorSetSYNMusic_def
  encodeSensorSendSYN_def encodeSensorSetSYNCmd_def encodeSetBleInf_def encodeGetBleInf_def encodeBleConnect_def
  encodeBleReadOneData_def encodeBleWriteOneData_def encodeSetBleMesh_def encodeBleReadMeshData_def
  encodeBleWriteMeshData_def encodeBleClearMeshData_def encodeSetSensorHandModel_def
  encodeGetSensorHandModel_def encodeIsSensorHandModel_def encodeIsJoystickButton_def encodeGetJoystickPos_def
  encodeGetJoystickButton_def encodeIsPirDetected_def encodeGetButtonStatus_def encodeGetRedButtonStatus_def
  encodeGetBlueButtonStatus_def encodeBleSetMaster_def encodeBleSetSlave_def encodeBleRecvData_def
  encodeBleSendData_def encodeBleClearCacheData_def encodeBleGetMacAddress_def encodeSetStopPointServer_def
  encodeSetStopPointParam_def encodeGetStopPointState_def encodeGetImgToArmXY_def

end
