(* ===== verification/MgDecode.thy ===== *)
theory MgDecode imports P2Values begin

text \<open>
  How the answers of a Magician and of a MagicBox are read: the \<open>decode\<close> functions of
  \<open>Protocol2/DMagicianProtocol.cpp\<close> and their tables.
\<close>

section \<open>The decoders\<close>

text \<open>The \<open>if\<close>s over the byte of the colour sensor; other numbers leave the text empty.\<close>

definition color_name :: "u8 \<Rightarrow> json_value" where
  "color_name res = JStr (if unat res < 7
     then [''none'', ''red'', ''green'', ''blue'', ''yellow'', ''black'', ''white''] ! unat res else '''')"

definition decodeDeviceSN :: p2_decoder where
  "decodeDeviceSN rw ps = p2_reply_some (rw_cmd rw ''GetDeviceSN'' ''SetDeviceSN'') [(''deviceSN'', text_at 0)] ps"

definition decodeDeviceName :: p2_decoder where
  "decodeDeviceName rw ps = p2_reply_some (rw_cmd rw ''GetDeviceName'' ''SetDeviceName'') [(''deviceName'', text_at 0)] ps"

definition decodeDeviceVersion :: "u16 list \<Rightarrow> p2_decoder" where
  "decodeDeviceVersion m_Device rw ps =
     p2_params (get_cmd rw ''GetDeviceVersion'')
       [(''majorVersion'', i8_at 0), (''minorVersion'', i8_at 1), (''revision'', i8_at 2),
        (''hwVersion'', i8_at (if m_Device = utf16_of ''Magician'' then 13 else 3))] ps"

definition decodeDeviceWithL :: p2_decoder where
  "decodeDeviceWithL rw ps =
     p2_reply (rw_cmd rw ''GetDeviceWithL'' ''SetDeviceWithL'')
       [(1, [(''isEnabled'', flag_at 0)])] ps"

definition decodeDeviceTime :: p2_decoder where
  "decodeDeviceTime rw ps =
     p2_reply (get_cmd rw ''GetDeviceTime'') [(4, [(''gSystick'', u32_at 0), (''passtime'', time_at 0)])] ps"

definition decodeDeviceID :: p2_decoder where
  "decodeDeviceID rw ps =
     p2_reply (get_cmd rw ''GetDeviceID'') [(12, [(''deviceID'', array_at (map u8_at [0..<3]))])] ps"

definition decodeDeviceInfo :: p2_decoder where
  "decodeDeviceInfo rw ps =
     p2_reply (get_cmd rw ''GetDeviceInfo'')
       [(16, [(''deviceRunTime'', u64_at 0), (''devicePowerOn'', u32_at 8), (''devicePowerOff'', u32_at 12)])] ps"

definition decodeProductName :: p2_decoder where
  "decodeProductName rw ps = p2_reply_some (get_cmd rw ''GetProductName'') [(''productName'', text_at 0)] ps"

definition decodeOLEDDisplay :: p2_decoder where
  "decodeOLEDDisplay rw ps = Some (set_cmd rw ''SetOLEDDisplay'')"

definition decodeProgressBar :: p2_decoder where
  "decodeProgressBar rw ps = Some (set_cmd rw ''SetProgressBar'')"

definition decodePose :: p2_decoder where
  "decodePose rw ps =
     p2_reply (get_cmd rw ''GetPose'')
       [(32, [(''x'', f32_at 0), (''y'', f32_at 4), (''z'', f32_at 8), (''r'', f32_at 12),
        (''jointAngle'', array_at (map (\<lambda>i. f32_at (16 + 4 * i)) [0..<4]))])] ps"

definition decodeResetPose :: p2_decoder where
  "decodeResetPose rw ps = Some (set_cmd rw ''ResetPose'')"

definition decodePoseL :: p2_decoder where
  "decodePoseL rw ps = p2_reply (get_cmd rw ''GetPoseL'') [(4, [(''positionL'', f32_at 0)])] ps"

definition decodeCheckPoseLimit :: p2_decoder where
  "decodeCheckPoseLimit rw ps = p2_reply (set_cmd rw ''CheckPoseLimit'') [(1, [(''isLimited'', flag_at 0)])] ps"

definition decodeAlarmState :: p2_decoder where
  "decodeAlarmState rw ps =
     p2_reply_some (rw_cmd rw ''GetAlarmsState'' ''ClearAllAlarmsState'') [(''state'', array_at (map u8_at [0..<length ps]))] ps"

definition decodeHOMEParams :: p2_decoder where
  "decodeHOMEParams rw ps =
     p2_reply (rw_cmd rw ''GetHOMEParams'' ''SetHOMEParams'')
       [(16, [(''x'', f32_at 0), (''y'', f32_at 4), (''z'', f32_at 8), (''r'', f32_at 12)]), queue_index] ps"

definition decodeHOMECmd :: p2_decoder where
  "decodeHOMECmd rw ps = p2_reply (set_cmd rw ''SetHOMECmd'') [queue_index] ps"

definition decodeAutoLeveling :: p2_decoder where
  "decodeAutoLeveling rw ps =
     (if rw = 0 then p2_reply (any_cmd ''GetAutoLeveling'') [(4, [(''precision'', f32_at 0)])] ps
      else p2_reply (any_cmd ''SetAutoLeveling'') [(8, [(''queuedCmdIndex'', i64_at 0)])] ps)"

definition decodeGoHomeStatus :: p2_decoder where
  "decodeGoHomeStatus rw ps = p2_reply (get_cmd rw ''GetGoHomeStatus'') [(1, [(''isFinished'', flag_at 0)])] ps"

definition decodeHHTTrigMode :: p2_decoder where
  "decodeHHTTrigMode rw ps = p2_reply_some (rw_cmd rw ''GetHHTTrigMode'' ''SetHHTTrigMode'') [(''mode'', u8_at 0)] ps"

definition decodeHHTTrigOutputEnabled :: p2_decoder where
  "decodeHHTTrigOutputEnabled rw ps =
     p2_reply (rw_cmd rw ''GetHHTTrigOutputEnabled'' ''SetHHTTrigOutputEnabled'')
       [(1, [(''isEnabled'', flag_at 0)])] ps"

definition decodeHHTTrigOutput :: p2_decoder where
  "decodeHHTTrigOutput rw ps = p2_reply (get_cmd rw ''GetHHTTrigOutput'') [(1, [(''isTriggered'', flag_at 0)])] ps"

definition decodeArmOrientation :: p2_decoder where
  "decodeArmOrientation rw ps =
     p2_reply (rw_cmd rw ''GetArmOrientation'' ''SetArmOrientation'')
       [(1, [(''armOrientation'', u8_at 0)]), queue_index] ps"

definition decodeMotorMode :: p2_decoder where
  "decodeMotorMode rw ps = Some (rw_cmd rw ''GetMotorMode'' ''SetMotorMode'')"

definition decodeEndEffectorParams :: p2_decoder where
  "decodeEndEffectorParams rw ps =
     p2_reply (rw_cmd rw ''GetEndEffectorParams'' ''SetEndEffectorParams'')
       [(12, [(''xOffset'', f32_at 0), (''yOffset'', f32_at 4), (''zOffset'', f32_at 8)]), queue_index] ps"

definition decodeEndEffectorLaser :: p2_decoder where
  "decodeEndEffectorLaser rw ps =
     p2_reply (rw_cmd rw ''GetEndEffectorLaser'' ''SetEndEffectorLaser'')
       [(2, [(''isEnabled'', flag_at 0), (''isOn'', flag_at 1)]), queue_index] ps"

definition decodeEndEffectorSuctionCup :: p2_decoder where
  "decodeEndEffectorSuctionCup rw ps =
     p2_reply (rw_cmd rw ''GetEndEffectorSuctionCup'' ''SetEndEffectorSuctionCup'')
       [(2, [(''isEnabled'', flag_at 0), (''isOn'', flag_at 1)]), queue_index] ps"

definition decodeEndEffectorGripper :: p2_decoder where
  "decodeEndEffectorGripper rw ps =
     p2_reply (rw_cmd rw ''GetEndEffectorGripper'' ''SetEndEffectorGripper'')
       [(2, [(''isEnabled'', flag_at 0), (''isOn'', flag_at 1)]), queue_index] ps"

definition decodeEndEffectorType :: p2_decoder where
  "decodeEndEffectorType rw ps =
     p2_reply (rw_cmd rw ''GetEndEffectorType'' ''SetEndEffectorType'')
       [(1, [(''type'', u8_at 0)])] ps"

definition decodeServoAngle :: p2_decoder where
  "decodeServoAngle rw ps =
     p2_reply (rw_cmd rw ''GetServoAngle'' ''SetServoAngle'')
       [(5, [(''index'', u8_at 0), (''angle'', f32_at 1)])] ps"

definition decodeArmSpeedRatio :: p2_decoder where
  "decodeArmSpeedRatio rw ps =
     p2_reply (rw_cmd rw ''GetArmSpeedRatio'' ''SetArmSpeedRatio'')
       [(2, [(''type'', u8_at 0), (''value'', u8_at 1)])] ps"

definition decodeLSpeedRatio :: p2_decoder where
  "decodeLSpeedRatio rw ps =
     p2_reply (rw_cmd rw ''GetLSpeedRatio'' ''SetLSpeedRatio'')
       [(2, [(''type'', u8_at 0), (''value'', u8_at 1)])] ps"

definition decodeConfigAndStatus :: p2_decoder where
  "decodeConfigAndStatus rw ps = Some (get_cmd rw ''GetConfigAndStatus'')"

definition decodeRTStatus :: p2_decoder where
  "decodeRTStatus rw ps = Some (get_cmd rw ''GetRTStatus'')"

definition decodeJOGJointParams :: p2_decoder where
  "decodeJOGJointParams rw ps =
     p2_reply (rw_cmd rw ''GetJOGJointParams'' ''SetJOGJointParams'')
       [(32, [(''velocity'', array_at (map (\<lambda>i. f32_at (4 * i)) [0..<4])),
        (''acceleration'', array_at (map (\<lambda>i. f32_at (16 + 4 * i)) [0..<4]))]), queue_index] ps"

definition decodeJOGCoordinateParams :: p2_decoder where
  "decodeJOGCoordinateParams rw ps =
     p2_reply (rw_cmd rw ''GetJOGCoordinateParams'' ''SetJOGCoordinateParams'')
       [(32, [(''velocity'', array_at (map (\<lambda>i. f32_at (4 * i)) [0..<4])),
        (''acceleration'', array_at (map (\<lambda>i. f32_at (16 + 4 * i)) [0..<4]))]), queue_index] ps"

definition decodeJOGCommonParams :: p2_decoder where
  "decodeJOGCommonParams rw ps =
     p2_reply (rw_cmd rw ''GetJOGCommonParams'' ''SetJOGCommonParams'')
       [(8, [(''velocityRatio'', f32_at 0), (''accelerationRatio'', f32_at 4)]), queue_index] ps"

definition decodeJOGCmd :: p2_decoder where
  "decodeJOGCmd rw ps = p2_reply (set_cmd rw ''SetJOGCmd'') [queue_index] ps"

definition decodeJOGLParams :: p2_decoder where
  "decodeJOGLParams rw ps =
     p2_reply (rw_cmd rw ''GetJOGLParams'' ''SetJOGLParams'')
       [(8, [(''velocity'', f32_at 0), (''acceleration'', f32_at 4)]), queue_index] ps"

definition decodeJOGCmdTime :: p2_decoder where
  "decodeJOGCmdTime rw ps = p2_reply (set_cmd rw ''SetJOGCmdTime'') [queue_index] ps"

definition decodePTPJointParams :: p2_decoder where
  "decodePTPJointParams rw ps =
     p2_reply (rw_cmd rw ''GetPTPJointParams'' ''SetPTPJointParams'')
       [(32, [(''velocity'', array_at (map (\<lambda>i. f32_at (4 * i)) [0..<4])),
        (''acceleration'', array_at (map (\<lambda>i. f32_at (16 + 4 * i)) [0..<4]))]), queue_index] ps"

definition decodePTPCoordinateParams :: p2_decoder where
  "decodePTPCoordinateParams rw ps =
     p2_reply (rw_cmd rw ''GetPTPCoordinateParams'' ''SetPTPCoordinateParams'')
       [(16, [(''xyzVelocity'', f32_at 0), (''rVelocity'', f32_at 4), (''xyzAcceleration'', f32_at 8),
        (''rAcceleration'', f32_at 12)]), queue_index] ps"

definition decodePTPJumpParams :: p2_decoder where
  "decodePTPJumpParams rw ps =
     p2_reply (rw_cmd rw ''GetPTPJumpParams'' ''SetPTPJumpParams'')
       [(8, [(''jumpHeight'', f32_at 0), (''zLimit'', f32_at 4)]), queue_index] ps"

definition decodePTPCommonParams :: p2_decoder where
  "decodePTPCommonParams rw ps =
     p2_reply (rw_cmd rw ''GetPTPCommonParams'' ''SetPTPCommonParams'')
       [(8, [(''velocityRatio'', f32_at 0), (''accelerationRatio'', f32_at 4)]), queue_index] ps"

definition decodePTPCmd :: p2_decoder where
  "decodePTPCmd rw ps = p2_reply (set_cmd rw ''SetPTPCmd'') [queue_index] ps"

definition decodePTPLParams :: p2_decoder where
  "decodePTPLParams rw ps =
     p2_reply (rw_cmd rw ''GetPTPLParams'' ''SetPTPLParams'')
       [(8, [(''velocity'', f32_at 0), (''acceleration'', f32_at 4)]), queue_index] ps"

definition decodePTPWithLCmd :: p2_decoder where
  "decodePTPWithLCmd rw ps = p2_reply (set_cmd rw ''SetPTPWithLCmd'') [queue_index] ps"

definition decodePTPJump2Params :: p2_decoder where
  "decodePTPJump2Params rw ps =
     p2_reply (rw_cmd rw ''GetPTPJump2Params'' ''SetPTPJump2Params'')
       [(12, [(''startJumpHeight'', f32_at 0), (''endJumpHeight'', f32_at 4), (''zLimit'', f32_at 8)]),
        queue_index] ps"

definition decodePTPPOCmd :: p2_decoder where
  "decodePTPPOCmd rw ps = p2_reply (set_cmd rw ''SetPTPPOCmd'') [queue_index] ps"

definition decodePTPPOWithLCmd :: p2_decoder where
  "decodePTPPOWithLCmd rw ps = p2_reply (set_cmd rw ''SetPTPPOWithLCmd'') [queue_index] ps"

definition decodeCPParams :: p2_decoder where
  "decodeCPParams rw ps =
     p2_reply (rw_cmd rw ''GetCPParams'' ''SetCPParams'')
       [(13, [(''targetAcc'', f32_at 0), (''junctionVel'', f32_at 4),
              (if 0 < ps ! 12 then ''period'' else ''acc'', f32_at 8), (''isRealTimeTrack'', flag_at 12)]), queue_index] ps"

definition decodeCPCmd :: p2_decoder where
  "decodeCPCmd rw ps = p2_reply (set_cmd rw ''SetCPCmd'') [queue_index] ps"

definition decodeCPLECmd :: p2_decoder where
  "decodeCPLECmd rw ps = p2_reply (set_cmd rw ''SetCPLECmd'') [queue_index] ps"

definition decodeCPRHeadHoldEnable :: p2_decoder where
  "decodeCPRHeadHoldEnable rw ps = Some (rw_cmd rw ''GetCPRHoldEnable'' ''SetCPRHoldEnable'')"

definition decodeCPCommonParams :: p2_decoder where
  "decodeCPCommonParams rw ps = Some (rw_cmd rw ''GetCPCommonParams'' ''SetCPCommonParams'')"

definition decodeCP2Cmd :: p2_decoder where
  "decodeCP2Cmd rw ps = p2_reply (set_cmd rw ''SetCP2Cmd'') [queue_index] ps"

definition decodeARCParams :: p2_decoder where
  "decodeARCParams rw ps =
     p2_reply (rw_cmd rw ''GetARCParams'' ''SetARCParams'')
       [(16, [(''xyzVelocity'', f32_at 0), (''rVelocity'', f32_at 4), (''xyzAcceleration'', f32_at 8),
        (''rAcceleration'', f32_at 12)]), queue_index] ps"

definition decodeARCCmd :: p2_decoder where
  "decodeARCCmd rw ps = p2_reply (set_cmd rw ''SetARCCmd'') [queue_index] ps"

definition decodeCircleCmd :: p2_decoder where
  "decodeCircleCmd rw ps = Some (set_cmd rw ''SetCircleCmd'')"

definition decodeARCCommonParams :: p2_decoder where
  "decodeARCCommonParams rw ps = Some (rw_cmd rw ''GetARCCommonParams'' ''SetARCCommonParams'')"

definition decodeWAITCmd :: p2_decoder where
  "decodeWAITCmd rw ps = p2_reply (set_cmd rw ''SetWAITCmd'') [queue_index] ps"

definition decodeTRIGCmd :: p2_decoder where
  "decodeTRIGCmd rw ps = p2_reply (set_cmd rw ''SetTRIGCmd'') [queue_index] ps"

definition decodeIOMultiplexing :: p2_decoder where
  "decodeIOMultiplexing rw ps =
     p2_reply (rw_cmd rw ''GetIOMultiplexing'' ''SetIOMultiplexing'')
       [(1, [(''port'', u8_at 0)]), (2, [(''port'', u8_at 0), (''multiplex'', u8_at 1)]), queue_index] ps"

definition decodeIODO :: p2_decoder where
  "decodeIODO rw ps =
     p2_reply (rw_cmd rw ''GetIODO'' ''SetIODO'')
       [(2, [(''port'', u8_at 0), (''level'', u8_at 1)]), queue_index] ps"

definition decodeIOPWM :: p2_decoder where
  "decodeIOPWM rw ps =
     p2_reply (rw_cmd rw ''GetIOPWM'' ''SetIOPWM'')
       [(9, [(''port'', u8_at 0), (''dutyCycle'', f32_at 5), (''frequency'', f32_at 1)]), queue_index] ps"

definition decodeIODI :: p2_decoder where
  "decodeIODI rw ps = p2_reply (get_cmd rw ''GetIODI'') [(2, [(''port'', u8_at 0), (''level'', u8_at 1)])] ps"

definition decodeIOADC :: p2_decoder where
  "decodeIOADC rw ps = p2_reply (get_cmd rw ''GetIOADC'') [(3, [(''port'', u8_at 0), (''value'', u16_at 1)])] ps"

definition decodeEMotor :: p2_decoder where
  "decodeEMotor rw ps = p2_reply (set_cmd rw ''SetEMotor'') [queue_index] ps"

definition decodeEMotorS :: p2_decoder where
  "decodeEMotorS rw ps = p2_reply (set_cmd rw ''SetEMotorS'') [queue_index] ps"

definition decodeColorSensor :: p2_decoder where
  "decodeColorSensor rw ps =
     p2_reply (rw_cmd rw ''GetColorSensor'' ''SetColorSensor'')
       [(3, [(''red'', u8_at 0), (''green'', u8_at 1), (''blue'', u8_at 2)]), queue_index] ps"

definition decodeInfraredSensor :: p2_decoder where
  "decodeInfraredSensor rw ps =
     p2_reply (rw_cmd rw ''GetInfraredSensor'' ''SetInfraredSensor'')
       [(1, [(''status'', u8_at 0)]), queue_index] ps"

definition decodeIICInfo :: p2_decoder where
  "decodeIICInfo rw ps = Some (rw_cmd rw ''GetIICInfo'' ''SetIICInfo'')"

definition decodeAngleSensorStaticError :: p2_decoder where
  "decodeAngleSensorStaticError rw ps =
     p2_reply (rw_cmd rw ''GetAngleSensorStaticError'' ''SetAngleSensorStaticError'')
       [(8, [(''rearArmAngleError'', f32_at 0), (''frontArmAngleError'', f32_at 4)])] ps"

definition decodeAngleSensorCoef :: p2_decoder where
  "decodeAngleSensorCoef rw ps =
     p2_reply (rw_cmd rw ''GetAngleSensorCoef'' ''SetAngleSensorCoef'')
       [(8, [(''rearArmAngle'', f32_at 0), (''frontArmAngle'', f32_at 4)])] ps"

definition decodeBaseDecoderStaticError :: p2_decoder where
  "decodeBaseDecoderStaticError rw ps =
     p2_reply (rw_cmd rw ''SetBaseDecoderStaticError'' ''GetBaseDecoderStaticError'')
       [(4, [(''baseDecoderError'', f32_at 0)])] ps"

definition decodeLRHandCalibrateValue :: p2_decoder where
  "decodeLRHandCalibrateValue rw ps = Some (rw_cmd rw ''GetLRHandCalibrateValue'' ''SetLRHandCalibrateValue'')"

definition decodeWIFIConfigMode :: p2_decoder where
  "decodeWIFIConfigMode rw ps =
     p2_reply (rw_cmd rw ''GetWIFIConfigMode'' ''SetWIFIConfigMode'')
       [(1, [(''enable'', flag_at 0)])] ps"

definition decodeWIFISSID :: p2_decoder where
  "decodeWIFISSID rw ps = p2_reply_some (rw_cmd rw ''GetWIFISSID'' ''SetWIFISSID'') [(''ssid'', text_at 0)] ps"

definition decodeWIFIPassword :: p2_decoder where
  "decodeWIFIPassword rw ps = p2_reply_some (rw_cmd rw ''GetWIFIPassword'' ''SetWIFIPassword'') [(''password'', text_at 0)] ps"

definition decodeWIFIIPAddress :: p2_decoder where
  "decodeWIFIIPAddress rw ps =
     p2_reply (rw_cmd rw ''GetWIFIIPAddress'' ''SetWIFIIPAddress'')
       [(5, [(''address'', array_at (map (\<lambda>i. u8_at (1 + i)) [0..<4])), (''dhcp'', u8_at 0)])] ps"

definition decodeWIFINetmask :: p2_decoder where
  "decodeWIFINetmask rw ps =
     p2_reply (rw_cmd rw ''GetWIFINetmask'' ''SetWIFINetmask'')
       [(4, [(''address'', array_at (map u8_at [0..<4]))])] ps"

definition decodeWIFIGateway :: p2_decoder where
  "decodeWIFIGateway rw ps =
     p2_reply (rw_cmd rw ''GetWIFIGateway'' ''SetWIFIGateway'')
       [(4, [(''address'', array_at (map u8_at [0..<4]))])] ps"

definition decodeWIFIDNS :: p2_decoder where
  "decodeWIFIDNS rw ps =
     p2_reply (rw_cmd rw ''GetWIFIDNS'' ''SetWIFIDNS'')
       [(4, [(''address'', array_at (map u8_at [0..<4]))])] ps"

definition decodeWIFIConnectStatus :: p2_decoder where
  "decodeWIFIConnectStatus rw ps = p2_reply (get_cmd rw ''GetWIFIConnectStatus'') [(1, [(''isConnected'', flag_at 0)])] ps"

definition decodeLostStep :: p2_decoder where
  "decodeLostStep rw ps = Some (set_cmd rw ''SetLostStepParams'')"

definition decodeLostStepCmd :: p2_decoder where
  "decodeLostStepCmd rw ps = Some (set_cmd rw ''SetLostStepCmd'')"

definition decodeCollisionCheck :: p2_decoder where
  "decodeCollisionCheck rw ps =
     p2_reply (rw_cmd rw ''GetCollisionCheck'' ''SetCollisionCheck'')
       [(5, [(''isEnabled'', flag_at 0), (''threshold'', f32_at 1)])] ps"

definition decodeDeviceStatus :: p2_decoder where
  "decodeDeviceStatus rw ps = Some (rw_cmd rw ''GetDeviceStatus'' ''SetDeviceStatus'')"

definition decodeDeviceRunAPP :: p2_decoder where
  "decodeDeviceRunAPP rw ps = Some (rw_cmd rw ''GetDeviceRunAPP'' ''SetDeviceRunAPP'')"

definition decodeUpgradeStatus :: p2_decoder where
  "decodeUpgradeStatus rw ps =
     p2_reply (rw_cmd rw ''GetUpgradeStatus'' ''SetUpgradeStatus'')
       [(1, [(''latest'', flag_at 0)])] ps"

definition decodeRunUpgrade :: p2_decoder where
  "decodeRunUpgrade rw ps = Some (rw_cmd rw ''GetRunUpgrade'' ''SetRunUpgrade'')"

definition decodeStartTransmit :: p2_decoder where
  "decodeStartTransmit rw ps = Some (rw_cmd rw ''GetStartTransmit'' ''SetStartTransmit'')"

definition decodeUpgradeVeify :: p2_decoder where
  "decodeUpgradeVeify rw ps = Some (rw_cmd rw ''GetUpgradeVeify'' ''SetUpgradeVeify'')"

definition decodeDeviceRestart :: p2_decoder where
  "decodeDeviceRestart rw ps = Some (set_cmd rw ''SetRestartDeviceCmd'')"

definition decodeColorObj :: p2_decoder where
  "decodeColorObj rw ps =
     (if rw = 1 then p2_params (any_cmd ''GetColorObjExist'') [(''status'', u8_at 0)] (ps @ [0])
      else if rw = 0 then p2_params (any_cmd ''GetColorObjCoordinate'') [(''color'', u8_at 0), (''coordinate'', u16_at 1)] (ps @ [0])
      else Some [])"

definition decodeSeeedDistanceSensor :: p2_decoder where
  "decodeSeeedDistanceSensor rw ps =
     p2_reply (get_cmd rw ''GetSeeedDistanceSensor'')
       [(1, [(''distance'', u8_at 0)])] ps"

definition decodeSeeedTempSensor :: p2_decoder where
  "decodeSeeedTempSensor rw ps =
     p2_reply (rw_cmd rw ''GetSeeedTempSensor'' ''SetSeeedTempSensor'')
       [(2, [(''temperature'', u8_at 0), (''humidity'', u8_at 1)])] ps"

definition decodeSeeedLightSensor :: p2_decoder where
  "decodeSeeedLightSensor rw ps =
     p2_reply (rw_cmd rw ''GetSeeedLightSensor'' ''SetSeeedLightSensor'')
       [(4, [(''intensity'', u32_at 0)])] ps"

definition decodeSeeedColorSensor :: p2_decoder where
  "decodeSeeedColorSensor rw ps =
     p2_reply (rw_cmd rw ''GetSeeedColorSensor'' ''SetSeeedColorSensor'')
       [(8, [(''red'', u16_at 0), (''green'', u16_at 2), (''blue'', u16_at 4), (''cct'', u16_at 6)])] ps"

definition decodeSeeedRGBLed :: p2_decoder where
  "decodeSeeedRGBLed rw ps = Some (set_cmd rw ''SetSeeedRGBLed'')"

definition decodeMCUTemperature :: p2_decoder where
  "decodeMCUTemperature rw ps = Some (get_cmd rw ''GetMCUTemperature'')"

definition decodeQueuedCmdStart :: p2_decoder where
  "decodeQueuedCmdStart rw ps = Some (set_cmd rw ''QueuedCmdStart'')"

definition decodeQueuedCmdStop :: p2_decoder where
  "decodeQueuedCmdStop rw ps = Some (set_cmd rw ''QueuedCmdStop'')"

definition decodeQueuedCmdForceStop :: p2_decoder where
  "decodeQueuedCmdForceStop rw ps = Some (get_cmd rw ''QueuedCmdForceStop'')"

definition decodeQueuedCmdStartDownload :: p2_decoder where
  "decodeQueuedCmdStartDownload rw ps = Some (set_cmd rw ''QueuedCmdStartDownload'')"

definition decodeQueuedCmdStopDownload :: p2_decoder where
  "decodeQueuedCmdStopDownload rw ps = Some (set_cmd rw ''QueuedCmdStopDownload'')"

definition decodeQueuedCmdClear :: p2_decoder where
  "decodeQueuedCmdClear rw ps = Some (set_cmd rw ''QueuedCmdClear'')"

definition decodeQueuedCmdCurrentIndex :: p2_decoder where
  "decodeQueuedCmdCurrentIndex rw ps = p2_reply (get_cmd rw ''GetQueuedCmdCurrentIndex'') [queue_index] ps"

definition decodeQueuedCmdLeftSpace :: p2_decoder where
  "decodeQueuedCmdLeftSpace rw ps =
     p2_reply (get_cmd rw ''GetQueuedCmdLeftSpace'') [(8, [(''leftSpace'', u64_at 0)]), (4, [(''leftSpace'', u32_at 0)])] ps"

definition decodeQueuedCmdMotionFinish :: p2_decoder where
  "decodeQueuedCmdMotionFinish rw ps = Some (get_cmd rw ''GetQueuedCmdMotionFinish'')"

definition decodeSensorRGBLEDInit :: p2_decoder where
  "decodeSensorRGBLEDInit rw ps = Some (set_cmd rw ''SensorRGBLEDInit'')"

definition decodeSensorSetRGBLEDVlaue :: p2_decoder where
  "decodeSensorSetRGBLEDVlaue rw ps = Some (set_cmd rw ''SensorSetRGBLEDVlaue'')"

definition decodeSensorRGBLEDTurnOFFAll :: p2_decoder where
  "decodeSensorRGBLEDTurnOFFAll rw ps = Some (set_cmd rw ''SensorRGBLEDTurnOFFAll'')"

definition decodeSensorSetRGBLEDState :: p2_decoder where
  "decodeSensorSetRGBLEDState rw ps = Some (set_cmd rw ''SensorSetRGBLEDState'')"

definition decodeSensorOledInit :: p2_decoder where
  "decodeSensorOledInit rw ps = Some (set_cmd rw ''SensorOledInit'')"

definition decodeSensorOledClear :: p2_decoder where
  "decodeSensorOledClear rw ps = Some (set_cmd rw ''SensorOledClear'')"

definition decodeSensorOledDisplay :: p2_decoder where
  "decodeSensorOledDisplay rw ps = Some (set_cmd rw ''SensorOledDisplay'')"

definition decodeSensorKnobInit :: p2_decoder where
  "decodeSensorKnobInit rw ps = Some (set_cmd rw ''SensorKnobInit'')"

definition decodeSensorGetKnob :: p2_decoder where
  "decodeSensorGetKnob rw ps = p2_reply (get_cmd rw ''SensorGetKnob'') [(2, [(''value'', u16_at 0)])] ps"

definition decodeSensorVoiceInit :: p2_decoder where
  "decodeSensorVoiceInit rw ps = Some (set_cmd rw ''SensorVoiceInit'')"

definition decodeSensorGetVoice :: p2_decoder where
  "decodeSensorGetVoice rw ps = p2_reply (get_cmd rw ''SensorGetVoice'') [(2, [(''value'', u16_at 0)])] ps"

definition decodeSensorLightInit :: p2_decoder where
  "decodeSensorLightInit rw ps = Some (set_cmd rw ''SensorLightInit'')"

definition decodeSensorGetLight :: p2_decoder where
  "decodeSensorGetLight rw ps = p2_reply (get_cmd rw ''SensorGetLight'') [(2, [(''value'', u16_at 0)])] ps"

definition decodeSensorPEInit :: p2_decoder where
  "decodeSensorPEInit rw ps = Some (set_cmd rw ''SensorPEInit'')"

definition decodeSensorGetPEState :: p2_decoder where
  "decodeSensorGetPEState rw ps = p2_reply (get_cmd rw ''SensorGetPEState'') [(1, [(''value'', flag_at 0)])] ps"

definition decodeSensorUltrasonicInit :: p2_decoder where
  "decodeSensorUltrasonicInit rw ps = Some (get_cmd rw ''SensorUltrasonicInit'')"

definition decodeSensorUltrasonicGet :: p2_decoder where
  "decodeSensorUltrasonicGet rw ps = p2_reply (get_cmd rw ''SensorUltrasonicGet'') [(1, [(''value'', u8_at 0)])] ps"

definition decodeSensorSHT31Init :: p2_decoder where
  "decodeSensorSHT31Init rw ps = Some (get_cmd rw ''SensorSHT31Init'')"

definition decodeSensorGetSHT31 :: p2_decoder where
  "decodeSensorGetSHT31 rw ps =
     p2_reply (get_cmd rw ''SensorGetSHT31'')
       [(2, [(''tem'', u8_at 0), (''hum'', u8_at 1)])] ps"

definition decodeSensorColorInit :: p2_decoder where
  "decodeSensorColorInit rw ps = Some (get_cmd rw ''SensorColorInit'')"

definition decodeSensorGetColor :: p2_decoder where
  "decodeSensorGetColor rw ps = p2_reply (get_cmd rw ''SensorGetColor'') [(2, [(''value'', u16_at 0)])] ps"

definition decodeSensorGetColorRes :: p2_decoder where
  "decodeSensorGetColorRes rw ps =
     p2_reply (get_cmd rw ''SensorGetColorRes'') [(1, [(''color'', \<lambda>p. map_option color_name (rd8 p 0))])] ps"

definition decodeSensorXBeeInit :: p2_decoder where
  "decodeSensorXBeeInit rw ps = Some (set_cmd rw ''SensorXBeeInit'')"

definition decodeSensorXBeeSend :: p2_decoder where
  "decodeSensorXBeeSend rw ps = Some (set_cmd rw ''SensorXBeeSend'')"

definition decodeSensorXBeeReceive :: p2_decoder where
  "decodeSensorXBeeReceive rw ps =
     (case ps of
        [] \<Rightarrow> Some (get_cmd rw ''SensorXBeeReceive'' @ [(''params'', JObject [(''text'', JStr '''')])])
      | n # text \<Rightarrow> p2_params (get_cmd rw ''SensorXBeeReceive'') [(''text'', text_at 0)] (take (unat n) text))"

definition decodeSensorXBeeClear :: p2_decoder where
  "decodeSensorXBeeClear rw ps = Some (get_cmd rw ''SensorXBeeClear'')"

definition decodeSensorSYNInit :: p2_decoder where
  "decodeSensorSYNInit rw ps = Some (set_cmd rw ''SensorSYNInit'')"

definition decodeSensorSetSYN :: p2_decoder where
  "decodeSensorSetSYN rw ps = Some (set_cmd rw ''SensorSetSYN'')"

definition decodeSensorSetSYNMusic :: p2_decoder where
  "decodeSensorSetSYNMusic rw ps = Some (set_cmd rw ''SensorSetSYNMusic'')"

definition decodeSensorSendSYN :: p2_decoder where
  "decodeSensorSendSYN rw ps = Some (set_cmd rw ''SensorSendSYN'')"

definition decodeSensorSetSYNCmd :: p2_decoder where
  "decodeSensorSetSYNCmd rw ps = Some (set_cmd rw ''SensorSetSYNCmd'')"

definition decodeBleInf :: p2_decoder where
  "decodeBleInf rw ps =
     (if rw = 1 then p2_reply_some (any_cmd ''SetBleInf'') [(''state'', hex_at 0)] ps
      else if rw = 0 then (if 2 \<le> length ps then None else Some (any_cmd ''GetBleInf''))
      else Some [])"

definition decodeBleConnect :: p2_decoder where
  "decodeBleConnect rw ps =
     (if rw = 1 then p2_reply_some (any_cmd ''BleConnect'') [(''state'', hex_at 0)] ps else Some [])"

definition decodeBleReadOneData :: p2_decoder where
  "decodeBleReadOneData rw ps =
     (case ps of
        [] \<Rightarrow> Some (set_cmd rw ''BleReadOneData'')
      | n # dat \<Rightarrow> p2_params (set_cmd rw ''BleReadOneData'') [(''data'', u8_at 0)] (take (unat n) dat @ [0]))"

definition decodeBleWriteOneData :: p2_decoder where
  "decodeBleWriteOneData rw ps = Some (set_cmd rw ''BleWriteOneData'')"

definition decodeSetBleMesh :: p2_decoder where
  "decodeSetBleMesh rw ps =
     Some (if rw = 1 then any_cmd ''SetBleMesh'' @ (if ps \<noteq> [] then [(''status'', JObject [])] else []) else [])"

definition decodeBleReadMeshData :: p2_decoder where
  "decodeBleReadMeshData rw ps =
     (if rw = 1 then p2_reply_some (any_cmd ''BleReadMeshData'') [(''state'', hex_at 0), (''devID'', hex_at 1), (''data'', text_at 3)] ps
      else Some [])"

definition decodeBleWriteMeshData :: p2_decoder where
  "decodeBleWriteMeshData rw ps =
     (if rw = 1 then p2_reply_some (any_cmd ''BleWriteMeshData'') [(''state'', hex_at 0)] ps else Some [])"

definition decodeBleClearMeshData :: p2_decoder where
  "decodeBleClearMeshData rw ps =
     Some (if rw = 1 then any_cmd ''BleClearMeshData'' @ (if ps = [68] then [(''result'', JBool True)] else [])
           else [(''result'', JBool False)])"

definition decodeSetSensorHandModel :: p2_decoder where
  "decodeSetSensorHandModel rw ps =
     p2_reply (any_cmd ''SetSensorHandModel'') [(1, [(''InitState'', \<lambda>p. map_option (\<lambda>x. JBool (x = 1)) (rd8 p 0))])] ps"

definition decodeGetSensorHandModel :: p2_decoder where
  "decodeGetSensorHandModel rw ps = p2_reply (any_cmd ''GetSensorHandModel'') [(1, [(''data'', u8_at 0)])] ps"

definition decodeIsSensorHandModel :: p2_decoder where
  "decodeIsSensorHandModel rw ps = p2_reply (any_cmd ''IsSensorHandModel'') [(1, [(''data'', u8_at 0)])] ps"

definition decodeIsJoystickButton :: p2_decoder where
  "decodeIsJoystickButton rw ps = p2_reply (any_cmd ''IsJoystickButton'') [(1, [(''res'', u8_at 0)])] ps"

definition decodeGetJoystickPos :: p2_decoder where
  "decodeGetJoystickPos rw ps =
     p2_reply (any_cmd ''GetJoystickPos'')
       [(3, [(''x'', u8_at 0), (''y'', u8_at 1), (''z'', u8_at 2)])] ps"

definition decodeGetJoystickButton :: p2_decoder where
  "decodeGetJoystickButton rw ps = do {
     n \<leftarrow> rd8 ps 0;
     p2_params (any_cmd ''GetJoystickButton'') [(''res'', array_at (map (\<lambda>i. u8_at (i + 1)) [0..<unat n]))] ps }"

definition decodeIsPirDetected :: p2_decoder where
  "decodeIsPirDetected rw ps = p2_reply (any_cmd ''IsPirDetected'') [(1, [(''res'', u8_at 0)])] ps"

definition decodeGetButtonStatus :: p2_decoder where
  "decodeGetButtonStatus rw ps =
     p2_reply (any_cmd ''GetButtonStatus'')
       [(2, [(''redBtn'', u8_at 0), (''blueBtn'', u8_at 1)])] ps"

definition decodeGetRedButtonStatus :: p2_decoder where
  "decodeGetRedButtonStatus rw ps = p2_reply (any_cmd ''GetRedButtonStatus'') [(1, [(''status'', u8_at 0)])] ps"

definition decodeGetBlueButtonStatus :: p2_decoder where
  "decodeGetBlueButtonStatus rw ps = p2_reply (any_cmd ''GetBlueButtonStatus'') [(1, [(''status'', u8_at 0)])] ps"

definition decodeBleSetMaster :: p2_decoder where
  "decodeBleSetMaster rw ps =
     (if rw = 1 then p2_reply_some (any_cmd ''BluetoothSetMaster'') [(''state'', i8_at 0)] ps else Some [])"

definition decodeBleSetSlave :: p2_decoder where
  "decodeBleSetSlave rw ps =
     (if rw = 1 then p2_reply_some (any_cmd ''BluetoothSetSlave'') [(''state'', i8_at 0)] ps else Some [])"

definition decodeBleRecvData :: p2_decoder where
  "decodeBleRecvData rw ps =
     (case ps of
        s # n # dat \<Rightarrow>
          p2_params (set_cmd rw ''BluetoothRecvData'') [(''state'', i8_at 0), (''data'', text_at 2)] (s # n # take (unat n) dat)
      | _ \<Rightarrow> Some (set_cmd rw ''BluetoothRecvData''))"

definition decodeBleSendData :: p2_decoder where
  "decodeBleSendData rw ps =
     (if rw = 1 then p2_reply_some (any_cmd ''BluetoothSendData'') [(''state'', i8_at 0)] ps else Some [])"

definition decodeBleClearCacheData :: p2_decoder where
  "decodeBleClearCacheData rw ps = Some (set_cmd rw ''BluetoothClearCacheData'')"

definition decodeBleGetMacAddress :: p2_decoder where
  "decodeBleGetMacAddress rw ps =
     (case ps of
        s # n # dat \<Rightarrow>
          p2_params (set_cmd rw ''BluetoothGetMacAddress'') [(''state'', i8_at 0), (''mac'', text_at 2)] (s # n # take (unat n) dat)
      | _ \<Rightarrow> Some (set_cmd rw ''BluetoothGetMacAddress''))"

definition decodeSetStopPointServer :: p2_decoder where
  "decodeSetStopPointServer rw ps = Some (set_cmd rw ''SetStopPointServer'')"

definition decodeSetStopPointParam :: p2_decoder where
  "decodeSetStopPointParam rw ps = Some (set_cmd rw ''SetStopPointParam'')"

definition decodeGetStopPointState :: p2_decoder where
  "decodeGetStopPointState rw ps =
     (if rw = 0 then p2_params (any_cmd ''GetStopPointState'') [(''result'', bool_at 1)] (ps @ [0]) else Some [])"

definition decodeGetImgToArmXY :: p2_decoder where
  "decodeGetImgToArmXY rw ps =
     (if rw = 0 then p2_params (any_cmd ''GetImgToArmXY'') [(''armX'', f32_at 1), (''armY'', f32_at 5), (''okflag'', u8_at 9)] (ps @ [0])
      else Some [])"

section \<open>The answers by number\<close>

text \<open>The tables, the longer ones in parts in the order of the code.\<close>

definition mg_sensor_answers1 :: "(int \<times> p2_decoder) list" where
  "mg_sensor_answers1 =
     [(1, decodeSensorRGBLEDInit), (2, decodeSensorSetRGBLEDVlaue), (3, decodeSensorRGBLEDTurnOFFAll),
      (4, decodeSensorSetRGBLEDState), (10, decodeSensorOledInit), (11, decodeSensorOledClear),
      (12, decodeSensorOledDisplay), (20, decodeSensorKnobInit), (21, decodeSensorGetKnob),
      (22, decodeSensorVoiceInit), (23, decodeSensorGetVoice), (24, decodeSensorLightInit),
      (25, decodeSensorGetLight), (26, decodeSensorPEInit), (27, decodeSensorGetPEState),
      (28, decodeSensorUltrasonicInit), (29, decodeSensorUltrasonicGet), (30, decodeSensorSHT31Init),
      (31, decodeSensorGetSHT31), (32, decodeSensorColorInit), (33, decodeSensorGetColor),
      (34, decodeSensorGetColorRes), (40, decodeSensorXBeeInit), (41, decodeSensorXBeeSend),
      (42, decodeSensorXBeeReceive), (43, decodeSensorXBeeClear), (50, decodeSensorSYNInit),
      (51, decodeSensorSetSYN)]"

definition mg_sensor_answers2 :: "(int \<times> p2_decoder) list" where
  "mg_sensor_answers2 =
     [(52, decodeSensorSetSYNMusic), (53, decodeSensorSendSYN), (54, decodeSensorSetSYNCmd), (60, decodeBleInf),
      (61, decodeBleConnect), (63, decodeBleReadOneData), (64, decodeBleWriteOneData), (65, decodeSetBleMesh),
      (66, decodeBleReadMeshData), (67, decodeBleWriteMeshData), (68, decodeBleClearMeshData),
      (70, decodeSetSensorHandModel), (71, decodeGetSensorHandModel), (72, decodeIsSensorHandModel),
      (73, decodeIsJoystickButton), (74, decodeGetJoystickPos), (75, decodeGetJoystickButton),
      (76, decodeIsPirDetected), (77, decodeGetButtonStatus), (78, decodeGetRedButtonStatus),
      (79, decodeGetBlueButtonStatus), (90, decodeBleSetMaster), (91, decodeBleSetSlave), (92, decodeBleRecvData),
      (93, decodeBleSendData), (94, decodeBleClearCacheData), (95, decodeBleGetMacAddress)]"

definition m_decodeDobotSensorFuncMap :: "(int \<times> p2_decoder) list" where
  "m_decodeDobotSensorFuncMap = mg_sensor_answers1 @ mg_sensor_answers2"

definition m_decodeBoxFuncMap :: "(int \<times> p2_decoder) list" where
  "m_decodeBoxFuncMap =
     [(10, decodeSetStopPointServer), (11, decodeSetStopPointParam), (12, decodeGetStopPointState),
      (20, decodeGetImgToArmXY)]"

text \<open>The answers of the sensors are read without the number they are found by, those of the camera with it.\<close>

definition decodeDobotSensor :: p2_decoder where
  "decodeDobotSensor rw ps =
     (case ps of
        [] \<Rightarrow> Some []
      | subid # rest \<Rightarrow> (case map_of m_decodeDobotSensorFuncMap (uint subid) of Some f \<Rightarrow> f rw rest | None \<Rightarrow> Some []))"

definition decodeBoxFunc :: p2_decoder where
  "decodeBoxFunc rw ps =
     (case ps of
        [] \<Rightarrow> Some []
      | subid # _ \<Rightarrow> (case map_of m_decodeBoxFuncMap (uint subid) of Some f \<Rightarrow> f rw ps | None \<Rightarrow> Some []))"

definition mg_answers1 :: "u16 list \<Rightarrow> (int \<times> p2_decoder) list" where
  "mg_answers1 m_Device =
     [(0, decodeDeviceSN), (1, decodeDeviceName), (2, decodeDeviceVersion m_Device), (3, decodeDeviceWithL),
      (4, decodeDeviceTime), (5, decodeDeviceID), (6, decodeDeviceInfo), (7, decodeProductName),
      (8, decodeOLEDDisplay), (9, decodeProgressBar), (10, decodePose), (11, decodeResetPose), (13, decodePoseL),
      (15, decodeCheckPoseLimit), (20, decodeAlarmState), (30, decodeHOMEParams), (31, decodeHOMECmd),
      (32, decodeAutoLeveling), (33, decodeGoHomeStatus), (40, decodeHHTTrigMode), (41, decodeHHTTrigOutputEnabled),
      (42, decodeHHTTrigOutput), (50, decodeArmOrientation), (51, decodeMotorMode), (60, decodeEndEffectorParams),
      (61, decodeEndEffectorLaser), (62, decodeEndEffectorSuctionCup), (63, decodeEndEffectorGripper)]"

definition mg_answers2 :: "(int \<times> p2_decoder) list" where
  "mg_answers2 =
     [(64, decodeEndEffectorType), (65, decodeServoAngle), (66, decodeArmSpeedRatio), (67, decodeLSpeedRatio),
      (68, decodeConfigAndStatus), (69, decodeRTStatus), (70, decodeJOGJointParams), (71, decodeJOGCoordinateParams),
      (72, decodeJOGCommonParams), (73, decodeJOGCmd), (74, decodeJOGLParams), (75, decodeJOGCmdTime),
      (80, decodePTPJointParams), (81, decodePTPCoordinateParams), (82, decodePTPJumpParams),
      (83, decodePTPCommonParams), (84, decodePTPCmd), (85, decodePTPLParams), (86, decodePTPWithLCmd),
      (87, decodePTPJump2Params), (88, decodePTPPOCmd), (89, decodePTPPOWithLCmd), (90, decodeCPParams),
      (91, decodeCPCmd), (92, decodeCPLECmd), (93, decodeCPRHeadHoldEnable), (94, decodeCPCommonParams),
      (95, decodeCP2Cmd)]"

definition mg_answers3 :: "(int \<times> p2_decoder) list" where
  "mg_answers3 =
     [(100, decodeARCParams), (101, decodeARCCmd), (102, decodeCircleCmd), (103, decodeARCCommonParams),
      (110, decodeWAITCmd), (120, decodeTRIGCmd), (130, decodeIOMultiplexing), (131, decodeIODO), (132, decodeIOPWM),
      (133, decodeIODI), (134, decodeIOADC), (135, decodeEMotor), (136, decodeEMotorS), (137, decodeColorSensor),
      (138, decodeInfraredSensor), (139, decodeIICInfo), (140, decodeAngleSensorStaticError),
      (141, decodeAngleSensorCoef), (142, decodeBaseDecoderStaticError), (143, decodeLRHandCalibrateValue),
      (150, decodeWIFIConfigMode), (151, decodeWIFISSID), (152, decodeWIFIPassword), (153, decodeWIFIIPAddress),
      (154, decodeWIFINetmask), (155, decodeWIFIGateway), (156, decodeWIFIDNS), (157, decodeWIFIConnectStatus)]"

definition mg_answers4 :: "(int \<times> p2_decoder) list" where
  "mg_answers4 =
     [(170, decodeLostStep), (171, decodeLostStepCmd), (172, decodeCollisionCheck), (192, decodeDeviceStatus),
      (193, decodeDeviceRunAPP), (194, decodeUpgradeStatus), (195, decodeRunUpgrade), (196, decodeStartTransmit),
      (197, decodeUpgradeVeify), (198, decodeDeviceRestart), (200, decodeColorObj), (210, decodeSeeedDistanceSensor),
      (211, decodeSeeedTempSensor), (212, decodeSeeedLightSensor), (213, decodeSeeedColorSensor),
      (214, decodeSeeedRGBLed), (215, decodeMCUTemperature), (216, decodeDobotSensor), (217, decodeBoxFunc),
      (240, decodeQueuedCmdStart), (241, decodeQueuedCmdStop), (242, decodeQueuedCmdForceStop),
      (243, decodeQueuedCmdStartDownload), (244, decodeQueuedCmdStopDownload), (245, decodeQueuedCmdClear),
      (246, decodeQueuedCmdCurrentIndex), (247, decodeQueuedCmdLeftSpace), (248, decodeQueuedCmdMotionFinish)]"

definition m_decodeFuncMap :: "u16 list \<Rightarrow> (int \<times> p2_decoder) list" where
  "m_decodeFuncMap m_Device = mg_answers1 m_Device @ mg_answers2 @ mg_answers3 @ mg_answers4"

lemmas mg_dec_defs =
  decodeDeviceSN_def decodeDeviceName_def decodeDeviceVersion_def decodeDeviceWithL_def decodeDeviceTime_def
  decodeDeviceID_def decodeDeviceInfo_def decodeProductName_def decodeOLEDDisplay_def decodeProgressBar_def
  decodePose_def decodeResetPose_def decodePoseL_def decodeCheckPoseLimit_def decodeAlarmState_def
  decodeHOMEParams_def decodeHOMECmd_def decodeAutoLeveling_def decodeGoHomeStatus_def decodeHHTTrigMode_def
  decodeHHTTrigOutputEnabled_def decodeHHTTrigOutput_def decodeArmOrientation_def decodeMotorMode_def
  decodeEndEffectorParams_def decodeEndEffectorLaser_def decodeEndEffectorSuctionCup_def
  decodeEndEffectorGripper_def decodeEndEffectorType_def decodeServoAngle_def decodeArmSpeedRatio_def
  decodeLSpeedRatio_def decodeConfigAndStatus_def decodeRTStatus_def decodeJOGJointParams_def
  decodeJOGCoordinateParams_def decodeJOGCommonParams_def decodeJOGCmd_def decodeJOGLParams_def
  decodeJOGCmdTime_def decodePTPJointParams_def decodePTPCoordinateParams_def decodePTPJumpParams_def
  decodePTPCommonParams_def decodePTPCmd_def decodePTPLParams_def decodePTPWithLCmd_def decodePTPJump2Params_def
  decodePTPPOCmd_def decodePTPPOWithLCmd_def decodeCPParams_def decodeCPCmd_def decodeCPLECmd_def
  decodeCPRHeadHoldEnable_def decodeCPCommonParams_def decodeCP2Cmd_def decodeARCParams_def decodeARCCmd_def
  decodeCircleCmd_def decodeARCCommonParams_def decodeWAITCmd_def decodeTRIGCmd_def decodeIOMultiplexing_def
  decodeIODO_def decodeIOPWM_def decodeIODI_def decodeIOADC_def decodeEMotor_def decodeEMotorS_def
  decodeColorSensor_def decodeInfraredSensor_def decodeIICInfo_def decodeAngleSensorStaticError_def
  decodeAngleSensorCoef_def decodeBaseDecoderStaticError_def decodeLRHandCalibrateValue_def
  decodeWIFIConfigMode_def decodeWIFISSID_def decodeWIFIPassword_def decodeWIFIIPAddress_def
  decodeWIFINetmask_def decodeWIFIGateway_def decodeWIFIDNS_def decodeWIFIConnectStatus_def decodeLostStep_def
  decodeLostStepCmd_def decodeCollisionCheck_def decodeDeviceStatus_def decodeDeviceRunAPP_def
  decodeUpgradeStatus_def decodeRunUpgrade_def decodeStartTransmit_def decodeUpgradeVeify_def
  decodeDeviceRestart_def decodeColorObj_def decodeSeeedDistanceSensor_def decodeSeeedTempSensor_def
  decodeSeeedLightSensor_def decodeSeeedColorSensor_def decodeSeeedRGBLed_def decodeMCUTemperature_def
  decodeQueuedCmdStart_def decodeQueuedCmdStop_def decodeQueuedCmdForceStop_def decodeQueuedCmdStartDownload_def
  decodeQueuedCmdStopDownload_def decodeQueuedCmdClear_def decodeQueuedCmdCurrentIndex_def
  decodeQueuedCmdLeftSpace_def decodeQueuedCmdMotionFinish_def decodeSensorRGBLEDInit_def
  decodeSensorSetRGBLEDVlaue_def decodeSensorRGBLEDTurnOFFAll_def decodeSensorSetRGBLEDState_def
  decodeSensorOledInit_def decodeSensorOledClear_def decodeSensorOledDisplay_def decodeSensorKnobInit_def
  decodeSensorGetKnob_def decodeSensorVoiceInit_def decodeSensorGetVoice_def decodeSensorLightInit_def
  decodeSensorGetLight_def decodeSensorPEInit_def decodeSensorGetPEState_def decodeSensorUltrasonicInit_def
  decodeSensorUltrasonicGet_def decodeSensorSHT31Init_def decodeSensorGetSHT31_def decodeSensorColorInit_def
  decodeSensorGetColor_def decodeSensorGetColorRes_def decodeSensorXBeeInit_def decodeSensorXBeeSend_def
  decodeSensorXBeeReceive_def decodeSensorXBeeClear_def decodeSensorSYNInit_def decodeSensorSetSYN_def
  decodeSensorSetSYNMusic_def decodeSensorSendSYN_def decodeSensorSetSYNCmd_def decodeBleInf_def
  decodeBleConnect_def decodeBleReadOneData_def decodeBleWriteOneData_def decodeSetBleMesh_def
  decodeBleReadMeshData_def decodeBleWriteMeshData_def decodeBleClearMeshData_def decodeSetSensorHandModel_def
  decodeGetSensorHandModel_def decodeIsSensorHandModel_def decodeIsJoystickButton_def decodeGetJoystickPos_def
  decodeGetJoystickButton_def decodeIsPirDetected_def decodeGetButtonStatus_def decodeGetRedButtonStatus_def
  decodeGetBlueButtonStatus_def decodeBleSetMaster_def decodeBleSetSlave_def decodeBleRecvData_def
  decodeBleSendData_def decodeBleClearCacheData_def decodeBleGetMacAddress_def decodeSetStopPointServer_def
  decodeSetStopPointParam_def decodeGetStopPointState_def decodeGetImgToArmXY_def

end
