(* ===== verification/M1Encode.thy ===== *)
theory M1Encode imports P2Values begin

text \<open>
  How the commands for an M1 are laid out: the \<open>encode\<close> functions of \<open>Protocol2/DM1Protocol.cpp\<close>
  and their table. The names of \<open>MgEncode\<close> are prefixed.
\<close>

section \<open>The encoders\<close>

text \<open>This protocol keeps no state of its own.\<close>

type_synonym m1_encoder = "unit p2_encoder"

definition p2_assign :: "u8 \<Rightarrow> u8 \<Rightarrow> bytes \<Rightarrow> 'd \<times> PacketPayload \<Rightarrow> ('d \<times> PacketPayload) option" where
  "p2_assign cid rw bs = (\<lambda>(d, p). p2_put cid rw bs (d, p\<lparr>p_params := []\<rparr>))"

text \<open>
  The Latin-1 text of a string with a 0 behind it, cut or extended to 16 bytes; what it is extended
  by is never assigned.
\<close>

definition put_resized :: "p2_object \<Rightarrow> string \<Rightarrow> string \<Rightarrow> bytes option" where
  "put_resized j k dflt =
     (let s = (case pvalue j k of PStr t \<Rightarrow> t_latin1 t | _ \<Rightarrow> map of_char dflt)
      in if length s + 1 < 16 then None else Some (take 16 (s @ [0])))"

text \<open>This command and \<open>SetDeviceName\<close> assign the parameters.\<close>

definition M1_encodeSetDeviceSN :: m1_encoder where
  "M1_encodeSetDeviceSN j = p2_assign 0 1 (put_latin1 j ''deviceSN'')"

definition M1_encodeGetDeviceSN :: m1_encoder where
  "M1_encodeGetDeviceSN j = p2_put 0 0 []"

definition M1_encodeSetDeviceName :: m1_encoder where
  "M1_encodeSetDeviceName j = p2_assign 1 1 (put_text j ''deviceName'')"

definition M1_encodeGetDeviceName :: m1_encoder where
  "M1_encodeGetDeviceName j = p2_put 1 0 []"

definition M1_encodeGetDeviceVersion :: m1_encoder where
  "M1_encodeGetDeviceVersion j = p2_put 2 0 (put_u8 j ''type'')"

definition M1_encodeGetHardwareVersion :: m1_encoder where
  "M1_encodeGetHardwareVersion j = p2_put 5 0 []"

definition M1_encodeGetPose :: m1_encoder where
  "M1_encodeGetPose j = p2_put 10 0 []"

definition M1_encodeResetPose :: m1_encoder where
  "M1_encodeResetPose j = p2_put 11 1 (put_u8 j ''manual'' @ put_f32 j ''frontAngle1'' @ put_f32 j ''frontAngle2'')"

definition M1_encodeGetAlarmsState :: m1_encoder where
  "M1_encodeGetAlarmsState j = p2_put 20 0 []"

definition M1_encodeClearAllAlarmsState :: m1_encoder where
  "M1_encodeClearAllAlarmsState j = p2_put 20 1 []"

definition M1_encodeSetServoPower :: m1_encoder where
  "M1_encodeSetServoPower j = p2_put 28 1 (put_bool j ''on'')"

definition M1_encodeGetServoPower :: m1_encoder where
  "M1_encodeGetServoPower j = p2_put 20 0 []"

definition M1_encodeGetRunState :: m1_encoder where
  "M1_encodeGetRunState j = p2_put 29 0 []"

definition M1_encodeSetHOMECmd :: m1_encoder where
  "M1_encodeSetHOMECmd j = p2_put 31 1 (put_bool j ''isResetPars'')"

definition M1_encodeSetHOMEInitialPos :: m1_encoder where
  "M1_encodeSetHOMEInitialPos j = p2_put 34 1 []"

definition M1_encodeSetHHTTrigMode :: m1_encoder where
  "M1_encodeSetHHTTrigMode j = p2_put 40 1 (put_u8 j ''mode'')"

definition M1_encodeGetHHTTrigMode :: m1_encoder where
  "M1_encodeGetHHTTrigMode j = p2_put 40 0 []"

definition M1_encodeSetHHTTrigOutputEnabled :: m1_encoder where
  "M1_encodeSetHHTTrigOutputEnabled j = p2_put 41 1 (put_bool j ''enable'')"

definition M1_encodeGetHHTTrigOutputEnabled :: m1_encoder where
  "M1_encodeGetHHTTrigOutputEnabled j = p2_put 41 0 []"

definition M1_encodeGetHHTTrigOutput :: m1_encoder where
  "M1_encodeGetHHTTrigOutput j = p2_put 42 0 []"

definition M1_encodeSetArmOrientation :: m1_encoder where
  "M1_encodeSetArmOrientation j = p2_put 50 1 (put_u8 j ''orientation'')"

definition M1_encodeGetArmOrientation :: m1_encoder where
  "M1_encodeGetArmOrientation j = p2_put 50 0 []"

definition M1_encodeSetEndEffectorParams :: m1_encoder where
  "M1_encodeSetEndEffectorParams j = p2_put 60 1 (put_f32 j ''xOffset'' @
       put_f32 j ''yOffset'' @ put_f32 j ''zOffset'')"

definition M1_encodeGetEndEffectorParams :: m1_encoder where
  "M1_encodeGetEndEffectorParams j = p2_put 60 0 []"

definition M1_encodeSetEndEffectorLaser :: m1_encoder where
  "M1_encodeSetEndEffectorLaser j = p2_put 61 1 (put_bool j ''enable'' @ put_bool j ''on'')"

definition M1_encodeGetEndEffectorLaser :: m1_encoder where
  "M1_encodeGetEndEffectorLaser j = p2_put 61 0 []"

definition M1_encodeSetEndEffectorSuctionCup :: m1_encoder where
  "M1_encodeSetEndEffectorSuctionCup j = p2_put 62 1 (put_bool j ''enable'' @ put_bool j ''on'')"

definition M1_encodeGetEndEffectorSuctionCup :: m1_encoder where
  "M1_encodeGetEndEffectorSuctionCup j = p2_put 62 0 []"

definition M1_encodeSetEndEffectorGripper :: m1_encoder where
  "M1_encodeSetEndEffectorGripper j = p2_put 63 1 (put_bool j ''enable'' @ put_bool j ''on'')"

definition M1_encodeGetEndEffectorGripper :: m1_encoder where
  "M1_encodeGetEndEffectorGripper j = p2_put 63 0 []"

definition M1_encodeSetJOGJointParams :: m1_encoder where
  "M1_encodeSetJOGJointParams j = p2_put 70 1 (put_arrays4 j)"

definition M1_encodeGetJOGJointParams :: m1_encoder where
  "M1_encodeGetJOGJointParams j = p2_put 70 0 []"

definition M1_encodeSetJOGCoordinateParams :: m1_encoder where
  "M1_encodeSetJOGCoordinateParams j = p2_put 71 1 (put_arrays4 j)"

definition M1_encodeGetJOGCoordinateParams :: m1_encoder where
  "M1_encodeGetJOGCoordinateParams j = p2_put 71 0 []"

definition M1_encodeSetJOGCommonParams :: m1_encoder where
  "M1_encodeSetJOGCommonParams j = p2_put 72 1 (put_f32 j ''velocityRatio'' @ put_f32 j ''accelerationRatio'')"

definition M1_encodeGetJOGCommonParams :: m1_encoder where
  "M1_encodeGetJOGCommonParams j = p2_put 72 0 []"

definition M1_encodeSetJOGCmd :: m1_encoder where
  "M1_encodeSetJOGCmd j = p2_put 73 1 (put_bool j ''isJoint'' @ put_u8 j ''cmd'')"

definition M1_encodeSetInchMode :: m1_encoder where
  "M1_encodeSetInchMode j = p2_put 75 1 (put_u8 j ''mode'')"

definition M1_encodeGetInchMode :: m1_encoder where
  "M1_encodeGetInchMode j = p2_put 75 0 []"

definition M1_encodeSetInchParam :: m1_encoder where
  "M1_encodeSetInchParam j = p2_put 76 1 (put_f32 j ''distanceMM'' @ put_f32 j ''distanceANG'')"

definition M1_encodeGetInchParam :: m1_encoder where
  "M1_encodeGetInchParam j = p2_put 76 0 []"

definition M1_encodeSetPTPJointParams :: m1_encoder where
  "M1_encodeSetPTPJointParams j = p2_put 80 1 (put_arrays4 j)"

definition M1_encodeGetPTPJointParams :: m1_encoder where
  "M1_encodeGetPTPJointParams j = p2_put 80 0 []"

definition M1_encodeSetPTPCoordinateParams :: m1_encoder where
  "M1_encodeSetPTPCoordinateParams j = p2_put 81 1 (put_f32 j ''xyzVelocity'' @
       put_f32 j ''rVelocity'' @ put_f32 j ''xyzAcceleration'' @ put_f32 j ''rAcceleration'')"

definition M1_encodeGetPTPCoordinateParams :: m1_encoder where
  "M1_encodeGetPTPCoordinateParams j = p2_put 81 0 []"

definition M1_encodeSetPTPJumpParams :: m1_encoder where
  "M1_encodeSetPTPJumpParams j =
     p2_put 82 1 (put_f32 j ''jumpHeight'' @ put_f32 j ''zLimit'' @
       bytes32 (if pvalue j ''isUsingZLimit'' = PBool False then 0 else 1))"

definition M1_encodeGetPTPJumpParams :: m1_encoder where
  "M1_encodeGetPTPJumpParams j = p2_put 82 0 []"

definition M1_encodeSetPTPCommonParams :: m1_encoder where
  "M1_encodeSetPTPCommonParams j = p2_put 83 1 (put_f32 j ''velocityRatio'' @ put_f32 j ''accelerationRatio'')"

definition M1_encodeGetPTPCommonParams :: m1_encoder where
  "M1_encodeGetPTPCommonParams j = p2_put 83 0 []"

definition M1_encodeSetPTPCmd :: m1_encoder where
  "M1_encodeSetPTPCmd j = p2_put 84 1 (put_u8 j ''ptpMode'' @ put_point j)"

definition M1_encodeSetPTPPOCmd :: m1_encoder where
  "M1_encodeSetPTPPOCmd j =
     (let ptpCmdObj = toObject (pvalue j ''ptpCmd'')
      in p2_put 88 1 (put_u8 ptpCmdObj ''ptpMode'' @ put_point ptpCmdObj @ put_pos (toArray (pvalue j ''poCmd''))))"

definition M1_encodeSetCPParams :: m1_encoder where
  "M1_encodeSetCPParams j =
     p2_put 90 1 (put_f32 j ''targetAcc'' @ put_f32 j ''junctionVel'' @
       (if toBool (pvalue j ''isRealTimeTrack'') then put_f32 j ''period'' @ [1] else put_f32 j ''acc'' @ [0]))"

definition M1_encodeGetCPParams :: m1_encoder where
  "M1_encodeGetCPParams j = p2_put 90 0 []"

definition M1_encodeSetCPCmd :: m1_encoder where
  "M1_encodeSetCPCmd j =
     p2_put 91 1 (put_u8 j ''cpMode'' @ put_f32 j ''x'' @ put_f32 j ''y'' @ put_f32 j ''z'' @ put_f32 j ''power'')"

definition M1_encodeSetCPLECmd :: m1_encoder where
  "M1_encodeSetCPLECmd j =
     p2_put 92 1 (put_u8 j ''cpMode'' @ put_f32 j ''x'' @ put_f32 j ''y'' @ put_f32 j ''z'' @ put_f32 j ''power'')"

definition M1_encodeSetARCParams :: m1_encoder where
  "M1_encodeSetARCParams j = p2_put 100 1 (put_f32 j ''xyzVelocity'' @
       put_f32 j ''rVelocity'' @ put_f32 j ''xyzAcceleration'' @ put_f32 j ''rAcceleration'')"

definition M1_encodeGetARCParams :: m1_encoder where
  "M1_encodeGetARCParams j = p2_put 100 0 []"

definition M1_encodeSetARCCmd :: m1_encoder where
  "M1_encodeSetARCCmd j =
     p2_put 101 1 (put_point (toObject (pvalue j ''cirPoint'')) @ put_point (toObject (pvalue j ''toPoint'')))"

definition M1_encodeSetCircleCmd :: m1_encoder where
  "M1_encodeSetCircleCmd j =
     p2_put_opt 102 1 (do {
       count \<leftarrow> toU32 (pvalue j ''count'');
       Some (put_point (toObject (pvalue j ''cirPoint'')) @ put_point (toObject (pvalue j ''toPoint'')) @ bytes32 count) })"

definition M1_encodeSetMotivateCmd :: m1_encoder where
  "M1_encodeSetMotivateCmd j =
     p2_put 103 1 (put_f32 j ''q1'' @ put_f32 j ''q2'' @ put_f32 j ''dq1'' @ put_f32 j ''dq2'' @ put_f32 j ''ddq1'' @ put_f32 j ''ddq2'')"

definition M1_encodeSetMotivateZCmd :: m1_encoder where
  "M1_encodeSetMotivateZCmd j = p2_put 104 1 (put_f32 j ''qz'' @ put_f32 j ''dqz'' @ put_f32 j ''ddqz'')"

definition M1_encodeSetARCPOCmd :: m1_encoder where
  "M1_encodeSetARCPOCmd j =
     p2_put 108 1 (put_point (toObject (pvalue j ''cirPoint'')) @ put_point (toObject (pvalue j ''toPoint'')) @
       put_pos (toArray (pvalue j ''arcPO'')))"

definition M1_encodeSetCirclePOCmd :: m1_encoder where
  "M1_encodeSetCirclePOCmd j =
     p2_put_opt 109 1 (do {
       count \<leftarrow> toU32 (pvalue j ''count'');
       Some (put_point (toObject (pvalue j ''cirPoint'')) @ put_point (toObject (pvalue j ''toPoint'')) @ bytes32 count @
         put_pos (toArray (pvalue j ''circlePO''))) })"

definition M1_encodeSetWAITCmd :: m1_encoder where
  "M1_encodeSetWAITCmd j = p2_put 110 1 (put_i32 j ''delay'')"

definition M1_encodeSetTRIGCmd :: m1_encoder where
  "M1_encodeSetTRIGCmd j = p2_put 120 1 (put_u8 j ''port'' @
       put_u8 j ''mode'' @ put_u8 j ''condition'' @ put_u16 j ''threshold'')"

definition M1_encodeSetIODO :: m1_encoder where
  "M1_encodeSetIODO j = p2_put 131 1 (put_u8 j ''port'' @ put_u8 j ''level'')"

definition M1_encodeGetIODO :: m1_encoder where
  "M1_encodeGetIODO j = p2_put 131 0 (put_u8 j ''port'')"

definition M1_encodeGetIODI :: m1_encoder where
  "M1_encodeGetIODI j = p2_put 133 0 (put_u8 j ''port'')"

definition M1_encodeGetIOADC :: m1_encoder where
  "M1_encodeGetIOADC j = p2_put 134 0 (put_u8 j ''port'')"

text \<open>The address of the text of a string that no longer exists is read.\<close>

definition M1_encodeSetIODOs :: m1_encoder where
  "M1_encodeSetIODOs j = p2_put_opt 136 1 None"

definition M1_encodeGetIODOs :: m1_encoder where
  "M1_encodeGetIODOs j = p2_put 136 0 (put_u8 j ''address'' @ put_u8 j ''number'')"

definition M1_encodeGetIODIs :: m1_encoder where
  "M1_encodeGetIODIs j = p2_put 137 0 (put_u8 j ''address'' @ put_u8 j ''number'')"

definition M1_encodeGetIOADCs :: m1_encoder where
  "M1_encodeGetIOADCs j = p2_put 138 0 (put_u8 j ''address'' @ put_u8 j ''number'')"

text \<open>The first number is 324.0.\<close>

definition M1_encodeSetRebootEncoderICPVL :: m1_encoder where
  "M1_encodeSetRebootEncoderICPVL j = p2_put 141 1 (bytes32 0x43A20000 @ put_f32 j ''jointNumber'')"

definition M1_encodeSetFirmwareMode :: m1_encoder where
  "M1_encodeSetFirmwareMode j = p2_put 161 1 (put_u8 j ''firmwareMode'' @ [1])"

definition M1_encodeGetFirmwareMode :: m1_encoder where
  "M1_encodeGetFirmwareMode j = p2_put 161 0 ([0] @ [0])"

definition M1_encodeSetFirmwareReboot :: m1_encoder where
  "M1_encodeSetFirmwareReboot j = p2_put 166 1 [1]"

definition M1_encodeSetLanPortConfig :: m1_encoder where
  "M1_encodeSetLanPortConfig j =
     p2_put_opt 167 1 (do {
       addr \<leftarrow> put_resized j ''addr'' ''0.0.0.0'';
       mask \<leftarrow> put_resized j ''mask'' ''255.255.255.0'';
       gateway \<leftarrow> put_resized j ''gateway'' '''';
       dns \<leftarrow> put_resized j ''dns'' '''';
       Some (put_u8 j ''status'' @ put_bool j ''isdhcp'' @ addr @ mask @ gateway @ dns) })"

definition M1_encodeGetLanPortConfig :: m1_encoder where
  "M1_encodeGetLanPortConfig j = p2_put 167 0 []"

definition M1_encodeSetFirmwareNotifyM4Mode :: m1_encoder where
  "M1_encodeSetFirmwareNotifyM4Mode j = p2_put 168 1 (put_u8 j ''mode'')"

definition M1_encodeGetFirmwareNotifyM4Mode :: m1_encoder where
  "M1_encodeGetFirmwareNotifyM4Mode j = p2_put 168 0 []"

definition M1_encodeSetSafeModeEnabled :: m1_encoder where
  "M1_encodeSetSafeModeEnabled j = p2_put 200 1 (put_bool j ''enable'')"

definition M1_encodeGetSafeModeEnabled :: m1_encoder where
  "M1_encodeGetSafeModeEnabled j = p2_put 200 0 []"

definition M1_encodeSetCollisionThreshold :: m1_encoder where
  "M1_encodeSetCollisionThreshold j =
     p2_put 201 1 (put_f32 j ''torDiffJ1'' @ put_f32 j ''torDiffJ2'' @ put_f32 j ''torDiffJ3'' @ put_f32 j ''torDiffJ4'')"

definition M1_encodeGetCollisionThreshold :: m1_encoder where
  "M1_encodeGetCollisionThreshold j = p2_put 201 0 []"

definition M1_encodeSetBasicDynamicParams :: m1_encoder where
  "M1_encodeSetBasicDynamicParams j =
     p2_put 202 1 (put_f32 j ''ZZ1'' @ put_f32 j ''FS1'' @ put_f32 j ''FV1'' @ put_f32 j ''ZZ2'' @ put_f32 j ''MX2'' @
       put_f32 j ''MY2'' @ put_f32 j ''IA2'' @ put_f32 j ''FS2'' @ put_f32 j ''FV2'')"

definition M1_encodeGetBasicDynamicParams :: m1_encoder where
  "M1_encodeGetBasicDynamicParams j = p2_put 202 0 []"

definition M1_encodeSetLoadParams :: m1_encoder where
  "M1_encodeSetLoadParams j = p2_put 203 1 (put_f32 j ''loadParams'')"

definition M1_encodeGetLoadParams :: m1_encoder where
  "M1_encodeGetLoadParams j = p2_put 203 0 []"

definition M1_encodeSetFeedforward :: m1_encoder where
  "M1_encodeSetFeedforward j = p2_put 204 1 (put_u8 j ''value'')"

definition M1_encodeGetFeedforward :: m1_encoder where
  "M1_encodeGetFeedforward j = p2_put 204 0 []"

definition M1_encodeSetMotivationMode :: m1_encoder where
  "M1_encodeSetMotivationMode j = p2_put 205 1 (put_u8 j ''mode'')"

definition M1_encodeGetMotivationMode :: m1_encoder where
  "M1_encodeGetMotivationMode j = p2_put 205 0 []"

definition M1_encodeGetTrajectory :: m1_encoder where
  "M1_encodeGetTrajectory j =
     p2_put_opt 206 0 (do { index \<leftarrow> toU64 (pvalue j ''index''); Some (put_u8 j ''countMax'' @ bytes64 index) })"

definition M1_encodeSetSafeStrategy :: m1_encoder where
  "M1_encodeSetSafeStrategy j = p2_put 208 1 (put_u8 j ''strategy'')"

definition M1_encodeGetSafeStrategy :: m1_encoder where
  "M1_encodeGetSafeStrategy j = p2_put 208 0 []"

definition M1_encodeSetSafeGuardMode :: m1_encoder where
  "M1_encodeSetSafeGuardMode j = p2_put 210 1 (put_u8 j ''mode'')"

definition M1_encodeGetSafeGuardMode :: m1_encoder where
  "M1_encodeGetSafeGuardMode j = p2_put 210 0 []"

definition M1_encodeGetSafeGuardStatus :: m1_encoder where
  "M1_encodeGetSafeGuardStatus j = p2_put 211 0 []"

definition M1_encodeGetUserParams :: m1_encoder where
  "M1_encodeGetUserParams j = p2_put 220 0 []"

definition M1_encodeSetQueuedCmdStart :: m1_encoder where
  "M1_encodeSetQueuedCmdStart j = p2_put 240 1 []"

definition M1_encodeSetQueuedCmdStop :: m1_encoder where
  "M1_encodeSetQueuedCmdStop j = p2_put 241 1 []"

definition M1_encodeSetQueuedCmdForceStop :: m1_encoder where
  "M1_encodeSetQueuedCmdForceStop j = p2_put 242 1 []"

definition M1_encodeSetQueuedCmdStartDownload :: m1_encoder where
  "M1_encodeSetQueuedCmdStartDownload j = p2_put 243 1 (put_u8 j ''totalLoop'' @ put_u8 j ''linePerLoop'')"

definition M1_encodeSetQueuedCmdStopDownload :: m1_encoder where
  "M1_encodeSetQueuedCmdStopDownload j = p2_put 244 1 []"

definition M1_encodeSetQueuedCmdClear :: m1_encoder where
  "M1_encodeSetQueuedCmdClear j = p2_put 245 1 []"

definition M1_encodeGetQueuedCmdCurrentIndex :: m1_encoder where
  "M1_encodeGetQueuedCmdCurrentIndex j = p2_put 246 0 []"

definition M1_encodeGetQueuedCmdLeftSpace :: m1_encoder where
  "M1_encodeGetQueuedCmdLeftSpace j = p2_put 247 0 []"

definition M1_encodeSetUserCoordinate :: m1_encoder where
  "M1_encodeSetUserCoordinate j = p2_put 250 1 (put_f32 j ''x'' @
       put_f32 j ''y'' @ put_f32 j ''z'' @ put_f32 j ''r'')"

definition M1_encodeGetUserCoordinate :: m1_encoder where
  "M1_encodeGetUserCoordinate j = p2_put 250 0 []"

definition M1_encodeSetToolCoordinate :: m1_encoder where
  "M1_encodeSetToolCoordinate j = p2_put 251 1 (put_f32 j ''x'' @
       put_f32 j ''y'' @ put_f32 j ''z'' @ put_f32 j ''r'')"

definition M1_encodeGetToolCoordinate :: m1_encoder where
  "M1_encodeGetToolCoordinate j = p2_put 251 0 []"

section \<open>The commands\<close>

text \<open>The table in parts, in the order of the code.\<close>

definition m1_cmds1 :: "(string \<times> m1_encoder) list" where
  "m1_cmds1 =
     [(''SetDeviceSN'', M1_encodeSetDeviceSN), (''GetDeviceSN'', M1_encodeGetDeviceSN),
      (''SetDeviceName'', M1_encodeSetDeviceName), (''GetDeviceName'', M1_encodeGetDeviceName),
      (''GetDeviceVersion'', M1_encodeGetDeviceVersion), (''GetHardwareVersion'', M1_encodeGetHardwareVersion),
      (''GetPose'', M1_encodeGetPose), (''ResetPose'', M1_encodeResetPose),
      (''GetAlarmsState'', M1_encodeGetAlarmsState), (''ClearAllAlarmsState'', M1_encodeClearAllAlarmsState),
      (''SetServoPower'', M1_encodeSetServoPower), (''GetServoPower'', M1_encodeGetServoPower),
      (''GetRunState'', M1_encodeGetRunState), (''SetHOMECmd'', M1_encodeSetHOMECmd),
      (''SetHOMEInitialPos'', M1_encodeSetHOMEInitialPos), (''SetHHTTrigMode'', M1_encodeSetHHTTrigMode),
      (''GetHHTTrigMode'', M1_encodeGetHHTTrigMode), (''SetHHTTrigOutputEnabled'', M1_encodeSetHHTTrigOutputEnabled),
      (''GetHHTTrigOutputEnabled'', M1_encodeGetHHTTrigOutputEnabled),
      (''GetHHTTrigOutput'', M1_encodeGetHHTTrigOutput), (''SetArmOrientation'', M1_encodeSetArmOrientation),
      (''GetArmOrientation'', M1_encodeGetArmOrientation), (''SetEndEffectorParams'', M1_encodeSetEndEffectorParams),
      (''GetEndEffectorParams'', M1_encodeGetEndEffectorParams),
      (''SetEndEffectorLaser'', M1_encodeSetEndEffectorLaser),
      (''GetEndEffectorLaser'', M1_encodeGetEndEffectorLaser),
      (''SetEndEffectorSuctionCup'', M1_encodeSetEndEffectorSuctionCup),
      (''GetEndEffectorSuctionCup'', M1_encodeGetEndEffectorSuctionCup)]"

definition m1_cmds2 :: "(string \<times> m1_encoder) list" where
  "m1_cmds2 =
     [(''SetEndEffectorGripper'', M1_encodeSetEndEffectorGripper),
      (''GetEndEffectorGripper'', M1_encodeGetEndEffectorGripper),
      (''SetJOGJointParams'', M1_encodeSetJOGJointParams), (''GetJOGJointParams'', M1_encodeGetJOGJointParams),
      (''SetJOGCoordinateParams'', M1_encodeSetJOGCoordinateParams),
      (''GetJOGCoordinateParams'', M1_encodeGetJOGCoordinateParams),
      (''SetJOGCommonParams'', M1_encodeSetJOGCommonParams), (''GetJOGCommonParams'', M1_encodeGetJOGCommonParams),
      (''SetJOGCmd'', M1_encodeSetJOGCmd), (''SetInchMode'', M1_encodeSetInchMode),
      (''GetInchMode'', M1_encodeGetInchMode), (''SetInchParam'', M1_encodeSetInchParam),
      (''GetInchParam'', M1_encodeGetInchParam), (''SetPTPJointParams'', M1_encodeSetPTPJointParams),
      (''GetPTPJointParams'', M1_encodeGetPTPJointParams),
      (''SetPTPCoordinateParams'', M1_encodeSetPTPCoordinateParams),
      (''GetPTPCoordinateParams'', M1_encodeGetPTPCoordinateParams),
      (''SetPTPJumpParams'', M1_encodeSetPTPJumpParams), (''GetPTPJumpParams'', M1_encodeGetPTPJumpParams),
      (''SetPTPCommonParams'', M1_encodeSetPTPCommonParams), (''GetPTPCommonParams'', M1_encodeGetPTPCommonParams),
      (''SetPTPCmd'', M1_encodeSetPTPCmd), (''SetPTPPOCmd'', M1_encodeSetPTPPOCmd),
      (''SetCPParams'', M1_encodeSetCPParams), (''GetCPParams'', M1_encodeGetCPParams),
      (''SetCPCmd'', M1_encodeSetCPCmd), (''SetCPLECmd'', M1_encodeSetCPLECmd),
      (''SetARCParams'', M1_encodeSetARCParams)]"

definition m1_cmds3 :: "(string \<times> m1_encoder) list" where
  "m1_cmds3 =
     [(''GetARCParams'', M1_encodeGetARCParams), (''SetARCCmd'', M1_encodeSetARCCmd),
      (''SetCircleCmd'', M1_encodeSetCircleCmd), (''SetMotivateCmd'', M1_encodeSetMotivateCmd),
      (''SetMotivateZCmd'', M1_encodeSetMotivateZCmd), (''SetARCPOCmd'', M1_encodeSetARCPOCmd),
      (''SetCirclePOCmd'', M1_encodeSetCirclePOCmd), (''SetWAITCmd'', M1_encodeSetWAITCmd),
      (''SetTRIGCmd'', M1_encodeSetTRIGCmd), (''SetIODO'', M1_encodeSetIODO), (''GetIODO'', M1_encodeGetIODO),
      (''GetIODI'', M1_encodeGetIODI), (''GetIOADC'', M1_encodeGetIOADC), (''SetIODOs'', M1_encodeSetIODOs),
      (''GetIODOs'', M1_encodeGetIODOs), (''GetIODIs'', M1_encodeGetIODIs), (''GetIOADCs'', M1_encodeGetIOADCs),
      (''SetRebootEncoderICPVL'', M1_encodeSetRebootEncoderICPVL), (''SetFirmwareMode'', M1_encodeSetFirmwareMode),
      (''GetFirmwareMode'', M1_encodeGetFirmwareMode), (''SetFirmwareReboot'', M1_encodeSetFirmwareReboot),
      (''SetLanPortConfig'', M1_encodeSetLanPortConfig), (''GetLanPortConfig'', M1_encodeGetLanPortConfig),
      (''SetFirmwareNotifyM4Mode'', M1_encodeSetFirmwareNotifyM4Mode),
      (''GetFirmwareNotifyM4Mode'', M1_encodeGetFirmwareNotifyM4Mode),
      (''SetSafeModeEnabled'', M1_encodeSetSafeModeEnabled), (''GetSafeModeEnabled'', M1_encodeGetSafeModeEnabled),
      (''SetCollisionThreshold'', M1_encodeSetCollisionThreshold)]"

definition m1_cmds4 :: "(string \<times> m1_encoder) list" where
  "m1_cmds4 =
     [(''GetCollisionThreshold'', M1_encodeGetCollisionThreshold),
      (''SetBasicDynamicParams'', M1_encodeSetBasicDynamicParams),
      (''GetBasicDynamicParams'', M1_encodeGetBasicDynamicParams), (''SetLoadParams'', M1_encodeSetLoadParams),
      (''GetLoadParams'', M1_encodeGetLoadParams), (''SetFeedforward'', M1_encodeSetFeedforward),
      (''GetFeedforward'', M1_encodeGetFeedforward), (''SetMotivationMode'', M1_encodeSetMotivationMode),
      (''GetMotivationMode'', M1_encodeGetMotivationMode), (''GetTrajectory'', M1_encodeGetTrajectory),
      (''SetSafeStrategy'', M1_encodeSetSafeStrategy), (''GetSafeStrategy'', M1_encodeGetSafeStrategy),
      (''SetSafeGuardMode'', M1_encodeSetSafeGuardMode), (''GetSafeGuardMode'', M1_encodeGetSafeGuardMode),
      (''GetSafeGuardStatus'', M1_encodeGetSafeGuardStatus), (''GetUserParams'', M1_encodeGetUserParams),
      (''QueuedCmdStart'', M1_encodeSetQueuedCmdStart), (''QueuedCmdStop'', M1_encodeSetQueuedCmdStop),
      (''QueuedCmdForceStop'', M1_encodeSetQueuedCmdForceStop),
      (''QueuedCmdStartDownload'', M1_encodeSetQueuedCmdStartDownload),
      (''QueuedCmdStopDownload'', M1_encodeSetQueuedCmdStopDownload),
      (''QueuedCmdClear'', M1_encodeSetQueuedCmdClear),
      (''GetQueuedCmdCurrentIndex'', M1_encodeGetQueuedCmdCurrentIndex),
      (''GetQueuedCmdLeftSpace'', M1_encodeGetQueuedCmdLeftSpace),
      (''SetUserCoordinate'', M1_encodeSetUserCoordinate), (''GetUserCoordinate'', M1_encodeGetUserCoordinate),
      (''SetToolCoordinate'', M1_encodeSetToolCoordinate), (''GetToolCoordinate'', M1_encodeGetToolCoordinate)]"

definition M1_encodeFuncMap :: "(string \<times> m1_encoder) list" where
  "M1_encodeFuncMap = m1_cmds1 @ m1_cmds2 @ m1_cmds3 @ m1_cmds4"

lemmas m1_enc_defs =
  M1_encodeSetDeviceSN_def M1_encodeGetDeviceSN_def M1_encodeSetDeviceName_def M1_encodeGetDeviceName_def
  M1_encodeGetDeviceVersion_def M1_encodeGetHardwareVersion_def M1_encodeGetPose_def M1_encodeResetPose_def
  M1_encodeGetAlarmsState_def M1_encodeClearAllAlarmsState_def M1_encodeSetServoPower_def
  M1_encodeGetServoPower_def M1_encodeGetRunState_def M1_encodeSetHOMECmd_def M1_encodeSetHOMEInitialPos_def
  M1_encodeSetHHTTrigMode_def M1_encodeGetHHTTrigMode_def M1_encodeSetHHTTrigOutputEnabled_def
  M1_encodeGetHHTTrigOutputEnabled_def M1_encodeGetHHTTrigOutput_def M1_encodeSetArmOrientation_def
  M1_encodeGetArmOrientation_def M1_encodeSetEndEffectorParams_def M1_encodeGetEndEffectorParams_def
  M1_encodeSetEndEffectorLaser_def M1_encodeGetEndEffectorLaser_def M1_encodeSetEndEffectorSuctionCup_def
  M1_encodeGetEndEffectorSuctionCup_def M1_encodeSetEndEffectorGripper_def M1_encodeGetEndEffectorGripper_def
  M1_encodeSetJOGJointParams_def M1_encodeGetJOGJointParams_def M1_encodeSetJOGCoordinateParams_def
  M1_encodeGetJOGCoordinateParams_def M1_encodeSetJOGCommonParams_def M1_encodeGetJOGCommonParams_def
  M1_encodeSetJOGCmd_def M1_encodeSetInchMode_def M1_encodeGetInchMode_def M1_encodeSetInchParam_def
  M1_encodeGetInchParam_def M1_encodeSetPTPJointParams_def M1_encodeGetPTPJointParams_def
  M1_encodeSetPTPCoordinateParams_def M1_encodeGetPTPCoordinateParams_def M1_encodeSetPTPJumpParams_def
  M1_encodeGetPTPJumpParams_def M1_encodeSetPTPCommonParams_def M1_encodeGetPTPCommonParams_def
  M1_encodeSetPTPCmd_def M1_encodeSetPTPPOCmd_def M1_encodeSetCPParams_def M1_encodeGetCPParams_def
  M1_encodeSetCPCmd_def M1_encodeSetCPLECmd_def M1_encodeSetARCParams_def M1_encodeGetARCParams_def
  M1_encodeSetARCCmd_def M1_encodeSetCircleCmd_def M1_encodeSetMotivateCmd_def M1_encodeSetMotivateZCmd_def
  M1_encodeSetARCPOCmd_def M1_encodeSetCirclePOCmd_def M1_encodeSetWAITCmd_def M1_encodeSetTRIGCmd_def
  M1_encodeSetIODO_def M1_encodeGetIODO_def M1_encodeGetIODI_def M1_encodeGetIOADC_def M1_encodeSetIODOs_def
  M1_encodeGetIODOs_def M1_encodeGetIODIs_def M1_encodeGetIOADCs_def M1_encodeSetRebootEncoderICPVL_def
  M1_encodeSetFirmwareMode_def M1_encodeGetFirmwareMode_def M1_encodeSetFirmwareReboot_def
  M1_encodeSetLanPortConfig_def M1_encodeGetLanPortConfig_def M1_encodeSetFirmwareNotifyM4Mode_def
  M1_encodeGetFirmwareNotifyM4Mode_def M1_encodeSetSafeModeEnabled_def M1_encodeGetSafeModeEnabled_def
  M1_encodeSetCollisionThreshold_def M1_encodeGetCollisionThreshold_def M1_encodeSetBasicDynamicParams_def
  M1_encodeGetBasicDynamicParams_def M1_encodeSetLoadParams_def M1_encodeGetLoadParams_def
  M1_encodeSetFeedforward_def M1_encodeGetFeedforward_def M1_encodeSetMotivationMode_def
  M1_encodeGetMotivationMode_def M1_encodeGetTrajectory_def M1_encodeSetSafeStrategy_def
  M1_encodeGetSafeStrategy_def M1_encodeSetSafeGuardMode_def M1_encodeGetSafeGuardMode_def
  M1_encodeGetSafeGuardStatus_def M1_encodeGetUserParams_def M1_encodeSetQueuedCmdStart_def
  M1_encodeSetQueuedCmdStop_def M1_encodeSetQueuedCmdForceStop_def M1_encodeSetQueuedCmdStartDownload_def
  M1_encodeSetQueuedCmdStopDownload_def M1_encodeSetQueuedCmdClear_def M1_encodeGetQueuedCmdCurrentIndex_def
  M1_encodeGetQueuedCmdLeftSpace_def M1_encodeSetUserCoordinate_def M1_encodeGetUserCoordinate_def
  M1_encodeSetToolCoordinate_def M1_encodeGetToolCoordinate_def

end
