(* ===== verification/M1Decode.thy ===== *)
theory M1Decode imports P2Values begin

text \<open>
  How the answers of an M1 are read: the \<open>decode\<close> functions of \<open>Protocol2/DM1Protocol.cpp\<close>
  and their table. The names of \<open>MgDecode\<close> are prefixed.
\<close>

section \<open>The decoders\<close>

text \<open>The answers about several inputs or outputs: an address, a number and as many values.\<close>

definition io_reply :: "string \<Rightarrow> string \<Rightarrow> (nat \<Rightarrow> json_field) \<Rightarrow> bytes \<Rightarrow> json_object option" where
  "io_reply cmd k f ps =
     (if 2 \<le> length ps
      then p2_params (any_cmd cmd)
        [(''address'', u8_at 0), (''number'', u8_at 1), (k, array_at (map f [0..<unat (ps ! 1)]))] ps
      else Some (any_cmd cmd))"

definition data_at :: "nat \<Rightarrow> json_field" where
  "data_at i p = map_option JObject (read_fields
     [(''data1'', f32_at i), (''data2'', f32_at (i + 4)), (''data3'', f32_at (i + 8)), (''data4'', f32_at (i + 12))] p)"

definition M1_decodeDeviceSN :: p2_decoder where
  "M1_decodeDeviceSN rw ps = p2_reply_some (rw_cmd rw ''GetDeviceSN'' ''SetDeviceSN'') [(''deviceSN'', text_at 0)] ps"

definition M1_decodeDeviceName :: p2_decoder where
  "M1_decodeDeviceName rw ps = p2_reply_some (rw_cmd rw ''GetDeviceName'' ''SetDeviceName'') [(''deviceName'', text_at 0)] ps"

definition M1_decodeDeviceVersion :: p2_decoder where
  "M1_decodeDeviceVersion rw ps =
     (if length ps = 4
      then p2_params (get_cmd rw ''GetDeviceVersion'')
        [(''type'', u8_at 0), (''majorVersion'', u8_at 1), (''minorVersion'', u8_at 2), (''revision'', u8_at 3)] ps
      else if 9 \<le> length ps
      then p2_params (get_cmd rw ''GetDeviceVersion'')
        [(''type'', u8_at 0), (''majorVersion'', number_at 1 2), (''minorVersion'', number_at 3 2),
         (''revision'', number_at 5 2), (''debug'', number_at 7 2)] ps
      else Some (get_cmd rw ''GetDeviceVersion''))"

definition M1_decodeHardwareVersion :: p2_decoder where
  "M1_decodeHardwareVersion rw ps =
     p2_reply (get_cmd rw ''GetHardwareVersion'')
       [(132, [(''machineNum'', part_at 0 11), (''mainBoard'', part_at 11 11), (''driverRearArm'', part_at 22 11),
               (''driverFrontArm'', part_at 33 11), (''driverZArm'', part_at 44 11), (''driverRArm'', part_at 55 11),
               (''encoderRearArm'', part_at 66 11), (''encoderFrontArm'', part_at 77 11), (''encoderZArm'', part_at 88 11),
               (''encoderRArm'', part_at 99 11), (''brakeBoard'', part_at 120 11), (''endIOBoard'', part_at 131 11)])] ps"

definition M1_decodePose :: p2_decoder where
  "M1_decodePose rw ps =
     p2_reply (get_cmd rw ''GetPose'')
       [(32, [(''x'', f32_at 0), (''y'', f32_at 4), (''z'', f32_at 8), (''r'', f32_at 12),
              (''jointAngle'', array_at (map (\<lambda>i. f32_at (16 + 4 * i)) [0..<4]))])] ps"

definition M1_decodeResetPose :: p2_decoder where
  "M1_decodeResetPose rw ps = Some (set_cmd rw ''ResetPose'')"

definition M1_decodeAlarmState :: p2_decoder where
  "M1_decodeAlarmState rw ps =
     p2_reply_some (rw_cmd rw ''GetAlarmsState'' ''ClearAllAlarmsState'') [(''state'', array_at (map u8_at [0..<length ps]))] ps"

definition M1_decodeServoPower :: p2_decoder where
  "M1_decodeServoPower rw ps =
     p2_reply (rw_cmd rw ''GetServoPower'' ''SetServoPower'')
       [(1, [(''on'', flag_at 0)])] ps"

definition M1_decodeRunState :: p2_decoder where
  "M1_decodeRunState rw ps = p2_reply (get_cmd rw ''GetRunState'') [(4, [(''state'', u32_at 0)])] ps"

definition M1_decodeHOMECmd :: p2_decoder where
  "M1_decodeHOMECmd rw ps = p2_reply (set_cmd rw ''SetHOMECmd'') [queue_index] ps"

definition M1_decodeHOMEInitialPos :: p2_decoder where
  "M1_decodeHOMEInitialPos rw ps = Some (set_cmd rw ''SetHOMEInitialPos'')"

definition M1_decodeHHTTrigMode :: p2_decoder where
  "M1_decodeHHTTrigMode rw ps =
     p2_reply (rw_cmd rw ''GetHHTTrigMode'' ''SetHHTTrigMode'')
       [(1, [(''mode'', u8_at 0)])] ps"

definition M1_decodeHHTTrigOutputEnabled :: p2_decoder where
  "M1_decodeHHTTrigOutputEnabled rw ps =
     p2_reply (rw_cmd rw ''GetHHTTrigOutputEnabled'' ''SetHHTTrigOutputEnabled'')
       [(1, [(''isEnabled'', flag_at 0)])] ps"

definition M1_decodeHHTTrigOutput :: p2_decoder where
  "M1_decodeHHTTrigOutput rw ps = p2_reply (get_cmd rw ''GetHHTTrigOutput'') [(1, [(''isTriggered'', flag_at 0)])] ps"

definition M1_decodeArmOrientation :: p2_decoder where
  "M1_decodeArmOrientation rw ps =
     p2_reply (rw_cmd rw ''GetArmOrientation'' ''SetArmOrientation'')
       [(1, [(''orientation'', u8_at 0)]), queue_index] ps"

definition M1_decodeEndEffectorParams :: p2_decoder where
  "M1_decodeEndEffectorParams rw ps =
     p2_reply (rw_cmd rw ''GetEndEffectorParams'' ''SetEndEffectorParams'')
       [(12, [(''xOffset'', f32_at 0), (''yOffset'', f32_at 4), (''zOffset'', f32_at 8)]), queue_index] ps"

definition M1_decodeEndEffectorLaser :: p2_decoder where
  "M1_decodeEndEffectorLaser rw ps =
     p2_reply (rw_cmd rw ''GetEndEffectorLaser'' ''SetEndEffectorLaser'')
       [(2, [(''isEnabled'', flag_at 0), (''isOn'', flag_at 1)]), queue_index] ps"

definition M1_decodeEndEffectorSuctionCup :: p2_decoder where
  "M1_decodeEndEffectorSuctionCup rw ps =
     p2_reply (rw_cmd rw ''GetEndEffectorSuctionCup'' ''SetEndEffectorSuctionCup'')
       [(2, [(''isEnabled'', flag_at 0), (''isOn'', flag_at 1)]), queue_index] ps"

definition M1_decodeEndEffectorGripper :: p2_decoder where
  "M1_decodeEndEffectorGripper rw ps =
     p2_reply (rw_cmd rw ''GetEndEffectorGripper'' ''SetEndEffectorGripper'')
       [(2, [(''isEnabled'', flag_at 0), (''isOn'', flag_at 1)]), queue_index] ps"

definition M1_decodeJOGJointParams :: p2_decoder where
  "M1_decodeJOGJointParams rw ps =
     p2_reply (rw_cmd rw ''GetJOGJointParams'' ''SetJOGJointParams'')
       [(32, [(''velocity'', array_at (map (\<lambda>i. f32_at (4 * i)) [0..<4])),
        (''acceleration'', array_at (map (\<lambda>i. f32_at (16 + 4 * i)) [0..<4]))]), queue_index] ps"

definition M1_decodeJOGCoordinateParams :: p2_decoder where
  "M1_decodeJOGCoordinateParams rw ps =
     p2_reply (rw_cmd rw ''GetJOGCoordinateParams'' ''SetJOGCoordinateParams'')
       [(32, [(''velocity'', array_at (map (\<lambda>i. f32_at (4 * i)) [0..<4])),
        (''acceleration'', array_at (map (\<lambda>i. f32_at (16 + 4 * i)) [0..<4]))]), queue_index] ps"

definition M1_decodeJOGCommonParams :: p2_decoder where
  "M1_decodeJOGCommonParams rw ps =
     p2_reply (rw_cmd rw ''GetJOGCommonParams'' ''SetJOGCommonParams'')
       [(8, [(''velocityRatio'', f32_at 0), (''accelerationRatio'', f32_at 4)]), queue_index] ps"

definition M1_decodeJOGCmd :: p2_decoder where
  "M1_decodeJOGCmd rw ps = p2_reply (set_cmd rw ''SetJOGCmd'') [queue_index] ps"

definition M1_decodeInchMode :: p2_decoder where
  "M1_decodeInchMode rw ps = p2_reply (rw_cmd rw ''GetInchMode'' ''SetInchMode'') [(1, [(''mode'', u8_at 0)])] ps"

definition M1_decodeInchParam :: p2_decoder where
  "M1_decodeInchParam rw ps =
     p2_reply (rw_cmd rw ''GetInchParam'' ''SetInchParam'')
       [(8, [(''distanceMM'', f32_at 0), (''distanceANG'', f32_at 4)])] ps"

definition M1_decodePTPJointParams :: p2_decoder where
  "M1_decodePTPJointParams rw ps =
     p2_reply (rw_cmd rw ''GetPTPJointParams'' ''SetPTPJointParams'')
       [(32, [(''velocity'', array_at (map (\<lambda>i. f32_at (4 * i)) [0..<4])),
        (''acceleration'', array_at (map (\<lambda>i. f32_at (16 + 4 * i)) [0..<4]))]), queue_index] ps"

definition M1_decodePTPCoordinateParams :: p2_decoder where
  "M1_decodePTPCoordinateParams rw ps =
     p2_reply (rw_cmd rw ''GetPTPCoordinateParams'' ''SetPTPCoordinateParams'')
       [(16, [(''xyzVelocity'', f32_at 0), (''rVelocity'', f32_at 4), (''xyzAcceleration'', f32_at 8),
        (''rAcceleration'', f32_at 12)]), queue_index] ps"

definition M1_decodePTPJumpParams :: p2_decoder where
  "M1_decodePTPJumpParams rw ps =
     p2_reply (rw_cmd rw ''GetPTPJumpParams'' ''SetPTPJumpParams'')
       [(12, [(''jumpHeight'', f32_at 0), (''zLimit'', f32_at 4), (''isUsingZLimit'', positive_at 4)]), queue_index] ps"

definition M1_decodePTPCommonParams :: p2_decoder where
  "M1_decodePTPCommonParams rw ps =
     (if rw = 0
      then p2_reply (any_cmd ''GetPTPCommonParams'') [(8, [(''velocityRatio'', f32_at 0), (''accelerationRatio'', f32_at 4)])] ps
      else p2_reply (any_cmd ''SetPTPCommonParams'') [queue_index] ps)"

definition M1_decodePTPCmd :: p2_decoder where
  "M1_decodePTPCmd rw ps = p2_reply (set_cmd rw ''SetPTPCmd'') [queue_index] ps"

definition M1_decodePTPPOCmd :: p2_decoder where
  "M1_decodePTPPOCmd rw ps = p2_reply (set_cmd rw ''SetPTPPOCmd'') [queue_index] ps"

definition M1_decodeCPParams :: p2_decoder where
  "M1_decodeCPParams rw ps =
     p2_reply (rw_cmd rw ''GetCPParams'' ''SetCPParams'')
       [(13, [(''targetAcc'', f32_at 0), (''junctionVel'', f32_at 4),
              (if 0 < ps ! 12 then ''period'' else ''acc'', f32_at 8), (''isRealTimeTrack'', flag_at 12)]), queue_index] ps"

definition M1_decodeCPCmd :: p2_decoder where
  "M1_decodeCPCmd rw ps = p2_reply (set_cmd rw ''SetCPCmd'') [queue_index] ps"

definition M1_decodeCPLECmd :: p2_decoder where
  "M1_decodeCPLECmd rw ps = p2_reply (set_cmd rw ''SetCPLECmd'') [queue_index] ps"

definition M1_decodeARCParams :: p2_decoder where
  "M1_decodeARCParams rw ps =
     p2_reply (rw_cmd rw ''GetARCParams'' ''SetARCParams'')
       [(16, [(''xyzVelocity'', f32_at 0), (''rVelocity'', f32_at 4), (''xyzAcceleration'', f32_at 8),
        (''rAcceleration'', f32_at 12)]), queue_index] ps"

definition M1_decodeARCCmd :: p2_decoder where
  "M1_decodeARCCmd rw ps = p2_reply (set_cmd rw ''SetARCCmd'') [queue_index] ps"

definition M1_decodeCircleCmd :: p2_decoder where
  "M1_decodeCircleCmd rw ps = p2_reply (set_cmd rw ''SetCircleCmd'') [queue_index] ps"

definition M1_decodeMotivateCmd :: p2_decoder where
  "M1_decodeMotivateCmd rw ps = p2_reply (set_cmd rw ''SetMotivateCmd'') [queue_index] ps"

definition M1_decodeMotivateZCmd :: p2_decoder where
  "M1_decodeMotivateZCmd rw ps = p2_reply (set_cmd rw ''SetMotivateZCmd'') [queue_index] ps"

definition M1_decodeARCPOCmd :: p2_decoder where
  "M1_decodeARCPOCmd rw ps = p2_reply (set_cmd rw ''SetARCPOCmd'') [queue_index] ps"

definition M1_decodeCirclePOCmd :: p2_decoder where
  "M1_decodeCirclePOCmd rw ps = p2_reply (set_cmd rw ''SetCirclePOCmd'') [queue_index] ps"

definition M1_decodeWAITCmd :: p2_decoder where
  "M1_decodeWAITCmd rw ps = p2_reply (set_cmd rw ''SetWAITCmd'') [queue_index] ps"

definition M1_decodeTRIGCmd :: p2_decoder where
  "M1_decodeTRIGCmd rw ps = p2_reply (set_cmd rw ''SetTRIGCmd'') [queue_index] ps"

definition M1_decodeIODO :: p2_decoder where
  "M1_decodeIODO rw ps =
     p2_reply (rw_cmd rw ''GetIODO'' ''SetIODO'')
       [(2, [(''port'', u8_at 0), (''level'', u8_at 1)]), queue_index] ps"

definition M1_decodeIODI :: p2_decoder where
  "M1_decodeIODI rw ps = p2_reply (get_cmd rw ''GetIODI'') [(2, [(''port'', u8_at 0), (''level'', u8_at 1)])] ps"

definition M1_decodeIOADC :: p2_decoder where
  "M1_decodeIOADC rw ps = p2_reply (get_cmd rw ''GetIOADC'') [(3, [(''port'', u8_at 0), (''value'', u16_at 1)])] ps"

definition M1_decodeIODOs :: p2_decoder where
  "M1_decodeIODOs rw ps =
     (if rw = 0 then io_reply ''GetIODOs'' ''level'' (\<lambda>i. stream8_at (2 + i)) ps else Some (any_cmd ''SetIODOs''))"

definition M1_decodeGetIODIs :: p2_decoder where
  "M1_decodeGetIODIs rw ps =
     (if rw = 0 then io_reply ''GetIODIs'' ''value'' (\<lambda>i. stream8_at (2 + i)) ps else Some [])"

definition M1_decodeGetIOADCs :: p2_decoder where
  "M1_decodeGetIOADCs rw ps =
     (if rw = 0 then io_reply ''GetIOADCs'' ''level'' (\<lambda>i. stream16_at (2 + 2 * i)) ps else Some [])"

definition M1_decodeGetIODACs :: p2_decoder where
  "M1_decodeGetIODACs rw ps = Some []"

definition M1_decodeRebootEncoderICPVL :: p2_decoder where
  "M1_decodeRebootEncoderICPVL rw ps = Some (set_cmd rw ''SetRebootEncoderICPVL'')"

definition M1_decodeFirmwareMode :: p2_decoder where
  "M1_decodeFirmwareMode rw ps =
     p2_reply (rw_cmd rw ''GetFirmwareMode'' ''SetFirmwareMode'')
       ((if rw = 0 then [(2, [(''firmwareMode'', u8_at 0), (''ctrl'', u8_at 1)])] else []) @ [queue_index]) ps"

definition M1_decodeFirmwareReboot :: p2_decoder where
  "M1_decodeFirmwareReboot rw ps = Some (set_cmd rw ''SetFirmwareReboot'')"

definition M1_decodeLanPortConfig :: p2_decoder where
  "M1_decodeLanPortConfig rw ps =
     p2_reply (rw_cmd rw ''GetLanPortConfig'' ''SetLanPortConfig'')
       [(66, [(''status'', flag_at 0), (''isdhcp'', flag_at 1), (''addr'', chars_at 2 16), (''mask'', chars_at 18 16),
              (''gateway'', chars_at 34 16), (''dns'', chars_at 50 16)])] ps"

definition M1_decodeFirmwareNotifyM4Mode :: p2_decoder where
  "M1_decodeFirmwareNotifyM4Mode rw ps =
     (if rw = 0 then p2_reply (any_cmd ''GetFirmwareNotifyM4Mode'') [(1, [(''mode'', u8_at 0)])] ps
      else Some (any_cmd ''SetFirmwareNotifyM4Mode''))"

definition M1_decodeSafeModeEnabled :: p2_decoder where
  "M1_decodeSafeModeEnabled rw ps =
     p2_reply (rw_cmd rw ''GetSafeModeEnabled'' ''SetSafeModeEnabled'')
       [(1, [(''isEnabled'', flag_at 0)])] ps"

definition M1_decodeCollisionThreshold :: p2_decoder where
  "M1_decodeCollisionThreshold rw ps =
     p2_reply (rw_cmd rw ''GetCollisionThreshold'' ''SetCollisionThreshold'')
       [(16, [(''torDiffJ1'', f32_at 0), (''torDiffJ2'', f32_at 4), (''torDiffJ3'', f32_at 8),
        (''torDiffJ4'', f32_at 12)])] ps"

definition M1_decodeBasicDynamicParams :: p2_decoder where
  "M1_decodeBasicDynamicParams rw ps =
     p2_reply (rw_cmd rw ''GetBasicDynamicParams'' ''SetBasicDynamicParams'')
       [(36, [(''ZZ1'', f32_at 0), (''FS1'', f32_at 4), (''FV1'', f32_at 8), (''ZZ2'', f32_at 12),
        (''MX2'', f32_at 16), (''MY2'', f32_at 20), (''IA2'', f32_at 24), (''FS2'', f32_at 28),
        (''FV2'', f32_at 32)])] ps"

definition M1_decodeLoadParams :: p2_decoder where
  "M1_decodeLoadParams rw ps =
     p2_reply (rw_cmd rw ''GetLoadParams'' ''SetLoadParams'')
       [(4, [(''loadParams'', f32_at 0)])] ps"

definition M1_decodeFeedforward :: p2_decoder where
  "M1_decodeFeedforward rw ps =
     p2_reply (rw_cmd rw ''GetFeedforward'' ''SetFeedforward'')
       [(1, [(''value'', u8_at 0)])] ps"

definition M1_decodeMotivationMode :: p2_decoder where
  "M1_decodeMotivationMode rw ps =
     p2_reply (rw_cmd rw ''GetMotivationMode'' ''SetMotivationMode'')
       [(1, [(''mode'', u8_at 0)])] ps"

definition M1_decodeTrajectory :: p2_decoder where
  "M1_decodeTrajectory rw ps =
     (case ps of
        [] \<Rightarrow> Some (get_cmd rw ''GetTrajectory'')
      | n # _ \<Rightarrow> p2_params (get_cmd rw ''GetTrajectory'')
          [(''data'', array_at (if length ps = 16 * unat n + 1 then map (\<lambda>i. data_at (16 * i + 1)) [0..<unat n] else []))] ps)"

definition M1_decodeSafeStrategy :: p2_decoder where
  "M1_decodeSafeStrategy rw ps =
     p2_reply (rw_cmd rw ''GetSafeStrategy'' ''SetSafeStrategy'')
       [(1, [(''strategy'', u8_at 0)])] ps"

definition M1_decodeSafeGuardMode :: p2_decoder where
  "M1_decodeSafeGuardMode rw ps =
     p2_reply (rw_cmd rw ''GetSafeGuardMode'' ''SetSafeGuardMode'')
       [(1, [(''mode'', u8_at 0)])] ps"

definition M1_decodeSafeGuardStatus :: p2_decoder where
  "M1_decodeSafeGuardStatus rw ps = p2_reply (get_cmd rw ''GetSafeGuardStatus'') [(1, [(''status'', u8_at 0)])] ps"

definition M1_decodeGetUserParams :: p2_decoder where
  "M1_decodeGetUserParams rw ps =
     p2_reply (get_cmd rw ''GetUserParams'') [(32, [(''userParams'', array_at (map (\<lambda>i. f32_at (4 * i)) [0..<8]))])] ps"

definition M1_decodeQueuedCmdStart :: p2_decoder where
  "M1_decodeQueuedCmdStart rw ps = Some (set_cmd rw ''QueuedCmdStart'')"

definition M1_decodeQueuedCmdStop :: p2_decoder where
  "M1_decodeQueuedCmdStop rw ps = Some (set_cmd rw ''QueuedCmdStop'')"

definition M1_decodeQueuedCmdForceStop :: p2_decoder where
  "M1_decodeQueuedCmdForceStop rw ps = Some (get_cmd rw ''QueuedCmdForceStop'')"

definition M1_decodeQueuedCmdStartDownload :: p2_decoder where
  "M1_decodeQueuedCmdStartDownload rw ps = Some (set_cmd rw ''QueuedCmdStartDownload'')"

definition M1_decodeQueuedCmdStopDownload :: p2_decoder where
  "M1_decodeQueuedCmdStopDownload rw ps = Some (set_cmd rw ''QueuedCmdStopDownload'')"

definition M1_decodeQueuedCmdClear :: p2_decoder where
  "M1_decodeQueuedCmdClear rw ps = Some (set_cmd rw ''QueuedCmdClear'')"

definition M1_decodeQueuedCmdCurrentIndex :: p2_decoder where
  "M1_decodeQueuedCmdCurrentIndex rw ps = p2_reply (get_cmd rw ''GetQueuedCmdCurrentIndex'') [queue_index] ps"

definition M1_decodeQueuedCmdLeftSpace :: p2_decoder where
  "M1_decodeQueuedCmdLeftSpace rw ps =
     p2_reply (get_cmd rw ''GetQueuedCmdLeftSpace'')
       [(4, [(''leftSpace'', u32_at 0)])] ps"

definition M1_decodeUserCoordinate :: p2_decoder where
  "M1_decodeUserCoordinate rw ps =
     p2_reply (rw_cmd rw ''GetUserCoordinate'' ''SetUserCoordinate'')
       [(16, [(''x'', f32_at 0), (''y'', f32_at 4), (''z'', f32_at 8), (''r'', f32_at 12)])] ps"

definition M1_decodeToolCoordinate :: p2_decoder where
  "M1_decodeToolCoordinate rw ps =
     p2_reply (rw_cmd rw ''GetToolCoordinate'' ''SetToolCoordinate'')
       [(16, [(''x'', f32_at 0), (''y'', f32_at 4), (''z'', f32_at 8), (''r'', f32_at 12)])] ps"

section \<open>The answers by number\<close>

text \<open>The tables, the longer ones in parts in the order of the code.\<close>

definition m1_answers1 :: "(int \<times> p2_decoder) list" where
  "m1_answers1 =
     [(0, M1_decodeDeviceSN), (1, M1_decodeDeviceName), (2, M1_decodeDeviceVersion), (5, M1_decodeHardwareVersion),
      (10, M1_decodePose), (11, M1_decodeResetPose), (20, M1_decodeAlarmState), (28, M1_decodeServoPower),
      (29, M1_decodeRunState), (31, M1_decodeHOMECmd), (34, M1_decodeHOMEInitialPos), (40, M1_decodeHHTTrigMode),
      (41, M1_decodeHHTTrigOutputEnabled), (42, M1_decodeHHTTrigOutput), (50, M1_decodeArmOrientation),
      (60, M1_decodeEndEffectorParams), (61, M1_decodeEndEffectorLaser), (62, M1_decodeEndEffectorSuctionCup),
      (63, M1_decodeEndEffectorGripper), (70, M1_decodeJOGJointParams), (71, M1_decodeJOGCoordinateParams),
      (72, M1_decodeJOGCommonParams), (73, M1_decodeJOGCmd), (75, M1_decodeInchMode), (76, M1_decodeInchParam),
      (80, M1_decodePTPJointParams), (81, M1_decodePTPCoordinateParams), (82, M1_decodePTPJumpParams),
      (83, M1_decodePTPCommonParams), (84, M1_decodePTPCmd), (88, M1_decodePTPPOCmd), (90, M1_decodeCPParams),
      (91, M1_decodeCPCmd), (92, M1_decodeCPLECmd), (100, M1_decodeARCParams), (101, M1_decodeARCCmd),
      (102, M1_decodeCircleCmd), (103, M1_decodeMotivateCmd)]"

definition m1_answers2 :: "(int \<times> p2_decoder) list" where
  "m1_answers2 =
     [(104, M1_decodeMotivateZCmd), (108, M1_decodeARCPOCmd), (109, M1_decodeCirclePOCmd), (110, M1_decodeWAITCmd),
      (120, M1_decodeTRIGCmd), (131, M1_decodeIODO), (133, M1_decodeIODI), (134, M1_decodeIOADC),
      (136, M1_decodeIODOs), (137, M1_decodeGetIODIs), (138, M1_decodeGetIOADCs), (141, M1_decodeRebootEncoderICPVL),
      (161, M1_decodeFirmwareMode), (166, M1_decodeFirmwareReboot), (167, M1_decodeLanPortConfig),
      (168, M1_decodeFirmwareNotifyM4Mode), (200, M1_decodeSafeModeEnabled), (201, M1_decodeCollisionThreshold),
      (202, M1_decodeBasicDynamicParams), (203, M1_decodeLoadParams), (204, M1_decodeFeedforward),
      (205, M1_decodeMotivationMode), (206, M1_decodeTrajectory), (208, M1_decodeSafeStrategy),
      (210, M1_decodeSafeGuardMode), (211, M1_decodeSafeGuardStatus), (220, M1_decodeGetUserParams),
      (240, M1_decodeQueuedCmdStart), (241, M1_decodeQueuedCmdStop), (242, M1_decodeQueuedCmdForceStop),
      (243, M1_decodeQueuedCmdStartDownload), (244, M1_decodeQueuedCmdStopDownload), (245, M1_decodeQueuedCmdClear),
      (246, M1_decodeQueuedCmdCurrentIndex), (247, M1_decodeQueuedCmdLeftSpace), (250, M1_decodeUserCoordinate),
      (251, M1_decodeToolCoordinate)]"

definition M1_decodeFuncMap :: "(int \<times> p2_decoder) list" where
  "M1_decodeFuncMap = m1_answers1 @ m1_answers2"

lemmas m1_dec_defs =
  M1_decodeDeviceSN_def M1_decodeDeviceName_def M1_decodeDeviceVersion_def M1_decodeHardwareVersion_def
  M1_decodePose_def M1_decodeResetPose_def M1_decodeAlarmState_def M1_decodeServoPower_def M1_decodeRunState_def
  M1_decodeHOMECmd_def M1_decodeHOMEInitialPos_def M1_decodeHHTTrigMode_def M1_decodeHHTTrigOutputEnabled_def
  M1_decodeHHTTrigOutput_def M1_decodeArmOrientation_def M1_decodeEndEffectorParams_def
  M1_decodeEndEffectorLaser_def M1_decodeEndEffectorSuctionCup_def M1_decodeEndEffectorGripper_def
  M1_decodeJOGJointParams_def M1_decodeJOGCoordinateParams_def M1_decodeJOGCommonParams_def M1_decodeJOGCmd_def
  M1_decodeInchMode_def M1_decodeInchParam_def M1_decodePTPJointParams_def M1_decodePTPCoordinateParams_def
  M1_decodePTPJumpParams_def M1_decodePTPCommonParams_def M1_decodePTPCmd_def M1_decodePTPPOCmd_def
  M1_decodeCPParams_def M1_decodeCPCmd_def M1_decodeCPLECmd_def M1_decodeARCParams_def M1_decodeARCCmd_def
  M1_decodeCircleCmd_def M1_decodeMotivateCmd_def M1_decodeMotivateZCmd_def M1_decodeARCPOCmd_def
  M1_decodeCirclePOCmd_def M1_decodeWAITCmd_def M1_decodeTRIGCmd_def M1_decodeIODO_def M1_decodeIODI_def
  M1_decodeIOADC_def M1_decodeIODOs_def M1_decodeGetIODIs_def M1_decodeGetIOADCs_def M1_decodeGetIODACs_def
  M1_decodeRebootEncoderICPVL_def M1_decodeFirmwareMode_def M1_decodeFirmwareReboot_def
  M1_decodeLanPortConfig_def M1_decodeFirmwareNotifyM4Mode_def M1_decodeSafeModeEnabled_def
  M1_decodeCollisionThreshold_def M1_decodeBasicDynamicParams_def M1_decodeLoadParams_def
  M1_decodeFeedforward_def M1_decodeMotivationMode_def M1_decodeTrajectory_def M1_decodeSafeStrategy_def
  M1_decodeSafeGuardMode_def M1_decodeSafeGuardStatus_def M1_decodeGetUserParams_def M1_decodeQueuedCmdStart_def
  M1_decodeQueuedCmdStop_def M1_decodeQueuedCmdForceStop_def M1_decodeQueuedCmdStartDownload_def
  M1_decodeQueuedCmdStopDownload_def M1_decodeQueuedCmdClear_def M1_decodeQueuedCmdCurrentIndex_def
  M1_decodeQueuedCmdLeftSpace_def M1_decodeUserCoordinate_def M1_decodeToolCoordinate_def

end
