(* ===== verification/RxSplit.thy ===== *)
theory RxSplit imports P2Host Crc begin

text \<open>
  The receiving side of \<open>MessageHandler.cpp\<close>, \<open>DProtocol3::handleRawData\<close> and
  \<open>DProtocol3::_CalcCheckSum\<close> of \<open>Plugins/MagicDevicePlugin\<close>: the bytes from the serial port or the
  UDP socket are collected in a buffer, and packets of the two protocols are cut out of it.
\<close>

section \<open>The third protocol's packets\<close>

text \<open>The table is that of \<open>DobotV3Format.c\<close>, entry for entry.\<close>

definition p3_CalcCheckSum :: "bytes \<Rightarrow> u16" where
  "p3_CalcCheckSum dat =
     fold (\<lambda>b crc. drop_bit 8 crc XOR gDobotV3Format_crc_ibm_table ! unat (ucast (crc XOR ucast b) :: u8)) dat 0"

lemma p3_CalcCheckSum_crc16: "p3_CalcCheckSum dat = crc16 dat"
  by (simp add: p3_CalcCheckSum_def crc16_def crc16_step_def [abs_def] Let_def)

text \<open>The state, the rest of the bytes and the packets handed to the protocol frame.\<close>

definition p3_handleRawData :: "bytes \<Rightarrow> HandleBytesState \<times> bytes \<times> bytes list" where
  "p3_handleRawData rawData =
     (if length rawData < 4 then (TOO_SHORT, rawData, [])
      else let len = unat (le16 (rawData ! 2) (rawData ! 3)) in
        if length rawData < len + 15 + 2 then (TOO_SHORT, rawData, [])
        else if le16 (rawData ! (len + 15)) (rawData ! (len + 16)) = p3_CalcCheckSum (take (len + 15) rawData)
        then (HB_OK, drop (len + 17) rawData, [take (len + 17) rawData])
        else (CHECKSUM_ERR, rawData, []))"

section \<open>Cutting the buffer\<close>

record rx_handler =
  m_rxBuffer :: bytes
  m_protocol2 :: p2_host
  p3_frames :: "bytes list"

text \<open>\<open>_ClearBuffer\<close>: up to the next header behind the first two bytes.\<close>

definition rx_head_at :: "bytes \<Rightarrow> nat \<Rightarrow> bool" where
  "rx_head_at b i \<longleftrightarrow> b ! i = 0xAA \<and> (b ! (i + 1) = 0xAA \<or> b ! (i + 1) = 0xBB)"

definition rx_ClearBuffer :: "bytes \<Rightarrow> bytes" where
  "rx_ClearBuffer b = (case find (rx_head_at b) [2..<length b - 1] of Some index \<Rightarrow> drop index b | None \<Rightarrow> [])"

text \<open>One round of the loop; \<^term>\<open>None\<close> leaves it.\<close>

definition rx_round :: "rx_handler \<Rightarrow> rx_handler option" where
  "rx_round s = (let b = m_rxBuffer s in
     if length b \<le> 1 then None
     else let h1 = b ! 0; h2 = b ! 1 in
       if h1 \<noteq> 0xAA then Some (s\<lparr>m_rxBuffer := drop 1 b\<rparr>)
       else if h2 \<noteq> 0xAA \<and> h2 \<noteq> 0xBB then Some (s\<lparr>m_rxBuffer := drop 2 b\<rparr>)
       else let (state, rest, s') =
              (if h2 = 0xAA then (case p2_handleRawData b (m_protocol2 s) of (st, rest, p2) \<Rightarrow> (st, rest, s\<lparr>m_protocol2 := p2\<rparr>))
               else (case p3_handleRawData b of (st, rest, fs) \<Rightarrow> (st, rest, s\<lparr>p3_frames := p3_frames s @ fs\<rparr>)))
         in (case state of
               HB_OK \<Rightarrow> Some (s'\<lparr>m_rxBuffer := rest\<rparr>)
             | TOO_SHORT \<Rightarrow> None
             | CHECKSUM_ERR \<Rightarrow> Some (s'\<lparr>m_rxBuffer := rx_ClearBuffer rest\<rparr>)))"

lemma p2_handle_rest:
  "p2_handleRawData b h = (st, rest, h') \<Longrightarrow> (st = HB_OK \<longrightarrow> length rest < length b) \<and> (st = CHECKSUM_ERR \<longrightarrow> rest = b \<and> h' = h)"
  by (auto simp: p2_handleRawData_def Let_def split: if_splits option.splits)

lemma p3_handle_rest:
  "p3_handleRawData b = (st, rest, fs) \<Longrightarrow> (st = HB_OK \<longrightarrow> length rest < length b) \<and> (st = CHECKSUM_ERR \<longrightarrow> rest = b \<and> fs = [])"
  by (auto simp: p3_handleRawData_def Let_def split: if_splits)

lemma rx_ClearBuffer_shorter: "b \<noteq> [] \<Longrightarrow> length (rx_ClearBuffer b) < length b"
  by (auto simp: rx_ClearBuffer_def find_Some_iff split: option.splits)

lemma rx_round_shorter:
  assumes "rx_round s = Some s'"
  shows "length (m_rxBuffer s') < length (m_rxBuffer s)"
proof -
  let ?b = "m_rxBuffer s"
  have l: "\<not> length ?b \<le> 1" using assms by (auto simp: rx_round_def Let_def split: if_splits)
  then have ne: "?b \<noteq> []" by auto
  obtain st2 rest2 h2 where p2: "p2_handleRawData ?b (m_protocol2 s) = (st2, rest2, h2)" by (cases "p2_handleRawData ?b (m_protocol2 s)")
  obtain st3 rest3 f3 where p3: "p3_handleRawData ?b = (st3, rest3, f3)" by (cases "p3_handleRawData ?b")
  show ?thesis
    using assms l p2_handle_rest [OF p2] p3_handle_rest [OF p3] rx_ClearBuffer_shorter [OF ne]
    by (auto simp: rx_round_def Let_def p2 p3 split: if_splits HandleBytesState.splits)
qed

text \<open>The loop ends because every round but the last shortens the buffer.\<close>

function rx_loop :: "rx_handler \<Rightarrow> rx_handler" where
  "rx_loop s = (case rx_round s of None \<Rightarrow> s | Some s' \<Rightarrow> rx_loop s')"
  by auto
termination by (relation "measure (length \<circ> m_rxBuffer)") (auto simp: rx_round_shorter)

declare rx_loop.simps [simp del]

definition HandleNewDataFromDevice :: "bytes \<Rightarrow> rx_handler \<Rightarrow> rx_handler" where
  "HandleNewDataFromDevice newdata s = rx_loop (s\<lparr>m_rxBuffer := m_rxBuffer s @ newdata\<rparr>)"

section \<open>The buffer stays small\<close>

lemma rx_loop_ends: "rx_round (rx_loop s) = None"
proof (induction s rule: rx_loop.induct)
  case (1 s)
  then show ?case by (cases "rx_round s") (simp_all add: rx_loop.simps [of s])
qed

text \<open>
  C35. Whatever arrives, the handler returns, and it keeps at most 65551 bytes: less than the longest
  packet that a header can announce.
\<close>
theorem rx_buffer_bounded: "length (m_rxBuffer (HandleNewDataFromDevice newdata s)) \<le> 65551"
proof -
  let ?s = "HandleNewDataFromDevice newdata s"
  let ?b = "m_rxBuffer ?s"
  have n: "rx_round ?s = None" by (simp add: HandleNewDataFromDevice_def rx_loop_ends)
  obtain st2 rest2 h2 where p2: "p2_handleRawData ?b (m_protocol2 ?s) = (st2, rest2, h2)" by (cases "p2_handleRawData ?b (m_protocol2 ?s)")
  obtain st3 rest3 f3 where p3: "p3_handleRawData ?b = (st3, rest3, f3)" by (cases "p3_handleRawData ?b")
  have u: "unat (?b ! 2) \<le> 255" using unat_u8_less [of "?b ! 2"] by linarith
  have two: "st2 = TOO_SHORT \<Longrightarrow> length ?b < 260"
    using p2 u by (auto simp: p2_handleRawData_def Let_def split: if_splits option.splits)
  have w: "unat (le16 (?b ! 2) (?b ! 3)) \<le> 65535" using unat_u16_less [of "le16 (?b ! 2) (?b ! 3)"] by linarith
  have three: "st3 = TOO_SHORT \<Longrightarrow> length ?b < 65552"
    using p3 w by (auto simp: p3_handleRawData_def Let_def split: if_splits)
  show ?thesis
    using n two three by (auto simp: rx_round_def Let_def p2 p3 split: if_splits HandleBytesState.splits)
qed


section \<open>The packets of a stream\<close>

text \<open>
  The packets that the headers and lengths of a stream announce; one of the second protocol that
  announces no payload at all is never right.
\<close>

definition rx_frame :: "bytes \<Rightarrow> verdict" where
  "rx_frame bs =
     (if length bs < 2 then Incomplete
      else if bs ! 1 = 0xAA then
        (if length bs < 3 then Incomplete
         else if bs ! 2 = 0 then Packet 3
         else if length bs < unat (bs ! 2) + 4 then Incomplete
         else Packet (unat (bs ! 2) + 4))
      else if bs ! 1 = 0xBB then
        (if length bs < 4 then Incomplete
         else if length bs < unat (le16 (bs ! 2) (bs ! 3)) + 17 then Incomplete
         else Packet (unat (le16 (bs ! 2) (bs ! 3)) + 17))
      else Bad)"

interpretation rxs: packet_scanner rx_frame "0xAA"
proof
  show "rx_frame xs \<noteq> Incomplete \<Longrightarrow> rx_frame (xs @ ys) = rx_frame xs" for xs ys
    unfolding rx_frame_def length_append
    by (cases "length xs < 2"; cases "length xs < 3"; cases "length xs < 4") (auto simp: nth_append split: if_split_asm)
  show "rx_frame xs = Packet n \<Longrightarrow> 0 < n \<and> n \<le> length xs \<and> rx_frame (take n xs) = Packet n" for xs n
    by (auto simp: rx_frame_def split: if_splits)
qed

abbreviation rx_scan :: "bytes \<Rightarrow> bytes list \<times> bytes" where
  "rx_scan \<equiv> scan rx_frame 0xAA"

definition rx_sum_ok :: "bytes \<Rightarrow> bool" where
  "rx_sum_ok p \<longleftrightarrow>
     (if p ! 1 = 0xAA then p ! 2 \<noteq> 0 \<and> p ! (unat (p ! 2) + 3) = P2_getCheckSum (take (unat (p ! 2)) (drop 3 p))
      else let n = unat (le16 (p ! 2) (p ! 3)) in le16 (p ! (n + 15)) (p ! (n + 16)) = p3_CalcCheckSum (take (n + 15) p))"

text \<open>What the program does with one packet.\<close>

definition rx_dispatch :: "bytes \<Rightarrow> rx_handler \<Rightarrow> rx_handler" where
  "rx_dispatch p s =
     (if p ! 1 = 0xAA then s\<lparr>m_protocol2 := snd (snd (p2_handleRawData p (m_protocol2 s)))\<rparr>
      else s\<lparr>p3_frames := p3_frames s @ [p]\<rparr>)"

text \<open>One byte of garbage may wait in the buffer.\<close>

definition rx_same :: "bytes \<Rightarrow> bytes \<Rightarrow> bool" where
  "rx_same b r \<longleftrightarrow> b = r \<or> r = [] \<and> (\<exists>x. x \<noteq> 0xAA \<and> b = [x])"

lemma rx_same_scan: "rx_same b r \<Longrightarrow> rx_scan (b @ xs) = rx_scan (r @ xs)"
  by (auto simp: rx_same_def)

lemma rx_dispatch_buffer: "rx_dispatch p (s\<lparr>m_rxBuffer := b\<rparr>) = rx_dispatch p s\<lparr>m_rxBuffer := b\<rparr>"
  by (simp add: rx_dispatch_def)

lemma rx_dispatch_fold: "fold rx_dispatch ps (s\<lparr>m_rxBuffer := b\<rparr>) = fold rx_dispatch ps s\<lparr>m_rxBuffer := b\<rparr>"
  by (induction ps arbitrary: s) (simp_all add: rx_dispatch_buffer)

lemma p2_handle_packet:
  assumes "rx_frame p = Packet (length p)" and "p ! 1 = 0xAA" and "rx_sum_ok p"
  shows "\<exists>h'. p2_handleRawData p h = (HB_OK, [], h') \<and> p2_handleRawData (p @ rest) h = (HB_OK, rest, h')"
proof -
  have n: "p ! 2 \<noteq> 0" "length p = unat (p ! 2) + 4"
    using assms by (auto simp: rx_frame_def rx_sum_ok_def split: if_splits)
  then have pos: "0 < unat (p ! 2)" by (simp add: unat_gt_0)
  then have l: "\<not> length p < 5" "\<not> length (p @ rest) < 5" using n(2) by simp_all
  have i: "(p @ rest) ! 2 = p ! 2" "(p @ rest) ! (3 + unat (p ! 2)) = p ! (3 + unat (p ! 2))" "\<not> length (p @ rest) < 4 + unat (p ! 2)"
      "take (4 + unat (p ! 2)) (p @ rest) = p" "drop (4 + unat (p ! 2)) (p @ rest) = rest"
      "take (unat (p ! 2)) (drop 3 (p @ rest)) = take (unat (p ! 2)) (drop 3 p)"
    using n(2) by (simp_all add: nth_append)
  have c: "p ! (3 + unat (p ! 2)) = P2_getCheckSum (take (unat (p ! 2)) (drop 3 p))"
    using assms(2,3) by (simp add: rx_sum_ok_def add.commute)
  have "take (4 + unat (p ! 2)) p = p" "drop (4 + unat (p ! 2)) p = []" "\<not> length p < 4 + unat (p ! 2)" using n(2) by simp_all
  then show ?thesis
    unfolding p2_handleRawData_def Let_def i(1) by (simp add: l i c pos split: option.split)
qed

lemma p3_handle_packet:
  assumes "rx_frame p = Packet (length p)" and "p ! 1 = 0xBB" and "rx_sum_ok p"
  shows "p3_handleRawData (p @ rest) = (HB_OK, rest, [p])"
proof -
  let ?n = "unat (le16 (p ! 2) (p ! 3))"
  have n: "length p = ?n + 17" using assms(1,2) by (auto simp: rx_frame_def split: if_splits)
  have c: "le16 (p ! (?n + 15)) (p ! (?n + 16)) = p3_CalcCheckSum (take (?n + 15) p)"
    using assms(2,3) by (simp add: rx_sum_ok_def Let_def)
  have "(p @ rest) ! 2 = p ! 2" "(p @ rest) ! 3 = p ! 3" "(p @ rest) ! (?n + 15) = p ! (?n + 15)" "(p @ rest) ! (?n + 16) = p ! (?n + 16)"
      "take (?n + 15) (p @ rest) = take (?n + 15) p" "drop (?n + 17) (p @ rest) = rest" "take (?n + 17) (p @ rest) = p"
    using n by (simp_all add: nth_append)
  then show ?thesis using n c by (simp add: p3_handleRawData_def Let_def)
qed

text \<open>The loop over a buffer in which all announced packets are right.\<close>

lemma rx_loop_scan:
  "(\<And>p. p \<in> set (fst (rx_scan (m_rxBuffer s))) \<Longrightarrow> rx_sum_ok p) \<Longrightarrow>
   \<exists>b. rx_loop s = fold rx_dispatch (fst (rx_scan (m_rxBuffer s))) s\<lparr>m_rxBuffer := b\<rparr> \<and> rx_same b (snd (rx_scan (m_rxBuffer s)))"
proof (induction "length (m_rxBuffer s)" arbitrary: s rule: less_induct)
  case less
  let ?b = "m_rxBuffer s"
  have stop: "rx_loop s = s" if "rx_round s = None" using that by (simp add: rx_loop.simps [of s])
  have self: "s = s\<lparr>m_rxBuffer := ?b\<rparr>" by simp
  consider "length ?b \<le> 1" | x y bs where "?b = x # y # bs" by (cases ?b rule: remdups_adj.cases) auto
  then show ?case
  proof cases
    case 1
    then have "rx_round s = None" by (simp add: rx_round_def)
    moreover have "fst (rx_scan ?b) = []" "rx_same ?b (snd (rx_scan ?b))"
      using 1 by (cases ?b; auto simp: rx_frame_def rx_same_def)+
    ultimately show ?thesis using stop by (intro exI [of _ ?b]) simp
  next
    case (2 x y bs)
    have next_buf: "\<exists>b. rx_loop s = fold rx_dispatch (fst (rx_scan ?b)) s\<lparr>m_rxBuffer := b\<rparr> \<and> rx_same b (snd (rx_scan ?b))"
      if r: "rx_round s = Some (s\<lparr>m_rxBuffer := c\<rparr>)" and sc: "rx_scan c = rx_scan ?b" for c
    proof -
      have "length c < length ?b" using rx_round_shorter [OF r] by simp
      then obtain b where "rx_loop (s\<lparr>m_rxBuffer := c\<rparr>) = fold rx_dispatch (fst (rx_scan c)) (s\<lparr>m_rxBuffer := c\<rparr>)\<lparr>m_rxBuffer := b\<rparr>"
          "rx_same b (snd (rx_scan c))"
        using less.hyps [of "s\<lparr>m_rxBuffer := c\<rparr>"] less.prems sc by auto
      then show ?thesis using r sc by (simp add: rx_loop.simps [of s] rx_dispatch_fold) blast
    qed
    consider "x \<noteq> 0xAA" | "x = 0xAA" "y \<noteq> 0xAA" "y \<noteq> 0xBB" | "x = 0xAA" "y = 0xAA \<or> y = 0xBB" "rx_frame ?b = Incomplete"
      | n where "x = 0xAA" "y = 0xAA \<or> y = 0xBB" "rx_frame ?b = Packet n"
      unfolding 2 by (cases "rx_frame (x # y # bs)") (auto simp: rx_frame_def split: if_splits)
    then show ?thesis
    proof cases
      case c: 1
      then show ?thesis by (intro next_buf [of "y # bs"]) (simp_all add: rx_round_def 2 Let_def)
    next
      case c: 2
      then show ?thesis by (intro next_buf [of bs]) (simp_all add: rx_round_def 2 Let_def rx_frame_def)
    next
      case c: 3
      have "rx_round s = None"
        using c by (auto simp: rx_round_def 2 Let_def rx_frame_def p2_handleRawData_def p3_handleRawData_def split: if_splits)
      moreover have "rx_scan ?b = ([], ?b)" using c 2 by simp
      ultimately show ?thesis using stop by (intro exI [of _ ?b]) (simp add: rx_same_def)
    next
      case c: (4 n)
      let ?p = "take n ?b" and ?rest = "drop n ?b"
      have n: "0 < n" "n \<le> length ?b" "rx_frame ?p = Packet n" using rxs.v_packet [OF c(3)] by auto
      have sc: "rx_scan ?b = (?p # fst (rx_scan ?rest), snd (rx_scan ?rest))"
      proof -
        have "hd ?p = 0xAA" using n(1) c(1) by (cases n) (simp_all add: 2)
        moreover have "rx_frame ?p = Packet (length ?p)" using n(2,3) by simp
        ultimately show ?thesis using rxs.scan_packet [of ?p ?rest] by (simp only: append_take_drop_id)
      qed
      then have ok: "rx_sum_ok ?p" and oks: "\<And>p. p \<in> set (fst (rx_scan ?rest)) \<Longrightarrow> rx_sum_ok p" using less.prems by auto
      have "2 \<le> n" using n(3) by (auto simp: rx_frame_def split: if_splits)
      then have p1: "?p ! 1 = y" using n(2) by (simp add: 2)
      have pf: "rx_frame ?p = Packet (length ?p)" using n(2,3) by simp
      have r: "rx_round s = Some (rx_dispatch ?p s\<lparr>m_rxBuffer := ?rest\<rparr>)"
      proof (cases "y = 0xAA")
        case True
        then obtain h' where h': "p2_handleRawData ?p (m_protocol2 s) = (HB_OK, [], h')" "p2_handleRawData (?p @ ?rest) (m_protocol2 s) = (HB_OK, ?rest, h')"
          using p2_handle_packet [OF pf _ ok] p1 by blast
        then have "p2_handleRawData ?b (m_protocol2 s) = (HB_OK, ?rest, h')" by simp
        then show ?thesis using True c(1) p1 h'(1) 2 by (simp add: rx_round_def Let_def rx_dispatch_def)
      next
        case False
        then have bb: "?p ! 1 = 0xBB" using p1 c(2) by simp
        have "p3_handleRawData (?p @ ?rest) = (HB_OK, ?rest, [?p])" by (rule p3_handle_packet [OF pf bb ok])
        then have "p3_handleRawData ?b = (HB_OK, ?rest, [?p])" by (simp only: append_take_drop_id)
        then show ?thesis using False c(1,2) p1 2 by (simp add: rx_round_def Let_def rx_dispatch_def)
      qed
      let ?t = "rx_dispatch ?p s\<lparr>m_rxBuffer := ?rest\<rparr>"
      have "length ?rest < length ?b" using n(1,2) by simp
      then obtain b where b: "rx_loop ?t = fold rx_dispatch (fst (rx_scan ?rest)) ?t\<lparr>m_rxBuffer := b\<rparr>" "rx_same b (snd (rx_scan ?rest))"
        using less.hyps [of ?t] oks by auto
      have "rx_loop s = rx_loop ?t" using r by (simp add: rx_loop.simps [of s])
      then show ?thesis using b sc by (intro exI [of _ b]) (simp add: rx_dispatch_fold)
    qed
  qed
qed

text \<open>Chunk after chunk, with the rest that waits in between.\<close>

lemma rx_chunks_handled:
  assumes "m_rxBuffer s = []" and "\<forall>p \<in> set (fst (rx_scan (concat chunks))). rx_sum_ok p"
  shows "\<exists>b. fold HandleNewDataFromDevice chunks s = fold rx_dispatch (fst (rx_scan (concat chunks))) s\<lparr>m_rxBuffer := b\<rparr> \<and>
    rx_same b (snd (rx_scan (concat chunks)))"
proof -
  have "\<exists>b. fold HandleNewDataFromDevice chunks s = fold rx_dispatch (fst (rx_scan (r @ concat chunks))) s\<lparr>m_rxBuffer := b\<rparr> \<and>
      rx_same b (snd (rx_scan (r @ concat chunks)))"
    if "rx_same (m_rxBuffer s) r" "rx_scan r = ([], r)" "\<forall>p \<in> set (fst (rx_scan (r @ concat chunks))). rx_sum_ok p" for r s
    using that
  proof (induction chunks arbitrary: r s)
    case Nil
    then show ?case by (intro exI [of _ "m_rxBuffer s"]) simp
  next
    case (Cons c chunks)
    let ?t = "s\<lparr>m_rxBuffer := m_rxBuffer s @ c\<rparr>"
    let ?r = "snd (rx_scan (r @ c))"
    note ap = rxs.scan_append [of "r @ c" "concat chunks"]
    have sc: "rx_scan (m_rxBuffer ?t) = rx_scan (r @ c)" using rx_same_scan [OF Cons.prems(1), of c] by simp
    have "\<And>p. p \<in> set (fst (rx_scan (m_rxBuffer ?t))) \<Longrightarrow> rx_sum_ok p" using Cons.prems(3) ap sc by simp
    from rx_loop_scan [of ?t, OF this] obtain b where
      b: "HandleNewDataFromDevice c s = fold rx_dispatch (fst (rx_scan (r @ c))) s\<lparr>m_rxBuffer := b\<rparr>" "rx_same b ?r"
      unfolding sc by (auto simp: HandleNewDataFromDevice_def rx_dispatch_fold)
    let ?u = "HandleNewDataFromDevice c s"
    have u: "m_rxBuffer ?u = b" unfolding b(1) by simp
    from Cons.IH [of ?u ?r] obtain b' where
      "fold HandleNewDataFromDevice chunks ?u = fold rx_dispatch (fst (rx_scan (?r @ concat chunks))) ?u\<lparr>m_rxBuffer := b'\<rparr>"
      "rx_same b' (snd (rx_scan (?r @ concat chunks)))"
      using b(2) u rxs.scan_pending [of "r @ c"] Cons.prems(3) ap by auto
    then show ?case using ap by (intro exI [of _ b']) (simp add: b(1) rx_dispatch_fold)
  qed
  from this [of s "[]"] show ?thesis using assms by (simp add: rx_same_def)
qed

text \<open>
  C10. As long as every packet that the stream announces has a right checksum, the handler with an empty
  buffer finds the packets of the abstract scan, in order, and gives each of them to its protocol once,
  however the stream is cut into chunks and whatever other bytes lie between the packets. The condition is
  needed: after a wrong checksum it depends on the chunks what is lost (\<open>checksum_error_loses_packet\<close> of \<open>P2Link\<close>).
\<close>
theorem rx_chunks_independent:
  assumes "m_rxBuffer s = []" and "\<forall>p \<in> set (fst (rx_scan (concat chunks))). rx_sum_ok p"
  shows "\<exists>b. fold HandleNewDataFromDevice chunks s = fold rx_dispatch (fst (rx_scan (concat chunks))) s\<lparr>m_rxBuffer := b\<rparr> \<and>
    rx_same b (snd (rx_scan (concat chunks)))"
  by (rule rx_chunks_handled [OF assms])

theorem rx_chunks_independent_witness:
  "\<exists>b. fold HandleNewDataFromDevice [[7, 0xAA], [0xAA, 2, 10, 0], [0xF6, 0xAA]] \<lparr>m_rxBuffer = [], m_protocol2 = DProtocol2_new, p3_frames = []\<rparr> =
     rx_dispatch [0xAA, 0xAA, 2, 10, 0, 0xF6] \<lparr>m_rxBuffer = b, m_protocol2 = DProtocol2_new, p3_frames = []\<rparr>"
proof -
  let ?chunks = "[[7, 0xAA], [0xAA, 2, 10, 0], [0xF6, 0xAA]]" and ?s = "\<lparr>m_rxBuffer = [], m_protocol2 = DProtocol2_new, p3_frames = []\<rparr>"
  have sc: "fst (rx_scan (concat ?chunks)) = [[0xAA, 0xAA, 2, 10, 0, 0xF6]]" by (simp add: rx_frame_def)
  have "\<forall>p \<in> set (fst (rx_scan (concat ?chunks))). rx_sum_ok p" unfolding sc by (simp add: rx_sum_ok_def P2_getCheckSum_def)
  from rx_chunks_independent [OF _ this, of ?s] show ?thesis unfolding sc by (auto simp: rx_dispatch_def)
qed

end
