(* ===== verification/VdProps.thy ===== *)
theory VdProps imports VdRun begin

text \<open>
  The software robot with the commands of \<open>cmd.cpp\<close>: its runs, and what holds in all of them.
\<close>

section \<open>Runs\<close>

text \<open>
  The events of the program's only thread: bytes arrive at the serial port, the timer fires, and the
  motion control and the clock change what they own. The first index is what the parser has received
  of a packet. Of the input it is assumed that the requests are those the commands are made for and
  that the queued ones fit into the queue; \<open>vd_push_full\<close> and the theorems below say what happens
  otherwise.
\<close>

definition vd_input_ok :: "vd_robot vd_cmd_map \<Rightarrow> bytes \<Rightarrow> bytes \<Rightarrow> vd_robot vd_slave \<Rightarrow> bool" where
  "vd_input_ok cmds r bs s \<longleftrightarrow> (\<forall>p \<in> set (vd_requests cmds (r @ bs)). vd_wire_safe p) \<and>
     length (q_items (msg_queue s)) + length (filter vd_queued (vd_requests cmds (r @ bs))) \<le> 500"

inductive vd_reach :: "vd_robot vd_cmd_map \<Rightarrow> bytes \<Rightarrow> vd_robot vd_slave \<Rightarrow> bool" for cmds where
  Start: "vd_robot_ok w \<Longrightarrow> vd_reach cmds [] (vd_slave_start fin running now w)"
| Receive: "vd_reach cmds r s \<Longrightarrow> vd_input_ok cmds r bs s \<Longrightarrow> readyRecv cmds bs s = Some s' \<Longrightarrow> vd_reach cmds (snd (vd_scan (r @ bs))) s'"
| Timer: "vd_reach cmds r s \<Longrightarrow> doQueueCmd cmds s = Some s' \<Longrightarrow> vd_reach cmds r s'"
| Motion: "vd_reach cmds r s \<Longrightarrow> vd_robot_ok w \<Longrightarrow> vd_reach cmds r (s\<lparr>finishFlag := fin, currentMSecs := now, robot := w\<rparr>)"

lemma vd_start_ok: "vd_robot_ok w \<Longrightarrow> vd_slave_ok vd_robot_ok wsafe [] (vd_slave_start fin running now w)"
  by (simp add: vd_slave_ok_def vd_slave_start_def vd_parser_start_def vd_received_def vd_index_ok_def vd_queue_ok_def
      vd_MsgQueue_def vd_parser.defs Let_def)

lemma vd_reach_ok:
  assumes others: "vd_others_fine others"
  shows "vd_reach (vd_commands others) r s \<Longrightarrow> vd_slave_ok vd_robot_ok vd_wire_safe r s"
proof (induction rule: vd_reach.induct)
  case (Start w fin running now)
  then show ?case by (rule vd_start_ok)
next
  case (Receive r s bs s')
  then show ?case
    using vd_command_set.readyRecv_ok [OF vd_commands_set [OF others] Receive.IH, of bs] by (auto simp: vd_input_ok_def)
next
  case (Timer r s s')
  then show ?case using vd_command_set.doQueueCmd_ok [OF vd_commands_set [OF others] Timer.IH] by auto
next
  case (Motion r s w)
  have "vd_received r (s\<lparr>finishFlag := fin, currentMSecs := now, robot := w\<rparr>) = vd_received r s" for fin now
    by (rule vd_received_kept) (simp add: vd_parser.defs)
  then show ?case using Motion by (simp add: vd_slave_ok_def vd_index_ok_def vd_queue_ok_def)
qed

section \<open>A run\<close>

text \<open>Every variable zero, and a packet with the queue flag and no data.\<close>

definition vd_zero_robot :: vd_robot where
  "vd_zero_robot = \<lparr>planFlag = False, jumPlanFlag = False, stopPlanFlag = False, stopFinishFlag = False, gRobotPrfMode = 0,
     gSingleMode = 0, gHome0_homeState = 0, gPose = replicate 32 0, kinematics = replicate 8 0, gAlarmSysState = replicate 16 0,
     armOrientation = 0, CalibrationMode = 0, gStepCtrlMode = 0, gStepCtrlModeTemp = 0, endEffectorParams = replicate 12 0,
     linkBlockH = replicate 4 0, linkBlockY = replicate 4 0, linkBlockV = replicate 4 0, gSuctioncup_LinkBlockH = replicate 4 0,
     gGripper_LinkBlockH = replicate 4 0, gPen_LinkBlockH = replicate 4 0, gEffectorType = 0, gEffectorEnale = [0, 0],
     gEffectorStatus = [0, 0], suction_enableCtrl = 0, suction_suck = 0, gripper_enableCtrl = 0, gripper_suck = 0,
     jogJointParams = replicate 32 0, jogCoordinateParams = replicate 32 0, jogCmd = [0, 0], ptpJointParams = replicate 32 0,
     ptpCoordinateParams = replicate 16 0, ptpJumpParams = replicate 8 0, ptpJump2Params = replicate 12 0,
     ptpCmd = replicate 17 0, cpParams = replicate 13 0, gLookAheadParams = replicate 13 0, CP_TrackFlag = 0,
     rHeadHoldEnable = False, rHeadValue = replicate 4 0, arcParams = replicate 16 0, arcCmd = replicate 32 0,
     circleCmd = replicate 36 0, gCircleMove_midPos = replicate 16 0, gCircleMove_endPos = replicate 16 0, gWholeCircleFlag = 0,
     gCircleCount = replicate 4 0, trig_address = 0, trig_mode = 0, trig_condition = 0, trig_threshold = [0, 0], DOIndex = 0,
     DOlevel = replicate 10 False, gFrontEnd_PWM_Flag = 0, IOPWMIndex = 0, IOPWMfreq = replicate 20 (replicate 4 0),
     IOPWMduty = replicate 20 (replicate 4 0), DIIndex = 0, DIlevel = replicate 20 0, IOAdcIndex = 0, AdcValue = replicate 20 0,
     LostStepValue = replicate 4 0, gCollisionDetectFlag = 0, CollisionCheckValue = replicate 4 0, gPosZero = replicate 24 0,
     runOfflineQueuedCmd = False, isDownloading = False, totalLoop = replicate 4 0, linePerLoop = replicate 4 0,
     offline_writeFlag = False, offline_readFlag = False\<rparr>"

lemma vd_zero_robot_ok: "vd_robot_ok vd_zero_robot"
  by (simp add: vd_robot_ok_def vd_zero_robot_def)

definition vd_demo_start :: "vd_robot vd_slave" where
  "vd_demo_start = vd_slave_start True True 0 vd_zero_robot"

text \<open>A queued trigger request.\<close>

definition vd_demo_packet :: bytes where
  "vd_demo_packet = [0xAA, 0xAA, 2, 120, 2, 0x86]"

lemma vd_demo_packet_facts:
  "vd_frame vd_demo_packet = Packet (length vd_demo_packet)" "hd vd_demo_packet = 0xAA" "vd_sum_ok vd_demo_packet"
  "vd_queued vd_demo_packet" "vd_wire_safe vd_demo_packet"
  by (simp_all add: vd_demo_packet_def vd_frame_def vd_sum_ok_def vd_sum_def vd_queued_def vd_wire_safe_def)

lemma vd_demo_find: "vd_findCmd (vd_commands others) (vd_demo_packet ! 3) = Some ProtocolTRIGCmdCmd"
  by (simp add: vd_demo_packet_def vd_findCmd_def vd_commands_def vd_registrations_def vd_registerCmd_def)

lemma vd_demo_requests: "vd_requests (vd_commands others) ([] @ vd_demo_packet) = [vd_demo_packet]"
  using vds.scan_packet [OF vd_demo_packet_facts(1,2), of "[]"] vd_demo_packet_facts(3) vd_demo_find
  by (simp add: vd_requests_def vd_known_def)

text \<open>One more of them is put into the queue.\<close>

lemma vd_demo_step:
  assumes reach: "vd_reach (vd_commands (\<lambda>_. None)) [] s" and room: "length (q_items (msg_queue s)) < 500"
  shows "\<exists>s' m. vd_reach (vd_commands (\<lambda>_. None)) [] s' \<and> q_items (msg_queue s') = q_items (msg_queue s) @ [m] \<and>
    vd_getID m = 120 \<and> finishFlag s' = finishFlag s \<and> runQueuedCmd s' = runQueuedCmd s \<and>
    QueuedCmdIsFinished s' = QueuedCmdIsFinished s"
proof -
  let ?cmds = "vd_commands (\<lambda>_. None)" and ?p = vd_demo_packet
  note p = vd_demo_packet_facts
  have ok: "vd_slave_ok vd_robot_ok vd_wire_safe [] s" by (rule vd_reach_ok [OF vd_others_fine_none reach])
  then have "vd_received [] s" by (simp add: vd_slave_ok_def)
  from readyRecv_packet [OF this p(1,2,3), of ?cmds] obtain t where t: "vd_received [] t" "vd_parser.more t = vd_parser.more s"
      "length (recv_buf t) = 256" "take (length ?p) (recv_buf t) = ?p" "readyRecv ?cmds ?p s = packetProc ?cmds (recv_buf t) t"
    by blast
  have tok: "vd_slave_ok vd_robot_ok vd_wire_safe [] t" by (rule vd_slave_ok_more [OF ok t(2,1)])
  have same: "msg_queue t = msg_queue s" "finishFlag t = finishFlag s" "runQueuedCmd t = runQueuedCmd s"
      "queuedCmdType t = queuedCmdType s" "gQueuedCmdIsFinished t = gQueuedCmdIsFinished s"
    using t(2) by (cases s; cases t; simp)+
  have room': "length (q_items (msg_queue t)) < 500" using room same by simp
  obtain s' out m where s': "packetProc ?cmds (recv_buf t) t = Some s'" "q_items (msg_queue s') = q_items (msg_queue t) @ [m]"
      "vd_image m = ?p" "finishFlag s' = finishFlag t" "runQueuedCmd s' = runQueuedCmd t"
      "queuedCmdType s' = queuedCmdType t" "gQueuedCmdIsFinished s' = gQueuedCmdIsFinished t" "vd_packet_ok m"
    using packetProc_queued [OF tok p(1,2,5,4) t(3,4) vd_demo_find room'] by blast
  have "vd_input_ok ?cmds [] ?p s" using room vd_demo_requests p(4,5) by (simp add: vd_input_ok_def)
  from vd_reach.Receive [OF reach this] have "vd_reach ?cmds [] s'"
    using t(5) s'(1) vds.scan_packet [OF p(1,2), of "[]"] by simp
  moreover have "vd_getID m = 120"
  proof -
    have "vd_length m = 6" using arg_cong [OF s'(3), of length] s'(8) vd_packet_ok_def
      by (simp add: vd_image_def vd_demo_packet_def min_def split: if_splits)
    then have "vd_image m ! 3 = vd_getID m" using s'(8) by (simp add: vd_image_nth vd_getID_def)
    then show ?thesis using s'(3) by (simp add: vd_demo_packet_def)
  qed
  ultimately show ?thesis using s' same by (auto simp: QueuedCmdIsFinished_def)
qed

lemma vd_demo_reach: "vd_reach (vd_commands (\<lambda>_. None)) [] vd_demo_start"
  unfolding vd_demo_start_def by (rule vd_reach.Start) (rule vd_zero_robot_ok)

lemma vd_demo_fill:
  "n \<le> 500 \<Longrightarrow> \<exists>s. vd_reach (vd_commands (\<lambda>_. None)) [] s \<and> length (q_items (msg_queue s)) = n \<and>
     (\<forall>m \<in> set (q_items (msg_queue s)). vd_getID m = 120) \<and> QueuedCmdIsFinished s \<and> finishFlag s \<and> runQueuedCmd s"
proof (induction n)
  case 0
  have "q_items (msg_queue vd_demo_start) = []" "QueuedCmdIsFinished vd_demo_start" "finishFlag vd_demo_start" "runQueuedCmd vd_demo_start"
    by (simp_all add: vd_demo_start_def vd_slave_start_def vd_MsgQueue_def QueuedCmdIsFinished_def vd_parser.defs)
  then show ?case using vd_demo_reach by (intro exI [of _ vd_demo_start]) simp
next
  case (Suc n)
  then obtain s where s: "vd_reach (vd_commands (\<lambda>_. None)) [] s" "length (q_items (msg_queue s)) = n"
      "\<forall>m \<in> set (q_items (msg_queue s)). vd_getID m = 120" "QueuedCmdIsFinished s" "finishFlag s" "runQueuedCmd s" by auto
  have "length (q_items (msg_queue s)) < 500" using s(2) Suc.prems by simp
  from vd_demo_step [OF s(1) this] s show ?case by fastforce
qed

text \<open>A reachable state with one queued trigger request, ready to be taken.\<close>

lemma vd_demo_one:
  "\<exists>s m. vd_reach (vd_commands (\<lambda>_. None)) [] s \<and> q_items (msg_queue s) = [m] \<and> vd_getID m = 120 \<and> QueuedCmdIsFinished s \<and>
     finishFlag s \<and> runQueuedCmd s"
proof -
  obtain s where s: "vd_reach (vd_commands (\<lambda>_. None)) [] s" "length (q_items (msg_queue s)) = 1"
      "\<forall>m \<in> set (q_items (msg_queue s)). vd_getID m = 120" "QueuedCmdIsFinished s" "finishFlag s" "runQueuedCmd s"
    using vd_demo_fill [of 1] by auto
  obtain m where "q_items (msg_queue s) = [m]" using s(2) by (auto simp: length_Suc_conv)
  then show ?thesis using s by (intro exI [of _ s] exI [of _ m]) simp
qed

section \<open>Answers\<close>

text \<open>
  C7. What the software robot does with any bytes that arrive, in chunks of any size, in every reachable state, under
  two conditions on the requests among them (\<open>vd_input_ok\<close>): the queued ones find room in the queue of
  500, and none is one of those whose command is made for other requests (\<open>vd_wire_safe\<close>: a request
  31, \<open>HomeCmd\<close>, that is not queued, 131 with an index of 10 or more, 132, 133 or a read of 134 with an index of 20 or
  more, and a read of 229 for axis 2 with a kind of 4 or without one). Then every request of the
  stream with a right checksum and a known identifier, and only these, is answered, in order, by one
  packet with the same identifier and a right checksum, without leaving a buffer or failing an
  assertion; the timer's slot always returns and sends nothing. The stream itself is arbitrary: damaged
  packets, unknown identifiers and noise are part of it. The first condition is needed: \<open>full_queue_ends_program\<close>.
\<close>
theorem robot_answers_requests:
  assumes "vd_others_fine others" and "vd_reach (vd_commands others) r s" and "vd_input_ok (vd_commands others) r bs s"
  shows "(\<exists>s' outs. readyRecv (vd_commands others) bs s = Some s' \<and> serial_out s' = serial_out s @ outs \<and>
       list_all2 vd_reply_to (vd_requests (vd_commands others) (r @ bs)) outs) \<and>
     (\<exists>s'. doQueueCmd (vd_commands others) s = Some s' \<and> serial_out s' = serial_out s)"
proof -
  note set = vd_commands_set [OF assms(1)] and ok = vd_reach_ok [OF assms(1,2)]
  show ?thesis
    using vd_command_set.readyRecv_ok [OF set ok, of bs] vd_command_set.doQueueCmd_ok [OF set ok] assms(3)
    unfolding vd_input_ok_def by blast
qed

theorem robot_answers_requests_witness:
  "\<exists>s' outs. readyRecv (vd_commands (\<lambda>_. None)) vd_demo_packet vd_demo_start = Some s' \<and>
     serial_out s' = serial_out vd_demo_start @ outs \<and> list_all2 vd_reply_to [vd_demo_packet] outs"
proof -
  have "vd_input_ok (vd_commands (\<lambda>_. None)) [] vd_demo_packet vd_demo_start"
    using vd_demo_requests vd_demo_packet_facts(4,5)
    by (simp add: vd_input_ok_def vd_demo_start_def vd_slave_start_def vd_MsgQueue_def vd_parser.defs)
  from robot_answers_requests [OF vd_others_fine_none vd_demo_reach this] show ?thesis using vd_demo_requests by simp
qed

section \<open>The queue\<close>

lemma vd_kept_queue:
  "vd_kept s s' \<Longrightarrow> q_items (msg_queue s') = q_items (msg_queue s) \<or> q_items (msg_queue s') = []"
  by (auto simp: vd_kept_def vd_clean_def)

text \<open>A firing that takes a request: the state in which it is executed, and the one it leaves.\<close>

definition vd_taken :: "vd_packet \<Rightarrow> vd_packet list \<Rightarrow> 'w vd_slave \<Rightarrow> 'w vd_slave" where
  "vd_taken m ms s = s\<lparr>msg_queue := msg_queue s\<lparr>q_items := ms, q_length := length ms, q_sem := int (length ms)\<rparr>,
     current_proc_packet := Some m, queuedCmdType := QueuedCmdTypeCalc (vd_getID m)\<rparr>"

lemma queue_takes_first:
  assumes others: "vd_others_fine others" and reach: "vd_reach (vd_commands others) r s"
    and go: "QueuedCmdIsFinished s" "finishFlag s" "runQueuedCmd s" and items: "q_items (msg_queue s) = m # ms"
  shows "\<exists>s'. doQueueCmd (vd_commands others) s = Some s' \<and> genIndex s' = genIndex s \<and> current_proc_packet s' = Some m \<and>
    (q_items (msg_queue s') = ms \<or> q_items (msg_queue s') = []) \<and>
    (case vd_findCmd (vd_commands others) (vd_getID m) of
       Some exec \<Rightarrow> \<not> QueuedCmdIsFinished s' \<and>
         (\<exists>ok response t. exec m vd_Packet_empty (vd_taken m ms s) = Some (ok, response, t) \<and> s' = QueuedCmdFinishFlagClear t)
     | None \<Rightarrow> True)"
proof -
  let ?cmds = "vd_commands others"
  note set = vd_commands_set [OF others] and ok = vd_reach_ok [OF others reach]
  have qok: "vd_queue_ok vd_wire_safe s" and rok: "vd_robot_ok (robot s)" using ok by (simp_all add: vd_slave_ok_def)
  have len: "q_length (msg_queue s) = Suc (length ms)" using qok items by (simp add: vd_queue_ok_def Let_def)
  let ?q = "msg_queue s\<lparr>q_items := ms, q_length := length ms, q_sem := int (length ms)\<rparr>"
  let ?s = "s\<lparr>msg_queue := ?q, current_proc_packet := Some m\<rparr>"
  note pop = vd_pop_Some [OF qok items] vd_queue_ok_pop [OF qok items, of ?s]
  show ?thesis
  proof (cases "vd_findCmd ?cmds (vd_getID m)")
    case None
    then show ?thesis using go len pop(1) by (simp add: doQueueCmd_def)
  next
    case (Some exec)
    let ?t = "?s\<lparr>queuedCmdType := QueuedCmdTypeCalc (vd_getID m)\<rparr>"
    have e: "vd_packet_ok vd_Packet_empty" by (simp add: vd_packet_ok_def vd_Packet_empty_def)
    have "vd_fine vd_robot_ok vd_Packet_empty ?t (exec m vd_Packet_empty ?t)"
      by (rule vd_command_set.conduct [OF set]) (use Some pop e rok in \<open>auto simp: vd_index_ok_def\<close>)
    then obtain b r' t' where x: "exec m vd_Packet_empty ?t = Some (b, r', t')" "vd_kept ?t t'"
      unfolding vd_fine_def by blast
    have "doQueueCmd ?cmds s = Some (QueuedCmdFinishFlagClear t')"
      using go len pop(1) Some x(1) by (simp add: doQueueCmd_def)
    then show ?thesis
      using x vd_kept_queue [OF x(2)] Some
      by (simp add: QueuedCmdFinishFlagClear_def vd_set_finished_def QueuedCmdIsFinished_def vd_kept_def vd_taken_def)
  qed
qed

text \<open>
  C5. What a firing of the timer does in every state that is reachable by requests within the conditions of
  \<open>vd_input_ok\<close>, firings, motion and time. When the last request that was executed has not
  finished, when motion control is busy, when the queue is stopped or when it is empty, no request is taken and the queue, its
  counters and the current request stay as they are. Otherwise the request that was queued first is taken and executed, and left
  marked as unfinished, so that none is taken before it has finished; the others stay queued in their
  order, unless the request itself emptied the queue. The queued requests always carry consecutive
  numbers in the order of the queue, the last of them the number that was given out last.
\<close>
theorem queue_executes_in_order:
  assumes others: "vd_others_fine others" and reach: "vd_reach (vd_commands others) r s"
  shows "map msg_id (q_items (msg_queue s)) =
      map (\<lambda>k. Some (genIndex s - word_of_nat k)) (rev [0..<length (q_items (msg_queue s))]) \<and>
    (\<exists>s'. doQueueCmd (vd_commands others) s = Some s' \<and> genIndex s' = genIndex s \<and>
       (case q_items (msg_queue s) of
          m # ms \<Rightarrow>
            if QueuedCmdIsFinished s \<and> finishFlag s \<and> runQueuedCmd s
            then current_proc_packet s' = Some m \<and> (q_items (msg_queue s') = ms \<or> q_items (msg_queue s') = []) \<and>
              (case vd_findCmd (vd_commands others) (vd_getID m) of
                 Some exec \<Rightarrow> \<not> QueuedCmdIsFinished s' \<and>
                   (\<exists>ok response t. exec m vd_Packet_empty (vd_taken m ms s) = Some (ok, response, t) \<and> s' = QueuedCmdFinishFlagClear t)
               | None \<Rightarrow> True)
            else msg_queue s' = msg_queue s \<and> current_proc_packet s' = current_proc_packet s
        | [] \<Rightarrow> msg_queue s' = msg_queue s \<and> current_proc_packet s' = current_proc_packet s))"
proof -
  let ?cmds = "vd_commands others"
  note ok = vd_reach_ok [OF others reach]
  then have qok: "vd_queue_ok vd_wire_safe s" by (simp add: vd_slave_ok_def)
  then have ids: "map msg_id (q_items (msg_queue s)) = map (\<lambda>k. Some (genIndex s - word_of_nat k)) (rev [0..<length (q_items (msg_queue s))])"
    and empty: "q_length (msg_queue s) = length (q_items (msg_queue s))" by (simp_all add: vd_queue_ok_def Let_def)
  show ?thesis
  proof (cases "QueuedCmdIsFinished s \<and> finishFlag s \<and> runQueuedCmd s \<and> q_items (msg_queue s) \<noteq> []")
    case True
    then obtain m ms where items: "q_items (msg_queue s) = m # ms" by (cases "q_items (msg_queue s)") auto
    from queue_takes_first [OF others reach _ _ _ items] True
    have "\<exists>s'. doQueueCmd ?cmds s = Some s' \<and> genIndex s' = genIndex s \<and> current_proc_packet s' = Some m \<and>
      (q_items (msg_queue s') = ms \<or> q_items (msg_queue s') = []) \<and>
      (case vd_findCmd ?cmds (vd_getID m) of
         Some exec \<Rightarrow> \<not> QueuedCmdIsFinished s' \<and>
           (\<exists>ok response t. exec m vd_Packet_empty (vd_taken m ms s) = Some (ok, response, t) \<and> s' = QueuedCmdFinishFlagClear t)
       | None \<Rightarrow> True)" by blast
    then show ?thesis using True ids items by (simp del: upt_Suc)
  next
    case False
    then have "\<exists>s'. doQueueCmd ?cmds s = Some s' \<and> genIndex s' = genIndex s \<and> msg_queue s' = msg_queue s \<and>
        current_proc_packet s' = current_proc_packet s"
      using empty by (auto simp: doQueueCmd_def QueuedCmdFinishFlagRefresh_def vd_set_finished_def split: vd_cmd_type.split)
    then show ?thesis using False ids by (auto split: list.split)
  qed
qed

theorem queue_executes_in_order_witness:
  "\<exists>s s' m. q_items (msg_queue s) = [m] \<and> doQueueCmd (vd_commands (\<lambda>_. None)) s = Some s' \<and>
     current_proc_packet s' = Some m \<and> q_items (msg_queue s') = []"
proof -
  obtain s m where s: "vd_reach (vd_commands (\<lambda>_. None)) [] s" "q_items (msg_queue s) = [m]" "QueuedCmdIsFinished s"
      "finishFlag s" "runQueuedCmd s"
    using vd_demo_one by blast
  show ?thesis using queue_executes_in_order [OF vd_others_fine_none s(1)] s(2-5) by auto
qed

text \<open>
  \<open>MsgQueue::push\<close> throws when the queue holds 500 requests, and no caller catches it: one more
  request with the queue flag and a known identifier ends the program.
\<close>
theorem full_queue_ends_program:
  assumes "vd_others_fine others" and "vd_reach (vd_commands others) [] s" and "length (q_items (msg_queue s)) = 500"
    and p: "vd_frame p = Packet (length p)" "hd p = 0xAA" "vd_queued p" "vd_known (vd_commands others) p"
    and buf: "length buf = 256" "take (length p) buf = p"
  shows "packetProc (vd_commands others) buf s = None"
proof -
  let ?q = "\<lparr>vd_buf = buf, msg_id = None\<rparr>"
  note q = vd_packet_of_buffer [OF p(1,2) buf, of ?q, OF vd_packet.select_convs(1)]
  have e: "vd_packet_ok vd_Packet_empty" by (simp add: vd_packet_ok_def vd_Packet_empty_def)
  obtain r where r: "vd_init ?q vd_Packet_empty = Some r" using vd_init_Some [OF q(1) e] by blast
  have "vd_queue_ok vd_wire_safe s" using vd_reach_ok [OF assms(1,2)] by (simp add: vd_slave_ok_def)
  then have "vd_push m (msg_queue s) = Inl MsgQueueFullException" for m
    using assms(3) by (simp add: vd_push_def vd_queue_ok_def Let_def)
  moreover have "vd_Packet_copy buf = Some ?q" using buf(1) by (simp add: vd_Packet_copy_def mem_safe)
  moreover obtain exec where "vd_findCmd (vd_commands others) (p ! 3) = Some exec" using p(4) by (auto simp: vd_known_def)
  ultimately show ?thesis using r q(4,5) p(3) by (simp add: packetProc_def genIndexID_def Let_def)
qed

theorem full_queue_ends_program_witness:
  "\<exists>s. length (q_items (msg_queue s)) = 500 \<and>
     packetProc (vd_commands (\<lambda>_. None)) (vd_demo_packet @ replicate 250 0) s = None"
proof -
  obtain s where s: "vd_reach (vd_commands (\<lambda>_. None)) [] s" "length (q_items (msg_queue s)) = 500"
    using vd_demo_fill [of 500] by auto
  have known: "vd_known (vd_commands (\<lambda>_. None)) vd_demo_packet" using vd_demo_find by (simp add: vd_known_def)
  have buf: "length (vd_demo_packet @ replicate 250 0) = 256"
      "take (length vd_demo_packet) (vd_demo_packet @ replicate 250 0) = vd_demo_packet"
    by (simp_all add: vd_demo_packet_def)
  show ?thesis
    using full_queue_ends_program [OF vd_others_fine_none s vd_demo_packet_facts(1,2,4) known buf] s(2) by blast
qed

text \<open>
  A queued trigger request blocks the queue: once the timer has taken it, no later firing of the
  timer takes another request, whatever the motion control and the clock do in between. (The
  requests that stop the queue set the flag of the trigger requests, so that it can go on after one.)
\<close>
theorem trigger_blocks_queue:
  assumes others: "vd_others_fine others" and reach: "vd_reach (vd_commands others) r s"
    and go: "QueuedCmdIsFinished s" "finishFlag s" "runQueuedCmd s" and items: "q_items (msg_queue s) = m # ms"
    and trig: "vd_getID m = 120"
  shows "\<exists>s'. doQueueCmd (vd_commands others) s = Some s' \<and>
    (\<exists>s''. foldM (\<lambda>(fin, now, w) s. doQueueCmd (vd_commands others) (s\<lparr>finishFlag := fin, currentMSecs := now, robot := w\<rparr>)) evs s' = Some s'' \<and>
       msg_queue s'' = msg_queue s' \<and> current_proc_packet s'' = Some m \<and> \<not> QueuedCmdIsFinished s'')"
proof -
  let ?cmds = "vd_commands others"
  note set = vd_commands_set [OF others] and ok = vd_reach_ok [OF others reach]
  have qok: "vd_queue_ok vd_wire_safe s" and rok: "vd_robot_ok (robot s)" using ok by (simp_all add: vd_slave_ok_def)
  have len: "q_length (msg_queue s) = Suc (length ms)" using qok items by (simp add: vd_queue_ok_def Let_def)
  let ?q = "msg_queue s\<lparr>q_items := ms, q_length := length ms, q_sem := int (length ms)\<rparr>"
  let ?s = "s\<lparr>msg_queue := ?q, current_proc_packet := Some m\<rparr>"
  note pop = vd_pop_Some [OF qok items] vd_queue_ok_pop [OF qok items, of ?s]
  have find: "vd_findCmd ?cmds (vd_getID m) = Some ProtocolTRIGCmdCmd"
    by (simp add: trig vd_findCmd_def vd_commands_def vd_registrations_def vd_registerCmd_def)
  let ?t = "?s\<lparr>queuedCmdType := QueuedCmdTypeCalc (vd_getID m)\<rparr>"
  have e: "vd_packet_ok vd_Packet_empty" by (simp add: vd_packet_ok_def vd_Packet_empty_def)
  have "vd_fine vd_robot_ok vd_Packet_empty ?t (ProtocolTRIGCmdCmd m vd_Packet_empty ?t)"
    by (rule vd_command_set.conduct [OF set]) (use find pop e rok in \<open>auto simp: vd_index_ok_def\<close>)
  then obtain b r' t' where x: "ProtocolTRIGCmdCmd m vd_Packet_empty ?t = Some (b, r', t')" "vd_kept ?t t'"
    unfolding vd_fine_def by blast
  let ?s1 = "QueuedCmdFinishFlagClear t'"
  have run: "doQueueCmd ?cmds s = Some ?s1" using go len pop(1) find x(1) by (simp add: doQueueCmd_def)
  let ?I = "\<lambda>u. msg_queue u = msg_queue ?s1 \<and> current_proc_packet u = Some m \<and> queuedCmdType u = QueuedCmdTrigType \<and>
      gQueuedCmdIsFinished u QueuedCmdTrigType = False"
  have "?I ?s1"
    using x(2) by (simp add: vd_kept_def QueuedCmdFinishFlagClear_def vd_set_finished_def trig QueuedCmdTypeCalc_def)
  moreover have "\<exists>u'. (case ev of (fin, now, w) \<Rightarrow> \<lambda>s. doQueueCmd ?cmds (s\<lparr>finishFlag := fin, currentMSecs := now, robot := w\<rparr>)) u = Some u' \<and> ?I u'"
    if "?I u" for ev u
    using that by (cases ev) (simp add: doQueueCmd_def QueuedCmdIsFinished_def QueuedCmdFinishFlagRefresh_def)
  ultimately have "\<exists>s''. foldM (\<lambda>(fin, now, w) s. doQueueCmd ?cmds (s\<lparr>finishFlag := fin, currentMSecs := now, robot := w\<rparr>)) evs ?s1 = Some s'' \<and> ?I s''"
    by (intro foldM_inv) (auto split: prod.splits)
  then show ?thesis using run by (auto simp: QueuedCmdIsFinished_def)
qed

theorem trigger_blocks_queue_witness:
  "\<exists>s s' s''. doQueueCmd (vd_commands (\<lambda>_. None)) s = Some s' \<and>
     foldM (\<lambda>(fin, now, w) s. doQueueCmd (vd_commands (\<lambda>_. None)) (s\<lparr>finishFlag := fin, currentMSecs := now, robot := w\<rparr>))
       (replicate 3 (True, 5, vd_zero_robot)) s' = Some s'' \<and> \<not> QueuedCmdIsFinished s''"
proof -
  obtain s m where s: "vd_reach (vd_commands (\<lambda>_. None)) [] s" "q_items (msg_queue s) = [m]" "vd_getID m = 120"
      "QueuedCmdIsFinished s" "finishFlag s" "runQueuedCmd s"
    using vd_demo_one by blast
  show ?thesis
    using trigger_blocks_queue [OF vd_others_fine_none s(1,4,5,6,2,3), of "replicate 3 (True, 5, vd_zero_robot)"] by blast
qed


section \<open>Waiting\<close>

lemma vd_nowTime_unat: "unat (vd_nowTime s) = unat (currentMSecs s) mod 2 ^ 31"
proof -
  have m: "(0x7FFFFFFF :: u32) = mask 31" by (simp add: mask_eq_exp_minus_1)
  have "unat (vd_nowTime s) = unat (ucast (currentMSecs s) :: u32) mod 2 ^ 31"
    unfolding vd_nowTime_def m take_bit_eq_mask [symmetric] by (subst unsigned_take_bit_eq) (simp add: take_bit_eq_mod)
  also have "\<dots> = unat (currentMSecs s) mod 2 ^ 32 mod 2 ^ 31" by (subst unsigned_ucast_eq) (simp add: take_bit_eq_mod)
  also have "\<dots> = unat (currentMSecs s) mod 2 ^ 31" by (rule mod_mod_cancel) simp
  finally show ?thesis .
qed

lemma mod_add_once: "a < n \<Longrightarrow> d < n \<Longrightarrow> (a + d) mod n = (if a + d < n then a + d else a + d - n)" for a d n :: nat
  by (simp add: le_mod_geq)

text \<open>
  C37. A wait request ends at the first firing of the timer that finds more milliseconds passed than it
  asks for, as long as the 31-bit clock does not wrap in between; after a wrap it ends at once, when
  the time asked for is below 2^31 milliseconds.
\<close>
theorem wait_request_ends:
  assumes cmd: "SetWAITCmdCmd request response s = Some (True, response, s1)" and type: "queuedCmdType s1 = QueuedCmdWaitType"
    and busy: "\<not> QueuedCmdIsFinished s1" and d: "d < 2 ^ 31"
  shows "\<exists>s2. doQueueCmd cmds (s1\<lparr>currentMSecs := currentMSecs s + word_of_nat d\<rparr>) = Some s2 \<and>
    (QueuedCmdIsFinished s2 \<longleftrightarrow>
       (if unat (currentMSecs s) mod 2 ^ 31 + d < 2 ^ 31 then unat (wait_timeout s1) < d else unat (wait_timeout s1) < d + 2 ^ 31))"
proof -
  let ?s = "s1\<lparr>currentMSecs := currentMSecs s + word_of_nat d\<rparr>"
  let ?c = "unat (currentMSecs s) mod 2 ^ 31"
  have tick: "unat (wait_initialTick s1) = ?c"
    using cmd vd_nowTime_unat [of s] by (auto simp: SetWAITCmdCmd_def vd_done_def split: bind_splits)
  have "unat (currentMSecs s + word_of_nat d) mod 2 ^ 31 = (unat (currentMSecs s) + d) mod 2 ^ 64 mod 2 ^ 31"
    by (simp add: unat_word_ariths unat_of_nat mod_add_right_eq)
  also have "\<dots> = (unat (currentMSecs s) + d) mod 2 ^ 31" by (rule mod_mod_cancel) (simp add: le_imp_power_dvd)
  also have "\<dots> = (?c + d) mod 2 ^ 31" by (simp add: mod_add_left_eq)
  also have "\<dots> = (if ?c + d < 2 ^ 31 then ?c + d else ?c + d - 2 ^ 31)"
    by (rule mod_add_once) (use d in simp_all)
  finally have now: "unat (vd_nowTime ?s) = (if ?c + d < 2 ^ 31 then ?c + d else ?c + d - 2 ^ 31)"
    using vd_nowTime_unat [of ?s] by simp
  have c: "?c < 2 ^ 31" by simp
  have "unat (vd_nowTime ?s - wait_initialTick s1) = (if ?c + d < 2 ^ 31 then d else d + 2 ^ 31)"
  proof (cases "?c + d < 2 ^ 31")
    case True
    then show ?thesis unfolding unat_sub_if' now tick by simp
  next
    case False
    then have "\<not> ?c \<le> ?c + d - 2 ^ 31" using d c by linarith
    then show ?thesis unfolding unat_sub_if' now tick using False c by simp
  qed
  then show ?thesis
    using type busy
    by (simp add: doQueueCmd_def QueuedCmdIsFinished_def QueuedCmdFinishFlagRefresh_def vd_set_finished_def word_less_nat_alt)
qed

text \<open>Ten milliseconds before the clock wraps: a wait for a second is over after twenty.\<close>

theorem wait_request_ends_witness:
  "\<exists>s1 s2. SetWAITCmdCmd \<lparr>vd_buf = [0xAA, 0xAA, 6, 110, 3, 0xE8, 3] @ replicate 249 0, msg_id = None\<rparr> vd_Packet_empty
       (vd_demo_start\<lparr>queuedCmdType := QueuedCmdWaitType, gQueuedCmdIsFinished := (\<lambda>_. False), currentMSecs := 0x7FFFFFF6\<rparr>)
       = Some (True, vd_Packet_empty, s1) \<and> wait_timeout s1 = 1000 \<and>
     doQueueCmd (vd_commands (\<lambda>_. None)) (s1\<lparr>currentMSecs := 0x7FFFFFF6 + 20\<rparr>) = Some s2 \<and> QueuedCmdIsFinished s2"
proof -
  let ?s = "vd_demo_start\<lparr>queuedCmdType := QueuedCmdWaitType, gQueuedCmdIsFinished := (\<lambda>_. False), currentMSecs := 0x7FFFFFF6\<rparr>"
  let ?s1 = "?s\<lparr>wait_initialTick := vd_nowTime ?s, wait_timeout := 1000\<rparr>"
  let ?r = "\<lparr>vd_buf = [0xAA, 0xAA, 6, 110, 3, 0xE8, 3] @ replicate 249 0, msg_id = None\<rparr>"
  have cmd: "SetWAITCmdCmd ?r vd_Packet_empty ?s = Some (True, vd_Packet_empty, ?s1)"
    by (simp add: SetWAITCmdCmd_def vd_payload_def rd32_def rd8_def le32_def vd_done_def vd_nowTime_def)
  have busy: "queuedCmdType ?s1 = QueuedCmdWaitType" "\<not> QueuedCmdIsFinished ?s1" "(20 :: nat) < 2 ^ 31"
    by (simp_all add: QueuedCmdIsFinished_def)
  show ?thesis
    using wait_request_ends [OF cmd busy, of "vd_commands (\<lambda>_. None)"] cmd by auto
qed

section \<open>Limited parameters\<close>

lemma vd_clamp_spec:
  assumes "vd_clamp (i, l) p = Some q" and "i + 4 \<le> length p"
  shows "rd32 q i = map_option (\<lambda>x. if f32_less l x then l else x) (rd32 p i)"
    and "a + 4 \<le> i \<or> i + 4 \<le> a \<Longrightarrow> rd32 q a = rd32 p a" and "length q = length p"
  using assms rd32_Some [OF assms(2)] rd32_wr_same [OF assms(2)] rd32_wr_far [of p i l q a] wr_range_length [of p i "bytes32 l" q]
  by (auto simp: vd_clamp_def split: if_splits)

lemma vd_clamps_spec:
  assumes "foldM vd_clamp cs p = Some q" and "\<And>c. c \<in> set cs \<Longrightarrow> fst c + 4 \<le> length p"
    and "sorted_wrt (\<lambda>c e. fst c + 4 \<le> fst e \<or> fst e + 4 \<le> fst c) cs"
  shows "(\<forall>(i, l) \<in> set cs. rd32 q i = map_option (\<lambda>x. if f32_less l x then l else x) (rd32 p i)) \<and>
    (\<forall>a. (\<forall>c \<in> set cs. a + 4 \<le> fst c \<or> fst c + 4 \<le> a) \<longrightarrow> rd32 q a = rd32 p a)"
  using assms
proof (induction cs arbitrary: p)
  case (Cons c cs)
  obtain i l where c: "c = (i, l)" by (cases c)
  obtain r where r: "vd_clamp (i, l) p = Some r" "foldM vd_clamp cs r = Some q"
    using Cons.prems(1) by (auto simp: c split: option.splits)
  have i: "i + 4 \<le> length p" using Cons.prems(2) [of c] by (simp add: c)
  note sp = vd_clamp_spec [OF r(1) i]
  have IH: "(\<forall>(i, l) \<in> set cs. rd32 q i = map_option (\<lambda>x. if f32_less l x then l else x) (rd32 r i)) \<and>
      (\<forall>a. (\<forall>c \<in> set cs. a + 4 \<le> fst c \<or> fst c + 4 \<le> a) \<longrightarrow> rd32 q a = rd32 r a)"
    by (rule Cons.IH [OF r(2)]) (use Cons.prems sp(3) in auto)
  have far: "fst e + 4 \<le> i \<or> i + 4 \<le> fst e" if "e \<in> set cs" for e using Cons.prems(3) that by (auto simp: c)
  have first: "rd32 q i = map_option (\<lambda>x. if f32_less l x then l else x) (rd32 p i)"
    using IH far sp(1) by (metis (no_types, lifting))
  have rest: "rd32 r (fst e) = rd32 p (fst e)" if "e \<in> set cs" for e using sp(2) far [OF that] by blast
  show ?case using IH first rest sp(2) by (auto simp: c split_beta cong: if_cong)
qed simp

lemma f32_not_less_self: "\<not> f32_less l (if f32_less l x then l else x)"
  by (simp add: f32_less_def)

text \<open>
  A write of the joint parameters stores, for each of the four axes, the velocity and the
  acceleration of the request, or the limit where they are greater; what is stored is never greater
  than the limit.
\<close>
theorem joint_params_limited:
  assumes "vd_packet_ok request" and "vd_isWrite request"
  shows "\<exists>s'. SetPTPJointParam request response s = Some (True, response, s') \<and>
    (\<forall>(i, limit) \<in> set [(0, f32_300), (4, f32_300), (8, f32_300), (12, f32_300), (16, f32_400), (20, f32_400), (24, f32_400), (28, f32_400)].
       \<exists>x v. rd32 (vd_payload request) i = Some x \<and> rd32 (ptpJointParams (robot s')) i = Some v \<and>
         v = (if f32_less limit x then limit else x) \<and> \<not> f32_less limit v)"
proof -
  let ?cs = "[(0 :: nat, f32_300), (16, f32_400), (4, f32_300), (20, f32_400), (8, f32_300), (24, f32_400), (12, f32_300), (28, f32_400)]"
  let ?p = "take 32 (vd_payload request)"
  have len: "length ?p = 32" using assms(1) by (simp add: vd_payload_length)
  have "\<exists>q. foldM vd_clamp ?cs ?p = Some q \<and> length q = 32" by (rule vd_clamps_Some [OF len]) auto
  then obtain q where q: "foldM vd_clamp ?cs ?p = Some q" by (elim exE conjE)
  let ?s = "vd_robot_upd (ptpJointParams_update (\<lambda>_. q)) s"
  have run: "SetPTPJointParam request response s = Some (True, response, ?s)"
    using assms q by (simp add: SetPTPJointParam_def vd_access vd_done_def del: foldM.simps)
  have sp: "rd32 q i = map_option (\<lambda>x. if f32_less l x then l else x) (rd32 ?p i)" if "(i, l) \<in> set ?cs" for i l
  proof -
    have "\<And>c. c \<in> set ?cs \<Longrightarrow> fst c + 4 \<le> length ?p" unfolding len by auto
    moreover have "sorted_wrt (\<lambda>c e. fst c + 4 \<le> fst e \<or> fst e + 4 \<le> fst c) ?cs" by simp
    ultimately show ?thesis using vd_clamps_spec [OF q] that by blast
  qed
  have pay: "rd32 ?p i = rd32 (vd_payload request) i" "\<exists>x. rd32 (vd_payload request) i = Some x" if "i + 4 \<le> 32" for i
    using that vd_payload_length [OF assms(1)] by (simp_all add: rd32_Some)
  have one: "\<exists>x v. rd32 (vd_payload request) i = Some x \<and> rd32 (ptpJointParams (robot ?s)) i = Some v \<and>
      v = (if f32_less l x then l else x) \<and> \<not> f32_less l v" if "(i, l) \<in> set ?cs" "i + 4 \<le> 32" for i l
    using sp [OF that(1)] pay [OF that(2)] f32_not_less_self by auto
  have "\<forall>(i, l) \<in> set [(0, f32_300), (4, f32_300), (8, f32_300), (12, f32_300), (16, f32_400), (20, f32_400), (24, f32_400), (28, f32_400)].
      (i, l) \<in> set ?cs \<and> i + 4 \<le> 32" by simp
  then show ?thesis using run one by (intro exI [of _ ?s] conjI) (blast | fast)+
qed

theorem joint_params_limited_witness:
  "\<exists>s'. SetPTPJointParam \<lparr>vd_buf = [0xAA, 0xAA, 34, 80, 1] @ bytes32 0x44000000 @ replicate 247 0, msg_id = None\<rparr>
       vd_Packet_empty vd_demo_start = Some (True, vd_Packet_empty, s') \<and>
     rd32 (ptpJointParams (robot s')) 0 = Some f32_300"
proof -
  let ?r = "\<lparr>vd_buf = [0xAA, 0xAA, 34, 80, 1] @ bytes32 0x44000000 @ replicate 247 0, msg_id = None\<rparr>"
  have ok: "vd_packet_ok ?r" "vd_isWrite ?r" by (simp_all add: vd_packet_ok_def vd_isWrite_def)
  obtain s' where s': "SetPTPJointParam ?r vd_Packet_empty vd_demo_start = Some (True, vd_Packet_empty, s')"
      "\<exists>x v. rd32 (vd_payload ?r) 0 = Some x \<and> rd32 (ptpJointParams (robot s')) 0 = Some v \<and>
         v = (if f32_less f32_300 x then f32_300 else x)"
    using joint_params_limited [OF ok, of vd_Packet_empty vd_demo_start] by auto
  have "rd32 (vd_payload ?r) 0 = Some 0x44000000"
    by (simp add: vd_payload_def rd32_def rd8_def bytes32_def upt_rec byte_of_def le32_def)
  moreover have "f32_less f32_300 0x44000000" by (simp add: f32_less_def f32_nan_def f32_key_def)
  ultimately show ?thesis using s' by auto
qed

end
