(* ===== verification/P2Link.thy ===== *)
theory P2Link imports RxSplit VdProps begin

text \<open>
  DobotLink and the software robot together: a request of \<open>DProtocol2\<close> goes through the parser, the
  queue and the commands of the robot, and the answer back through \<open>MessageHandler\<close> to the request.
\<close>

section \<open>A packet of the robot at DobotLink\<close>

lemma vd_packet_rx:
  assumes "vd_frame p = Packet (length p)" and "vd_sum_ok p"
  shows "rx_frame p = Packet (length p)" and "rx_sum_ok p" and "p ! 1 = 0xAA"
proof -
  note f = vd_frame_length [OF assms(1)]
  let ?n = "unat (p ! 2)"
  show "p ! 1 = 0xAA" using f by simp
  have nz: "p ! 2 \<noteq> 0" using f by auto
  then show "rx_frame p = Packet (length p)" using f by (simp add: rx_frame_def)
  have "drop 3 p = take ?n (drop 3 p) @ [p ! (?n + 3)]"
    using f take_Suc_conv_app_nth [of ?n "drop 3 p"] by (simp add: add.commute)
  then have "vd_sum (take ?n (drop 3 p) @ [p ! (?n + 3)]) = 0" using assms(2) by (simp only: vd_sum_ok_def)
  then have "vd_sum (take ?n (drop 3 p)) + p ! (?n + 3) = 0" by simp
  then have "p ! (?n + 3) = - vd_sum (take ?n (drop 3 p))" by (simp add: eq_neg_iff_add_eq_0 add.commute)
  then show "rx_sum_ok p" using f nz by (simp add: rx_sum_ok_def P2_checkSum)
qed

text \<open>What \<open>DProtocol2\<close> does with an answer whose command is under way.\<close>

lemma p2_handle_answer:
  assumes p: "vd_frame p = Packet (length p)" "vd_sum_ok p" and cmd: "p ! 3 = c" "uint c \<noteq> 216"
    and a: "map_of (m_sendingPackets h) (uint c, 0) = Some a"
  shows "\<exists>r. p2_handleRawData p h =
      (HB_OK, [], p2_emit (RecviceData r) (h\<lparr>m_sendingPackets := AList.delete (uint c, 0) (m_sendingPackets h)\<rparr>)) \<and>
    p2_id r = p2_id (as_packet a) \<and> p_cmdID (p2_payload r) = c"
proof -
  note f = vd_frame_length [OF p(1)]
  let ?n = "unat (p ! 2)"
  obtain k ps where d: "take ?n (drop 3 p) = c # k # ps"
  proof -
    have "length (take ?n (drop 3 p)) = ?n" using f by simp
    then obtain x k ps where x: "take ?n (drop 3 p) = x # k # ps" using f by (cases "take ?n (drop 3 p)" rule: remdups_adj.cases) auto
    have "take ?n (drop 3 p) ! 0 = p ! 3" using f by simp
    then show ?thesis using x cmd(1) that by simp
  qed
  have c: "p ! (3 + ?n) = P2_getCheckSum (take ?n (drop 3 p))"
    using vd_packet_rx [OF p] by (simp add: rx_sum_ok_def add.commute)
  let ?r = "P2_setPacket p (P2Packet_new 0)"
  have pl: "p_cmdID (p2_payload ?r) = c" using f d by (simp add: P2_setPacket_def setPacketPayload_def)
  then have key: "p2_key ?r = (uint c, 0)" using cmd(2) by (simp add: getCommondID_def getSubID_def)
  have l: "\<not> length p < 5" "\<not> length p < 4 + ?n" "take (4 + ?n) p = p" "drop (4 + ?n) p = []" using f by simp_all
  let ?r' = "?r\<lparr>p2_id := p2_id (as_packet a), p2_isPrivate := p2_isPrivate (as_packet a), p2_deviceType := p2_deviceType (as_packet a)\<rparr>"
  let ?h = "p2_emit (RecviceData ?r') (h\<lparr>m_sendingPackets := AList.delete (uint c, 0) (m_sendingPackets h)\<rparr>)"
  have "p2_handleRawData p h = (HB_OK, [], ?h)"
    unfolding p2_handleRawData_def Let_def l(3,4) key a using l(1,2) c by simp
  then show ?thesis using pl by (intro exI [of _ ?r']) simp
qed

section \<open>End to end\<close>

text \<open>
  C1. A request under way whose packet is made by \<open>getPacketData\<close> and reaches a waiting robot that knows
  its command (216, the sensors, is none of them) is answered by one packet, if the request is one that the
  commands are made for (\<open>vd_wire_safe\<close>) and, when it is to be queued, the queue of 500 has room. However that packet is cut into chunks on its way
  back, \<open>DProtocol2\<close> reports one answer, with the number of the request and its command, and takes this
  request and no other off the requests under way; nothing else of its state changes.
\<close>
theorem request_answered_end_to_end:
  assumes others: "vd_others_fine others" and reach: "vd_reach (vd_commands others) [] rs"
    and room: "vd_queued (getPacketData p) \<longrightarrow> length (q_items (msg_queue rs)) < 500"
    and p: "length (p_params (p2_payload p)) \<le> 248" "vd_known (vd_commands others) (getPacketData p)" "vd_wire_safe (getPacketData p)"
      "getCommondID p \<noteq> 216"
    and hs: "m_rxBuffer hs = []" "map_of (m_sendingPackets (m_protocol2 hs)) (p2_key p) = Some a"
  shows "\<exists>rs' out. readyRecv (vd_commands others) (getPacketData p) rs = Some rs' \<and> serial_out rs' = serial_out rs @ [out] \<and>
    (\<forall>chunks. concat chunks = out \<longrightarrow>
      (\<exists>r b. rx_same b [] \<and> fold HandleNewDataFromDevice chunks hs = hs\<lparr>m_rxBuffer := b, m_protocol2 := p2_emit (RecviceData r)
           (m_protocol2 hs\<lparr>m_sendingPackets := AList.delete (p2_key p) (m_sendingPackets (m_protocol2 hs))\<rparr>)\<rparr> \<and>
         p2_id r = p2_id (as_packet a) \<and> getCommondID r = getCommondID p))"
proof -
  let ?cmds = "vd_commands others" and ?d = "getPacketData p"
  note fr = getPacketData_frame [OF p(1)]
  have rq: "vd_requests ?cmds ([] @ ?d) = [?d]"
    using vds.scan_packet [OF fr(2,4), of "[]"] fr(3) p(2) by (simp add: vd_requests_def)
  have ok: "vd_slave_ok vd_robot_ok vd_wire_safe [] rs" by (rule vd_reach_ok [OF others reach])
  then have "length (q_items (msg_queue rs)) \<le> 500" by (simp add: vd_slave_ok_def vd_queue_ok_def Let_def)
  then have "length (q_items (msg_queue rs)) + length (filter vd_queued [?d]) \<le> 500" using room by auto
  then have "\<exists>rs' outs. readyRecv ?cmds ?d rs = Some rs' \<and> serial_out rs' = serial_out rs @ outs \<and> list_all2 vd_reply_to [?d] outs"
    using vd_command_set.readyRecv_ok [OF vd_commands_set [OF others] ok, of ?d] p(3) unfolding rq by force
  then obtain rs' out where rs': "readyRecv ?cmds ?d rs = Some rs'" "serial_out rs' = serial_out rs @ [out]" "vd_reply_to ?d out"
    by (auto simp: list_all2_Cons1)
  have out: "vd_frame out = Packet (length out)" "vd_sum_ok out" "hd out = 0xAA" "out ! 3 = p_cmdID (p2_payload p)"
    using rs'(3) getPacketData_nth(4) [of p] by (simp_all add: vd_reply_to_def)
  note rx = vd_packet_rx [OF out(1,2)]
  have key: "p2_key p = (uint (p_cmdID (p2_payload p)), 0)" "uint (p_cmdID (p2_payload p)) \<noteq> 216"
    using p(4) by (simp_all add: getCommondID_def getSubID_def)
  obtain r where h': "p2_handleRawData out (m_protocol2 hs) = (HB_OK, [], p2_emit (RecviceData r)
        (m_protocol2 hs\<lparr>m_sendingPackets := AList.delete (p2_key p) (m_sendingPackets (m_protocol2 hs))\<rparr>))"
      "p2_id r = p2_id (as_packet a)" "p_cmdID (p2_payload r) = p_cmdID (p2_payload p)"
    using p2_handle_answer [OF out(1,2,4) key(2)] hs(2) unfolding key(1) by blast
  have sc: "rx_scan out = ([out], [])" using rxs.scan_packet [OF rx(1) out(3), of "[]"] by simp
  have "\<exists>b. rx_same b [] \<and> fold HandleNewDataFromDevice chunks hs = hs\<lparr>m_rxBuffer := b, m_protocol2 := p2_emit (RecviceData r)
      (m_protocol2 hs\<lparr>m_sendingPackets := AList.delete (p2_key p) (m_sendingPackets (m_protocol2 hs))\<rparr>)\<rparr>" if c: "concat chunks = out" for chunks
  proof -
    obtain b where "rx_same b []" "fold HandleNewDataFromDevice chunks hs = fold rx_dispatch [out] hs\<lparr>m_rxBuffer := b\<rparr>"
      using rx_chunks_handled [OF hs(1), of chunks] rx(2) unfolding c sc by auto
    then show ?thesis using rx(3) h'(1) by (intro exI [of _ b]) (simp add: rx_dispatch_def)
  qed
  then show ?thesis using rs' h'(2,3) by (intro exI [of _ rs'] exI [of _ out]) (fastforce simp: getCommondID_def)
qed

theorem request_answered_end_to_end_witness:
  "\<exists>rs' out h. readyRecv (vd_commands (\<lambda>_. None)) (getPacketData (p2_demo_packet 9)) vd_demo_start = Some rs' \<and> serial_out rs' = [out] \<and>
     h = m_protocol2 (fold HandleNewDataFromDevice [out] \<lparr>m_rxBuffer = [], m_protocol2 = PeriodicTaskAsync_slot
       (DProtocol2_new\<lparr>m_sendingList := [p2_demo_packet 9]\<rparr>), p3_frames = []\<rparr>) \<and>
     map_of (m_sendingPackets h) (10, 0) = None \<and> length (p2_signals h) = 2"
proof -
  let ?cmds = "vd_commands (\<lambda>_. None)" and ?p = "p2_demo_packet 9"
  let ?hs = "\<lparr>m_rxBuffer = [], m_protocol2 = PeriodicTaskAsync_slot (DProtocol2_new\<lparr>m_sendingList := [?p]\<rparr>), p3_frames = []\<rparr>"
  have nth: "getPacketData ?p ! 3 = 10" using getPacketData_nth(4) [of ?p] by (simp add: p2_demo_packet_def)
  have known: "vd_known ?cmds (getPacketData ?p)"
    unfolding vd_known_def nth by (simp add: vd_findCmd_def vd_commands_def vd_registrations_def vd_registerCmd_def)
  have safe: "vd_wire_safe (getPacketData ?p)" unfolding vd_wire_safe_def nth by simp
  have len: "length (p_params (p2_payload ?p)) \<le> 248" by (simp add: p2_demo_packet_def)
  have id1: "getCommondID ?p = 10" by (simp add: p2_demo_packet_def getCommondID_def)
  then have "getSubID ?p = 0" by (simp add: getSubID_def)
  with id1 have id: "getCommondID ?p = 10" "p2_key ?p = (10, 0)" by simp_all
  then have id': "getCommondID ?p \<noteq> 216" by simp
  have room: "vd_queued (getPacketData ?p) \<longrightarrow> length (q_items (msg_queue vd_demo_start)) < 500"
    by (simp add: vd_demo_start_def vd_slave_start_def vd_MsgQueue_def vd_parser.defs)
  have h: "m_sendingPackets (m_protocol2 ?hs) = [((10, 0), P2AsyncPacket_new ?p 3 400)]" "length (p2_signals (m_protocol2 ?hs)) = 1"
    using id by (simp_all add: PeriodicTaskAsync_slot_def DProtocol2_new_def Let_def)
  have buf: "m_rxBuffer ?hs = []" and under: "map_of (m_sendingPackets (m_protocol2 ?hs)) (p2_key ?p) = Some (P2AsyncPacket_new ?p 3 400)"
    using h(1) id by simp_all
  have so: "serial_out vd_demo_start = []" by (simp add: vd_demo_start_def vd_slave_start_def vd_parser.defs)
  obtain rs' out where o: "readyRecv ?cmds (getPacketData ?p) vd_demo_start = Some rs'" "serial_out rs' = serial_out vd_demo_start @ [out]"
      "\<forall>chunks. concat chunks = out \<longrightarrow> (\<exists>r b. rx_same b [] \<and> fold HandleNewDataFromDevice chunks ?hs = ?hs\<lparr>m_rxBuffer := b, m_protocol2 :=
         p2_emit (RecviceData r) (m_protocol2 ?hs\<lparr>m_sendingPackets := AList.delete (10, 0) (m_sendingPackets (m_protocol2 ?hs))\<rparr>)\<rparr> \<and>
         p2_id r = p2_id (as_packet (P2AsyncPacket_new ?p 3 400)) \<and> getCommondID r = getCommondID ?p)"
    using request_answered_end_to_end [OF vd_others_fine_none vd_demo_reach room len known safe id' buf under] unfolding id(2) by blast
  have "concat [out] = out" by simp
  with o(3) obtain r b where f: "fold HandleNewDataFromDevice [out] ?hs = ?hs\<lparr>m_rxBuffer := b, m_protocol2 := p2_emit (RecviceData r)
      (m_protocol2 ?hs\<lparr>m_sendingPackets := AList.delete (10, 0) (m_sendingPackets (m_protocol2 ?hs))\<rparr>)\<rparr>" by blast
  have "map_of (m_sendingPackets (m_protocol2 (fold HandleNewDataFromDevice [out] ?hs))) (10, 0) = None"
    "length (p2_signals (m_protocol2 (fold HandleNewDataFromDevice [out] ?hs))) = 2"
    unfolding f using h(2) by (simp_all add: AList.delete_conv')
  then show ?thesis using o(1,2) so by (intro exI [of _ rs'] exI [of _ out] exI [of _ "m_protocol2 (fold HandleNewDataFromDevice [out] ?hs)"]) simp
qed

section \<open>A wrong checksum\<close>

text \<open>
  After a packet with a wrong checksum, \<open>_ClearBuffer\<close> looks for the next header in what has arrived.
  When only the first byte of it has, the byte is thrown away and the packet behind it is lost: the
  same bytes give an answer or none.
\<close>

definition rx_demo :: rx_handler where
  "rx_demo = \<lparr>m_rxBuffer = [], m_protocol2 = PeriodicTaskAsync_slot (DProtocol2_new\<lparr>m_sendingList := [p2_demo_packet 9]\<rparr>), p3_frames = []\<rparr>"


definition rx_bad_packet :: bytes where "rx_bad_packet = [0xAA, 0xAA, 2, 10, 0, 0]"
definition rx_good_packet :: bytes where "rx_good_packet = [0xAA, 0xAA, 2, 10, 0, 0xF6]"

theorem checksum_error_loses_packet:
  "map fst (m_sendingPackets (m_protocol2 (fold HandleNewDataFromDevice [rx_bad_packet @ rx_good_packet] rx_demo))) = [] \<and>
   map fst (m_sendingPackets (m_protocol2 (fold HandleNewDataFromDevice
     [rx_bad_packet @ take 1 rx_good_packet, drop 1 rx_good_packet] rx_demo))) = [(10, 0)]"
  by code_simp

end
