(* ===== verification/P2Messages.thy ===== *)
theory P2Messages imports MgEncode MgDecode M1Encode M1Decode P2Link begin

text \<open>
  The commands and answers of the second protocol by name and number: \<open>setPayload\<close> and \<open>parseParams\<close>
  of \<open>DMagicianProtocol.cpp\<close> and \<open>DM1Protocol.cpp\<close>, and \<open>P2Packet::getMessage\<close>, with what holds of all
  commands.
\<close>

section \<open>Requests and answers\<close>

definition Mg_setPayload :: "string \<Rightarrow> p2_object \<Rightarrow> u16 list \<times> PacketPayload \<Rightarrow> (bool \<times> u16 list \<times> PacketPayload) option" where
  "Mg_setPayload cmd params s =
     (case map_of m_encodeFuncMap cmd of Some f \<Rightarrow> map_option (Pair True) (f params s) | None \<Rightarrow> Some (False, s))"

definition M1_setPayload :: "string \<Rightarrow> p2_object \<Rightarrow> unit \<times> PacketPayload \<Rightarrow> (bool \<times> unit \<times> PacketPayload) option" where
  "M1_setPayload cmd params s =
     (case map_of M1_encodeFuncMap cmd of Some f \<Rightarrow> map_option (Pair True) (f params s) | None \<Rightarrow> Some (False, s))"

definition Mg_parseParams :: "u16 list \<Rightarrow> PacketPayload \<Rightarrow> json_object option" where
  "Mg_parseParams m_Device p =
     (case map_of (m_decodeFuncMap m_Device) (uint (p_cmdID p)) of Some f \<Rightarrow> f (c_rw (p_ctrl p)) (p_params p) | None \<Rightarrow> Some [])"

definition M1_parseParams :: "PacketPayload \<Rightarrow> json_object option" where
  "M1_parseParams p =
     (case map_of M1_decodeFuncMap (uint (p_cmdID p)) of Some f \<Rightarrow> f (c_rw (p_ctrl p)) (p_params p) | None \<Rightarrow> Some [])"

text \<open>The message for the client; a member \<open>cmd\<close> is a text and a member \<open>params\<close> an object.\<close>

definition P2_getMessage :: "u16 list \<Rightarrow> P2Packet \<Rightarrow> json_object option" where
  "P2_getMessage m_Device p = do {
     let pl = p2_payload p;
     parseObj \<leftarrow> (if p2_deviceType p = ''M1'' then M1_parseParams pl else Mg_parseParams m_Device pl);
     Some ([(''id'', JU64 (p2_id p)), (''cmdid'', JInt (uint (p_cmdID pl))), (''rw'', JInt (uint (c_rw (p_ctrl pl)))),
            (''rwType'', JStr (getRWType (p_ctrl pl))), (''isQueued'', JBool (c_isQueued (p_ctrl pl))),
            (''targetType'', JStr (getTargetType (p_ctrl pl))), (''slaveID'', JInt (uint (c_slaveid (p_ctrl pl))))] @
           (if p2_isPrivate p then [(''isPrivate'', JBool True)] else []) @
           (case map_of parseObj ''cmd'' of Some (JStr c) \<Rightarrow> [(''cmd'', JStr c)] | Some _ \<Rightarrow> [(''cmd'', JStr [])] | None \<Rightarrow> []) @
           (case map_of parseObj ''params'' of Some (JObject ob) \<Rightarrow> [(''params'', JObject ob)] | Some _ \<Rightarrow> [(''params'', JObject [])] | None \<Rightarrow> [])) }"

section \<open>Looking up a decoder\<close>

text \<open>The numbers are pairwise different, so that every entry of a table is found.\<close>

lemma mg_table_distinct:
  "distinct (map fst (m_decodeFuncMap dev))" "distinct (map fst m_decodeDobotSensorFuncMap)" "distinct (map fst m_decodeBoxFuncMap)"
  "distinct (map fst M1_decodeFuncMap)"
  by (simp_all add: m_decodeFuncMap_def mg_answers1_def mg_answers2_def mg_answers3_def mg_answers4_def m_decodeDobotSensorFuncMap_def
      mg_sensor_answers1_def mg_sensor_answers2_def m_decodeBoxFuncMap_def M1_decodeFuncMap_def m1_answers1_def m1_answers2_def)

lemma map_of_entries:
  assumes "distinct (map fst xs)" and "set ys \<subseteq> set xs"
  shows "\<forall>(k, f) \<in> set ys. map_of xs k = Some f"
  using assms by (auto intro: map_of_is_SomeI)

lemma mg_entries:
  "\<forall>(k, f) \<in> set (mg_answers1 dev). map_of (m_decodeFuncMap dev) k = Some f"
  "\<forall>(k, f) \<in> set mg_answers2. map_of (m_decodeFuncMap dev) k = Some f"
  "\<forall>(k, f) \<in> set mg_answers3. map_of (m_decodeFuncMap dev) k = Some f"
  "\<forall>(k, f) \<in> set mg_answers4. map_of (m_decodeFuncMap dev) k = Some f"
  "\<forall>(k, f) \<in> set mg_sensor_answers1. map_of m_decodeDobotSensorFuncMap k = Some f"
  "\<forall>(k, f) \<in> set mg_sensor_answers2. map_of m_decodeDobotSensorFuncMap k = Some f"
  "\<forall>(k, f) \<in> set m_decodeBoxFuncMap. map_of m_decodeBoxFuncMap k = Some f"
  "\<forall>(k, f) \<in> set m1_answers1. map_of M1_decodeFuncMap k = Some f"
  "\<forall>(k, f) \<in> set m1_answers2. map_of M1_decodeFuncMap k = Some f"
  by (rule map_of_entries [OF mg_table_distinct(1)] map_of_entries [OF mg_table_distinct(2)]
      map_of_entries [OF mg_table_distinct(3)] map_of_entries [OF mg_table_distinct(4)],
      fastforce simp: m_decodeFuncMap_def m_decodeDobotSensorFuncMap_def M1_decodeFuncMap_def)+

lemmas mg_lookup =
  mg_entries(1) [unfolded mg_answers1_def, simplified] mg_entries(2) [unfolded mg_answers2_def, simplified]
  mg_entries(3) [unfolded mg_answers3_def, simplified] mg_entries(4) [unfolded mg_answers4_def, simplified]
  mg_entries(5) [unfolded mg_sensor_answers1_def, simplified] mg_entries(6) [unfolded mg_sensor_answers2_def, simplified]

lemma mg_box_lookup:
  "map_of m_decodeBoxFuncMap 10 = Some decodeSetStopPointServer" "map_of m_decodeBoxFuncMap 11 = Some decodeSetStopPointParam"
  "map_of m_decodeBoxFuncMap 12 = Some decodeGetStopPointState" "map_of m_decodeBoxFuncMap 20 = Some decodeGetImgToArmXY"
  by (simp_all add: m_decodeBoxFuncMap_def)

lemmas m1_lookup =
  mg_entries(8) [unfolded m1_answers1_def, simplified] mg_entries(9) [unfolded m1_answers2_def, simplified]

section \<open>The name of an answer\<close>

lemma p2_put_Some:
  "p2_put_opt cid rw bs (d, p) = Some (d', p') \<longleftrightarrow>
     (\<exists>b. bs = Some b \<and> d' = d \<and> p' = p\<lparr>p_cmdID := cid, p_ctrl := (p_ctrl p)\<lparr>c_rw := rw\<rparr>, p_params := p_params p @ b\<rparr>)"
  by (auto simp: p2_put_opt_def)

definition named_by :: "(json_value option \<Rightarrow> bool) \<Rightarrow> json_object option \<Rightarrow> bool" where
  "named_by P r \<longleftrightarrow> (\<forall>ob. r = Some ob \<longrightarrow> P (map_of ob ''cmd''))"

lemma cmd_simps [simp]:
  "map_of (any_cmd a) ''cmd'' = Some (JStr a)" "rw_cmd 0 a b = any_cmd a" "rw_cmd 1 a b = any_cmd b"
  "get_cmd 0 a = any_cmd a" "get_cmd 1 a = []" "set_cmd 0 a = []" "set_cmd 1 a = any_cmd a"
  by (simp_all add: any_cmd_def rw_cmd_def get_cmd_def set_cmd_def)

lemma named_by_simps:
  "named_by P None" "named_by P (Some c) \<longleftrightarrow> P (map_of c ''cmd'')"
  "P (map_of c ''cmd'') \<Longrightarrow> named_by P (p2_params c fs ps)"
  "P (map_of c ''cmd'') \<Longrightarrow> named_by P (p2_reply_some c fs ps)"
  "P (map_of c ''cmd'') \<Longrightarrow> named_by P (p2_reply c alts ps)"
  "(\<And>y. named_by P (g y)) \<Longrightarrow> named_by P (x \<bind> g)"
  by (auto simp: named_by_def p2_params_def p2_reply_some_def p2_reply_def map_add_def split: if_splits option.splits bind_splits)

text \<open>
  An answer has the number and the direction of the request, and for the sensors and the camera its
  first byte. The answers to some commands have the name of another command, or none.
\<close>

definition answers_to :: "PacketPayload \<Rightarrow> PacketPayload \<Rightarrow> bool" where
  "answers_to q a \<longleftrightarrow> p_cmdID a = p_cmdID q \<and> c_rw (p_ctrl a) = c_rw (p_ctrl q) \<and>
     (p_cmdID q \<in> {216, 217} \<longrightarrow> (\<exists>rest. p_params a = hd (p_params q) # rest))"

definition mg_misnamed :: "PacketPayload \<Rightarrow> bool" where
  "mg_misnamed q \<longleftrightarrow> p_cmdID q \<in> {93, 142, 170, 193, 195, 196, 197, 198, 242} \<or>
     p_cmdID q = 216 \<and> hd (p_params q) \<in> {28, 29, 32, 33, 43}"

definition mg_name_ok :: "string \<times> mg_encoder \<Rightarrow> bool" where
  "mg_name_ok = (\<lambda>(cmd, f). \<forall>j dev p dev' q m_Device a. f j (dev, p) = Some (dev', q) \<longrightarrow> p_params p = [] \<longrightarrow> answers_to q a \<longrightarrow>
     named_by (\<lambda>c. (c = Some (JStr cmd)) = (\<not> mg_misnamed q)) (Mg_parseParams m_Device a))"

lemmas mg_name_simps = mg_name_ok_def p2_put_def p2_put_Some answers_to_def Mg_parseParams_def mg_lookup mg_misnamed_def
  mg_enc_defs mg_dec_defs named_by_simps decodeDobotSensor_def decodeBoxFunc_def mg_box_lookup

lemma mg_names1: "list_all mg_name_ok mg_cmds1"
  by (simp add: mg_cmds1_def mg_name_simps)

lemma mg_names2: "list_all mg_name_ok mg_cmds2"
  by (simp add: mg_cmds2_def mg_name_simps)

lemma mg_names3: "list_all mg_name_ok mg_cmds3"
  by (simp add: mg_cmds3_def mg_name_simps Let_def)

lemma mg_names4: "list_all mg_name_ok mg_cmds4"
  by (simp add: mg_cmds4_def mg_name_simps Let_def) (auto simp: mg_lookup mg_dec_defs named_by_simps)

lemma mg_names5: "list_all mg_name_ok mg_cmds5"
  by (simp add: mg_cmds5_def mg_name_simps Let_def) (auto simp: mg_lookup mg_dec_defs named_by_simps)

lemma mg_names6: "list_all mg_name_ok mg_cmds6"
  by (simp add: mg_cmds6_def mg_name_simps split: list.split)

lemma mg_names7: "list_all mg_name_ok mg_cmds7"
  by (simp add: mg_cmds7_def mg_name_simps Let_def split: list.split)

lemma mg_names8: "list_all mg_name_ok mg_cmds8"
  by (simp add: mg_cmds8_def mg_name_simps Let_def split: list.split)

text \<open>
  C4. The answer to a command for a Magician or a MagicBox, read by the decoder that is registered for
  its number, carries the name of the command, whatever else it holds, except for the commands of
  \<open>mg_misnamed\<close>: for those the name is another one or is missing, for every answer.
\<close>
theorem mg_answers_named:
  assumes "Mg_setPayload cmd j (dev, p) = Some (True, dev', q)" and "p_params p = []"
    and "answers_to q a" and "Mg_parseParams m_Device a = Some ob"
  shows "map_of ob ''cmd'' = Some (JStr cmd) \<longleftrightarrow> \<not> mg_misnamed q"
proof -
  obtain f where f: "map_of m_encodeFuncMap cmd = Some f" "f j (dev, p) = Some (dev', q)"
    using assms(1) by (auto simp: Mg_setPayload_def split: option.splits)
  have "list_all mg_name_ok m_encodeFuncMap"
    using mg_names1 mg_names2 mg_names3 mg_names4 mg_names5 mg_names6 mg_names7 mg_names8 by (simp add: m_encodeFuncMap_def)
  then have "mg_name_ok (cmd, f)" using map_of_SomeD [OF f(1)] by (auto simp: list_all_iff)
  then have "named_by (\<lambda>c. (c = Some (JStr cmd)) = (\<not> mg_misnamed q)) (Mg_parseParams m_Device a)"
    using f(2) assms(2,3) by (simp add: mg_name_ok_def)
  then show ?thesis using assms(4) by (simp add: named_by_def)
qed

text \<open>The same for an M1.\<close>

definition m1_name_ok :: "string \<times> m1_encoder \<Rightarrow> bool" where
  "m1_name_ok = (\<lambda>(cmd, f). \<forall>j p q a. f j ((), p) = Some ((), q) \<longrightarrow> p_params p = [] \<longrightarrow> answers_to q a \<longrightarrow>
     named_by (\<lambda>c. (c = Some (JStr cmd)) = (p_cmdID q \<noteq> 242 \<and> cmd \<noteq> ''GetServoPower'')) (M1_parseParams a))"

lemmas m1_name_simps = m1_name_ok_def p2_put_def p2_put_Some p2_assign_def answers_to_def M1_parseParams_def m1_lookup
  m1_enc_defs m1_dec_defs named_by_simps io_reply_def

lemma m1_names1: "list_all m1_name_ok m1_cmds1"
  by (simp add: m1_cmds1_def m1_name_simps)

lemma m1_names2: "list_all m1_name_ok m1_cmds2"
  by (simp add: m1_cmds2_def m1_name_simps Let_def)

lemma m1_names3: "list_all m1_name_ok m1_cmds3"
  by (simp add: m1_cmds3_def m1_name_simps Let_def) (auto simp: m1_lookup m1_dec_defs named_by_simps)

lemma m1_names4: "list_all m1_name_ok m1_cmds4"
  by (simp add: m1_cmds4_def m1_name_simps Let_def split: list.split) (auto simp: m1_lookup m1_dec_defs named_by_simps split: list.split)

text \<open>
  C14. The answer to a command for an M1 carries the name of the command, except that the answer to
  \<open>QueuedCmdForceStop\<close> has no name and that \<open>GetServoPower\<close> is sent and answered as \<open>GetAlarmsState\<close>.
\<close>
theorem m1_answers_named:
  assumes "M1_setPayload cmd j ((), p) = Some (True, (), q)" and "p_params p = []"
    and "answers_to q a" and "M1_parseParams a = Some ob"
  shows "map_of ob ''cmd'' = Some (JStr cmd) \<longleftrightarrow> p_cmdID q \<noteq> 242 \<and> cmd \<noteq> ''GetServoPower''"
proof -
  obtain f where f: "map_of M1_encodeFuncMap cmd = Some f" "f j ((), p) = Some ((), q)"
    using assms(1) by (auto simp: M1_setPayload_def split: option.splits)
  have "list_all m1_name_ok M1_encodeFuncMap"
    using m1_names1 m1_names2 m1_names3 m1_names4 by (simp add: M1_encodeFuncMap_def)
  then have "m1_name_ok (cmd, f)" using map_of_SomeD [OF f(1)] by (auto simp: list_all_iff)
  then have "named_by (\<lambda>c. (c = Some (JStr cmd)) = (p_cmdID q \<noteq> 242 \<and> cmd \<noteq> ''GetServoPower'')) (M1_parseParams a)"
    using f(2) assms(2,3) by (simp add: m1_name_ok_def)
  then show ?thesis using assms(4) by (simp add: named_by_def)
qed

text \<open>Requests and answers to try the properties on.\<close>

definition mg_demo_payload :: "u8 \<Rightarrow> u8 \<Rightarrow> bytes \<Rightarrow> PacketPayload" where
  "mg_demo_payload cid rw ps = \<lparr>p_cmdID = cid, p_ctrl = PacketCtrl_clear\<lparr>c_rw := rw\<rparr>, p_params = ps\<rparr>"

lemma mg_demo_pose:
  "Mg_setPayload ''GetPoseL'' [] ([], PacketPayload_clear) = Some (True, [], mg_demo_payload 13 0 [])"
  "Mg_parseParams [] (mg_demo_payload 13 0 (bytes32 7)) = Some [(''cmd'', JStr ''GetPoseL''), (''params'', JObject [(''positionL'', JFloat 7)])]"
  by code_simp+

theorem mg_answers_named_witness:
  "map_of [(''cmd'', JStr ''GetPoseL''), (''params'', JObject [(''positionL'', JFloat 7)])] ''cmd'' = Some (JStr ''GetPoseL'') \<and>
   \<not> mg_misnamed (mg_demo_payload 13 0 [])"
proof -
  have "p_params PacketPayload_clear = []" by (simp add: PacketPayload_clear_def)
  moreover have "answers_to (mg_demo_payload 13 0 []) (mg_demo_payload 13 0 (bytes32 7))" by (simp add: answers_to_def mg_demo_payload_def)
  moreover have "\<not> mg_misnamed (mg_demo_payload 13 0 [])" by (simp add: mg_misnamed_def mg_demo_payload_def)
  ultimately show ?thesis using mg_answers_named [OF mg_demo_pose(1) _ _ mg_demo_pose(2)] by simp
qed

lemma m1_demo_servo:
  "M1_setPayload ''GetServoPower'' [] ((), PacketPayload_clear) = Some (True, (), mg_demo_payload 20 0 [])"
  "M1_parseParams (mg_demo_payload 20 0 [1]) = Some [(''cmd'', JStr ''GetAlarmsState''), (''params'', JObject [(''state'', JArray [JInt 1])])]"
  by code_simp+

theorem m1_answers_named_witness:
  "map_of [(''cmd'', JStr ''GetAlarmsState''), (''params'', JObject [(''state'', JArray [JInt 1])])] ''cmd'' \<noteq> Some (JStr ''GetServoPower'')"
proof -
  have "p_params PacketPayload_clear = []" by (simp add: PacketPayload_clear_def)
  moreover have "answers_to (mg_demo_payload 20 0 []) (mg_demo_payload 20 0 [1])" by (simp add: answers_to_def mg_demo_payload_def)
  ultimately show ?thesis using m1_answers_named [OF m1_demo_servo(1) _ _ m1_demo_servo(2)] by blast
qed

end
