(* ===== verification/P2Params.thy ===== *)
theory P2Params imports P2Messages begin

text \<open>
  What holds of the parameters of all commands of the second protocol: which answers and requests
  are defined, and that requests fit a packet that is read back unchanged.
\<close>

section \<open>Defined answers\<close>

lemma p2_answer_None:
  "p2_params c fs ps = None \<longleftrightarrow> read_fields fs ps = None"
  "p2_reply_some c fs ps = None \<longleftrightarrow> ps \<noteq> [] \<and> read_fields fs ps = None"
  "p2_reply c [] ps = None \<longleftrightarrow> False"
  "p2_reply c ((n, fs) # alts) ps = None \<longleftrightarrow>
     (length ps = n \<and> read_fields fs ps = None) \<or> (length ps \<noteq> n \<and> p2_reply c alts ps = None)"
  by (auto simp: p2_params_def p2_reply_some_def p2_reply_def)

lemma bool_None: "bool_at i p = None \<longleftrightarrow> length p \<le> i \<or> p ! i \<notin> {0, 1}"
  by (auto simp: bool_at_def rd8_def)

lemma joystick_None: "decodeGetJoystickButton rw ps = None \<longleftrightarrow> ps = [] \<or> length ps \<le> unat (hd ps)"
  by (cases ps) (auto simp: decodeGetJoystickButton_def rd8_def p2_answer_None field_None)

lemma trajectory_None: "M1_decodeTrajectory rw ps \<noteq> None"
  by (cases ps) (auto simp: M1_decodeTrajectory_def p2_answer_None field_None data_at_def)

lemmas p2_defined_simps = p2_answer_None field_None field_None_p2 bool_None chars_None rd_None
  queue_index_def io_reply_def

text \<open>
  The answers in whose parameters something is read that is not there, or is no \<open>bool\<close>: the version,
  the place of a coloured object, the state of a button and of Bluetooth, and two answers of the camera.
\<close>

definition mg_bad :: "u16 list \<Rightarrow> int \<Rightarrow> u8 \<Rightarrow> bytes \<Rightarrow> bool" where
  "mg_bad m_Device k rw ps \<longleftrightarrow>
     k = 2 \<and> length ps \<le> (if m_Device = utf16_of ''Magician'' then 13 else 3) \<or> k = 200 \<and> rw = 0 \<and> length ps < 2"

definition sensor_bad :: "int \<Rightarrow> u8 \<Rightarrow> bytes \<Rightarrow> bool" where
  "sensor_bad k rw ps \<longleftrightarrow> k = 75 \<and> (ps = [] \<or> length ps \<le> unat (hd ps)) \<or> k = 60 \<and> rw = 0 \<and> 2 \<le> length ps"

definition box_bad :: "int \<Rightarrow> u8 \<Rightarrow> bytes \<Rightarrow> bool" where
  "box_bad k rw ps \<longleftrightarrow> rw = 0 \<and> (k = 12 \<and> (ps = [] \<or> (ps @ [0]) ! 1 \<notin> {0, 1}) \<or> k = 20 \<and> length ps < 9)"

definition reads_unless :: "(int \<Rightarrow> u8 \<Rightarrow> bytes \<Rightarrow> bool) \<Rightarrow> int \<times> p2_decoder \<Rightarrow> bool" where
  "reads_unless bad = (\<lambda>(k, f). \<forall>rw ps. f rw ps = None \<longleftrightarrow> bad k rw ps)"

definition m1_bad :: "int \<Rightarrow> u8 \<Rightarrow> bytes \<Rightarrow> bool" where
  "m1_bad k rw ps \<longleftrightarrow> k = 167 \<and> length ps = 66 \<and> (\<exists>i \<in> {2, 18, 34, 50}. 0 \<notin> set (take 16 (drop i ps)))"

lemma reads1: "list_all (\<lambda>(k, f). k \<in> {216, 217} \<or> reads_unless (mg_bad dev) (k, f)) (mg_answers1 dev)"
  by (simp add: mg_answers1_def reads_unless_def mg_bad_def mg_dec_defs p2_defined_simps del: not_None_eq cong: conj_cong) (auto simp: p2_defined_simps simp del: not_None_eq split: list.split)

lemma reads2: "list_all (\<lambda>(k, f). k \<in> {216, 217} \<or> reads_unless (mg_bad dev) (k, f)) mg_answers2"
  by (simp add: mg_answers2_def reads_unless_def mg_bad_def mg_dec_defs p2_defined_simps del: not_None_eq cong: conj_cong)

lemma reads3: "list_all (\<lambda>(k, f). k \<in> {216, 217} \<or> reads_unless (mg_bad dev) (k, f)) mg_answers3"
  by (simp add: mg_answers3_def reads_unless_def mg_bad_def mg_dec_defs p2_defined_simps del: not_None_eq cong: conj_cong)

lemma reads4: "list_all (\<lambda>(k, f). k \<in> {216, 217} \<or> reads_unless (mg_bad dev) (k, f)) mg_answers4"
  by (simp add: mg_answers4_def reads_unless_def mg_bad_def mg_dec_defs p2_defined_simps del: not_None_eq cong: conj_cong) (auto simp: p2_defined_simps simp del: not_None_eq split: list.split)

lemma reads5: "list_all (reads_unless sensor_bad) mg_sensor_answers1"
  by (simp add: mg_sensor_answers1_def reads_unless_def sensor_bad_def mg_dec_defs p2_defined_simps del: not_None_eq cong: conj_cong) (auto simp: p2_defined_simps simp del: not_None_eq split: list.split)

lemma reads6: "list_all (reads_unless sensor_bad) mg_sensor_answers2"
  by (simp add: mg_sensor_answers2_def reads_unless_def sensor_bad_def joystick_None mg_dec_defs p2_defined_simps del: not_None_eq decodeGetJoystickButton_def cong: conj_cong) (auto simp: p2_defined_simps simp del: not_None_eq split: list.split)

lemma reads7: "list_all (reads_unless box_bad) m_decodeBoxFuncMap"
  by (simp add: m_decodeBoxFuncMap_def reads_unless_def box_bad_def mg_dec_defs p2_defined_simps del: not_None_eq cong: conj_cong) (auto simp: p2_defined_simps simp del: not_None_eq split: list.split)

lemma reads8: "list_all (reads_unless m1_bad) m1_answers1"
  by (simp add: m1_answers1_def reads_unless_def m1_bad_def trajectory_None m1_dec_defs p2_defined_simps del: not_None_eq cong: conj_cong) (auto simp: p2_defined_simps simp del: not_None_eq split: list.split)

lemma reads9: "list_all (reads_unless m1_bad) m1_answers2"
  by (simp add: m1_answers2_def reads_unless_def m1_bad_def trajectory_None m1_dec_defs p2_defined_simps del: not_None_eq M1_decodeTrajectory_def cong: conj_cong) (auto simp: p2_defined_simps simp del: not_None_eq split: list.split)

lemma map_of_filter_key: "P k \<Longrightarrow> map_of (filter (\<lambda>(k, v). P k) xs) k = map_of xs k"
  by (induction xs) auto

lemma reads_lookup:
  assumes "list_all (reads_unless bad) tab" and "\<And>rw ps. bad k rw ps \<Longrightarrow> map_of tab k \<noteq> None"
  shows "(case map_of tab k of Some f \<Rightarrow> f rw ps | None \<Rightarrow> Some []) = None \<longleftrightarrow> bad k rw ps"
  using assms by (auto simp: list_all_iff reads_unless_def split: option.splits dest!: map_of_SomeD)

lemma sensor_reads:
  "decodeDobotSensor rw ps = None \<longleftrightarrow> ps \<noteq> [] \<and> sensor_bad (uint (hd ps)) rw (tl ps)"
proof (cases ps)
  case (Cons s rest)
  have "list_all (reads_unless sensor_bad) m_decodeDobotSensorFuncMap"
    using reads5 reads6 by (simp add: m_decodeDobotSensorFuncMap_def)
  moreover have "sensor_bad (uint s) rw ps \<Longrightarrow> map_of m_decodeDobotSensorFuncMap (uint s) \<noteq> None" for rw ps
    by (auto simp: sensor_bad_def mg_lookup)
  ultimately show ?thesis using Cons by (simp add: decodeDobotSensor_def reads_lookup)
qed (simp add: decodeDobotSensor_def)

lemma box_reads: "decodeBoxFunc rw ps = None \<longleftrightarrow> ps \<noteq> [] \<and> box_bad (uint (hd ps)) rw ps"
proof (cases ps)
  case (Cons s rest)
  have "box_bad (uint s) rw ps \<Longrightarrow> map_of m_decodeBoxFuncMap (uint s) \<noteq> None" for rw ps
    by (auto simp: box_bad_def mg_box_lookup)
  then show ?thesis using Cons reads7 by (simp add: decodeBoxFunc_def reads_lookup)
qed (simp add: decodeBoxFunc_def)

definition mg_unreadable :: "u16 list \<Rightarrow> PacketPayload \<Rightarrow> bool" where
  "mg_unreadable m_Device a = (let k = uint (p_cmdID a); rw = c_rw (p_ctrl a); ps = p_params a in
     if k = 216 then ps \<noteq> [] \<and> sensor_bad (uint (hd ps)) rw (tl ps)
     else if k = 217 then ps \<noteq> [] \<and> box_bad (uint (hd ps)) rw ps
     else mg_bad m_Device k rw ps)"

text \<open>Exactly these answers make \<open>parseParams\<close> read what is not there.\<close>

lemma answers_defined:
  "(Mg_parseParams m_Device a = None \<longleftrightarrow> mg_unreadable m_Device a) \<and>
   (M1_parseParams b = None \<longleftrightarrow> m1_bad (uint (p_cmdID b)) (c_rw (p_ctrl b)) (p_params b))"
proof
  let ?k = "uint (p_cmdID a)"
  have all: "list_all (\<lambda>(k, f). k \<in> {216, 217} \<or> reads_unless (mg_bad m_Device) (k, f)) (m_decodeFuncMap m_Device)"
    using reads1 reads2 reads3 reads4 by (simp add: m_decodeFuncMap_def)
  show "Mg_parseParams m_Device a = None \<longleftrightarrow> mg_unreadable m_Device a"
  proof (cases "?k \<in> {216, 217}")
    case True
    then show ?thesis using sensor_reads box_reads by (auto simp: Mg_parseParams_def mg_unreadable_def mg_lookup Let_def)
  next
    case False
    let ?tab = "filter (\<lambda>(k, f). k \<notin> {216, 217}) (m_decodeFuncMap m_Device)"
    have "list_all (reads_unless (mg_bad m_Device)) ?tab" using all by (auto simp: list_all_iff)
    moreover have "map_of ?tab ?k = map_of (m_decodeFuncMap m_Device) ?k" by (rule map_of_filter_key) (use False in simp)
    moreover have "mg_bad m_Device ?k rw ps \<Longrightarrow> map_of (m_decodeFuncMap m_Device) ?k \<noteq> None" for rw ps
      by (auto simp: mg_bad_def mg_lookup)
    ultimately show ?thesis using False reads_lookup [of "mg_bad m_Device" ?tab ?k]
      by (simp add: Mg_parseParams_def mg_unreadable_def Let_def)
  qed
  have "list_all (reads_unless m1_bad) M1_decodeFuncMap" using reads8 reads9 by (simp add: M1_decodeFuncMap_def)
  from reads_lookup [OF this] show "M1_parseParams b = None \<longleftrightarrow> m1_bad (uint (p_cmdID b)) (c_rw (p_ctrl b)) (p_params b)"
    unfolding M1_parseParams_def by (rule) (auto simp: m1_bad_def m1_lookup)
qed

section \<open>Defined requests, and their size\<close>

text \<open>A request with texts and arrays of a moderate size.\<close>

definition p2_small :: "p2_object \<Rightarrow> bool" where
  "p2_small j \<longleftrightarrow> (\<forall>(k, v) \<in> set j. case v of
      PStr t \<Rightarrow> length (t_utf8 t) \<le> 200 \<and> length (t_latin1 t) \<le> 200 \<and> length (t_utf16 t) \<le> 120
    | PArr a \<Rightarrow> length a \<le> 50
    | _ \<Rightarrow> True)"

lemma small_value:
  assumes "p2_small j"
  shows "length (t_utf8 (toText (pvalue j k))) \<le> 200" "length (t_latin1 (toText (pvalue j k))) \<le> 200"
    "length (t_utf16 (toText (pvalue j k))) \<le> 120" "length (toArray (pvalue j k)) \<le> 50"
proof -
  consider "pvalue j k = PNull" | "(k, pvalue j k) \<in> set j"
    by (cases "map_of j k") (auto simp: pvalue_def dest: map_of_SomeD)
  then have "length (t_utf8 (toText (pvalue j k))) \<le> 200 \<and> length (t_latin1 (toText (pvalue j k))) \<le> 200 \<and>
      length (t_utf16 (toText (pvalue j k))) \<le> 120 \<and> length (toArray (pvalue j k)) \<le> 50"
    using assms by cases (auto simp: p2_small_def toText_def toArray_def split: p2_var.splits)
  then show "length (t_utf8 (toText (pvalue j k))) \<le> 200" "length (t_latin1 (toText (pvalue j k))) \<le> 200"
    "length (t_utf16 (toText (pvalue j k))) \<le> 120" "length (toArray (pvalue j k)) \<le> 50" by blast+
qed

lemma small_le:
  assumes "p2_small j"
  shows "200 \<le> n \<Longrightarrow> length (t_utf8 (toText (pvalue j k))) \<le> n" "200 \<le> n \<Longrightarrow> length (t_latin1 (toText (pvalue j k))) \<le> n"
    "200 \<le> 4 * n \<Longrightarrow> length (toArray (pvalue j k)) \<le> n" "240 \<le> 2 * n \<Longrightarrow> length (t_utf16 (toText (pvalue j k))) \<le> n"
  using small_value [OF assms, of k] by simp_all

lemma put_lengths [simp]:
  "length (put_u8 j k) = 1" "length (put_u16 j k) = 2" "length (put_i32 j k) = 4" "length (put_f32 j k) = 4" "length (put_bool j k) = 1"
  "length (put_text j k) = Suc (length (t_utf8 (toText (pvalue j k))))" "length (put_latin1 j k) = Suc (length (t_latin1 (toText (pvalue j k))))"
  "length (put_point j) = 16" "length (put_po v) = 4" "length (put_pos vs) = Suc (4 * length vs)"
  by (simp_all add: put_u8_def put_u16_def put_i32_def put_f32_def put_bool_def put_text_def put_latin1_def put_point_def put_po_def
      put_pos_def bytes16_def bytes32_def length_concat comp_def sum_list_triv Let_def)

lemma put_lengths_le:
  "length (put_arrays4 j) \<le> 32" "length (put_upgrade j) \<le> 20"
  "put_address j = Some bs \<Longrightarrow> length bs = 4" "put_resized j k t = Some bs \<Longrightarrow> length bs = 16"
  by (auto simp: put_arrays4_def put_upgrade_def put_address_def put_resized_def length_concat comp_def sum_list_triv Let_def
      split: if_splits)

text \<open>What an encoder leaves: the control bits but for the direction, and at most 248 bytes.\<close>

definition p2_fits :: "(p2_object \<Rightarrow> bool) \<Rightarrow> 'd p2_encoder \<Rightarrow> bool" where
  "p2_fits und f \<longleftrightarrow> (\<forall>j d p. case f j (d, p) of
      None \<Rightarrow> und j
    | Some (d', q) \<Rightarrow> \<not> und j \<and> c_rw (p_ctrl q) \<in> {0, 1} \<and> p_ctrl q = (p_ctrl p)\<lparr>c_rw := c_rw (p_ctrl q)\<rparr> \<and>
        (p_params p = [] \<longrightarrow> p2_small j \<longrightarrow> length (p_params q) \<le> 248))"

lemma put_fits:
  "(case p2_put_opt cid rw bs (d, p) of None \<Rightarrow> X | Some (d', q) \<Rightarrow> \<not> X \<and> c_rw (p_ctrl q) \<in> {0, 1} \<and>
      p_ctrl q = (p_ctrl p)\<lparr>c_rw := c_rw (p_ctrl q)\<rparr> \<and> (p_params p = [] \<longrightarrow> S \<longrightarrow> length (p_params q) \<le> 248)) \<longleftrightarrow>
   (bs = None \<longleftrightarrow> X) \<and> (\<forall>b. bs = Some b \<longrightarrow> rw \<in> {0, 1} \<and> (p_params p = [] \<longrightarrow> S \<longrightarrow> length b \<le> 248))"
  by (cases bs) (auto simp: p2_put_opt_def)

lemma lengths_of_lists:
  "length (concat (map (\<lambda>c. [f c, g c]) xs)) = 2 * length xs" "length (concat (map (\<lambda>i. put_po (h i)) is)) = 4 * length is"
  by (simp_all add: length_concat comp_def sum_list_triv)

lemma small_more:
  assumes "p2_small j"
  shows "100 \<le> n \<Longrightarrow> 2 * length (toArray (pvalue j k)) \<le> n" "120 \<le> n \<Longrightarrow> length (t_utf16 (toText (pvalue j k))) \<le> n"
    "200 \<le> n \<Longrightarrow> 4 * length (toArray (pvalue j k)) \<le> n"
    "100 \<le> n \<Longrightarrow> 2 * unat (word_of_nat (length (toArray (pvalue j k))) :: u8) \<le> n"
    "201 \<le> n \<Longrightarrow> length (t_utf8 (toText (pvalue j k))) + min (Suc 0) c \<le> n"
  using small_value [OF assms, of k] u8_of_small [of "length (toArray (pvalue j k))"] by simp_all

lemma some_bind: "x \<bind> (\<lambda>c. Some (g c)) = map_option g x"
  by (cases x) auto

lemma put_address_None: "put_address j = None \<longleftrightarrow> length (toArray (pvalue j ''address'')) \<noteq> 4"
  by (simp add: put_address_def Let_def)

definition mg_undefined :: "string \<Rightarrow> p2_object \<Rightarrow> bool" where
  "mg_undefined cmd j \<longleftrightarrow> cmd = ''SetBleMesh'' \<or>
     cmd \<in> {''SetWIFIIPAddress'', ''SetWIFINetmask'', ''SetWIFIGateway'', ''SetWIFIDNS''} \<and> length (toArray (pvalue j ''address'')) \<noteq> 4 \<or>
     cmd = ''SetCircleCmd'' \<and> toU32 (pvalue j ''count'') = None"

definition mg_fits :: "string \<times> mg_encoder \<Rightarrow> bool" where
  "mg_fits = (\<lambda>(cmd, f). p2_fits (mg_undefined cmd) f)"

lemmas mg_fits_simps = mg_fits_def p2_fits_def lengths_of_lists small_more some_bind put_address_None p2_put_def put_fits mg_undefined_def mg_enc_defs Let_def small_le put_lengths_le
  order_trans [OF put_lengths_le(1)] order_trans [OF put_lengths_le(2)]

lemma mg_fits1: "list_all mg_fits mg_cmds1"
  by (simp add: mg_cmds1_def mg_fits_simps)

lemma mg_fits2: "list_all mg_fits mg_cmds2"
  by (simp add: mg_cmds2_def mg_fits_simps)

lemma mg_fits3: "list_all mg_fits mg_cmds3"
  by (simp add: mg_cmds3_def mg_fits_simps)

lemma mg_fits4: "list_all mg_fits mg_cmds4"
  by (simp add: mg_cmds4_def mg_fits_simps) (auto simp: put_lengths_le)

lemma mg_fits5: "list_all mg_fits mg_cmds5"
  by (simp add: mg_cmds5_def mg_fits_simps) (auto simp: put_address_def Let_def)

lemma mg_fits6: "list_all mg_fits mg_cmds6"
  by (simp add: mg_cmds6_def mg_fits_simps)

lemma mg_fits7: "list_all mg_fits mg_cmds7"
  by (simp add: mg_cmds7_def mg_fits_simps)

lemma mg_fits8: "list_all mg_fits mg_cmds8"
  by (simp add: mg_cmds8_def mg_fits_simps)

lemma assign_fits:
  "(case p2_assign cid rw bs (d, p) of None \<Rightarrow> X | Some (d', q) \<Rightarrow> \<not> X \<and> c_rw (p_ctrl q) \<in> {0, 1} \<and>
      p_ctrl q = (p_ctrl p)\<lparr>c_rw := c_rw (p_ctrl q)\<rparr> \<and> (p_params p = [] \<longrightarrow> S \<longrightarrow> length (p_params q) \<le> 248)) \<longleftrightarrow>
   \<not> X \<and> rw \<in> {0, 1} \<and> (p_params p = [] \<longrightarrow> S \<longrightarrow> length bs \<le> 248)"
  by (auto simp: p2_assign_def p2_put_def p2_put_opt_def)

text \<open>The text of an address is sent as 16 bytes; a shorter one, or none, is filled up with bytes that are never assigned.\<close>

definition short_text :: "p2_var \<Rightarrow> bool" where
  "short_text v \<longleftrightarrow> (case v of PStr t \<Rightarrow> length (t_latin1 t) < 15 | _ \<Rightarrow> True)"

lemma put_resized_None: "length dflt < 15 \<Longrightarrow> put_resized j k dflt = None \<longleftrightarrow> short_text (pvalue j k)"
  by (auto simp: put_resized_def short_text_def Let_def split: p2_var.split)

definition m1_undefined :: "string \<Rightarrow> p2_object \<Rightarrow> bool" where
  "m1_undefined cmd j \<longleftrightarrow> cmd = ''SetIODOs'' \<or>
     cmd = ''SetLanPortConfig'' \<and> (\<exists>k \<in> {''addr'', ''mask'', ''gateway'', ''dns''}. short_text (pvalue j k)) \<or>
     cmd \<in> {''SetCircleCmd'', ''SetCirclePOCmd''} \<and> toU32 (pvalue j ''count'') = None \<or>
     cmd = ''GetTrajectory'' \<and> toU64 (pvalue j ''index'') = None"

definition m1_fits :: "string \<times> m1_encoder \<Rightarrow> bool" where
  "m1_fits = (\<lambda>(cmd, f). p2_fits (m1_undefined cmd) f)"

lemmas m1_fits_simps = m1_fits_def p2_fits_def lengths_of_lists small_more some_bind p2_put_def put_fits assign_fits put_resized_None m1_undefined_def
  m1_enc_defs Let_def small_le put_lengths_le order_trans [OF put_lengths_le(1)]

lemma m1_fits1: "list_all m1_fits m1_cmds1"
  by (simp add: m1_cmds1_def m1_fits_simps)

lemma m1_fits2: "list_all m1_fits m1_cmds2"
  by (simp add: m1_cmds2_def m1_fits_simps)

lemma m1_fits3: "list_all m1_fits m1_cmds3"
  by (simp add: m1_cmds3_def m1_fits_simps) (auto simp: small_more put_resized_None bind_eq_None_conv bind_eq_Some_conv dest!: put_lengths_le(4))

lemma m1_fits4: "list_all m1_fits m1_cmds4"
  by (simp add: m1_cmds4_def m1_fits_simps) (auto simp: bytes64_def)

lemma mg_fits_all: "list_all mg_fits m_encodeFuncMap"
  using mg_fits1 mg_fits2 mg_fits3 mg_fits4 mg_fits5 mg_fits6 mg_fits7 mg_fits8 by (simp add: m_encodeFuncMap_def)

lemma m1_fits_all: "list_all m1_fits M1_encodeFuncMap"
  using m1_fits1 m1_fits2 m1_fits3 m1_fits4 by (simp add: M1_encodeFuncMap_def)

lemma ctrl_ok_rw: "c' = c\<lparr>c_rw := c_rw c'\<rparr> \<Longrightarrow> c_rw c' \<in> {0, 1} \<Longrightarrow> p2_ctrl_ok c \<Longrightarrow> p2_ctrl_ok c'"
  by (metis (no_types, lifting) PacketCtrl.select_convs(3,4) PacketCtrl.surjective PacketCtrl.update_convs(1) p2_ctrl_ok_def)

lemma packet_read_back:
  assumes "p2_ctrl_ok (p_ctrl (p2_payload p))" and "length (p_params (p2_payload p)) \<le> 248"
  shows "vd_frame (getPacketData p) = Packet (length (getPacketData p)) \<and> vd_sum_ok (getPacketData p) \<and>
    p2_payload (P2_setPacket (getPacketData p) q) = p2_payload p"
proof -
  let ?n = "length (p_params (p2_payload p)) + 2"
  have "take ?n (drop 3 (getPacketData p)) = getPacketPayload (p2_payload p)"
    unfolding getPacketData_nth(6) by (simp add: getPacketPayload_def)
  then have "p2_payload (P2_setPacket (getPacketData p) q) = p2_payload p"
    using getPacketData_frame(1) [OF assms(2)] setPacketPayload_get [OF assms(1)] by (simp add: P2_setPacket_def Let_def)
  then show ?thesis using getPacketData_frame(2-3) [OF assms(2)] by blast
qed

lemma fits_lookup:
  assumes "list_all (\<lambda>(cmd, f). p2_fits (und cmd) f) tab" and "\<forall>cmd j. und cmd j \<longrightarrow> cmd \<in> fst ` set tab"
    and "r = (case map_of tab cmd of Some f \<Rightarrow> map_option (Pair True) (f j (d :: 'd, p)) | None \<Rightarrow> Some (False, d, p))"
  shows "r = None \<longleftrightarrow> und cmd j"
    and "r = Some (ok, d', q) \<Longrightarrow> (p2_ctrl_ok (p_ctrl p) \<longrightarrow> p2_ctrl_ok (p_ctrl q)) \<and>
        p_ctrl q = (p_ctrl p)\<lparr>c_rw := c_rw (p_ctrl q)\<rparr> \<and> (p_params p = [] \<longrightarrow> p2_small j \<longrightarrow> length (p_params q) \<le> 248)"
proof -
  have "(r = None \<longleftrightarrow> und cmd j) \<and> (r = Some (ok, d', q) \<longrightarrow> (p2_ctrl_ok (p_ctrl p) \<longrightarrow> p2_ctrl_ok (p_ctrl q)) \<and>
        p_ctrl q = (p_ctrl p)\<lparr>c_rw := c_rw (p_ctrl q)\<rparr> \<and> (p_params p = [] \<longrightarrow> p2_small j \<longrightarrow> length (p_params q) \<le> 248))"
  proof (cases "map_of tab cmd")
    case None
    then have "\<not> und cmd j" using assms(2) by (auto simp: map_of_eq_None_iff)
    then show ?thesis using None assms(3) by simp
  next
    case (Some f)
    then have "p2_fits (und cmd) f" using assms(1) map_of_SomeD [OF Some] by (auto simp: list_all_iff)
    then have "case f j (d, p) of None \<Rightarrow> und cmd j
      | Some (d', q) \<Rightarrow> \<not> und cmd j \<and> c_rw (p_ctrl q) \<in> {0, 1} \<and> p_ctrl q = (p_ctrl p)\<lparr>c_rw := c_rw (p_ctrl q)\<rparr> \<and>
          (p_params p = [] \<longrightarrow> p2_small j \<longrightarrow> length (p_params q) \<le> 248)"
      unfolding p2_fits_def by blast
    then show ?thesis using Some assms(3) by (auto dest: ctrl_ok_rw split: option.splits)
  qed
  then show "r = None \<longleftrightarrow> und cmd j"
    and "r = Some (ok, d', q) \<Longrightarrow> (p2_ctrl_ok (p_ctrl p) \<longrightarrow> p2_ctrl_ok (p_ctrl q)) \<and>
        p_ctrl q = (p_ctrl p)\<lparr>c_rw := c_rw (p_ctrl q)\<rparr> \<and> (p_params p = [] \<longrightarrow> p2_small j \<longrightarrow> length (p_params q) \<le> 248)"
    by blast+
qed

lemma mg_undefined_known: "\<forall>cmd j. mg_undefined cmd j \<longrightarrow> cmd \<in> fst ` set m_encodeFuncMap"
  by (auto simp: mg_undefined_def m_encodeFuncMap_def image_Un mg_cmds3_def mg_cmds4_def mg_cmds5_def mg_cmds8_def)

lemma m1_undefined_known: "\<forall>cmd j. m1_undefined cmd j \<longrightarrow> cmd \<in> fst ` set M1_encodeFuncMap"
  by (auto simp: m1_undefined_def M1_encodeFuncMap_def image_Un m1_cmds3_def m1_cmds4_def)

lemmas mg_fits_lookup = fits_lookup [OF mg_fits_all [unfolded mg_fits_def] mg_undefined_known Mg_setPayload_def]

lemmas m1_fits_lookup = fits_lookup [OF m1_fits_all [unfolded m1_fits_def] m1_undefined_known M1_setPayload_def]

text \<open>
  C23. When the requests and the answers of the second protocol are defined, for any parameters and any
  bytes. A request makes \<open>setPayload\<close> use memory it does not own or convert a number out of range in
  exactly these cases: \<open>SetBleMesh\<close> and \<open>SetIODOs\<close> always, an address for the wireless network that has not four
  numbers, an address of the local network shorter than 15 characters, and a count or an index out
  of the range of its type (\<open>mg_undefined\<close>, \<open>m1_undefined\<close>); every other one, with parameters missing
  or of another type, is laid out or refused. An answer makes \<open>parseParams\<close> read what is not there in
  exactly the cases of \<open>mg_unreadable\<close> for a Magician, and for an M1 if it is one to
  \<open>GetLanPortConfig\<close> in which one of the texts has no end (\<open>m1_bad\<close>); every other one, of any length and with any
  number, is read.
\<close>
theorem p2_params_defined:
  "(Mg_setPayload cmd j s = None \<longleftrightarrow> mg_undefined cmd j) \<and> (M1_setPayload cmd j t = None \<longleftrightarrow> m1_undefined cmd j) \<and>
   (Mg_parseParams m_Device a = None \<longleftrightarrow> mg_unreadable m_Device a) \<and>
   (M1_parseParams b = None \<longleftrightarrow> m1_bad (uint (p_cmdID b)) (c_rw (p_ctrl b)) (p_params b))"
  using answers_defined mg_fits_lookup(1) [of cmd j "fst s" "snd s"] m1_fits_lookup(1) [of cmd j "fst t" "snd t"] by (cases t) simp

text \<open>
  C24. The packet of a request whose texts and arrays are of a moderate size (\<open>p2_small\<close>) is one that the
  robot accepts: its frame is complete and its checksum right. Read back, it has the number, the
  control bits and the parameters of the request; of the control bits that the request came with, only the direction
  is changed.
\<close>
theorem p2_requests_fit:
  assumes "Mg_setPayload cmd j (dev, p2_payload pk) = Some (ok, dev', q) \<or> M1_setPayload cmd j ((), p2_payload pk) = Some (ok, (), q)"
    and "p_params (p2_payload pk) = []" and "p2_ctrl_ok (p_ctrl (p2_payload pk))" and "p2_small j"
  shows "vd_frame (getPacketData (pk\<lparr>p2_payload := q\<rparr>)) = Packet (length (getPacketData (pk\<lparr>p2_payload := q\<rparr>))) \<and>
    vd_sum_ok (getPacketData (pk\<lparr>p2_payload := q\<rparr>)) \<and>
    p2_payload (P2_setPacket (getPacketData (pk\<lparr>p2_payload := q\<rparr>)) r) = q \<and>
    p_ctrl q = (p_ctrl (p2_payload pk))\<lparr>c_rw := c_rw (p_ctrl q)\<rparr>"
proof -
  have q: "p2_ctrl_ok (p_ctrl q) \<and> p_ctrl q = (p_ctrl (p2_payload pk))\<lparr>c_rw := c_rw (p_ctrl q)\<rparr> \<and> length (p_params q) \<le> 248"
    using mg_fits_lookup(2) [of cmd j dev "p2_payload pk" ok dev' q] m1_fits_lookup(2) [of cmd j "()" "p2_payload pk" ok "()" q] assms
    by blast
  then show ?thesis using packet_read_back [of "pk\<lparr>p2_payload := q\<rparr>" r] by simp
qed

text \<open>A request for a Magician: a movement to a place.\<close>

definition p2_demo_move :: p2_object where
  "p2_demo_move = [(''ptpMode'', PNum \<lparr>n_int = 1, n_f32 = 0x3F800000, n_u32 = Some 1, n_u64 = Some 1\<rparr>),
     (''x'', PNum \<lparr>n_int = 200, n_f32 = 0x43480000, n_u32 = Some 200, n_u64 = Some 200\<rparr>)]"

lemma p2_demo_move_set:
  "Mg_setPayload ''SetPTPCmd'' p2_demo_move ([], PacketPayload_clear) =
     Some (True, [], \<lparr>p_cmdID = 84, p_ctrl = PacketCtrl_clear\<lparr>c_rw := 1\<rparr>, p_params = [1, 0, 0, 0x48, 0x43, 0, 0, 0, 0, 0, 0, 0, 0, 0, 0, 0, 0]\<rparr>)"
  by code_simp

theorem p2_requests_fit_witness:
  "vd_sum_ok (getPacketData (P2Packet_new 7\<lparr>p2_payload := \<lparr>p_cmdID = 84, p_ctrl = PacketCtrl_clear\<lparr>c_rw := 1\<rparr>,
     p_params = [1, 0, 0, 0x48, 0x43, 0, 0, 0, 0, 0, 0, 0, 0, 0, 0, 0, 0]\<rparr>\<rparr>))"
proof -
  have "p2_payload (P2Packet_new 7) = PacketPayload_clear" by (simp add: P2Packet_new_def)
  moreover have "p_params PacketPayload_clear = []" "p2_ctrl_ok (p_ctrl PacketPayload_clear)"
    by (simp_all add: PacketPayload_clear_def PacketCtrl_clear_def p2_ctrl_ok_def)
  moreover have "p2_small p2_demo_move" by (simp add: p2_small_def p2_demo_move_def)
  ultimately show ?thesis using p2_requests_fit [of "''SetPTPCmd''" p2_demo_move "[]" "P2Packet_new 7"] p2_demo_move_set by metis
qed

end
