(* ===== verification/P3Adapter.thy ===== *)
theory P3Adapter imports DobotApi RxSplit begin

text \<open>
  \<open>Protocol3/P3FrameAdapter.cpp\<close>: the protocol frame of the newer library inside DobotLink. The
  packets that \<open>MessageHandler\<close> has cut out are queued here until the frame's link reads them, and
  the bytes the frame sends become a signal with the sequence number of the packet.
\<close>

section \<open>The adapter\<close>

text \<open>The environment of the library: \<open>sm_recviveBytes\<close> and the signals \<open>sendRawData_signal\<close>.\<close>

record p3_adapter =
  sm_recviveBytes :: "bytes list"
  sendRawData_signals :: "(u32 \<times> bytes) list"

definition p3_addRawData :: "bytes \<Rightarrow> 'z p3_adapter_scheme \<Rightarrow> 'z p3_adapter_scheme" where
  "p3_addRawData data a = a\<lparr>sm_recviveBytes := sm_recviveBytes a @ [data]\<rparr>"

text \<open>The number of bytes asked for is not used.\<close>

definition p3_readData :: "nat \<Rightarrow> 'z p3_adapter_scheme \<Rightarrow> bytes \<times> 'z p3_adapter_scheme" where
  "p3_readData dataLength a =
     (case sm_recviveBytes a of
        [] \<Rightarrow> ([], a)
      | b # bs \<Rightarrow> let realLength = u16n (length b) in
          if realLength \<noteq> 0 then (take realLength b, a\<lparr>sm_recviveBytes := bs\<rparr>) else ([], a))"

text \<open>The sequence number is read from the bytes 6 to 9, which every packet of the encoder has.\<close>

definition p3_seqNum :: "bytes \<Rightarrow> u32" where
  "p3_seqNum data = le32 (data ! 6) (data ! 7) (data ! 8) (data ! 9)"

definition p3_sendData :: "bytes \<Rightarrow> 'z p3_adapter_scheme \<Rightarrow> 'z p3_adapter_scheme" where
  "p3_sendData data a = a\<lparr>sendRawData_signals := sendRawData_signals a @ [(p3_seqNum data, data)]\<rparr>"

text \<open>The constructor, with \<open>m_linkPath\<close>, and the slots.\<close>

definition P3FrameAdapter_new :: "'z p3_adapter_scheme \<Rightarrow> ('z p3_adapter_scheme cmd_state \<times> nat option) option" where
  "P3FrameAdapter_new a =
     DobotV3_RegisterLink (Some p3_sendData) (Some p3_readData) (DobotV3_SetSendParm 3 4000 (DobotV3_start a))"

definition p3_execTimeout :: "'z p3_adapter_scheme cmd_state \<Rightarrow> 'z p3_adapter_scheme cmd_state option" where
  "p3_execTimeout s = DobotV3_Exec s"

definition p3_cntTimeout :: "'z p3_adapter_scheme cmd_state \<Rightarrow> 'z p3_adapter_scheme cmd_state" where
  "p3_cntTimeout s = DobotV3_TimeCNT 10 s"

definition p3_setComPars :: "u8 \<Rightarrow> u32 \<Rightarrow> 'z p3_adapter_scheme cmd_state \<Rightarrow> 'z p3_adapter_scheme cmd_state" where
  "p3_setComPars resendTimesMax commTimeout s = DobotV3_SetSendParm resendTimesMax commTimeout s"

text \<open>\<open>sendCmd_slot\<close> ignores what \<open>DobotV3_SendCmd\<close> returns.\<close>

definition p3_sendCmd :: "cmd_handle \<Rightarrow> send_parm \<Rightarrow> nat option \<Rightarrow> bytes \<Rightarrow> u16 \<Rightarrow> bool \<Rightarrow>
    'z p3_adapter_scheme cmd_state \<Rightarrow> 'z p3_adapter_scheme cmd_state option" where
  "p3_sendCmd handle parm m_linkPath packet payloadLen ack s =
     map_option (\<lambda>(_, _, s). s) (DobotV3_SendCmd handle parm m_linkPath packet payloadLen ack s)"

definition p3_addRawData_slot :: "bytes \<Rightarrow> 'z p3_adapter_scheme cmd_state \<Rightarrow> 'z p3_adapter_scheme cmd_state" where
  "p3_addRawData_slot data s = s\<lparr>world := p3_addRawData data (world s)\<rparr>"

lemma p3_sendData_image:
  "p3_sendData (packet_image p) a =
     a\<lparr>sendRawData_signals := sendRawData_signals a @ [(seqNum p, packet_image p)]\<rparr>"
proof -
  obtain b0 b1 b2 b3 where s: "bytes32 (seqNum p) = [b0, b1, b2, b3]"
    by (simp add: bytes32_def upt_rec numeral_eq_Suc)
  then have "le32 b0 b1 b2 b3 = seqNum p"
    by (simp add: bytes32_def upt_rec numeral_eq_Suc) (metis le32_bytes One_nat_def Suc_1 numeral_3_eq_3)
  then show ?thesis by (simp add: p3_sendData_def p3_seqNum_def packet_image_def s bytes16_def)
qed

section \<open>A queue of whole packets\<close>

context frame_decoder begin

text \<open>
  A reader that hands over whole packets, one each time: all of them are handed on in order.
\<close>

lemma decode_packet_queue:
  fixes queue :: "'w \<Rightarrow> bytes list"
  assumes seen: "\<And>w w'. \<forall>q. input q w' = input q w \<Longrightarrow> queue w' = queue w"
    and none: "\<And>n w. queue w = [] \<Longrightarrow> rd n w = ([], w)"
    and some: "\<And>n w b bs. queue w = b # bs \<Longrightarrow> length b < 256 \<Longrightarrow> b \<noteq> [] \<Longrightarrow> \<exists>w'. rd n w = (b, w') \<and> queue w' = bs"
  shows "p < length (links s) \<Longrightarrow> parse_ok (links s ! p) \<Longrightarrow> msgWriteIndex (links s ! p) = 0 \<Longrightarrow>
     readData (links s ! p) = Some rd \<Longrightarrow> pFuncList (links s ! p) \<noteq> None \<Longrightarrow>
     length (pPacket (pPacketParm s)) = bufsz \<Longrightarrow> R x s \<Longrightarrow> queue (world s) = bs \<Longrightarrow>
     \<forall>b \<in> set bs. fverdict b = Packet (length b) \<and> hd b = sof fmt \<and> length b < 256 \<and> length b \<le> bufsz \<Longrightarrow>
     \<exists>s' l'. decode_reads E fmt p s = Some s' \<and> links s' = (links s)[p := l'] \<and> parse_ok l' \<and>
       msgWriteIndex l' = 0 \<and> link_conf l' = link_conf (links s ! p) \<and> R (fold (act p) bs x) s' \<and>
       queue (world s') = [] \<and> frame_same bufsz s s'"
proof (induction bs arbitrary: s x)
  case Nil
  let ?l = "links s ! p"
  have idle: "msgReadIndex ?l = 0" using parse_ok_len [OF Nil(2)] Nil(3) by simp
  have "read_link s ?l = Some (?l, world s)"
    using Nil(3,4) none [OF Nil(8)] parse_ok_len [OF Nil(2)]
    by (simp add: read_link_def wr_range_Some Let_def)
  then have "decode_reads E fmt p s = Some (s\<lparr>world := world s, links := (links s)[p := ?l]\<rparr>)"
    using Nil(1,3) idle by (simp add: decode_reads.simps [of E fmt p s] get_link_Some set_link_def)
  then show ?case
    using Nil R_read [OF Nil(7)] by (intro exI [of _ "s\<lparr>world := world s, links := (links s)[p := ?l]\<rparr>"] exI [of _ ?l])
      (simp add: frame_same_def)
next
  case (Cons b bs)
  let ?l = "links s ! p"
  note p = Cons.prems(1) and ok = Cons.prems(2) and w0 = Cons.prems(3) and len = parse_ok_len [OF Cons.prems(2)]
  have b: "fverdict b = Packet (length b)" "hd b = sof fmt" "length b < 256" "length b \<le> bufsz"
    using Cons.prems(9) by simp_all
  have ne: "b \<noteq> []" using v_packet [OF b(1)] by auto
  have idle: "msgReadIndex ?l = msgWriteIndex ?l" using len w0 by simp
  obtain w1 where rd: "rd (u16n (sub32 (maxMsgNum ?l) (msgWriteIndex ?l))) (world s) = (b, w1)" "queue w1 = bs"
    using some [OF Cons.prems(8) b(3) ne] by blast
  let ?l1 = "?l\<lparr>pDeMsgBuff := take (msgWriteIndex ?l) (pDeMsgBuff ?l) @ b @ drop (msgWriteIndex ?l + length b) (pDeMsgBuff ?l),
      deStartTime := timeCNT s, msgWriteIndex := msgWriteIndex ?l + length b\<rparr>"
  have fit: "msgWriteIndex ?l + length b \<le> bufsz" using w0 b(4) by simp
  have rl: "read_link s ?l = Some (?l1, w1)"
    using Cons.prems(4) rd(1) fit len w0 b(3) ne by (simp add: read_link_def wr_range_Some GetStartTime_def Let_def)
  have l1: "parse_ok ?l1" "pending ?l1 = pending ?l @ b"
    using parse_ok_append [OF ok idle fit, of "timeCNT s"] by simp_all
  have "\<not> sofMark ?l" using ok w0 by (auto simp: parse_ok_def)
  then have pend: "pending ?l1 = b" using l1(2) w0 by (simp add: pending_def)
  have sc: "scn b = ([b], [])" using scan_packet [OF b(1,2), of "[]"] by simp
  define s1 where "s1 = s\<lparr>world := w1, links := (links s)[p := ?l1]\<rparr>"
  have s1: "p < length (links s1)" "links s1 ! p = ?l1" "length (pPacket (pPacketParm s1)) = bufsz" "R x s1" "world s1 = w1"
    using p Cons.prems(6) R_read [OF Cons.prems(7)] by (simp_all add: s1_def)
  obtain s2 where s2: "decode_bytes E fmt p s1 = Some s2" "bytes_done p x s1 s2"
    using decode_bytes_ok [of p s1 x] s1 l1(1) Cons.prems(5) by auto
  obtain l2 where l2: "links s2 = (links s)[p := l2]" "parse_ok l2" "link_conf l2 = link_conf ?l1" "msgWriteIndex l2 = 0"
      "R (act p b x) s2" "frame_same bufsz s1 s2" "\<forall>q. input q (world s2) = input q w1"
    using s2(2) s1 pend sc w0 by (auto simp: bytes_done_def s1_def)
  have conf: "link_conf l2 = link_conf ?l" using l2(3) by (simp add: link_conf_def)
  have q2: "queue (world s2) = bs" using seen [OF l2(7)] rd(2) by simp
  have s2p: "links s2 ! p = l2" "p < length (links s2)" using p l2(1) by simp_all
  obtain s' l' where s': "decode_reads E fmt p s2 = Some s'" "links s' = (links s2)[p := l']" "parse_ok l'"
      "msgWriteIndex l' = 0" "link_conf l' = link_conf l2" "R (fold (act p) bs (act p b x)) s'"
      "queue (world s') = []" "frame_same bufsz s2 s'"
    using Cons.IH [of s2 "act p b x"] s2p l2 q2 link_confD [OF conf] Cons.prems(4,5,9)
    by (auto simp: frame_same_def)
  have "decode_reads E fmt p s = Some s'"
    using p rl s2(1) s'(1) w0 ne len
    by (simp add: decode_reads.simps [of E fmt p s] get_link_Some set_link_def s1_def)
  moreover have "frame_same bufsz s s'"
    using frame_same_trans [OF l2(6) s'(8)] by (simp add: frame_same_def s1_def)
  ultimately show ?case
    using s' l2(1) conf by (intro exI [of _ s'] exI [of _ l']) simp
qed

end


text \<open>The queue as what each of the links \<open>0, 1, 2, ...\<close> of a frame has to read: its length, then its packets.\<close>

definition p3_queue_input :: "nat \<Rightarrow> 'z p3_adapter_scheme \<Rightarrow> bytes" where
  "p3_queue_input q a = (case q of 0 \<Rightarrow> replicate (length (sm_recviveBytes a)) 0
     | Suc k \<Rightarrow> if k < length (sm_recviveBytes a) then sm_recviveBytes a ! k else [])"

lemma p3_queue_seen:
  assumes "\<forall>q. p3_queue_input q a' = p3_queue_input q a"
  shows "sm_recviveBytes a' = sm_recviveBytes a"
proof (rule nth_equalityI)
  have "length (p3_queue_input 0 a') = length (p3_queue_input 0 a)" using assms by simp
  then show l: "length (sm_recviveBytes a') = length (sm_recviveBytes a)" by (simp add: p3_queue_input_def)
  fix k assume "k < length (sm_recviveBytes a')"
  then show "sm_recviveBytes a' ! k = sm_recviveBytes a ! k"
    using assms [rule_format, of "Suc k"] l by (simp add: p3_queue_input_def)
qed

interpretation recq: frame_decoder DobotV3Format DobotV3Format_PACKET_LENGTH dv3_lower dv3_chk dv3_packet_len
  recorder_env "\<lambda>x s. log s = x" "\<lambda>p pkt x. x @ [pkt]" "p3_queue_input :: nat \<Rightarrow> 'z p3_adapter_scheme \<Rightarrow> bytes"
proof
  show "log s = x \<Longrightarrow> log (s\<lparr>links := ls, pPacketParm := pp, world := w\<rparr>) = x"
    for x and s :: "'z p3_adapter_scheme log_state" and ls pp w by simp
next
  fix f and pp :: packet_parm
  assume "ErrCodeRead DobotV3Format = Some f" "length (pPacket pp) = DobotV3Format_PACKET_LENGTH"
  then show "\<exists>e. f pp = Some (pp\<lparr>errCode := e\<rparr>)"
    using ErrCodeRead_errCode [of pp] by (auto simp: DobotV3Format_def)
next
  fix x p pkt and s :: "'z p3_adapter_scheme log_state"
  assume "log s = x" and "offered DobotV3Format_PACKET_LENGTH p pkt s"
  then show "\<exists>s'. FuncCallBack recorder_env s = Some s' \<and> log s' = x @ [pkt] \<and>
      frame_kept DobotV3Format_PACKET_LENGTH p3_queue_input s s'"
    by (auto simp: FuncCallBack_def offered_def get_link_Some recorder_env_def recorder_def
        frame_kept_def frame_same_def)
qed

text \<open>A link of the adapter between two calls of the frame, with nothing kept.\<close>

definition p3_link :: "nat \<Rightarrow> ('z p3_adapter_scheme, 'y) frame_state_scheme \<Rightarrow> bool" where
  "p3_link p s \<longleftrightarrow> p < length (links s) \<and> dv3_idle (links s ! p) \<and> msgWriteIndex (links s ! p) = 0 \<and>
     enable (links s ! p) \<and> readData (links s ! p) = Some p3_readData \<and> pFormat (links s ! p) \<noteq> None \<and>
     pFuncList (links s ! p) \<noteq> None \<and> length (pPacket (pPacketParm s)) = DobotV3Format_PACKET_LENGTH"

text \<open>
  C16. Packets of the Dobot format that are shorter than 256 bytes pass the adapter: one call of the
  decoder reads all that \<open>addRawData_slot\<close> has queued and hands each packet, whole and in
  order, to the functions of the link, and the link keeps nothing of them.
\<close>
theorem queued_packets_delivered:
  assumes link: "p3_link p s"
    and pk: "\<forall>b \<in> set (sm_recviveBytes (world s)). dv3_verdict b = Packet (length b) \<and> hd b = DobotV3Format_SOF1 \<and> length b < 256"
  shows "\<exists>s'. DecodeLinkPacket recorder_env p s = Some s' \<and> p3_link p s' \<and>
     log s' = log s @ sm_recviveBytes (world s) \<and> sm_recviveBytes (world s') = []"
proof -
  let ?bs = "sm_recviveBytes (world s)"
  obtain fid where fid: "pFormat (links s ! p) = Some fid" using link by (auto simp: p3_link_def)
  have l: "p < length (links s)" "dv3_idle (links s ! p)" "msgWriteIndex (links s ! p) = 0" "enable (links s ! p)"
      "readData (links s ! p) = Some p3_readData" "pFuncList (links s ! p) \<noteq> None"
      "length (pPacket (pPacketParm s)) = DobotV3Format_PACKET_LENGTH"
    using link by (simp_all add: p3_link_def)
  have fl: "fold (\<lambda>pkt x. x @ [pkt]) pkts x = x @ pkts" for pkts and x :: "bytes list"
    by (induction pkts arbitrary: x) simp_all
  obtain s1 l1 where s1: "decode_reads recorder_env DobotV3Format p s = Some s1" "links s1 = (links s)[p := l1]"
      "parse_inv DobotV3Format DobotV3Format_PACKET_LENGTH dv3_lower dv3_chk dv3_packet_len l1" "msgWriteIndex l1 = 0" "link_conf l1 = link_conf (links s ! p)"
      "log s1 = log s @ ?bs" "sm_recviveBytes (world s1) = []" "frame_same DobotV3Format_PACKET_LENGTH s s1"
    using recq.decode_packet_queue [where queue = sm_recviveBytes and rd = p3_readData and s = s and p = p and bs = ?bs,
        OF p3_queue_seen _ _ l(1) _ l(3,5,6,7) refl refl] l(2) pk
    by (fastforce simp: p3_readData_def idle_inv_def dv3_frame_verdict dv3_steps_length dv3_sof fl)
  have ns: "\<not> sofMark l1" using s1(3,4) by (auto simp: parse_inv_def)
  let ?s2 = "s1\<lparr>links := (links s)[p := MSGCLEAR l1]\<rparr>"
  have "DecodeLinkPacket recorder_env p s = Some ?s2"
    using l(1,4) fid s1(1,2) ns by (simp add: DecodeLinkPacket_def get_link_Some upd_link_Some recorder_env_def)
  moreover have "dv3_idle (MSGCLEAR l1)"
    using s1(3) ns by (simp add: idle_inv_def parse_inv_def link_macros)
  then have "p3_link p ?s2"
    using link_confD [OF s1(5)] l link s1(8) by (simp add: p3_link_def frame_same_def link_macros)
  ultimately show ?thesis using s1(6,7) by (intro exI [of _ ?s2]) simp
qed


text \<open>A frame with one link of the adapter.\<close>

definition p3_recording :: "bytes list \<Rightarrow> p3_adapter log_state" where
  "p3_recording q = \<lparr>timeCNT = 0, links = [(ProtocolFrame_LINK_EXPORT 500 DobotV3Format_PACKET_LENGTH)
        \<lparr>readData := Some p3_readData, pFormat := Some 0, pFuncList := Some 0\<rparr>],
      pLinkList = [Some 0], linkNum = 1,
      pPacketParm = \<lparr>pLink = None, pPacket = replicate DobotV3Format_PACKET_LENGTH 0, packetLength = 0,
        errCode = 0, sendMark = False, exitCallPack = False, exitLoop = False\<rparr>,
      loopMark = (\<lambda>_ _. False), world = \<lparr>sm_recviveBytes = q, sendRawData_signals = []\<rparr>, log = []\<rparr>"

theorem queued_packets_delivered_witness:
  "let b = dv3_encoded (replicate 20 0) 3; c = dv3_encoded (replicate 20 1) 2 in
   \<exists>s'. DecodeLinkPacket recorder_env 0 (p3_recording [b, c]) = Some s' \<and> log s' = [b, c]"
proof -
  have v: "dv3_verdict (dv3_encoded (replicate 20 x) n) = Packet (length (dv3_encoded (replicate 20 x) n))"
    "hd (dv3_encoded (replicate 20 x) n) = DobotV3Format_SOF1" "length (dv3_encoded (replicate 20 x) n) < 256"
    if "unat n \<le> 3" for x n
    using that dv3_encoded_found [of n "replicate 20 x"] by (simp_all add: dv3_encoded_length)
  let ?s = "p3_recording [dv3_encoded (replicate 20 0) 3, dv3_encoded (replicate 20 1) 2]"
  have "p3_link 0 ?s"
    by (simp add: p3_link_def p3_recording_def ProtocolFrame_LINK_EXPORT_def idle_inv_def parse_inv_def)
  from queued_packets_delivered [OF this] show ?thesis using v by (auto simp: p3_recording_def Let_def)
qed

text \<open>
  C17. The adapter does not limit a packet to what the frame asks for: when \<open>handleRawData\<close> passes a
  packet that is longer than the buffer of the link, the next background run writes behind the
  end of that buffer.
\<close>
theorem long_packet_overruns_buffer:
  assumes raw: "p3_handleRawData raw = (HB_OK, rest, [b])" "length b < 65536" "DobotV3Format_PACKET_LENGTH < length b"
    and link: "p3_link p s" "linkMaxNum s \<noteq> 0" "pLinkList s ! 0 = Some p" "sm_recviveBytes (world s) = []"
  shows "p3_execTimeout (p3_addRawData_slot b s) = None"
proof -
  let ?s = "p3_addRawData_slot b s" and ?l = "links s ! p"
  have l: "p < length (links s)" "msgWriteIndex ?l = 0" "enable ?l" "readData ?l = Some p3_readData" "pFormat ?l \<noteq> None"
      "length (pDeMsgBuff ?l) = DobotV3Format_PACKET_LENGTH"
    using link(1) by (auto simp: p3_link_def idle_inv_def parse_inv_def)
  have "b \<noteq> []" using raw(3) by auto
  then have "read_link ?s ?l = None"
    using l raw(2,3) link(4) by (simp add: read_link_def p3_readData_def p3_addRawData_slot_def p3_addRawData_def wr_range_def Let_def)
  moreover have gl: "get_link p ?s = Some ?l" using l(1) by (simp add: get_link_Some p3_addRawData_slot_def)
  ultimately have "decode_reads cmd_env DobotV3Format p ?s = None" by (subst decode_reads.simps) simp
  then have d: "DecodeLinkPacket cmd_env p ?s = None"
    using l gl by (auto simp: DecodeLinkPacket_def)
  have "[0..<linkMaxNum ?s] = 0 # [1..<linkMaxNum ?s]" using link(2) by (simp add: upt_rec p3_addRawData_slot_def)
  then have "DeLinkDecode cmd_env ?s = None" using link(3) d by (simp add: DeLinkDecode_def p3_addRawData_slot_def)
  then show ?thesis by (simp add: p3_execTimeout_def DobotV3_Exec_def Exec_def)
qed


text \<open>The state of the library behind a new adapter.\<close>

definition p3_started :: "'z p3_adapter_scheme \<Rightarrow> 'z p3_adapter_scheme cmd_state" where
  "p3_started a = (DobotV3_SetSendParm 3 4000 (DobotV3_start a))
     \<lparr>links := (links (DobotV3_start a))[0 := fresh_link the_format the_funcs
        ((ProtocolFrame_LINK_EXPORT 500 DobotV3Format_PACKET_LENGTH)
           \<lparr>readData := Some p3_readData, SendData := Some p3_sendData\<rparr>)],
      pLinkList := (replicate 10 None)[0 := Some 0], linkNum := 1\<rparr>"

lemma P3FrameAdapter_new_result: "P3FrameAdapter_new a = Some (p3_started a, Some 0)"
proof -
  have f: "find P [0..<10] = Some 0" if "P 0" for P :: "nat \<Rightarrow> bool" using that by (simp add: upt_rec)
  let ?s = "DobotV3_SetSendParm 3 4000 (DobotV3_start a)"
  let ?l = "(ProtocolFrame_LINK_EXPORT 500 DobotV3Format_PACKET_LENGTH)\<lparr>readData := Some p3_readData, SendData := Some p3_sendData\<rparr>"
  let ?s1 = "?s\<lparr>links := (links ?s)[0 := ?l]\<rparr>"
  have k: "links ?s = links (DobotV3_start a)" "pLinkList ?s = pLinkList (DobotV3_start a)" "linkNum ?s = linkNum (DobotV3_start a)"
    by (simp_all add: DobotV3_SetSendParm_def SetDefultSendParm_def)
  have none: "find_index (\<lambda>q. q = Some p) (replicate n None) = None" for p :: nat and n by (simp add: find_index_None)
  have "GetUnUseLink ?s = Some 0"
    unfolding GetUnUseLink_def by (rule f) (simp add: GetLinkInFrame_def k none)
  moreover have "upd_link (\<lambda>l. l\<lparr>readData := Some p3_readData, SendData := Some p3_sendData\<rparr>) 0 ?s = Some ?s1"
    by (simp add: upd_link_Some k)
  moreover have "GetLinkInFrame ?s1 0 = None" by (simp add: GetLinkInFrame_def k none)
  moreover have "GetNullLinkInFrame ?s1 = Some 0" by (simp add: GetNullLinkInFrame_def k numeral_eq_Suc)
  ultimately show ?thesis
    by (simp add: P3FrameAdapter_new_def DobotV3_RegisterLink_def ConnectFLFF_eq k p3_started_def)
qed

lemma p3_started_link: "p3_link 0 (p3_started a)" "world (p3_started a) = a"
proof -
  have k: "pPacketParm (DobotV3_SetSendParm 3 4000 (DobotV3_start a)) = pPacketParm (DobotV3_start a)"
    "world (DobotV3_SetSendParm 3 4000 (DobotV3_start a)) = world (DobotV3_start a)" "world (DobotV3_start a) = a"
    by (simp_all add: DobotV3_SetSendParm_def SetDefultSendParm_def)
      (simp add: DobotV3_start_def DobotV3CmdInter_EXPORT_def frame_state.defs DobotV3_frame_def ProtocolFrame_FRAME_EXPORT_def)
  then show "p3_link 0 (p3_started a)" "world (p3_started a) = a"
    by (simp_all add: p3_link_def p3_started_def fresh_link_def link_macros ProtocolFrame_LINK_EXPORT_def idle_inv_def parse_inv_def)
qed

theorem long_packet_overruns_buffer_witness:
  "\<exists>s raw b. P3FrameAdapter_new \<lparr>sm_recviveBytes = [], sendRawData_signals = []\<rparr> = Some (s, Some 0) \<and>
     p3_handleRawData raw = (HB_OK, [], [b]) \<and> p3_execTimeout (p3_addRawData_slot b s) = None"
proof -
  let ?body = "[0xAA, 0xBB, 0, 2] @ replicate 523 (0 :: u8)"
  let ?raw = "?body @ [lo8 (crc16 ?body), hi8 (crc16 ?body)]"
  let ?s = "p3_started \<lparr>sm_recviveBytes = [], sendRawData_signals = []\<rparr>"
  have h: "p3_handleRawData ?raw = (HB_OK, [], [?raw])"
  proof -
    have len: "length ?raw = 529" by simp
    have n: "unat (le16 (?raw ! 2) (?raw ! 3)) = 512" by (simp add: le16_def)
    have "take 527 ?raw = ?body" by simp
    moreover have "?raw ! 527 = lo8 (crc16 ?body)" "?raw ! 528 = hi8 (crc16 ?body)" by (simp_all add: nth_append)
    ultimately show ?thesis
      using len n unfolding p3_handleRawData_def Let_def by (simp only: p3_CalcCheckSum_crc16) simp
  qed
  have "p3_execTimeout (p3_addRawData_slot ?raw ?s) = None"
    by (rule long_packet_overruns_buffer [OF h, of 0]) (simp_all add: p3_started_link, simp_all add: p3_started_def)
  then show ?thesis using h P3FrameAdapter_new_result by blast
qed

end
