(* ===== verification/P3Client.thy ===== *)
theory P3Client imports P3Adapter begin

text \<open>
  \<open>Protocol3/DProtocol3.cpp\<close>: the requests of the third protocol. Every device has a \<open>DProtocol3\<close>
  of its own, but all of them share the counter of the sequence numbers and the one protocol frame
  behind \<open>P3FrameAdapter\<close>, whose signals reach each of them; the numbers alone decide whose
  answer a signal is.
\<close>

section \<open>The objects\<close>

record IdPortPacket =
  idp_id :: "64 word"
  idp_wsPort :: u16
  idp_isAck :: bool

text \<open>
  The result of \<open>P3ResPacket\<close>: the error code of a timeout or the JSON object \<open>'j\<close> that the
  callback of the command has made. \<open>rawOut\<close> and \<open>recviceData\<close> are the signals of the object.
\<close>

datatype 'j p3_outcome = P3_timeout | P3_result 'j

record 'j p3_client =
  m_idPortSeqMap :: "(u32 \<times> IdPortPacket) list"
  recviceData :: "(64 word \<times> u16 \<times> 'j p3_outcome) list"
  rawOut :: "bytes list"

record 'j p3_clients =
  sm_seqNum :: u32
  p3_devices :: "'j p3_client list"

definition DProtocol3_new :: "'j p3_client" where
  "DProtocol3_new = \<lparr>m_idPortSeqMap = [], recviceData = [], rawOut = []\<rparr>"

section \<open>Requests and answers\<close>

text \<open>What every \<open>handle...\<close> function does around the call of the API, which gets the number returned.\<close>

definition p3_handle :: "nat \<Rightarrow> IdPortPacket \<Rightarrow> 'j p3_clients \<Rightarrow> u32 \<times> 'j p3_clients" where
  "p3_handle c ip s = (sm_seqNum s,
     s\<lparr>p3_devices := (p3_devices s)[c := (p3_devices s ! c)
          \<lparr>m_idPortSeqMap := AList.update (sm_seqNum s) ip (m_idPortSeqMap (p3_devices s ! c))\<rparr>],
       sm_seqNum := sm_seqNum s + 1\<rparr>)"

definition p3_receiveData :: "bool \<Rightarrow> 'j \<Rightarrow> u32 \<Rightarrow> 'j p3_client \<Rightarrow> 'j p3_client" where
  "p3_receiveData isTimeOut jsonObj q d =
     (case map_of (m_idPortSeqMap d) q of
        None \<Rightarrow> d
      | Some ip \<Rightarrow> d\<lparr>m_idPortSeqMap := AList.delete q (m_idPortSeqMap d),
          recviceData := recviceData d @
            [(idp_id ip, idp_wsPort ip, if isTimeOut then P3_timeout else P3_result jsonObj)]\<rparr>)"

text \<open>
  The slot of \<open>sendRawData_signal\<close>: requests that get no answer from the device are answered with
  \<open>resObj\<close> as soon as they are sent.
\<close>

definition p3_sendRaw :: "'j \<Rightarrow> u32 \<Rightarrow> bytes \<Rightarrow> 'j p3_client \<Rightarrow> 'j p3_client" where
  "p3_sendRaw resObj q data d =
     (case map_of (m_idPortSeqMap d) q of
        None \<Rightarrow> d
      | Some ip \<Rightarrow>
          let d = d\<lparr>rawOut := rawOut d @ [data]\<rparr> in
          if \<not> idp_isAck ip then p3_receiveData False resObj q d else d)"

text \<open>A signal reaches the slot of every object.\<close>

definition p3_broadcast :: "('j p3_client \<Rightarrow> 'j p3_client) \<Rightarrow> 'j p3_clients \<Rightarrow> 'j p3_clients" where
  "p3_broadcast slot s = s\<lparr>p3_devices := map slot (p3_devices s)\<rparr>"

section \<open>Runs\<close>

text \<open>
  Requests of any device, and signals with any numbers. The history lists the requests with their
  devices and numbers.
\<close>

inductive p3_run :: "'j p3_clients \<Rightarrow> (nat \<times> u32 \<times> IdPortPacket) list \<Rightarrow> bool" where
  P3_start: "p3_run \<lparr>sm_seqNum = 0, p3_devices = replicate n DProtocol3_new\<rparr> []"
| P3_request: "p3_run s h \<Longrightarrow> c < length (p3_devices s) \<Longrightarrow> p3_handle c ip s = (q, s') \<Longrightarrow> p3_run s' (h @ [(c, q, ip)])"
| P3_answer: "p3_run s h \<Longrightarrow> p3_run (p3_broadcast (p3_receiveData isTimeOut obj q) s) h"
| P3_raw: "p3_run s h \<Longrightarrow> p3_run (p3_broadcast (p3_sendRaw resObj q data) s) h"

text \<open>The requests and the pending and answered ones of a device.\<close>

definition p3_reply_to :: "IdPortPacket \<Rightarrow> 64 word \<times> u16" where
  "p3_reply_to ip = (idp_id ip, idp_wsPort ip)"

definition p3_requests :: "nat \<Rightarrow> (nat \<times> u32 \<times> IdPortPacket) list \<Rightarrow> (64 word \<times> u16) multiset" where
  "p3_requests c h = mset (map (\<lambda>(_, _, ip). p3_reply_to ip) (filter (\<lambda>(c', _). c' = c) h))"

definition p3_pending :: "'j p3_client \<Rightarrow> (64 word \<times> u16) multiset" where
  "p3_pending d = mset (map (p3_reply_to \<circ> snd) (m_idPortSeqMap d))"

definition p3_answered :: "'j p3_client \<Rightarrow> (64 word \<times> u16) multiset" where
  "p3_answered d = mset (map (\<lambda>(i, w, _). (i, w)) (recviceData d))"

definition p3_device_ok :: "(nat \<times> u32 \<times> IdPortPacket) list \<Rightarrow> nat \<Rightarrow> 'j p3_client \<Rightarrow> bool" where
  "p3_device_ok h c d \<longleftrightarrow> distinct (map fst (m_idPortSeqMap d)) \<and>
     (\<forall>(q, ip) \<in> set (m_idPortSeqMap d). (c, q, ip) \<in> set h) \<and>
     p3_requests c h = p3_answered d + p3_pending d"

definition p3_numbered :: "'j p3_clients \<Rightarrow> (nat \<times> u32 \<times> IdPortPacket) list \<Rightarrow> bool" where
  "p3_numbered s h \<longleftrightarrow> map (\<lambda>(_, q, _). q) h = map of_nat [0..<length h] \<and> sm_seqNum s = of_nat (length h)"

lemma p3_numbered_distinct:
  assumes "p3_numbered s h" and "length h \<le> 4294967296"
  shows "distinct (map (\<lambda>(_, q, _). q) h)"
proof -
  have "inj_on (of_nat :: nat \<Rightarrow> u32) {0..<length h}"
    using assms(2) by (intro inj_onI) (simp add: word_of_nat_eq_iff take_bit_nat_eq_self)
  then show ?thesis using assms(1) by (simp add: p3_numbered_def distinct_map)
qed


text \<open>The step of a device: a new request, and a slot that answers the request of a number or nothing.\<close>

lemma p3_device_ok_request:
  assumes ok: "p3_device_ok h c d" and new: "q \<notin> set (map (\<lambda>(_, q, _). q) h)"
  shows "p3_device_ok (h @ [(c, q, ip)]) c (d\<lparr>m_idPortSeqMap := AList.update q ip (m_idPortSeqMap d)\<rparr>)"
proof -
  have "map_of (m_idPortSeqMap d) q = None"
    using ok new by (force simp: p3_device_ok_def map_of_eq_None_iff)
  then have u: "AList.update q ip (m_idPortSeqMap d) = m_idPortSeqMap d @ [(q, ip)]" and n: "q \<notin> set (map fst (m_idPortSeqMap d))"
    by (simp_all add: update_new map_of_eq_None_iff)
  show ?thesis using ok n by (auto simp: p3_device_ok_def u p3_requests_def p3_answered_def p3_pending_def)
qed

lemma p3_device_ok_other: "c' \<noteq> c \<Longrightarrow> p3_device_ok h c d \<Longrightarrow> p3_device_ok (h @ [(c', q, ip)]) c d"
  by (auto simp: p3_device_ok_def p3_requests_def)

lemma p3_device_ok_answer:
  assumes "p3_device_ok h c d"
  shows "p3_device_ok h c (p3_receiveData isTimeOut obj q d)"
proof (cases "map_of (m_idPortSeqMap d) q")
  case (Some ip)
  have d: "distinct (map fst (m_idPortSeqMap d))" using assms by (simp add: p3_device_ok_def)
  have "p3_pending d = add_mset (p3_reply_to ip) (mset (map (p3_reply_to \<circ> snd) (AList.delete q (m_idPortSeqMap d))))"
    using mset_delete [OF d Some, of "p3_reply_to \<circ> snd"] by (simp add: p3_pending_def)
  then show ?thesis
    using assms Some delete_subset [of q "m_idPortSeqMap d"]
    by (auto simp: p3_device_ok_def p3_receiveData_def p3_answered_def p3_pending_def p3_reply_to_def distinct_delete)
qed (simp add: p3_receiveData_def assms)

lemma p3_device_ok_raw: "p3_device_ok h c d \<Longrightarrow> p3_device_ok h c (p3_sendRaw obj q data d)"
  using p3_device_ok_answer [of h c "d\<lparr>rawOut := rawOut d @ [data]\<rparr>" False obj q]
  by (simp add: p3_sendRaw_def Let_def p3_device_ok_def p3_answered_def p3_pending_def split: option.split)

lemma p3_run_ok:
  assumes "p3_run s h" and "length h \<le> 4294967296"
  shows "p3_numbered s h \<and> (\<forall>c < length (p3_devices s). p3_device_ok h c (p3_devices s ! c))"
  using assms
proof (induction rule: p3_run.induct)
  case (P3_start n)
  then show ?case
    by (simp add: p3_numbered_def p3_device_ok_def DProtocol3_new_def p3_requests_def p3_answered_def p3_pending_def)
next
  case (P3_request s h c ip q s')
  then have IH: "p3_numbered s h" "\<forall>c < length (p3_devices s). p3_device_ok h c (p3_devices s ! c)" by simp_all
  have q: "q = sm_seqNum s" "s' = snd (p3_handle c ip s)" using P3_request.hyps(3) by (auto simp: p3_handle_def)
  have n: "p3_numbered s' (h @ [(c, q, ip)])" using IH(1) by (simp add: p3_numbered_def q p3_handle_def)
  from p3_numbered_distinct [OF this P3_request.prems] have "q \<notin> set (map (\<lambda>(_, q, _). q) h)" by simp
  then show ?case
    using n IH(2) P3_request.hyps(2) p3_device_ok_request [of h c "p3_devices s ! c" q ip]
    by (auto simp: q p3_handle_def nth_list_update intro: p3_device_ok_other)
next
  case (P3_answer s h isTimeOut obj q)
  then show ?case by (simp add: p3_broadcast_def p3_numbered_def p3_device_ok_answer)
next
  case (P3_raw s h obj q data)
  then show ?case by (simp add: p3_broadcast_def p3_numbered_def p3_device_ok_raw)
qed

text \<open>An answer goes to the object whose request has its number, and to no other.\<close>

lemma p3_routed:
  assumes run: "p3_run s h" "length h \<le> 4294967296" and c: "c < length (p3_devices s)"
    and q: "(q, ip) \<in> set (m_idPortSeqMap (p3_devices s ! c))"
  shows "p3_broadcast (p3_receiveData isTimeOut obj q) s = s\<lparr>p3_devices := (p3_devices s)[c := (p3_devices s ! c)
     \<lparr>m_idPortSeqMap := AList.delete q (m_idPortSeqMap (p3_devices s ! c)),
      recviceData := recviceData (p3_devices s ! c) @
        [(idp_id ip, idp_wsPort ip, if isTimeOut then P3_timeout else P3_result obj)]\<rparr>]\<rparr>"
proof -
  note inv = p3_run_ok [OF run]
  have di: "distinct (map (\<lambda>(_, q, _). q) h)" using p3_numbered_distinct run(2) inv by blast
  have ok: "p3_device_ok h k (p3_devices s ! k)" if "k < length (p3_devices s)" for k using inv that by blast
  have h: "(c, q, ip) \<in> set h" using ok [OF c] q by (auto simp: p3_device_ok_def)
  have own: "map_of (m_idPortSeqMap (p3_devices s ! c)) q = Some ip"
    using ok [OF c] q by (simp add: p3_device_ok_def)
  have other: "map_of (m_idPortSeqMap (p3_devices s ! k)) q = None" if k: "k < length (p3_devices s)" "k \<noteq> c" for k
  proof (rule ccontr)
    assume "map_of (m_idPortSeqMap (p3_devices s ! k)) q \<noteq> None"
    then obtain ip' where "(k, q, ip') \<in> set h"
      using ok [OF k(1)] by (auto simp: p3_device_ok_def dest!: map_of_SomeD)
    moreover have "inj_on (\<lambda>(_, q, _). q) (set h)" using di by (simp only: distinct_map)
    ultimately show False using h k(2) inj_onD [of "\<lambda>(_, q, _). q" "set h" "(k, q, ip')" "(c, q, ip)"] by simp
  qed
  have "map (p3_receiveData isTimeOut obj q) (p3_devices s) = (p3_devices s)[c := p3_receiveData isTimeOut obj q (p3_devices s ! c)]"
    using other c by (intro nth_equalityI) (auto simp: p3_receiveData_def nth_list_update)
  then show ?thesis using own by (simp add: p3_broadcast_def p3_receiveData_def)
qed

section \<open>Properties\<close>

text \<open>
  C12. No request is lost and none is answered twice: as long as the counter has not wrapped,
  the requests of every device are exactly those it has answered, each with its own id and port,
  and those still in its table, in every order of requests, sent packets, answers and timeouts of
  all devices.
\<close>
theorem p3_requests_conserved:
  assumes "p3_run s h" and "length h \<le> 4294967296" and "c < length (p3_devices s)"
  shows "p3_requests c h = p3_answered (p3_devices s ! c) + p3_pending (p3_devices s ! c)"
  using p3_run_ok [OF assms(1,2)] assms(3) by (simp add: p3_device_ok_def)

text \<open>
  Although every device hears every answer, an answer goes to the device whose request has its
  number and to no other: that device answers this request once and takes it from its table,
  and nothing else changes.
\<close>
theorem p3_answer_routed:
  assumes run: "p3_run s h" "length h \<le> 4294967296" and c: "c < length (p3_devices s)"
    and q: "(q, ip) \<in> set (m_idPortSeqMap (p3_devices s ! c))"
  shows "p3_broadcast (p3_receiveData isTimeOut obj q) s = s\<lparr>p3_devices := (p3_devices s)[c := (p3_devices s ! c)
     \<lparr>m_idPortSeqMap := AList.delete q (m_idPortSeqMap (p3_devices s ! c)),
      recviceData := recviceData (p3_devices s ! c) @
        [(idp_id ip, idp_wsPort ip, if isTimeOut then P3_timeout else P3_result obj)]\<rparr>]\<rparr>"
  by (rule p3_routed [OF assms])

text \<open>
  A request that finds the command table full is lost without an answer: \<open>sendCmd_slot\<close> does
  nothing, so no packet is sent and no timeout starts, and only a signal with its number could take
  it from the table of its device.
\<close>
theorem full_table_drops_request:
  assumes "\<forall>sl \<in> set (pPacketParmList s). userMark sl"
  shows "p3_sendCmd handle parm m_linkPath packet payloadLen ack s = Some s"
proof -
  have "find_index (\<lambda>sl. \<not> userMark sl) (pPacketParmList s) = None" using assms by (auto simp: find_index_None)
  then show ?thesis by (simp add: p3_sendCmd_def DobotV3_SendCmd_def GetCmdSpace_def Let_def)
qed


text \<open>Two devices with a request each; the second is answered, the first times out.\<close>

definition p3_demo_request :: "64 word \<Rightarrow> IdPortPacket" where
  "p3_demo_request i = \<lparr>idp_id = i, idp_wsPort = 9090, idp_isAck = True\<rparr>"

definition p3_demo_asked :: "unit p3_clients" where
  "p3_demo_asked = snd (p3_handle 1 (p3_demo_request 8) (snd (p3_handle 0 (p3_demo_request 7)
     \<lparr>sm_seqNum = 0, p3_devices = replicate 2 DProtocol3_new\<rparr>)))"

lemma p3_demo_run: "p3_run p3_demo_asked [(0, 0, p3_demo_request 7), (1, 1, p3_demo_request 8)]"
proof -
  let ?s0 = "\<lparr>sm_seqNum = 0, p3_devices = replicate 2 DProtocol3_new\<rparr> :: unit p3_clients"
  let ?s1 = "snd (p3_handle 0 (p3_demo_request 7) ?s0)"
  have "p3_run ?s1 ([] @ [(0, 0, p3_demo_request 7)])"
    by (rule P3_request [OF P3_start [of 2]]) (simp_all add: p3_handle_def)
  then have "p3_run p3_demo_asked (([] @ [(0, 0, p3_demo_request 7)]) @ [(1, 1, p3_demo_request 8)])"
    by (rule P3_request) (simp_all add: p3_handle_def p3_demo_asked_def)
  then show ?thesis by simp
qed

theorem p3_requests_conserved_witness:
  "p3_requests 0 [(0, 0, p3_demo_request 7), (1, 1, p3_demo_request 8)] =
     p3_answered (p3_devices p3_demo_asked ! 0) + p3_pending (p3_devices p3_demo_asked ! 0)"
  by (rule p3_requests_conserved [OF p3_demo_run]) (simp_all add: p3_demo_asked_def p3_handle_def)

theorem p3_answer_routed_witness:
  "map recviceData (p3_devices (p3_broadcast (p3_receiveData False () 1) p3_demo_asked)) = [[], [(8, 9090, P3_result ())]]"
proof -
  have "(1, p3_demo_request 8) \<in> set (m_idPortSeqMap (p3_devices p3_demo_asked ! 1))"
    by (simp add: p3_demo_asked_def p3_handle_def numeral_2_eq_2 DProtocol3_new_def)
  from p3_answer_routed [OF p3_demo_run _ _ this, of False "()"] show ?thesis
    by (simp add: p3_demo_asked_def p3_handle_def numeral_2_eq_2 DProtocol3_new_def p3_demo_request_def)
qed

theorem full_table_drops_request_witness:
  "let s = (p3_started \<lparr>sm_recviveBytes = [], sendRawData_signals = []\<rparr>)\<lparr>pPacketParmList := replicate 100 (empty_slot\<lparr>userMark := True\<rparr>)\<rparr>;
     h = \<lparr>hAddr = 5, pParm = None, hIndex = 0, hUserMark = False\<rparr>;
     parm = \<lparr>cbMark = True, ackMark = True, setParmMark = False, repeatNum = 3, timeOut = 100\<rparr>
   in p3_sendCmd h parm (Some 0) (replicate 20 0) 3 True s = Some s"
  unfolding Let_def by (rule full_table_drops_request) simp

end
