(* ===== verification/P3Api.thy ===== *)
theory P3Api imports P3Client begin

text \<open>
  The commands of the third protocol: \<open>Protocol3/GeneralApi.cpp\<close>, \<open>MagicianGoApi.cpp\<close>,
  \<open>MagicBoxApi.cpp\<close> and \<open>CameraApi.cpp\<close>, one definition for each function that builds a packet.
  The prefixes \<open>Gen\<close>, \<open>Go\<close>, \<open>Box\<close> and \<open>Cam\<close> stand for the four classes; the callbacks of the
  answers are in \<open>P3Answers\<close>. Floating-point arguments are the bits of the numbers.
\<close>

section \<open>Building a packet\<close>

text \<open>
  The packet \<open>m_packFrame\<close> after it has been cleared and its header assigned; every function
  assigns the same values to the fields that are not arguments here.
\<close>

definition p3_head :: "bool \<Rightarrow> bool \<Rightarrow> bool \<Rightarrow> u8 \<Rightarrow> u8 \<Rightarrow> u8 \<Rightarrow> u32 \<Rightarrow> SDobotV3Format_Packet" where
  "p3_head ackField queued rw dst cset cid q =
     \<lparr>sof1 = 0, sof2 = 0, length_f = 0, version = 0x11, needAck = False, isAck = ackField, rwType = rw,
      queueType = queued, encType = 0, errflg = False, seqType = True, seqNum = q, src = 0, des = dst,
      cmdSet = cset, cmdId = cid, headCheck = 0, payloadAndCRC = replicate 514 0\<rparr>"

text \<open>The arguments of \<open>sendCmd_signal\<close>, or undefined behaviour.\<close>

type_synonym p3_emitted = "(SDobotV3Format_Packet \<times> u16 \<times> bool) option"

definition p3_emit :: "SDobotV3Format_Packet \<Rightarrow> u16 \<Rightarrow> bool \<Rightarrow> (nat \<times> bytes) list \<Rightarrow> p3_emitted" where
  "p3_emit p payloadLen ack copies = do {
     pl \<leftarrow> foldM (\<lambda>(i, d) m. wr_range m i d) copies (payloadAndCRC p);
     Some (p\<lparr>payloadAndCRC := pl\<rparr>, payloadLen, ack) }"

definition bool8 :: "bool \<Rightarrow> u8" where
  "bool8 b = (if b then 1 else 0)"

section \<open>General commands\<close>

text \<open>
  \<open>SetDeviceSN\<close> and \<open>SetDeviceName\<close> copy 64 bytes from the variable that holds the address of the
  name, which has eight.
\<close>

definition Gen_HeartBeat :: "u32 \<Rightarrow> p3_emitted" where
  "Gen_HeartBeat q = p3_emit (p3_head False False True 4 0 0 q) 0 True []"

definition Gen_SetDeviceSN :: "u32 \<Rightarrow> u64 \<Rightarrow> p3_emitted" where
  "Gen_SetDeviceSN q deviceSN = do {
     d \<leftarrow> rd_range (bytes64 deviceSN) 0 64;
     p3_emit (p3_head False False True 4 0 10 q) 64 True [(0, d)] }"

definition Gen_GetDeviceSN :: "u32 \<Rightarrow> p3_emitted" where
  "Gen_GetDeviceSN q = p3_emit (p3_head False False False 4 0 10 q) 0 True []"

definition Gen_SetDeviceName :: "u32 \<Rightarrow> u64 \<Rightarrow> p3_emitted" where
  "Gen_SetDeviceName q deviceName = do {
     d \<leftarrow> rd_range (bytes64 deviceName) 0 64;
     p3_emit (p3_head False False True 4 0 11 q) 64 True [(0, d)] }"

definition Gen_GetDeviceName :: "u32 \<Rightarrow> p3_emitted" where
  "Gen_GetDeviceName q = p3_emit (p3_head False False False 4 0 11 q) 0 True []"

definition Gen_GetDeviceFwSoftwareVersion :: "u32 \<Rightarrow> p3_emitted" where
  "Gen_GetDeviceFwSoftwareVersion q = p3_emit (p3_head False False False 4 0 12 q) 0 True []"

definition Gen_GetDeviceFwHardwareVersion :: "u32 \<Rightarrow> p3_emitted" where
  "Gen_GetDeviceFwHardwareVersion q = p3_emit (p3_head False False False 4 0 13 q) 0 True []"

definition Gen_GetDeviceTime :: "u32 \<Rightarrow> p3_emitted" where
  "Gen_GetDeviceTime q = p3_emit (p3_head False False False 4 0 14 q) 0 True []"

definition Gen_GetDeviceID :: "u32 \<Rightarrow> p3_emitted" where
  "Gen_GetDeviceID q = p3_emit (p3_head False False False 4 0 15 q) 0 True []"

definition Gen_GetProductName :: "u32 \<Rightarrow> p3_emitted" where
  "Gen_GetProductName q = p3_emit (p3_head False False False 4 0 17 q) 0 True []"

definition Gen_DeviceReboot :: "u32 \<Rightarrow> p3_emitted" where
  "Gen_DeviceReboot q = p3_emit (p3_head False False True 4 0 20 q) 0 True []"

section \<open>MagicianGo\<close>

definition Go_SetRunningState :: "u32 \<Rightarrow> u8 \<Rightarrow> p3_emitted" where
  "Go_SetRunningState q runningState = p3_emit (p3_head True False True 4 5 0 q) 1 True [(0, [runningState])]"

definition Go_GetRunningState :: "u32 \<Rightarrow> p3_emitted" where
  "Go_GetRunningState q = p3_emit (p3_head True False False 4 5 0 q) 0 True []"

definition Go_SetRunningMode :: "u32 \<Rightarrow> u8 \<Rightarrow> p3_emitted" where
  "Go_SetRunningMode q runningMode = p3_emit (p3_head True False True 4 5 1 q) 1 True [(0, [runningMode])]"

definition Go_GetRunningMode :: "u32 \<Rightarrow> p3_emitted" where
  "Go_GetRunningMode q = p3_emit (p3_head True False False 4 5 1 q) 0 True []"

definition Go_SetBaseMode :: "u32 \<Rightarrow> u8 \<Rightarrow> p3_emitted" where
  "Go_SetBaseMode q baseMode = p3_emit (p3_head True False True 4 5 3 q) 1 True [(0, [baseMode])]"

definition Go_SetBaseSpeedRatio :: "u32 \<Rightarrow> u8 \<Rightarrow> p3_emitted" where
  "Go_SetBaseSpeedRatio q speedRatio = p3_emit (p3_head True False True 4 5 4 q) 1 True [(0, [speedRatio])]"

definition Go_GetBaseSpeedRatio :: "u32 \<Rightarrow> p3_emitted" where
  "Go_GetBaseSpeedRatio q = p3_emit (p3_head True False False 4 5 4 q) 0 True []"

definition Go_SetMoveSpeedTime :: "u32 \<Rightarrow> bool \<Rightarrow> u32 \<Rightarrow> u32 \<Rightarrow> u32 \<Rightarrow> u32 \<Rightarrow> p3_emitted" where
  "Go_SetMoveSpeedTime q ack tm x y r =
     p3_emit (p3_head True False True 4 5 8 q) 16 ack
       [(0, bytes32 tm), (4, bytes32 x), (8, bytes32 y), (12, bytes32 r)]"

definition Go_SetMoveSpeedDirect :: "u32 \<Rightarrow> u32 \<Rightarrow> u32 \<Rightarrow> p3_emitted" where
  "Go_SetMoveSpeedDirect q direction speed =
     p3_emit (p3_head True False True 4 5 9 q) 16 True [(0, bytes32 direction), (4, bytes32 speed)]"

definition Go_SetMoveSpeed :: "u32 \<Rightarrow> u32 \<Rightarrow> u32 \<Rightarrow> u32 \<Rightarrow> p3_emitted" where
  "Go_SetMoveSpeed q x y r =
     p3_emit (p3_head True False True 4 5 10 q) 12 True [(0, bytes32 x), (4, bytes32 y), (8, bytes32 r)]"

definition Go_GetMoveSpeed :: "u32 \<Rightarrow> p3_emitted" where
  "Go_GetMoveSpeed q = p3_emit (p3_head True False False 4 5 10 q) 0 True []"

definition Go_SetRotate :: "u32 \<Rightarrow> u32 \<Rightarrow> u32 \<Rightarrow> p3_emitted" where
  "Go_SetRotate q r Vr = p3_emit (p3_head True True True 4 5 11 q) 8 True [(0, bytes32 r), (4, bytes32 Vr)]"

definition Go_SetMoveDist :: "u32 \<Rightarrow> u32 \<Rightarrow> u32 \<Rightarrow> u32 \<Rightarrow> u32 \<Rightarrow> p3_emitted" where
  "Go_SetMoveDist q x y Vx Vy =
     p3_emit (p3_head True True True 4 5 12 q) 16 True
       [(0, bytes32 x), (4, bytes32 y), (8, bytes32 Vx), (12, bytes32 Vy)]"

definition Go_SetMovePos :: "u32 \<Rightarrow> u32 \<Rightarrow> u32 \<Rightarrow> u32 \<Rightarrow> p3_emitted" where
  "Go_SetMovePos q x y spd =
     p3_emit (p3_head True True True 4 5 13 q) 12 True [(0, bytes32 x), (4, bytes32 y), (8, bytes32 spd)]"

definition Go_SetArcRad :: "u32 \<Rightarrow> u32 \<Rightarrow> u32 \<Rightarrow> u32 \<Rightarrow> u32 \<Rightarrow> p3_emitted" where
  "Go_SetArcRad q velocity radius angle md =
     p3_emit (p3_head True True True 4 5 15 q) 16 True
       [(0, bytes32 velocity), (4, bytes32 radius), (8, bytes32 angle), (12, bytes32 md)]"

definition Go_SetArcCent :: "u32 \<Rightarrow> u32 \<Rightarrow> u32 \<Rightarrow> u32 \<Rightarrow> u32 \<Rightarrow> u32 \<Rightarrow> p3_emitted" where
  "Go_SetArcCent q velocity x y angle md =
     p3_emit (p3_head True True True 4 5 16 q) 20 True
       [(0, bytes32 velocity), (4, bytes32 x), (8, bytes32 y), (12, bytes32 angle), (16, bytes32 md)]"

definition Go_SetCoordClosedLoop :: "u32 \<Rightarrow> u8 \<Rightarrow> u32 \<Rightarrow> p3_emitted" where
  "Go_SetCoordClosedLoop q isEnable angle =
     p3_emit (p3_head True False True 4 5 17 q) 5 True [(0, [isEnable]), (1, bytes32 angle)]"

definition Go_SetIncrementClosedLoop :: "u32 \<Rightarrow> u32 \<Rightarrow> u32 \<Rightarrow> u32 \<Rightarrow> p3_emitted" where
  "Go_SetIncrementClosedLoop q x y angle =
     p3_emit (p3_head True True True 4 5 18 q) 12 True [(0, bytes32 x), (4, bytes32 y), (8, bytes32 angle)]"

definition Go_SetLightRGB :: "u32 \<Rightarrow> u16 \<Rightarrow> u8 \<Rightarrow> u8 \<Rightarrow> u8 \<Rightarrow> u8 \<Rightarrow> u32 \<Rightarrow> u32 \<Rightarrow> p3_emitted" where
  "Go_SetLightRGB q num effect r g b cycle counts =
     p3_emit (p3_head True False True 4 5 20 q) 14 True
       [(0, bytes16 num), (2, [effect]), (3, [r]), (4, [g]), (5, [b]), (6, bytes32 cycle), (10, bytes32 counts)]"

definition Go_SetLightPrompt :: "u32 \<Rightarrow> u32 \<Rightarrow> p3_emitted" where
  "Go_SetLightPrompt q idx = p3_emit (p3_head True False True 4 5 21 q) 1 True [(0, take 1 (bytes32 idx))]"

definition Go_SetBuzzerSound :: "u32 \<Rightarrow> u8 \<Rightarrow> u8 \<Rightarrow> u32 \<Rightarrow> p3_emitted" where
  "Go_SetBuzzerSound q idx tone beat =
     p3_emit (p3_head True False True 4 5 25 q) 6 True [(0, [idx]), (1, [tone]), (2, bytes32 beat)]"

definition Go_SetOriginPoint :: "u32 \<Rightarrow> u8 \<Rightarrow> p3_emitted" where
  "Go_SetOriginPoint q en = p3_emit (p3_head True False True 4 5 26 q) 1 True [(0, [en])]"

definition Go_GetUltrasoundData :: "u32 \<Rightarrow> p3_emitted" where
  "Go_GetUltrasoundData q = p3_emit (p3_head True False False 4 5 30 q) 0 True []"

definition Go_GetSwitchState :: "u32 \<Rightarrow> p3_emitted" where
  "Go_GetSwitchState q = p3_emit (p3_head True False False 4 5 31 q) 0 True []"

definition Go_SetSpeedometer :: "u32 \<Rightarrow> u32 \<Rightarrow> u32 \<Rightarrow> u32 \<Rightarrow> p3_emitted" where
  "Go_SetSpeedometer q x y yaw =
     p3_emit (p3_head True False True 4 5 33 q) 12 True [(0, bytes32 x), (4, bytes32 y), (8, bytes32 yaw)]"

definition Go_GetSpeedometer :: "u32 \<Rightarrow> p3_emitted" where
  "Go_GetSpeedometer q = p3_emit (p3_head True False False 4 5 33 q) 0 True []"

definition Go_GetStallProtection :: "u32 \<Rightarrow> p3_emitted" where
  "Go_GetStallProtection q = p3_emit (p3_head True False False 4 5 34 q) 0 True []"

definition Go_GetOffGround :: "u32 \<Rightarrow> p3_emitted" where
  "Go_GetOffGround q = p3_emit (p3_head True False False 4 5 35 q) 0 True []"

definition Go_GetBatteryVoltage :: "u32 \<Rightarrow> p3_emitted" where
  "Go_GetBatteryVoltage q = p3_emit (p3_head True False False 4 5 36 q) 0 True []"

definition Go_GetImuAngle :: "u32 \<Rightarrow> p3_emitted" where
  "Go_GetImuAngle q = p3_emit (p3_head True False False 4 5 37 q) 0 True []"

definition Go_GetImuSpeed :: "u32 \<Rightarrow> p3_emitted" where
  "Go_GetImuSpeed q = p3_emit (p3_head True False False 4 5 38 q) 0 True []"

definition Go_GetAlarmInfo :: "u32 \<Rightarrow> p3_emitted" where
  "Go_GetAlarmInfo q = p3_emit (p3_head True False False 4 5 40 q) 0 True []"

definition Go_CleanAlarmInfo :: "u32 \<Rightarrow> p3_emitted" where
  "Go_CleanAlarmInfo q = p3_emit (p3_head True False True 4 5 40 q) 0 True []"

definition Go_SetTraceAuto :: "u32 \<Rightarrow> u8 \<Rightarrow> p3_emitted" where
  "Go_SetTraceAuto q isTrace = p3_emit (p3_head True False True 4 5 50 q) 1 True [(0, [isTrace])]"

definition Go_SetTraceLineInfo :: "u32 \<Rightarrow> u8 \<Rightarrow> p3_emitted" where
  "Go_SetTraceLineInfo q lineInfo = p3_emit (p3_head True False True 4 5 51 q) 1 True [(0, [lineInfo])]"

definition Go_SetTraceSpeed :: "u32 \<Rightarrow> u32 \<Rightarrow> p3_emitted" where
  "Go_SetTraceSpeed q speed = p3_emit (p3_head True False True 4 5 52 q) 4 True [(0, bytes32 speed)]"

definition Go_SetTraceLoop :: "u32 \<Rightarrow> bool \<Rightarrow> p3_emitted" where
  "Go_SetTraceLoop q en = p3_emit (p3_head True False True 3 3 217 q) 2 True [(0, [0]), (1, [bool8 en])]"

definition Go_SetLineSensorState :: "u32 \<Rightarrow> u8 \<Rightarrow> u8 \<Rightarrow> p3_emitted" where
  "Go_SetLineSensorState q frontIsEnable backIsEnable =
     p3_emit (p3_head True False True 4 5 53 q) 2 True [(0, [frontIsEnable]), (1, [backIsEnable])]"

definition Go_GetLineSensorState :: "u32 \<Rightarrow> p3_emitted" where
  "Go_GetLineSensorState q = p3_emit (p3_head True False False 4 5 53 q) 0 True []"

definition Go_SetLineSensorAdjust :: "u32 \<Rightarrow> u8 \<Rightarrow> p3_emitted" where
  "Go_SetLineSensorAdjust q deviceNum = p3_emit (p3_head True False True 4 5 54 q) 1 True [(0, [deviceNum])]"

definition Go_SetLineSensorDefault :: "u32 \<Rightarrow> u8 \<Rightarrow> p3_emitted" where
  "Go_SetLineSensorDefault q deviceNum = p3_emit (p3_head True False True 4 5 55 q) 1 True [(0, [deviceNum])]"

definition Go_GetLineSensorData :: "u32 \<Rightarrow> p3_emitted" where
  "Go_GetLineSensorData q = p3_emit (p3_head True False False 4 5 56 q) 0 True []"

definition Go_SetTracePid :: "u32 \<Rightarrow> u32 \<Rightarrow> u32 \<Rightarrow> u32 \<Rightarrow> p3_emitted" where
  "Go_SetTracePid q kp ki kd =
     p3_emit (p3_head True False True 4 5 57 q) 12 True [(0, bytes32 kp), (4, bytes32 ki), (8, bytes32 kd)]"

definition Go_SetCmdQueueStart :: "u32 \<Rightarrow> p3_emitted" where
  "Go_SetCmdQueueStart q = p3_emit (p3_head True False True 4 5 240 q) 0 True []"

definition Go_SetCmdQueueStop :: "u32 \<Rightarrow> p3_emitted" where
  "Go_SetCmdQueueStop q = p3_emit (p3_head True False True 4 5 241 q) 0 True []"

definition Go_SetCmdQueueForcelyStop :: "u32 \<Rightarrow> p3_emitted" where
  "Go_SetCmdQueueForcelyStop q = p3_emit (p3_head True False True 4 5 242 q) 0 True []"

definition Go_CleanCmdQueue :: "u32 \<Rightarrow> p3_emitted" where
  "Go_CleanCmdQueue q = p3_emit (p3_head True False True 4 5 245 q) 0 True []"

definition Go_GetQueuedCmdCurrentIndex :: "u32 \<Rightarrow> p3_emitted" where
  "Go_GetQueuedCmdCurrentIndex q = p3_emit (p3_head True False False 4 5 246 q) 0 True []"

definition Go_GetCmdQueueAvailableSpace :: "u32 \<Rightarrow> p3_emitted" where
  "Go_GetCmdQueueAvailableSpace q = p3_emit (p3_head True False False 4 5 247 q) 0 True []"

definition Go_GetImgToArmXY :: "u32 \<Rightarrow> u32 \<Rightarrow> u32 \<Rightarrow> u8 \<Rightarrow> u8 \<Rightarrow> p3_emitted" where
  "Go_GetImgToArmXY q imgX imgY need_tranxy suck_apriltag =
     p3_emit (p3_head True False False 4 5 217 q) 11 True
       [(0, [13]), (1, bytes32 imgX), (5, bytes32 imgY), (9, [need_tranxy]), (10, [suck_apriltag])]"

section \<open>MagicBox\<close>

text \<open>
  \<open>SetMagicBoxScriptMode\<close> copies from the variable \<open>c\<close> that holds the address of the name, as many
  bytes as the name has. \<open>nam\<close> is the name in UTF-8 with the 0 behind it.
\<close>

definition Box_GetMagicBoxMode :: "u32 \<Rightarrow> p3_emitted" where
  "Box_GetMagicBoxMode q = p3_emit (p3_head False False False 3 3 192 q) 0 True []"

definition Box_GetMagicBoxNum :: "u32 \<Rightarrow> p3_emitted" where
  "Box_GetMagicBoxNum q = p3_emit (p3_head False False False 3 3 193 q) 0 True []"

definition Box_SetMagicBoxScriptMode :: "u32 \<Rightarrow> u8 \<Rightarrow> bytes \<Rightarrow> u64 \<Rightarrow> p3_emitted" where
  "Box_SetMagicBoxScriptMode q isEnable nam c =
     (let n = length (takeWhile (\<lambda>x. x \<noteq> 0) nam) in do {
        d \<leftarrow> rd_range (bytes64 c) 0 n;
        p3_emit (p3_head False False False 3 3 199 q) (1 + of_nat n) True [(0, [isEnable]), (1, d)] })"

definition Box_SetStopPointServer :: "u32 \<Rightarrow> u16 \<Rightarrow> u16 \<Rightarrow> p3_emitted" where
  "Box_SetStopPointServer q PointX PointY =
     p3_emit (p3_head False False True 3 3 217 q) 5 True [(0, [10]), (1, bytes16 PointX), (3, bytes16 PointY)]"

definition Box_SetStopPointParam :: "u32 \<Rightarrow> u16 \<Rightarrow> u16 \<Rightarrow> p3_emitted" where
  "Box_SetStopPointParam q scopeErr stopErr =
     p3_emit (p3_head False False True 3 3 217 q) 5 True [(0, [11]), (1, bytes16 scopeErr), (3, bytes16 stopErr)]"

definition Box_GetStopPointState :: "u32 \<Rightarrow> p3_emitted" where
  "Box_GetStopPointState q = p3_emit (p3_head False False False 3 3 217 q) 1 True [(0, [12])]"

section \<open>Cameras\<close>

definition Cam_GetArmCameraAngle :: "u32 \<Rightarrow> p3_emitted" where
  "Cam_GetArmCameraAngle q = p3_emit (p3_head False False False 33 32 10 q) 0 True []"

definition Cam_GetArmCameraColor :: "u32 \<Rightarrow> p3_emitted" where
  "Cam_GetArmCameraColor q = p3_emit (p3_head False False False 33 32 20 q) 0 True []"

definition Cam_GetArmCameraObj :: "u32 \<Rightarrow> p3_emitted" where
  "Cam_GetArmCameraObj q = p3_emit (p3_head False False False 33 32 30 q) 0 True []"

definition Cam_GetArmCameraTag :: "u32 \<Rightarrow> p3_emitted" where
  "Cam_GetArmCameraTag q = p3_emit (p3_head False False False 33 32 50 q) 0 True []"

definition Cam_SetArmCameraCalibrationMode :: "u32 \<Rightarrow> u8 \<Rightarrow> p3_emitted" where
  "Cam_SetArmCameraCalibrationMode q isEnableCali =
     p3_emit (p3_head False False True 33 32 103 q) 1 True [(0, [isEnableCali])]"

definition Cam_GetArmCameraCalibrationMode :: "u32 \<Rightarrow> p3_emitted" where
  "Cam_GetArmCameraCalibrationMode q = p3_emit (p3_head False False False 33 32 103 q) 0 True []"

definition Cam_SetArmCameraRunModel :: "u32 \<Rightarrow> u8 \<Rightarrow> p3_emitted" where
  "Cam_SetArmCameraRunModel q runModelIndex =
     p3_emit (p3_head False False True 33 32 102 q) 1 True [(0, [runModelIndex])]"

definition Cam_GetArmCameraRunModel :: "u32 \<Rightarrow> p3_emitted" where
  "Cam_GetArmCameraRunModel q = p3_emit (p3_head False False False 33 32 102 q) 0 True []"

definition Cam_GetCarCameraAngle :: "u32 \<Rightarrow> p3_emitted" where
  "Cam_GetCarCameraAngle q = p3_emit (p3_head False False False 32 32 10 q) 0 True []"

definition Cam_GetCarCameraColor :: "u32 \<Rightarrow> p3_emitted" where
  "Cam_GetCarCameraColor q = p3_emit (p3_head False False False 32 32 20 q) 0 True []"

definition Cam_GetCarCameraObj :: "u32 \<Rightarrow> p3_emitted" where
  "Cam_GetCarCameraObj q = p3_emit (p3_head False False False 32 32 30 q) 0 True []"

definition Cam_GetCarCameraTag :: "u32 \<Rightarrow> p3_emitted" where
  "Cam_GetCarCameraTag q = p3_emit (p3_head False False False 32 32 50 q) 0 True []"

definition Cam_SetCarCameraCalibrationMode :: "u32 \<Rightarrow> u8 \<Rightarrow> p3_emitted" where
  "Cam_SetCarCameraCalibrationMode q isEnableCali =
     p3_emit (p3_head False False True 32 32 103 q) 1 True [(0, [isEnableCali])]"

definition Cam_GetCarCameraCalibrationMode :: "u32 \<Rightarrow> p3_emitted" where
  "Cam_GetCarCameraCalibrationMode q = p3_emit (p3_head False False False 32 32 103 q) 0 True []"

definition Cam_SetCarCameraRunModel :: "u32 \<Rightarrow> u8 \<Rightarrow> p3_emitted" where
  "Cam_SetCarCameraRunModel q runModelIndex =
     p3_emit (p3_head False False True 32 32 102 q) 1 True [(0, [runModelIndex])]"

definition Cam_GetCarCameraRunModel :: "u32 \<Rightarrow> p3_emitted" where
  "Cam_GetCarCameraRunModel q = p3_emit (p3_head False False False 32 32 102 q) 0 True []"

lemmas gen_defs = Gen_HeartBeat_def Gen_SetDeviceSN_def Gen_GetDeviceSN_def Gen_SetDeviceName_def
  Gen_GetDeviceName_def Gen_GetDeviceFwSoftwareVersion_def Gen_GetDeviceFwHardwareVersion_def
  Gen_GetDeviceTime_def Gen_GetDeviceID_def Gen_GetProductName_def Gen_DeviceReboot_def

lemmas go_defs = Go_SetRunningState_def Go_GetRunningState_def Go_SetRunningMode_def Go_GetRunningMode_def
  Go_SetBaseMode_def Go_SetBaseSpeedRatio_def Go_GetBaseSpeedRatio_def Go_SetMoveSpeedTime_def
  Go_SetMoveSpeedDirect_def Go_SetMoveSpeed_def Go_GetMoveSpeed_def Go_SetRotate_def Go_SetMoveDist_def
  Go_SetMovePos_def Go_SetArcRad_def Go_SetArcCent_def Go_SetCoordClosedLoop_def Go_SetIncrementClosedLoop_def
  Go_SetLightRGB_def Go_SetLightPrompt_def Go_SetBuzzerSound_def Go_SetOriginPoint_def Go_GetUltrasoundData_def
  Go_GetSwitchState_def Go_SetSpeedometer_def Go_GetSpeedometer_def Go_GetStallProtection_def
  Go_GetOffGround_def Go_GetBatteryVoltage_def Go_GetImuAngle_def Go_GetImuSpeed_def Go_GetAlarmInfo_def
  Go_CleanAlarmInfo_def Go_SetTraceAuto_def Go_SetTraceLineInfo_def Go_SetTraceSpeed_def Go_SetTraceLoop_def
  Go_SetLineSensorState_def Go_GetLineSensorState_def Go_SetLineSensorAdjust_def Go_SetLineSensorDefault_def
  Go_GetLineSensorData_def Go_SetTracePid_def Go_SetCmdQueueStart_def Go_SetCmdQueueStop_def
  Go_SetCmdQueueForcelyStop_def Go_CleanCmdQueue_def Go_GetQueuedCmdCurrentIndex_def
  Go_GetCmdQueueAvailableSpace_def Go_GetImgToArmXY_def

lemmas box_defs = Box_GetMagicBoxMode_def Box_GetMagicBoxNum_def Box_SetMagicBoxScriptMode_def
  Box_SetStopPointServer_def Box_SetStopPointParam_def Box_GetStopPointState_def

lemmas cam_defs = Cam_GetArmCameraAngle_def Cam_GetArmCameraColor_def Cam_GetArmCameraObj_def
  Cam_GetArmCameraTag_def Cam_SetArmCameraCalibrationMode_def Cam_GetArmCameraCalibrationMode_def
  Cam_SetArmCameraRunModel_def Cam_GetArmCameraRunModel_def Cam_GetCarCameraAngle_def Cam_GetCarCameraColor_def
  Cam_GetCarCameraObj_def Cam_GetCarCameraTag_def Cam_SetCarCameraCalibrationMode_def
  Cam_GetCarCameraCalibrationMode_def Cam_SetCarCameraRunModel_def Cam_GetCarCameraRunModel_def

end
