(* ===== verification/P3Answers.thy ===== *)
theory P3Answers imports P3Api JsonFields begin

text \<open>
  The callbacks of the third protocol, which turn the answer to a command into a JSON object
  for the client, and their registration: the \<open>_CB\<close> functions and the constructors of
  \<open>GeneralApi\<close>, \<open>MagicianGoApi\<close>, \<open>MagicBoxApi\<close> and \<open>CameraApi\<close>.
\<close>

section \<open>Reading the answer\<close>

text \<open>\<open>payloadAndCRC\<close> of the packet a callback gets, with 514 bytes.\<close>

definition cb_payload :: "cb_parm \<Rightarrow> bytes" where
  "cb_payload c = drop DobotV3Format_HEADLEN (cbPacket c)"

text \<open>
  The loops over what the cameras see: as many structures of \<open>sz\<close> bytes as the first byte says,
  from the third byte on, each with five bytes and what \<open>extra\<close> adds.
\<close>

definition object_at :: "nat \<Rightarrow> (string \<times> json_field) list \<Rightarrow> nat \<Rightarrow> json_field" where
  "object_at sz extra i p = do {
     d \<leftarrow> rd_range p i sz;
     map_option JObject (read_fields
       ([(''x'', u8_at 0), (''y'', u8_at 1), (''w'', u8_at 2), (''h'', u8_at 3), (''id'', u8_at 4)] @ extra) d) }"

definition objects_at :: "nat \<Rightarrow> (string \<times> json_field) list \<Rightarrow> json_field" where
  "objects_at sz extra p = do {
     count \<leftarrow> rd8 p 0;
     array_at (map (\<lambda>i. object_at sz extra (2 + sz * i)) [0..<unat count]) p }"

section \<open>The callbacks\<close>

text \<open>
  The arguments \<open>isTimeOut\<close> and \<open>jsonObj\<close> of \<open>receiveData_signal\<close>, or undefined behaviour.
  \<open>cb_read\<close> is the form that distinguishes reading from writing by the answer's \<open>rwType\<close>.
\<close>

type_synonym p3_answer = "(bool \<times> json_object) option"

definition cb_result :: "cb_parm \<Rightarrow> json_object option \<Rightarrow> p3_answer" where
  "cb_result c obj = (if cbError c = DobotV3CmdInter_TIMEOUT then Some (True, []) else map_option (Pair False) obj)"

abbreviation result_true :: json_object where
  "result_true \<equiv> [(''result'', JStr ''true'')]"

definition cb_answer :: "cb_parm \<Rightarrow> (string \<times> json_field) list \<Rightarrow> p3_answer" where
  "cb_answer c fs = cb_result c (read_fields fs (cb_payload c))"

definition cb_done :: "cb_parm \<Rightarrow> p3_answer" where
  "cb_done c = cb_result c (Some result_true)"

definition cb_read :: "cb_parm \<Rightarrow> (string \<times> json_field) list \<Rightarrow> p3_answer" where
  "cb_read c fs = cb_result c (do {
     rw \<leftarrow> pk_rwType (cbPacket c);
     if \<not> rw then read_fields fs (cb_payload c) else Some result_true })"

subsection \<open>General\<close>

definition HeartBeat_CB :: "cb_parm \<Rightarrow> p3_answer" where
  "HeartBeat_CB c = cb_done c"

definition DeviceSN_CB :: "cb_parm \<Rightarrow> p3_answer" where
  "DeviceSN_CB c = cb_read c [(''deviceSN'', chars_at 0 64)]"

definition DeviceName_CB :: "cb_parm \<Rightarrow> p3_answer" where
  "DeviceName_CB c = cb_read c [(''deviceName'', chars_at 0 64)]"

definition GetDeviceFwSoftwareVersion_CB :: "cb_parm \<Rightarrow> p3_answer" where
  "GetDeviceFwSoftwareVersion_CB c =
     cb_answer c [(''previousVersionNum'', u8_at 3),
       (''revisionVersionNum'', u8_at 2), (''secondVersionNum'', u8_at 1), (''majorVersionNum'', u8_at 0)]"

definition GetDeviceFwHardwareVersion_CB :: "cb_parm \<Rightarrow> p3_answer" where
  "GetDeviceFwHardwareVersion_CB c =
     cb_answer c [(''previousVersionNum'', u8_at 0),
       (''revisionVersionNum'', u8_at 1), (''secondVersionNum'', u8_at 2), (''majorVersionNum'', u8_at 3)]"

definition GetDeviceTime_CB :: "cb_parm \<Rightarrow> p3_answer" where
  "GetDeviceTime_CB c = cb_answer c [(''deviceTime'', i32_at 0), (''passtime'', time_at 0)]"

definition GetDeviceID_CB :: "cb_parm \<Rightarrow> p3_answer" where
  "GetDeviceID_CB c = cb_answer c [(''deviceID'', array_at (map (\<lambda>i. i32_at (i * 4)) [0..<3]))]"

definition GetProductName_CB :: "cb_parm \<Rightarrow> p3_answer" where
  "GetProductName_CB c = cb_answer c [(''productName'', chars_at 0 64)]"

definition DeviceReboot_CB :: "cb_parm \<Rightarrow> p3_answer" where
  "DeviceReboot_CB c = cb_done c"

subsection \<open>MagicianGo\<close>

definition RunningState_CB :: "cb_parm \<Rightarrow> p3_answer" where
  "RunningState_CB c = cb_read c [(''runningState'', u8_at 0)]"

definition RunningMode_CB :: "cb_parm \<Rightarrow> p3_answer" where
  "RunningMode_CB c = cb_read c [(''runningMode'', u8_at 0)]"

definition SetBaseMode_CB :: "cb_parm \<Rightarrow> p3_answer" where
  "SetBaseMode_CB c = cb_done c"

definition BaseSpeedRatio_CB :: "cb_parm \<Rightarrow> p3_answer" where
  "BaseSpeedRatio_CB c = cb_read c [(''speedRatio'', u8_at 0)]"

text \<open>The \<open>if\<close> after the test for a timeout has no \<open>else\<close> before it, and both of its branches are the same.\<close>

definition SetMoveSpeedTime_CB :: "cb_parm \<Rightarrow> p3_answer" where
  "SetMoveSpeedTime_CB c = Some (False, result_true)"

definition SetMoveSpeedDirect_CB :: "cb_parm \<Rightarrow> p3_answer" where
  "SetMoveSpeedDirect_CB c = cb_done c"

definition MoveSpeed_CB :: "cb_parm \<Rightarrow> p3_answer" where
  "MoveSpeed_CB c = cb_read c [(''x'', f32_at 0), (''y'', f32_at 4), (''r'', f32_at 8)]"

definition SetRotate_CB :: "cb_parm \<Rightarrow> p3_answer" where
  "SetRotate_CB c = cb_answer c [(''index'', u64_at 0)]"

definition SetMoveDist_CB :: "cb_parm \<Rightarrow> p3_answer" where
  "SetMoveDist_CB c = cb_answer c [(''index'', u64_at 0)]"

definition SetMovePos_CB :: "cb_parm \<Rightarrow> p3_answer" where
  "SetMovePos_CB c = cb_answer c [(''index'', u64_at 0)]"

definition SetArcRad_CB :: "cb_parm \<Rightarrow> p3_answer" where
  "SetArcRad_CB c = cb_answer c [(''index'', u64_at 0)]"

definition SetArcCent_CB :: "cb_parm \<Rightarrow> p3_answer" where
  "SetArcCent_CB c = cb_answer c [(''index'', u64_at 0)]"

definition SetCoordClosedLoop_CB :: "cb_parm \<Rightarrow> p3_answer" where
  "SetCoordClosedLoop_CB c = cb_done c"

definition SetIncrementClosedLoop_CB :: "cb_parm \<Rightarrow> p3_answer" where
  "SetIncrementClosedLoop_CB c = cb_answer c [(''index'', u64_at 0)]"

definition SetLightRGB_CB :: "cb_parm \<Rightarrow> p3_answer" where
  "SetLightRGB_CB c = cb_done c"

definition SetLightPrompt_CB :: "cb_parm \<Rightarrow> p3_answer" where
  "SetLightPrompt_CB c = cb_done c"

definition SetBuzzerSound_CB :: "cb_parm \<Rightarrow> p3_answer" where
  "SetBuzzerSound_CB c = cb_done c"

definition SetOriginPoint_CB :: "cb_parm \<Rightarrow> p3_answer" where
  "SetOriginPoint_CB c = cb_done c"

definition GetUltrasoundData_CB :: "cb_parm \<Rightarrow> p3_answer" where
  "GetUltrasoundData_CB c =
     cb_answer c [(''front'', u8_at 0), (''back'', u8_at 1), (''left'', u8_at 2), (''right'', u8_at 3)]"

definition GetSwitchState_CB :: "cb_parm \<Rightarrow> p3_answer" where
  "GetSwitchState_CB c =
     cb_answer c [(''front_left'', u8_at 0), (''back_right'', u8_at 1), (''rear_left'', u8_at 2), (''rear_right'', u8_at 3)]"

definition SetSpeedometer_CB :: "cb_parm \<Rightarrow> p3_answer" where
  "SetSpeedometer_CB c = cb_done c"

definition GetSpeedometer_CB :: "cb_parm \<Rightarrow> p3_answer" where
  "GetSpeedometer_CB c = cb_answer c [(''x'', f32_at 0), (''y'', f32_at 4), (''yaw'', f32_at 8)]"

definition GetStallProtection_CB :: "cb_parm \<Rightarrow> p3_answer" where
  "GetStallProtection_CB c = cb_answer c [(''isHappened'', u8_at 0)]"

definition GetOffGround_CB :: "cb_parm \<Rightarrow> p3_answer" where
  "GetOffGround_CB c = cb_answer c [(''isHappened'', u8_at 0)]"

definition GetBatteryVoltage_CB :: "cb_parm \<Rightarrow> p3_answer" where
  "GetBatteryVoltage_CB c =
     cb_answer c [(''powerVoltage'', f32_at 0), (''powerPercentage'', f32_at 4), (''powerSourceStatus'', u8_at 8)]"

definition GetImuAngle_CB :: "cb_parm \<Rightarrow> p3_answer" where
  "GetImuAngle_CB c = cb_answer c [(''yaw'', f32_at 0), (''roll'', f32_at 4), (''pitch'', f32_at 8)]"

definition GetImuSpeed_CB :: "cb_parm \<Rightarrow> p3_answer" where
  "GetImuSpeed_CB c =
     cb_answer c [(''ax'', f32_at 0), (''ay'', f32_at 4), (''az'', f32_at 8), (''gx'', f32_at 12),
       (''gy'', f32_at 16), (''gz'', f32_at 20)]"

definition AlarmInfo_CB :: "cb_parm \<Rightarrow> p3_answer" where
  "AlarmInfo_CB c = cb_read c [(''warning'', array_at (map u8_at [0..<16]))]"

definition SetTraceAuto_CB :: "cb_parm \<Rightarrow> p3_answer" where
  "SetTraceAuto_CB c = cb_done c"

definition SetTraceLineInfo_CB :: "cb_parm \<Rightarrow> p3_answer" where
  "SetTraceLineInfo_CB c = cb_done c"

definition SetTraceSpeed_CB :: "cb_parm \<Rightarrow> p3_answer" where
  "SetTraceSpeed_CB c = cb_done c"

definition LineSensorState_CB :: "cb_parm \<Rightarrow> p3_answer" where
  "LineSensorState_CB c = cb_read c [(''frontIsEnable'', u8_at 0), (''backIsEnable'', u8_at 1)]"

definition SetLineSensorAdjust_CB :: "cb_parm \<Rightarrow> p3_answer" where
  "SetLineSensorAdjust_CB c = cb_done c"

definition SetLineSensorDefault_CB :: "cb_parm \<Rightarrow> p3_answer" where
  "SetLineSensorDefault_CB c = cb_done c"

definition GetLineSensorData_CB :: "cb_parm \<Rightarrow> p3_answer" where
  "GetLineSensorData_CB c = cb_answer c [(''front'', u16_at 0), (''back'', u16_at 2)]"

definition SetCmdQueueStart_CB :: "cb_parm \<Rightarrow> p3_answer" where
  "SetCmdQueueStart_CB c = cb_done c"

definition SetCmdQueueStop_CB :: "cb_parm \<Rightarrow> p3_answer" where
  "SetCmdQueueStop_CB c = cb_done c"

definition SetCmdQueueForcelyStop_CB :: "cb_parm \<Rightarrow> p3_answer" where
  "SetCmdQueueForcelyStop_CB c = cb_done c"

definition CleanCmdQueue_CB :: "cb_parm \<Rightarrow> p3_answer" where
  "CleanCmdQueue_CB c = cb_done c"

definition GetQueuedCmdCurrentIndex_CB :: "cb_parm \<Rightarrow> p3_answer" where
  "GetQueuedCmdCurrentIndex_CB c = cb_answer c [(''queueCmdCurrentIndex'', u64_at 0)]"

definition GetCmdQueueAvailableSpace_CB :: "cb_parm \<Rightarrow> p3_answer" where
  "GetCmdQueueAvailableSpace_CB c = cb_answer c [(''space'', u64_at 0)]"

definition SetTracePid_CB :: "cb_parm \<Rightarrow> p3_answer" where
  "SetTracePid_CB c = cb_done c"

definition SetTraceLoop_CB :: "cb_parm \<Rightarrow> p3_answer" where
  "SetTraceLoop_CB c = cb_done c"

definition GetImgToArmXY_CB :: "cb_parm \<Rightarrow> p3_answer" where
  "GetImgToArmXY_CB c = cb_answer c [(''armX'', f32_at 1), (''armY'', f32_at 5), (''okflag'', u8_at 9)]"

subsection \<open>MagicBox\<close>

definition GetMagicBoxMode_CB :: "cb_parm \<Rightarrow> p3_answer" where
  "GetMagicBoxMode_CB c = cb_answer c [(''mode'', u8_at 0)]"

text \<open>The decimal digits of a number, as \<open>QString::arg\<close> writes them.\<close>

fun dec_digits :: "nat \<Rightarrow> string" where
  "dec_digits n = (if n < 10 then [char_of (48 + n)] else dec_digits (n div 10) @ [char_of (48 + n mod 10)])"

declare dec_digits.simps [simp del]

definition GetMagicBoxNum_CB :: "cb_parm \<Rightarrow> p3_answer" where
  "GetMagicBoxNum_CB c = cb_result c (do {
     num \<leftarrow> rd8 (cb_payload c) 0;
     read_fields ((''num'', u8_at 0) # map (\<lambda>i. (''Device'' @ dec_digits (i + 1), u8_at (i + 1))) [0..<unat num])
       (cb_payload c) })"

definition SetMagicBoxScriptMode_CB :: "cb_parm \<Rightarrow> p3_answer" where
  "SetMagicBoxScriptMode_CB c = cb_answer c [(''result'', u8_at 0)]"

definition SetStopPointServer_CB :: "cb_parm \<Rightarrow> p3_answer" where
  "SetStopPointServer_CB c = cb_done c"

definition SetStopPointParam_CB :: "cb_parm \<Rightarrow> p3_answer" where
  "SetStopPointParam_CB c = cb_done c"

definition GetStopPointState_CB :: "cb_parm \<Rightarrow> p3_answer" where
  "GetStopPointState_CB c = cb_result c (do {
     subID \<leftarrow> rd8 (cb_payload c) 0;
     read_fields [(''result'', bool_at 1)] (cb_payload c) })"

subsection \<open>Cameras\<close>

definition GetArmCameraAngle_CB :: "cb_parm \<Rightarrow> p3_answer" where
  "GetArmCameraAngle_CB c = cb_answer c [(''count'', u8_at 0), (''crc'', u8_at 1), (''angle'', u8_at 3)]"

definition GetArmCameraColor_CB :: "cb_parm \<Rightarrow> p3_answer" where
  "GetArmCameraColor_CB c = cb_answer c [(''count'', u8_at 0), (''color_obj'', objects_at 5 [])]"

definition GetArmCameraObj_CB :: "cb_parm \<Rightarrow> p3_answer" where
  "GetArmCameraObj_CB c = cb_answer c [(''count'', u8_at 0), (''dl_obj'', objects_at 5 [])]"

definition GetArmCameraTag_CB :: "cb_parm \<Rightarrow> p3_answer" where
  "GetArmCameraTag_CB c =
     cb_answer c [(''count'', u8_at 0), (''crc'', u8_at 1), (''aptag_obj'', objects_at 9 [(''rot'', degrees_at 5)])]"

definition SetArmCameraCalibrationMode_CB :: "cb_parm \<Rightarrow> p3_answer" where
  "SetArmCameraCalibrationMode_CB c = cb_done c"

definition ArmCameraCalibrationMode_CB :: "cb_parm \<Rightarrow> p3_answer" where
  "ArmCameraCalibrationMode_CB c = cb_read c [(''isEnableCali'', u8_at 0)]"

definition SetArmCameraRunModel_CB :: "cb_parm \<Rightarrow> p3_answer" where
  "SetArmCameraRunModel_CB c = cb_done c"

definition ArmCameraRunModel_CB :: "cb_parm \<Rightarrow> p3_answer" where
  "ArmCameraRunModel_CB c = cb_read c [(''runModelIndex'', u8_at 0)]"

definition GetCarCameraAngle_CB :: "cb_parm \<Rightarrow> p3_answer" where
  "GetCarCameraAngle_CB c = cb_answer c [(''count'', u8_at 0), (''angle'', u8_at 2)]"

definition GetCarCameraColor_CB :: "cb_parm \<Rightarrow> p3_answer" where
  "GetCarCameraColor_CB c = cb_answer c [(''count'', u8_at 0), (''color_obj'', objects_at 5 [])]"

definition GetCarCameraObj_CB :: "cb_parm \<Rightarrow> p3_answer" where
  "GetCarCameraObj_CB c = cb_answer c [(''count'', u8_at 0), (''dl_obj'', objects_at 5 [])]"

definition GetCarCameraTag_CB :: "cb_parm \<Rightarrow> p3_answer" where
  "GetCarCameraTag_CB c = cb_answer c [(''count'', u8_at 0), (''aptag_obj'', objects_at 9 [(''rot'', degrees_at 5)])]"

definition SetCarCameraCalibrationMode_CB :: "cb_parm \<Rightarrow> p3_answer" where
  "SetCarCameraCalibrationMode_CB c = cb_done c"

definition CarCameraCalibrationMode_CB :: "cb_parm \<Rightarrow> p3_answer" where
  "CarCameraCalibrationMode_CB c = cb_read c [(''isEnableCali'', u8_at 0)]"

definition SetCarCameraRunModel_CB :: "cb_parm \<Rightarrow> p3_answer" where
  "SetCarCameraRunModel_CB c = cb_done c"

definition CarCameraRunModel_CB :: "cb_parm \<Rightarrow> p3_answer" where
  "CarCameraRunModel_CB c = cb_read c [(''runModelIndex'', u8_at 0)]"

lemmas gen_cb_defs = HeartBeat_CB_def DeviceSN_CB_def DeviceName_CB_def GetDeviceFwSoftwareVersion_CB_def
  GetDeviceFwHardwareVersion_CB_def GetDeviceTime_CB_def GetDeviceID_CB_def GetProductName_CB_def
  DeviceReboot_CB_def

lemmas go_cb_defs = RunningState_CB_def RunningMode_CB_def SetBaseMode_CB_def BaseSpeedRatio_CB_def
  SetMoveSpeedTime_CB_def SetMoveSpeedDirect_CB_def MoveSpeed_CB_def SetRotate_CB_def SetMoveDist_CB_def
  SetMovePos_CB_def SetArcRad_CB_def SetArcCent_CB_def SetCoordClosedLoop_CB_def SetIncrementClosedLoop_CB_def
  SetLightRGB_CB_def SetLightPrompt_CB_def SetBuzzerSound_CB_def SetOriginPoint_CB_def GetUltrasoundData_CB_def
  GetSwitchState_CB_def SetSpeedometer_CB_def GetSpeedometer_CB_def GetStallProtection_CB_def
  GetOffGround_CB_def GetBatteryVoltage_CB_def GetImuAngle_CB_def GetImuSpeed_CB_def AlarmInfo_CB_def
  SetTraceAuto_CB_def SetTraceLineInfo_CB_def SetTraceSpeed_CB_def LineSensorState_CB_def
  SetLineSensorAdjust_CB_def SetLineSensorDefault_CB_def GetLineSensorData_CB_def SetCmdQueueStart_CB_def
  SetCmdQueueStop_CB_def SetCmdQueueForcelyStop_CB_def CleanCmdQueue_CB_def GetQueuedCmdCurrentIndex_CB_def
  GetCmdQueueAvailableSpace_CB_def SetTracePid_CB_def SetTraceLoop_CB_def GetImgToArmXY_CB_def

lemmas box_cb_defs = GetMagicBoxMode_CB_def GetMagicBoxNum_CB_def SetMagicBoxScriptMode_CB_def
  SetStopPointServer_CB_def SetStopPointParam_CB_def GetStopPointState_CB_def

lemmas cam_cb_defs = GetArmCameraAngle_CB_def GetArmCameraColor_CB_def GetArmCameraObj_CB_def
  GetArmCameraTag_CB_def SetArmCameraCalibrationMode_CB_def ArmCameraCalibrationMode_CB_def
  SetArmCameraRunModel_CB_def ArmCameraRunModel_CB_def GetCarCameraAngle_CB_def GetCarCameraColor_CB_def
  GetCarCameraObj_CB_def GetCarCameraTag_CB_def SetCarCameraCalibrationMode_CB_def
  CarCameraCalibrationMode_CB_def SetCarCameraRunModel_CB_def CarCameraRunModel_CB_def

section \<open>Registration\<close>

text \<open>The library with the signals of the four classes as part of its environment.\<close>

record p3_world = p3_adapter +
  receiveData_signals :: "(u32 \<times> p3_answer) list"

definition p3_callback :: "(cb_parm \<Rightarrow> p3_answer) \<Rightarrow> cb_parm \<Rightarrow> p3_world \<Rightarrow> p3_world" where
  "p3_callback f c w = w\<lparr>receiveData_signals := receiveData_signals w @ [(p3_seqNum (cbPacket c), f c)]\<rparr>"

text \<open>
  The calls \<open>registerGeneralCB\<close> and so on, each with the number of its callback list; what they
  return is ignored.
\<close>

abbreviation general_cbs :: nat where "general_cbs \<equiv> 1"
abbreviation go_cbs :: nat where "go_cbs \<equiv> 2"
abbreviation arm_cbs :: nat where "arm_cbs \<equiv> 3"
abbreviation car_cbs :: nat where "car_cbs \<equiv> 4"
abbreviation box_cbs :: nat where "box_cbs \<equiv> 5"

type_synonym p3_registration = "nat \<times> u16 \<times> (cb_parm \<Rightarrow> p3_answer)"

definition p3_register :: "p3_registration list \<Rightarrow> p3_world cmd_state \<Rightarrow> p3_world cmd_state option" where
  "p3_register rs s = foldM (\<lambda>(l, ident, f) s. map_option snd (RegisterCB l ident (Some (p3_callback f)) s)) rs s"

definition gen_callbacks :: "p3_registration list" where
  "gen_callbacks = [(general_cbs, 0, HeartBeat_CB), (general_cbs, 10, DeviceSN_CB), (general_cbs, 11, DeviceName_CB),
     (general_cbs, 12, GetDeviceFwSoftwareVersion_CB), (general_cbs, 13, GetDeviceFwHardwareVersion_CB),
     (general_cbs, 14, GetDeviceTime_CB), (general_cbs, 15, GetDeviceID_CB), (general_cbs, 17, GetProductName_CB),
     (general_cbs, 20, DeviceReboot_CB)]"

definition go_callbacks :: "p3_registration list" where
  "go_callbacks = [(go_cbs, 0, RunningState_CB), (go_cbs, 1, RunningMode_CB), (go_cbs, 3, SetBaseMode_CB),
     (go_cbs, 10, MoveSpeed_CB), (go_cbs, 4, BaseSpeedRatio_CB), (go_cbs, 9, SetMoveSpeedDirect_CB),
     (go_cbs, 11, SetRotate_CB), (go_cbs, 12, SetMoveDist_CB), (go_cbs, 13, SetMovePos_CB),
     (go_cbs, 15, SetArcRad_CB), (go_cbs, 16, SetArcCent_CB), (go_cbs, 17, SetCoordClosedLoop_CB),
     (go_cbs, 18, SetIncrementClosedLoop_CB), (go_cbs, 20, SetLightRGB_CB), (go_cbs, 21, SetLightPrompt_CB),
     (go_cbs, 25, SetBuzzerSound_CB), (go_cbs, 26, SetOriginPoint_CB), (go_cbs, 30, GetUltrasoundData_CB),
     (go_cbs, 31, GetSwitchState_CB), (go_cbs, 56, GetLineSensorData_CB), (go_cbs, 33, SetSpeedometer_CB),
     (go_cbs, 33, GetSpeedometer_CB), (go_cbs, 34, GetStallProtection_CB), (go_cbs, 35, GetOffGround_CB),
     (go_cbs, 36, GetBatteryVoltage_CB), (go_cbs, 37, GetImuAngle_CB), (go_cbs, 38, GetImuSpeed_CB),
     (go_cbs, 40, AlarmInfo_CB), (go_cbs, 50, SetTraceAuto_CB), (go_cbs, 51, SetTraceLineInfo_CB),
     (go_cbs, 52, SetTraceSpeed_CB), (go_cbs, 53, LineSensorState_CB), (go_cbs, 54, SetLineSensorAdjust_CB),
     (go_cbs, 55, SetLineSensorDefault_CB), (go_cbs, 56, GetLineSensorData_CB), (go_cbs, 57, SetTracePid_CB),
     (go_cbs, 240, SetCmdQueueStart_CB), (go_cbs, 241, SetCmdQueueStop_CB), (go_cbs, 242, SetCmdQueueForcelyStop_CB),
     (go_cbs, 245, CleanCmdQueue_CB), (go_cbs, 246, GetQueuedCmdCurrentIndex_CB),
     (go_cbs, 247, GetCmdQueueAvailableSpace_CB), (go_cbs, 8, SetMoveSpeedTime_CB), (box_cbs, 217, SetTraceLoop_CB),
     (go_cbs, 217, GetImgToArmXY_CB)]"

definition box_callbacks :: "p3_registration list" where
  "box_callbacks = [(box_cbs, 192, GetMagicBoxMode_CB), (box_cbs, 193, GetMagicBoxNum_CB),
     (box_cbs, 199, SetMagicBoxScriptMode_CB), (box_cbs, 217, SetStopPointServer_CB),
     (box_cbs, 217, SetStopPointParam_CB), (box_cbs, 217, GetStopPointState_CB)]"

definition cam_callbacks :: "p3_registration list" where
  "cam_callbacks = [(car_cbs, 10, GetCarCameraAngle_CB), (car_cbs, 20, GetCarCameraColor_CB),
     (car_cbs, 30, GetCarCameraObj_CB), (car_cbs, 50, GetCarCameraTag_CB),
     (car_cbs, 103, CarCameraCalibrationMode_CB), (car_cbs, 103, CarCameraCalibrationMode_CB),
     (car_cbs, 102, CarCameraRunModel_CB), (car_cbs, 102, CarCameraRunModel_CB), (arm_cbs, 10, GetArmCameraAngle_CB),
     (arm_cbs, 20, GetArmCameraColor_CB), (arm_cbs, 30, GetArmCameraObj_CB), (arm_cbs, 50, GetArmCameraTag_CB),
     (arm_cbs, 103, ArmCameraCalibrationMode_CB), (arm_cbs, 103, ArmCameraCalibrationMode_CB),
     (arm_cbs, 102, ArmCameraRunModel_CB), (arm_cbs, 102, ArmCameraRunModel_CB)]"

end
