(* ===== verification/P3Requests.thy ===== *)
theory P3Requests imports P3Answers begin

text \<open>
  \<open>Protocol3/DP3Packet.cpp\<close> and the \<open>handle...\<close> functions of \<open>Protocol3/DProtocol3.cpp\<close>: a
  request of a client is routed by the name of its command, its parameters are read from JSON, and
  it becomes a command of the library; the answers become results for the client.
\<close>

section \<open>Requests and results\<close>

text \<open>
  What the code asks of the object with the parameters: \<open>value(k).toInt()\<close>, the casts of
  \<open>value(k).toDouble()\<close> to the integer types, which are undefined out of range, and to a float,
  \<open>value(k).toBool()\<close>, \<open>value(k).toString()\<close>, its UTF-8 bytes with the 0 behind them, and the address
  \<open>data()\<close> of the bytes made of it. An object that is not there behaves as an empty one.
\<close>

record p3_params =
  p_int :: "string \<Rightarrow> u32"
  p_i32 :: "string \<Rightarrow> u32 option"
  p_u16 :: "string \<Rightarrow> u16 option"
  p_u8 :: "string \<Rightarrow> u8 option"
  p_f32 :: "string \<Rightarrow> u32"
  p_bool :: "string \<Rightarrow> bool"
  p_text :: "string \<Rightarrow> string"
  p_utf8 :: "string \<Rightarrow> bytes"
  p_data :: "string \<Rightarrow> u64"

record p3_json =
  o_WSport :: "u32 option"
  o_id :: u64
  o_targetType :: string
  o_cmd :: string
  o_params :: p3_params

record P3Packet =
  pkt_wsPort :: u16
  pkt_id :: u64
  pkt_target :: string
  pkt_api :: string
  pkt_params :: p3_params

definition setPacketFromObj :: "p3_json \<Rightarrow> bool \<times> P3Packet" where
  "setPacketFromObj obj =
     (let wsPort = (case o_WSport obj of None \<Rightarrow> 0 | Some n \<Rightarrow> ucast n);
          packet = \<lparr>pkt_wsPort = wsPort, pkt_id = o_id obj, pkt_target = o_targetType obj, pkt_api = o_cmd obj,
                    pkt_params = o_params obj\<rparr>
      in (\<not> (pkt_api packet = [] \<or> pkt_target packet = [] \<or> pkt_wsPort packet = 0), packet))"

text \<open>The value of the member \<open>result\<close> of an answer without error.\<close>

definition getResultObj :: "json_object \<Rightarrow> json_value" where
  "getResultObj m_resultObj =
     (if map_of m_resultObj ''result'' = Some (JStr ''true'') then JBool True else JObject m_resultObj)"

section \<open>The handlers\<close>

text \<open>
  What a handler emits: a command for the library, or the arguments of the calibration program, or
  nothing. The first component is \<open>isAck\<close> of the entry in the table of requests; the entry and the
  counter are \<open>p3_handle\<close>.
\<close>

datatype p3_sent = P3_send SDobotV3Format_Packet u16 bool | P3_calibrate string string | P3_nothing

type_synonym p3_handler = "p3_params \<Rightarrow> u32 \<Rightarrow> (bool \<times> p3_sent) option"

definition p3_ask :: "bool \<Rightarrow> p3_emitted \<Rightarrow> (bool \<times> p3_sent) option" where
  "p3_ask wantAck e = map_option (\<lambda>(p, n, ack). (wantAck, P3_send p n ack)) e"

text \<open>\<open>CameraCalibration::GOManualCalibration\<close> without the program it starts.\<close>

definition GOManualCalibration :: "string \<Rightarrow> string \<Rightarrow> p3_sent" where
  "GOManualCalibration april_list device_list =
     (if april_list = [] \<or> device_list = [] then P3_nothing else P3_calibrate april_list device_list)"

definition handleHeartBeat :: p3_handler where
  "handleHeartBeat j q = p3_ask True (Gen_HeartBeat q)"

definition handleSetDeviceSN :: p3_handler where
  "handleSetDeviceSN j q = p3_ask True (Gen_SetDeviceSN q (p_data j ''deviceSN''))"

definition handleGetDeviceSN :: p3_handler where
  "handleGetDeviceSN j q = p3_ask True (Gen_GetDeviceSN q)"

definition handleSetDeviceName :: p3_handler where
  "handleSetDeviceName j q = p3_ask True (Gen_SetDeviceName q (p_data j ''deviceName''))"

definition handleGetDeviceName :: p3_handler where
  "handleGetDeviceName j q = p3_ask True (Gen_GetDeviceName q)"

definition handleGetDeviceFwSoftwareVersion :: p3_handler where
  "handleGetDeviceFwSoftwareVersion j q = p3_ask True (Gen_GetDeviceFwSoftwareVersion q)"

definition handleGetDeviceFwHardwareVersion :: p3_handler where
  "handleGetDeviceFwHardwareVersion j q = p3_ask True (Gen_GetDeviceFwHardwareVersion q)"

definition handleGetDeviceTime :: p3_handler where
  "handleGetDeviceTime j q = p3_ask True (Gen_GetDeviceTime q)"

definition handleGetDeviceID :: p3_handler where
  "handleGetDeviceID j q = p3_ask True (Gen_GetDeviceID q)"

definition handleGetProductName :: p3_handler where
  "handleGetProductName j q = p3_ask True (Gen_GetProductName q)"

definition handleDeviceReboot :: p3_handler where
  "handleDeviceReboot j q = p3_ask True (Gen_DeviceReboot q)"

definition handleSetRunningState :: p3_handler where
  "handleSetRunningState j q = p3_ask True (Go_SetRunningState q (ucast (p_int j ''runningState'')))"

definition handleGetRunningState :: p3_handler where
  "handleGetRunningState j q = p3_ask True (Go_GetRunningState q)"

definition handleSetRunningMode :: p3_handler where
  "handleSetRunningMode j q = p3_ask True (Go_SetRunningMode q (ucast (p_int j ''runningMode'')))"

definition handleGetRunningMode :: p3_handler where
  "handleGetRunningMode j q = p3_ask True (Go_GetRunningMode q)"

definition handleSetBaseMode :: p3_handler where
  "handleSetBaseMode j q = p3_ask True (Go_SetBaseMode q (ucast (p_int j ''baseMode'')))"

definition handleSetBaseSpeedRatio :: p3_handler where
  "handleSetBaseSpeedRatio j q = p3_ask True (Go_SetBaseSpeedRatio q (ucast (p_int j ''speedRatio'')))"

definition handleGetBaseSpeedRatio :: p3_handler where
  "handleGetBaseSpeedRatio j q = p3_ask True (Go_GetBaseSpeedRatio q)"

definition handleSetMoveSpeed :: p3_handler where
  "handleSetMoveSpeed j q = p3_ask True (Go_SetMoveSpeed q (p_f32 j ''x'') (p_f32 j ''y'') (p_f32 j ''r''))"

definition handleGetMoveSpeed :: p3_handler where
  "handleGetMoveSpeed j q = p3_ask True (Go_GetMoveSpeed q)"

definition handleSetRotate :: p3_handler where
  "handleSetRotate j q = p3_ask True (Go_SetRotate q (p_f32 j ''r'') (p_f32 j ''Vr''))"

definition handleSetMoveDist :: p3_handler where
  "handleSetMoveDist j q =
     p3_ask True (Go_SetMoveDist q (p_f32 j ''x'') (p_f32 j ''y'') (p_f32 j ''Vx'') (p_f32 j ''Vy''))"

definition handleSetMovePos :: p3_handler where
  "handleSetMovePos j q = p3_ask True (Go_SetMovePos q (p_f32 j ''x'') (p_f32 j ''y'') (p_f32 j ''s''))"

definition handleSetArcRad :: p3_handler where
  "handleSetArcRad j q = do {
     md \<leftarrow> p_i32 j ''mode'';
     p3_ask True (Go_SetArcRad q (p_f32 j ''velocity'') (p_f32 j ''radius'') (p_f32 j ''angle'') md) }"

definition handleSetArcCent :: p3_handler where
  "handleSetArcCent j q = do {
     md \<leftarrow> p_i32 j ''mode'';
     p3_ask True (Go_SetArcCent q (p_f32 j ''velocity'') (p_f32 j ''x'') (p_f32 j ''y'') (p_f32 j ''angle'') md) }"

definition handleSetLightRGB :: p3_handler where
  "handleSetLightRGB j q = do {
     num \<leftarrow> p_u16 j ''number''; effect \<leftarrow> p_u8 j ''effect'';
       r \<leftarrow> p_u8 j ''r''; g \<leftarrow> p_u8 j ''g''; b \<leftarrow> p_u8 j ''b'';
     p3_ask True (Go_SetLightRGB q num effect r g b (p_f32 j ''cycle'') (p_int j ''counts'')) }"

definition handleSetLightPrompt :: p3_handler where
  "handleSetLightPrompt j q = do {
     idx \<leftarrow> p_u8 j ''index'';
     p3_ask True (Go_SetLightPrompt q (ucast idx)) }"

definition handleSetTraceLoop :: p3_handler where
  "handleSetTraceLoop j q = p3_ask True (Go_SetTraceLoop q (p_bool j ''enable''))"

definition handleSetBuzzerSound :: p3_handler where
  "handleSetBuzzerSound j q = do {
     idx \<leftarrow> p_u8 j ''index''; tone \<leftarrow> p_u8 j ''tone'';
     p3_ask True (Go_SetBuzzerSound q idx tone (p_f32 j ''beat'')) }"

definition handleSetOriginPoint :: p3_handler where
  "handleSetOriginPoint j q = do {
     en \<leftarrow> p_u8 j ''enable'';
     p3_ask True (Go_SetOriginPoint q en) }"

definition handleGetUltrasoundData :: p3_handler where
  "handleGetUltrasoundData j q = p3_ask True (Go_GetUltrasoundData q)"

definition handleGetSwitchState :: p3_handler where
  "handleGetSwitchState j q = p3_ask True (Go_GetSwitchState q)"

definition handleSetSpeedometer :: p3_handler where
  "handleSetSpeedometer j q = p3_ask True (Go_SetSpeedometer q (p_f32 j ''x'') (p_f32 j ''y'') (p_f32 j ''yaw''))"

definition handleGetSpeedometer :: p3_handler where
  "handleGetSpeedometer j q = p3_ask True (Go_GetSpeedometer q)"

definition handleGetStallProtection :: p3_handler where
  "handleGetStallProtection j q = p3_ask True (Go_GetStallProtection q)"

definition handleGetOffGround :: p3_handler where
  "handleGetOffGround j q = p3_ask True (Go_GetOffGround q)"

definition handleGetBatteryVoltage :: p3_handler where
  "handleGetBatteryVoltage j q = p3_ask True (Go_GetBatteryVoltage q)"

definition handleGetImuAngle :: p3_handler where
  "handleGetImuAngle j q = p3_ask True (Go_GetImuAngle q)"

definition handleGetAlarmInfo :: p3_handler where
  "handleGetAlarmInfo j q = p3_ask True (Go_GetAlarmInfo q)"

definition handleCleanAlarmInfo :: p3_handler where
  "handleCleanAlarmInfo j q = p3_ask True (Go_CleanAlarmInfo q)"

definition handleSetTraceAuto :: p3_handler where
  "handleSetTraceAuto j q = p3_ask True (Go_SetTraceAuto q (ucast (p_int j ''isTrace'')))"

definition handleSetTraceLineInfo :: p3_handler where
  "handleSetTraceLineInfo j q = p3_ask True (Go_SetTraceLineInfo q (ucast (p_int j ''lineInfo'')))"

definition handleSetTraceSpeed :: p3_handler where
  "handleSetTraceSpeed j q = p3_ask True (Go_SetTraceSpeed q (p_f32 j ''speed''))"

definition handleSetLineSensorState :: p3_handler where
  "handleSetLineSensorState j q =
     p3_ask True (Go_SetLineSensorState q (ucast (p_int j ''frontIsEnable'')) (ucast (p_int j ''backIsEnable'')))"

definition handleGetLineSensorState :: p3_handler where
  "handleGetLineSensorState j q = p3_ask True (Go_GetLineSensorState q)"

definition handleSetLineSensorAdjust :: p3_handler where
  "handleSetLineSensorAdjust j q = p3_ask True (Go_SetLineSensorAdjust q (ucast (p_int j ''deviceNum'')))"

definition handleSetLineSensorDefault :: p3_handler where
  "handleSetLineSensorDefault j q = p3_ask True (Go_SetLineSensorDefault q (ucast (p_int j ''deviceNum'')))"

definition handleGetLineSensorData :: p3_handler where
  "handleGetLineSensorData j q = p3_ask True (Go_GetLineSensorData q)"

definition handleSetCmdQueueStart :: p3_handler where
  "handleSetCmdQueueStart j q = p3_ask True (Go_SetCmdQueueStart q)"

definition handleSetCmdQueueStop :: p3_handler where
  "handleSetCmdQueueStop j q = p3_ask True (Go_SetCmdQueueStop q)"

definition handleSetCmdQueueForcelyStop :: p3_handler where
  "handleSetCmdQueueForcelyStop j q = p3_ask True (Go_SetCmdQueueForcelyStop q)"

definition handleCleanCmdQueue :: p3_handler where
  "handleCleanCmdQueue j q = p3_ask True (Go_CleanCmdQueue q)"

definition handleGetCmdQueueCurrentIndex :: p3_handler where
  "handleGetCmdQueueCurrentIndex j q = p3_ask True (Go_GetQueuedCmdCurrentIndex q)"

definition handleGetCmdQueueAvailableSpace :: p3_handler where
  "handleGetCmdQueueAvailableSpace j q = p3_ask True (Go_GetCmdQueueAvailableSpace q)"

definition handleGetArmCameraAngle :: p3_handler where
  "handleGetArmCameraAngle j q = p3_ask True (Cam_GetArmCameraAngle q)"

definition handleGetArmCameraColor :: p3_handler where
  "handleGetArmCameraColor j q = p3_ask True (Cam_GetArmCameraColor q)"

definition handleGetArmCameraObj :: p3_handler where
  "handleGetArmCameraObj j q = p3_ask True (Cam_GetArmCameraObj q)"

definition handleGetArmCameraTag :: p3_handler where
  "handleGetArmCameraTag j q = p3_ask True (Cam_GetArmCameraTag q)"

definition handleSetArmCameraCalibrationMode :: p3_handler where
  "handleSetArmCameraCalibrationMode j q =
     p3_ask True (Cam_SetArmCameraCalibrationMode q (ucast (p_int j ''isEnableCali'')))"

definition handleGetArmCameraCalibrationMode :: p3_handler where
  "handleGetArmCameraCalibrationMode j q = p3_ask True (Cam_GetArmCameraCalibrationMode q)"

definition handleGetCarCameraAngle :: p3_handler where
  "handleGetCarCameraAngle j q = p3_ask True (Cam_GetCarCameraAngle q)"

definition handleGetCarCameraColor :: p3_handler where
  "handleGetCarCameraColor j q = p3_ask True (Cam_GetCarCameraColor q)"

definition handleGetCarCameraObj :: p3_handler where
  "handleGetCarCameraObj j q = p3_ask True (Cam_GetCarCameraObj q)"

definition handleGetCarCameraTag :: p3_handler where
  "handleGetCarCameraTag j q = p3_ask True (Cam_GetCarCameraTag q)"

definition handleSetCarCameraCalibrationMode :: p3_handler where
  "handleSetCarCameraCalibrationMode j q =
     p3_ask True (Cam_SetCarCameraCalibrationMode q (ucast (p_int j ''isEnableCali'')))"

definition handleGetCarCameraCalibrationMode :: p3_handler where
  "handleGetCarCameraCalibrationMode j q = p3_ask True (Cam_GetCarCameraCalibrationMode q)"

definition handleGetCameraCalibrationData :: p3_handler where
  "handleGetCameraCalibrationData j q =
     Some (True, GOManualCalibration (p_text j ''april_list'') (p_text j ''device_list''))"

definition handleSetCarCameraRunModel :: p3_handler where
  "handleSetCarCameraRunModel j q = p3_ask True (Cam_SetCarCameraRunModel q (ucast (p_int j ''runModelIndex'')))"

definition handleSetArmCameraRunModel :: p3_handler where
  "handleSetArmCameraRunModel j q = p3_ask True (Cam_SetArmCameraRunModel q (ucast (p_int j ''runModelIndex'')))"

definition handleGetCarCameraRunModel :: p3_handler where
  "handleGetCarCameraRunModel j q = p3_ask True (Cam_GetCarCameraRunModel q)"

definition handleGetArmCameraRunModel :: p3_handler where
  "handleGetArmCameraRunModel j q = p3_ask True (Cam_GetArmCameraRunModel q)"

definition handleSetMoveSpeedTime :: p3_handler where
  "handleSetMoveSpeedTime j q =
     p3_ask (p_bool j ''isAck'') (Go_SetMoveSpeedTime q (p_bool j ''isAck'') (p_f32 j ''time'') (p_f32 j ''x'')
       (p_f32 j ''y'') (p_f32 j ''r''))"

definition handleGetMagicBoxMode :: p3_handler where
  "handleGetMagicBoxMode j q = p3_ask True (Box_GetMagicBoxMode q)"

definition handleGetMagicBoxNum :: p3_handler where
  "handleGetMagicBoxNum j q = p3_ask True (Box_GetMagicBoxNum q)"

definition handleSetMagicBoxScriptMode :: p3_handler where
  "handleSetMagicBoxScriptMode j q =
     p3_ask True (Box_SetMagicBoxScriptMode q (ucast (p_int j ''isEnable'')) (p_utf8 j ''name'') (p_data j ''name''))"

definition handleSetCoordClosedLoop :: p3_handler where
  "handleSetCoordClosedLoop j q =
     p3_ask True (Go_SetCoordClosedLoop q (ucast (p_int j ''isEnable'')) (p_f32 j ''angle''))"

definition handleSetIncrementClosedLoop :: p3_handler where
  "handleSetIncrementClosedLoop j q =
     p3_ask True (Go_SetIncrementClosedLoop q (p_f32 j ''x'') (p_f32 j ''y'') (p_f32 j ''angle''))"

definition handleGetImuSpeed :: p3_handler where
  "handleGetImuSpeed j q = p3_ask True (Go_GetImuSpeed q)"

definition handleSetTracePid :: p3_handler where
  "handleSetTracePid j q = p3_ask True (Go_SetTracePid q (p_f32 j ''p'') (p_f32 j ''i'') (p_f32 j ''d''))"

definition handleSetMoveSpeedDirect :: p3_handler where
  "handleSetMoveSpeedDirect j q = p3_ask True (Go_SetMoveSpeedDirect q (p_f32 j ''dir'') (p_f32 j ''speed''))"

definition handleSetStopPointServer :: p3_handler where
  "handleSetStopPointServer j q =
     p3_ask True (Box_SetStopPointServer q (ucast (p_int j ''PointX'')) (ucast (p_int j ''PointY'')))"

definition handleSetStopPointParam :: p3_handler where
  "handleSetStopPointParam j q =
     p3_ask True (Box_SetStopPointParam q (ucast (p_int j ''scopeErr'')) (ucast (p_int j ''stopErr'')))"

definition handleGetStopPointState :: p3_handler where
  "handleGetStopPointState j q = p3_ask True (Box_GetStopPointState q)"

definition handleGetImgToArmXY :: p3_handler where
  "handleGetImgToArmXY j q =
     p3_ask True (Go_GetImgToArmXY q (p_f32 j ''imgX'') (p_f32 j ''imgY'') (ucast (p_int j ''need_tranxy'')) (ucast
       (p_int j ''suck_apriltag'')))"

lemmas handle_defs = handleHeartBeat_def handleSetDeviceSN_def handleGetDeviceSN_def handleSetDeviceName_def
  handleGetDeviceName_def handleGetDeviceFwSoftwareVersion_def handleGetDeviceFwHardwareVersion_def
  handleGetDeviceTime_def handleGetDeviceID_def handleGetProductName_def handleDeviceReboot_def
  handleSetRunningState_def handleGetRunningState_def handleSetRunningMode_def handleGetRunningMode_def
  handleSetBaseMode_def handleSetBaseSpeedRatio_def handleGetBaseSpeedRatio_def handleSetMoveSpeed_def
  handleGetMoveSpeed_def handleSetRotate_def handleSetMoveDist_def handleSetMovePos_def handleSetArcRad_def
  handleSetArcCent_def handleSetLightRGB_def handleSetLightPrompt_def handleSetTraceLoop_def
  handleSetBuzzerSound_def handleSetOriginPoint_def handleGetUltrasoundData_def handleGetSwitchState_def
  handleSetSpeedometer_def handleGetSpeedometer_def handleGetStallProtection_def handleGetOffGround_def
  handleGetBatteryVoltage_def handleGetImuAngle_def handleGetAlarmInfo_def handleCleanAlarmInfo_def
  handleSetTraceAuto_def handleSetTraceLineInfo_def handleSetTraceSpeed_def handleSetLineSensorState_def
  handleGetLineSensorState_def handleSetLineSensorAdjust_def handleSetLineSensorDefault_def
  handleGetLineSensorData_def handleSetCmdQueueStart_def handleSetCmdQueueStop_def
  handleSetCmdQueueForcelyStop_def handleCleanCmdQueue_def handleGetCmdQueueCurrentIndex_def
  handleGetCmdQueueAvailableSpace_def handleGetArmCameraAngle_def handleGetArmCameraColor_def
  handleGetArmCameraObj_def handleGetArmCameraTag_def handleSetArmCameraCalibrationMode_def
  handleGetArmCameraCalibrationMode_def handleGetCarCameraAngle_def handleGetCarCameraColor_def
  handleGetCarCameraObj_def handleGetCarCameraTag_def handleSetCarCameraCalibrationMode_def
  handleGetCarCameraCalibrationMode_def handleGetCameraCalibrationData_def handleSetCarCameraRunModel_def
  handleSetArmCameraRunModel_def handleGetCarCameraRunModel_def handleGetArmCameraRunModel_def
  handleSetMoveSpeedTime_def handleGetMagicBoxMode_def handleGetMagicBoxNum_def handleSetMagicBoxScriptMode_def
  handleSetCoordClosedLoop_def handleSetIncrementClosedLoop_def handleGetImuSpeed_def handleSetTracePid_def
  handleSetMoveSpeedDirect_def handleSetStopPointServer_def handleSetStopPointParam_def
  handleGetStopPointState_def handleGetImgToArmXY_def

section \<open>Routing\<close>

text \<open>The comparisons of \<open>packet.api\<close> in their order, with the error code for any other name.\<close>

abbreviation ERROR_PROTOCOLFRAME_NOGENERAL :: nat where "ERROR_PROTOCOLFRAME_NOGENERAL \<equiv> 401"
abbreviation ERROR_PROTOCOLFRAME_NOGO :: nat where "ERROR_PROTOCOLFRAME_NOGO \<equiv> 402"
abbreviation ERROR_PROTOCOLFRAME_NOCAMERA :: nat where "ERROR_PROTOCOLFRAME_NOCAMERA \<equiv> 403"
abbreviation ERROR_PROTOCOLFRAME_NOBOX :: nat where "ERROR_PROTOCOLFRAME_NOBOX \<equiv> 404"

definition p3_select :: "(string \<times> p3_handler) list \<Rightarrow> nat \<Rightarrow> string \<Rightarrow> nat + p3_handler" where
  "p3_select hs err api = (case map_of hs api of Some h \<Rightarrow> Inr h | None \<Rightarrow> Inl err)"

definition general_handlers :: "(string \<times> p3_handler) list" where
  "general_handlers = [(''HeartBeat'', handleHeartBeat), (''SetDeviceSN'', handleSetDeviceSN),
     (''GetDeviceSN'', handleGetDeviceSN), (''SetDeviceName'', handleSetDeviceName),
     (''GetDeviceName'', handleGetDeviceName), (''GetDeviceFwSoftwareVersion'', handleGetDeviceFwSoftwareVersion),
     (''GetDeviceFwHardwareVersion'', handleGetDeviceFwHardwareVersion), (''GetDeviceTime'', handleGetDeviceTime),
     (''GetDeviceID'', handleGetDeviceID), (''GetProductName'', handleGetProductName),
     (''DeviceReboot'', handleDeviceReboot)]"

definition handleGeneralCommand :: "string \<Rightarrow> nat + p3_handler" where
  "handleGeneralCommand = p3_select general_handlers ERROR_PROTOCOLFRAME_NOGENERAL"

definition go_handlers :: "(string \<times> p3_handler) list" where
  "go_handlers = [(''SetRunningState'', handleSetRunningState), (''GetRunningState'', handleGetRunningState),
     (''SetRunningMode'', handleSetRunningMode), (''GetRunningMode'', handleGetRunningMode),
     (''SetBaseMode'', handleSetBaseMode), (''SetBaseSpeedRatio'', handleSetBaseSpeedRatio),
     (''GetBaseSpeedRatio'', handleGetBaseSpeedRatio), (''SetMoveSpeed'', handleSetMoveSpeed),
     (''GetMoveSpeed'', handleGetMoveSpeed), (''SetRotate'', handleSetRotate), (''SetMoveDist'', handleSetMoveDist),
     (''SetMovePos'', handleSetMovePos), (''SetArcRad'', handleSetArcRad), (''SetArcCent'', handleSetArcCent),
     (''SetLightRGB'', handleSetLightRGB), (''SetLightPrompt'', handleSetLightPrompt),
     (''SetBuzzerSound'', handleSetBuzzerSound), (''SetOriginPoint'', handleSetOriginPoint),
     (''GetUltrasoundData'', handleGetUltrasoundData), (''GetSwitchState'', handleGetSwitchState),
     (''SetSpeedometer'', handleSetSpeedometer), (''GetSpeedometer'', handleGetSpeedometer),
     (''GetStallProtection'', handleGetStallProtection), (''GetOffGround'', handleGetOffGround),
     (''GetBatteryVoltage'', handleGetBatteryVoltage), (''GetImuAngle'', handleGetImuAngle),
     (''GetAlarmInfo'', handleGetAlarmInfo), (''CleanAlarmInfo'', handleCleanAlarmInfo),
     (''SetTraceAuto'', handleSetTraceAuto), (''SetTraceLineInfo'', handleSetTraceLineInfo),
     (''SetTraceSpeed'', handleSetTraceSpeed), (''SetLineSensorState'', handleSetLineSensorState),
     (''GetLineSensorState'', handleGetLineSensorState), (''SetLineSensorAdjust'', handleSetLineSensorAdjust),
     (''SetLineSensorDefault'', handleSetLineSensorDefault), (''GetLineSensorData'', handleGetLineSensorData),
     (''SetCmdQueueStart'', handleSetCmdQueueStart), (''SetCmdQueueStop'', handleSetCmdQueueStop),
     (''SetCmdQueueForcelyStop'', handleSetCmdQueueForcelyStop), (''CleanCmdQueue'', handleCleanCmdQueue),
     (''GetQueuedCmdCurrentIndex'', handleGetCmdQueueCurrentIndex),
     (''GetCmdQueueAvailableSpace'', handleGetCmdQueueAvailableSpace),
     (''SetMoveSpeedTime'', handleSetMoveSpeedTime), (''SetMoveSpeedDirect'', handleSetMoveSpeedDirect),
     (''SetCoordClosedLoop'', handleSetCoordClosedLoop), (''SetIncrementClosedLoop'', handleSetIncrementClosedLoop),
     (''GetImuSpeed'', handleGetImuSpeed), (''SetTracePid'', handleSetTracePid),
     (''SetLightPrompt'', handleSetLightPrompt), (''SetTraceLoop'', handleSetTraceLoop),
     (''SetStopPointServer'', handleSetStopPointServer), (''SetStopPointParam'', handleSetStopPointParam),
     (''GetStopPointState'', handleGetStopPointState), (''GetImgToArmXY'', handleGetImgToArmXY)]"

definition handleMagicianGoCommand :: "string \<Rightarrow> nat + p3_handler" where
  "handleMagicianGoCommand = p3_select go_handlers ERROR_PROTOCOLFRAME_NOGO"

definition camera_handlers :: "(string \<times> p3_handler) list" where
  "camera_handlers = [(''GetArmCameraAngle'', handleGetArmCameraAngle),
     (''GetArmCameraColor'', handleGetArmCameraColor), (''GetArmCameraObj'', handleGetArmCameraObj),
     (''GetArmCameraTag'', handleGetArmCameraTag),
     (''SetArmCameraCalibrationMode'', handleSetArmCameraCalibrationMode),
     (''GetArmCameraCalibrationMode'', handleGetArmCameraCalibrationMode),
     (''GetCameraCalibrationData'', handleGetCameraCalibrationData),
     (''GetCarCameraAngle'', handleGetCarCameraAngle), (''GetCarCameraColor'', handleGetCarCameraColor),
     (''GetCarCameraObj'', handleGetCarCameraObj), (''GetCarCameraTag'', handleGetCarCameraTag),
     (''SetCarCameraCalibrationMode'', handleSetCarCameraCalibrationMode),
     (''GetCarCameraCalibrationMode'', handleGetCarCameraCalibrationMode),
     (''GetCameraCalibrationData'', handleGetCameraCalibrationData),
     (''SetCarCameraRunModel'', handleSetCarCameraRunModel), (''GetCarCameraRunModel'', handleGetCarCameraRunModel),
     (''SetArmCameraRunModel'', handleSetArmCameraRunModel), (''GetArmCameraRunModel'', handleGetArmCameraRunModel)]"

definition handleCameraCommand :: "string \<Rightarrow> nat + p3_handler" where
  "handleCameraCommand = p3_select camera_handlers ERROR_PROTOCOLFRAME_NOCAMERA"

definition box_handlers :: "(string \<times> p3_handler) list" where
  "box_handlers = [(''GetMagicBoxMode'', handleGetMagicBoxMode), (''GetMagicBoxNum'', handleGetMagicBoxNum),
     (''SetMagicBoxScriptMode'', handleSetMagicBoxScriptMode)]"

definition handleMagicBoxCommand :: "string \<Rightarrow> nat + p3_handler" where
  "handleMagicBoxCommand = p3_select box_handlers ERROR_PROTOCOLFRAME_NOBOX"

text \<open>\<open>QString::contains\<close> and \<open>QString::endsWith\<close>.\<close>

fun str_contains :: "string \<Rightarrow> string \<Rightarrow> bool" where
  "str_contains t [] = (t = [])"
| "str_contains t (c # s) = (take (length t) (c # s) = t \<or> str_contains t s)"

definition str_endsWith :: "string \<Rightarrow> string \<Rightarrow> bool" where
  "str_endsWith t s = (length t \<le> length s \<and> drop (length s - length t) s = t)"

definition p3_route :: "string \<Rightarrow> (nat + p3_handler) option" where
  "p3_route api =
     (if str_endsWith ''Port'' api then None
      else Some (
        if str_contains ''Device'' api \<or> api = ''HeartBeat'' \<or> api = ''GetProductName'' then handleGeneralCommand api
        else if str_contains ''Camera'' api then handleCameraCommand api
        else if str_contains ''MagicBox'' api then handleMagicBoxCommand api
        else handleMagicianGoCommand api))"

section \<open>The objects together\<close>

text \<open>
  All \<open>DProtocol3\<close> objects, the library behind the adapter, the starts of the calibration program
  with the number in \<open>m_seqNum\<close>, and the errors for unknown commands, which go to the client through
  the same signal as the results.
\<close>

record p3_system =
  p3_objects :: "json_object p3_clients"
  p3_lib :: "p3_world cmd_state"
  p3_linkPath :: "nat option"
  p3_calibrations :: "(u32 \<times> string \<times> string) list"
  p3_refused :: "(nat \<times> u64 \<times> u16 \<times> nat) list"

definition p3_perform :: "cmd_handle \<Rightarrow> send_parm \<Rightarrow> u32 \<Rightarrow> p3_sent \<Rightarrow> p3_system \<Rightarrow> p3_system option" where
  "p3_perform handle parm q sent s =
     (case sent of
        P3_send p n ack \<Rightarrow> do {
          lib \<leftarrow> p3_sendCmd handle parm (p3_linkPath s) (packet_image p) n ack (p3_lib s);
          Some (s\<lparr>p3_lib := lib\<rparr>) }
      | P3_calibrate a d \<Rightarrow> Some (s\<lparr>p3_calibrations := p3_calibrations s @ [(q, a, d)]\<rparr>)
      | P3_nothing \<Rightarrow> Some s)"

text \<open>\<open>DProtocol3::sendData\<close> of the object \<open>c\<close>, with what it returns.\<close>

definition p3_sendRequest :: "cmd_handle \<Rightarrow> send_parm \<Rightarrow> nat \<Rightarrow> p3_json \<Rightarrow> p3_system \<Rightarrow> (bool \<times> p3_system) option" where
  "p3_sendRequest handle parm c obj s =
     (let packet = snd (setPacketFromObj obj) in
      case p3_route (pkt_api packet) of
        None \<Rightarrow> Some (False, s)
      | Some (Inl err) \<Rightarrow>
          Some (True, s\<lparr>p3_refused := p3_refused s @ [(c, pkt_id packet, pkt_wsPort packet, err)]\<rparr>)
      | Some (Inr h) \<Rightarrow> do {
          (wantAck, sent) \<leftarrow> h (pkt_params packet) (sm_seqNum (p3_objects s));
          let (q, objects) = p3_handle c \<lparr>idp_id = pkt_id packet, idp_wsPort = pkt_wsPort packet, idp_isAck = wantAck\<rparr>
                               (p3_objects s);
          s \<leftarrow> p3_perform handle parm q sent (s\<lparr>p3_objects := objects\<rparr>);
          Some (True, s) })"

text \<open>The next queued signal \<open>receiveData_signal\<close> or \<open>sendRawData_signal\<close> reaches its slots.\<close>

definition p3_deliver :: "p3_system \<Rightarrow> p3_system option" where
  "p3_deliver s =
     (case receiveData_signals (world (p3_lib s)) of
        [] \<Rightarrow> Some s
      | (q, a) # sigs \<Rightarrow> do {
          (isTimeOut, obj) \<leftarrow> a;
          Some (s\<lparr>p3_lib := (p3_lib s)\<lparr>world := (world (p3_lib s))\<lparr>receiveData_signals := sigs\<rparr>\<rparr>,
                  p3_objects := p3_broadcast (p3_receiveData isTimeOut obj q) (p3_objects s)\<rparr>) })"

definition p3_deliver_raw :: "p3_system \<Rightarrow> p3_system" where
  "p3_deliver_raw s =
     (case sendRawData_signals (world (p3_lib s)) of
        [] \<Rightarrow> s
      | (q, d) # sigs \<Rightarrow>
          s\<lparr>p3_lib := (p3_lib s)\<lparr>world := (world (p3_lib s))\<lparr>sendRawData_signals := sigs\<rparr>\<rparr>,
            p3_objects := p3_broadcast (p3_sendRaw result_true q d) (p3_objects s)\<rparr>)"

end
