(* ===== verification/P3Commands.thy ===== *)
theory P3Commands imports P3Requests begin

text \<open>
  The commands that the requests of the third protocol become: what all of their headers and payloads
  have in common.
\<close>

section \<open>Well-formed commands\<close>

lemma foldM_wr_length: "foldM (\<lambda>(i, d) m. wr_range m i d) cs m = Some m' \<Longrightarrow> length m' = length m"
  by (induction cs arbitrary: m) (auto simp: split_beta wr_range_length split: option.splits)

lemma wr_range_drop: "wr_range m i d = Some m1 \<Longrightarrow> i + length d \<le> n \<Longrightarrow> drop n m1 = drop n m"
  by (auto simp: wr_range_def split: if_splits)

lemma foldM_wr_drop:
  "foldM (\<lambda>(i, d) m. wr_range m i d) cs m = Some m' \<Longrightarrow> \<forall>(i, d) \<in> set cs. i + length d \<le> n \<Longrightarrow> drop n m' = drop n m"
proof (induction cs arbitrary: m)
  case (Cons c cs)
  obtain m1 where "wr_range m (fst c) (snd c) = Some m1" "foldM (\<lambda>(i, d) m. wr_range m i d) cs m1 = Some m'"
    using Cons.prems(1) by (cases "wr_range m (fst c) (snd c)") (auto simp: case_prod_beta')
  then show ?case using Cons.IH [of m1] Cons.prems(2) wr_range_drop [of m "fst c" "snd c" m1 n]
    by (simp add: case_prod_beta')
qed simp

text \<open>The header of every command, and zeros behind its payload.\<close>

definition p3_command_ok :: "u32 \<Rightarrow> SDobotV3Format_Packet \<Rightarrow> u16 \<Rightarrow> bool" where
  "p3_command_ok q p n \<longleftrightarrow>
     version p = DobotV3Format_VER_11 \<and> seqNum p = q \<and> src p = dev_addr DobotV3Dev_PC \<and> \<not> needAck p \<and> \<not> errflg p \<and>
     (cmdSet p, des p) \<in> {(DobotV3Format_COMMON, 4), (DobotV3Format_MAGICIANGO, 4), (DobotV3Format_MAGICBOX, 3),
                            (DobotV3Format_K210, 0x20), (DobotV3Format_K210, 0x21)} \<and>
     length (payloadAndCRC p) = 514 \<and> unat n \<le> 20 \<and>
     drop (unat n) (payloadAndCRC p) = replicate (514 - unat n) 0"

definition p3_asks_ok :: "u32 \<Rightarrow> (bool \<times> p3_sent) option \<Rightarrow> bool" where
  "p3_asks_ok q r \<longleftrightarrow> (\<forall>w p n ack. r = Some (w, P3_send p n ack) \<longrightarrow> ack = w \<and> p3_command_ok q p n)"

definition p3_handler_ok :: "p3_handler \<Rightarrow> bool" where
  "p3_handler_ok h \<longleftrightarrow> (\<forall>j q. p3_asks_ok q (h j q))"

lemma p3_emit_Some:
  "p3_emit p n ack cs = Some r \<longleftrightarrow>
     (\<exists>pl. foldM (\<lambda>(i, d) m. wr_range m i d) cs (payloadAndCRC p) = Some pl \<and> r = (p\<lparr>payloadAndCRC := pl\<rparr>, n, ack))"
  by (auto simp: p3_emit_def bind_eq_Some_conv)

lemma p3_asks_okI:
  assumes "(cset, dst) \<in> {(0, 4), (5, 4), (3, 3), (0x20, 0x20), (0x20, 0x21)}" and "unat n \<le> 20"
    and "\<forall>(i, d) \<in> set cs. i + length d \<le> unat n"
  shows "p3_asks_ok q (p3_ask w (p3_emit (p3_head k u r dst cset cid q) n w cs))"
  unfolding p3_asks_ok_def p3_ask_def map_option_eq_Some p3_emit_Some
proof (intro allI impI, elim exE conjE)
  fix w' p n' ack e pl assume f: "foldM (\<lambda>(i, d) m. wr_range m i d) cs (payloadAndCRC (p3_head k u r dst cset cid q)) = Some pl"
    and p: "(case e of (p, n, ack) \<Rightarrow> (w, P3_send p n ack)) = (w', P3_send p n' ack)"
      "e = ((p3_head k u r dst cset cid q)\<lparr>payloadAndCRC := pl\<rparr>, n, w)"
  show "ack = w' \<and> p3_command_ok q p n'"
    using p foldM_wr_length [OF f] foldM_wr_drop [OF f assms(3)] assms(1,2)
    by (auto simp: p3_command_ok_def p3_head_def)
qed

lemma p3_ask_bind: "p3_ask w (x \<bind> f) = (x \<bind> (\<lambda>y. p3_ask w (f y)))"
  by (cases x) (simp_all add: p3_ask_def)

lemma p3_asks_ok_bind: "(\<And>y. x = Some y \<Longrightarrow> p3_asks_ok q (f y)) \<Longrightarrow> p3_asks_ok q (x \<bind> f)"
  by (cases x) (simp_all add: p3_asks_ok_def)

lemma p3_asks_ok_calibration: "p3_asks_ok q (Some (True, GOManualCalibration a d))"
  by (simp add: p3_asks_ok_def GOManualCalibration_def)

lemma p3_asks_ok_None: "p3_asks_ok q (p3_ask w None)"
  by (simp add: p3_asks_ok_def p3_ask_def)

lemma script_mode_ok: "p3_asks_ok q (p3_ask True (Box_SetMagicBoxScriptMode q isEnable nam c))"
proof -
  let ?n = "length (takeWhile (\<lambda>x. x \<noteq> 0) nam)"
  have "unat (1 + of_nat ?n :: u16) = 1 + ?n" if "?n \<le> 8"
    using that by (simp add: unat_word_ariths unat_of_nat)
  then show ?thesis
    unfolding Box_SetMagicBoxScriptMode_def Let_def p3_ask_bind
    by (intro p3_asks_ok_bind p3_asks_okI) (auto simp: rd_range_def split: if_splits)
qed

lemmas p3_ok_rules = p3_asks_okI p3_ask_bind p3_asks_ok_bind p3_asks_ok_calibration p3_asks_ok_None script_mode_ok

text \<open>The handlers, one after the other.\<close>

lemma general_handlers_ok: "\<forall>(api, h) \<in> set general_handlers. p3_handler_ok h"
  by (simp add: general_handlers_def p3_handler_ok_def handle_defs gen_defs p3_ok_rules rd_range_def)

lemma go_handlers_ok: "\<forall>(api, h) \<in> set go_handlers. p3_handler_ok h"
  by (simp add: go_handlers_def p3_handler_ok_def handle_defs go_defs p3_ok_rules Box_SetStopPointServer_def
      Box_SetStopPointParam_def Box_GetStopPointState_def)

lemma camera_handlers_ok: "\<forall>(api, h) \<in> set camera_handlers. p3_handler_ok h"
  by (simp add: camera_handlers_def p3_handler_ok_def handle_defs cam_defs p3_ok_rules)

lemma box_handlers_ok: "\<forall>(api, h) \<in> set box_handlers. p3_handler_ok h"
  by (simp add: box_handlers_def p3_handler_ok_def handle_defs Box_GetMagicBoxMode_def Box_GetMagicBoxNum_def p3_ok_rules)

lemma p3_route_handler:
  assumes "p3_route api = Some (Inr h)"
  shows "(api, h) \<in> set (general_handlers @ go_handlers @ camera_handlers @ box_handlers)"
  using assms by (auto simp: p3_route_def handleGeneralCommand_def handleCameraCommand_def handleMagicBoxCommand_def
      handleMagicianGoCommand_def p3_select_def split: if_splits option.splits dest!: map_of_SomeD)

lemma p3_route_ok:
  assumes "p3_route api = Some (Inr h)" and "h j q = Some (wantAck, P3_send p n ack)"
  shows "ack = wantAck \<and> p3_command_ok q p n"
  using p3_route_handler [OF assms(1)] assms(2)
    general_handlers_ok go_handlers_ok camera_handlers_ok box_handlers_ok
  by (fastforce simp: p3_handler_ok_def p3_asks_ok_def)

text \<open>A client sets the speed of the MagicianGo.\<close>

definition p3_demo_params :: p3_params where
  "p3_demo_params = \<lparr>p_int = (\<lambda>_. 0), p_i32 = (\<lambda>_. Some 0), p_u16 = (\<lambda>_. Some 0), p_u8 = (\<lambda>_. Some 0),
     p_f32 = (\<lambda>k. if k = ''x'' then 0x3F800000 else 0), p_bool = (\<lambda>_. False), p_text = (\<lambda>_. []),
     p_utf8 = (\<lambda>_. [0]), p_data = (\<lambda>_. 0)\<rparr>"

definition p3_demo_command :: "u32 \<Rightarrow> SDobotV3Format_Packet" where
  "p3_demo_command q = (p3_head True False True 4 5 10 q)\<lparr>payloadAndCRC :=
     bytes32 0x3F800000 @ bytes32 0 @ bytes32 0 @ replicate 502 0\<rparr>"

lemma p3_demo_route: "p3_route ''SetMoveSpeed'' = Some (Inr handleSetMoveSpeed)"
  by (simp add: p3_route_def str_endsWith_def handleMagicianGoCommand_def p3_select_def go_handlers_def)

lemma p3_demo_handled: "handleSetMoveSpeed p3_demo_params q = Some (True, P3_send (p3_demo_command q) 12 True)"
proof -
  have "wr_range (replicate 514 0) 0 (bytes32 a) = Some (bytes32 a @ replicate 510 0)"
    "wr_range (bytes32 a @ replicate 510 0) 4 (bytes32 b) = Some (bytes32 a @ bytes32 b @ replicate 506 0)"
    "wr_range (bytes32 a @ bytes32 b @ replicate 506 0) 8 (bytes32 e) = Some (bytes32 a @ bytes32 b @ bytes32 e @ replicate 502 0)"
    for a b e by (simp_all add: wr_range_def)
  then show ?thesis
    by (simp add: handleSetMoveSpeed_def p3_ask_def Go_SetMoveSpeed_def p3_emit_def p3_demo_params_def p3_demo_command_def p3_head_def)
qed

end
