(* ===== verification/P3Callbacks.thy ===== *)
theory P3Callbacks imports P3Commands DobotSystem begin

text \<open>
  Which callback an answer of the third protocol runs, whatever the order in which the four classes
  are constructed, when a callback is defined, and what it reports.
\<close>

section \<open>A callback list as a map\<close>

text \<open>Well-formed lists with room for \<open>n\<close> more entries each.\<close>

definition cb_room :: "nat \<Rightarrow> ('w, 'z) cmd_state_scheme \<Rightarrow> bool" where
  "cb_room n s \<longleftrightarrow> length (pCBLists s) = 6 \<and>
     (\<forall>l < 6. cb_list_ok (pCBLists s ! l) \<and> n \<le> length (filter (\<lambda>e. snd e = None) (pCBLists s ! l)))"

lemma filter_update_room:
  "length (filter P xs) \<le> Suc (length (filter P (xs[k := x])))"
proof (cases "k < length xs")
  case True
  then show ?thesis by (subst (1) id_take_nth_drop [OF True]) (simp add: upd_conv_take_nth_drop)
qed (simp add: not_less list_update_beyond)

lemma register_map:
  assumes room: "cb_room (Suc n) s" and l: "l < 6"
  shows "\<exists>s'. RegisterCB l ident (Some f) s = Some (True, s') \<and> cb_room n s' \<and> s' = s\<lparr>pCBLists := pCBLists s'\<rparr> \<and>
     (\<forall>l' < 6. \<forall>i. find_callback (pCBLists s' ! l') i =
        (if (l', i) = (l, ident) then Some f else find_callback (pCBLists s ! l') i))"
proof -
  have len: "l < length (pCBLists s)" and ok: "cb_list_ok (pCBLists s ! l)"
    using room l by (simp_all add: cb_room_def)
  have "filter (\<lambda>e. snd e = None) (pCBLists s ! l) \<noteq> []" using room l by (fastforce simp: cb_room_def)
  then have free: "\<exists>e \<in> set (pCBLists s ! l). fst e = ident \<or> snd e = None" by (auto simp: filter_empty_conv)
  obtain s' where s': "RegisterCB l ident (Some f) s = Some (True, s')" "cb_list_ok (pCBLists s' ! l)"
      "find_callback (pCBLists s' ! l) ident = Some f"
      "\<forall>i. i \<noteq> ident \<longrightarrow> find_callback (pCBLists s' ! l) i = find_callback (pCBLists s ! l) i"
    using RegisterCB_correct [OF len ok, of ident "Some f"] free by auto
  obtain cs where cs: "pCBLists s' = (pCBLists s)[l := cs]" "cs = pCBLists s ! l \<or> (\<exists>k. cs = (pCBLists s ! l)[k := (ident, Some f)])"
    using RegisterCB_result [OF s'(1)] by (metis list_update_id cmd_state.select_convs(6) cmd_state.surjective cmd_state.update_convs(6))
  have same: "s' = s\<lparr>pCBLists := pCBLists s'\<rparr>" using RegisterCB_result [OF s'(1)] by auto
  have "n \<le> length (filter (\<lambda>e. snd e = None) cs)"
    using cs(2)
  proof
    assume "\<exists>k. cs = (pCBLists s ! l)[k := (ident, Some f)]"
    then have "length (filter (\<lambda>e. snd e = None) (pCBLists s ! l)) \<le> Suc (length (filter (\<lambda>e. snd e = None) cs))"
      using filter_update_room [of "\<lambda>e. snd e = None" "pCBLists s ! l"] by (elim exE) simp
    then show ?thesis using room l by (auto simp: cb_room_def)
  qed (use room l in \<open>auto simp: cb_room_def\<close>)
  then have "cb_room n s'"
    using room s'(2) len by (auto simp: cb_room_def cs(1) nth_list_update)
  then show ?thesis
    using s' len same by (intro exI [of _ s']) (auto simp: cs(1) nth_list_update)
qed

text \<open>What a number of registrations leaves: for each list and id, the last one.\<close>

definition cb_keyed :: "p3_registration list \<Rightarrow> ((nat \<times> u16) \<times> (cb_parm \<Rightarrow> p3_answer)) list" where
  "cb_keyed rs = rev (map (\<lambda>(l, i, f). ((l, i), f)) rs)"

lemma cb_keyed_simps: "cb_keyed [] = []" "cb_keyed (x @ y) = cb_keyed y @ cb_keyed x"
  by (simp_all add: cb_keyed_def)

lemma p3_register_map:
  assumes "cb_room (length rs) s" and "\<forall>(l, i, f) \<in> set rs. l < 6"
  shows "\<exists>s'. p3_register rs s = Some s' \<and> s' = s\<lparr>pCBLists := pCBLists s'\<rparr> \<and> length (pCBLists s') = 6 \<and>
     (\<forall>l < 6. \<forall>i. find_callback (pCBLists s' ! l) i =
        (case map_of (cb_keyed rs) (l, i) of Some f \<Rightarrow> Some (p3_callback f) | None \<Rightarrow> find_callback (pCBLists s ! l) i))"
  using assms
proof (induction rs arbitrary: s)
  case Nil
  then show ?case by (simp add: p3_register_def cb_keyed_def cb_room_def)
next
  case (Cons r rs)
  obtain l ident f where r: "r = (l, ident, f)" by (cases r)
  obtain s1 where s1: "RegisterCB l ident (Some (p3_callback f)) s = Some (True, s1)" "cb_room (length rs) s1"
      "s1 = s\<lparr>pCBLists := pCBLists s1\<rparr>"
      "\<forall>l' < 6. \<forall>i. find_callback (pCBLists s1 ! l') i =
        (if (l', i) = (l, ident) then Some (p3_callback f) else find_callback (pCBLists s ! l') i)"
    using register_map [of "length rs" s l ident "p3_callback f"] Cons.prems by (auto simp: r)
  obtain s' where s': "p3_register rs s1 = Some s'" "s' = s1\<lparr>pCBLists := pCBLists s'\<rparr>" "length (pCBLists s') = 6"
      "\<forall>l < 6. \<forall>i. find_callback (pCBLists s' ! l) i =
        (case map_of (cb_keyed rs) (l, i) of Some f \<Rightarrow> Some (p3_callback f) | None \<Rightarrow> find_callback (pCBLists s1 ! l) i)"
    using Cons.IH [OF s1(2)] Cons.prems(2) by auto
  have "p3_register (r # rs) s = Some s'" using s1(1) s'(1) by (simp add: p3_register_def r)
  moreover have "s' = s\<lparr>pCBLists := pCBLists s'\<rparr>" by (subst s'(2), subst s1(3)) simp
  ultimately show ?case
    using s'(3,4) s1(4) by (intro exI [of _ s']) (auto simp: r cb_keyed_def map_add_def split: option.splits)
qed

section \<open>Which callback an answer runs\<close>

text \<open>The rule, and with it the callback list, that claims a command.\<close>

definition p3_list :: "u8 \<Rightarrow> u8 \<Rightarrow> nat" where
  "p3_list cset dst = (if cset = DobotV3Format_COMMON then general_cbs else if cset = DobotV3Format_MAGICIANGO then go_cbs
     else if cset = DobotV3Format_K210 then if dst = 0x21 then arm_cbs else car_cbs else box_cbs)"

lemma p3_list_less: "p3_list cset dst < 6"
  by (simp add: p3_list_def)

lemma find_rule_command:
  assumes "15 \<le> length b" and "b ! 4 = DobotV3Format_VER_11"
    and "(b ! 12, b ! 11) \<in> {(DobotV3Format_COMMON, 4), (DobotV3Format_MAGICIANGO, 4), (DobotV3Format_MAGICBOX, 3),
           (DobotV3Format_K210, 0x20), (DobotV3Format_K210, 0x21)}"
  shows "find_rule DobotV3_matchList b n 0 = Some (Some (p3_list (b ! 12) (b ! 11)))"
    and "pCmdCB (DobotV3_matchList ! p3_list (b ! 12) (b ! 11)) = Some (p3_list (b ! 12) (b ! 11))"
    and "GetId (DobotV3_matchList ! p3_list (b ! 12) (b ! 11)) b n = Some (ucast (b ! 13))"
  using assms
  by (auto simp: DobotV3_matchList_def rules_sort_defs rules_id_defs mem_safe p3_list_def)

text \<open>
  The callback that belongs to a command by its name: first the commands that have their id alone or
  with the request that reads what they set, then those whose id has callbacks of several commands.
  The calibration is no command.
\<close>

definition p3_reply_callbacks :: "(string \<times> (cb_parm \<Rightarrow> p3_answer)) list" where
  "p3_reply_callbacks = [(''HeartBeat'', HeartBeat_CB), (''SetDeviceSN'', DeviceSN_CB),
     (''GetDeviceSN'', DeviceSN_CB), (''SetDeviceName'', DeviceName_CB), (''GetDeviceName'', DeviceName_CB),
     (''GetDeviceFwSoftwareVersion'', GetDeviceFwSoftwareVersion_CB),
     (''GetDeviceFwHardwareVersion'', GetDeviceFwHardwareVersion_CB), (''GetDeviceTime'', GetDeviceTime_CB),
     (''GetDeviceID'', GetDeviceID_CB), (''GetProductName'', GetProductName_CB),
     (''DeviceReboot'', DeviceReboot_CB), (''SetRunningState'', RunningState_CB),
     (''GetRunningState'', RunningState_CB), (''SetRunningMode'', RunningMode_CB),
     (''GetRunningMode'', RunningMode_CB), (''SetBaseMode'', SetBaseMode_CB),
     (''SetBaseSpeedRatio'', BaseSpeedRatio_CB), (''GetBaseSpeedRatio'', BaseSpeedRatio_CB),
     (''SetMoveSpeed'', MoveSpeed_CB), (''GetMoveSpeed'', MoveSpeed_CB), (''SetRotate'', SetRotate_CB),
     (''SetMoveDist'', SetMoveDist_CB), (''SetMovePos'', SetMovePos_CB), (''SetArcRad'', SetArcRad_CB),
     (''SetArcCent'', SetArcCent_CB), (''SetLightRGB'', SetLightRGB_CB), (''SetLightPrompt'', SetLightPrompt_CB),
     (''SetBuzzerSound'', SetBuzzerSound_CB), (''SetOriginPoint'', SetOriginPoint_CB),
     (''GetUltrasoundData'', GetUltrasoundData_CB), (''GetSwitchState'', GetSwitchState_CB),
     (''GetSpeedometer'', GetSpeedometer_CB), (''GetStallProtection'', GetStallProtection_CB),
     (''GetOffGround'', GetOffGround_CB), (''GetBatteryVoltage'', GetBatteryVoltage_CB),
     (''GetImuAngle'', GetImuAngle_CB), (''GetAlarmInfo'', AlarmInfo_CB), (''CleanAlarmInfo'', AlarmInfo_CB),
     (''SetTraceAuto'', SetTraceAuto_CB), (''SetTraceLineInfo'', SetTraceLineInfo_CB),
     (''SetTraceSpeed'', SetTraceSpeed_CB), (''SetLineSensorState'', LineSensorState_CB),
     (''GetLineSensorState'', LineSensorState_CB), (''SetLineSensorAdjust'', SetLineSensorAdjust_CB),
     (''SetLineSensorDefault'', SetLineSensorDefault_CB), (''GetLineSensorData'', GetLineSensorData_CB),
     (''SetCmdQueueStart'', SetCmdQueueStart_CB), (''SetCmdQueueStop'', SetCmdQueueStop_CB),
     (''SetCmdQueueForcelyStop'', SetCmdQueueForcelyStop_CB), (''CleanCmdQueue'', CleanCmdQueue_CB),
     (''GetQueuedCmdCurrentIndex'', GetQueuedCmdCurrentIndex_CB),
     (''GetCmdQueueAvailableSpace'', GetCmdQueueAvailableSpace_CB), (''SetMoveSpeedTime'', SetMoveSpeedTime_CB),
     (''SetMoveSpeedDirect'', SetMoveSpeedDirect_CB), (''SetCoordClosedLoop'', SetCoordClosedLoop_CB),
     (''SetIncrementClosedLoop'', SetIncrementClosedLoop_CB), (''GetImuSpeed'', GetImuSpeed_CB),
     (''SetTracePid'', SetTracePid_CB), (''GetImgToArmXY'', GetImgToArmXY_CB),
     (''GetArmCameraAngle'', GetArmCameraAngle_CB), (''GetArmCameraColor'', GetArmCameraColor_CB),
     (''GetArmCameraObj'', GetArmCameraObj_CB), (''GetArmCameraTag'', GetArmCameraTag_CB),
     (''SetArmCameraCalibrationMode'', ArmCameraCalibrationMode_CB),
     (''GetArmCameraCalibrationMode'', ArmCameraCalibrationMode_CB),
     (''GetCarCameraAngle'', GetCarCameraAngle_CB), (''GetCarCameraColor'', GetCarCameraColor_CB),
     (''GetCarCameraObj'', GetCarCameraObj_CB), (''GetCarCameraTag'', GetCarCameraTag_CB),
     (''SetCarCameraCalibrationMode'', CarCameraCalibrationMode_CB),
     (''GetCarCameraCalibrationMode'', CarCameraCalibrationMode_CB),
     (''SetCarCameraRunModel'', CarCameraRunModel_CB), (''GetCarCameraRunModel'', CarCameraRunModel_CB),
     (''SetArmCameraRunModel'', ArmCameraRunModel_CB), (''GetArmCameraRunModel'', ArmCameraRunModel_CB),
     (''GetMagicBoxMode'', GetMagicBoxMode_CB), (''GetMagicBoxNum'', GetMagicBoxNum_CB),
     (''SetMagicBoxScriptMode'', SetMagicBoxScriptMode_CB)]"

definition p3_crossed_callbacks :: "(string \<times> (cb_parm \<Rightarrow> p3_answer)) list" where
  "p3_crossed_callbacks = [(''SetSpeedometer'', SetSpeedometer_CB), (''SetTraceLoop'', SetTraceLoop_CB),
     (''SetStopPointServer'', SetStopPointServer_CB), (''SetStopPointParam'', SetStopPointParam_CB),
     (''GetStopPointState'', GetStopPointState_CB)]"

definition p3_own_callbacks :: "(string \<times> (cb_parm \<Rightarrow> p3_answer)) list" where
  "p3_own_callbacks = p3_reply_callbacks @ p3_crossed_callbacks"

text \<open>The one list and id under which two of the classes register callbacks is none of theirs.\<close>

abbreviation p3_shared :: "nat \<times> u16" where "p3_shared \<equiv> (box_cbs, 217)"

definition p3_replies_with :: "((nat \<times> u16) \<times> (cb_parm \<Rightarrow> p3_answer)) list \<Rightarrow> (cb_parm \<Rightarrow> p3_answer) \<Rightarrow>
    (bool \<times> p3_sent) option \<Rightarrow> bool" where
  "p3_replies_with cbs f r \<longleftrightarrow> (\<forall>w p n ack. r = Some (w, P3_send p n ack) \<longrightarrow>
     map_of cbs (p3_list (cmdSet p) (des p), ucast (cmdId p)) = Some f \<and>
     (p3_list (cmdSet p) (des p), ucast (cmdId p)) \<noteq> p3_shared)"

lemma p3_replies_withI:
  assumes "map_of cbs (p3_list cset dst, ucast cid) = Some f" and "(p3_list cset dst, ucast cid) \<noteq> p3_shared"
  shows "p3_replies_with cbs f (p3_ask w (p3_emit (p3_head k u r dst cset cid q) n a cs))"
  using assms by (auto simp: p3_replies_with_def p3_ask_def p3_emit_Some p3_head_def)

lemma p3_replies_with_bind: "(\<And>y. p3_replies_with cbs f (g y)) \<Longrightarrow> p3_replies_with cbs f (x \<bind> g)"
  by (cases x) (simp_all add: p3_replies_with_def)

lemma p3_replies_with_None: "p3_replies_with cbs f (p3_ask w None)"
  by (simp add: p3_replies_with_def p3_ask_def)

lemmas p3_replies_rules = p3_replies_withI p3_replies_with_bind p3_replies_with_None p3_ask_bind

lemma general_replies:
  "\<forall>(api, h) \<in> set general_handlers. \<forall>(api\<^sub>f, f) \<in> set p3_reply_callbacks. api\<^sub>f = api \<longrightarrow>
     (\<forall>j q. p3_replies_with (cb_keyed gen_callbacks) f (h j q))"
  by (simp add: general_handlers_def p3_reply_callbacks_def handle_defs gen_defs p3_replies_rules rd_range_def
      p3_list_def cb_keyed_def gen_callbacks_def)

text \<open>The entries of the three longer registrations.\<close>

lemma go_lookup:
  "map_of (cb_keyed go_callbacks) (go_cbs, 0) = Some RunningState_CB"
  "map_of (cb_keyed go_callbacks) (go_cbs, 1) = Some RunningMode_CB"
  "map_of (cb_keyed go_callbacks) (go_cbs, 3) = Some SetBaseMode_CB"
  "map_of (cb_keyed go_callbacks) (go_cbs, 10) = Some MoveSpeed_CB"
  "map_of (cb_keyed go_callbacks) (go_cbs, 4) = Some BaseSpeedRatio_CB"
  "map_of (cb_keyed go_callbacks) (go_cbs, 9) = Some SetMoveSpeedDirect_CB"
  "map_of (cb_keyed go_callbacks) (go_cbs, 11) = Some SetRotate_CB"
  "map_of (cb_keyed go_callbacks) (go_cbs, 12) = Some SetMoveDist_CB"
  "map_of (cb_keyed go_callbacks) (go_cbs, 13) = Some SetMovePos_CB"
  "map_of (cb_keyed go_callbacks) (go_cbs, 15) = Some SetArcRad_CB"
  "map_of (cb_keyed go_callbacks) (go_cbs, 16) = Some SetArcCent_CB"
  "map_of (cb_keyed go_callbacks) (go_cbs, 17) = Some SetCoordClosedLoop_CB"
  "map_of (cb_keyed go_callbacks) (go_cbs, 18) = Some SetIncrementClosedLoop_CB"
  "map_of (cb_keyed go_callbacks) (go_cbs, 20) = Some SetLightRGB_CB"
  "map_of (cb_keyed go_callbacks) (go_cbs, 21) = Some SetLightPrompt_CB"
  "map_of (cb_keyed go_callbacks) (go_cbs, 25) = Some SetBuzzerSound_CB"
  "map_of (cb_keyed go_callbacks) (go_cbs, 26) = Some SetOriginPoint_CB"
  "map_of (cb_keyed go_callbacks) (go_cbs, 30) = Some GetUltrasoundData_CB"
  "map_of (cb_keyed go_callbacks) (go_cbs, 31) = Some GetSwitchState_CB"
  "map_of (cb_keyed go_callbacks) (go_cbs, 56) = Some GetLineSensorData_CB"
  "map_of (cb_keyed go_callbacks) (go_cbs, 33) = Some GetSpeedometer_CB"
  "map_of (cb_keyed go_callbacks) (go_cbs, 34) = Some GetStallProtection_CB"
  "map_of (cb_keyed go_callbacks) (go_cbs, 35) = Some GetOffGround_CB"
  "map_of (cb_keyed go_callbacks) (go_cbs, 36) = Some GetBatteryVoltage_CB"
  "map_of (cb_keyed go_callbacks) (go_cbs, 37) = Some GetImuAngle_CB"
  "map_of (cb_keyed go_callbacks) (go_cbs, 38) = Some GetImuSpeed_CB"
  "map_of (cb_keyed go_callbacks) (go_cbs, 40) = Some AlarmInfo_CB"
  "map_of (cb_keyed go_callbacks) (go_cbs, 50) = Some SetTraceAuto_CB"
  "map_of (cb_keyed go_callbacks) (go_cbs, 51) = Some SetTraceLineInfo_CB"
  "map_of (cb_keyed go_callbacks) (go_cbs, 52) = Some SetTraceSpeed_CB"
  "map_of (cb_keyed go_callbacks) (go_cbs, 53) = Some LineSensorState_CB"
  "map_of (cb_keyed go_callbacks) (go_cbs, 54) = Some SetLineSensorAdjust_CB"
  "map_of (cb_keyed go_callbacks) (go_cbs, 55) = Some SetLineSensorDefault_CB"
  "map_of (cb_keyed go_callbacks) (go_cbs, 57) = Some SetTracePid_CB"
  "map_of (cb_keyed go_callbacks) (go_cbs, 240) = Some SetCmdQueueStart_CB"
  "map_of (cb_keyed go_callbacks) (go_cbs, 241) = Some SetCmdQueueStop_CB"
  "map_of (cb_keyed go_callbacks) (go_cbs, 242) = Some SetCmdQueueForcelyStop_CB"
  "map_of (cb_keyed go_callbacks) (go_cbs, 245) = Some CleanCmdQueue_CB"
  "map_of (cb_keyed go_callbacks) (go_cbs, 246) = Some GetQueuedCmdCurrentIndex_CB"
  "map_of (cb_keyed go_callbacks) (go_cbs, 247) = Some GetCmdQueueAvailableSpace_CB"
  "map_of (cb_keyed go_callbacks) (go_cbs, 8) = Some SetMoveSpeedTime_CB"
  "map_of (cb_keyed go_callbacks) (box_cbs, 217) = Some SetTraceLoop_CB"
  "map_of (cb_keyed go_callbacks) (go_cbs, 217) = Some GetImgToArmXY_CB"
  by (simp_all add: cb_keyed_def go_callbacks_def)

lemma cam_lookup:
  "map_of (cb_keyed cam_callbacks) (car_cbs, 10) = Some GetCarCameraAngle_CB"
  "map_of (cb_keyed cam_callbacks) (car_cbs, 20) = Some GetCarCameraColor_CB"
  "map_of (cb_keyed cam_callbacks) (car_cbs, 30) = Some GetCarCameraObj_CB"
  "map_of (cb_keyed cam_callbacks) (car_cbs, 50) = Some GetCarCameraTag_CB"
  "map_of (cb_keyed cam_callbacks) (car_cbs, 103) = Some CarCameraCalibrationMode_CB"
  "map_of (cb_keyed cam_callbacks) (car_cbs, 102) = Some CarCameraRunModel_CB"
  "map_of (cb_keyed cam_callbacks) (arm_cbs, 10) = Some GetArmCameraAngle_CB"
  "map_of (cb_keyed cam_callbacks) (arm_cbs, 20) = Some GetArmCameraColor_CB"
  "map_of (cb_keyed cam_callbacks) (arm_cbs, 30) = Some GetArmCameraObj_CB"
  "map_of (cb_keyed cam_callbacks) (arm_cbs, 50) = Some GetArmCameraTag_CB"
  "map_of (cb_keyed cam_callbacks) (arm_cbs, 103) = Some ArmCameraCalibrationMode_CB"
  "map_of (cb_keyed cam_callbacks) (arm_cbs, 102) = Some ArmCameraRunModel_CB"
  by (simp_all add: cb_keyed_def cam_callbacks_def)

lemma box_lookup:
  "map_of (cb_keyed box_callbacks) (box_cbs, 192) = Some GetMagicBoxMode_CB"
  "map_of (cb_keyed box_callbacks) (box_cbs, 193) = Some GetMagicBoxNum_CB"
  "map_of (cb_keyed box_callbacks) (box_cbs, 199) = Some SetMagicBoxScriptMode_CB"
  "map_of (cb_keyed box_callbacks) (box_cbs, 217) = Some GetStopPointState_CB"
  by (simp_all add: cb_keyed_def box_callbacks_def)

lemma set_take_drop: "set xs = set (take n xs) \<union> set (drop n xs)"
  by (metis append_take_drop_id set_append)

lemma go_replies1:
  "\<forall>(api, h) \<in> set (take 18 go_handlers). \<forall>(api\<^sub>f, f) \<in> set p3_reply_callbacks. api\<^sub>f = api \<longrightarrow>
     (\<forall>j q. p3_replies_with (cb_keyed go_callbacks) f (h j q))"
  by (simp add: go_handlers_def p3_reply_callbacks_def handle_defs go_defs p3_replies_rules p3_list_def go_lookup)

lemma go_replies2:
  "\<forall>(api, h) \<in> set (take 18 (drop 18 go_handlers)). \<forall>(api\<^sub>f, f) \<in> set p3_reply_callbacks. api\<^sub>f = api \<longrightarrow>
     (\<forall>j q. p3_replies_with (cb_keyed go_callbacks) f (h j q))"
  by (simp add: go_handlers_def p3_reply_callbacks_def handle_defs go_defs p3_replies_rules p3_list_def go_lookup)

lemma go_replies3:
  "\<forall>(api, h) \<in> set (drop 36 go_handlers). \<forall>(api\<^sub>f, f) \<in> set p3_reply_callbacks. api\<^sub>f = api \<longrightarrow>
     (\<forall>j q. p3_replies_with (cb_keyed go_callbacks) f (h j q))"
  by (simp add: go_handlers_def p3_reply_callbacks_def handle_defs go_defs p3_replies_rules p3_list_def go_lookup)

lemma go_replies:
  "\<forall>(api, h) \<in> set go_handlers. \<forall>(api\<^sub>f, f) \<in> set p3_reply_callbacks. api\<^sub>f = api \<longrightarrow>
     (\<forall>j q. p3_replies_with (cb_keyed go_callbacks) f (h j q))"
  using go_replies1 go_replies2 go_replies3 set_take_drop [of go_handlers 18] set_take_drop [of "drop 18 go_handlers" 18]
  by (simp add: ball_Un)

lemma camera_replies:
  "\<forall>(api, h) \<in> set camera_handlers. \<forall>(api\<^sub>f, f) \<in> set p3_reply_callbacks. api\<^sub>f = api \<longrightarrow>
     (\<forall>j q. p3_replies_with (cb_keyed cam_callbacks) f (h j q))"
  by (simp add: camera_handlers_def p3_reply_callbacks_def handle_defs cam_defs p3_replies_rules p3_list_def cam_lookup)

lemma box_replies:
  "\<forall>(api, h) \<in> set box_handlers. \<forall>(api\<^sub>f, f) \<in> set p3_reply_callbacks. api\<^sub>f = api \<longrightarrow>
     (\<forall>j q. p3_replies_with (cb_keyed box_callbacks) f (h j q))"
  by (simp add: box_handlers_def p3_reply_callbacks_def handle_defs box_defs p3_replies_rules p3_list_def box_lookup Let_def)

text \<open>Every command has a callback of its own; what has none is no command.\<close>

lemma handlers_have_callbacks:
  "map fst general_handlers = map (\<lambda>i. fst (p3_own_callbacks ! i)) [0, 1, 2, 3, 4, 5, 6, 7, 8, 9, 10]"
  "map fst go_handlers = map (\<lambda>i. fst (p3_own_callbacks ! i))
     [11, 12, 13, 14, 15, 16, 17, 18, 19, 20, 21, 22, 23, 24, 25, 26, 27, 28, 29, 30, 78, 31, 32, 33, 34,
      35, 36, 37, 38, 39, 40, 41, 42, 43, 44, 45, 46, 47, 48, 49, 50, 51, 52, 53, 54, 55, 56, 57,
      26, 79, 80, 81, 82, 58]"
  "map fst (filter (\<lambda>r. fst r \<noteq> ''GetCameraCalibrationData'') camera_handlers) = map (\<lambda>i. fst (p3_own_callbacks ! i))
     [59, 60, 61, 62, 63, 64, 65, 66, 67, 68, 69, 70, 71, 72, 73, 74]"
  "map fst box_handlers = map (\<lambda>i. fst (p3_own_callbacks ! i)) [75, 76, 77]"
  by (simp_all add: general_handlers_def go_handlers_def camera_handlers_def box_handlers_def p3_own_callbacks_def
      p3_reply_callbacks_def p3_crossed_callbacks_def)

lemma p3_own_length: "length p3_own_callbacks = 83"
  by (simp add: p3_own_callbacks_def p3_reply_callbacks_def p3_crossed_callbacks_def)

lemma callbacks_at: "map fst hs = map (\<lambda>i. fst (p3_own_callbacks ! i)) ns \<Longrightarrow> \<forall>i \<in> set ns. i < 83 \<Longrightarrow> (api, h) \<in> set hs \<Longrightarrow>
    \<exists>f. (api, f) \<in> set p3_own_callbacks"
proof -
  assume ns: "map fst hs = map (\<lambda>i. fst (p3_own_callbacks ! i)) ns" "\<forall>i \<in> set ns. i < 83" and h: "(api, h) \<in> set hs"
  have "api \<in> set (map fst hs)" using h by force
  then obtain i where "i < 83" "api = fst (p3_own_callbacks ! i)" using ns by auto
  then show ?thesis using nth_mem [of i p3_own_callbacks] by (metis p3_own_length prod.collapse)
qed

lemma p3_command_callback:
  assumes r: "p3_route api = Some (Inr h)" and h: "h j q = Some (w, P3_send p n ack)"
  obtains f where "(api, f) \<in> set p3_own_callbacks"
proof -
  have "p3_route ''GetCameraCalibrationData'' = Some (Inr handleGetCameraCalibrationData)"
    by (simp add: p3_route_def str_endsWith_def handleCameraCommand_def p3_select_def camera_handlers_def)
  then have "api \<noteq> ''GetCameraCalibrationData''"
    using r h by (auto simp: handleGetCameraCalibrationData_def GOManualCalibration_def split: if_splits)
  then have "(api, h) \<in> set general_handlers \<or> (api, h) \<in> set go_handlers \<or>
      (api, h) \<in> set (filter (\<lambda>r. fst r \<noteq> ''GetCameraCalibrationData'') camera_handlers) \<or> (api, h) \<in> set box_handlers"
    using p3_route_handler [OF r] by auto
  then have "\<exists>f. (api, f) \<in> set p3_own_callbacks"
    by (elim disjE) (erule handlers_have_callbacks [THEN callbacks_at, rotated]; simp)+
  then show thesis using that by blast
qed

text \<open>The commands with the id of another.\<close>

abbreviation p3_stop_commands :: "string list" where
  "p3_stop_commands \<equiv> [''SetTraceLoop'', ''SetStopPointServer'', ''SetStopPointParam'', ''GetStopPointState'']"

lemma p3_ask_head:
  "p3_ask w (p3_emit (p3_head k u r dst cset cid q) n a cs) = Some (w', P3_send p n' ack) \<Longrightarrow> cmdSet p = cset \<and> des p = dst \<and> cmdId p = cid"
  by (auto simp: p3_ask_def p3_emit_Some p3_head_def)

lemma p3_crossed_handlers:
  "\<forall>(api, h) \<in> set (general_handlers @ go_handlers @ camera_handlers @ box_handlers).
     (api = ''SetSpeedometer'' \<longrightarrow> h = handleSetSpeedometer) \<and>
     (api \<in> set p3_stop_commands \<longrightarrow>
        h \<in> {handleSetTraceLoop, handleSetStopPointServer, handleSetStopPointParam, handleGetStopPointState})"
  by (simp add: general_handlers_def go_handlers_def camera_handlers_def box_handlers_def)

lemma p3_crossed_key:
  assumes "p3_route api = Some (Inr h)" and "h j q = Some (w, P3_send p n ack)"
  shows "api \<in> set p3_stop_commands \<Longrightarrow> (p3_list (cmdSet p) (des p), ucast (cmdId p)) = p3_shared"
    and "api = ''SetSpeedometer'' \<Longrightarrow> (p3_list (cmdSet p) (des p), ucast (cmdId p)) = (go_cbs, 33 :: u16)"
proof -
  note sends = handleSetSpeedometer_def handleSetTraceLoop_def handleSetStopPointServer_def handleSetStopPointParam_def
    handleGetStopPointState_def Go_SetSpeedometer_def Go_SetTraceLoop_def Box_SetStopPointServer_def
    Box_SetStopPointParam_def Box_GetStopPointState_def p3_list_def
  assume "api \<in> set p3_stop_commands"
  then consider "h = handleSetTraceLoop" | "h = handleSetStopPointServer" | "h = handleSetStopPointParam" | "h = handleGetStopPointState"
    using p3_route_handler [OF assms(1)] p3_crossed_handlers by blast
  then show "(p3_list (cmdSet p) (des p), ucast (cmdId p)) = p3_shared"
    by cases (use assms(2) in \<open>auto simp: sends dest!: p3_ask_head\<close>)
next
  assume "api = ''SetSpeedometer''"
  then have "h = handleSetSpeedometer" using p3_route_handler [OF assms(1)] p3_crossed_handlers by blast
  then show "(p3_list (cmdSet p) (des p), ucast (cmdId p)) = (go_cbs, 33 :: u16)"
    using assms(2) by (auto simp: handleSetSpeedometer_def Go_SetSpeedometer_def p3_list_def dest!: p3_ask_head)
qed

section \<open>The header of a command\<close>

text \<open>
  The header that belongs to a command by its name: whether it writes, whether it is queued, the bit
  \<open>isAck\<close>, the command set and the receiver.
\<close>

definition p3_header_of :: "string \<Rightarrow> bool \<times> bool \<times> bool \<times> u8 \<times> u8" where
  "p3_header_of api =
     (let general = str_contains ''Device'' api \<or> api = ''HeartBeat'' \<or> api = ''GetProductName'';
          camera = str_contains ''Camera'' api; box = str_contains ''MagicBox'' api \<or> str_contains ''StopPoint'' api
      in (take 3 api \<noteq> ''Get'' \<and> api \<noteq> ''SetMagicBoxScriptMode'',
          api \<in> {''SetRotate'', ''SetMoveDist'', ''SetMovePos'', ''SetArcRad'', ''SetArcCent'', ''SetIncrementClosedLoop''},
          \<not> general \<and> \<not> camera \<and> \<not> box,
          if general then (DobotV3Format_COMMON, dev_addr DobotV3Dev_MagicianGo)
          else if camera then (DobotV3Format_K210, if str_contains ''Arm'' api then 0x21 else 0x20)
          else if box \<or> api = ''SetTraceLoop'' then (DobotV3Format_MAGICBOX, 3)
          else (DobotV3Format_MAGICIANGO, 4)))"

definition p3_header_ok :: "string \<Rightarrow> (bool \<times> p3_sent) option \<Rightarrow> bool" where
  "p3_header_ok api r \<longleftrightarrow> (\<forall>w p n ack. r = Some (w, P3_send p n ack) \<longrightarrow>
     (rwType p, queueType p, isAck p, cmdSet p, des p) = p3_header_of api)"

lemma p3_header_okI:
  "(r, u, k, cset, dst) = p3_header_of api \<Longrightarrow> p3_header_ok api (p3_ask w (p3_emit (p3_head k u r dst cset cid q) n a cs))"
  by (auto simp: p3_header_ok_def p3_ask_def p3_emit_Some p3_head_def)

lemma p3_header_ok_bind: "(\<And>y. p3_header_ok api (g y)) \<Longrightarrow> p3_header_ok api (x \<bind> g)"
  by (cases x) (simp_all add: p3_header_ok_def)

lemma p3_header_ok_no_command: "p3_header_ok api (p3_ask w None)" "p3_header_ok api (Some (True, GOManualCalibration a d))"
  by (simp_all add: p3_header_ok_def p3_ask_def GOManualCalibration_def)

lemmas p3_header_rules = p3_header_okI p3_header_ok_bind p3_header_ok_no_command p3_ask_bind

lemma go_headers: "\<forall>(api, h) \<in> set go_handlers. \<forall>j q. p3_header_ok api (h j q)"
  by (simp add: go_handlers_def handle_defs go_defs box_defs p3_header_rules p3_header_of_def)

lemma handlers_headers:
  "\<forall>(api, h) \<in> set general_handlers. \<forall>j q. p3_header_ok api (h j q)"
  "\<forall>(api, h) \<in> set camera_handlers. \<forall>j q. p3_header_ok api (h j q)"
  "\<forall>(api, h) \<in> set box_handlers. \<forall>j q. p3_header_ok api (h j q)"
  by (simp_all add: general_handlers_def camera_handlers_def box_handlers_def handle_defs gen_defs
      cam_defs box_defs Let_def p3_header_rules p3_header_of_def)

end
