(* ===== verification/P3Routing.thy ===== *)
theory P3Routing imports P3Callbacks begin

text \<open>
  The way of a request of the third protocol to the device and back: the callbacks that the four
  classes leave in the library, the slot a request gets, and the answer that reaches the client.
\<close>

section \<open>The registered callbacks\<close>

text \<open>Apart from the shared entry the classes register under different lists.\<close>

lemma cb_keyed_key: "map_of (cb_keyed rs) (l, i) = Some f \<Longrightarrow> (l, i, f) \<in> set rs"
  by (auto simp: cb_keyed_def dest!: map_of_SomeD)

lemma callback_lists:
  "\<forall>(l, i, f) \<in> set gen_callbacks. l = general_cbs"
  "\<forall>(l, i, f) \<in> set go_callbacks. l = go_cbs \<or> (l, i) = p3_shared"
  "\<forall>(l, i, f) \<in> set box_callbacks. l = box_cbs"
  "\<forall>(l, i, f) \<in> set cam_callbacks. l = car_cbs \<or> l = arm_cbs"
  by (simp_all add: gen_callbacks_def go_callbacks_def box_callbacks_def cam_callbacks_def)

lemma cb_keyed_lists:
  "map_of (cb_keyed gen_callbacks) (l, i) = Some f \<Longrightarrow> l = general_cbs"
  "map_of (cb_keyed go_callbacks) (l, i) = Some f \<Longrightarrow> (l, i) \<noteq> p3_shared \<Longrightarrow> l = go_cbs"
  "map_of (cb_keyed box_callbacks) (l, i) = Some f \<Longrightarrow> l = box_cbs"
  "map_of (cb_keyed cam_callbacks) (l, i) = Some f \<Longrightarrow> l = car_cbs \<or> l = arm_cbs"
  using callback_lists by (blast dest: cb_keyed_key)+

lemma map_of_concat:
  assumes "A \<in> set cs" and "map_of (cb_keyed A) k = Some f"
    and "\<forall>B \<in> set cs. map_of (cb_keyed B) k = None \<or> B = A"
  shows "map_of (cb_keyed (concat cs)) k = Some f"
  using assms
proof (induction cs)
  case (Cons B cs)
  show ?case
  proof (cases "A \<in> set cs")
    case True
    then show ?thesis using Cons by (simp add: cb_keyed_simps map_add_Some_iff)
  next
    case False
    then have "A = B" "\<forall>C \<in> set cs. map_of (cb_keyed C) k = None" using Cons.prems by auto
    moreover from this(2) have "map_of (cb_keyed (concat cs)) k = None"
      by (induction cs) (simp_all add: cb_keyed_simps map_add_def)
    ultimately show ?thesis using Cons.prems(2) by (simp add: cb_keyed_simps map_add_def)
  qed
qed simp

text \<open>The four classes in some order.\<close>

definition p3_classes :: "p3_registration list list \<Rightarrow> bool" where
  "p3_classes cs \<longleftrightarrow> mset cs = {#gen_callbacks, go_callbacks, box_callbacks, cam_callbacks#}"

lemma p3_classes_set: "p3_classes cs \<Longrightarrow> set cs = {gen_callbacks, go_callbacks, box_callbacks, cam_callbacks}"
  by (metis p3_classes_def set_mset_add_mset_insert set_mset_empty set_mset_mset)

lemma p3_classes_length: "p3_classes cs \<Longrightarrow> length (concat cs) = 76"
proof -
  assume "p3_classes cs"
  then have "sum_mset (image_mset length (mset cs)) = 76"
    by (simp add: p3_classes_def gen_callbacks_def go_callbacks_def box_callbacks_def cam_callbacks_def)
  then show ?thesis by (simp add: length_concat sum_mset_sum_list flip: mset_map)
qed

lemma p3_classes_lists:
  assumes "p3_classes cs"
  shows "\<forall>(l, i, f) \<in> set (concat cs). l < 6"
proof -
  have "\<forall>(l, i, f) \<in> set (concat cs). l \<in> {general_cbs, go_cbs, arm_cbs, car_cbs, box_cbs}"
    using callback_lists unfolding set_concat p3_classes_set [OF assms] by auto
  then show ?thesis by fastforce
qed

lemma p3_started_callbacks: "pCBLists (p3_started w) = replicate 6 (DobotV3CmdInter_CMDCB_LS_EXPORT 255)"
  by (simp add: p3_started_def DobotV3_SetSendParm_def SetDefultSendParm_def)

lemma p3_started_room: "cb_room 255 (p3_started w)"
  by (simp add: cb_room_def p3_started_callbacks cb_list_ok_def DobotV3CmdInter_CMDCB_LS_EXPORT_def)

lemma cb_room_mono: "cb_room n s \<Longrightarrow> m \<le> n \<Longrightarrow> cb_room m s"
  by (fastforce simp: cb_room_def)

text \<open>The commands of the table, by the class that registers the callback.\<close>

lemma p3_reply_class:
  assumes f: "(api, f) \<in> set p3_reply_callbacks" and r: "p3_route api = Some (Inr h)"
    and h: "h j q = Some (wantAck, P3_send p n ack)"
  defines "k \<equiv> (p3_list (cmdSet p) (des p), ucast (cmdId p))"
  shows "k \<noteq> p3_shared \<and>
     (\<exists>A \<in> {gen_callbacks, go_callbacks, box_callbacks, cam_callbacks}. map_of (cb_keyed A) k = Some f)"
proof -
  have *: "p3_replies_with (cb_keyed A) f (h j q) \<Longrightarrow> k \<noteq> p3_shared \<and> map_of (cb_keyed A) k = Some f" for A
    using h by (simp add: p3_replies_with_def k_def)
  from p3_route_handler [OF r] consider "(api, h) \<in> set general_handlers" | "(api, h) \<in> set go_handlers"
    | "(api, h) \<in> set camera_handlers" | "(api, h) \<in> set box_handlers" by auto
  then show ?thesis
  proof cases
    case 1 then show ?thesis using general_replies f * [of gen_callbacks] by fastforce
  next
    case 2 then show ?thesis using go_replies f * [of go_callbacks] by fastforce
  next
    case 3 then show ?thesis using camera_replies f * [of cam_callbacks] by fastforce
  next
    case 4 then show ?thesis using box_replies f * [of box_callbacks] by fastforce
  qed
qed

text \<open>The class among those with the shared entry that is constructed last has it.\<close>

lemma map_of_concat_last:
  "map_of (cb_keyed (concat cs)) k =
     (case find (\<lambda>A. map_of (cb_keyed A) k \<noteq> None) (rev cs) of None \<Rightarrow> None | Some A \<Rightarrow> map_of (cb_keyed A) k)"
  by (induction cs rule: rev_induct) (auto simp: cb_keyed_simps map_add_def cb_keyed_def split: option.split)

definition p3_stop_callback :: "p3_registration list list \<Rightarrow> cb_parm \<Rightarrow> p3_answer" where
  "p3_stop_callback cs = (if find (\<lambda>A. A = go_callbacks \<or> A = box_callbacks) (rev cs) = Some box_callbacks
     then GetStopPointState_CB else SetTraceLoop_CB)"

lemma p3_shared_callback:
  assumes cs: "p3_classes cs"
  shows "map_of (cb_keyed (concat cs)) p3_shared = Some (p3_stop_callback cs)"
proof -
  let ?P = "\<lambda>A. A = go_callbacks \<or> A = box_callbacks"
  have n: "map_of (cb_keyed gen_callbacks) p3_shared = None" "map_of (cb_keyed cam_callbacks) p3_shared = None"
    by (simp_all add: cb_keyed_def gen_callbacks_def cam_callbacks_def)
  have y: "map_of (cb_keyed go_callbacks) p3_shared = Some SetTraceLoop_CB"
    "map_of (cb_keyed box_callbacks) p3_shared = Some GetStopPointState_CB" by (rule go_lookup, rule box_lookup)
  have "find (\<lambda>A. map_of (cb_keyed A) p3_shared \<noteq> None) (rev cs) = find ?P (rev cs)"
    by (rule find_cong) (use n y in \<open>auto simp: p3_classes_set [OF cs]\<close>)
  moreover have "find ?P (rev cs) \<noteq> None" by (auto simp: find_None_iff p3_classes_set [OF cs])
  then obtain A where A: "find ?P (rev cs) = Some A" by auto
  then have "A = go_callbacks \<or> A = box_callbacks" by (auto simp: find_Some_iff)
  moreover have "length go_callbacks \<noteq> length box_callbacks" by (simp add: go_callbacks_def box_callbacks_def)
  ultimately show ?thesis using A y by (auto simp: map_of_concat_last p3_stop_callback_def)
qed

text \<open>
  The callback that the answer to a command runs: its own one, which is \<open>f\<close>, unless the command has
  the id of another.
\<close>

definition p3_reached :: "p3_registration list list \<Rightarrow> string \<Rightarrow> (cb_parm \<Rightarrow> p3_answer) \<Rightarrow> cb_parm \<Rightarrow> p3_answer" where
  "p3_reached cs api f = (if api = ''SetSpeedometer'' then GetSpeedometer_CB
     else if api \<in> set p3_stop_commands then p3_stop_callback cs else f)"

lemma p3_crossed_reached:
  assumes "(api, f) \<in> set p3_own_callbacks"
  shows "(api, f) \<in> set p3_reply_callbacks \<and> p3_reached cs api f = f \<or>
    api = ''SetSpeedometer'' \<and> f = SetSpeedometer_CB \<and> p3_reached cs api f = GetSpeedometer_CB \<or>
    api \<in> set p3_stop_commands \<and> p3_reached cs api f = p3_stop_callback cs \<and>
      f \<in> {SetTraceLoop_CB, SetStopPointServer_CB, SetStopPointParam_CB, GetStopPointState_CB}"
proof (cases "(api, f) \<in> set p3_crossed_callbacks")
  case True
  then show ?thesis by (auto simp: p3_crossed_callbacks_def p3_reached_def)
next
  case False
  then have r: "(api, f) \<in> set p3_reply_callbacks" using assms by (simp add: p3_own_callbacks_def)
  have "\<forall>(api, f) \<in> set p3_reply_callbacks. api \<notin> {''SetSpeedometer'', ''SetTraceLoop'', ''SetStopPointServer'', ''SetStopPointParam'', ''GetStopPointState''}"
    by (simp add: p3_reply_callbacks_def)
  then show ?thesis using r by (fastforce simp: p3_reached_def)
qed

lemma p3_registered:
  assumes cs: "p3_classes cs"
  shows "\<exists>s. p3_register (concat cs) (p3_started w) = Some s \<and> s = (p3_started w)\<lparr>pCBLists := pCBLists s\<rparr> \<and>
     length (pCBLists s) = 6 \<and> find_callback (pCBLists s ! box_cbs) 217 = Some (p3_callback (p3_stop_callback cs)) \<and>
     (\<forall>A \<in> {gen_callbacks, go_callbacks, box_callbacks, cam_callbacks}. \<forall>l i f.
        map_of (cb_keyed A) (l, i) = Some f \<longrightarrow> (l, i) \<noteq> p3_shared \<longrightarrow> l < 6 \<longrightarrow>
        find_callback (pCBLists s ! l) i = Some (p3_callback f))"
proof -
  have room: "cb_room (length (concat cs)) (p3_started w)"
    unfolding p3_classes_length [OF cs] by (rule cb_room_mono [OF p3_started_room]) simp
  obtain s where s: "p3_register (concat cs) (p3_started w) = Some s" "s = (p3_started w)\<lparr>pCBLists := pCBLists s\<rparr>"
      "length (pCBLists s) = 6"
      "\<forall>l < 6. \<forall>i. find_callback (pCBLists s ! l) i = (case map_of (cb_keyed (concat cs)) (l, i) of
          Some f \<Rightarrow> Some (p3_callback f) | None \<Rightarrow> find_callback (pCBLists (p3_started w) ! l) i)"
    using p3_register_map [OF room p3_classes_lists [OF cs]] by blast
  have "find_callback (pCBLists s ! l) i = Some (p3_callback f)"
    if A: "A \<in> {gen_callbacks, go_callbacks, box_callbacks, cam_callbacks}" "map_of (cb_keyed A) (l, i) = Some f"
      "(l, i) \<noteq> p3_shared" "l < 6" for A l i f
  proof -
    have "map_of (cb_keyed B) (l, i) = None \<or> B = A" if "B \<in> set cs" for B
      using that A unfolding p3_classes_set [OF cs]
      by (cases "map_of (cb_keyed B) (l, i)") (fastforce dest: cb_keyed_lists)+
    then have "map_of (cb_keyed (concat cs)) (l, i) = Some f"
      using A(1,2) by (intro map_of_concat [of A]) (simp_all add: p3_classes_set [OF cs])
    then show ?thesis using s(4) A(4) by simp
  qed
  moreover have "find_callback (pCBLists s ! box_cbs) 217 = Some (p3_callback (p3_stop_callback cs))"
    using s(4) p3_shared_callback [OF cs] by simp
  ultimately show ?thesis using s(1-3) by (intro exI [of _ s]) auto
qed

lemma p3_reached_registered:
  assumes cs: "p3_classes cs" and s: "p3_register (concat cs) (p3_started w) = Some s"
    and f: "(api, f) \<in> set p3_own_callbacks" and r: "p3_route api = Some (Inr h)"
    and h: "h j q = Some (wantAck, P3_send p n ack)"
  shows "find_callback (pCBLists s ! p3_list (cmdSet p) (des p)) (ucast (cmdId p)) = Some (p3_callback (p3_reached cs api f))"
proof -
  let ?k = "(p3_list (cmdSet p) (des p), ucast (cmdId p) :: u16)"
  have reg: "find_callback (pCBLists s ! box_cbs) 217 = Some (p3_callback (p3_stop_callback cs))"
    "find_callback (pCBLists s ! l) i = Some (p3_callback g)"
    if "A \<in> {gen_callbacks, go_callbacks, box_callbacks, cam_callbacks}" "map_of (cb_keyed A) (l, i) = Some g"
      "(l, i) \<noteq> p3_shared" "l < 6" for A l i g
    using p3_registered [OF cs, of w] s that by (fastforce, fastforce)
  from p3_crossed_reached [OF f, of cs] show ?thesis
  proof (elim disjE conjE)
    assume "(api, f) \<in> set p3_reply_callbacks" "p3_reached cs api f = f"
    then show ?thesis using p3_reply_class [OF _ r h] reg(2) p3_list_less by metis
  next
    assume a: "api = ''SetSpeedometer''" "p3_reached cs api f = GetSpeedometer_CB"
    then have "?k = (go_cbs, 33)" using p3_crossed_key(2) [OF r h] by simp
    then show ?thesis using a reg(2) [of go_callbacks go_cbs 33 GetSpeedometer_CB] go_lookup by simp
  next
    assume a: "api \<in> set p3_stop_commands" "p3_reached cs api f = p3_stop_callback cs"
    then have "?k = p3_shared" using p3_crossed_key(1) [OF r h] by simp
    then show ?thesis using a reg(1) [of go_callbacks go_cbs 33 GetSpeedometer_CB] go_lookup by simp
  qed
qed

text \<open>
  C13. Which callback every answer reaches, in whatever order the four classes are constructed: their
  registrations succeed, and afterwards the list and the id under which the library looks for the
  callback of a command have the callback of this command, except for five commands that share their
  id with others: the answer to \<open>SetSpeedometer\<close> runs the callback of \<open>GetSpeedometer\<close>, and those to
  \<open>SetTraceLoop\<close>, \<open>SetStopPointServer\<close>, \<open>SetStopPointParam\<close> and \<open>GetStopPointState\<close> all run that of
  \<open>GetStopPointState\<close> if the class of the MagicBox is constructed after that of the MagicianGo, and that of
  \<open>SetTraceLoop\<close> otherwise. Every request that becomes a command is covered.
\<close>
theorem p3_answers_reach_callbacks:
  assumes cs: "p3_classes cs"
  shows "\<exists>s. p3_register (concat cs) (p3_started w) = Some s \<and> s = (p3_started w)\<lparr>pCBLists := pCBLists s\<rparr> \<and>
     (\<forall>api h j q wantAck p n ack. p3_route api = Some (Inr h) \<longrightarrow> h j q = Some (wantAck, P3_send p n ack) \<longrightarrow>
        (\<exists>f. (api, f) \<in> set p3_own_callbacks \<and>
           find_callback (pCBLists s ! p3_list (cmdSet p) (des p)) (ucast (cmdId p)) = Some (p3_callback (p3_reached cs api f))))"
proof -
  obtain s where s: "p3_register (concat cs) (p3_started w) = Some s" "s = (p3_started w)\<lparr>pCBLists := pCBLists s\<rparr>"
    using p3_registered [OF cs, of w] by blast
  then show ?thesis
    using p3_reached_registered [OF cs s(1)] p3_command_callback by (intro exI [of _ s]) metis
qed





section \<open>The slot of a request\<close>

text \<open>Slot \<open>i\<close> of the library holds the command \<open>p\<close> and waits for its answer.\<close>

definition p3_waits :: "nat \<Rightarrow> nat option \<Rightarrow> SDobotV3Format_Packet \<Rightarrow> u16 \<Rightarrow> bool \<Rightarrow> ('w, 'z) cmd_state_scheme \<Rightarrow> bool" where
  "p3_waits i link p n ack s \<longleftrightarrow> i < packetListSize s \<and>
     (let sl = pPacketParmList s ! i in userMark sl \<and> slotSend sl \<and> autoFreeMark sl \<and> ruleMark sl \<and>
        ruleIndex sl = p3_list (cmdSet p) (des p) \<and> slotLink sl = link \<and> cbMark (slotParm sl) \<and>
        ackMark (slotParm sl) = ack \<and> slotLength sl = unat n + 17 \<and>
        take (unat n + 17) (slot_bytes s i) = dv3_encoded (packet_image p) (ucast n))"

lemma packet_image_nth:
  "packet_image p ! 4 = version p" "packet_image p ! 5 = packet_flags p" "take 4 (drop 6 (packet_image p)) = bytes32 (seqNum p)"
  "packet_image p ! 10 = src p" "packet_image p ! 11 = des p" "packet_image p ! 12 = cmdSet p"
  "packet_image p ! 13 = cmdId p" "length (packet_image p) = 15 + length (payloadAndCRC p)"
proof -
  obtain b0 b1 b2 b3 where s: "bytes32 (seqNum p) = [b0, b1, b2, b3]"
    by (simp add: bytes32_def upt_rec numeral_eq_Suc)
  show "packet_image p ! 4 = version p" "packet_image p ! 5 = packet_flags p" "take 4 (drop 6 (packet_image p)) = bytes32 (seqNum p)"
    "packet_image p ! 10 = src p" "packet_image p ! 11 = des p" "packet_image p ! 12 = cmdSet p"
    "packet_image p ! 13 = cmdId p" "length (packet_image p) = 15 + length (payloadAndCRC p)"
    by (simp_all add: packet_image_def bytes16_def s)
qed

text \<open>The header of an encoded command.\<close>

lemma p3_encoded_nth:
  assumes "length (payloadAndCRC p) = 514" and "4 \<le> k" "k < 14"
  shows "dv3_encoded (packet_image p) n ! k = packet_image p ! k"
proof -
  have "15 + unat n \<le> length (packet_image p)"
    using unat_u8_less [of n] assms(1) unfolding packet_image_nth by linarith
  then show ?thesis using dv3_encoded_nth [of n "packet_image p" k] dv3_header_nth(5) [of "packet_image p" k n] assms by simp
qed

lemma p3_command_length:
  assumes "p3_command_ok q p n"
  shows "unat (ucast n :: u8) = unat n" "unat n + 17 \<le> length (packet_image p)"
    "length (dv3_encoded (packet_image p) (ucast n)) = unat n + 17"
proof -
  show n: "unat (ucast n :: u8) = unat n"
    using assms by (simp add: p3_command_ok_def unsigned_ucast_eq take_bit_nat_eq_self)
  show "unat n + 17 \<le> length (packet_image p)" using assms by (simp add: p3_command_ok_def packet_image_nth)
  then show "length (dv3_encoded (packet_image p) (ucast n)) = unat n + 17" using n by (simp add: dv3_encoded_length)
qed

lemma p3_command_rule:
  assumes "p3_command_ok q p n"
  shows "find_rule DobotV3_matchList (dv3_encoded (packet_image p) (ucast n) @ t) m 0 = Some (Some (p3_list (cmdSet p) (des p)))"
proof -
  let ?b = "dv3_encoded (packet_image p) (ucast n) @ t"
  note l = p3_command_length(3) [OF assms]
  have b: "?b ! k = packet_image p ! k" if "4 \<le> k" "k < 14" for k
    using p3_encoded_nth [of p k] assms that by (simp add: nth_append l p3_command_ok_def)
  have "?b ! 4 = DobotV3Format_VER_11" "?b ! 11 = des p" "?b ! 12 = cmdSet p"
    using b [of 4] b [of 11] b [of 12] assms by (simp_all add: packet_image_nth p3_command_ok_def)
  then show ?thesis using find_rule_command(1) [of ?b m] assms by (simp add: l p3_command_ok_def)
qed

text \<open>
  The invariant of the command table, with the sizes and the rules of \<open>DobotV3Func.c\<close>. The link of the
  adapter is no part of it: its reader returns more bytes than it is asked for.
\<close>

definition p3_table_ok :: "('w, 'z) cmd_state_scheme \<Rightarrow> bool" where
  "p3_table_ok s \<longleftrightarrow> cmd_ok (\<lambda>_ _. []) s \<and> pMatchList s = DobotV3_matchList \<and> packetListSize s = 100 \<and> packetSize s = 256"

lemma p3_table_okD:
  assumes "p3_table_ok s"
  shows "cmd_ok (\<lambda>_ _. []) s" "pMatchList s = DobotV3_matchList" "packetListSize s = 100" "packetSize s = 256"
  using assms by (simp_all add: p3_table_ok_def)

lemma p3_table_slot:
  assumes ok: "p3_table_ok s" and m: "length m = length (pPacketList s)" and i: "i < 98"
    and sl: "ruleIndex sl < 6" "slotLength sl \<le> 256"
  shows "p3_table_ok (s\<lparr>pPacketList := m, pPacketParmList := (pPacketParmList s)[i := sl]\<rparr>)"
proof -
  note t = p3_table_okD [OF ok]
  have "GETPKGADDR s i + DobotV3Format_PACKET_LENGTH \<le> length (pPacketList s)"
    using i t(3,4) cmd_okD(6) [OF t(1)] by (simp add: GETPKGADDR_def)
  then have "slot_ok i s sl" using sl t(2,4) by (simp add: slot_ok_def DobotV3_matchList_def)
  then have "cmd_ok (\<lambda>_ _. []) (s\<lparr>pPacketList := m, pPacketParmList := (pPacketParmList s)[i := sl], loopIndex := loopIndex s\<rparr>)"
    by (intro cmd_ok_update [OF t(1) m cmd_okD(7) [OF t(1)]])
  then show ?thesis using t by (simp add: p3_table_ok_def)
qed

text \<open>The lemma behind the property below, which the example at the end uses, too.\<close>

lemma p3_filed:
  assumes ok: "p3_table_ok (p3_lib s)"
    and free: "find_index (\<lambda>sl. \<not> userMark sl) (pPacketParmList (p3_lib s)) = Some i"
    and r: "p3_route (o_cmd obj) = Some (Inr h)"
    and h: "h (o_params obj) (sm_seqNum (p3_objects s)) = Some (wantAck, P3_send p n ack)"
  shows "\<exists>lib. let ip = \<lparr>idp_id = o_id obj, idp_wsPort = pkt_wsPort (snd (setPacketFromObj obj)), idp_isAck = wantAck\<rparr>
     in p3_sendRequest handle parm c obj s =
          Some (True, s\<lparr>p3_objects := snd (p3_handle c ip (p3_objects s)), p3_lib := lib\<rparr>) \<and>
        lib = (p3_lib s)\<lparr>pPacketList := pPacketList lib,
                 pPacketParmList := (pPacketParmList (p3_lib s))[i := pPacketParmList lib ! i]\<rparr> \<and>
        (\<forall>j < 100. j \<noteq> i \<longrightarrow> slot_bytes lib j = slot_bytes (p3_lib s) j) \<and>
        p3_waits i (p3_linkPath s) p n wantAck lib \<and> seqNum p = sm_seqNum (p3_objects s) \<and>
        (i < 98 \<longrightarrow> p3_table_ok lib)"
proof -
  let ?l = "p3_lib s"
  note c = p3_table_okD(1) [OF ok] and rules = p3_table_okD(2) [OF ok] and N = p3_table_okD(3,4) [OF ok]
  have p: "ack = wantAck" "p3_command_ok (sm_seqNum (p3_objects s)) p n" using p3_route_ok [OF r h] by simp_all
  note n = p3_command_length [OF p(2)]
  have n20: "unat n \<le> 20" using p(2) by (simp add: p3_command_ok_def)
  have i: "i < 100" using free N by (simp add: find_index_Some)
  have pre: "packetListSize ?l \<le> 256" "unat (ucast n :: u8) + 17 \<le> length (packet_image p)"
    "unat (ucast n :: u8) + 17 \<le> packetSize ?l" using N n n20 by simp_all
  obtain q lib sl where send: "DobotV3_SendCmd handle parm (p3_linkPath s) (packet_image p) n ack ?l = Some (True, q, lib)"
      "lib = ?l\<lparr>pPacketList := pPacketList lib, pPacketParmList := (pPacketParmList ?l)[i := sl]\<rparr>"
      "length (pPacketList lib) = length (pPacketList ?l)"
      "userMark sl" "slotSend sl" "autoFreeMark sl" "slotLink sl = p3_linkPath s"
      "slotParm sl = (sendParm ?l)\<lparr>cbMark := True, ackMark := ack\<rparr>" "slotLength sl = unat n + 17"
      "take (slotLength sl) (slot_bytes lib i) = dv3_encoded (packet_image p) (ucast n)"
      "\<forall>j < 100. j \<noteq> i \<longrightarrow> slot_bytes lib j = slot_bytes ?l j"
      "ruleMark sl" "ruleIndex sl = p3_list (cmdSet p) (des p)"
    using SendCmd_spec [OF free pre(1) cmd_okD(1) [OF c] cmd_okD(6) [OF c] pre(2,3), of handle parm "p3_linkPath s" ack]
      p3_command_rule [OF p(2)] rules n(1) N by auto
  have l: "pPacketParmList lib = (pPacketParmList ?l)[i := sl]" by (subst send(2)) simp
  then have slot: "pPacketParmList lib ! i = sl" "packetListSize lib = 100" using i N by simp_all
  have "p3_waits i (p3_linkPath s) p n wantAck lib"
    using send(4-13) i p(1) by (simp add: p3_waits_def slot Let_def)
  moreover have "seqNum p = sm_seqNum (p3_objects s)" using p(2) by (simp add: p3_command_ok_def)
  moreover have "p3_table_ok lib" if "i < 98"
    using p3_table_slot [OF ok send(3) that, of sl] send(9,13) n20 p3_list_less by (subst send(2)) simp
  ultimately show ?thesis
    using send(1,2,11) r h p(1) slot(1)
    by (intro exI [of _ lib]) (simp add: p3_sendRequest_def setPacketFromObj_def p3_perform_def p3_sendCmd_def p3_handle_def Let_def)
qed

text \<open>
  C11. A request that is a command gets a slot: when the table of the library has a free one, the
  command is encoded into it and the slot waits for the answer under the rule of the command's
  class, the object remembers under the number of the command to whom the answer goes, the next
  request has the next number, and nothing else changes: no slot, no callback and no signal. The
  invariant of the table survives this unless the slot is one of the last two.
\<close>
theorem p3_request_filed:
  assumes ok: "p3_table_ok (p3_lib s)"
    and free: "find_index (\<lambda>sl. \<not> userMark sl) (pPacketParmList (p3_lib s)) = Some i"
    and r: "p3_route (o_cmd obj) = Some (Inr h)"
    and h: "h (o_params obj) (sm_seqNum (p3_objects s)) = Some (wantAck, P3_send p n ack)"
  shows "\<exists>lib. let ip = \<lparr>idp_id = o_id obj, idp_wsPort = pkt_wsPort (snd (setPacketFromObj obj)), idp_isAck = wantAck\<rparr>
     in p3_sendRequest handle parm c obj s =
          Some (True, s\<lparr>p3_objects := snd (p3_handle c ip (p3_objects s)), p3_lib := lib\<rparr>) \<and>
        lib = (p3_lib s)\<lparr>pPacketList := pPacketList lib,
                 pPacketParmList := (pPacketParmList (p3_lib s))[i := pPacketParmList lib ! i]\<rparr> \<and>
        (\<forall>j < 100. j \<noteq> i \<longrightarrow> slot_bytes lib j = slot_bytes (p3_lib s) j) \<and>
        p3_waits i (p3_linkPath s) p n wantAck lib \<and> seqNum p = sm_seqNum (p3_objects s) \<and>
        (i < 98 \<longrightarrow> p3_table_ok lib)"
  by (rule p3_filed [OF assms])

section \<open>The answer\<close>

text \<open>The fields in which the answer \<open>b\<close> of a device agrees with the command.\<close>

definition p3_answer_to :: "SDobotV3Format_Packet \<Rightarrow> bytes \<Rightarrow> bool" where
  "p3_answer_to p b \<longleftrightarrow> b ! 4 = version p \<and> bit (b ! 5) 2 = rwType p \<and> bit (b ! 5) 3 = queueType p \<and>
     take 4 (drop 6 b) = bytes32 (seqNum p) \<and> b ! 10 = des p \<and> b ! 12 = cmdSet p \<and> b ! 13 = cmdId p"

lemma p3_answer_seqNum:
  assumes "take 4 (drop 6 b) = bytes32 q" and "10 \<le> length b"
  shows "p3_seqNum b = q"
proof -
  have e: "take 4 (drop 6 b) = [b ! 6, b ! 7, b ! 8, b ! 9]"
    using assms(2) by (intro nth_equalityI) (auto simp: less_Suc_eq numeral_eq_Suc)
  show ?thesis
    using assms(1) le32_bytes [of q] unfolding e by (simp add: p3_seqNum_def bytes32_def upt_rec numeral_eq_Suc)
qed

lemma p3_sent_header:
  assumes "p3_waits i link p n ack s" and "p3_command_ok q p n" and "packetSize s = 256" and "4 \<le> k" "k < 14"
  shows "drop (GETPKGADDR s i) (pPacketList s) ! k = packet_image p ! k"
proof -
  have e: "take (unat n + 17) (slot_bytes s i) = dv3_encoded (packet_image p) (ucast n)"
    using assms(1) by (simp add: p3_waits_def Let_def)
  have "dv3_encoded (packet_image p) (ucast n) ! k = packet_image p ! k"
    using p3_encoded_nth assms(2,4,5) by (simp add: p3_command_ok_def)
  then have "slot_bytes s i ! k = packet_image p ! k"
    using assms(5) by (simp flip: e)
  then show ?thesis using assms(3,5) by (simp add: slot_bytes_def)
qed

lemma p3_sent_seqNum:
  assumes w: "p3_waits i link p n ack s" and p: "p3_command_ok q p n" and sz: "packetSize s = 256"
    and len: "15 \<le> length (drop (GETPKGADDR s i) (pPacketList s))"
  shows "take 4 (drop 6 (drop (GETPKGADDR s i) (pPacketList s))) = bytes32 (seqNum p)"
proof -
  let ?m = "drop (GETPKGADDR s i) (pPacketList s)"
  have "take 4 (drop 6 ?m) = take 4 (drop 6 (packet_image p))"
  proof (rule nth_equalityI)
    fix k assume "k < length (take 4 (drop 6 ?m))"
    then have "k < 4" by simp
    then show "take 4 (drop 6 ?m) ! k = take 4 (drop 6 (packet_image p)) ! k"
      using p3_sent_header [OF w p sz, of "6 + k"] len p
      by (simp add: p3_command_ok_def packet_image_nth(8) del: drop_drop)
  qed (use len p in \<open>simp add: p3_command_ok_def packet_image_nth(8) del: drop_drop\<close>)
  then show ?thesis by (simp only: packet_image_nth(3))
qed

lemma p3_rule_matches:
  assumes rules: "pMatchList s = DobotV3_matchList" and p: "p3_command_ok q p n"
    and a: "15 \<le> length a" "a ! 4 = version p" "bit (a ! 5) 2 = rwType p" "bit (a ! 5) 3 = queueType p"
      "take 4 (drop 6 a) = bytes32 (seqNum p)" "a ! 11 = des p" "a ! 13 = cmdId p"
    and b: "15 \<le> length b" "p3_answer_to p b"
  shows "Match (pMatchList s ! p3_list (cmdSet p) (des p)) a b = Some True"
  using p a b
  by (auto simp: rules DobotV3_matchList_def p3_list_def p3_command_ok_def rules_match_defs mem_safe p3_answer_to_def)

lemma p3_slot_answered:
  assumes ok: "cmd_ok input s" and sz: "packetSize s = 256" and rules: "pMatchList s = DobotV3_matchList"
    and w: "p3_waits i link p n True s" and p: "p3_command_ok q p n"
    and link: "pLink (pPacketParm s) = link"
    and off: "packet_offered s" and b: "p3_answer_to p (pPacket (pPacketParm s))"
    and cb: "find_callback (pCBLists s ! p3_list (cmdSet p) (des p)) (ucast (cmdId p)) = Some g"
  shows "waits_for s i" and "answer_callback s i = Some g"
proof -
  let ?sl = "pPacketParmList s ! i" and ?m = "drop (GETPKGADDR s i) (pPacketList s)" and ?b = "pPacket (pPacketParm s)"
  have i: "i < packetListSize s" and sl: "slotSend ?sl" "ruleMark ?sl" "ruleIndex ?sl = p3_list (cmdSet p) (des p)"
      "slotLink ?sl = link" "cbMark (slotParm ?sl)" "ackMark (slotParm ?sl)"
    using w by (simp_all add: p3_waits_def Let_def)
  have len: "15 \<le> length ?m" using slot_addr [OF ok i] sz by simp
  have lb: "15 \<le> length ?b" "15 \<le> packetLength (pPacketParm s)" using off by (simp_all add: packet_offered_def)
  have h: "?m ! 4 = version p" "?m ! 5 = packet_flags p" "?m ! 11 = des p" "?m ! 13 = cmdId p"
    using p3_sent_header [OF w p sz] by (simp_all add: packet_image_nth)
  show "waits_for s i"
    using p3_rule_matches [OF rules p len h(1) _ _ p3_sent_seqNum [OF w p sz len] h(3,4) lb(1) b] sl link h(2)
    by (simp add: waits_for_def Let_def bit_packet_flags)
  have "cbPacket (answer_parm s) ! 13 = cmdId p" "cbPacket (answer_parm s) ! 4 = version p"
    "cbPacket (answer_parm s) ! 12 = cmdSet p" "15 \<le> length (cbPacket (answer_parm s))"
    using lb b by (simp_all add: answer_parm_def cb_parm_of_def nth_append p3_answer_to_def)
  then have "GetId (pMatchList s ! p3_list (cmdSet p) (des p)) (cbPacket (answer_parm s)) (cbLength (answer_parm s)) =
      Some (ucast (cmdId p))" "pCmdCB (pMatchList s ! p3_list (cmdSet p) (des p)) = Some (p3_list (cmdSet p) (des p))"
    using p by (auto simp: rules DobotV3_matchList_def p3_list_def p3_command_ok_def rules_id_defs mem_safe)
  then show "answer_callback s i = Some g"
    using sl cb by (simp add: answer_callback_def slot_callback_def Let_def)
qed

text \<open>
  C3. The answer to a command reaches the client that asked for it: if a slot waits for the answer to
  a command and the link hands over a packet that agrees with the command in type, number, sender and
  id, and no slot before it claims the packet, then the library accepts it and frees the slot, and
  the signal that this causes makes the object that made the request, and only this one, send what
  the callback that answers to the command reach reads from the packet to the port of the client,
  under the id of the request, and forget the request. That callback is the one of the command, but for
  the five commands that share their id with others (\<open>p3_reached\<close>). It is assumed that no earlier signal
  is still to be delivered and that the counter of requests has not come round. An earlier slot claims the packet
  when its own rule takes it for the answer to its command, which for the general commands needs
  no equal number.
\<close>
theorem p3_answer_reaches_client:
  assumes ok: "p3_table_ok (p3_lib s)"
    and reg: "p3_classes cs" "p3_register (concat cs) (p3_started w) = Some s0" "pCBLists (p3_lib s) = pCBLists s0"
    and f: "(api, f) \<in> set p3_own_callbacks" and r: "p3_route api = Some (Inr h)"
    and h: "h j q = Some (True, P3_send p n ack)" and slot: "p3_waits i link p n True (p3_lib s)"
    and link: "pLink (pPacketParm (p3_lib s)) = link" and off: "packet_offered (p3_lib s)"
    and b: "p3_answer_to p (pPacket (pPacketParm (p3_lib s)))" and first: "\<forall>k < i. \<not> waits_for (p3_lib s) k"
    and quiet: "receiveData_signals (world (p3_lib s)) = []" and res: "p3_reached cs api f (answer_parm (p3_lib s)) = Some (isTimeOut, obj)"
    and run: "p3_run (p3_objects s) hist" "length hist \<le> 4294967296" and c: "c < length (p3_devices (p3_objects s))"
    and ip: "(q, ip) \<in> set (m_idPortSeqMap (p3_devices (p3_objects s) ! c))"
  shows "\<exists>lib s'. DobotV3CmdInter_PacketCallBack (p3_lib s) = Some lib \<and> p3_table_ok lib \<and> \<not> userMark (pPacketParmList lib ! i) \<and>
     p3_deliver (s\<lparr>p3_lib := lib\<rparr>) = Some s' \<and> receiveData_signals (world (p3_lib s')) = [] \<and>
     p3_objects s' = (p3_objects s)\<lparr>p3_devices := (p3_devices (p3_objects s))[c := (p3_devices (p3_objects s) ! c)
       \<lparr>m_idPortSeqMap := AList.delete q (m_idPortSeqMap (p3_devices (p3_objects s) ! c)),
        recviceData := recviceData (p3_devices (p3_objects s) ! c) @
          [(idp_id ip, idp_wsPort ip, if isTimeOut then P3_timeout else P3_result obj)]\<rparr>]\<rparr>"
proof -
  let ?l = "p3_lib s"
  note cok = p3_table_okD(1) [OF ok] and rules = p3_table_okD(2) [OF ok] and sz = p3_table_okD(4) [OF ok]
  have p: "p3_command_ok q p n" using p3_route_ok [OF r h] by simp
  have cb: "find_callback (pCBLists ?l ! p3_list (cmdSet p) (des p)) (ucast (cmdId p)) = Some (p3_callback (p3_reached cs api f))"
    using p3_reached_registered [OF reg(1,2) f r h] by (simp add: reg(3))
  note wt = p3_slot_answered [OF cok sz rules slot p link off b cb]
  have i: "i < packetListSize ?l" "autoFreeMark (pPacketParmList ?l ! i)" using slot by (simp_all add: p3_waits_def Let_def)
  have "find (waits_for ?l) [0..<packetListSize ?l] = Some i" using i(1) wt(1) first by (simp add: find_upt_Some)
  then have lib: "DobotV3CmdInter_PacketCallBack ?l = Some (answered i ?l)" using PacketCallBack_eq [OF cok off] by simp
  let ?w = "world (answered i ?l)"
  have pk: "15 \<le> packetLength (pPacketParm ?l)" "15 \<le> length (pPacket (pPacketParm ?l))" "packetLength (pPacketParm ?l) \<le> length (pPacket (pPacketParm ?l))"
    using off by (simp_all add: packet_offered_def)
  have "take 4 (drop 6 (cbPacket (answer_parm ?l))) = bytes32 q"
    using b p pk by (simp add: answer_parm_def cb_parm_of_def p3_answer_to_def p3_command_ok_def drop_take)
  moreover have "10 \<le> length (cbPacket (answer_parm ?l))" using pk by (simp add: answer_parm_def cb_parm_of_def)
  ultimately have "p3_seqNum (cbPacket (answer_parm ?l)) = q" using p3_answer_seqNum by blast
  then have sig: "receiveData_signals ?w = [(q, Some (isTimeOut, obj))]"
    using quiet by (simp add: answered_frame run_callback_def wt(2) p3_callback_def res)
  have "\<not> userMark (pPacketParmList (answered i ?l) ! i)"
    using i by (simp add: answered_frame answered_slot_def ClearPkgParm_def Let_def)
  moreover have "p3_table_ok (answered i ?l)"
    using answered_ok(1) [OF cok off i(1) wt(1)] p3_table_okD(2-4) [OF ok]
    by (simp add: p3_table_ok_def answered_def Let_def split: option.split)
  ultimately show ?thesis
    using lib sig p3_routed [OF run c ip, of isTimeOut obj]
    by (intro exI [of _ "answered i ?l"]) (simp add: p3_deliver_def)
qed

section \<open>Examples\<close>

definition p3_demo_world :: p3_world where
  "p3_demo_world = \<lparr>sm_recviveBytes = [], sendRawData_signals = [], receiveData_signals = []\<rparr>"

lemma p3_demo_classes: "p3_classes [cam_callbacks, box_callbacks, gen_callbacks, go_callbacks]"
  by (simp add: p3_classes_def)

lemma move_speed_reply: "(''SetMoveSpeed'', MoveSpeed_CB) \<in> set p3_own_callbacks"
  "(''SetMoveSpeed'', f) \<in> set p3_own_callbacks \<Longrightarrow> f = MoveSpeed_CB" "p3_reached cs ''SetMoveSpeed'' f = f"
  by (auto simp: p3_own_callbacks_def p3_reply_callbacks_def p3_crossed_callbacks_def p3_reached_def)

lemma p3_demo_command_simps:
  "cmdSet (p3_demo_command q) = 5" "des (p3_demo_command q) = 4" "cmdId (p3_demo_command q) = 10"
  "seqNum (p3_demo_command q) = q" "p3_list 5 4 = 2" "length (payloadAndCRC (p3_demo_command q)) = 514"
  by (simp_all add: p3_demo_command_def p3_head_def p3_list_def)

theorem p3_answers_reach_callbacks_witness:
  "\<exists>s. p3_register (concat [cam_callbacks, box_callbacks, gen_callbacks, go_callbacks]) (p3_started p3_demo_world) = Some s \<and>
     find_callback (pCBLists s ! 2) 10 = Some (p3_callback MoveSpeed_CB)"
proof -
  from p3_answers_reach_callbacks [OF p3_demo_classes, of p3_demo_world] show ?thesis
  proof (elim exE conjE, goal_cases)
    case (1 s)
    have "find_callback (pCBLists s ! p3_list (cmdSet (p3_demo_command 0)) (des (p3_demo_command 0)))
        (ucast (cmdId (p3_demo_command 0))) = Some (p3_callback MoveSpeed_CB)"
      using 1(3) p3_demo_route p3_demo_handled [of 0] move_speed_reply by metis
    then show ?case using 1(1) by (simp add: p3_demo_command_simps)
  qed
qed

lemma p3_started_table: "p3_table_ok (p3_started w)"
proof -
  have "cmd_ok (\<lambda>_ _. []) (p3_started w) = cmd_ok (\<lambda>_ _. []) (DobotV3_start w)"
    by (rule cmd_ok_cong) (simp_all add: p3_started_def DobotV3_SetSendParm_def SetDefultSendParm_def)
  then show ?thesis
    using start_ok [of "\<lambda>_ _. []" w]
    by (simp add: p3_table_ok_def system_ok_def) (simp add: p3_started_def DobotV3_SetSendParm_def SetDefultSendParm_def)
qed

lemma p3_table_callbacks: "p3_table_ok s \<Longrightarrow> length cbs = 6 \<Longrightarrow> p3_table_ok (s\<lparr>pCBLists := cbs\<rparr>)"
  by (auto simp: p3_table_ok_def cmd_ok_def callbacks_ok_def slot_ok_def GETPKGADDR_def DobotV3_matchList_def)

definition p3_demo_json :: p3_json where
  "p3_demo_json = \<lparr>o_WSport = Some 9090, o_id = 7, o_targetType = ''MagicianGO'', o_cmd = ''SetMoveSpeed'', o_params = p3_demo_params\<rparr>"

definition p3_demo_objects :: "json_object p3_clients" where
  "p3_demo_objects = \<lparr>sm_seqNum = 0, p3_devices = replicate 1 DProtocol3_new\<rparr>"

definition p3_demo_system :: "p3_world cmd_state \<Rightarrow> p3_system" where
  "p3_demo_system lib = \<lparr>p3_objects = p3_demo_objects, p3_lib = lib, p3_linkPath = Some 0, p3_calibrations = [], p3_refused = []\<rparr>"

abbreviation p3_demo_ip :: IdPortPacket where
  "p3_demo_ip \<equiv> \<lparr>idp_id = 7, idp_wsPort = 9090, idp_isAck = True\<rparr>"

lemma p3_demo_system_simps [simp]:
  "p3_objects (p3_demo_system lib) = p3_demo_objects" "p3_lib (p3_demo_system lib) = lib"
  "p3_linkPath (p3_demo_system lib) = Some 0" "o_cmd p3_demo_json = ''SetMoveSpeed''" "o_params p3_demo_json = p3_demo_params"
  "o_id p3_demo_json = 7" "pkt_wsPort (snd (setPacketFromObj p3_demo_json)) = 9090" "sm_seqNum p3_demo_objects = 0"
  by (simp_all add: p3_demo_system_def p3_demo_json_def setPacketFromObj_def p3_demo_objects_def)

lemma p3_started_free: "find_index (\<lambda>sl. \<not> userMark sl) (pPacketParmList (p3_started w)) = Some 0"
  by (simp add: find_index_Some p3_started_def DobotV3_SetSendParm_def SetDefultSendParm_def empty_slot_def)

theorem p3_request_filed_witness:
  "\<exists>lib. p3_sendRequest handle5 (sendParm used_slots) 0 p3_demo_json (p3_demo_system (p3_started p3_demo_world)) =
     Some (True, (p3_demo_system lib)\<lparr>p3_objects := snd (p3_handle 0 p3_demo_ip p3_demo_objects)\<rparr>) \<and>
     p3_waits 0 (Some 0) (p3_demo_command 0) 12 True lib \<and> p3_table_ok lib"
proof -
  let ?s = "p3_demo_system (p3_started p3_demo_world)"
  have "p3_table_ok (p3_lib ?s)" "find_index (\<lambda>sl. \<not> userMark sl) (pPacketParmList (p3_lib ?s)) = Some 0"
    "p3_route (o_cmd p3_demo_json) = Some (Inr handleSetMoveSpeed)"
    "handleSetMoveSpeed (o_params p3_demo_json) (sm_seqNum (p3_objects ?s)) = Some (True, P3_send (p3_demo_command 0) 12 True)"
    by (simp_all add: p3_started_table p3_started_free p3_demo_route p3_demo_handled)
  from p3_request_filed [OF this, of handle5 "sendParm used_slots" 0] show ?thesis
    by (auto simp: Let_def p3_demo_system_def)
qed

text \<open>The device answers the request of the example with the same header, from its own address.\<close>

definition p3_demo_answer :: "packet_parm \<Rightarrow> packet_parm" where
  "p3_demo_answer pp = pp\<lparr>pLink := Some 0, pPacket := packet_image (p3_demo_command 0\<lparr>src := 4\<rparr>), packetLength := 29\<rparr>"

lemma p3_demo_answer_to:
  "p3_answer_to (p3_demo_command 0) (packet_image (p3_demo_command 0\<lparr>src := 4\<rparr>))"
  by (simp add: p3_answer_to_def packet_image_nth bit_packet_flags p3_demo_command_simps)

lemma p3_demo_result:
  assumes "pPacketParm s = p3_demo_answer pp"
  shows "MoveSpeed_CB (answer_parm s) = Some (False, result_true)"
proof -
  let ?b = "packet_image (p3_demo_command 0\<lparr>src := 4\<rparr>)"
  have l: "length ?b = 529" by (simp add: packet_image_nth(8) p3_demo_command_simps)
  have a: "answer_parm s = cb_parm_of (take 29 ?b) DobotV3CmdInter_SUCCESS"
    by (simp add: answer_parm_def assms p3_demo_answer_def)
  have "cbPacket (answer_parm s) ! 5 = ?b ! 5" "15 \<le> length (cbPacket (answer_parm s))"
    by (simp_all add: a cb_parm_of_def nth_append l)
  moreover have "bit (?b ! 5) 2" by (simp add: packet_image_nth bit_packet_flags p3_demo_command_def p3_head_def)
  ultimately have "pk_rwType (cbPacket (answer_parm s)) = Some True" by (simp add: pk_Some)
  then show ?thesis by (simp add: MoveSpeed_CB_def cb_read_def cb_result_def a cb_parm_of_def)
qed

theorem p3_answer_reaches_client_witness:
  "\<exists>s lib s'. DobotV3CmdInter_PacketCallBack (p3_lib s) = Some lib \<and> p3_deliver (s\<lparr>p3_lib := lib\<rparr>) = Some s' \<and>
     map recviceData (p3_devices (p3_objects s')) = [[(7, 9090, P3_result [(''result'', JStr ''true'')])]]"
proof -
  obtain s0 where s0: "p3_register (concat [cam_callbacks, box_callbacks, gen_callbacks, go_callbacks]) (p3_started p3_demo_world) = Some s0"
      "s0 = (p3_started p3_demo_world)\<lparr>pCBLists := pCBLists s0\<rparr>" "length (pCBLists s0) = 6"
    using p3_registered [OF p3_demo_classes, of p3_demo_world] by blast
  have ok0: "p3_table_ok s0" by (subst s0(2)) (rule p3_table_callbacks [OF p3_started_table s0(3)])
  have f0: "find_index (\<lambda>sl. \<not> userMark sl) (pPacketParmList s0) = Some 0" by (subst s0(2)) (simp add: p3_started_free)
  have w0: "world s0 = p3_demo_world" by (subst s0(2)) (simp add: p3_started_link)
  let ?s1 = "p3_demo_system s0" and ?objs = "snd (p3_handle 0 p3_demo_ip p3_demo_objects)"
  have pre: "p3_table_ok (p3_lib ?s1)" "find_index (\<lambda>sl. \<not> userMark sl) (pPacketParmList (p3_lib ?s1)) = Some 0"
    "p3_route (o_cmd p3_demo_json) = Some (Inr handleSetMoveSpeed)"
    "handleSetMoveSpeed (o_params p3_demo_json) (sm_seqNum (p3_objects ?s1)) = Some (True, P3_send (p3_demo_command 0) 12 True)"
    by (simp_all add: ok0 f0 p3_demo_route p3_demo_handled)
  obtain lib where lib: "lib = s0\<lparr>pPacketList := pPacketList lib, pPacketParmList := (pPacketParmList s0)[0 := pPacketParmList lib ! 0]\<rparr>"
      "p3_waits 0 (Some 0) (p3_demo_command 0) 12 True lib" "p3_table_ok lib"
    using p3_filed [OF pre, of handle5 "sendParm used_slots" 0] by (auto simp: Let_def)
  have same: "pCBLists lib = pCBLists s0" "world lib = p3_demo_world" by (subst lib(1), simp add: w0)+
  define lib2 where "lib2 = lib\<lparr>pPacketParm := p3_demo_answer (pPacketParm lib)\<rparr>"
  define s2 where "s2 = (p3_demo_system lib2)\<lparr>p3_objects := ?objs\<rparr>"
  have s2: "p3_lib s2 = lib2" "p3_objects s2 = ?objs" by (simp_all add: s2_def)
  have run: "p3_run ?objs [(0, 0, p3_demo_ip)]"
    using P3_request [OF P3_start [of 1], of 0 p3_demo_ip 0 ?objs] by (simp add: p3_demo_objects_def p3_handle_def)
  have ok2: "p3_table_ok (p3_lib s2)" using lib(3) by (simp add: s2 lib2_def p3_table_ok_def cmd_ok_frame)
  have wait2: "p3_waits 0 (Some 0) (p3_demo_command 0) 12 True (p3_lib s2)"
    using lib(2) by (simp add: s2 lib2_def p3_waits_def slot_bytes_def GETPKGADDR_def)
  have pp: "pPacketParm (p3_lib s2) = p3_demo_answer (pPacketParm lib)" by (simp add: s2 lib2_def)
  have "\<exists>lib3 s3. DobotV3CmdInter_PacketCallBack (p3_lib s2) = Some lib3 \<and> p3_table_ok lib3 \<and> \<not> userMark (pPacketParmList lib3 ! 0) \<and>
     p3_deliver (s2\<lparr>p3_lib := lib3\<rparr>) = Some s3 \<and> receiveData_signals (world (p3_lib s3)) = [] \<and>
     p3_objects s3 = (p3_objects s2)\<lparr>p3_devices := (p3_devices (p3_objects s2))[0 := (p3_devices (p3_objects s2) ! 0)
       \<lparr>m_idPortSeqMap := AList.delete 0 (m_idPortSeqMap (p3_devices (p3_objects s2) ! 0)),
        recviceData := recviceData (p3_devices (p3_objects s2) ! 0) @
          [(idp_id p3_demo_ip, idp_wsPort p3_demo_ip, if False then P3_timeout else P3_result result_true)]\<rparr>]\<rparr>"
  proof (rule p3_answer_reaches_client [OF ok2 p3_demo_classes s0(1) _ move_speed_reply(1) p3_demo_route p3_demo_handled wait2])
    show "pCBLists (p3_lib s2) = pCBLists s0" by (simp add: s2 lib2_def same)
    show "pLink (pPacketParm (p3_lib s2)) = Some 0" by (simp add: pp p3_demo_answer_def)
    show "packet_offered (p3_lib s2)"
      by (simp add: packet_offered_def pp p3_demo_answer_def packet_image_nth(8) p3_demo_command_simps)
    show "p3_answer_to (p3_demo_command 0) (pPacket (pPacketParm (p3_lib s2)))"
      by (simp add: pp p3_demo_answer_def p3_demo_answer_to)
    show "p3_reached [cam_callbacks, box_callbacks, gen_callbacks, go_callbacks] ''SetMoveSpeed'' MoveSpeed_CB (answer_parm (p3_lib s2)) =
        Some (False, result_true)" unfolding move_speed_reply(3) by (rule p3_demo_result [OF pp])
    show "p3_run (p3_objects s2) [(0, 0, p3_demo_ip)]" using run by (simp add: s2)
  qed (simp_all add: s2 lib2_def same p3_demo_world_def p3_demo_objects_def p3_handle_def DProtocol3_new_def)
  then show ?thesis
  proof (elim exE conjE, goal_cases)
    case (1 lib3 s3)
    then show ?case
      by (intro exI [of _ s2] exI [of _ lib3] exI [of _ s3]) (simp add: s2 p3_demo_objects_def p3_handle_def DProtocol3_new_def)
  qed
qed

end
