(* ===== verification/P3Results.thy ===== *)
theory P3Results imports P3Routing begin

text \<open>
  What the callbacks of the third protocol report and when they, and the requests, are defined.
\<close>

section \<open>Timeouts\<close>

lemma cb_timeout:
  assumes "cbError c = DobotV3CmdInter_TIMEOUT"
  shows "cb_result c x = Some (True, [])" "cb_answer c fs = Some (True, [])" "cb_done c = Some (True, [])"
    "cb_read c fs = Some (True, [])"
  using assms by (simp_all add: cb_result_def cb_answer_def cb_done_def cb_read_def)

lemma list_timeouts:
  assumes "cbError c = DobotV3CmdInter_TIMEOUT"
  shows "\<forall>(l, i, f) \<in> set gen_callbacks. f c = Some (True, [])"
    "\<forall>(l, i, f) \<in> set go_callbacks. f c = (if (l, i) = (go_cbs, 8) then Some (False, result_true) else Some (True, []))"
    "\<forall>(l, i, f) \<in> set box_callbacks. f c = Some (True, [])"
    "\<forall>(l, i, f) \<in> set cam_callbacks. f c = Some (True, [])"
  by (simp_all add: gen_callbacks_def go_callbacks_def box_callbacks_def cam_callbacks_def
      gen_cb_defs go_cb_defs box_cb_defs cam_cb_defs cb_timeout [OF assms])

text \<open>
  C26. A command that is not answered in time is reported as a timeout by every callback that is
  registered, whatever the packet it gets, with one exception: the callback of
  \<open>SetMoveSpeedTime\<close> reports success.
\<close>
theorem p3_timeouts_reported:
  assumes "(l, i, f) \<in> set (gen_callbacks @ go_callbacks @ box_callbacks @ cam_callbacks)"
    and "cbError c = DobotV3CmdInter_TIMEOUT"
  shows "f c = (if (l, i) = (go_cbs, 8) then Some (False, result_true) else Some (True, []))"
proof -
  have "l \<noteq> go_cbs" if "(l, i, f) \<in> set (gen_callbacks @ box_callbacks @ cam_callbacks)"
    using that callback_lists by fastforce
  then show ?thesis using assms(1) list_timeouts [OF assms(2)] by fastforce
qed

section \<open>Objects of an answer\<close>

lemma object_None:
  assumes "5 \<le> sz" and "\<forall>(k, f) \<in> set extra. \<forall>d. length d = sz \<longrightarrow> f d \<noteq> None"
  shows "object_at sz extra i p = None \<longleftrightarrow> length p < i + sz"
proof (cases "rd_range p i sz")
  case (Some d)
  then have "length d = sz" "i + sz \<le> length p" by (auto simp: rd_range_def split: if_splits)
  then show ?thesis using assms Some by (auto simp: object_at_def field_None)
next
  case None
  then show ?thesis by (simp add: object_at_def flip: rd_None(2))
qed

text \<open>As many objects as the first byte says, and room for them in the payload.\<close>

lemma objects_None:
  assumes "5 \<le> sz" and "\<forall>(k, f) \<in> set extra. \<forall>d. length d = sz \<longrightarrow> f d \<noteq> None" and "2 \<le> length p"
  shows "objects_at sz extra p = None \<longleftrightarrow> length p < 2 + sz * unat (p ! 0)"
proof -
  have "(\<exists>i < n. length p < 2 + sz * i + sz) \<longleftrightarrow> length p < 2 + sz * n" for n
  proof (cases n)
    case (Suc m)
    have "length p < 2 + sz * n" if "i < n" "length p < 2 + sz * i + sz" for i
    proof -
      have "sz * i \<le> sz * m" using that(1) by (simp add: Suc)
      then have "2 + sz * i + sz \<le> 2 + sz * n" by (simp add: Suc)
      then show ?thesis using that(2) by linarith
    qed
    then show ?thesis by (auto simp: Suc intro!: exI [of _ m])
  qed (use assms(3) in simp)
  moreover have "0 < length p" using assms(3) by linarith
  then have "objects_at sz extra p = None \<longleftrightarrow> (\<exists>i < unat (p ! 0). length p < 2 + sz * i + sz)"
    by (simp add: objects_at_def rd8_Some field_None object_None [OF assms(1,2)] Bex_def)
  ultimately show ?thesis by simp
qed

section \<open>Defined answers\<close>

text \<open>
  The answers that are no text with its end, or with more objects than fit the payload, or whose byte
  for a \<open>bool\<close> is neither 0 nor 1.
\<close>

definition p3_overrun :: "string \<Rightarrow> cb_parm \<Rightarrow> bool" where
  "p3_overrun api c = (let d = cb_payload c in
     if api \<in> {''SetDeviceSN'', ''GetDeviceSN'', ''SetDeviceName'', ''GetDeviceName''}
     then pk_rwType (cbPacket c) = Some False \<and> 0 \<notin> set (take 64 d)
     else if api = ''GetProductName'' then 0 \<notin> set (take 64 d)
     else if api \<in> {''GetArmCameraColor'', ''GetArmCameraObj'', ''GetCarCameraColor'', ''GetCarCameraObj''}
     then 102 < unat (d ! 0)
     else if api \<in> {''GetArmCameraTag'', ''GetCarCameraTag''} then 56 < unat (d ! 0)
     else if api = ''GetStopPointState'' then 1 < unat (d ! 1)
     else False)"

lemma cb_None:
  assumes "cbError c \<noteq> DobotV3CmdInter_TIMEOUT" and "length (cbPacket c) = 529"
  shows "cb_result c x = None \<longleftrightarrow> x = None" "cb_answer c fs = None \<longleftrightarrow> read_fields fs (cb_payload c) = None"
    "cb_done c \<noteq> None"
    "cb_read c fs = None \<longleftrightarrow> pk_rwType (cbPacket c) = Some False \<and> read_fields fs (cb_payload c) = None"
    "length (cb_payload c) = 514"
  using assms by (auto simp: cb_result_def cb_answer_def cb_done_def cb_read_def cb_payload_def pk_Some)

text \<open>
  C19. When the callbacks are defined: on every packet of full size that does not report a timeout, the
  callback of a command, whichever it is, reads only the payload and its own variables, except in
  exactly these cases: a name without a 0 in its 64 bytes, more than 102 objects or colours of a camera,
  more than 56 tags, and a state of a stop point, which is read as a \<open>bool\<close>, above 1. The cameras'
  callbacks do not check the number that the device sends.
\<close>
theorem p3_answers_defined:
  assumes "(api, f) \<in> set p3_own_callbacks" and "cbError c \<noteq> DobotV3CmdInter_TIMEOUT"
    and "length (cbPacket c) = packet_struct_size"
  shows "f c = None \<longleftrightarrow> p3_overrun api c"
proof -
  have len: "length (cbPacket c) = 529" using assms(3) by simp
  note n = cb_None [OF assms(2) len]
  have tag: "\<forall>(k, f) \<in> set [(''rot'', degrees_at 5)]. \<forall>d. length d = 9 \<longrightarrow> f d \<noteq> None" by (simp add: field_None del: not_None_eq)
  have bound: "512 < 5 * k \<longleftrightarrow> 102 < k" "512 < 9 * k \<longleftrightarrow> 56 < k" for k :: nat by auto
  have num: "\<forall>x \<in> {0..<unat (b :: u8)}. \<not> 513 \<le> x" for b
    using unat_u8_less [of b] unfolding Ball_def atLeastLessThan_iff not_le by linarith
  have flag: "bool_at (Suc 0) (cb_payload c) = None \<longleftrightarrow> Suc 0 < unat (cb_payload c ! Suc 0)"
  proof -
    have "x = 0 \<or> x = 1 \<longleftrightarrow> \<not> Suc 0 < unat x" for x :: u8
      unfolding word_unat_eq_iff unsigned_0 unsigned_1 by linarith
    then show ?thesis using n(5) by (simp add: bool_at_def rd8_Some)
  qed
  have "\<forall>(api, f) \<in> set p3_own_callbacks. f c = None \<longleftrightarrow> p3_overrun api c"
    unfolding p3_own_callbacks_def p3_reply_callbacks_def p3_crossed_callbacks_def
    by (simp add: p3_overrun_def gen_cb_defs go_cb_defs box_cb_defs cam_cb_defs n field_None chars_None
        objects_None [of 5 "[]"] objects_None [OF _ tag] rd8_Some del: not_None_eq)
      (simp only: bound flag simp_thms, rule num)
  from bspec [OF this assms(1)] show ?thesis by simp
qed

section \<open>Defined requests\<close>

lemma p3_emit_None:
  assumes "\<forall>(i, d) \<in> set cs. i + length d \<le> length (payloadAndCRC p)"
  shows "p3_emit p n a cs \<noteq> None"
proof -
  have "foldM (\<lambda>(i, d) m. wr_range m i d) cs m \<noteq> None" if "\<forall>(i, d) \<in> set cs. i + length d \<le> length m" for m
    using that by (induction cs arbitrary: m) (auto simp: wr_range_Some)
  then show ?thesis using assms by (simp add: p3_emit_def bind_eq_None_conv del: not_None_eq)
qed

lemma p3_ask_None: "p3_ask w e = None \<longleftrightarrow> e = None"
  by (simp add: p3_ask_def)

text \<open>The requests with a number that is out of the range of the type it is cast to.\<close>

definition p3_out_of_range :: "string \<Rightarrow> p3_params \<Rightarrow> bool" where
  "p3_out_of_range api j \<longleftrightarrow>
     api \<in> {''SetArcRad'', ''SetArcCent''} \<and> p_i32 j ''mode'' = None \<or>
     api = ''SetLightRGB'' \<and> (p_u16 j ''number'' = None \<or> (\<exists>k \<in> {''effect'', ''r'', ''g'', ''b''}. p_u8 j k = None)) \<or>
     api = ''SetLightPrompt'' \<and> p_u8 j ''index'' = None \<or>
     api = ''SetBuzzerSound'' \<and> (p_u8 j ''index'' = None \<or> p_u8 j ''tone'' = None) \<or>
     api = ''SetOriginPoint'' \<and> p_u8 j ''enable'' = None"

text \<open>The requests that read behind the variable with the address of a text.\<close>

definition p3_wild :: "string \<Rightarrow> p3_params \<Rightarrow> bool" where
  "p3_wild api j \<longleftrightarrow> api = ''SetDeviceSN'' \<or> api = ''SetDeviceName'' \<or>
     api = ''SetMagicBoxScriptMode'' \<and> 8 < length (takeWhile (\<lambda>x. x \<noteq> 0) (p_utf8 j ''name''))"

lemma script_mode_None:
  "Box_SetMagicBoxScriptMode q e nam a = None \<longleftrightarrow> 8 < length (takeWhile (\<lambda>x. x \<noteq> 0) nam)"
  by (auto simp: Box_SetMagicBoxScriptMode_def Let_def bind_eq_None_conv rd_range_def p3_emit_None p3_head_def)

lemmas p3_none_rules = p3_ask_None bind_eq_None_conv p3_emit_None p3_out_of_range_def p3_wild_def script_mode_None

lemma handlers_None:
  "\<forall>(api, h) \<in> set general_handlers. h j q = None \<longleftrightarrow> p3_wild api j \<or> p3_out_of_range api j"
  "\<forall>(api, h) \<in> set go_handlers. h j q = None \<longleftrightarrow> p3_wild api j \<or> p3_out_of_range api j"
  "\<forall>(api, h) \<in> set camera_handlers. h j q = None \<longleftrightarrow> p3_wild api j \<or> p3_out_of_range api j"
  "\<forall>(api, h) \<in> set box_handlers. h j q = None \<longleftrightarrow> p3_wild api j \<or> p3_out_of_range api j"
     apply (simp_all only: general_handlers_def go_handlers_def camera_handlers_def box_handlers_def)
     apply (simp_all add: handle_defs gen_defs go_defs cam_defs Box_GetMagicBoxMode_def
        Box_GetMagicBoxNum_def Box_SetStopPointServer_def Box_SetStopPointParam_def Box_GetStopPointState_def
        p3_none_rules rd_range_def p3_head_def del: not_None_eq)
  done

lemma p3_route_all:
  assumes "p3_route api = Some (Inr h)"
    and "\<forall>(api, h) \<in> set general_handlers. P api h" "\<forall>(api, h) \<in> set go_handlers. P api h"
    "\<forall>(api, h) \<in> set camera_handlers. P api h" "\<forall>(api, h) \<in> set box_handlers. P api h"
  shows "P api h"
  using p3_route_handler [OF assms(1)] assms(2-5) unfolding set_append Un_iff by blast

text \<open>
  C20. When the requests are defined: of all requests that a client can make, exactly these are
  undefined: those that set the serial number or the name of a device, whatever they set, and the one
  that starts a script with a name of more than eight bytes, because they copy the text from the
  variable that holds its address, and those with a mode of an arc, a number or a colour of a light, an
  index, a tone or a flag of the origin that is out of the range of the type it is cast to.
\<close>
theorem p3_requests_defined:
  assumes "p3_route api = Some (Inr h)"
  shows "h j q = None \<longleftrightarrow> p3_wild api j \<or> p3_out_of_range api j"
  by (rule p3_route_all [OF assms handlers_None])

section \<open>Settings\<close>

text \<open>The requests that set what another request reads with the same callback, and what is read after them.\<close>

definition p3_byte :: "p3_params \<Rightarrow> string \<Rightarrow> int" where
  "p3_byte j k = uint (ucast (p_int j k) :: u8)"

definition p3_settings :: "(p3_handler \<times> (cb_parm \<Rightarrow> p3_answer) \<times> (p3_params \<Rightarrow> json_object)) list" where
  "p3_settings =
     [(handleSetRunningState, RunningState_CB, \<lambda>j. [(''runningState'', JInt (p3_byte j ''runningState''))]),
      (handleSetRunningMode, RunningMode_CB, \<lambda>j. [(''runningMode'', JInt (p3_byte j ''runningMode''))]),
      (handleSetBaseSpeedRatio, BaseSpeedRatio_CB, \<lambda>j. [(''speedRatio'', JInt (p3_byte j ''speedRatio''))]),
      (handleSetMoveSpeed, MoveSpeed_CB,
         \<lambda>j. [(''x'', JFloat (p_f32 j ''x'')), (''y'', JFloat (p_f32 j ''y'')), (''r'', JFloat (p_f32 j ''r''))]),
      (handleSetLineSensorState, LineSensorState_CB,
         \<lambda>j. [(''frontIsEnable'', JInt (p3_byte j ''frontIsEnable'')), (''backIsEnable'', JInt (p3_byte j ''backIsEnable''))]),
      (handleSetArmCameraCalibrationMode, ArmCameraCalibrationMode_CB, \<lambda>j. [(''isEnableCali'', JInt (p3_byte j ''isEnableCali''))]),
      (handleSetCarCameraCalibrationMode, CarCameraCalibrationMode_CB, \<lambda>j. [(''isEnableCali'', JInt (p3_byte j ''isEnableCali''))]),
      (handleSetArmCameraRunModel, ArmCameraRunModel_CB, \<lambda>j. [(''runModelIndex'', JInt (p3_byte j ''runModelIndex''))]),
      (handleSetCarCameraRunModel, CarCameraRunModel_CB, \<lambda>j. [(''runModelIndex'', JInt (p3_byte j ''runModelIndex''))])]"

lemma rd32_wr_three:
  assumes "wr_range m 0 (bytes32 x) = Some m1" "wr_range m1 4 (bytes32 y) = Some m2" "wr_range m2 8 (bytes32 z) = Some m3"
    and "12 \<le> length m"
  shows "rd32 m3 0 = Some x" "rd32 m3 4 = Some y" "rd32 m3 8 = Some z"
proof -
  have l: "length m1 = length m" "length m2 = length m"
    using assms(1,2) by (auto simp: wr_range_length)
  show "rd32 m3 0 = Some x" "rd32 m3 4 = Some y" "rd32 m3 8 = Some z"
    using rd32_wr_same [OF _ assms(1)] rd32_wr_same [OF _ assms(2)] rd32_wr_same [OF _ assms(3)] assms(4) l
      rd32_wr_far [OF assms(2), of 0] rd32_wr_far [OF assms(3), of 0] rd32_wr_far [OF assms(3), of 4] by simp_all
qed

lemma p3_ask_payload:
  assumes "p3_ask w (p3_emit (p3_head k u r dst cset cid q) n a cs) = Some (w', P3_send p n' a')"
  shows "foldM (\<lambda>(i, d) m. wr_range m i d) cs (replicate 514 0) = Some (payloadAndCRC p)"
  using assms by (auto simp: p3_ask_def p3_emit_Some p3_head_def)

lemma byte_fields:
  "foldM (\<lambda>(i, d) m. wr_range m i d) [(0, [x])] (replicate 514 0) = Some m \<Longrightarrow> rd8 m 0 = Some x"
  "foldM (\<lambda>(i, d) m. wr_range m i d) [(0, [x]), (Suc 0, [y])] (replicate 514 0) = Some m \<Longrightarrow>
     rd8 m 0 = Some x \<and> rd8 m (Suc 0) = Some y"
  "foldM (\<lambda>(i, d) m. wr_range m i d) [(0, bytes32 a), (4, bytes32 b), (8, bytes32 e)] (replicate 514 0) = Some m \<Longrightarrow>
     rd32 m 0 = Some a \<and> rd32 m 4 = Some b \<and> rd32 m 8 = Some e"
  using rd32_wr_three [of "replicate 514 0" a]
  by (auto simp: wr_range_def rd8_def nth_append split: option.splits if_splits)

text \<open>
  C25. What is set is what is read: after a request that changes a setting, an answer whose payload is that of
  the command makes the callback report the value of each parameter under the name it had in
  the request, integers reduced to the byte they are sent in.
\<close>
theorem p3_settings_read_back:
  assumes "(h, f, val) \<in> set p3_settings" and "h j q = Some (wantAck, P3_send p n ack)"
    and "cbError c \<noteq> DobotV3CmdInter_TIMEOUT" "pk_rwType (cbPacket c) = Some False" "cb_payload c = payloadAndCRC p"
  shows "f c = Some (False, val j)"
proof -
  note defs = p3_settings_def p3_byte_def cb_read_def cb_result_def read_fields_def u8_at_def f32_at_def go_cb_defs cam_cb_defs
    handle_defs go_defs cam_defs
  have "\<forall>(h, f, val) \<in> set p3_settings. h j q = Some (wantAck, P3_send p n ack) \<longrightarrow> f c = Some (False, val j)"
    using assms(3-5) by (auto simp: defs dest!: p3_ask_payload byte_fields)
  from bspec [OF this assms(1)] show ?thesis using assms(2) by simp
qed

section \<open>Examples\<close>

theorem p3_timeouts_reported_witness:
  "MoveSpeed_CB (cb_parm_of [] DobotV3CmdInter_TIMEOUT) = Some (True, [])"
  using p3_timeouts_reported [of go_cbs 10 MoveSpeed_CB "cb_parm_of [] DobotV3CmdInter_TIMEOUT"]
  by (simp add: go_callbacks_def cb_parm_of_def)

text \<open>A camera that claims 57 tags.\<close>

theorem p3_answers_defined_witness:
  "GetArmCameraTag_CB (cb_parm_of (replicate 15 0 @ [57]) DobotV3CmdInter_SUCCESS) = None"
proof -
  let ?c = "cb_parm_of (replicate 15 0 @ [57]) DobotV3CmdInter_SUCCESS"
  have m: "(''GetArmCameraTag'', GetArmCameraTag_CB) \<in> set p3_own_callbacks"
    by (simp add: p3_own_callbacks_def p3_reply_callbacks_def)
  have "p3_overrun ''GetArmCameraTag'' ?c" by (simp add: p3_overrun_def cb_payload_def cb_parm_of_def)
  then show ?thesis using p3_answers_defined [OF m, of ?c] by (simp add: cb_parm_of_def)
qed

theorem p3_requests_defined_witness: "handleSetDeviceSN p3_demo_params 0 = None"
proof -
  have r: "p3_route ''SetDeviceSN'' = Some (Inr handleSetDeviceSN)"
    by (simp add: p3_route_def str_endsWith_def handleGeneralCommand_def p3_select_def general_handlers_def)
  from p3_requests_defined [OF r, of p3_demo_params 0] show ?thesis by (simp add: p3_wild_def)
qed

text \<open>The speed that the example sets, read back.\<close>

theorem p3_settings_read_back_witness:
  "MoveSpeed_CB \<lparr>cbPacket = replicate 15 0 @ payloadAndCRC (p3_demo_command 0), cbLength = 29, cbError = DobotV3CmdInter_SUCCESS\<rparr> =
     Some (False, [(''x'', JFloat 0x3F800000), (''y'', JFloat 0), (''r'', JFloat 0)])"
proof -
  let ?c = "\<lparr>cbPacket = replicate 15 0 @ payloadAndCRC (p3_demo_command 0), cbLength = 29, cbError = DobotV3CmdInter_SUCCESS\<rparr>"
  let ?v = "\<lambda>j. [(''x'', JFloat (p_f32 j ''x'')), (''y'', JFloat (p_f32 j ''y'')), (''r'', JFloat (p_f32 j ''r''))]"
  have m: "(handleSetMoveSpeed, MoveSpeed_CB, ?v) \<in> set p3_settings" by (simp add: p3_settings_def)
  have "pk_rwType (cbPacket ?c) = Some False" by (simp add: pk_Some nth_append)
  from p3_settings_read_back [OF m p3_demo_handled [of 0] _ this] show ?thesis
    by (simp add: cb_payload_def p3_demo_params_def)
qed

end
