(* ===== verification/Spec2Isabelle.thy ===== *)
theory Spec2Isabelle imports DobotSystem MzProps VdAlarms P2Params P3Results begin

text \<open>
  The protocol code of DobotLink: what carries commands from the program to a robot arm and the
  answers back, and the software robot that takes the place of the arm.

  \<^bold>\<open>The program.\<close> DobotLink is a Qt program whose plugins talk to the Dobot devices. Two C libraries
  under it speak the DobotV3 protocol, an older one for the plugin \<open>ProtocolFramePlugin\<close> (device
  Mooz) and a newer one for \<open>MagicDevicePlugin\<close>. Each is made of the same layers:

  \<^item> \<open>ProtocolFrame.c/.h\<close>: a frame with its links. \<open>DecodeLinkPacket\<close> reads the bytes of a link,
    finds the packets in them and hands each to the functions of the link; \<open>FuncLoop\<close> lets the
    functions do their periodic work; \<open>Exec\<close> is one background run of both.
  \<^item> \<open>DobotV3Format.c/.h\<close>: the packet layout, checksums, encoder and the four decoding steps.
  \<^item> \<open>DobotV3CmdInter.c/.h\<close>: the command table, the one function of the links. A command has a slot
    in it; it is sent, repeated, answered or given up.
  \<^item> \<open>*CmdRules.c\<close>: which packet answers which command.
  \<^item> \<open>DobotV3Func.c/.h\<close>: the declarations and the calls the plugin makes.

  \<open>MagicDevicePlugin\<close> receives bytes in \<open>MessageHandler.cpp\<close>, which cuts packets of two protocols out of
  them. Those of the second protocol go to \<open>Protocol2/DProtocol2.cpp\<close>, which keeps the waiting
  requests and those under way itself; those of the third go through \<open>Protocol3/P3FrameAdapter.cpp\<close> to
  the newer library, whose answers \<open>Protocol3/DProtocol3.cpp\<close> gives back to the requests. The classes
  \<open>GeneralApi\<close>, \<open>MagicianGoApi\<close>, \<open>MagicBoxApi\<close> and \<open>CameraApi\<close> of \<open>Protocol3\<close> make the commands of the third
  protocol and register the callbacks that read the answers. The plugin also holds a software robot, \<open>magicianlite_virtual\<close>, that speaks the second protocol: a parser,
  commands that are executed at once or from a queue, alarms and motion control.

  \<^bold>\<open>Conventions.\<close> A C array is a byte list, and an access outside it is undefined behaviour, the value
  \<^term>\<open>None\<close>; so are the dereference of NULL and a loop that does not end. That a result is
  \<^term>\<open>Some\<close> therefore says that the code returns and touches no memory it does not own. Pointers
  to links, formats and function lists are indices. Function pointers are HOL functions; callbacks and
  the \<open>readData\<close>, \<open>SendData\<close> functions of a link, which the plugin supplies, act on the environment
  \<open>world\<close> of type \<open>'w\<close>. Numbers are words where they wrap, else \<open>nat\<close> with the conversions
  \<open>u8n\<close>, \<open>u16n\<close>, \<open>u32n\<close> of \<open>Prelude\<close> where the C type is narrower.

  \<^bold>\<open>Theories of the newer library\<close> (\<open>Plugins/MagicDevicePlugin/DobotV3.0\<close>):

  \<^item> \<open>Prelude\<close>: machine integers, memory, byte order, loops.
  \<^item> \<open>ProtoTypes\<close>, \<open>ProtoFrame\<close>: the records of \<open>ProtocolFrame.h\<close> and the link and registry functions of
    \<open>ProtocolFrame.c\<close>; \<open>ProtoRegistry\<close>: connecting and disconnecting keep the registry well formed
    and undo each other; enabling one link only.
  \<^item> \<open>FrameDecode\<close>: the decoder and the loops. \<open>DecodeSpec\<close>: the abstract \<open>scan\<close> of a byte stream and
    the locale of packet scanners. \<open>DecodeCorrect\<close>, \<open>DecodeLoops\<close>: the decoder implements \<open>scan\<close>, for
    every format and every function list that keep the contracts of the locales \<open>frame_format\<close>
    and \<open>frame_decoder\<close>. \<open>DobotDecode\<close>: the contracts hold for the Dobot format.
  \<^item> \<open>Crc\<close>, \<open>DobotFormat\<close>, \<open>DobotCodec\<close>: checksums, encoder and steps; a packet made by the encoder
    passes the steps, a packet with a damaged byte does not.
  \<^item> \<open>CmdRules\<close>, \<open>CmdInter\<close>: the rules and the command table. \<open>CmdSlots\<close>: handles and sending.
    \<open>CmdTable\<close>: the invariant of the table and its answers. \<open>CmdLoop\<close>: sending, repeating, giving up.
  \<^item> \<open>CmdFrame\<close>: the table as the function of a frame. \<open>DobotApi\<close>: \<open>DobotV3Func.c\<close>. \<open>DobotSystem\<close>: the
    calls in any order as a step relation with conditions on the caller, its invariant, and that the
    background run is defined in every state reachable under them.

  \<^bold>\<open>Theories of the older library\<close> (\<open>Plugins/ProtocolFramePlugin/DobotV3.0\<close>), with names in \<open>Mz\<close>:
  \<open>MzFrame\<close> and \<open>MzDecode\<close> (\<open>ProtocolFrame.c\<close>), \<open>MzFormat\<close> (\<open>DobotV3Format.c\<close>), \<open>MzCmd\<close>
  (\<open>DobotV3CmdInter.c\<close>), \<open>MzApi\<close> (\<open>DobotV3Func.c\<close>) hold the definitions; \<open>MzCorrect\<close>, \<open>MzLoops\<close> and
  \<open>MzStream\<close> show that its decoder, which takes byte by byte and goes back into its buffer after a
  failed check or a timeout, finds the same packets; \<open>MzTable\<close>, \<open>MzSystem\<close> and \<open>MzProps\<close> the
  invariant of its table and of the whole.

  \<^bold>\<open>Theories of the plugin\<close> (\<open>Plugins/MagicDevicePlugin\<close>):

  \<^item> \<open>P2Host\<close>: packets and requests of the second protocol (\<open>DP2Packet.cpp\<close>, \<open>DProtocol2.cpp\<close>): what becomes
    of every accepted request (only stopping the protocol drops some), resending and giving up.
  \<^item> \<open>JsonFields\<close>: the JSON values and the fields of an answer, for both protocols. \<open>P2Values\<close>: the values of
    a request of the second protocol, the bytes they become and the forms of an answer.
  \<^item> \<open>MgEncode\<close>, \<open>MgDecode\<close> (\<open>DMagicianProtocol.cpp\<close>) and \<open>M1Encode\<close>, \<open>M1Decode\<close> (\<open>DM1Protocol.cpp\<close>): the
    parameters of each command and of each answer, one definition for each function, and the tables
    that find them by name and by number. \<open>P2Messages\<close>: \<open>setPayload\<close>, \<open>parseParams\<close> and the message for the
    client; an answer carries the name of its command, except for the commands listed there. \<open>P2Params\<close>: when
    requests and answers are defined, and that a request fits a packet that is read back unchanged.
  \<^item> \<open>RxSplit\<close>: \<open>_HandleNewDataFromDevice\<close> finds the packets of an abstract \<open>scan\<close> of the stream, however it
    is cut into chunks, as long as the checksums are right; its buffer is bounded.
  \<^item> \<open>P3Adapter\<close>: the adapter as the environment of the newer library; short packets reach the
    functions of the link, a long one is written behind its buffer. \<open>P3Client\<close>: the requests of several
    devices that share one counter and hear each other's answers.
  \<^item> \<open>P3Api\<close>: the commands of the four \<open>*Api.cpp\<close> classes, one definition for each function. \<open>P3Answers\<close>: their
    callbacks and the registrations of their constructors. \<open>P3Requests\<close>: the \<open>handle...\<close> functions of
    \<open>DProtocol3.cpp\<close>, their routing by name, and the objects and the library as one state.
  \<^item> \<open>P3Commands\<close>: what all commands have in common. \<open>P3Callbacks\<close>: a callback list as a map, the callback that
    belongs to each command and the header that belongs to its name. \<open>P3Routing\<close>: which callback the
    answer to each command runs, the five commands that share an id included; a request gets a slot and its answer
    reaches the client. \<open>P3Results\<close>: timeouts, when requests and answers are defined, and reading back what was set.

  \<^bold>\<open>Theories of the software robot\<close> (\<open>magicianlite_virtual\<close>), with names in \<open>Vd\<close>:

  \<^item> \<open>VdPacket\<close> (\<open>dcps.cpp\<close>): packets and the byte-by-byte parser, which implements the same \<open>scan\<close>.
  \<^item> \<open>VdSlave\<close> (\<open>dcps.cpp\<close>, \<open>msg_queue.h\<close>, \<open>semaphore.cpp\<close>): the queue, dispatching requests and the timer
    that executes queued ones. \<open>VdAlarms\<close> (\<open>alarms.h\<close>): the alarm bits. \<open>VdCmds\<close> (\<open>cmd.cpp\<close>): the
    commands; those that compute with floating-point numbers are an argument of the table.
  \<^item> \<open>VdConduct\<close>: the locale \<open>vd_command_set\<close>, what the dispatcher relies on in a command, and its
    interpretation on the table. \<open>VdRun\<close>: receiving and executing under this contract. \<open>VdProps\<close>: the
    robot as a step relation, its invariant and its properties.
  \<^item> \<open>P2Link\<close>: \<open>DProtocol2\<close> and the robot together, a request and its answer from end to end.

  \<^bold>\<open>Loops.\<close> The \<open>while(1)\<close> loops of \<open>DecodeLinkPacket\<close> and of \<open>FuncLoop\<close> are partial functions into
  \<open>option\<close>, without fuel; that they end is part of every theorem whose conclusion is a
  \<^term>\<open>Some\<close> or that a function is total.

  The loop of \<open>MessageHandler\<close> ends because every round shortens its buffer.

  \<^bold>\<open>Not modelled.\<close> Opening serial ports and sockets, threads and timers (their calls are the steps of the
  models, in any order), the web socket server and the text of its JSON messages (the third protocol
  gets what the code asks of an object, a record of functions; the second gets the
  converted values of each parameter), the program that \<open>CameraCalibration\<close> starts. The floating-point motion control and kinematics of the software
  robot: they change its state between two steps in any way their contract allows. The robot programs
  of the other plugins, and the vendored libraries (libsmb2, curl).
\<close>

end
